(* ===== verification/GoPrelude.thy ===== *)
theory GoPrelude
  imports Complex_Main "HOL-Library.AList" "HOL-Library.Sublist" "HOL-Library.Char_ord"
    "HOL-Library.List_Lexorder" "HOL-Library.Multiset" "HOL-Library.Signed_Division"
begin

text \<open>
  What every component of the development shares: Go's maps as association lists, byte
  strings and the few functions of package \<open>strings\<close> and \<open>strconv\<close> the code calls,
  integer division as Go rounds it, the stable sort of package \<open>sort\<close>, and two
  interfaces as locales: a comparator that is a strict weak order (\<open>strict_weak_order\<close>)
  and a machine whose steps keep an invariant (\<open>invariant_machine\<close>).
\<close>

named_theorems go_map \<open>rewrite rules for maps as association lists\<close>
named_theorems go_str \<open>rewrite rules for byte strings\<close>

section \<open>Go maps\<close>

text \<open>
  A Go map is an association list with distinct keys. The order of the list stands for
  the (unspecified) iteration order, so a \<open>range\<close> over a map is a traversal of the list
  and \<open>len\<close> is its length. Entries are read with \<open>map_of\<close>.
\<close>

type_synonym ('k, 'v) gomap = "('k \<times> 'v) list"

abbreviation mput :: "'k \<Rightarrow> 'v \<Rightarrow> ('k, 'v) gomap \<Rightarrow> ('k, 'v) gomap" where
  "mput k v m \<equiv> AList.update k v m"

abbreviation mdel :: "'k \<Rightarrow> ('k, 'v) gomap \<Rightarrow> ('k, 'v) gomap" where
  "mdel k m \<equiv> AList.delete k m"

definition keys :: "('k, 'v) gomap \<Rightarrow> 'k set" where
  "keys m = fst ` set m"

lemma keys_simps [simp, go_map]: "keys [] = {}" "keys (p # m) = insert (fst p) (keys m)"
  by (simp_all add: keys_def)

lemma finite_keys [simp]: "finite (keys m)"
  by (simp add: keys_def)

definition wf_map :: "('k, 'v) gomap \<Rightarrow> bool" where
  "wf_map m \<longleftrightarrow> distinct (map fst m)"

lemma wf_map_Nil [simp, go_map]: "wf_map []"
  by (simp add: wf_map_def)

lemma wf_map_mput [simp, go_map]: "wf_map m \<Longrightarrow> wf_map (mput k v m)"
  by (simp add: wf_map_def distinct_update)

lemma wf_map_mdel [simp, go_map]: "wf_map m \<Longrightarrow> wf_map (mdel k m)"
  by (simp add: wf_map_def distinct_delete)

lemma lookup_mput [simp, go_map]:
  "map_of (mput k v m) x = (if x = k then Some v else map_of m x)"
  by (simp add: update_conv)

lemma lookup_mdel [simp, go_map]:
  "map_of (mdel k m) x = (if x = k then None else map_of m x)"
  by (simp add: delete_conv)

lemma keys_mput [simp, go_map]: "keys (mput k v m) = insert k (keys m)"
  by (simp add: keys_def dom_update)

lemma keys_mdel [simp, go_map]: "keys (mdel k m) = keys m - {k}"
  by (simp add: keys_def AList.delete_eq) force

lemma lookup_in_keys: "map_of m k = Some v \<Longrightarrow> k \<in> keys m"
  by (metis keys_def map_of_eq_None_iff option.distinct(1))

lemma lookup_None_keys [go_map]: "map_of m k = None \<longleftrightarrow> k \<notin> keys m"
  by (metis keys_def map_of_eq_None_iff)

lemma keys_lookup: "k \<in> keys m \<longleftrightarrow> (\<exists>v. map_of m k = Some v)"
  by (metis lookup_None_keys not_None_eq)

lemma length_mput [go_map]:
  "length (mput k v m) = (if k \<in> keys m then length m else Suc (length m))"
  by (induction m) auto

lemma length_mput_le: "length (mput k v m) \<le> Suc (length m)"
  by (simp add: length_mput)

lemma length_mdel_le: "length (mdel k m) \<le> length m"
  by (rule length_delete_le)

lemma mdel_idem: "k \<notin> keys m \<Longrightarrow> mdel k m = m"
  by (rule delete_id) (simp add: keys_def)

lemma mdel_Cons [go_map]: "mdel k ((a, b) # m) = (if k = a then mdel k m else (a, b) # mdel k m)"
  by (simp add: AList.delete_eq)

lemma length_mdel: "wf_map m \<Longrightarrow> k \<in> keys m \<Longrightarrow> Suc (length (mdel k m)) = length m"
proof (induction m)
  case Nil
  then show ?case by simp
next
  case (Cons p m)
  obtain a b where p: "p = (a, b)" by (cases p)
  show ?case
  proof (cases "k = a")
    case True
    with Cons.prems p have "k \<notin> keys m" by (simp add: wf_map_def keys_def)
    then show ?thesis using True p by (simp add: mdel_Cons mdel_idem)
  next
    case False
    with Cons p show ?thesis by (auto simp: wf_map_def mdel_Cons)
  qed
qed

lemma set_mput: "x \<in> set (mput k v m) \<Longrightarrow> x = (k, v) \<or> x \<in> set m"
  by (induction m) (auto split: if_splits)

lemma set_mdel: "set (mdel k m) \<subseteq> set m"
  by (auto simp: AList.delete_eq)

lemma lookup_set: "wf_map m \<Longrightarrow> map_of m k = Some v \<longleftrightarrow> (k, v) \<in> set m"
  by (simp add: wf_map_def)

text \<open>The number of entries whose value satisfies a predicate.\<close>

definition count_vals :: "('v \<Rightarrow> bool) \<Rightarrow> ('k, 'v) gomap \<Rightarrow> nat" where
  "count_vals P m = length (filter (\<lambda>(k, v). P v) m)"

lemma count_vals_mput_le:
  "count_vals P (mput k v m) \<le> count_vals P m + (if P v then 1 else 0)"
  by (induction m) (auto simp: count_vals_def)

lemma count_vals_mdel_le: "count_vals P (mdel k m) \<le> count_vals P m"
  by (induction m) (auto simp: count_vals_def mdel_Cons)

section \<open>Integers and time\<close>

text \<open>
  Instants (\<open>time.Time\<close>) and durations are integers of nanoseconds. Go's integer division
  truncates towards zero, which is \<open>sdiv\<close>; \<open>UnixMilli\<close> rounds down.
\<close>

type_synonym time = int
type_synonym duration = int

definition Milliseconds :: "duration \<Rightarrow> int" where
  "Milliseconds d = d sdiv 1000000"

definition UnixMilli :: "time \<Rightarrow> int" where
  "UnixMilli t = t div 1000000"

definition millis :: "int \<Rightarrow> duration" where
  "millis n = n * 1000000"

text \<open>int64 arithmetic: the value modulo 2^64, in [-2^63, 2^63).\<close>

definition int64 :: "int \<Rightarrow> int" where
  "int64 x = (x + 2 ^ 63) mod 2 ^ 64 - 2 ^ 63"

text \<open>\<open>int(v)\<close> of a float64: towards zero; out of range it is what the amd64 instruction yields.\<close>

definition int_of_float :: "rat \<Rightarrow> int" where
  "int_of_float r = (let i = (if r \<ge> 0 then floor r else ceiling r) in
     if - (2 ^ 63) \<le> i \<and> i < 2 ^ 63 then i else - (2 ^ 63))"

section \<open>Dynamic values\<close>

text \<open>
  A value of type \<open>any\<close> as a JSON or YAML decoder produces it. A floating-point number is the rational it denotes.
  \<open>AOther\<close> stands for the decoder's remaining types with their \<open>%v\<close> rendering.
\<close>

datatype any =
    ANil
  | ABool bool
  | AInt int
  | AFloat rat
  | AString string
  | AList "any list"
  | AMap "(string \<times> any) list"
  | AOther string

section \<open>Byte strings\<close>

text \<open>
  A Go string is a sequence of bytes, that is a \<open>string\<close> of HOL, and \<open><\<close> on strings is
  the bytewise lexicographic order, the order \<open>List_Lexorder\<close> and \<open>Char_ord\<close> give.
\<close>

definition ascii :: "char \<Rightarrow> bool" where
  "ascii c \<longleftrightarrow> of_char c < (128 :: nat)"

definition lower_char :: "char \<Rightarrow> char" where
  "lower_char c = (if CHR ''A'' \<le> c \<and> c \<le> CHR ''Z'' then char_of (of_char c + 32 :: nat) else c)"

text \<open>
  \<open>strings.ToLower\<close> maps the letters A to Z of an ASCII string; on a string with a byte
  outside ASCII it consults Unicode's case tables, which are the parameter \<open>ul\<close>.
\<close>

definition ToLower :: "(string \<Rightarrow> string) \<Rightarrow> string \<Rightarrow> string" where
  "ToLower ul s = (if list_all ascii s then map lower_char s else ul s)"

lemma of_char_code: "(CHR ''A'' \<le> c \<and> c \<le> CHR ''Z'') \<longleftrightarrow> 65 \<le> (of_char c :: nat) \<and> (of_char c :: nat) \<le> 90"
  by (simp add: less_eq_char_def)

lemma lower_char_ascii: "ascii c \<Longrightarrow> ascii (lower_char c)"
  unfolding ascii_def lower_char_def of_char_code by (auto simp: of_char_of take_bit_eq_mod)

lemma lower_char_idem [simp]: "lower_char (lower_char c) = lower_char c"
  unfolding lower_char_def of_char_code by (auto simp: of_char_of take_bit_eq_mod)

lemma ToLower_idem_ascii [go_str]:
  "list_all ascii s \<Longrightarrow> ToLower ul (ToLower ul s) = ToLower ul s"
  by (simp add: ToLower_def list_all_iff lower_char_ascii)

section \<open>Stable sorting\<close>

text \<open>
  \<open>sort.SliceStable\<close> with a comparison function. The library merges blocks sorted by
  insertion; on a strict weak order every stable sort returns the same list, so the model
  is insertion sort: an element goes before the first element that is not less than it
  and stays behind none of its equals.
\<close>

fun insert_by :: "('a \<Rightarrow> 'a \<Rightarrow> bool) \<Rightarrow> 'a \<Rightarrow> 'a list \<Rightarrow> 'a list" where
  "insert_by lt x [] = [x]"
| "insert_by lt x (y # ys) = (if lt y x then y # insert_by lt x ys else x # y # ys)"

fun SliceStable :: "('a \<Rightarrow> 'a \<Rightarrow> bool) \<Rightarrow> 'a list \<Rightarrow> 'a list" where
  "SliceStable lt [] = []"
| "SliceStable lt (x # xs) = insert_by lt x (SliceStable lt xs)"

lemma mset_insert_by: "mset (insert_by lt x ys) = add_mset x (mset ys)"
  by (induction ys) auto

lemma mset_SliceStable [simp]: "mset (SliceStable lt xs) = mset xs"
  by (induction xs) (auto simp: mset_insert_by)

lemma set_SliceStable [simp]: "set (SliceStable lt xs) = set xs"
  by (metis mset_SliceStable set_mset_mset)

lemma set_insert_by: "set (insert_by lt x ys) = insert x (set ys)"
  by (metis mset_insert_by set_mset_add_mset_insert set_mset_mset)

locale strict_weak_order =
  fixes lt :: "'a \<Rightarrow> 'a \<Rightarrow> bool"
  assumes irrefl: "\<not> lt a a"
    and trans: "lt a b \<Longrightarrow> lt b c \<Longrightarrow> lt a c"
    and incomp_trans: "\<not> lt a b \<Longrightarrow> \<not> lt b c \<Longrightarrow> \<not> lt a c"
begin

lemma asym: "lt a b \<Longrightarrow> \<not> lt b a"
  using irrefl trans by blast

lemma sorted_insert_by:
  "sorted_wrt (\<lambda>a b. \<not> lt b a) ys \<Longrightarrow> sorted_wrt (\<lambda>a b. \<not> lt b a) (insert_by lt x ys)"
proof (induction ys)
  case Nil
  then show ?case by simp
next
  case (Cons y ys)
  show ?case
  proof (cases "lt y x")
    case True
    with Cons show ?thesis by (auto simp: set_insert_by dest: asym)
  next
    case False
    with Cons.prems show ?thesis by (auto dest: incomp_trans)
  qed
qed

lemma sorted_SliceStable: "sorted_wrt (\<lambda>a b. \<not> lt b a) (SliceStable lt xs)"
  by (induction xs) (auto simp: sorted_insert_by)

text \<open>Stability: the elements equivalent to any given one keep their order.\<close>

lemma filter_insert_by_equiv:
  assumes "sorted_wrt (\<lambda>a b. \<not> lt b a) ys"
  shows "filter (\<lambda>z. \<not> lt z e \<and> \<not> lt e z) (insert_by lt x ys) =
    filter (\<lambda>z. \<not> lt z e \<and> \<not> lt e z) (x # ys)"
  using assms
proof (induction ys)
  case Nil
  then show ?case by simp
next
  case (Cons y ys)
  show ?case
  proof (cases "lt y x")
    case True
    have "\<not> ((\<not> lt x e \<and> \<not> lt e x) \<and> (\<not> lt y e \<and> \<not> lt e y))"
      using True incomp_trans by blast
    with True Cons show ?thesis by auto
  qed simp
qed

lemma stable_SliceStable:
  "filter (\<lambda>z. \<not> lt z e \<and> \<not> lt e z) (SliceStable lt xs) =
   filter (\<lambda>z. \<not> lt z e \<and> \<not> lt e z) xs"
  by (induction xs) (simp_all add: filter_insert_by_equiv sorted_SliceStable)

end

section \<open>Machines and invariants\<close>

text \<open>
  A component that reacts to one event at a time. Whoever shows that the start state
  satisfies the invariant and that each step keeps it gets that every state of every run
  satisfies it.
\<close>

fun run_machine :: "('e \<Rightarrow> 's \<Rightarrow> 's) \<Rightarrow> 'e list \<Rightarrow> 's \<Rightarrow> 's" where
  "run_machine step [] s = s"
| "run_machine step (e # es) s = run_machine step es (step e s)"

lemma run_machine_append:
  "run_machine step (es @ fs) s = run_machine step fs (run_machine step es s)"
  by (induction es arbitrary: s) auto

locale invariant_machine =
  fixes step :: "'e \<Rightarrow> 's \<Rightarrow> 's" and ok :: "'e \<Rightarrow> bool" and inv :: "'s \<Rightarrow> bool"
  assumes step_inv: "inv s \<Longrightarrow> ok e \<Longrightarrow> inv (step e s)"
begin

lemma run_inv: "inv s \<Longrightarrow> list_all ok es \<Longrightarrow> inv (run_machine step es s)"
  by (induction es arbitrary: s) (auto intro: step_inv)

lemma run_prefix_inv: "inv s \<Longrightarrow> list_all ok es \<Longrightarrow> inv (run_machine step (take n es) s)"
  by (rule run_inv) (auto simp: list_all_iff dest: in_set_takeD)

end

end
