(* ===== verification/GoStrings.thy ===== *)
theory GoStrings
  imports GoPrelude
begin

text \<open>
  The part of packages \<open>strings\<close>, \<open>strconv\<close>, \<open>fmt\<close> and \<open>unicode/utf8\<close> the modelled code
  uses: decoding of UTF-8 runes, decimal rendering and parsing of integers, splitting,
  joining and trimming. The round trip of \<open>Itoa\<close> and \<open>Atoi\<close> and the facts that a string
  is the concatenation of its runes and of its pieces are what the components use.
\<close>

section \<open>Runes\<close>

definition byte :: "char \<Rightarrow> nat" where
  "byte c = of_char c"

definition cont :: "char \<Rightarrow> bool" where
  "cont c \<longleftrightarrow> 0x80 \<le> byte c \<and> byte c \<le> 0xBF"

text \<open>
  The number of bytes \<open>utf8.DecodeRuneInString\<close> consumes: an invalid or truncated
  sequence decodes to the replacement rune of width 1. The second byte of a sequence has
  a narrower range after the lead bytes E0, ED, F0 and F4.
\<close>

definition second_ok :: "nat \<Rightarrow> char \<Rightarrow> bool" where
  "second_ok lead c \<longleftrightarrow>
    (if lead = 0xE0 then 0xA0 else if lead = 0xF0 then 0x90 else 0x80) \<le> byte c \<and>
    byte c \<le> (if lead = 0xED then 0x9F else if lead = 0xF4 then 0x8F else 0xBF)"

fun rune_width :: "string \<Rightarrow> nat" where
  "rune_width [] = 0"
| "rune_width (c # s) =
    (let b = byte c in
     if 0xC2 \<le> b \<and> b \<le> 0xDF then
       (case s of c1 # _ \<Rightarrow> if cont c1 then 2 else 1 | _ \<Rightarrow> 1)
     else if 0xE0 \<le> b \<and> b \<le> 0xEF then
       (case s of c1 # c2 # _ \<Rightarrow> if second_ok b c1 \<and> cont c2 then 3 else 1 | _ \<Rightarrow> 1)
     else if 0xF0 \<le> b \<and> b \<le> 0xF4 then
       (case s of c1 # c2 # c3 # _ \<Rightarrow> if second_ok b c1 \<and> cont c2 \<and> cont c3 then 4 else 1 | _ \<Rightarrow> 1)
     else 1)"

lemma rune_width_pos: "s \<noteq> [] \<Longrightarrow> 0 < rune_width s"
  by (cases s) (auto simp: Let_def split: list.splits)

lemma rune_width_Cons_pos: "0 < rune_width (c # s)"
  by (rule rune_width_pos) simp

declare rune_width.simps(2) [simp del]

function runes :: "string \<Rightarrow> string list" where
  "runes s = (if s = [] then [] else take (rune_width s) s # runes (drop (rune_width s) s))"
  by pat_completeness auto
termination
  by (relation "measure length") (auto simp: rune_width_pos)

declare runes.simps [simp del]

lemma runes_Nil [simp]: "runes [] = []"
  by (simp add: runes.simps)

lemma rune_width_ascii [simp]: "ascii c \<Longrightarrow> rune_width (c # s) = 1"
  by (simp add: ascii_def byte_def Let_def rune_width.simps(2))

lemma runes_ascii_Cons [simp]: "ascii c \<Longrightarrow> runes (c # s) = [c] # runes s"
  by (subst runes.simps) (simp add: rune_width_ascii del: rune_width.simps)

lemma concat_runes [go_str]: "concat (runes s) = s"
proof (induction s rule: runes.induct)
  case (1 s)
  then show ?case by (subst runes.simps) auto
qed

lemma runes_nonempty: "r \<in> set (runes s) \<Longrightarrow> r \<noteq> []"
proof (induction s rule: runes.induct)
  case (1 s)
  show ?case
  proof (cases "s = []")
    case False
    then have "0 < rune_width s" by (rule rune_width_pos)
    then have "take (rune_width s) s \<noteq> []" using False by simp
    moreover have "r = take (rune_width s) s \<or> r \<in> set (runes (drop (rune_width s) s))"
      using 1(2) False by (simp add: runes.simps [of s])
    ultimately show ?thesis using 1(1) False by auto
  qed (use 1 in simp)
qed

lemma length_runes_le: "length (runes s) \<le> length s"
proof (induction s rule: runes.induct)
  case (1 s)
  show ?case
  proof (cases "s = []")
    case False
    with 1 have IH: "length (runes (drop (rune_width s) s)) \<le> length s - rune_width s" by simp
    have "0 < rune_width s" using False by (rule rune_width_pos)
    moreover have "0 < length s" using False by simp
    ultimately have "Suc (length (runes (drop (rune_width s) s))) \<le> length s" using IH by arith
    then show ?thesis using False by (simp add: runes.simps [of s])
  qed simp
qed

section \<open>Decimal integers\<close>

definition digit :: "nat \<Rightarrow> char" where
  "digit n = char_of (48 + n)"

definition is_digit :: "char \<Rightarrow> bool" where
  "is_digit c \<longleftrightarrow> 48 \<le> byte c \<and> byte c \<le> 57"

definition digit_val :: "char \<Rightarrow> nat" where
  "digit_val c = byte c - 48"

fun nat_digits :: "nat \<Rightarrow> string" where
  "nat_digits n = (if n < 10 then [digit n] else nat_digits (n div 10) @ [digit (n mod 10)])"

declare nat_digits.simps [simp del]

definition Itoa :: "int \<Rightarrow> string" where
  "Itoa i = (if i < 0 then ''-'' @ nat_digits (nat (- i)) else nat_digits (nat i))"

definition digits_val :: "string \<Rightarrow> nat" where
  "digits_val s = foldl (\<lambda>a c. 10 * a + digit_val c) 0 s"

text \<open>\<open>strconv.Atoi\<close>: an optional sign, at least one digit, and a value that fits int64.\<close>

definition Atoi :: "string \<Rightarrow> int option" where
  "Atoi s =
    (let neg = (case s of c # _ \<Rightarrow> c = CHR ''-'' | [] \<Rightarrow> False);
         ds = (case s of c # r \<Rightarrow> if c = CHR ''-'' \<or> c = CHR ''+'' then r else s | [] \<Rightarrow> [])
     in if ds \<noteq> [] \<and> list_all is_digit ds
        then (let v = (if neg then - int (digits_val ds) else int (digits_val ds))
              in if - (2 ^ 63) \<le> v \<and> v < 2 ^ 63 then Some v else None)
        else None)"

lemma byte_digit: "n < 10 \<Longrightarrow> byte (digit n) = 48 + n"
  by (simp add: byte_def digit_def of_char_of take_bit_eq_mod)

lemma is_digit_digit [simp]: "n < 10 \<Longrightarrow> is_digit (digit n)"
  by (simp add: is_digit_def byte_digit)

lemma digit_val_digit [simp]: "n < 10 \<Longrightarrow> digit_val (digit n) = n"
  by (simp add: digit_val_def byte_digit)

lemma nat_digits_ne [simp]: "nat_digits n \<noteq> []"
  by (subst nat_digits.simps) simp

lemma nat_digits_digits [simp]: "list_all is_digit (nat_digits n)"
proof (induction n rule: nat_digits.induct)
  case (1 n)
  then show ?case by (subst nat_digits.simps) auto
qed

lemma digits_val_nat_digits [simp]: "digits_val (nat_digits n) = n"
proof (induction n rule: nat_digits.induct)
  case (1 n)
  show ?case
  proof (cases "n < 10")
    case True
    then show ?thesis by (subst nat_digits.simps) (simp add: digits_val_def)
  next
    case False
    have "digits_val (nat_digits (n div 10) @ [digit (n mod 10)]) =
        10 * digits_val (nat_digits (n div 10)) + n mod 10"
      by (simp add: digits_val_def)
    also have "\<dots> = n" using 1 False by simp
    finally show ?thesis using False by (subst nat_digits.simps) simp
  qed
qed

lemma is_digit_not_sign: "is_digit c \<Longrightarrow> c \<noteq> CHR ''-'' \<and> c \<noteq> CHR ''+''"
  by (auto simp: is_digit_def byte_def)

lemma Atoi_Itoa [go_str]:
  assumes "- (2 ^ 63) \<le> i" and "i < 2 ^ 63"
  shows "Atoi (Itoa i) = Some i"
proof (cases "i < 0")
  case True
  with assms show ?thesis by (simp add: Atoi_def Itoa_def)
next
  case False
  obtain c r where cr: "nat_digits (nat i) = c # r" by (cases "nat_digits (nat i)") auto
  have "list_all is_digit (c # r)" using nat_digits_digits [of "nat i"] cr by simp
  then have "c \<noteq> CHR ''-''" "c \<noteq> CHR ''+''" "list_all is_digit (c # r)"
    using is_digit_not_sign by simp_all
  moreover have "digits_val (c # r) = nat i" using digits_val_nat_digits [of "nat i"] cr by simp
  ultimately show ?thesis using False assms cr by (simp add: Atoi_def Itoa_def Let_def)
qed

lemma Itoa_inj: "Itoa i = Itoa j \<Longrightarrow> i = j"
proof -
  have *: "i = (case Itoa i of c # r \<Rightarrow> if c = CHR ''-'' then - int (digits_val r) else int (digits_val (c # r)))" for i
  proof (cases "i < 0")
    case False
    obtain c r where cr: "nat_digits (nat i) = c # r" by (cases "nat_digits (nat i)") auto
    have "c \<noteq> CHR ''-''" using nat_digits_digits [of "nat i"] cr is_digit_not_sign by auto
    moreover have "digits_val (c # r) = nat i" using digits_val_nat_digits [of "nat i"] cr by simp
    ultimately show ?thesis using False cr by (simp add: Itoa_def)
  qed (simp add: Itoa_def)
  assume "Itoa i = Itoa j"
  then show "i = j" using * [of i] * [of j] by simp
qed

section \<open>Splitting, joining, trimming\<close>

definition HasPrefix :: "string \<Rightarrow> string \<Rightarrow> bool" where
  "HasPrefix s p = prefix p s"

definition HasSuffix :: "string \<Rightarrow> string \<Rightarrow> bool" where
  "HasSuffix s p = suffix p s"

fun join_with :: "string \<Rightarrow> string list \<Rightarrow> string" where
  "join_with sep [] = []"
| "join_with sep [x] = x"
| "join_with sep (x # y # xs) = x @ sep @ join_with sep (y # xs)"

text \<open>\<open>strings.Split\<close> on a one-byte separator: n separators give n + 1 pieces.\<close>

fun split_on :: "char \<Rightarrow> string \<Rightarrow> string list" where
  "split_on sep [] = [[]]"
| "split_on sep (c # s) =
    (if c = sep then [] # split_on sep s
     else (case split_on sep s of [] \<Rightarrow> [[c]] | x # xs \<Rightarrow> (c # x) # xs))"

lemma split_on_ne [simp]: "split_on sep s \<noteq> []"
  by (induction s) (auto split: list.splits)

lemma join_split_on [go_str]: "join_with [sep] (split_on sep s) = s"
proof (induction s)
  case (Cons c s)
  obtain x xs where x: "split_on sep s = x # xs" by (cases "split_on sep s") auto
  show ?case using Cons x by (cases xs) auto
qed simp

lemma split_on_free [simp]: "sep \<notin> set s \<Longrightarrow> split_on sep s = [s]"
  by (induction s) auto

lemma split_on_pieces: "p \<in> set (split_on sep s) \<Longrightarrow> sep \<notin> set p"
proof (induction s arbitrary: p)
  case (Cons c s)
  obtain x xs where x: "split_on sep s = x # xs" by (cases "split_on sep s") auto
  show ?case using Cons x by (auto split: if_splits)
qed simp

lemma split_on_append_sep:
  "split_on sep (s @ sep # t) = split_on sep s @ split_on sep t"
proof (induction s)
  case (Cons c s)
  obtain x xs where x: "split_on sep s = x # xs" by (cases "split_on sep s") auto
  show ?case using Cons x by simp
qed simp

definition is_space :: "char \<Rightarrow> bool" where
  "is_space c \<longleftrightarrow> byte c \<in> {9, 10, 11, 12, 13, 32}"

definition TrimRight :: "char set \<Rightarrow> string \<Rightarrow> string" where
  "TrimRight cs s = rev (dropWhile (\<lambda>c. c \<in> cs) (rev s))"

text \<open>\<open>strings.SplitAfter(s, "\\n")\<close>: the pieces keep their newline.\<close>

fun SplitAfterNL :: "string \<Rightarrow> string list" where
  "SplitAfterNL [] = [[]]"
| "SplitAfterNL (c # s) =
    (if byte c = 10 then [c] # SplitAfterNL s
     else (case SplitAfterNL s of [] \<Rightarrow> [[c]] | x # xs \<Rightarrow> (c # x) # xs))"

lemma SplitAfterNL_ne [simp]: "SplitAfterNL s \<noteq> []"
  by (induction s) (auto split: list.splits)

lemma concat_SplitAfterNL [go_str]: "concat (SplitAfterNL s) = s"
proof (induction s)
  case (Cons c s)
  obtain x xs where x: "SplitAfterNL s = x # xs" by (cases "SplitAfterNL s") auto
  show ?case using Cons x by auto
qed simp

text \<open>\<open>strings.Index\<close>: the first position where the substring starts.\<close>

fun Index :: "string \<Rightarrow> string \<Rightarrow> nat option" where
  "Index [] sub = (if sub = [] then Some 0 else None)"
| "Index (c # s) sub = (if prefix sub (c # s) then Some 0 else map_option Suc (Index s sub))"

lemma Index_Some: "Index s sub = Some i \<Longrightarrow> i + length sub \<le> length s \<and> prefix sub (drop i s)"
proof (induction s arbitrary: i)
  case (Cons c s)
  then show ?case by (auto split: if_splits dest: prefix_length_le)
qed (auto split: if_splits)

lemma Index_None: "Index s sub = None \<Longrightarrow> \<not> sublist sub s"
  by (induction s) (auto simp: sublist_Cons_right split: if_splits)

text \<open>
  The runes \<open>unicode.IsSpace\<close> accepts, by their UTF-8 bytes: the ASCII spaces, U+0085,
  U+00A0, U+1680, U+2000 to U+200A, U+2028, U+2029, U+202F, U+205F and U+3000.
\<close>

definition space_rune :: "string \<Rightarrow> bool" where
  "space_rune r = (case map byte r of
      [a] \<Rightarrow> a \<in> {9, 10, 11, 12, 13, 32}
    | [a, b] \<Rightarrow> a = 0xC2 \<and> (b = 0x85 \<or> b = 0xA0)
    | [a, b, c] \<Rightarrow> (a = 0xE1 \<and> b = 0x9A \<and> c = 0x80) \<or>
        (a = 0xE2 \<and> b = 0x80 \<and> (0x80 \<le> c \<and> c \<le> 0x8A \<or> c \<in> {0xA8, 0xA9, 0xAF})) \<or>
        (a = 0xE2 \<and> b = 0x81 \<and> c = 0x9F) \<or> (a = 0xE3 \<and> b = 0x80 \<and> c = 0x80)
    | _ \<Rightarrow> False)"

definition TrimSpace :: "string \<Rightarrow> string" where
  "TrimSpace s = concat (rev (dropWhile space_rune (rev (dropWhile space_rune (runes s)))))"

section \<open>RFC 3339 timestamps\<close>

text \<open>
  \<open>t.UTC().Format(time.RFC3339)\<close>: the proleptic Gregorian date of an instant, computed
  from days since 1970 with the year starting in March, and the time of day.
\<close>

definition civil_from_days :: "int \<Rightarrow> int \<times> int \<times> int" where
  "civil_from_days z0 =
    (let z = z0 + 719468;
         era = z div 146097;
         doe = z mod 146097;
         yoe = (doe - doe div 1460 + doe div 36524 - doe div 146096) div 365;
         doy = doe - (365 * yoe + yoe div 4 - yoe div 100);
         mp = (5 * doy + 2) div 153;
         d = doy - (153 * mp + 2) div 5 + 1;
         m = (if mp < 10 then mp + 3 else mp - 9);
         y = yoe + era * 400
     in (if m \<le> 2 then y + 1 else y, m, d))"

definition pad0 :: "nat \<Rightarrow> int \<Rightarrow> string" where
  "pad0 w i = (let ds = nat_digits (nat \<bar>i\<bar>) in
     (if i < 0 then ''-'' else []) @ replicate (w - length ds) (CHR ''0'') @ ds)"

definition FormatRFC3339 :: "time \<Rightarrow> string" where
  "FormatRFC3339 t =
    (let secs = t div 1000000000; tod = secs mod 86400 in
     case civil_from_days (secs div 86400) of (y, m, d) \<Rightarrow>
       pad0 4 y @ ''-'' @ pad0 2 m @ ''-'' @ pad0 2 d @ ''T'' @ pad0 2 (tod div 3600) @ '':'' @
       pad0 2 (tod mod 3600 div 60) @ '':'' @ pad0 2 (tod mod 60) @ ''Z'')"

lemma FormatRFC3339_epoch: "FormatRFC3339 0 = ''1970-01-01T00:00:00Z''"
  by code_simp

lemma FormatRFC3339_leap: "FormatRFC3339 (1709210096 * 1000000000) = ''2024-02-29T12:34:56Z''"
  by code_simp

end
