(* ===== verification/SymphonyModel.thy ===== *)
theory SymphonyModel
  imports GoStrings
begin

text \<open>
  The domain types of symphony (\<open>symphony/model/types.go\<close>), its normalisations
  (\<open>symphony/model/normalize.go\<close>), the agent types the orchestrator sees
  (\<open>symphony/agent\<close>) and the typed configuration (\<open>ServiceConfig\<close>). Pointers to values the
  code never mutates through an alias are options; times are integers of nanoseconds.
\<close>

section \<open>Issues and runtime records\<close>

record BlockerRef =
  br_ID :: "string option"
  br_Identifier :: "string option"
  br_State :: "string option"

record Issue =
  i_Description :: "string option"
  i_Priority :: "int option"
  i_BranchName :: "string option"
  i_URL :: "string option"
  i_CreatedAt :: "time option"
  i_UpdatedAt :: "time option"
  i_ID :: string
  i_Identifier :: string
  i_Title :: string
  i_State :: string
  i_Labels :: "string list"
  i_BlockedBy :: "BlockerRef list"

record Workspace =
  ws_Path :: string
  ws_WorkspaceKey :: string
  ws_CreatedNow :: bool

record LiveSession =
  ls_SessionID :: string
  ls_ThreadID :: string
  ls_TurnID :: string
  ls_AgentPID :: "string option"
  ls_LastAgentEvent :: "string option"
  ls_LastAgentTimestamp :: "time option"
  ls_LastAgentMessage :: string
  ls_InputTokens :: int
  ls_OutputTokens :: int
  ls_TotalTokens :: int
  ls_LastReportedInputToks :: int
  ls_LastReportedOutputToks :: int
  ls_LastReportedTotalToks :: int
  ls_TurnCount :: int

text \<open>The zero value of the struct, which a new \<open>RunningEntry\<close> carries.\<close>

definition zero_session :: LiveSession where
  "zero_session = \<lparr>ls_SessionID = [], ls_ThreadID = [], ls_TurnID = [], ls_AgentPID = None,
     ls_LastAgentEvent = None, ls_LastAgentTimestamp = None, ls_LastAgentMessage = [],
     ls_InputTokens = 0, ls_OutputTokens = 0, ls_TotalTokens = 0,
     ls_LastReportedInputToks = 0, ls_LastReportedOutputToks = 0,
     ls_LastReportedTotalToks = 0, ls_TurnCount = 0\<rparr>"

record RetryEntry =
  rt_IssueID :: string
  rt_Identifier :: string
  rt_Error :: string
  rt_Attempt :: int
  rt_DueAtMs :: int
  rt_Generation :: nat

text \<open>\<open>SecondsRunning\<close> is kept in nanoseconds; \<open>Duration.Seconds()\<close> divides by 10^9.\<close>

record AgentTotals =
  at_InputTokens :: int
  at_OutputTokens :: int
  at_TotalTokens :: int
  at_NanosRunning :: int

record RunningEntry =
  re_Issue :: Issue
  re_StartedAt :: time
  re_Identifier :: string
  re_Session :: LiveSession
  re_RetryAttempt :: int

datatype ExitReason =
    ExitReasonNormal
  | ExitReasonFailed
  | ExitReasonTimedOut
  | ExitReasonStalled
  | ExitReasonCanceled
  | ExitReasonInactive

section \<open>Normalisation\<close>

text \<open>
  \<open>SanitizeIdentifier\<close> replaces every rune outside the class \<open>[A-Za-z0-9._-]\<close> by one
  underscore. The regular expression works on runes, so a multi-byte rune, and each byte of
  an invalid sequence, becomes one underscore.
\<close>

definition key_char :: "char \<Rightarrow> bool" where
  "key_char c \<longleftrightarrow> (65 \<le> byte c \<and> byte c \<le> 90) \<or> (97 \<le> byte c \<and> byte c \<le> 122) \<or>
     (48 \<le> byte c \<and> byte c \<le> 57) \<or> c = CHR ''.'' \<or> c = CHR ''_'' \<or> c = CHR ''-''"

definition sanitize_rune :: "string \<Rightarrow> char" where
  "sanitize_rune r = (case r of [c] \<Rightarrow> if key_char c then c else CHR ''_'' | _ \<Rightarrow> CHR ''_'')"

definition SanitizeIdentifier :: "string \<Rightarrow> string" where
  "SanitizeIdentifier identifier = map sanitize_rune (runes identifier)"

definition NormalizeState :: "(string \<Rightarrow> string) \<Rightarrow> string \<Rightarrow> string" where
  "NormalizeState ul state = ToLower ul state"

definition ComposeSessionID :: "string \<Rightarrow> string \<Rightarrow> string" where
  "ComposeSessionID threadID turnID = threadID @ ''-'' @ turnID"

lemma key_char_underscore [simp]: "key_char CHR ''_''"
  by (simp add: key_char_def)

lemma key_char_ascii: "key_char c \<Longrightarrow> ascii c"
  by (auto simp: key_char_def ascii_def byte_def)

lemma key_char_sanitize_rune [simp]: "key_char (sanitize_rune r)"
  by (auto simp: sanitize_rune_def split: list.splits)

lemma SanitizeIdentifier_chars: "list_all key_char (SanitizeIdentifier s)"
  by (simp add: SanitizeIdentifier_def list_all_iff)

lemma SanitizeIdentifier_id: "list_all key_char s \<Longrightarrow> SanitizeIdentifier s = s"
proof (induction s)
  case (Cons c s)
  then show ?case
    by (simp add: SanitizeIdentifier_def key_char_ascii sanitize_rune_def)
qed (simp add: SanitizeIdentifier_def)

lemma SanitizeIdentifier_idem [simp]:
  "SanitizeIdentifier (SanitizeIdentifier s) = SanitizeIdentifier s"
  by (rule SanitizeIdentifier_id) (rule SanitizeIdentifier_chars)

lemma length_SanitizeIdentifier: "length (SanitizeIdentifier s) \<le> length s"
  by (simp add: SanitizeIdentifier_def length_runes_le)

lemma SanitizeIdentifier_Nil: "SanitizeIdentifier s = [] \<longleftrightarrow> s = []"
  by (simp add: SanitizeIdentifier_def runes.simps [of s])

lemma key_char_not_slash: "key_char c \<Longrightarrow> c \<noteq> CHR ''/''"
  by (auto simp: key_char_def byte_def)

lemma SanitizeIdentifier_no_slash: "CHR ''/'' \<notin> set (SanitizeIdentifier s)"
  using SanitizeIdentifier_chars [of s] key_char_not_slash by (auto simp: list_all_iff)

section \<open>Agent events, turns and session configuration\<close>

datatype EventType =
    EventNone
  | EventSessionStarted
  | EventTurnCompleted
  | EventTurnFailed
  | EventTurnCancelled
  | EventApprovalHandled
  | EventUnsupportedTool
  | EventInputRequired
  | EventTokenUsage
  | EventRateLimit
  | EventNotification
  | EventOther

text \<open>The strings of the constants; \<open>EventNone\<close> is the empty string, the zero value.\<close>

fun event_string :: "EventType \<Rightarrow> string" where
  "event_string EventNone = []"
| "event_string EventSessionStarted = ''session_started''"
| "event_string EventTurnCompleted = ''turn_completed''"
| "event_string EventTurnFailed = ''turn_failed''"
| "event_string EventTurnCancelled = ''turn_cancelled''"
| "event_string EventApprovalHandled = ''approval_auto_approved''"
| "event_string EventUnsupportedTool = ''unsupported_tool_call''"
| "event_string EventInputRequired = ''turn_input_required''"
| "event_string EventTokenUsage = ''token_usage''"
| "event_string EventRateLimit = ''rate_limit''"
| "event_string EventNotification = ''notification''"
| "event_string EventOther = ''other_message''"

text \<open>\<open>RateLimits\<close> is an uninterpreted JSON text; \<open>None\<close> is a nil \<open>RawMessage\<close>.\<close>

record AgentEvent =
  ev_Timestamp :: time
  ev_PID :: "int option"
  ev_Type :: EventType
  ev_SessionID :: string
  ev_ThreadID :: string
  ev_TurnID :: string
  ev_Message :: string
  ev_RateLimits :: "string option"
  ev_InputTokens :: int
  ev_OutputTokens :: int
  ev_TotalTokens :: int

datatype TurnStatus = TurnCompleted | TurnFailed | TurnTimedOut | TurnCancelled

record TurnResult =
  tn_Error :: "string option"
  tn_Status :: TurnStatus

definition IsValidAgentType :: "string \<Rightarrow> bool" where
  "IsValidAgentType t \<longleftrightarrow> t = [] \<or> t = ''codex''"

record SessionConfig =
  sc_Type :: string
  sc_Command :: string
  sc_WorkDir :: string
  sc_ApprovalPolicy :: string
  sc_ThreadSandbox :: string
  sc_TurnSandboxPolicy :: string
  sc_IssueIdentifier :: string
  sc_IssueTitle :: string
  sc_TurnTimeoutMs :: int
  sc_ReadTimeoutMs :: int

section \<open>Configuration\<close>

record WorkflowDefinition =
  wf_Config :: "(string, any) gomap"
  wf_PromptTemplate :: string

record ServiceConfig =
  Workflow :: WorkflowDefinition
  MaxConcurrentByState :: "(string, int) gomap option"
  ServerPort :: "int option"
  HookAfterCreate :: string
  HookAfterRun :: string
  AgentType :: string
  AgentCommand :: string
  TrackerKind :: string
  WorkspaceRoot :: string
  AgentApprovalPolicy :: string
  HookBeforeRun :: string
  TrackerEndpoint :: string
  HookBeforeRemove :: string
  TrackerProjectSlug :: string
  TrackerAPIKey :: string
  AgentTurnSandboxPolicy :: string
  AgentThreadSandbox :: string
  ActiveStates :: "string list"
  TerminalStates :: "string list"
  PollIntervalMs :: int
  MaxRetryBackoffMs :: int
  MaxTurns :: int
  AgentTurnTimeoutMs :: int
  AgentReadTimeoutMs :: int
  AgentStallTimeoutMs :: int
  MaxConcurrentAgents :: int
  HookTimeoutMs :: int

datatype config_check =
    TrackerKindRequired
  | UnsupportedTrackerKind string
  | TrackerAPIKeyRequired
  | ProjectSlugRequired
  | AgentCommandRequired
  | UnsupportedAgentType string

text \<open>
  \<open>ValidateForDispatch\<close> collects every failed check, in the order of the code;
  no failed check is a nil error.
\<close>

definition ValidateForDispatch :: "ServiceConfig \<Rightarrow> config_check list option" where
  "ValidateForDispatch cfg =
    (let checks =
       (if TrackerKind cfg = [] then [TrackerKindRequired]
        else if TrackerKind cfg \<noteq> ''linear'' then [UnsupportedTrackerKind (TrackerKind cfg)]
        else []) @
       (if TrackerAPIKey cfg = [] then [TrackerAPIKeyRequired] else []) @
       (if TrackerKind cfg = ''linear'' \<and> TrackerProjectSlug cfg = [] then [ProjectSlugRequired] else []) @
       (if AgentCommand cfg = [] then [AgentCommandRequired] else []) @
       (if \<not> IsValidAgentType (AgentType cfg) then [UnsupportedAgentType (AgentType cfg)] else [])
     in if checks \<noteq> [] then Some checks else None)"

lemma ValidateForDispatch_None:
  "ValidateForDispatch cfg = None \<longleftrightarrow>
    TrackerKind cfg = ''linear'' \<and> TrackerAPIKey cfg \<noteq> [] \<and> TrackerProjectSlug cfg \<noteq> [] \<and>
    AgentCommand cfg \<noteq> [] \<and> IsValidAgentType (AgentType cfg)"
  by (auto simp: ValidateForDispatch_def Let_def)

end
