(* ===== verification/SymphonyMetrics.thy ===== *)
theory SymphonyMetrics
  imports SymphonyModel
begin

text \<open>
  How agent events are folded into the live session of a running issue
  (\<open>symphony/orchestrator/metrics.go\<close>). An agent reports absolute token counts for its
  thread; the session keeps the last reported value and adds only what grew.
\<close>

definition recordSessionIdentity :: "AgentEvent \<Rightarrow> LiveSession \<Rightarrow> LiveSession" where
  "recordSessionIdentity event session =
    session\<lparr>ls_SessionID := (if ev_SessionID event \<noteq> [] then ev_SessionID event else ls_SessionID session),
      ls_ThreadID := (if ev_ThreadID event \<noteq> [] then ev_ThreadID event else ls_ThreadID session),
      ls_TurnID := (if ev_TurnID event \<noteq> [] then ev_TurnID event else ls_TurnID session),
      ls_AgentPID := (case ev_PID event of Some p \<Rightarrow> Some (Itoa p) | None \<Rightarrow> ls_AgentPID session),
      ls_TurnCount := ls_TurnCount session + 1\<rparr>"

definition recordTokenUsage :: "AgentEvent \<Rightarrow> LiveSession \<Rightarrow> LiveSession" where
  "recordTokenUsage event session =
    (if ev_TotalTokens event \<le> 0 then session
     else
       let inputDelta = ev_InputTokens event - ls_LastReportedInputToks session;
           outputDelta = ev_OutputTokens event - ls_LastReportedOutputToks session;
           s1 = (if inputDelta > 0
                 then session\<lparr>ls_InputTokens := ls_InputTokens session + inputDelta,
                        ls_LastReportedInputToks := ev_InputTokens event\<rparr>
                 else session);
           s2 = (if outputDelta > 0
                 then s1\<lparr>ls_OutputTokens := ls_OutputTokens s1 + outputDelta,
                        ls_LastReportedOutputToks := ev_OutputTokens event\<rparr>
                 else s1)
       in s2\<lparr>ls_TotalTokens := ls_InputTokens s2 + ls_OutputTokens s2,
            ls_LastReportedTotalToks := ev_TotalTokens event\<rparr>)"

definition recordLiveSessionEvent :: "AgentEvent \<Rightarrow> time \<Rightarrow> LiveSession \<Rightarrow> LiveSession" where
  "recordLiveSessionEvent event observedAt session =
    (let s1 = session\<lparr>ls_LastAgentTimestamp := Some observedAt\<rparr>;
         s2 = (if ev_Type event \<noteq> EventNone
               then s1\<lparr>ls_LastAgentEvent := Some (event_string (ev_Type event))\<rparr> else s1);
         s3 = (if ev_Message event \<noteq> [] then s2\<lparr>ls_LastAgentMessage := ev_Message event\<rparr> else s2);
         s4 = (if ev_Type event = EventSessionStarted then recordSessionIdentity event s3 else s3)
     in recordTokenUsage event s4)"

section \<open>Accounting\<close>

text \<open>What is accumulated is what was last reported, and the total is the sum.\<close>

definition session_tokens_ok :: "LiveSession \<Rightarrow> bool" where
  "session_tokens_ok s \<longleftrightarrow> ls_InputTokens s = ls_LastReportedInputToks s \<and>
     ls_OutputTokens s = ls_LastReportedOutputToks s \<and>
     ls_TotalTokens s = ls_InputTokens s + ls_OutputTokens s \<and>
     0 \<le> ls_InputTokens s \<and> 0 \<le> ls_OutputTokens s"

lemma session_tokens_ok_zero: "session_tokens_ok zero_session"
  by (simp add: session_tokens_ok_def zero_session_def)

lemma identity_tokens [simp]:
  "ls_InputTokens (recordSessionIdentity e s) = ls_InputTokens s"
  "ls_OutputTokens (recordSessionIdentity e s) = ls_OutputTokens s"
  "ls_TotalTokens (recordSessionIdentity e s) = ls_TotalTokens s"
  "ls_LastReportedInputToks (recordSessionIdentity e s) = ls_LastReportedInputToks s"
  "ls_LastReportedOutputToks (recordSessionIdentity e s) = ls_LastReportedOutputToks s"
  by (simp_all add: recordSessionIdentity_def)

lemma usage_input:
  "session_tokens_ok s \<Longrightarrow> ls_InputTokens (recordTokenUsage e s) =
     (if ev_TotalTokens e \<le> 0 then ls_InputTokens s else max (ls_InputTokens s) (ev_InputTokens e))"
  by (auto simp: recordTokenUsage_def session_tokens_ok_def Let_def)

lemma usage_output:
  "session_tokens_ok s \<Longrightarrow> ls_OutputTokens (recordTokenUsage e s) =
     (if ev_TotalTokens e \<le> 0 then ls_OutputTokens s else max (ls_OutputTokens s) (ev_OutputTokens e))"
  by (auto simp: recordTokenUsage_def session_tokens_ok_def Let_def)

lemma session_tokens_ok_usage: "session_tokens_ok s \<Longrightarrow> session_tokens_ok (recordTokenUsage e s)"
  by (auto simp: recordTokenUsage_def session_tokens_ok_def Let_def)

lemma session_tokens_ok_frame:
  "ls_InputTokens t = ls_InputTokens s \<Longrightarrow> ls_OutputTokens t = ls_OutputTokens s \<Longrightarrow>
   ls_TotalTokens t = ls_TotalTokens s \<Longrightarrow>
   ls_LastReportedInputToks t = ls_LastReportedInputToks s \<Longrightarrow>
   ls_LastReportedOutputToks t = ls_LastReportedOutputToks s \<Longrightarrow>
   session_tokens_ok t = session_tokens_ok s"
  by (simp add: session_tokens_ok_def)

definition before_usage :: "AgentEvent \<Rightarrow> time \<Rightarrow> LiveSession \<Rightarrow> LiveSession" where
  "before_usage event observedAt session =
    (let s1 = session\<lparr>ls_LastAgentTimestamp := Some observedAt\<rparr>;
         s2 = (if ev_Type event \<noteq> EventNone
               then s1\<lparr>ls_LastAgentEvent := Some (event_string (ev_Type event))\<rparr> else s1);
         s3 = (if ev_Message event \<noteq> [] then s2\<lparr>ls_LastAgentMessage := ev_Message event\<rparr> else s2)
     in if ev_Type event = EventSessionStarted then recordSessionIdentity event s3 else s3)"

lemma record_event_usage: "recordLiveSessionEvent e t s = recordTokenUsage e (before_usage e t s)"
  by (simp add: recordLiveSessionEvent_def before_usage_def Let_def)

lemma before_usage_tokens [simp]:
  "ls_InputTokens (before_usage e t s) = ls_InputTokens s"
  "ls_OutputTokens (before_usage e t s) = ls_OutputTokens s"
  "session_tokens_ok (before_usage e t s) = session_tokens_ok s"
  by (simp_all add: before_usage_def Let_def session_tokens_ok_def)

lemma session_tokens_ok_event:
  "session_tokens_ok s \<Longrightarrow> session_tokens_ok (recordLiveSessionEvent e t s)"
  by (simp add: record_event_usage session_tokens_ok_usage)

text \<open>Folding a session's events, each with the time it was observed.\<close>

definition fold_events :: "(AgentEvent \<times> time) list \<Rightarrow> LiveSession \<Rightarrow> LiveSession" where
  "fold_events evs s = foldl (\<lambda>s (e, t). recordLiveSessionEvent e t s) s evs"

lemma fold_events_simps [simp]:
  "fold_events [] s = s"
  "fold_events ((e, t) # evs) s = fold_events evs (recordLiveSessionEvent e t s)"
  by (simp_all add: fold_events_def)

text \<open>The counts an event reports: those of an event without a total count for nothing.\<close>

definition reported :: "(AgentEvent \<Rightarrow> int) \<Rightarrow> (AgentEvent \<times> time) list \<Rightarrow> int list" where
  "reported f evs = map (f \<circ> fst) (filter (\<lambda>(e, t). 0 < ev_TotalTokens e) evs)"

lemma fold_events_input:
  "session_tokens_ok s \<Longrightarrow>
   ls_InputTokens (fold_events evs s) = fold max (reported ev_InputTokens evs) (ls_InputTokens s)"
proof (induction evs arbitrary: s)
  case (Cons p evs)
  obtain e t where p: "p = (e, t)" by (cases p)
  show ?case
    using Cons by (auto simp: p session_tokens_ok_usage record_event_usage usage_input
        reported_def max.commute)
qed (simp add: reported_def)

lemma fold_events_output:
  "session_tokens_ok s \<Longrightarrow>
   ls_OutputTokens (fold_events evs s) = fold max (reported ev_OutputTokens evs) (ls_OutputTokens s)"
proof (induction evs arbitrary: s)
  case (Cons p evs)
  obtain e t where p: "p = (e, t)" by (cases p)
  show ?case
    using Cons by (auto simp: p session_tokens_ok_usage record_event_usage usage_output
        reported_def max.commute)
qed (simp add: reported_def)

lemma fold_events_ok: "session_tokens_ok s \<Longrightarrow> session_tokens_ok (fold_events evs s)"
  by (induction evs arbitrary: s) (auto simp: session_tokens_ok_event)

lemma fold_max_Max: "fold max xs (a::int) = Max (insert a (set xs))"
  by (metis Max.set_eq_fold list.simps(15))

end
