(* ===== verification/SymphonyOrchestrator.thy ===== *)
theory SymphonyOrchestrator
  imports SymphonyMetrics
begin

text \<open>
  The single-authority event loop of symphony (\<open>symphony/orchestrator\<close>): its state, dispatch
  of candidate issues, reconciliation with the tracker, worker exits, retries with back-off,
  snapshots and the loop itself. The state is a record; what the code does to the outside
  (goroutines started, contexts cancelled, timers, workspaces cleaned, replies) is appended
  to its field \<open>effects\<close>. One handler runs at one configuration and one clock reading, the
  \<open>env\<close> it is given; answers of the tracker are arguments. Logging is left out.
\<close>

section \<open>State\<close>

record WorkerResult =
  wr_Error :: "string option"
  wr_IssueID :: string
  wr_Identifier :: string
  wr_ExitReason :: ExitReason
  wr_Duration :: duration

record AgentUpdate =
  au_IssueID :: string
  au_Event :: AgentEvent

record retryFired =
  rf_IssueID :: string
  rf_Generation :: nat

datatype reconcileActionType = reconcileUpdate | reconcileTerminate | reconcileStalled

record reconcileAction =
  ra_Issue :: "Issue option"
  ra_IssueID :: string
  ra_Action :: reconcileActionType
  ra_CleanupWorkspace :: bool

record tickResult =
  tr_Err :: "string option"
  tr_ReconcileActions :: "reconcileAction list"
  tr_Candidates :: "Issue list"

record RunningSnapshot =
  rs_StartedAt :: time
  rs_LastEventAt :: "time option"
  rs_IssueID :: string
  rs_IssueIdentifier :: string
  rs_State :: string
  rs_SessionID :: string
  rs_LastEvent :: string
  rs_LastMessage :: string
  rs_Tokens :: AgentTotals
  rs_TurnCount :: int

record RetrySnapshot =
  ts_DueAt :: time
  ts_IssueID :: string
  ts_IssueIdentifier :: string
  ts_Error :: string
  ts_Attempt :: int

record Snapshot =
  sn_GeneratedAt :: time
  sn_Running :: "RunningSnapshot list"
  sn_Retrying :: "RetrySnapshot list"
  sn_RateLimits :: "string option"
  sn_Totals :: AgentTotals

text \<open>
  A worker context and a retry timer are named by numbers: contexts in the order they are
  created, timers by the generation of the retry they belong to.
\<close>

datatype effect =
    StartWorker nat Issue "int option" ServiceConfig
  | CancelWorker nat
  | StartTimer nat string duration
  | StopTimer nat
  | CleanupWs string
  | StartTick ServiceConfig "(string, RunningEntry) gomap"
  | ReplySnapshot Snapshot
  | CloseRefresh
  | ResetTicker duration
  | CancelAll

record Orchestrator =
  running :: "(string, RunningEntry) gomap"
  workerCancels :: "(string, nat) gomap"
  claimed :: "string set"
  retryAttempts :: "(string, RetryEntry) gomap"
  completed :: "string set"
  retryTimerMap :: "(string, nat) gomap"
  rateLimits :: "string option"
  totals :: AgentTotals
  nextGen :: nat
  nextCtx :: nat
  effects :: "effect list"

definition New :: Orchestrator where
  "New = \<lparr>running = [], workerCancels = [], claimed = {}, retryAttempts = [], completed = {},
     retryTimerMap = [], rateLimits = None,
     totals = \<lparr>at_InputTokens = 0, at_OutputTokens = 0, at_TotalTokens = 0, at_NanosRunning = 0\<rparr>,
     nextGen = 0, nextCtx = 0, effects = []\<rparr>"

text \<open>What a handler reads from outside: the case tables, \<open>o.cfg()\<close> and \<open>o.clock.Now()\<close>.\<close>

record env =
  e_ul :: "string \<Rightarrow> string"
  e_cfg :: ServiceConfig
  e_now :: time

definition emit :: "effect \<Rightarrow> Orchestrator \<Rightarrow> Orchestrator" where
  "emit e s = s\<lparr>effects := effects s @ [e]\<rparr>"

section \<open>Dispatch order and eligibility\<close>

definition priorityOr :: "int option \<Rightarrow> int \<Rightarrow> int" where
  "priorityOr p dflt = (case p of None \<Rightarrow> dflt | Some v \<Rightarrow> v)"

definition dispatch_less :: "Issue \<Rightarrow> Issue \<Rightarrow> bool" where
  "dispatch_less a b =
    (let aPri = priorityOr (i_Priority a) 999999; bPri = priorityOr (i_Priority b) 999999 in
     if aPri \<noteq> bPri then aPri < bPri
     else case (i_CreatedAt a, i_CreatedAt b) of
         (Some ca, Some cb) \<Rightarrow> if ca \<noteq> cb then ca < cb else i_Identifier a < i_Identifier b
       | (Some _, None) \<Rightarrow> True
       | (None, Some _) \<Rightarrow> False
       | (None, None) \<Rightarrow> i_Identifier a < i_Identifier b)"

definition sortForDispatch :: "Issue list \<Rightarrow> Issue list" where
  "sortForDispatch issues = SliceStable dispatch_less issues"

definition availableSlots :: "ServiceConfig \<Rightarrow> Orchestrator \<Rightarrow> int" where
  "availableSlots cfg s =
    (let slots = MaxConcurrentAgents cfg - int (length (running s))
     in if slots < 0 then 0 else slots)"

definition perStateCount :: "(string \<Rightarrow> string) \<Rightarrow> string \<Rightarrow> Orchestrator \<Rightarrow> nat" where
  "perStateCount ul normState s =
    count_vals (\<lambda>entry. NormalizeState ul (i_State (re_Issue entry)) = normState) (running s)"

definition perStateSlotAvailable :: "(string \<Rightarrow> string) \<Rightarrow> string \<Rightarrow> ServiceConfig \<Rightarrow> Orchestrator \<Rightarrow> bool" where
  "perStateSlotAvailable ul state cfg s =
    (case MaxConcurrentByState cfg of
       None \<Rightarrow> True
     | Some m \<Rightarrow>
         let normState = NormalizeState ul state in
         case map_of m normState of
           None \<Rightarrow> True
         | Some limit \<Rightarrow> int (perStateCount ul normState s) < limit)"

definition state_in :: "(string \<Rightarrow> string) \<Rightarrow> string list \<Rightarrow> string \<Rightarrow> bool" where
  "state_in ul states normState = list_ex (\<lambda>x. NormalizeState ul x = normState) states"

definition isBlockerTerminal :: "(string \<Rightarrow> string) \<Rightarrow> ServiceConfig \<Rightarrow> BlockerRef \<Rightarrow> bool" where
  "isBlockerTerminal ul cfg b =
    (case br_State b of
       None \<Rightarrow> False
     | Some st \<Rightarrow> state_in ul (TerminalStates cfg) (NormalizeState ul st))"

definition shouldDispatch :: "(string \<Rightarrow> string) \<Rightarrow> ServiceConfig \<Rightarrow> Issue \<Rightarrow> Orchestrator \<Rightarrow> bool" where
  "shouldDispatch ul cfg issue s =
    (if i_ID issue = [] \<or> i_Identifier issue = [] \<or> i_Title issue = [] \<or> i_State issue = [] then False
     else if map_of (running s) (i_ID issue) \<noteq> None then False
     else if i_ID issue \<in> claimed s then False
     else
       let normState = NormalizeState ul (i_State issue) in
       if \<not> state_in ul (ActiveStates cfg) normState then False
       else if state_in ul (TerminalStates cfg) normState then False
       else if availableSlots cfg s \<le> 0 then False
       else if \<not> perStateSlotAvailable ul (i_State issue) cfg s then False
       else if normState = ''todo'' then list_all (isBlockerTerminal ul cfg) (i_BlockedBy issue)
       else True)"

section \<open>Retries\<close>

fun backoff_loop :: "nat \<Rightarrow> int \<Rightarrow> int \<Rightarrow> int" where
  "backoff_loop 0 delay maxBackoffMs = (if delay > maxBackoffMs then maxBackoffMs else delay)"
| "backoff_loop (Suc n) delay maxBackoffMs =
    (let delay' = int64 (delay * 2) in
     if delay' > maxBackoffMs then maxBackoffMs else backoff_loop n delay' maxBackoffMs)"

definition backoffDelayMs :: "int \<Rightarrow> int \<Rightarrow> int" where
  "backoffDelayMs attempt maxBackoffMs =
    (let attempt' = (if attempt < 1 then 1 else attempt)
     in backoff_loop (nat (attempt' - 1)) 10000 maxBackoffMs)"

definition scheduleRetry :: "env \<Rightarrow> string \<Rightarrow> string \<Rightarrow> int \<Rightarrow> string \<Rightarrow> bool \<Rightarrow> Orchestrator \<Rightarrow> Orchestrator" where
  "scheduleRetry env issueID identifier attempt errorMsg continuation s =
    (let s1 = (case map_of (retryTimerMap s) issueID of
                 Some t \<Rightarrow> emit (StopTimer t) (s\<lparr>retryTimerMap := mdel issueID (retryTimerMap s)\<rparr>)
               | None \<Rightarrow> s);
         delayMs = (if continuation then 1000 else backoffDelayMs attempt (MaxRetryBackoffMs (e_cfg env)));
         gen = nextGen s1 + 1;
         entry = \<lparr>rt_IssueID = issueID, rt_Identifier = identifier, rt_Error = errorMsg,
                  rt_Attempt = attempt, rt_DueAtMs = UnixMilli (e_now env + millis delayMs),
                  rt_Generation = gen\<rparr>
     in emit (StartTimer gen issueID (millis delayMs))
          (s1\<lparr>nextGen := gen,
              retryAttempts := mput issueID entry (retryAttempts s1),
              retryTimerMap := mput issueID gen (retryTimerMap s1)\<rparr>))"

section \<open>Starting and stopping workers\<close>

definition dispatchIssue :: "env \<Rightarrow> Issue \<Rightarrow> int option \<Rightarrow> Orchestrator \<Rightarrow> Orchestrator" where
  "dispatchIssue env issue attempt s =
    (let retryAttempt = (case attempt of None \<Rightarrow> 0 | Some a \<Rightarrow> a);
         entry = \<lparr>re_Issue = issue, re_StartedAt = e_now env, re_Identifier = i_Identifier issue,
                  re_Session = zero_session, re_RetryAttempt = retryAttempt\<rparr>
     in emit (StartWorker (nextCtx s) issue attempt (e_cfg env))
          (s\<lparr>running := mput (i_ID issue) entry (running s),
             workerCancels := mput (i_ID issue) (nextCtx s) (workerCancels s),
             claimed := insert (i_ID issue) (claimed s),
             retryAttempts := mdel (i_ID issue) (retryAttempts s),
             nextCtx := nextCtx s + 1\<rparr>))"

definition cancel_worker :: "string \<Rightarrow> Orchestrator \<Rightarrow> Orchestrator" where
  "cancel_worker issueID s =
    (case map_of (workerCancels s) issueID of
       Some c \<Rightarrow> emit (CancelWorker c) (s\<lparr>workerCancels := mdel issueID (workerCancels s)\<rparr>)
     | None \<Rightarrow> s)"

definition release_claim :: "string \<Rightarrow> Orchestrator \<Rightarrow> Orchestrator" where
  "release_claim issueID s = s\<lparr>claimed := claimed s - {issueID}\<rparr>"

definition terminateRunning :: "string \<Rightarrow> bool \<Rightarrow> Orchestrator \<Rightarrow> Orchestrator" where
  "terminateRunning issueID cleanWorkspace s =
    (case map_of (running s) issueID of
       None \<Rightarrow> s
     | Some entry \<Rightarrow>
         let s1 = cancel_worker issueID s;
             s2 = release_claim issueID (s1\<lparr>running := mdel issueID (running s1)\<rparr>)
         in if cleanWorkspace then emit (CleanupWs (re_Identifier entry)) s2 else s2)"

section \<open>Handlers\<close>

definition startAsyncTick :: "env \<Rightarrow> Orchestrator \<Rightarrow> Orchestrator" where
  "startAsyncTick env s = emit (StartTick (e_cfg env) (running s)) s"

definition apply_action :: "env \<Rightarrow> reconcileAction \<Rightarrow> Orchestrator \<Rightarrow> Orchestrator" where
  "apply_action env action s =
    (case ra_Action action of
       reconcileUpdate \<Rightarrow>
         (case (map_of (running s) (ra_IssueID action), ra_Issue action) of
            (Some entry, Some issue) \<Rightarrow>
              s\<lparr>running := mput (ra_IssueID action) (entry\<lparr>re_Issue := issue\<rparr>) (running s)\<rparr>
          | _ \<Rightarrow> s)
     | reconcileTerminate \<Rightarrow> terminateRunning (ra_IssueID action) (ra_CleanupWorkspace action) s
     | reconcileStalled \<Rightarrow>
         (case map_of (running s) (ra_IssueID action) of
            None \<Rightarrow> s
          | Some entry \<Rightarrow>
              scheduleRetry env (ra_IssueID action) (re_Identifier entry) 1 ''stalled'' False
                (terminateRunning (ra_IssueID action) False s)))"

fun dispatch_loop :: "env \<Rightarrow> Issue list \<Rightarrow> Orchestrator \<Rightarrow> Orchestrator" where
  "dispatch_loop env [] s = s"
| "dispatch_loop env (c # cs) s =
    (if availableSlots (e_cfg env) s \<le> 0 then s
     else dispatch_loop env cs
       (if shouldDispatch (e_ul env) (e_cfg env) c s then dispatchIssue env c None s else s))"

definition handleTickResult :: "env \<Rightarrow> tickResult \<Rightarrow> Orchestrator \<Rightarrow> Orchestrator" where
  "handleTickResult env tr s =
    (let s1 = fold (apply_action env) (tr_ReconcileActions tr) s in
     if tr_Err tr \<noteq> None then s1
     else if ValidateForDispatch (e_cfg env) \<noteq> None then s1
     else dispatch_loop env (sortForDispatch (tr_Candidates tr)) s1)"

text \<open>The accounting and removal a worker exit does for a running issue.\<close>

definition retire_running :: "WorkerResult \<Rightarrow> RunningEntry \<Rightarrow> Orchestrator \<Rightarrow> Orchestrator" where
  "retire_running result entry s =
    (let ses = re_Session entry; t = totals s
     in cancel_worker (wr_IssueID result)
          (s\<lparr>totals := t\<lparr>at_NanosRunning := at_NanosRunning t + wr_Duration result,
                at_InputTokens := at_InputTokens t + ls_InputTokens ses,
                at_OutputTokens := at_OutputTokens t + ls_OutputTokens ses,
                at_TotalTokens := at_TotalTokens t + ls_TotalTokens ses\<rparr>,
             running := mdel (wr_IssueID result) (running s)\<rparr>))"

definition handleWorkerExit :: "env \<Rightarrow> WorkerResult \<Rightarrow> Orchestrator \<Rightarrow> Orchestrator" where
  "handleWorkerExit env result s =
    (let entry = map_of (running s) (wr_IssueID result);
         s1 = (case entry of Some en \<Rightarrow> retire_running result en s | None \<Rightarrow> s);
         cfg = e_cfg env; issueID = wr_IssueID result
     in case wr_ExitReason result of
          ExitReasonNormal \<Rightarrow>
            (let s2 = s1\<lparr>completed := insert issueID (completed s1)\<rparr>;
                 continuationAttempt = (case entry of None \<Rightarrow> 1 | Some en \<Rightarrow> re_RetryAttempt en + 1)
             in if continuationAttempt > MaxTurns cfg then release_claim issueID s2
                else scheduleRetry env issueID (wr_Identifier result) continuationAttempt [] True s2)
        | ExitReasonInactive \<Rightarrow> release_claim issueID s1
        | ExitReasonCanceled \<Rightarrow> release_claim issueID s1
        | _ \<Rightarrow>
            (case entry of
               None \<Rightarrow> s1
             | Some en \<Rightarrow>
                 let nextAttempt = re_RetryAttempt en + 1 in
                 if nextAttempt > MaxTurns cfg then release_claim issueID s1
                 else scheduleRetry env issueID (wr_Identifier result) nextAttempt
                   (case wr_Error result of None \<Rightarrow> [] | Some e \<Rightarrow> e) False s1))"

definition handleAgentUpdate :: "env \<Rightarrow> AgentUpdate \<Rightarrow> Orchestrator \<Rightarrow> Orchestrator" where
  "handleAgentUpdate env update s =
    (case map_of (running s) (au_IssueID update) of
       None \<Rightarrow> s
     | Some entry \<Rightarrow>
         let entry' = entry\<lparr>re_Session :=
               recordLiveSessionEvent (au_Event update) (e_now env) (re_Session entry)\<rparr>;
             s1 = s\<lparr>running := mput (au_IssueID update) entry' (running s)\<rparr>
         in if ev_RateLimits (au_Event update) \<noteq> None
            then s1\<lparr>rateLimits := ev_RateLimits (au_Event update)\<rparr> else s1)"

text \<open>\<open>fetched\<close> is the answer of \<open>FetchCandidateIssues\<close>, asked only when the retry is due.\<close>

definition handleRetryFired :: "env \<Rightarrow> retryFired \<Rightarrow> (string + Issue list) \<Rightarrow> Orchestrator \<Rightarrow> Orchestrator" where
  "handleRetryFired env rf fetched s =
    (case map_of (retryAttempts s) (rf_IssueID rf) of
       None \<Rightarrow> s
     | Some entry \<Rightarrow>
       if rt_Generation entry \<noteq> rf_Generation rf then s
       else
         let s1 = s\<lparr>retryAttempts := mdel (rf_IssueID rf) (retryAttempts s),
                    retryTimerMap := mdel (rf_IssueID rf) (retryTimerMap s)\<rparr>;
             cfg = e_cfg env
         in if rt_Attempt entry > MaxTurns cfg then release_claim (rf_IssueID rf) s1
            else case fetched of
                Inl _ \<Rightarrow> scheduleRetry env (rf_IssueID rf) (rt_Identifier entry)
                           (rt_Attempt entry + 1) ''retry poll failed'' False s1
              | Inr candidates \<Rightarrow>
                  (case find (\<lambda>c. i_ID c = rf_IssueID rf) candidates of
                     None \<Rightarrow> release_claim (rf_IssueID rf) s1
                   | Some found \<Rightarrow>
                       if availableSlots cfg s1 \<le> 0
                       then scheduleRetry env (rf_IssueID rf) (i_Identifier found)
                              (rt_Attempt entry + 1) ''no available orchestrator slots'' False s1
                       else dispatchIssue env found (Some (rt_Attempt entry)) s1))"

section \<open>Snapshots\<close>

definition running_snapshot :: "RunningEntry \<Rightarrow> RunningSnapshot" where
  "running_snapshot entry =
    (let ses = re_Session entry in
     \<lparr>rs_StartedAt = re_StartedAt entry, rs_LastEventAt = ls_LastAgentTimestamp ses,
      rs_IssueID = i_ID (re_Issue entry), rs_IssueIdentifier = re_Identifier entry,
      rs_State = i_State (re_Issue entry), rs_SessionID = ls_SessionID ses,
      rs_LastEvent = (case ls_LastAgentEvent ses of None \<Rightarrow> [] | Some e \<Rightarrow> e),
      rs_LastMessage = ls_LastAgentMessage ses,
      rs_Tokens = \<lparr>at_InputTokens = ls_InputTokens ses, at_OutputTokens = ls_OutputTokens ses,
                   at_TotalTokens = ls_TotalTokens ses, at_NanosRunning = 0\<rparr>,
      rs_TurnCount = ls_TurnCount ses\<rparr>)"

definition retry_snapshot :: "RetryEntry \<Rightarrow> RetrySnapshot" where
  "retry_snapshot entry =
    \<lparr>ts_DueAt = millis (rt_DueAtMs entry), ts_IssueID = rt_IssueID entry,
     ts_IssueIdentifier = rt_Identifier entry, ts_Error = rt_Error entry,
     ts_Attempt = rt_Attempt entry\<rparr>"

definition buildSnapshot :: "env \<Rightarrow> Orchestrator \<Rightarrow> Snapshot" where
  "buildSnapshot env s =
    (let t = totals s;
         live = sum_list (map (\<lambda>(k, en). e_now env - re_StartedAt en) (running s))
     in \<lparr>sn_GeneratedAt = e_now env,
         sn_Running = map (\<lambda>(k, en). running_snapshot en) (running s),
         sn_Retrying = map (\<lambda>(k, en). retry_snapshot en) (retryAttempts s),
         sn_RateLimits = rateLimits s,
         sn_Totals = t\<lparr>at_NanosRunning := at_NanosRunning t + live\<rparr>\<rparr>)"

section \<open>Reconciliation\<close>

text \<open>
  \<open>reconcileAndFetch\<close> runs in its own goroutine on a copy of the running entries;
  \<open>refreshed\<close> and \<open>fetched\<close> are the answers of \<open>FetchIssueStatesByIDs\<close> (asked only when
  something runs) and \<open>FetchCandidateIssues\<close>.
\<close>

definition stalled_actions :: "env \<Rightarrow> (string, RunningEntry) gomap \<Rightarrow> reconcileAction list" where
  "stalled_actions env snapshot =
    (if AgentStallTimeoutMs (e_cfg env) > 0
     then map (\<lambda>(issueID, entry). \<lparr>ra_Issue = None, ra_IssueID = issueID,
              ra_Action = reconcileStalled, ra_CleanupWorkspace = False\<rparr>)
          (filter (\<lambda>(issueID, entry).
              Milliseconds (e_now env - (case ls_LastAgentTimestamp (re_Session entry) of
                  Some t \<Rightarrow> t | None \<Rightarrow> re_StartedAt entry)) > AgentStallTimeoutMs (e_cfg env)) snapshot)
     else [])"

definition refresh_action :: "env \<Rightarrow> string \<Rightarrow> Issue \<Rightarrow> reconcileAction" where
  "refresh_action env issueID issue =
    (let cfg = e_cfg env; ul = e_ul env; normState = NormalizeState ul (i_State issue) in
     if state_in ul (TerminalStates cfg) normState
     then \<lparr>ra_Issue = None, ra_IssueID = issueID, ra_Action = reconcileTerminate, ra_CleanupWorkspace = True\<rparr>
     else if state_in ul (ActiveStates cfg) normState
     then \<lparr>ra_Issue = Some issue, ra_IssueID = issueID, ra_Action = reconcileUpdate, ra_CleanupWorkspace = False\<rparr>
     else \<lparr>ra_Issue = None, ra_IssueID = issueID, ra_Action = reconcileTerminate, ra_CleanupWorkspace = False\<rparr>)"

definition refresh_actions :: "env \<Rightarrow> (string, RunningEntry) gomap \<Rightarrow> Issue list \<Rightarrow> reconcileAction list" where
  "refresh_actions env snapshot refreshed =
    (let refreshMap = fold (\<lambda>i m. mput (i_ID i) i m) refreshed [] in
     concat (map (\<lambda>(issueID, entry). case map_of refreshMap issueID of
         None \<Rightarrow> [] | Some issue \<Rightarrow> [refresh_action env issueID issue]) snapshot))"

definition reconcileAndFetch :: "env \<Rightarrow> (string, RunningEntry) gomap \<Rightarrow> (string + Issue list) \<Rightarrow>
    (string + Issue list) \<Rightarrow> tickResult" where
  "reconcileAndFetch env snapshot refreshed fetched =
    (let actions = stalled_actions env snapshot @
           (if snapshot \<noteq> []
            then (case refreshed of Inl _ \<Rightarrow> [] | Inr is \<Rightarrow> refresh_actions env snapshot is)
            else [])
     in case fetched of
          Inl err \<Rightarrow> \<lparr>tr_Err = Some err, tr_ReconcileActions = actions, tr_Candidates = []\<rparr>
        | Inr cs \<Rightarrow> \<lparr>tr_Err = None, tr_ReconcileActions = actions, tr_Candidates = cs\<rparr>)"

section \<open>Startup and the event loop\<close>

definition startupCleanup :: "env \<Rightarrow> (string + Issue list) \<Rightarrow> Orchestrator \<Rightarrow> Orchestrator" where
  "startupCleanup env terminal s =
    (if TerminalStates (e_cfg env) = [] then s
     else case terminal of
         Inl _ \<Rightarrow> s
       | Inr issues \<Rightarrow> fold (\<lambda>i. emit (CleanupWs (i_Identifier i))) issues s)"

record loop =
  lp_orch :: Orchestrator
  lp_tickInFlight :: bool
  lp_done :: bool

datatype loop_event =
    EvTicker
  | EvTickResult tickResult
  | EvWorkerResult WorkerResult
  | EvAgentUpdate AgentUpdate
  | EvRetryTimer retryFired "string + Issue list"
  | EvSnapshotReq
  | EvRefreshReq
  | EvCtxDone

text \<open>\<open>Run\<close> up to its loop: validation, startup cleanup, the ticker and the first tick.\<close>

definition Run_start :: "env \<Rightarrow> (string + Issue list) \<Rightarrow> Orchestrator \<Rightarrow> config_check list + loop" where
  "Run_start env terminal s =
    (case ValidateForDispatch (e_cfg env) of
       Some err \<Rightarrow> Inl err
     | None \<Rightarrow>
         Inr \<lparr>lp_orch = startAsyncTick env
                (emit (ResetTicker (millis (PollIntervalMs (e_cfg env)))) (startupCleanup env terminal s)),
              lp_tickInFlight = True, lp_done = False\<rparr>)"

definition tick_if_idle :: "env \<Rightarrow> loop \<Rightarrow> loop" where
  "tick_if_idle env l =
    (if \<not> lp_tickInFlight l
     then l\<lparr>lp_orch := startAsyncTick env (lp_orch l), lp_tickInFlight := True\<rparr> else l)"

fun loop_case :: "env \<Rightarrow> loop_event \<Rightarrow> loop \<Rightarrow> loop" where
  "loop_case env EvTicker l = tick_if_idle env l"
| "loop_case env (EvTickResult tr) l =
    l\<lparr>lp_tickInFlight := False,
      lp_orch := emit (ResetTicker (millis (PollIntervalMs (e_cfg env)))) (handleTickResult env tr (lp_orch l))\<rparr>"
| "loop_case env (EvWorkerResult r) l = l\<lparr>lp_orch := handleWorkerExit env r (lp_orch l)\<rparr>"
| "loop_case env (EvAgentUpdate u) l = l\<lparr>lp_orch := handleAgentUpdate env u (lp_orch l)\<rparr>"
| "loop_case env (EvRetryTimer rf fetched) l = l\<lparr>lp_orch := handleRetryFired env rf fetched (lp_orch l)\<rparr>"
| "loop_case env EvSnapshotReq l =
    l\<lparr>lp_orch := emit (ReplySnapshot (buildSnapshot env (lp_orch l))) (lp_orch l)\<rparr>"
| "loop_case env EvRefreshReq l =
    (let l' = tick_if_idle env l in l'\<lparr>lp_orch := emit CloseRefresh (lp_orch l')\<rparr>)"
| "loop_case env EvCtxDone l = l\<lparr>lp_orch := emit CancelAll (lp_orch l), lp_done := True\<rparr>"

definition loop_step :: "(env \<times> loop_event) \<Rightarrow> loop \<Rightarrow> loop" where
  "loop_step ee l = (if lp_done l then l else loop_case (fst ee) (snd ee) l)"

end
