(* ===== verification/SymphonyInvariants.thy ===== *)
theory SymphonyInvariants
  imports SymphonyOrchestrator
begin

text \<open>
  What the orchestrator keeps true whatever events arrive and in whatever order
  (\<open>orch_ok\<close>), the bound on concurrent workers, and the uniqueness of an issue's live
  worker. Each handler is shown to keep the invariant from three primitives (dispatch,
  retire, schedule a retry); the event loop is an interpretation of \<open>invariant_machine\<close>.
\<close>

section \<open>The invariant\<close>

definition retry_ok :: "Orchestrator \<Rightarrow> bool" where
  "retry_ok s \<longleftrightarrow> (\<forall>k e. map_of (retryAttempts s) k = Some e \<longrightarrow>
     rt_IssueID e = k \<and> rt_Generation e \<le> nextGen s \<and>
     map_of (retryTimerMap s) k = Some (rt_Generation e))"

definition timers_ok :: "Orchestrator \<Rightarrow> bool" where
  "timers_ok s \<longleftrightarrow> (\<forall>k k' t. map_of (retryTimerMap s) k = Some t \<longrightarrow>
     t \<le> nextGen s \<and> (map_of (retryTimerMap s) k' = Some t \<longrightarrow> k' = k))"

definition maps_ok :: "Orchestrator \<Rightarrow> bool" where
  "maps_ok s \<longleftrightarrow> wf_map (running s) \<and> wf_map (workerCancels s) \<and>
     wf_map (retryAttempts s) \<and> wf_map (retryTimerMap s)"

definition owners_ok :: "Orchestrator \<Rightarrow> bool" where
  "owners_ok s \<longleftrightarrow> keys (workerCancels s) = keys (running s) \<and>
     keys (running s) \<subseteq> claimed s \<and> keys (running s) \<inter> keys (retryAttempts s) = {}"

definition orch_ok :: "Orchestrator \<Rightarrow> bool" where
  "orch_ok s \<longleftrightarrow> maps_ok s \<and> owners_ok s \<and> retry_ok s \<and> timers_ok s"

lemmas orch_ok_defs = orch_ok_def maps_ok_def owners_ok_def retry_ok_def timers_ok_def

lemma orch_ok_New: "orch_ok New"
  by (simp add: orch_ok_defs New_def)

lemma emit_fields [simp]:
  "running (emit e s) = running s" "workerCancels (emit e s) = workerCancels s"
  "claimed (emit e s) = claimed s" "retryAttempts (emit e s) = retryAttempts s"
  "retryTimerMap (emit e s) = retryTimerMap s" "nextGen (emit e s) = nextGen s"
  "nextCtx (emit e s) = nextCtx s" "totals (emit e s) = totals s"
  "completed (emit e s) = completed s" "rateLimits (emit e s) = rateLimits s"
  "effects (emit e s) = effects s @ [e]"
  by (simp_all add: emit_def)

lemma orch_ok_emit [simp]: "orch_ok (emit e s) = orch_ok s"
  by (simp add: orch_ok_defs)

lemma release_fields [simp]:
  "running (release_claim i s) = running s" "workerCancels (release_claim i s) = workerCancels s"
  "claimed (release_claim i s) = claimed s - {i}" "retryAttempts (release_claim i s) = retryAttempts s"
  "retryTimerMap (release_claim i s) = retryTimerMap s" "nextGen (release_claim i s) = nextGen s"
  "nextCtx (release_claim i s) = nextCtx s" "effects (release_claim i s) = effects s"
  "totals (release_claim i s) = totals s"
  by (simp_all add: release_claim_def)

lemma orch_ok_release: "orch_ok s \<Longrightarrow> i \<notin> keys (running s) \<Longrightarrow> orch_ok (release_claim i s)"
  by (auto simp: orch_ok_defs)

section \<open>The primitives\<close>

lemma cancel_fields [simp]:
  "running (cancel_worker i s) = running s" "claimed (cancel_worker i s) = claimed s"
  "retryAttempts (cancel_worker i s) = retryAttempts s"
  "retryTimerMap (cancel_worker i s) = retryTimerMap s"
  "nextGen (cancel_worker i s) = nextGen s" "nextCtx (cancel_worker i s) = nextCtx s"
  "totals (cancel_worker i s) = totals s"
  "keys (workerCancels (cancel_worker i s)) = keys (workerCancels s) - {i}"
  by (auto simp: cancel_worker_def lookup_None_keys split: option.splits)

lemma cancel_wf: "wf_map (workerCancels s) \<Longrightarrow> wf_map (workerCancels (cancel_worker i s))"
  by (simp add: cancel_worker_def split: option.splits)

text \<open>The removal of a running issue: by an exit, or by reconciliation.\<close>

lemma orch_ok_remove:
  assumes "orch_ok s" and "running s' = mdel i (running s)"
    and "workerCancels s' = workerCancels (cancel_worker i s)"
    and "claimed s' = claimed s \<or> claimed s' = claimed s - {i}"
    and "retryAttempts s' = retryAttempts s" and "retryTimerMap s' = retryTimerMap s"
    and "nextGen s' = nextGen s"
  shows "orch_ok s'"
proof -
  have m: "maps_ok s'" using assms cancel_wf [of s i] by (simp add: orch_ok_def maps_ok_def)
  have c: "i \<notin> keys (running s')" "keys (running s') \<subseteq> keys (running s)" "claimed s - {i} \<subseteq> claimed s'"
    using assms by auto
  have "owners_ok s'" using assms c by (auto simp: orch_ok_def owners_ok_def)
  moreover have "retry_ok s'" "timers_ok s'" using assms by (simp_all add: orch_ok_def retry_ok_def timers_ok_def)
  ultimately show ?thesis using m by (simp add: orch_ok_def)
qed

lemma terminate_running [simp]: "running (terminateRunning i c s) = mdel i (running s)"
  by (auto simp: terminateRunning_def Let_def lookup_None_keys mdel_idem split: option.splits)

lemma terminate_fields [simp]:
  "retryAttempts (terminateRunning i c s) = retryAttempts s"
  "retryTimerMap (terminateRunning i c s) = retryTimerMap s"
  "nextGen (terminateRunning i c s) = nextGen s" "nextCtx (terminateRunning i c s) = nextCtx s"
  "totals (terminateRunning i c s) = totals s"
  by (simp_all add: terminateRunning_def Let_def split: option.splits)

lemma terminate_claimed:
  "claimed (terminateRunning i c s) = (if i \<in> keys (running s) then claimed s - {i} else claimed s)"
  by (auto simp: terminateRunning_def Let_def lookup_None_keys dest: lookup_in_keys split: option.splits)

lemma orch_ok_terminate:
  assumes ok: "orch_ok s"
  shows "orch_ok (terminateRunning i c s)"
proof (cases "map_of (running s) i")
  case None
  then show ?thesis using ok by (simp add: terminateRunning_def)
next
  case (Some en)
  show ?thesis
  proof (rule orch_ok_remove [OF ok, of _ i])
    show "workerCancels (terminateRunning i c s) = workerCancels (cancel_worker i s)"
      using Some by (simp add: terminateRunning_def Let_def)
    show "claimed (terminateRunning i c s) = claimed s \<or>
        claimed (terminateRunning i c s) = claimed s - {i}"
      by (simp add: terminate_claimed)
  qed simp_all
qed

lemma retire_fields [simp]:
  "running (retire_running r en s) = mdel (wr_IssueID r) (running s)"
  "claimed (retire_running r en s) = claimed s"
  "retryAttempts (retire_running r en s) = retryAttempts s"
  "retryTimerMap (retire_running r en s) = retryTimerMap s"
  "nextGen (retire_running r en s) = nextGen s"
  "nextCtx (retire_running r en s) = nextCtx s"
  "workerCancels (retire_running r en s) = workerCancels (cancel_worker (wr_IssueID r) s)"
  by (simp_all add: retire_running_def Let_def)
     (simp add: cancel_worker_def split: option.splits)

lemma orch_ok_retire: "orch_ok s \<Longrightarrow> orch_ok (retire_running r en s)"
  by (rule orch_ok_remove [of s _ "wr_IssueID r"]) simp_all

lemma schedule_fields [simp]:
  "running (scheduleRetry env i d a m c s) = running s"
  "workerCancels (scheduleRetry env i d a m c s) = workerCancels s"
  "claimed (scheduleRetry env i d a m c s) = claimed s"
  "nextCtx (scheduleRetry env i d a m c s) = nextCtx s"
  "totals (scheduleRetry env i d a m c s) = totals s"
  "nextGen (scheduleRetry env i d a m c s) = Suc (nextGen s)"
  by (simp_all add: scheduleRetry_def Let_def split: option.splits)

definition retry_delay :: "env \<Rightarrow> int \<Rightarrow> bool \<Rightarrow> int" where
  "retry_delay env a c = (if c then 1000 else backoffDelayMs a (MaxRetryBackoffMs (e_cfg env)))"

lemma schedule_retry [simp]:
  "map_of (retryAttempts (scheduleRetry env i d a m c s)) k =
    (if k = i then Some \<lparr>rt_IssueID = i, rt_Identifier = d, rt_Error = m, rt_Attempt = a,
        rt_DueAtMs = UnixMilli (e_now env + millis (retry_delay env a c)),
        rt_Generation = Suc (nextGen s)\<rparr>
     else map_of (retryAttempts s) k)"
  "keys (retryAttempts (scheduleRetry env i d a m c s)) = insert i (keys (retryAttempts s))"
  "map_of (retryTimerMap (scheduleRetry env i d a m c s)) k =
    (if k = i then Some (Suc (nextGen s)) else map_of (retryTimerMap s) k)"
  by (simp_all add: scheduleRetry_def Let_def retry_delay_def split: option.splits)

lemma schedule_wf:
  "wf_map (retryAttempts s) \<Longrightarrow> wf_map (retryAttempts (scheduleRetry env i d a m c s))"
  "wf_map (retryTimerMap s) \<Longrightarrow> wf_map (retryTimerMap (scheduleRetry env i d a m c s))"
  by (simp_all add: scheduleRetry_def Let_def split: option.splits)

lemma orch_ok_schedule:
  assumes "orch_ok s" and "i \<notin> keys (running s)"
  shows "orch_ok (scheduleRetry env i d a m c s)"
proof -
  let ?s = "scheduleRetry env i d a m c s"
  have "maps_ok ?s" using assms by (simp add: orch_ok_def maps_ok_def schedule_wf)
  moreover have "owners_ok ?s" using assms by (auto simp: orch_ok_def owners_ok_def)
  moreover have "retry_ok ?s" using assms by (auto simp: orch_ok_def retry_ok_def intro: le_SucI)
  moreover have "timers_ok ?s" using assms
    by (fastforce simp: orch_ok_def timers_ok_def)
  ultimately show ?thesis by (simp add: orch_ok_def)
qed

lemma dispatch_fields [simp]:
  "keys (running (dispatchIssue env iss att s)) = insert (i_ID iss) (keys (running s))"
  "claimed (dispatchIssue env iss att s) = insert (i_ID iss) (claimed s)"
  "retryAttempts (dispatchIssue env iss att s) = mdel (i_ID iss) (retryAttempts s)"
  "retryTimerMap (dispatchIssue env iss att s) = retryTimerMap s"
  "nextGen (dispatchIssue env iss att s) = nextGen s"
  "nextCtx (dispatchIssue env iss att s) = Suc (nextCtx s)"
  "workerCancels (dispatchIssue env iss att s) = mput (i_ID iss) (nextCtx s) (workerCancels s)"
  "effects (dispatchIssue env iss att s) = effects s @ [StartWorker (nextCtx s) iss att (e_cfg env)]"
  by (simp_all add: dispatchIssue_def Let_def)

lemma dispatch_wf: "wf_map (running s) \<Longrightarrow> wf_map (running (dispatchIssue env iss att s))"
  by (simp add: dispatchIssue_def Let_def)

lemma orch_ok_dispatch:
  assumes "orch_ok s"
  shows "orch_ok (dispatchIssue env iss att s)"
  using assms dispatch_wf [of s env iss att] by (auto simp: orch_ok_defs)

section \<open>The handlers\<close>

lemma orch_ok_apply_action:
  assumes ok: "orch_ok s"
  shows "orch_ok (apply_action env a s)"
proof (cases "ra_Action a")
  case reconcileUpdate
  have "orch_ok (s\<lparr>running := mput (ra_IssueID a) en (running s)\<rparr>)"
    if "map_of (running s) (ra_IssueID a) = Some x" for en x
    using ok lookup_in_keys [OF that] by (auto simp: orch_ok_defs)
  with ok reconcileUpdate show ?thesis
    by (auto simp: apply_action_def split: option.splits)
next
  case reconcileTerminate
  then show ?thesis using ok by (simp add: apply_action_def orch_ok_terminate)
next
  case reconcileStalled
  then show ?thesis using ok
    by (auto simp: apply_action_def orch_ok_terminate split: option.splits intro!: orch_ok_schedule)
qed

lemma orch_ok_actions: "orch_ok s \<Longrightarrow> orch_ok (fold (apply_action env) as s)"
  by (induction as arbitrary: s) (auto simp: orch_ok_apply_action)

lemma orch_ok_dispatch_loop: "orch_ok s \<Longrightarrow> orch_ok (dispatch_loop env cs s)"
  by (induction cs arbitrary: s) (auto simp: orch_ok_dispatch)

lemma orch_ok_tick: "orch_ok s \<Longrightarrow> orch_ok (handleTickResult env tr s)"
  by (simp add: handleTickResult_def Let_def orch_ok_actions orch_ok_dispatch_loop)

lemma orch_ok_completed: "orch_ok s \<Longrightarrow> orch_ok (s\<lparr>completed := X\<rparr>)"
  by (simp add: orch_ok_defs)

text \<open>The state after the removal that starts every worker exit.\<close>

definition after_exit :: "WorkerResult \<Rightarrow> Orchestrator \<Rightarrow> Orchestrator" where
  "after_exit r s = (case map_of (running s) (wr_IssueID r) of
     Some en \<Rightarrow> retire_running r en s | None \<Rightarrow> s)"

lemma after_exit_gone: "wr_IssueID r \<notin> keys (running (after_exit r s))"
  by (auto simp: after_exit_def lookup_None_keys split: option.splits)

lemma after_exit_running: "running (after_exit r s) = mdel (wr_IssueID r) (running s)"
  by (auto simp: after_exit_def lookup_None_keys mdel_idem split: option.splits)

lemma orch_ok_after_exit: "orch_ok s \<Longrightarrow> orch_ok (after_exit r s)"
  by (simp add: after_exit_def orch_ok_retire split: option.splits)

text \<open>Every exit ends in one of three ways: nothing more, a released claim, a retry.\<close>

lemma handleWorkerExit_cases:
  obtains "handleWorkerExit env r s = after_exit r s"
  | C where "handleWorkerExit env r s = release_claim (wr_IssueID r) ((after_exit r s)\<lparr>completed := C\<rparr>)"
  | C a m c where "handleWorkerExit env r s =
      scheduleRetry env (wr_IssueID r) (wr_Identifier r) a m c ((after_exit r s)\<lparr>completed := C\<rparr>)"
      and "a \<le> MaxTurns (e_cfg env)"
proof -
  let ?t = "after_exit r s" and ?i = "wr_IssueID r"
  note unf = handleWorkerExit_def Let_def after_exit_def [symmetric]
  consider (normal) "wr_ExitReason r = ExitReasonNormal"
    | (drop) "wr_ExitReason r \<in> {ExitReasonInactive, ExitReasonCanceled}"
    | (fail) "wr_ExitReason r \<in> {ExitReasonFailed, ExitReasonTimedOut, ExitReasonStalled}"
    by (cases "wr_ExitReason r") auto
  then show thesis
  proof cases
    case normal
    let ?a = "case map_of (running s) ?i of None \<Rightarrow> 1 | Some en \<Rightarrow> re_RetryAttempt en + 1"
    show thesis
    proof (cases "?a > MaxTurns (e_cfg env)")
      case True
      with normal that(2) [of "insert ?i (completed ?t)"] show thesis by (simp add: unf)
    next
      case False
      with normal that(3) [of ?a "[]" True "insert ?i (completed ?t)"] show thesis by (simp add: unf)
    qed
  next
    case drop
    with that(2) [of "completed ?t"] show thesis by (auto simp: unf)
  next
    case fail
    show thesis
    proof (cases "map_of (running s) ?i")
      case None
      then have "handleWorkerExit env r s = s" "after_exit r s = s"
        using fail by (auto simp: handleWorkerExit_def after_exit_def Let_def)
      with that(1) show thesis by simp
    next
      case (Some en)
      let ?m = "case wr_Error r of None \<Rightarrow> [] | Some e \<Rightarrow> e"
      have e: "handleWorkerExit env r s = (if re_RetryAttempt en + 1 > MaxTurns (e_cfg env)
          then release_claim ?i ?t
          else scheduleRetry env ?i (wr_Identifier r) (re_RetryAttempt en + 1) ?m False ?t)"
        using fail Some by (auto simp: unf after_exit_def)
      show thesis
      proof (cases "re_RetryAttempt en + 1 > MaxTurns (e_cfg env)")
        case True
        with e that(2) [of "completed ?t"] show thesis by simp
      next
        case False
        with e that(3) [of "re_RetryAttempt en + 1" ?m False "completed ?t"] show thesis by simp
      qed
    qed
  qed
qed

lemma orch_ok_exit: "orch_ok s \<Longrightarrow> orch_ok (handleWorkerExit env r s)"
  by (rule handleWorkerExit_cases [of env r s])
     (simp_all add: orch_ok_after_exit orch_ok_release orch_ok_schedule orch_ok_completed after_exit_gone)

lemma orch_ok_update: "orch_ok s \<Longrightarrow> orch_ok (handleAgentUpdate env u s)"
  by (auto simp: handleAgentUpdate_def orch_ok_defs Let_def dest: lookup_in_keys split: option.splits)

definition retry_taken :: "retryFired \<Rightarrow> Orchestrator \<Rightarrow> Orchestrator" where
  "retry_taken rf s = s\<lparr>retryAttempts := mdel (rf_IssueID rf) (retryAttempts s),
     retryTimerMap := mdel (rf_IssueID rf) (retryTimerMap s)\<rparr>"

lemma retry_taken_fields [simp]:
  "running (retry_taken rf s) = running s" "claimed (retry_taken rf s) = claimed s"
  "workerCancels (retry_taken rf s) = workerCancels s"
  "retryAttempts (retry_taken rf s) = mdel (rf_IssueID rf) (retryAttempts s)"
  "retryTimerMap (retry_taken rf s) = mdel (rf_IssueID rf) (retryTimerMap s)"
  "effects (retry_taken rf s) = effects s" "nextCtx (retry_taken rf s) = nextCtx s"
  "nextGen (retry_taken rf s) = nextGen s"
  by (simp_all add: retry_taken_def)

lemma orch_ok_taken: "orch_ok s \<Longrightarrow> orch_ok (retry_taken rf s)"
  by (auto simp: orch_ok_defs)

lemma handleRetryFired_cases:
  obtains (stale) "handleRetryFired env rf f s = s"
  | (release) en where "map_of (retryAttempts s) (rf_IssueID rf) = Some en"
      "rt_Generation en = rf_Generation rf"
      "handleRetryFired env rf f s = release_claim (rf_IssueID rf) (retry_taken rf s)"
  | (again) en d m where "map_of (retryAttempts s) (rf_IssueID rf) = Some en"
      "rt_Generation en = rf_Generation rf" "rt_Attempt en \<le> MaxTurns (e_cfg env)"
      "handleRetryFired env rf f s =
        scheduleRetry env (rf_IssueID rf) d (rt_Attempt en + 1) m False (retry_taken rf s)"
  | (start) en c cs where "map_of (retryAttempts s) (rf_IssueID rf) = Some en"
      "rt_Generation en = rf_Generation rf" "rt_Attempt en \<le> MaxTurns (e_cfg env)"
      "f = Inr cs" "c \<in> set cs" "i_ID c = rf_IssueID rf"
      "0 < availableSlots (e_cfg env) (retry_taken rf s)"
      "handleRetryFired env rf f s = dispatchIssue env c (Some (rt_Attempt en)) (retry_taken rf s)"
proof (cases "map_of (retryAttempts s) (rf_IssueID rf)")
  case None
  then show thesis using that(1) by (simp add: handleRetryFired_def)
next
  case (Some en)
  show thesis
  proof (cases "rt_Generation en = rf_Generation rf")
    case False
    with Some show thesis using that(1) by (simp add: handleRetryFired_def)
  next
    case gen: True
    note unf = handleRetryFired_def Some gen Let_def retry_taken_def [symmetric]
    show thesis
    proof (cases "rt_Attempt en > MaxTurns (e_cfg env)")
      case True
      with Some gen show thesis using that(2) by (simp add: unf)
    next
      case cap: False
      show thesis
      proof (cases f)
        case (Inl e)
        with Some gen cap show thesis
          using that(3) [of en "rt_Identifier en" "''retry poll failed''"] by (simp add: unf)
      next
        case (Inr cs)
        show thesis
        proof (cases "find (\<lambda>c. i_ID c = rf_IssueID rf) cs")
          case None
          with Some gen cap Inr show thesis using that(2) by (simp add: unf)
        next
          case (Some c)
          then have c: "c \<in> set cs" "i_ID c = rf_IssueID rf"
            by (auto simp: find_Some_iff)
          show thesis
          proof (cases "availableSlots (e_cfg env) (retry_taken rf s) \<le> 0")
            case True
            then show thesis
              using that(3) [of en "i_Identifier c" "''no available orchestrator slots''"] Some \<open>map_of (retryAttempts s) (rf_IssueID rf) = Some en\<close> gen cap Inr
              by (simp add: unf)
          next
            case False
            then show thesis
              using that(4) [of en cs c] Some \<open>map_of (retryAttempts s) (rf_IssueID rf) = Some en\<close>
                gen cap Inr c
              by (simp add: unf)
          qed
        qed
      qed
    qed
  qed
qed

lemma retry_not_running:
  "orch_ok s \<Longrightarrow> map_of (retryAttempts s) i = Some en \<Longrightarrow> i \<notin> keys (running s)"
  by (auto simp: orch_ok_defs dest: lookup_in_keys)

lemma orch_ok_retry: "orch_ok s \<Longrightarrow> orch_ok (handleRetryFired env rf f s)"
  by (rule handleRetryFired_cases [of env rf f s])
     (auto intro!: orch_ok_release orch_ok_schedule orch_ok_dispatch orch_ok_taken
       dest: retry_not_running)

lemma orch_ok_cleanup: "orch_ok s \<Longrightarrow> orch_ok (startupCleanup env t s)"
proof -
  have "orch_ok s \<Longrightarrow> orch_ok (fold (\<lambda>i. emit (CleanupWs (i_Identifier i))) xs s)" for xs :: "Issue list" and s
    by (induction xs arbitrary: s) auto
  then show "orch_ok s \<Longrightarrow> ?thesis" by (auto simp: startupCleanup_def split: sum.splits)
qed

lemma orch_ok_start: "Run_start env t s = Inr l \<Longrightarrow> orch_ok s \<Longrightarrow> orch_ok (lp_orch l)"
  by (auto simp: Run_start_def startAsyncTick_def orch_ok_cleanup split: option.splits)

lemma orch_ok_case: "orch_ok (lp_orch l) \<Longrightarrow> orch_ok (lp_orch (loop_case env ev l))"
  by (cases ev) (simp_all add: tick_if_idle_def startAsyncTick_def orch_ok_tick orch_ok_exit
    orch_ok_update orch_ok_retry Let_def)

interpretation event_loop: invariant_machine loop_step "\<lambda>_. True" "\<lambda>l. orch_ok (lp_orch l)"
  by unfold_locales (simp add: loop_step_def orch_ok_case)

end
