(* ===== verification/SymphonyProperties.thy ===== *)
theory SymphonyProperties
  imports SymphonyInvariants
begin

text \<open>
  The properties of the symphony orchestrator: the invariant of every run, the bound on
  concurrent workers, the uniqueness of an issue's live worker, the dispatch order, the
  retry back-off and cap, stale timers, token accounting, and two sequences of events in
  which a stalled issue escapes its back-off and a late exit removes a newer worker.
\<close>

section \<open>Every run keeps the books\<close>

text \<open>C1. After \<open>Run\<close> has started, whatever events its loop receives and in whatever order
  (with any configuration and clock at each), the orchestrator's maps agree at every
  moment: the cancel functions are exactly those of the running issues, every running
  issue is claimed, no issue is both running and waiting for a retry, and each waiting
  retry has its own timer with the retry's generation.\<close>

theorem symphony_run_invariant:
  assumes "Run_start env terminal New = Inr l"
  shows "orch_ok (lp_orch (run_machine loop_step (take n evs) l))"
  by (rule event_loop.run_prefix_inv) (simp_all add: list_all_iff orch_ok_start [OF assms orch_ok_New])

definition sample_cfg :: ServiceConfig where
  "sample_cfg = \<lparr>Workflow = \<lparr>wf_Config = [], wf_PromptTemplate = []\<rparr>,
     MaxConcurrentByState = Some [(''todo'', 1)], ServerPort = None, HookAfterCreate = [],
     HookAfterRun = [], AgentType = ''codex'', AgentCommand = ''codex app-server'',
     TrackerKind = ''linear'', WorkspaceRoot = ''/tmp/ws'', AgentApprovalPolicy = [],
     HookBeforeRun = [], TrackerEndpoint = [], HookBeforeRemove = [],
     TrackerProjectSlug = ''proj'', TrackerAPIKey = ''key'', AgentTurnSandboxPolicy = [],
     AgentThreadSandbox = [], ActiveStates = [''Todo'', ''In Progress''],
     TerminalStates = [''Done''], PollIntervalMs = 30000, MaxRetryBackoffMs = 300000,
     MaxTurns = 3, AgentTurnTimeoutMs = 3600000, AgentReadTimeoutMs = 5000,
     AgentStallTimeoutMs = 300000, MaxConcurrentAgents = 2, HookTimeoutMs = 60000\<rparr>"

definition sample_env :: env where
  "sample_env = \<lparr>e_ul = id, e_cfg = sample_cfg, e_now = 0\<rparr>"

definition sample_issue :: "string \<Rightarrow> Issue" where
  "sample_issue i = \<lparr>i_Description = None, i_Priority = Some 1, i_BranchName = None, i_URL = None,
     i_CreatedAt = None, i_UpdatedAt = None, i_ID = i, i_Identifier = i, i_Title = ''t'',
     i_State = ''In Progress'', i_Labels = [], i_BlockedBy = []\<rparr>"

definition tick_with :: "reconcileAction list \<Rightarrow> Issue list \<Rightarrow> tickResult" where
  "tick_with acts cs = \<lparr>tr_Err = None, tr_ReconcileActions = acts, tr_Candidates = cs\<rparr>"

definition sample_loop :: loop where
  "sample_loop = \<lparr>lp_orch = startAsyncTick sample_env (emit (ResetTicker (millis 30000)) New),
     lp_tickInFlight = True, lp_done = False\<rparr>"

lemma sample_start: "Run_start sample_env (Inr []) New = Inr sample_loop"
  by (simp add: Run_start_def sample_env_def sample_cfg_def ValidateForDispatch_def Let_def
      IsValidAgentType_def startupCleanup_def sample_loop_def)

theorem symphony_run_invariant_witness:
  "orch_ok (lp_orch (run_machine loop_step
     (take 1 [(sample_env, EvTickResult (tick_with [] [sample_issue ''A'']))]) sample_loop))"
  by (rule symphony_run_invariant [OF sample_start])

section \<open>The bound on concurrent workers\<close>

definition slots_ok :: "ServiceConfig \<Rightarrow> Orchestrator \<Rightarrow> bool" where
  "slots_ok cfg s \<longleftrightarrow> int (length (running s)) \<le> max 0 (MaxConcurrentAgents cfg)"

lemma slots_le: "slots_ok cfg s \<Longrightarrow> length (running t) \<le> length (running s) \<Longrightarrow> slots_ok cfg t"
  by (simp add: slots_ok_def)

lemma slots_terminate: "slots_ok cfg s \<Longrightarrow> slots_ok cfg (terminateRunning i c s)"
  by (erule slots_le) (simp add: length_mdel_le)

lemma slots_action: "slots_ok cfg s \<Longrightarrow> slots_ok cfg (apply_action env a s)"
proof (cases "ra_Action a")
  case reconcileUpdate
  then show "slots_ok cfg s \<Longrightarrow> ?thesis"
    by (auto simp: apply_action_def length_mput lookup_in_keys elim!: slots_le split: option.splits)
qed (auto simp: apply_action_def slots_terminate length_mdel_le elim!: slots_le split: option.splits)

lemma slots_actions: "slots_ok cfg s \<Longrightarrow> slots_ok cfg (fold (apply_action env) as s)"
  by (induction as arbitrary: s) (auto simp: slots_action)

lemma slots_dispatch:
  assumes "0 < availableSlots cfg s"
  shows "slots_ok cfg (dispatchIssue env iss att s)"
proof -
  have "length (running (dispatchIssue env iss att s)) \<le> Suc (length (running s))"
    by (simp add: dispatchIssue_def Let_def length_mput_le)
  with assms show ?thesis
    by (simp add: slots_ok_def availableSlots_def Let_def split: if_splits)
qed

lemma slots_dispatch_loop: "slots_ok (e_cfg env) s \<Longrightarrow> slots_ok (e_cfg env) (dispatch_loop env cs s)"
  by (induction cs arbitrary: s) (auto simp: slots_dispatch)

lemma slots_exit: "slots_ok cfg s \<Longrightarrow> slots_ok cfg (handleWorkerExit env r s)"
  by (rule handleWorkerExit_cases [of env r s])
     (auto simp: after_exit_running length_mdel_le elim!: slots_le)

lemma slots_update: "slots_ok cfg s \<Longrightarrow> slots_ok cfg (handleAgentUpdate env u s)"
  by (erule slots_le)
     (auto simp: handleAgentUpdate_def Let_def length_mput lookup_in_keys split: option.splits)

lemma slots_retry: "slots_ok (e_cfg env) s \<Longrightarrow> slots_ok (e_cfg env) (handleRetryFired env rf f s)"
  by (rule handleRetryFired_cases [of env rf f s]) (auto simp: slots_dispatch elim!: slots_le)

lemma slots_emit [simp]: "slots_ok cfg (emit e s) = slots_ok cfg s"
  by (simp add: slots_ok_def)

lemma slots_case:
  "slots_ok (e_cfg env) (lp_orch l) \<Longrightarrow> slots_ok (e_cfg env) (lp_orch (loop_case env ev l))"
  by (cases ev) (simp_all add: tick_if_idle_def startAsyncTick_def handleTickResult_def Let_def
    slots_exit slots_update slots_retry slots_actions slots_dispatch_loop)

definition fixed_cfg :: "ServiceConfig \<Rightarrow> env \<times> loop_event \<Rightarrow> bool" where
  "fixed_cfg cfg ee \<longleftrightarrow> e_cfg (fst ee) = cfg"

interpretation slots: invariant_machine loop_step "fixed_cfg cfg" "\<lambda>l. slots_ok cfg (lp_orch l)"
  for cfg
  by unfold_locales (auto simp: loop_step_def fixed_cfg_def slots_case)

lemma cleanup_running [simp]: "running (startupCleanup env t s) = running s"
proof -
  have "running (fold (\<lambda>i. emit (CleanupWs (i_Identifier i))) xs s) = running s" for xs :: "Issue list" and s
    by (induction xs arbitrary: s) auto
  then show ?thesis by (simp add: startupCleanup_def split: sum.splits)
qed

lemma slots_start: "Run_start env t New = Inr l \<Longrightarrow> slots_ok cfg (lp_orch l)"
  by (auto simp: Run_start_def startAsyncTick_def slots_ok_def split: option.splits)
    (simp_all add: New_def)

text \<open>C7. While the configuration stays the same, the number of running issues never exceeds
  \<open>max_concurrent_agents\<close> (and is 0 when that is negative), at any moment of any run.\<close>

theorem symphony_concurrency_bound:
  assumes "Run_start env terminal New = Inr l" and "list_all (fixed_cfg cfg) evs"
  shows "int (length (running (lp_orch (run_machine loop_step evs l)))) \<le> max 0 (MaxConcurrentAgents cfg)"
  using slots.run_inv [OF slots_start [OF assms(1)] assms(2)] by (simp add: slots_ok_def)

theorem symphony_concurrency_bound_witness:
  "int (length (running (lp_orch (run_machine loop_step
     [(sample_env, EvTickResult (tick_with [] (map sample_issue [''A'', ''B'', ''C''])))] sample_loop))))
   \<le> max 0 (MaxConcurrentAgents sample_cfg)"
  by (rule symphony_concurrency_bound [OF sample_start])
     (simp add: fixed_cfg_def sample_env_def)

section \<open>One live worker per issue\<close>

definition live_ok :: "Orchestrator \<Rightarrow> bool" where
  "live_ok s \<longleftrightarrow> (\<forall>c iss att cfg. StartWorker c iss att cfg \<in> set (effects s) \<longrightarrow>
     c < nextCtx s \<and>
     (CancelWorker c \<in> set (effects s) \<or> map_of (workerCancels s) (i_ID iss) = Some c))"

definition not_start :: "effect \<Rightarrow> bool" where
  "not_start e \<longleftrightarrow> (\<forall>c iss att cfg. e \<noteq> StartWorker c iss att cfg)"

lemma not_start_simps [simp]:
  "not_start (CancelWorker c)" "not_start (StartTimer n i d)" "not_start (StopTimer n)"
  "not_start (CleanupWs i)" "not_start (StartTick cfg m)" "not_start (ReplySnapshot sn)"
  "not_start CloseRefresh" "not_start (ResetTicker d)" "not_start CancelAll"
  by (simp_all add: not_start_def)

lemma live_emit: "live_ok s \<Longrightarrow> not_start e \<Longrightarrow> live_ok (emit e s)"
  by (auto simp: live_ok_def not_start_def)

lemma live_same:
  "live_ok s \<Longrightarrow> effects t = effects s \<Longrightarrow> nextCtx t = nextCtx s \<Longrightarrow>
   workerCancels t = workerCancels s \<Longrightarrow> live_ok t"
  by (simp add: live_ok_def)

lemma live_cancel: "live_ok s \<Longrightarrow> live_ok (cancel_worker i s)"
  by (fastforce simp: cancel_worker_def live_ok_def split: option.splits)

lemma live_schedule: "live_ok s \<Longrightarrow> live_ok (scheduleRetry env i d a m c s)"
proof -
  assume "live_ok s"
  then have "live_ok (case map_of (retryTimerMap s) i of
      Some t \<Rightarrow> emit (StopTimer t) (s\<lparr>retryTimerMap := mdel i (retryTimerMap s)\<rparr>) | None \<Rightarrow> s)"
    by (auto intro!: live_emit elim: live_same split: option.splits)
  then show ?thesis
    unfolding scheduleRetry_def Let_def by (intro live_emit) (auto elim: live_same)
qed

lemma live_dispatch:
  assumes "live_ok s" and "orch_ok s" and "i_ID iss \<notin> keys (running s)"
  shows "live_ok (dispatchIssue env iss att s)"
proof -
  have "i_ID iss \<notin> keys (workerCancels s)" using assms by (auto simp: orch_ok_defs)
  then have "map_of (workerCancels s) (i_ID iss) = None" by (simp add: lookup_None_keys)
  with assms(1) show ?thesis by (fastforce simp: live_ok_def)
qed

lemma live_terminate: "live_ok s \<Longrightarrow> live_ok (terminateRunning i c s)"
proof (cases "map_of (running s) i")
  case (Some en)
  assume "live_ok s"
  then have "live_ok (cancel_worker i s)" by (rule live_cancel)
  then have "live_ok (release_claim i ((cancel_worker i s)\<lparr>running := mdel i (running s)\<rparr>))"
    by (rule live_same) simp_all
  with Some show ?thesis by (simp add: terminateRunning_def Let_def live_emit)
qed (simp add: terminateRunning_def)

lemma live_action: "live_ok s \<Longrightarrow> live_ok (apply_action env a s)"
  by (cases "ra_Action a")
     (auto simp: apply_action_def live_terminate live_schedule elim: live_same split: option.splits)

lemma live_actions: "live_ok s \<Longrightarrow> live_ok (fold (apply_action env) as s)"
  by (induction as arbitrary: s) (auto simp: live_action)

lemma shouldDispatch_not_running: "shouldDispatch ul cfg i s \<Longrightarrow> i_ID i \<notin> keys (running s)"
  by (auto simp: shouldDispatch_def lookup_None_keys split: if_splits)

lemma live_dispatch_loop: "live_ok s \<Longrightarrow> orch_ok s \<Longrightarrow> live_ok (dispatch_loop env cs s)"
  by (induction cs arbitrary: s)
     (auto simp: live_dispatch orch_ok_dispatch shouldDispatch_not_running)

lemma live_tick: "live_ok s \<Longrightarrow> orch_ok s \<Longrightarrow> live_ok (handleTickResult env tr s)"
  by (simp add: handleTickResult_def Let_def live_actions live_dispatch_loop orch_ok_actions)

lemma live_after_exit: "live_ok s \<Longrightarrow> live_ok (after_exit r s)"
proof (cases "map_of (running s) (wr_IssueID r)")
  case (Some en)
  assume "live_ok s"
  then show ?thesis using Some
    by (auto simp: after_exit_def retire_running_def Let_def intro!: live_cancel elim: live_same)
qed (simp add: after_exit_def)

lemma live_release: "live_ok (release_claim i s) = live_ok s"
  by (simp add: live_ok_def)

lemma live_completed: "live_ok (s\<lparr>completed := C\<rparr>) = live_ok s"
  by (simp add: live_ok_def)

lemma live_exit: "live_ok s \<Longrightarrow> live_ok (handleWorkerExit env r s)"
  by (rule handleWorkerExit_cases [of env r s])
     (simp_all add: live_after_exit live_release live_completed live_schedule)

lemma live_update: "live_ok s \<Longrightarrow> live_ok (handleAgentUpdate env u s)"
  by (erule live_same) (auto simp: handleAgentUpdate_def Let_def split: option.splits)

lemma live_taken: "live_ok s \<Longrightarrow> live_ok (retry_taken rf s)"
  by (rule live_same) simp_all

lemma live_retry: "live_ok s \<Longrightarrow> orch_ok s \<Longrightarrow> live_ok (handleRetryFired env rf f s)"
  by (rule handleRetryFired_cases [of env rf f s])
     (simp_all add: live_schedule live_taken live_release live_dispatch orch_ok_taken retry_not_running)

lemma live_case:
  "live_ok (lp_orch l) \<Longrightarrow> orch_ok (lp_orch l) \<Longrightarrow> live_ok (lp_orch (loop_case env ev l))"
  by (cases ev) (auto simp: tick_if_idle_def startAsyncTick_def live_tick live_exit
    live_update live_retry Let_def intro!: live_emit)

interpretation live: invariant_machine loop_step "\<lambda>_. True"
  "\<lambda>l. orch_ok (lp_orch l) \<and> live_ok (lp_orch l)"
  by unfold_locales (simp add: loop_step_def orch_ok_case live_case)

lemma live_start: "Run_start env t New = Inr l \<Longrightarrow> live_ok (lp_orch l)"
proof -
  have "live_ok s \<Longrightarrow> live_ok (fold (\<lambda>i. emit (CleanupWs (i_Identifier i))) xs s)" for xs :: "Issue list" and s
    by (induction xs arbitrary: s) (auto simp: live_emit)
  moreover have "live_ok New" by (simp add: live_ok_def New_def)
  ultimately show "Run_start env t New = Inr l \<Longrightarrow> ?thesis"
    by (auto simp: Run_start_def startAsyncTick_def startupCleanup_def intro!: live_emit
        split: option.splits sum.splits if_splits)
qed

text \<open>C5. At any moment of any run, two workers that were started for the same issue and whose
  contexts have not been cancelled are the same worker: the orchestrator never has two live
  workers on one issue.\<close>

theorem symphony_one_live_worker:
  assumes "Run_start env terminal New = Inr l"
    and "s = lp_orch (run_machine loop_step evs l)"
    and "StartWorker c iss att cfg \<in> set (effects s)" and "CancelWorker c \<notin> set (effects s)"
    and "StartWorker c' iss' att' cfg' \<in> set (effects s)" and "CancelWorker c' \<notin> set (effects s)"
    and "i_ID iss = i_ID iss'"
  shows "c = c'"
proof -
  have "live_ok s"
    using live.run_inv [of l evs] orch_ok_start [OF assms(1) orch_ok_New] live_start [OF assms(1)]
    by (simp add: assms(2) list_all_iff)
  then have "map_of (workerCancels s) (i_ID iss) = Some c"
    and "map_of (workerCancels s) (i_ID iss') = Some c'"
    using assms(3-6) by (auto simp: live_ok_def)
  with assms(7) show ?thesis by simp
qed

text \<open>The run of the witnesses: the first tick finds issue A and starts its worker.\<close>

definition started_A :: Orchestrator where
  "started_A = handleTickResult sample_env (tick_with [] [sample_issue ''A'']) (lp_orch sample_loop)"

lemmas sample_defs = sample_env_def sample_cfg_def sample_issue_def sample_loop_def tick_with_def

lemmas orchestrator_eval = handleTickResult_def sortForDispatch_def shouldDispatch_def availableSlots_def
  ValidateForDispatch_def IsValidAgentType_def perStateSlotAvailable_def state_in_def
  NormalizeState_def ToLower_def lower_char_def ascii_def dispatchIssue_def emit_def New_def
  startAsyncTick_def Let_def

lemma started_A_eq:
  "started_A = dispatchIssue sample_env (sample_issue ''A'') None (lp_orch sample_loop)"
proof -
  have v: "ValidateForDispatch sample_cfg = None"
    by (simp add: ValidateForDispatch_None sample_cfg_def IsValidAgentType_def)
  have d: "shouldDispatch id sample_cfg (sample_issue ''A'') (lp_orch sample_loop)"
    by code_simp
  have a: "0 < availableSlots sample_cfg (lp_orch sample_loop)" by code_simp
  show ?thesis using v d a
    by (simp add: started_A_def handleTickResult_def tick_with_def sortForDispatch_def Let_def sample_env_def)
qed

lemma started_A_effects:
  "StartWorker 0 (sample_issue ''A'') None sample_cfg \<in> set (effects started_A)"
  "CancelWorker c \<notin> set (effects started_A)"
  by (simp_all add: started_A_eq sample_loop_def startAsyncTick_def New_def sample_env_def)

theorem symphony_one_live_worker_witness:
  "\<exists>s. s = lp_orch (run_machine loop_step [(sample_env, EvTickResult (tick_with [] [sample_issue ''A'']))] sample_loop)
     \<and> {c. StartWorker c (sample_issue ''A'') None sample_cfg \<in> set (effects s) \<and> CancelWorker c \<notin> set (effects s)} = {0}"
proof -
  let ?evs = "[(sample_env, EvTickResult (tick_with [] [sample_issue ''A'']))]"
  let ?s = "lp_orch (run_machine loop_step ?evs sample_loop)"
  have e: "effects ?s = effects started_A @ [ResetTicker (millis (PollIntervalMs (e_cfg sample_env)))]"
    by (simp add: loop_step_def sample_loop_def started_A_def)
  have w: "StartWorker 0 (sample_issue ''A'') None sample_cfg \<in> set (effects ?s)"
    and n: "CancelWorker 0 \<notin> set (effects ?s)"
    unfolding e using started_A_effects by simp_all
  have "c = 0" if "StartWorker c (sample_issue ''A'') None sample_cfg \<in> set (effects ?s)"
      and "CancelWorker c \<notin> set (effects ?s)" for c
    by (rule symphony_one_live_worker [OF sample_start refl that w n refl])
  with w n show ?thesis by blast
qed

section \<open>The dispatch order\<close>

text \<open>The key the comparison function compares: priority, then date (no date last), then name.\<close>

definition dispatch_key :: "Issue \<Rightarrow> int \<times> bool \<times> int \<times> string" where
  "dispatch_key i = (priorityOr (i_Priority i) 999999, i_CreatedAt i = None,
     (case i_CreatedAt i of None \<Rightarrow> 0 | Some c \<Rightarrow> c), i_Identifier i)"

fun key_less :: "int \<times> bool \<times> int \<times> string \<Rightarrow> int \<times> bool \<times> int \<times> string \<Rightarrow> bool" where
  "key_less (p, n, c, s) (p', n', c', s') \<longleftrightarrow>
    p < p' \<or> p = p' \<and> (\<not> n \<and> n' \<or> n = n' \<and> (c < c' \<or> c = c' \<and> s < s'))"

lemma dispatch_less_key: "dispatch_less a b = key_less (dispatch_key a) (dispatch_key b)"
  by (auto simp: dispatch_less_def dispatch_key_def Let_def split: option.splits)

lemma key_less_irrefl: "\<not> key_less a a"
  by (cases a) auto

lemma key_less_trans: "key_less a b \<Longrightarrow> key_less b c \<Longrightarrow> key_less a c"
  by (cases a; cases b; cases c) auto

lemma key_less_total: "\<not> key_less a b \<Longrightarrow> \<not> key_less b a \<Longrightarrow> a = b"
  by (cases a; cases b) auto

lemma key_less_incomp: "\<not> key_less a b \<Longrightarrow> \<not> key_less b c \<Longrightarrow> \<not> key_less a c"
  by (metis key_less_total key_less_trans)

interpretation dispatch_order: strict_weak_order dispatch_less
  by unfold_locales (auto simp: dispatch_less_key key_less_irrefl intro: key_less_trans dest: key_less_incomp)

text \<open>Sorting for dispatch permutes the candidates, puts them in order of priority (none
  last), then creation date (none last), then identifier, and keeps the tracker's order
  among issues that agree on all three.\<close>

theorem symphony_dispatch_order:
  "mset (sortForDispatch issues) = mset issues \<and>
   sorted_wrt (\<lambda>a b. \<not> key_less (dispatch_key b) (dispatch_key a)) (sortForDispatch issues) \<and>
   filter (\<lambda>i. dispatch_key i = dispatch_key e) (sortForDispatch issues) =
     filter (\<lambda>i. dispatch_key i = dispatch_key e) issues"
proof -
  have eq: "(\<lambda>i. \<not> dispatch_less i e \<and> \<not> dispatch_less e i) = (\<lambda>i. dispatch_key i = dispatch_key e)"
    by (auto simp: fun_eq_iff dispatch_less_key key_less_irrefl dest: key_less_total)
  show ?thesis
    using dispatch_order.sorted_SliceStable [of issues] dispatch_order.stable_SliceStable [of e issues]
    by (simp add: sortForDispatch_def eq [symmetric] dispatch_less_key [symmetric])
qed

end
