(* ===== verification/SymphonyRetryProps.thy ===== *)
theory SymphonyRetryProps
  imports SymphonyProperties
begin

text \<open>
  Retries of the symphony orchestrator: the back-off function against its formula and where
  int64 overflows, the cap that ends every chain of failures, timers that act at most once,
  the token accounting, and what the reconciliation of a stalled issue really does.
\<close>

section \<open>Back-off\<close>

lemma int64_id: "- (2 ^ 63) \<le> x \<Longrightarrow> x < 2 ^ 63 \<Longrightarrow> int64 x = x"
  by (simp add: int64_def)

lemma backoff_loop_min:
  assumes "0 < d" and "d < 2 ^ 62" and "m < 2 ^ 62"
  shows "backoff_loop n d m = min (d * 2 ^ n) m"
  using assms
proof (induction n arbitrary: d)
  case 0
  then show ?case by simp
next
  case (Suc n)
  have w: "int64 (d * 2) = d * 2" using Suc.prems by (simp add: int64_id)
  show ?case
  proof (cases "d * 2 > m")
    case True
    have "d * 2 * 1 \<le> d * 2 * 2 ^ n" using Suc.prems by (intro mult_left_mono) simp_all
    with True w show ?thesis by simp
  next
    case False
    then have "d * 2 < 2 ^ 62" using Suc.prems by linarith
    with False w Suc.prems Suc.IH [of "d * 2"] show ?thesis by simp
  qed
qed

text \<open>Below the range where int64 wraps, the back-off before retry \<open>attempt\<close> is
  min(10000 * 2^(attempt-1), max) milliseconds, with attempts below 1 taken as 1.\<close>

theorem symphony_backoff_formula:
  assumes "m < 2 ^ 62"
  shows "backoffDelayMs attempt m = min (10000 * 2 ^ nat (max 1 attempt - 1)) m"
  using assms by (simp add: backoffDelayMs_def Let_def backoff_loop_min max_def)

theorem symphony_backoff_formula_witness:
  "(300000::int) < 2 ^ 62 \<and> backoffDelayMs 3 300000 = 40000 \<and> backoffDelayMs 9 300000 = 300000"
  using symphony_backoff_formula [of 300000 3] symphony_backoff_formula [of 300000 9]
  by (simp add: eval_nat_numeral)

text \<open>For a maximum near the top of int64 the doubling wraps before it is compared, and the
  computed delay is negative: a retry that fires at once.\<close>

theorem symphony_backoff_overflow: "backoffDelayMs 51 (2 ^ 63 - 1) = - 7187745005283311616"
  by code_simp

section \<open>Retries evolve by new generations only\<close>

definition retries_evolve :: "Orchestrator \<Rightarrow> Orchestrator \<Rightarrow> bool" where
  "retries_evolve s t \<longleftrightarrow> nextGen s \<le> nextGen t \<and>
     (\<forall>k e. map_of (retryAttempts t) k = Some e \<longrightarrow>
        map_of (retryAttempts s) k = Some e \<or> nextGen s < rt_Generation e)"

lemma evolve_refl [simp]: "retries_evolve s s"
  by (simp add: retries_evolve_def)

lemma evolve_trans: "retries_evolve s t \<Longrightarrow> retries_evolve t u \<Longrightarrow> retries_evolve s u"
  unfolding retries_evolve_def by (meson le_less_trans le_trans)

lemma evolve_same:
  "retryAttempts t = retryAttempts s \<Longrightarrow> nextGen t = nextGen s \<Longrightarrow> retries_evolve s t"
  by (simp add: retries_evolve_def)

lemma evolve_del:
  "retryAttempts t = mdel i (retryAttempts s) \<Longrightarrow> nextGen t = nextGen s \<Longrightarrow> retries_evolve s t"
  by (simp add: retries_evolve_def)

lemma evolve_schedule: "retries_evolve s (scheduleRetry env i d a m c s)"
  by (simp add: retries_evolve_def)

lemma evolve_terminate: "retries_evolve s (terminateRunning i c s)"
  by (rule evolve_same) simp_all

lemma evolve_action: "retries_evolve s (apply_action env a s)"
  by (cases "ra_Action a")
     (auto simp: apply_action_def evolve_terminate intro: evolve_same
       evolve_trans [OF evolve_terminate evolve_schedule] split: option.splits)

lemma evolve_actions: "retries_evolve s (fold (apply_action env) as s)"
  by (induction as arbitrary: s) (auto intro: evolve_trans [OF evolve_action])

lemma evolve_dispatch: "retries_evolve s (dispatchIssue env iss att s)"
  by (rule evolve_del) simp_all

lemma evolve_dispatch_loop: "retries_evolve s (dispatch_loop env cs s)"
  by (induction cs arbitrary: s) (auto intro: evolve_trans [OF evolve_dispatch])

lemma evolve_tick: "retries_evolve s (handleTickResult env tr s)"
  by (auto simp: handleTickResult_def Let_def intro: evolve_actions
      evolve_trans [OF evolve_actions evolve_dispatch_loop])

lemma evolve_after_exit: "retries_evolve s ((after_exit r s)\<lparr>completed := C\<rparr>)"
  by (rule evolve_same) (simp_all add: after_exit_def split: option.splits)

lemma evolve_release: "retries_evolve s (release_claim i s)"
  by (rule evolve_same) simp_all

lemma evolve_exit: "retries_evolve s (handleWorkerExit env r s)"
proof (rule handleWorkerExit_cases [of env r s])
  assume "handleWorkerExit env r s = after_exit r s"
  then show ?thesis by (simp add: evolve_same after_exit_def split: option.splits)
next
  fix C assume "handleWorkerExit env r s = release_claim (wr_IssueID r) (after_exit r s\<lparr>completed := C\<rparr>)"
  then show ?thesis by (simp add: evolve_trans [OF evolve_after_exit evolve_release])
next
  fix C a m c assume "handleWorkerExit env r s = scheduleRetry env (wr_IssueID r) (wr_Identifier r) a m c
      (after_exit r s\<lparr>completed := C\<rparr>)"
  then show ?thesis by (simp add: evolve_trans [OF evolve_after_exit evolve_schedule])
qed

lemma evolve_taken: "retries_evolve s (retry_taken rf s)"
  by (rule evolve_del) simp_all

lemma evolve_retry: "retries_evolve s (handleRetryFired env rf f s)"
  by (rule handleRetryFired_cases [of env rf f s])
     (simp_all add: evolve_trans [OF evolve_taken evolve_release]
       evolve_trans [OF evolve_taken evolve_schedule] evolve_trans [OF evolve_taken evolve_dispatch])

lemma evolve_update: "retries_evolve s (handleAgentUpdate env u s)"
  by (rule evolve_same) (auto simp: handleAgentUpdate_def Let_def split: option.splits)

lemma evolve_emit: "retries_evolve s t \<Longrightarrow> retries_evolve s (emit e t)"
  by (simp add: retries_evolve_def)

lemma evolve_step: "retries_evolve (lp_orch l) (lp_orch (loop_step ee l))"
  by (cases "snd ee")
     (auto simp: loop_step_def tick_if_idle_def startAsyncTick_def evolve_tick evolve_exit
       evolve_update evolve_retry Let_def intro!: evolve_emit)

text \<open>The retry of issue \<open>i\<close> with generation \<open>g\<close> is over and cannot come back.\<close>

definition retry_over :: "string \<Rightarrow> nat \<Rightarrow> Orchestrator \<Rightarrow> bool" where
  "retry_over i g s \<longleftrightarrow> g \<le> nextGen s \<and>
     (\<forall>e. map_of (retryAttempts s) i = Some e \<longrightarrow> rt_Generation e \<noteq> g)"

lemma retry_over_evolve: "retry_over i g s \<Longrightarrow> retries_evolve s t \<Longrightarrow> retry_over i g t"
  unfolding retry_over_def retries_evolve_def by fastforce

interpretation retry_over: invariant_machine loop_step "\<lambda>_. True" "\<lambda>l. retry_over i g (lp_orch l)"
  for i g
  by unfold_locales (rule retry_over_evolve [OF _ evolve_step])

lemma fired_over:
  assumes "rf_Generation rf \<le> nextGen s"
  shows "retry_over (rf_IssueID rf) (rf_Generation rf) (handleRetryFired env rf f s)"
  using assms
  by (auto simp: retry_over_def handleRetryFired_def Let_def split: option.splits sum.splits)

text \<open>A retry timer acts at most once: once a fire of generation g for an issue has been
  handled, handling it again at any later moment of the run, with whatever answer of the
  tracker, changes nothing.\<close>

theorem symphony_retry_fires_once:
  assumes "rf_Generation rf \<le> nextGen (lp_orch l)" and "\<not> lp_done l"
    and "s = lp_orch (run_machine loop_step evs (loop_step (env, EvRetryTimer rf f) l))"
  shows "handleRetryFired env' rf f' s = s"
proof -
  have "retry_over (rf_IssueID rf) (rf_Generation rf) (lp_orch (loop_step (env, EvRetryTimer rf f) l))"
    using fired_over [OF assms(1)] assms(2) by (simp add: loop_step_def)
  then have "retry_over (rf_IssueID rf) (rf_Generation rf) s"
    using retry_over.run_inv by (simp add: assms(3) list_all_iff)
  then show ?thesis
    by (auto simp: retry_over_def handleRetryFired_def split: option.splits)
qed

definition sample_retry :: loop where
  "sample_retry = sample_loop\<lparr>lp_orch := scheduleRetry sample_env ''A'' ''A'' 1 [] True New\<rparr>"

theorem symphony_retry_fires_once_witness:
  "\<exists>s. s = lp_orch (run_machine loop_step [(sample_env, EvTicker)]
      (loop_step (sample_env, EvRetryTimer \<lparr>rf_IssueID = ''A'', rf_Generation = 1\<rparr> (Inr [])) sample_retry)) \<and>
    handleRetryFired sample_env \<lparr>rf_IssueID = ''A'', rf_Generation = 1\<rparr> (Inr []) s = s"
proof -
  have g: "rf_Generation \<lparr>rf_IssueID = ''A'', rf_Generation = 1\<rparr> \<le> nextGen (lp_orch sample_retry)"
    and d: "\<not> lp_done sample_retry"
    by (simp_all add: sample_retry_def sample_loop_def New_def)
  show ?thesis using symphony_retry_fires_once [OF g d refl] by blast
qed

section \<open>Failures end\<close>

text \<open>
  One cycle of a failing issue: its worker (if it has one) exits with a failure, then its
  retry timer (if one is pending) fires and the tracker answers \<open>f\<close>.
\<close>

definition fail_cycle :: "env \<Rightarrow> WorkerResult \<Rightarrow> (string + Issue list) \<Rightarrow> Orchestrator \<Rightarrow> Orchestrator" where
  "fail_cycle env r f s =
    (let s1 = handleWorkerExit env r s in
     case map_of (retryAttempts s1) (wr_IssueID r) of
       None \<Rightarrow> s1
     | Some e \<Rightarrow> handleRetryFired env \<lparr>rf_IssueID = wr_IssueID r, rf_Generation = rt_Generation e\<rparr> f s1)"

text \<open>How far the chain of an issue is: twice the attempt, plus one while it runs.\<close>

definition progress :: "string \<Rightarrow> Orchestrator \<Rightarrow> int option" where
  "progress i s = (case map_of (running s) i of
     Some en \<Rightarrow> Some (2 * re_RetryAttempt en + 1)
   | None \<Rightarrow> map_option (\<lambda>e. 2 * rt_Attempt e) (map_of (retryAttempts s) i))"

definition failing :: "WorkerResult \<Rightarrow> bool" where
  "failing r \<longleftrightarrow> wr_ExitReason r \<in> {ExitReasonFailed, ExitReasonTimedOut, ExitReasonStalled}"

lemma exit_failing_running:
  assumes "failing r" and "map_of (running s) (wr_IssueID r) = Some en"
  shows "handleWorkerExit env r s =
    (if re_RetryAttempt en + 1 > MaxTurns (e_cfg env) then release_claim (wr_IssueID r) (after_exit r s)
     else scheduleRetry env (wr_IssueID r) (wr_Identifier r) (re_RetryAttempt en + 1)
       (case wr_Error r of None \<Rightarrow> [] | Some e \<Rightarrow> e) False (after_exit r s))"
  using assms by (auto simp: failing_def handleWorkerExit_def Let_def after_exit_def)

lemma exit_failing_idle:
  "failing r \<Longrightarrow> map_of (running s) (wr_IssueID r) = None \<Longrightarrow> handleWorkerExit env r s = s"
  by (auto simp: failing_def handleWorkerExit_def Let_def)

lemma running_lookup_after_exit [simp]: "map_of (running (after_exit r s)) (wr_IssueID r) = None"
  by (simp add: after_exit_running)

text \<open>A pending retry that fires: the claim is released, or the chain has moved on.\<close>

lemma fire_progress:
  fixes env :: env and f :: "string + Issue list"
  assumes "orch_ok s" and e: "map_of (retryAttempts s) i = Some e"
  defines "t \<equiv> handleRetryFired env \<lparr>rf_IssueID = i, rf_Generation = rt_Generation e\<rparr> f s"
  shows "progress i t = None \<and> i \<notin> claimed t \<or>
    rt_Attempt e \<le> MaxTurns (e_cfg env) \<and>
    (\<exists>p. progress i t = Some p \<and> 2 * rt_Attempt e < p \<and> p \<le> 2 * MaxTurns (e_cfg env) + 2)"
proof -
  have nr: "map_of (running s) i = None"
    using retry_not_running [OF assms(1) e] by (simp add: lookup_None_keys)
  show ?thesis unfolding t_def
  proof (rule handleRetryFired_cases [of env "\<lparr>rf_IssueID = i, rf_Generation = rt_Generation e\<rparr>" f s],
      goal_cases)
    case 1
    then have "map_of (retryAttempts s) i = None \<or> retryAttempts s = retryAttempts s"
      by simp
    moreover have "retry_over i (rt_Generation e) s"
      using fired_over [of "\<lparr>rf_IssueID = i, rf_Generation = rt_Generation e\<rparr>" s env f] 1 assms(1) e
      by (auto simp: orch_ok_defs)
    ultimately show ?case using e by (simp add: retry_over_def)
  next
    case (2 en)
    then show ?case using nr by (simp add: progress_def)
  next
    case (3 en d m)
    then show ?case using nr e by (simp add: progress_def)
  next
    case (4 en c cs)
    then show ?case using nr e by (simp add: progress_def dispatchIssue_def Let_def)
  qed
qed

lemma fail_cycle_progress:
  fixes env :: env and f :: "string + Issue list"
  assumes ok: "orch_ok s" and r: "failing r" and p: "progress (wr_IssueID r) s = Some p"
  defines "t \<equiv> fail_cycle env r f s"
  shows "progress (wr_IssueID r) t = None \<and> wr_IssueID r \<notin> claimed t \<or>
    (\<exists>q. progress (wr_IssueID r) t = Some q \<and> p < q \<and> q \<le> 2 * MaxTurns (e_cfg env) + 2)"
proof (cases "map_of (running s) (wr_IssueID r)")
  case None
  then obtain e where e: "map_of (retryAttempts s) (wr_IssueID r) = Some e" and pe: "p = 2 * rt_Attempt e"
    using p by (auto simp: progress_def split: option.splits)
  show ?thesis
    using fire_progress [OF ok e, of env f] exit_failing_idle [OF r None, of env] e pe
    by (auto simp: t_def fail_cycle_def)
next
  case (Some en)
  then have pe: "p = 2 * re_RetryAttempt en + 1" using p by (simp add: progress_def)
  let ?u = "handleWorkerExit env r s"
  have none: "map_of (retryAttempts s) (wr_IssueID r) = None"
    using ok Some by (auto simp: orch_ok_defs lookup_None_keys dest: lookup_in_keys)
  have keep: "retryAttempts (after_exit r s) = retryAttempts s"
    by (simp add: after_exit_def split: option.splits)
  show ?thesis
  proof (cases "re_RetryAttempt en + 1 > MaxTurns (e_cfg env)")
    case True
    then have "?u = release_claim (wr_IssueID r) (after_exit r s)"
      by (simp add: exit_failing_running [OF r Some])
    then show ?thesis using none keep by (simp add: t_def fail_cycle_def progress_def)
  next
    case False
    then have u: "?u = scheduleRetry env (wr_IssueID r) (wr_Identifier r) (re_RetryAttempt en + 1)
        (case wr_Error r of None \<Rightarrow> [] | Some e \<Rightarrow> e) False (after_exit r s)"
      by (simp add: exit_failing_running [OF r Some])
    obtain e where e: "map_of (retryAttempts ?u) (wr_IssueID r) = Some e"
      and a: "rt_Attempt e = re_RetryAttempt en + 1"
      by (simp add: u)
    show ?thesis
      using fire_progress [OF orch_ok_exit [OF ok] e, of env f] e a pe
      by (auto simp: t_def fail_cycle_def)
  qed
qed

lemma orch_ok_cycle: "orch_ok s \<Longrightarrow> orch_ok (fail_cycle env r f s)"
  by (auto simp: fail_cycle_def Let_def orch_ok_exit orch_ok_retry split: option.splits)

lemma fail_cycle_done:
  assumes "failing r" and "progress (wr_IssueID r) s = None" and "wr_IssueID r \<notin> claimed s"
  shows "fail_cycle env r f s = s"
  using assms exit_failing_idle [of r s env]
  by (auto simp: progress_def fail_cycle_def split: option.splits)

lemma fold_fail_cycle:
  assumes "orch_ok s" and "failing r" and "progress (wr_IssueID r) s = Some p"
    and "fs \<noteq> []" and "2 * MaxTurns (e_cfg env) + 2 - p < int (length fs)"
  shows "progress (wr_IssueID r) (fold (fail_cycle env r) fs s) = None \<and>
    wr_IssueID r \<notin> claimed (fold (fail_cycle env r) fs s)"
  using assms
proof (induction fs arbitrary: s p)
  case Nil
  then show ?case by simp
next
  case (Cons f fs)
  let ?t = "fail_cycle env r f s"
  have stay: "fold (fail_cycle env r) fs u = u"
    if "progress (wr_IssueID r) u = None" "wr_IssueID r \<notin> claimed u" for u and fs :: "(string + Issue list) list"
    using that Cons.prems(2) by (induction fs) (auto simp: fail_cycle_done)
  consider "progress (wr_IssueID r) ?t = None" "wr_IssueID r \<notin> claimed ?t"
    | q where "progress (wr_IssueID r) ?t = Some q" "p < q" "q \<le> 2 * MaxTurns (e_cfg env) + 2"
    using fail_cycle_progress [OF Cons.prems(1-3), of env f] by auto
  then show ?case
  proof cases
    case 1
    then show ?thesis by (simp add: stay)
  next
    case 2
    with Cons.prems(5) have l: "2 * MaxTurns (e_cfg env) + 2 - q < int (length fs)" by simp
    with 2(3) have "fs \<noteq> []" by auto
    with 2 l show ?thesis using Cons.IH [OF orch_ok_cycle [OF Cons.prems(1)] Cons.prems(2)] by simp
  qed
qed

text \<open>C35. An issue whose worker fails every time is let go: from any reachable state in which it
  runs or waits for a retry at attempt a, after more than 2 * (max_turns - a) + 2 cycles of
  failing exit and retry (one suffices above the cap), whatever the tracker answers, it
  neither runs nor waits and its claim is released. No chain of failures goes on forever.\<close>

theorem symphony_failures_end:
  assumes "orch_ok s" and "failing r" and "progress (wr_IssueID r) s = Some p"
    and "fs \<noteq> []" and "2 * MaxTurns (e_cfg env) + 2 - p < int (length fs)"
  defines "t \<equiv> fold (fail_cycle env r) fs s"
  shows "wr_IssueID r \<notin> keys (running t) \<and> wr_IssueID r \<notin> keys (retryAttempts t) \<and>
    wr_IssueID r \<notin> claimed t"
  using fold_fail_cycle [OF assms(1-5)]
  by (auto simp: t_def progress_def lookup_None_keys [symmetric] split: option.splits)

definition sample_failure :: WorkerResult where
  "sample_failure = \<lparr>wr_Error = Some ''boom'', wr_IssueID = ''A'', wr_Identifier = ''A'',
     wr_ExitReason = ExitReasonFailed, wr_Duration = 0\<rparr>"

lemma orch_ok_sample: "orch_ok (lp_orch sample_loop)"
  using orch_ok_start [OF sample_start orch_ok_New] .

theorem symphony_failures_end_witness:
  "\<exists>t. t = fold (fail_cycle sample_env sample_failure) (replicate 8 (Inl ''down''))
      (dispatchIssue sample_env (sample_issue ''A'') None (lp_orch sample_loop)) \<and>
    ''A'' \<notin> keys (running t) \<and> ''A'' \<notin> keys (retryAttempts t) \<and> ''A'' \<notin> claimed t"
proof -
  let ?s = "dispatchIssue sample_env (sample_issue ''A'') None (lp_orch sample_loop)"
  have ok: "orch_ok ?s" by (rule orch_ok_dispatch [OF orch_ok_sample])
  have r: "failing sample_failure" by (simp add: failing_def sample_failure_def)
  have p: "progress (wr_IssueID sample_failure) ?s = Some 1"
    by (simp add: progress_def sample_failure_def dispatchIssue_def Let_def sample_issue_def)
  have l: "2 * MaxTurns (e_cfg sample_env) + 2 - 1 < int (length (replicate 8 (Inl ''down'' :: string + Issue list)))"
    by (simp add: sample_env_def sample_cfg_def)
  show ?thesis
    using symphony_failures_end [OF ok r p _ l] by (simp add: sample_failure_def)
qed

section \<open>Token accounting\<close>

text \<open>The token counts of a live session are the largest counts its agent has reported in
  events with a positive total (0 if none), so a repeated or an out-of-order report is not
  counted twice, and the total is the sum of input and output.\<close>

theorem symphony_token_accounting:
  "ls_InputTokens (fold_events evs zero_session) = Max (insert 0 (set (reported ev_InputTokens evs))) \<and>
   ls_OutputTokens (fold_events evs zero_session) = Max (insert 0 (set (reported ev_OutputTokens evs))) \<and>
   ls_TotalTokens (fold_events evs zero_session) =
     ls_InputTokens (fold_events evs zero_session) + ls_OutputTokens (fold_events evs zero_session)"
proof -
  have z: "ls_InputTokens zero_session = 0" "ls_OutputTokens zero_session = 0"
    by (simp_all add: zero_session_def)
  have "session_tokens_ok (fold_events evs zero_session)"
    by (rule fold_events_ok [OF session_tokens_ok_zero])
  then have "ls_TotalTokens (fold_events evs zero_session) =
      ls_InputTokens (fold_events evs zero_session) + ls_OutputTokens (fold_events evs zero_session)"
    by (simp add: session_tokens_ok_def)
  then show ?thesis
    by (simp only: fold_events_input [OF session_tokens_ok_zero] fold_events_output [OF session_tokens_ok_zero]
        z fold_max_Max)
qed

section \<open>Stalled issues\<close>

lemma shouldDispatch_schedule [simp]:
  "shouldDispatch ul cfg iss (scheduleRetry env i d a m c s) = shouldDispatch ul cfg iss s"
proof -
  have "perStateSlotAvailable ul st cfg (scheduleRetry env i d a m c s) = perStateSlotAvailable ul st cfg s" for st
    by (simp add: perStateSlotAvailable_def perStateCount_def split: option.split)
  then show ?thesis by (simp add: shouldDispatch_def availableSlots_def Let_def)
qed

definition stalled_action :: "string \<Rightarrow> reconcileAction" where
  "stalled_action i = \<lparr>ra_Issue = None, ra_IssueID = i, ra_Action = reconcileStalled, ra_CleanupWorkspace = False\<rparr>"

lemma stalled_tick:
  assumes "i \<in> keys (running s)" and "ValidateForDispatch (e_cfg env) = None"
    and "shouldDispatch (e_ul env) (e_cfg env) iss (terminateRunning i False s)" and "i_ID iss = i"
  obtains en :: RunningEntry where "handleTickResult env (tick_with [stalled_action i] [iss]) s =
    dispatchIssue env iss None (scheduleRetry env i (re_Identifier en) 1 ''stalled'' False (terminateRunning i False s))"
proof -
  obtain en where en: "map_of (running s) i = Some en" using assms(1) by (auto simp: keys_lookup)
  let ?t = "scheduleRetry env i (re_Identifier en) 1 ''stalled'' False (terminateRunning i False s)"
  have d: "shouldDispatch (e_ul env) (e_cfg env) iss ?t" using assms(3) by simp
  then have "0 < availableSlots (e_cfg env) ?t" by (auto simp: shouldDispatch_def Let_def split: if_splits)
  with d en have "handleTickResult env (tick_with [stalled_action i] [iss]) s = dispatchIssue env iss None ?t"
    by (simp add: handleTickResult_def tick_with_def stalled_action_def apply_action_def
        sortForDispatch_def assms(2) Let_def)
  then show thesis by (rule that)
qed

text \<open>The back-off of a stalled issue is not held: stopping its worker releases the claim, so
  when the same tick also lists the issue as a candidate that may be dispatched, it runs
  again at once, with its attempt count back at 0 and the retry just scheduled forgotten.\<close>

theorem symphony_stall_skips_backoff:
  assumes "i \<in> keys (running s)" and "ValidateForDispatch (e_cfg env) = None"
    and "shouldDispatch (e_ul env) (e_cfg env) iss (terminateRunning i False s)" and "i_ID iss = i"
  defines "t \<equiv> handleTickResult env (tick_with [stalled_action i] [iss]) s"
  shows "map_option re_RetryAttempt (map_of (running t) i) = Some 0 \<and> i \<notin> keys (retryAttempts t)"
proof -
  obtain en :: RunningEntry where "t = dispatchIssue env iss None
      (scheduleRetry env i (re_Identifier en) 1 ''stalled'' False (terminateRunning i False s))"
    unfolding t_def using stalled_tick [OF assms(1-4)] by blast
  then show ?thesis using assms(4) by (simp add: dispatchIssue_def Let_def)
qed

lemma sample_stall:
  "''A'' \<in> keys (running started_A)"
  "ValidateForDispatch (e_cfg sample_env) = None"
  "shouldDispatch (e_ul sample_env) (e_cfg sample_env) (sample_issue ''A'') (terminateRunning ''A'' False started_A)"
proof -
  show "''A'' \<in> keys (running started_A)" by (simp add: started_A_eq sample_issue_def)
  show "ValidateForDispatch (e_cfg sample_env) = None"
    by (simp add: ValidateForDispatch_None sample_env_def sample_cfg_def IsValidAgentType_def)
  show "shouldDispatch (e_ul sample_env) (e_cfg sample_env) (sample_issue ''A'')
      (terminateRunning ''A'' False started_A)"
    unfolding started_A_eq by code_simp
qed

theorem symphony_stall_skips_backoff_witness:
  "map_option re_RetryAttempt (map_of (running (handleTickResult sample_env
      (tick_with [stalled_action ''A''] [sample_issue ''A'']) started_A)) ''A'') = Some 0"
  using symphony_stall_skips_backoff [OF sample_stall] by (simp add: sample_issue_def)

text \<open>A worker result names an issue and no worker. After a stalled issue was started again,
  the late exit of its old, cancelled worker is taken for an exit of the new one: the new
  worker (whose context has just been created) is cancelled, and the issue is neither
  running nor claimed nor waiting for a retry.\<close>

theorem symphony_late_exit_cancels_new_worker:
  assumes "i \<in> keys (running s)" and "ValidateForDispatch (e_cfg env) = None"
    and "shouldDispatch (e_ul env) (e_cfg env) iss (terminateRunning i False s)" and "i_ID iss = i"
    and "wr_IssueID r = i" and "wr_ExitReason r = ExitReasonCanceled"
  defines "t \<equiv> handleTickResult env (tick_with [stalled_action i] [iss]) s"
  shows "StartWorker (nextCtx s) iss None (e_cfg env) \<in> set (effects t) \<and>
    (let u = handleWorkerExit env' r t in
       CancelWorker (nextCtx s) \<in> set (effects u) \<and> i \<notin> keys (running u) \<and>
       i \<notin> claimed u \<and> i \<notin> keys (retryAttempts u))"
proof -
  obtain en :: RunningEntry where t: "t = dispatchIssue env iss None
      (scheduleRetry env i (re_Identifier en) 1 ''stalled'' False (terminateRunning i False s))"
    unfolding t_def using stalled_tick [OF assms(1-4)] by blast
  have i: "map_of (running t) i \<noteq> None"
    using assms(4) by (simp add: t dispatchIssue_def Let_def)
  have c: "map_of (workerCancels t) i = Some (nextCtx s)" using assms(4) by (simp add: t)
  have "effects (after_exit r t) = effects t @ [CancelWorker (nextCtx s)]"
    using i c assms(5) by (auto simp: after_exit_def retire_running_def cancel_worker_def Let_def)
  moreover have u: "handleWorkerExit env' r t = release_claim i (after_exit r t)"
    using assms(5,6) by (simp add: handleWorkerExit_def after_exit_def Let_def)
  moreover have "retryAttempts (after_exit r t) = retryAttempts t"
    by (simp add: after_exit_def split: option.splits)
  ultimately show ?thesis using assms(4,5) by (simp add: t after_exit_running Let_def)
qed

definition sample_canceled :: WorkerResult where
  "sample_canceled = sample_failure\<lparr>wr_ExitReason := ExitReasonCanceled\<rparr>"

theorem symphony_late_exit_cancels_new_worker_witness:
  "\<exists>u. u = handleWorkerExit sample_env sample_canceled (handleTickResult sample_env
      (tick_with [stalled_action ''A''] [sample_issue ''A'']) started_A) \<and>
    CancelWorker 1 \<in> set (effects u) \<and> ''A'' \<notin> keys (running u) \<and> ''A'' \<notin> claimed u"
proof -
  have n: "nextCtx started_A = 1"
    by (simp add: started_A_eq sample_loop_def startAsyncTick_def New_def)
  have "i_ID (sample_issue ''A'') = ''A''" "wr_IssueID sample_canceled = ''A''"
    "wr_ExitReason sample_canceled = ExitReasonCanceled"
    by (simp_all add: sample_issue_def sample_canceled_def sample_failure_def)
  from symphony_late_exit_cancels_new_worker [OF sample_stall this, of sample_env] n
  show ?thesis by (simp add: Let_def)
qed

end
