(* ===== verification/GoPath.thy ===== *)
theory GoPath
  imports GoStrings
begin

text \<open>
  Package \<open>path/filepath\<close> on Unix: \<open>Clean\<close>, \<open>Join\<close>, \<open>Base\<close> and \<open>Abs\<close>. A cleaned path is determined
  by whether it is rooted and by its list of components, so cleaning is a fold over the
  components; the lemmas say that cleaning is idempotent and what joining one ordinary
  component does.
\<close>

definition IsAbs :: "string \<Rightarrow> bool" where
  "IsAbs p = HasPrefix p ''/''"

text \<open>
  One component is applied to the components so far, last one first: empty ones and
  \<open>.\<close> vanish, \<open>..\<close> takes one component back, is dropped at the root of a rooted path and
  kept at the start of a relative one.
\<close>

definition clean_step :: "bool \<Rightarrow> string list \<Rightarrow> string \<Rightarrow> string list" where
  "clean_step rooted acc c =
    (if c = [] \<or> c = ''.'' then acc
     else if c = ''..'' then
       (case acc of
          [] \<Rightarrow> if rooted then [] else [c]
        | a # as \<Rightarrow> if a = ''..'' then c # acc else as)
     else c # acc)"

definition clean_comps :: "bool \<Rightarrow> string list \<Rightarrow> string list" where
  "clean_comps rooted cs = rev (foldl (clean_step rooted) [] cs)"

definition render_path :: "bool \<Rightarrow> string list \<Rightarrow> string" where
  "render_path rooted cs =
    (if rooted then ''/'' @ join_with ''/'' cs
     else if cs = [] then ''.'' else join_with ''/'' cs)"

definition Clean :: "string \<Rightarrow> string" where
  "Clean p = render_path (IsAbs p) (clean_comps (IsAbs p) (split_on (CHR ''/'') p))"

definition Join :: "string list \<Rightarrow> string" where
  "Join elems = (let es = filter (\<lambda>e. e \<noteq> []) elems in
     if es = [] then [] else Clean (join_with ''/'' es))"

text \<open>\<open>filepath.Base\<close>.\<close>

definition Base :: "string \<Rightarrow> string" where
  "Base p =
    (if p = [] then ''.''
     else let q = TrimRight {CHR ''/''} p in if q = [] then ''/'' else last (split_on (CHR ''/'') q))"

text \<open>\<open>cwd\<close> is the working directory; \<open>None\<close> when it cannot be determined.\<close>

definition Abs :: "string option \<Rightarrow> string \<Rightarrow> string option" where
  "Abs cwd p = (if IsAbs p then Some (Clean p)
     else map_option (\<lambda>d. Join [d, p]) cwd)"

section \<open>Cleaned paths\<close>

text \<open>An ordinary component: no separator, not empty, not \<open>.\<close> and not \<open>..\<close>.\<close>

definition plain_comp :: "string \<Rightarrow> bool" where
  "plain_comp c \<longleftrightarrow> CHR ''/'' \<notin> set c \<and> c \<noteq> [] \<and> c \<noteq> ''.'' \<and> c \<noteq> ''..''"

text \<open>A cleaned list of components: of a rooted path all are ordinary; a relative one may
  start with \<open>..\<close> components.\<close>

definition comps_ok :: "bool \<Rightarrow> string list \<Rightarrow> bool" where
  "comps_ok rooted cs \<longleftrightarrow> (\<exists>n ds. cs = replicate n ''..'' @ ds \<and> list_all plain_comp ds \<and> (rooted \<longrightarrow> n = 0))"

lemma comps_ok_Nil [simp]: "comps_ok r []"
  by (auto simp: comps_ok_def intro: exI [of _ 0])

lemma clean_step_ok:
  assumes "comps_ok r (rev acc)" and "CHR ''/'' \<notin> set c"
  shows "comps_ok r (rev (clean_step r acc c))"
proof -
  obtain n ds where a: "rev acc = replicate n ''..'' @ ds" "list_all plain_comp ds" "r \<longrightarrow> n = 0"
    using assms(1) by (auto simp: comps_ok_def)
  then have acc: "acc = rev ds @ replicate n ''..''"
    by (metis rev_append rev_replicate rev_rev_ident)
  consider "c = [] \<or> c = ''.''" | "c = ''..''" "ds = []" | d ds' where "c = ''..''" "ds = ds' @ [d]"
    | "plain_comp c"
    using assms(2) by (cases ds rule: rev_cases) (auto simp: plain_comp_def)
  then show ?thesis
  proof cases
    case 1
    then show ?thesis using assms(1) by (auto simp: clean_step_def)
  next
    case 2
    show ?thesis
    proof (cases n)
      case 0
      with 2 acc show ?thesis
        by (auto simp: clean_step_def comps_ok_def intro: exI [of _ 1] exI [of _ 0])
    next
      case (Suc m)
      with 2 acc a(3) have "acc = ''..'' # replicate m ''..''" "\<not> r" by auto
      with 2 Suc have "clean_step r acc c = replicate (Suc n) ''..''" "\<not> r"
        by (simp_all add: clean_step_def)
      then show ?thesis unfolding comps_ok_def by (intro exI [of _ "Suc n"] exI [of _ "[]"]) (simp only: rev_replicate, simp)
    qed
  next
    case 3
    with a(2) have "d \<noteq> ''..''" by (auto simp: plain_comp_def)
    with 3 acc have "clean_step r acc c = rev ds' @ replicate n ''..''" by (simp add: clean_step_def)
    then show ?thesis unfolding comps_ok_def using a 3
      by (intro exI [of _ n] exI [of _ ds']) simp
  next
    case 4
    then have "clean_step r acc c = c # acc" by (auto simp: clean_step_def plain_comp_def)
    then show ?thesis unfolding comps_ok_def using a acc 4
      by (intro exI [of _ n] exI [of _ "ds @ [c]"]) simp
  qed
qed

lemma foldl_clean_ok:
  "comps_ok r (rev acc) \<Longrightarrow> list_all (\<lambda>c. CHR ''/'' \<notin> set c) cs \<Longrightarrow>
   comps_ok r (rev (foldl (clean_step r) acc cs))"
  by (induction cs arbitrary: acc) (auto simp: clean_step_ok)

lemma clean_comps_ok: "list_all (\<lambda>c. CHR ''/'' \<notin> set c) cs \<Longrightarrow> comps_ok r (clean_comps r cs)"
  by (simp add: clean_comps_def foldl_clean_ok)

text \<open>Cleaning leaves a cleaned list alone.\<close>

lemma foldl_clean_plain:
  "list_all plain_comp ds \<Longrightarrow> foldl (clean_step r) acc ds = rev ds @ acc"
  by (induction ds arbitrary: acc) (auto simp: clean_step_def plain_comp_def)

lemma foldl_clean_dots: "foldl (clean_step False) (replicate m ''..'') (replicate n ''..'') = replicate (n + m) ''..''"
proof (induction n arbitrary: m)
  case (Suc n)
  have "clean_step False (replicate m ''..'') ''..'' = replicate (Suc m) ''..''"
    by (cases m) (auto simp: clean_step_def)
  with Suc [of "Suc m"] show ?case by simp
qed simp

lemma clean_comps_id: "comps_ok r cs \<Longrightarrow> clean_comps r cs = cs"
proof -
  assume "comps_ok r cs"
  then obtain n ds where cs: "cs = replicate n ''..'' @ ds" "list_all plain_comp ds" "r \<longrightarrow> n = 0"
    by (auto simp: comps_ok_def)
  show ?thesis
  proof (cases r)
    case True
    with cs show ?thesis by (simp add: clean_comps_def foldl_clean_plain)
  next
    case False
    with cs foldl_clean_dots [of 0 n] show ?thesis by (simp add: clean_comps_def foldl_clean_plain)
  qed
qed

lemma comps_ok_chars:
  "comps_ok r cs \<Longrightarrow> c \<in> set cs \<Longrightarrow> c \<noteq> [] \<and> CHR ''/'' \<notin> set c"
proof -
  assume "comps_ok r cs" and c: "c \<in> set cs"
  then obtain n ds where "cs = replicate n ''..'' @ ds" "list_all plain_comp ds"
    by (auto simp: comps_ok_def)
  with c have "c = ''..'' \<or> plain_comp c" by (auto simp: list_all_iff)
  then show ?thesis by (auto simp: plain_comp_def)
qed

text \<open>The pieces of a joined list are the list again.\<close>

lemma split_join:
  assumes "\<forall>c \<in> set cs. CHR ''/'' \<notin> set c" and "cs \<noteq> []"
  shows "split_on (CHR ''/'') (join_with ''/'' cs) = cs"
  using assms
proof (induction cs)
  case (Cons c cs)
  show ?case
  proof (cases cs)
    case (Cons d ds)
    then have "split_on (CHR ''/'') (join_with ''/'' (c # cs)) =
        split_on (CHR ''/'') (c @ CHR ''/'' # join_with ''/'' cs)" by simp
    also have "\<dots> = [c] @ cs"
      using Cons.prems Cons.IH \<open>cs = d # ds\<close> by (subst split_on_append_sep) simp
    finally show ?thesis by simp
  qed (use Cons.prems in simp)
qed simp

definition path_comps :: "string \<Rightarrow> string list" where
  "path_comps p = clean_comps (IsAbs p) (split_on (CHR ''/'') p)"

lemma path_comps_ok: "comps_ok (IsAbs p) (path_comps p)"
  unfolding path_comps_def
  by (rule clean_comps_ok) (auto simp: list_all_iff dest: split_on_pieces)

lemma Clean_comps: "Clean p = render_path (IsAbs p) (path_comps p)"
  by (simp add: Clean_def path_comps_def)

lemma join_head:
  "cs \<noteq> [] \<Longrightarrow> hd cs \<noteq> [] \<Longrightarrow> join_with ''/'' cs = hd (hd cs) # tl (join_with ''/'' cs)"
  by (cases "(''/'', cs)" rule: join_with.cases) (auto simp: neq_Nil_conv)

lemma Clean_ne [simp]: "Clean p \<noteq> []"
proof -
  have "path_comps p \<noteq> [] \<Longrightarrow> hd (path_comps p) \<noteq> []"
    using comps_ok_chars [OF path_comps_ok, of "hd (path_comps p)" p] by simp
  then show ?thesis
    using join_head [of "path_comps p"] by (auto simp: Clean_comps render_path_def)
qed

lemma IsAbs_Cons: "IsAbs p \<longleftrightarrow> (\<exists>q. p = CHR ''/'' # q)"
  by (auto simp: IsAbs_def HasPrefix_def prefix_def)

lemma IsAbs_render:
  assumes "comps_ok r cs"
  shows "IsAbs (render_path r cs) = r"
proof (cases r)
  case False
  show ?thesis
  proof (cases "cs = []")
    case True
    with False show ?thesis by (simp add: render_path_def IsAbs_Cons)
  next
    case ne: False
    then have "hd cs \<noteq> []" "CHR ''/'' \<notin> set (hd cs)" using comps_ok_chars [OF assms, of "hd cs"] by auto
    then have "join_with ''/'' cs = hd (hd cs) # tl (join_with ''/'' cs)" "hd (hd cs) \<noteq> CHR ''/''"
      using join_head [OF ne] hd_in_set [of "hd cs"] by (simp, metis)
    with False ne show ?thesis by (auto simp: render_path_def IsAbs_Cons)
  qed
qed (simp add: render_path_def IsAbs_Cons)

lemma clean_comps_skip: "clean_comps r ([] # cs) = clean_comps r cs"
  by (simp add: clean_comps_def clean_step_def)

lemma path_comps_render:
  assumes "comps_ok r cs"
  shows "path_comps (render_path r cs) = cs"
proof -
  have ch: "\<forall>c \<in> set cs. CHR ''/'' \<notin> set c" using comps_ok_chars [OF assms] by blast
  have "clean_comps r (split_on (CHR ''/'') (render_path r cs)) = cs"
  proof (cases "cs = []")
    case True
    then show ?thesis by (cases r) (simp_all add: render_path_def clean_comps_def clean_step_def)
  next
    case False
    then show ?thesis
      using split_join [OF ch False] clean_comps_id [OF assms]
      by (cases r) (simp_all add: render_path_def clean_comps_skip)
  qed
  then show ?thesis by (simp add: path_comps_def IsAbs_render [OF assms])
qed

lemma Clean_idem [simp]: "Clean (Clean p) = Clean p"
  by (simp add: Clean_comps IsAbs_render path_comps_render path_comps_ok)

lemma IsAbs_Clean [simp]: "IsAbs (Clean p) = IsAbs p"
  by (simp add: Clean_comps IsAbs_render path_comps_ok)

lemma path_comps_Clean [simp]: "path_comps (Clean p) = path_comps p"
  by (simp add: Clean_comps path_comps_render path_comps_ok)

text \<open>Joining a separator-free name to a directory applies it to the directory's components.\<close>

lemma Join_name:
  assumes "rdir \<noteq> []" and "CHR ''/'' \<notin> set key" and "key \<noteq> []"
  shows "Join [rdir, key] = render_path (IsAbs rdir)
    (rev (clean_step (IsAbs rdir) (rev (path_comps rdir)) key))"
proof -
  have abs: "IsAbs (rdir @ CHR ''/'' # key) = IsAbs rdir"
    using assms(1) by (cases rdir) (auto simp: IsAbs_Cons)
  have "Join [rdir, key] = Clean (rdir @ CHR ''/'' # key)" using assms by (simp add: Join_def)
  also have "\<dots> = render_path (IsAbs rdir)
      (clean_comps (IsAbs rdir) (split_on (CHR ''/'') rdir @ [key]))"
    using assms by (simp add: Clean_def abs split_on_append_sep)
  finally show ?thesis by (simp add: clean_comps_def path_comps_def)
qed

lemma Join_plain:
  assumes "rdir \<noteq> []" and "plain_comp key"
  shows "Join [rdir, key] = render_path (IsAbs rdir) (path_comps rdir @ [key])"
  using assms by (auto simp: Join_name clean_step_def plain_comp_def)

lemma Join_dot:
  assumes "rdir \<noteq> []"
  shows "Join [rdir, ''.''] = Clean rdir"
  using assms by (simp add: Join_name clean_step_def Clean_comps)

lemma join_snoc: "cs \<noteq> [] \<Longrightarrow> join_with sep (cs @ [c]) = join_with sep cs @ sep @ c"
  by (induction sep cs rule: join_with.induct) auto

lemma clean_comps_snoc: "clean_comps r (cs @ [c]) = rev (clean_step r (rev (clean_comps r cs)) c)"
  by (simp add: clean_comps_def)

lemma clean_step_empty [simp]: "clean_step r acc [] = acc" "clean_step r acc ''.'' = acc"
  by (simp_all add: clean_step_def)

lemma clean_step_pop: "d \<noteq> ''..'' \<Longrightarrow> clean_step r (d # X) ''..'' = X"
  by (simp add: clean_step_def)

text \<open>Resolving a cleaned relative path against a directory is resolving the path itself.\<close>

lemma foldl_clean_relative:
  assumes "list_all (\<lambda>c. CHR ''/'' \<notin> set c) cs"
  shows "foldl (clean_step r) acc (clean_comps False cs) = foldl (clean_step r) acc cs"
  using assms
proof (induction cs rule: rev_induct)
  case Nil
  then show ?case by (simp add: clean_comps_def)
next
  case (snoc c cs)
  let ?X = "clean_comps False cs"
  have IH: "foldl (clean_step r) acc ?X = foldl (clean_step r) acc cs" using snoc by simp
  have ok: "comps_ok False ?X" using snoc.prems by (intro clean_comps_ok) simp
  consider "c = [] \<or> c = ''.''" | "c = ''..''" "?X = [] \<or> last ?X = ''..''"
    | "c = ''..''" "?X \<noteq> []" "last ?X \<noteq> ''..''" | "c \<noteq> []" "c \<noteq> ''.''" "c \<noteq> ''..''"
    by blast
  then show ?case
  proof cases
    case 1
    then show ?thesis using IH by (auto simp: clean_comps_snoc)
  next
    case 2
    then have "clean_comps False (cs @ [c]) = ?X @ [c]"
      by (cases ?X rule: rev_cases) (auto simp: clean_comps_snoc clean_step_def)
    then show ?thesis using IH by simp
  next
    case 3
    then obtain Y d where X: "?X = Y @ [d]" and d: "d \<noteq> ''..''" by (cases ?X rule: rev_cases) auto
    have "plain_comp d"
    proof -
      obtain n ds where "Y @ [d] = replicate n ''..'' @ ds" "list_all plain_comp ds"
        using ok X by (auto simp: comps_ok_def)
      with d show ?thesis
        by (cases ds rule: rev_cases) (auto, metis in_set_conv_decomp in_set_replicate)
    qed
    then have "foldl (clean_step r) acc ?X = d # foldl (clean_step r) acc Y"
      by (auto simp: X clean_step_def plain_comp_def)
    moreover have "clean_comps False (cs @ [c]) = Y" using 3 X by (simp add: clean_comps_snoc clean_step_def)
    ultimately show ?thesis using IH 3 d by (simp add: clean_step_pop)
  next
    case 4
    then have "clean_comps False (cs @ [c]) = ?X @ [c]" by (simp add: clean_comps_snoc clean_step_def)
    then show ?thesis using IH by simp
  qed
qed

lemma split_render_relative:
  assumes "comps_ok False cs"
  shows "foldl (clean_step r) acc (split_on (CHR ''/'') (render_path False cs)) = foldl (clean_step r) acc cs"
proof (cases "cs = []")
  case True
  then show ?thesis by (simp add: render_path_def clean_step_def)
next
  case False
  then show ?thesis
    using split_join [OF _ False] comps_ok_chars [OF assms] by (simp add: render_path_def)
qed

lemma Abs_Clean:
  assumes "p \<noteq> []"
  shows "Abs cwd (Clean p) = Abs cwd p"
proof (cases "IsAbs p")
  case True
  then show ?thesis by (simp add: Abs_def)
next
  case rel: False
  have ne: "Clean p \<noteq> []"
  proof
    assume "Clean p = []"
    then have e: "Clean p = []" .
    show False
    proof (cases "path_comps p = []")
      case True
      with e rel show False by (simp add: Clean_comps render_path_def)
    next
      case False
      then have "hd (path_comps p) \<noteq> []"
        using comps_ok_chars [OF path_comps_ok, of "hd (path_comps p)" p] by simp
      from join_head [OF False this] e rel False show False
        by (simp add: Clean_comps render_path_def)
    qed
  qed
  have "Join [d, Clean p] = Join [d, p]" for d
  proof (cases "d = []")
    case True
    then show ?thesis using assms ne by (simp add: Join_def)
  next
    case False
    have abs: "IsAbs (d @ CHR ''/'' # q) = IsAbs d" for q using False by (cases d) (auto simp: IsAbs_Cons)
    have J: "Join [d, q] = render_path (IsAbs d) (rev (foldl (clean_step (IsAbs d)) (rev (path_comps d)) (split_on (CHR ''/'') q)))"
      if "q \<noteq> []" for q
      using that False by (simp add: Join_def Clean_def abs split_on_append_sep clean_comps_def path_comps_def)
    have "foldl (clean_step (IsAbs d)) acc (split_on (CHR ''/'') (Clean p)) =
        foldl (clean_step (IsAbs d)) acc (split_on (CHR ''/'') p)" for acc
      using rel split_render_relative [of "path_comps p"] path_comps_ok [of p]
        foldl_clean_relative [of "split_on (CHR ''/'') p"] split_on_pieces [of _ "CHR ''/''" p]
      by (simp add: Clean_comps path_comps_def list_all_iff)
    then show ?thesis using assms ne by (simp add: J)
  qed
  then show ?thesis using rel by (simp add: Abs_def)
qed

end
