(* ===== verification/SymphonyWorkspace.thy ===== *)
theory SymphonyWorkspace
  imports SymphonyModel GoPath
begin

text \<open>
  Per-issue workspaces (\<open>symphony/workspace\<close>): key validation, path containment, creation
  with the after-create hook, cleanup with the before-remove hook. The file system is a map
  from paths to nodes with an oracle for the operations the system may refuse; the effect
  of a shell script on it is a parameter.
\<close>

section \<open>Validation\<close>

datatype key_error = KeyEmpty | KeyInvalidChars string | KeyReserved string

definition ValidateWorkspaceKey :: "string \<Rightarrow> key_error option" where
  "ValidateWorkspaceKey key =
    (if key = [] then Some KeyEmpty
     else if \<not> list_all key_char key then Some (KeyInvalidChars key)
     else if key = ''..'' then Some (KeyReserved key)
     else None)"

datatype containment_error = CannotResolveRoot | CannotResolvePath | PathEqualsRoot string | PathNotInside string string

definition ValidatePathContainment :: "string option \<Rightarrow> string \<Rightarrow> string \<Rightarrow> containment_error option" where
  "ValidatePathContainment cwd workspacePath workspaceRoot =
    (case Abs cwd workspaceRoot of
       None \<Rightarrow> Some CannotResolveRoot
     | Some absRoot0 \<Rightarrow>
       case Abs cwd workspacePath of
         None \<Rightarrow> Some CannotResolvePath
       | Some absPath0 \<Rightarrow>
           let absRoot = Clean absRoot0; absPath = Clean absPath0
           in if absPath = absRoot then Some (PathEqualsRoot absPath)
              else if \<not> HasPrefix absPath (absRoot @ ''/'') then Some (PathNotInside absPath absRoot)
              else None)"

section \<open>File system and hooks\<close>

datatype node = Dir | File

record fs =
  nodes :: "string \<Rightarrow> node option"
  stat_err :: "string \<Rightarrow> bool"
  mkdir_err :: "string \<Rightarrow> bool"
  remove_err :: "string \<Rightarrow> bool"

definition under :: "string \<Rightarrow> string \<Rightarrow> bool" where
  "under p q \<longleftrightarrow> q = p \<or> prefix (p @ ''/'') q"

definition parents :: "string \<Rightarrow> string list" where
  "parents p = filter (\<lambda>q. q \<noteq> []) (map (\<lambda>i. take i p) (filter (\<lambda>i. p ! i = CHR ''/'') [0..<length p]))"

definition MkdirAll :: "string \<Rightarrow> fs \<Rightarrow> bool \<times> fs" where
  "MkdirAll p f =
    (if mkdir_err f p \<or> list_ex (\<lambda>q. nodes f q = Some File) (parents p) then (False, f)
     else (True, f\<lparr>nodes := (\<lambda>q. if q = p \<or> q \<in> set (parents p) then Some Dir else nodes f q)\<rparr>))"

definition RemoveAll :: "string \<Rightarrow> fs \<Rightarrow> bool \<times> fs" where
  "RemoveAll p f =
    (if remove_err f p then (False, f)
     else (True, f\<lparr>nodes := (\<lambda>q. if under p q then None else nodes f q)\<rparr>))"

datatype hook_outcome = HookOk | HookExit | HookDeadline

type_synonym shell = "string \<Rightarrow> string \<Rightarrow> int \<Rightarrow> fs \<Rightarrow> hook_outcome \<times> fs"

datatype hook_error = HookTimedOut int string | HookFailed

definition RunHook :: "shell \<Rightarrow> string \<Rightarrow> string \<Rightarrow> int \<Rightarrow> fs \<Rightarrow> hook_error option \<times> fs" where
  "RunHook sh script workDir timeoutMs f =
    (if script = [] then (None, f)
     else case sh script workDir timeoutMs f of
         (HookOk, f') \<Rightarrow> (None, f')
       | (HookDeadline, f') \<Rightarrow> (Some (HookTimedOut timeoutMs script), f')
       | (HookExit, f') \<Rightarrow> (Some HookFailed, f'))"

definition RunHookBestEffort :: "shell \<Rightarrow> string \<Rightarrow> string \<Rightarrow> int \<Rightarrow> fs \<Rightarrow> fs" where
  "RunHookBestEffort sh script workDir timeoutMs f =
    (if script = [] then f else snd (RunHook sh script workDir timeoutMs f))"

section \<open>Creation and cleanup\<close>

datatype ws_error =
    InvalidKey string key_error
  | ContainmentViolation string containment_error
  | StatFailed string
  | MkdirFailed string
  | NotADirectory string
  | AfterCreateFailed string hook_error
  | RemoveFailed string

definition CreateForIssue :: "shell \<Rightarrow> string option \<Rightarrow> ServiceConfig \<Rightarrow> string \<Rightarrow> fs \<Rightarrow>
    (ws_error + Workspace) \<times> fs" where
  "CreateForIssue sh cwd cfg identifier f =
    (let workspaceKey = SanitizeIdentifier identifier in
     case ValidateWorkspaceKey workspaceKey of
       Some e \<Rightarrow> (Inl (InvalidKey identifier e), f)
     | None \<Rightarrow>
       let wsPath = Join [WorkspaceRoot cfg, workspaceKey] in
       case ValidatePathContainment cwd wsPath (WorkspaceRoot cfg) of
         Some e \<Rightarrow> (Inl (ContainmentViolation identifier e), f)
       | None \<Rightarrow>
         if stat_err f wsPath then (Inl (StatFailed wsPath), f)
         else case nodes f wsPath of
             Some File \<Rightarrow> (Inl (NotADirectory wsPath), f)
           | Some Dir \<Rightarrow>
               (Inr \<lparr>ws_Path = wsPath, ws_WorkspaceKey = workspaceKey, ws_CreatedNow = False\<rparr>, f)
           | None \<Rightarrow>
               (case MkdirAll wsPath f of
                  (False, f1) \<Rightarrow> (Inl (MkdirFailed wsPath), f1)
                | (True, f1) \<Rightarrow>
                    if HookAfterCreate cfg \<noteq> [] then
                      (case RunHook sh (HookAfterCreate cfg) wsPath (HookTimeoutMs cfg) f1 of
                         (Some e, f2) \<Rightarrow> (Inl (AfterCreateFailed identifier e), snd (RemoveAll wsPath f2))
                       | (None, f2) \<Rightarrow>
                           (Inr \<lparr>ws_Path = wsPath, ws_WorkspaceKey = workspaceKey, ws_CreatedNow = True\<rparr>, f2))
                    else (Inr \<lparr>ws_Path = wsPath, ws_WorkspaceKey = workspaceKey, ws_CreatedNow = True\<rparr>, f1)))"

definition CleanupWorkspace :: "shell \<Rightarrow> string option \<Rightarrow> ServiceConfig \<Rightarrow> string \<Rightarrow> fs \<Rightarrow>
    ws_error option \<times> fs" where
  "CleanupWorkspace sh cwd cfg identifier f =
    (let workspaceKey = SanitizeIdentifier identifier in
     case ValidateWorkspaceKey workspaceKey of
       Some e \<Rightarrow> (Some (InvalidKey identifier e), f)
     | None \<Rightarrow>
       let wsPath = Join [WorkspaceRoot cfg, workspaceKey] in
       case ValidatePathContainment cwd wsPath (WorkspaceRoot cfg) of
         Some e \<Rightarrow> (Some (ContainmentViolation identifier e), f)
       | None \<Rightarrow>
         if stat_err f wsPath then (Some (StatFailed wsPath), f)
         else case nodes f wsPath of
             None \<Rightarrow> (None, f)
           | Some File \<Rightarrow> (Some (NotADirectory wsPath), f)
           | Some Dir \<Rightarrow>
               let f1 = (if HookBeforeRemove cfg \<noteq> []
                         then RunHookBestEffort sh (HookBeforeRemove cfg) wsPath (HookTimeoutMs cfg) f
                         else f)
               in case RemoveAll wsPath f1 of
                    (True, f2) \<Rightarrow> (None, f2)
                  | (False, f2) \<Rightarrow> (Some (RemoveFailed wsPath), f2))"

section \<open>Containment\<close>

lemma sanitize_rune_dot: "sanitize_rune r = CHR ''.'' \<Longrightarrow> r = ''.''"
  by (auto simp: sanitize_rune_def split: list.splits if_splits)

lemma concat_dots: "\<forall>r \<in> set rs. r = ''.'' \<Longrightarrow> map sanitize_rune rs = concat rs"
  by (induction rs) (auto simp: sanitize_rune_def key_char_def)

lemma Sanitize_dots: "list_all (\<lambda>c. c = CHR ''.'') (SanitizeIdentifier s) \<Longrightarrow> SanitizeIdentifier s = s"
  using concat_dots [of "runes s"]
  by (auto simp: SanitizeIdentifier_def list_all_iff concat_runes dest: sanitize_rune_dot)

lemma containment_not_dot:
  assumes "ValidatePathContainment cwd (Join [rdir, key]) rdir = None" and "rdir \<noteq> []"
  shows "key \<noteq> ''.''"
proof
  assume "key = ''.''"
  then have "Join [rdir, key] = Clean rdir" by (simp add: Join_dot assms(2))
  then have "Abs cwd (Join [rdir, key]) = Abs cwd rdir" by (simp add: Abs_Clean assms(2))
  with assms(1) show False
    by (simp add: ValidatePathContainment_def Let_def split: option.splits)
qed

lemma valid_key_plain:
  assumes "ValidateWorkspaceKey key = None" and "key \<noteq> ''.''"
  shows "plain_comp key"
proof -
  have "key \<noteq> []" "list_all key_char key" "key \<noteq> ''..''"
    using assms(1) by (auto simp: ValidateWorkspaceKey_def split: if_splits)
  with assms(2) show ?thesis
    by (auto simp: plain_comp_def list_all_iff dest: key_char_not_slash)
qed

lemma path_comps_Join_plain:
  assumes "rdir \<noteq> []" and "plain_comp key"
  shows "path_comps (Join [rdir, key]) = path_comps rdir @ [key]" and "IsAbs (Join [rdir, key]) = IsAbs rdir"
proof -
  obtain n ds where c: "path_comps rdir = replicate n ''..'' @ ds" "list_all plain_comp ds" "IsAbs rdir \<longrightarrow> n = 0"
    using path_comps_ok [of rdir] by (auto simp: comps_ok_def)
  have ok: "comps_ok (IsAbs rdir) (path_comps rdir @ [key])"
    unfolding comps_ok_def using c assms(2) by (intro exI [of _ n] exI [of _ "ds @ [key]"]) simp
  show "path_comps (Join [rdir, key]) = path_comps rdir @ [key]" "IsAbs (Join [rdir, key]) = IsAbs rdir"
    using ok by (simp_all add: Join_plain [OF assms] path_comps_render IsAbs_render)
qed

text \<open>The validations before anything is touched, as one test.\<close>

definition ws_target :: "string option \<Rightarrow> ServiceConfig \<Rightarrow> string \<Rightarrow> string option" where
  "ws_target cwd cfg identifier =
    (let key = SanitizeIdentifier identifier; p = Join [WorkspaceRoot cfg, key] in
     if ValidateWorkspaceKey key = None \<and> ValidatePathContainment cwd p (WorkspaceRoot cfg) = None
     then Some p else None)"

lemma ws_target_inside:
  assumes "ws_target cwd cfg identifier = Some p" and "WorkspaceRoot cfg \<noteq> []"
  shows "plain_comp (SanitizeIdentifier identifier)"
    and "path_comps p = path_comps (WorkspaceRoot cfg) @ [SanitizeIdentifier identifier]"
    and "IsAbs p = IsAbs (WorkspaceRoot cfg)"
proof -
  let ?key = "SanitizeIdentifier identifier"
  have v: "ValidateWorkspaceKey ?key = None"
    "ValidatePathContainment cwd (Join [WorkspaceRoot cfg, ?key]) (WorkspaceRoot cfg) = None"
    and p: "p = Join [WorkspaceRoot cfg, ?key]"
    using assms(1) by (auto simp: ws_target_def Let_def split: if_splits)
  show k: "plain_comp ?key"
    by (rule valid_key_plain [OF v(1) containment_not_dot [OF v(2) assms(2)]])
  show "path_comps p = path_comps (WorkspaceRoot cfg) @ [?key]" "IsAbs p = IsAbs (WorkspaceRoot cfg)"
    using path_comps_Join_plain [OF assms(2) k] by (simp_all add: p)
qed

lemma CreateForIssue_target:
  "CreateForIssue sh cwd cfg identifier f = (Inr ws, f') \<Longrightarrow>
   ws_target cwd cfg identifier = Some (ws_Path ws) \<and> ws_WorkspaceKey ws = SanitizeIdentifier identifier"
  by (auto simp: CreateForIssue_def ws_target_def Let_def
      split: option.splits if_splits node.splits prod.splits bool.splits)

text \<open>C39. A workspace that is created or reused lies directly inside the workspace root: its path
  has the components of the root followed by one more, the sanitised identifier, which has
  no separator and is none of the empty name, \<open>.\<close> and \<open>..\<close>. This holds for every
  identifier, also one made to escape.\<close>

theorem symphony_workspace_inside_root:
  assumes "CreateForIssue sh cwd cfg identifier f = (Inr ws, f')" and "WorkspaceRoot cfg \<noteq> []"
  shows "path_comps (ws_Path ws) = path_comps (WorkspaceRoot cfg) @ [SanitizeIdentifier identifier] \<and>
    IsAbs (ws_Path ws) = IsAbs (WorkspaceRoot cfg) \<and>
    CHR ''/'' \<notin> set (SanitizeIdentifier identifier) \<and>
    SanitizeIdentifier identifier \<notin> {[], ''.'', ''..''}"
  using ws_target_inside [OF conjunct1 [OF CreateForIssue_target [OF assms(1)]] assms(2)]
  by (simp add: plain_comp_def)

definition quiet_shell :: shell where
  "quiet_shell script workDir timeoutMs f = (HookOk, f)"

definition empty_fs :: fs where
  "empty_fs = \<lparr>nodes = (\<lambda>_. None), stat_err = (\<lambda>_. False), mkdir_err = (\<lambda>_. False), remove_err = (\<lambda>_. False)\<rparr>"

definition ws_cfg :: ServiceConfig where
  "ws_cfg = \<lparr>Workflow = \<lparr>wf_Config = [], wf_PromptTemplate = []\<rparr>,
     MaxConcurrentByState = None, ServerPort = None, HookAfterCreate = [],
     HookAfterRun = [], AgentType = [], AgentCommand = ''codex app-server'',
     TrackerKind = ''linear'', WorkspaceRoot = ''/tmp/ws/'', AgentApprovalPolicy = [],
     HookBeforeRun = [], TrackerEndpoint = [], HookBeforeRemove = [],
     TrackerProjectSlug = ''proj'', TrackerAPIKey = ''key'', AgentTurnSandboxPolicy = [],
     AgentThreadSandbox = [], ActiveStates = [''Todo''],
     TerminalStates = [''Done''], PollIntervalMs = 30000, MaxRetryBackoffMs = 300000,
     MaxTurns = 3, AgentTurnTimeoutMs = 3600000, AgentReadTimeoutMs = 5000,
     AgentStallTimeoutMs = 300000, MaxConcurrentAgents = 2, HookTimeoutMs = 60000\<rparr>"

lemma ws_sample_target: "ws_target None ws_cfg ''../etc'' = Some ''/tmp/ws/.._etc''"
  by code_simp

lemma ws_sample_create: "\<exists>f'. CreateForIssue quiet_shell None ws_cfg ''../etc'' empty_fs =
    (Inr \<lparr>ws_Path = ''/tmp/ws/.._etc'', ws_WorkspaceKey = ''.._etc'', ws_CreatedNow = True\<rparr>, f')"
proof -
  have k: "SanitizeIdentifier ''../etc'' = ''.._etc''" by code_simp
  have v: "ValidateWorkspaceKey ''.._etc'' = None" by code_simp
  have j: "Join [''/tmp/ws/'', ''.._etc''] = ''/tmp/ws/.._etc''" by code_simp
  have c: "ValidatePathContainment None ''/tmp/ws/.._etc'' ''/tmp/ws/'' = None" by code_simp
  have e: "WorkspaceRoot ws_cfg = ''/tmp/ws/''" "HookAfterCreate ws_cfg = []" by (simp_all add: ws_cfg_def)
  show ?thesis
    by (simp add: CreateForIssue_def k v e j c empty_fs_def MkdirAll_def list_ex_iff Let_def)
qed

theorem symphony_workspace_inside_root_witness:
  "path_comps ''/tmp/ws/.._etc'' = path_comps (WorkspaceRoot ws_cfg) @ [SanitizeIdentifier ''../etc'']"
proof -
  obtain f' where c: "CreateForIssue quiet_shell None ws_cfg ''../etc'' empty_fs =
      (Inr \<lparr>ws_Path = ''/tmp/ws/.._etc'', ws_WorkspaceKey = ''.._etc'', ws_CreatedNow = True\<rparr>, f')"
    using ws_sample_create by blast
  show ?thesis using symphony_workspace_inside_root [OF c] by (simp add: ws_cfg_def)
qed

section \<open>What cleanup touches\<close>

lemma Cleanup_nodes:
  assumes "HookBeforeRemove cfg = []"
  shows "nodes (snd (CleanupWorkspace sh cwd cfg identifier f)) p = nodes f p \<or>
    (\<exists>w. ws_target cwd cfg identifier = Some w \<and> under w p)"
  using assms
  by (auto simp: CleanupWorkspace_def ws_target_def Let_def RemoveAll_def
      split: option.splits if_splits node.splits prod.splits bool.splits)

text \<open>Without a before-remove hook, cleaning up removes nothing outside the issue's own
  workspace: a path whose node changed is that workspace (a direct child of the root) or
  below it. When cleanup reports success, nothing is left at or below the workspace unless
  there was none.\<close>

theorem symphony_cleanup_contained:
  assumes "HookBeforeRemove cfg = []" and "WorkspaceRoot cfg \<noteq> []"
    and "CleanupWorkspace sh cwd cfg identifier f = (err, f')"
  shows "(nodes f' p \<noteq> nodes f p \<longrightarrow>
      (\<exists>w. under w p \<and> path_comps w = path_comps (WorkspaceRoot cfg) @ [SanitizeIdentifier identifier])) \<and>
    (err = None \<longrightarrow> (\<exists>w. ws_target cwd cfg identifier = Some w \<and>
      (nodes f w = None \<and> f' = f \<or> (\<forall>q. under w q \<longrightarrow> nodes f' q = None))))"
proof
  show "nodes f' p \<noteq> nodes f p \<longrightarrow>
      (\<exists>w. under w p \<and> path_comps w = path_comps (WorkspaceRoot cfg) @ [SanitizeIdentifier identifier])"
    using Cleanup_nodes [OF assms(1), of sh cwd "identifier" f p] assms(3) ws_target_inside(2) [OF _ assms(2)]
    by fastforce
  show "err = None \<longrightarrow> (\<exists>w. ws_target cwd cfg identifier = Some w \<and>
      (nodes f w = None \<and> f' = f \<or> (\<forall>q. under w q \<longrightarrow> nodes f' q = None)))"
    using assms(1,3)
    by (auto simp: CleanupWorkspace_def ws_target_def Let_def RemoveAll_def
        split: option.splits if_splits node.splits prod.splits bool.splits)
qed

theorem symphony_cleanup_contained_witness:
  "\<exists>err f'. CleanupWorkspace quiet_shell None ws_cfg ''../etc'' empty_fs = (err, f') \<and>
    (nodes f' ''/tmp/ws'' \<noteq> nodes empty_fs ''/tmp/ws'' \<longrightarrow> (\<exists>w. under w ''/tmp/ws'' \<and>
       path_comps w = path_comps (WorkspaceRoot ws_cfg) @ [SanitizeIdentifier ''../etc'']))"
proof -
  obtain err f' where e: "CleanupWorkspace quiet_shell None ws_cfg ''../etc'' empty_fs = (err, f')"
    by (cases "CleanupWorkspace quiet_shell None ws_cfg ''../etc'' empty_fs")
  have h: "HookBeforeRemove ws_cfg = []" "WorkspaceRoot ws_cfg \<noteq> []" by (simp_all add: ws_cfg_def)
  show ?thesis using symphony_cleanup_contained [OF h e, of "''/tmp/ws''"] e by blast
qed

text \<open>With the file-system root as workspace root the containment check refuses every path,
  also those inside, since it asks for the prefix \<open>//\<close> that no cleaned path has.\<close>

theorem symphony_root_dir_refused:
  "ValidatePathContainment cwd p ''/'' \<noteq> None"
proof -
  have c: "Clean ''/'' = ''/''" by code_simp
  have a: "Abs cwd ''/'' = Some ''/''" by (simp add: Abs_def c IsAbs_Cons)
  have "\<not> HasPrefix (Clean q) ''//''" for q
  proof
    assume h: "HasPrefix (Clean q) ''//''"
    then have r: "IsAbs (Clean q)" by (auto simp: HasPrefix_def IsAbs_def prefix_def)
    then have "IsAbs q" by simp
    then have e: "Clean q = ''/'' @ join_with ''/'' (path_comps q)" by (simp add: Clean_comps render_path_def)
    with h have j: "prefix ''/'' (join_with ''/'' (path_comps q))" by (simp add: HasPrefix_def)
    then have ne: "path_comps q \<noteq> []" by auto
    have "hd (path_comps q) \<noteq> []" "CHR ''/'' \<notin> set (hd (path_comps q))"
      using comps_ok_chars [OF path_comps_ok, of "hd (path_comps q)" q] ne by simp_all
    with j join_head [OF ne] show False by (metis hd_in_set prefix_Cons list.sel(1) list.distinct(1))
  qed
  then show ?thesis by (auto simp: ValidatePathContainment_def a c Let_def split: option.splits)
qed

end
