(* ===== verification/SymphonyPrompt.thy ===== *)
theory SymphonyPrompt
  imports SymphonyModel
begin

text \<open>
  Prompt rendering (\<open>symphony/prompt\<close>): the strict template renderer with its two
  constructs, the variables of an issue, and the continuation message. The renderer scans
  the template from a position; since it only looks at the rest of the template, the model
  carries the rest and the position, which appears in error messages.
\<close>

definition knownVariables :: "string list" where
  "knownVariables = [''issue.id'', ''issue.identifier'', ''issue.title'', ''issue.description'',
     ''issue.priority'', ''issue.state'', ''issue.branch_name'', ''issue.url'', ''issue.labels'',
     ''issue.blocked_by'', ''issue.created_at'', ''issue.updated_at'', ''attempt'']"

definition ptrStringVal :: "string option \<Rightarrow> string" where
  "ptrStringVal p = (case p of None \<Rightarrow> [] | Some s \<Rightarrow> s)"

definition ptrIntVal :: "int option \<Rightarrow> string" where
  "ptrIntVal p = (case p of None \<Rightarrow> [] | Some i \<Rightarrow> Itoa i)"

definition ptrTimeVal :: "time option \<Rightarrow> string" where
  "ptrTimeVal p = (case p of None \<Rightarrow> [] | Some t \<Rightarrow> FormatRFC3339 t)"

definition formatBlockers :: "BlockerRef list \<Rightarrow> string" where
  "formatBlockers refs = join_with '', '' (concat (map (\<lambda>r.
     case br_Identifier r of
       Some s \<Rightarrow> [s]
     | None \<Rightarrow> (case br_ID r of Some s \<Rightarrow> [s] | None \<Rightarrow> [])) refs))"

definition buildVarMap :: "Issue \<Rightarrow> int option \<Rightarrow> (string, string) gomap" where
  "buildVarMap issue attempt =
    [(''issue.id'', i_ID issue),
     (''issue.identifier'', i_Identifier issue),
     (''issue.title'', i_Title issue),
     (''issue.description'', ptrStringVal (i_Description issue)),
     (''issue.priority'', ptrIntVal (i_Priority issue)),
     (''issue.state'', i_State issue),
     (''issue.branch_name'', ptrStringVal (i_BranchName issue)),
     (''issue.url'', ptrStringVal (i_URL issue)),
     (''issue.labels'', join_with '', '' (i_Labels issue)),
     (''issue.blocked_by'', formatBlockers (i_BlockedBy issue)),
     (''issue.created_at'', ptrTimeVal (i_CreatedAt issue)),
     (''issue.updated_at'', ptrTimeVal (i_UpdatedAt issue))] @
    (case attempt of None \<Rightarrow> [] | Some a \<Rightarrow> [(''attempt'', Itoa a)])"

datatype render_error =
    UnclosedVariableTag nat
  | UnknownFilter string
  | UnknownVariable string
  | UnclosedBlockTag nat
  | UnknownConditional string
  | MissingEndif nat
  | UnknownBlockTag string
  | SliceBoundsPanic nat nat

text \<open>
  The last constructor is no error value of the code but the run-time panic of a slice
  expression whose start is past its end.
  \<open>processVar\<close> on a rest that starts with \<open>{{\<close>: what it writes and how many bytes it
  consumes. \<open>processBlock\<close> up to its recursive call: the body to render (if any) and the
  bytes consumed.
\<close>

definition processVar :: "nat \<Rightarrow> string \<Rightarrow> (string, string) gomap \<Rightarrow> render_error + (string \<times> nat)" where
  "processVar pos s vars =
    (case Index s ''}}'' of
       None \<Rightarrow> Inl (UnclosedVariableTag pos)
     | Some e \<Rightarrow>
         if e < 2 then Inl (SliceBoundsPanic (pos + 2) (pos + e)) else
         let inner = TrimSpace (drop 2 (take e s)) in
         if CHR ''|'' \<in> set inner then Inl (UnknownFilter inner)
         else if inner \<notin> set knownVariables then Inl (UnknownVariable inner)
         else Inr ((case map_of vars inner of Some v \<Rightarrow> v | None \<Rightarrow> []), e + 2))"

definition processBlock :: "nat \<Rightarrow> string \<Rightarrow> (string, string) gomap \<Rightarrow> render_error + (string option \<times> nat)" where
  "processBlock pos s vars =
    (case Index s ''%}'' of
       None \<Rightarrow> Inl (UnclosedBlockTag pos)
     | Some e \<Rightarrow>
         if e < 2 then Inl (SliceBoundsPanic (pos + 2) (pos + e)) else
         let inner = TrimSpace (drop 2 (take e s)); tagEnd = e + 2 in
         if HasPrefix inner ''if '' then
           let varName = TrimSpace (drop 2 inner) in
           if varName \<notin> set knownVariables then Inl (UnknownConditional varName)
           else (case Index (drop tagEnd s) ''{% endif %}'' of
                   None \<Rightarrow> Inl (MissingEndif pos)
                 | Some n \<Rightarrow>
                     Inr (if map_of vars varName \<noteq> None \<and> map_of vars varName \<noteq> Some []
                          then Some (take n (drop tagEnd s)) else None,
                          tagEnd + n + 11))
         else Inl (UnknownBlockTag inner))"

lemma processVar_pos: "processVar pos s vars = Inr (v, n) \<Longrightarrow> 0 < n \<and> n \<le> length s"
  by (auto simp: processVar_def Let_def dest!: Index_Some split: option.splits if_splits)

lemma processBlock_pos:
  "processBlock pos s vars = Inr (b, n) \<Longrightarrow> 0 < n \<and> n \<le> length s \<and> (\<forall>body. b = Some body \<longrightarrow> length body < length s)"
  by (auto simp: processBlock_def Let_def dest!: Index_Some split: option.splits if_splits)

text \<open>Where the next tag is, and whether it is a block.\<close>

definition next_tag :: "string \<Rightarrow> (nat \<times> bool) option" where
  "next_tag s =
    (case (Index s ''{{'', Index s ''{%'') of
       (None, None) \<Rightarrow> None
     | (None, Some b) \<Rightarrow> Some (b, True)
     | (Some v, None) \<Rightarrow> Some (v, False)
     | (Some v, Some b) \<Rightarrow> if b < v then Some (b, True) else Some (v, False))"

lemma next_tag_le: "next_tag s = Some (t, b) \<Longrightarrow> t < length s"
  by (auto simp: next_tag_def dest!: Index_Some split: option.splits if_splits)

function render_at :: "nat \<Rightarrow> string \<Rightarrow> (string, string) gomap \<Rightarrow> render_error + string" where
  "render_at i s vars =
    (case next_tag s of
       None \<Rightarrow> Inr s
     | Some (tagPos, isBlock) \<Rightarrow>
         let pos = i + tagPos; rest = drop tagPos s in
         if isBlock then
           (case processBlock pos rest vars of
              Inl e \<Rightarrow> Inl e
            | Inr (body, n) \<Rightarrow>
                (case (case body of None \<Rightarrow> Inr [] | Some t \<Rightarrow> render_at 0 t vars) of
                   Inl e \<Rightarrow> Inl e
                 | Inr txt \<Rightarrow>
                     (case render_at (pos + n) (drop n rest) vars of
                        Inl e \<Rightarrow> Inl e
                      | Inr tail \<Rightarrow> Inr (take tagPos s @ txt @ tail))))
         else
           (case processVar pos rest vars of
              Inl e \<Rightarrow> Inl e
            | Inr (txt, n) \<Rightarrow>
                (case render_at (pos + n) (drop n rest) vars of
                   Inl e \<Rightarrow> Inl e
                 | Inr tail \<Rightarrow> Inr (take tagPos s @ txt @ tail))))"
  by pat_completeness auto
termination
  by (relation "measure (\<lambda>(i, s, vars). length s)")
     (auto dest!: next_tag_le processBlock_pos processVar_pos)

declare render_at.simps [simp del]

definition render :: "string \<Rightarrow> (string, string) gomap \<Rightarrow> render_error + string" where
  "render tmpl vars = render_at 0 tmpl vars"

definition RenderInitialPrompt :: "string \<Rightarrow> Issue \<Rightarrow> int option \<Rightarrow> render_error + string" where
  "RenderInitialPrompt template issue attempt =
    (if template = [] then Inr ''You are working on an issue from Linear.''
     else render template (buildVarMap issue attempt))"

text \<open>\<open>quote\<close> is \<open>strconv.Quote\<close>, the \<open>%q\<close> of the format.\<close>

definition BuildContinuationGuidance :: "(string \<Rightarrow> string) \<Rightarrow> Issue \<Rightarrow> int \<Rightarrow> int \<Rightarrow> string" where
  "BuildContinuationGuidance quote issue turnNumber maxTurns =
    ''Continue working on '' @ i_Identifier issue @ '': '' @ i_Title issue @ ''.'' @
    [char_of (10 :: nat), char_of (10 :: nat)] @
    (if maxTurns > 0 then ''This is turn '' @ Itoa turnNumber @ '' of '' @ Itoa maxTurns @ ''.''
     else ''This is turn '' @ Itoa turnNumber @ ''.'') @
    (if i_State issue \<noteq> [] then '' The issue is currently in state '' @ quote (i_State issue) @ ''.'' else [])"

definition RenderContinuationPrompt :: "(string \<Rightarrow> string) \<Rightarrow> Issue \<Rightarrow> int \<Rightarrow> string" where
  "RenderContinuationPrompt quote issue turnNumber = BuildContinuationGuidance quote issue turnNumber 0"

section \<open>Rendering is one pass\<close>

lemma Index_prefix [simp]: "sub \<noteq> [] \<Longrightarrow> prefix sub s \<Longrightarrow> Index s sub = Some 0"
  by (cases s) auto

definition var_tag :: "string \<Rightarrow> string" where
  "var_tag name = ''{{ '' @ name @ '' }}''"

definition if_block :: "string \<Rightarrow> string \<Rightarrow> string" where
  "if_block name body = ''{% if '' @ name @ '' %}'' @ body @ ''{% endif %}''"

lemma next_tag_var: "next_tag (var_tag name @ rest) = Some (0, False)"
  by (auto simp: next_tag_def var_tag_def split: option.splits)

lemma next_tag_if: "next_tag (if_block name body @ rest) = Some (0, True)"
  by (auto simp: next_tag_def if_block_def split: option.splits)

lemma processVar_known:
  assumes "name \<in> set knownVariables"
  shows "processVar pos (var_tag name @ rest) vars =
    Inr ((case map_of vars name of Some v \<Rightarrow> v | None \<Rightarrow> []), length (var_tag name))"
proof -
  have trim: "TrimSpace ('' '' @ name @ '' '') = name"
    using assms by (simp add: knownVariables_def, elim disjE) (simp only:, code_simp)+
  have idx: "Index (var_tag name @ rest) ''}}'' = Some (length name + 4)"
    using assms by (simp add: knownVariables_def, elim disjE) (simp_all add: var_tag_def)
  have "CHR ''|'' \<notin> set name"
    using assms by (simp add: knownVariables_def, elim disjE) simp_all
  moreover have "drop 2 (take (length name + 4) (var_tag name @ rest)) = '' '' @ name @ '' ''"
  proof -
    have "var_tag name @ rest = (''{{ '' @ name @ '' '') @ ''}}'' @ rest" by (simp add: var_tag_def)
    moreover have "length (''{{ '' @ name @ '' '') = length name + 4" by simp
    ultimately have "take (length name + 4) (var_tag name @ rest) = ''{{ '' @ name @ '' ''"
      by (metis append_eq_conv_conj)
    then show ?thesis by simp
  qed
  moreover have "length (var_tag name) = length name + 4 + 2" by (simp add: var_tag_def)
  ultimately show ?thesis using assms trim by (simp add: processVar_def idx Let_def)
qed

text \<open>The value of a variable is copied into the prompt as it is and never scanned for tags
  itself, whatever text it holds: a template that starts with a tag of a known variable
  renders to the variable's value followed by the rendering of the rest.\<close>

theorem symphony_prompt_value_verbatim:
  assumes "name \<in> set knownVariables"
  shows "render_at i (var_tag name @ rest) vars =
    (case render_at (i + length (var_tag name)) rest vars of
       Inl e \<Rightarrow> Inl e
     | Inr tail \<Rightarrow> Inr ((case map_of vars name of Some v \<Rightarrow> v | None \<Rightarrow> []) @ tail))"
  using processVar_known [OF assms, of i rest vars]
  by (subst render_at.simps) (simp add: next_tag_var split: sum.split)

theorem symphony_prompt_value_verbatim_witness:
  "''issue.title'' \<in> set knownVariables \<and>
   render (var_tag ''issue.title'') [(''issue.title'', ''{{ attempt }}'')] = Inr ''{{ attempt }}''"
proof -
  have k: "''issue.title'' \<in> set knownVariables" by (simp add: knownVariables_def)
  have n: "next_tag [] = None" by (simp add: next_tag_def)
  show ?thesis
    using symphony_prompt_value_verbatim [OF k, of 0 "[]" "[(''issue.title'', ''{{ attempt }}'')]"] k n
    by (simp add: render_def render_at.simps [of _ "[]"])
qed

text \<open>A template whose first tag is the malformed block tag \<open>{%}\<close> makes the renderer panic on
  a slice expression instead of returning an error.\<close>

theorem symphony_prompt_block_panic:
  assumes "next_tag tmpl = Some (n, True)" and "drop n tmpl = ''{%}'' @ rest"
  shows "render tmpl vars = Inl (SliceBoundsPanic (n + 2) (n + 1))"
proof -
  have "Index (drop n tmpl) ''%}'' = Some 1" by (simp add: assms(2))
  then have "processBlock n (drop n tmpl) vars = Inl (SliceBoundsPanic (n + 2) (n + 1))"
    by (simp add: processBlock_def)
  then show ?thesis
    by (subst render_def, subst render_at.simps) (simp add: assms(1) Let_def)
qed

theorem symphony_prompt_block_panic_witness:
  "render ''a {%} b'' [] = Inl (SliceBoundsPanic 4 3)"
proof -
  have "next_tag ''a {%} b'' = Some (2, True)" by (simp add: next_tag_def)
  moreover have "drop 2 ''a {%} b'' = ''{%}'' @ '' b''" by simp
  ultimately have "render ''a {%} b'' [] = Inl (SliceBoundsPanic (2 + 2) (2 + 1))"
    by (rule symphony_prompt_block_panic)
  then show ?thesis by simp
qed

end
