(* ===== verification/SymphonyWorker.thy ===== *)
theory SymphonyWorker
  imports SymphonyOrchestrator SymphonyWorkspace SymphonyPrompt
begin

text \<open>
  The worker of one issue (\<open>symphony/orchestrator/worker.go\<close>, \<open>agent_factory.go\<close>): workspace,
  before-run hook, prompt, agent session, the turn loop with a state refresh between turns,
  and the after-run hook. It calls the workspace and prompt components; the agent session
  and the tracker answer through the record \<open>world\<close>. What it does to them is its trace.
\<close>

text \<open>
  \<open>w_start\<close> is the error of \<open>codex.NewSession\<close> (none when the session starts), \<open>w_turn n p\<close>
  the result and the error of the n-th \<open>RunTurn\<close>, \<open>w_refresh n\<close> the answer of
  \<open>FetchIssueStatesByIDs\<close> after it.
\<close>

record world =
  w_ul :: "string \<Rightarrow> string"
  w_quote :: "string \<Rightarrow> string"
  w_sh :: shell
  w_cwd :: "string option"
  w_start :: "SessionConfig \<Rightarrow> string option"
  w_turn :: "int \<Rightarrow> string \<Rightarrow> TurnResult \<times> string option"
  w_refresh :: "int \<Rightarrow> string + Issue list"

datatype worker_error =
    WorkspaceError ws_error
  | BeforeRunError hook_error
  | PromptError render_error
  | UnsupportedAgent string
  | SessionError string
  | TurnError string
  | RefreshError string

datatype worker_action = BeforeRun | StartSession SessionConfig | RunTurn int string | StopSession | AfterRun

record outcome =
  o_ExitReason :: ExitReason
  o_Error :: "worker_error option"
  o_trace :: "worker_action list"

definition newAgent :: "world \<Rightarrow> SessionConfig \<Rightarrow> worker_error option" where
  "newAgent w cfg =
    (if sc_Type cfg = [] \<or> sc_Type cfg = ''codex''
     then map_option SessionError (w_start w cfg)
     else Some (UnsupportedAgent (sc_Type cfg)))"

definition after_run :: "ServiceConfig \<Rightarrow> worker_action list" where
  "after_run cfg = (if HookAfterRun cfg \<noteq> [] then [AfterRun] else [])"

definition finish :: "ServiceConfig \<Rightarrow> ExitReason \<Rightarrow> worker_error option \<Rightarrow> outcome" where
  "finish cfg reason err = \<lparr>o_ExitReason = reason, o_Error = err, o_trace = StopSession # after_run cfg\<rparr>"

definition then_outcome :: "worker_action list \<Rightarrow> outcome \<Rightarrow> outcome" where
  "then_outcome acts o1 = o1\<lparr>o_trace := acts @ o_trace o1\<rparr>"

definition turn_exit :: "TurnStatus \<Rightarrow> ExitReason" where
  "turn_exit st = (case st of
     TurnTimedOut \<Rightarrow> ExitReasonTimedOut
   | TurnCancelled \<Rightarrow> ExitReasonCanceled
   | _ \<Rightarrow> ExitReasonFailed)"

function turn_loop :: "world \<Rightarrow> ServiceConfig \<Rightarrow> Issue \<Rightarrow> int \<Rightarrow> string \<Rightarrow> outcome" where
  "turn_loop w cfg issue turnNumber currentPrompt =
    (if turnNumber \<le> MaxTurns cfg then
       then_outcome [RunTurn turnNumber currentPrompt]
        (case w_turn w turnNumber currentPrompt of (turnResult, err) \<Rightarrow>
          if err \<noteq> None \<or> tn_Status turnResult \<noteq> TurnCompleted
          then finish cfg (turn_exit (tn_Status turnResult))
                 (map_option TurnError (if tn_Error turnResult \<noteq> None then tn_Error turnResult else err))
          else (case w_refresh w turnNumber of
              Inl e \<Rightarrow> finish cfg ExitReasonFailed (Some (RefreshError e))
            | Inr refreshed \<Rightarrow>
                let issue' = (case refreshed of [] \<Rightarrow> issue | i # _ \<Rightarrow> i);
                    normState = NormalizeState (w_ul w) (i_State issue')
                in if \<not> state_in (w_ul w) (ActiveStates cfg) normState
                   then finish cfg ExitReasonInactive None
                   else if turnNumber \<ge> MaxTurns cfg then finish cfg ExitReasonNormal None
                   else turn_loop w cfg issue' (turnNumber + 1)
                          (RenderContinuationPrompt (w_quote w) issue' (turnNumber + 1))))
     else finish cfg ExitReasonNormal None)"
  by pat_completeness auto
termination
  by (relation "measure (\<lambda>(w, cfg, issue, n, p). nat (MaxTurns cfg - n))") auto

declare turn_loop.simps [simp del]

definition session_config :: "ServiceConfig \<Rightarrow> Issue \<Rightarrow> string \<Rightarrow> SessionConfig" where
  "session_config cfg issue workDir =
    \<lparr>sc_Type = AgentType cfg, sc_Command = AgentCommand cfg, sc_WorkDir = workDir,
     sc_ApprovalPolicy = AgentApprovalPolicy cfg, sc_ThreadSandbox = AgentThreadSandbox cfg,
     sc_TurnSandboxPolicy = AgentTurnSandboxPolicy cfg, sc_IssueIdentifier = i_Identifier issue,
     sc_IssueTitle = i_Title issue, sc_TurnTimeoutMs = AgentTurnTimeoutMs cfg,
     sc_ReadTimeoutMs = AgentReadTimeoutMs cfg\<rparr>"

definition failed :: "worker_error \<Rightarrow> worker_action list \<Rightarrow> outcome" where
  "failed e acts = \<lparr>o_ExitReason = ExitReasonFailed, o_Error = Some e, o_trace = acts\<rparr>"

text \<open>
  \<open>None\<close> is a panic of the renderer, which no worker recovers from. The file system after
  creation and the before-run hook is threaded through; what the agent and the after-run
  hook do to it later is not observed.
\<close>

definition runWorker :: "world \<Rightarrow> ServiceConfig \<Rightarrow> Issue \<Rightarrow> int option \<Rightarrow> fs \<Rightarrow> outcome option" where
  "runWorker w cfg issue attempt f =
    (case CreateForIssue (w_sh w) (w_cwd w) cfg (i_Identifier issue) f of
       (Inl e, _) \<Rightarrow> Some (failed (WorkspaceError e) [])
     | (Inr ws, f1) \<Rightarrow>
         let before = (if HookBeforeRun cfg \<noteq> [] then [BeforeRun] else []);
             hook = (if HookBeforeRun cfg \<noteq> []
                     then fst (RunHook (w_sh w) (HookBeforeRun cfg) (ws_Path ws) (HookTimeoutMs cfg) f1)
                     else None)
         in case hook of
              Some e \<Rightarrow> Some (failed (BeforeRunError e) before)
            | None \<Rightarrow>
              (case RenderInitialPrompt (wf_PromptTemplate (Workflow cfg)) issue attempt of
                 Inl (SliceBoundsPanic a b) \<Rightarrow> None
               | Inl e \<Rightarrow> Some (failed (PromptError e) (before @ after_run cfg))
               | Inr rendered \<Rightarrow>
                   let sc = session_config cfg issue (ws_Path ws) in
                   case newAgent w sc of
                     Some e \<Rightarrow> Some (failed e (before @ after_run cfg))
                   | None \<Rightarrow> Some (then_outcome (before @ [StartSession sc])
                               (turn_loop w cfg issue 1 rendered))))"

section \<open>The shape of a worker's trace\<close>

definition is_turn :: "worker_action \<Rightarrow> bool" where
  "is_turn a = (case a of RunTurn n p \<Rightarrow> True | _ \<Rightarrow> False)"

definition turn_no :: "worker_action \<Rightarrow> int" where
  "turn_no a = (case a of RunTurn n p \<Rightarrow> n | _ \<Rightarrow> 0)"

lemma outcome_simps [simp]:
  "o_trace (then_outcome acts oc) = acts @ o_trace oc"
  "o_ExitReason (then_outcome acts oc) = o_ExitReason oc"
  "o_Error (then_outcome acts oc) = o_Error oc"
  "o_trace (finish cfg r e) = StopSession # after_run cfg"
  "o_ExitReason (finish cfg r e) = r"
  by (simp_all add: then_outcome_def finish_def)

text \<open>
  From turn n the loop runs turns n, n + 1, \<dots>, k and then stops the session and runs the
  hook; what the exit reason says about k.
\<close>

definition loop_shape :: "ServiceConfig \<Rightarrow> int \<Rightarrow> outcome \<Rightarrow> int \<Rightarrow> bool" where
  "loop_shape cfg n oc k \<longleftrightarrow>
     (\<exists>ts. o_trace oc = ts @ StopSession # after_run cfg \<and> list_all is_turn ts \<and>
        map turn_no ts = [n..k]) \<and>
     k \<le> max (n - 1) (MaxTurns cfg) \<and> n - 1 \<le> k \<and>
     (o_ExitReason oc = ExitReasonNormal \<longrightarrow> k = max (n - 1) (MaxTurns cfg)) \<and>
     (n \<le> MaxTurns cfg \<longrightarrow> n \<le> k)"

lemma loop_shape_last:
  assumes "n \<le> MaxTurns cfg" and "r = ExitReasonNormal \<Longrightarrow> n = MaxTurns cfg"
  shows "loop_shape cfg n (then_outcome [RunTurn n p] (finish cfg r e)) n"
  using assms unfolding loop_shape_def
  by (intro conjI exI [of _ "[RunTurn n p]"]) (simp_all add: is_turn_def turn_no_def)

lemma loop_shape_step:
  assumes "loop_shape cfg (n + 1) oc k" and "n < MaxTurns cfg"
  shows "loop_shape cfg n (then_outcome [RunTurn n p] oc) k"
proof -
  obtain ts where t: "o_trace oc = ts @ StopSession # after_run cfg" "list_all is_turn ts"
    "map turn_no ts = [n + 1..k]" and k: "k \<le> max n (MaxTurns cfg)" "n \<le> k"
      "o_ExitReason oc = ExitReasonNormal \<longrightarrow> k = max n (MaxTurns cfg)"
    using assms(1) unfolding loop_shape_def by force
  have "[n..k] = n # [n + 1..k]" using k(2) by (rule upto_rec1)
  then have "map turn_no (RunTurn n p # ts) = [n..k]" using t(3) by (simp add: turn_no_def)
  moreover have "list_all is_turn (RunTurn n p # ts)" using t(2) by (simp add: is_turn_def)
  ultimately have "\<exists>ts. o_trace (then_outcome [RunTurn n p] oc) = ts @ StopSession # after_run cfg \<and>
      list_all is_turn ts \<and> map turn_no ts = [n..k]"
    using t(1) by (intro exI [of _ "RunTurn n p # ts"]) simp
  then show ?thesis using k assms(2) unfolding loop_shape_def by simp
qed

text \<open>One iteration either ends the worker or goes on to the next turn.\<close>

lemma turn_loop_cases:
  assumes "n \<le> MaxTurns cfg"
  obtains (stop) r e where "turn_loop w cfg issue n p = then_outcome [RunTurn n p] (finish cfg r e)"
      "r = ExitReasonNormal \<Longrightarrow> n = MaxTurns cfg"
    | (next_turn) issue' p' where "n < MaxTurns cfg"
      "turn_loop w cfg issue n p = then_outcome [RunTurn n p] (turn_loop w cfg issue' (n + 1) p')"
proof -
  obtain tr err where t: "w_turn w n p = (tr, err)" by (cases "w_turn w n p")
  have ne: "turn_exit st \<noteq> ExitReasonNormal" for st by (cases st) (simp_all add: turn_exit_def)
  note unf = turn_loop.simps [of w cfg issue n p] assms t
  show thesis
  proof (cases "err \<noteq> None \<or> tn_Status tr \<noteq> TurnCompleted")
    case True
    show thesis by (rule stop) (simp only: unf True prod.case if_True simp_thms, simp add: ne)
  next
    case ok: False
    show thesis
    proof (cases "w_refresh w n")
      case (Inl e)
      show thesis by (rule stop) (simp only: unf ok Inl prod.case sum.case if_True if_False simp_thms, simp)
    next
      case (Inr iss)
      define i where "i = (case iss of [] \<Rightarrow> issue | i # _ \<Rightarrow> i)"
      note unf' = unf ok Inr prod.case sum.case Let_def i_def [symmetric]
      show thesis
      proof (cases "state_in (w_ul w) (ActiveStates cfg) (NormalizeState (w_ul w) (i_State i))")
        case False
        show thesis by (rule stop) (simp only: unf' False if_True if_False not_False_eq_True simp_thms, simp)
      next
        case act: True
        show thesis
        proof (cases "n \<ge> MaxTurns cfg")
          case True
          show thesis
            by (rule stop) (simp only: unf' act True if_True if_False not_True_eq_False simp_thms, use assms True in simp)
        next
          case False
          show thesis
            by (rule next_turn) (use False in simp, simp only: unf' act False if_True if_False not_True_eq_False simp_thms)
        qed
      qed
    qed
  qed
qed

lemma turn_loop_shape: "\<exists>k. loop_shape cfg n (turn_loop w cfg issue n p) k"
proof (induction "nat (MaxTurns cfg + 1 - n)" arbitrary: n issue p)
  case 0
  then have "loop_shape cfg n (turn_loop w cfg issue n p) (n - 1)"
    by (simp add: turn_loop.simps [of w cfg issue n] loop_shape_def)
  then show ?case by blast
next
  case (Suc d)
  then have le: "n \<le> MaxTurns cfg" by simp
  show ?case
  proof (cases rule: turn_loop_cases [OF le, of w issue p])
    case (1 r e)
    then show ?thesis using loop_shape_last [OF le, of r p e] by auto
  next
    case (2 issue' p')
    have "d = nat (MaxTurns cfg + 1 - (n + 1))" using Suc(2) by simp
    from Suc(1) [OF this] obtain k where "loop_shape cfg (n + 1) (turn_loop w cfg issue' (n + 1) p') k" by blast
    from loop_shape_step [OF this 2(1)] show ?thesis unfolding 2(2) by blast
  qed
qed

lemma runWorker_cases:
  assumes "runWorker w cfg issue attempt f = Some oc"
  obtains (early) e where "o_ExitReason oc = ExitReasonFailed" "o_Error oc = Some e"
      "set (o_trace oc) \<subseteq> {BeforeRun, AfterRun}"
    | (started) ws f1 rendered where
      "CreateForIssue (w_sh w) (w_cwd w) cfg (i_Identifier issue) f = (Inr ws, f1)"
      "newAgent w (session_config cfg issue (ws_Path ws)) = None"
      "oc = then_outcome ((if HookBeforeRun cfg \<noteq> [] then [BeforeRun] else []) @
              [StartSession (session_config cfg issue (ws_Path ws))]) (turn_loop w cfg issue 1 rendered)"
proof -
  have bad: thesis if "oc = failed e acts" "set acts \<subseteq> {BeforeRun, AfterRun}" for e acts
    using that by (intro early) (simp_all add: failed_def)
  let ?before = "if HookBeforeRun cfg \<noteq> [] then [BeforeRun] else []"
  have b: "set ?before \<subseteq> {BeforeRun, AfterRun}" "set (?before @ after_run cfg) \<subseteq> {BeforeRun, AfterRun}"
    by (auto simp: after_run_def)
  obtain res f1 where c: "CreateForIssue (w_sh w) (w_cwd w) cfg (i_Identifier issue) f = (res, f1)"
    by (cases "CreateForIssue (w_sh w) (w_cwd w) cfg (i_Identifier issue) f")
  show thesis
  proof (cases res)
    case (Inl e)
    then have "oc = failed (WorkspaceError e) []" using assms c by (simp add: runWorker_def)
    then show thesis by (rule bad) simp
  next
    case (Inr ws)
    note c' = c [unfolded Inr]
    define hook where "hook = (if HookBeforeRun cfg \<noteq> []
      then fst (RunHook (w_sh w) (HookBeforeRun cfg) (ws_Path ws) (HookTimeoutMs cfg) f1) else None)"
    define rp where "rp = RenderInitialPrompt (wf_PromptTemplate (Workflow cfg)) issue attempt"
    define na where "na = newAgent w (session_config cfg issue (ws_Path ws))"
    note unf = assms [unfolded runWorker_def c' prod.case sum.case Let_def, folded hook_def rp_def na_def]
    show thesis
    proof (cases hook)
      case (Some e)
      then have "oc = failed (BeforeRunError e) ?before" using unf by simp
      then show thesis using b(1) by (rule bad)
    next
      case None
      show thesis
      proof (cases rp)
        case (Inl e)
        then have "oc = failed (PromptError e) (?before @ after_run cfg)"
          using unf None by (cases e) simp_all
        then show thesis using b(2) by (rule bad)
      next
        case (Inr rendered)
        show thesis
        proof (cases na)
          case (Some e)
          then have "oc = failed e (?before @ after_run cfg)" using unf None Inr by simp
          then show thesis using b(2) by (rule bad)
        next
          case nil: None
          then have "oc = then_outcome (?before @ [StartSession (session_config cfg issue (ws_Path ws))])
              (turn_loop w cfg issue 1 rendered)"
            using unf None Inr by simp
          then show thesis using started [OF c'] nil by (simp add: na_def)
        qed
      qed
    qed
  qed
qed

text \<open>C24. The protocol of a worker with its agent. Either it fails before a session exists, having
  run at most hooks, or it starts one session and then runs turns numbered 1, 2, \dots, k
  without a gap, k at most \<open>max_turns\<close>, stops the session exactly once after the last turn and
  only then runs the after-run hook. It reports a normal exit only when all turns were used.\<close>

theorem symphony_worker_session_protocol:
  assumes "runWorker w cfg issue attempt f = Some oc"
  shows "(o_ExitReason oc = ExitReasonFailed \<and> set (o_trace oc) \<subseteq> {BeforeRun, AfterRun}) \<or>
    (\<exists>before sc ts k. o_trace oc = before @ StartSession sc # ts @ StopSession # after_run cfg \<and>
       set before \<subseteq> {BeforeRun} \<and> list_all is_turn ts \<and> map turn_no ts = [1..k] \<and>
       k \<le> max 0 (MaxTurns cfg) \<and>
       (o_ExitReason oc = ExitReasonNormal \<longrightarrow> k = max 0 (MaxTurns cfg)))"
  using assms
proof (cases rule: runWorker_cases)
  case (started ws f1 rendered)
  obtain k where k: "loop_shape cfg 1 (turn_loop w cfg issue 1 rendered) k"
    using turn_loop_shape by blast
  then obtain ts where ts: "o_trace (turn_loop w cfg issue 1 rendered) = ts @ StopSession # after_run cfg"
    "list_all is_turn ts" "map turn_no ts = [1..k]"
    unfolding loop_shape_def by blast
  have "\<exists>before sc ts k. o_trace oc = before @ StartSession sc # ts @ StopSession # after_run cfg \<and>
       set before \<subseteq> {BeforeRun} \<and> list_all is_turn ts \<and> map turn_no ts = [1..k] \<and>
       k \<le> max 0 (MaxTurns cfg) \<and>
       (o_ExitReason oc = ExitReasonNormal \<longrightarrow> k = max 0 (MaxTurns cfg))"
    using started(3) ts k
    by (rule_tac exI [of _ "if HookBeforeRun cfg \<noteq> [] then [BeforeRun] else []"],
        rule_tac exI [of _ "session_config cfg issue (ws_Path ws)"], rule_tac exI [of _ ts], rule_tac exI [of _ k])
       (auto simp: loop_shape_def)
  then show ?thesis by blast
qed auto

text \<open>The agent of a worker only ever works inside the workspace root: the working directory of
  the session it starts is a direct child of the root, whatever the issue's identifier is.\<close>

theorem symphony_agent_confined:
  assumes "runWorker w cfg issue attempt f = Some oc" and "StartSession sc \<in> set (o_trace oc)"
    and "WorkspaceRoot cfg \<noteq> []"
  shows "path_comps (sc_WorkDir sc) = path_comps (WorkspaceRoot cfg) @ [SanitizeIdentifier (i_Identifier issue)]"
  using assms(1)
proof (cases rule: runWorker_cases)
  case (early e)
  then show ?thesis using assms(2) by blast
next
  case (started ws f1 rendered)
  obtain k where "loop_shape cfg 1 (turn_loop w cfg issue 1 rendered) k"
    using turn_loop_shape by blast
  then obtain ts where "o_trace (turn_loop w cfg issue 1 rendered) = ts @ StopSession # after_run cfg"
    "list_all is_turn ts"
    unfolding loop_shape_def by blast
  then have "sc_WorkDir sc = ws_Path ws"
    using assms(2) unfolding started(3)
    by (auto simp: session_config_def after_run_def is_turn_def list_all_iff split: if_splits)
  with ws_target_inside(2) [OF conjunct1 [OF CreateForIssue_target [OF started(1)]] assms(3)]
  show ?thesis by simp
qed

section \<open>A concrete worker\<close>

text \<open>An agent whose turns complete and a tracker that keeps the issue active for one turn.\<close>

definition sample_world :: world where
  "sample_world = \<lparr>w_ul = (\<lambda>s. s), w_quote = (\<lambda>s. s), w_sh = quiet_shell, w_cwd = None,
     w_start = (\<lambda>_. None), w_turn = (\<lambda>n p. (\<lparr>tn_Error = None, tn_Status = TurnCompleted\<rparr>, None)),
     w_refresh = (\<lambda>n. Inr [])\<rparr>"

definition worker_issue :: Issue where
  "worker_issue = \<lparr>i_Description = None, i_Priority = None, i_BranchName = None, i_URL = None,
     i_CreatedAt = None, i_UpdatedAt = None, i_ID = ''1'', i_Identifier = ''../etc'', i_Title = ''t'',
     i_State = ''Done'', i_Labels = [], i_BlockedBy = []\<rparr>"

definition sample_prompt :: string where
  "sample_prompt = ''You are working on an issue from Linear.''"

definition sample_session :: SessionConfig where
  "sample_session = session_config ws_cfg worker_issue ''/tmp/ws/.._etc''"

lemma sample_turn_loop:
  "turn_loop sample_world ws_cfg worker_issue 1 sample_prompt =
    \<lparr>o_ExitReason = ExitReasonInactive, o_Error = None, o_trace = [RunTurn 1 sample_prompt, StopSession]\<rparr>"
proof -
  have "\<not> state_in (\<lambda>s. s) (ActiveStates ws_cfg) (NormalizeState (\<lambda>s. s) (i_State worker_issue))"
    by code_simp
  moreover have "MaxTurns ws_cfg = 3" "HookAfterRun ws_cfg = []" by (simp_all add: ws_cfg_def)
  ultimately show ?thesis
    by (subst turn_loop.simps, simp add: sample_world_def then_outcome_def finish_def after_run_def)
qed

lemma sample_worker:
  "runWorker sample_world ws_cfg worker_issue None empty_fs =
    Some \<lparr>o_ExitReason = ExitReasonInactive, o_Error = None,
      o_trace = [StartSession sample_session, RunTurn 1 sample_prompt, StopSession]\<rparr>"
proof -
  obtain f' where c: "CreateForIssue quiet_shell None ws_cfg ''../etc'' empty_fs =
      (Inr \<lparr>ws_Path = ''/tmp/ws/.._etc'', ws_WorkspaceKey = ''.._etc'', ws_CreatedNow = True\<rparr>, f')"
    using ws_sample_create by blast
  have w: "w_sh sample_world = quiet_shell" "w_cwd sample_world = None" "i_Identifier worker_issue = ''../etc''"
    by (simp_all add: sample_world_def worker_issue_def)
  have p: "RenderInitialPrompt (wf_PromptTemplate (Workflow ws_cfg)) worker_issue None = Inr sample_prompt"
    by (simp add: RenderInitialPrompt_def ws_cfg_def sample_prompt_def)
  have n: "newAgent sample_world (session_config ws_cfg worker_issue ''/tmp/ws/.._etc'') = None"
    by (simp add: newAgent_def session_config_def ws_cfg_def sample_world_def)
  have h: "HookBeforeRun ws_cfg = []" by (simp add: ws_cfg_def)
  show ?thesis
    by (simp add: runWorker_def w c p n h sample_turn_loop Let_def then_outcome_def sample_session_def)
qed

theorem symphony_worker_session_protocol_witness:
  "\<exists>oc. runWorker sample_world ws_cfg worker_issue None empty_fs = Some oc \<and>
    o_ExitReason oc = ExitReasonInactive \<and>
    (\<exists>before sc ts k. o_trace oc = before @ StartSession sc # ts @ StopSession # after_run ws_cfg \<and>
       map turn_no ts = [1..k] \<and> k \<le> 3)"
proof -
  have m: "max 0 (MaxTurns ws_cfg) = 3" by (simp add: ws_cfg_def)
  show ?thesis
    using symphony_worker_session_protocol [OF sample_worker] unfolding m
    by (subst sample_worker) auto
qed

theorem symphony_agent_confined_witness:
  "StartSession sample_session \<in> set (o_trace (the (runWorker sample_world ws_cfg worker_issue None empty_fs))) \<and>
   path_comps (sc_WorkDir sample_session) =
     path_comps (WorkspaceRoot ws_cfg) @ [SanitizeIdentifier (i_Identifier worker_issue)]"
proof -
  have r: "WorkspaceRoot ws_cfg \<noteq> []" by (simp add: ws_cfg_def)
  show ?thesis using symphony_agent_confined [OF sample_worker _ r, of sample_session] by (simp add: sample_worker)
qed

end
