(* ===== verification/SymphonyConfig.thy ===== *)
theory SymphonyConfig
  imports SymphonyModel GoPath
begin

text \<open>
  Loading the workflow file and building the typed configuration (\<open>symphony/config\<close>):
  front matter, the getters on the decoded YAML, defaults, environment and home expansion,
  and the reloader that keeps the last configuration that loaded. The YAML decoder is a
  parameter; so are the environment, the home and temporary directories and the rendering
  of floating-point numbers, collected in the record \<open>host\<close>.
\<close>

record host =
  h_ul :: "string \<Rightarrow> string"
  h_Getenv :: "string \<Rightarrow> string"
  h_Home :: "string option"
  h_TempDir :: string
  h_float :: "rat \<Rightarrow> string"

section \<open>Reading the decoded YAML\<close>

text \<open>
  \<open>fmt.Sprintf("%v", v)\<close>: a nil interface prints as \<open><nil>\<close>, lists and maps print their
  elements, maps in the order of the keys.
\<close>

fun sprint_v :: "(rat \<Rightarrow> string) \<Rightarrow> any \<Rightarrow> string" where
  "sprint_v ff ANil = ''<nil>''"
| "sprint_v ff (ABool b) = (if b then ''true'' else ''false'')"
| "sprint_v ff (AInt i) = Itoa i"
| "sprint_v ff (AFloat r) = ff r"
| "sprint_v ff (AString s) = s"
| "sprint_v ff (AList vs) = ''['' @ join_with '' '' (map (sprint_v ff) vs) @ '']''"
| "sprint_v ff (AMap m) = ''map['' @ join_with '' ''
     (map (\<lambda>(k, s). k @ '':'' @ s) (sort_key fst (map (\<lambda>(k, v). (k, sprint_v ff v)) m))) @ '']''"
| "sprint_v ff (AOther s) = s"

definition section_value :: "(string, any) gomap \<Rightarrow> string \<Rightarrow> string \<Rightarrow> any option" where
  "section_value config sec key =
    (case map_of config sec of
       None \<Rightarrow> None
     | Some s \<Rightarrow> (case s of AMap secMap \<Rightarrow> map_of secMap key | _ \<Rightarrow> None))"

definition getString :: "host \<Rightarrow> (string, any) gomap \<Rightarrow> string \<Rightarrow> string \<Rightarrow> string \<Rightarrow> string" where
  "getString h config sec key defaultVal =
    (case section_value config sec key of
       None \<Rightarrow> defaultVal
     | Some val \<Rightarrow> (case val of AString s \<Rightarrow> s | _ \<Rightarrow> sprint_v (h_float h) val))"

text \<open>The type switch the integer getters share.\<close>

definition int_value :: "any \<Rightarrow> int option" where
  "int_value v = (case v of AInt i \<Rightarrow> Some i | AFloat r \<Rightarrow> Some (int_of_float r) | AString s \<Rightarrow> Atoi s | _ \<Rightarrow> None)"

definition getInt :: "(string, any) gomap \<Rightarrow> string \<Rightarrow> string \<Rightarrow> int \<Rightarrow> int" where
  "getInt config sec key defaultVal =
    (case section_value config sec key of
       None \<Rightarrow> defaultVal
     | Some val \<Rightarrow> (case int_value val of None \<Rightarrow> defaultVal | Some i \<Rightarrow> i))"

definition getOptionalInt :: "(string, any) gomap \<Rightarrow> string \<Rightarrow> string \<Rightarrow> int option" where
  "getOptionalInt config sec key =
    (case section_value config sec key of None \<Rightarrow> None | Some val \<Rightarrow> int_value val)"

definition getStringList :: "(string, any) gomap \<Rightarrow> string \<Rightarrow> string \<Rightarrow> string list \<Rightarrow> string list" where
  "getStringList config sec key defaultVal =
    (case section_value config sec key of
       None \<Rightarrow> defaultVal
     | Some val \<Rightarrow> (case val of
           AList items \<Rightarrow>
             let result = concat (map (\<lambda>item. case item of AString s \<Rightarrow> [s] | _ \<Rightarrow> []) items)
             in if result = [] then defaultVal else result
         | _ \<Rightarrow> defaultVal))"

definition getIntMap_step :: "host \<Rightarrow> (string, int) gomap \<Rightarrow> string \<times> any \<Rightarrow> (string, int) gomap" where
  "getIntMap_step h result kv =
    (case int_value (snd kv) of
       None \<Rightarrow> result
     | Some intVal \<Rightarrow> if intVal \<le> 0 then result else mput (ToLower (h_ul h) (fst kv)) intVal result)"

definition getIntMap :: "host \<Rightarrow> (string, any) gomap \<Rightarrow> string \<Rightarrow> string \<Rightarrow> (string, int) gomap option" where
  "getIntMap h config sec key =
    (case section_value config sec key of
       None \<Rightarrow> None
     | Some val \<Rightarrow> (case val of
           AMap raw \<Rightarrow>
             let result = foldl (getIntMap_step h) [] raw
             in if result = [] then None else Some result
         | _ \<Rightarrow> None))"

definition hasKey :: "(string, any) gomap \<Rightarrow> string \<Rightarrow> string \<Rightarrow> bool" where
  "hasKey config sec key \<longleftrightarrow> section_value config sec key \<noteq> None"

definition getStringWithFallback :: "host \<Rightarrow> (string, any) gomap \<Rightarrow> string \<Rightarrow> string \<Rightarrow> string \<Rightarrow> string \<Rightarrow> string" where
  "getStringWithFallback h config primary fallback key defaultVal =
    (if hasKey config primary key then getString h config primary key defaultVal
     else getString h config fallback key defaultVal)"

definition getIntWithFallback :: "(string, any) gomap \<Rightarrow> string \<Rightarrow> string \<Rightarrow> string \<Rightarrow> int \<Rightarrow> int" where
  "getIntWithFallback config primary fallback key defaultVal =
    (if hasKey config primary key then getInt config primary key defaultVal
     else getInt config fallback key defaultVal)"

section \<open>The typed configuration\<close>

definition resolveEnv :: "host \<Rightarrow> string \<Rightarrow> string" where
  "resolveEnv h val = (if \<not> HasPrefix val ''$'' then val else h_Getenv h (drop 1 val))"

definition expandPath :: "host \<Rightarrow> string \<Rightarrow> string" where
  "expandPath h p =
    (if p = [] then p
     else if HasPrefix p ''~/'' \<or> p = ''~'' then
       (case h_Home h of
          None \<Rightarrow> p
        | Some home \<Rightarrow> if p = ''~'' then home else Join [home, drop 2 p])
     else p)"

definition NewServiceConfig :: "host \<Rightarrow> WorkflowDefinition \<Rightarrow> ServiceConfig" where
  "NewServiceConfig h wfd =
    (let c = wf_Config wfd;
         kind = getString h c ''tracker'' ''kind'' [];
         endpoint = resolveEnv h (getString h c ''tracker'' ''endpoint'' []);
         wsRoot = expandPath h (resolveEnv h (getString h c ''workspace'' ''root'' []));
         hookTimeout = getInt c ''hooks'' ''timeout_ms'' 60000
     in \<lparr>Workflow = wfd,
         MaxConcurrentByState = getIntMap h c ''agent'' ''max_concurrent_agents_by_state'',
         ServerPort = getOptionalInt c ''server'' ''port'',
         HookAfterCreate = getString h c ''hooks'' ''after_create'' [],
         HookAfterRun = getString h c ''hooks'' ''after_run'' [],
         AgentType = getStringWithFallback h c ''agent_session'' ''codex'' ''type'' [],
         AgentCommand = getStringWithFallback h c ''agent_session'' ''codex'' ''command'' ''codex app-server'',
         TrackerKind = kind,
         WorkspaceRoot = (if wsRoot = [] then Join [h_TempDir h, ''symphony_workspaces''] else wsRoot),
         AgentApprovalPolicy = getStringWithFallback h c ''agent_session'' ''codex'' ''approval_policy'' [],
         HookBeforeRun = getString h c ''hooks'' ''before_run'' [],
         TrackerEndpoint = (if kind = ''linear'' \<and> endpoint = [] then ''https://api.linear.app/graphql'' else endpoint),
         HookBeforeRemove = getString h c ''hooks'' ''before_remove'' [],
         TrackerProjectSlug = getString h c ''tracker'' ''project_slug'' [],
         TrackerAPIKey = resolveEnv h (getString h c ''tracker'' ''api_key'' []),
         AgentTurnSandboxPolicy = getStringWithFallback h c ''agent_session'' ''codex'' ''turn_sandbox_policy'' [],
         AgentThreadSandbox = getStringWithFallback h c ''agent_session'' ''codex'' ''thread_sandbox'' [],
         ActiveStates = getStringList c ''tracker'' ''active_states'' [''Todo'', ''In Progress''],
         TerminalStates = getStringList c ''tracker'' ''terminal_states''
           [''Closed'', ''Cancelled'', ''Canceled'', ''Duplicate'', ''Done''],
         PollIntervalMs = getInt c ''polling'' ''interval_ms'' 30000,
         MaxRetryBackoffMs = getInt c ''agent'' ''max_retry_backoff_ms'' 300000,
         MaxTurns = getInt c ''agent'' ''max_turns'' 20,
         AgentTurnTimeoutMs = getIntWithFallback c ''agent_session'' ''codex'' ''turn_timeout_ms'' 3600000,
         AgentReadTimeoutMs = getIntWithFallback c ''agent_session'' ''codex'' ''read_timeout_ms'' 5000,
         AgentStallTimeoutMs = getIntWithFallback c ''agent_session'' ''codex'' ''stall_timeout_ms'' 300000,
         MaxConcurrentAgents = getInt c ''agent'' ''max_concurrent_agents'' 10,
         HookTimeoutMs = (if hookTimeout \<le> 0 then 60000 else hookTimeout)\<rparr>)"

section \<open>The workflow file\<close>

datatype WorkflowError =
    WorkflowFileMissing string
  | WorkflowFileUnreadable string string
  | UnterminatedFrontMatter
  | InvalidYAML string
  | FrontMatterNotAMap

fun error_code :: "WorkflowError \<Rightarrow> string" where
  "error_code (WorkflowFileMissing p) = ''missing_workflow_file''"
| "error_code (WorkflowFileUnreadable p e) = ''missing_workflow_file''"
| "error_code UnterminatedFrontMatter = ''workflow_parse_error''"
| "error_code (InvalidYAML e) = ''workflow_parse_error''"
| "error_code FrontMatterNotAMap = ''workflow_front_matter_not_a_map''"

type_synonym yaml = "string \<Rightarrow> string + any"

definition is_fence :: "string \<Rightarrow> bool" where
  "is_fence line \<longleftrightarrow> TrimRight {char_of (13 :: nat), char_of (10 :: nat)} line = ''---''"

fun closing_fence :: "string list \<Rightarrow> nat option" where
  "closing_fence [] = None"
| "closing_fence (l # ls) = (if is_fence l then Some 0 else map_option Suc (closing_fence ls))"

definition parseFrontMatter :: "yaml \<Rightarrow> string \<Rightarrow> WorkflowError + ((string, any) gomap \<times> string)" where
  "parseFrontMatter Unmarshal content =
    (if \<not> HasPrefix content ''---'' then Inr ([], content)
     else let rest = tl (SplitAfterNL content) in
       case closing_fence rest of
         None \<Rightarrow> Inl UnterminatedFrontMatter
       | Some n \<Rightarrow>
           let yamlStr = concat (take n rest); body = concat (drop (n + 1) rest) in
           (case Unmarshal yamlStr of
              Inl e \<Rightarrow> Inl (InvalidYAML e)
            | Inr v \<Rightarrow> (case v of
                  ANil \<Rightarrow> Inr ([], body)
                | AMap m \<Rightarrow> Inr (m, body)
                | _ \<Rightarrow> Inl FrontMatterNotAMap)))"

datatype file_read = FileMissing | FileUnreadable string | FileContent string

definition LoadWorkflow :: "yaml \<Rightarrow> string \<Rightarrow> file_read \<Rightarrow> WorkflowError + WorkflowDefinition" where
  "LoadWorkflow Unmarshal p data =
    (case data of
       FileMissing \<Rightarrow> Inl (WorkflowFileMissing p)
     | FileUnreadable e \<Rightarrow> Inl (WorkflowFileUnreadable p e)
     | FileContent content \<Rightarrow>
         (case parseFrontMatter Unmarshal content of
            Inl e \<Rightarrow> Inl e
          | Inr (config, promptBody) \<Rightarrow>
              Inr \<lparr>wf_Config = config, wf_PromptTemplate = TrimSpace promptBody\<rparr>))"

section \<open>The reloader\<close>

definition loadConfig :: "host \<Rightarrow> yaml \<Rightarrow> string \<Rightarrow> file_read \<Rightarrow> WorkflowError + ServiceConfig" where
  "loadConfig h Unmarshal p data =
    (case LoadWorkflow Unmarshal p data of Inl e \<Rightarrow> Inl e | Inr wfd \<Rightarrow> Inr (NewServiceConfig h wfd))"

record Reloader =
  rl_path :: string
  rl_current :: ServiceConfig

definition NewReloader :: "host \<Rightarrow> yaml \<Rightarrow> string \<Rightarrow> file_read \<Rightarrow> WorkflowError + Reloader" where
  "NewReloader h Unmarshal p data =
    (case loadConfig h Unmarshal p data of
       Inl e \<Rightarrow> Inl e
     | Inr cfg \<Rightarrow> Inr \<lparr>rl_path = p, rl_current = cfg\<rparr>)"

definition reload :: "host \<Rightarrow> yaml \<Rightarrow> file_read \<Rightarrow> Reloader \<Rightarrow> Reloader" where
  "reload h Unmarshal data r =
    (case loadConfig h Unmarshal (rl_path r) data of
       Inl e \<Rightarrow> r
     | Inr cfg \<Rightarrow> r\<lparr>rl_current := cfg\<rparr>)"

text \<open>
  What the select of \<open>watchLoop\<close> receives: a file event with its write and create bits and
  what the file holds when it is then read, a watcher error, or the end of a channel.
\<close>

datatype watch_case = FileEvent bool bool file_read | WatcherError | LoopEnds

fun watchLoop :: "host \<Rightarrow> yaml \<Rightarrow> watch_case list \<Rightarrow> Reloader \<Rightarrow> Reloader" where
  "watchLoop h u [] r = r"
| "watchLoop h u (FileEvent wr cr data # cs) r =
     watchLoop h u cs (if wr \<or> cr then reload h u data r else r)"
| "watchLoop h u (WatcherError # cs) r = watchLoop h u cs r"
| "watchLoop h u (LoopEnds # cs) r = r"

text \<open>\<open>selectHTTPPort\<close> of the command: the flag wins over the configured port.\<close>

definition selectHTTPPort :: "int \<Rightarrow> ServiceConfig \<Rightarrow> int \<times> bool" where
  "selectHTTPPort cliPort cfg =
    (if cliPort \<noteq> 0 then (cliPort, True)
     else case ServerPort cfg of Some p \<Rightarrow> (p, True) | None \<Rightarrow> (0, False))"

section \<open>What every configuration satisfies\<close>

definition limits_ok :: "(string, int) gomap option \<Rightarrow> bool" where
  "limits_ok limits = (case limits of None \<Rightarrow> True | Some m \<Rightarrow> m \<noteq> [] \<and> wf_map m \<and> (\<forall>v \<in> snd ` set m. 0 < v))"

definition config_ok :: "ServiceConfig \<Rightarrow> bool" where
  "config_ok cfg \<longleftrightarrow>
     0 < HookTimeoutMs cfg \<and> WorkspaceRoot cfg \<noteq> [] \<and> ActiveStates cfg \<noteq> [] \<and>
     TerminalStates cfg \<noteq> [] \<and> (TrackerKind cfg = ''linear'' \<longrightarrow> TrackerEndpoint cfg \<noteq> []) \<and>
     limits_ok (MaxConcurrentByState cfg)"

lemma getIntMap_foldl:
  assumes "wf_map m" and "\<forall>v \<in> snd ` set m. 0 < v"
  shows "wf_map (foldl (getIntMap_step h) m raw) \<and> (\<forall>v \<in> snd ` set (foldl (getIntMap_step h) m raw). 0 < v)"
  using assms
proof (induction raw arbitrary: m)
  case (Cons kv raw)
  have "wf_map (getIntMap_step h m kv)"
    using Cons.prems(1) by (auto simp: getIntMap_step_def split: option.split)
  moreover have "\<forall>v \<in> snd ` set (getIntMap_step h m kv). 0 < v"
    using Cons.prems(2) by (auto simp: getIntMap_step_def split: option.split dest!: set_mput)
  ultimately show ?case using Cons.IH by simp
qed simp

lemma getIntMap_ok: "limits_ok (getIntMap h c sec key)"
  using getIntMap_foldl [of "[]" h]
  by (auto simp: getIntMap_def limits_ok_def Let_def split: option.splits any.splits)

lemma getStringList_ne: "d \<noteq> [] \<Longrightarrow> getStringList c sec key d \<noteq> []"
  by (auto simp: getStringList_def Let_def split: option.split any.split)

text \<open>C40. Every configuration the code builds, whatever the workflow file says, has a positive hook
  timeout, a workspace root, active and terminal states, an endpoint when the tracker is
  Linear, and only positive per-state limits. The operations that rely on these (hooks, path
  containment, dispatch) never see a value outside.\<close>

theorem symphony_config_ok: "config_ok (NewServiceConfig h wfd)"
  by (simp add: config_ok_def NewServiceConfig_def Let_def getStringList_ne getIntMap_ok Join_def)

section \<open>Reloading\<close>

text \<open>The file contents the watch loop reads, in order, until it ends.\<close>

fun seen :: "watch_case list \<Rightarrow> file_read list" where
  "seen [] = []"
| "seen (FileEvent wr cr data # cs) = (if wr \<or> cr then data # seen cs else seen cs)"
| "seen (WatcherError # cs) = seen cs"
| "seen (LoopEnds # cs) = []"

definition loads :: "host \<Rightarrow> yaml \<Rightarrow> string \<Rightarrow> file_read list \<Rightarrow> ServiceConfig list" where
  "loads h u p ds = concat (map (\<lambda>d. case loadConfig h u p d of Inl e \<Rightarrow> [] | Inr cfg \<Rightarrow> [cfg]) ds)"

lemma loads_simps [simp]:
  "loads h u p [] = []"
  "loads h u p (d # ds) = (case loadConfig h u p d of Inl e \<Rightarrow> [] | Inr cfg \<Rightarrow> [cfg]) @ loads h u p ds"
  by (simp_all add: loads_def)

lemma reload_path [simp]: "rl_path (reload h u d r) = rl_path r"
  by (simp add: reload_def split: sum.split)

lemma watchLoop_current:
  "rl_current (watchLoop h u cs r) = last (rl_current r # loads h u (rl_path r) (seen cs))"
proof (induction cs arbitrary: r)
  case (Cons c cs)
  show ?case
  proof (cases c)
    case (FileEvent wr cr data)
    then show ?thesis using Cons [of "reload h u data r"] Cons [of r]
      by (auto simp: reload_def split: sum.splits)
  qed (use Cons in simp_all)
qed simp

text \<open>The reloader serves the last configuration that loaded. After any sequence of watcher
  events it is the one of the last file content, the initial one included, that could be
  read and parsed; contents that fail to load have no effect.\<close>

theorem symphony_reload_last_good:
  assumes "NewReloader h u p data = Inr r"
  shows "rl_current (watchLoop h u cs r) = last (loads h u p (data # seen cs))"
proof -
  obtain cfg where "loadConfig h u p data = Inr cfg" "r = \<lparr>rl_path = p, rl_current = cfg\<rparr>"
    using assms by (auto simp: NewReloader_def split: sum.splits)
  then show ?thesis using watchLoop_current [of h u cs r] by simp
qed

definition bare_host :: host where
  "bare_host = \<lparr>h_ul = (\<lambda>s. s), h_Getenv = (\<lambda>_. []), h_Home = None, h_TempDir = ''/tmp'', h_float = (\<lambda>_. ''0'')\<rparr>"

definition no_yaml :: yaml where
  "no_yaml s = (if s = [] then Inr ANil else Inl ''bad'')"

theorem symphony_reload_last_good_witness:
  "\<exists>r. NewReloader bare_host no_yaml ''W'' (FileContent ''hello'') = Inr r \<and>
     rl_current (watchLoop bare_host no_yaml [FileEvent True False FileMissing] r) =
       NewServiceConfig bare_host \<lparr>wf_Config = [], wf_PromptTemplate = ''hello''\<rparr>"
proof -
  have t: "TrimSpace ''hello'' = ''hello''" by code_simp
  have l: "loadConfig bare_host no_yaml ''W'' (FileContent ''hello'') =
      Inr (NewServiceConfig bare_host \<lparr>wf_Config = [], wf_PromptTemplate = ''hello''\<rparr>)"
    by (simp add: loadConfig_def LoadWorkflow_def parseFrontMatter_def HasPrefix_def t)
  have m: "loadConfig bare_host no_yaml ''W'' FileMissing = Inl (WorkflowFileMissing ''W'')"
    by (simp add: loadConfig_def LoadWorkflow_def)
  obtain r where r: "NewReloader bare_host no_yaml ''W'' (FileContent ''hello'') = Inr r"
    by (simp add: NewReloader_def l)
  show ?thesis
    using symphony_reload_last_good [OF r, of "[FileEvent True False FileMissing]"] r by (simp add: l m)
qed

section \<open>Front matter\<close>

definition newline :: string where
  "newline = [char_of (10 :: nat)]"

lemma SplitAfterNL_line:
  assumes "char_of (10 :: nat) \<notin> set l"
  shows "SplitAfterNL (l @ newline @ s) = (l @ newline) # SplitAfterNL s"
  using assms
proof (induction l)
  case (Cons c l)
  then have "byte c \<noteq> 10" by (metis byte_def char_of_char list.set_intros(1))
  then show ?case using Cons by simp
qed (simp add: newline_def byte_def)

lemma SplitAfterNL_lines:
  assumes "\<forall>l \<in> set ls. char_of (10 :: nat) \<notin> set l"
  shows "SplitAfterNL (concat (map (\<lambda>l. l @ newline) ls) @ s) = map (\<lambda>l. l @ newline) ls @ SplitAfterNL s"
  using assms by (induction ls) (simp_all add: SplitAfterNL_line)

lemma closing_fence_at:
  assumes "\<forall>l \<in> set ls. \<not> is_fence l" and "is_fence f"
  shows "closing_fence (ls @ f # rest) = Some (length ls)"
  using assms by (induction ls) simp_all

text \<open>Reading a workflow file gives back what was written in it: a front matter block between
  two fence lines is handed to the YAML decoder as it is, provided none of its lines is
  itself a fence, and everything after the closing fence is the prompt body, unchanged. Only
  a map, or nothing, is accepted as front matter.\<close>

theorem symphony_front_matter_roundtrip:
  assumes "\<forall>l \<in> set ls. char_of (10 :: nat) \<notin> set l \<and> \<not> is_fence (l @ newline)"
  shows "parseFrontMatter u (''---'' @ newline @ concat (map (\<lambda>l. l @ newline) ls) @ ''---'' @ newline @ body) =
    (case u (concat (map (\<lambda>l. l @ newline) ls)) of
       Inl e \<Rightarrow> Inl (InvalidYAML e)
     | Inr v \<Rightarrow> (case v of ANil \<Rightarrow> Inr ([], body) | AMap m \<Rightarrow> Inr (m, body) | _ \<Rightarrow> Inl FrontMatterNotAMap))"
proof -
  let ?ls = "map (\<lambda>l. l @ newline) ls" and ?f = "''---'' @ newline"
  have nl: "char_of (10 :: nat) \<notin> set ''---''" by (simp add: char_of_def)
  have "SplitAfterNL (?f @ concat ?ls @ ?f @ body) = ?f # ?ls @ ?f # SplitAfterNL body"
    using assms SplitAfterNL_line [OF nl, of body] SplitAfterNL_line [OF nl, of "concat ?ls @ ?f @ body"]
    by (simp add: SplitAfterNL_lines)
  moreover have "is_fence ?f" by (simp add: is_fence_def newline_def TrimRight_def char_of_def)
  ultimately show ?thesis
    using assms closing_fence_at [of ?ls ?f "SplitAfterNL body"]
    by (simp add: parseFrontMatter_def HasPrefix_def Let_def concat_SplitAfterNL)
qed

definition a_map :: yaml where
  "a_map s = Inr (AMap [(''a'', AInt 1)])"

theorem symphony_front_matter_roundtrip_witness:
  "parseFrontMatter a_map (''---'' @ newline @ (''a: 1'' @ newline) @ ''---'' @ newline @ ''Do it'') =
    Inr ([(''a'', AInt 1)], ''Do it'')"
proof -
  have "\<forall>l \<in> set [''a: 1'']. char_of (10 :: nat) \<notin> set l \<and> \<not> is_fence (l @ newline)"
    by (simp add: is_fence_def newline_def TrimRight_def char_of_def)
  from symphony_front_matter_roundtrip [OF this, of a_map "''Do it''"]
  show ?thesis by (simp add: a_map_def)
qed

section \<open>Where the configuration surprises\<close>

text \<open>A key that is present without a value is not treated as missing: the getter prints the
  decoder's nil, so an empty \<open>api_key:\<close> becomes the text \<open><nil>\<close> and passes the
  preflight check that asks for an API key.\<close>

theorem symphony_null_key_accepted:
  assumes "section_value (wf_Config wfd) ''tracker'' ''api_key'' = Some ANil"
  shows "TrackerAPIKey (NewServiceConfig h wfd) = ''<nil>'' \<and>
    TrackerAPIKeyRequired \<notin> set (case ValidateForDispatch (NewServiceConfig h wfd) of None \<Rightarrow> [] | Some cs \<Rightarrow> cs)"
proof -
  have k: "TrackerAPIKey (NewServiceConfig h wfd) = ''<nil>''"
    using assms by (simp add: NewServiceConfig_def Let_def getString_def resolveEnv_def HasPrefix_def)
  then show ?thesis by (auto simp: ValidateForDispatch_def Let_def)
qed

theorem symphony_null_key_accepted_witness:
  "TrackerAPIKey (NewServiceConfig bare_host
      \<lparr>wf_Config = [(''tracker'', AMap [(''kind'', AString ''linear''), (''api_key'', ANil)])], wf_PromptTemplate = []\<rparr>)
    = ''<nil>''"
proof -
  have "section_value (wf_Config \<lparr>wf_Config = [(''tracker'', AMap [(''kind'', AString ''linear''), (''api_key'', ANil)])],
      wf_PromptTemplate = []\<rparr>) ''tracker'' ''api_key'' = Some ANil"
    by (simp add: section_value_def)
  from symphony_null_key_accepted [OF this] show ?thesis by blast
qed

text \<open>Two spellings of a state in the per-state limits that differ in case collapse to one key,
  and which limit survives depends on the iteration order of the map, which Go leaves open.\<close>

theorem symphony_state_limit_order_dependent:
  "getIntMap bare_host [(''agent'', AMap [(''limits'', AMap [(''Todo'', AInt 1), (''todo'', AInt 5)])])] ''agent'' ''limits''
     = Some [(''todo'', 5)] \<and>
   getIntMap bare_host [(''agent'', AMap [(''limits'', AMap [(''todo'', AInt 5), (''Todo'', AInt 1)])])] ''agent'' ''limits''
     = Some [(''todo'', 1)]"
  by code_simp

end
