(* ===== verification/GoJson.thy ===== *)
theory GoJson
  imports GoStrings
begin

text \<open>
  JSON values and the part of \<open>encoding/json\<close> that fills a struct from one. The parser from
  text to a value is not modelled; a component that reads JSON text takes it as a parameter.
  A number keeps its literal, since an integer field accepts only an integer literal.
  Decoding a struct visits the keys of the object in order, finds the field by its exact
  name or else without regard to ASCII case, ignores unknown keys, leaves a field unchanged
  for \<open>null\<close>, and goes on after a type mismatch, which it reports at the end.
\<close>

datatype json =
    JNull
  | JBool bool
  | JNum string
  | JStr string
  | JArr "json list"
  | JObj "(string \<times> json) list"

text \<open>A decoder updates a value and says whether the JSON had the right type.\<close>

type_synonym 's decoder = "json \<Rightarrow> 's \<Rightarrow> 's \<times> bool"

definition fold_eq :: "string \<Rightarrow> string \<Rightarrow> bool" where
  "fold_eq a b \<longleftrightarrow> map lower_char a = map lower_char b"

definition field_for :: "(string \<times> 'd) list \<Rightarrow> string \<Rightarrow> 'd option" where
  "field_for fs k =
    (case map_of fs k of
       Some d \<Rightarrow> Some d
     | None \<Rightarrow> map_option snd (find (\<lambda>f. fold_eq (fst f) k) fs))"

definition dec_step :: "(string \<times> 's decoder) list \<Rightarrow> 's \<times> bool \<Rightarrow> string \<times> json \<Rightarrow> 's \<times> bool" where
  "dec_step fs acc kv =
    (case field_for fs (fst kv) of
       None \<Rightarrow> acc
     | Some d \<Rightarrow> (case d (snd kv) (fst acc) of (s', ok) \<Rightarrow> (s', snd acc \<and> ok)))"

definition dec_struct :: "(string \<times> 's decoder) list \<Rightarrow> 's decoder" where
  "dec_struct fs v s =
    (case v of
       JNull \<Rightarrow> (s, True)
     | JObj kvs \<Rightarrow> foldl (dec_step fs) (s, True) kvs
     | _ \<Rightarrow> (s, False))"

definition dec_string :: "((string \<Rightarrow> string) \<Rightarrow> 's \<Rightarrow> 's) \<Rightarrow> 's decoder" where
  "dec_string upd v s =
    (case v of JNull \<Rightarrow> (s, True) | JStr x \<Rightarrow> (upd (\<lambda>_. x) s, True) | _ \<Rightarrow> (s, False))"

definition dec_bool :: "((bool \<Rightarrow> bool) \<Rightarrow> 's \<Rightarrow> 's) \<Rightarrow> 's decoder" where
  "dec_bool upd v s =
    (case v of JNull \<Rightarrow> (s, True) | JBool x \<Rightarrow> (upd (\<lambda>_. x) s, True) | _ \<Rightarrow> (s, False))"

definition dec_int :: "((int \<Rightarrow> int) \<Rightarrow> 's \<Rightarrow> 's) \<Rightarrow> 's decoder" where
  "dec_int upd v s =
    (case v of
       JNull \<Rightarrow> (s, True)
     | JNum lit \<Rightarrow> (case Atoi lit of Some i \<Rightarrow> (upd (\<lambda>_. i) s, True) | None \<Rightarrow> (s, False))
     | _ \<Rightarrow> (s, False))"

text \<open>\<open>*string\<close> and \<open>*float64\<close>: \<open>null\<close> makes the pointer nil.\<close>

definition dec_string_ptr :: "((string option \<Rightarrow> string option) \<Rightarrow> 's \<Rightarrow> 's) \<Rightarrow> 's decoder" where
  "dec_string_ptr upd v s =
    (case v of JNull \<Rightarrow> (upd (\<lambda>_. None) s, True) | JStr x \<Rightarrow> (upd (\<lambda>_. Some x) s, True)
     | _ \<Rightarrow> (upd (\<lambda>p. case p of None \<Rightarrow> Some [] | Some x \<Rightarrow> Some x) s, False))"

text \<open>\<open>json.RawMessage\<close>: any value, \<open>null\<close> included, kept as it is.\<close>

definition dec_raw :: "((json option \<Rightarrow> json option) \<Rightarrow> 's \<Rightarrow> 's) \<Rightarrow> 's decoder" where
  "dec_raw upd v s = (upd (\<lambda>_. Some v) s, True)"

text \<open>A struct inside a struct.\<close>

definition dec_in :: "'a decoder \<Rightarrow> ('s \<Rightarrow> 'a) \<Rightarrow> (('a \<Rightarrow> 'a) \<Rightarrow> 's \<Rightarrow> 's) \<Rightarrow> 's decoder" where
  "dec_in d get upd v s = (case d v (get s) of (a, ok) \<Rightarrow> (upd (\<lambda>_. a) s, ok))"

text \<open>A pointer to a struct: a non-null value is decoded into the old target or a zero one.\<close>

definition dec_in_ptr :: "'a decoder \<Rightarrow> 'a \<Rightarrow> ('s \<Rightarrow> 'a option) \<Rightarrow> (('a option \<Rightarrow> 'a option) \<Rightarrow> 's \<Rightarrow> 's) \<Rightarrow> 's decoder" where
  "dec_in_ptr d zero get upd v s =
    (case v of
       JNull \<Rightarrow> (upd (\<lambda>_. None) s, True)
     | _ \<Rightarrow> (case d v (case get s of None \<Rightarrow> zero | Some a \<Rightarrow> a) of (a, ok) \<Rightarrow> (upd (\<lambda>_. Some a) s, ok)))"

text \<open>A slice of structs: the elements are decoded into zero values; \<open>null\<close> is the nil slice.\<close>

definition dec_list :: "'a decoder \<Rightarrow> 'a \<Rightarrow> (('a list \<Rightarrow> 'a list) \<Rightarrow> 's \<Rightarrow> 's) \<Rightarrow> 's decoder" where
  "dec_list d zero upd v s =
    (case v of
       JNull \<Rightarrow> (upd (\<lambda>_. []) s, True)
     | JArr xs \<Rightarrow> (upd (\<lambda>_. map (\<lambda>x. fst (d x zero)) xs) s, list_all (\<lambda>x. snd (d x zero)) xs)
     | _ \<Rightarrow> (s, False))"

lemma dec_struct_null [simp]: "dec_struct fs JNull s = (s, True)"
  by (simp add: dec_struct_def)

lemma dec_struct_obj: "dec_struct fs (JObj kvs) s = foldl (dec_step fs) (s, True) kvs"
  by (simp add: dec_struct_def)

lemma field_for_exact: "map_of fs k = Some d \<Longrightarrow> field_for fs k = Some d"
  by (simp add: field_for_def)

text \<open>Keys that match no field do not matter.\<close>

lemma dec_struct_unknown:
  assumes "field_for fs k = None"
  shows "dec_struct fs (JObj (xs @ (k, v) # ys)) s = dec_struct fs (JObj (xs @ ys)) s"
  using assms by (simp add: dec_struct_obj dec_step_def)

end
