(* ===== verification/SymphonyCodex.thy ===== *)
theory SymphonyCodex
  imports SymphonyModel GoJson
begin

text \<open>
  The Codex app-server client (\<open>symphony/agent/codex\<close>): JSON-RPC over the lines of a
  subprocess, the handshake, a turn with its event stream, automatic approval and rejection
  of tool calls, and event extraction. The subprocess is the list of lines it will print and
  the list of messages written to it; the JSON text functions are a parameter.
\<close>

text \<open>
  \<open>c_parse\<close> reads a line, \<open>c_f64\<close> is the float64 of a number literal (none when out of range),
  \<open>c_num\<close> how that float64 is written back, \<open>c_raw\<close> the text of a raw message.
\<close>

record codec =
  c_parse :: "string \<Rightarrow> json option"
  c_f64 :: "string \<Rightarrow> rat option"
  c_num :: "string \<Rightarrow> string"
  c_raw :: "json \<Rightarrow> string"

section \<open>Messages\<close>

record RPCError =
  rpc_Message :: string
  rpc_Code :: int

record Message =
  m_ID :: "json option"
  m_Error :: "RPCError option"
  m_Method :: string
  m_Params :: "json option"
  m_Result :: "json option"

definition zero_Message :: Message where
  "zero_Message = \<lparr>m_ID = None, m_Error = None, m_Method = [], m_Params = None, m_Result = None\<rparr>"

definition dec_RPCError :: "RPCError decoder" where
  "dec_RPCError = dec_struct [(''message'', dec_string rpc_Message_update), (''code'', dec_int rpc_Code_update)]"

text \<open>An \<open>any\<close> field: \<open>null\<close> is nil; a number out of the float64 range is an error.\<close>

definition dec_id :: "codec \<Rightarrow> Message decoder" where
  "dec_id c v s =
    (case v of
       JNull \<Rightarrow> (s\<lparr>m_ID := None\<rparr>, True)
     | JNum lit \<Rightarrow> if c_f64 c lit = None then (s, False) else (s\<lparr>m_ID := Some v\<rparr>, True)
     | _ \<Rightarrow> (s\<lparr>m_ID := Some v\<rparr>, True))"

definition dec_Message :: "codec \<Rightarrow> Message decoder" where
  "dec_Message c = dec_struct
     [(''id'', dec_id c),
      (''error'', dec_in_ptr dec_RPCError \<lparr>rpc_Message = [], rpc_Code = 0\<rparr> m_Error m_Error_update),
      (''method'', dec_string m_Method_update),
      (''params'', dec_raw m_Params_update),
      (''result'', dec_raw m_Result_update)]"

text \<open>\<open>json.Unmarshal(line, &msg)\<close>.\<close>

definition parse_message :: "codec \<Rightarrow> string \<Rightarrow> Message option" where
  "parse_message c line =
    (case c_parse c line of
       None \<Rightarrow> None
     | Some j \<Rightarrow> (case dec_Message c j zero_Message of (m, ok) \<Rightarrow> if ok then Some m else None))"

definition toFloat64 :: "codec \<Rightarrow> json option \<Rightarrow> rat option" where
  "toFloat64 c v = (case v of Some (JNum lit) \<Rightarrow> c_f64 c lit | _ \<Rightarrow> None)"

section \<open>The process and the protocol\<close>

text \<open>
  \<open>pr_in\<close> are the lines still to be read, after which the read fails; \<open>pr_writes\<close> is the
  number of writes that still succeed, none for no limit.
\<close>

record Protocol =
  pr_nextID :: int
  pr_in :: "string list"
  pr_out :: "json list"
  pr_writes :: "nat option"

definition WriteJSON :: "json \<Rightarrow> Protocol \<Rightarrow> bool \<times> Protocol" where
  "WriteJSON v p =
    (if pr_writes p = Some 0 then (False, p)
     else (True, p\<lparr>pr_out := pr_out p @ [v], pr_writes := map_option (\<lambda>n. n - 1) (pr_writes p)\<rparr>))"

definition ReadLine :: "Protocol \<Rightarrow> string option \<times> Protocol" where
  "ReadLine p = (case pr_in p of [] \<Rightarrow> (None, p) | l # ls \<Rightarrow> (Some l, p\<lparr>pr_in := ls\<rparr>))"

text \<open>The id of a request, written back.\<close>

definition echo :: "codec \<Rightarrow> json \<Rightarrow> json" where
  "echo c v = (case v of JNum lit \<Rightarrow> JNum (c_num c lit) | _ \<Rightarrow> v)"

definition response :: "codec \<Rightarrow> json \<Rightarrow> json \<Rightarrow> json" where
  "response c rid result = JObj [(''id'', echo c rid), (''jsonrpc'', JStr ''2.0''), (''result'', result)]"

definition error_response :: "codec \<Rightarrow> json \<Rightarrow> int \<Rightarrow> string \<Rightarrow> json" where
  "error_response c rid code message =
    JObj [(''error'', JObj [(''code'', JNum (Itoa code)), (''message'', JStr message)]),
      (''id'', echo c rid), (''jsonrpc'', JStr ''2.0'')]"

definition Respond :: "codec \<Rightarrow> json \<Rightarrow> json \<Rightarrow> Protocol \<Rightarrow> Protocol" where
  "Respond c rid result p = snd (WriteJSON (response c rid result) p)"

definition RespondError :: "codec \<Rightarrow> json \<Rightarrow> int \<Rightarrow> string \<Rightarrow> Protocol \<Rightarrow> Protocol" where
  "RespondError c rid code message p = snd (WriteJSON (error_response c rid code message) p)"

definition HandleApproval :: "codec \<Rightarrow> Message \<Rightarrow> Protocol \<Rightarrow> Protocol" where
  "HandleApproval c msg p =
    (case m_ID msg of None \<Rightarrow> p | Some rid \<Rightarrow> Respond c rid (JObj [(''approved'', JBool True)]) p)"

definition HandleToolCall :: "codec \<Rightarrow> Message \<Rightarrow> Protocol \<Rightarrow> Protocol" where
  "HandleToolCall c msg p =
    (case m_ID msg of
       None \<Rightarrow> p
     | Some rid \<Rightarrow> Respond c rid (JObj [(''error'', JStr ''unsupported_tool_call''), (''success'', JBool False)]) p)"

text \<open>The switch on the method that \<open>Send\<close> and \<open>handleInteraction\<close> share.\<close>

definition handleInteraction :: "codec \<Rightarrow> Message \<Rightarrow> Protocol \<Rightarrow> bool \<times> Protocol" where
  "handleInteraction c msg p =
    (case m_ID msg of
       None \<Rightarrow> (False, p)
     | Some rid \<Rightarrow>
         if m_Method msg = ''item/tool/requestApproval'' then (True, HandleApproval c msg p)
         else if m_Method msg = ''item/tool/call'' then (True, HandleToolCall c msg p)
         else if m_Method msg = ''item/tool/requestUserInput''
         then (True, RespondError c rid (-1) ''user input not supported in automated mode'' p)
         else (False, p))"

datatype codex_error =
    WriteFailed string
  | ReadFailed string
  | RPCFailure string int string

definition request :: "int \<Rightarrow> string \<Rightarrow> json \<Rightarrow> json" where
  "request rid method params =
    JObj [(''id'', JNum (Itoa rid)), (''jsonrpc'', JStr ''2.0''), (''method'', JStr method), (''params'', params)]"

fun read_response :: "codec \<Rightarrow> int \<Rightarrow> string \<Rightarrow> string list \<Rightarrow> Protocol \<Rightarrow> (codex_error + Message) \<times> Protocol" where
  "read_response c rid method [] p = (Inl (ReadFailed method), p\<lparr>pr_in := []\<rparr>)"
| "read_response c rid method (line # ls) p =
    (case parse_message c line of
       None \<Rightarrow> read_response c rid method ls p
     | Some msg \<Rightarrow>
         if toFloat64 c (m_ID msg) = Some (of_int rid) then
           ((case m_Error msg of
               Some e \<Rightarrow> Inl (RPCFailure method (rpc_Code e) (rpc_Message e))
             | None \<Rightarrow> Inr msg), p\<lparr>pr_in := ls\<rparr>)
         else read_response c rid method ls
                (if m_ID msg \<noteq> None \<and> m_Method msg \<noteq> [] then snd (handleInteraction c msg p) else p))"

definition Send :: "codec \<Rightarrow> string \<Rightarrow> json \<Rightarrow> Protocol \<Rightarrow> (codex_error + Message) \<times> Protocol" where
  "Send c method params p =
    (let p1 = p\<lparr>pr_nextID := pr_nextID p + 1\<rparr>; rid = pr_nextID p1 in
     case WriteJSON (request rid method params) p1 of
       (False, p2) \<Rightarrow> (Inl (WriteFailed method), p2)
     | (True, p2) \<Rightarrow> read_response c rid method (pr_in p2) p2)"

definition Notify :: "string \<Rightarrow> json \<Rightarrow> Protocol \<Rightarrow> bool \<times> Protocol" where
  "Notify method params p =
    WriteJSON (JObj [(''jsonrpc'', JStr ''2.0''), (''method'', JStr method), (''params'', params)]) p"

datatype read_result = ReadEOF | ReadInvalid | ReadMsg Message

definition ReadMessage :: "codec \<Rightarrow> Protocol \<Rightarrow> read_result \<times> Protocol" where
  "ReadMessage c p =
    (case ReadLine p of
       (None, p') \<Rightarrow> (ReadEOF, p')
     | (Some line, p') \<Rightarrow> ((case parse_message c line of None \<Rightarrow> ReadInvalid | Some m \<Rightarrow> ReadMsg m), p'))"

section \<open>Events\<close>

record token_usage =
  u_Input :: int
  u_Output :: int
  u_Total :: int

definition zero_usage :: token_usage where
  "zero_usage = \<lparr>u_Input = 0, u_Output = 0, u_Total = 0\<rparr>"

definition dec_usage :: "token_usage decoder" where
  "dec_usage = dec_struct [(''input_tokens'', dec_int u_Input_update),
     (''output_tokens'', dec_int u_Output_update), (''total_tokens'', dec_int u_Total_update)]"

record usage_params =
  up_Nested :: token_usage
  up_Top :: token_usage

definition dec_usage_params :: "usage_params decoder" where
  "dec_usage_params = dec_struct
     [(''usage'', dec_struct [(''total_token_usage'', dec_in dec_usage up_Nested up_Nested_update)]),
      (''total_token_usage'', dec_in dec_usage up_Top up_Top_update)]"

definition with_usage :: "token_usage \<Rightarrow> AgentEvent \<Rightarrow> AgentEvent" where
  "with_usage u ev = ev\<lparr>ev_InputTokens := u_Input u, ev_OutputTokens := u_Output u, ev_TotalTokens := u_Total u\<rparr>"

definition extractUsageFromParams :: "json option \<Rightarrow> AgentEvent \<Rightarrow> AgentEvent" where
  "extractUsageFromParams params ev =
    (case params of
       None \<Rightarrow> ev
     | Some j \<Rightarrow>
         (case dec_usage_params j \<lparr>up_Nested = zero_usage, up_Top = zero_usage\<rparr> of (p, ok) \<Rightarrow>
           if \<not> ok then ev
           else if u_Total (up_Nested p) > 0 then with_usage (up_Nested p) ev
           else if u_Total (up_Top p) > 0 then with_usage (up_Top p) ev
           else ev))"

definition extractTokenUsage :: "json option \<Rightarrow> AgentEvent \<Rightarrow> AgentEvent" where
  "extractTokenUsage params ev =
    (case params of
       None \<Rightarrow> ev
     | Some j \<Rightarrow> (case dec_usage j zero_usage of (u, ok) \<Rightarrow> if \<not> ok then ev else with_usage u ev))"

definition extractNotificationMessage :: "json option \<Rightarrow> AgentEvent \<Rightarrow> AgentEvent" where
  "extractNotificationMessage params ev =
    (case params of
       None \<Rightarrow> ev
     | Some j \<Rightarrow> (case dec_struct [(''message'', dec_string (\<lambda>f. f))] j [] of (m, ok) \<Rightarrow>
         if ok then ev\<lparr>ev_Message := m\<rparr> else ev))"

definition ExtractRateLimits :: "Message \<Rightarrow> json option" where
  "ExtractRateLimits msg =
    (case m_Params msg of
       None \<Rightarrow> None
     | Some j \<Rightarrow> (case dec_struct [(''rate_limits'', dec_raw (\<lambda>f. f))] j None of (rl, ok) \<Rightarrow>
         if ok then rl else None))"

definition zero_event :: "time \<Rightarrow> AgentEvent" where
  "zero_event now = \<lparr>ev_Timestamp = now, ev_PID = None, ev_Type = EventNone, ev_SessionID = [],
     ev_ThreadID = [], ev_TurnID = [], ev_Message = [], ev_RateLimits = None,
     ev_InputTokens = 0, ev_OutputTokens = 0, ev_TotalTokens = 0\<rparr>"

definition ExtractEvent :: "codec \<Rightarrow> time \<Rightarrow> Message \<Rightarrow> AgentEvent" where
  "ExtractEvent c now msg =
    (let ev0 = zero_event now;
         meth = m_Method msg;
         ev =
           (if meth = ''turn/completed'' then extractUsageFromParams (m_Params msg) (ev0\<lparr>ev_Type := EventTurnCompleted\<rparr>)
            else if meth = ''turn/failed'' then ev0\<lparr>ev_Type := EventTurnFailed\<rparr>
            else if meth = ''turn/cancelled'' then ev0\<lparr>ev_Type := EventTurnCancelled\<rparr>
            else if meth = ''thread/tokenUsage/updated'' then extractTokenUsage (m_Params msg) (ev0\<lparr>ev_Type := EventTokenUsage\<rparr>)
            else if meth = ''notification'' then extractNotificationMessage (m_Params msg) (ev0\<lparr>ev_Type := EventNotification\<rparr>)
            else if meth \<noteq> [] then ev0\<lparr>ev_Type := EventOther, ev_Message := meth\<rparr>
            else ev0)
     in case ExtractRateLimits msg of None \<Rightarrow> ev | Some rl \<Rightarrow> ev\<lparr>ev_RateLimits := Some (c_raw c rl)\<rparr>)"

section \<open>A session\<close>

record Session =
  s_threadID :: string
  s_turnID :: string
  s_config :: SessionConfig
  s_protocol :: Protocol

datatype session_error =
    CodexNotFound string
  | ResponseTimeoutError string codex_error
  | ResponseTimeout string int
  | NotifyFailed

text \<open>\<open>result.<outer>.id\<close> of a response, when it decodes and is not empty.\<close>

definition result_id :: "string \<Rightarrow> Message \<Rightarrow> string" where
  "result_id outer msg =
    (case m_Result msg of
       None \<Rightarrow> []
     | Some j \<Rightarrow> (case dec_struct [(outer, dec_struct [(''id'', dec_string (\<lambda>f. f))])] j [] of (i, ok) \<Rightarrow>
         if ok then i else []))"

text \<open>
  The handshake. \<open>late1\<close> and \<open>late2\<close> say that the read timeout fires before the answer of
  the first and of the second request; \<open>now\<close> is the clock for a synthesised thread id.
\<close>

definition handshake :: "codec \<Rightarrow> bool \<Rightarrow> bool \<Rightarrow> time \<Rightarrow> Session \<Rightarrow> session_error option \<times> Session" where
  "handshake c late1 late2 now s =
    (let cfg = s_config s in
     case Send c ''initialize''
            (JObj [(''capabilities'', JObj []),
                   (''clientInfo'', JObj [(''name'', JStr ''symphony''), (''version'', JStr ''1.0'')])]) (s_protocol s) of
       (r1, p1) \<Rightarrow>
         if late1 then (Some (ResponseTimeout ''initialize'' (sc_ReadTimeoutMs cfg)), s\<lparr>s_protocol := p1\<rparr>)
         else (case r1 of
             Inl e \<Rightarrow> (Some (ResponseTimeoutError ''initialize'' e), s\<lparr>s_protocol := p1\<rparr>)
           | Inr m1 \<Rightarrow>
               (case Notify ''initialized'' (JObj []) p1 of
                  (False, p2) \<Rightarrow> (Some NotifyFailed, s\<lparr>s_protocol := p2\<rparr>)
                | (True, p2) \<Rightarrow>
                    let threadParams = JObj (
                          (if sc_ApprovalPolicy cfg \<noteq> [] then [(''approvalPolicy'', JStr (sc_ApprovalPolicy cfg))] else []) @
                          [(''cwd'', JStr (sc_WorkDir cfg))] @
                          (if sc_ThreadSandbox cfg \<noteq> [] then [(''sandbox'', JStr (sc_ThreadSandbox cfg))] else []))
                    in case Send c ''thread/start'' threadParams p2 of
                      (r2, p3) \<Rightarrow>
                        if late2 then (Some (ResponseTimeout ''thread/start'' (sc_ReadTimeoutMs cfg)), s\<lparr>s_protocol := p3\<rparr>)
                        else (case r2 of
                            Inl e \<Rightarrow> (Some (ResponseTimeoutError ''thread/start'' e), s\<lparr>s_protocol := p3\<rparr>)
                          | Inr m2 \<Rightarrow>
                              let tid = (if result_id ''thread'' m2 \<noteq> [] then result_id ''thread'' m2 else s_threadID s)
                              in (None, s\<lparr>s_protocol := p3,
                                   s_threadID := (if tid = [] then ''thread-'' @ Itoa now else tid)\<rparr>)))))"

text \<open>\<open>start\<close> is \<open>StartProcess\<close>: the error, or the protocol over the new process.\<close>

definition NewSession :: "codec \<Rightarrow> (string \<Rightarrow> string \<Rightarrow> string + Protocol) \<Rightarrow> bool \<Rightarrow> bool \<Rightarrow> time \<Rightarrow>
    SessionConfig \<Rightarrow> session_error + Session" where
  "NewSession c start late1 late2 now cfg =
    (case start (sc_Command cfg) (sc_WorkDir cfg) of
       Inl e \<Rightarrow> Inl (CodexNotFound e)
     | Inr p \<Rightarrow>
         (case handshake c late1 late2 now \<lparr>s_threadID = [], s_turnID = [], s_config = cfg, s_protocol = p\<rparr> of
            (Some e, s) \<Rightarrow> Inl e
          | (None, s) \<Rightarrow> Inr s))"

text \<open>
  What the select of \<open>streamTurn\<close> takes at each round: the next message, the deadline of the
  turn or the cancellation of the worker. With the list exhausted the turn is still running.
\<close>

datatype turn_case = TakeMessage | TurnDeadline | TurnCanceled

datatype turn_error = PortExitEOF | PortExitInvalidJSON | TurnTimeoutErr | TurnCancelledErr | TurnFailedErr | StartErr codex_error

type_synonym turn_result = "TurnStatus \<times> turn_error option"

definition terminal_result :: "string \<Rightarrow> turn_result option" where
  "terminal_result meth =
    (if meth = ''turn/completed'' then Some (TurnCompleted, None)
     else if meth = ''turn/failed'' then Some (TurnFailed, Some TurnFailedErr)
     else if meth = ''turn/cancelled'' then Some (TurnCancelled, Some TurnCancelledErr)
     else None)"

definition emit_event :: "AgentEvent \<Rightarrow> AgentEvent list \<Rightarrow> AgentEvent list" where
  "emit_event ev evs = (if ev_Type ev \<noteq> EventNone then evs @ [ev] else evs)"

fun streamTurn :: "codec \<Rightarrow> time \<Rightarrow> turn_case list \<Rightarrow> Protocol \<Rightarrow> AgentEvent list \<Rightarrow>
    turn_result option \<times> AgentEvent list \<times> Protocol" where
  "streamTurn c now [] p evs = (None, evs, p)"
| "streamTurn c now (TurnDeadline # cs) p evs = (Some (TurnTimedOut, Some TurnTimeoutErr), evs, p)"
| "streamTurn c now (TurnCanceled # cs) p evs = (Some (TurnCancelled, Some TurnCancelledErr), evs, p)"
| "streamTurn c now (TakeMessage # cs) p evs =
    (case ReadMessage c p of
       (ReadEOF, p') \<Rightarrow> (Some (TurnFailed, Some PortExitEOF), evs, p')
     | (ReadInvalid, p') \<Rightarrow> (Some (TurnFailed, Some PortExitInvalidJSON), evs, p')
     | (ReadMsg msg, p') \<Rightarrow>
         let evs' = emit_event (ExtractEvent c now msg) evs in
         (case terminal_result (m_Method msg) of
            Some res \<Rightarrow> (Some res, evs', p')
          | None \<Rightarrow> streamTurn c now cs (snd (handleInteraction c msg p')) evs'))"

text \<open>Go's zero \<open>time.Time\<close>, the start of the year 1.\<close>

definition zero_time :: time where
  "zero_time = - 62135596800000000000"

definition RunTurn :: "codec \<Rightarrow> time \<Rightarrow> int option \<Rightarrow> turn_case list \<Rightarrow> string \<Rightarrow> Session \<Rightarrow>
    turn_result option \<times> AgentEvent list \<times> Session" where
  "RunTurn c now pid cs prompt s =
    (let cfg = s_config s;
         turnParams = JObj (
           (if sc_ApprovalPolicy cfg \<noteq> [] then [(''approvalPolicy'', JStr (sc_ApprovalPolicy cfg))] else []) @
           [(''cwd'', JStr (sc_WorkDir cfg)),
            (''input'', JArr [JObj [(''text'', JStr prompt), (''type'', JStr ''text'')]])] @
           (if sc_TurnSandboxPolicy cfg \<noteq> [] then [(''sandboxPolicy'', JObj [(''type'', JStr (sc_TurnSandboxPolicy cfg))])] else []) @
           [(''threadId'', JStr (s_threadID s)),
            (''title'', JStr (sc_IssueIdentifier cfg @ '': '' @ sc_IssueTitle cfg))])
     in case Send c ''turn/start'' turnParams (s_protocol s) of
       (Inl e, p1) \<Rightarrow> (Some (TurnFailed, Some (StartErr e)), [], s\<lparr>s_protocol := p1\<rparr>)
     | (Inr m, p1) \<Rightarrow>
         let turnID = (if result_id ''turn'' m \<noteq> [] then result_id ''turn'' m else ''turn-'' @ Itoa now);
             started = (zero_event zero_time)\<lparr>ev_Type := EventSessionStarted,
               ev_SessionID := ComposeSessionID (s_threadID s) turnID,
               ev_ThreadID := s_threadID s, ev_TurnID := turnID, ev_PID := pid\<rparr>
         in (case streamTurn c now cs p1 [started] of
               (res, evs, p2) \<Rightarrow> (res, evs, s\<lparr>s_turnID := turnID, s_protocol := p2\<rparr>)))"

section \<open>Every request of the server is answered\<close>

text \<open>What the client writes back for a message, if anything.\<close>

definition answer :: "codec \<Rightarrow> Message \<Rightarrow> json list" where
  "answer c msg =
    (case m_ID msg of
       None \<Rightarrow> []
     | Some rid \<Rightarrow>
         if m_Method msg = ''item/tool/requestApproval'' then [response c rid (JObj [(''approved'', JBool True)])]
         else if m_Method msg = ''item/tool/call''
         then [response c rid (JObj [(''error'', JStr ''unsupported_tool_call''), (''success'', JBool False)])]
         else if m_Method msg = ''item/tool/requestUserInput''
         then [error_response c rid (-1) ''user input not supported in automated mode'']
         else [])"

lemma WriteJSON_ok: "pr_writes p = None \<Longrightarrow> WriteJSON v p = (True, p\<lparr>pr_out := pr_out p @ [v]\<rparr>)"
  by (simp add: WriteJSON_def)

lemma handleInteraction_answer:
  "pr_writes p = None \<Longrightarrow> snd (handleInteraction c msg p) = p\<lparr>pr_out := pr_out p @ answer c msg\<rparr>"
  by (simp add: handleInteraction_def answer_def HandleApproval_def HandleToolCall_def Respond_def
      RespondError_def WriteJSON_ok split: option.split)

lemma answer_no_method: "m_ID msg = None \<or> m_Method msg = [] \<Longrightarrow> answer c msg = []"
  by (auto simp: answer_def split: option.split)

definition answers :: "codec \<Rightarrow> string list \<Rightarrow> json list" where
  "answers c ls = concat (map (\<lambda>l. case parse_message c l of None \<Rightarrow> [] | Some m \<Rightarrow> answer c m) ls)"

definition is_response :: "codec \<Rightarrow> int \<Rightarrow> string \<Rightarrow> bool" where
  "is_response c rid l = (case parse_message c l of None \<Rightarrow> False | Some m \<Rightarrow> toFloat64 c (m_ID m) = Some (of_int rid))"

lemma answers_simps [simp]:
  "answers c [] = []"
  "answers c (l # ls) = (case parse_message c l of None \<Rightarrow> [] | Some m \<Rightarrow> answer c m) @ answers c ls"
  by (simp_all add: answers_def)

lemma read_response_spec:
  assumes "pr_writes p = None" and "\<forall>l \<in> set ls. \<not> is_response c rid l"
  shows "read_response c rid meth (ls @ rest) p = read_response c rid meth rest (p\<lparr>pr_out := pr_out p @ answers c ls\<rparr>)"
  using assms
proof (induction ls arbitrary: p)
  case (Cons l ls)
  show ?case
  proof (cases "parse_message c l")
    case (Some m)
    then have "toFloat64 c (m_ID m) \<noteq> Some (of_int rid)" using Cons.prems(2) by (simp add: is_response_def)
    then show ?thesis
      using Some Cons.prems Cons.IH [of "snd (handleInteraction c m p)"] Cons.IH [of p]
      by (auto simp: handleInteraction_answer answer_no_method)
  qed (use Cons in simp)
qed simp

lemma read_response_hit:
  assumes "parse_message c l = Some m" and "toFloat64 c (m_ID m) = Some (of_int rid)"
  shows "read_response c rid meth (l # rest) p =
    ((case m_Error m of Some e \<Rightarrow> Inl (RPCFailure meth (rpc_Code e) (rpc_Message e)) | None \<Rightarrow> Inr m),
     p\<lparr>pr_in := rest\<rparr>)"
  using assms by simp

text \<open>While the client waits for the response to a request it answers every approval request,
  tool call and input request of the server that arrives first, each once, in order and under
  its own id, so the server is never left waiting. It then returns the first message that
  carries the request's id, its error as an error, and leaves the later lines unread. Lines
  that are no JSON message are skipped.\<close>

theorem symphony_codex_send_answers:
  assumes "pr_writes p = None" and "pr_in p = ls @ l # rest"
    and "\<forall>x \<in> set ls. \<not> is_response c (pr_nextID p + 1) x"
    and "parse_message c l = Some m" and "toFloat64 c (m_ID m) = Some (of_int (pr_nextID p + 1))"
  shows "Send c meth params p =
    ((case m_Error m of Some e \<Rightarrow> Inl (RPCFailure meth (rpc_Code e) (rpc_Message e)) | None \<Rightarrow> Inr m),
     \<lparr>pr_nextID = pr_nextID p + 1, pr_in = rest,
      pr_out = pr_out p @ [request (pr_nextID p + 1) meth params] @ answers c ls, pr_writes = None\<rparr>)"
  using assms
  by (simp add: Send_def WriteJSON_ok Let_def read_response_spec read_response_hit
      del: read_response.simps)

text \<open>A codec for the examples: each line stands for one message.\<close>

definition sample_codec :: codec where
  "sample_codec = \<lparr>c_parse = (\<lambda>l.
       if l = ''approval'' then Some (JObj [(''id'', JStr ''x''), (''method'', JStr ''item/tool/requestApproval'')])
       else if l = ''approval1'' then Some (JObj [(''id'', JNum ''1''), (''method'', JStr ''item/tool/requestApproval'')])
       else if l = ''input'' then Some (JObj [(''id'', JStr ''y''), (''method'', JStr ''item/tool/requestUserInput'')])
       else if l = ''result'' then Some (JObj [(''id'', JNum ''1''), (''result'', JObj [])])
       else if l = ''done'' then Some (JObj [(''method'', JStr ''turn/completed'')])
       else None),
     c_f64 = (\<lambda>lit. map_option of_int (Atoi lit)), c_num = (\<lambda>l. l), c_raw = (\<lambda>_. [])\<rparr>"

definition sample_peer :: "string list \<Rightarrow> Protocol" where
  "sample_peer ls = \<lparr>pr_nextID = 0, pr_in = ls, pr_out = [], pr_writes = None\<rparr>"

lemma Atoi_one: "Atoi ''1'' = Some 1"
  by code_simp

lemma sample_messages:
  "parse_message sample_codec ''approval'' =
     Some \<lparr>m_ID = Some (JStr ''x''), m_Error = None, m_Method = ''item/tool/requestApproval'', m_Params = None, m_Result = None\<rparr>"
  "parse_message sample_codec ''approval1'' =
     Some \<lparr>m_ID = Some (JNum ''1''), m_Error = None, m_Method = ''item/tool/requestApproval'', m_Params = None, m_Result = None\<rparr>"
  "parse_message sample_codec ''input'' =
     Some \<lparr>m_ID = Some (JStr ''y''), m_Error = None, m_Method = ''item/tool/requestUserInput'', m_Params = None, m_Result = None\<rparr>"
  "parse_message sample_codec ''result'' =
     Some \<lparr>m_ID = Some (JNum ''1''), m_Error = None, m_Method = [], m_Params = None, m_Result = Some (JObj [])\<rparr>"
  "parse_message sample_codec ''done'' =
     Some \<lparr>m_ID = None, m_Error = None, m_Method = ''turn/completed'', m_Params = None, m_Result = None\<rparr>"
  "parse_message sample_codec ''noise'' = None"
  by (simp_all add: parse_message_def sample_codec_def dec_Message_def dec_struct_def dec_step_def field_for_def
      dec_id_def dec_string_def dec_raw_def zero_Message_def Atoi_one)

lemma sample_float [simp]: "toFloat64 sample_codec (Some (JNum ''1'')) = Some 1"
    "toFloat64 sample_codec (Some (JStr s)) = None"
  by (simp_all add: toFloat64_def sample_codec_def Atoi_one)

theorem symphony_codex_send_answers_witness:
  "pr_out (snd (Send sample_codec ''initialize'' (JObj []) (sample_peer [''noise'', ''approval'', ''result'', ''done'']))) =
     [request 1 ''initialize'' (JObj []), response sample_codec (JStr ''x'') (JObj [(''approved'', JBool True)])]"
proof -
  have p: "pr_writes (sample_peer ls) = None" "pr_in (sample_peer ls) = ls" "pr_nextID (sample_peer ls) = 0"
    "pr_out (sample_peer ls) = []" for ls
    by (simp_all add: sample_peer_def)
  have "pr_in (sample_peer [''noise'', ''approval'', ''result'', ''done'']) = [''noise'', ''approval''] @ ''result'' # [''done'']"
    by (simp add: p)
  note r = symphony_codex_send_answers [OF p(1) this _ sample_messages(4)]
  have "\<forall>x \<in> set [''noise'', ''approval'']. \<not> is_response sample_codec 1 x"
    by (simp add: is_response_def sample_messages)
  then show ?thesis by (simp add: r p sample_messages answer_def)
qed

section \<open>A turn\<close>

definition events_of :: "codec \<Rightarrow> time \<Rightarrow> string list \<Rightarrow> AgentEvent list" where
  "events_of c now ls =
    filter (\<lambda>ev. ev_Type ev \<noteq> EventNone)
      (concat (map (\<lambda>l. case parse_message c l of None \<Rightarrow> [] | Some m \<Rightarrow> [ExtractEvent c now m]) ls))"

lemma events_of_simps [simp]:
  "events_of c now [] = []"
  "events_of c now (l # ls) = (case parse_message c l of None \<Rightarrow> []
     | Some m \<Rightarrow> emit_event (ExtractEvent c now m) []) @ events_of c now ls"
  by (simp_all add: events_of_def emit_event_def split: option.split)

definition running_line :: "codec \<Rightarrow> string \<Rightarrow> bool" where
  "running_line c l = (case parse_message c l of None \<Rightarrow> False | Some m \<Rightarrow> terminal_result (m_Method m) = None)"

lemma streamTurn_running:
  assumes "pr_writes p = None" and "pr_in p = ls @ rest" and "list_all (running_line c) ls"
  shows "streamTurn c now (replicate (length ls) TakeMessage @ cs) p evs =
    streamTurn c now cs (p\<lparr>pr_in := rest, pr_out := pr_out p @ answers c ls\<rparr>) (evs @ events_of c now ls)"
  using assms
proof (induction ls arbitrary: p evs)
  case (Cons l ls)
  obtain m where m: "parse_message c l = Some m" "terminal_result (m_Method m) = None"
    using Cons.prems(3) by (auto simp: running_line_def split: option.splits)
  let ?p = "p\<lparr>pr_in := ls @ rest, pr_out := pr_out p @ answer c m\<rparr>"
  let ?e = "emit_event (ExtractEvent c now m) evs"
  have "streamTurn c now (replicate (length (l # ls)) TakeMessage @ cs) p evs =
      streamTurn c now (replicate (length ls) TakeMessage @ cs) ?p ?e"
    using Cons.prems m by (simp add: ReadMessage_def ReadLine_def handleInteraction_answer)
  also have "\<dots> = streamTurn c now cs (?p\<lparr>pr_in := rest, pr_out := pr_out ?p @ answers c ls\<rparr>) (?e @ events_of c now ls)"
    by (rule Cons.IH) (use Cons.prems in simp_all)
  finally show ?case using m by (simp add: emit_event_def)
next
  case Nil
  then show ?case by (cases p) simp
qed

lemma streamTurn_terminal:
  assumes "pr_writes p = None" and "pr_in p = ls @ l # rest" and "list_all (running_line c) ls"
    and "parse_message c l = Some m" and "terminal_result (m_Method m) = Some res"
  shows "streamTurn c now (replicate (length ls) TakeMessage @ TakeMessage # cs) p evs =
    (Some res, evs @ events_of c now (ls @ [l]),
     p\<lparr>pr_in := rest, pr_out := pr_out p @ answers c ls\<rparr>)"
proof -
  have app: "events_of c now (ls @ [l]) = events_of c now ls @ events_of c now [l]"
    by (simp add: events_of_def)
  show ?thesis
    using assms(4,5)
    by (simp add: streamTurn_running [OF assms(1-3)] ReadMessage_def ReadLine_def app)
       (simp add: emit_event_def)
qed

text \<open>A turn runs until the first terminal message and its status is the one that message names.
  Until then every message is reported as an event (those without a method excepted) and
  every request of the server is answered; what follows the terminal message stays unread.\<close>

theorem symphony_codex_turn:
  assumes "pr_writes p = None" and "pr_in p = ls @ l # rest" and "list_all (running_line c) ls"
    and "parse_message c l = Some m" and "terminal_result (m_Method m) = Some res"
  shows "streamTurn c now (replicate (length ls) TakeMessage @ TakeMessage # cs) p evs =
    (Some res, evs @ events_of c now (ls @ [l]),
     p\<lparr>pr_in := rest, pr_out := pr_out p @ answers c ls\<rparr>)"
  by (rule streamTurn_terminal [OF assms])

theorem symphony_codex_turn_witness:
  "fst (streamTurn sample_codec 0 [TakeMessage, TakeMessage] (sample_peer [''approval'', ''done'']) []) =
     Some (TurnCompleted, None)"
proof -
  have "list_all (running_line sample_codec) [''approval'']"
    by (simp add: running_line_def sample_messages terminal_result_def)
  note r = symphony_codex_turn [of "sample_peer [''approval'', ''done'']" "[''approval'']" "''done''" "[]", OF _ _ this,
      of _ "(TurnCompleted, None)" 0 "[]" "[]"]
  show ?thesis by (insert r) (simp add: sample_peer_def sample_messages terminal_result_def)
qed

text \<open>A line that is no JSON message ends a turn as if the process had exited, although the same
  line is skipped while the client waits for a response.\<close>

theorem symphony_codex_stray_line:
  assumes "pr_writes p = None" and "pr_in p = ls @ l # rest" and "list_all (running_line c) ls"
    and "parse_message c l = None"
  shows "fst (streamTurn c now (replicate (length ls) TakeMessage @ TakeMessage # cs) p evs) =
      Some (TurnFailed, Some PortExitInvalidJSON) \<and>
    read_response c rid meth (l # later) q = read_response c rid meth later q"
  using assms(4) by (simp add: streamTurn_running [OF assms(1-3)] ReadMessage_def ReadLine_def)

theorem symphony_codex_stray_line_witness:
  "fst (streamTurn sample_codec 0 [TakeMessage] (sample_peer [''noise'']) []) = Some (TurnFailed, Some PortExitInvalidJSON)"
  using symphony_codex_stray_line [of "sample_peer [''noise'']" "[]" "''noise''" "[]" sample_codec 0 "[]" "[]"]
  by (simp add: sample_peer_def sample_messages)

text \<open>A request of the server whose id equals the id of the pending request is taken for the
  response to it: the client returns it as a success and the server never gets an answer.\<close>

theorem symphony_codex_id_collision:
  assumes "pr_writes p = None" and "pr_in p = l # rest"
    and "parse_message c l = Some m" and "m_Method m = ''item/tool/requestApproval''" and "m_Error m = None"
    and "toFloat64 c (m_ID m) = Some (of_int (pr_nextID p + 1))"
  shows "fst (Send c meth params p) = Inr m \<and> answer c m \<noteq> [] \<and>
    pr_out (snd (Send c meth params p)) = pr_out p @ [request (pr_nextID p + 1) meth params]"
proof -
  have "m_ID m \<noteq> None" using assms(6) by (cases "m_ID m") (simp_all add: toFloat64_def)
  then show ?thesis
    using assms by (auto simp: Send_def WriteJSON_ok Let_def answer_def)
qed

theorem symphony_codex_id_collision_witness:
  "\<exists>m. fst (Send sample_codec ''turn/start'' (JObj []) (sample_peer [''approval1''])) = Inr m \<and>
     m_Method m = ''item/tool/requestApproval''"
  using symphony_codex_id_collision [of "sample_peer [''approval1'']" "''approval1''" "[]" sample_codec, OF _ _ sample_messages(2),
      of "''turn/start''" "JObj []"]
  by (simp add: sample_peer_def)

text \<open>A request for user input does not fail the turn: the client answers with an error and goes
  on, and the turn still completes when the server says so.\<close>

theorem symphony_codex_input_request_continues:
  assumes "pr_writes p = None" and "pr_in p = l1 # l2 # rest"
    and "parse_message c l1 = Some m1" and "m_Method m1 = ''item/tool/requestUserInput''"
    and "parse_message c l2 = Some m2" and "m_Method m2 = ''turn/completed''"
  shows "fst (streamTurn c now (TakeMessage # TakeMessage # cs) p evs) = Some (TurnCompleted, None)"
proof -
  have "list_all (running_line c) [l1]"
    using assms(3,4) by (simp add: running_line_def terminal_result_def)
  moreover have "terminal_result (m_Method m2) = Some (TurnCompleted, None)"
    using assms(6) by (simp add: terminal_result_def)
  moreover have "pr_in p = [l1] @ l2 # rest" using assms(2) by simp
  ultimately show ?thesis
    using streamTurn_terminal [OF assms(1), of "[l1]" l2 rest c m2 "(TurnCompleted, None)" now cs evs] assms(5)
    by simp
qed

theorem symphony_codex_input_request_continues_witness:
  "fst (streamTurn sample_codec 0 [TakeMessage, TakeMessage] (sample_peer [''input'', ''done'']) []) =
     Some (TurnCompleted, None)"
  using symphony_codex_input_request_continues [of "sample_peer [''input'', ''done'']" "''input''" "''done''" "[]"
      sample_codec _ _ 0 "[]" "[]", OF _ _ sample_messages(3) _ sample_messages(5)]
  by (simp add: sample_peer_def)

end
