(* ===== verification/SymphonyLinear.thy ===== *)
theory SymphonyLinear
  imports SymphonyModel GoJson
begin

text \<open>
  The Linear tracker adapter (\<open>symphony/tracker\<close> and \<open>symphony/tracker/linear\<close>): building
  requests, executing one and classifying what can go wrong, following the pages of a
  result, and normalising an issue. The HTTP exchange, the JSON parser, the float64 of a
  number literal and \<open>time.Parse\<close> are parameters.
\<close>

record tools =
  t_ul :: "string \<Rightarrow> string"
  t_parse :: "string \<Rightarrow> json option"
  t_f64 :: "string \<Rightarrow> rat option"
  t_RFC3339 :: "string \<Rightarrow> time option"
  t_RFC3339Nano :: "string \<Rightarrow> time option"

section \<open>The response and its decoding\<close>

record graphqlRelRef =
  gr_ID :: string
  gr_Identifier :: string
  gr_State :: string

record graphqlRelation =
  gl_RelatedIssue :: "graphqlRelRef option"
  gl_Issue :: "graphqlRelRef option"
  gl_Type :: string

text \<open>The one-field structs for a state, a label and the connections are their contents.\<close>

record graphqlIssue =
  gi_ID :: string
  gi_Identifier :: string
  gi_Title :: string
  gi_Description :: "string option"
  gi_Priority :: "rat option"
  gi_URL :: "string option"
  gi_BranchName :: "string option"
  gi_CreatedAt :: "string option"
  gi_UpdatedAt :: "string option"
  gi_State :: string
  gi_Labels :: "string list"
  gi_Relations :: "graphqlRelation list"
  gi_InverseRelations :: "graphqlRelation list"

record graphqlData =
  gd_EndCursor :: "string option"
  gd_HasNextPage :: bool
  gd_Nodes :: "graphqlIssue list"

record graphqlResponse =
  gq_Data :: "graphqlData option"
  gq_Errors :: "string list"

definition zero_relref :: graphqlRelRef where
  "zero_relref = \<lparr>gr_ID = [], gr_Identifier = [], gr_State = []\<rparr>"

definition zero_relation :: graphqlRelation where
  "zero_relation = \<lparr>gl_RelatedIssue = None, gl_Issue = None, gl_Type = []\<rparr>"

definition zero_issue :: graphqlIssue where
  "zero_issue = \<lparr>gi_ID = [], gi_Identifier = [], gi_Title = [], gi_Description = None, gi_Priority = None,
     gi_URL = None, gi_BranchName = None, gi_CreatedAt = None, gi_UpdatedAt = None, gi_State = [],
     gi_Labels = [], gi_Relations = [], gi_InverseRelations = []\<rparr>"

definition zero_data :: graphqlData where
  "zero_data = \<lparr>gd_EndCursor = None, gd_HasNextPage = False, gd_Nodes = []\<rparr>"

definition dec_relref :: "graphqlRelRef decoder" where
  "dec_relref = dec_struct [(''id'', dec_string gr_ID_update), (''identifier'', dec_string gr_Identifier_update),
     (''state'', dec_struct [(''name'', dec_string gr_State_update)])]"

definition dec_relation :: "graphqlRelation decoder" where
  "dec_relation = dec_struct
     [(''relatedIssue'', dec_in_ptr dec_relref zero_relref gl_RelatedIssue gl_RelatedIssue_update),
      (''issue'', dec_in_ptr dec_relref zero_relref gl_Issue gl_Issue_update),
      (''type'', dec_string gl_Type_update)]"

definition dec_priority :: "tools \<Rightarrow> graphqlIssue decoder" where
  "dec_priority t v s =
    (case v of
       JNull \<Rightarrow> (s\<lparr>gi_Priority := None\<rparr>, True)
     | JNum lit \<Rightarrow> (case t_f64 t lit of Some r \<Rightarrow> (s\<lparr>gi_Priority := Some r\<rparr>, True) | None \<Rightarrow> (s, False))
     | _ \<Rightarrow> (s, False))"

definition dec_nodes :: "'a decoder \<Rightarrow> 'a \<Rightarrow> (('a list \<Rightarrow> 'a list) \<Rightarrow> 's \<Rightarrow> 's) \<Rightarrow> 's decoder" where
  "dec_nodes d zero upd = dec_struct [(''nodes'', dec_list d zero upd)]"

definition dec_issue :: "tools \<Rightarrow> graphqlIssue decoder" where
  "dec_issue t = dec_struct
     [(''id'', dec_string gi_ID_update), (''identifier'', dec_string gi_Identifier_update),
      (''title'', dec_string gi_Title_update), (''description'', dec_string_ptr gi_Description_update),
      (''priority'', dec_priority t), (''url'', dec_string_ptr gi_URL_update),
      (''branchName'', dec_string_ptr gi_BranchName_update), (''createdAt'', dec_string_ptr gi_CreatedAt_update),
      (''updatedAt'', dec_string_ptr gi_UpdatedAt_update),
      (''state'', dec_struct [(''name'', dec_string gi_State_update)]),
      (''labels'', dec_nodes (dec_struct [(''name'', dec_string (\<lambda>f. f))]) [] gi_Labels_update),
      (''relations'', dec_nodes dec_relation zero_relation gi_Relations_update),
      (''inverseRelations'', dec_nodes dec_relation zero_relation gi_InverseRelations_update)]"

definition dec_data :: "tools \<Rightarrow> graphqlData decoder" where
  "dec_data t = dec_struct [(''issues'', dec_struct
     [(''pageInfo'', dec_struct [(''endCursor'', dec_string_ptr gd_EndCursor_update),
         (''hasNextPage'', dec_bool gd_HasNextPage_update)]),
      (''nodes'', dec_list (dec_issue t) zero_issue gd_Nodes_update)])]"

definition dec_response :: "tools \<Rightarrow> graphqlResponse decoder" where
  "dec_response t = dec_struct
     [(''data'', dec_in_ptr (dec_data t) zero_data gq_Data gq_Data_update),
      (''errors'', dec_list (dec_struct [(''message'', dec_string (\<lambda>f. f))]) [] gq_Errors_update)]"

section \<open>Normalisation\<close>

definition normalizeLabels :: "tools \<Rightarrow> string list \<Rightarrow> string list" where
  "normalizeLabels t nodes = map (ToLower (t_ul t)) nodes"

definition normalizeBlockedBy :: "graphqlRelation list \<Rightarrow> BlockerRef list" where
  "normalizeBlockedBy nodes = concat (map (\<lambda>r.
     if gl_Type r \<noteq> ''blocks'' then []
     else case gl_Issue r of
         None \<Rightarrow> []
       | Some ref \<Rightarrow> [\<lparr>br_ID = Some (gr_ID ref), br_Identifier = Some (gr_Identifier ref), br_State = Some (gr_State ref)\<rparr>]) nodes)"

definition normalizePriority :: "rat option \<Rightarrow> int option" where
  "normalizePriority p =
    (case p of
       None \<Rightarrow> None
     | Some v \<Rightarrow> let intVal = int_of_float v in if of_int intVal \<noteq> v then None else Some intVal)"

definition parseTimestamp :: "tools \<Rightarrow> string option \<Rightarrow> time option" where
  "parseTimestamp t s =
    (case s of
       None \<Rightarrow> None
     | Some x \<Rightarrow> (case t_RFC3339 t x of Some i \<Rightarrow> Some i | None \<Rightarrow> t_RFC3339Nano t x))"

definition normalizeIssue :: "tools \<Rightarrow> graphqlIssue \<Rightarrow> Issue" where
  "normalizeIssue t n =
    \<lparr>i_Description = gi_Description n, i_Priority = normalizePriority (gi_Priority n),
     i_BranchName = gi_BranchName n, i_URL = gi_URL n,
     i_CreatedAt = parseTimestamp t (gi_CreatedAt n), i_UpdatedAt = parseTimestamp t (gi_UpdatedAt n),
     i_ID = gi_ID n, i_Identifier = gi_Identifier n, i_Title = gi_Title n, i_State = gi_State n,
     i_Labels = normalizeLabels t (gi_Labels n), i_BlockedBy = normalizeBlockedBy (gi_InverseRelations n)\<rparr>"

definition normalizeIssues :: "tools \<Rightarrow> graphqlIssue list \<Rightarrow> Issue list" where
  "normalizeIssues t nodes = map (normalizeIssue t) nodes"

section \<open>Requests\<close>

text \<open>The query text is named by its operation; the variables are what differs between requests.\<close>

datatype operation = CandidateIssues | IssueStatesByIDs | IssuesByStates

record graphqlRequest =
  rq_Query :: operation
  rq_Variables :: "(string \<times> any) list"

definition page_vars :: "(string \<times> any) list \<Rightarrow> string \<Rightarrow> (string \<times> any) list" where
  "page_vars vars afterCursor =
    vars @ [(''first'', AInt 50)] @ (if afterCursor \<noteq> [] then [(''after'', AString afterCursor)] else [])"

definition candidateIssuesQuery :: "string \<Rightarrow> string list \<Rightarrow> string \<Rightarrow> graphqlRequest" where
  "candidateIssuesQuery projectSlug activeStates afterCursor =
    \<lparr>rq_Query = CandidateIssues, rq_Variables =
       page_vars [(''projectSlug'', AString projectSlug), (''states'', AList (map AString activeStates))] afterCursor\<rparr>"

definition issueStatesByIDsQuery :: "string list \<Rightarrow> graphqlRequest" where
  "issueStatesByIDsQuery ids =
    \<lparr>rq_Query = IssueStatesByIDs, rq_Variables = [(''ids'', AList (map AString ids))]\<rparr>"

definition issuesByStatesQuery :: "string list \<Rightarrow> string \<Rightarrow> string \<Rightarrow> graphqlRequest" where
  "issuesByStatesQuery states projectSlug afterCursor =
    \<lparr>rq_Query = IssuesByStates, rq_Variables =
       page_vars [(''states'', AList (map AString states)), (''projectSlug'', AString projectSlug)] afterCursor\<rparr>"

section \<open>The client\<close>

datatype linear_error =
    ErrUnsupportedTrackerKind string
  | ErrMissingTrackerAPIKey
  | ErrMissingTrackerProjSlug
  | ErrLinearAPIRequest string
  | ErrLinearAPIStatus int string
  | ErrLinearGraphQLErrors string
  | ErrLinearUnknownPayload string
  | ErrLinearMissingEndCursor

text \<open>What an HTTP exchange ends in: a failure before, during or after it, or a status and a body.\<close>

datatype exchange = MarshalFails | RequestFails | DoFails | ReadFails | HTTPResponse int string

definition truncate :: "string \<Rightarrow> nat \<Rightarrow> string" where
  "truncate s maxLen = (if length s \<le> maxLen then s else take maxLen s @ ''...'')"

definition execute :: "tools \<Rightarrow> exchange \<Rightarrow> linear_error + graphqlData" where
  "execute t ex =
    (case ex of
       MarshalFails \<Rightarrow> Inl (ErrLinearAPIRequest ''failed to marshal GraphQL request'')
     | RequestFails \<Rightarrow> Inl (ErrLinearAPIRequest ''failed to create HTTP request'')
     | DoFails \<Rightarrow> Inl (ErrLinearAPIRequest ''HTTP request failed'')
     | ReadFails \<Rightarrow> Inl (ErrLinearAPIRequest ''failed to read response body'')
     | HTTPResponse status body \<Rightarrow>
         if status \<noteq> 200 then Inl (ErrLinearAPIStatus status (truncate body 200))
         else (case t_parse t body of
             None \<Rightarrow> Inl (ErrLinearUnknownPayload ''failed to unmarshal GraphQL response'')
           | Some j \<Rightarrow>
               (case dec_response t j \<lparr>gq_Data = None, gq_Errors = []\<rparr> of (resp, ok) \<Rightarrow>
                 if \<not> ok then Inl (ErrLinearUnknownPayload ''failed to unmarshal GraphQL response'')
                 else if gq_Errors resp \<noteq> [] then Inl (ErrLinearGraphQLErrors (join_with ''; '' (gq_Errors resp)))
                 else (case gq_Data resp of
                     None \<Rightarrow> Inl (ErrLinearUnknownPayload ''GraphQL response has no data field'')
                   | Some d \<Rightarrow> Inr d))))"

text \<open>The value of the authorisation header.\<close>

definition authValue :: "string \<Rightarrow> string" where
  "authValue apiKey = (if \<not> HasPrefix apiKey ''Bearer '' then ''Bearer '' @ apiKey else apiKey)"

text \<open>
  The server: what its k-th exchange ends in for a request. The page loop may run forever,
  so it is a partial function; \<open>None\<close> is a loop that never returns.
\<close>

type_synonym server = "nat \<Rightarrow> graphqlRequest \<Rightarrow> exchange"

partial_function (option) fetch_pages ::
  "tools \<Rightarrow> server \<Rightarrow> (string \<Rightarrow> graphqlRequest) \<Rightarrow> nat \<Rightarrow> string \<Rightarrow> Issue list \<Rightarrow>
   (linear_error + Issue list) option" where
  "fetch_pages t srv query k cursor allIssues =
    (case execute t (srv k (query cursor)) of
       Inl e \<Rightarrow> Some (Inl e)
     | Inr d \<Rightarrow>
         if \<not> gd_HasNextPage d then Some (Inr (allIssues @ normalizeIssues t (gd_Nodes d)))
         else (case gd_EndCursor d of
             None \<Rightarrow> Some (Inl ErrLinearMissingEndCursor)
           | Some c \<Rightarrow> fetch_pages t srv query (k + 1) c (allIssues @ normalizeIssues t (gd_Nodes d))))"

definition FetchCandidateIssues :: "tools \<Rightarrow> server \<Rightarrow> string list \<Rightarrow> string \<Rightarrow> (linear_error + Issue list) option" where
  "FetchCandidateIssues t srv activeStates projectSlug =
    (if projectSlug = [] then Some (Inl ErrMissingTrackerProjSlug)
     else fetch_pages t srv (candidateIssuesQuery projectSlug activeStates) 0 [] [])"

definition FetchIssueStatesByIDs :: "tools \<Rightarrow> server \<Rightarrow> string list \<Rightarrow> linear_error + Issue list" where
  "FetchIssueStatesByIDs t srv ids =
    (if ids = [] then Inr []
     else case execute t (srv 0 (issueStatesByIDsQuery ids)) of
         Inl e \<Rightarrow> Inl e
       | Inr d \<Rightarrow> Inr (normalizeIssues t (gd_Nodes d)))"

definition FetchIssuesByStates :: "tools \<Rightarrow> server \<Rightarrow> string list \<Rightarrow> string \<Rightarrow> (linear_error + Issue list) option" where
  "FetchIssuesByStates t srv states projectSlug =
    (if states = [] then Some (Inr [])
     else fetch_pages t srv (\<lambda>cursor. issuesByStatesQuery states projectSlug cursor) 0 [] [])"

record Client =
  cl_endpoint :: string
  cl_apiKey :: string

definition NewClient :: "string \<Rightarrow> string \<Rightarrow> Client" where
  "NewClient endpoint apiKey =
    \<lparr>cl_endpoint = (if endpoint = [] then ''https://api.linear.app/graphql'' else endpoint), cl_apiKey = apiKey\<rparr>"

definition NewTracker :: "string \<Rightarrow> string \<Rightarrow> string \<Rightarrow> linear_error + Client" where
  "NewTracker kind endpoint apiKey =
    (if kind = ''linear'' then
       if apiKey = [] then Inl ErrMissingTrackerAPIKey else Inr (NewClient endpoint apiKey)
     else Inl (ErrUnsupportedTrackerKind kind))"

section \<open>Following the pages\<close>

text \<open>The server answers the chain of cursors that starts at \<open>cursor\<close> with these pages.\<close>

fun serves :: "tools \<Rightarrow> server \<Rightarrow> (string \<Rightarrow> graphqlRequest) \<Rightarrow> nat \<Rightarrow> string \<Rightarrow> graphqlIssue list list \<Rightarrow> bool" where
  "serves t srv query k cursor [] = False"
| "serves t srv query k cursor [page] =
     (case execute t (srv k (query cursor)) of Inl e \<Rightarrow> False
      | Inr d \<Rightarrow> gd_Nodes d = page \<and> \<not> gd_HasNextPage d)"
| "serves t srv query k cursor (page # page' # pages) =
     (case execute t (srv k (query cursor)) of Inl e \<Rightarrow> False
      | Inr d \<Rightarrow> gd_Nodes d = page \<and> gd_HasNextPage d \<and>
          (case gd_EndCursor d of None \<Rightarrow> False | Some c \<Rightarrow> serves t srv query (k + 1) c (page' # pages)))"

lemma fetch_pages_serves:
  assumes "serves t srv query k cursor pages"
  shows "fetch_pages t srv query k cursor acc = Some (Inr (acc @ normalizeIssues t (concat pages)))"
  using assms
proof (induction t srv query k cursor pages arbitrary: acc rule: serves.induct)
  case (3 t srv query k cursor page page' pages)
  then show ?case
    by (subst fetch_pages.simps) (auto simp: normalizeIssues_def split: sum.splits option.splits)
qed (auto simp: fetch_pages.simps normalizeIssues_def split: sum.splits)

text \<open>Pagination loses and reorders nothing: when the server answers the chain of cursors it hands
  out with a finite number of pages, the fetch returns and its result is all issues of all
  pages, normalised, in order.\<close>

theorem symphony_linear_all_pages:
  assumes "serves t srv (candidateIssuesQuery slug states) 0 [] pages" and "slug \<noteq> []"
  shows "FetchCandidateIssues t srv states slug = Some (Inr (normalizeIssues t (concat pages)))"
  using fetch_pages_serves [OF assms(1), of "[]"] assms(2) by (simp add: FetchCandidateIssues_def)

text \<open>Two pages with one issue each; the second is asked for with the cursor of the first.\<close>

definition sample_page :: "string \<Rightarrow> json \<Rightarrow> bool \<Rightarrow> json" where
  "sample_page ident cursor next_page = JObj [(''data'', JObj [(''issues'', JObj
     [(''pageInfo'', JObj [(''hasNextPage'', JBool next_page), (''endCursor'', cursor)]),
      (''nodes'', JArr [JObj [(''identifier'', JStr ident)]])])])]"

definition sample_tools :: tools where
  "sample_tools = \<lparr>t_ul = (\<lambda>s. s),
     t_parse = (\<lambda>b. Some (if b = ''one'' then sample_page ''A-1'' (JStr ''c'') True else sample_page ''A-2'' JNull False)),
     t_f64 = (\<lambda>_. None), t_RFC3339 = (\<lambda>_. None), t_RFC3339Nano = (\<lambda>_. None)\<rparr>"

definition sample_server :: server where
  "sample_server k rq = HTTPResponse 200 (if map_of (rq_Variables rq) ''after'' = Some (AString ''c'') then ''two'' else ''one'')"

definition sample_node :: "string \<Rightarrow> graphqlIssue" where
  "sample_node ident = zero_issue\<lparr>gi_Identifier := ident\<rparr>"

lemmas decode_defs = dec_response_def dec_data_def dec_issue_def dec_struct_def dec_step_def field_for_def
  dec_in_ptr_def dec_list_def dec_string_ptr_def dec_string_def dec_bool_def

lemma sample_decode:
  "dec_response sample_tools (sample_page ident cursor next_page) \<lparr>gq_Data = None, gq_Errors = []\<rparr> =
    (\<lparr>gq_Data = Some \<lparr>gd_EndCursor = (case cursor of JStr c \<Rightarrow> Some c | _ \<Rightarrow> None), gd_HasNextPage = next_page,
        gd_Nodes = [sample_node ident]\<rparr>, gq_Errors = []\<rparr>, True)"
  if "cursor = JNull \<or> (\<exists>c. cursor = JStr c)"
  using that by (auto simp: decode_defs sample_page_def zero_data_def sample_node_def zero_issue_def)

lemma sample_serves:
  "serves sample_tools sample_server (candidateIssuesQuery ''p'' []) 0 [] [[sample_node ''A-1''], [sample_node ''A-2'']]"
proof -
  have q: "sample_server k (candidateIssuesQuery ''p'' [] []) = HTTPResponse 200 ''one''"
    "sample_server k (candidateIssuesQuery ''p'' [] ''c'') = HTTPResponse 200 ''two''" for k
    by (simp_all add: sample_server_def candidateIssuesQuery_def page_vars_def)
  have p: "t_parse sample_tools ''one'' = Some (sample_page ''A-1'' (JStr ''c'') True)"
    "t_parse sample_tools ''two'' = Some (sample_page ''A-2'' JNull False)"
    by (simp_all add: sample_tools_def)
  show ?thesis by (simp add: q p execute_def sample_decode)
qed

theorem symphony_linear_all_pages_witness:
  "FetchCandidateIssues sample_tools sample_server [] ''p'' =
    Some (Inr (normalizeIssues sample_tools [sample_node ''A-1'', sample_node ''A-2'']))"
  using symphony_linear_all_pages [OF sample_serves] by simp

text \<open>The outcome of a request is accepted only when the status is 200, the body decodes without a
  type error, it reports no GraphQL error and it has data; a partial result that comes with
  errors is never used.\<close>

theorem symphony_linear_execute_accepts:
  "execute t ex = Inr d \<longleftrightarrow>
    (\<exists>body j. ex = HTTPResponse 200 body \<and> t_parse t body = Some j \<and>
       dec_response t j \<lparr>gq_Data = None, gq_Errors = []\<rparr> = (\<lparr>gq_Data = Some d, gq_Errors = []\<rparr>, True))"
  by (auto simp: execute_def split: exchange.splits option.splits prod.splits if_splits
      intro: graphqlResponse.equality)

text \<open>A priority is kept exactly when it is a whole number that fits an int64; other values
  become no priority, never a rounded one.\<close>

theorem symphony_linear_priority_exact:
  "normalizePriority p = Some i \<longleftrightarrow> p = Some (of_int i) \<and> - (2 ^ 63) \<le> i \<and> i < 2 ^ 63"
proof -
  have "int_of_float (of_int i) = i" if "- (2 ^ 63) \<le> i" "i < 2 ^ 63"
    using that by (simp add: int_of_float_def)
  moreover have "- (2 ^ 63) \<le> int_of_float v \<and> int_of_float v < 2 ^ 63" for v
    by (simp add: int_of_float_def Let_def)
  ultimately show ?thesis
    by (auto simp: normalizePriority_def Let_def split: option.splits if_splits)
qed

end
