(* ===== verification/SymphonyHttp.thy ===== *)
theory SymphonyHttp
  imports SymphonyProperties
begin

text \<open>
  The JSON API over a snapshot of the orchestrator (\<open>symphony/http/api.go\<close>) and the routes
  of the server. A response is its status and a structured body; the encoding of the body
  as JSON text and the HTML dashboard are not modelled.
\<close>

section \<open>Responses\<close>

record agentTotalsJSON =
  aj_input_tokens :: int
  aj_output_tokens :: int
  aj_total_tokens :: int
  aj_nanos_running :: int

record runningJSON =
  rj_last_event_at :: "string option"
  rj_issue_id :: string
  rj_issue_identifier :: string
  rj_state :: string
  rj_session_id :: string
  rj_last_event :: string
  rj_last_message :: string
  rj_started_at :: string
  rj_tokens :: agentTotalsJSON
  rj_turn_count :: int

record retryJSON =
  ej_issue_id :: string
  ej_issue_identifier :: string
  ej_due_at :: string
  ej_error :: string
  ej_attempt :: int

record stateResponse =
  sj_running_count :: nat
  sj_retrying_count :: nat
  sj_generated_at :: string
  sj_running :: "runningJSON list"
  sj_retrying :: "retryJSON list"
  sj_rate_limits :: "string option"
  sj_agent_totals :: agentTotalsJSON

datatype body =
    StateBody stateResponse
  | IssueRunning string string runningJSON
  | IssueRetrying string string retryJSON
  | RefreshBody bool bool string
  | ErrorBody string string
  | DashboardPage

type_synonym http_response = "int \<times> body"

definition writeMethodNotAllowed :: http_response where
  "writeMethodNotAllowed = (405, ErrorBody ''method_not_allowed'' ''method not allowed'')"

definition tokens_json :: "AgentTotals \<Rightarrow> agentTotalsJSON" where
  "tokens_json t = \<lparr>aj_input_tokens = at_InputTokens t, aj_output_tokens = at_OutputTokens t,
     aj_total_tokens = at_TotalTokens t, aj_nanos_running = 0\<rparr>"

definition running_json :: "RunningSnapshot \<Rightarrow> runningJSON" where
  "running_json rs =
    \<lparr>rj_last_event_at = map_option FormatRFC3339 (rs_LastEventAt rs),
     rj_issue_id = rs_IssueID rs, rj_issue_identifier = rs_IssueIdentifier rs, rj_state = rs_State rs,
     rj_session_id = rs_SessionID rs, rj_last_event = rs_LastEvent rs, rj_last_message = rs_LastMessage rs,
     rj_started_at = FormatRFC3339 (rs_StartedAt rs), rj_tokens = tokens_json (rs_Tokens rs),
     rj_turn_count = rs_TurnCount rs\<rparr>"

definition retry_json :: "RetrySnapshot \<Rightarrow> retryJSON" where
  "retry_json rt =
    \<lparr>ej_issue_id = ts_IssueID rt, ej_issue_identifier = ts_IssueIdentifier rt,
     ej_due_at = FormatRFC3339 (ts_DueAt rt), ej_error = ts_Error rt, ej_attempt = ts_Attempt rt\<rparr>"

section \<open>Handlers\<close>

text \<open>\<open>snap\<close> is what \<open>RequestSnapshot\<close> returns: an error when the request's context ends first.\<close>

definition handleState :: "string \<Rightarrow> string + Snapshot \<Rightarrow> http_response" where
  "handleState meth snap =
    (if meth \<noteq> ''GET'' then writeMethodNotAllowed
     else case snap of
         Inl err \<Rightarrow> (500, ErrorBody ''snapshot_failed'' err)
       | Inr sn \<Rightarrow>
           (200, StateBody
             \<lparr>sj_running_count = length (sn_Running sn), sj_retrying_count = length (sn_Retrying sn),
              sj_generated_at = FormatRFC3339 (sn_GeneratedAt sn),
              sj_running = map running_json (sn_Running sn), sj_retrying = map retry_json (sn_Retrying sn),
              sj_rate_limits = sn_RateLimits sn,
              sj_agent_totals = (tokens_json (sn_Totals sn))\<lparr>aj_nanos_running := at_NanosRunning (sn_Totals sn)\<rparr>\<rparr>))"

definition TrimPrefix :: "string \<Rightarrow> string \<Rightarrow> string" where
  "TrimPrefix s p = (if HasPrefix s p then drop (length p) s else s)"

definition handleIssue :: "string \<Rightarrow> string \<Rightarrow> string + Snapshot \<Rightarrow> http_response" where
  "handleIssue meth urlPath snap =
    (if meth \<noteq> ''GET'' then writeMethodNotAllowed
     else let ident = TrimPrefix urlPath ''/api/v1/'' in
       if ident = [] then (400, ErrorBody ''missing_identifier'' ''issue identifier is required'')
       else case snap of
           Inl err \<Rightarrow> (500, ErrorBody ''snapshot_failed'' err)
         | Inr sn \<Rightarrow>
             (case find (\<lambda>rs. rs_IssueIdentifier rs = ident) (sn_Running sn) of
                Some rs \<Rightarrow> (200, IssueRunning (rs_IssueIdentifier rs) (rs_IssueID rs) (running_json rs))
              | None \<Rightarrow>
                  (case find (\<lambda>rt. ts_IssueIdentifier rt = ident) (sn_Retrying sn) of
                     Some rt \<Rightarrow> (200, IssueRetrying (ts_IssueIdentifier rt) (ts_IssueID rt) (retry_json rt))
                   | None \<Rightarrow> (404, ErrorBody ''issue_not_found''
                       (''issue identifier not found in current state: '' @ ident)))))"

text \<open>\<open>err\<close> is what \<open>RequestRefresh\<close> returns; \<open>coalesced\<close> is a constant of the code.\<close>

definition handleRefresh :: "string \<Rightarrow> time \<Rightarrow> string option \<Rightarrow> http_response" where
  "handleRefresh meth now err =
    (if meth \<noteq> ''POST'' then writeMethodNotAllowed
     else case err of
         Some e \<Rightarrow> (500, ErrorBody ''refresh_failed'' e)
       | None \<Rightarrow> (202, RefreshBody True False (FormatRFC3339 now)))"

text \<open>
  The routes: two exact paths, the subtree of issues, and everything else. (A path that the
  multiplexer would first clean is not considered.)
\<close>

definition serve :: "string \<Rightarrow> string \<Rightarrow> time \<Rightarrow> string option \<Rightarrow> string + Snapshot \<Rightarrow> http_response" where
  "serve meth urlPath now err snap =
    (if urlPath = ''/api/v1/state'' then handleState meth snap
     else if urlPath = ''/api/v1/refresh'' then handleRefresh meth now err
     else if HasPrefix urlPath ''/api/v1/'' then handleIssue meth urlPath snap
     else (200, DashboardPage))"

section \<open>The API shows the orchestrator's state\<close>

lemma find_map: "find P (map f xs) = map_option f (find (\<lambda>x. P (f x)) xs)"
  by (induction xs) simp_all

lemma find_holds: "find P xs = Some x \<Longrightarrow> P x"
  by (induction xs) (auto split: if_splits)

lemma snapshot_identifiers:
  "rs_IssueIdentifier (running_snapshot en) = re_Identifier en"
  "ts_IssueIdentifier (retry_snapshot rt) = rt_Identifier rt"
  by (simp_all add: running_snapshot_def retry_snapshot_def Let_def)

text \<open>What the API should answer about an identifier, read off the orchestrator's maps.\<close>

definition issue_view :: "Orchestrator \<Rightarrow> string \<Rightarrow> http_response" where
  "issue_view s ident =
    (case find (\<lambda>en. re_Identifier en = ident) (map snd (running s)) of
       Some en \<Rightarrow> (200, IssueRunning ident (i_ID (re_Issue en)) (running_json (running_snapshot en)))
     | None \<Rightarrow>
         (case find (\<lambda>rt. rt_Identifier rt = ident) (map snd (retryAttempts s)) of
            Some rt \<Rightarrow> (200, IssueRetrying ident (rt_IssueID rt) (retry_json (retry_snapshot rt)))
          | None \<Rightarrow> (404, ErrorBody ''issue_not_found'' (''issue identifier not found in current state: '' @ ident))))"

text \<open>Asking the API about an identifier reports exactly what the orchestrator holds at that
  moment: the running entry of that identifier if there is one, else its scheduled retry,
  else not found. Only the two reserved identifiers \<open>state\<close> and \<open>refresh\<close> cannot be asked for.\<close>

theorem symphony_http_issue_view:
  assumes "ident \<notin> {[], ''state'', ''refresh''}"
  shows "serve ''GET'' (''/api/v1/'' @ ident) now err (Inr (buildSnapshot env s)) = issue_view s ident"
proof -
  have r: "HasPrefix (''/api/v1/'' @ ident) ''/api/v1/''" by (simp add: HasPrefix_def)
  have t: "TrimPrefix (''/api/v1/'' @ ident) ''/api/v1/'' = ident" by (simp add: TrimPrefix_def HasPrefix_def)
  have run: "sn_Running (buildSnapshot env s) = map running_snapshot (map snd (running s))"
    by (simp add: buildSnapshot_def Let_def case_prod_unfold)
  have ret: "sn_Retrying (buildSnapshot env s) = map retry_snapshot (map snd (retryAttempts s))"
    by (simp add: buildSnapshot_def Let_def case_prod_unfold)
  have n: "''/api/v1/'' @ ident \<noteq> ''/api/v1/state''" "''/api/v1/'' @ ident \<noteq> ''/api/v1/refresh''" "ident \<noteq> []"
    using assms by simp_all
  have ids: "rs_IssueID (running_snapshot en) = i_ID (re_Issue en)" "ts_IssueID (retry_snapshot rt) = rt_IssueID rt" for en rt
    by (simp_all add: running_snapshot_def retry_snapshot_def Let_def)
  show ?thesis
    unfolding serve_def handleIssue_def issue_view_def
    using n r by (simp add: Let_def t run ret find_map snapshot_identifiers ids
      del: append.simps map_map split: option.split) (auto dest: find_holds)
qed

definition sample_dispatched :: Orchestrator where
  "sample_dispatched = dispatchIssue sample_env (sample_issue ''A-1'') None New"

theorem symphony_http_issue_view_witness:
  "\<exists>r. serve ''GET'' (''/api/v1/'' @ ''A-1'') 0 None (Inr (buildSnapshot sample_env sample_dispatched)) =
    (200, IssueRunning ''A-1'' ''A-1'' r)"
  using symphony_http_issue_view [of "''A-1''" 0 None sample_env sample_dispatched]
  by (simp add: issue_view_def sample_dispatched_def dispatchIssue_def New_def sample_issue_def Let_def emit_def)

end
