(* ===== verification/GoText.thy ===== *)
theory GoText
  imports GoStrings
begin

text \<open>
  More of package \<open>strings\<close>: \<open>Contains\<close>, \<open>Cut\<close>, \<open>CutSuffix\<close>, \<open>TrimSuffix\<close>, \<open>SplitN\<close> on one
  byte, \<open>Fields\<close>, and the upper-casing and case-insensitive comparison of ASCII text. What these do
  outside ASCII is a parameter, the Unicode case tables.
\<close>

definition upper_char :: "char \<Rightarrow> char" where
  "upper_char c = (if CHR ''a'' \<le> c \<and> c \<le> CHR ''z'' then char_of (of_char c - 32 :: nat) else c)"

record casing =
  cs_upper :: "string \<Rightarrow> string"
  cs_lower :: "string \<Rightarrow> string"
  cs_fold :: "string \<Rightarrow> string \<Rightarrow> bool"

definition ToUpper :: "casing \<Rightarrow> string \<Rightarrow> string" where
  "ToUpper u s = (if list_all ascii s then map upper_char s else cs_upper u s)"

definition EqualFold :: "casing \<Rightarrow> string \<Rightarrow> string \<Rightarrow> bool" where
  "EqualFold u s t =
    (if list_all ascii s \<and> list_all ascii t then map lower_char s = map lower_char t else cs_fold u s t)"

definition Contains :: "string \<Rightarrow> string \<Rightarrow> bool" where
  "Contains s sub = (Index s sub \<noteq> None)"

lemma Contains_sublist [go_str]: "Contains s sub \<longleftrightarrow> sublist sub s"
proof
  assume "Contains s sub"
  then obtain i where "Index s sub = Some i" by (auto simp: Contains_def)
  then have "prefix sub (drop i s)" by (simp add: Index_Some)
  then show "sublist sub s" by (metis prefix_imp_sublist sublist_drop sublist_order.order_trans)
qed (metis Contains_def Index_None)

text \<open>\<open>strings.Cut(s, sep)\<close>: the text before and after the first separator, if there is one.\<close>

definition Cut :: "string \<Rightarrow> string \<Rightarrow> (string \<times> string) option" where
  "Cut s sep = map_option (\<lambda>i. (take i s, drop (i + length sep) s)) (Index s sep)"

lemma Cut_join: "Cut s sep = Some (a, b) \<Longrightarrow> s = a @ sep @ b"
  unfolding Cut_def by (auto dest!: Index_Some) (metis append_assoc append_take_drop_id prefix_def
      append_eq_conv_conj drop_drop add.commute)

definition CutSuffix :: "string \<Rightarrow> string \<Rightarrow> string option" where
  "CutSuffix s suf = (if HasSuffix s suf then Some (take (length s - length suf) s) else None)"

definition TrimSuffix :: "string \<Rightarrow> string \<Rightarrow> string" where
  "TrimSuffix s suf = (case CutSuffix s suf of Some t \<Rightarrow> t | None \<Rightarrow> s)"

definition TrimPrefix' :: "string \<Rightarrow> string \<Rightarrow> string" where
  "TrimPrefix' s p = (if HasPrefix s p then drop (length p) s else s)"

text \<open>\<open>strings.SplitN(s, sep, n)\<close> for a separator of one byte and a positive \<open>n\<close>.\<close>

definition SplitN :: "string \<Rightarrow> char \<Rightarrow> nat \<Rightarrow> string list" where
  "SplitN s sep n =
    (let ps = split_on sep s in
     if length ps \<le> n then ps else take (n - 1) ps @ [join_with [sep] (drop (n - 1) ps)])"

text \<open>\<open>strings.Fields\<close>: the maximal runs of runes that are not white space.\<close>

fun fields_go :: "string list \<Rightarrow> string \<Rightarrow> string list" where
  "fields_go [] cur = (if cur = [] then [] else [cur])"
| "fields_go (r # rs) cur =
    (if space_rune r then (if cur = [] then fields_go rs [] else cur # fields_go rs [])
     else fields_go rs (cur @ r))"

definition Fields :: "string \<Rightarrow> string list" where
  "Fields s = fields_go (runes s) []"

text \<open>\<open>s[:n]\<close> of a string converted to runes.\<close>

definition take_runes :: "nat \<Rightarrow> string \<Rightarrow> string" where
  "take_runes n s = concat (take n (runes s))"

end
