(* ===== verification/ClaudeProtocol.thy ===== *)
theory ClaudeProtocol
  imports GoJson GoText
begin

text \<open>
  The wire protocol of the Claude command line, \<open>agent-cli-wrapper/protocol\<close>: one JSON value per
  line, told apart by \<open>type\<close> and decoded into a message (\<open>parse.go\<close>, \<open>messages.go\<close>), the blocks of
  a message (\<open>content.go\<close>), the payloads of system messages (\<open>system.go\<close>), the events of a stream
  (\<open>stream.go\<close>) and the requests the command line sends (\<open>control.go\<close>). Values of type
  \<open>interface{}\<close> and \<open>json.RawMessage\<close> stay JSON values. Not modelled: the JSON parser, the float64
  of a literal, the text \<open>fmt.Sprint\<close> makes of a value and the text of a decoding error, which are
  the record \<open>wire\<close>.
\<close>

record wire =
  w_parse :: "string \<Rightarrow> json option"
  w_f64 :: "string \<Rightarrow> rat option"
  w_text :: "json \<Rightarrow> string"
  w_error :: "json option \<Rightarrow> string"

section \<open>Decoders for more types of fields\<close>

text \<open>\<open>json.Unmarshal\<close> into a zero value.\<close>

definition unmarshal :: "'a decoder \<Rightarrow> 'a \<Rightarrow> json \<Rightarrow> 'a option" where
  "unmarshal d z v = (case d v z of (a, ok) \<Rightarrow> if ok then Some a else None)"

definition dec_strings :: "((string list \<Rightarrow> string list) \<Rightarrow> 's \<Rightarrow> 's) \<Rightarrow> 's decoder" where
  "dec_strings upd = dec_list (dec_string (\<lambda>f. f)) [] upd"

definition dec_int_ptr :: "((int option \<Rightarrow> int option) \<Rightarrow> 's \<Rightarrow> 's) \<Rightarrow> 's decoder" where
  "dec_int_ptr upd v s =
    (case v of
       JNull \<Rightarrow> (upd (\<lambda>_. None) s, True)
     | JNum lit \<Rightarrow> (case Atoi lit of Some i \<Rightarrow> (upd (\<lambda>_. Some i) s, True) | None \<Rightarrow> (s, False))
     | _ \<Rightarrow> (s, False))"

definition dec_bool_ptr :: "((bool option \<Rightarrow> bool option) \<Rightarrow> 's \<Rightarrow> 's) \<Rightarrow> 's decoder" where
  "dec_bool_ptr upd v s =
    (case v of JNull \<Rightarrow> (upd (\<lambda>_. None) s, True) | JBool b \<Rightarrow> (upd (\<lambda>_. Some b) s, True) | _ \<Rightarrow> (s, False))"

definition dec_float :: "wire \<Rightarrow> ((rat \<Rightarrow> rat) \<Rightarrow> 's \<Rightarrow> 's) \<Rightarrow> 's decoder" where
  "dec_float w upd v s =
    (case v of
       JNull \<Rightarrow> (s, True)
     | JNum lit \<Rightarrow> (case w_f64 w lit of Some x \<Rightarrow> (upd (\<lambda>_. x) s, True) | None \<Rightarrow> (s, False))
     | _ \<Rightarrow> (s, False))"

definition dec_float_ptr :: "wire \<Rightarrow> ((rat option \<Rightarrow> rat option) \<Rightarrow> 's \<Rightarrow> 's) \<Rightarrow> 's decoder" where
  "dec_float_ptr w upd v s =
    (case v of
       JNull \<Rightarrow> (upd (\<lambda>_. None) s, True)
     | JNum lit \<Rightarrow> (case w_f64 w lit of Some x \<Rightarrow> (upd (\<lambda>_. Some x) s, True) | None \<Rightarrow> (s, False))
     | _ \<Rightarrow> (s, False))"

text \<open>\<open>interface{}\<close>: every number in the value must be in the range of a float64.\<close>

fun nums_ok :: "wire \<Rightarrow> json \<Rightarrow> bool" where
  "nums_ok w (JNum lit) = (w_f64 w lit \<noteq> None)"
| "nums_ok w (JArr vs) = list_all (nums_ok w) vs"
| "nums_ok w (JObj kvs) = list_all (\<lambda>kv. nums_ok w (snd kv)) kvs"
| "nums_ok w v = True"

definition dec_any :: "wire \<Rightarrow> ((json option \<Rightarrow> json option) \<Rightarrow> 's \<Rightarrow> 's) \<Rightarrow> 's decoder" where
  "dec_any w upd v s =
    (case v of JNull \<Rightarrow> (upd (\<lambda>_. None) s, True) | _ \<Rightarrow> (upd (\<lambda>_. Some v) s, nums_ok w v))"

text \<open>\<open>[]interface{}\<close>.\<close>

definition dec_anys :: "wire \<Rightarrow> ((json list \<Rightarrow> json list) \<Rightarrow> 's \<Rightarrow> 's) \<Rightarrow> 's decoder" where
  "dec_anys w upd v s =
    (case v of
       JNull \<Rightarrow> (upd (\<lambda>_. []) s, True)
     | JArr vs \<Rightarrow> (upd (\<lambda>_. vs) s, list_all (nums_ok w) vs)
     | _ \<Rightarrow> (s, False))"

text \<open>\<open>map[string]interface{}\<close>: the last of equal keys counts, and \<open>null\<close> is the nil map.\<close>

type_synonym jmap = "(string, json) gomap"

definition to_map :: "(string \<times> json) list \<Rightarrow> jmap" where
  "to_map kvs = fold (\<lambda>kv. mput (fst kv) (snd kv)) kvs []"

definition dec_map :: "wire \<Rightarrow> ((jmap option \<Rightarrow> jmap option) \<Rightarrow> 's \<Rightarrow> 's) \<Rightarrow> 's decoder" where
  "dec_map w upd v s =
    (case v of
       JNull \<Rightarrow> (upd (\<lambda>_. None) s, True)
     | JObj kvs \<Rightarrow> (upd (\<lambda>_. Some (to_map kvs)) s, nums_ok w v)
     | _ \<Rightarrow> (s, False))"

text \<open>The field of a struct that holds the discriminator.\<close>

definition discriminator :: "string \<Rightarrow> json \<Rightarrow> string option" where
  "discriminator k = unmarshal (dec_struct [(k, dec_string (\<lambda>f. f))]) []"

section \<open>Content blocks\<close>

record ToolUseBlock =
  tu_Input :: "jmap option"
  tu_ID :: string
  tu_Name :: string

record ToolResultBlock =
  tb_Content :: "json option"
  tb_IsError :: "bool option"
  tb_ToolUseID :: string

datatype content_block =
    TextBlk string
  | ThinkingBlk string string
  | ToolUseBlk ToolUseBlock
  | ToolResultBlk ToolResultBlock
  | UnknownBlk string json

text \<open>The current names of the fields of a tool use, with the old ones for those that are absent.\<close>

record tool_use_raw =
  tr_block :: ToolUseBlock
  tr_LegacyInput :: "jmap option"
  tr_LegacyID :: string
  tr_LegacyName :: string

definition dec_tool_use :: "wire \<Rightarrow> tool_use_raw decoder" where
  "dec_tool_use w = dec_struct
     [(''input'', dec_map w (tr_block_update \<circ> tu_Input_update)),
      (''type'', dec_string (\<lambda>f. id)),
      (''id'', dec_string (tr_block_update \<circ> tu_ID_update)),
      (''name'', dec_string (tr_block_update \<circ> tu_Name_update)),
      (''tool_input'', dec_map w tr_LegacyInput_update),
      (''tool_use_id'', dec_string tr_LegacyID_update),
      (''tool_name'', dec_string tr_LegacyName_update)]"

definition unmarshal_tool_use :: "wire \<Rightarrow> json \<Rightarrow> ToolUseBlock option" where
  "unmarshal_tool_use w v =
    map_option (\<lambda>raw. let t = tr_block raw in
        t\<lparr>tu_ID := (if tu_ID t = [] then tr_LegacyID raw else tu_ID t),
          tu_Name := (if tu_Name t = [] then tr_LegacyName raw else tu_Name t),
          tu_Input := (if tu_Input t = None then tr_LegacyInput raw else tu_Input t)\<rparr>)
      (unmarshal (dec_tool_use w)
        \<lparr>tr_block = \<lparr>tu_Input = None, tu_ID = [], tu_Name = []\<rparr>, tr_LegacyInput = None, tr_LegacyID = [],
         tr_LegacyName = []\<rparr> v)"

record tool_result_raw =
  rr_block :: ToolResultBlock
  rr_LegacyContent :: "json option"

definition dec_tool_result :: "wire \<Rightarrow> tool_result_raw decoder" where
  "dec_tool_result w = dec_struct
     [(''content'', dec_any w (rr_block_update \<circ> tb_Content_update)),
      (''is_error'', dec_bool_ptr (rr_block_update \<circ> tb_IsError_update)),
      (''type'', dec_string (\<lambda>f. id)),
      (''tool_use_id'', dec_string (rr_block_update \<circ> tb_ToolUseID_update)),
      (''tool_result'', dec_raw rr_LegacyContent_update)]"

definition unmarshal_tool_result :: "wire \<Rightarrow> json \<Rightarrow> ToolResultBlock option" where
  "unmarshal_tool_result w v =
    Option.bind (unmarshal (dec_tool_result w)
        \<lparr>rr_block = \<lparr>tb_Content = None, tb_IsError = None, tb_ToolUseID = []\<rparr>, rr_LegacyContent = None\<rparr> v)
      (\<lambda>raw. let t = rr_block raw in
         case rr_LegacyContent raw of
           None \<Rightarrow> Some t
         | Some c \<Rightarrow> if tb_Content t \<noteq> None then Some t else unmarshal (dec_any w tb_Content_update) t c)"

definition UnmarshalContentBlock :: "wire \<Rightarrow> json \<Rightarrow> content_block option" where
  "UnmarshalContentBlock w v =
    (case discriminator ''type'' v of
       None \<Rightarrow> None
     | Some t \<Rightarrow>
       if t = ''text'' then
         map_option TextBlk (unmarshal (dec_struct [(''type'', dec_string (\<lambda>f. id)), (''text'', dec_string (\<lambda>f. f))]) [] v)
       else if t = ''thinking'' then
         map_option (\<lambda>p. ThinkingBlk (fst p) (snd p))
           (unmarshal (dec_struct [(''type'', dec_string (\<lambda>f. id)), (''thinking'', dec_string apfst),
              (''signature'', dec_string apsnd)]) ([], []) v)
       else if t = ''tool_use'' then map_option ToolUseBlk (unmarshal_tool_use w v)
       else if t = ''tool_result'' then map_option ToolResultBlk (unmarshal_tool_result w v)
       else Some (UnknownBlk t v))"

text \<open>\<open>ContentBlocks.UnmarshalJSON\<close>: one block that does not decode fails them all.\<close>

fun all_some :: "'a option list \<Rightarrow> 'a list option" where
  "all_some [] = Some []"
| "all_some (None # xs) = None"
| "all_some (Some x # xs) = map_option (Cons x) (all_some xs)"

definition unmarshal_blocks :: "wire \<Rightarrow> json \<Rightarrow> content_block list option" where
  "unmarshal_blocks w v =
    (case v of JNull \<Rightarrow> Some [] | JArr vs \<Rightarrow> all_some (map (UnmarshalContentBlock w) vs) | _ \<Rightarrow> None)"

text \<open>\<open>FlexibleContent\<close> keeps the raw value; none stands for an absent field.\<close>

definition AsString :: "json option \<Rightarrow> string option" where
  "AsString raw = (case raw of Some (JStr s) \<Rightarrow> Some s | _ \<Rightarrow> None)"

definition AsBlocks :: "wire \<Rightarrow> json option \<Rightarrow> content_block list option" where
  "AsBlocks w raw = (case raw of None \<Rightarrow> None | Some (JStr s) \<Rightarrow> None | Some v \<Rightarrow> unmarshal_blocks w v)"

section \<open>Messages\<close>

record SystemMessage =
  sm_Subtype :: string
  sm_UUID :: string
  sm_SessionID :: string
  sm_raw :: json

text \<open>The tokens of an assistant message and of a result; what else the wire carries is not read.\<close>

record WireUsage =
  wu_InputTokens :: int
  wu_CacheCreation :: int
  wu_CacheRead :: int
  wu_OutputTokens :: int

record MessageContent =
  mc_Model :: string
  mc_Role :: string
  mc_Content :: "json option"

record AssistantMessage =
  am_ParentToolUseID :: "string option"
  am_SessionID :: string
  am_RequestID :: string
  am_Message :: MessageContent
  am_IsAPIErrorMessage :: bool

record UserMessage =
  um_ParentToolUseID :: "string option"
  um_SessionID :: string
  um_Message :: MessageContent

text \<open>
  A result. \<open>ModelUsage\<close> is a Go map of which only the context windows are read, in the iteration
  order of the map.
\<close>

record ResultMsg =
  rs_ModelUsage :: "(string, int) gomap"
  rs_SessionID :: string
  rs_Subtype :: string
  rs_Result :: string
  rs_Errors :: "string list"
  rs_Usage :: WireUsage
  rs_TotalCostUSD :: rat
  rs_NumTurns :: int
  rs_DurationAPIMs :: int
  rs_DurationMs :: int
  rs_IsError :: bool

record ToolProgressMessage =
  tp_ParentToolUseID :: "string option"
  tp_TaskID :: "string option"
  tp_ToolUseID :: string
  tp_ToolName :: string
  tp_ElapsedTimeSeconds :: rat

record AuthStatusMessage =
  as_Error :: "string option"
  as_Output :: "string list"
  as_IsAuthenticating :: bool

record RateLimitInfo =
  rl_ResetsAt :: "rat option"
  rl_Utilization :: "rat option"
  rl_OverageResetsAt :: "rat option"
  rl_OverageDisabledReason :: "string option"
  rl_SurpassedThreshold :: "rat option"
  rl_Status :: string
  rl_RateLimitType :: string
  rl_OverageStatus :: string
  rl_IsUsingOverage :: bool

record ControlResponsePayload =
  cp_Subtype :: string
  cp_RequestID :: string
  cp_Response :: "json option"
  cp_Error :: string

datatype message =
    MsgSystem SystemMessage
  | MsgAssistant AssistantMessage
  | MsgUser UserMessage
  | MsgResult ResultMsg
  | MsgStreamEvent "json option"
  | MsgControlRequest string "json option"
  | MsgControlResponse ControlResponsePayload
  | MsgKeepAlive
  | MsgToolProgress ToolProgressMessage
  | MsgToolUseSummary string "string list"
  | MsgAuthStatus AuthStatusMessage
  | MsgRateLimit RateLimitInfo
  | MsgPromptSuggestion string
  | MsgStreamlinedText string
  | MsgStreamlinedToolUseSummary string
  | MsgControlCancel string
  | MsgUpdateEnvironment
  | MsgUnknown string json

section \<open>Decoding a message\<close>

text \<open>A field that is decoded and not read afterwards: only a type mismatch matters.\<close>

definition dec_void :: "'a decoder \<Rightarrow> 'a \<Rightarrow> 's decoder" where
  "dec_void d z v s = (s, snd (d v z))"

definition skip_string :: "'s decoder" where
  "skip_string = dec_string (\<lambda>f. id)"

definition skip_int :: "'s decoder" where
  "skip_int = dec_int (\<lambda>f. id)"

definition dec_wire_usage :: "WireUsage decoder" where
  "dec_wire_usage = dec_struct
     [(''service_tier'', skip_string),
      (''server_tool_use'', dec_void (dec_struct [(''web_search_requests'', skip_int), (''web_fetch_requests'', skip_int)]) ()),
      (''cache_creation'', dec_void (dec_struct [(''ephemeral_5m_input_tokens'', skip_int),
          (''ephemeral_1h_input_tokens'', skip_int)]) ()),
      (''input_tokens'', dec_int wu_InputTokens_update),
      (''cache_creation_input_tokens'', dec_int wu_CacheCreation_update),
      (''cache_read_input_tokens'', dec_int wu_CacheRead_update),
      (''output_tokens'', dec_int wu_OutputTokens_update)]"

definition zero_wire_usage :: WireUsage where
  "zero_wire_usage = \<lparr>wu_InputTokens = 0, wu_CacheCreation = 0, wu_CacheRead = 0, wu_OutputTokens = 0\<rparr>"

text \<open>The usage inside a message has no field \<open>server_tool_use\<close>.\<close>

definition dec_message_usage :: "unit decoder" where
  "dec_message_usage = dec_struct
     [(''service_tier'', skip_string),
      (''cache_creation'', dec_void (dec_struct [(''ephemeral_5m_input_tokens'', skip_int),
          (''ephemeral_1h_input_tokens'', skip_int)]) ()),
      (''input_tokens'', skip_int), (''cache_creation_input_tokens'', skip_int),
      (''cache_read_input_tokens'', skip_int), (''output_tokens'', skip_int)]"

definition dec_content :: "MessageContent decoder" where
  "dec_content = dec_struct
     [(''model'', dec_string mc_Model_update), (''id'', skip_string), (''type'', skip_string),
      (''role'', dec_string mc_Role_update), (''content'', dec_raw mc_Content_update),
      (''stop_reason'', dec_void (dec_string_ptr (\<lambda>f. f)) None),
      (''stop_sequence'', dec_void (dec_string_ptr (\<lambda>f. f)) None),
      (''usage'', dec_void dec_message_usage ())]"

definition zero_content :: MessageContent where
  "zero_content = \<lparr>mc_Model = [], mc_Role = [], mc_Content = None\<rparr>"

definition unmarshal_system :: "json \<Rightarrow> SystemMessage option" where
  "unmarshal_system v = unmarshal (dec_struct
     [(''type'', skip_string), (''subtype'', dec_string sm_Subtype_update),
      (''uuid'', dec_string sm_UUID_update), (''session_id'', dec_string sm_SessionID_update)])
     \<lparr>sm_Subtype = [], sm_UUID = [], sm_SessionID = [], sm_raw = v\<rparr> v"

definition unmarshal_assistant :: "json \<Rightarrow> AssistantMessage option" where
  "unmarshal_assistant = unmarshal (dec_struct
     [(''parent_tool_use_id'', dec_string_ptr am_ParentToolUseID_update), (''type'', skip_string),
      (''session_id'', dec_string am_SessionID_update), (''uuid'', skip_string),
      (''requestId'', dec_string am_RequestID_update),
      (''message'', dec_in dec_content am_Message am_Message_update),
      (''isApiErrorMessage'', dec_bool am_IsAPIErrorMessage_update)])
     \<lparr>am_ParentToolUseID = None, am_SessionID = [], am_RequestID = [], am_Message = zero_content,
      am_IsAPIErrorMessage = False\<rparr>"

definition unmarshal_user :: "json \<Rightarrow> UserMessage option" where
  "unmarshal_user = unmarshal (dec_struct
     [(''parent_tool_use_id'', dec_string_ptr um_ParentToolUseID_update), (''type'', skip_string),
      (''session_id'', dec_string um_SessionID_update), (''uuid'', skip_string),
      (''message'', dec_in dec_content um_Message um_Message_update)])
     \<lparr>um_ParentToolUseID = None, um_SessionID = [], um_Message = zero_content\<rparr>"

definition dec_model_usage :: "wire \<Rightarrow> int decoder" where
  "dec_model_usage w = dec_struct
     [(''inputTokens'', skip_int), (''outputTokens'', skip_int), (''cacheReadInputTokens'', skip_int),
      (''cacheCreationInputTokens'', skip_int), (''webSearchRequests'', skip_int),
      (''costUSD'', dec_float w (\<lambda>f. id)), (''contextWindow'', dec_int (\<lambda>f. f)), (''maxOutputTokens'', skip_int)]"

definition dec_model_usages :: "wire \<Rightarrow> ResultMsg decoder" where
  "dec_model_usages w v m =
    (case v of
       JNull \<Rightarrow> (m\<lparr>rs_ModelUsage := []\<rparr>, True)
     | JObj kvs \<Rightarrow> (m\<lparr>rs_ModelUsage := fold (\<lambda>kv. mput (fst kv) (fst (dec_model_usage w (snd kv) 0))) kvs (rs_ModelUsage m)\<rparr>,
                    list_all (\<lambda>kv. snd (dec_model_usage w (snd kv) 0)) kvs)
     | _ \<Rightarrow> (m, False))"

definition unmarshal_result :: "wire \<Rightarrow> json \<Rightarrow> ResultMsg option" where
  "unmarshal_result w = unmarshal (dec_struct
     [(''modelUsage'', dec_model_usages w), (''session_id'', dec_string rs_SessionID_update),
      (''subtype'', dec_string rs_Subtype_update), (''uuid'', skip_string),
      (''result'', dec_string rs_Result_update), (''type'', skip_string),
      (''errors'', dec_strings rs_Errors_update),
      (''permission_denials'', dec_anys w (\<lambda>f. id)),
      (''usage'', dec_in dec_wire_usage rs_Usage rs_Usage_update),
      (''total_cost_usd'', dec_float w rs_TotalCostUSD_update), (''num_turns'', dec_int rs_NumTurns_update),
      (''duration_api_ms'', dec_int rs_DurationAPIMs_update), (''duration_ms'', dec_int rs_DurationMs_update),
      (''is_error'', dec_bool rs_IsError_update)])
     \<lparr>rs_ModelUsage = [], rs_SessionID = [], rs_Subtype = [], rs_Result = [], rs_Errors = [],
      rs_Usage = zero_wire_usage, rs_TotalCostUSD = 0, rs_NumTurns = 0, rs_DurationAPIMs = 0, rs_DurationMs = 0,
      rs_IsError = False\<rparr>"

definition unmarshal_stream_event :: "json \<Rightarrow> json option option" where
  "unmarshal_stream_event = unmarshal (dec_struct
     [(''parent_tool_use_id'', dec_void (dec_string_ptr (\<lambda>f. f)) None), (''type'', skip_string),
      (''session_id'', skip_string), (''uuid'', skip_string), (''event'', dec_raw (\<lambda>f. f))]) None"

definition unmarshal_control_request :: "json \<Rightarrow> (string \<times> json option) option" where
  "unmarshal_control_request = unmarshal (dec_struct
     [(''type'', skip_string), (''request_id'', dec_string apfst), (''request'', dec_raw apsnd)]) ([], None)"

definition unmarshal_control_response :: "wire \<Rightarrow> json \<Rightarrow> ControlResponsePayload option" where
  "unmarshal_control_response w = unmarshal (dec_struct
     [(''type'', skip_string),
      (''response'', dec_struct
        [(''subtype'', dec_string cp_Subtype_update), (''request_id'', dec_string cp_RequestID_update),
         (''response'', dec_any w cp_Response_update), (''error'', dec_string cp_Error_update)])])
     \<lparr>cp_Subtype = [], cp_RequestID = [], cp_Response = None, cp_Error = []\<rparr>"

definition unmarshal_tool_progress :: "wire \<Rightarrow> json \<Rightarrow> ToolProgressMessage option" where
  "unmarshal_tool_progress w = unmarshal (dec_struct
     [(''parent_tool_use_id'', dec_string_ptr tp_ParentToolUseID_update), (''task_id'', dec_string_ptr tp_TaskID_update),
      (''type'', skip_string), (''tool_use_id'', dec_string tp_ToolUseID_update),
      (''tool_name'', dec_string tp_ToolName_update), (''uuid'', skip_string), (''session_id'', skip_string),
      (''elapsed_time_seconds'', dec_float w tp_ElapsedTimeSeconds_update)])
     \<lparr>tp_ParentToolUseID = None, tp_TaskID = None, tp_ToolUseID = [], tp_ToolName = [], tp_ElapsedTimeSeconds = 0\<rparr>"

definition unmarshal_auth_status :: "json \<Rightarrow> AuthStatusMessage option" where
  "unmarshal_auth_status = unmarshal (dec_struct
     [(''error'', dec_string_ptr as_Error_update), (''type'', skip_string), (''uuid'', skip_string),
      (''session_id'', skip_string), (''output'', dec_strings as_Output_update),
      (''isAuthenticating'', dec_bool as_IsAuthenticating_update)])
     \<lparr>as_Error = None, as_Output = [], as_IsAuthenticating = False\<rparr>"

definition unmarshal_rate_limit :: "wire \<Rightarrow> json \<Rightarrow> RateLimitInfo option" where
  "unmarshal_rate_limit w = unmarshal (dec_struct
     [(''type'', skip_string), (''uuid'', skip_string), (''session_id'', skip_string),
      (''rate_limit_info'', dec_struct
        [(''resetsAt'', dec_float_ptr w rl_ResetsAt_update), (''utilization'', dec_float_ptr w rl_Utilization_update),
         (''overageResetsAt'', dec_float_ptr w rl_OverageResetsAt_update),
         (''overageDisabledReason'', dec_string_ptr rl_OverageDisabledReason_update),
         (''surpassedThreshold'', dec_float_ptr w rl_SurpassedThreshold_update),
         (''status'', dec_string rl_Status_update), (''rateLimitType'', dec_string rl_RateLimitType_update),
         (''overageStatus'', dec_string rl_OverageStatus_update), (''isUsingOverage'', dec_bool rl_IsUsingOverage_update)])])
     \<lparr>rl_ResetsAt = None, rl_Utilization = None, rl_OverageResetsAt = None, rl_OverageDisabledReason = None,
      rl_SurpassedThreshold = None, rl_Status = [], rl_RateLimitType = [], rl_OverageStatus = [], rl_IsUsingOverage = False\<rparr>"

text \<open>A message of one text field \<open>k\<close> that counts.\<close>

definition unmarshal_text_field :: "string \<Rightarrow> json \<Rightarrow> string option" where
  "unmarshal_text_field k = unmarshal (dec_struct
     [(''type'', skip_string), (k, dec_string (\<lambda>f. f)), (''uuid'', skip_string), (''session_id'', skip_string)]) []"

definition string_map_ok :: "json \<Rightarrow> bool" where
  "string_map_ok v = (case v of
      JNull \<Rightarrow> True | JObj kvs \<Rightarrow> list_all (\<lambda>kv. case snd kv of JStr _ \<Rightarrow> True | JNull \<Rightarrow> True | _ \<Rightarrow> False) kvs | _ \<Rightarrow> False)"

definition ParseMessage_json :: "wire \<Rightarrow> json \<Rightarrow> message option" where
  "ParseMessage_json w v =
    (case discriminator ''type'' v of
       None \<Rightarrow> None
     | Some t \<Rightarrow>
       if t = ''system'' then map_option MsgSystem (unmarshal_system v)
       else if t = ''assistant'' then map_option MsgAssistant (unmarshal_assistant v)
       else if t = ''user'' then map_option MsgUser (unmarshal_user v)
       else if t = ''result'' then map_option MsgResult (unmarshal_result w v)
       else if t = ''stream_event'' then map_option MsgStreamEvent (unmarshal_stream_event v)
       else if t = ''control_request'' then map_option (case_prod MsgControlRequest) (unmarshal_control_request v)
       else if t = ''control_response'' then map_option MsgControlResponse (unmarshal_control_response w v)
       else if t = ''keep_alive'' then Some MsgKeepAlive
       else if t = ''tool_progress'' then map_option MsgToolProgress (unmarshal_tool_progress w v)
       else if t = ''tool_use_summary'' then
         map_option (case_prod MsgToolUseSummary) (unmarshal (dec_struct
           [(''type'', skip_string), (''summary'', dec_string apfst), (''uuid'', skip_string), (''session_id'', skip_string),
            (''preceding_tool_use_ids'', dec_strings apsnd)]) ([], []) v)
       else if t = ''auth_status'' then map_option MsgAuthStatus (unmarshal_auth_status v)
       else if t = ''rate_limit_event'' then map_option MsgRateLimit (unmarshal_rate_limit w v)
       else if t = ''prompt_suggestion'' then map_option MsgPromptSuggestion (unmarshal_text_field ''suggestion'' v)
       else if t = ''streamlined_text'' then map_option MsgStreamlinedText (unmarshal_text_field ''text'' v)
       else if t = ''streamlined_tool_use_summary'' then
         map_option MsgStreamlinedToolUseSummary (unmarshal_text_field ''tool_summary'' v)
       else if t = ''control_cancel_request'' then
         map_option MsgControlCancel (unmarshal (dec_struct
           [(''type'', skip_string), (''request_id'', dec_string (\<lambda>f. f))]) [] v)
       else if t = ''update_environment_variables'' then
         map_option (\<lambda>u. MsgUpdateEnvironment) (unmarshal (dec_struct
           [(''type'', skip_string), (''variables'', \<lambda>x u. (u, string_map_ok x))]) () v)
       else Some (MsgUnknown t v))"

definition ParseMessage :: "wire \<Rightarrow> string \<Rightarrow> message option" where
  "ParseMessage w line = Option.bind (w_parse w line) (ParseMessage_json w)"

section \<open>Synthetic errors and outcomes\<close>

definition syntheticAPIErrorPrefix :: string where
  "syntheticAPIErrorPrefix = ''API Error: ''"

definition IsSyntheticAPIError :: "AssistantMessage \<Rightarrow> bool" where
  "IsSyntheticAPIError m = am_IsAPIErrorMessage m"

definition SyntheticErrorText :: "wire \<Rightarrow> AssistantMessage \<Rightarrow> string" where
  "SyntheticErrorText w m =
    (if \<not> IsSyntheticAPIError m then []
     else case AsBlocks w (mc_Content (am_Message m)) of
         None \<Rightarrow> (case AsString (mc_Content (am_Message m)) of
             None \<Rightarrow> [] | Some text \<Rightarrow> TrimPrefix' text syntheticAPIErrorPrefix)
       | Some blocks \<Rightarrow>
         (case find (\<lambda>b. case b of TextBlk t \<Rightarrow> t \<noteq> [] | _ \<Rightarrow> False) blocks of
            Some (TextBlk t) \<Rightarrow> TrimPrefix' t syntheticAPIErrorPrefix
          | _ \<Rightarrow> []))"

datatype ResultOutcome = ResultSuccess string | ResultError string string "string list"

definition Outcome :: "ResultMsg \<Rightarrow> ResultOutcome" where
  "Outcome m =
    (if \<not> rs_IsError m \<and> (rs_Subtype m = [] \<or> rs_Subtype m = ''success'') then ResultSuccess (rs_Result m)
     else ResultError (rs_Subtype m) (rs_Result m) (rs_Errors m))"

definition IsFailure :: "ResultMsg \<Rightarrow> bool" where
  "IsFailure m = (case Outcome m of ResultError _ _ _ \<Rightarrow> True | _ \<Rightarrow> False)"

section \<open>Payloads of system messages\<close>

record SystemInitPayload =
  ip_PermissionMode :: string
  ip_SessionID :: string
  ip_CWD :: string
  ip_Model :: string
  ip_ClaudeCodeVersion :: string
  ip_Tools :: "string list"

definition zero_init :: SystemInitPayload where
  "zero_init = \<lparr>ip_PermissionMode = [], ip_SessionID = [], ip_CWD = [], ip_Model = [],
     ip_ClaudeCodeVersion = [], ip_Tools = []\<rparr>"

definition dec_pair :: "string \<Rightarrow> string \<Rightarrow> (string \<times> string) decoder" where
  "dec_pair k1 k2 = dec_struct [(k1, dec_string apfst), (k2, dec_string apsnd)]"

definition skip_strings :: "'s decoder" where
  "skip_strings = dec_void (dec_strings (\<lambda>f. f)) []"

definition skip_pairs :: "string \<Rightarrow> string \<Rightarrow> 's decoder" where
  "skip_pairs k1 k2 = dec_void (dec_list (dec_pair k1 k2) ([], []) (\<lambda>f. f)) []"

definition dec_init :: "wire \<Rightarrow> SystemInitPayload decoder" where
  "dec_init w = dec_struct
     [(''fast_mode_state'', dec_any w (\<lambda>f. id)), (''permissionMode'', dec_string ip_PermissionMode_update),
      (''apiKeySource'', skip_string), (''session_id'', dec_string ip_SessionID_update), (''uuid'', skip_string),
      (''output_style'', skip_string), (''claude_code_version'', dec_string ip_ClaudeCodeVersion_update),
      (''cwd'', dec_string ip_CWD_update), (''model'', dec_string ip_Model_update), (''betas'', skip_strings),
      (''tools'', dec_strings ip_Tools_update), (''plugins'', skip_pairs ''name'' ''path''), (''agents'', skip_strings),
      (''skills'', skip_strings), (''slash_commands'', skip_strings), (''mcp_servers'', skip_pairs ''name'' ''status'')]"

definition AsInit :: "wire \<Rightarrow> SystemMessage \<Rightarrow> SystemInitPayload option" where
  "AsInit w m = unmarshal (dec_init w) zero_init (sm_raw m)"

text \<open>
  The lenient decoding of \<open>init\<close>: each field alone, found by its exact name, and a field of the
  wrong type keeps what could be decoded of it.
\<close>

definition decodeInitField :: "jmap \<Rightarrow> string \<Rightarrow> 'a decoder \<Rightarrow> 'a \<Rightarrow> 'a" where
  "decodeInitField fm name d z = (case map_of fm name of None \<Rightarrow> z | Some raw \<Rightarrow> fst (d raw z))"

definition InitPayloadLenient :: "SystemMessage \<Rightarrow> SystemInitPayload" where
  "InitPayloadLenient m =
    (let fm = (case sm_raw m of JObj kvs \<Rightarrow> to_map kvs | _ \<Rightarrow> []);
         str = (\<lambda>k z. decodeInitField fm k (dec_string (\<lambda>f. f)) z)
     in \<lparr>ip_PermissionMode = str ''permissionMode'' [], ip_SessionID = str ''session_id'' (sm_SessionID m),
         ip_CWD = str ''cwd'' [], ip_Model = str ''model'' [],
         ip_ClaudeCodeVersion = str ''claude_code_version'' [],
         ip_Tools = decodeInitField fm ''tools'' (dec_strings (\<lambda>f. f)) []\<rparr>)"

record CompactMetadata =
  cm_PreservedSegment :: "(string \<times> string \<times> string) option"
  cm_Trigger :: string
  cm_PreTokens :: int

definition AsCompactBoundary :: "SystemMessage \<Rightarrow> CompactMetadata option" where
  "AsCompactBoundary m = unmarshal (dec_struct
     [(''uuid'', skip_string), (''session_id'', skip_string),
      (''compact_metadata'', dec_struct
        [(''preserved_segment'', dec_in_ptr (dec_struct
            [(''head_uuid'', dec_string apfst), (''anchor_uuid'', dec_string (apsnd \<circ> apfst)),
             (''tail_uuid'', dec_string (apsnd \<circ> apsnd))]) ([], [], []) cm_PreservedSegment cm_PreservedSegment_update),
         (''trigger'', dec_string cm_Trigger_update), (''pre_tokens'', dec_int cm_PreTokens_update)])])
     \<lparr>cm_PreservedSegment = None, cm_Trigger = [], cm_PreTokens = 0\<rparr> (sm_raw m)"

record PostTurnSummary =
  pt_SummarizesUUID :: string
  pt_StatusCategory :: string
  pt_StatusDetail :: string
  pt_Title :: string
  pt_Description :: string
  pt_RecentAction :: string
  pt_NeedsAction :: string
  pt_ArtifactURLs :: "string list"
  pt_IsNoteworthy :: bool

definition AsPostTurnSummary :: "SystemMessage \<Rightarrow> PostTurnSummary option" where
  "AsPostTurnSummary m = unmarshal (dec_struct
     [(''summarizes_uuid'', dec_string pt_SummarizesUUID_update), (''status_category'', dec_string pt_StatusCategory_update),
      (''status_detail'', dec_string pt_StatusDetail_update), (''title'', dec_string pt_Title_update),
      (''description'', dec_string pt_Description_update), (''recent_action'', dec_string pt_RecentAction_update),
      (''needs_action'', dec_string pt_NeedsAction_update), (''uuid'', skip_string), (''session_id'', skip_string),
      (''artifact_urls'', dec_strings pt_ArtifactURLs_update), (''is_noteworthy'', dec_bool pt_IsNoteworthy_update)])
     \<lparr>pt_SummarizesUUID = [], pt_StatusCategory = [], pt_StatusDetail = [], pt_Title = [], pt_Description = [],
      pt_RecentAction = [], pt_NeedsAction = [], pt_ArtifactURLs = [], pt_IsNoteworthy = False\<rparr> (sm_raw m)"

record APIRetry =
  ar_ErrorStatus :: "int option"
  ar_Error :: string
  ar_Attempt :: int
  ar_MaxRetries :: int
  ar_RetryDelayMs :: rat

definition AsAPIRetry :: "wire \<Rightarrow> SystemMessage \<Rightarrow> APIRetry option" where
  "AsAPIRetry w m = unmarshal (dec_struct
     [(''error_status'', dec_int_ptr ar_ErrorStatus_update), (''error'', dec_string ar_Error_update),
      (''uuid'', skip_string), (''session_id'', skip_string), (''attempt'', dec_int ar_Attempt_update),
      (''max_retries'', dec_int ar_MaxRetries_update), (''retry_delay_ms'', dec_float w ar_RetryDelayMs_update)])
     \<lparr>ar_ErrorStatus = None, ar_Error = [], ar_Attempt = 0, ar_MaxRetries = 0, ar_RetryDelayMs = 0\<rparr> (sm_raw m)"

definition AsLocalCommandOutput :: "SystemMessage \<Rightarrow> string option" where
  "AsLocalCommandOutput m = unmarshal (dec_struct
     [(''content'', dec_string (\<lambda>f. f)), (''uuid'', skip_string), (''session_id'', skip_string)]) [] (sm_raw m)"

text \<open>The three hook payloads fill one record; each reads only the fields it has.\<close>

record Hook =
  hk_ExitCode :: "int option"
  hk_HookID :: string
  hk_HookName :: string
  hk_HookEvent :: string
  hk_Output :: string
  hk_Stdout :: string
  hk_Stderr :: string
  hk_Outcome :: string

definition zero_hook :: Hook where
  "zero_hook = \<lparr>hk_ExitCode = None, hk_HookID = [], hk_HookName = [], hk_HookEvent = [], hk_Output = [],
     hk_Stdout = [], hk_Stderr = [], hk_Outcome = []\<rparr>"

definition hook_names :: "(string \<times> Hook decoder) list" where
  "hook_names =
     [(''hook_id'', dec_string hk_HookID_update), (''hook_name'', dec_string hk_HookName_update),
      (''hook_event'', dec_string hk_HookEvent_update), (''uuid'', skip_string), (''session_id'', skip_string)]"

definition hook_streams :: "(string \<times> Hook decoder) list" where
  "hook_streams =
     [(''stdout'', dec_string hk_Stdout_update), (''stderr'', dec_string hk_Stderr_update),
      (''output'', dec_string hk_Output_update)]"

definition AsHookStarted :: "SystemMessage \<Rightarrow> Hook option" where
  "AsHookStarted m = unmarshal (dec_struct hook_names) zero_hook (sm_raw m)"

definition AsHookProgress :: "SystemMessage \<Rightarrow> Hook option" where
  "AsHookProgress m = unmarshal (dec_struct (hook_names @ hook_streams)) zero_hook (sm_raw m)"

definition AsHookResponse :: "SystemMessage \<Rightarrow> Hook option" where
  "AsHookResponse m = unmarshal (dec_struct (hook_names @ hook_streams @
     [(''exit_code'', dec_int_ptr hk_ExitCode_update), (''outcome'', dec_string hk_Outcome_update)])) zero_hook (sm_raw m)"

record TaskUsage =
  ku_TotalTokens :: int
  ku_ToolUses :: int
  ku_DurationMs :: int

definition dec_task_usage :: "TaskUsage decoder" where
  "dec_task_usage = dec_struct
     [(''total_tokens'', dec_int ku_TotalTokens_update), (''tool_uses'', dec_int ku_ToolUses_update),
      (''duration_ms'', dec_int ku_DurationMs_update)]"

definition zero_task_usage :: TaskUsage where
  "zero_task_usage = \<lparr>ku_TotalTokens = 0, ku_ToolUses = 0, ku_DurationMs = 0\<rparr>"

record TaskNotification =
  kn_ToolUseID :: "string option"
  kn_TaskID :: string
  kn_Status :: string
  kn_OutputFile :: string
  kn_Summary :: string
  kn_Usage :: TaskUsage

definition AsTaskNotification :: "SystemMessage \<Rightarrow> TaskNotification option" where
  "AsTaskNotification m = unmarshal (dec_struct
     [(''tool_use_id'', dec_string_ptr kn_ToolUseID_update), (''task_id'', dec_string kn_TaskID_update),
      (''status'', dec_string kn_Status_update), (''output_file'', dec_string kn_OutputFile_update),
      (''summary'', dec_string kn_Summary_update), (''uuid'', skip_string), (''session_id'', skip_string),
      (''usage'', dec_in dec_task_usage kn_Usage kn_Usage_update)])
     \<lparr>kn_ToolUseID = None, kn_TaskID = [], kn_Status = [], kn_OutputFile = [], kn_Summary = [],
      kn_Usage = zero_task_usage\<rparr> (sm_raw m)"

record TaskStarted =
  kd_ToolUseID :: "string option"
  kd_WorkflowName :: "string option"
  kd_TaskID :: string
  kd_Description :: string
  kd_TaskType :: string
  kd_Prompt :: string

definition AsTaskStarted :: "SystemMessage \<Rightarrow> TaskStarted option" where
  "AsTaskStarted m = unmarshal (dec_struct
     [(''tool_use_id'', dec_string_ptr kd_ToolUseID_update), (''workflow_name'', dec_string_ptr kd_WorkflowName_update),
      (''task_id'', dec_string kd_TaskID_update), (''description'', dec_string kd_Description_update),
      (''task_type'', dec_string kd_TaskType_update), (''prompt'', dec_string kd_Prompt_update),
      (''uuid'', skip_string), (''session_id'', skip_string)])
     \<lparr>kd_ToolUseID = None, kd_WorkflowName = None, kd_TaskID = [], kd_Description = [], kd_TaskType = [],
      kd_Prompt = []\<rparr> (sm_raw m)"

record TaskProgress =
  kp_ToolUseID :: "string option"
  kp_TaskID :: string
  kp_Description :: string
  kp_LastToolName :: string
  kp_Summary :: string
  kp_Usage :: TaskUsage

definition AsTaskProgress :: "SystemMessage \<Rightarrow> TaskProgress option" where
  "AsTaskProgress m = unmarshal (dec_struct
     [(''tool_use_id'', dec_string_ptr kp_ToolUseID_update), (''task_id'', dec_string kp_TaskID_update),
      (''description'', dec_string kp_Description_update), (''last_tool_name'', dec_string kp_LastToolName_update),
      (''summary'', dec_string kp_Summary_update), (''uuid'', skip_string), (''session_id'', skip_string),
      (''usage'', dec_in dec_task_usage kp_Usage kp_Usage_update)])
     \<lparr>kp_ToolUseID = None, kp_TaskID = [], kp_Description = [], kp_LastToolName = [], kp_Summary = [],
      kp_Usage = zero_task_usage\<rparr> (sm_raw m)"

record TaskUpdated =
  ka_Status :: "string option"
  ka_Description :: "string option"
  ka_EndTime :: "int option"
  ka_TotalPausedMs :: "int option"
  ka_Error :: "string option"
  ka_IsBackgrounded :: "bool option"
  ka_TaskID :: string

definition AsTaskUpdated :: "SystemMessage \<Rightarrow> TaskUpdated option" where
  "AsTaskUpdated m = unmarshal (dec_struct
     [(''patch'', dec_struct
        [(''status'', dec_string_ptr ka_Status_update), (''description'', dec_string_ptr ka_Description_update),
         (''end_time'', dec_int_ptr ka_EndTime_update), (''total_paused_ms'', dec_int_ptr ka_TotalPausedMs_update),
         (''error'', dec_string_ptr ka_Error_update), (''is_backgrounded'', dec_bool_ptr ka_IsBackgrounded_update)]),
      (''task_id'', dec_string ka_TaskID_update)])
     \<lparr>ka_Status = None, ka_Description = None, ka_EndTime = None, ka_TotalPausedMs = None, ka_Error = None,
      ka_IsBackgrounded = None, ka_TaskID = []\<rparr> (sm_raw m)"

definition AsSessionStateChanged :: "SystemMessage \<Rightarrow> string option" where
  "AsSessionStateChanged m = unmarshal (dec_struct
     [(''state'', dec_string (\<lambda>f. f)), (''uuid'', skip_string), (''session_id'', skip_string)]) [] (sm_raw m)"

record FilesPersisted =
  fp_ProcessedAt :: string
  fp_Files :: "(string \<times> string) list"
  fp_Failed :: "(string \<times> string) list"

definition AsFilesPersisted :: "SystemMessage \<Rightarrow> FilesPersisted option" where
  "AsFilesPersisted m = unmarshal (dec_struct
     [(''processed_at'', dec_string fp_ProcessedAt_update), (''uuid'', skip_string), (''session_id'', skip_string),
      (''files'', dec_list (dec_pair ''filename'' ''file_id'') ([], []) fp_Files_update),
      (''failed'', dec_list (dec_pair ''filename'' ''error'') ([], []) fp_Failed_update)])
     \<lparr>fp_ProcessedAt = [], fp_Files = [], fp_Failed = []\<rparr> (sm_raw m)"

section \<open>Stream events\<close>

datatype stream_event =
    MessageStart
  | ContentBlockStart "json option" int
  | ContentBlockDelta "json option" int
  | ContentBlockStop int
  | MessageDeltaEv
  | MessageStop

text \<open>The result is an error, nothing for an unknown type, or the event.\<close>

definition block_event :: "string \<Rightarrow> json \<Rightarrow> (json option \<times> int) option" where
  "block_event k = unmarshal (dec_struct
     [(''type'', skip_string), (k, dec_raw apfst), (''index'', dec_int apsnd)]) (None, 0)"

definition ParseStreamEvent :: "json \<Rightarrow> stream_event option option" where
  "ParseStreamEvent v =
    (case discriminator ''type'' v of
       None \<Rightarrow> None
     | Some t \<Rightarrow>
       if t = ''message_start'' then
         map_option (\<lambda>u. Some MessageStart) (unmarshal (dec_struct
           [(''type'', skip_string), (''message'', dec_void dec_content zero_content)]) () v)
       else if t = ''content_block_start'' then
         map_option (\<lambda>p. Some (ContentBlockStart (fst p) (snd p))) (block_event ''content_block'' v)
       else if t = ''content_block_delta'' then
         map_option (\<lambda>p. Some (ContentBlockDelta (fst p) (snd p))) (block_event ''delta'' v)
       else if t = ''content_block_stop'' then
         map_option (\<lambda>i. Some (ContentBlockStop i)) (unmarshal (dec_struct
           [(''type'', skip_string), (''index'', dec_int (\<lambda>f. f))]) 0 v)
       else if t = ''message_delta'' then
         map_option (\<lambda>u. Some MessageDeltaEv) (unmarshal (dec_struct
           [(''type'', skip_string),
            (''delta'', dec_void (dec_struct [(''stop_reason'', dec_string_ptr (\<lambda>f. f)),
               (''stop_sequence'', dec_string_ptr (\<lambda>f. f))]) None),
            (''usage'', dec_void dec_message_usage ())]) () v)
       else if t = ''message_stop'' then Some (Some MessageStop)
       else Some None)"

section \<open>Control requests\<close>

record CanUseToolRequest =
  cu_Input :: "jmap option"
  cu_BlockedPath :: "string option"
  cu_ToolName :: string

record MCPMessageRequest =
  mq_ServerName :: string
  mq_Message :: "json option"

record HookCallbackRequest =
  hq_Input :: "jmap option"
  hq_ToolUseID :: "string option"
  hq_CallbackID :: string

record ElicitationRequest =
  eq_Mode :: "string option"
  eq_URL :: "string option"
  eq_RequestedSchema :: "jmap option"
  eq_MCPServerName :: string
  eq_Message :: string
  eq_ElicitationID :: string

text \<open>\<open>OtherRequest\<close> are the requests that are decoded but that no code reads.\<close>

datatype control_request =
    CanUseTool CanUseToolRequest
  | MCPMessage MCPMessageRequest
  | HookCallback HookCallbackRequest
  | Elicitation ElicitationRequest
  | OtherRequest string
  | UnknownRequest string

definition skip_map :: "wire \<Rightarrow> 's decoder" where
  "skip_map w = dec_void (dec_map w (\<lambda>f. f)) None"

definition skip_anys :: "wire \<Rightarrow> 's decoder" where
  "skip_anys w = dec_void (dec_anys w (\<lambda>f. f)) []"

definition skip_string_ptr :: "'s decoder" where
  "skip_string_ptr = dec_void (dec_string_ptr (\<lambda>f. f)) None"

definition skip_bool_ptr :: "'s decoder" where
  "skip_bool_ptr = dec_void (dec_bool_ptr (\<lambda>f. f)) None"

text \<open>\<open>map[string]json.RawMessage\<close>.\<close>

definition skip_raw_map :: "'s decoder" where
  "skip_raw_map v s = (s, case v of JNull \<Rightarrow> True | JObj kvs \<Rightarrow> True | _ \<Rightarrow> False)"

definition other_requests :: "wire \<Rightarrow> (string \<times> (string \<times> unit decoder) list) list" where
  "other_requests w =
     [(''set_permission_mode'', [(''mode'', skip_string)]),
      (''interrupt'', []),
      (''set_model'', [(''model'', skip_string_ptr)]),
      (''initialize'', [(''hooks'', skip_map w), (''jsonSchema'', skip_map w), (''agents'', skip_map w),
          (''systemPrompt'', skip_string_ptr), (''appendSystemPrompt'', skip_string_ptr),
          (''promptSuggestions'', skip_bool_ptr), (''agentProgressSummaries'', skip_bool_ptr),
          (''sdkMcpServers'', skip_anys w)]),
      (''set_max_thinking_tokens'', [(''max_thinking_tokens'', dec_void (dec_int_ptr (\<lambda>f. f)) None)]),
      (''mcp_status'', []),
      (''mcp_set_servers'', [(''servers'', skip_raw_map)]),
      (''mcp_reconnect'', [(''serverName'', skip_string)]),
      (''mcp_toggle'', [(''serverName'', skip_string), (''enabled'', dec_bool (\<lambda>f. id))]),
      (''get_context_usage'', []),
      (''reload_plugins'', []),
      (''rewind_files'', [(''dry_run'', skip_bool_ptr), (''user_message_id'', skip_string)]),
      (''cancel_async_message'', [(''message_uuid'', skip_string)]),
      (''seed_read_state'', [(''path'', skip_string), (''mtime'', dec_float w (\<lambda>f. id))]),
      (''get_settings'', []),
      (''apply_flag_settings'', [(''settings'', skip_map w)]),
      (''stop_task'', [(''task_id'', skip_string)])]"

definition ParseControlRequest :: "wire \<Rightarrow> json option \<Rightarrow> control_request option" where
  "ParseControlRequest w data =
    (case data of None \<Rightarrow> None | Some v \<Rightarrow>
     (case discriminator ''subtype'' v of None \<Rightarrow> None | Some t \<Rightarrow>
       if t = ''can_use_tool'' then
         map_option CanUseTool (unmarshal (dec_struct
           [(''input'', dec_map w cu_Input_update), (''blocked_path'', dec_string_ptr cu_BlockedPath_update),
            (''subtype'', skip_string), (''tool_name'', dec_string cu_ToolName_update),
            (''permission_suggestions'', skip_anys w)])
           \<lparr>cu_Input = None, cu_BlockedPath = None, cu_ToolName = []\<rparr> v)
       else if t = ''mcp_message'' then
         map_option MCPMessage (unmarshal (dec_struct
           [(''subtype'', skip_string), (''server_name'', dec_string mq_ServerName_update),
            (''message'', dec_raw mq_Message_update)]) \<lparr>mq_ServerName = [], mq_Message = None\<rparr> v)
       else if t = ''hook_callback'' then
         map_option HookCallback (unmarshal (dec_struct
           [(''input'', dec_map w hq_Input_update), (''tool_use_id'', dec_string_ptr hq_ToolUseID_update),
            (''subtype'', skip_string), (''callback_id'', dec_string hq_CallbackID_update)])
           \<lparr>hq_Input = None, hq_ToolUseID = None, hq_CallbackID = []\<rparr> v)
       else if t = ''elicitation'' then
         map_option Elicitation (unmarshal (dec_struct
           [(''mode'', dec_string_ptr eq_Mode_update), (''url'', dec_string_ptr eq_URL_update),
            (''requested_schema'', dec_map w eq_RequestedSchema_update), (''subtype'', skip_string),
            (''mcp_server_name'', dec_string eq_MCPServerName_update), (''message'', dec_string eq_Message_update),
            (''elicitation_id'', dec_string eq_ElicitationID_update)])
           \<lparr>eq_Mode = None, eq_URL = None, eq_RequestedSchema = None, eq_MCPServerName = [], eq_Message = [],
            eq_ElicitationID = []\<rparr> v)
       else (case map_of (other_requests w) t of
           Some fs \<Rightarrow> map_option (\<lambda>u. OtherRequest t) (unmarshal (dec_struct ((''subtype'', skip_string) # fs)) () v)
         | None \<Rightarrow> Some (UnknownRequest t))))"

end
