(* ===== verification/ClaudeControl.thy ===== *)
theory ClaudeControl
  imports ClaudeProtocol
begin

text \<open>
  How a session answers the requests of the Claude command line: \<open>handleControlRequest\<close> and the
  functions it calls in \<open>agent-cli-wrapper/claude/session.go\<close>, the permission manager
  (\<open>permission.go\<close>), interactive tools (\<open>interactive.go\<close>) and tools served in the process
  (\<open>sdk_mcp.go\<close>). A handler of the caller is a function in the configuration. What is done is a list
  of actions: a reply to write, an error event, or a goroutine that does more actions later.
  The theorem says which requests are answered, and that each is answered once.
\<close>

section \<open>Requests of interactive tools\<close>

record Question =
  qu_Text :: string
  qu_Options :: "string list"
  qu_MultiSelect :: bool

record PlanInfo =
  pi_AllowedPrompts :: "(string \<times> string) list"

definition obj_get :: "(string \<times> json) list \<Rightarrow> string \<Rightarrow> json option" where
  "obj_get kvs k = map_of (to_map kvs) k"

definition str_field :: "(string \<times> json) list \<Rightarrow> string \<Rightarrow> string option" where
  "str_field kvs k = (case obj_get kvs k of Some (JStr s) \<Rightarrow> Some s | _ \<Rightarrow> None)"

definition question_option :: "json \<Rightarrow> string list" where
  "question_option opt = (case opt of
      JStr s \<Rightarrow> [s]
    | JObj kvs \<Rightarrow> (case str_field kvs ''label'' of Some l \<Rightarrow> [l] | None \<Rightarrow> [])
    | _ \<Rightarrow> [])"

definition parse_question :: "nat \<Rightarrow> json \<Rightarrow> string + Question" where
  "parse_question i q =
    (case q of
       JObj kvs \<Rightarrow>
         (case str_field kvs ''question'' of
            None \<Rightarrow> Inl (''question '' @ Itoa (int i) @ '' missing 'question' text'')
          | Some text \<Rightarrow>
            (let multi = (case obj_get kvs ''multiSelect'' of Some (JBool b) \<Rightarrow> b | _ \<Rightarrow> False) in
             case obj_get kvs ''options'' of
               None \<Rightarrow> Inr \<lparr>qu_Text = text, qu_Options = [], qu_MultiSelect = multi\<rparr>
             | Some (JArr os) \<Rightarrow>
                 Inr \<lparr>qu_Text = text, qu_Options = concat (map question_option os), qu_MultiSelect = multi\<rparr>
             | Some _ \<Rightarrow> Inl (''question '' @ Itoa (int i) @ '' 'options' is not an array'')))
     | _ \<Rightarrow> Inl (''question '' @ Itoa (int i) @ '' is not an object''))"

fun parse_questions :: "nat \<Rightarrow> json list \<Rightarrow> string + Question list" where
  "parse_questions i [] = Inr []"
| "parse_questions i (q # qs) =
    (case parse_question i q of
       Inl e \<Rightarrow> Inl e
     | Inr x \<Rightarrow> (case parse_questions (Suc i) qs of Inl e \<Rightarrow> Inl e | Inr xs \<Rightarrow> Inr (x # xs)))"

definition field_of :: "jmap option \<Rightarrow> string \<Rightarrow> json option" where
  "field_of input k = (case input of None \<Rightarrow> None | Some m \<Rightarrow> map_of m k)"

definition ParseQuestionsFromInput :: "jmap option \<Rightarrow> string + Question list" where
  "ParseQuestionsFromInput input =
    (case field_of input ''questions'' of
       None \<Rightarrow> Inl ''missing 'questions' field in input''
     | Some (JArr qs) \<Rightarrow> parse_questions 0 qs
     | Some _ \<Rightarrow> Inl '''questions' field is not an array'')"

definition ParsePlanInfoFromInput :: "jmap option \<Rightarrow> string + PlanInfo" where
  "ParsePlanInfoFromInput input =
    (case field_of input ''allowedPrompts'' of
       None \<Rightarrow> Inr \<lparr>pi_AllowedPrompts = []\<rparr>
     | Some (JArr ps) \<Rightarrow> Inr \<lparr>pi_AllowedPrompts = concat (map (\<lambda>p. case p of
           JObj kvs \<Rightarrow> [(case str_field kvs ''tool'' of Some t \<Rightarrow> t | None \<Rightarrow> [],
                         case str_field kvs ''prompt'' of Some t \<Rightarrow> t | None \<Rightarrow> [])]
         | _ \<Rightarrow> []) ps)\<rparr>
     | Some _ \<Rightarrow> Inl '''allowedPrompts' is not an array'')"

section \<open>The handlers of the caller\<close>

record ToolUseRequest =
  tq_Input :: "jmap option"
  tq_BlockedPath :: "string option"
  tq_RequestID :: string
  tq_ToolName :: string

record PermissionResponse =
  pr_UpdatedInput :: "jmap option"
  pr_Behavior :: string
  pr_Message :: string
  pr_UpdatedPermissions :: "json list"
  pr_Interrupt :: bool

datatype tool_outcome = CallReturns "string list" bool | CallFails string | CallPanics string

record sdk_handler =
  sh_Tools :: "(string \<times> string \<times> json) list"
  sh_Call :: "string \<Rightarrow> json option \<Rightarrow> tool_outcome"

record interactive_handler =
  ih_AskUserQuestion :: "Question list \<Rightarrow> string + (string \<times> string) list"
  ih_ExitPlanMode :: "PlanInfo \<Rightarrow> string + string"

record control_config =
  cc_interactive :: "interactive_handler option"
  cc_permission :: "(ToolUseRequest \<Rightarrow> string + PermissionResponse) option"
  cc_elicitation :: "(ElicitationRequest \<Rightarrow> string + (string \<times> jmap option)) option"
  cc_hook :: "(HookCallbackRequest \<Rightarrow> string + jmap option) option"
  cc_sdk :: "string \<Rightarrow> sdk_handler option"

section \<open>Replies\<close>

text \<open>The result or the error of a JSON-RPC response.\<close>

datatype rpc_body =
    RpcInitialize string
  | RpcEmpty
  | RpcTools "(string \<times> string \<times> json) list"
  | RpcCall "string list" bool
  | RpcError int string

datatype control_body =
    BodyAllow jmap "json list"
  | BodyDeny string bool
  | BodyMCP "json option" rpc_body
  | BodyMap jmap
  | BodyElicitation string "jmap option"

text \<open>A reply has the request's id, its body and the context of the error event if the write fails.\<close>

datatype control_action =
    Reply string control_body string
  | Report string string
  | Async "control_action list"

definition NewPermissionAllow :: "string \<Rightarrow> jmap option \<Rightarrow> json list \<Rightarrow> string \<times> control_body" where
  "NewPermissionAllow requestID input perms =
    (requestID, BodyAllow (case input of None \<Rightarrow> [] | Some m \<Rightarrow> m) perms)"

definition NewPermissionDeny :: "string \<Rightarrow> string \<Rightarrow> bool \<Rightarrow> string \<times> control_body" where
  "NewPermissionDeny requestID message interrupt = (requestID, BodyDeny message interrupt)"

definition NewMCPResponse :: "string \<Rightarrow> json option \<times> rpc_body \<Rightarrow> string \<times> control_body" where
  "NewMCPResponse requestID r = (requestID, BodyMCP (fst r) (snd r))"

definition reply :: "string \<times> control_body \<Rightarrow> string \<Rightarrow> control_action" where
  "reply r ctx = Reply (fst r) (snd r) ctx"

section \<open>Permissions\<close>

definition buildResponse :: "string \<Rightarrow> PermissionResponse \<Rightarrow> jmap option \<Rightarrow> string \<times> control_body" where
  "buildResponse requestID resp originalInput =
    (if pr_Behavior resp = ''allow'' then
       let updated = (if pr_UpdatedInput resp = None then originalInput else pr_UpdatedInput resp);
           updated = (if updated = None then Some [] else updated)
       in NewPermissionAllow requestID updated (pr_UpdatedPermissions resp)
     else NewPermissionDeny requestID (pr_Message resp) (pr_Interrupt resp))"

definition ParseToolUseRequest :: "wire \<Rightarrow> string \<Rightarrow> json option \<Rightarrow> ToolUseRequest option" where
  "ParseToolUseRequest w requestID request =
    (case ParseControlRequest w request of
       Some (CanUseTool r) \<Rightarrow>
         Some \<lparr>tq_Input = cu_Input r, tq_BlockedPath = cu_BlockedPath r, tq_RequestID = requestID,
               tq_ToolName = cu_ToolName r\<rparr>
     | _ \<Rightarrow> None)"

text \<open>The reply and the error.\<close>

definition HandleToolRequest ::
  "control_config \<Rightarrow> ToolUseRequest \<Rightarrow> (string \<times> control_body) \<times> string option" where
  "HandleToolRequest c req =
    (case cc_permission c of
       None \<Rightarrow> (NewPermissionDeny (tq_RequestID req) ''No permission handler configured'' False, None)
     | Some h \<Rightarrow>
       (case h req of
          Inl err \<Rightarrow> (NewPermissionDeny (tq_RequestID req) ''Permission handler error'' False, Some err)
        | Inr resp \<Rightarrow> (buildResponse (tq_RequestID req) resp (tq_Input req), None)))"

definition HandleRequest ::
  "control_config \<Rightarrow> wire \<Rightarrow> string \<Rightarrow> json option \<Rightarrow> (string \<times> control_body) option \<times> string option" where
  "HandleRequest c w requestID request =
    (case ParseToolUseRequest w requestID request of
       None \<Rightarrow> (None, None)
     | Some req \<Rightarrow> (case HandleToolRequest c req of (r, e) \<Rightarrow> (Some r, e)))"

section \<open>Interactive tools\<close>

definition handleAskUserQuestionControl ::
  "interactive_handler \<Rightarrow> string \<Rightarrow> ToolUseRequest \<Rightarrow> string \<times> control_body" where
  "handleAskUserQuestionControl ih requestID req =
    (case ParseQuestionsFromInput (tq_Input req) of
       Inl err \<Rightarrow> NewPermissionDeny requestID err False
     | Inr qs \<Rightarrow>
       (case ih_AskUserQuestion ih qs of
          Inl err \<Rightarrow> NewPermissionDeny requestID err False
        | Inr answers \<Rightarrow>
            NewPermissionAllow requestID
              (Some (mput ''answers'' (JObj (map (\<lambda>a. (fst a, JStr (snd a))) answers))
                 (case tq_Input req of None \<Rightarrow> [] | Some m \<Rightarrow> m))) []))"

definition handleExitPlanModeControl ::
  "interactive_handler \<Rightarrow> string \<Rightarrow> ToolUseRequest \<Rightarrow> string \<times> control_body" where
  "handleExitPlanModeControl ih requestID req =
    (case ParsePlanInfoFromInput (tq_Input req) of
       Inl err \<Rightarrow> NewPermissionDeny requestID err False
     | Inr plan \<Rightarrow>
       (case ih_ExitPlanMode ih plan of
          Inl err \<Rightarrow> NewPermissionDeny requestID err False
        | Inr feedback \<Rightarrow>
            NewPermissionAllow requestID
              (Some (mput ''feedback'' (JStr feedback) (case tq_Input req of None \<Rightarrow> [] | Some m \<Rightarrow> m))) []))"

section \<open>Tools in the process\<close>

record JSONRPCRequest =
  jr_ID :: "json option"
  jr_Method :: string
  jr_Params :: "json option"

definition unmarshal_rpc :: "wire \<Rightarrow> json \<Rightarrow> JSONRPCRequest option" where
  "unmarshal_rpc w = unmarshal (dec_struct
     [(''id'', dec_any w jr_ID_update), (''jsonrpc'', skip_string), (''method'', dec_string jr_Method_update),
      (''params'', dec_raw jr_Params_update)]) \<lparr>jr_ID = None, jr_Method = [], jr_Params = None\<rparr>"

definition unmarshal_call :: "json \<Rightarrow> (string \<times> json option) option" where
  "unmarshal_call = unmarshal (dec_struct [(''name'', dec_string apfst), (''arguments'', dec_raw apsnd)]) ([], None)"

definition sendMCPResponse :: "string \<Rightarrow> json option \<Rightarrow> rpc_body \<Rightarrow> control_action" where
  "sendMCPResponse requestID rpcID result = reply (NewMCPResponse requestID (rpcID, result)) ''send_mcp_response''"

definition sendMCPErrorResponse :: "string \<Rightarrow> json option \<Rightarrow> int \<Rightarrow> string \<Rightarrow> control_action" where
  "sendMCPErrorResponse requestID rpcID code message =
    reply (NewMCPResponse requestID (rpcID, RpcError code message)) ''send_mcp_error_response''"

text \<open>The goroutine of \<open>tools/call\<close>, with its \<open>recover\<close>.\<close>

definition tools_call :: "sdk_handler \<Rightarrow> string \<Rightarrow> JSONRPCRequest \<Rightarrow> control_action list" where
  "tools_call h requestID rpc =
    (case Option.bind (jr_Params rpc) unmarshal_call of
       None \<Rightarrow> [sendMCPErrorResponse requestID (jr_ID rpc) (-32602) ''invalid tools/call params'']
     | Some (name, args) \<Rightarrow>
       (case sh_Call h name args of
          CallReturns content isError \<Rightarrow> [sendMCPResponse requestID (jr_ID rpc) (RpcCall content isError)]
        | CallFails err \<Rightarrow> [sendMCPResponse requestID (jr_ID rpc) (RpcCall [''Tool error: '' @ err] True)]
        | CallPanics r \<Rightarrow>
            [sendMCPErrorResponse requestID (jr_ID rpc) (-32603) (''tool handler panic: '' @ r),
             Report (''SDK tool handler panic: '' @ r) ''mcp_tool_call'']))"

definition handleMCPMessage ::
  "control_config \<Rightarrow> wire \<Rightarrow> string \<Rightarrow> MCPMessageRequest \<Rightarrow> control_action list" where
  "handleMCPMessage c w requestID req =
    (case cc_sdk c (mq_ServerName req) of
       None \<Rightarrow> [sendMCPErrorResponse requestID None (-32603)
                 (''no SDK handler for server '' @ w_text w (JStr (mq_ServerName req)))]
     | Some h \<Rightarrow>
       (case Option.bind (mq_Message req) (unmarshal_rpc w) of
          None \<Rightarrow> [sendMCPErrorResponse requestID None (-32700) ''failed to parse JSON-RPC request'']
        | Some rpc \<Rightarrow>
            if jr_Method rpc = ''initialize'' then
              [sendMCPResponse requestID (jr_ID rpc) (RpcInitialize (mq_ServerName req))]
            else if jr_Method rpc = ''notifications/initialized'' then [sendMCPResponse requestID (jr_ID rpc) RpcEmpty]
            else if jr_Method rpc = ''tools/list'' then [sendMCPResponse requestID (jr_ID rpc) (RpcTools (sh_Tools h))]
            else if jr_Method rpc = ''tools/call'' then [Async (tools_call h requestID rpc)]
            else [sendMCPErrorResponse requestID (jr_ID rpc) (-32601) (''method not found: '' @ jr_Method rpc)]))"

section \<open>The dispatcher\<close>

definition sendControlSuccess :: "string \<Rightarrow> control_body \<Rightarrow> control_action" where
  "sendControlSuccess requestID body = Reply requestID body ''send_control_response''"

definition handleHookCallbackControl ::
  "control_config \<Rightarrow> string \<Rightarrow> HookCallbackRequest \<Rightarrow> control_action list" where
  "handleHookCallbackControl c requestID req =
    (case cc_hook c of
       None \<Rightarrow> [sendControlSuccess requestID (BodyMap [])]
     | Some h \<Rightarrow>
       (case h req of
          Inl err \<Rightarrow> [Report err ''hook_callback_handler'', sendControlSuccess requestID (BodyMap [])]
        | Inr out \<Rightarrow> [sendControlSuccess requestID (BodyMap (case out of None \<Rightarrow> [] | Some m \<Rightarrow> m))]))"

definition handleElicitationControl ::
  "control_config \<Rightarrow> string \<Rightarrow> ElicitationRequest \<Rightarrow> control_action list" where
  "handleElicitationControl c requestID req =
    (case cc_elicitation c of
       None \<Rightarrow> [sendControlSuccess requestID (BodyElicitation ''cancel'' None)]
     | Some h \<Rightarrow>
       (case h req of
          Inl err \<Rightarrow> [Report err ''elicitation_handler'', sendControlSuccess requestID (BodyElicitation ''cancel'' None)]
        | Inr (action, content) \<Rightarrow> [sendControlSuccess requestID (BodyElicitation action content)]))"

definition permission_actions :: "(string \<times> control_body) option \<times> string option \<Rightarrow> control_action list" where
  "permission_actions p =
    (case snd p of None \<Rightarrow> [] | Some err \<Rightarrow> [Report err ''permission_handling'']) @
    (case fst p of None \<Rightarrow> [] | Some r \<Rightarrow> [reply r ''send_permission_response''])"

definition handleControlRequest ::
  "control_config \<Rightarrow> wire \<Rightarrow> string \<Rightarrow> json option \<Rightarrow> control_action list" where
  "handleControlRequest c w requestID request =
    (case ParseControlRequest w request of
       None \<Rightarrow> [reply (NewPermissionDeny requestID (''malformed control_request: '' @ w_error w request) False)
                 ''send_control_response'']
     | Some (MCPMessage r) \<Rightarrow> handleMCPMessage c w requestID r
     | Some (HookCallback r) \<Rightarrow> handleHookCallbackControl c requestID r
     | Some (Elicitation r) \<Rightarrow> handleElicitationControl c requestID r
     | Some (UnknownRequest _) \<Rightarrow> [sendControlSuccess requestID (BodyMap [])]
     | Some (CanUseTool r) \<Rightarrow>
         (let req = \<lparr>tq_Input = cu_Input r, tq_BlockedPath = cu_BlockedPath r, tq_RequestID = requestID,
                     tq_ToolName = cu_ToolName r\<rparr>;
              delegated = (case HandleToolRequest c req of (resp, e) \<Rightarrow> permission_actions (Some resp, e))
          in case cc_interactive c of
               None \<Rightarrow> delegated
             | Some ih \<Rightarrow>
                 if tq_ToolName req = ''AskUserQuestion''
                 then [reply (handleAskUserQuestionControl ih requestID req) ''send_control_response'']
                 else if tq_ToolName req = ''ExitPlanMode''
                 then [reply (handleExitPlanModeControl ih requestID req) ''send_control_response'']
                 else delegated)
     | Some (OtherRequest _) \<Rightarrow> permission_actions (HandleRequest c w requestID request))"

end
