(* ===== verification/MultiagentTurn.thy ===== *)
theory MultiagentTurn
  imports GoStrings
begin

text \<open>
  When a logical turn of a Claude session is over (\<open>multiagent/agent/turn_state.go\<close>), and the
  loop that drives one turn to its end with a grace timer as backstop (\<open>consumeTurnEvents\<close> in
  \<open>claude_provider.go\<close>). Events arrive in any order; the loop's select may take any ready case.
\<close>

section \<open>Events\<close>

datatype agent_error = AgentErr string | BackgroundTaskFailed | TransientError string | CtxErr string

datatype ContentBlock =
    TextBlock string
  | ThinkingBlock string
  | ToolUseBlock string string "(string \<times> any) list"
  | ToolResultBlock string "bool option"
  | OtherBlock

text \<open>
  Costs are floating-point numbers that the code adds up; the sum is kept as the list of its
  summands in order.
\<close>

record TurnUsage =
  us_InputTokens :: int
  us_OutputTokens :: int
  us_CacheCreationTokens :: int
  us_CacheReadTokens :: int
  us_CostUSD :: "rat list"
  us_ContextWindow :: int

record ResultMessageEvent =
  rm_Error :: "agent_error option"
  rm_Usage :: TurnUsage
  rm_DurationMs :: int
  rm_TurnNumber :: int
  rm_IsError :: bool

record TurnCompleteEvent =
  tc_TurnNumber :: int
  tc_WakeupTimedOut :: bool

text \<open>The events \<open>Apply\<close> looks at, with the fields it reads; all others are \<open>OtherEvent\<close>.\<close>

datatype Event =
    ReadyEvent string
  | AssistantMessageEvent int "ContentBlock list"
  | UserMessageEvent "ContentBlock list"
  | TaskStartedEvent string "string option"
  | TaskNotificationEvent string string "string option"
  | TaskUpdatedEvent string "string option"
  | ResultMessage ResultMessageEvent
  | TurnComplete TurnCompleteEvent
  | ErrorEvent "agent_error option"
  | OtherEvent

definition usage_Add :: "TurnUsage \<Rightarrow> TurnUsage \<Rightarrow> TurnUsage" where
  "usage_Add u v = u\<lparr>us_InputTokens := us_InputTokens u + us_InputTokens v,
     us_OutputTokens := us_OutputTokens u + us_OutputTokens v,
     us_CacheCreationTokens := us_CacheCreationTokens u + us_CacheCreationTokens v,
     us_CacheReadTokens := us_CacheReadTokens u + us_CacheReadTokens v,
     us_CostUSD := us_CostUSD u @ us_CostUSD v\<rparr>"

definition zero_turn_usage :: TurnUsage where
  "zero_turn_usage = \<lparr>us_InputTokens = 0, us_OutputTokens = 0, us_CacheCreationTokens = 0,
     us_CacheReadTokens = 0, us_CostUSD = [], us_ContextWindow = 0\<rparr>"

section \<open>The state of a logical turn\<close>

record logicalTurnState =
  lastResult :: "ResultMessageEvent option"
  lastTurnComplete :: "TurnCompleteEvent option"
  lastSuccessfulResult :: "ResultMessageEvent option"
  err :: "agent_error option"
  liveTaskIDs :: "string set"
  terminalTaskIDs :: "string set"
  cancelledToolUseIDs :: "string set"
  completedBgToolUseIDs :: "string set"
  taskToToolUse :: "(string, string) gomap"
  blocks :: "ContentBlock list"
  sessionID :: string
  text_buf :: string
  thinking :: string
  usage :: TurnUsage
  turnNumber :: int
  forcedDone :: bool
  sawFailedBgTask :: bool

definition newLogicalTurnState :: logicalTurnState where
  "newLogicalTurnState =
    \<lparr>lastResult = None, lastTurnComplete = None, lastSuccessfulResult = None, err = None,
     liveTaskIDs = {}, terminalTaskIDs = {}, cancelledToolUseIDs = {}, completedBgToolUseIDs = {},
     taskToToolUse = [], blocks = [], sessionID = [], text_buf = [], thinking = [], usage = zero_turn_usage,
     turnNumber = 0, forcedDone = False, sawFailedBgTask = False\<rparr>"

definition isFailedTaskStatus :: "string \<Rightarrow> bool" where
  "isFailedTaskStatus status \<longleftrightarrow> status = ''failed'' \<or> status = ''killed'' \<or> status = ''timeout''"

text \<open>The statuses the switch on a task update takes as the end of the task.\<close>

definition terminal_status :: "string \<Rightarrow> bool" where
  "terminal_status status \<longleftrightarrow> status = ''completed'' \<or> isFailedTaskStatus status"

definition backgroundToolNames :: "string list" where
  "backgroundToolNames = [''Monitor'', ''Task'', ''Agent'']"

definition isBackgroundToolUse :: "string \<Rightarrow> (string \<times> any) list \<Rightarrow> bool" where
  "isBackgroundToolUse name input \<longleftrightarrow>
     map_of input ''run_in_background'' = Some (ABool True) \<or> name \<in> set backgroundToolNames"

definition hasUncancelledBgToolUse :: "logicalTurnState \<Rightarrow> bool" where
  "hasUncancelledBgToolUse s =
    list_ex (\<lambda>b. case b of
        ToolUseBlock i name input \<Rightarrow>
          isBackgroundToolUse name input \<and> i \<notin> cancelledToolUseIDs s \<and> i \<notin> completedBgToolUseIDs s
      | _ \<Rightarrow> False) (blocks s)"

definition invalidateForContinuation :: "logicalTurnState \<Rightarrow> logicalTurnState" where
  "invalidateForContinuation s =
    (if lastResult s = None then s else s\<lparr>lastResult := None, lastTurnComplete := None\<rparr>)"

definition tool_of :: "logicalTurnState \<Rightarrow> string \<Rightarrow> string" where
  "tool_of s task = (case map_of (taskToToolUse s) task of None \<Rightarrow> [] | Some t \<Rightarrow> t)"

definition complete_tool :: "string \<Rightarrow> logicalTurnState \<Rightarrow> logicalTurnState" where
  "complete_tool tuid s =
    (if tuid \<noteq> [] then s\<lparr>completedBgToolUseIDs := insert tuid (completedBgToolUseIDs s)\<rparr> else s)"

definition end_task :: "string \<Rightarrow> logicalTurnState \<Rightarrow> logicalTurnState" where
  "end_task task s = s\<lparr>terminalTaskIDs := insert task (terminalTaskIDs s), liveTaskIDs := liveTaskIDs s - {task}\<rparr>"

definition assistant_block :: "ContentBlock \<Rightarrow> logicalTurnState \<Rightarrow> logicalTurnState" where
  "assistant_block b s0 =
    (let s = s0\<lparr>blocks := blocks s0 @ [b]\<rparr> in
     case b of
       TextBlock t \<Rightarrow> s\<lparr>text_buf := text_buf s @ t\<rparr>
     | ThinkingBlock t \<Rightarrow> s\<lparr>thinking := thinking s @ t\<rparr>
     | _ \<Rightarrow> s)"

definition user_block :: "ContentBlock \<Rightarrow> logicalTurnState \<Rightarrow> logicalTurnState" where
  "user_block b s0 =
    (let s = s0\<lparr>blocks := blocks s0 @ [b]\<rparr> in
     case b of
       ToolResultBlock tuid isError \<Rightarrow>
         if isError = Some True then s\<lparr>cancelledToolUseIDs := insert tuid (cancelledToolUseIDs s)\<rparr> else s
     | _ \<Rightarrow> s)"

fun Apply :: "Event \<Rightarrow> logicalTurnState \<Rightarrow> logicalTurnState" where
  "Apply (ReadyEvent sid) s = s\<lparr>sessionID := sid\<rparr>"
| "Apply (AssistantMessageEvent n bs) s = fold assistant_block bs (s\<lparr>turnNumber := n\<rparr>)"
| "Apply (UserMessageEvent bs) s = fold user_block bs s"
| "Apply (TaskStartedEvent task tuid) s0 =
    (let s = (case tuid of None \<Rightarrow> s0
              | Some t \<Rightarrow> if t \<noteq> [] then s0\<lparr>taskToToolUse := mput task t (taskToToolUse s0)\<rparr> else s0)
     in if task \<in> terminalTaskIDs s then complete_tool (tool_of s task) s
        else s\<lparr>liveTaskIDs := insert task (liveTaskIDs s)\<rparr>)"
| "Apply (TaskNotificationEvent task status tuid) s0 =
    (let s1 = end_task task s0;
         s2 = (if isFailedTaskStatus status then s1\<lparr>sawFailedBgTask := True\<rparr> else s1);
         t0 = (case tuid of None \<Rightarrow> [] | Some t \<Rightarrow> t);
         t = (if t0 = [] then tool_of s2 task else t0)
     in invalidateForContinuation (complete_tool t s2))"
| "Apply (TaskUpdatedEvent task status) s =
    (case status of
       None \<Rightarrow> s
     | Some st \<Rightarrow>
         if terminal_status st then
           let s1 = end_task task s;
               s2 = complete_tool (tool_of s1 task) s1;
               s3 = (if isFailedTaskStatus st then s2\<lparr>sawFailedBgTask := True\<rparr> else s2)
           in invalidateForContinuation s3
         else s)"
| "Apply (ResultMessage r) s0 =
    (let s = s0\<lparr>lastResult := Some r, lastTurnComplete := None, turnNumber := rm_TurnNumber r,
                usage := usage_Add (usage s0) (rm_Usage r)\<rparr>
     in if rm_IsError r then s\<lparr>err := rm_Error r\<rparr>
        else s\<lparr>err := None, lastSuccessfulResult := Some r\<rparr>)"
| "Apply (TurnComplete tc) s0 =
    (let s = s0\<lparr>lastTurnComplete := Some tc, turnNumber := tc_TurnNumber tc\<rparr>
     in if tc_WakeupTimedOut tc then s\<lparr>forcedDone := True\<rparr> else s)"
| "Apply (ErrorEvent e) s = (if err s = None then s\<lparr>err := e\<rparr> else s)"
| "Apply OtherEvent s = s"

definition LogicalTurnDone :: "logicalTurnState \<Rightarrow> bool" where
  "LogicalTurnDone s =
    (if forcedDone s then True
     else if lastResult s = None \<or> lastTurnComplete s = None then False
     else if liveTaskIDs s \<noteq> {} then False
     else \<not> hasUncancelledBgToolUse s)"

definition SawTurnComplete :: "logicalTurnState \<Rightarrow> bool" where
  "SawTurnComplete s \<longleftrightarrow> lastTurnComplete s \<noteq> None"

definition HasLiveTasks :: "logicalTurnState \<Rightarrow> bool" where
  "HasLiveTasks s \<longleftrightarrow> liveTaskIDs s \<noteq> {} \<or> hasUncancelledBgToolUse s"

definition Success :: "logicalTurnState \<Rightarrow> bool" where
  "Success s = (case lastResult s of None \<Rightarrow> False | Some r \<Rightarrow> \<not> rm_IsError r)"

definition TurnSucceededTerminally :: "logicalTurnState \<Rightarrow> bool" where
  "TurnSucceededTerminally s \<longleftrightarrow> err s = None \<and> \<not> sawFailedBgTask s \<and> lastSuccessfulResult s \<noteq> None"

definition DurationMs :: "logicalTurnState \<Rightarrow> int" where
  "DurationMs s = (case lastResult s of None \<Rightarrow> 0 | Some r \<Rightarrow> rm_DurationMs r)"

record ClaudeTurnResult =
  tr_TurnNumber :: int
  tr_Success :: bool
  tr_DurationMs :: int
  tr_Usage :: TurnUsage
  tr_Text :: string
  tr_Thinking :: string
  tr_ContentBlocks :: "ContentBlock list"
  tr_Error :: "agent_error option"

definition ToTurnResult :: "logicalTurnState \<Rightarrow> ClaudeTurnResult" where
  "ToTurnResult s =
    \<lparr>tr_TurnNumber = turnNumber s, tr_Success = Success s, tr_DurationMs = DurationMs s,
     tr_Usage = usage s, tr_Text = text_buf s, tr_Thinking = thinking s, tr_ContentBlocks = blocks s,
     tr_Error = err s\<rparr>"

definition ToTerminalTurnResult :: "logicalTurnState \<Rightarrow> ClaudeTurnResult" where
  "ToTerminalTurnResult s =
    (let r0 = ToTurnResult s;
         r1 = (if \<not> tr_Success r0 \<and> TurnSucceededTerminally s
               then r0\<lparr>tr_Success := True, tr_DurationMs := rm_DurationMs (the (lastSuccessfulResult s))\<rparr> else r0)
     in if \<not> tr_Success r1 \<and> tr_Error r1 = None \<and> sawFailedBgTask s
        then r1\<lparr>tr_Error := Some BackgroundTaskFailed\<rparr> else r1)"

section \<open>Driving one turn\<close>

definition terminalReturn :: "logicalTurnState \<Rightarrow> ClaudeTurnResult option \<times> agent_error option" where
  "terminalReturn s = (let r = ToTerminalTurnResult s in (Some r, tr_Error r))"

text \<open>
  What the select takes: the end of the context with its error, an event, the closed stream,
  or the grace deadline. With the deadline come the context's error at that moment, if any,
  and what the non-blocking look at the event channel finds.
\<close>

datatype pending = NothingQueued | QueuedClosed | QueuedEvent Event

datatype turn_select = CtxDone string | TakeEvent Event | StreamClosed | GraceExpired "string option" pending

text \<open>
  The loop: the turn state, whether the grace timer is armed, the events dispatched to the
  consumer, and what the function has returned, if it has.
\<close>

record consumer =
  cs_state :: logicalTurnState
  cs_grace :: bool
  cs_dispatched :: "Event list"
  cs_returned :: "(ClaudeTurnResult option \<times> agent_error option) option"

definition start_consumer :: consumer where
  "start_consumer = \<lparr>cs_state = newLogicalTurnState, cs_grace = False, cs_dispatched = [], cs_returned = None\<rparr>"

definition rearmGrace :: "consumer \<Rightarrow> consumer" where
  "rearmGrace c = c\<lparr>cs_grace := SawTurnComplete (cs_state c)\<rparr>"

definition ret :: "ClaudeTurnResult option \<times> agent_error option \<Rightarrow> consumer \<Rightarrow> consumer" where
  "ret r c = c\<lparr>cs_returned := Some r\<rparr>"

text \<open>The body the event case and the grace case share: apply, dispatch, return or rearm.\<close>

definition consume_event :: "Event \<Rightarrow> consumer \<Rightarrow> consumer" where
  "consume_event ev c0 =
    (let c = c0\<lparr>cs_state := Apply ev (cs_state c0), cs_dispatched := cs_dispatched c0 @ [ev]\<rparr> in
     if LogicalTurnDone (cs_state c) then ret (Some (ToTurnResult (cs_state c)), err (cs_state c)) c
     else rearmGrace c)"

definition consumeTurnEvents :: "turn_select \<Rightarrow> consumer \<Rightarrow> consumer" where
  "consumeTurnEvents sel c =
    (if cs_returned c \<noteq> None then c
     else case sel of
         CtxDone e \<Rightarrow> ret (None, Some (CtxErr e)) c
       | TakeEvent ev \<Rightarrow> consume_event ev c
       | StreamClosed \<Rightarrow> ret (terminalReturn (cs_state c)) c
       | GraceExpired ctxErr queued \<Rightarrow>
           if \<not> cs_grace c then c
           else let result = Some (ToTurnResult (cs_state c)) in
             if err (cs_state c) \<noteq> None then ret (result, err (cs_state c)) c
             else (case ctxErr of
                 Some e \<Rightarrow> ret (result, Some (CtxErr e)) c
               | None \<Rightarrow>
                   (case queued of
                      QueuedClosed \<Rightarrow> ret (terminalReturn (cs_state c)) c
                    | QueuedEvent ev \<Rightarrow> consume_event ev (c\<lparr>cs_grace := False\<rparr>)
                    | NothingQueued \<Rightarrow> ret (result, Some (TransientError
                        ''stream idle: turn forced complete after grace period gated on background tool_use'')) c)))"

section \<open>Which tasks are live\<close>

definition started_ids :: "Event list \<Rightarrow> string set" where
  "started_ids evs = {t. \<exists>tuid. TaskStartedEvent t tuid \<in> set evs}"

definition ended_ids :: "Event list \<Rightarrow> string set" where
  "ended_ids evs = {t. (\<exists>st tuid. TaskNotificationEvent t st tuid \<in> set evs) \<or>
     (\<exists>st. TaskUpdatedEvent t (Some st) \<in> set evs \<and> terminal_status st)}"

lemma complete_tool_fields [simp]:
  "liveTaskIDs (complete_tool t s) = liveTaskIDs s" "terminalTaskIDs (complete_tool t s) = terminalTaskIDs s"
  "lastResult (complete_tool t s) = lastResult s" "lastTurnComplete (complete_tool t s) = lastTurnComplete s"
  "usage (complete_tool t s) = usage s" "sawFailedBgTask (complete_tool t s) = sawFailedBgTask s"
  "forcedDone (complete_tool t s) = forcedDone s"
  by (simp_all add: complete_tool_def)

lemma invalidate_fields [simp]:
  "liveTaskIDs (invalidateForContinuation s) = liveTaskIDs s"
  "terminalTaskIDs (invalidateForContinuation s) = terminalTaskIDs s"
  "usage (invalidateForContinuation s) = usage s" "forcedDone (invalidateForContinuation s) = forcedDone s"
  "lastResult (invalidateForContinuation s) = None"
  by (simp_all add: invalidateForContinuation_def)

lemma end_task_fields [simp]:
  "liveTaskIDs (end_task t s) = liveTaskIDs s - {t}" "terminalTaskIDs (end_task t s) = insert t (terminalTaskIDs s)"
  "usage (end_task t s) = usage s" "forcedDone (end_task t s) = forcedDone s"
  by (simp_all add: end_task_def)

definition task_part :: "logicalTurnState \<Rightarrow> string set \<times> string set \<times> TurnUsage \<times> bool" where
  "task_part s = (liveTaskIDs s, terminalTaskIDs s, usage s, forcedDone s)"

lemma blocks_task_part [simp]:
  "task_part (fold assistant_block bs s) = task_part s" "task_part (fold user_block bs s) = task_part s"
proof -
  have "task_part (assistant_block b s) = task_part s" "task_part (user_block b s) = task_part s" for b s
    by (simp_all add: task_part_def assistant_block_def user_block_def Let_def split: ContentBlock.split)
  then show "task_part (fold assistant_block bs s) = task_part s" "task_part (fold user_block bs s) = task_part s"
    by (induction bs arbitrary: s) simp_all
qed

lemma blocks_fields [simp]:
  "liveTaskIDs (fold assistant_block bs s) = liveTaskIDs s" "liveTaskIDs (fold user_block bs s) = liveTaskIDs s"
  "terminalTaskIDs (fold assistant_block bs s) = terminalTaskIDs s" "terminalTaskIDs (fold user_block bs s) = terminalTaskIDs s"
  "usage (fold assistant_block bs s) = usage s" "usage (fold user_block bs s) = usage s"
  "forcedDone (fold assistant_block bs s) = forcedDone s" "forcedDone (fold user_block bs s) = forcedDone s"
  using blocks_task_part [of bs s] by (simp_all add: task_part_def)

lemma Apply_terminal:
  "terminalTaskIDs (Apply ev s) = terminalTaskIDs s \<union> ended_ids [ev]"
  by (cases ev) (auto simp: ended_ids_def Let_def split: option.split)

lemma Apply_live:
  "liveTaskIDs (Apply ev s) = (liveTaskIDs s \<union> (started_ids [ev] - terminalTaskIDs s)) - ended_ids [ev]"
  by (cases ev) (auto simp: ended_ids_def started_ids_def Let_def split: option.splits)

lemma ids_append:
  "started_ids (xs @ ys) = started_ids xs \<union> started_ids ys" "ended_ids (xs @ ys) = ended_ids xs \<union> ended_ids ys"
  by (auto simp: started_ids_def ended_ids_def)

lemma live_started_ended:
  "liveTaskIDs (fold Apply evs newLogicalTurnState) = started_ids evs - ended_ids evs \<and>
   terminalTaskIDs (fold Apply evs newLogicalTurnState) = ended_ids evs"
proof (induction evs rule: rev_induct)
  case (snoc ev evs)
  then show ?case by (auto simp: Apply_live Apply_terminal ids_append)
qed (simp add: newLogicalTurnState_def started_ids_def ended_ids_def)

text \<open>The tasks the state holds live after any events are those that were started and have not
  ended, whatever the order the events came in: a start that arrives after its task's end
  does not bring the task back to life.\<close>

theorem multiagent_live_tasks:
  "liveTaskIDs (fold Apply evs newLogicalTurnState) = started_ids evs - ended_ids evs"
  using live_started_ended by blast

section \<open>When the loop returns\<close>

definition consumer_ok :: "consumer \<Rightarrow> bool" where
  "consumer_ok c \<longleftrightarrow> cs_state c = fold Apply (cs_dispatched c) newLogicalTurnState \<and>
     (cs_returned c = None \<longrightarrow> cs_grace c = SawTurnComplete (cs_state c))"

text \<open>A return without an error that is not due to the stream's end.\<close>

definition finished_ok :: "consumer \<Rightarrow> bool" where
  "finished_ok c \<longleftrightarrow> (\<forall>r. cs_returned c = Some (r, None) \<longrightarrow> LogicalTurnDone (cs_state c))"

definition not_closed :: "turn_select \<Rightarrow> bool" where
  "not_closed sel = (case sel of StreamClosed \<Rightarrow> False | GraceExpired e q \<Rightarrow> q \<noteq> QueuedClosed | _ \<Rightarrow> True)"

lemma consumer_simps [simp]:
  "cs_state (ret r c) = cs_state c" "cs_dispatched (ret r c) = cs_dispatched c" "cs_returned (ret r c) = Some r"
  "cs_state (rearmGrace c) = cs_state c" "cs_dispatched (rearmGrace c) = cs_dispatched c"
  "cs_returned (rearmGrace c) = cs_returned c" "cs_grace (rearmGrace c) = SawTurnComplete (cs_state c)"
  by (simp_all add: ret_def rearmGrace_def)

lemma consume_event_ok:
  assumes "cs_state c = fold Apply (cs_dispatched c) newLogicalTurnState"
  shows "consumer_ok (consume_event ev c)"
  using assms by (simp add: consumer_ok_def consume_event_def Let_def)

lemma consume_event_finished:
  assumes "cs_returned c = None"
  shows "finished_ok (consume_event ev c)"
  using assms by (simp add: finished_ok_def consume_event_def Let_def)

lemma consumer_step_ok: "consumer_ok c \<Longrightarrow> consumer_ok (consumeTurnEvents sel c)"
  by (auto simp: consumeTurnEvents_def consume_event_ok Let_def consumer_ok_def
      intro!: consume_event_ok [unfolded consumer_ok_def, rule_format]
      split: turn_select.split pending.split option.split)

lemma consumer_step_finished: "finished_ok c \<Longrightarrow> not_closed sel \<Longrightarrow> finished_ok (consumeTurnEvents sel c)"
proof (cases "cs_returned c")
  case None
  assume "not_closed sel"
  then show ?thesis using None
    by (cases sel; cases "err (cs_state c)") (auto simp: consumeTurnEvents_def consume_event_finished Let_def not_closed_def
        finished_ok_def [of "ret r c" for r] finished_ok_def [of c] split: pending.split option.split)
next
  case (Some r)
  assume "finished_ok c"
  then show ?thesis using Some by (simp add: consumeTurnEvents_def)
qed

interpretation turn_loop: invariant_machine consumeTurnEvents "\<lambda>_. True" consumer_ok
  by unfold_locales (rule consumer_step_ok)

interpretation open_stream: invariant_machine consumeTurnEvents not_closed finished_ok
  by unfold_locales (rule consumer_step_finished)

lemma start_consumer_ok: "consumer_ok start_consumer" "finished_ok start_consumer"
  by (simp_all add: consumer_ok_def finished_ok_def start_consumer_def SawTurnComplete_def newLogicalTurnState_def)

lemma run_consumer_ok: "consumer_ok (run_machine consumeTurnEvents sels start_consumer)"
  by (rule turn_loop.run_inv [OF start_consumer_ok(1)]) (simp add: list_all_iff)

lemma forced_events:
  "forcedDone (fold Apply evs newLogicalTurnState) \<longleftrightarrow> (\<exists>tc. TurnComplete tc \<in> set evs \<and> tc_WakeupTimedOut tc)"
proof (induction evs rule: rev_induct)
  case (snoc ev evs)
  then show ?case by (cases ev) (auto simp: Let_def split: option.split)
qed (simp add: newLogicalTurnState_def)


text \<open>The loop never waits without a backstop on a wave that has completed, and the backstop never
  passes off open work as done: while it runs, the grace timer is armed exactly when the
  current wave's completion was seen, and a deadline with nothing queued always returns an
  error.\<close>

theorem multiagent_grace_backstop:
  assumes "c = run_machine consumeTurnEvents sels start_consumer" and "cs_returned c = None"
  shows "(cs_grace c \<longleftrightarrow> SawTurnComplete (cs_state c)) \<and>
    (cs_grace c \<longrightarrow> (\<exists>r e. cs_returned (consumeTurnEvents (GraceExpired ctxErr NothingQueued) c) = Some (r, Some e)))"
proof
  show "cs_grace c \<longleftrightarrow> SawTurnComplete (cs_state c)"
    using run_consumer_ok [of sels] assms by (simp add: consumer_ok_def)
  show "cs_grace c \<longrightarrow> (\<exists>r e. cs_returned (consumeTurnEvents (GraceExpired ctxErr NothingQueued) c) = Some (r, Some e))"
    using assms(2) by (auto simp: consumeTurnEvents_def Let_def split: option.split)
qed

section \<open>A stream that closes\<close>

definition failing_end :: "Event \<Rightarrow> bool" where
  "failing_end ev = (case ev of
     TaskNotificationEvent t st tuid \<Rightarrow> isFailedTaskStatus st
   | TaskUpdatedEvent t st \<Rightarrow> (case st of None \<Rightarrow> False | Some x \<Rightarrow> isFailedTaskStatus x)
   | _ \<Rightarrow> False)"

definition good_result :: "Event \<Rightarrow> bool" where
  "good_result ev = (case ev of ResultMessage r \<Rightarrow> \<not> rm_IsError r | _ \<Rightarrow> False)"

lemma blocks_results [simp]:
  "lastResult (fold assistant_block bs s) = lastResult s" "lastResult (fold user_block bs s) = lastResult s"
  "sawFailedBgTask (fold assistant_block bs s) = sawFailedBgTask s" "sawFailedBgTask (fold user_block bs s) = sawFailedBgTask s"
proof -
  have a: "lastResult (assistant_block b s) = lastResult s" "lastResult (user_block b s) = lastResult s"
    "sawFailedBgTask (assistant_block b s) = sawFailedBgTask s" "sawFailedBgTask (user_block b s) = sawFailedBgTask s" for b s
    by (simp_all add: assistant_block_def user_block_def Let_def split: ContentBlock.split)
  show "lastResult (fold assistant_block bs s) = lastResult s" "lastResult (fold user_block bs s) = lastResult s"
    "sawFailedBgTask (fold assistant_block bs s) = sawFailedBgTask s" "sawFailedBgTask (fold user_block bs s) = sawFailedBgTask s"
    by (induction bs arbitrary: s) (simp_all add: a)
qed

lemma failed_invalidate [simp]: "sawFailedBgTask (invalidateForContinuation s) = sawFailedBgTask s"
  by (simp add: invalidateForContinuation_def)

lemma failed_end_task [simp]: "sawFailedBgTask (end_task t s) = sawFailedBgTask s"
  "lastResult (end_task t s) = lastResult s"
  by (simp_all add: end_task_def)

lemma Apply_failing:
  assumes "failing_end ev"
  shows "sawFailedBgTask (Apply ev s) \<and> \<not> Success (Apply ev s)"
  using assms by (cases ev) (auto simp: failing_end_def Success_def terminal_status_def Let_def split: option.splits)

lemma Apply_keeps_failed:
  assumes "sawFailedBgTask s" and "\<not> Success s" and "\<not> good_result ev"
  shows "sawFailedBgTask (Apply ev s) \<and> \<not> Success (Apply ev s)"
  using assms by (cases ev) (auto simp: good_result_def Success_def Let_def split: option.splits)

lemma fold_keeps_failed:
  assumes "sawFailedBgTask s" and "\<not> Success s" and "\<forall>ev \<in> set evs. \<not> good_result ev"
  shows "sawFailedBgTask (fold Apply evs s) \<and> \<not> Success (fold Apply evs s)"
  using assms
proof (induction evs arbitrary: s)
  case (Cons ev evs)
  then show ?case using Apply_keeps_failed [of s ev] by simp
qed simp

lemma terminalReturn_failed:
  assumes "sawFailedBgTask s" and "\<not> Success s"
  shows "\<not> tr_Success (the (fst (terminalReturn s))) \<and> snd (terminalReturn s) \<noteq> None"
  using assms
  by (cases "err s") (simp_all add: terminalReturn_def ToTerminalTurnResult_def ToTurnResult_def
      TurnSucceededTerminally_def Let_def)

text \<open>A background task that fails is not lost when the stream closes: unless a successful result
  arrives after the failure, the turn is reported as unsuccessful and with an error, even if
  an earlier wave had succeeded.\<close>

theorem multiagent_failed_task_reported:
  assumes "evs = before @ ev # after" and "failing_end ev" and "\<forall>e \<in> set after. \<not> good_result e"
    and "terminalReturn (fold Apply evs newLogicalTurnState) = (Some r, error)"
  shows "\<not> tr_Success r \<and> error \<noteq> None"
proof -
  let ?s = "fold Apply evs newLogicalTurnState"
  have "sawFailedBgTask ?s \<and> \<not> Success ?s"
    using fold_keeps_failed [OF _ _ assms(3)] Apply_failing [OF assms(2)] by (simp add: assms(1))
  then show ?thesis using terminalReturn_failed [of ?s] assms(4) by simp
qed

section \<open>Examples\<close>

definition sample_result :: ResultMessageEvent where
  "sample_result = \<lparr>rm_Error = None, rm_Usage = zero_turn_usage, rm_DurationMs = 5, rm_TurnNumber = 1, rm_IsError = False\<rparr>"

definition sample_complete :: TurnCompleteEvent where
  "sample_complete = \<lparr>tc_TurnNumber = 1, tc_WakeupTimedOut = False\<rparr>"

text \<open>A first wave that completes while a task runs, the end of the task, and the second wave.\<close>

definition two_waves :: "Event list" where
  "two_waves = [TaskStartedEvent ''t'' None, ResultMessage sample_result, TurnComplete sample_complete,
     TaskNotificationEvent ''t'' ''completed'' None, ResultMessage sample_result, TurnComplete sample_complete]"

lemmas turn_eval = consumeTurnEvents_def consume_event_def start_consumer_def newLogicalTurnState_def
  sample_result_def sample_complete_def LogicalTurnDone_def hasUncancelledBgToolUse_def ret_def rearmGrace_def
  SawTurnComplete_def end_task_def complete_tool_def tool_of_def isFailedTaskStatus_def invalidateForContinuation_def

lemma two_waves_run:
  "\<exists>r. cs_returned (run_machine consumeTurnEvents (map TakeEvent two_waves) start_consumer) = Some (r, None) \<and>
     cs_dispatched (run_machine consumeTurnEvents (map TakeEvent two_waves) start_consumer) = two_waves"
  by (simp add: two_waves_def turn_eval Let_def)


theorem multiagent_grace_backstop_witness:
  "cs_grace (run_machine consumeTurnEvents (map TakeEvent (take 3 two_waves)) start_consumer)"
proof -
  let ?c = "run_machine consumeTurnEvents (map TakeEvent (take 3 two_waves)) start_consumer"
  have "cs_returned ?c = None" "SawTurnComplete (cs_state ?c)"
    by (simp_all add: two_waves_def turn_eval Let_def)
  then show ?thesis using multiagent_grace_backstop [OF refl, of "map TakeEvent (take 3 two_waves)"] by simp
qed

theorem multiagent_failed_task_reported_witness:
  "\<exists>r e. terminalReturn (fold Apply ([ResultMessage sample_result] @ TaskNotificationEvent ''t'' ''killed'' None # [])
     newLogicalTurnState) = (Some r, Some e) \<and> \<not> tr_Success r"
proof -
  let ?evs = "[ResultMessage sample_result] @ TaskNotificationEvent ''t'' ''killed'' None # []"
  have f: "failing_end (TaskNotificationEvent ''t'' ''killed'' None)"
    by (simp add: failing_end_def isFailedTaskStatus_def)
  obtain r error where t: "terminalReturn (fold Apply ?evs newLogicalTurnState) = (Some r, error)"
    by (simp add: terminalReturn_def Let_def)
  show ?thesis using multiagent_failed_task_reported [OF refl f _ t] t by auto
qed

end
