(* ===== verification/ClaudeSession.thy ===== *)
theory ClaudeSession
  imports ClaudeControl MultiagentTurn
begin

text \<open>
  A session with the Claude command line, \<open>agent-cli-wrapper/claude\<close>: the session state machine
  (\<open>state.go\<close>), turns and their waiters (\<open>turn.go\<close>), the accumulator of stream events
  (\<open>accumulator.go\<close>) and the session itself (\<open>session.go\<close>): what every kind of line does, how a
  result completes a turn or is held back because the agent asked to be woken up later, and the calls
  of the user. The goroutines (the reader of lines, the callers, the safety timer and the tool
  handlers) interleave: \<open>session_step\<close> takes one of their steps, each of which is a call or a
  handler as a whole, with a late timer callback as a step of its own. \<open>ss_events\<close> is the bounded
  channel of events and \<open>ss_log\<close> the history of all events handed to \<open>emit\<close>. Not modelled: the
  recorder, the process behind \<open>WriteMessage\<close>, and interleavings between the critical sections of one
  handler.
\<close>

section \<open>The state machine of a session\<close>

datatype SessionState = StateUninitialized | StateStarting | StateReady | StateProcessing | StateClosed

datatype session_transition =
  TransitionStarted | TransitionInitReceived | TransitionUserMessageSent | TransitionResultReceived | TransitionClosed

definition session_transitions :: "(SessionState \<times> (session_transition \<times> SessionState) list) list" where
  "session_transitions =
     [(StateUninitialized, [(TransitionStarted, StateStarting), (TransitionClosed, StateClosed)]),
      (StateStarting, [(TransitionInitReceived, StateReady), (TransitionClosed, StateClosed)]),
      (StateReady, [(TransitionUserMessageSent, StateProcessing), (TransitionClosed, StateClosed)]),
      (StateProcessing, [(TransitionResultReceived, StateReady), (TransitionClosed, StateClosed)]),
      (StateClosed, [])]"

text \<open>No result is the error; the state then stays.\<close>

definition session_Transition :: "session_transition \<Rightarrow> SessionState \<Rightarrow> SessionState option" where
  "session_Transition t st = Option.bind (map_of session_transitions st) (\<lambda>ts. map_of ts t)"

definition session_TransitionTo :: "SessionState \<Rightarrow> SessionState \<Rightarrow> SessionState option" where
  "session_TransitionTo target st =
    Option.bind (map_of session_transitions st)
      (\<lambda>ts. if list_ex (\<lambda>p. snd p = target) ts then Some target else None)"

definition transition_or_stay :: "session_transition \<Rightarrow> SessionState \<Rightarrow> SessionState" where
  "transition_or_stay t st = (case session_Transition t st of Some st' \<Rightarrow> st' | None \<Rightarrow> st)"

section \<open>Errors and results\<close>

datatype session_error =
    ResultErr string
  | TransientErr string string "session_error option"
  | MaxTurnsExceeded
  | BudgetExceeded
  | LineErr string
  | DecodeErr
  | TextErr string
  | AlreadyStarted
  | NotStarted
  | StoppingErr
  | PendingTransientResult
  | SessionClosedErr
  | ContextErr string

record claude_result =
  cr_TurnNumber :: int
  cr_Success :: bool
  cr_DurationMs :: int
  cr_Usage :: TurnUsage
  cr_Text :: string
  cr_Thinking :: string
  cr_ContentBlocks :: "content_block list"
  cr_Error :: "session_error option"

record SessionInfo =
  si_SessionID :: string
  si_Model :: string
  si_WorkDir :: string
  si_PermissionMode :: string
  si_Tools :: "string list"

record result_event =
  re_Subtype :: string
  re_TurnNumber :: int
  re_NumTurns :: int
  re_Usage :: TurnUsage
  re_DurationMs :: int
  re_DurationAPIMs :: int
  re_IsError :: bool
  re_Error :: "session_error option"

record complete_event =
  ce_TurnNumber :: int
  ce_Success :: bool
  ce_DurationMs :: int
  ce_Usage :: TurnUsage
  ce_Error :: "session_error option"
  ce_WakeupTimedOut :: bool

text \<open>The events; the number is the turn.\<close>

datatype session_event =
    ReadyEvt SessionInfo
  | TextEvt int string string
  | ThinkingEvt int string string
  | ToolStartEvt int string string
  | ToolProgressEvt int string string string string
  | ToolCompleteEvt int string string "jmap option"
  | CLIToolResultEvt int string string "json option" bool
  | AssistantEvt int string "content_block list" "string option"
  | UserEvt int "content_block list" "string option"
  | ResultEvt result_event
  | CompleteEvt complete_event
  | ErrorEvt int session_error string
  | CompactEvt int CompactMetadata
  | PostTurnSummaryEvt int PostTurnSummary
  | APIRetryEvt int APIRetry
  | LocalCommandOutputEvt int string
  | HookEvt int string Hook
  | TaskStartedEvt int TaskStarted
  | TaskUpdatedEvt int TaskUpdated
  | TaskProgressEvt int TaskProgress
  | TaskNotificationEvt int TaskNotification
  | StateChangedEvt int string
  | FilesPersistedEvt int FilesPersisted
  | ToolExecutionEvt int ToolProgressMessage
  | AuthStatusEvt int AuthStatusMessage
  | RateLimitEvt int RateLimitInfo bool
  | UnknownEvt string json

section \<open>Turns\<close>

record toolState =
  to_ID :: string
  to_Name :: string
  to_Input :: "jmap option"
  to_PartialInput :: string

record turnState =
  tn_Number :: int
  tn_UserMessage :: string
  tn_Tools :: "(string, toolState) gomap"
  tn_FullText :: string
  tn_FullThinking :: string
  tn_ContentBlocks :: "content_block list"
  tn_StartTime :: time

text \<open>
  \<open>currentTurn\<close> is a pointer to the last element of \<open>turns\<close>, so it is not a field. A waiter is a
  number; what a wait returned is in \<open>ss_returned\<close>.
\<close>

record turnManager =
  tm_turns :: "turnState list"
  tm_currentTurnNumber :: int
  tm_completionWaiters :: "(int, nat list) gomap"
  tm_completedResults :: "(int, claude_result) gomap"

definition newTurnManager :: turnManager where
  "newTurnManager = \<lparr>tm_turns = [], tm_currentTurnNumber = 0, tm_completionWaiters = [], tm_completedResults = []\<rparr>"

definition CurrentTurn :: "turnManager \<Rightarrow> turnState option" where
  "CurrentTurn tm = (if tm_turns tm = [] then None else Some (last (tm_turns tm)))"

definition StartTurn :: "time \<Rightarrow> string \<Rightarrow> turnManager \<Rightarrow> turnManager" where
  "StartTurn now msg tm =
    (let n = tm_currentTurnNumber tm + 1 in
     tm\<lparr>tm_currentTurnNumber := n,
        tm_turns := tm_turns tm @ [\<lparr>tn_Number = n, tn_UserMessage = msg, tn_Tools = [], tn_FullText = [],
          tn_FullThinking = [], tn_ContentBlocks = [], tn_StartTime = now\<rparr>]\<rparr>)"

text \<open>Writing through the pointer to the current turn.\<close>

definition upd_current :: "(turnState \<Rightarrow> turnState) \<Rightarrow> turnManager \<Rightarrow> turnManager" where
  "upd_current f tm =
    (if tm_turns tm = [] then tm else tm\<lparr>tm_turns := butlast (tm_turns tm) @ [f (last (tm_turns tm))]\<rparr>)"

definition AppendText :: "string \<Rightarrow> turnManager \<Rightarrow> string \<times> turnManager" where
  "AppendText t tm =
    (let tm' = upd_current (tn_FullText_update (\<lambda>x. x @ t)) tm in
     (case CurrentTurn tm' of None \<Rightarrow> [] | Some tn \<Rightarrow> tn_FullText tn, tm'))"

definition AppendThinking :: "string \<Rightarrow> turnManager \<Rightarrow> string \<times> turnManager" where
  "AppendThinking t tm =
    (let tm' = upd_current (tn_FullThinking_update (\<lambda>x. x @ t)) tm in
     (case CurrentTurn tm' of None \<Rightarrow> [] | Some tn \<Rightarrow> tn_FullThinking tn, tm'))"

definition GetTool :: "string \<Rightarrow> turnManager \<Rightarrow> toolState option" where
  "GetTool i tm = (case CurrentTurn tm of None \<Rightarrow> None | Some tn \<Rightarrow> map_of (tn_Tools tn) i)"

definition GetOrCreateTool :: "string \<Rightarrow> string \<Rightarrow> turnManager \<Rightarrow> turnManager" where
  "GetOrCreateTool i name tm =
    (if GetTool i tm = None
     then upd_current (tn_Tools_update (mput i \<lparr>to_ID = i, to_Name = name, to_Input = None, to_PartialInput = []\<rparr>)) tm
     else tm)"

definition upd_tool :: "string \<Rightarrow> (toolState \<Rightarrow> toolState) \<Rightarrow> turnManager \<Rightarrow> turnManager" where
  "upd_tool i f tm =
    (case GetTool i tm of None \<Rightarrow> tm | Some t \<Rightarrow> upd_current (tn_Tools_update (mput i (f t))) tm)"

text \<open>The most recent turn that has the tool.\<close>

definition FindToolByID :: "string \<Rightarrow> turnManager \<Rightarrow> toolState option" where
  "FindToolByID i tm =
    (case find (\<lambda>tn. map_of (tn_Tools tn) i \<noteq> None) (rev (tm_turns tm)) of
       None \<Rightarrow> None | Some tn \<Rightarrow> map_of (tn_Tools tn) i)"

definition AppendContentBlocks :: "content_block list \<Rightarrow> turnManager \<Rightarrow> turnManager" where
  "AppendContentBlocks bs tm =
    (if bs = [] then tm else upd_current (tn_ContentBlocks_update (\<lambda>x. x @ bs)) tm)"

definition GetTurnByNumber :: "int \<Rightarrow> turnManager \<Rightarrow> turnState option" where
  "GetTurnByNumber n tm = find (\<lambda>tn. tn_Number tn = n) (tm_turns tm)"

definition waiters_of :: "int \<Rightarrow> turnManager \<Rightarrow> nat list" where
  "waiters_of n tm = (case map_of (tm_completionWaiters tm) n of None \<Rightarrow> [] | Some ws \<Rightarrow> ws)"

text \<open>What a waiter gets from a result.\<close>

definition wait_result :: "claude_result \<Rightarrow> session_error + claude_result" where
  "wait_result r = (case cr_Error r of Some e \<Rightarrow> Inl e | None \<Rightarrow> Inr r)"

text \<open>The start of a wait: the result of a turn that is over, or the waiter is registered.\<close>

definition tm_WaitForTurn :: "nat \<Rightarrow> int \<Rightarrow> turnManager \<Rightarrow> (session_error + claude_result) option \<times> turnManager" where
  "tm_WaitForTurn wid n tm =
    (case map_of (tm_completedResults tm) n of
       Some r \<Rightarrow> (Some (wait_result r), tm)
     | None \<Rightarrow> (None, tm\<lparr>tm_completionWaiters := mput n (waiters_of n tm @ [wid]) (tm_completionWaiters tm)\<rparr>))"

definition wait_cancelled :: "nat \<Rightarrow> int \<Rightarrow> turnManager \<Rightarrow> turnManager" where
  "wait_cancelled wid n tm =
    (if wid \<in> set (waiters_of n tm)
     then tm\<lparr>tm_completionWaiters := mput n (remove1 wid (waiters_of n tm)) (tm_completionWaiters tm)\<rparr> else tm)"

definition CompleteTurn ::
  "claude_result \<Rightarrow> turnManager \<Rightarrow> (nat \<times> (session_error + claude_result)) list \<times> turnManager" where
  "CompleteTurn r tm =
    (map (\<lambda>wid. (wid, wait_result r)) (waiters_of (cr_TurnNumber r) tm),
     tm\<lparr>tm_completedResults := mput (cr_TurnNumber r) r (tm_completedResults tm),
        tm_completionWaiters := mdel (cr_TurnNumber r) (tm_completionWaiters tm)\<rparr>)"

section \<open>Being woken up later\<close>

definition scheduleWakeupToolName :: string where
  "scheduleWakeupToolName = ''ScheduleWakeup''"

definition latestScheduleWakeup :: "turnState option \<Rightarrow> ToolUseBlock option" where
  "latestScheduleWakeup t =
    (case t of None \<Rightarrow> None | Some tn \<Rightarrow>
      (case find (\<lambda>b. case b of ToolUseBlk u \<Rightarrow> tu_Name u = scheduleWakeupToolName | _ \<Rightarrow> False)
              (rev (tn_ContentBlocks tn)) of
         Some (ToolUseBlk u) \<Rightarrow> Some u | _ \<Rightarrow> None))"

definition latestScheduleWakeupToolID :: "turnState option \<Rightarrow> string" where
  "latestScheduleWakeupToolID t = (case latestScheduleWakeup t of None \<Rightarrow> [] | Some u \<Rightarrow> tu_ID u)"

text \<open>A number of a decoded value is a float64.\<close>

definition latestScheduleWakeupDelaySeconds :: "wire \<Rightarrow> turnState option \<Rightarrow> rat" where
  "latestScheduleWakeupDelaySeconds w t =
    (case latestScheduleWakeup t of None \<Rightarrow> 0 | Some u \<Rightarrow>
      (case field_of (tu_Input u) ''delaySeconds'' of
         Some (JNum lit) \<Rightarrow> (case w_f64 w lit of Some x \<Rightarrow> x | None \<Rightarrow> 0)
       | _ \<Rightarrow> 0))"

text \<open>
  \<open>ws_timer\<close> is the timer: its duration, the result its callback completes the turn with, and whether
  it has fired.
\<close>

record wakeupSuppressionState =
  ws_timer :: "(duration \<times> claude_result \<times> bool) option"
  ws_suppressedWakeupToolID :: string
  ws_accumulatedUsage :: TurnUsage
  ws_suppressedTurnNumber :: int
  ws_active :: bool
  ws_timerFired :: bool

definition wakeup_reset :: wakeupSuppressionState where
  "wakeup_reset = \<lparr>ws_timer = None, ws_suppressedWakeupToolID = [], ws_accumulatedUsage = zero_turn_usage,
     ws_suppressedTurnNumber = 0, ws_active = False, ws_timerFired = False\<rparr>"

section \<open>The session\<close>

record blockState =
  bs_blockType :: string
  bs_text :: string
  bs_thinking :: string
  bs_toolID :: string
  bs_toolName :: string
  bs_partialJSON :: string

datatype sent_message =
    SentUser string
  | SentToolResult string string
  | SentControlResponse string control_body
  | SentControlRequest string string

text \<open>
  The limits, the sum of costs as the floating-point unit computes it, the bound of the channel
  of events, the handlers and the wire.
\<close>

record claude_config =
  cf_MaxTurns :: int
  cf_MaxBudgetUSD :: rat
  cf_sum :: "rat list \<Rightarrow> rat"
  cf_EventBufferSize :: nat
  cf_control :: control_config
  cf_wire :: wire

record claude_session =
  ss_state :: SessionState
  ss_turns :: turnManager
  ss_blocks :: "(int, blockState) gomap"
  ss_wakeup :: wakeupSuppressionState
  ss_callbacks :: "claude_result list"
  ss_pendingTransientErrors :: "(int, string \<times> string) gomap"
  ss_cumulativeCost :: "rat list"
  ss_info :: "SessionInfo option"
  ss_started :: bool
  ss_stopping :: bool
  ss_done :: bool
  ss_events :: "session_event list"
  ss_log :: "session_event list"
  ss_sent :: "sent_message list"
  ss_async :: "control_action list list"
  ss_pendingControl :: "(string, nat) gomap"
  ss_chans :: "ControlResponsePayload option list"
  ss_returned :: "(nat \<times> (session_error + claude_result)) list"

definition NewClaudeSession :: claude_session where
  "NewClaudeSession =
    \<lparr>ss_state = StateUninitialized, ss_turns = newTurnManager, ss_blocks = [], ss_wakeup = wakeup_reset,
     ss_callbacks = [], ss_pendingTransientErrors = [], ss_cumulativeCost = [], ss_info = None,
     ss_started = False, ss_stopping = False, ss_done = False, ss_events = [], ss_log = [], ss_sent = [],
     ss_async = [], ss_pendingControl = [], ss_chans = [], ss_returned = []\<rparr>"

abbreviation cur_turn :: "claude_session \<Rightarrow> int" where
  "cur_turn s \<equiv> tm_currentTurnNumber (ss_turns s)"

text \<open>A full channel and a session that is stopping drop the event.\<close>

definition emit_event :: "claude_config \<Rightarrow> session_event \<Rightarrow> claude_session \<Rightarrow> claude_session" where
  "emit_event cf e s =
    (let s1 = s\<lparr>ss_log := ss_log s @ [e]\<rparr> in
     if ss_done s then s1
     else if length (ss_events s) < cf_EventBufferSize cf then s1\<lparr>ss_events := ss_events s @ [e]\<rparr> else s1)"

definition emit_error :: "claude_config \<Rightarrow> session_error \<Rightarrow> string \<Rightarrow> claude_session \<Rightarrow> claude_session" where
  "emit_error cf e ctx s = emit_event cf (ErrorEvt (cur_turn s) e ctx) s"

definition on_turns :: "(turnManager \<Rightarrow> turnManager) \<Rightarrow> claude_session \<Rightarrow> claude_session" where
  "on_turns f s = s\<lparr>ss_turns := f (ss_turns s)\<rparr>"

section \<open>The accumulator of stream events\<close>

definition block_base :: "json option \<Rightarrow> (string \<times> string \<times> string) option" where
  "block_base raw = Option.bind raw (unmarshal (dec_struct
     [(''type'', dec_string apfst), (''id'', dec_string (apsnd \<circ> apfst)), (''name'', dec_string (apsnd \<circ> apsnd))])
     ([], [], []))"

definition handleContentBlockStart ::
  "claude_config \<Rightarrow> json option \<Rightarrow> int \<Rightarrow> claude_session \<Rightarrow> claude_session" where
  "handleContentBlockStart cf block index s =
    (case block_base block of
       None \<Rightarrow> emit_error cf DecodeErr ''parse_content_block_start'' s
     | Some (ty, i, name) \<Rightarrow>
       (let tool = (ty = ''tool_use'');
            b = \<lparr>bs_blockType = ty, bs_text = [], bs_thinking = [], bs_toolID = (if tool then i else []),
                 bs_toolName = (if tool then name else []), bs_partialJSON = []\<rparr>;
            s1 = (if tool \<and> CurrentTurn (ss_turns s) \<noteq> None
                  then emit_event cf (ToolStartEvt (cur_turn s) i name) (on_turns (GetOrCreateTool i name) s)
                  else s)
        in s1\<lparr>ss_blocks := mput index b (ss_blocks s1)\<rparr>))"

definition delta_field :: "string \<Rightarrow> json \<Rightarrow> string option" where
  "delta_field k = unmarshal (dec_struct [(''type'', skip_string), (k, dec_string (\<lambda>f. f))]) []"

definition handleContentBlockDelta ::
  "claude_config \<Rightarrow> json option \<Rightarrow> int \<Rightarrow> claude_session \<Rightarrow> claude_session" where
  "handleContentBlockDelta cf delta index s =
    (case (map_of (ss_blocks s) index, delta) of
       (Some b, Some d) \<Rightarrow>
         (case discriminator ''type'' d of
            None \<Rightarrow> s
          | Some ty \<Rightarrow>
            if ty = ''text_delta'' then
              (case delta_field ''text'' d of
                 None \<Rightarrow> s
               | Some t \<Rightarrow>
                 (let (full, tm) = AppendText t (ss_turns s) in
                  emit_event cf (TextEvt (cur_turn s) t full)
                    (s\<lparr>ss_blocks := mput index (b\<lparr>bs_text := bs_text b @ t\<rparr>) (ss_blocks s), ss_turns := tm\<rparr>)))
            else if ty = ''thinking_delta'' then
              (case delta_field ''thinking'' d of
                 None \<Rightarrow> s
               | Some t \<Rightarrow>
                 (let (full, tm) = AppendThinking t (ss_turns s) in
                  emit_event cf (ThinkingEvt (cur_turn s) t full)
                    (s\<lparr>ss_blocks := mput index (b\<lparr>bs_thinking := bs_thinking b @ t\<rparr>) (ss_blocks s), ss_turns := tm\<rparr>)))
            else if ty = ''input_json_delta'' then
              (case delta_field ''partial_json'' d of
                 None \<Rightarrow> s
               | Some t \<Rightarrow>
                 (let b1 = b\<lparr>bs_partialJSON := bs_partialJSON b @ t\<rparr> in
                  emit_event cf (ToolProgressEvt (cur_turn s) (bs_toolID b) (bs_toolName b) (bs_partialJSON b1) t)
                    (on_turns (upd_tool (bs_toolID b) (to_PartialInput_update (\<lambda>_. bs_partialJSON b1)))
                      (s\<lparr>ss_blocks := mput index b1 (ss_blocks s)\<rparr>))))
            else s)
     | _ \<Rightarrow> s)"

text \<open>The input a tool was given: what its partial JSON decodes to, or the empty map.\<close>

definition block_input :: "wire \<Rightarrow> string \<Rightarrow> jmap option" where
  "block_input w partial =
    (if partial = [] then Some []
     else case Option.bind (w_parse w partial) (unmarshal (dec_map w (\<lambda>f. f)) None) of
         None \<Rightarrow> Some [] | Some m \<Rightarrow> m)"

definition handleContentBlockStop :: "claude_config \<Rightarrow> int \<Rightarrow> claude_session \<Rightarrow> claude_session" where
  "handleContentBlockStop cf index s =
    (case map_of (ss_blocks s) index of
       None \<Rightarrow> s
     | Some b \<Rightarrow>
       (let s1 = (if bs_blockType b = ''tool_use'' then
                    let input = block_input (cf_wire cf) (bs_partialJSON b) in
                    emit_event cf (ToolCompleteEvt (cur_turn s) (bs_toolID b) (bs_toolName b) input)
                      (on_turns (upd_tool (bs_toolID b) (to_Input_update (\<lambda>_. input))) s)
                  else s)
        in s1\<lparr>ss_blocks := mdel index (ss_blocks s1)\<rparr>))"

definition HandleEvent :: "claude_config \<Rightarrow> json option \<Rightarrow> claude_session \<Rightarrow> claude_session" where
  "HandleEvent cf ev s =
    (case Option.bind ev ParseStreamEvent of
       None \<Rightarrow> emit_error cf DecodeErr ''parse_stream_event'' s
     | Some None \<Rightarrow> s
     | Some (Some e) \<Rightarrow>
       (case e of
          MessageStart \<Rightarrow> s\<lparr>ss_blocks := []\<rparr>
        | ContentBlockStart b i \<Rightarrow> handleContentBlockStart cf b i s
        | ContentBlockDelta d i \<Rightarrow> handleContentBlockDelta cf d i s
        | ContentBlockStop i \<Rightarrow> handleContentBlockStop cf i s
        | MessageDeltaEv \<Rightarrow> s
        | MessageStop \<Rightarrow> s\<lparr>ss_blocks := []\<rparr>))"

section \<open>Messages of the command line\<close>

definition handleInit :: "claude_config \<Rightarrow> SystemMessage \<Rightarrow> claude_session \<Rightarrow> claude_session" where
  "handleInit cf m s =
    (let ready = (\<lambda>p. let info = \<lparr>si_SessionID = ip_SessionID p, si_Model = ip_Model p, si_WorkDir = ip_CWD p,
                              si_PermissionMode = ip_PermissionMode p, si_Tools = ip_Tools p\<rparr>
                      in emit_event cf (ReadyEvt info)
                           (s\<lparr>ss_info := Some info, ss_state := transition_or_stay TransitionInitReceived (ss_state s)\<rparr>))
     in case AsInit (cf_wire cf) m of
          Some p \<Rightarrow> ready p
        | None \<Rightarrow>
          (let loose = InitPayloadLenient m in
           if ip_SessionID loose = [] \<or> ip_Model loose = [] \<or> ip_CWD loose = [] then s else ready loose))"

text \<open>The event of a system message other than \<open>init\<close>, if it has one.\<close>

definition system_event :: "wire \<Rightarrow> int \<Rightarrow> SystemMessage \<Rightarrow> session_event option" where
  "system_event w n m =
    (let t = sm_Subtype m in
     if t = ''compact_boundary'' then map_option (CompactEvt n) (AsCompactBoundary m)
     else if t = ''post_turn_summary'' then map_option (PostTurnSummaryEvt n) (AsPostTurnSummary m)
     else if t = ''api_retry'' then map_option (APIRetryEvt n) (AsAPIRetry w m)
     else if t = ''local_command_output'' then map_option (LocalCommandOutputEvt n) (AsLocalCommandOutput m)
     else if t = ''hook_started'' then map_option (HookEvt n ''started'') (AsHookStarted m)
     else if t = ''hook_progress'' then map_option (HookEvt n ''progress'') (AsHookProgress m)
     else if t = ''hook_response'' then map_option (HookEvt n ''response'') (AsHookResponse m)
     else if t = ''task_started'' then map_option (TaskStartedEvt n) (AsTaskStarted m)
     else if t = ''task_updated'' then map_option (TaskUpdatedEvt n) (AsTaskUpdated m)
     else if t = ''task_progress'' then map_option (TaskProgressEvt n) (AsTaskProgress m)
     else if t = ''task_notification'' then map_option (TaskNotificationEvt n) (AsTaskNotification m)
     else if t = ''session_state_changed'' then map_option (StateChangedEvt n) (AsSessionStateChanged m)
     else if t = ''files_persisted'' then map_option (FilesPersistedEvt n) (AsFilesPersisted m)
     else None)"

definition handleSystem :: "claude_config \<Rightarrow> SystemMessage \<Rightarrow> claude_session \<Rightarrow> claude_session" where
  "handleSystem cf m s =
    (if sm_Subtype m = ''init'' then handleInit cf m s
     else case system_event (cf_wire cf) (cur_turn s) m of None \<Rightarrow> s | Some e \<Rightarrow> emit_event cf e s)"

text \<open>Text of a complete message that was not streamed, told by its length.\<close>

definition assistant_text :: "claude_config \<Rightarrow> content_block \<Rightarrow> claude_session \<Rightarrow> claude_session" where
  "assistant_text cf b s =
    (case (b, CurrentTurn (ss_turns s)) of
       (TextBlk text, Some tn) \<Rightarrow>
         if length text > length (tn_FullText tn) then
           (let new = drop (length (tn_FullText tn)) text; (full, tm) = AppendText new (ss_turns s)
            in emit_event cf (TextEvt (cur_turn s) new full) (s\<lparr>ss_turns := tm\<rparr>))
         else s
     | _ \<Rightarrow> s)"

definition assistant_tool :: "claude_config \<Rightarrow> content_block \<Rightarrow> claude_session \<Rightarrow> claude_session" where
  "assistant_tool cf b s =
    (case b of
       ToolUseBlk u \<Rightarrow>
         (case GetTool (tu_ID u) (ss_turns s) of
            None \<Rightarrow>
              emit_event cf (ToolCompleteEvt (cur_turn s) (tu_ID u) (tu_Name u) (tu_Input u))
                (emit_event cf (ToolStartEvt (cur_turn s) (tu_ID u) (tu_Name u))
                  (on_turns (GetOrCreateTool (tu_ID u) (tu_Name u)) s))
          | Some t \<Rightarrow>
              if to_Input t = None then on_turns (upd_tool (tu_ID u) (to_Input_update (\<lambda>_. tu_Input u))) s else s)
     | _ \<Rightarrow> s)"

definition assistant_blocks :: "wire \<Rightarrow> AssistantMessage \<Rightarrow> content_block list option" where
  "assistant_blocks w m =
    (case AsBlocks w (mc_Content (am_Message m)) of
       Some bs \<Rightarrow> Some bs
     | None \<Rightarrow> (case AsString (mc_Content (am_Message m)) of
         None \<Rightarrow> None | Some t \<Rightarrow> if t = [] then None else Some [TextBlk t]))"

definition note_synthetic :: "wire \<Rightarrow> AssistantMessage \<Rightarrow> claude_session \<Rightarrow> claude_session" where
  "note_synthetic w m s =
    (if IsSyntheticAPIError m then
       let text = SyntheticErrorText w m; text = (if text = [] then ''synthetic API error'' else text)
       in s\<lparr>ss_pendingTransientErrors := mput (cur_turn s) (text, am_RequestID m) (ss_pendingTransientErrors s)\<rparr>
     else s)"

definition handleAssistant :: "claude_config \<Rightarrow> AssistantMessage \<Rightarrow> claude_session \<Rightarrow> claude_session" where
  "handleAssistant cf m s =
    (case assistant_blocks (cf_wire cf) m of
       None \<Rightarrow> s
     | Some bs \<Rightarrow>
       (let s1 = note_synthetic (cf_wire cf) m s;
            s2 = emit_event cf (AssistantEvt (cur_turn s) (mc_Model (am_Message m)) bs (am_ParentToolUseID m)) s1;
            s3 = fold (assistant_text cf) bs s2;
            s4 = fold (assistant_tool cf) bs s3
        in on_turns (AppendContentBlocks bs) s4))"

definition user_result :: "claude_config \<Rightarrow> content_block \<Rightarrow> claude_session \<Rightarrow> claude_session" where
  "user_result cf b s =
    (case b of
       ToolResultBlk r \<Rightarrow>
         emit_event cf (CLIToolResultEvt (cur_turn s) (tb_ToolUseID r)
           (case FindToolByID (tb_ToolUseID r) (ss_turns s) of None \<Rightarrow> ''unknown'' | Some t \<Rightarrow> to_Name t)
           (tb_Content r) (case tb_IsError r of None \<Rightarrow> False | Some e \<Rightarrow> e)) s
     | _ \<Rightarrow> s)"

definition handleUser :: "claude_config \<Rightarrow> UserMessage \<Rightarrow> claude_session \<Rightarrow> claude_session" where
  "handleUser cf m s =
    (if AsString (mc_Content (um_Message m)) \<noteq> None then s
     else case AsBlocks (cf_wire cf) (mc_Content (um_Message m)) of
         None \<Rightarrow> s
       | Some bs \<Rightarrow>
           on_turns (AppendContentBlocks bs)
             (fold (user_result cf) bs (emit_event cf (UserEvt (cur_turn s) bs (um_ParentToolUseID m)) s)))"

section \<open>The result of a turn\<close>

definition resultMessageError :: "ResultMsg \<Rightarrow> session_error option" where
  "resultMessageError m =
    (case Outcome m of
       ResultSuccess _ \<Rightarrow> None
     | ResultError sub text errs \<Rightarrow>
         if errs \<noteq> [] then Some (ResultErr (join_with ''; '' errs))
         else if text \<noteq> [] then Some (ResultErr text)
         else Some (ResultErr (''turn failed: '' @ sub)))"

definition consumePendingTransient :: "int \<Rightarrow> claude_session \<Rightarrow> (string \<times> string) option \<times> claude_session" where
  "consumePendingTransient n s =
    (map_of (ss_pendingTransientErrors s) n,
     s\<lparr>ss_pendingTransientErrors := mdel n (ss_pendingTransientErrors s)\<rparr>)"

definition finalizeTurn :: "claude_config \<Rightarrow> claude_result \<Rightarrow> bool \<Rightarrow> claude_session \<Rightarrow> claude_session" where
  "finalizeTurn cf r timedOut s =
    (let (woken, tm) = CompleteTurn r (ss_turns s) in
     emit_event cf (CompleteEvt
         \<lparr>ce_TurnNumber = cr_TurnNumber r, ce_Success = cr_Success r, ce_DurationMs = cr_DurationMs r,
          ce_Usage = cr_Usage r, ce_Error = cr_Error r, ce_WakeupTimedOut = timedOut\<rparr>)
       (s\<lparr>ss_state := transition_or_stay TransitionResultReceived (ss_state s), ss_turns := tm,
          ss_returned := ss_returned s @ woken\<rparr>))"

text \<open>The error of a result: that of the frame, or the synthetic error announced for the turn.\<close>

definition result_error :: "ResultMsg \<Rightarrow> (string \<times> string) option \<Rightarrow> session_error option" where
  "result_error m pend =
    (case pend of
       None \<Rightarrow> resultMessageError m
     | Some (text, rid) \<Rightarrow> Some (TransientErr text rid (resultMessageError m)))"

definition wire_turn_usage :: "ResultMsg \<Rightarrow> TurnUsage" where
  "wire_turn_usage m =
    \<lparr>us_InputTokens = wu_InputTokens (rs_Usage m), us_OutputTokens = wu_OutputTokens (rs_Usage m),
     us_CacheCreationTokens = wu_CacheCreation (rs_Usage m), us_CacheReadTokens = wu_CacheRead (rs_Usage m),
     us_CostUSD = [rs_TotalCostUSD m], us_ContextWindow = 0\<rparr>"

definition context_window :: "ResultMsg \<Rightarrow> int" where
  "context_window m = (case find (\<lambda>p. snd p > 0) (rs_ModelUsage m) of None \<Rightarrow> 0 | Some p \<Rightarrow> snd p)"

definition emit_raw_result ::
  "claude_config \<Rightarrow> ResultMsg \<Rightarrow> session_error option \<Rightarrow> claude_session \<Rightarrow> claude_session" where
  "emit_raw_result cf m rerr s =
    emit_event cf (ResultEvt
      \<lparr>re_Subtype = rs_Subtype m, re_TurnNumber = cur_turn s, re_NumTurns = rs_NumTurns m,
       re_Usage = wire_turn_usage m, re_DurationMs = rs_DurationMs m, re_DurationAPIMs = rs_DurationAPIMs m,
       re_IsError = (IsFailure m \<or> rerr \<noteq> None), re_Error = rerr\<rparr>) s"

text \<open>
  The result of the turn \<open>n\<close> before the limits are checked; \<open>acc\<close> is the usage of the turns held
  back before.
\<close>

definition turn_result_of ::
  "time \<Rightarrow> ResultMsg \<Rightarrow> session_error option \<Rightarrow> TurnUsage \<Rightarrow> int \<Rightarrow> turnState option \<Rightarrow> claude_result" where
  "turn_result_of now m rerr acc n turn =
    \<lparr>cr_TurnNumber = n, cr_Success = (\<not> (IsFailure m \<or> rerr \<noteq> None)),
     cr_DurationMs = (case turn of
         Some tn \<Rightarrow> if rs_DurationMs m = 0 then Milliseconds (now - tn_StartTime tn) else rs_DurationMs m
       | None \<Rightarrow> rs_DurationMs m),
     cr_Usage = (usage_Add (wire_turn_usage m) acc)\<lparr>us_ContextWindow := context_window m\<rparr>,
     cr_Text = (case turn of None \<Rightarrow> [] | Some tn \<Rightarrow> tn_FullText tn),
     cr_Thinking = (case turn of None \<Rightarrow> [] | Some tn \<Rightarrow> tn_FullThinking tn),
     cr_ContentBlocks = (case turn of None \<Rightarrow> [] | Some tn \<Rightarrow> tn_ContentBlocks tn),
     cr_Error = rerr\<rparr>"

definition over_budget :: "claude_config \<Rightarrow> rat list \<Rightarrow> bool" where
  "over_budget cf costs \<longleftrightarrow> cf_MaxBudgetUSD cf > 0 \<and> cf_sum cf costs \<ge> cf_MaxBudgetUSD cf"

definition max_turns_reached :: "claude_config \<Rightarrow> int \<Rightarrow> bool" where
  "max_turns_reached cf n \<longleftrightarrow> cf_MaxTurns cf > 0 \<and> n \<ge> cf_MaxTurns cf"

text \<open>The errors the session itself adds, and completion.\<close>

definition complete_result :: "claude_config \<Rightarrow> int \<Rightarrow> claude_result \<Rightarrow> claude_session \<Rightarrow> claude_session" where
  "complete_result cf n r s =
    (let e = (if cr_Error r \<noteq> None then cr_Error r
              else if max_turns_reached cf n then Some MaxTurnsExceeded
              else if over_budget cf (ss_cumulativeCost s) then Some BudgetExceeded else None);
         r1 = r\<lparr>cr_Error := e, cr_Success := (if e \<noteq> None then False else cr_Success r)\<rparr>
     in finalizeTurn cf r1 False s)"

text \<open>The duration of the safety timer, \<open>time.Duration(delaySec+60) * time.Second\<close>.\<close>

definition wakeup_timeout :: "wire \<Rightarrow> turnState option \<Rightarrow> duration" where
  "wakeup_timeout w turn =
    (let d = latestScheduleWakeupDelaySeconds w turn; d = (if d < 60 then 60 else d)
     in int64 (int_of_float (d + 60) * 1000000000))"

definition suppress_wakeup ::
  "claude_config \<Rightarrow> ResultMsg \<Rightarrow> TurnUsage \<Rightarrow> claude_result \<Rightarrow> claude_session \<Rightarrow> claude_session" where
  "suppress_wakeup cf m acc r s =
    (let n = cur_turn s; turn = CurrentTurn (ss_turns s);
         s1 = s\<lparr>ss_cumulativeCost := ss_cumulativeCost s @ [rs_TotalCostUSD m]\<rparr>;
         w1 = (ss_wakeup s)\<lparr>
           ws_accumulatedUsage := usage_Add (usage_Add (ws_accumulatedUsage (ss_wakeup s)) (wire_turn_usage m)) acc,
           ws_suppressedTurnNumber :=
             (if ws_suppressedTurnNumber (ss_wakeup s) = 0 then n else ws_suppressedTurnNumber (ss_wakeup s)),
           ws_suppressedWakeupToolID := latestScheduleWakeupToolID turn\<rparr>
     in if over_budget cf (ss_cumulativeCost s1)
        then complete_result cf n r (s1\<lparr>ss_wakeup := w1\<lparr>ws_accumulatedUsage := zero_turn_usage, ws_active := False,
               ws_suppressedWakeupToolID := []\<rparr>\<rparr>)
        else s1\<lparr>ss_wakeup := w1\<lparr>ws_active := True, ws_timer := Some (wakeup_timeout (cf_wire cf) turn, r, False)\<rparr>,
                ss_blocks := []\<rparr>)"

text \<open>
  The first part of \<open>handleResult\<close>: the announced error is consumed, the raw event emitted and the
  suppression ended, which stops the timer.
\<close>

definition rest_wakeup :: "wakeupSuppressionState \<Rightarrow> wakeupSuppressionState" where
  "rest_wakeup w = w\<lparr>ws_timer := None, ws_timerFired := False, ws_active := False\<rparr>"

definition raw_error :: "ResultMsg \<Rightarrow> claude_session \<Rightarrow> session_error option" where
  "raw_error m s = result_error m (fst (consumePendingTransient (cur_turn s) s))"

definition raw_result :: "claude_config \<Rightarrow> ResultMsg \<Rightarrow> claude_session \<Rightarrow> claude_session" where
  "raw_result cf m s =
    (emit_raw_result cf m (raw_error m s) (snd (consumePendingTransient (cur_turn s) s)))
      \<lparr>ss_wakeup := rest_wakeup (ss_wakeup s)\<rparr>"

text \<open>
  The rest: nothing if the timer has completed the turn already; else the turn is held back when its
  last call to be woken up is a new one, and completed otherwise.
\<close>

definition handleResult :: "claude_config \<Rightarrow> time \<Rightarrow> ResultMsg \<Rightarrow> claude_session \<Rightarrow> claude_session" where
  "handleResult cf now m s =
    (if ws_timerFired (ss_wakeup s) then raw_result cf m s
     else
      (let s1 = raw_result cf m s; w = ss_wakeup s; turn = CurrentTurn (ss_turns s); rerr = raw_error m s;
           acc = ws_accumulatedUsage w;
           s2 = s1\<lparr>ss_wakeup := (ss_wakeup s1)\<lparr>ws_accumulatedUsage := zero_turn_usage\<rparr>\<rparr>;
           r = turn_result_of now m rerr acc (if ws_active w then ws_suppressedTurnNumber w else cur_turn s) turn;
           latest = latestScheduleWakeupToolID turn
       in if \<not> (IsFailure m \<or> rerr \<noteq> None) \<and> \<not> max_turns_reached cf (cur_turn s) \<and> latest \<noteq> [] \<and>
             \<not> (ws_active w \<and> latest = ws_suppressedWakeupToolID w)
          then suppress_wakeup cf m acc r s2
          else complete_result cf (cur_turn s) r (s2\<lparr>ss_cumulativeCost := ss_cumulativeCost s2 @ [rs_TotalCostUSD m]\<rparr>)))"

text \<open>The callback of the safety timer.\<close>

definition completeWakeupSuppressedTurn :: "claude_config \<Rightarrow> claude_result \<Rightarrow> claude_session \<Rightarrow> claude_session" where
  "completeWakeupSuppressedTurn cf r s =
    (if \<not> ws_active (ss_wakeup s) then s
     else
       (let s1 = s\<lparr>ss_wakeup := (ss_wakeup s)\<lparr>ws_active := False, ws_timerFired := True, ws_timer := None,
                     ws_accumulatedUsage := zero_turn_usage\<rparr>\<rparr>;
            r1 = (case CurrentTurn (ss_turns s) of
                Some tn \<Rightarrow> if tn_Number tn \<ge> cr_TurnNumber r
                           then r\<lparr>cr_Text := tn_FullText tn, cr_Thinking := tn_FullThinking tn,
                                  cr_ContentBlocks := tn_ContentBlocks tn\<rparr>
                           else r
              | None \<Rightarrow> r)
        in finalizeTurn cf r1 True s1))"

section \<open>Lines\<close>

text \<open>
  \<open>wr\<close> is the error of writing a reply, if it fails. A reply that could not be written is recorded
  as sent by the paths of permissions and tools, which only keeps a file, so it is not in \<open>ss_sent\<close>.
\<close>

type_synonym write_env = "string \<times> control_body \<Rightarrow> string option"

definition do_action :: "claude_config \<Rightarrow> write_env \<Rightarrow> control_action \<Rightarrow> claude_session \<Rightarrow> claude_session" where
  "do_action cf wr a s =
    (case a of
       Reply rid body ctx \<Rightarrow>
         (case wr (rid, body) of
            Some er \<Rightarrow> emit_error cf (TextErr er) ctx s
          | None \<Rightarrow> s\<lparr>ss_sent := ss_sent s @ [SentControlResponse rid body]\<rparr>)
     | Report er ctx \<Rightarrow> emit_error cf (TextErr er) ctx s
     | Async bs \<Rightarrow> s\<lparr>ss_async := ss_async s @ [bs]\<rparr>)"

definition do_actions :: "claude_config \<Rightarrow> write_env \<Rightarrow> control_action list \<Rightarrow> claude_session \<Rightarrow> claude_session" where
  "do_actions cf wr as s = fold (do_action cf wr) as s"

text \<open>A response takes the free place of the channel of its request; a full channel drops it.\<close>

definition handleControlResponse :: "ControlResponsePayload \<Rightarrow> claude_session \<Rightarrow> claude_session" where
  "handleControlResponse p s =
    (case map_of (ss_pendingControl s) (cp_RequestID p) of
       None \<Rightarrow> s
     | Some ch \<Rightarrow> if ss_chans s ! ch = None then s\<lparr>ss_chans := (ss_chans s)[ch := Some p]\<rparr> else s)"

definition controlResponseCancelledSubtype :: string where
  "controlResponseCancelledSubtype = ''__cancelled__''"

definition handleControlCancel :: "string \<Rightarrow> claude_session \<Rightarrow> claude_session" where
  "handleControlCancel rid s =
    (if rid \<in> keys (ss_pendingControl s) then
       let s1 = handleControlResponse \<lparr>cp_Subtype = controlResponseCancelledSubtype, cp_RequestID = rid,
                  cp_Response = None, cp_Error = []\<rparr> s
       in s1\<lparr>ss_pendingControl := mdel rid (ss_pendingControl s1)\<rparr>
     else s)"

definition handleMessage ::
  "claude_config \<Rightarrow> time \<Rightarrow> write_env \<Rightarrow> message \<Rightarrow> claude_session \<Rightarrow> claude_session" where
  "handleMessage cf now wr msg s =
    (case msg of
       MsgSystem m \<Rightarrow> handleSystem cf m s
     | MsgStreamEvent ev \<Rightarrow> HandleEvent cf ev s
     | MsgAssistant m \<Rightarrow> handleAssistant cf m s
     | MsgUser m \<Rightarrow> handleUser cf m s
     | MsgResult m \<Rightarrow> handleResult cf now m s
     | MsgControlRequest rid req \<Rightarrow> do_actions cf wr (handleControlRequest (cf_control cf) (cf_wire cf) rid req) s
     | MsgControlResponse p \<Rightarrow> handleControlResponse p s
     | MsgKeepAlive \<Rightarrow> s
     | MsgToolProgress m \<Rightarrow> emit_event cf (ToolExecutionEvt (cur_turn s) m) s
     | MsgToolUseSummary _ _ \<Rightarrow> s
     | MsgAuthStatus m \<Rightarrow> emit_event cf (AuthStatusEvt (cur_turn s) m) s
     | MsgRateLimit m \<Rightarrow> emit_event cf (RateLimitEvt (cur_turn s) m (rl_OverageStatus m = ''active'')) s
     | MsgPromptSuggestion _ \<Rightarrow> s
     | MsgStreamlinedText _ \<Rightarrow> s
     | MsgStreamlinedToolUseSummary _ \<Rightarrow> s
     | MsgControlCancel rid \<Rightarrow> handleControlCancel rid s
     | MsgUpdateEnvironment \<Rightarrow> s
     | MsgUnknown t v \<Rightarrow> emit_event cf (UnknownEvt t v) s)"

definition handleLine :: "claude_config \<Rightarrow> time \<Rightarrow> write_env \<Rightarrow> string \<Rightarrow> claude_session \<Rightarrow> claude_session" where
  "handleLine cf now wr line s =
    (case ParseMessage (cf_wire cf) line of
       None \<Rightarrow> emit_error cf (LineErr line) ''parse_message'' s
     | Some msg \<Rightarrow> handleMessage cf now wr msg s)"

section \<open>Calls\<close>

text \<open>
  \<open>Start\<close> up to the handshake: \<open>start\<close> is the error of starting the process. A session that was
  never started is in the initial state, so its transition cannot fail.
\<close>

definition claude_Start :: "string option \<Rightarrow> claude_session \<Rightarrow> session_error option \<times> claude_session" where
  "claude_Start start s =
    (if ss_started s then (Some AlreadyStarted, s)
     else case start of
         Some er \<Rightarrow> (Some (TextErr er), s)
       | None \<Rightarrow>
         (case session_Transition TransitionStarted (ss_state s) of
            None \<Rightarrow> (Some (TextErr ''invalid state transition''), s)
          | Some st \<Rightarrow> (None, s\<lparr>ss_state := st, ss_started := True\<rparr>)))"

text \<open>A control request of the session: registered and sent, or not written and forgotten.\<close>

definition sendControlRequest :: "string \<Rightarrow> string \<Rightarrow> string option \<Rightarrow> claude_session \<Rightarrow> claude_session" where
  "sendControlRequest rid subtype wr s =
    (case wr of
       Some er \<Rightarrow> s
     | None \<Rightarrow> s\<lparr>ss_pendingControl := mput rid (length (ss_chans s)) (ss_pendingControl s),
                ss_chans := ss_chans s @ [None], ss_sent := ss_sent s @ [SentControlRequest rid subtype]\<rparr>)"

text \<open>What the waiting caller gets when its channel has a payload; the entry is then removed.\<close>

definition control_answer :: "ControlResponsePayload \<Rightarrow> session_error option" where
  "control_answer p =
    (if cp_Subtype p = ''error'' then Some (TextErr (''control request error: '' @ cp_Error p))
     else if cp_Subtype p = controlResponseCancelledSubtype then Some (TextErr ''control request cancelled by CLI'')
     else None)"

text \<open>The checks of \<open>SendMessage\<close> and \<open>SendToolResult\<close>.\<close>

definition send_refused :: "claude_session \<Rightarrow> session_error option" where
  "send_refused s =
    (if \<not> ss_started s then Some NotStarted
     else if ss_stopping s then Some StoppingErr
     else if ss_pendingTransientErrors s \<noteq> [] then Some PendingTransientResult else None)"

text \<open>The new turn, and the message, whose write may fail.\<close>

definition send_turn ::
  "time \<Rightarrow> string \<Rightarrow> sent_message \<Rightarrow> string option \<Rightarrow> claude_session \<Rightarrow> (session_error + int) \<times> claude_session" where
  "send_turn now content msg wr s =
    (case send_refused s of
       Some e \<Rightarrow> (Inl e, s)
     | None \<Rightarrow>
       (let s1 = (on_turns (StartTurn now content) s)\<lparr>ss_wakeup := wakeup_reset\<rparr> in
        case wr of
          Some er \<Rightarrow> (Inl (TextErr er), s1)
        | None \<Rightarrow> (Inr (cur_turn s1), s1\<lparr>ss_sent := ss_sent s1 @ [msg],
                    ss_state := transition_or_stay TransitionUserMessageSent (ss_state s1)\<rparr>)))"

definition SendMessage ::
  "time \<Rightarrow> string \<Rightarrow> string option \<Rightarrow> claude_session \<Rightarrow> (session_error + int) \<times> claude_session" where
  "SendMessage now content wr s = send_turn now content (SentUser content) wr s"

definition SendToolResult ::
  "time \<Rightarrow> string \<Rightarrow> string \<Rightarrow> string option \<Rightarrow> claude_session \<Rightarrow> (session_error + int) \<times> claude_session" where
  "SendToolResult now toolUseID content wr s = send_turn now content (SentToolResult toolUseID content) wr s"

text \<open>A wait for the current turn by the waiter \<open>wid\<close>; with no turn it returns nothing at once.\<close>

definition claude_WaitForTurn :: "nat \<Rightarrow> claude_session \<Rightarrow> claude_session" where
  "claude_WaitForTurn wid s =
    (if cur_turn s = 0 then s
     else case tm_WaitForTurn wid (cur_turn s) (ss_turns s) of
         (Some r, tm) \<Rightarrow> s\<lparr>ss_returned := ss_returned s @ [(wid, r)]\<rparr>
       | (None, tm) \<Rightarrow> s\<lparr>ss_turns := tm\<rparr>)"

definition claude_Stop :: "claude_session \<Rightarrow> claude_session" where
  "claude_Stop s =
    (if \<not> ss_started s \<or> ss_stopping s then s
     else s\<lparr>ss_stopping := True, ss_wakeup := wakeup_reset, ss_done := True,
            ss_state := transition_or_stay TransitionClosed (ss_state s)\<rparr>)"

text \<open>What \<open>CollectResponse\<close> returns when it takes a completion from the channel.\<close>

definition collected :: "claude_session \<Rightarrow> complete_event \<Rightarrow> claude_result" where
  "collected s c =
    (let r = \<lparr>cr_TurnNumber = ce_TurnNumber c, cr_Success = ce_Success c, cr_DurationMs = ce_DurationMs c,
              cr_Usage = ce_Usage c, cr_Text = [], cr_Thinking = [], cr_ContentBlocks = [], cr_Error = ce_Error c\<rparr>
     in case map_of (tm_completedResults (ss_turns s)) (ce_TurnNumber c) of
          Some d \<Rightarrow> r\<lparr>cr_Text := cr_Text d, cr_Thinking := cr_Thinking d, cr_ContentBlocks := cr_ContentBlocks d\<rparr>
        | None \<Rightarrow> (case GetTurnByNumber (ce_TurnNumber c) (ss_turns s) of
            Some tn \<Rightarrow> r\<lparr>cr_Text := tn_FullText tn, cr_Thinking := tn_FullThinking tn, cr_ContentBlocks := tn_ContentBlocks tn\<rparr>
          | None \<Rightarrow> r))"

fun CollectResponse :: "claude_session \<Rightarrow> session_event list \<Rightarrow> claude_result option \<times> session_event list" where
  "CollectResponse s [] = (None, [])"
| "CollectResponse s (e # es) =
    (case e of
       CompleteEvt c \<Rightarrow> (Some (collected s c), [e])
     | _ \<Rightarrow> (case CollectResponse s es of (r, seen) \<Rightarrow> (r, e # seen)))"

section \<open>Interleaving\<close>

text \<open>
  \<open>TimerFires\<close> starts the callback of the armed timer, which then waits for the lock, and
  \<open>CallbackRuns\<close> runs one that waits: \<open>Stop\<close> on a timer does not stop its callback any more.
\<close>

datatype session_call =
    CallStart "string option"
  | CallControl string string "string option"
  | ControlReturns string
  | CallSend time string "string option"
  | CallSendToolResult time string string "string option"
  | CallWait nat
  | WaitCancelled nat int string
  | CallStop
  | ReadLine time string write_env
  | ReadFails string
  | TimerFires
  | CallbackRuns nat
  | AsyncRuns nat write_env
  | TakeEvents nat

definition session_step :: "claude_config \<Rightarrow> session_call \<Rightarrow> claude_session \<Rightarrow> claude_session" where
  "session_step cf c s =
    (case c of
       CallStart start \<Rightarrow> snd (claude_Start start s)
     | CallControl rid subtype wr \<Rightarrow> sendControlRequest rid subtype wr s
     | ControlReturns rid \<Rightarrow> s\<lparr>ss_pendingControl := mdel rid (ss_pendingControl s)\<rparr>
     | CallSend now content wr \<Rightarrow> snd (SendMessage now content wr s)
     | CallSendToolResult now tool content wr \<Rightarrow> snd (SendToolResult now tool content wr s)
     | CallWait wid \<Rightarrow> claude_WaitForTurn wid s
     | WaitCancelled wid n er \<Rightarrow>
         (if wid \<in> set (waiters_of n (ss_turns s))
          then (on_turns (wait_cancelled wid n) s)\<lparr>ss_returned := ss_returned s @ [(wid, Inl (ContextErr er))]\<rparr> else s)
     | CallStop \<Rightarrow> claude_Stop s
     | ReadLine now line wr \<Rightarrow> if ss_done s then s else handleLine cf now wr line s
     | ReadFails er \<Rightarrow> if ss_done s \<or> ss_stopping s then s else emit_error cf (TextErr er) ''read_line'' s
     | TimerFires \<Rightarrow> (case ws_timer (ss_wakeup s) of
         Some (d, r, False) \<Rightarrow> s\<lparr>ss_callbacks := ss_callbacks s @ [r],
                               ss_wakeup := (ss_wakeup s)\<lparr>ws_timer := Some (d, r, True)\<rparr>\<rparr>
       | _ \<Rightarrow> s)
     | CallbackRuns i \<Rightarrow>
         (if i < length (ss_callbacks s)
          then completeWakeupSuppressedTurn cf (ss_callbacks s ! i)
                 (s\<lparr>ss_callbacks := take i (ss_callbacks s) @ drop (Suc i) (ss_callbacks s)\<rparr>) else s)
     | AsyncRuns i wr \<Rightarrow>
         (if i < length (ss_async s)
          then do_actions cf wr (ss_async s ! i) (s\<lparr>ss_async := take i (ss_async s) @ drop (Suc i) (ss_async s)\<rparr>) else s)
     | TakeEvents k \<Rightarrow> s\<lparr>ss_events := drop k (ss_events s)\<rparr>)"

definition session_run :: "claude_config \<Rightarrow> session_call list \<Rightarrow> claude_session" where
  "session_run cf cs = run_machine (session_step cf) cs NewClaudeSession"

end
