(* ===== verification/ClaudeSessionProps.thy ===== *)
theory ClaudeSessionProps
  imports ClaudeSession
begin

text \<open>
  What holds of a session with the Claude command line in every interleaving of its reader, its
  callers and its safety timer: the turns and their waiters, one completion for a result, the tokens
  that are reported, who is left waiting, and which requests are answered.
\<close>

section \<open>What most handlers leave alone\<close>

definition is_mark :: "session_event \<Rightarrow> bool" where
  "is_mark e = (case e of ResultEvt _ \<Rightarrow> True | CompleteEvt _ \<Rightarrow> True | _ \<Rightarrow> False)"

definition marks :: "claude_session \<Rightarrow> session_event list" where
  "marks s = filter is_mark (ss_log s)"

definition tm_frame :: "turnManager \<Rightarrow> int list \<times> int \<times> (int, nat list) gomap \<times> (int, claude_result) gomap" where
  "tm_frame tm = (map tn_Number (tm_turns tm), tm_currentTurnNumber tm, tm_completionWaiters tm, tm_completedResults tm)"

definition sframe :: "claude_session \<Rightarrow> _" where
  "sframe s = (tm_frame (ss_turns s), ss_wakeup s, ss_callbacks s, ss_cumulativeCost s, ss_started s, ss_stopping s,
     ss_done s, ss_returned s, marks s)"

lemma is_mark_simps [simp]:
  "is_mark (ResultEvt r)" "is_mark (CompleteEvt c)" "\<not> is_mark (TextEvt n a b)" "\<not> is_mark (ThinkingEvt n a b)"
  "\<not> is_mark (ToolStartEvt n a b)" "\<not> is_mark (ToolProgressEvt n a b c' d)" "\<not> is_mark (ToolCompleteEvt n a b i)"
  "\<not> is_mark (CLIToolResultEvt n a b j e)" "\<not> is_mark (AssistantEvt n a bs p)" "\<not> is_mark (UserEvt n bs p)"
  "\<not> is_mark (ErrorEvt n er a)" "\<not> is_mark (ReadyEvt si)" "\<not> is_mark (UnknownEvt a v)" "\<not> is_mark (ToolExecutionEvt n tp)"
  "\<not> is_mark (AuthStatusEvt n au)" "\<not> is_mark (RateLimitEvt n rl b')"
  by (simp_all add: is_mark_def)

lemma system_event_mark: "system_event w n m = Some e \<Longrightarrow> \<not> is_mark e"
  by (auto simp: system_event_def Let_def is_mark_def split: if_splits)

lemma cur_turn_frame: "sframe s = sframe s' \<Longrightarrow> cur_turn s = cur_turn s'"
  by (simp add: sframe_def tm_frame_def)

lemma sframe_updates [simp]:
  "sframe (s\<lparr>ss_blocks := x1\<rparr>) = sframe s" "sframe (s\<lparr>ss_pendingTransientErrors := x2\<rparr>) = sframe s"
  "sframe (s\<lparr>ss_info := x3\<rparr>) = sframe s" "sframe (s\<lparr>ss_state := x4\<rparr>) = sframe s" "sframe (s\<lparr>ss_events := x5\<rparr>) = sframe s"
  "sframe (s\<lparr>ss_sent := x6\<rparr>) = sframe s" "sframe (s\<lparr>ss_async := x7\<rparr>) = sframe s"
  "sframe (s\<lparr>ss_pendingControl := x8\<rparr>) = sframe s" "sframe (s\<lparr>ss_chans := x9\<rparr>) = sframe s"
  by (simp_all add: sframe_def marks_def)

lemma sframe_turns [simp]: "tm_frame tm = tm_frame (ss_turns s) \<Longrightarrow> sframe (s\<lparr>ss_turns := tm\<rparr>) = sframe s"
  by (simp add: sframe_def marks_def)

lemma sframe_emit [simp]: "\<not> is_mark e \<Longrightarrow> sframe (emit_event cf e s) = sframe s"
  by (simp add: sframe_def marks_def emit_event_def Let_def)

lemma sframe_error [simp]: "sframe (emit_error cf e ctx s) = sframe s"
  by (simp add: emit_error_def)

lemma tm_frame_current [simp]:
  "(\<And>t. tn_Number (f t) = tn_Number t) \<Longrightarrow> tm_frame (upd_current f tm) = tm_frame tm"
  by (auto simp: upd_current_def tm_frame_def) (metis append_butlast_last_id map_append list.simps(8,9))

lemma tm_frame_ops [simp]:
  "tm_frame (snd (AppendText t tm)) = tm_frame tm" "tm_frame (snd (AppendThinking t tm)) = tm_frame tm"
  "tm_frame (GetOrCreateTool i name tm) = tm_frame tm" "tm_frame (upd_tool i g tm) = tm_frame tm"
  "tm_frame (AppendContentBlocks bs tm) = tm_frame tm"
  by (simp_all add: AppendText_def AppendThinking_def Let_def GetOrCreateTool_def upd_tool_def AppendContentBlocks_def
      split: option.split)

lemma sframe_on_turns [simp]: "(\<And>tm. tm_frame (f tm) = tm_frame tm) \<Longrightarrow> sframe (on_turns f s) = sframe s"
  by (simp add: on_turns_def)

text \<open>The fields that go with the frame.\<close>

lemma emit_keeps [simp]:
  "ss_turns (emit_event cf e s) = ss_turns s" "ss_wakeup (emit_event cf e s) = ss_wakeup s"
  "ss_callbacks (emit_event cf e s) = ss_callbacks s"
  "ss_pendingTransientErrors (emit_event cf e s) = ss_pendingTransientErrors s"
  "ss_state (emit_event cf e s) = ss_state s" "ss_cumulativeCost (emit_event cf e s) = ss_cumulativeCost s"
  "ss_started (emit_event cf e s) = ss_started s" "ss_stopping (emit_event cf e s) = ss_stopping s"
  "ss_done (emit_event cf e s) = ss_done s" "ss_returned (emit_event cf e s) = ss_returned s"
  "ss_blocks (emit_event cf e s) = ss_blocks s" "ss_log (emit_event cf e s) = ss_log s @ [e]"
  by (simp_all add: emit_event_def Let_def)

lemma on_turns_keeps [simp]:
  "ss_turns (on_turns f s) = f (ss_turns s)" "ss_wakeup (on_turns f s) = ss_wakeup s"
  "ss_callbacks (on_turns f s) = ss_callbacks s" "ss_log (on_turns f s) = ss_log s"
  "ss_pendingTransientErrors (on_turns f s) = ss_pendingTransientErrors s"
  "ss_state (on_turns f s) = ss_state s" "ss_cumulativeCost (on_turns f s) = ss_cumulativeCost s"
  "ss_started (on_turns f s) = ss_started s" "ss_stopping (on_turns f s) = ss_stopping s"
  "ss_done (on_turns f s) = ss_done s" "ss_returned (on_turns f s) = ss_returned s" "ss_blocks (on_turns f s) = ss_blocks s"
  by (simp_all add: on_turns_def)

text \<open>
  The rest that an invariant reads: the keys of the announced errors, and the state up to the
  readiness of the session.
\<close>

definition calm :: "claude_session \<Rightarrow> claude_session \<Rightarrow> bool" where
  "calm s s' \<longleftrightarrow> sframe s' = sframe s \<and>
     keys (ss_pendingTransientErrors s') \<subseteq> insert (cur_turn s) (keys (ss_pendingTransientErrors s)) \<and>
     (ss_state s' = ss_state s \<or> (ss_state s = StateStarting \<and> ss_state s' = StateReady))"

lemma calmI: "sframe s' = sframe s \<Longrightarrow> ss_pendingTransientErrors s' = ss_pendingTransientErrors s \<Longrightarrow>
    ss_state s' = ss_state s \<Longrightarrow> calm s s'"
  by (auto simp: calm_def)

lemma calm_trans: "calm s s1 \<Longrightarrow> calm s1 s2 \<Longrightarrow> calm s s2"
  using cur_turn_frame [of s1 s] by (auto simp: calm_def)

lemma calm_refl [simp]: "calm s s"
  by (simp add: calm_def) blast

lemma calm_fold: "(\<And>x s. calm s (f x s)) \<Longrightarrow> calm s (fold f xs s)"
  by (induction xs arbitrary: s) (auto intro: calm_trans)

lemma calm_emit [simp]: "\<not> is_mark e \<Longrightarrow> calm s (emit_event cf e s)"
  by (simp add: calmI)

lemma calm_error [simp]: "calm s (emit_error cf e ctx s)"
  by (simp add: emit_error_def)

lemma calm_start: "calm s (handleContentBlockStart cf b i s)"
  by (auto simp: handleContentBlockStart_def Let_def intro!: calmI split: option.split)

lemma calm_streamed:
  "\<not> is_mark e \<Longrightarrow> tm_frame tm = tm_frame (ss_turns s) \<Longrightarrow> calm s (emit_event cf e (s\<lparr>ss_blocks := bl, ss_turns := tm\<rparr>))"
  by (simp add: calmI)

lemma calm_delta: "calm s (handleContentBlockDelta cf d i s)"
proof (cases "map_of (ss_blocks s) i")
  case (Some b)
  have said: "calm s (case AppendText t (ss_turns s) of (full, tm) \<Rightarrow>
      emit_event cf (TextEvt (cur_turn s) t full) (s\<lparr>ss_blocks := bl, ss_turns := tm\<rparr>))" for t bl
    by (simp add: AppendText_def Let_def calm_streamed)
  have think: "calm s (case AppendThinking t (ss_turns s) of (full, tm) \<Rightarrow>
      emit_event cf (ThinkingEvt (cur_turn s) t full) (s\<lparr>ss_blocks := bl, ss_turns := tm\<rparr>))" for t bl
    by (simp add: AppendThinking_def Let_def calm_streamed)
  have progress: "calm s (emit_event cf (ToolProgressEvt n a c x t) (on_turns (upd_tool j g) (s\<lparr>ss_blocks := bl\<rparr>)))"
    for n a c x t j g bl
    by (simp add: calmI)
  show ?thesis
    unfolding handleContentBlockDelta_def
    by (simp add: Some Let_def progress said think split: option.split)
qed (simp add: handleContentBlockDelta_def split: option.split)

lemma calm_stop: "calm s (handleContentBlockStop cf i s)"
proof (cases "map_of (ss_blocks s) i")
  case (Some b)
  then show ?thesis
    by (cases "bs_blockType b = ''tool_use''") (simp_all add: handleContentBlockStop_def Let_def calmI)
qed (simp add: handleContentBlockStop_def)

lemma calm_stream: "calm s (HandleEvent cf ev s)"
  by (auto simp: HandleEvent_def calm_start calm_delta calm_stop intro!: calmI split: option.split stream_event.split)

lemma calm_ready:
  "calm s (emit_event cf (ReadyEvt info) (s\<lparr>ss_info := i, ss_state := transition_or_stay TransitionInitReceived (ss_state s)\<rparr>))"
  by (cases "ss_state s")
    (auto simp: calm_def transition_or_stay_def session_Transition_def session_transitions_def)

lemma calm_system: "calm s (handleSystem cf m s)"
  by (auto simp: handleSystem_def handleInit_def Let_def calm_ready dest: system_event_mark split: option.split)

lemma calm_text: "calm s (assistant_text cf b s)"
  by (auto simp: assistant_text_def AppendText_def Let_def intro!: calmI split: option.split content_block.split)

lemma calm_tool: "calm s (assistant_tool cf b s)"
  by (auto simp: assistant_tool_def intro!: calmI split: option.split content_block.split)

lemma calm_synthetic: "calm s (note_synthetic w m s)"
  by (auto simp: note_synthetic_def calm_def Let_def keys_mput)

lemma calm_assistant: "calm s (handleAssistant cf m s)"
proof (cases "assistant_blocks (cf_wire cf) m")
  case (Some bs)
  let ?s2 = "emit_event cf (AssistantEvt (cur_turn s) (mc_Model (am_Message m)) bs (am_ParentToolUseID m))
       (note_synthetic (cf_wire cf) m s)"
  have "calm s ?s2" by (rule calm_trans [OF calm_synthetic calm_emit]) simp
  moreover have "calm ?s2 (fold (assistant_tool cf) bs (fold (assistant_text cf) bs ?s2))"
    by (rule calm_trans [OF calm_fold calm_fold]) (rule calm_text calm_tool)+
  moreover have "calm s' (on_turns (AppendContentBlocks bs) s')" for s' by (auto intro!: calmI)
  ultimately show ?thesis
    using Some by (simp add: handleAssistant_def Let_def) (meson calm_trans)
qed (simp add: handleAssistant_def)

lemma calm_user: "calm s (handleUser cf m s)"
proof -
  have r: "calm s' (user_result cf b s')" for b s'
    by (auto simp: user_result_def split: content_block.split)
  have "calm s (fold (user_result cf) bs (emit_event cf (UserEvt n bs p) s))" for bs n p
    by (rule calm_trans [OF _ calm_fold [OF r]]) simp
  moreover have "calm s' (on_turns (AppendContentBlocks bs) s')" for bs s' by (auto intro!: calmI)
  ultimately show ?thesis
    by (auto simp: handleUser_def split: option.split) (meson calm_trans)
qed

lemma calm_actions: "calm s (do_actions cf wr as s)"
  unfolding do_actions_def
  by (rule calm_fold) (auto simp: do_action_def intro!: calmI split: control_action.split option.split)

lemma calm_response: "calm s (handleControlResponse p s)"
  by (auto simp: handleControlResponse_def intro!: calmI split: option.split)

lemma calm_cancel: "calm s (handleControlCancel rid s)"
proof -
  have "calm s' (s'\<lparr>ss_pendingControl := x\<rparr>)" for s' x by (simp add: calmI)
  from calm_trans [OF calm_response this] show ?thesis by (simp add: handleControlCancel_def Let_def)
qed

lemma calm_message: "(\<And>m. msg \<noteq> MsgResult m) \<Longrightarrow> calm s (handleMessage cf now wr msg s)"
  by (auto simp: handleMessage_def calm_system calm_stream calm_assistant calm_user calm_actions calm_response calm_cancel
      split: message.split)

section \<open>The invariant\<close>

text \<open>
  Turns are numbered from one without gaps; only the current turn may have an announced error; a turn
  that is over has no waiters; a suppressed turn is the current one and its safety timer is armed, or
  its callback is on the way; and a session that was stopped is closed for good.
\<close>

definition turn_numbers :: "nat \<Rightarrow> int list" where
  "turn_numbers n = map int [1..<Suc n]"

lemma turn_numbers_simps [simp]: "turn_numbers 0 = []" "turn_numbers (Suc n) = turn_numbers n @ [int n + 1]"
  by (simp_all add: turn_numbers_def)

definition turns_ok :: "turnManager \<Rightarrow> bool" where
  "turns_ok tm \<longleftrightarrow> map tn_Number (tm_turns tm) = turn_numbers (length (tm_turns tm)) \<and>
     tm_currentTurnNumber tm = int (length (tm_turns tm)) \<and>
     wf_map (tm_completionWaiters tm) \<and> wf_map (tm_completedResults tm) \<and>
     keys (tm_completedResults tm) \<subseteq> {0..tm_currentTurnNumber tm} \<and>
     keys (tm_completionWaiters tm) \<subseteq> {1..tm_currentTurnNumber tm} - keys (tm_completedResults tm)"

definition wakeup_ok :: "claude_session \<Rightarrow> bool" where
  "wakeup_ok s \<longleftrightarrow> (let w = ss_wakeup s in
     (ws_active w \<longleftrightarrow> ws_timer w \<noteq> None) \<and>
     (ws_active w \<longrightarrow> ws_suppressedTurnNumber w = cur_turn s) \<and>
     ws_suppressedTurnNumber w \<in> {0, cur_turn s} \<and>
     (\<forall>d r f. ws_timer w = Some (d, r, f) \<longrightarrow> cr_TurnNumber r = cur_turn s \<and> 1 \<le> cur_turn s \<and> cr_Success r) \<and>
     (\<forall>r\<in>set (ss_callbacks s). 1 \<le> cr_TurnNumber r \<and> cr_TurnNumber r \<le> cur_turn s \<and> cr_Success r))"

definition life_ok :: "claude_session \<Rightarrow> bool" where
  "life_ok s \<longleftrightarrow> (ss_stopping s \<longleftrightarrow> ss_done s) \<and> (ss_stopping s \<longrightarrow> ss_started s) \<and>
     (ss_started s \<longleftrightarrow> ss_state s \<noteq> StateUninitialized) \<and>
     (ss_stopping s \<longleftrightarrow> ss_state s = StateClosed) \<and> (ss_stopping s \<longrightarrow> \<not> ws_active (ss_wakeup s))"

definition session_ok :: "claude_session \<Rightarrow> bool" where
  "session_ok s \<longleftrightarrow> turns_ok (ss_turns s) \<and> wakeup_ok s \<and> life_ok s \<and>
     keys (ss_pendingTransientErrors s) \<subseteq> {cur_turn s}"

lemma session_ok_updates [simp]:
  "session_ok (s\<lparr>ss_pendingControl := x1\<rparr>) = session_ok s" "session_ok (s\<lparr>ss_chans := x2\<rparr>) = session_ok s"
  "session_ok (s\<lparr>ss_sent := x3\<rparr>) = session_ok s" "session_ok (s\<lparr>ss_async := x4\<rparr>) = session_ok s"
  "session_ok (s\<lparr>ss_events := x5\<rparr>) = session_ok s" "session_ok (s\<lparr>ss_returned := x6\<rparr>) = session_ok s"
  by (simp_all add: session_ok_def wakeup_ok_def life_ok_def)

lemma calm_ok:
  assumes "calm s s'" and "session_ok s"
  shows "session_ok s'"
proof -
  have f: "sframe s' = sframe s" "keys (ss_pendingTransientErrors s') \<subseteq> insert (cur_turn s) (keys (ss_pendingTransientErrors s))"
    "ss_state s' = ss_state s \<or> (ss_state s = StateStarting \<and> ss_state s' = StateReady)"
    using assms(1) by (auto simp: calm_def)
  have g: "map tn_Number (tm_turns (ss_turns s')) = map tn_Number (tm_turns (ss_turns s))" "cur_turn s' = cur_turn s"
    "tm_completionWaiters (ss_turns s') = tm_completionWaiters (ss_turns s)"
    "tm_completedResults (ss_turns s') = tm_completedResults (ss_turns s)" "ss_wakeup s' = ss_wakeup s"
    "ss_callbacks s' = ss_callbacks s" "ss_started s' = ss_started s" "ss_stopping s' = ss_stopping s" "ss_done s' = ss_done s"
    using f(1) by (simp_all add: sframe_def tm_frame_def)
  have "length (tm_turns (ss_turns s')) = length (tm_turns (ss_turns s))" using g(1) by (metis length_map)
  then have "turns_ok (ss_turns s')" using assms(2) g by (simp add: session_ok_def turns_ok_def) auto
  moreover have "wakeup_ok s'" using assms(2) g by (simp add: session_ok_def wakeup_ok_def)
  moreover have "life_ok s'" using assms(2) f(3) g by (auto simp: session_ok_def life_ok_def)
  ultimately show ?thesis using assms(2) f(2) g(2) by (auto simp: session_ok_def)
qed

lemma completed_turns:
  assumes "turns_ok tm" and "0 \<le> cr_TurnNumber r" and "cr_TurnNumber r \<le> tm_currentTurnNumber tm"
  shows "turns_ok (snd (CompleteTurn r tm))"
  using assms by (auto simp: turns_ok_def CompleteTurn_def keys_mput keys_mdel)

text \<open>The completion of a turn, with no turn suppressed.\<close>

lemma finalize_fields:
  "ss_turns (finalizeTurn cf r b s) = snd (CompleteTurn r (ss_turns s))"
  "ss_wakeup (finalizeTurn cf r b s) = ss_wakeup s" "ss_callbacks (finalizeTurn cf r b s) = ss_callbacks s"
  "ss_started (finalizeTurn cf r b s) = ss_started s" "ss_stopping (finalizeTurn cf r b s) = ss_stopping s"
  "ss_done (finalizeTurn cf r b s) = ss_done s"
  "ss_pendingTransientErrors (finalizeTurn cf r b s) = ss_pendingTransientErrors s"
  "ss_state (finalizeTurn cf r b s) = transition_or_stay TransitionResultReceived (ss_state s)"
  "ss_returned (finalizeTurn cf r b s) = ss_returned s @ fst (CompleteTurn r (ss_turns s))"
  "ss_log (finalizeTurn cf r b s) = ss_log s @ [CompleteEvt
     \<lparr>ce_TurnNumber = cr_TurnNumber r, ce_Success = cr_Success r, ce_DurationMs = cr_DurationMs r,
      ce_Usage = cr_Usage r, ce_Error = cr_Error r, ce_WakeupTimedOut = b\<rparr>]"
  by (simp_all add: finalizeTurn_def Let_def CompleteTurn_def)

lemma cur_turn_complete [simp]: "tm_currentTurnNumber (snd (CompleteTurn r tm)) = tm_currentTurnNumber tm"
  by (simp add: CompleteTurn_def)

lemma state_after_result:
  "transition_or_stay TransitionResultReceived st = (if st = StateProcessing then StateReady else st)"
  by (cases st) (simp_all add: transition_or_stay_def session_Transition_def session_transitions_def)

lemma finalize_ok:
  assumes "session_ok s" and "0 \<le> cr_TurnNumber r" and "cr_TurnNumber r \<le> cur_turn s"
  shows "session_ok (finalizeTurn cf r b s)"
proof -
  have "turns_ok (snd (CompleteTurn r (ss_turns s)))"
    using completed_turns assms by (simp add: session_ok_def)
  with assms(1) show ?thesis
    by (auto simp: session_ok_def wakeup_ok_def life_ok_def finalize_fields state_after_result Let_def)
qed

lemma raw_result_fields [simp]:
  "ss_turns (raw_result cf m s) = ss_turns s" "ss_callbacks (raw_result cf m s) = ss_callbacks s"
  "ss_wakeup (raw_result cf m s) = rest_wakeup (ss_wakeup s)"
  "ss_started (raw_result cf m s) = ss_started s" "ss_stopping (raw_result cf m s) = ss_stopping s"
  "ss_done (raw_result cf m s) = ss_done s" "ss_state (raw_result cf m s) = ss_state s"
  "ss_returned (raw_result cf m s) = ss_returned s" "ss_cumulativeCost (raw_result cf m s) = ss_cumulativeCost s"
  "ss_pendingTransientErrors (raw_result cf m s) = mdel (cur_turn s) (ss_pendingTransientErrors s)"
  by (simp_all add: raw_result_def consumePendingTransient_def emit_raw_result_def)

lemma rest_wakeup_fields [simp]:
  "ws_timer (rest_wakeup w) = None" "\<not> ws_timerFired (rest_wakeup w)" "\<not> ws_active (rest_wakeup w)"
  "ws_suppressedTurnNumber (rest_wakeup w) = ws_suppressedTurnNumber w"
  "ws_accumulatedUsage (rest_wakeup w) = ws_accumulatedUsage w"
  "ws_suppressedWakeupToolID (rest_wakeup w) = ws_suppressedWakeupToolID w"
  by (simp_all add: rest_wakeup_def)

lemma turn_result_fields [simp]:
  "cr_TurnNumber (turn_result_of now m e acc n t) = n"
  "cr_Success (turn_result_of now m e acc n t) = (\<not> (IsFailure m \<or> e \<noteq> None))"
  "cr_Error (turn_result_of now m e acc n t) = e"
  "cr_Usage (turn_result_of now m e acc n t) = (usage_Add (wire_turn_usage m) acc)\<lparr>us_ContextWindow := context_window m\<rparr>"
  by (simp_all add: turn_result_of_def)

lemma rested_ok:
  assumes "session_ok s" and "ss_wakeup s1 = (rest_wakeup (ss_wakeup s))\<lparr>ws_accumulatedUsage := u\<rparr>"
    and "ss_turns s1 = ss_turns s" and "ss_callbacks s1 = ss_callbacks s" and "ss_state s1 = ss_state s"
    and "ss_started s1 = ss_started s" and "ss_stopping s1 = ss_stopping s" and "ss_done s1 = ss_done s"
    and "ss_pendingTransientErrors s1 = mdel (cur_turn s) (ss_pendingTransientErrors s)"
  shows "session_ok s1"
  using assms by (auto simp: session_ok_def wakeup_ok_def life_ok_def Let_def keys_mdel)

lemma complete_result_ok:
  assumes "session_ok s" and "0 \<le> cr_TurnNumber r" and "cr_TurnNumber r \<le> cur_turn s"
  shows "session_ok (complete_result cf n r s)"
  using finalize_ok [OF assms(1)] assms(2,3) by (simp add: complete_result_def Let_def)

lemma cur_turn_nonneg: "session_ok s \<Longrightarrow> 0 \<le> cur_turn s"
  by (simp add: session_ok_def turns_ok_def)

text \<open>The number of the result is that of the current turn.\<close>

lemma result_turn:
  "session_ok s \<Longrightarrow> (if ws_active (ss_wakeup s) then ws_suppressedTurnNumber (ss_wakeup s) else cur_turn s) = cur_turn s"
  by (simp add: session_ok_def wakeup_ok_def Let_def)

lemma current_turn_pos: "session_ok s \<Longrightarrow> latestScheduleWakeupToolID (CurrentTurn (ss_turns s)) \<noteq> [] \<Longrightarrow> 1 \<le> cur_turn s"
  by (auto simp: session_ok_def turns_ok_def latestScheduleWakeupToolID_def latestScheduleWakeup_def CurrentTurn_def
      Suc_le_eq split: if_splits)

lemma with_wakeup_ok:
  assumes "session_ok s" and "ws_timer w = None" and "\<not> ws_active w" and "ws_suppressedTurnNumber w \<in> {0, cur_turn s}"
  shows "session_ok (s\<lparr>ss_cumulativeCost := c, ss_wakeup := w\<rparr>)"
  using assms by (auto simp: session_ok_def wakeup_ok_def life_ok_def Let_def)

lemma with_timer_ok:
  assumes "session_ok s" and "ws_timer w = Some (d, r, False)" and "ws_active w" and "ws_suppressedTurnNumber w = cur_turn s"
    and "cr_TurnNumber r = cur_turn s" and "cr_Success r" and "1 \<le> cur_turn s" and "\<not> ss_stopping s"
  shows "session_ok (s\<lparr>ss_cumulativeCost := c, ss_wakeup := w, ss_blocks := bl\<rparr>)" (is "session_ok ?s")
proof -
  have k: "\<forall>r\<in>set (ss_callbacks s). 1 \<le> cr_TurnNumber r \<and> cr_TurnNumber r \<le> cur_turn s \<and> cr_Success r" "life_ok s"
    using assms(1) unfolding session_ok_def wakeup_ok_def Let_def by blast+
  then have "wakeup_ok ?s" using assms(2-7) by (auto simp: wakeup_ok_def)
  moreover have "life_ok ?s" using k(2) assms(8) by (simp add: life_ok_def)
  ultimately show ?thesis using assms(1) by (simp add: session_ok_def)
qed

lemma suppress_ok:
  assumes ok: "session_ok s" and pos: "1 \<le> cur_turn s"
    and w: "ws_timer (ss_wakeup s) = None" "ws_suppressedTurnNumber (ss_wakeup s) \<in> {0, cur_turn s}"
    and r: "cr_TurnNumber r = cur_turn s" "cr_Success r" and st: "\<not> ss_stopping s"
  shows "session_ok (suppress_wakeup cf m acc r s)"
proof (cases "over_budget cf (ss_cumulativeCost s @ [rs_TotalCostUSD m])")
  case True
  show ?thesis
    using True r pos w by (auto simp: suppress_wakeup_def Let_def intro!: complete_result_ok with_wakeup_ok [OF ok])
next
  case False
  show ?thesis
    using False r pos w st by (auto simp: suppress_wakeup_def Let_def intro!: with_timer_ok [OF ok])
qed

lemma handleResult_ok:
  assumes ok: "session_ok s" and st: "\<not> ss_stopping s"
  shows "session_ok (handleResult cf now m s)"
proof -
  let ?s2 = "(raw_result cf m s)\<lparr>ss_wakeup := (rest_wakeup (ss_wakeup s))\<lparr>ws_accumulatedUsage := zero_turn_usage\<rparr>\<rparr>"
  have raw: "session_ok (raw_result cf m s)"
    by (rule rested_ok [OF ok, where u = "ws_accumulatedUsage (ss_wakeup s)"]) (simp_all add: rest_wakeup_def)
  have s2: "session_ok ?s2" "\<And>c. session_ok (?s2\<lparr>ss_cumulativeCost := c\<rparr>)"
    by (rule rested_ok [OF ok]; simp)+
  have n: "ws_suppressedTurnNumber (ss_wakeup s) \<in> {0, cur_turn s}"
    using ok by (simp add: session_ok_def wakeup_ok_def Let_def)
  have "session_ok (suppress_wakeup cf m acc r ?s2)"
    if "latestScheduleWakeupToolID (CurrentTurn (ss_turns s)) \<noteq> []" "cr_TurnNumber r = cur_turn s" "cr_Success r" for acc r
    by (rule suppress_ok [OF s2(1)]) (use that n st current_turn_pos [OF ok] in simp_all)
  moreover have "session_ok (complete_result cf (cur_turn s) r (?s2\<lparr>ss_cumulativeCost := c\<rparr>))"
    if "cr_TurnNumber r = cur_turn s" for c r
    using complete_result_ok [OF s2(2)] that cur_turn_nonneg [OF ok] by simp
  ultimately show ?thesis
    unfolding handleResult_def Let_def result_turn [OF ok] raw_result_fields using raw by simp
qed

text \<open>The calls, the late callback, and the step.\<close>

lemma callback_ok:
  assumes "session_ok s" and "1 \<le> cr_TurnNumber r" and "cr_TurnNumber r \<le> cur_turn s"
  shows "session_ok (completeWakeupSuppressedTurn cf r s)"
proof (cases "ws_active (ss_wakeup s)")
  case True
  let ?s1 = "s\<lparr>ss_wakeup := (ss_wakeup s)\<lparr>ws_active := False, ws_timerFired := True, ws_timer := None,
      ws_accumulatedUsage := zero_turn_usage\<rparr>\<rparr>"
  have "session_ok ?s1" using assms(1) by (auto simp: session_ok_def wakeup_ok_def life_ok_def Let_def)
  moreover have "0 \<le> cr_TurnNumber r" "cr_TurnNumber r \<le> cur_turn ?s1" using assms by simp_all
  ultimately show ?thesis
    using True assms by (simp add: completeWakeupSuppressedTurn_def Let_def finalize_ok split: option.split)
qed (use assms in \<open>simp add: completeWakeupSuppressedTurn_def\<close>)

lemma start_turn_ok:
  assumes "turns_ok tm" shows "turns_ok (StartTurn now c tm)"
  using assms by (auto simp: turns_ok_def StartTurn_def Let_def add.commute)

lemma send_ok:
  assumes ok: "session_ok s" shows "session_ok (snd (send_turn now c msg wr s))"
proof (cases "send_refused s")
  case None
  then have p: "ss_pendingTransientErrors s = []" "\<not> ss_stopping s" "ss_started s"
    by (auto simp: send_refused_def split: if_splits)
  have t: "turns_ok (StartTurn now c (ss_turns s))" using start_turn_ok ok by (simp add: session_ok_def)
  let ?s1 = "(on_turns (StartTurn now c) s)\<lparr>ss_wakeup := wakeup_reset\<rparr>"
  have "\<forall>r\<in>set (ss_callbacks s). 1 \<le> cr_TurnNumber r \<and> cr_TurnNumber r \<le> cur_turn s + 1 \<and> cr_Success r"
    using ok by (fastforce simp: session_ok_def wakeup_ok_def Let_def)
  moreover have "cur_turn ?s1 = cur_turn s + 1" by (simp add: StartTurn_def Let_def)
  ultimately have "wakeup_ok ?s1" by (simp add: wakeup_ok_def wakeup_reset_def)
  then have "session_ok ?s1" "session_ok (?s1\<lparr>ss_sent := x, ss_state := transition_or_stay TransitionUserMessageSent (ss_state s)\<rparr>)" for x
    using ok t p by (cases "ss_state s"; auto simp: session_ok_def life_ok_def wakeup_ok_def Let_def wakeup_reset_def
        transition_or_stay_def session_Transition_def session_transitions_def)+
  then show ?thesis using None by (simp add: send_turn_def Let_def split: option.split)
qed (use ok in \<open>simp add: send_turn_def\<close>)

lemma waiting_ok:
  assumes "turns_ok tm" and "n \<notin> keys (tm_completedResults tm)" and "1 \<le> n" and "n \<le> tm_currentTurnNumber tm"
  shows "turns_ok (tm\<lparr>tm_completionWaiters := mput n ws (tm_completionWaiters tm)\<rparr>)"
  using assms by (simp add: turns_ok_def keys_mput) auto

lemma life_turns [simp]: "life_ok (s\<lparr>ss_turns := tm\<rparr>) = life_ok s"
  by (simp add: life_ok_def)

lemma turns_only_ok:
  assumes "session_ok s" and "turns_ok tm" and "tm_currentTurnNumber tm = cur_turn s"
  shows "session_ok (s\<lparr>ss_turns := tm\<rparr>)"
  using assms by (simp add: session_ok_def wakeup_ok_def)

lemma wait_ok:
  assumes ok: "session_ok s" shows "session_ok (claude_WaitForTurn wid s)"
proof (cases "map_of (tm_completedResults (ss_turns s)) (cur_turn s)")
  case None
  then have "cur_turn s \<notin> keys (tm_completedResults (ss_turns s))" by (simp add: lookup_None_keys)
  moreover have "turns_ok (ss_turns s)" "0 \<le> cur_turn s" using ok cur_turn_nonneg by (simp_all add: session_ok_def)
  ultimately show ?thesis
    using None ok by (auto simp: claude_WaitForTurn_def tm_WaitForTurn_def intro!: turns_only_ok waiting_ok)
qed (use ok in \<open>auto simp: claude_WaitForTurn_def tm_WaitForTurn_def session_ok_def wakeup_ok_def life_ok_def\<close>)

lemma stop_ok: "session_ok s \<Longrightarrow> session_ok (claude_Stop s)"
  by (cases "ss_state s") (auto simp: claude_Stop_def session_ok_def wakeup_ok_def life_ok_def Let_def wakeup_reset_def
      transition_or_stay_def session_Transition_def session_transitions_def)

lemma line_ok:
  assumes ok: "session_ok s" and "\<not> ss_done s" shows "session_ok (handleLine cf now wr line s)"
proof (cases "ParseMessage (cf_wire cf) line")
  case None
  then show ?thesis using calm_ok [OF calm_error ok] by (simp add: handleLine_def)
next
  case (Some msg)
  have "\<not> ss_stopping s" using assms by (simp add: session_ok_def life_ok_def)
  then show ?thesis
    using Some handleResult_ok [OF ok] calm_ok [OF calm_message ok]
    by (cases "\<exists>m. msg = MsgResult m") (auto simp: handleLine_def handleMessage_def)
qed

lemma session_start_ok: "session_ok s \<Longrightarrow> session_ok (snd (claude_Start e s))"
  by (auto simp: claude_Start_def session_ok_def wakeup_ok_def life_ok_def Let_def session_Transition_def
      session_transitions_def split: option.split)

lemma cancel_wait_ok:
  assumes "session_ok s" and "wid \<in> set (waiters_of n (ss_turns s))"
  shows "session_ok ((on_turns (wait_cancelled wid n) s)\<lparr>ss_returned := x\<rparr>)"
proof -
  have "n \<in> keys (tm_completionWaiters (ss_turns s))"
    using assms(2) by (cases "map_of (tm_completionWaiters (ss_turns s)) n") (auto simp: waiters_of_def lookup_in_keys)
  then have "turns_ok (wait_cancelled wid n (ss_turns s))" "tm_currentTurnNumber (wait_cancelled wid n (ss_turns s)) = cur_turn s"
    using assms by (simp_all add: session_ok_def turns_ok_def wait_cancelled_def keys_mput) auto
  then have "session_ok (s\<lparr>ss_turns := wait_cancelled wid n (ss_turns s)\<rparr>)" using turns_only_ok assms(1) by blast
  then show ?thesis by (simp add: on_turns_def)
qed

lemma timer_fires_ok:
  assumes ok: "session_ok s" and t: "ws_timer (ss_wakeup s) = Some (d, r, f)"
  shows "session_ok (s\<lparr>ss_callbacks := ss_callbacks s @ [r], ss_wakeup := (ss_wakeup s)\<lparr>ws_timer := Some (d, r, f')\<rparr>\<rparr>)"
proof -
  have "cr_TurnNumber r = cur_turn s \<and> 1 \<le> cur_turn s \<and> cr_Success r"
    using ok t by (fastforce simp: session_ok_def wakeup_ok_def Let_def)
  then show ?thesis
    using ok t by (simp add: session_ok_def wakeup_ok_def life_ok_def Let_def) (elim conjE, intro conjI ballI; auto)
qed

lemma fewer_callbacks_ok:
  assumes ok: "session_ok s"
  shows "session_ok (s\<lparr>ss_callbacks := take i (ss_callbacks s) @ drop j (ss_callbacks s)\<rparr>)"
proof -
  have "set (take i (ss_callbacks s) @ drop j (ss_callbacks s)) \<subseteq> set (ss_callbacks s)"
    by (auto dest: in_set_takeD in_set_dropD)
  then have "wakeup_ok (s\<lparr>ss_callbacks := take i (ss_callbacks s) @ drop j (ss_callbacks s)\<rparr>)"
    using ok by (simp add: session_ok_def wakeup_ok_def Let_def) blast
  moreover have "life_ok (s\<lparr>ss_callbacks := take i (ss_callbacks s) @ drop j (ss_callbacks s)\<rparr>) = life_ok s"
    by (simp add: life_ok_def)
  ultimately show ?thesis using ok by (simp add: session_ok_def)
qed

theorem session_step_ok:
  assumes ok: "session_ok s" shows "session_ok (session_step cf c s)"
proof (cases c)
  case (CallControl rid sub wr)
  then show ?thesis using ok
    by (auto simp: session_step_def sendControlRequest_def split: option.split)
next
  case (ControlReturns rid)
  then show ?thesis using ok by (simp add: session_step_def)
next
  case (WaitCancelled wid n e)
  then show ?thesis using ok cancel_wait_ok [OF ok] by (simp add: session_step_def)
next
  case (ReadFails e)
  then show ?thesis using ok calm_ok [OF calm_error ok] by (simp add: session_step_def)
next
  case TimerFires
  then show ?thesis using ok timer_fires_ok [OF ok] by (auto simp: session_step_def split: option.split bool.split)
next
  case (CallbackRuns i)
  have "session_ok (completeWakeupSuppressedTurn cf (ss_callbacks s ! i)
      (s\<lparr>ss_callbacks := take i (ss_callbacks s) @ drop (Suc i) (ss_callbacks s)\<rparr>))" if "i < length (ss_callbacks s)"
  proof (rule callback_ok [OF fewer_callbacks_ok [OF ok]])
    have "ss_callbacks s ! i \<in> set (ss_callbacks s)" using that by simp
    with ok show "1 \<le> cr_TurnNumber (ss_callbacks s ! i)" "cr_TurnNumber (ss_callbacks s ! i) \<le>
        cur_turn (s\<lparr>ss_callbacks := take i (ss_callbacks s) @ drop (Suc i) (ss_callbacks s)\<rparr>)"
      by (simp_all add: session_ok_def wakeup_ok_def Let_def)
  qed
  with CallbackRuns ok show ?thesis by (simp add: session_step_def)
next
  case (AsyncRuns i wr)
  then show ?thesis using ok calm_ok [OF calm_actions] by (simp add: session_step_def)
next
  case (TakeEvents k)
  then show ?thesis using ok by (simp add: session_step_def)
qed (use ok in \<open>simp_all add: session_step_def session_start_ok SendMessage_def SendToolResult_def send_ok wait_ok stop_ok line_ok\<close>)

interpretation session_machine: invariant_machine "session_step cf" "\<lambda>_. True" session_ok
  by unfold_locales (rule session_step_ok)

lemma new_session_ok: "session_ok NewClaudeSession"
  by (simp add: NewClaudeSession_def session_ok_def turns_ok_def newTurnManager_def wakeup_ok_def wakeup_reset_def life_ok_def
      Let_def)

lemma run_ok: "session_ok (session_run cf cs)"
  unfolding session_run_def by (rule session_machine.run_inv [OF new_session_ok]) (simp add: list_all_iff)

end
