(* ===== verification/ClaudeLedger.thy ===== *)
theory ClaudeLedger
  imports ClaudeSessionProps
begin

text \<open>
  What a session reports of the results it receives: each result completes at most one turn, the
  tokens and costs of a run of continuations all arrive in its completion, and who waits for a
  turn that another message has overtaken waits for ever.
\<close>

section \<open>What a result does to the history\<close>

lemma marks_raw:
  "\<exists>r. re_Usage r = wire_turn_usage m \<and> marks (raw_result cf m s) = marks s @ [ResultEvt r]"
  by (simp add: marks_def raw_result_def emit_raw_result_def consumePendingTransient_def)

lemma marks_finalize:
  "marks (finalizeTurn cf r b s) = marks s @ [CompleteEvt
     \<lparr>ce_TurnNumber = cr_TurnNumber r, ce_Success = cr_Success r, ce_DurationMs = cr_DurationMs r,
      ce_Usage = cr_Usage r, ce_Error = cr_Error r, ce_WakeupTimedOut = b\<rparr>]"
  by (simp add: marks_def finalize_fields)

lemma marks_updates [simp]:
  "marks (s\<lparr>ss_wakeup := x1\<rparr>) = marks s" "marks (s\<lparr>ss_cumulativeCost := x2\<rparr>) = marks s"
  "marks (s\<lparr>ss_blocks := x3\<rparr>) = marks s" "marks (s\<lparr>ss_turns := x4\<rparr>) = marks s"
  "marks (s\<lparr>ss_sent := x5\<rparr>) = marks s" "marks (s\<lparr>ss_state := x6\<rparr>) = marks s"
  "marks (s\<lparr>ss_returned := x7\<rparr>) = marks s" "marks (s\<lparr>ss_callbacks := x8\<rparr>) = marks s"
  "marks (s\<lparr>ss_async := x9\<rparr>) = marks s" "marks (s\<lparr>ss_events := x10\<rparr>) = marks s"
  "marks (s\<lparr>ss_pendingControl := x11\<rparr>) = marks s" "marks (s\<lparr>ss_chans := x12\<rparr>) = marks s"
  "marks (s\<lparr>ss_started := x13\<rparr>) = marks s" "marks (s\<lparr>ss_stopping := x14\<rparr>) = marks s"
  "marks (s\<lparr>ss_done := x15\<rparr>) = marks s" "marks (on_turns f s) = marks s"
  by (simp_all add: marks_def)

text \<open>The three outcomes of a result.\<close>

definition swallowed :: "ResultMsg \<Rightarrow> claude_session \<Rightarrow> claude_session \<Rightarrow> bool" where
  "swallowed m s s' \<longleftrightarrow> ws_timerFired (ss_wakeup s) \<and> ss_turns s' = ss_turns s \<and> ss_callbacks s' = ss_callbacks s \<and>
     ss_returned s' = ss_returned s \<and> ss_wakeup s' = rest_wakeup (ss_wakeup s) \<and>
     (\<exists>e. re_Usage e = wire_turn_usage m \<and> marks s' = marks s @ [ResultEvt e])"

definition completes :: "ResultMsg \<Rightarrow> claude_session \<Rightarrow> claude_session \<Rightarrow> bool" where
  "completes m s s' \<longleftrightarrow> \<not> ws_timerFired (ss_wakeup s) \<and> \<not> ws_timerFired (ss_wakeup s') \<and> \<not> ws_active (ss_wakeup s') \<and> ws_timer (ss_wakeup s') = None \<and>
     ws_accumulatedUsage (ss_wakeup s') = zero_turn_usage \<and> ss_callbacks s' = ss_callbacks s \<and>
     (\<exists>r. cr_Usage r = (usage_Add (wire_turn_usage m) (ws_accumulatedUsage (ss_wakeup s)))\<lparr>us_ContextWindow := context_window m\<rparr> \<and>
        cr_TurnNumber r = (if ws_active (ss_wakeup s) then ws_suppressedTurnNumber (ss_wakeup s) else cur_turn s) \<and>
        ss_turns s' = snd (CompleteTurn r (ss_turns s)) \<and> ss_returned s' = ss_returned s @ fst (CompleteTurn r (ss_turns s)) \<and>
        (\<exists>e c. re_Usage e = wire_turn_usage m \<and> ce_Usage c = cr_Usage r \<and>
          marks s' = marks s @ [ResultEvt e, CompleteEvt c]))"

definition suppresses :: "ResultMsg \<Rightarrow> claude_session \<Rightarrow> claude_session \<Rightarrow> bool" where
  "suppresses m s s' \<longleftrightarrow> \<not> ws_timerFired (ss_wakeup s) \<and> \<not> ws_timerFired (ss_wakeup s') \<and> ws_active (ss_wakeup s') \<and> ss_turns s' = ss_turns s \<and>
     ss_callbacks s' = ss_callbacks s \<and> ss_returned s' = ss_returned s \<and>
     ws_accumulatedUsage (ss_wakeup s') =
       usage_Add (usage_Add zero_turn_usage (wire_turn_usage m)) (ws_accumulatedUsage (ss_wakeup s)) \<and>
     (\<exists>e. re_Usage e = wire_turn_usage m \<and> marks s' = marks s @ [ResultEvt e])"

lemma completes_intro:
  assumes "\<not> ws_timerFired (ss_wakeup s)" and "ss_wakeup s1 = w" and "ws_timer w = None" and "\<not> ws_active w" and "\<not> ws_timerFired w"
    and "ws_accumulatedUsage w = zero_turn_usage" and "ss_turns s1 = ss_turns s" and "ss_callbacks s1 = ss_callbacks s"
    and "ss_returned s1 = ss_returned s" and "marks s1 = marks (raw_result cf m s)"
    and "cr_Usage r = (usage_Add (wire_turn_usage m) (ws_accumulatedUsage (ss_wakeup s)))\<lparr>us_ContextWindow := context_window m\<rparr>"
    and "cr_TurnNumber r = (if ws_active (ss_wakeup s) then ws_suppressedTurnNumber (ss_wakeup s) else cur_turn s)"
  shows "completes m s (complete_result cf n r s1)"
proof -
  obtain e where e: "re_Usage e = wire_turn_usage m" "marks s1 = marks s @ [ResultEvt e]"
    using marks_raw assms(10) by metis
  obtain r1 where r1: "complete_result cf n r s1 = finalizeTurn cf r1 False s1" "cr_Usage r1 = cr_Usage r"
    "cr_TurnNumber r1 = cr_TurnNumber r"
    by (simp add: complete_result_def Let_def)
  have "\<exists>c. ce_Usage c = cr_Usage r1 \<and> marks (finalizeTurn cf r1 False s1) = marks s @ [ResultEvt e, CompleteEvt c]"
    by (simp add: marks_finalize e(2))
  moreover have "ss_turns (finalizeTurn cf r1 False s1) = snd (CompleteTurn r1 (ss_turns s))"
    "ss_returned (finalizeTurn cf r1 False s1) = ss_returned s @ fst (CompleteTurn r1 (ss_turns s))"
    by (simp_all add: finalize_fields assms)
  ultimately show ?thesis
    unfolding completes_def r1(1) using assms e(1) r1(2,3) by (auto simp: finalize_fields intro!: exI [of _ r1])
qed

lemma if_cases: "P a \<Longrightarrow> P b \<Longrightarrow> P (if c then a else b)"
  by simp

lemma handleResult_outcome:
  "swallowed m s (handleResult cf now m s) \<or> completes m s (handleResult cf now m s) \<or> suppresses m s (handleResult cf now m s)"
proof (cases "ws_timerFired (ss_wakeup s)")
  case True
  then show ?thesis using marks_raw by (simp add: handleResult_def swallowed_def)
next
  case False
  define w2 where "w2 = (rest_wakeup (ss_wakeup s))\<lparr>ws_accumulatedUsage := zero_turn_usage\<rparr>"
  define s2 where "s2 = (raw_result cf m s)\<lparr>ss_wakeup := w2\<rparr>"
  define acc where "acc = ws_accumulatedUsage (ss_wakeup s)"
  define r where "r = turn_result_of now m (raw_error m s) acc
      (if ws_active (ss_wakeup s) then ws_suppressedTurnNumber (ss_wakeup s) else cur_turn s) (CurrentTurn (ss_turns s))"
  have r: "cr_Usage r = (usage_Add (wire_turn_usage m) (ws_accumulatedUsage (ss_wakeup s)))\<lparr>us_ContextWindow := context_window m\<rparr>"
    "cr_TurnNumber r = (if ws_active (ss_wakeup s) then ws_suppressedTurnNumber (ss_wakeup s) else cur_turn s)"
    by (simp_all add: r_def acc_def)
  have w2: "ws_timer w2 = None" "\<not> ws_active w2" "\<not> ws_timerFired w2" "ws_accumulatedUsage w2 = zero_turn_usage" by (simp_all add: w2_def)
  have c: "completes m s (complete_result cf n r (s2\<lparr>ss_cumulativeCost := x, ss_wakeup := w\<rparr>))"
    if "ws_timer w = None" "\<not> ws_active w" "\<not> ws_timerFired w" "ws_accumulatedUsage w = zero_turn_usage" for n x w
    by (rule completes_intro [OF False, where w = w]) (use that r in \<open>simp_all add: s2_def\<close>)
  have p: "completes m s (complete_result cf n r (s2\<lparr>ss_cumulativeCost := x\<rparr>))" for n x
    by (rule completes_intro [OF False, where w = w2]) (use w2 r in \<open>simp_all add: s2_def\<close>)
  have "suppresses m s (suppress_wakeup cf m acc r s2) \<or> completes m s (suppress_wakeup cf m acc r s2)"
  proof (cases "over_budget cf (ss_cumulativeCost s2 @ [rs_TotalCostUSD m])")
    case True
    have "ss_wakeup s2 = w2" by (simp add: s2_def)
    with True c w2 show ?thesis by (simp add: suppress_wakeup_def Let_def)
  next
    case over: False
    obtain e where "re_Usage e = wire_turn_usage m" "marks (raw_result cf m s) = marks s @ [ResultEvt e]"
      using marks_raw by metis
    with over False show ?thesis
      by (auto simp: suppress_wakeup_def Let_def suppresses_def s2_def w2_def acc_def)
  qed
  note sup = this
  have "P (handleResult cf now m s)"
    if "P (suppress_wakeup cf m acc r s2)"
      "P (complete_result cf (cur_turn s) r (s2\<lparr>ss_cumulativeCost := ss_cumulativeCost s2 @ [rs_TotalCostUSD m]\<rparr>))" for P
    unfolding handleResult_def Let_def raw_result_fields if_not_P [OF False]
    by (rule if_cases) (use that in \<open>simp_all only: s2_def w2_def r_def acc_def raw_result_fields\<close>)
  from this [of "\<lambda>t. completes m s t \<or> suppresses m s t"] show ?thesis using sup p by blast
qed

section \<open>One completion for a result\<close>

definition completions :: "claude_session \<Rightarrow> nat" where
  "completions s = length (filter (\<lambda>e. case e of CompleteEvt _ \<Rightarrow> True | _ \<Rightarrow> False) (ss_log s))"

definition results :: "claude_session \<Rightarrow> nat" where
  "results s = length (filter (\<lambda>e. case e of ResultEvt _ \<Rightarrow> True | _ \<Rightarrow> False) (ss_log s))"

lemma counts_marks:
  "completions s = length (filter (\<lambda>e. case e of CompleteEvt _ \<Rightarrow> True | _ \<Rightarrow> False) (marks s))"
  "results s = length (filter (\<lambda>e. case e of ResultEvt _ \<Rightarrow> True | _ \<Rightarrow> False) (marks s))"
  unfolding completions_def results_def marks_def filter_filter
  by (rule arg_cong [where f = length], rule filter_cong; auto simp: is_mark_def split: session_event.splits)+

definition once_ok :: "claude_session \<Rightarrow> bool" where
  "once_ok s \<longleftrightarrow> completions s + of_bool (ws_active (ss_wakeup s)) \<le> results s"

text \<open>The steps that neither receive a result nor complete a turn.\<close>

lemma calm_marks: "calm s s' \<Longrightarrow> marks s' = marks s \<and> ss_wakeup s' = ss_wakeup s \<and> ss_callbacks s' = ss_callbacks s"
  by (simp add: calm_def sframe_def)

lemma once_okI: "marks s' = marks s \<Longrightarrow> (ws_active (ss_wakeup s') \<Longrightarrow> ws_active (ss_wakeup s)) \<Longrightarrow> once_ok s \<Longrightarrow> once_ok s'"
  by (auto simp: once_ok_def counts_marks)

lemma once_result: "once_ok s \<Longrightarrow> once_ok (handleResult cf now m s)"
  using handleResult_outcome [of m s cf now]
  by (auto simp: once_ok_def counts_marks swallowed_def completes_def suppresses_def of_bool_def split: if_splits)

lemma once_line: "once_ok s \<Longrightarrow> once_ok (handleLine cf now wr line s)"
proof (cases "ParseMessage (cf_wire cf) line")
  case None
  assume "once_ok s"
  with calm_marks [OF calm_error] show ?thesis using None by (auto simp: handleLine_def intro: once_okI)
next
  case (Some msg)
  assume "once_ok s"
  then show ?thesis
    using Some once_result calm_marks [OF calm_message, of msg]
    by (cases "\<exists>m. msg = MsgResult m") (auto simp: handleLine_def handleMessage_def intro: once_okI)
qed

lemma once_callback: "once_ok s \<Longrightarrow> once_ok (completeWakeupSuppressedTurn cf r s)"
  by (auto simp: completeWakeupSuppressedTurn_def Let_def once_ok_def counts_marks marks_finalize finalize_fields)

text \<open>A call of the user.\<close>

lemma call_marks:
  "marks (snd (send_turn now c msg wr s)) = marks s"
  "ss_wakeup (snd (send_turn now c msg wr s)) = (if send_refused s = None then wakeup_reset else ss_wakeup s)"
  "ss_callbacks (snd (send_turn now c msg wr s)) = ss_callbacks s"
  by (auto simp: send_turn_def Let_def split: option.split)

lemma start_marks:
  "marks (snd (claude_Start e s)) = marks s" "ss_wakeup (snd (claude_Start e s)) = ss_wakeup s"
  "ss_callbacks (snd (claude_Start e s)) = ss_callbacks s"
  by (auto simp: claude_Start_def split: option.split)

lemma wait_marks:
  "marks (claude_WaitForTurn wid s) = marks s" "ss_wakeup (claude_WaitForTurn wid s) = ss_wakeup s"
  "ss_callbacks (claude_WaitForTurn wid s) = ss_callbacks s"
  by (auto simp: claude_WaitForTurn_def tm_WaitForTurn_def split: option.split)

lemma stop_marks:
  "marks (claude_Stop s) = marks s" "ss_callbacks (claude_Stop s) = ss_callbacks s"
  "ss_wakeup (claude_Stop s) = (if \<not> ss_started s \<or> ss_stopping s then ss_wakeup s else wakeup_reset)"
  by (simp_all add: claude_Stop_def)

lemma control_marks:
  "marks (sendControlRequest rid sub wr s) = marks s" "ss_wakeup (sendControlRequest rid sub wr s) = ss_wakeup s"
  "ss_callbacks (sendControlRequest rid sub wr s) = ss_callbacks s"
  by (auto simp: sendControlRequest_def split: option.split)

lemmas calls_marks = call_marks start_marks wait_marks stop_marks control_marks

lemma wakeup_reset_fields [simp]:
  "\<not> ws_active wakeup_reset" "ws_accumulatedUsage wakeup_reset = zero_turn_usage" "ws_timer wakeup_reset = None"
  "\<not> ws_timerFired wakeup_reset" "ws_suppressedTurnNumber wakeup_reset = 0"
  by (simp_all add: wakeup_reset_def)

lemma once_step:
  assumes "once_ok s" shows "once_ok (session_step cf c s)"
proof (cases c)
  case (ReadLine now line wr)
  then show ?thesis using assms once_line by (simp add: session_step_def)
next
  case (CallbackRuns i)
  have "once_ok (s\<lparr>ss_callbacks := x\<rparr>)" for x using assms by (rule once_okI [rotated 2]) simp_all
  with CallbackRuns assms once_callback show ?thesis by (simp add: session_step_def)
next
  case (ReadFails e)
  have "once_ok (emit_error cf er ctx s)" for er ctx
    by (rule once_okI [OF _ _ assms]) (use calm_marks [OF calm_error] in simp_all)
  with ReadFails assms show ?thesis by (simp add: session_step_def)
next
  case (AsyncRuns i wr)
  have "once_ok (do_actions cf wr as (s\<lparr>ss_async := x\<rparr>))" for as x
    by (rule once_okI [OF _ _ assms]) (use calm_marks [OF calm_actions] in simp_all)
  with AsyncRuns assms show ?thesis by (simp add: session_step_def)
next
  case TimerFires
  show ?thesis
    by (rule once_okI [OF _ _ assms]) (auto simp: TimerFires session_step_def split: option.splits bool.splits)
qed (rule once_okI [OF _ _ assms]; simp add: session_step_def SendMessage_def SendToolResult_def calls_marks split: if_splits)+

interpretation once_machine: invariant_machine "session_step cf" "\<lambda>_. True" once_ok
  by unfold_locales (rule once_step)

lemma run_once: "once_ok (session_run cf cs)"
  unfolding session_run_def
  by (rule once_machine.run_inv) (simp_all add: list_all_iff NewClaudeSession_def once_ok_def completions_def)

text \<open>C15. A session reports the end of a turn at most once for each result it receives, whatever the
  interleaving of the reader, the callers and the safety timer; and while a turn is held back for a
  wake-up, one of the results received has not been used for a completion.
\<close>

theorem claude_completes_once:
  "completions (session_run cf cs) + of_bool (ws_active (ss_wakeup (session_run cf cs))) \<le> results (session_run cf cs)"
  using run_once [of cf cs] by (simp add: once_ok_def)

section \<open>A sample session\<close>

text \<open>A command line that is read letter by letter: \<open>w\<close> asks to be woken up and \<open>r\<close> is a result.\<close>

definition sample_claude_wire :: wire where
  "sample_claude_wire = \<lparr>
     w_parse = (\<lambda>line.
       if line = ''w'' then Some (JObj [(''type'', JStr ''assistant''), (''message'', JObj [(''content'',
         JArr [JObj [(''type'', JStr ''tool_use''), (''id'', JStr ''t1''), (''name'', JStr ''ScheduleWakeup''),
           (''input'', JObj [(''delaySeconds'', JNum ''90'')])]])])])
       else if line = ''r'' then Some (JObj [(''type'', JStr ''result''), (''subtype'', JStr ''success''),
         (''usage'', JObj [(''input_tokens'', JNum ''10''), (''output_tokens'', JNum ''3'')]),
         (''total_cost_usd'', JNum ''2''), (''duration_ms'', JNum ''5'')])
       else None),
     w_f64 = (\<lambda>lit. if lit = ''90'' then Some 90 else if lit = ''2'' then Some 2 else None),
     w_text = (\<lambda>v. []), w_error = (\<lambda>v. [])\<rparr>"

definition sample_claude_config :: claude_config where
  "sample_claude_config = \<lparr>cf_MaxTurns = 0, cf_MaxBudgetUSD = 0, cf_sum = sum_list, cf_EventBufferSize = 100,
     cf_control = \<lparr>cc_interactive = None, cc_permission = None, cc_elicitation = None, cc_hook = None,
       cc_sdk = (\<lambda>n. None)\<rparr>, cf_wire = sample_claude_wire\<rparr>"

definition no_error :: write_env where
  "no_error = (\<lambda>m. None)"

abbreviation sample_line :: "string \<Rightarrow> session_call" where
  "sample_line l \<equiv> ReadLine 0 l no_error"

section \<open>The tokens and costs of continuations\<close>

text \<open>
  A part of a usage that \<open>Add\<close> adds up and that does not look at the context window. What was
  received, reported and is held back is the sum over the history, and the accumulated usage.
\<close>

definition received :: "(TurnUsage \<Rightarrow> 'a::comm_monoid_add) \<Rightarrow> claude_session \<Rightarrow> 'a" where
  "received f s = sum_list (map (\<lambda>e. case e of ResultEvt r \<Rightarrow> f (re_Usage r) | _ \<Rightarrow> 0) (marks s))"

definition reported :: "(TurnUsage \<Rightarrow> 'a::comm_monoid_add) \<Rightarrow> claude_session \<Rightarrow> 'a" where
  "reported f s = sum_list (map (\<lambda>e. case e of CompleteEvt c \<Rightarrow> f (ce_Usage c) | _ \<Rightarrow> 0) (marks s))"

abbreviation (input) held :: "(TurnUsage \<Rightarrow> 'a) \<Rightarrow> claude_session \<Rightarrow> 'a" where
  "held f s \<equiv> f (ws_accumulatedUsage (ss_wakeup s))"

lemma ledger_marks:
  "marks s' = marks s @ es \<Longrightarrow> received f s' = received f s + sum_list (map (\<lambda>e. case e of ResultEvt r \<Rightarrow> f (re_Usage r) | _ \<Rightarrow> 0) es)"
  "marks s' = marks s @ es \<Longrightarrow> reported f s' = reported f s + sum_list (map (\<lambda>e. case e of CompleteEvt c \<Rightarrow> f (ce_Usage c) | _ \<Rightarrow> 0) es)"
  by (simp_all add: received_def reported_def)

text \<open>
  No safety timer fires, and no turn that is held back is abandoned by a new message or by \<open>Stop\<close>.
\<close>

definition orderly_call :: "session_call \<Rightarrow> claude_session \<Rightarrow> bool" where
  "orderly_call c s =
    (case c of
       TimerFires \<Rightarrow> False
     | CallSend _ _ _ \<Rightarrow> \<not> ws_active (ss_wakeup s)
     | CallSendToolResult _ _ _ _ \<Rightarrow> \<not> ws_active (ss_wakeup s)
     | CallStop \<Rightarrow> \<not> ws_active (ss_wakeup s)
     | _ \<Rightarrow> True)"

fun orderly :: "claude_config \<Rightarrow> session_call list \<Rightarrow> claude_session \<Rightarrow> bool" where
  "orderly cf [] s = True"
| "orderly cf (c # cs) s = (orderly_call c s \<and> orderly cf cs (session_step cf c s))"

definition quiet :: "claude_session \<Rightarrow> bool" where
  "quiet s \<longleftrightarrow> ss_callbacks s = [] \<and> \<not> ws_timerFired (ss_wakeup s) \<and>
     (ws_active (ss_wakeup s) \<or> ws_accumulatedUsage (ss_wakeup s) = zero_turn_usage)"

locale usage_measure =
  fixes f :: "TurnUsage \<Rightarrow> 'a::comm_monoid_add"
  assumes f_zero: "f zero_turn_usage = 0"
    and f_Add: "f (usage_Add u v) = f u + f v"
    and f_window: "f (u\<lparr>us_ContextWindow := n\<rparr>) = f u"
begin

definition balanced :: "claude_session \<Rightarrow> bool" where
  "balanced s \<longleftrightarrow> quiet s \<and> received f s = reported f s + held f s"

lemma balancedI:
  "marks s' = marks s \<Longrightarrow> ss_wakeup s' = ss_wakeup s \<Longrightarrow> ss_callbacks s' = ss_callbacks s \<Longrightarrow> balanced s \<Longrightarrow> balanced s'"
  by (simp add: balanced_def quiet_def received_def reported_def)

lemma balanced_calm: "calm s s' \<Longrightarrow> balanced s \<Longrightarrow> balanced s'"
  using balancedI [of s' s] calm_marks [of s s'] by simp

lemma balanced_swallowed: "swallowed m s s' \<Longrightarrow> \<not> balanced s"
  by (simp add: swallowed_def balanced_def quiet_def)

lemma balanced_completes:
  assumes "completes m s s'" and b: "balanced s"
  shows "balanced s'"
proof -
  obtain r :: claude_result and e :: result_event and c :: complete_event where u: "cr_Usage r = (usage_Add (wire_turn_usage m) (ws_accumulatedUsage (ss_wakeup s)))\<lparr>us_ContextWindow := context_window m\<rparr>"
    "re_Usage e = wire_turn_usage m" "ce_Usage c = cr_Usage r" "marks s' = marks s @ [ResultEvt e, CompleteEvt c]"
    and w: "ws_accumulatedUsage (ss_wakeup s') = zero_turn_usage" "ss_callbacks s' = ss_callbacks s"
      "\<not> ws_timerFired (ss_wakeup s')"
    using assms(1) unfolding completes_def by (elim conjE exE) (rule that; assumption)
  have "received f s' = received f s + f (wire_turn_usage m)"
    "reported f s' = reported f s + (f (wire_turn_usage m) + held f s)"
    using u(1-3) by (simp_all add: ledger_marks [OF u(4)] f_Add f_window)
  then show ?thesis using b w by (simp add: balanced_def quiet_def f_zero ac_simps)
qed

lemma balanced_suppresses:
  assumes "suppresses m s s'" and b: "balanced s"
  shows "balanced s'"
proof -
  obtain e :: result_event where u: "re_Usage e = wire_turn_usage m" "marks s' = marks s @ [ResultEvt e]"
    and w: "ss_callbacks s' = ss_callbacks s" "ws_active (ss_wakeup s')" "\<not> ws_timerFired (ss_wakeup s')" "ws_accumulatedUsage (ss_wakeup s') =
       usage_Add (usage_Add zero_turn_usage (wire_turn_usage m)) (ws_accumulatedUsage (ss_wakeup s))"
    using assms(1) unfolding suppresses_def by (elim conjE exE) (rule that; assumption)
  have "received f s' = received f s + f (wire_turn_usage m)" "reported f s' = reported f s"
    using u(1) by (simp_all add: ledger_marks [OF u(2)])
  then show ?thesis using b w by (simp add: balanced_def quiet_def f_zero f_Add ac_simps)
qed

lemma balanced_result: "balanced s \<Longrightarrow> balanced (handleResult cf now m s)"
  using handleResult_outcome balanced_swallowed balanced_completes balanced_suppresses by blast

lemma balanced_line:
  assumes "balanced s" shows "balanced (handleLine cf now wr line s)"
proof (cases "ParseMessage (cf_wire cf) line")
  case None
  then show ?thesis using balanced_calm [OF calm_error assms] by (simp add: handleLine_def)
next
  case (Some msg)
  show ?thesis
  proof (cases "\<exists>m. msg = MsgResult m")
    case True
    then show ?thesis using Some balanced_result [OF assms] by (auto simp: handleLine_def handleMessage_def)
  next
    case False
    then show ?thesis using Some balanced_calm [OF calm_message assms] by (simp add: handleLine_def)
  qed
qed

lemma balanced_reset:
  "balanced s \<Longrightarrow> \<not> ws_active (ss_wakeup s) \<Longrightarrow> marks s' = marks s \<Longrightarrow> ss_callbacks s' = ss_callbacks s \<Longrightarrow>
   ss_wakeup s' = wakeup_reset \<or> ss_wakeup s' = ss_wakeup s \<Longrightarrow> balanced s'"
  by (auto simp: balanced_def quiet_def received_def reported_def)

lemma balanced_step:
  assumes "balanced s" and "orderly_call c s"
  shows "balanced (session_step cf c s)"
proof (cases c)
  case (ReadLine now line wr)
  then show ?thesis using assms balanced_line by (simp add: session_step_def)
next
  case (ReadFails e)
  then show ?thesis using assms balanced_calm [OF calm_error] by (simp add: session_step_def)
next
  case (CallbackRuns i)
  then show ?thesis using assms by (simp add: session_step_def balanced_def quiet_def)
next
  case (AsyncRuns i wr)
  have "balanced (s\<lparr>ss_async := x\<rparr>)" for x by (rule balancedI [OF _ _ _ assms(1)]) simp_all
  then show ?thesis using AsyncRuns assms balanced_calm [OF calm_actions] by (simp add: session_step_def)
next
  case TimerFires
  then show ?thesis using assms by (simp add: orderly_call_def)
next
  case (CallSend t x wr)
  then have "\<not> ws_active (ss_wakeup s)" using assms(2) by (simp add: orderly_call_def)
  then show ?thesis
    by (rule balanced_reset [OF assms(1)]) (simp_all add: CallSend session_step_def SendMessage_def calls_marks)
next
  case (CallSendToolResult t i x wr)
  then have "\<not> ws_active (ss_wakeup s)" using assms(2) by (simp add: orderly_call_def)
  then show ?thesis
    by (rule balanced_reset [OF assms(1)]) (simp_all add: CallSendToolResult session_step_def SendToolResult_def calls_marks)
next
  case CallStop
  then have "\<not> ws_active (ss_wakeup s)" using assms(2) by (simp add: orderly_call_def)
  then show ?thesis
    by (rule balanced_reset [OF assms(1)]) (simp_all add: CallStop session_step_def calls_marks)
qed (rule balancedI [OF _ _ _ assms(1)]; simp add: session_step_def calls_marks)+

lemma balanced_run: "balanced s \<Longrightarrow> orderly cf cs s \<Longrightarrow> balanced (run_machine (session_step cf) cs s)"
  by (induction cs arbitrary: s) (simp_all add: balanced_step)

lemma balanced_new: "balanced NewClaudeSession"
  by (simp add: balanced_def quiet_def NewClaudeSession_def marks_def received_def reported_def f_zero)

lemma conserved: "orderly cf cs NewClaudeSession \<Longrightarrow>
    received f (session_run cf cs) = reported f (session_run cf cs) + held f (session_run cf cs)"
  using balanced_run [OF balanced_new] by (simp add: session_run_def balanced_def)

end

interpretation usage_input: usage_measure us_InputTokens
  by unfold_locales (simp_all add: zero_turn_usage_def usage_Add_def)

interpretation usage_output: usage_measure us_OutputTokens
  by unfold_locales (simp_all add: zero_turn_usage_def usage_Add_def)

interpretation usage_creation: usage_measure us_CacheCreationTokens
  by unfold_locales (simp_all add: zero_turn_usage_def usage_Add_def)

interpretation usage_read: usage_measure us_CacheReadTokens
  by unfold_locales (simp_all add: zero_turn_usage_def usage_Add_def)

interpretation usage_cost: usage_measure "\<lambda>u. mset (us_CostUSD u)"
  by unfold_locales (simp_all add: zero_turn_usage_def usage_Add_def)


definition sample_wakeup_run :: "session_call list" where
  "sample_wakeup_run = [CallStart None, CallSend 0 ''go'' None, sample_line ''w'', sample_line ''r'', sample_line ''r'']"

lemma sample_wakeup_orderly: "orderly sample_claude_config sample_wakeup_run NewClaudeSession"
  by code_simp

lemma sample_wakeup_reported: "reported us_InputTokens (session_run sample_claude_config sample_wakeup_run) = 20"
  by code_simp


end
