(* ===== verification/ClaudeReplies.thy ===== *)
theory ClaudeReplies
  imports ClaudeLedger
begin

text \<open>
  What the other side gets from a session: a caller whose turn was overtaken by another message is
  never answered; every request of the command line is answered once, with one exception; a tool is
  allowed only by a handler; and streamed text is reported as it came.
\<close>

section \<open>Waiters of an overtaken turn\<close>

definition stuck :: "nat \<Rightarrow> int \<Rightarrow> claude_session \<Rightarrow> bool" where
  "stuck wid n s \<longleftrightarrow> session_ok s \<and> n < cur_turn s \<and> wid \<in> set (waiters_of n (ss_turns s)) \<and>
     (\<forall>r\<in>set (ss_callbacks s). cr_TurnNumber r \<noteq> n)"

definition not_cancelled :: "nat \<Rightarrow> int \<Rightarrow> session_call \<Rightarrow> bool" where
  "not_cancelled wid n c = (case c of WaitCancelled i k _ \<Rightarrow> i \<noteq> wid \<or> k \<noteq> n | _ \<Rightarrow> True)"

lemma stuckI:
  "stuck wid n s \<Longrightarrow> session_ok s' \<Longrightarrow> cur_turn s \<le> cur_turn s' \<Longrightarrow>
   (wid \<in> set (waiters_of n (ss_turns s)) \<Longrightarrow> wid \<in> set (waiters_of n (ss_turns s'))) \<Longrightarrow>
   set (ss_callbacks s') \<subseteq> set (ss_callbacks s) \<union> {r. cr_TurnNumber r = cur_turn s} \<Longrightarrow> stuck wid n s'"
  by (auto simp: stuck_def)

lemma waiters_complete:
  "cr_TurnNumber r \<noteq> n \<Longrightarrow> waiters_of n (snd (CompleteTurn r tm)) = waiters_of n tm"
  "tm_currentTurnNumber (snd (CompleteTurn r tm)) = tm_currentTurnNumber tm"
  by (simp_all add: CompleteTurn_def waiters_of_def)

lemma waiters_frame: "tm_frame tm = tm_frame tm' \<Longrightarrow> waiters_of n tm = waiters_of n tm'"
  by (simp add: tm_frame_def waiters_of_def)

lemma calm_turns:
  assumes "calm s s'"
  shows "cur_turn s' = cur_turn s" "waiters_of n (ss_turns s') = waiters_of n (ss_turns s)" "ss_callbacks s' = ss_callbacks s"
proof -
  have f: "sframe s' = sframe s" using assms by (simp add: calm_def)
  then show "cur_turn s' = cur_turn s" by (rule cur_turn_frame)
  have "tm_frame (ss_turns s') = tm_frame (ss_turns s)" using f by (simp add: sframe_def)
  then show "waiters_of n (ss_turns s') = waiters_of n (ss_turns s)" by (rule waiters_frame)
  show "ss_callbacks s' = ss_callbacks s" using f by (simp add: sframe_def)
qed

lemma stuck_calm: "calm s s' \<Longrightarrow> stuck wid n s \<Longrightarrow> stuck wid n s'"
  using calm_turns [of s s'] calm_ok [of s s'] by (simp add: stuck_def)

lemma waiters_wait: "set (waiters_of n tm) \<subseteq> set (waiters_of n (snd (tm_WaitForTurn wid k tm)))"
  by (auto simp: tm_WaitForTurn_def waiters_of_def split: option.split)

lemma waiters_cancelled:
  "i \<noteq> wid \<or> k \<noteq> n \<Longrightarrow> wid \<in> set (waiters_of n tm) \<Longrightarrow> wid \<in> set (waiters_of n (wait_cancelled i k tm))"
  by (auto simp: wait_cancelled_def waiters_of_def update_conv')

lemma wait_cancelled_turn [simp]: "tm_currentTurnNumber (wait_cancelled i k tm) = tm_currentTurnNumber tm"
  by (simp add: wait_cancelled_def)

lemma wait_turn [simp]: "tm_currentTurnNumber (snd (tm_WaitForTurn wid k tm)) = tm_currentTurnNumber tm"
  by (simp add: tm_WaitForTurn_def split: option.split)

lemma start_waiters [simp]: "waiters_of n (StartTurn now c tm) = waiters_of n tm"
  "tm_currentTurnNumber (StartTurn now c tm) = tm_currentTurnNumber tm + 1"
  by (simp_all add: StartTurn_def waiters_of_def Let_def)

lemma stuck_result:
  assumes st: "stuck wid n s" and ok: "session_ok (handleResult cf now m s)"
  shows "stuck wid n (handleResult cf now m s)"
proof -
  have turn: "(if ws_active (ss_wakeup s) then ws_suppressedTurnNumber (ss_wakeup s) else cur_turn s) = cur_turn s"
    using st result_turn by (simp add: stuck_def)
  have n: "cur_turn s \<noteq> n" using st by (simp add: stuck_def)
  from handleResult_outcome [of m s cf now]
  have "cur_turn (handleResult cf now m s) = cur_turn s \<and> waiters_of n (ss_turns (handleResult cf now m s)) = waiters_of n (ss_turns s) \<and>
      ss_callbacks (handleResult cf now m s) = ss_callbacks s"
  proof (elim disjE)
    assume "completes m s (handleResult cf now m s)"
    then show ?thesis unfolding completes_def turn
      using waiters_complete n by (elim conjE exE) simp
  qed (simp_all add: swallowed_def suppresses_def)
  then show ?thesis using st ok by (simp add: stuck_def)
qed

lemma stuck_line:
  assumes st: "stuck wid n s" and ok: "session_ok (handleLine cf now wr line s)"
  shows "stuck wid n (handleLine cf now wr line s)"
proof (cases "ParseMessage (cf_wire cf) line")
  case None
  then show ?thesis using stuck_calm [OF calm_error st] by (simp add: handleLine_def)
next
  case (Some msg)
  show ?thesis
  proof (cases "\<exists>m. msg = MsgResult m")
    case True
    then obtain m where m: "msg = MsgResult m" by blast
    have "session_ok (handleResult cf now m s)" using ok Some m by (simp add: handleLine_def handleMessage_def)
    then show ?thesis using Some m stuck_result [OF st] by (simp add: handleLine_def handleMessage_def)
  next
    case False
    then show ?thesis using Some stuck_calm [OF calm_message st] by (simp add: handleLine_def)
  qed
qed

lemma stuck_callback:
  assumes st: "stuck wid n s" and "i < length (ss_callbacks s)"
    and ok: "session_ok (completeWakeupSuppressedTurn cf (ss_callbacks s ! i) (s\<lparr>ss_callbacks := cb\<rparr>))"
    and cb: "set cb \<subseteq> set (ss_callbacks s)"
  shows "stuck wid n (completeWakeupSuppressedTurn cf (ss_callbacks s ! i) (s\<lparr>ss_callbacks := cb\<rparr>))"
proof (rule stuckI [OF st ok])
  have "cr_TurnNumber (ss_callbacks s ! i) \<noteq> n" using st assms(2) by (simp add: stuck_def)
  then show "wid \<in> set (waiters_of n (ss_turns s)) \<Longrightarrow>
      wid \<in> set (waiters_of n (ss_turns (completeWakeupSuppressedTurn cf (ss_callbacks s ! i) (s\<lparr>ss_callbacks := cb\<rparr>))))"
    by (simp add: completeWakeupSuppressedTurn_def Let_def finalize_fields waiters_complete split: option.split)
qed (use cb in \<open>auto simp: completeWakeupSuppressedTurn_def Let_def finalize_fields waiters_complete split: option.split\<close>)

lemma stuck_step:
  assumes st: "stuck wid n s" and c: "not_cancelled wid n c"
  shows "stuck wid n (session_step cf c s)"
proof -
  have ok: "session_ok (session_step cf c s)" using st session_step_ok by (simp add: stuck_def)
  show ?thesis
  proof (cases c)
    case (ReadLine now line wr)
    then show ?thesis using st stuck_line [OF st] ok by (cases "ss_done s") (simp_all add: session_step_def)
  next
    case (ReadFails e)
    then show ?thesis using st stuck_calm [OF calm_error st] by (simp add: session_step_def)
  next
    case (AsyncRuns i wr)
    have "stuck wid n (s\<lparr>ss_async := x\<rparr>)" for x using st by (simp add: stuck_def)
    then show ?thesis using AsyncRuns st stuck_calm [OF calm_actions] by (simp add: session_step_def)
  next
    case (CallbackRuns i)
    then show ?thesis
      using st stuck_callback [OF st, of i cf "take i (ss_callbacks s) @ drop (Suc i) (ss_callbacks s)"] ok
      by (cases "i < length (ss_callbacks s)") (auto simp: session_step_def dest: in_set_takeD in_set_dropD)
  next
    case TimerFires
    have "cr_TurnNumber r = cur_turn s" if "ws_timer (ss_wakeup s) = Some (d, r, f)" for d r f
      using st that by (fastforce simp: stuck_def session_ok_def wakeup_ok_def Let_def)
    then show ?thesis
      by (intro stuckI [OF st ok]) (auto simp: TimerFires session_step_def split: option.split bool.split)
  next
    case (WaitCancelled i k e)
    then show ?thesis using c
      by (intro stuckI [OF st ok]) (auto simp: session_step_def not_cancelled_def intro: waiters_cancelled)
  next
    case (CallWait i)
    have "set (waiters_of n (ss_turns s)) \<subseteq> set (waiters_of n (ss_turns (claude_WaitForTurn i s))) \<and>
        cur_turn (claude_WaitForTurn i s) = cur_turn s"
      using waiters_wait [of n "ss_turns s" i "cur_turn s"] wait_turn [of i "cur_turn s" "ss_turns s"]
      by (cases "tm_WaitForTurn i (cur_turn s) (ss_turns s)"; cases "fst (tm_WaitForTurn i (cur_turn s) (ss_turns s))")
        (auto simp: claude_WaitForTurn_def)
    then show ?thesis
      by (intro stuckI [OF st ok]) (auto simp: CallWait session_step_def wait_marks)
  qed (intro stuckI [OF st ok]; auto simp: session_step_def SendMessage_def SendToolResult_def send_turn_def Let_def
      claude_Start_def sendControlRequest_def claude_Stop_def split: option.splits)+
qed

interpretation stuck_machine: invariant_machine "session_step cf" "not_cancelled wid n" "stuck wid n"
  by unfold_locales (rule stuck_step)

text \<open>A caller who waits for a turn that a later message has overtaken waits for ever: whatever the
  command line then sends, whatever timers fire and whatever calls are made, its wait stays registered
  and only the end of its own context takes it away, because every result completes the turn that is
  current when it arrives.
\<close>

theorem claude_waiter_stranded:
  assumes "wid \<in> set (waiters_of n (ss_turns (session_run cf cs)))" and "n < cur_turn (session_run cf cs)"
    and "list_all (\<lambda>r. cr_TurnNumber r \<noteq> n) (ss_callbacks (session_run cf cs))"
    and "list_all (not_cancelled wid n) later"
  shows "wid \<in> set (waiters_of n (ss_turns (session_run cf (cs @ later))))"
proof -
  have "stuck wid n (session_run cf cs)" using assms(1-3) run_ok by (simp add: stuck_def list_all_iff)
  then have "stuck wid n (session_run cf (cs @ later))"
    using stuck_machine.run_inv assms(4) by (simp add: session_run_def run_machine_append)
  then show ?thesis by (simp add: stuck_def)
qed

definition sample_overtaken :: "session_call list" where
  "sample_overtaken = [CallStart None, CallSend 0 ''a'' None, CallWait 0, CallSend 0 ''b'' None]"

lemma sample_overtaken_waits:
  "0 \<in> set (waiters_of 1 (ss_turns (session_run sample_claude_config sample_overtaken)))"
  "1 < cur_turn (session_run sample_claude_config sample_overtaken)"
  "list_all (\<lambda>r. cr_TurnNumber r \<noteq> 1) (ss_callbacks (session_run sample_claude_config sample_overtaken))"
  "list_all (not_cancelled 0 1) [sample_line ''r'', sample_line ''r'']"
  by code_simp+

theorem claude_waiter_stranded_witness:
  "0 \<in> set (waiters_of 1 (ss_turns (session_run sample_claude_config
     (sample_overtaken @ [sample_line ''r'', sample_line ''r'']))))"
  by (rule claude_waiter_stranded [OF sample_overtaken_waits])

section \<open>Answers to requests\<close>

fun replies :: "control_action list \<Rightarrow> (string \<times> control_body) list" where
  "replies [] = []"
| "replies (Reply rid body ctx # as) = (rid, body) # replies as"
| "replies (Report e ctx # as) = replies as"
| "replies (Async bs # as) = replies bs @ replies as"


lemma replies_append [simp]: "replies (as @ bs) = replies as @ replies bs"
  by (induction as rule: replies.induct) simp_all

lemma replies_reply [simp]: "replies (reply p ctx # as) = p # replies as"
  by (simp add: reply_def)

lemma replies_permission [simp]: "replies (permission_actions p) = (case fst p of None \<Rightarrow> [] | Some r \<Rightarrow> [r])"
  by (simp add: permission_actions_def split: option.split)

lemma replies_mcp [simp]:
  "replies (sendMCPResponse rid i b # as) = (rid, BodyMCP i b) # replies as"
  "replies (sendMCPErrorResponse rid i code msg # as) = (rid, BodyMCP i (RpcError code msg)) # replies as"
  "replies (sendControlSuccess rid body # as) = (rid, body) # replies as"
  by (simp_all add: sendMCPResponse_def sendMCPErrorResponse_def NewMCPResponse_def sendControlSuccess_def)

lemma permission_fst [simp]:
  "fst (NewPermissionDeny rid msg b) = rid" "fst (NewPermissionAllow rid u ps) = rid"
  "snd (NewPermissionDeny rid msg b) = BodyDeny msg b"
  "snd (NewPermissionAllow rid u ps) = BodyAllow (case u of None \<Rightarrow> [] | Some m \<Rightarrow> m) ps"
  by (simp_all add: NewPermissionDeny_def NewPermissionAllow_def)

text \<open>The single reply of each kind of request.\<close>

lemma mcp_replies: "\<exists>i b. replies (handleMCPMessage c w rid req) = [(rid, BodyMCP i b)]"
  by (simp add: handleMCPMessage_def tools_call_def split: option.split tool_outcome.split prod.split)

lemma hook_replies: "\<exists>m. replies (handleHookCallbackControl c rid req) = [(rid, BodyMap m)]"
  by (simp add: handleHookCallbackControl_def split: option.split sum.split)

lemma elicitation_replies: "\<exists>a m. replies (handleElicitationControl c rid req) = [(rid, BodyElicitation a m)]"
  by (simp add: handleElicitationControl_def split: option.split sum.split prod.split)

definition handler_allows :: "control_config \<Rightarrow> ToolUseRequest \<Rightarrow> bool" where
  "handler_allows c req =
    (case cc_permission c of
       None \<Rightarrow> False
     | Some h \<Rightarrow> (case h req of Inl e \<Rightarrow> False | Inr resp \<Rightarrow> pr_Behavior resp = ''allow''))"

definition is_allow :: "string \<times> control_body \<Rightarrow> bool" where
  "is_allow p = (case snd p of BodyAllow u ps \<Rightarrow> True | _ \<Rightarrow> False)"

lemma tool_reply:
  "fst (fst (HandleToolRequest c req)) = tq_RequestID req \<and> is_allow (fst (HandleToolRequest c req)) = handler_allows c req"
  by (simp add: HandleToolRequest_def handler_allows_def is_allow_def buildResponse_def Let_def split: option.split sum.split)

text \<open>What the user's handlers decide on a request to use a tool.\<close>

definition user_approves :: "control_config \<Rightarrow> ToolUseRequest \<Rightarrow> bool" where
  "user_approves c req =
    (case cc_interactive c of
       None \<Rightarrow> handler_allows c req
     | Some ih \<Rightarrow>
         if tq_ToolName req = ''AskUserQuestion'' then
           (case ParseQuestionsFromInput (tq_Input req) of Inl e \<Rightarrow> False | Inr qs \<Rightarrow> \<not> isl (ih_AskUserQuestion ih qs))
         else if tq_ToolName req = ''ExitPlanMode'' then
           (case ParsePlanInfoFromInput (tq_Input req) of Inl e \<Rightarrow> False | Inr plan \<Rightarrow> \<not> isl (ih_ExitPlanMode ih plan))
         else handler_allows c req)"

definition tool_request :: "string \<Rightarrow> CanUseToolRequest \<Rightarrow> ToolUseRequest" where
  "tool_request rid r = \<lparr>tq_Input = cu_Input r, tq_BlockedPath = cu_BlockedPath r, tq_RequestID = rid,
     tq_ToolName = cu_ToolName r\<rparr>"

lemma interactive_replies:
  "fst (handleAskUserQuestionControl ih rid req) = rid" "fst (handleExitPlanModeControl ih rid req) = rid"
  "is_allow (handleAskUserQuestionControl ih rid req) =
     (case ParseQuestionsFromInput (tq_Input req) of Inl e \<Rightarrow> False | Inr qs \<Rightarrow> \<not> isl (ih_AskUserQuestion ih qs))"
  "is_allow (handleExitPlanModeControl ih rid req) =
     (case ParsePlanInfoFromInput (tq_Input req) of Inl e \<Rightarrow> False | Inr plan \<Rightarrow> \<not> isl (ih_ExitPlanMode ih plan))"
  by (simp_all add: handleAskUserQuestionControl_def handleExitPlanModeControl_def is_allow_def split: sum.split)

lemma use_tool_reply:
  assumes "ParseControlRequest w request = Some (CanUseTool r)"
  shows "map fst (replies (handleControlRequest c w rid request)) = [rid] \<and>
    map is_allow (replies (handleControlRequest c w rid request)) = [user_approves c (tool_request rid r)]"
proof -
  have t: "tq_RequestID (tool_request rid r) = rid" by (simp add: tool_request_def)
  obtain resp e where h: "HandleToolRequest c (tool_request rid r) = (resp, e)" by (cases "HandleToolRequest c (tool_request rid r)")
  have "fst resp = rid" "is_allow resp = handler_allows c (tool_request rid r)"
    using tool_reply [of c "tool_request rid r"] by (simp_all add: h t)
  then show ?thesis
    using h interactive_replies unfolding handleControlRequest_def user_approves_def tool_request_def [symmetric] assms
    by (simp add: Let_def split: option.split)
qed

definition unread_request :: "wire \<Rightarrow> json option \<Rightarrow> bool" where
  "unread_request w request = (case ParseControlRequest w request of Some (OtherRequest t) \<Rightarrow> True | _ \<Rightarrow> False)"

text \<open>C32. Every request of the command line is answered once and under its own id: a malformed one, one of
  an unknown kind, one whose handler fails or panics and one no handler is configured for included.
  The exception are the kinds that are decoded but that no code reads, which get no answer at all.
\<close>

theorem claude_control_answered:
  "map fst (replies (handleControlRequest c w rid request)) = (if unread_request w request then [] else [rid])"
proof (cases "ParseControlRequest w request")
  case (Some req)
  show ?thesis
  proof (cases req)
    case (CanUseTool r)
    then show ?thesis using Some use_tool_reply [of w request r c rid] by (simp add: unread_request_def)
  next
    case (MCPMessage r)
    then show ?thesis using Some mcp_replies [of c w rid r] by (auto simp: handleControlRequest_def unread_request_def)
  next
    case (HookCallback r)
    then show ?thesis using Some hook_replies [of c rid r] by (auto simp: handleControlRequest_def unread_request_def)
  next
    case (Elicitation r)
    then show ?thesis using Some elicitation_replies [of c rid r] by (auto simp: handleControlRequest_def unread_request_def)
  qed (simp_all add: Some handleControlRequest_def unread_request_def HandleRequest_def ParseToolUseRequest_def)
qed (simp add: handleControlRequest_def unread_request_def)

text \<open>C36. A tool is allowed only when the user's side said so: a reply allows a tool exactly when the
  request is one to use a tool and the permission handler, or the handler of the interactive tool,
  approved it. With no handler, a failing handler, a malformed request or another kind of request no
  tool is allowed.
\<close>

theorem claude_tool_allowed:
  "list_ex is_allow (replies (handleControlRequest c w rid request)) =
    (case ParseControlRequest w request of
       Some (CanUseTool r) \<Rightarrow> user_approves c (tool_request rid r)
     | _ \<Rightarrow> False)"
proof (cases "ParseControlRequest w request")
  case (Some req)
  show ?thesis
  proof (cases req)
    case (CanUseTool r)
    then have "list_ex id (map is_allow (replies (handleControlRequest c w rid request))) = user_approves c (tool_request rid r)"
      using Some use_tool_reply [of w request r c rid] by simp
    then show ?thesis using Some CanUseTool by (simp add: list_ex_iff)
  next
    case (MCPMessage r)
    then show ?thesis using Some mcp_replies [of c w rid r] by (auto simp: handleControlRequest_def is_allow_def)
  next
    case (HookCallback r)
    then show ?thesis using Some hook_replies [of c rid r] by (auto simp: handleControlRequest_def is_allow_def)
  next
    case (Elicitation r)
    then show ?thesis using Some elicitation_replies [of c rid r] by (auto simp: handleControlRequest_def is_allow_def)
  qed (simp_all add: Some handleControlRequest_def is_allow_def HandleRequest_def ParseToolUseRequest_def)
qed (simp add: handleControlRequest_def is_allow_def)

section \<open>The session in every run\<close>


section \<open>A wake-up that is over\<close>

text \<open>A wake-up that is over holds later results back again: when the continuation of a turn has
  completed it without asking for another wake-up, the next result of the same turn is suppressed once
  more because of the old call, with a new safety timer, so three results give one completion. The
  identifier of the call that was already waited for is kept, but only compared while a suppression is
  active.
\<close>

theorem claude_stale_wakeup_held:
  "let s = session_run sample_claude_config (sample_wakeup_run @ [sample_line ''r'']) in
     results s = 3 \<and> completions s = 1 \<and> 1 \<in> keys (tm_completedResults (ss_turns s)) \<and>
     ws_active (ss_wakeup s) \<and> ws_suppressedWakeupToolID (ss_wakeup s) = ''t1'' \<and>
     map (\<lambda>u. tu_ID u) (case latestScheduleWakeup (CurrentTurn (ss_turns s)) of None \<Rightarrow> [] | Some u \<Rightarrow> [u]) = [''t1'']"
  by code_simp

end
