(* ===== verification/JiraState.thy ===== *)
theory JiraState
  imports GoStrings
begin

text \<open>
  The workflow steps of jiradozer and their state machine with history (\<open>jiradozer/state.go\<close>),
  the phases and their labels (\<open>steplabels.go\<close>), and reading a human's answer from the
  comments of an issue (\<open>poller.go\<close>).
\<close>

section \<open>Steps\<close>

datatype WorkflowStep =
    StepInit | StepPlanning | StepPlanReview | StepBuilding | StepCreatingPR | StepBuildReview
  | StepValidating | StepValidateReview | StepShipping | StepShipReview
  | StepDone | StepFailed | StepCancelled

fun step_String :: "WorkflowStep \<Rightarrow> string" where
  "step_String StepInit = ''init''"
| "step_String StepPlanning = ''planning''"
| "step_String StepPlanReview = ''plan_review''"
| "step_String StepBuilding = ''building''"
| "step_String StepCreatingPR = ''creating_pr''"
| "step_String StepBuildReview = ''build_review''"
| "step_String StepValidating = ''validating''"
| "step_String StepValidateReview = ''validate_review''"
| "step_String StepShipping = ''shipping''"
| "step_String StepShipReview = ''ship_review''"
| "step_String StepDone = ''done''"
| "step_String StepFailed = ''failed''"
| "step_String StepCancelled = ''cancelled''"

text \<open>The integer behind a step (\<open>iota\<close>).\<close>

fun step_no :: "WorkflowStep \<Rightarrow> int" where
  "step_no StepInit = 0"
| "step_no StepPlanning = 1"
| "step_no StepPlanReview = 2"
| "step_no StepBuilding = 3"
| "step_no StepCreatingPR = 4"
| "step_no StepBuildReview = 5"
| "step_no StepValidating = 6"
| "step_no StepValidateReview = 7"
| "step_no StepShipping = 8"
| "step_no StepShipReview = 9"
| "step_no StepDone = 10"
| "step_no StepFailed = 11"
| "step_no StepCancelled = 12"

definition IsTerminal :: "WorkflowStep \<Rightarrow> bool" where
  "IsTerminal s \<longleftrightarrow> s = StepDone \<or> s = StepFailed \<or> s = StepCancelled"

definition IsReview :: "WorkflowStep \<Rightarrow> bool" where
  "IsReview s \<longleftrightarrow> s = StepPlanReview \<or> s = StepBuildReview \<or> s = StepValidateReview \<or> s = StepShipReview"

definition key :: "WorkflowStep \<Rightarrow> WorkflowStep \<Rightarrow> int" where
  "key f t = step_no f * 100 + step_no t"

definition validTransitions :: "int list" where
  "validTransitions = [
     key StepInit StepPlanning,
     key StepPlanning StepPlanReview, key StepPlanning StepFailed,
     key StepPlanReview StepPlanning, key StepPlanReview StepBuilding, key StepPlanReview StepFailed,
     key StepBuilding StepCreatingPR, key StepBuilding StepFailed,
     key StepCreatingPR StepBuildReview, key StepCreatingPR StepFailed,
     key StepBuildReview StepBuilding, key StepBuildReview StepPlanning, key StepBuildReview StepValidating,
     key StepBuildReview StepFailed,
     key StepValidating StepValidateReview, key StepValidating StepFailed,
     key StepValidateReview StepValidating, key StepValidateReview StepBuilding,
     key StepValidateReview StepShipping, key StepValidateReview StepFailed,
     key StepShipping StepShipReview, key StepShipping StepFailed,
     key StepShipReview StepShipping, key StepShipReview StepBuilding, key StepShipReview StepDone,
     key StepShipReview StepFailed]"

record StepTransition =
  st_Timestamp :: time
  st_Trigger :: string
  st_From :: WorkflowStep
  st_To :: WorkflowStep

record StateMachine =
  sm_history :: "StepTransition list"
  sm_step :: WorkflowStep

definition NewStateMachine :: StateMachine where
  "NewStateMachine = \<lparr>sm_history = [], sm_step = StepInit\<rparr>"

definition record_step :: "time \<Rightarrow> WorkflowStep \<Rightarrow> string \<Rightarrow> StateMachine \<Rightarrow> StateMachine" where
  "record_step now target trigger sm =
    \<lparr>sm_history = sm_history sm @ [\<lparr>st_Timestamp = now, st_Trigger = trigger, st_From = sm_step sm, st_To = target\<rparr>],
     sm_step = target\<rparr>"

text \<open>The result is the error's three parts, or the machine after the step.\<close>

definition Transition :: "time \<Rightarrow> WorkflowStep \<Rightarrow> string \<Rightarrow> StateMachine \<Rightarrow>
    (WorkflowStep \<times> WorkflowStep \<times> string) + StateMachine" where
  "Transition now target trigger sm =
    (if key (sm_step sm) target \<notin> set validTransitions then Inl (sm_step sm, target, trigger)
     else Inr (record_step now target trigger sm))"

definition ForceState :: "time \<Rightarrow> WorkflowStep \<Rightarrow> StateMachine \<Rightarrow> StateMachine" where
  "ForceState now target sm = record_step now target ''forced'' sm"

section \<open>The machine's history\<close>

text \<open>
  The entries lead from the initial step to the current one without a gap, and each one not
  forced is an allowed transition.
\<close>

fun chain :: "WorkflowStep \<Rightarrow> StepTransition list \<Rightarrow> WorkflowStep \<Rightarrow> bool" where
  "chain s [] t = (s = t)"
| "chain s (e # es) t = (st_From e = s \<and>
     (st_Trigger e = ''forced'' \<or> key (st_From e) (st_To e) \<in> set validTransitions) \<and> chain (st_To e) es t)"

definition history_ok :: "StateMachine \<Rightarrow> bool" where
  "history_ok sm \<longleftrightarrow> chain StepInit (sm_history sm) (sm_step sm)"

lemma chain_snoc:
  "chain s (es @ [e]) t \<longleftrightarrow> chain s es (st_From e) \<and> st_To e = t \<and>
     (st_Trigger e = ''forced'' \<or> key (st_From e) (st_To e) \<in> set validTransitions)"
  by (induction es arbitrary: s) auto

lemma history_ok_New: "history_ok NewStateMachine"
  by (simp add: history_ok_def NewStateMachine_def)

lemma history_ok_Transition: "history_ok sm \<Longrightarrow> Transition now target trigger sm = Inr sm' \<Longrightarrow> history_ok sm'"
  by (auto simp: history_ok_def Transition_def record_step_def chain_snoc split: if_splits)

lemma history_ok_Force: "history_ok sm \<Longrightarrow> history_ok (ForceState now target sm)"
  by (simp add: history_ok_def ForceState_def record_step_def chain_snoc)

lemma step_no_range: "0 \<le> step_no s \<and> step_no s \<le> 12"
  by (cases s) simp_all

lemma step_no_inj: "step_no s = step_no t \<longleftrightarrow> s = t"
  by (cases s; cases t) simp_all

lemma two_digits:
  fixes a b c d :: int
  assumes "0 \<le> b" "b \<le> 12" "0 \<le> d" "d \<le> 12"
  shows "a * 100 + b = c * 100 + d \<longleftrightarrow> a = c \<and> b = d"
proof
  assume e: "a * 100 + b = c * 100 + d"
  have "\<not> a < c" "\<not> c < a" using e assms by linarith+
  then show "a = c \<and> b = d" using e by simp
qed simp

lemma key_inj: "key f t = key f' t' \<longleftrightarrow> f = f' \<and> t = t'"
  using step_no_range [of t] step_no_range [of t'] by (simp add: key_def two_digits step_no_inj)

lemma Transition_step: "Transition now target trigger sm = Inr sm' \<Longrightarrow> sm_step sm' = target"
  by (auto simp: Transition_def record_step_def split: if_splits)

section \<open>Phases and labels\<close>

definition phaseTable :: "(string \<times> WorkflowStep) list" where
  "phaseTable = [(''plan'', StepPlanning), (''build'', StepBuilding), (''validate'', StepValidating), (''ship'', StepShipping)]"

definition phaseForStep :: "WorkflowStep \<Rightarrow> string" where
  "phaseForStep s =
    (case s of
       StepPlanning \<Rightarrow> ''plan''
     | StepBuilding \<Rightarrow> ''build''
     | StepCreatingPR \<Rightarrow> ''build''
     | StepValidating \<Rightarrow> ''validate''
     | StepShipping \<Rightarrow> ''ship''
     | _ \<Rightarrow> [])"

definition startStepForPhase :: "string \<Rightarrow> WorkflowStep" where
  "startStepForPhase phase = (case map_of phaseTable phase of None \<Rightarrow> StepInit | Some s \<Rightarrow> s)"

fun phase_after :: "(string \<times> WorkflowStep) list \<Rightarrow> string \<Rightarrow> string" where
  "phase_after (p # q # ps) phase = (if fst p = phase then fst q else phase_after (q # ps) phase)"
| "phase_after _ phase = []"

definition phaseAfter :: "string \<Rightarrow> string" where
  "phaseAfter phase = phase_after phaseTable phase"

definition inProgressLabel :: "string \<Rightarrow> string" where
  "inProgressLabel phase = ''jiradozer-'' @ phase @ ''-inprogress''"

definition doneLabel :: "string \<Rightarrow> string" where
  "doneLabel phase = ''jiradozer-'' @ phase @ ''-done''"

definition skipLabel :: "string \<Rightarrow> string" where
  "skipLabel phase = ''jiradozer-skip-'' @ phase"

definition phaseForSkipLabel :: "string \<Rightarrow> string" where
  "phaseForSkipLabel label =
    (case find (\<lambda>p. label = skipLabel (fst p)) phaseTable of None \<Rightarrow> [] | Some p \<Rightarrow> fst p)"

definition isJiradozerLabel :: "string \<Rightarrow> bool" where
  "isJiradozerLabel label \<longleftrightarrow>
     list_ex (\<lambda>p. label = inProgressLabel (fst p) \<or> label = doneLabel (fst p)) phaseTable \<or>
     phaseForSkipLabel label \<noteq> []"

section \<open>Feedback\<close>

datatype FeedbackAction = FeedbackApprove | FeedbackApproveAll | FeedbackRedo | FeedbackComment

record Comment =
  cm_ID :: string
  cm_Body :: string
  cm_CreatedAt :: "time option"

record FeedbackResult =
  fb_Message :: string
  fb_Comment :: Comment
  fb_Action :: FeedbackAction

definition latestFeedbackComment :: "Comment list \<Rightarrow> string list \<Rightarrow> Comment option" where
  "latestFeedbackComment comments exclude = find (\<lambda>c. cm_ID c \<notin> set exclude) (rev comments)"

definition isApproveAllAction :: "string \<Rightarrow> bool" where
  "isApproveAllAction normalized \<longleftrightarrow> normalized \<in> set [''approve all'', ''approve_all'', ''yolo'']"

definition firstLine :: "string \<Rightarrow> string" where
  "firstLine body =
    (let t = TrimSpace body; l = takeWhile (\<lambda>c. byte c \<noteq> 13 \<and> byte c \<noteq> 10) t
     in if length l < length t then TrimSpace l else t)"

definition ParseCommentAction :: "(string \<Rightarrow> string) \<Rightarrow> string \<Rightarrow> FeedbackAction" where
  "ParseCommentAction ul body =
    (let lower = ToLower ul (firstLine body);
         normalized = TrimRight {CHR ''.'', CHR ''!'', CHR ''?''} lower
     in if isApproveAllAction normalized then FeedbackApproveAll
        else if normalized = ''approve'' \<or> normalized = ''lgtm'' \<or> normalized = ''ship it'' \<or> normalized = ''approved''
        then FeedbackApprove
        else if HasPrefix lower ''redo'' \<or> HasPrefix lower ''retry'' then FeedbackRedo
        else FeedbackComment)"

definition feedback_of :: "(string \<Rightarrow> string) \<Rightarrow> Comment \<Rightarrow> FeedbackResult" where
  "feedback_of ul c = \<lparr>fb_Message = cm_Body c, fb_Comment = c, fb_Action = ParseCommentAction ul (cm_Body c)\<rparr>"

text \<open>
  The successive answers of \<open>FetchComments\<close> during a poll (none for an error); after the
  last one the context ends, and the poll returns its error.
\<close>

fun PollForFeedback :: "(string \<Rightarrow> string) \<Rightarrow> Comment list option list \<Rightarrow> string list \<Rightarrow> FeedbackResult option" where
  "PollForFeedback ul [] excludeIDs = None"
| "PollForFeedback ul (None # fetches) excludeIDs = PollForFeedback ul fetches excludeIDs"
| "PollForFeedback ul (Some comments # fetches) excludeIDs =
    (case latestFeedbackComment comments excludeIDs of
       Some c \<Rightarrow> Some (feedback_of ul c)
     | None \<Rightarrow> PollForFeedback ul fetches excludeIDs)"

end
