(* ===== verification/JiraWorkflow.thy ===== *)
theory JiraWorkflow
  imports JiraState
begin

text \<open>
  The workflow that drives one issue from plan to done (\<open>jiradozer/workflow.go\<close>): running a
  step or its rounds, review gates with human feedback, redo with its circuit breaker, phase
  labels on the tracker and skipping of phases. The tracker, the agents, git and the clock
  answer through an oracle: the k-th call gets the k-th answer, whatever it is. What the
  workflow does to them is its trace. Errors are their texts.
\<close>

section \<open>Configuration, environment, state\<close>

datatype skipSource = SkipSourceCLI | SkipSourceLabel | SkipSourceConfig

text \<open>A round is its command, empty for an agent round.\<close>

record StepConfig =
  sg_Rounds :: "string list"
  sg_AutoApprove :: bool
  sg_CommentTemplate :: string
  sg_RoundCommentTemplate :: string

record Config =
  jc_Plan :: StepConfig
  jc_Build :: StepConfig
  jc_CreatePR :: StepConfig
  jc_Validate :: StepConfig
  jc_Ship :: StepConfig
  jc_SkipPhases :: "string list"
  jc_skipPhaseSource :: "skipSource option"
  jc_InProgress :: string
  jc_InReview :: string
  jc_Done :: string

record jenv =
  je_ul :: "string \<Rightarrow> string"
  je_now :: "nat \<Rightarrow> time"
  je_ctx :: "nat \<Rightarrow> string option"
  je_ok :: "nat \<Rightarrow> bool"
  je_fetch :: "nat \<Rightarrow> (string list \<times> string list) option"
  je_states :: "nat \<Rightarrow> string + (string \<times> string) list"
  je_comments :: "nat \<Rightarrow> Comment list option"
  je_polls :: "nat \<Rightarrow> Comment list option list"
  je_post :: "nat \<Rightarrow> Comment option"
  je_agent :: "nat \<Rightarrow> string + (string \<times> string)"
  je_command :: "nat \<Rightarrow> string + string"
  je_render :: "string \<Rightarrow> string \<Rightarrow> string \<Rightarrow> int \<Rightarrow> int \<Rightarrow> string + string"
  je_dirty :: "nat \<Rightarrow> bool option"
  je_diff :: "nat \<Rightarrow> bool option"
  je_plan :: "nat \<Rightarrow> string option"

datatype jaction =
    AddLabel string bool
  | RemoveLabel string bool
  | UpdateIssueState string
  | PostComment string
  | RunAgent string string string
  | RunCommand string string
  | PersistPlan string
  | OnTransition WorkflowStep

datatype phaseState = phaseNotStarted | phaseInProgress | phaseDone

record Workflow =
  jw_lastCommentAt :: "time option"
  jw_lastError :: "string option"
  jw_state :: StateMachine
  jw_sessionIDs :: "(WorkflowStep, string) gomap"
  jw_stateIDs :: "(string, string) gomap"
  jw_redoCounts :: "(WorkflowStep, int) gomap"
  jw_phases :: "(string, phaseState) gomap"
  jw_skip :: "(string, skipSource) gomap"
  jw_teamID :: string
  jw_labels :: "string list"
  jw_labelIDs :: "string list"
  jw_plan :: string
  jw_buildOutput :: string
  jw_feedback :: string
  jw_botCommentIDs :: "string list"
  jw_lastLabels :: "string list"
  jw_maxRedos :: int
  jw_approveAll :: bool
  jw_calls :: nat
  jw_trace :: "jaction list"

definition cur :: "Workflow \<Rightarrow> WorkflowStep" where
  "cur w = sm_step (jw_state w)"

definition tick :: "Workflow \<Rightarrow> Workflow" where
  "tick w = w\<lparr>jw_calls := jw_calls w + 1\<rparr>"

definition act :: "jaction \<Rightarrow> Workflow \<Rightarrow> Workflow" where
  "act a w = w\<lparr>jw_trace := jw_trace w @ [a]\<rparr>"

section \<open>Phases that are skipped\<close>

definition skipSourceForPhase :: "Config \<Rightarrow> string \<Rightarrow> skipSource option" where
  "skipSourceForPhase cfg phase =
    (if phase \<in> set (jc_SkipPhases cfg)
     then Some (case jc_skipPhaseSource cfg of None \<Rightarrow> SkipSourceConfig | Some s \<Rightarrow> s) else None)"

fun skipPhasePriority :: "skipSource \<Rightarrow> int" where
  "skipPhasePriority SkipSourceCLI = 3"
| "skipPhasePriority SkipSourceLabel = 2"
| "skipPhasePriority SkipSourceConfig = 1"

definition addSkipPhase :: "string \<Rightarrow> skipSource option \<Rightarrow> Workflow \<Rightarrow> Workflow" where
  "addSkipPhase phase source w =
    (if startStepForPhase phase = StepInit then w
     else case source of
         None \<Rightarrow> w
       | Some s \<Rightarrow>
           if (case map_of (jw_skip w) phase of None \<Rightarrow> False | Some p \<Rightarrow> skipPhasePriority p > skipPhasePriority s)
           then w else w\<lparr>jw_skip := mput phase s (jw_skip w)\<rparr>)"

definition label_phases :: "string list \<Rightarrow> string list" where
  "label_phases labels = filter (\<lambda>p. p \<noteq> []) (map phaseForSkipLabel labels)"

definition addSkipPhasesFromLabels :: "string list \<Rightarrow> Workflow \<Rightarrow> Workflow" where
  "addSkipPhasesFromLabels labels w = fold (\<lambda>p. addSkipPhase p (Some SkipSourceLabel)) (label_phases labels) w"

definition reconcileSkipPhasesFromLabels :: "Config \<Rightarrow> string list \<Rightarrow> Workflow \<Rightarrow> Workflow" where
  "reconcileSkipPhasesFromLabels cfg labels w =
    (let labelPhases = remdups (label_phases labels);
         kept = concat (map (\<lambda>(phase, source).
           if source \<noteq> SkipSourceLabel \<or> phase \<in> set labelPhases then [(phase, source)]
           else (case skipSourceForPhase cfg phase of Some s \<Rightarrow> [(phase, s)] | None \<Rightarrow> [])) (jw_skip w))
     in fold (\<lambda>p. addSkipPhase p (Some SkipSourceLabel)) labelPhases (w\<lparr>jw_skip := kept\<rparr>))"

definition isSkipPhase :: "string \<Rightarrow> Workflow \<Rightarrow> bool" where
  "isSkipPhase phase w \<longleftrightarrow> phase \<in> keys (jw_skip w)"

definition NewWorkflow :: "Config \<Rightarrow> string \<Rightarrow> string list \<Rightarrow> string list \<Rightarrow> Workflow" where
  "NewWorkflow cfg teamID labels labelIDs =
    (let w0 = \<lparr>jw_lastCommentAt = None, jw_lastError = None, jw_state = NewStateMachine, jw_sessionIDs = [],
           jw_stateIDs = [], jw_redoCounts = [], jw_phases = [], jw_skip = [], jw_teamID = teamID,
           jw_labels = filter (\<lambda>l. \<not> isJiradozerLabel l) labels, jw_labelIDs = labelIDs,
           jw_plan = [], jw_buildOutput = [], jw_feedback = [], jw_botCommentIDs = [], jw_lastLabels = labels,
           jw_maxRedos = 3, jw_approveAll = False, jw_calls = 0, jw_trace = []\<rparr>;
         w1 = fold (\<lambda>p. addSkipPhase p (skipSourceForPhase cfg p)) (jc_SkipPhases cfg) w0
     in addSkipPhasesFromLabels labels w1)"

section \<open>Transitions and failure\<close>

definition transition :: "jenv \<Rightarrow> WorkflowStep \<Rightarrow> string \<Rightarrow> Workflow \<Rightarrow> string option \<times> Workflow" where
  "transition env target trigger w =
    (case Transition (je_now env (jw_calls w)) target trigger (jw_state w) of
       Inl (f, t, tr) \<Rightarrow>
         (Some (''invalid transition from '' @ step_String f @ '' to '' @ step_String t @ '' (trigger: '' @ tr @ '')''), w)
     | Inr sm \<Rightarrow> (None, act (OnTransition target) (w\<lparr>jw_state := sm\<rparr>)))"

definition forceTransition :: "jenv \<Rightarrow> WorkflowStep \<Rightarrow> Workflow \<Rightarrow> Workflow" where
  "forceTransition env target w =
    act (OnTransition target) (w\<lparr>jw_state := ForceState (je_now env (jw_calls w)) target (jw_state w)\<rparr>)"

definition fail :: "jenv \<Rightarrow> string \<Rightarrow> Workflow \<Rightarrow> Workflow" where
  "fail env e w =
    (let w1 = w\<lparr>jw_lastError := Some e\<rparr> in
     case transition env StepFailed (''error: '' @ e) w1 of
       (None, w2) \<Rightarrow> w2
     | (Some _, w2) \<Rightarrow> w2\<lparr>jw_state := ForceState (je_now env (jw_calls w2)) StepFailed (jw_state w2)\<rparr>)"

section \<open>Phase labels\<close>

definition phase_of :: "string \<Rightarrow> Workflow \<Rightarrow> phaseState" where
  "phase_of phase w = (case map_of (jw_phases w) phase of None \<Rightarrow> phaseNotStarted | Some p \<Rightarrow> p)"

definition set_phase :: "string \<Rightarrow> phaseState \<Rightarrow> Workflow \<Rightarrow> Workflow" where
  "set_phase phase p w = w\<lparr>jw_phases := mput phase p (jw_phases w)\<rparr>"

definition tracker_AddLabel :: "jenv \<Rightarrow> string \<Rightarrow> Workflow \<Rightarrow> bool \<times> Workflow" where
  "tracker_AddLabel env label w =
    (let ok = je_ok env (jw_calls w) in (ok, act (AddLabel label ok) (tick w)))"

definition tracker_RemoveLabel :: "jenv \<Rightarrow> string \<Rightarrow> Workflow \<Rightarrow> Workflow" where
  "tracker_RemoveLabel env label w = act (RemoveLabel label (je_ok env (jw_calls w))) (tick w)"

definition update_state :: "string \<Rightarrow> Workflow \<Rightarrow> Workflow" where
  "update_state logical w =
    (case map_of (jw_stateIDs w) logical of None \<Rightarrow> w | Some i \<Rightarrow> act (UpdateIssueState i) (tick w))"

definition enterPhase :: "jenv \<Rightarrow> string \<Rightarrow> Workflow \<Rightarrow> Workflow" where
  "enterPhase env phase w =
    (if phase_of phase w \<noteq> phaseNotStarted then w
     else case tracker_AddLabel env (inProgressLabel phase) w of
         (False, w1) \<Rightarrow> w1
       | (True, w1) \<Rightarrow> set_phase phase phaseInProgress w1)"

definition completePhase :: "jenv \<Rightarrow> string \<Rightarrow> Workflow \<Rightarrow> Workflow" where
  "completePhase env phase w =
    (if phase_of phase w = phaseDone then w
     else case tracker_AddLabel env (doneLabel phase) w of
         (False, w1) \<Rightarrow> w1
       | (True, w1) \<Rightarrow> set_phase phase phaseDone (tracker_RemoveLabel env (inProgressLabel phase) w1))"

definition completePriorPhases :: "jenv \<Rightarrow> string \<Rightarrow> Workflow \<Rightarrow> Workflow" where
  "completePriorPhases env currentPhase w =
    fold (\<lambda>p w. if phase_of p w \<noteq> phaseDone then completePhase env p w else w)
      (takeWhile (\<lambda>p. p \<noteq> currentPhase) (map fst phaseTable)) w"

definition refreshLabels :: "jenv \<Rightarrow> Workflow \<Rightarrow> string list \<times> Workflow" where
  "refreshLabels env w =
    (case je_fetch env (jw_calls w) of
       None \<Rightarrow> (jw_lastLabels w, tick w)
     | Some (ls, ids) \<Rightarrow>
         (ls, (tick w)\<lparr>jw_lastLabels := ls, jw_labels := filter (\<lambda>l. \<not> isJiradozerLabel l) ls,
            jw_labelIDs := map snd (filter (\<lambda>p. \<not> isJiradozerLabel (fst p)) (zip ls ids))\<rparr>))"

definition cleanupStalePhaseLabels :: "jenv \<Rightarrow> Workflow \<Rightarrow> Workflow" where
  "cleanupStalePhaseLabels env w =
    (case refreshLabels env w of
       (labels, w1) \<Rightarrow> fold (\<lambda>p w. if phase_of p w = phaseDone \<and> inProgressLabel p \<in> set labels
                          then tracker_RemoveLabel env (inProgressLabel p) w else w) (map fst phaseTable) w1)"

text \<open>The plan on disk is read when the plan phase is skipped without a plan in memory.\<close>

definition load_plan :: "jenv \<Rightarrow> string \<Rightarrow> Workflow \<Rightarrow> Workflow" where
  "load_plan env phase w =
    (if phase = ''plan'' \<and> jw_plan w = [] then
       (case je_plan env (jw_calls w) of
          None \<Rightarrow> tick w
        | Some content \<Rightarrow> if content = [] then tick w else (tick w)\<lparr>jw_plan := content\<rparr>)
     else w)"

section \<open>Skipping phases\<close>

lemma phase_next_later:
  "phaseForStep s \<noteq> [] \<Longrightarrow> phaseAfter (phaseForStep s) \<noteq> [] \<Longrightarrow>
   step_no s < step_no (startStepForPhase (phaseAfter (phaseForStep s))) \<and>
   step_no (startStepForPhase (phaseAfter (phaseForStep s))) \<le> 8"
  by (cases s) (simp_all add: phaseForStep_def phaseAfter_def startStepForPhase_def phaseTable_def)

lemma cur_simps [simp]:
  "cur (tick w) = cur w" "cur (act a w) = cur w" "cur (set_phase p ps w) = cur w"
  "cur (tracker_RemoveLabel env l w) = cur w" "cur (load_plan env p w) = cur w"
  "cur (forceTransition env target w) = target"
  by (simp_all add: cur_def tick_def act_def set_phase_def tracker_RemoveLabel_def load_plan_def forceTransition_def
      ForceState_def record_step_def split: option.split)

text \<open>The loop of \<open>skipCompletedOrConfiguredPhases\<close> over the labels it fetched.\<close>

function skip_loop :: "jenv \<Rightarrow> string list \<Rightarrow> Workflow \<Rightarrow> Workflow" where
  "skip_loop env labels w =
    (let phase = phaseForStep (cur w) in
     if phase = [] then w
     else if doneLabel phase \<notin> set labels \<and> \<not> isSkipPhase phase w then w
     else
       let w1 = (if inProgressLabel phase \<in> set labels \<or> phase_of phase w = phaseInProgress
                 then tracker_RemoveLabel env (inProgressLabel phase) w else w);
           w2 = set_phase phase phaseDone w1;
           nextPhase = phaseAfter phase
       in if nextPhase = [] then forceTransition env StepDone w2
          else skip_loop env labels (load_plan env phase (forceTransition env (startStepForPhase nextPhase) w2)))"
  by pat_completeness auto
termination
  by (relation "measure (\<lambda>(env, labels, w). nat (20 - step_no (cur w)))") (auto dest: phase_next_later)

declare skip_loop.simps [simp del]

definition skipCompletedOrConfiguredPhases :: "jenv \<Rightarrow> Config \<Rightarrow> Workflow \<Rightarrow> Workflow" where
  "skipCompletedOrConfiguredPhases env cfg w =
    (case refreshLabels env w of
       (labels, w1) \<Rightarrow> skip_loop env labels (reconcileSkipPhasesFromLabels cfg labels w1))"

definition enter_current :: "jenv \<Rightarrow> Workflow \<Rightarrow> Workflow" where
  "enter_current env w =
    (let phase = phaseForStep (cur w) in if phase \<noteq> [] then enterPhase env phase w else w)"

definition handlePhaseBoundary :: "jenv \<Rightarrow> Config \<Rightarrow> Workflow \<Rightarrow> Workflow" where
  "handlePhaseBoundary env cfg w =
    (if cur w = StepDone then
       let w1 = completePriorPhases env ''ship'' w;
           w2 = (if phase_of ''ship'' w1 \<noteq> phaseDone then completePhase env ''ship'' w1 else w1)
       in cleanupStalePhaseLabels env w2
     else
       let curPhase = phaseForStep (cur w);
           w1 = (if curPhase \<noteq> [] then completePriorPhases env curPhase w else w)
       in enter_current env (skipCompletedOrConfiguredPhases env cfg w1))"

definition reopen_one :: "jenv \<Rightarrow> bool \<Rightarrow> string \<Rightarrow> Workflow \<Rightarrow> Workflow" where
  "reopen_one env is_target phase w =
    (let prior = phase_of phase w in
     if is_target then
       enterPhase env phase (set_phase phase phaseNotStarted
         (if prior = phaseDone then tracker_RemoveLabel env (doneLabel phase) w else w))
     else
       let w1 = (if prior = phaseInProgress then tracker_RemoveLabel env (inProgressLabel phase) w else w);
           w2 = (if prior = phaseDone then tracker_RemoveLabel env (doneLabel phase) w1 else w1)
       in set_phase phase phaseNotStarted w2)"

definition reopenPhaseOnRedo :: "jenv \<Rightarrow> WorkflowStep \<Rightarrow> Workflow \<Rightarrow> Workflow" where
  "reopenPhaseOnRedo env redoTarget w =
    (case dropWhile (\<lambda>p. p \<noteq> phaseForStep redoTarget) (map fst phaseTable) of
       [] \<Rightarrow> w
     | t # later \<Rightarrow> fold (reopen_one env False) later (reopen_one env True t w))"

section \<open>Review\<close>

definition redo_count :: "WorkflowStep \<Rightarrow> Workflow \<Rightarrow> int" where
  "redo_count s w = (case map_of (jw_redoCounts w) s of None \<Rightarrow> 0 | Some n \<Rightarrow> n)"

definition tryRedo :: "jenv \<Rightarrow> Config \<Rightarrow> WorkflowStep \<Rightarrow> Workflow \<Rightarrow> string option \<times> Workflow" where
  "tryRedo env cfg redoTarget w =
    (let count = redo_count redoTarget w + 1;
         w1 = w\<lparr>jw_approveAll := False, jw_redoCounts := mput redoTarget count (jw_redoCounts w)\<rparr>
     in if count > jw_maxRedos w1 then
          (Some (''step '' @ step_String redoTarget @ '' has been re-run '' @ Itoa (count - 1) @
                 '' times (max '' @ Itoa (jw_maxRedos w1) @ ''), giving up''), w1)
        else (case transition env redoTarget ''redo'' w1 of
            (Some e, w2) \<Rightarrow> (Some e, w2)
          | (None, w2) \<Rightarrow>
              let w3 = skipCompletedOrConfiguredPhases env cfg (reopenPhaseOnRedo env redoTarget w2)
              in (None, if cur w3 \<noteq> redoTarget then w3\<lparr>jw_feedback := []\<rparr> else w3)))"

definition approveTransition :: "jenv \<Rightarrow> Config \<Rightarrow> WorkflowStep \<Rightarrow> string \<Rightarrow> Workflow \<Rightarrow> string option \<times> Workflow" where
  "approveTransition env cfg approveTarget trigger w =
    (case transition env approveTarget trigger w of
       (Some e, w1) \<Rightarrow> (Some e, w1)
     | (None, w1) \<Rightarrow> (None, handlePhaseBoundary env cfg w1))"

definition applyReviewApproval :: "jenv \<Rightarrow> Config \<Rightarrow> WorkflowStep \<Rightarrow> string \<Rightarrow> bool \<Rightarrow> Workflow \<Rightarrow> Workflow" where
  "applyReviewApproval env cfg approveTarget reason approveAll w =
    (case approveTransition env cfg approveTarget reason w of
       (Some e, w1) \<Rightarrow> fail env e w1
     | (None, w1) \<Rightarrow>
         let w2 = w1\<lparr>jw_feedback := []\<rparr> in if approveAll then w2\<lparr>jw_approveAll := True\<rparr> else w2)"

definition applyReviewRedo :: "jenv \<Rightarrow> Config \<Rightarrow> WorkflowStep \<Rightarrow> string \<Rightarrow> Workflow \<Rightarrow> Workflow" where
  "applyReviewRedo env cfg redoTarget feedback w =
    (case tryRedo env cfg redoTarget (w\<lparr>jw_feedback := feedback\<rparr>) of
       (Some e, w1) \<Rightarrow> fail env e w1
     | (None, w1) \<Rightarrow> w1)"

definition handleReviewFeedback :: "jenv \<Rightarrow> Config \<Rightarrow> FeedbackResult \<Rightarrow> WorkflowStep \<Rightarrow> WorkflowStep \<Rightarrow> Workflow \<Rightarrow> Workflow" where
  "handleReviewFeedback env cfg fb approveTarget redoTarget w =
    (case fb_Action fb of
       FeedbackApprove \<Rightarrow> applyReviewApproval env cfg approveTarget ''approved'' False w
     | FeedbackApproveAll \<Rightarrow> applyReviewApproval env cfg approveTarget ''approve_all'' True w
     | FeedbackRedo \<Rightarrow> applyReviewRedo env cfg redoTarget (fb_Message fb) w
     | FeedbackComment \<Rightarrow> applyReviewRedo env cfg redoTarget (fb_Message fb) w)"

definition shouldConfigAutoApprove :: "Config \<Rightarrow> WorkflowStep \<Rightarrow> bool" where
  "shouldConfigAutoApprove cfg reviewStep =
    (case reviewStep of
       StepPlanReview \<Rightarrow> sg_AutoApprove (jc_Plan cfg)
     | StepBuildReview \<Rightarrow> sg_AutoApprove (jc_Build cfg)
     | StepValidateReview \<Rightarrow> sg_AutoApprove (jc_Validate cfg)
     | StepShipReview \<Rightarrow> sg_AutoApprove (jc_Ship cfg)
     | _ \<Rightarrow> False)"

definition shouldAutoApprove :: "Config \<Rightarrow> WorkflowStep \<Rightarrow> Workflow \<Rightarrow> bool" where
  "shouldAutoApprove cfg reviewStep w =
    (if \<not> IsReview reviewStep then False
     else if jw_approveAll w then True
     else shouldConfigAutoApprove cfg reviewStep)"

text \<open>\<open>fetchImmediateFeedback\<close>: an error counts as no feedback for its caller.\<close>

definition fetchImmediateFeedback :: "jenv \<Rightarrow> Workflow \<Rightarrow> FeedbackResult option" where
  "fetchImmediateFeedback env w =
    (case je_comments env (jw_calls w) of
       None \<Rightarrow> None
     | Some comments \<Rightarrow> map_option (feedback_of (je_ul env)) (latestFeedbackComment comments (jw_botCommentIDs w)))"

definition runReview :: "jenv \<Rightarrow> Config \<Rightarrow> WorkflowStep \<Rightarrow> WorkflowStep \<Rightarrow> Workflow \<Rightarrow> Workflow" where
  "runReview env cfg approveTarget redoTarget w =
    (if shouldAutoApprove cfg (cur w) w then
       let w1 = (if jw_lastCommentAt w = None then w\<lparr>jw_lastCommentAt := Some (je_now env (jw_calls w))\<rparr> else w)
       in (case fetchImmediateFeedback env w1 of
             Some fb \<Rightarrow> handleReviewFeedback env cfg fb approveTarget redoTarget (tick w1)
           | None \<Rightarrow>
               (case approveTransition env cfg approveTarget ''auto_approved'' ((tick w1)\<lparr>jw_feedback := []\<rparr>) of
                  (Some e, w2) \<Rightarrow> fail env e w2
                | (None, w2) \<Rightarrow> w2))
     else
       (case PollForFeedback (je_ul env) (je_polls env (jw_calls w)) (jw_botCommentIDs w) of
          None \<Rightarrow> fail env (''polling for feedback: '' @
            (case je_ctx env (jw_calls w) of Some e \<Rightarrow> e | None \<Rightarrow> ''context canceled'')) (tick w)
        | Some fb \<Rightarrow> handleReviewFeedback env cfg fb approveTarget redoTarget
            ((tick w)\<lparr>jw_lastCommentAt := cm_CreatedAt (fb_Comment fb)\<rparr>)))"

section \<open>Steps\<close>

definition tracker_PostComment :: "jenv \<Rightarrow> string \<Rightarrow> Workflow \<Rightarrow> Comment option \<times> Workflow" where
  "tracker_PostComment env body w = (je_post env (jw_calls w), act (PostComment body) (tick w))"

text \<open>The body of \<open>PostWaitingComment\<close>; the dash is the three bytes of U+2014.\<close>

definition waiting_comment :: "WorkflowStep \<Rightarrow> string" where
  "waiting_comment step =
    (let nl = [char_of (10 :: nat)] in
     ''**'' @ step_String step @ ''** '' @ [char_of (0xE2 :: nat), char_of (0x80 :: nat), char_of (0x94 :: nat)] @
     '' Waiting for review.'' @ nl @ nl @ ''Reply with:'' @ nl @
     ''- `approve` to proceed to the next step'' @ nl @
     ''- `approve all`, `approve_all`, or `yolo` to approve this and all remaining review gates in the current run'' @ nl @
     ''- `redo` to re-run this step'' @ nl @
     ''- Any other comment to provide feedback for revision'')"

definition transitionToReview :: "jenv \<Rightarrow> Config \<Rightarrow> WorkflowStep \<Rightarrow> string \<Rightarrow> Workflow \<Rightarrow> Workflow" where
  "transitionToReview env cfg reviewStep trigger w =
    (case transition env reviewStep trigger w of
       (Some e, w1) \<Rightarrow> fail env e w1
     | (None, w1) \<Rightarrow>
         if \<not> IsReview reviewStep then w1
         else let w2 = update_state ''in_review'' w1 in
           if shouldAutoApprove cfg reviewStep w2 then w2
           else (case tracker_PostComment env (waiting_comment (cur w2)) w2 of
               (posted, w3) \<Rightarrow>
                 let w4 = (case posted of
                         None \<Rightarrow> w3
                       | Some c \<Rightarrow> if cm_ID c \<noteq> [] then w3\<lparr>jw_botCommentIDs := jw_botCommentIDs w3 @ [cm_ID c]\<rparr> else w3)
                 in if jw_lastCommentAt w4 \<noteq> None then w4
                    else w4\<lparr>jw_lastCommentAt := (case posted of
                           None \<Rightarrow> Some (je_now env (jw_calls w4))
                         | Some c \<Rightarrow> (case cm_CreatedAt c of None \<Rightarrow> Some (je_now env (jw_calls w4)) | Some t \<Rightarrow> Some t))\<rparr>))"

definition buildProducedNoChanges :: "jenv \<Rightarrow> Workflow \<Rightarrow> bool" where
  "buildProducedNoChanges env w =
    (case je_dirty env (jw_calls w) of
       None \<Rightarrow> False
     | Some dirty \<Rightarrow>
         if dirty then False
         else (case je_diff env (jw_calls w) of None \<Rightarrow> False | Some hasChanges \<Rightarrow> \<not> hasChanges))"

definition maybeSkipAfterNoChangeBuild :: "jenv \<Rightarrow> Config \<Rightarrow> WorkflowStep \<Rightarrow> Workflow \<Rightarrow> bool \<times> Workflow" where
  "maybeSkipAfterNoChangeBuild env cfg step w =
    (if step \<noteq> StepBuilding then (False, w)
     else if \<not> buildProducedNoChanges env w then (False, tick w)
     else (True, handlePhaseBoundary env cfg (forceTransition env StepDone
            (snd (tracker_PostComment env ''Build produced no changes; nothing to ship. Marking issue done.'' (tick w))))))"

definition captureOutput :: "string \<Rightarrow> string \<Rightarrow> Workflow \<Rightarrow> Workflow" where
  "captureOutput stepName output w =
    (if stepName = ''plan'' then
       (let w1 = w\<lparr>jw_plan := output\<rparr> in if TrimSpace output = [] then w1 else act (PersistPlan output) w1)
     else if stepName = ''build'' then w\<lparr>jw_buildOutput := output\<rparr>
     else w)"

text \<open>What a step does with the comment it has posted.\<close>

definition note_comment :: "bool \<Rightarrow> Comment option \<Rightarrow> Workflow \<Rightarrow> Workflow" where
  "note_comment keep_time posted w =
    (case posted of
       None \<Rightarrow> w
     | Some c \<Rightarrow>
         let w1 = (if cm_ID c \<noteq> [] then w\<lparr>jw_botCommentIDs := jw_botCommentIDs w @ [cm_ID c]\<rparr> else w)
         in if keep_time \<and> cm_CreatedAt c \<noteq> None then w1\<lparr>jw_lastCommentAt := cm_CreatedAt c\<rparr> else w1)"

definition start_cycle :: "Workflow \<Rightarrow> Workflow" where
  "start_cycle w = w\<lparr>jw_lastCommentAt := None, jw_botCommentIDs := [], jw_feedback := []\<rparr>"

definition runStep :: "jenv \<Rightarrow> Config \<Rightarrow> string \<Rightarrow> StepConfig \<Rightarrow> WorkflowStep \<Rightarrow> string \<Rightarrow> Workflow \<Rightarrow> Workflow" where
  "runStep env cfg stepName stepCfg reviewStep trigger w =
    (let currentStep = cur w;
         sid = (case map_of (jw_sessionIDs w) currentStep of None \<Rightarrow> [] | Some s \<Rightarrow> s);
         w1 = tick (act (RunAgent stepName (jw_feedback w) sid) (start_cycle w))
     in case je_agent env (jw_calls w) of
          Inl e \<Rightarrow> fail env (stepName @ '' step: '' @ e) w1
        | Inr (output, newSessionID) \<Rightarrow>
            let w2 = captureOutput stepName output (w1\<lparr>jw_sessionIDs := mput currentStep newSessionID (jw_sessionIDs w1)\<rparr>)
            in (case maybeSkipAfterNoChangeBuild env cfg currentStep w2 of
                  (True, w3) \<Rightarrow> w3
                | (False, w3) \<Rightarrow>
                    (case je_render env (sg_CommentTemplate stepCfg) stepName output 0 0 of
                       Inl e \<Rightarrow> fail env (stepName @ '': render comment_template: render comment: '' @ e) w3
                     | Inr body \<Rightarrow>
                         (case tracker_PostComment env body w3 of
                            (posted, w4) \<Rightarrow> transitionToReview env cfg reviewStep trigger (note_comment True posted w4)))))"

text \<open>The rounds of a step; the result is the failed workflow, or the outputs and the workflow.\<close>

fun run_rounds :: "jenv \<Rightarrow> string \<Rightarrow> StepConfig \<Rightarrow> string \<Rightarrow> int \<Rightarrow> string list \<Rightarrow> bool \<Rightarrow> string list \<Rightarrow>
    Workflow \<Rightarrow> Workflow + (string list \<times> Workflow)" where
  "run_rounds env stepName stepCfg feedback i [] injected outputs w = Inr (outputs, w)"
| "run_rounds env stepName stepCfg feedback i (command # rounds) injected outputs w =
    (let total = int (length (sg_Rounds stepCfg));
         pre = stepName @ '' round '' @ Itoa (i + 1) @ ''/'' @ Itoa total @ '': ''
     in case je_ctx env (jw_calls w) of
          Some e \<Rightarrow> Inl (fail env e (tick w))
        | None \<Rightarrow>
            let w0 = tick w;
                roundFeedback = (if injected then [] else feedback);
                w1 = tick (act (if command \<noteq> [] then RunCommand stepName command
                                else RunAgent stepName roundFeedback []) w0);
                result = (if command \<noteq> [] then je_command env (jw_calls w0)
                          else (case je_agent env (jw_calls w0) of Inl e \<Rightarrow> Inl e | Inr (out, sid) \<Rightarrow> Inr out))
            in (case result of
                  Inl e \<Rightarrow> Inl (fail env (pre @ e) w1)
                | Inr output \<Rightarrow>
                    (case je_render env (sg_RoundCommentTemplate stepCfg) stepName output (i + 1) total of
                       Inl e \<Rightarrow> Inl (fail env (pre @ ''render round_comment_template: render comment: '' @ e) w1)
                     | Inr body \<Rightarrow>
                         (case tracker_PostComment env body w1 of
                            (posted, w2) \<Rightarrow>
                              run_rounds env stepName stepCfg feedback (i + 1) rounds
                                (injected \<or> command = []) (outputs @ [output])
                                (note_comment (i = total - 1) posted w2)))))"

definition JoinRoundOutputs :: "string list \<Rightarrow> string" where
  "JoinRoundOutputs outputs =
    join_with ([char_of (10 :: nat), char_of (10 :: nat)] @ ''---'' @ [char_of (10 :: nat), char_of (10 :: nat)])
      (filter (\<lambda>o1. TrimSpace o1 \<noteq> []) outputs)"

definition runStepRounds :: "jenv \<Rightarrow> Config \<Rightarrow> string \<Rightarrow> StepConfig \<Rightarrow> WorkflowStep \<Rightarrow> string \<Rightarrow> Workflow \<Rightarrow> Workflow" where
  "runStepRounds env cfg stepName stepCfg reviewStep trigger w =
    (let currentStep = cur w in
     case run_rounds env stepName stepCfg (jw_feedback w) 0 (sg_Rounds stepCfg) False [] (start_cycle w) of
       Inl w1 \<Rightarrow> w1
     | Inr (allOutputs, w1) \<Rightarrow>
         (case maybeSkipAfterNoChangeBuild env cfg currentStep (captureOutput stepName (JoinRoundOutputs allOutputs) w1) of
            (True, w2) \<Rightarrow> w2
          | (False, w2) \<Rightarrow> transitionToReview env cfg reviewStep trigger w2))"

definition runStepOrRounds :: "jenv \<Rightarrow> Config \<Rightarrow> string \<Rightarrow> StepConfig \<Rightarrow> WorkflowStep \<Rightarrow> string \<Rightarrow> Workflow \<Rightarrow> Workflow" where
  "runStepOrRounds env cfg stepName stepCfg reviewStep trigger w =
    (if sg_Rounds stepCfg \<noteq> [] then runStepRounds env cfg stepName stepCfg reviewStep trigger w
     else runStep env cfg stepName stepCfg reviewStep trigger w)"

section \<open>The run\<close>

definition resolveStateIDs :: "jenv \<Rightarrow> Config \<Rightarrow> Workflow \<Rightarrow> string option \<times> Workflow" where
  "resolveStateIDs env cfg w =
    (if jw_teamID w = [] then (None, w)
     else (case je_states env (jw_calls w) of
         Inl e \<Rightarrow> (Some e, tick w)
       | Inr states \<Rightarrow>
           let nameMap = mput (jc_Done cfg) ''done'' (mput (jc_InReview cfg) ''in_review'' [(jc_InProgress cfg, ''in_progress'')])
           in (None, (tick w)\<lparr>jw_stateIDs := fold (\<lambda>(name, i) m.
                 case map_of nameMap name of None \<Rightarrow> m | Some logical \<Rightarrow> mput logical i m) states (jw_stateIDs w)\<rparr>)))"

datatype run_result = RunDone | RunFailed "string option" | RunError string

text \<open>One iteration of the loop of \<open>Run\<close>: a result ends it.\<close>

definition run_iteration :: "jenv \<Rightarrow> Config \<Rightarrow> Workflow \<Rightarrow> run_result option \<times> Workflow" where
  "run_iteration env cfg w0 =
    (case je_ctx env (jw_calls w0) of
       Some e \<Rightarrow> (Some (RunError e), tick w0)
     | None \<Rightarrow>
       let w = tick w0 in
       case cur w of
         StepPlanning \<Rightarrow> (None, runStepOrRounds env cfg ''plan'' (jc_Plan cfg) StepPlanReview ''plan_complete'' w)
       | StepPlanReview \<Rightarrow> (None, runReview env cfg StepBuilding StepPlanning w)
       | StepBuilding \<Rightarrow> (None, runStepOrRounds env cfg ''build'' (jc_Build cfg) StepCreatingPR ''build_complete''
                             (w\<lparr>jw_sessionIDs := mdel StepCreatingPR (jw_sessionIDs w)\<rparr>))
       | StepCreatingPR \<Rightarrow> (None, runStep env cfg ''create_pr'' (jc_CreatePR cfg) StepBuildReview ''pr_created'' w)
       | StepBuildReview \<Rightarrow> (None, runReview env cfg StepValidating StepBuilding w)
       | StepValidating \<Rightarrow> (None, runStepOrRounds env cfg ''validate'' (jc_Validate cfg) StepValidateReview ''validation_complete'' w)
       | StepValidateReview \<Rightarrow> (None, runReview env cfg StepShipping StepValidating w)
       | StepShipping \<Rightarrow> (None, runStepOrRounds env cfg ''ship'' (jc_Ship cfg) StepShipReview ''ship_complete'' w)
       | StepShipReview \<Rightarrow> (None, runReview env cfg StepDone StepShipping w)
       | StepDone \<Rightarrow> (Some RunDone, update_state ''done'' w)
       | StepFailed \<Rightarrow> (Some (RunFailed (jw_lastError w)), w)
       | _ \<Rightarrow> (Some (RunError (''workflow reached unexpected state: '' @ step_String (cur w))), w))"

fun run_loop :: "nat \<Rightarrow> jenv \<Rightarrow> Config \<Rightarrow> Workflow \<Rightarrow> (run_result \<times> Workflow) option" where
  "run_loop 0 env cfg w = None"
| "run_loop (Suc fuel) env cfg w =
    (case run_iteration env cfg w of
       (Some r, w1) \<Rightarrow> Some (r, w1)
     | (None, w1) \<Rightarrow> run_loop fuel env cfg w1)"

definition start_run :: "jenv \<Rightarrow> Config \<Rightarrow> Workflow \<Rightarrow> run_result option \<times> Workflow" where
  "start_run env cfg w =
    (case resolveStateIDs env cfg w of
       (Some e, w1) \<Rightarrow> (Some (RunError (''resolve workflow states: '' @ e)), w1)
     | (None, w1) \<Rightarrow>
         (case transition env StepPlanning ''start'' w1 of
            (Some e, w2) \<Rightarrow> (Some (RunError e), w2)
          | (None, w2) \<Rightarrow>
              (None, enter_current env (skipCompletedOrConfiguredPhases env cfg (update_state ''in_progress'' w2)))))"

definition Run :: "nat \<Rightarrow> jenv \<Rightarrow> Config \<Rightarrow> Workflow \<Rightarrow> (run_result \<times> Workflow) option" where
  "Run fuel env cfg w =
    (case start_run env cfg w of
       (Some r, w1) \<Rightarrow> Some (r, w1)
     | (None, w1) \<Rightarrow> run_loop fuel env cfg w1)"

end
