(* ===== verification/JiraProps.thy ===== *)
theory JiraProps
  imports JiraWorkflow
begin

text \<open>
  What the workflow of jiradozer guarantees: its history is a gapless chain of allowed or forced
  transitions in which a review gate is only left forward by an approval, and every run
  ends, however the agents, the tracker and the humans behave, because redos are limited.
\<close>

section \<open>What most operations leave alone\<close>

definition core :: "Workflow \<Rightarrow> StateMachine \<times> (WorkflowStep, int) gomap \<times> int" where
  "core w = (jw_state w, jw_redoCounts w, jw_maxRedos w)"

lemma cur_core: "cur w = sm_step (fst (core w))"
  by (simp add: cur_def core_def)

lemma core_prims [simp]:
  "core (tick w) = core w" "core (act a w) = core w" "core (set_phase p ps w) = core w"
  "core (tracker_RemoveLabel env l w) = core w" "core (load_plan env p w) = core w"
  "core (update_state l w) = core w" "core (start_cycle w) = core w"
  "core (note_comment k c w) = core w" "core (captureOutput n out w) = core w"
  "core (snd (tracker_AddLabel env l w)) = core w" "core (snd (tracker_PostComment env b w)) = core w"
  "core (snd (refreshLabels env w)) = core w" "core (addSkipPhase p src w) = core w"
  "core (w\<lparr>jw_feedback := fb\<rparr>) = core w" "core (w\<lparr>jw_approveAll := aa\<rparr>) = core w"
  "core (w\<lparr>jw_lastCommentAt := lc\<rparr>) = core w" "core (w\<lparr>jw_sessionIDs := ss\<rparr>) = core w"
  "core (w\<lparr>jw_lastError := le\<rparr>) = core w" "core (w\<lparr>jw_skip := sk\<rparr>) = core w"
  "core (w\<lparr>jw_botCommentIDs := bc\<rparr>) = core w"
  by (simp_all add: core_def tick_def act_def set_phase_def tracker_RemoveLabel_def load_plan_def update_state_def
      start_cycle_def note_comment_def captureOutput_def tracker_AddLabel_def tracker_PostComment_def
      refreshLabels_def addSkipPhase_def Let_def split: option.split)

lemma core_fold: "(\<And>x w. core (f x w) = core w) \<Longrightarrow> core (fold f xs w) = core w"
  by (induction xs arbitrary: w) simp_all

lemma core_enterPhase [simp]: "core (enterPhase env p w) = core w"
  by (simp add: enterPhase_def tracker_AddLabel_def Let_def split: bool.split)

lemma core_completePhase [simp]: "core (completePhase env p w) = core w"
  by (simp add: completePhase_def tracker_AddLabel_def Let_def split: bool.split)

lemma core_completePrior [simp]: "core (completePriorPhases env p w) = core w"
  unfolding completePriorPhases_def by (rule core_fold) simp

lemma core_cleanup [simp]: "core (cleanupStalePhaseLabels env w) = core w"
proof -
  obtain labels w1 where r: "refreshLabels env w = (labels, w1)" by (cases "refreshLabels env w")
  have "core w1 = core w" using core_prims(12) [of env w] r by simp
  then show ?thesis unfolding cleanupStalePhaseLabels_def r prod.case by (subst core_fold) simp_all
qed

lemma core_reconcile [simp]: "core (reconcileSkipPhasesFromLabels cfg labels w) = core w"
  unfolding reconcileSkipPhasesFromLabels_def Let_def by (subst core_fold) simp_all

lemma core_enter_current [simp]: "core (enter_current env w) = core w"
  by (simp add: enter_current_def Let_def)

lemma core_reopen_one [simp]: "core (reopen_one env b p w) = core w"
  by (simp add: reopen_one_def Let_def)

lemma core_reopen [simp]: "core (reopenPhaseOnRedo env t w) = core w"
  by (simp add: reopenPhaseOnRedo_def core_fold split: list.split)

section \<open>Progress\<close>

text \<open>A failed workflow ranks last; otherwise steps rank in their order.\<close>

definition rank :: "WorkflowStep \<Rightarrow> int" where
  "rank s = (if s = StepFailed then 13 else step_no s)"

definition approvals :: "string list" where
  "approvals = [''approved'', ''approve_all'', ''auto_approved'', ''forced'']"

text \<open>A history entry that leaves a review gate forward is an approval (or forced).\<close>

definition gate_ok :: "StepTransition \<Rightarrow> bool" where
  "gate_ok e \<longleftrightarrow> (IsReview (st_From e) \<and> st_To e \<noteq> StepFailed \<and> step_no (st_From e) < step_no (st_To e) \<longrightarrow>
     st_Trigger e \<in> set approvals)"

definition hist_ok :: "StateMachine \<Rightarrow> bool" where
  "hist_ok sm \<longleftrightarrow> history_ok sm \<and> list_all gate_ok (sm_history sm)"

definition redo_part :: "Workflow \<Rightarrow> (WorkflowStep, int) gomap \<times> int" where
  "redo_part w = (jw_redoCounts w, jw_maxRedos w)"

definition adv :: "Workflow \<Rightarrow> Workflow \<Rightarrow> bool" where
  "adv w w' \<longleftrightarrow> redo_part w' = redo_part w \<and> rank (cur w) \<le> rank (cur w') \<and>
     (hist_ok (jw_state w) \<longrightarrow> hist_ok (jw_state w'))"

definition hist :: "Workflow \<Rightarrow> Workflow \<Rightarrow> bool" where
  "hist w w' \<longleftrightarrow> (hist_ok (jw_state w) \<longrightarrow> hist_ok (jw_state w'))"

lemma adv_refl [simp]: "adv w w"
  by (simp add: adv_def)

lemma adv_trans [trans]: "adv a b \<Longrightarrow> adv b c \<Longrightarrow> adv a c"
  by (auto simp: adv_def)

lemma adv_core: "core b = core a \<Longrightarrow> adv a b"
  by (simp add: adv_def core_def redo_part_def cur_def)

lemma adv_core_eq: "core a' = core a \<Longrightarrow> core b' = core b \<Longrightarrow> adv a' b' = adv a b"
  by (simp add: adv_def core_def redo_part_def cur_def)

lemma rank_force: "step_no (cur w) \<le> step_no t \<Longrightarrow> cur w \<noteq> StepFailed \<Longrightarrow> rank (cur w) \<le> rank t"
  using step_no_range [of "cur w"] by (simp add: rank_def)

lemma hist_record:
  assumes "hist_ok sm" and "trigger = ''forced'' \<or> key (sm_step sm) t \<in> set validTransitions"
    and "gate_ok \<lparr>st_Timestamp = now, st_Trigger = trigger, st_From = sm_step sm, st_To = t\<rparr>"
  shows "hist_ok (record_step now t trigger sm)"
  using assms by (simp add: hist_ok_def history_ok_def record_step_def chain_snoc)

lemma hist_force: "hist_ok sm \<Longrightarrow> hist_ok (ForceState now t sm)"
  unfolding ForceState_def by (rule hist_record) (simp_all add: gate_ok_def approvals_def)

lemma force_simps [simp]:
  "redo_part (forceTransition env t w) = redo_part w"
  "jw_state (forceTransition env t w) = ForceState (je_now env (jw_calls w)) t (jw_state w)"
  by (simp_all add: redo_part_def forceTransition_def act_def)

lemma adv_force:
  assumes "rank (cur w) \<le> rank t"
  shows "adv w (forceTransition env t w)"
  using assms by (simp add: adv_def hist_force)

lemma transition_cases:
  obtains (bad) e where "transition env t trigger w = (Some e, w)"
    | (ok) w' where "transition env t trigger w = (None, w')" "cur w' = t" "redo_part w' = redo_part w"
        "key (cur w) t \<in> set validTransitions"
        "gate_ok \<lparr>st_Timestamp = je_now env (jw_calls w), st_Trigger = trigger, st_From = cur w, st_To = t\<rparr> \<Longrightarrow> hist w w'"
proof (cases "key (cur w) t \<in> set validTransitions")
  case False
  then show thesis by (intro bad) (simp add: transition_def Transition_def cur_def)
next
  case True
  define w' where "w' = act (OnTransition t) (w\<lparr>jw_state := record_step (je_now env (jw_calls w)) t trigger (jw_state w)\<rparr>)"
  have a: "transition env t trigger w = (None, w')"
    using True by (simp add: transition_def Transition_def cur_def w'_def)
  have b: "cur w' = t" "redo_part w' = redo_part w"
    by (simp_all add: w'_def cur_def act_def record_step_def redo_part_def)
  have c: "hist w w'"
    if "gate_ok \<lparr>st_Timestamp = je_now env (jw_calls w), st_Trigger = trigger, st_From = cur w, st_To = t\<rparr>"
    using that True by (auto simp: hist_def w'_def act_def cur_def intro: hist_record)
  show thesis by (rule ok [OF a b True c])
qed

lemma error_not_forced: "''error: '' @ e \<noteq> ''forced''"
  by simp

lemma fail_adv: "adv w (fail env e w)" and fail_cur: "cur (fail env e w) = StepFailed"
proof -
  let ?w = "w\<lparr>jw_lastError := Some e\<rparr>"
  have r: "rank (cur ?w) \<le> rank StepFailed" using step_no_range [of "cur ?w"] by (simp add: rank_def)
  have "adv ?w (fail env e w) \<and> cur (fail env e w) = StepFailed"
  proof (cases rule: transition_cases [of env StepFailed "''error: '' @ e" ?w])
    case (bad e')
    let ?f = "?w\<lparr>jw_state := ForceState (je_now env (jw_calls ?w)) StepFailed (jw_state ?w)\<rparr>"
    have "fail env e w = ?f" by (simp only: fail_def Let_def bad prod.case option.case)
    moreover have cf: "cur ?f = StepFailed" by (simp add: cur_def ForceState_def record_step_def)
    moreover have "adv ?w ?f" unfolding adv_def cf using r by (simp add: redo_part_def hist_force)
    ultimately show ?thesis by simp
  next
    case (ok w')
    have "fail env e w = w'" by (simp only: fail_def Let_def ok(1) prod.case option.case)
    moreover have "hist ?w w'" by (rule ok(5)) (simp add: gate_ok_def)
    ultimately show ?thesis using r ok(2,3) by (simp add: adv_def hist_def)
  qed
  then show "adv w (fail env e w)" "cur (fail env e w) = StepFailed"
    using adv_core_eq [of ?w w "fail env e w" "fail env e w"] by simp_all
qed

lemma fail_strict: "cur w \<noteq> StepFailed \<Longrightarrow> rank (cur w) < rank (cur (fail env e w))"
  using step_no_range [of "cur w"] by (simp add: fail_cur rank_def)

lemma adv_forceTransition_step:
  assumes "phaseForStep (cur w) \<noteq> []" and "core w' = core w" and "step_no (cur w) \<le> step_no t"
  shows "adv w (forceTransition env t w')"
proof -
  have c: "cur w' = cur w" using assms(2) by (simp add: cur_core)
  have "cur w \<noteq> StepFailed" using assms(1) by (auto simp: phaseForStep_def)
  then have "rank (cur w') \<le> rank t" using rank_force [of w' t] assms(3) c by simp
  then have "adv w' (forceTransition env t w')" by (rule adv_force)
  with adv_core [OF assms(2)] show ?thesis by (rule adv_trans)
qed

lemma adv_skip_loop: "adv w (skip_loop env labels w)"
proof (induction env labels w rule: skip_loop.induct)
  case (1 env labels w)
  let ?p = "phaseForStep (cur w)"
  show ?case
  proof (cases "?p = [] \<or> (doneLabel ?p \<notin> set labels \<and> \<not> isSkipPhase ?p w)")
    case True
    then show ?thesis by (subst skip_loop.simps) (auto simp: Let_def)
  next
    case False
    define w1 where "w1 = (if inProgressLabel ?p \<in> set labels \<or> phase_of ?p w = phaseInProgress
                 then tracker_RemoveLabel env (inProgressLabel ?p) w else w)"
    define w2 where "w2 = set_phase ?p phaseDone w1"
    have c: "core w2 = core w" by (simp add: w2_def w1_def)
    show ?thesis
    proof (cases "phaseAfter ?p = []")
      case True
      have "step_no (cur w) \<le> step_no StepDone" using False by (cases "cur w") (simp_all add: phaseForStep_def)
      then have "adv w (forceTransition env StepDone w2)"
        using adv_forceTransition_step [OF _ c] False by simp
      then show ?thesis using False True
        by (subst skip_loop.simps) (simp add: Let_def w1_def w2_def)
    next
      case nxt: False
      let ?w3 = "forceTransition env (startStepForPhase (phaseAfter ?p)) w2"
      have "adv w ?w3"
        using adv_forceTransition_step [OF _ c] False phase_next_later [OF _ nxt] by simp
      moreover have "adv ?w3 (load_plan env ?p ?w3)" by (rule adv_core) simp
      moreover have "adv (load_plan env ?p ?w3) (skip_loop env labels (load_plan env ?p ?w3))"
        by (rule 1 [OF refl _ _ w1_def w2_def refl nxt]) (use False in simp_all)
      ultimately have "adv w (skip_loop env labels (load_plan env ?p ?w3))"
        using adv_trans by blast
      then show ?thesis using False nxt
        by (subst skip_loop.simps) (simp add: Let_def w1_def w2_def)
    qed
  qed
qed

lemma adv_skipCompleted: "adv w (skipCompletedOrConfiguredPhases env cfg w)"
proof -
  obtain labels w1 where r: "refreshLabels env w = (labels, w1)" by (cases "refreshLabels env w")
  have "core (reconcileSkipPhasesFromLabels cfg labels w1) = core w"
    using core_prims(12) [of env w] r by simp
  from adv_trans [OF adv_core [OF this] adv_skip_loop] show ?thesis
    by (simp add: skipCompletedOrConfiguredPhases_def r)
qed

lemma adv_enter: "adv w (enter_current env w)"
  by (rule adv_core) simp

lemma adv_boundary: "adv w (handlePhaseBoundary env cfg w)"
proof (cases "cur w = StepDone")
  case True
  then show ?thesis by (auto simp: handlePhaseBoundary_def Let_def intro!: adv_core)
next
  case False
  define w1 where "w1 = (if phaseForStep (cur w) \<noteq> [] then completePriorPhases env (phaseForStep (cur w)) w else w)"
  have "adv w w1" by (rule adv_core) (simp add: w1_def)
  also have "adv w1 (skipCompletedOrConfiguredPhases env cfg w1)" by (rule adv_skipCompleted)
  also have "adv \<dots> (enter_current env \<dots>)" by (rule adv_enter)
  finally show ?thesis using False by (simp add: handlePhaseBoundary_def Let_def w1_def)
qed

definition strict :: "Workflow \<Rightarrow> Workflow \<Rightarrow> bool" where
  "strict w w' \<longleftrightarrow> adv w w' \<and> rank (cur w) < rank (cur w')"

lemma strict_adv: "strict a b \<Longrightarrow> adv b c \<Longrightarrow> strict a c"
  using adv_trans [of a b c] by (auto simp: strict_def adv_def)

lemma adv_strict: "adv a b \<Longrightarrow> strict b c \<Longrightarrow> strict a c"
  using adv_trans [of a b c] by (auto simp: strict_def adv_def)

lemma strict_fail: "cur w \<noteq> StepFailed \<Longrightarrow> strict w (fail env e w)"
  by (simp add: strict_def fail_adv fail_strict)

lemma strict_transition:
  assumes "transition env t trigger w = (None, w')" and "rank (cur w) < rank t"
    and "gate_ok \<lparr>st_Timestamp = je_now env (jw_calls w), st_Trigger = trigger, st_From = cur w, st_To = t\<rparr>"
  shows "strict w w'"
  using assms by (cases rule: transition_cases [of env t trigger w]) (auto simp: strict_def adv_def hist_def)

text \<open>An agent step: its own step, the step its success leads to.\<close>

definition agent_step :: "WorkflowStep \<Rightarrow> WorkflowStep \<Rightarrow> bool" where
  "agent_step s t \<longleftrightarrow> \<not> IsReview s \<and> s \<noteq> StepFailed \<and> rank s < rank t"

lemma strict_toReview:
  assumes "agent_step (cur w) t"
  shows "strict w (transitionToReview env cfg t trigger w)"
proof (cases rule: transition_cases [of env t trigger w])
  case (bad e)
  then show ?thesis using assms strict_fail by (simp add: transitionToReview_def agent_step_def)
next
  case (ok w')
  have s: "strict w w'" by (rule strict_transition [OF ok(1)]) (use assms in \<open>simp_all add: agent_step_def gate_ok_def\<close>)
  have "core (transitionToReview env cfg t trigger w) = core w'"
    using core_prims(11)
    by (auto simp: transitionToReview_def ok(1) Let_def tracker_PostComment_def split: option.split)
  from strict_adv [OF s adv_core [OF this]] show ?thesis .
qed

lemma strict_core: "core a = core b \<Longrightarrow> strict a c \<Longrightarrow> strict b c"
  by (simp add: strict_def adv_def core_def redo_part_def cur_def)

lemma core_post [simp]: "tracker_PostComment env body w = (posted, w') \<Longrightarrow> core w' = core w"
  using core_prims(11) [of env body w] by simp

lemma agent_step_building: "rank StepBuilding < rank StepDone"
  by (simp add: rank_def)

lemma maybeSkip_cases:
  obtains (go) w' where "maybeSkipAfterNoChangeBuild env cfg st w = (False, w')" "core w' = core w"
    | (skip) w' where "maybeSkipAfterNoChangeBuild env cfg st w = (True, w')" "cur w = st \<Longrightarrow> strict w w'"
proof (cases "st \<noteq> StepBuilding \<or> \<not> buildProducedNoChanges env w")
  case True
  then show thesis by (cases "st = StepBuilding") (auto simp: maybeSkipAfterNoChangeBuild_def intro: go)
next
  case False
  define w1 where "w1 = snd (tracker_PostComment env
    ''Build produced no changes; nothing to ship. Marking issue done.'' (tick w))"
  have c: "core w1 = core w" by (simp add: w1_def)
  define w' where "w' = handlePhaseBoundary env cfg (forceTransition env StepDone w1)"
  have e: "maybeSkipAfterNoChangeBuild env cfg st w = (True, w')"
    using False by (simp add: maybeSkipAfterNoChangeBuild_def w'_def w1_def)
  have "strict w w'" if "cur w = st"
  proof -
    have cw: "cur w = StepBuilding" "cur w1 = StepBuilding" using that False c by (simp_all add: cur_core)
    then have "adv w1 (forceTransition env StepDone w1)" by (intro adv_force) (simp add: rank_def)
    then have "strict w1 (forceTransition env StepDone w1)" using cw by (simp add: strict_def rank_def)
    from strict_core [OF c strict_adv [OF this adv_boundary]] show ?thesis by (simp add: w'_def)
  qed
  with e show thesis by (rule skip)
qed

lemma run_rounds_cases:
  assumes "cur w \<noteq> StepFailed"
  shows "case run_rounds env stepName stepCfg feedback i rounds injected outputs w of
      Inl w' \<Rightarrow> strict w w' | Inr (outs, w') \<Rightarrow> core w' = core w"
  using assms
proof (induction rounds arbitrary: i injected outputs w)
  case (Cons command rounds)
  show ?case
  proof (cases "je_ctx env (jw_calls w)")
    case (Some e)
    have "strict (tick w) (fail env e (tick w))" using Cons.prems by (intro strict_fail) simp
    then show ?thesis using Some strict_core [of "tick w" w] by (simp add: Let_def)
  next
    case None
    define w1 where "w1 = tick (act (if command \<noteq> [] then RunCommand stepName command
                                else RunAgent stepName (if injected then [] else feedback) []) (tick w))"
    define result where "result = (if command \<noteq> [] then je_command env (jw_calls (tick w))
                          else (case je_agent env (jw_calls (tick w)) of Inl e \<Rightarrow> Inl e | Inr (out, sid) \<Rightarrow> Inr out))"
    define total where "total = int (length (sg_Rounds stepCfg))"
    have c1: "core w1 = core w" by (simp add: w1_def)
    then have nf: "cur w1 \<noteq> StepFailed" using Cons.prems by (simp add: cur_core)
    note unf = run_rounds.simps(2) None option.case Let_def w1_def [symmetric] result_def [symmetric] total_def [symmetric]
    show ?thesis
    proof (cases result)
      case (Inl e)
      then show ?thesis using strict_core [OF c1 strict_fail [OF nf]] by (simp only: unf sum.case)
    next
      case (Inr txt1)
      show ?thesis
      proof (cases "je_render env (sg_RoundCommentTemplate stepCfg) stepName txt1 (i + 1) total")
        case (Inl e)
        then show ?thesis using strict_core [OF c1 strict_fail [OF nf]] Inr by (simp only: unf sum.case)
      next
        case body: (Inr body)
        obtain posted w2 where p: "tracker_PostComment env body w1 = (posted, w2)"
          by (cases "tracker_PostComment env body w1")
        let ?w3 = "note_comment (i = total - 1) posted w2"
        have c3: "core ?w3 = core w" using core_post [OF p] c1 by simp
        then have "cur ?w3 \<noteq> StepFailed" using Cons.prems by (simp add: cur_core)
        from Cons.IH [OF this, of "i + 1" "injected \<or> command = []" "outputs @ [txt1]"]
        show ?thesis
          using c3 strict_core [OF c3] Inr body p
          by (simp only: unf sum.case prod.case) (auto split: sum.splits)
      qed
    qed
  qed
qed simp

lemma strict_runStep:
  assumes "agent_step (cur w) t"
  shows "strict w (runStep env cfg stepName stepCfg t trigger w)"
proof -
  define w1 where "w1 = tick (act (RunAgent stepName (jw_feedback w)
      (case map_of (jw_sessionIDs w) (cur w) of None \<Rightarrow> [] | Some s \<Rightarrow> s)) (start_cycle w))"
  have c1: "core w1 = core w" by (simp add: w1_def)
  have nf: "cur w \<noteq> StepFailed" using assms by (simp add: agent_step_def)
  note unf = runStep_def Let_def w1_def [symmetric]
  show ?thesis
  proof (cases "je_agent env (jw_calls w)")
    case (Inl e)
    then show ?thesis using strict_core [OF c1 strict_fail] nf c1 by (simp only: unf sum.case) (simp add: cur_core)
  next
    case (Inr res)
    obtain txt1 sid where res: "res = (txt1, sid)" by (cases res)
    define w2 where "w2 = captureOutput stepName txt1 (w1\<lparr>jw_sessionIDs := mput (cur w) sid (jw_sessionIDs w1)\<rparr>)"
    have c2: "core w2 = core w" by (simp add: w2_def c1)
    note unf' = unf Inr res sum.case prod.case w2_def [symmetric]
    show ?thesis
    proof (cases rule: maybeSkip_cases [of env cfg "cur w" w2])
      case (skip w3)
      have "strict w2 w3" by (rule skip(2)) (simp add: cur_core c2)
      then show ?thesis using strict_core [OF c2] by (simp only: unf' skip(1) bool.case)
    next
      case (go w3)
      have c3: "core w3 = core w" using go(2) c2 by simp
      then have cw3: "cur w3 = cur w" by (simp add: cur_core)
      show ?thesis
      proof (cases "je_render env (sg_CommentTemplate stepCfg) stepName txt1 0 0")
        case (Inl e)
        then show ?thesis using strict_core [OF c3 strict_fail] nf cw3
          by (simp only: unf' go(1) bool.case sum.case) simp
      next
        case body: (Inr body)
        obtain posted w4 where p: "tracker_PostComment env body w3 = (posted, w4)"
          by (cases "tracker_PostComment env body w3")
        have c4: "core (note_comment True posted w4) = core w" using core_post [OF p] c3 by simp
        then have "agent_step (cur (note_comment True posted w4)) t" using assms by (simp add: cur_core)
        from strict_core [OF c4 strict_toReview [OF this]] show ?thesis
          by (simp only: unf' go(1) body p bool.case sum.case prod.case)
      qed
    qed
  qed
qed

lemma strict_runStepRounds:
  assumes "agent_step (cur w) t"
  shows "strict w (runStepRounds env cfg stepName stepCfg t trigger w)"
proof -
  have nf: "cur (start_cycle w) \<noteq> StepFailed" using assms by (simp add: agent_step_def cur_core)
  define rr where "rr = run_rounds env stepName stepCfg (jw_feedback w) 0 (sg_Rounds stepCfg) False [] (start_cycle w)"
  note rr = run_rounds_cases [OF nf, of env stepName stepCfg "jw_feedback w" 0 "sg_Rounds stepCfg" False "[]", folded rr_def]
  note unf = runStepRounds_def Let_def rr_def [symmetric]
  show ?thesis
  proof (cases rr)
    case (Inl w1)
    then have "strict (start_cycle w) w1" using rr by simp
    then show ?thesis using strict_core [of "start_cycle w" w] by (simp add: unf Inl)
  next
    case (Inr p)
    obtain outs w1 where p: "p = (outs, w1)" by (cases p)
    have c1: "core w1 = core w" using rr Inr p by simp
    define w2 where "w2 = captureOutput stepName (JoinRoundOutputs outs) w1"
    have c2: "core w2 = core w" by (simp add: w2_def c1)
    note unf' = unf Inr p sum.case prod.case w2_def [symmetric]
    show ?thesis
    proof (cases rule: maybeSkip_cases [of env cfg "cur w" w2])
      case (skip w3)
      have "strict w2 w3" by (rule skip(2)) (simp add: cur_core c2)
      then show ?thesis using strict_core [OF c2] by (simp only: unf' skip(1) bool.case)
    next
      case (go w3)
      have c3: "core w3 = core w" using go(2) c2 by simp
      then have "agent_step (cur w3) t" using assms by (simp add: cur_core)
      from strict_core [OF c3 strict_toReview [OF this]] show ?thesis
        by (simp only: unf' go(1) bool.case prod.case)
    qed
  qed
qed

lemma strict_runStepOrRounds:
  "agent_step (cur w) t \<Longrightarrow> strict w (runStepOrRounds env cfg stepName stepCfg t trigger w)"
  by (simp add: runStepOrRounds_def strict_runStep strict_runStepRounds)

section \<open>Reviews and the measure of a run\<close>

definition redo_targets :: "WorkflowStep list" where
  "redo_targets = [StepPlanning, StepBuilding, StepValidating, StepShipping]"

definition remaining :: "(WorkflowStep, int) gomap \<times> int \<Rightarrow> nat" where
  "remaining rp = sum_list (map (\<lambda>t. nat (snd rp - (case map_of (fst rp) t of None \<Rightarrow> 0 | Some n \<Rightarrow> n))) redo_targets)"

text \<open>Redos that are left weigh more than all steps together.\<close>

definition run_measure :: "Workflow \<Rightarrow> nat" where
  "run_measure w = 14 * remaining (redo_part w) + nat (13 - rank (cur w))"

definition moves :: "Workflow \<Rightarrow> Workflow \<Rightarrow> bool" where
  "moves w w' \<longleftrightarrow> run_measure w' < run_measure w \<and> hist w w'"

lemma rank_le: "rank s \<le> 13" "0 \<le> rank s"
  using step_no_range [of s] by (simp_all add: rank_def)

lemma strict_moves: "strict w w' \<Longrightarrow> moves w w'"
  using rank_le [of "cur w'"] by (auto simp: strict_def adv_def moves_def run_measure_def hist_def)

lemma moves_core: "core a = core b \<Longrightarrow> moves a c \<Longrightarrow> moves b c"
  by (simp add: moves_def core_def redo_part_def cur_def run_measure_def hist_def)

lemma moves_adv: "moves a b \<Longrightarrow> adv b c \<Longrightarrow> moves a c"
  by (auto simp: moves_def adv_def run_measure_def hist_def)

lemma remaining_redo:
  assumes "t \<in> set redo_targets"
  shows "remaining (mput t (redo_count t w + 1) (jw_redoCounts w), jw_maxRedos w) \<le> remaining (redo_part w)"
    and "redo_count t w + 1 \<le> jw_maxRedos w \<Longrightarrow>
      remaining (mput t (redo_count t w + 1) (jw_redoCounts w), jw_maxRedos w) < remaining (redo_part w)"
  using assms by (auto simp: remaining_def redo_targets_def redo_part_def redo_count_def split: option.splits)

lemma run_measure_less:
  assumes "remaining (redo_part w') < remaining (redo_part w)"
  shows "run_measure w' < run_measure w"
  using assms rank_le [of "cur w'"] rank_le [of "cur w"] by (simp add: run_measure_def)

lemma redo_moves:
  assumes "t \<in> set redo_targets" and "step_no t \<le> step_no (cur w)" and "cur w \<noteq> StepFailed"
  shows "moves w (applyReviewRedo env cfg t feedback w)"
proof -
  define w0 where "w0 = w\<lparr>jw_feedback := feedback\<rparr>"
  have c0: "core w0 = core w" by (simp add: w0_def)
  define w1 where "w1 = w0\<lparr>jw_approveAll := False, jw_redoCounts := mput t (redo_count t w0 + 1) (jw_redoCounts w0)\<rparr>"
  have r1: "redo_part w1 = (mput t (redo_count t w0 + 1) (jw_redoCounts w0), jw_maxRedos w0)"
    and cur1: "cur w1 = cur w0" and st1: "jw_state w1 = jw_state w0" and m1: "jw_maxRedos w1 = jw_maxRedos w0"
    by (simp_all add: w1_def redo_part_def cur_def)
  have nf: "cur w1 \<noteq> StepFailed" unfolding cur1 using assms(3) c0 by (simp add: cur_core)
  have failing: "moves w0 (fail env e w1)" for e
  proof -
    have "redo_part (fail env e w1) = redo_part w1" using fail_adv [of w1] by (simp add: adv_def)
    moreover have "rank (cur w0) < 13" using nf cur1 step_no_range [of "cur w0"] by (simp add: rank_def)
    moreover have "hist w0 (fail env e w1)" using fail_adv [of w1] st1 by (simp add: adv_def hist_def)
    ultimately show ?thesis
      using remaining_redo(1) [OF assms(1), of w0] by (simp add: moves_def run_measure_def r1 fail_cur rank_def)
  qed
  have res: "moves w0 (case tryRedo env cfg t w0 of (Some e, w2) \<Rightarrow> fail env e w2 | (None, w2) \<Rightarrow> w2)"
  proof (cases "redo_count t w0 + 1 > jw_maxRedos w0")
    case True
    then show ?thesis using failing by (simp add: tryRedo_def Let_def w1_def)
  next
    case le: False
    note unf = tryRedo_def Let_def w1_def [symmetric] m1
    show ?thesis
    proof (cases rule: transition_cases [of env t "''redo''" w1])
      case (bad e)
      then show ?thesis using failing le by (simp add: unf)
    next
      case (ok w2)
      have g: "gate_ok \<lparr>st_Timestamp = je_now env (jw_calls w1), st_Trigger = ''redo'', st_From = cur w1, st_To = t\<rparr>"
        unfolding cur1 using assms(2) c0 by (simp add: gate_ok_def cur_core)
      define w3 where "w3 = skipCompletedOrConfiguredPhases env cfg (reopenPhaseOnRedo env t w2)"
      define w4 where "w4 = (if cur w3 \<noteq> t then w3\<lparr>jw_feedback := []\<rparr> else w3)"
      have "adv w2 (reopenPhaseOnRedo env t w2)" by (rule adv_core) simp
      also have "adv \<dots> w3" unfolding w3_def by (rule adv_skipCompleted)
      also have "adv w3 w4" by (rule adv_core) (simp add: w4_def)
      finally have a: "adv w2 w4" .
      have "redo_part w4 = redo_part w1" using a ok(3) by (simp add: adv_def)
      then have "remaining (redo_part w4) < remaining (redo_part w0)"
        using remaining_redo(2) [OF assms(1), of w0] le by (simp add: r1)
      moreover have "hist w0 w4" using ok(5) [OF g] a st1 by (simp add: hist_def adv_def)
      ultimately have "moves w0 w4" by (simp add: moves_def run_measure_less)
      moreover have "tryRedo env cfg t w0 = (None, w4)"
        using le ok(1) by (simp add: unf w3_def w4_def)
      ultimately show ?thesis by simp
    qed
  qed
  from moves_core [OF c0 res] show ?thesis by (simp add: applyReviewRedo_def w0_def)
qed

lemma approve_moves:
  assumes "rank (cur w) < rank t" and "trigger \<in> set approvals" and "cur w \<noteq> StepFailed"
  shows "case approveTransition env cfg t trigger w of (Some e, w1) \<Rightarrow> w1 = w | (None, w1) \<Rightarrow> strict w w1"
proof (cases rule: transition_cases [of env t trigger w])
  case (bad e)
  then show ?thesis by (simp add: approveTransition_def)
next
  case (ok w')
  have "strict w w'" by (rule strict_transition [OF ok(1) assms(1)]) (use assms(2) in \<open>simp add: gate_ok_def\<close>)
  from strict_adv [OF this adv_boundary] show ?thesis by (simp add: approveTransition_def ok(1))
qed

lemma approval_moves:
  assumes "rank (cur w) < rank t" and "trigger \<in> set approvals" and "cur w \<noteq> StepFailed"
  shows "moves w (applyReviewApproval env cfg t trigger all w)"
proof -
  obtain e w1 where a: "approveTransition env cfg t trigger w = (e, w1)" by (cases "approveTransition env cfg t trigger w")
  show ?thesis
  proof (cases e)
    case (Some x)
    then have "w1 = w" using approve_moves [OF assms, of env cfg] a by simp
    then show ?thesis using strict_moves [OF strict_fail [OF assms(3)]] a Some by (simp add: applyReviewApproval_def)
  next
    case None
    then have s: "strict w w1" using approve_moves [OF assms, of env cfg] a by simp
    have "core (applyReviewApproval env cfg t trigger all w) = core w1"
      by (simp add: applyReviewApproval_def a None Let_def)
    from strict_moves [OF strict_adv [OF s adv_core [OF this]]] show ?thesis .
  qed
qed

definition review_step :: "WorkflowStep \<Rightarrow> WorkflowStep \<Rightarrow> WorkflowStep \<Rightarrow> bool" where
  "review_step s t1 t2 \<longleftrightarrow> rank s < rank t1 \<and> s \<noteq> StepFailed \<and> t2 \<in> set redo_targets \<and> step_no t2 \<le> step_no s"

lemma feedback_moves:
  assumes "review_step (cur w) t1 t2"
  shows "moves w (handleReviewFeedback env cfg fb t1 t2 w)"
  using assms
  by (cases "fb_Action fb") (simp_all add: handleReviewFeedback_def review_step_def approval_moves approvals_def redo_moves)

lemma runReview_moves:
  assumes "review_step (cur w) t1 t2"
  shows "moves w (runReview env cfg t1 t2 w)"
proof (cases "shouldAutoApprove cfg (cur w) w")
  case True
  define w1 where "w1 = (if jw_lastCommentAt w = None then w\<lparr>jw_lastCommentAt := Some (je_now env (jw_calls w))\<rparr> else w)"
  have c1: "core w1 = core w" by (simp add: w1_def)
  note unf = runReview_def True if_True Let_def w1_def [symmetric]
  show ?thesis
  proof (cases "fetchImmediateFeedback env w1")
    case (Some fb)
    have "review_step (cur (tick w1)) t1 t2" using assms c1 by (simp add: cur_core)
    from feedback_moves [OF this] have "moves (tick w1) (handleReviewFeedback env cfg fb t1 t2 (tick w1))" .
    from moves_core [OF _ this, of w] show ?thesis using c1 by (simp add: unf Some)
  next
    case None
    define w2 where "w2 = (tick w1)\<lparr>jw_feedback := []\<rparr>"
    have c2: "core w2 = core w" by (simp add: w2_def c1)
    have rs: "rank (cur w2) < rank t1" "cur w2 \<noteq> StepFailed" using assms c2 by (simp_all add: review_step_def cur_core)
    obtain e w3 where a: "approveTransition env cfg t1 ''auto_approved'' w2 = (e, w3)"
      by (cases "approveTransition env cfg t1 ''auto_approved'' w2")
    have "case (e, w3) of (Some e, w1) \<Rightarrow> w1 = w2 | (None, w1) \<Rightarrow> strict w2 w1"
      using approve_moves [OF rs(1) _ rs(2), of "''auto_approved''" env cfg] a by (simp add: approvals_def)
    then have "moves w2 (case (e, w3) of (Some e, w3) \<Rightarrow> fail env e w3 | (None, w3) \<Rightarrow> w3)"
      using strict_moves strict_fail [OF rs(2)] by (cases e) auto
    from moves_core [OF c2 this] show ?thesis by (simp add: unf None w2_def [symmetric] a)
  qed
next
  case False
  have nf: "cur w \<noteq> StepFailed" using assms by (simp add: review_step_def)
  show ?thesis
  proof (cases "PollForFeedback (je_ul env) (je_polls env (jw_calls w)) (jw_botCommentIDs w)")
    case None
    have "moves (tick w) (fail env e (tick w))" for e using nf by (intro strict_moves strict_fail) simp
    then have "moves w (fail env e (tick w))" for e using moves_core [of "tick w" w] by simp
    then show ?thesis using False None by (simp add: runReview_def)
  next
    case (Some fb)
    let ?w = "(tick w)\<lparr>jw_lastCommentAt := cm_CreatedAt (fb_Comment fb)\<rparr>"
    have "review_step (cur ?w) t1 t2" using assms by (simp add: cur_core)
    from feedback_moves [OF this] have "moves ?w (handleReviewFeedback env cfg fb t1 t2 ?w)" .
    from moves_core [OF _ this, of w] show ?thesis using False Some by (simp add: runReview_def)
  qed
qed

lemma iteration_moves:
  assumes "run_iteration env cfg w = (None, w')"
  shows "moves w w'"
proof -
  have t: "core (tick w) = core w" "cur (tick w) = cur w" by simp_all
  have a: "moves w (runStepOrRounds env cfg n sc t1 tr v)" if "core v = core w" "agent_step (cur w) t1" for n sc t1 tr v
    using that strict_moves [OF strict_runStepOrRounds [of v t1 env cfg n sc tr]] moves_core [of v w] by (simp add: cur_core)
  have b: "moves w (runStep env cfg n sc t1 tr (tick w))" if "agent_step (cur w) t1" for n sc t1 tr
    using that strict_moves [OF strict_runStep [of "tick w" t1 env cfg n sc tr]] moves_core [of "tick w" w] by simp
  have c: "moves w (runReview env cfg t1 t2 (tick w))" if "review_step (cur w) t1 t2" for t1 t2
    using that runReview_moves [of "tick w" t1 t2 env cfg] moves_core [of "tick w" w] by simp
  note facts = agent_step_def review_step_def rank_def IsReview_def redo_targets_def
  show ?thesis
  proof (cases "je_ctx env (jw_calls w)")
    case (Some e)
    then show ?thesis using assms by (simp add: run_iteration_def)
  next
    case None
    show ?thesis
      using assms None
      by (cases "cur w") (auto simp: run_iteration_def Let_def facts intro!: a b c)
  qed
qed

text \<open>A loop with as much fuel as the measure returns, with its history in order.\<close>

lemma run_loop_returns:
  assumes "run_measure w < fuel"
  shows "\<exists>r w'. run_loop fuel env cfg w = Some (r, w') \<and> (hist_ok (jw_state w) \<longrightarrow> hist_ok (jw_state w'))"
  using assms
proof (induction fuel arbitrary: w)
  case (Suc fuel)
  obtain r w1 where i: "run_iteration env cfg w = (r, w1)" by (cases "run_iteration env cfg w")
  show ?case
  proof (cases r)
    case None
    then have m: "moves w w1" using iteration_moves i by simp
    then have "run_measure w1 < fuel" using Suc.prems by (simp add: moves_def)
    from Suc.IH [OF this] m show ?thesis using i None by (auto simp: moves_def hist_def)
  next
    case (Some x)
    have "core w1 = core w"
      using i Some by (auto simp: run_iteration_def Let_def split: option.splits WorkflowStep.splits)
    then show ?thesis using i Some by (simp add: core_def)
  qed
qed simp

section \<open>Whole runs\<close>

lemma core_New: "core (NewWorkflow cfg teamID labels labelIDs) = (NewStateMachine, [], 3)"
  unfolding NewWorkflow_def addSkipPhasesFromLabels_def Let_def
  by (subst core_fold, simp, subst core_fold, simp, simp add: core_def)

lemma core_resolve: "resolveStateIDs env cfg w = (e, w1) \<Longrightarrow> core w1 = core w"
  by (auto simp: resolveStateIDs_def Let_def core_def tick_def split: if_splits sum.splits)

lemma start_run_None:
  assumes "start_run env cfg w = (None, w1)" and "core w = (NewStateMachine, [], 3)"
  shows "run_measure w1 < 200 \<and> hist_ok (jw_state w1)"
proof -
  obtain e v where r: "resolveStateIDs env cfg w = (e, v)" by (cases "resolveStateIDs env cfg w")
  then have e: "e = None" using assms(1) by (cases e) (simp_all add: start_run_def)
  have cv: "core v = (NewStateMachine, [], 3)" using core_resolve [OF r] assms(2) by simp
  obtain v2 where t: "transition env StepPlanning ''start'' v = (None, v2)"
    and w1: "w1 = enter_current env (skipCompletedOrConfiguredPhases env cfg (update_state ''in_progress'' v2))"
    using assms(1) by (auto simp: start_run_def r e split: prod.splits option.splits)
  have cur_v: "cur v = StepInit" "hist_ok (jw_state v)"
    using cv by (simp_all add: cur_core core_def hist_ok_def history_ok_New NewStateMachine_def) (simp add: history_ok_def)
  have "strict v v2" by (rule strict_transition [OF t]) (simp_all add: cur_v rank_def gate_ok_def IsReview_def)
  then have "adv v v2" by (simp add: strict_def)
  also have "adv v2 (update_state ''in_progress'' v2)" by (rule adv_core) simp
  also have "adv \<dots> (skipCompletedOrConfiguredPhases env cfg \<dots>)" by (rule adv_skipCompleted)
  also have "adv \<dots> w1" unfolding w1 by (rule adv_enter)
  finally have a: "adv v w1" .
  have "redo_part w1 = ([], 3)" using a cv by (simp add: adv_def redo_part_def core_def)
  then have "remaining (redo_part w1) = 12" by (simp add: remaining_def redo_targets_def)
  then show ?thesis using a cur_v rank_le [of "cur w1"] by (simp add: run_measure_def adv_def)
qed

lemma core_start_error: "start_run env cfg w = (Some r, w1) \<Longrightarrow> core w1 = core w"
proof -
  assume s: "start_run env cfg w = (Some r, w1)"
  obtain e v where r: "resolveStateIDs env cfg w = (e, v)" by (cases "resolveStateIDs env cfg w")
  show ?thesis
  proof (cases rule: transition_cases [of env StepPlanning "''start''" v])
    case (bad e')
    then show ?thesis using s core_resolve [OF r] by (cases e) (auto simp: start_run_def r)
  next
    case (ok w')
    then show ?thesis using s core_resolve [OF r] by (cases e) (auto simp: start_run_def r)
  qed
qed

lemma Run_returns: "\<exists>r w'. Run 200 env cfg (NewWorkflow cfg teamID labels labelIDs) = Some (r, w')"
proof -
  obtain r w1 where s: "start_run env cfg (NewWorkflow cfg teamID labels labelIDs) = (r, w1)"
    by (cases "start_run env cfg (NewWorkflow cfg teamID labels labelIDs)")
  show ?thesis
  proof (cases r)
    case None
    then have "run_measure w1 < 200" using start_run_None [OF _ core_New] s by blast
    then obtain r' w' where "run_loop 200 env cfg w1 = Some (r', w')"
      using run_loop_returns [of w1 200 env cfg] by blast
    then show ?thesis using s None by (simp add: Run_def)
  qed (simp add: Run_def s)
qed



text \<open>An environment where every phase is already marked done.\<close>

definition done_env :: jenv where
  "done_env = \<lparr>je_ul = (\<lambda>s. s), je_now = (\<lambda>_. 0), je_ctx = (\<lambda>_. None), je_ok = (\<lambda>_. True),
     je_fetch = (\<lambda>_. Some (map (\<lambda>p. doneLabel (fst p)) phaseTable, [])), je_states = (\<lambda>_. Inr []),
     je_comments = (\<lambda>_. None), je_polls = (\<lambda>_. []), je_post = (\<lambda>_. None), je_agent = (\<lambda>_. Inl ''no agent''),
     je_command = (\<lambda>_. Inl []), je_render = (\<lambda>_ _ _ _ _. Inr []), je_dirty = (\<lambda>_. None), je_diff = (\<lambda>_. None),
     je_plan = (\<lambda>_. None)\<rparr>"

definition plain_step :: StepConfig where
  "plain_step = \<lparr>sg_Rounds = [], sg_AutoApprove = False, sg_CommentTemplate = [], sg_RoundCommentTemplate = []\<rparr>"

definition plain_config :: Config where
  "plain_config = \<lparr>jc_Plan = plain_step, jc_Build = plain_step, jc_CreatePR = plain_step, jc_Validate = plain_step,
     jc_Ship = plain_step, jc_SkipPhases = [], jc_skipPhaseSource = None, jc_InProgress = ''In Progress'',
     jc_InReview = ''In Review'', jc_Done = ''Done''\<rparr>"


end
