(* ===== verification/JiraScheduler.thy ===== *)
theory JiraScheduler
  imports JiraState GoText
begin

text \<open>
  The scheduler of jiradozer's team mode (\<open>jiradozer/orchestrator.go\<close>, \<open>orchestrator_logtail.go\<close>,
  \<open>discovery.go\<close>): discovery polls the tracker and hands new issues to the scheduler, which
  runs each in a child process in a worktree of its own, within a limit. The operations are
  functions on the scheduler's state; the goroutines that share it (the poller, the loop that
  starts workflows, one waiter for each child, watchdogs) are the step relation \<open>sys_step\<close>, whose
  steps are the sections the code runs under its locks. Log lines are left out.
\<close>

section \<open>Data\<close>

record TrackerIssue =
  ki_Description :: "string option"
  ki_BranchName :: "string option"
  ki_URL :: "string option"
  ki_ID :: string
  ki_Identifier :: string
  ki_Title :: string
  ki_State :: string
  ki_TeamID :: string
  ki_Labels :: "string list"
  ki_LabelIDs :: "string list"

text \<open>What the scheduler uses of the configuration; the idle timeouts are in step order.\<close>

record SchedConfig =
  sx_MaxConcurrent :: int
  sx_DryRun :: bool
  sx_BranchPrefix :: string
  sx_BaseBranch :: string
  sx_Model :: string
  sx_InProgress :: string
  sx_IdleTimeouts :: "(string \<times> duration) list"

text \<open>
  \<open>mw_ctx\<close> is the context of the workflow's cancel function and whether it is cancelled; a
  placeholder and a restored workflow have no cancel function.
\<close>

record managedWorkflow =
  mw_startedAt :: time
  mw_issue :: TrackerIssue
  mw_logPath :: string
  mw_ctx :: "bool option"
  mw_worktreePath :: string
  mw_branch :: string
  mw_pid :: int
  mw_cancelled :: bool
  mw_currentStep :: string
  mw_tailRing :: "string list"
  mw_lastOutputAt :: "time option"
  mw_tailerAlive :: bool
  mw_inReview :: bool
  mw_hung :: bool

record PreservedWorktree =
  pw_Branch :: string
  pw_WorktreePath :: string
  pw_Issue :: string
  pw_Step :: WorkflowStep

datatype sched_action =
    CreateWorktree string
  | DropWorktree string bool bool
  | LabelAdd string
  | LabelRemove string
  | MoveState string string
  | Spawn string "string list"
  | EmitStatus string WorkflowStep
  | ReportFailure string string
  | PrintCommand string

text \<open>The workflows are objects that the map and the goroutines share: a heap, and handles to it.\<close>

record scheduler =
  so_config :: SchedConfig
  so_heap :: "managedWorkflow list"
  so_active :: "(string, nat) gomap"
  so_runtimeFailures :: "(string, int) gomap"
  so_releasedForRetry :: "(string, bool) gomap"
  so_preserved :: "PreservedWorktree list"
  so_forceCleanup :: bool
  so_slotFreed :: bool
  so_childArgs :: "string list"
  so_repoName :: string
  so_trace :: "sched_action list"

definition NewScheduler :: "SchedConfig \<Rightarrow> string \<Rightarrow> scheduler" where
  "NewScheduler cfg repo = \<lparr>so_config = cfg, so_heap = [], so_active = [], so_runtimeFailures = [],
     so_releasedForRetry = [], so_preserved = [], so_forceCleanup = False, so_slotFreed = False,
     so_childArgs = [], so_repoName = repo, so_trace = []\<rparr>"

abbreviation LockLabel :: string where "LockLabel \<equiv> ''jiradozer-active''"

definition maxRuntimeFailures :: int where "maxRuntimeFailures = 3"
definition maxStartFailures :: int where "maxStartFailures = 3"
definition tailRingMax :: nat where "tailRingMax = 20"
definition tailLineMax :: nat where "tailLineMax = 2000"

definition emit :: "sched_action list \<Rightarrow> scheduler \<Rightarrow> scheduler" where
  "emit as o1 = o1\<lparr>so_trace := so_trace o1 @ as\<rparr>"

definition alloc :: "managedWorkflow \<Rightarrow> scheduler \<Rightarrow> nat \<times> scheduler" where
  "alloc m o1 = (length (so_heap o1), o1\<lparr>so_heap := so_heap o1 @ [m]\<rparr>)"

definition modify :: "nat \<Rightarrow> (managedWorkflow \<Rightarrow> managedWorkflow) \<Rightarrow> scheduler \<Rightarrow> scheduler" where
  "modify h f o1 = o1\<lparr>so_heap := (so_heap o1)[h := f (so_heap o1 ! h)]\<rparr>"

definition signal_slot :: "scheduler \<Rightarrow> scheduler" where
  "signal_slot o1 = o1\<lparr>so_slotFreed := True\<rparr>"

section \<open>Suppression and release\<close>

definition ActiveCount :: "scheduler \<Rightarrow> int" where
  "ActiveCount o1 = int (length (so_active o1))"

definition ActiveIssueIDs :: "scheduler \<Rightarrow> (string, bool) gomap" where
  "ActiveIssueIDs o1 =
    fold (\<lambda>(i, n) m. if n \<ge> maxRuntimeFailures then mput i True m else m) (so_runtimeFailures o1)
      (fold (\<lambda>(i, _) m. mput i True m) (so_active o1) [])"

definition DrainReleasedForRetry :: "scheduler \<Rightarrow> string list \<times> scheduler" where
  "DrainReleasedForRetry o1 =
    (if so_releasedForRetry o1 = [] then ([], o1)
     else (map fst (so_releasedForRetry o1), o1\<lparr>so_releasedForRetry := []\<rparr>))"

definition recordRuntimeFailure :: "TrackerIssue \<Rightarrow> scheduler \<Rightarrow> scheduler" where
  "recordRuntimeFailure i o1 =
    (let n = (case map_of (so_runtimeFailures o1) (ki_ID i) of Some k \<Rightarrow> k | None \<Rightarrow> 0)
     in o1\<lparr>so_runtimeFailures := mput (ki_ID i) (n + 1) (so_runtimeFailures o1)\<rparr>)"

definition recordSuccess :: "string \<Rightarrow> scheduler \<Rightarrow> scheduler" where
  "recordSuccess i o1 = o1\<lparr>so_runtimeFailures := mdel i (so_runtimeFailures o1),
     so_releasedForRetry := mdel i (so_releasedForRetry o1)\<rparr>"

definition unreserveSlot :: "string \<Rightarrow> scheduler \<Rightarrow> scheduler" where
  "unreserveSlot i o1 = signal_slot (o1\<lparr>so_active := mdel i (so_active o1)\<rparr>)"

section \<open>Starting a workflow\<close>

definition shellQuote :: "string \<Rightarrow> string" where
  "shellQuote s = [CHR 0x27] @ concat (map (\<lambda>c. if c = CHR 0x27 then [CHR 0x27, CHR 0x5C, CHR 0x27, CHR 0x27] else [c]) s) @ [CHR 0x27]"

definition branch_of :: "SchedConfig \<Rightarrow> TrackerIssue \<Rightarrow> string" where
  "branch_of cfg i = sx_BranchPrefix cfg @ ''/'' @ ki_Identifier i"

definition printDryRunCommand :: "SchedConfig \<Rightarrow> string \<Rightarrow> TrackerIssue \<Rightarrow> string" where
  "printDryRunCommand cfg repo i =
    (let prompt0 = ''Work on '' @ ki_Identifier i @ '': '' @ ki_Title i;
         prompt = (case ki_URL i of Some u \<Rightarrow> if u \<noteq> [] then prompt0 @ [CHR 0x0A, CHR 0x0A] @ u else prompt0 | None \<Rightarrow> prompt0);
         args = [''bramble new-session'', ''  --type planner'', ''  --create-worktree'',
                 ''  --branch '' @ shellQuote (branch_of cfg i), ''  --from '' @ shellQuote (sx_BaseBranch cfg),
                 ''  --model '' @ shellQuote (sx_Model cfg)] @
                (if repo \<noteq> [] then [''  --repo '' @ shellQuote repo] else []) @
                [''  --goal '' @ shellQuote (ki_Title i), ''  --prompt '' @ shellQuote prompt]
     in join_with ('' '' @ [CHR 0x5C, CHR 0x0A]) args)"

datatype start_error =
    ConcurrencyLimit int | AlreadyActive string | WorktreeFailed string | OpenLogFailed string | SpawnFailed string

datatype reserved = StartReturns "start_error option" | SlotReserved

definition placeholder :: "TrackerIssue \<Rightarrow> managedWorkflow" where
  "placeholder i = \<lparr>mw_startedAt = 0, mw_issue = i, mw_logPath = [], mw_ctx = None, mw_worktreePath = [],
     mw_branch = [], mw_pid = 0, mw_cancelled = False, mw_currentStep = [], mw_tailRing = [],
     mw_lastOutputAt = None, mw_tailerAlive = False, mw_inReview = False, mw_hung = False\<rparr>"

text \<open>The part of \<open>Start\<close> under the lock: the limit, the duplicate check, the reservation.\<close>

definition start_reserve :: "SchedConfig \<Rightarrow> TrackerIssue \<Rightarrow> scheduler \<Rightarrow> reserved \<times> scheduler" where
  "start_reserve cfg i o1 =
    (if sx_DryRun cfg then (StartReturns None, emit [PrintCommand (printDryRunCommand cfg (so_repoName o1) i)] o1)
     else if ActiveCount o1 \<ge> sx_MaxConcurrent cfg
     then (StartReturns (Some (ConcurrencyLimit (sx_MaxConcurrent cfg))), o1)
     else if ki_ID i \<in> keys (so_active o1) then (StartReturns (Some (AlreadyActive (ki_Identifier i))), o1)
     else let (h, o2) = alloc (placeholder i) o1 in
       (SlotReserved, o2\<lparr>so_active := mput (ki_ID i) h (so_active o2)\<rparr>))"

text \<open>The answers of the worktree manager, the tracker and the system to one \<open>Start\<close>.\<close>

record start_env =
  sv_worktree :: "string + string"
  sv_log_error :: "string option"
  sv_logPath :: string
  sv_spawn :: "string + int"
  sv_states :: "string + (string \<times> string) list"
  sv_now :: time
  sv_ctx_cancelled :: bool

text \<open>The state to move to is the first one with the configured name.\<close>

definition transitionToInProgress :: "start_env \<Rightarrow> SchedConfig \<Rightarrow> TrackerIssue \<Rightarrow> scheduler \<Rightarrow> scheduler" where
  "transitionToInProgress e cfg i o1 =
    (if ki_TeamID i = [] then o1
     else case sv_states e of
         Inl _ \<Rightarrow> o1
       | Inr states \<Rightarrow> (case find (\<lambda>st. fst st = sx_InProgress cfg) states of
           None \<Rightarrow> o1 | Some st \<Rightarrow> emit [MoveState (ki_ID i) (snd st)] o1))"

text \<open>The rollback of a start that fails with the worktree and the label in place.\<close>

definition start_rollback :: "string \<Rightarrow> TrackerIssue \<Rightarrow> scheduler \<Rightarrow> scheduler" where
  "start_rollback branch i o1 =
     unreserveSlot (ki_ID i) (emit [DropWorktree branch True True, LabelRemove (ki_ID i)] o1)"

text \<open>The rest of \<open>Start\<close>: its error, or the handle of the workflow whose waiter now runs.\<close>

definition start_finish ::
  "start_env \<Rightarrow> SchedConfig \<Rightarrow> TrackerIssue \<Rightarrow> scheduler \<Rightarrow> (start_error + nat) \<times> scheduler" where
  "start_finish e cfg i o1 =
    (let branch = branch_of cfg i; o2 = emit [CreateWorktree branch] o1 in
     case sv_worktree e of
       Inl err \<Rightarrow> (Inl (WorktreeFailed err), unreserveSlot (ki_ID i) o2)
     | Inr path \<Rightarrow>
       (let o3 = emit [LabelAdd (ki_ID i)] o2;
            args = [''--issue'', ki_Identifier i, ''--work-dir'', path] @ so_childArgs o3
        in case sv_log_error e of
             Some err \<Rightarrow> (Inl (OpenLogFailed err), start_rollback branch i o3)
           | None \<Rightarrow>
             (case sv_spawn e of
                Inl err \<Rightarrow> (Inl (SpawnFailed err), start_rollback branch i o3)
              | Inr pid \<Rightarrow>
                (let o4 = transitionToInProgress e (so_config o3) i (emit [Spawn branch args] o3);
                     m = (placeholder i)\<lparr>mw_startedAt := sv_now e, mw_logPath := sv_logPath e,
                           mw_ctx := Some (sv_ctx_cancelled e), mw_worktreePath := path, mw_branch := branch,
                           mw_pid := pid, mw_lastOutputAt := Some (sv_now e), mw_tailerAlive := True\<rparr>;
                     (h, o5) = alloc m o4
                 in (Inr h, emit [EmitStatus (ki_ID i) StepInit]
                              (o5\<lparr>so_active := mput (ki_ID i) h (so_active o5)\<rparr>))))))"

definition Start ::
  "start_env \<Rightarrow> TrackerIssue \<Rightarrow> scheduler \<Rightarrow> (start_error + nat option) \<times> scheduler" where
  "Start e i o1 =
    (case start_reserve (so_config o1) i o1 of
       (StartReturns None, o2) \<Rightarrow> (Inr None, o2)
     | (StartReturns (Some err), o2) \<Rightarrow> (Inl err, o2)
     | (SlotReserved, o2) \<Rightarrow>
         (case start_finish e (so_config o1) i o2 of
            (Inl err, o3) \<Rightarrow> (Inl err, o3)
          | (Inr h, o3) \<Rightarrow> (Inr (Some h), o3)))"

section \<open>The end of a workflow\<close>

definition kept_worktree :: "bool \<Rightarrow> WorkflowStep \<Rightarrow> bool" where
  "kept_worktree force st \<longleftrightarrow> st = StepDone \<or> ((st = StepCancelled \<or> st = StepFailed) \<and> \<not> force)"

definition cleanup :: "nat \<Rightarrow> WorkflowStep \<Rightarrow> scheduler \<Rightarrow> scheduler" where
  "cleanup h st o1 =
    (let m = so_heap o1 ! h; i = ki_ID (mw_issue m);
         o2 = emit [LabelRemove i] o1;
         o3 = (if kept_worktree (so_forceCleanup o2) st
               then o2\<lparr>so_preserved := so_preserved o2 @ [\<lparr>pw_Branch = mw_branch m, pw_WorktreePath = mw_worktreePath m,
                      pw_Issue = ki_Identifier (mw_issue m), pw_Step = st\<rparr>]\<rparr>
               else emit [DropWorktree (mw_branch m) True (so_forceCleanup o2)] o2);
         o4 = o3\<lparr>so_active := mdel i (so_active o3)\<rparr>;
         n = (case map_of (so_runtimeFailures o4) i of Some k \<Rightarrow> k | None \<Rightarrow> 0);
         o5 = (if (st = StepFailed \<or> st = StepCancelled) \<and> n < maxRuntimeFailures
               then o4\<lparr>so_releasedForRetry := mput i True (so_releasedForRetry o4)\<rparr> else o4)
     in signal_slot o5)"

text \<open>
  How a child ended: what \<open>cmd.Wait\<close> returned, or the answer of \<open>wait4\<close> for a restored one.
  The result is the step and the text of the failure that is reported, if one is.
\<close>

datatype child_exit = Waited "string option" | Wait4Failed string | Wait4Status int

definition sigint :: int where "sigint = 2"

definition status_exited :: "int \<Rightarrow> bool" where "status_exited st \<longleftrightarrow> st mod 128 = 0"
definition ExitStatus :: "int \<Rightarrow> int" where "ExitStatus st = (if status_exited st then st div 256 mod 256 else - 1)"
definition status_signaled :: "int \<Rightarrow> bool" where "status_signaled st \<longleftrightarrow> st mod 128 \<noteq> 127 \<and> st mod 128 \<noteq> 0"

definition wait_outcome :: "managedWorkflow \<Rightarrow> string option \<Rightarrow> WorkflowStep \<times> string option" where
  "wait_outcome m err =
    (if mw_ctx m = Some True \<and> mw_hung m
     then (StepFailed, Some (''subprocess hung and was cancelled by watchdog: '' @ (case err of Some e \<Rightarrow> e | None \<Rightarrow> ''%!w(<nil>)'')))
     else if mw_ctx m = Some True then (StepCancelled, None)
     else case err of None \<Rightarrow> (StepDone, None) | Some e \<Rightarrow> (StepFailed, Some e))"

definition wait_status_text :: "int \<Rightarrow> int \<Rightarrow> string" where
  "wait_status_text pid st = ''subprocess pid '' @ Itoa pid @ '' exited with wait status '' @ Itoa st"

definition restored_outcome :: "managedWorkflow \<Rightarrow> child_exit \<Rightarrow> WorkflowStep \<times> string option" where
  "restored_outcome m x =
    (case x of
       Wait4Failed e \<Rightarrow> (StepFailed, Some e)
     | Wait4Status st \<Rightarrow>
         if status_exited st \<and> ExitStatus st = 0 then (StepDone, None)
         else if mw_cancelled m \<or> (status_signaled st \<and> st mod 128 = sigint) then (StepCancelled, None)
         else (StepFailed, Some (wait_status_text (mw_pid m) st))
     | Waited err \<Rightarrow> wait_outcome m err)"

text \<open>What the waiter does before the cleanup: report, count, publish the status.\<close>

definition record_end :: "nat \<Rightarrow> WorkflowStep \<Rightarrow> string option \<Rightarrow> scheduler \<Rightarrow> scheduler" where
  "record_end h st report o1 =
    (let i = mw_issue (so_heap o1 ! h);
         o2 = (case report of
             Some t \<Rightarrow> recordRuntimeFailure i (emit [ReportFailure (ki_ID i) t] o1)
           | None \<Rightarrow> if st = StepDone then recordSuccess (ki_ID i) o1 else o1)
     in emit [EmitStatus (ki_ID i) st] o2)"

section \<open>Restoring, cancelling, the watchdog\<close>

record ManagedWorkflowSnapshot =
  ws_Issue :: "TrackerIssue option"
  ws_StartedAt :: time
  ws_WorktreePath :: string
  ws_Branch :: string
  ws_LogPath :: string
  ws_PID :: int

definition ActiveWorkflowSnapshots :: "scheduler \<Rightarrow> ManagedWorkflowSnapshot list" where
  "ActiveWorkflowSnapshots o1 = map (\<lambda>(_, h). let m = so_heap o1 ! h in
     \<lparr>ws_Issue = Some (mw_issue m), ws_StartedAt = mw_startedAt m, ws_WorktreePath = mw_worktreePath m,
      ws_Branch = mw_branch m, ws_LogPath = mw_logPath m, ws_PID = mw_pid m\<rparr>) (so_active o1)"

text \<open>The result lists the handles of the workflows restored; each gets a waiter.\<close>

definition restore_one :: "ManagedWorkflowSnapshot \<Rightarrow> nat list \<times> scheduler \<Rightarrow> nat list \<times> scheduler" where
  "restore_one snap acc =
    (case ws_Issue snap of
       None \<Rightarrow> acc
     | Some i \<Rightarrow>
       (if ws_PID snap \<le> 0 \<or> ki_ID i = [] \<or> ki_ID i \<in> keys (so_active (snd acc)) then acc
        else let (h, o2) = alloc ((placeholder i)\<lparr>mw_startedAt := ws_StartedAt snap,
                   mw_worktreePath := ws_WorktreePath snap, mw_branch := ws_Branch snap,
                   mw_logPath := ws_LogPath snap, mw_pid := ws_PID snap\<rparr>) (snd acc)
          in (fst acc @ [h], emit [EmitStatus (ki_ID i) StepInit]
                 (o2\<lparr>so_active := mput (ki_ID i) h (so_active o2)\<rparr>))))"

definition RestoreActive :: "ManagedWorkflowSnapshot list \<Rightarrow> scheduler \<Rightarrow> nat list \<times> scheduler" where
  "RestoreActive snaps o1 = fold restore_one snaps ([], o1)"

definition Cancel :: "string \<Rightarrow> scheduler \<Rightarrow> scheduler" where
  "Cancel i o1 =
    (case map_of (so_active o1) i of
       None \<Rightarrow> o1
     | Some h \<Rightarrow>
         if mw_ctx (so_heap o1 ! h) \<noteq> None then modify h (mw_ctx_update (\<lambda>_. Some True)) o1
         else if mw_pid (so_heap o1 ! h) > 0 then modify h (mw_cancelled_update (\<lambda>_. True)) o1
         else o1)"

abbreviation "step_names \<equiv> [''plan'', ''build'', ''create_pr'', ''validate'', ''ship'']"

definition timeout_of :: "SchedConfig \<Rightarrow> string \<Rightarrow> duration" where
  "timeout_of cfg st = (case map_of (sx_IdleTimeouts cfg) st of Some d \<Rightarrow> d | None \<Rightarrow> 0)"

definition startupIdleTimeout :: "SchedConfig \<Rightarrow> duration" where
  "startupIdleTimeout cfg =
    (case find (\<lambda>st. timeout_of cfg st > 0) step_names of Some st \<Rightarrow> timeout_of cfg st | None \<Rightarrow> 0)"

definition idleTimeoutForStep :: "SchedConfig \<Rightarrow> string \<Rightarrow> duration" where
  "idleTimeoutForStep cfg st = (if st \<in> set step_names then timeout_of cfg st else startupIdleTimeout cfg)"

text \<open>One tick of the watchdog: whether it fires.\<close>

definition watchdog_fires :: "SchedConfig \<Rightarrow> time \<Rightarrow> managedWorkflow \<Rightarrow> bool" where
  "watchdog_fires cfg now m \<longleftrightarrow>
     mw_tailerAlive m \<and> \<not> mw_inReview m \<and> idleTimeoutForStep cfg (mw_currentStep m) > 0 \<and>
     (case mw_lastOutputAt m of None \<Rightarrow> False | Some t \<Rightarrow> now - t \<ge> idleTimeoutForStep cfg (mw_currentStep m))"

definition watchdog_tick :: "time \<Rightarrow> nat \<Rightarrow> scheduler \<Rightarrow> scheduler" where
  "watchdog_tick now h o1 =
    (if watchdog_fires (so_config o1) now (so_heap o1 ! h)
     then modify h (\<lambda>m. m\<lparr>mw_hung := True, mw_ctx := map_option (\<lambda>_. True) (mw_ctx m)\<rparr>) o1
     else o1)"

section \<open>The log of a child\<close>

definition rune_start :: "char \<Rightarrow> bool" where
  "rune_start c \<longleftrightarrow> \<not> (128 \<le> byte c \<and> byte c < 192)"

fun back_up :: "nat \<Rightarrow> string \<Rightarrow> nat" where
  "back_up 0 s = 0"
| "back_up (Suc n) s = (if rune_start (s ! Suc n) then Suc n else back_up n s)"

definition capTailLine :: "string \<Rightarrow> string" where
  "capTailLine line0 =
    (let line = TrimRight {CHR 0x0A} line0 in
     if line = [] then []
     else if length line > tailLineMax
     then take (back_up tailLineMax line) line @ [CHR 0xE2, CHR 0x80, CHR 0xA6]
     else line)"

definition appendTail :: "string \<Rightarrow> managedWorkflow \<Rightarrow> managedWorkflow" where
  "appendTail line m =
    (let l = capTailLine line in
     if l = [] then m
     else let ring = mw_tailRing m @ [l] in
       m\<lparr>mw_tailRing := (if length ring > tailRingMax then drop (length ring - tailRingMax) ring else ring)\<rparr>)"

text \<open>The effect of an allow-listed message on the workflow.\<close>

definition isAllowListedMsg :: "string \<Rightarrow> bool" where
  "isAllowListedMsg msg \<longleftrightarrow> HasPrefix msg ''step: '' \<or> msg = ''step completed'' \<or>
     msg = ''waiting for approval'' \<or> HasPrefix msg ''feedback: ''"

definition note_message :: "string \<Rightarrow> managedWorkflow \<Rightarrow> managedWorkflow" where
  "note_message msg m =
    (if HasPrefix msg ''step: '' then m\<lparr>mw_currentStep := TrimPrefix' msg ''step: '', mw_inReview := False\<rparr>
     else if msg = ''waiting for approval'' then m\<lparr>mw_inReview := True\<rparr>
     else if HasPrefix msg ''feedback: '' then m\<lparr>mw_inReview := False\<rparr>
     else m)"

text \<open>
  The two regular expressions, as matchers. The prefix of a log line is a letter, the date, the
  time with a fraction, a process number and a source position in front of a closing bracket;
  a field is a word, an equals sign and a character that is no blank.
\<close>

fun drop_digits :: "nat \<Rightarrow> string \<Rightarrow> string option" where
  "drop_digits 0 s = Some s"
| "drop_digits (Suc n) [] = None"
| "drop_digits (Suc n) (c # s) = (if is_digit c then drop_digits n s else None)"

definition drop_lit :: "string \<Rightarrow> string \<Rightarrow> string option" where
  "drop_lit p s = (if HasPrefix s p then Some (drop (length p) s) else None)"

definition drop_run :: "(char \<Rightarrow> bool) \<Rightarrow> string \<Rightarrow> string option" where
  "drop_run P s = (if takeWhile P s = [] then None else Some (dropWhile P s))"

definition klog_source :: "string \<Rightarrow> string option" where
  "klog_source s =
    (case drop_lit '' '' s of
       None \<Rightarrow> None
     | Some t \<Rightarrow> Option.bind (drop_run (\<lambda>c. c \<noteq> CHR '']'') t) (drop_lit ''] ''))"

definition klogfmtLine :: "string \<Rightarrow> string option" where
  "klogfmtLine line =
    (case line of
       [] \<Rightarrow> None
     | c # s \<Rightarrow>
       if c \<notin> {CHR ''I'', CHR ''W'', CHR ''E'', CHR ''D''} then None
       else Option.bind (drop_digits 4 s) (\<lambda>s. Option.bind (drop_lit '' '' s) (\<lambda>s.
         Option.bind (drop_digits 2 s) (\<lambda>s. Option.bind (drop_lit '':'' s) (\<lambda>s.
         Option.bind (drop_digits 2 s) (\<lambda>s. Option.bind (drop_lit '':'' s) (\<lambda>s.
         Option.bind (drop_digits 2 s) (\<lambda>s. Option.bind (drop_lit ''.'' s) (\<lambda>s.
         Option.bind (drop_run is_digit s) (\<lambda>s. Option.bind (drop_run (\<lambda>c. c = CHR '' '') s) (\<lambda>s.
         Option.bind (drop_run is_digit s) klog_source)))))))))))"

definition word_char :: "char \<Rightarrow> bool" where
  "word_char c \<longleftrightarrow> is_digit c \<or> (CHR ''A'' \<le> c \<and> c \<le> CHR ''Z'') \<or> (CHR ''a'' \<le> c \<and> c \<le> CHR ''z'') \<or> c = CHR ''_''"

definition re_blank :: "char \<Rightarrow> bool" where
  "re_blank c \<longleftrightarrow> c \<in> {CHR '' '', CHR 0x09, CHR 0x0A, CHR 0x0C, CHR 0x0D}"

definition field_here :: "string \<Rightarrow> bool" where
  "field_here s \<longleftrightarrow> takeWhile word_char s \<noteq> [] \<and>
     (case dropWhile word_char s of e # c # _ \<Rightarrow> e = CHR ''='' \<and> \<not> re_blank c | _ \<Rightarrow> False)"

fun before_field :: "string \<Rightarrow> string" where
  "before_field [] = []"
| "before_field (c # s) = (if field_here (c # s) then [] else c # before_field s)"

definition message_of :: "string \<Rightarrow> string option" where
  "message_of line = map_option (\<lambda>body. TrimSpace (before_field body)) (klogfmtLine (TrimRight {CHR 0x0D, CHR 0x0A} line))"

text \<open>One line of the log.\<close>

definition tail_line :: "time \<Rightarrow> string \<Rightarrow> managedWorkflow \<Rightarrow> managedWorkflow" where
  "tail_line now line m =
    (let m1 = appendTail line (m\<lparr>mw_lastOutputAt := Some now\<rparr>) in
     case message_of line of
       Some msg \<Rightarrow> if isAllowListedMsg msg then note_message msg m1 else m1
     | None \<Rightarrow> m1)"

section \<open>Discovery\<close>

text \<open>The rebuilt set of seen issues and the issues that are new.\<close>

definition poll_rebuild ::
  "(string, bool) gomap \<Rightarrow> string list \<Rightarrow> TrackerIssue list \<Rightarrow> (string, bool) gomap \<Rightarrow>
   (string, bool) gomap \<times> TrackerIssue list" where
  "poll_rebuild active released issues seen0 =
    (let seen = fold mdel released seen0 in
     (fold (\<lambda>i m. mput (ki_ID i) True m) issues [],
      filter (\<lambda>i. map_of active (ki_ID i) \<noteq> Some True \<and> map_of seen (ki_ID i) \<noteq> Some True) issues))"

section \<open>Starting what was discovered\<close>

datatype start_verdict = Started | KeepPending | Suppressed | RetryLater | GiveUp

definition worktree_exists_text :: string where
  "worktree_exists_text = ''worktree already exists''"

text \<open>The text of a start error, with the identifier of the issue, the texts the code wraps.\<close>

definition start_error_text :: "TrackerIssue \<Rightarrow> start_error \<Rightarrow> string" where
  "start_error_text i err = (case err of
      ConcurrencyLimit n \<Rightarrow> ''concurrency limit reached ('' @ Itoa n @ '')''
    | AlreadyActive x \<Rightarrow> ''issue '' @ x @ '' already has an active workflow''
    | WorktreeFailed e \<Rightarrow> ''create worktree for '' @ ki_Identifier i @ '': '' @ e
    | OpenLogFailed e \<Rightarrow> ''open log file for '' @ ki_Identifier i @ '': '' @ e
    | SpawnFailed e \<Rightarrow> ''start subprocess for '' @ ki_Identifier i @ '': '' @ e)"

definition tryStart_verdict ::
  "TrackerIssue \<Rightarrow> start_error option \<Rightarrow> (string, int) gomap \<Rightarrow> start_verdict \<times> (string, int) gomap" where
  "tryStart_verdict i err fails =
    (case err of
       None \<Rightarrow> (Started, mdel (ki_ID i) fails)
     | Some (ConcurrencyLimit n) \<Rightarrow> (KeepPending, fails)
     | Some e \<Rightarrow>
       if Contains (start_error_text i e) worktree_exists_text then (Suppressed, fails)
       else let n = (case map_of fails (ki_ID i) of Some k \<Rightarrow> k | None \<Rightarrow> 0) + 1;
                fails1 = mput (ki_ID i) n fails
         in (if n < maxStartFailures then RetryLater else GiveUp, fails1))"

section \<open>The goroutines\<close>

text \<open>
  Where the poller, the loop of \<open>RunWithDiscovery\<close> and a waiter are. The poller holds its lock in
  \<open>PollActive\<close>, so that \<open>ClearSeen\<close> waits there.
\<close>

datatype poll_pc =
    PollIdle
  | PollListed "TrackerIssue list"
  | PollActive "TrackerIssue list" "(string, bool) gomap"
  | PollSending "TrackerIssue list"
  | PollStopped

datatype start_site = FromPending "TrackerIssue list" "TrackerIssue list" int | FromChannel

datatype runner_pc =
    RunTop
  | RunDrain "TrackerIssue list" "TrackerIssue list" int
  | RunSelect
  | RunStarting TrackerIssue SchedConfig start_site
  | RunStopped

datatype waiter_pc = Waiting | Ending WorkflowStep

record system =
  sy_o :: scheduler
  sy_seen :: "(string, bool) gomap"
  sy_poll :: poll_pc
  sy_pending :: "TrackerIssue list"
  sy_run :: runner_pc
  sy_maxc :: int
  sy_fails :: "(string, int) gomap"
  sy_waiters :: "(nat \<times> waiter_pc) list"
  sy_done :: bool

definition system_start :: "ManagedWorkflowSnapshot list \<Rightarrow> SchedConfig \<Rightarrow> string \<Rightarrow> system" where
  "system_start snaps cfg repo =
    (let (hs, o1) = RestoreActive snaps (NewScheduler cfg repo) in
     \<lparr>sy_o = o1, sy_seen = [], sy_poll = PollIdle, sy_pending = [], sy_run = RunTop, sy_maxc = 0,
      sy_fails = [], sy_waiters = map (\<lambda>h. (h, Waiting)) hs, sy_done = False\<rparr>)"

text \<open>
  The steps, each with what the outside answers. \<open>EvTry\<close> and \<open>EvReceive\<close> run the locked part of a
  start, \<open>EvFinish\<close> the rest of it.
\<close>

datatype sys_event =
    EvList "TrackerIssue list" | EvReadActive | EvRebuild | EvPollDone | EvPollStop
  | EvTop | EvSkipFull | EvTry | EvFinish start_env | EvDrained | EvSlot | EvReceive | EvStop
  | EvExit nat child_exit | EvCleanup nat
  | EvCancel string | EvWatchdog time nat | EvTail time string nat | EvTailerGone nat bool
  | EvConfig SchedConfig | EvForce bool | EvContextDone

definition next_run :: "start_site \<Rightarrow> TrackerIssue \<Rightarrow> start_verdict \<Rightarrow> system \<Rightarrow> system" where
  "next_run site i v s =
    (case site of
       FromPending rest kept act \<Rightarrow>
         if v = KeepPending then s\<lparr>sy_run := RunDrain rest (kept @ [i]) act\<rparr>
         else s\<lparr>sy_run := RunDrain rest kept (ActiveCount (sy_o s))\<rparr>
     | FromChannel \<Rightarrow>
         if v = KeepPending then s\<lparr>sy_pending := sy_pending s @ [i], sy_run := RunTop\<rparr>
         else s\<lparr>sy_run := RunTop\<rparr>)"

text \<open>The end of a \<open>tryStart\<close>: none if it has to wait for the poller's lock.\<close>

definition after_try ::
  "start_site \<Rightarrow> TrackerIssue \<Rightarrow> start_error option \<Rightarrow> system \<Rightarrow> system option" where
  "after_try site i err s =
    (let (v, fails) = tryStart_verdict i err (sy_fails s) in
     if v = RetryLater
     then (case sy_poll s of
         PollActive _ _ \<Rightarrow> None
       | _ \<Rightarrow> Some (next_run site i v (s\<lparr>sy_fails := fails, sy_seen := mdel (ki_ID i) (sy_seen s)\<rparr>)))
     else Some (next_run site i v (s\<lparr>sy_fails := fails\<rparr>)))"

text \<open>The locked part of \<open>Start\<close> for an issue at a site.\<close>

definition try_start :: "start_site \<Rightarrow> TrackerIssue \<Rightarrow> system \<Rightarrow> system option" where
  "try_start site i s =
    (let cfg = so_config (sy_o s) in
     case start_reserve cfg i (sy_o s) of
       (StartReturns err, o1) \<Rightarrow> after_try site i err (s\<lparr>sy_o := o1\<rparr>)
     | (SlotReserved, o1) \<Rightarrow> Some (s\<lparr>sy_o := o1, sy_run := RunStarting i cfg site\<rparr>))"

definition update_waiter :: "nat \<Rightarrow> waiter_pc \<Rightarrow> (nat \<times> waiter_pc) list \<Rightarrow> (nat \<times> waiter_pc) list" where
  "update_waiter h w ws = map (\<lambda>(k, v). if k = h then (k, w) else (k, v)) ws"

definition exit_outcome :: "managedWorkflow \<Rightarrow> child_exit \<Rightarrow> (WorkflowStep \<times> string option) option" where
  "exit_outcome m x =
    (case x of Waited err \<Rightarrow> if mw_ctx m = None then None else Some (wait_outcome m err)
     | _ \<Rightarrow> if mw_ctx m = None then Some (restored_outcome m x) else None)"

fun sys_step :: "sys_event \<Rightarrow> system \<Rightarrow> system option" where
  "sys_step (EvList issues) s = (if sy_poll s = PollIdle then Some (s\<lparr>sy_poll := PollListed issues\<rparr>) else None)"
| "sys_step EvReadActive s = (case sy_poll s of
     PollListed issues \<Rightarrow> Some (s\<lparr>sy_poll := PollActive issues (ActiveIssueIDs (sy_o s))\<rparr>) | _ \<Rightarrow> None)"
| "sys_step EvRebuild s = (case sy_poll s of
     PollActive issues active \<Rightarrow>
       (let (released, o1) = DrainReleasedForRetry (sy_o s);
            (seen, fresh) = poll_rebuild active released issues (sy_seen s)
        in Some (s\<lparr>sy_o := o1, sy_seen := seen, sy_poll := PollSending fresh\<rparr>))
   | _ \<Rightarrow> None)"
| "sys_step EvPollDone s = (if sy_poll s = PollSending [] then Some (s\<lparr>sy_poll := PollIdle\<rparr>) else None)"
| "sys_step EvPollStop s = (case sy_poll s of PollActive _ _ \<Rightarrow> None
   | _ \<Rightarrow> if sy_done s then Some (s\<lparr>sy_poll := PollStopped\<rparr>) else None)"
| "sys_step EvTop s = (if sy_run s = RunTop
     then Some (s\<lparr>sy_run := RunDrain (sy_pending s) [] (ActiveCount (sy_o s)), sy_pending := [],
                  sy_maxc := sx_MaxConcurrent (so_config (sy_o s))\<rparr>) else None)"
| "sys_step EvSkipFull s = (case sy_run s of
     RunDrain (i # rest) kept act \<Rightarrow>
       if act \<ge> sy_maxc s then Some (s\<lparr>sy_run := RunDrain rest (kept @ [i]) act\<rparr>) else None
   | _ \<Rightarrow> None)"
| "sys_step EvTry s = (case sy_run s of
     RunDrain (i # rest) kept act \<Rightarrow>
       if act \<ge> sy_maxc s then None else try_start (FromPending rest kept act) i s
   | _ \<Rightarrow> None)"
| "sys_step (EvFinish e) s = (case sy_run s of
     RunStarting i cfg site \<Rightarrow>
       (case start_finish e cfg i (sy_o s) of
          (Inl err, o1) \<Rightarrow> after_try site i (Some err) (s\<lparr>sy_o := o1\<rparr>)
        | (Inr h, o1) \<Rightarrow> after_try site i None (s\<lparr>sy_o := o1, sy_waiters := sy_waiters s @ [(h, Waiting)]\<rparr>))
   | _ \<Rightarrow> None)"
| "sys_step EvDrained s = (case sy_run s of
     RunDrain [] kept _ \<Rightarrow> Some (s\<lparr>sy_pending := kept, sy_run := RunSelect\<rparr>) | _ \<Rightarrow> None)"
| "sys_step EvSlot s = (if sy_run s = RunSelect \<and> so_slotFreed (sy_o s)
     then Some (s\<lparr>sy_o := (sy_o s)\<lparr>so_slotFreed := False\<rparr>, sy_run := RunTop\<rparr>) else None)"
| "sys_step EvReceive s = (case sy_poll s of
     PollSending (i # rest) \<Rightarrow>
       if sy_run s \<noteq> RunSelect then None
       else let s1 = s\<lparr>sy_poll := PollSending rest\<rparr> in
         if ActiveCount (sy_o s) < sy_maxc s then try_start FromChannel i s1
         else Some (s1\<lparr>sy_pending := sy_pending s @ [i], sy_run := RunTop\<rparr>)
   | _ \<Rightarrow> None)"
| "sys_step EvStop s = (if sy_run s = RunSelect \<and> (sy_done s \<or> sy_poll s = PollStopped)
     then Some (s\<lparr>sy_run := RunStopped\<rparr>) else None)"
| "sys_step (EvExit h x) s =
    (if (h, Waiting) \<in> set (sy_waiters s)
     then map_option (\<lambda>(st, report). s\<lparr>sy_o := record_end h st report (sy_o s),
            sy_waiters := update_waiter h (Ending st) (sy_waiters s)\<rparr>) (exit_outcome (so_heap (sy_o s) ! h) x)
     else None)"
| "sys_step (EvCleanup h) s = (case map_of (sy_waiters s) h of
     Some (Ending st) \<Rightarrow> Some (s\<lparr>sy_o := cleanup h st (sy_o s),
        sy_waiters := filter (\<lambda>w. fst w \<noteq> h) (sy_waiters s)\<rparr>)
   | _ \<Rightarrow> None)"
| "sys_step (EvCancel i) s = Some (s\<lparr>sy_o := Cancel i (sy_o s)\<rparr>)"
| "sys_step (EvWatchdog now h) s = (if (h, Waiting) \<in> set (sy_waiters s)
     then Some (s\<lparr>sy_o := watchdog_tick now h (sy_o s)\<rparr>) else None)"
| "sys_step (EvTail now line h) s = (if (h, Waiting) \<in> set (sy_waiters s)
     then Some (s\<lparr>sy_o := modify h (tail_line now line) (sy_o s)\<rparr>) else None)"
| "sys_step (EvTailerGone h cancels) s = (if (h, Waiting) \<in> set (sy_waiters s)
     then Some (s\<lparr>sy_o := modify h (\<lambda>m. m\<lparr>mw_tailerAlive := False,
            mw_ctx := (if cancels then map_option (\<lambda>_. True) (mw_ctx m) else mw_ctx m)\<rparr>) (sy_o s)\<rparr>) else None)"
| "sys_step (EvConfig cfg) s = Some (s\<lparr>sy_o := (sy_o s)\<lparr>so_config := cfg\<rparr>\<rparr>)"
| "sys_step (EvForce b) s = Some (s\<lparr>sy_o := (sy_o s)\<lparr>so_forceCleanup := b\<rparr>\<rparr>)"
| "sys_step EvContextDone s = Some (s\<lparr>sy_done := True,
     sy_o := (sy_o s)\<lparr>so_heap := map (\<lambda>m. m\<lparr>mw_ctx := map_option (\<lambda>_. True) (mw_ctx m)\<rparr>) (so_heap (sy_o s))\<rparr>\<rparr>)"

fun sys_run :: "sys_event list \<Rightarrow> system \<Rightarrow> system option" where
  "sys_run [] s = Some s"
| "sys_run (e # es) s = Option.bind (sys_step e s) (sys_run es)"

text \<open>Reachable states, with a limit that no configuration in force exceeds.\<close>

definition within_limit :: "int \<Rightarrow> sys_event \<Rightarrow> bool" where
  "within_limit m e = (case e of EvConfig cfg \<Rightarrow> sx_MaxConcurrent cfg \<le> m | _ \<Rightarrow> True)"

inductive sys_reach :: "int \<Rightarrow> system \<Rightarrow> system \<Rightarrow> bool" for m s0 where
  start: "sys_reach m s0 s0"
| step: "sys_reach m s0 s \<Longrightarrow> within_limit m e \<Longrightarrow> sys_step e s = Some s' \<Longrightarrow> sys_reach m s0 s'"

inductive_cases sys_reachE: "sys_reach m s0 s"

end
