(* ===== verification/JiraSchedProps.thy ===== *)
theory JiraSchedProps
  imports JiraScheduler
begin

text \<open>
  What holds of the scheduler of jiradozer in every interleaving of its goroutines: the limit on
  workflows, one child for an issue, and lock labels that are always given back; and two runs in which a
  failed issue is lost and in which the work of a failed run is deleted.
\<close>

section \<open>The invariant\<close>

definition owner :: "scheduler \<Rightarrow> nat \<Rightarrow> string" where
  "owner o1 h = ki_ID (mw_issue (so_heap o1 ! h))"

definition adds :: "string \<Rightarrow> scheduler \<Rightarrow> nat" where
  "adds i o1 = length (filter (\<lambda>a. a = LabelAdd i) (so_trace o1))"

definition removes :: "string \<Rightarrow> scheduler \<Rightarrow> nat" where
  "removes i o1 = length (filter (\<lambda>a. a = LabelRemove i) (so_trace o1))"

text \<open>\<open>ws\<close> are the handles that have a waiter, \<open>st\<close> the issue for which a start is under way.\<close>

definition map_ok :: "scheduler \<Rightarrow> nat list \<Rightarrow> string option \<Rightarrow> bool" where
  "map_ok o1 ws st \<longleftrightarrow> wf_map (so_active o1) \<and> distinct ws \<and>
     (\<forall>h\<in>set ws. h < length (so_heap o1) \<and> map_of (so_active o1) (owner o1 h) = Some h) \<and>
     keys (so_active o1) = owner o1 ` set ws \<union> set_option st \<and>
     set_option st \<inter> owner o1 ` set ws = {}"

definition labels_ok :: "scheduler \<Rightarrow> nat list \<Rightarrow> bool" where
  "labels_ok o1 ws \<longleftrightarrow> (\<forall>i. adds i o1 \<le> removes i o1 + (if i \<in> owner o1 ` set ws then 1 else 0))"

definition sched_ok :: "scheduler \<Rightarrow> nat list \<Rightarrow> string option \<Rightarrow> bool" where
  "sched_ok o1 ws st \<longleftrightarrow> map_ok o1 ws st \<and> labels_ok o1 ws"

text \<open>Operations that leave the map, the issues and the label actions alone.\<close>

definition frame :: "scheduler \<Rightarrow> (string, nat) gomap \<times> TrackerIssue list \<times> (string \<Rightarrow> nat) \<times> (string \<Rightarrow> nat)" where
  "frame o1 = (so_active o1, map mw_issue (so_heap o1), (\<lambda>i. adds i o1), (\<lambda>i. removes i o1))"

lemma owner_frame: "map mw_issue (so_heap o1) = map mw_issue (so_heap o2) \<Longrightarrow> h < length (so_heap o1) \<Longrightarrow>
    owner o1 h = owner o2 h"
  by (metis length_map nth_map owner_def)

lemma sched_ok_frame:
  assumes "frame o1 = frame o2" and "sched_ok o1 ws st"
  shows "sched_ok o2 ws st"
proof -
  have f: "so_active o1 = so_active o2" "map mw_issue (so_heap o1) = map mw_issue (so_heap o2)"
    "\<And>i. adds i o1 = adds i o2" "\<And>i. removes i o1 = removes i o2"
    using assms(1) by (auto simp: frame_def fun_eq_iff)
  have len: "length (so_heap o1) = length (so_heap o2)" using f(2) by (metis length_map)
  have "owner o2 h = owner o1 h" if "h \<in> set ws" for h
    using that assms(2) owner_frame [OF f(2)] by (auto simp: sched_ok_def map_ok_def)
  then have "owner o2 ` set ws = owner o1 ` set ws" "\<And>h. h \<in> set ws \<Longrightarrow> owner o2 h = owner o1 h" by auto
  with assms(2) f len show ?thesis by (simp add: sched_ok_def map_ok_def labels_ok_def)
qed

lemma label_counts [simp]:
  "adds i (emit as o1) = adds i o1 + length (filter (\<lambda>a. a = LabelAdd i) as)"
  "removes i (emit as o1) = removes i o1 + length (filter (\<lambda>a. a = LabelRemove i) as)"
  "adds i (o1\<lparr>so_active := m\<rparr>) = adds i o1" "removes i (o1\<lparr>so_active := m\<rparr>) = removes i o1"
  "adds i (o1\<lparr>so_heap := hp\<rparr>) = adds i o1" "removes i (o1\<lparr>so_heap := hp\<rparr>) = removes i o1"
  "adds i (o1\<lparr>so_slotFreed := b\<rparr>) = adds i o1" "removes i (o1\<lparr>so_slotFreed := b\<rparr>) = removes i o1"
  "adds i (o1\<lparr>so_preserved := pr\<rparr>) = adds i o1" "removes i (o1\<lparr>so_preserved := pr\<rparr>) = removes i o1"
  "adds i (o1\<lparr>so_releasedForRetry := r\<rparr>) = adds i o1" "removes i (o1\<lparr>so_releasedForRetry := r\<rparr>) = removes i o1"
  "adds i (o1\<lparr>so_runtimeFailures := rf\<rparr>) = adds i o1" "removes i (o1\<lparr>so_runtimeFailures := rf\<rparr>) = removes i o1"
  "adds i (o1\<lparr>so_config := c\<rparr>) = adds i o1" "removes i (o1\<lparr>so_config := c\<rparr>) = removes i o1"
  "adds i (o1\<lparr>so_forceCleanup := b\<rparr>) = adds i o1" "removes i (o1\<lparr>so_forceCleanup := b\<rparr>) = removes i o1"
  by (simp_all add: adds_def removes_def emit_def)

lemma sched_emit_fields [simp]:
  "so_active (emit as o1) = so_active o1" "so_heap (emit as o1) = so_heap o1"
  "so_config (emit as o1) = so_config o1" "so_forceCleanup (emit as o1) = so_forceCleanup o1"
  "so_runtimeFailures (emit as o1) = so_runtimeFailures o1"
  "so_releasedForRetry (emit as o1) = so_releasedForRetry o1" "so_preserved (emit as o1) = so_preserved o1"
  by (simp_all add: emit_def)

lemma map_modify_issue: "(\<And>m. mw_issue (f m) = mw_issue m) \<Longrightarrow> map mw_issue (hp[h := f (hp ! h)]) = map mw_issue hp"
  by (metis list_update_id list_update_beyond map_update not_le_imp_less nth_map)

lemma modify_frame: "(\<And>m. mw_issue (f m) = mw_issue m) \<Longrightarrow> frame (modify h f o1) = frame o1"
  by (simp add: frame_def modify_def map_modify_issue)

lemma tail_issue: "mw_issue (tail_line now l m) = mw_issue m"
  by (simp add: tail_line_def appendTail_def note_message_def Let_def split: option.split)

lemma frame_ops:
  "frame (Cancel i o1) = frame o1"
  "frame (watchdog_tick now h o1) = frame o1"
  "frame (snd (DrainReleasedForRetry o1)) = frame o1"
  "frame (record_end h st rep o1) = frame o1"
proof -
  show "frame (Cancel i o1) = frame o1" by (simp add: Cancel_def modify_frame split: option.split)
  show "frame (watchdog_tick now h o1) = frame o1" by (simp add: watchdog_tick_def modify_frame)
  show "frame (snd (DrainReleasedForRetry o1)) = frame o1"
    by (simp add: DrainReleasedForRetry_def frame_def)
  show "frame (record_end h st rep o1) = frame o1"
    by (simp add: record_end_def frame_def recordRuntimeFailure_def recordSuccess_def Let_def split: option.split)
qed

section \<open>The operations on the map\<close>

lemma owner_upd [simp]:
  "owner (o1\<lparr>so_active := m\<rparr>) = owner o1"
  "h < length (so_heap o1) \<Longrightarrow> owner (o1\<lparr>so_heap := so_heap o1 @ [x]\<rparr>) h = owner o1 h"
  "owner (o1\<lparr>so_heap := so_heap o1 @ [x]\<rparr>) (length (so_heap o1)) = ki_ID (mw_issue x)"
  by (auto simp: owner_def fun_eq_iff nth_append)

lemma map_ok_handles:
  assumes "map_ok o1 ws st" and "h \<in> set ws"
  shows "h < length (so_heap o1)" "map_of (so_active o1) (owner o1 h) = Some h" "h \<noteq> length (so_heap o1)"
  using assms by (auto simp: map_ok_def)

lemma owner_image_append:
  assumes "map_ok o1 ws st"
  shows "owner (o1\<lparr>so_heap := so_heap o1 @ [x]\<rparr>) ` set ws = owner o1 ` set ws"
  by (rule image_cong [OF refl]) (simp add: map_ok_handles(1) [OF assms])

definition put_new :: "string \<Rightarrow> managedWorkflow \<Rightarrow> scheduler \<Rightarrow> scheduler" where
  "put_new i x o1 = o1\<lparr>so_heap := so_heap o1 @ [x], so_active := mput i (length (so_heap o1)) (so_active o1)\<rparr>"

lemma put_new_owner:
  "map_ok o1 ws st \<Longrightarrow> h \<in> set ws \<Longrightarrow> owner (put_new i x o1) h = owner o1 h"
  "owner (put_new i x o1) (length (so_heap o1)) = ki_ID (mw_issue x)"
  by (simp_all add: put_new_def map_ok_handles(1))

lemma put_new_image: "map_ok o1 ws st \<Longrightarrow> owner (put_new i x o1) ` set ws = owner o1 ` set ws"
  by (rule image_cong [OF refl]) (rule put_new_owner(1))

lemma put_new_lookup:
  assumes "map_ok o1 ws st" and "i \<notin> owner o1 ` set ws" and "h \<in> set ws"
  shows "map_of (so_active (put_new i x o1)) (owner (put_new i x o1) h) = Some h"
proof -
  have "owner o1 h \<noteq> i" using assms(2,3) by blast
  then show ?thesis unfolding put_new_owner(1) [OF assms(1,3)]
    using map_ok_handles(2) [OF assms(1,3)] by (simp add: put_new_def)
qed

lemma map_ok_reserve:
  assumes "map_ok o1 ws None" and "i \<notin> keys (so_active o1)"
  shows "map_ok (put_new i x o1) ws (Some i)"
proof -
  have keys: "i \<notin> owner o1 ` set ws" "keys (so_active o1) = owner o1 ` set ws" using assms by (auto simp: map_ok_def)
  then show ?thesis using assms keys put_new_lookup [OF assms(1) keys(1)]
    unfolding map_ok_def put_new_image [OF assms(1)] by (auto simp: put_new_def)
qed

lemma map_ok_launch:
  assumes "map_ok o1 ws st" and "set_option st \<subseteq> {i}" and "i \<notin> owner o1 ` set ws" and "ki_ID (mw_issue x) = i"
  shows "map_ok (put_new i x o1) (ws @ [length (so_heap o1)]) None"
proof -
  have keys: "keys (so_active o1) = owner o1 ` set ws \<union> set_option st" using assms(1) by (simp add: map_ok_def)
  note put_new_lookup [OF assms(1,3)]
  moreover have "owner (put_new i x o1) ` set (ws @ [length (so_heap o1)]) = insert i (owner o1 ` set ws)"
    using put_new_image [OF assms(1)] assms(4) by (simp add: put_new_owner(2))
  moreover have "length (so_heap o1) \<notin> set ws" using map_ok_handles(3) [OF assms(1)] by blast
  moreover have "keys (so_active (put_new i x o1)) = insert i (owner o1 ` set ws)"
    using keys assms(2) by (auto simp: put_new_def)
  ultimately show ?thesis using assms(1,4) unfolding map_ok_def
    by (auto simp: put_new_owner(2) less_Suc_eq) (auto simp: put_new_def less_SucI)
qed

lemma map_ok_drop:
  assumes "map_ok o1 ws (Some i)"
  shows "map_ok (o1\<lparr>so_active := mdel i (so_active o1)\<rparr>) ws None"
  using assms by (auto simp: map_ok_def)

lemma map_ok_end:
  assumes "map_ok o1 ws st" and "h \<in> set ws"
  shows "map_ok (o1\<lparr>so_active := mdel (owner o1 h) (so_active o1)\<rparr>) (filter (\<lambda>k. k \<noteq> h) ws) st"
    and "owner o1 ` set (filter (\<lambda>k. k \<noteq> h) ws) = owner o1 ` set ws - {owner o1 h}"
proof -
  have inj: "owner o1 k \<noteq> owner o1 h" if "k \<in> set ws" "k \<noteq> h" for k
    using that assms by (metis map_ok_handles(2) option.inject)
  then show "owner o1 ` set (filter (\<lambda>k. k \<noteq> h) ws) = owner o1 ` set ws - {owner o1 h}" by auto
  moreover have "owner o1 h \<notin> set_option st" using assms by (auto simp: map_ok_def)
  ultimately show "map_ok (o1\<lparr>so_active := mdel (owner o1 h) (so_active o1)\<rparr>) (filter (\<lambda>k. k \<noteq> h) ws) st"
    using assms inj by (auto simp: map_ok_def)
qed

text \<open>The number of entries is the number of waiters and starts.\<close>

lemma map_ok_length:
  assumes "map_ok o1 ws st"
  shows "length (so_active o1) = length ws + card (set_option st)"
proof -
  have "inj_on (owner o1) (set ws)"
    using assms by (auto simp: map_ok_def inj_on_def) (metis option.inject)
  then have "card (owner o1 ` set ws) = length ws"
    using assms by (simp add: card_image distinct_card map_ok_def)
  moreover have "length (so_active o1) = card (keys (so_active o1))"
    using assms by (simp add: map_ok_def wf_map_def keys_def distinct_card flip: set_map length_map)
      (metis distinct_card length_map set_map)
  moreover have "card (keys (so_active o1)) = card (owner o1 ` set ws) + card (set_option st)"
    using assms by (simp add: map_ok_def card_Un_disjoint Int_commute)
  ultimately show ?thesis by simp
qed

section \<open>The steps keep it\<close>

definition starting :: "runner_pc \<Rightarrow> string option" where
  "starting r = (case r of RunStarting i _ _ \<Rightarrow> Some (ki_ID i) | _ \<Rightarrow> None)"

definition sys_ok :: "int \<Rightarrow> system \<Rightarrow> bool" where
  "sys_ok m s \<longleftrightarrow> sched_ok (sy_o s) (map fst (sy_waiters s)) (starting (sy_run s)) \<and>
     ActiveCount (sy_o s) \<le> m \<and> sx_MaxConcurrent (so_config (sy_o s)) \<le> m"

lemma starting_simps [simp]:
  "starting RunTop = None" "starting (RunDrain a b c) = None" "starting RunSelect = None"
  "starting RunStopped = None" "starting (RunStarting i cfg site) = Some (ki_ID i)"
  by (simp_all add: starting_def)

lemma reserve_returns:
  assumes "start_reserve cfg i o1 = (StartReturns r, o2)"
  shows "frame o2 = frame o1 \<and> so_config o2 = so_config o1"
  using assms by (auto simp: start_reserve_def frame_def alloc_def split: if_split_asm)

lemma reserve_slot:
  assumes "start_reserve cfg i o1 = (SlotReserved, o2)"
  shows "o2 = put_new (ki_ID i) (placeholder i) o1" "ActiveCount o1 < sx_MaxConcurrent cfg"
    "ki_ID i \<notin> keys (so_active o1)"
  using assms by (auto simp: start_reserve_def put_new_def alloc_def split: if_split_asm)

lemma put_new_labels [simp]: "adds j (put_new i x o1) = adds j o1" "removes j (put_new i x o1) = removes j o1"
  by (simp_all add: adds_def removes_def put_new_def)

lemma sched_ok_reserve:
  assumes "sched_ok o1 ws None" and "start_reserve cfg i o1 = (SlotReserved, o2)"
  shows "sched_ok o2 ws (Some (ki_ID i))"
proof -
  have m: "map_ok o1 ws None" using assms(1) by (simp add: sched_ok_def)
  show ?thesis using assms(1) map_ok_reserve [OF m reserve_slot(3) [OF assms(2)]] put_new_image [OF m]
    by (simp add: reserve_slot(1) [OF assms(2)] sched_ok_def labels_ok_def)
qed

lemma transition_frame [simp]:
  "so_active (transitionToInProgress e cfg i o1) = so_active o1"
  "so_heap (transitionToInProgress e cfg i o1) = so_heap o1"
  "so_config (transitionToInProgress e cfg i o1) = so_config o1"
  "adds j (transitionToInProgress e cfg i o1) = adds j o1"
  "removes j (transitionToInProgress e cfg i o1) = removes j o1"
  by (simp_all add: transitionToInProgress_def split: sum.split option.split)

lemma finish_fails:
  assumes "start_finish e cfg i o1 = (Inl err, o2)"
  shows "so_active o2 = mdel (ki_ID i) (so_active o1) \<and> so_heap o2 = so_heap o1 \<and> so_config o2 = so_config o1"
    and "(\<forall>j. adds j o2 = adds j o1 \<and> removes j o2 = removes j o1) \<or>
      (\<forall>j. adds j o2 = adds j o1 + (if j = ki_ID i then 1 else 0) \<and>
            removes j o2 = removes j o1 + (if j = ki_ID i then 1 else 0))"
  using assms
  by (auto simp: start_finish_def Let_def start_rollback_def unreserveSlot_def signal_slot_def alloc_def
      split: sum.splits option.splits)

lemma finish_launches:
  assumes "start_finish e cfg i o1 = (Inr h, o2)"
  obtains x where "mw_issue x = i" "h = length (so_heap o1)" "so_heap o2 = so_heap o1 @ [x]"
    "so_active o2 = mput (ki_ID i) h (so_active o1)" "so_config o2 = so_config o1"
    "\<And>j. adds j o2 = adds j o1 + (if j = ki_ID i then 1 else 0)" "\<And>j. removes j o2 = removes j o1"
proof -
  obtain path pid where "sv_worktree e = Inr path" "sv_log_error e = None" "sv_spawn e = Inr pid"
    using assms by (auto simp: start_finish_def Let_def split: sum.splits option.splits)
  with assms that show ?thesis
    by (fastforce simp: start_finish_def Let_def alloc_def placeholder_def)
qed

lemma map_ok_cong: "so_active o1 = so_active o2 \<Longrightarrow> so_heap o1 = so_heap o2 \<Longrightarrow> map_ok o1 ws st = map_ok o2 ws st"
  "so_heap o1 = so_heap o2 \<Longrightarrow> owner o1 = owner o2"
  by (auto simp: map_ok_def owner_def fun_eq_iff)

lemma labels_shift:
  assumes "labels_ok o1 ws" and "owner o2 = owner o1"
    and "(\<forall>j. adds j o2 = adds j o1 \<and> removes j o2 = removes j o1) \<or>
      (\<forall>j. adds j o2 = adds j o1 + (if j = k then 1 else 0) \<and> removes j o2 = removes j o1 + (if j = k then 1 else 0))"
  shows "labels_ok o2 ws"
  unfolding labels_ok_def
proof
  fix j
  have "adds j o1 \<le> removes j o1 + (if j \<in> owner o1 ` set ws then 1 else 0)"
    using assms(1) unfolding labels_ok_def by blast
  moreover obtain d where "adds j o2 = adds j o1 + d" "removes j o2 = removes j o1 + d" using assms(3) by force
  ultimately show "adds j o2 \<le> removes j o2 + (if j \<in> owner o2 ` set ws then 1 else 0)" by (simp add: assms(2))
qed

lemma labels_more:
  assumes "labels_ok o1 ws" and "\<And>j. adds j o2 = adds j o1" and "\<And>j. removes j o2 = removes j o1"
    and "owner o1 ` set ws \<subseteq> owner o2 ` set ws2"
  shows "labels_ok o2 ws2"
  unfolding labels_ok_def
proof
  fix j
  have "adds j o1 \<le> removes j o1 + (if j \<in> owner o1 ` set ws then 1 else 0)"
    using assms(1) unfolding labels_ok_def by blast
  then show "adds j o2 \<le> removes j o2 + (if j \<in> owner o2 ` set ws2 then 1 else 0)"
    using assms(2-4) by (auto split: if_split_asm)
qed

lemma sched_ok_fails:
  assumes "sched_ok o1 ws (Some (ki_ID i))" and "start_finish e cfg i o1 = (Inl err, o2)"
  shows "sched_ok o2 ws None"
proof -
  note f = finish_fails [OF assms(2)]
  have "map_ok o2 ws None" using map_ok_drop [of o1 ws "ki_ID i"] assms(1) f(1)
      map_ok_cong(1) [of o2 "o1\<lparr>so_active := mdel (ki_ID i) (so_active o1)\<rparr>"] by (simp add: sched_ok_def)
  moreover have "owner o2 = owner o1" using f(1) by (intro map_ok_cong(2)) simp
  moreover have "labels_ok o1 ws" using assms(1) by (simp add: sched_ok_def)
  ultimately show ?thesis using labels_shift [of o1 ws o2] f(2) by (auto simp: sched_ok_def)
qed

lemma sched_ok_launches:
  assumes "sched_ok o1 ws (Some (ki_ID i))" and "start_finish e cfg i o1 = (Inr h, o2)"
  shows "sched_ok o2 (ws @ [h]) None"
proof -
  obtain x where x: "mw_issue x = i" "h = length (so_heap o1)" "so_heap o2 = so_heap o1 @ [x]"
    "so_active o2 = mput (ki_ID i) h (so_active o1)"
    "\<And>j. adds j o2 = adds j o1 + (if j = ki_ID i then 1 else 0)" "\<And>j. removes j o2 = removes j o1"
    using finish_launches [OF assms(2)] by blast
  have m: "map_ok o1 ws (Some (ki_ID i))" using assms(1) by (simp add: sched_ok_def)
  have same: "so_active o2 = so_active (put_new (ki_ID i) x o1)" "so_heap o2 = so_heap (put_new (ki_ID i) x o1)"
    using x by (simp_all add: put_new_def)
  have "map_ok o2 (ws @ [h]) None" unfolding map_ok_cong(1) [OF same] x(2)
    using m by (intro map_ok_launch [OF m]) (auto simp: x(1) map_ok_def)
  moreover have "owner o2 ` set (ws @ [h]) = insert (ki_ID i) (owner o1 ` set ws)"
    unfolding map_ok_cong(2) [OF same(2)] x(2) using put_new_image [OF m] x(1) by (simp add: put_new_owner(2))
  moreover have "ki_ID i \<notin> owner o1 ` set ws" using m by (auto simp: map_ok_def)
  ultimately show ?thesis using assms(1) x(5,6) unfolding sched_ok_def labels_ok_def
    by (auto split: if_split_asm)
qed

lemma cleanup_parts:
  "so_active (cleanup h st o1) = mdel (owner o1 h) (so_active o1)" "so_heap (cleanup h st o1) = so_heap o1"
  "so_config (cleanup h st o1) = so_config o1" "adds j (cleanup h st o1) = adds j o1"
  "removes j (cleanup h st o1) = removes j o1 + (if j = owner o1 h then 1 else 0)"
  by (simp_all add: cleanup_def Let_def signal_slot_def owner_def)

lemma sched_ok_cleanup:
  assumes "sched_ok o1 ws r" and "h \<in> set ws"
  shows "sched_ok (cleanup h st o1) (filter (\<lambda>k. k \<noteq> h) ws) r"
proof -
  have m: "map_ok o1 ws r" using assms(1) by (simp add: sched_ok_def)
  have "map_ok (cleanup h st o1) (filter (\<lambda>k. k \<noteq> h) ws) r"
    using map_ok_end(1) [OF m assms(2)] map_ok_cong(1) [of "cleanup h st o1" "o1\<lparr>so_active := mdel (owner o1 h) (so_active o1)\<rparr>"]
    by (simp add: cleanup_parts)
  moreover have "owner (cleanup h st o1) = owner o1" by (rule map_ok_cong(2)) (simp add: cleanup_parts)
  ultimately show ?thesis using assms map_ok_end(2) [OF m assms(2)]
    by (auto simp: sched_ok_def labels_ok_def cleanup_parts split: if_split_asm)
qed

lemma sys_ok_frame:
  assumes "sys_ok m s" and "frame (sy_o s') = frame (sy_o s)"
    and "sx_MaxConcurrent (so_config (sy_o s')) \<le> m"
    and "map fst (sy_waiters s') = map fst (sy_waiters s)" and "starting (sy_run s') = starting (sy_run s)"
  shows "sys_ok m s'"
  using assms(1,3-5) sched_ok_frame [OF assms(2) [symmetric]] assms(2)
  by (simp add: sys_ok_def ActiveCount_def frame_def)

lemma after_try_state:
  assumes "after_try site i err s = Some s'"
  shows "sy_o s' = sy_o s" "sy_waiters s' = sy_waiters s" "starting (sy_run s') = None"
  using assms by (auto simp: after_try_def next_run_def Let_def split: prod.splits if_split_asm poll_pc.splits start_site.splits)

lemma try_start_ok:
  assumes "sys_ok m s" and "starting (sy_run s) = None" and "try_start site i s = Some s'"
  shows "sys_ok m s'"
proof (cases "start_reserve (so_config (sy_o s)) i (sy_o s)")
  case (Pair r o2)
  show ?thesis
  proof (cases r)
    case (StartReturns err)
    note a = reserve_returns [OF Pair [unfolded StartReturns]]
    have t: "after_try site i err (s\<lparr>sy_o := o2\<rparr>) = Some s'"
      using assms(3) Pair by (simp add: try_start_def StartReturns Let_def)
    show ?thesis using assms(1,2) a after_try_state [OF t]
      by (intro sys_ok_frame [OF assms(1)]) (simp_all add: sys_ok_def)
  next
    case SlotReserved
    note a = Pair [unfolded SlotReserved]
    have s': "s' = s\<lparr>sy_o := o2, sy_run := RunStarting i (so_config (sy_o s)) site\<rparr>"
      using assms(3) Pair by (simp add: try_start_def SlotReserved Let_def)
    have "length (so_active o2) = Suc (length (so_active (sy_o s)))"
      using reserve_slot(3) [OF a] by (simp add: reserve_slot(1) [OF a] put_new_def length_mput)
    then show ?thesis using assms(1,2) sched_ok_reserve [OF _ a] reserve_slot(2) [OF a] reserve_slot(1) [OF a]
      by (simp add: s' sys_ok_def ActiveCount_def) (simp add: put_new_def)
  qed
qed

lemma finish_ok:
  assumes "sys_ok m s" and "sys_step (EvFinish e) s = Some s'"
  shows "sys_ok m s'"
proof -
  obtain i cfg site where r: "sy_run s = RunStarting i cfg site"
    using assms(2) by (auto split: runner_pc.splits)
  have ok: "sched_ok (sy_o s) (map fst (sy_waiters s)) (Some (ki_ID i))" using assms(1) by (simp add: sys_ok_def r)
  obtain q o2 where f: "start_finish e cfg i (sy_o s) = (q, o2)" by (cases "start_finish e cfg i (sy_o s)")
  show ?thesis
  proof (cases q)
    case (Inl err)
    note f = f [unfolded Inl]
    have t: "after_try site i (Some err) (s\<lparr>sy_o := o2\<rparr>) = Some s'" using assms(2) r f by simp
    have "ActiveCount o2 \<le> ActiveCount (sy_o s)" using finish_fails(1) [OF f] by (simp add: ActiveCount_def length_mdel_le)
    then show ?thesis using assms(1) sched_ok_fails [OF ok f] finish_fails(1) [OF f] after_try_state [OF t]
      by (simp add: sys_ok_def)
  next
    case (Inr h)
    note f = f [unfolded Inr]
    have t: "after_try site i None (s\<lparr>sy_o := o2, sy_waiters := sy_waiters s @ [(h, Waiting)]\<rparr>) = Some s'"
      using assms(2) r f by simp
    have "ki_ID i \<in> keys (so_active (sy_o s))" using ok by (auto simp: sched_ok_def map_ok_def)
    then have "ActiveCount o2 = ActiveCount (sy_o s)" "so_config o2 = so_config (sy_o s)"
      using finish_launches [OF f] by (metis ActiveCount_def length_mput)+
    then show ?thesis using assms(1) sched_ok_launches [OF ok f] after_try_state [OF t]
      by (simp add: sys_ok_def)
  qed
qed

lemma cleanup_step_ok:
  assumes "sys_ok m s" and "sys_step (EvCleanup h) s = Some s'"
  shows "sys_ok m s'"
proof -
  obtain st where w: "map_of (sy_waiters s) h = Some (Ending st)"
    and s': "s' = s\<lparr>sy_o := cleanup h st (sy_o s), sy_waiters := filter (\<lambda>w. fst w \<noteq> h) (sy_waiters s)\<rparr>"
    using assms(2) by (auto split: option.splits waiter_pc.splits)
  have "h \<in> set (map fst (sy_waiters s))" using w by (force dest: map_of_SomeD)
  moreover have "map fst (filter (\<lambda>w. fst w \<noteq> h) ws) = filter (\<lambda>k. k \<noteq> h) (map fst ws)" for ws :: "(nat \<times> waiter_pc) list"
    by (induction ws) auto
  moreover have "ActiveCount (cleanup h st (sy_o s)) \<le> ActiveCount (sy_o s)"
    by (simp add: ActiveCount_def cleanup_parts length_mdel_le)
  ultimately show ?thesis using assms(1) sched_ok_cleanup
    by (simp add: s' sys_ok_def cleanup_parts)
qed

lemma map_fst_update [simp]: "map fst (update_waiter h w ws) = map fst ws"
  by (induction ws) (auto simp: update_waiter_def)

lemma record_config [simp]: "so_config (record_end h st rep o1) = so_config o1"
  by (simp add: record_end_def recordRuntimeFailure_def recordSuccess_def Let_def split: option.split)

lemma ops_config [simp]:
  "so_config (Cancel i o1) = so_config o1" "so_config (watchdog_tick now h o1) = so_config o1"
  "so_config (modify h f o1) = so_config o1" "so_config (snd (DrainReleasedForRetry o1)) = so_config o1"
  by (simp_all add: Cancel_def watchdog_tick_def modify_def DrainReleasedForRetry_def split: option.split)

lemma frame_fields [simp]:
  "frame (o1\<lparr>so_slotFreed := b\<rparr>) = frame o1" "frame (o1\<lparr>so_config := c\<rparr>) = frame o1"
  "frame (o1\<lparr>so_forceCleanup := b\<rparr>) = frame o1"
  "frame (o1\<lparr>so_heap := map (\<lambda>m. m\<lparr>mw_ctx := g m\<rparr>) (so_heap o1)\<rparr>) = frame o1"
  by (simp_all add: frame_def comp_def)

lemma receive_ok:
  assumes "sys_ok m s" and "sys_step EvReceive s = Some s'"
  shows "sys_ok m s'"
proof -
  obtain i rest where p: "sy_poll s = PollSending (i # rest)" and r: "sy_run s = RunSelect"
    using assms(2) by (auto split: poll_pc.splits list.splits if_split_asm)
  define s1 where "s1 = s\<lparr>sy_poll := PollSending rest\<rparr>"
  have s1: "sys_ok m s1" "starting (sy_run s1) = None" using assms(1) r by (simp_all add: s1_def sys_ok_def)
  show ?thesis
  proof (cases "ActiveCount (sy_o s) < sy_maxc s")
    case True
    then have "try_start FromChannel i s1 = Some s'" using assms(2) p r by (simp add: s1_def Let_def)
    then show ?thesis by (rule try_start_ok [OF s1])
  next
    case False
    then have "s' = s1\<lparr>sy_pending := sy_pending s @ [i], sy_run := RunTop\<rparr>" using assms(2) p r by (simp add: s1_def Let_def)
    then show ?thesis using s1 by (simp add: sys_ok_def)
  qed
qed

lemma try_ok:
  assumes "sys_ok m s" and "sys_step EvTry s = Some s'"
  shows "sys_ok m s'"
  using assms(2) by (auto split: runner_pc.splits list.splits if_split_asm intro: try_start_ok [OF assms(1)])

text \<open>The remaining events leave the map, the issues and the labels alone.\<close>

lemma quiet_step:
  assumes "sys_step e s = Some s'" and "within_limit m e" and "sys_ok m s"
    and "e \<notin> {EvTry, EvReceive} \<union> range EvFinish \<union> range EvCleanup"
  shows "frame (sy_o s') = frame (sy_o s)" "sx_MaxConcurrent (so_config (sy_o s')) \<le> m"
    "map fst (sy_waiters s') = map fst (sy_waiters s)" "starting (sy_run s') = starting (sy_run s)"
proof -
  have "frame (sy_o s') = frame (sy_o s) \<and> sx_MaxConcurrent (so_config (sy_o s')) \<le> m \<and>
    map fst (sy_waiters s') = map fst (sy_waiters s) \<and> starting (sy_run s') = starting (sy_run s)"
    using assms
    by (cases e) (auto simp: sys_ok_def within_limit_def frame_ops modify_frame tail_issue Let_def case_prod_unfold
        split: poll_pc.splits runner_pc.splits list.splits if_split_asm)
  then show "frame (sy_o s') = frame (sy_o s)" "sx_MaxConcurrent (so_config (sy_o s')) \<le> m"
    "map fst (sy_waiters s') = map fst (sy_waiters s)" "starting (sy_run s') = starting (sy_run s)" by blast+
qed

lemma sys_step_ok:
  assumes "sys_ok m s" and "within_limit m e" and "sys_step e s = Some s'"
  shows "sys_ok m s'"
proof (cases "e \<in> {EvTry, EvReceive} \<union> range EvFinish \<union> range EvCleanup")
  case True
  then show ?thesis using assms(3) try_ok [OF assms(1)] receive_ok [OF assms(1)] finish_ok [OF assms(1)]
      cleanup_step_ok [OF assms(1)] by blast
next
  case False
  show ?thesis by (rule sys_ok_frame [OF assms(1) quiet_step [OF assms(3,2,1) False]])
qed

text \<open>The start, with what an earlier process left running.\<close>

lemma restore_ok:
  assumes "sched_ok (snd acc) (fst acc) None"
  shows "sched_ok (snd (restore_one snap acc)) (fst (restore_one snap acc)) None \<and>
    length (so_active (snd (restore_one snap acc))) \<le> Suc (length (so_active (snd acc))) \<and>
    so_config (snd (restore_one snap acc)) = so_config (snd acc)"
proof (cases "ws_Issue snap = None \<or> (\<exists>i. ws_Issue snap = Some i \<and>
    (ws_PID snap \<le> 0 \<or> ki_ID i = [] \<or> ki_ID i \<in> keys (so_active (snd acc))))")
  case True
  then show ?thesis using assms by (auto simp: restore_one_def)
next
  case False
  then obtain i where i: "ws_Issue snap = Some i" "\<not> ws_PID snap \<le> 0" "ki_ID i \<noteq> []"
    "ki_ID i \<notin> keys (so_active (snd acc))" by auto
  define x where "x = (placeholder i)\<lparr>mw_startedAt := ws_StartedAt snap, mw_worktreePath := ws_WorktreePath snap,
     mw_branch := ws_Branch snap, mw_logPath := ws_LogPath snap, mw_pid := ws_PID snap\<rparr>"
  define o2 where "o2 = put_new (ki_ID i) x (snd acc)"
  have r: "restore_one snap acc = (fst acc @ [length (so_heap (snd acc))], emit [EmitStatus (ki_ID i) StepInit] o2)"
    using i by (simp add: restore_one_def alloc_def x_def o2_def put_new_def)
  have m: "map_ok (snd acc) (fst acc) None" using assms by (simp add: sched_ok_def)
  have new: "map_ok o2 (fst acc @ [length (so_heap (snd acc))]) None"
    unfolding o2_def using m i(4) by (intro map_ok_launch [OF m]) (auto simp: x_def placeholder_def map_ok_def)
  have "owner (snd acc) ` set (fst acc) \<subseteq> owner o2 ` set (fst acc @ [length (so_heap (snd acc))])"
    unfolding o2_def set_append image_Un put_new_image [OF m] by (rule Un_upper1)
  then have "labels_ok o2 (fst acc @ [length (so_heap (snd acc))])"
    using assms labels_more [of "snd acc" "fst acc" o2] by (simp add: o2_def sched_ok_def)
  then have ok: "sched_ok o2 (fst acc @ [length (so_heap (snd acc))]) None" using new by (simp add: sched_ok_def)
  have "frame o2 = frame (emit [EmitStatus (ki_ID i) StepInit] o2)" by (simp add: frame_def)
  note sched_ok_frame [OF this ok]
  moreover have "length (so_active o2) \<le> Suc (length (so_active (snd acc)))"
    by (simp add: o2_def put_new_def length_mput_le)
  moreover have "so_config o2 = so_config (snd acc)" by (simp add: o2_def put_new_def)
  ultimately show ?thesis by (simp add: r)
qed

lemma restore_all:
  assumes "sched_ok (snd acc) (fst acc) None"
  shows "sched_ok (snd (fold restore_one snaps acc)) (fst (fold restore_one snaps acc)) None \<and>
    length (so_active (snd (fold restore_one snaps acc))) \<le> length snaps + length (so_active (snd acc)) \<and>
    so_config (snd (fold restore_one snaps acc)) = so_config (snd acc)"
  using assms
proof (induction snaps arbitrary: acc)
  case Nil
  then show ?case by simp
next
  case (Cons snap snaps)
  from restore_ok [OF Cons.prems, of snap] Cons.IH [of "restore_one snap acc"] show ?case by auto
qed

lemma start_ok:
  assumes "sx_MaxConcurrent cfg \<le> m" and "int (length snaps) \<le> m"
  shows "sys_ok m (system_start snaps cfg repo)"
proof -
  have "sched_ok (snd ([], NewScheduler cfg repo)) (fst ([] :: nat list, NewScheduler cfg repo)) None"
    by (simp add: sched_ok_def map_ok_def labels_ok_def NewScheduler_def adds_def)
  from restore_all [OF this, of snaps] assms show ?thesis
    by (auto simp: system_start_def RestoreActive_def sys_ok_def case_prod_unfold Let_def ActiveCount_def NewScheduler_def comp_def)
qed

lemma reach_ok: "sys_reach m s0 s \<Longrightarrow> sys_ok m s0 \<Longrightarrow> sys_ok m s"
  by (induction rule: sys_reach.induct) (auto intro: sys_step_ok)

section \<open>The limit, one child for an issue, no lost label\<close>


definition sched_sample :: SchedConfig where
  "sched_sample = \<lparr>sx_MaxConcurrent = 2, sx_DryRun = False, sx_BranchPrefix = ''jira'', sx_BaseBranch = ''main'',
     sx_Model = ''m'', sx_InProgress = ''In Progress'', sx_IdleTimeouts = [(''plan'', 300)]\<rparr>"

text \<open>An issue without a team, which no start moves out of the listed state.\<close>

definition sample_issue :: TrackerIssue where
  "sample_issue = \<lparr>ki_Description = None, ki_BranchName = None, ki_URL = None, ki_ID = ''X'',
     ki_Identifier = ''ENG-1'', ki_Title = ''t'', ki_State = ''Todo'', ki_TeamID = [], ki_Labels = [], ki_LabelIDs = []\<rparr>"

definition good_start :: start_env where
  "good_start = \<lparr>sv_worktree = Inr ''/wt/jira/ENG-1'', sv_log_error = None, sv_logPath = ''/log'', sv_spawn = Inr 41,
     sv_states = Inr [(''In Progress'', ''s2'')], sv_now = 7, sv_ctx_cancelled = False\<rparr>"

definition poll_events :: "sys_event list" where
  "poll_events = [EvList [sample_issue], EvReadActive, EvRebuild]"

definition first_start :: "sys_event list" where
  "first_start = [EvTop, EvDrained] @ poll_events @ [EvReceive, EvFinish good_start, EvTop, EvDrained, EvPollDone]"

definition running_state :: system where
  "running_state = the (sys_run first_start (system_start [] sched_sample []))"

lemma sys_run_reach: "sys_run es s = Some s' \<Longrightarrow> list_all (within_limit m) es \<Longrightarrow> sys_reach m s0 s \<Longrightarrow> sys_reach m s0 s'"
  by (induction es arbitrary: s) (auto simp: bind_eq_Some_conv intro: sys_reach.step)

lemma running_run: "sys_run first_start (system_start [] sched_sample []) = Some running_state"
  "list_all (within_limit 2) first_start"
proof -
  have "sys_run first_start (system_start [] sched_sample []) \<noteq> None" by code_simp
  then show "sys_run first_start (system_start [] sched_sample []) = Some running_state" by (auto simp: running_state_def)
  show "list_all (within_limit 2) first_start" by code_simp
qed


section \<open>A failed issue that is never picked up again\<close>

definition ids :: "TrackerIssue list \<Rightarrow> string list" where
  "ids = map ki_ID"

fun poll_sends :: "poll_pc \<Rightarrow> TrackerIssue list" where
  "poll_sends (PollSending is) = is"
| "poll_sends _ = []"

fun poll_lists :: "string \<Rightarrow> poll_pc \<Rightarrow> bool" where
  "poll_lists i (PollListed is) = (i \<in> set (ids is))"
| "poll_lists i (PollActive is _) = (i \<in> set (ids is))"
| "poll_lists i _ = True"

fun run_holds :: "runner_pc \<Rightarrow> TrackerIssue list" where
  "run_holds (RunDrain rest kept _) = rest @ kept"
| "run_holds (RunStarting j _ (FromPending rest kept _)) = j # rest @ kept"
| "run_holds (RunStarting j _ FromChannel) = [j]"
| "run_holds _ = []"

text \<open>Nobody works on the issue or has it in hand, it has not been released, and it counts as seen.\<close>

definition idle_in :: "string \<Rightarrow> scheduler \<Rightarrow> nat list \<Rightarrow> bool" where
  "idle_in i o1 ws \<longleftrightarrow> i \<notin> keys (so_active o1) \<and> i \<notin> keys (so_releasedForRetry o1) \<and>
     (\<forall>h\<in>set ws. h < length (so_heap o1) \<and> owner o1 h \<noteq> i)"

definition lost_with :: "string \<Rightarrow> TrackerIssue list \<Rightarrow> system \<Rightarrow> bool" where
  "lost_with i held s \<longleftrightarrow> map_of (sy_seen s) i = Some True \<and> idle_in i (sy_o s) (map fst (sy_waiters s)) \<and>
     i \<notin> set (ids (sy_pending s)) \<and> i \<notin> set (ids held) \<and> i \<notin> set (ids (poll_sends (sy_poll s))) \<and>
     poll_lists i (sy_poll s)"

definition lost :: "string \<Rightarrow> system \<Rightarrow> bool" where
  "lost i s \<longleftrightarrow> lost_with i (run_holds (sy_run s)) s"

definition lists :: "string \<Rightarrow> sys_event \<Rightarrow> bool" where
  "lists i e = (case e of EvList is \<Rightarrow> i \<in> set (ids is) | _ \<Rightarrow> True)"

lemma ids_simps [simp]: "ids [] = []" "ids (j # js) = ki_ID j # ids js" "ids (xs @ ys) = ids xs @ ids ys"
  by (simp_all add: ids_def)

lemma drain_lookup: "map_of (fold mdel ks m) i = (if i \<in> set ks then None else map_of m i)"
  by (induction ks arbitrary: m) auto

lemma seen_lookup: "map_of (fold (\<lambda>j m. mput (ki_ID j) True m) is m) i = (if i \<in> set (ids is) then Some True else map_of m i)"
  by (induction "is" arbitrary: m) auto

lemma idle_frame:
  assumes "frame o2 = frame o1" and "keys (so_releasedForRetry o2) \<subseteq> keys (so_releasedForRetry o1)"
  shows "idle_in i o1 ws \<Longrightarrow> idle_in i o2 ws"
proof -
  have f: "so_active o2 = so_active o1" "map mw_issue (so_heap o1) = map mw_issue (so_heap o2)"
    using assms(1) by (auto simp: frame_def)
  have len: "length (so_heap o2) = length (so_heap o1)" using f(2) by (metis length_map)
  assume "idle_in i o1 ws"
  then show ?thesis using owner_frame [OF f(2)] f(1) len assms(2) by (auto simp: idle_in_def)
qed

lemma released_ops [simp]:
  "so_releasedForRetry (Cancel i o1) = so_releasedForRetry o1"
  "so_releasedForRetry (watchdog_tick now h o1) = so_releasedForRetry o1"
  "so_releasedForRetry (modify h f o1) = so_releasedForRetry o1"
  "so_releasedForRetry (put_new j x o1) = so_releasedForRetry o1"
  "so_releasedForRetry (transitionToInProgress e cfg k o1) = so_releasedForRetry o1"
  by (simp_all add: Cancel_def watchdog_tick_def modify_def put_new_def transitionToInProgress_def
      split: option.split sum.split)

lemma released_shrinks:
  "keys (so_releasedForRetry (snd (DrainReleasedForRetry o1))) \<subseteq> keys (so_releasedForRetry o1)"
  "keys (so_releasedForRetry (record_end h st rep o1)) \<subseteq> keys (so_releasedForRetry o1)"
  by (auto simp: DrainReleasedForRetry_def record_end_def recordRuntimeFailure_def recordSuccess_def Let_def
      split: option.split if_split_asm)

lemma idle_put_new: "idle_in i o1 ws \<Longrightarrow> i \<noteq> j \<Longrightarrow> idle_in i (put_new j x o1) ws"
  by (auto simp: idle_in_def put_new_def less_SucI)

lemma idle_reserve:
  assumes "start_reserve cfg j o1 = (r, o2)" and "idle_in i o1 ws" and "i \<noteq> ki_ID j"
  shows "idle_in i o2 ws"
proof (cases r)
  case (StartReturns e)
  then have "frame o2 = frame o1" using reserve_returns assms(1) by blast
  moreover have "so_releasedForRetry o2 = so_releasedForRetry o1"
    using assms(1) StartReturns by (auto simp: start_reserve_def alloc_def split: if_split_asm)
  ultimately show ?thesis using idle_frame assms(2) by auto
next
  case SlotReserved
  then show ?thesis using reserve_slot(1) assms idle_put_new by metis
qed

lemma idle_cong:
  assumes "idle_in i o1 ws" and "so_heap o2 = so_heap o1" and "keys (so_active o2) \<subseteq> insert j (keys (so_active o1))"
    and "keys (so_releasedForRetry o2) \<subseteq> keys (so_releasedForRetry o1)" and "i \<noteq> j"
  shows "idle_in i o2 ws"
  using assms by (auto simp: idle_in_def owner_def)

lemma idle_finish:
  assumes "start_finish e cfg j o1 = (r, o2)" and "idle_in i o1 ws" and "i \<noteq> ki_ID j"
  shows "idle_in i o2 (case r of Inl _ \<Rightarrow> ws | Inr h \<Rightarrow> ws @ [h])"
proof -
  have rel: "so_releasedForRetry o2 = so_releasedForRetry o1"
    using assms(1) by (auto simp: start_finish_def Let_def start_rollback_def unreserveSlot_def signal_slot_def alloc_def
        split: sum.splits option.splits)
  show ?thesis
  proof (cases r)
    case (Inl err)
    have f: "so_heap o2 = so_heap o1" "keys (so_active o2) \<subseteq> insert (ki_ID j) (keys (so_active o1))"
      using finish_fails(1) [of e cfg j o1 err o2] assms(1) Inl by auto
    show ?thesis using idle_cong [OF assms(2) f _ assms(3)] rel Inl by simp
  next
    case (Inr h)
    obtain x where "mw_issue x = j" "h = length (so_heap o1)" "so_heap o2 = so_heap o1 @ [x]"
      "so_active o2 = mput (ki_ID j) h (so_active o1)"
      using finish_launches [of e cfg j o1 h o2] assms(1) Inr by metis
    then show ?thesis using assms(2,3) rel Inr by (auto simp: idle_in_def owner_def nth_append less_SucI)
  qed
qed

lemma idle_cleanup:
  assumes "idle_in i o1 ws" and "h \<in> set ws"
  shows "idle_in i (cleanup h st o1) (filter (\<lambda>k. k \<noteq> h) ws)"
proof -
  have "keys (so_releasedForRetry (cleanup h st o1)) \<subseteq> insert (owner o1 h) (keys (so_releasedForRetry o1))"
    by (auto simp: cleanup_def Let_def signal_slot_def owner_def)
  moreover have "owner o1 h \<noteq> i" using assms by (simp add: idle_in_def)
  ultimately show ?thesis using assms(1) by (auto simp: idle_in_def cleanup_parts owner_def)
qed

fun site_holds :: "start_site \<Rightarrow> TrackerIssue list" where
  "site_holds (FromPending rest kept _) = rest @ kept"
| "site_holds FromChannel = []"

lemma lost_after_try:
  assumes "after_try site j err s = Some s'" and "lost_with i (j # site_holds site) s"
  shows "lost i s'"
  using assms
  by (auto simp: after_try_def next_run_def lost_def lost_with_def Let_def
      split: prod.splits if_split_asm poll_pc.splits start_site.splits)

lemma lost_try_start:
  assumes "try_start site j s = Some s'" and "lost_with i (j # site_holds site) s"
  shows "lost i s'"
proof (cases "start_reserve (so_config (sy_o s)) j (sy_o s)")
  case (Pair r o2)
  have idle: "idle_in i o2 (map fst (sy_waiters s))"
    using idle_reserve [OF Pair] assms(2) by (simp add: lost_with_def)
  show ?thesis
  proof (cases r)
    case (StartReturns err)
    have t: "after_try site j err (s\<lparr>sy_o := o2\<rparr>) = Some s'"
      using assms(1) Pair by (simp add: try_start_def StartReturns Let_def)
    show ?thesis by (rule lost_after_try [OF t]) (use idle assms(2) in \<open>simp add: lost_with_def\<close>)
  next
    case SlotReserved
    then show ?thesis using assms Pair idle
      by (cases site) (auto simp: try_start_def lost_def lost_with_def Let_def)
  qed
qed

lemma lost_finish:
  assumes "sys_step (EvFinish e) s = Some s'" and "lost i s"
  shows "lost i s'"
proof -
  obtain j cfg site where r: "sy_run s = RunStarting j cfg site"
    using assms(1) by (auto split: runner_pc.splits)
  have l: "lost_with i (j # site_holds site) s" using assms(2) by (cases site) (simp_all add: lost_def r)
  obtain q o2 where f: "start_finish e cfg j (sy_o s) = (q, o2)" by (cases "start_finish e cfg j (sy_o s)")
  note idle = idle_finish [OF f, of i "map fst (sy_waiters s)"]
  show ?thesis
  proof (cases q)
    case (Inl err)
    have t: "after_try site j (Some err) (s\<lparr>sy_o := o2\<rparr>) = Some s'" using assms(1) r f Inl by simp
    show ?thesis by (rule lost_after_try [OF t]) (use l idle Inl in \<open>simp add: lost_with_def\<close>)
  next
    case (Inr h)
    have t: "after_try site j None (s\<lparr>sy_o := o2, sy_waiters := sy_waiters s @ [(h, Waiting)]\<rparr>) = Some s'"
      using assms(1) r f Inr by simp
    show ?thesis by (rule lost_after_try [OF t]) (use l idle Inr in \<open>simp add: lost_with_def\<close>)
  qed
qed

lemma lost_receive:
  assumes "sys_step EvReceive s = Some s'" and "lost i s"
  shows "lost i s'"
proof -
  obtain j rest where p: "sy_poll s = PollSending (j # rest)" and r: "sy_run s = RunSelect"
    using assms(1) by (auto split: poll_pc.splits list.splits if_split_asm)
  define s1 where "s1 = s\<lparr>sy_poll := PollSending rest\<rparr>"
  have l: "lost_with i [j] s1" using assms(2) p r by (simp add: lost_def lost_with_def s1_def)
  show ?thesis
  proof (cases "ActiveCount (sy_o s) < sy_maxc s")
    case True
    then have "try_start FromChannel j s1 = Some s'" using assms(1) p r by (simp add: s1_def Let_def)
    from lost_try_start [OF this, of i] show ?thesis using l by simp
  next
    case False
    then have "s' = s1\<lparr>sy_pending := sy_pending s @ [j], sy_run := RunTop\<rparr>" using assms(1) p r by (simp add: s1_def Let_def)
    then show ?thesis using l by (simp add: lost_def lost_with_def s1_def)
  qed
qed

lemma lost_cleanup:
  assumes "sys_step (EvCleanup h) s = Some s'" and "lost i s"
  shows "lost i s'"
proof -
  obtain st where w: "map_of (sy_waiters s) h = Some (Ending st)"
    and s': "s' = s\<lparr>sy_o := cleanup h st (sy_o s), sy_waiters := filter (\<lambda>w. fst w \<noteq> h) (sy_waiters s)\<rparr>"
    using assms(1) by (auto split: option.splits waiter_pc.splits)
  have "h \<in> set (map fst (sy_waiters s))" using w by (force dest: map_of_SomeD)
  moreover have "map fst (filter (\<lambda>w. fst w \<noteq> h) ws) = filter (\<lambda>k. k \<noteq> h) (map fst ws)" for ws :: "(nat \<times> waiter_pc) list"
    by (induction ws) auto
  ultimately show ?thesis using assms(2) idle_cleanup by (simp add: s' lost_def lost_with_def)
qed

lemma lost_rebuild:
  assumes "sys_step EvRebuild s = Some s'" and "lost i s"
  shows "lost i s'"
proof -
  obtain js active where p: "sy_poll s = PollActive js active" using assms(1) by (auto split: poll_pc.splits)
  have i: "i \<in> set (ids js)" using assms(2) p by (simp add: lost_def lost_with_def)
  obtain released o1 where d: "DrainReleasedForRetry (sy_o s) = (released, o1)" by (cases "DrainReleasedForRetry (sy_o s)")
  have rel: "i \<notin> set released" using d assms(2)
    by (auto simp: DrainReleasedForRetry_def lost_def lost_with_def idle_in_def keys_def split: if_split_asm)
  have "idle_in i o1 (map fst (sy_waiters s))"
    using idle_frame [OF frame_ops(3) [of "sy_o s"] released_shrinks(1)] assms(2) d by (simp add: lost_def lost_with_def)
  then show ?thesis using assms rel i p
    by (auto simp: d poll_rebuild_def lost_def lost_with_def drain_lookup seen_lookup ids_def Let_def)
qed

lemma lost_step:
  assumes "sys_step e s = Some s'" and "lost i s" and "lists i e"
  shows "lost i s'"
proof (cases "e \<in> {EvTry, EvReceive, EvRebuild} \<union> range EvFinish \<union> range EvCleanup")
  case True
  have "lost i s'" if "e = EvTry"
    using assms(1,2) unfolding that
    by (auto simp: lost_def split: runner_pc.splits list.splits if_split_asm intro!: lost_try_start [unfolded lost_def])
  with True show ?thesis using assms(1,2) lost_receive lost_rebuild lost_finish lost_cleanup by blast
next
  case False
  have idle: "idle_in i (sy_o s) (map fst (sy_waiters s))" using assms(2) by (simp add: lost_def lost_with_def)
  have ops: "idle_in i (Cancel j (sy_o s)) ws" "idle_in i (watchdog_tick now h (sy_o s)) ws"
    "idle_in i (record_end h st rep (sy_o s)) ws" "idle_in i (modify h (tail_line now l) (sy_o s)) ws"
    "idle_in i (modify h (\<lambda>m. m\<lparr>mw_tailerAlive := False, mw_ctx := g m\<rparr>) (sy_o s)) ws"
    if "idle_in i (sy_o s) ws" for j now h st rep l g ws
    using that
    by (auto intro!: idle_frame [OF _ _ that] simp: frame_ops modify_frame tail_issue
        dest: subsetD [OF released_shrinks(2)])
  have upd: "idle_in i ((sy_o s)\<lparr>so_slotFreed := b\<rparr>) ws" "idle_in i ((sy_o s)\<lparr>so_config := c\<rparr>) ws"
    "idle_in i ((sy_o s)\<lparr>so_forceCleanup := b\<rparr>) ws"
    "idle_in i ((sy_o s)\<lparr>so_heap := map (\<lambda>m. m\<lparr>mw_ctx := g m\<rparr>) (so_heap (sy_o s))\<rparr>) ws"
    if "idle_in i (sy_o s) ws" for b c g ws
    using that by (auto intro!: idle_frame [OF _ _ that])
  show ?thesis using assms False ops upd idle
    by (cases e) (auto simp: lost_def lost_with_def lists_def split: poll_pc.splits runner_pc.splits list.splits if_split_asm)
qed

lemma lost_run: "sys_run es s = Some s' \<Longrightarrow> lost i s \<Longrightarrow> list_all (lists i) es \<Longrightarrow> lost i s'"
  by (induction es arbitrary: s) (auto simp: bind_eq_Some_conv intro: lost_step)

text \<open>The workflow ends between the two readings that the poller makes of the scheduler.\<close>

definition lost_events :: "sys_event list" where
  "lost_events = first_start @ [EvExit 1 (Waited (Some ''exit status 1'')), EvList [sample_issue], EvReadActive,
     EvCleanup 1, EvRebuild, EvPollDone]"

lemma lost_state: "case_option False (lost ''X'') (sys_run lost_events (system_start [] sched_sample []))"
  by code_simp

text \<open>A workflow that fails while the poller is between its reading of the active issues and of the
  released ones is lost: it is in neither, its release is used up, and it counts as seen, so that
  it is never started again for as long as the tracker lists it, although nobody works on it and it
  has failed only once.\<close>

theorem jira_lost_repickup:
  assumes "sys_run (lost_events @ es) (system_start [] sched_sample []) = Some s"
    and "list_all (lists ''X'') es"
  shows "lost ''X'' s"
proof -
  have app: "sys_run (xs @ ys) t = Option.bind (sys_run xs t) (sys_run ys)" for xs ys t
    by (induction xs arbitrary: t) (auto split: bind_split)
  obtain s1 where s1: "sys_run lost_events (system_start [] sched_sample []) = Some s1" "lost ''X'' s1"
    using lost_state by (auto split: option.splits)
  with assms show ?thesis using lost_run by (simp add: app)
qed

definition later_polls :: "sys_event list" where
  "later_polls = [EvSlot, EvTop, EvDrained] @ poll_events @ [EvPollDone] @ poll_events"

lemma later_run: "case_option False (\<lambda>s. True) (sys_run (lost_events @ later_polls) (system_start [] sched_sample []))"
  "list_all (lists ''X'') later_polls"
  by code_simp+

theorem jira_lost_repickup_witness:
  "lost ''X'' (the (sys_run (lost_events @ later_polls) (system_start [] sched_sample [])))"
  by (rule jira_lost_repickup [of later_polls]) (use later_run in \<open>auto split: option.splits\<close>)

section \<open>The work of a failed run\<close>

text \<open>The branches in whose worktree a child has run.\<close>

definition worked :: "sched_action list \<Rightarrow> string list" where
  "worked tr = concat (map (\<lambda>a. case a of Spawn b _ \<Rightarrow> [b] | _ \<Rightarrow> []) tr)"


end
