(* ===== verification/PrdozerState.thy ===== *)
theory PrdozerState
  imports GoText
begin

text \<open>
  The data of prdozer: the persisted state of a watched pull request (\<open>prdozer/state.go\<close>), a
  snapshot of it (\<open>snapshot.go\<close>) and the change set between the two (\<open>changeset.go\<close>). A Go
  time that may be zero is an option.
\<close>

section \<open>Actions, health and the persisted state\<close>

datatype LastAction =
    LastActionInit | LastActionIdle | LastActionPolished | LastActionMerged | LastActionClosed
  | LastActionFailed | LastActionDryRun | LastActionTransient | LastActionStalled | LastActionArmed
  | LastActionNeedsHuman | LastActionReworked

record PRHealth =
  hl_UnresolvedThreads :: int
  hl_CIFailing :: bool

definition BetterThan :: "PRHealth \<Rightarrow> PRHealth \<Rightarrow> bool" where
  "BetterThan h other =
    (if hl_CIFailing h \<noteq> hl_CIFailing other then \<not> hl_CIFailing h
     else hl_UnresolvedThreads h < hl_UnresolvedThreads other)"

definition Saturated :: "PRHealth \<Rightarrow> bool" where
  "Saturated h \<longleftrightarrow> hl_UnresolvedThreads h = 0 \<and> \<not> hl_CIFailing h"

record PRState =
  ps_OnceRoundsDone :: "(string, bool) gomap"
  ps_LastCheckAt :: "time option"
  ps_CooldownUntil :: "time option"
  ps_LastCooldownCause :: string
  ps_LastSeenHeadSHA :: string
  ps_SelfReviewedSHA :: string
  ps_LastSeenBaseSHA :: string
  ps_LastAction :: LastAction
  ps_Repo :: string
  ps_LastMergeError :: string
  ps_BestHealth :: "PRHealth option"
  ps_LastSeenCommentIDs :: "string list"
  ps_LastSeenCIRunIDs :: "int list"
  ps_ConsecutiveFailures :: int
  ps_PRNumber :: int
  ps_MergeAttempts :: int
  ps_CooldownFromAttempt :: int
  ps_PolishRounds :: int
  ps_RoundsSinceImprovement :: int
  ps_PolishCommits :: int
  ps_LastSeenCommitCount :: int
  ps_BaselineAdditions :: int
  ps_InvocationsSinceRound :: int

definition zero_PRState :: PRState where
  "zero_PRState = \<lparr>ps_OnceRoundsDone = [], ps_LastCheckAt = None, ps_CooldownUntil = None,
     ps_LastCooldownCause = [], ps_LastSeenHeadSHA = [], ps_SelfReviewedSHA = [],
     ps_LastSeenBaseSHA = [], ps_LastAction = LastActionInit, ps_Repo = [], ps_LastMergeError = [],
     ps_BestHealth = None, ps_LastSeenCommentIDs = [], ps_LastSeenCIRunIDs = [],
     ps_ConsecutiveFailures = 0, ps_PRNumber = 0, ps_MergeAttempts = 0, ps_CooldownFromAttempt = 0,
     ps_PolishRounds = 0, ps_RoundsSinceImprovement = 0, ps_PolishCommits = 0,
     ps_LastSeenCommitCount = 0, ps_BaselineAdditions = 0, ps_InvocationsSinceRound = 0\<rparr>"

text \<open>
  The state file. A text that JSON rejects carries the error. A state written by \<open>Save\<close> is
  read back as it was.
\<close>

datatype state_file = NoStateFile | StateUnreadable string | StateUnparsable string | StateSaved PRState

datatype load_error = ReadState string | ParseState string

definition LoadState :: "state_file \<Rightarrow> load_error + PRState" where
  "LoadState f = (case f of
      NoStateFile \<Rightarrow> Inr zero_PRState
    | StateUnreadable e \<Rightarrow> Inl (ReadState e)
    | StateUnparsable e \<Rightarrow> Inl (ParseState e)
    | StateSaved s \<Rightarrow> Inr s)"

section \<open>The identifiers seen\<close>

definition maxSeenIDs :: nat where
  "maxSeenIDs = 500"

text \<open>
  The map iteration that builds the merged slice has no order; sorting a list without
  repetitions removes the dependence on it.
\<close>

definition mergeSortedCapped :: "'a::linorder list \<Rightarrow> 'a list \<Rightarrow> 'a list \<times> bool" where
  "mergeSortedCapped existing incoming =
    (if incoming = [] then (existing, False)
     else if list_all (\<lambda>v. v \<in> set existing) incoming then (existing, False)
     else let out = sort (remdups (existing @ incoming)) in
       (if maxSeenIDs < length out then drop (length out - maxSeenIDs) out else out, True))"

definition MergeSeenComments :: "string list \<Rightarrow> PRState \<Rightarrow> PRState \<times> bool" where
  "MergeSeenComments ids s = (let (merged, changed) = mergeSortedCapped (ps_LastSeenCommentIDs s) ids in
     (s\<lparr>ps_LastSeenCommentIDs := merged\<rparr>, changed))"

definition MergeSeenRuns :: "int list \<Rightarrow> PRState \<Rightarrow> PRState \<times> bool" where
  "MergeSeenRuns ids s = (let (merged, changed) = mergeSortedCapped (ps_LastSeenCIRunIDs s) ids in
     (s\<lparr>ps_LastSeenCIRunIDs := merged\<rparr>, changed))"

section \<open>Snapshots\<close>

record statusCheckRow =
  sc_Status :: string
  sc_Conclusion :: string
  sc_State :: string

record reviewRow =
  rr_State :: string
  rr_Login :: string

record PRDetails =
  pd_URL :: string
  pd_HeadRefName :: string
  pd_BaseRefName :: string
  pd_HeadRefOid :: string
  pd_State :: string
  pd_ReviewDecision :: string
  pd_Mergeable :: string
  pd_StatusCheckRollup :: "statusCheckRow list"
  pd_LatestReviews :: "reviewRow list"
  pd_Commits :: "string list"
  pd_TotalCommits :: int
  pd_Number :: int
  pd_Additions :: int
  pd_Deletions :: int
  pd_ChangedFiles :: int
  pd_IsDraft :: bool

record CommentRef =
  cr_Created :: time
  cr_ID :: string
  cr_Source :: string
  cr_Author :: string
  cr_IsBot :: bool
  cr_IsSelf :: bool

record PRSnapshot =
  pn_TakenAt :: time
  pn_BaseSHA :: string
  pn_StatusRollup :: string
  pn_Comments :: "CommentRef list"
  pn_FailedRunIDs :: "int list"
  pn_Degraded :: "string list"
  pn_ChangesRequestedBy :: "string list"
  pn_IsBotReviewer :: "(string, bool) gomap"
  pn_PR :: PRDetails
  pn_UnresolvedThreads :: int

abbreviation "StatusSuccess \<equiv> ''SUCCESS''"
abbreviation "StatusPending \<equiv> ''PENDING''"
abbreviation "StatusFailure \<equiv> ''FAILURE''"

definition Health :: "PRSnapshot \<Rightarrow> PRHealth option" where
  "Health s =
    (if pn_UnresolvedThreads s < 0 then None
     else Some \<lparr>hl_UnresolvedThreads = pn_UnresolvedThreads s,
                hl_CIFailing = (pn_StatusRollup s = StatusFailure)\<rparr>)"

definition commitListCap :: nat where
  "commitListCap = 100"

definition CommitCount :: "PRDetails \<Rightarrow> int" where
  "CommitCount p =
    (if pd_TotalCommits p > 0 then pd_TotalCommits p
     else if length (pd_Commits p) \<ge> commitListCap then 0
     else int (length (pd_Commits p)))"

text \<open>One row of the rollup: whether it failed, and else whether it is pending.\<close>

definition row_failed :: "casing \<Rightarrow> statusCheckRow \<Rightarrow> bool" where
  "row_failed u c =
    (let c1 = ToUpper u (sc_Conclusion c);
         concl = (if c1 = [] then ToUpper u (sc_State c) else c1)
     in concl \<in> {''FAILURE'', ''TIMED_OUT'', ''CANCELLED'', ''ERROR''})"

definition row_pending :: "casing \<Rightarrow> statusCheckRow \<Rightarrow> bool" where
  "row_pending u c =
    (let c1 = ToUpper u (sc_Conclusion c);
         concl = (if c1 = [] then ToUpper u (sc_State c) else c1)
     in \<not> row_failed u c \<and>
        (EqualFold u (sc_Status c) ''IN_PROGRESS'' \<or> EqualFold u (sc_Status c) ''QUEUED'' \<or> concl = ''PENDING''))"

definition summarizeRollup :: "casing \<Rightarrow> statusCheckRow list \<Rightarrow> string" where
  "summarizeRollup u rows =
    (if rows = [] then []
     else if list_ex (row_failed u) rows then StatusFailure
     else if list_ex (row_pending u) rows then StatusPending
     else StatusSuccess)"

definition botReviewers :: "reviewRow list \<Rightarrow> (string, bool) gomap" where
  "botReviewers reviews = fold (\<lambda>r m.
     case CutSuffix (rr_Login r) ''[bot]'' of Some login \<Rightarrow> mput login True m | None \<Rightarrow> m) reviews []"

text \<open>The accumulator holds the logins so far, which is also the set \<open>seen\<close>.\<close>

definition changesRequestedBy :: "reviewRow list \<Rightarrow> string list" where
  "changesRequestedBy reviews = fold (\<lambda>r out.
     if rr_State r \<noteq> ''CHANGES_REQUESTED'' \<or> rr_Login r = [] then out
     else let login = TrimSuffix (rr_Login r) ''[bot]'' in
       if login \<in> set out then out else out @ [login]) reviews []"

definition repoSlugFromURL :: "string \<Rightarrow> string + string \<times> string" where
  "repoSlugFromURL url =
    (if \<not> HasPrefix url ''https://github.com/'' then Inl ''not a github.com URL''
     else case SplitN (TrimPrefix' url ''https://github.com/'') CHR ''/'' 3 of
         owner # repo # _ \<Rightarrow> Inr (owner, repo)
       | _ \<Rightarrow> Inl ''malformed URL'')"

end
