(* ===== verification/PrdozerSnapshot.thy ===== *)
theory PrdozerSnapshot
  imports PrdozerState GoJson
begin

text \<open>
  Taking a snapshot of a pull request through the GitHub command line (\<open>prdozer/snapshot.go\<close>).
  The command is a function from its arguments to a reply; the text parsers, the clock and the
  scrubbing of errors are parameters. The five concurrent fetches do not share data, so their
  order does not matter.
\<close>

text \<open>\<open>GhFail e stderr\<close> is an error with, when there is a result at all, what was printed.\<close>

datatype gh_reply = GhOk string | GhFail string "string option"

record snap_env =
  se_casing :: casing
  se_gh :: "string list \<Rightarrow> gh_reply"
  se_json :: "string \<Rightarrow> json option"
  se_json_stream :: "string \<Rightarrow> json list option"
  se_number :: "string \<Rightarrow> bool"
  se_time :: "string \<Rightarrow> time option"
  se_safe :: "string \<Rightarrow> string"
  se_now :: time

definition ghError :: "string \<Rightarrow> string option \<Rightarrow> string" where
  "ghError err stderr = (case stderr of
      Some e \<Rightarrow> (if e \<noteq> [] then err @ '': '' @ TrimSpace e else err)
    | None \<Rightarrow> err)"

definition run_gh :: "snap_env \<Rightarrow> string list \<Rightarrow> string + string" where
  "run_gh v args = (case se_gh v args of GhOk out \<Rightarrow> Inr out | GhFail e st \<Rightarrow> Inl (ghError e st))"

section \<open>Pull request details\<close>

definition zero_PRDetails :: PRDetails where
  "zero_PRDetails = \<lparr>pd_URL = [], pd_HeadRefName = [], pd_BaseRefName = [], pd_HeadRefOid = [],
     pd_State = [], pd_ReviewDecision = [], pd_Mergeable = [], pd_StatusCheckRollup = [],
     pd_LatestReviews = [], pd_Commits = [], pd_TotalCommits = 0, pd_Number = 0, pd_Additions = 0,
     pd_Deletions = 0, pd_ChangedFiles = 0, pd_IsDraft = False\<rparr>"

definition dec_check :: "statusCheckRow decoder" where
  "dec_check = dec_struct [(''status'', dec_string sc_Status_update),
     (''conclusion'', dec_string sc_Conclusion_update), (''state'', dec_string sc_State_update)]"

definition dec_review :: "reviewRow decoder" where
  "dec_review = dec_struct [(''state'', dec_string rr_State_update),
     (''author'', dec_struct [(''login'', dec_string rr_Login_update)])]"

definition dec_PRDetails :: "PRDetails decoder" where
  "dec_PRDetails = dec_struct
     [(''url'', dec_string pd_URL_update), (''headRefName'', dec_string pd_HeadRefName_update),
      (''baseRefName'', dec_string pd_BaseRefName_update), (''headRefOid'', dec_string pd_HeadRefOid_update),
      (''state'', dec_string pd_State_update), (''reviewDecision'', dec_string pd_ReviewDecision_update),
      (''mergeable'', dec_string pd_Mergeable_update),
      (''statusCheckRollup'', dec_list dec_check \<lparr>sc_Status = [], sc_Conclusion = [], sc_State = []\<rparr> pd_StatusCheckRollup_update),
      (''latestReviews'', dec_list dec_review \<lparr>rr_State = [], rr_Login = []\<rparr> pd_LatestReviews_update),
      (''commits'', dec_list (dec_struct [(''oid'', dec_string (\<lambda>f. f))]) [] pd_Commits_update),
      (''number'', dec_int pd_Number_update), (''additions'', dec_int pd_Additions_update),
      (''deletions'', dec_int pd_Deletions_update), (''changedFiles'', dec_int pd_ChangedFiles_update),
      (''isDraft'', dec_bool pd_IsDraft_update)]"

text \<open>\<open>json.Unmarshal\<close>: a text that is not JSON, or a value of a wrong type, is an error.\<close>

definition unmarshal :: "snap_env \<Rightarrow> 'a decoder \<Rightarrow> 'a \<Rightarrow> string \<Rightarrow> 'a option" where
  "unmarshal v d zero txt = (case se_json v txt of
      None \<Rightarrow> None
    | Some j \<Rightarrow> (case d j zero of (x, ok) \<Rightarrow> if ok then Some x else None))"

definition fetchPRDetails :: "snap_env \<Rightarrow> int \<Rightarrow> string + PRDetails" where
  "fetchPRDetails v n =
    (case run_gh v [''pr'', ''view'', Itoa n, ''--json'',
        ''number,url,headRefName,baseRefName,headRefOid,state,isDraft,reviewDecision,mergeable,statusCheckRollup,latestReviews,additions,deletions,changedFiles,commits''] of
       Inl e \<Rightarrow> Inl e
     | Inr out \<Rightarrow> (case unmarshal v dec_PRDetails zero_PRDetails out of
         None \<Rightarrow> Inl ''parse pr view'' | Some pr \<Rightarrow> Inr pr))"

section \<open>The five follow-up fetches\<close>

text \<open>
  The two GraphQL documents, line by line. Where the code wraps the text of a parser's error, the
  model keeps the code's own words only.
\<close>

definition unlines :: "string list \<Rightarrow> string" where
  "unlines = join_with [CHR 0x0A]"

definition commits_query :: string where
  "commits_query = unlines
     [''query($owner:String!,$repo:String!,$pr:Int!){'', ''  repository(owner:$owner,name:$repo){'',
      ''    pullRequest(number:$pr){'', ''      commits{ totalCount }'', ''    }'', ''  }'', ''}'']"

definition threads_query :: string where
  "threads_query = unlines
     [''query($owner:String!,$repo:String!,$pr:Int!,$endCursor:String){'',
      ''  repository(owner:$owner,name:$repo){'', ''    pullRequest(number:$pr){'',
      ''      reviewThreads(first:100,after:$endCursor){'', ''        pageInfo{ hasNextPage endCursor }'',
      ''        nodes { isResolved isOutdated }'', ''      }'', ''    }'', ''  }'', ''}'']"

definition fetchCommitCount :: "snap_env \<Rightarrow> string \<Rightarrow> string \<Rightarrow> int \<Rightarrow> string + int" where
  "fetchCommitCount v owner repo n =
    (case run_gh v [''api'', ''graphql'', ''-f'', ''query='' @ commits_query, ''-F'', ''owner='' @ owner,
        ''-F'', ''repo='' @ repo, ''-F'', ''pr='' @ Itoa n, ''--jq'',
        ''.data.repository.pullRequest.commits.totalCount''] of
       Inl e \<Rightarrow> Inl e
     | Inr stdout \<Rightarrow>
         let out = TrimSpace stdout in
         if out = [] then Inl ''empty commit count''
         else (case Atoi out of None \<Rightarrow> Inl ''parse commit count'' | Some k \<Rightarrow> Inr k))"

fun sum_pages :: "string list \<Rightarrow> int option" where
  "sum_pages [] = Some 0"
| "sum_pages (p # ps) =
    (case Atoi p of None \<Rightarrow> None | Some n \<Rightarrow> map_option ((+) n) (sum_pages ps))"

definition fetchUnresolvedThreads :: "snap_env \<Rightarrow> string \<Rightarrow> string \<Rightarrow> int \<Rightarrow> string + int" where
  "fetchUnresolvedThreads v owner repo n =
    (case run_gh v [''api'', ''graphql'', ''--paginate'', ''-f'', ''query='' @ threads_query,
        ''-F'', ''owner='' @ owner, ''-F'', ''repo='' @ repo, ''-F'', ''pr='' @ Itoa n, ''--jq'',
        ''[.data.repository.pullRequest.reviewThreads.nodes[] | select(.isResolved==false and .isOutdated==false)] | length''] of
       Inl e \<Rightarrow> Inl e
     | Inr stdout \<Rightarrow>
         let pages = Fields stdout in
         if pages = [] then Inl ''empty unresolved thread count''
         else (case sum_pages pages of
             None \<Rightarrow> Inl ''parse unresolved thread count'' | Some t \<Rightarrow> Inr t))"

definition dec_run :: "int decoder" where
  "dec_run = dec_struct [(''databaseId'', dec_int (\<lambda>f. f))]"

definition fetchFailedRunIDs :: "snap_env \<Rightarrow> string \<Rightarrow> string + int list" where
  "fetchFailedRunIDs v branch =
    (if branch = [] then Inr []
     else case run_gh v [''run'', ''list'', ''--branch'', branch, ''--status'', ''failure'',
         ''--json'', ''databaseId'', ''--limit'', ''10''] of
         Inl e \<Rightarrow> Inl e
       | Inr out \<Rightarrow> (case unmarshal v (dec_list dec_run 0 (\<lambda>f. f)) [] out of
           None \<Rightarrow> Inl ''parse run list'' | Some ids \<Rightarrow> Inr ids))"

record ghComment =
  gc_CreatedAt :: time
  gc_Login :: string
  gc_Type :: string
  gc_ID :: string

definition dec_number :: "snap_env \<Rightarrow> ((string \<Rightarrow> string) \<Rightarrow> 's \<Rightarrow> 's) \<Rightarrow> 's decoder" where
  "dec_number v upd j s = (case j of
      JNull \<Rightarrow> (s, True)
    | JNum lit \<Rightarrow> (upd (\<lambda>_. lit) s, True)
    | JStr x \<Rightarrow> if se_number v x then (upd (\<lambda>_. x) s, True) else (s, False)
    | _ \<Rightarrow> (s, False))"

definition dec_time :: "snap_env \<Rightarrow> ((time \<Rightarrow> time) \<Rightarrow> 's \<Rightarrow> 's) \<Rightarrow> 's decoder" where
  "dec_time v upd j s = (case j of
      JNull \<Rightarrow> (s, True)
    | JStr x \<Rightarrow> (case se_time v x of Some t \<Rightarrow> (upd (\<lambda>_. t) s, True) | None \<Rightarrow> (s, False))
    | _ \<Rightarrow> (s, False))"

definition dec_comment :: "snap_env \<Rightarrow> ghComment decoder" where
  "dec_comment v = dec_struct
     [(''created_at'', dec_time v gc_CreatedAt_update),
      (''user'', dec_struct [(''login'', dec_string gc_Login_update), (''type'', dec_string gc_Type_update)]),
      (''id'', dec_number v gc_ID_update)]"

text \<open>
  \<open>zero_time\<close> is the zero \<open>time.Time\<close>, year 1. With \<open>--paginate\<close> the output is one JSON array
  after another, decoded in a loop that stops at the first error.
\<close>

definition zero_time :: time where
  "zero_time = - 62135596800 * 1000000000"

definition decode_pages :: "snap_env \<Rightarrow> json list \<Rightarrow> ghComment list option" where
  "decode_pages v pages =
    (let d = dec_list (dec_comment v) \<lparr>gc_CreatedAt = zero_time, gc_Login = [], gc_Type = [], gc_ID = []\<rparr> (\<lambda>f. f);
         rs = map (\<lambda>p. d p []) pages
     in if list_all snd rs then Some (concat (map fst rs)) else None)"

definition comment_ref :: "string \<Rightarrow> string \<Rightarrow> ghComment \<Rightarrow> CommentRef" where
  "comment_ref self source c = \<lparr>cr_Created = gc_CreatedAt c, cr_ID = source @ '':'' @ gc_ID c,
     cr_Source = source, cr_Author = gc_Login c,
     cr_IsBot = (gc_Type c = ''Bot'' \<or> HasSuffix (gc_Login c) ''[bot]''),
     cr_IsSelf = (self \<noteq> [] \<and> gc_Login c = self)\<rparr>"

text \<open>The callers never set the lower bound \<open>CommentsSince\<close>, so it adds no argument.\<close>

definition fetchComments :: "snap_env \<Rightarrow> string \<Rightarrow> string \<Rightarrow> string \<Rightarrow> string + CommentRef list" where
  "fetchComments v self endpoint source =
    (case run_gh v [''api'', ''--paginate'', endpoint] of
       Inl e \<Rightarrow> Inl e
     | Inr stdout \<Rightarrow>
         let body = TrimSpace stdout in
         if body = [] then Inr []
         else (case Option.bind (se_json_stream v body) (decode_pages v) of
             None \<Rightarrow> Inl (''parse comments ('' @ source @ '')'')
           | Some raw \<Rightarrow> Inr (map (comment_ref self source) raw)))"

definition fetchAllComments :: "snap_env \<Rightarrow> string \<Rightarrow> string \<Rightarrow> string \<Rightarrow> int \<Rightarrow> string + CommentRef list" where
  "fetchAllComments v self owner repo n =
    (case fetchComments v self (''repos/'' @ owner @ ''/'' @ repo @ ''/pulls/'' @ Itoa n @ ''/comments'') ''inline'' of
       Inl e \<Rightarrow> Inl e
     | Inr inline \<Rightarrow>
         (case fetchComments v self (''repos/'' @ owner @ ''/'' @ repo @ ''/issues/'' @ Itoa n @ ''/comments'') ''issue'' of
            Inl e \<Rightarrow> Inl e
          | Inr issue \<Rightarrow> Inr (inline @ issue)))"

text \<open>\<open>url.PathEscape\<close>.\<close>

definition path_char :: "char \<Rightarrow> bool" where
  "path_char c \<longleftrightarrow> (CHR ''A'' \<le> c \<and> c \<le> CHR ''Z'') \<or> (CHR ''a'' \<le> c \<and> c \<le> CHR ''z'') \<or>
     is_digit c \<or> c \<in> set ''-_.~$&+:=@''"

definition hex_digit :: "nat \<Rightarrow> char" where
  "hex_digit n = ''0123456789ABCDEF'' ! n"

definition PathEscape :: "string \<Rightarrow> string" where
  "PathEscape s = concat (map (\<lambda>c. if path_char c then [c]
     else [CHR ''%'', hex_digit (byte c div 16), hex_digit (byte c mod 16)]) s)"

definition fetchBaseSHA :: "snap_env \<Rightarrow> string \<Rightarrow> string + string" where
  "fetchBaseSHA v base =
    (if base = [] then Inr []
     else case run_gh v [''api'', ''repos/{owner}/{repo}/git/refs/heads/'' @ PathEscape base,
         ''--jq'', ''.object.sha''] of
         Inl e \<Rightarrow> Inl e
       | Inr out \<Rightarrow> Inr (TrimSpace out))"

section \<open>The snapshot\<close>

definition degraded_entry :: "snap_env \<Rightarrow> string \<Rightarrow> string + 'a \<Rightarrow> string list" where
  "degraded_entry v label r = (case r of Inl e \<Rightarrow> [label @ '': '' @ se_safe v e] | Inr _ \<Rightarrow> [])"

definition TakeSnapshot :: "snap_env \<Rightarrow> int \<Rightarrow> string \<Rightarrow> string + PRSnapshot" where
  "TakeSnapshot v prNumber self =
    (case fetchPRDetails v prNumber of
       Inl e \<Rightarrow> Inl (''pr view #'' @ Itoa prNumber @ '': '' @ e)
     | Inr pr \<Rightarrow>
       (case repoSlugFromURL (pd_URL pr) of
          Inl e \<Rightarrow> Inl (''derive owner/repo from '' @ pd_URL pr @ '': '' @ e)
        | Inr (owner, repo) \<Rightarrow>
            let totalCommits = (case fetchCommitCount v owner repo prNumber of Inl _ \<Rightarrow> 0 | Inr k \<Rightarrow> k);
                unresolved = (case fetchUnresolvedThreads v owner repo prNumber of Inl _ \<Rightarrow> -1 | Inr k \<Rightarrow> k);
                failed = fetchFailedRunIDs v (pd_HeadRefName pr);
                comments = fetchAllComments v self owner repo prNumber;
                baseSHA = (case fetchBaseSHA v (pd_BaseRefName pr) of Inl _ \<Rightarrow> [] | Inr s \<Rightarrow> s)
            in Inr \<lparr>pn_TakenAt = se_now v, pn_BaseSHA = baseSHA,
                 pn_StatusRollup = summarizeRollup (se_casing v) (pd_StatusCheckRollup pr),
                 pn_Comments = (case comments of Inl _ \<Rightarrow> [] | Inr cs \<Rightarrow> cs),
                 pn_FailedRunIDs = (case failed of Inl _ \<Rightarrow> [] | Inr ids \<Rightarrow> ids),
                 pn_Degraded = degraded_entry v (''failed runs for '' @ pd_HeadRefName pr) failed @
                   degraded_entry v (''comments for #'' @ Itoa prNumber) comments,
                 pn_ChangesRequestedBy = changesRequestedBy (pd_LatestReviews pr),
                 pn_IsBotReviewer = botReviewers (pd_LatestReviews pr),
                 pn_PR = pr\<lparr>pd_TotalCommits := totalCommits\<rparr>, pn_UnresolvedThreads = unresolved\<rparr>))"

end
