(* ===== verification/MultiagentTransient.thy ===== *)
theory MultiagentTransient
  imports GoText
begin

text \<open>
  Which errors of an agent are worth a retry and which mean that its quota is used up
  (\<open>multiagent/agent/transient.go\<close>, \<open>agent-cli-wrapper/transient\<close>). An error is its text and
  the typed errors \<open>errors.As\<close> finds in its chain.
\<close>

record codex_transient =
  ct_Reason :: string
  ct_Message :: string
  ct_Cause :: "string option"

record go_err =
  ge_text :: string
  ge_claude :: "string option"
  ge_codex :: "codex_transient option"
  ge_command :: bool

abbreviation "ReasonUnknown \<equiv> ''unknown_transient''"
abbreviation "ReasonStreamIdle \<equiv> ''stream_idle''"
abbreviation "ReasonCodexIncomplete \<equiv> ''codex_incomplete''"
abbreviation "ReasonHTTP429 \<equiv> ''http_429''"
abbreviation "ReasonHTTP5xx \<equiv> ''http_5xx''"
abbreviation "ReasonConnectionReset \<equiv> ''connection_reset''"
abbreviation "ReasonTimeout \<equiv> ''timeout''"
abbreviation "ReasonGraceForced \<equiv> ''grace_forced''"

text \<open>
  The pattern for status codes: one of six numbers with no ASCII letter or digit on either
  side. The bytes of a rune outside ASCII are no letters here, so the search can go byte by byte.
\<close>

definition alnum :: "char \<Rightarrow> bool" where
  "alnum c \<longleftrightarrow> is_digit c \<or> (CHR ''A'' \<le> c \<and> c \<le> CHR ''Z'') \<or> (CHR ''a'' \<le> c \<and> c \<le> CHR ''z'')"

definition code_here :: "string \<Rightarrow> bool" where
  "code_here s \<longleftrightarrow> take 3 s \<in> {''429'', ''500'', ''502'', ''503'', ''504'', ''529''} \<and>
     (case drop 3 s of [] \<Rightarrow> True | c # _ \<Rightarrow> \<not> alnum c)"

fun code_after :: "string \<Rightarrow> bool" where
  "code_after [] = False"
| "code_after (c # s) = ((\<not> alnum c \<and> code_here s) \<or> code_after s)"

definition httpStatusPattern :: "string \<Rightarrow> bool" where
  "httpStatusPattern s = (code_here s \<or> code_after s)"

definition any_of :: "string list \<Rightarrow> string \<Rightarrow> bool" where
  "any_of subs s = list_ex (Contains s) subs"

definition ClassifyText :: "casing \<Rightarrow> string \<Rightarrow> string option" where
  "ClassifyText u msg =
    (let s = ToLower (cs_lower u) msg in
     if Contains s ''turn forced complete after grace period'' then Some ReasonGraceForced
     else if any_of [''stream idle'', ''stream timeout'', ''stream disconnected'', ''stream closed''] s
       then Some ReasonStreamIdle
     else if Contains s ''turn never reached turn/completed'' then Some ReasonCodexIncomplete
     else if httpStatusPattern s \<and> Contains s ''429'' \<or>
         any_of [''http 429'', ''status 429'', ''status code 429'', ''rate limit'', ''rate limited''] s
       then Some ReasonHTTP429
     else if httpStatusPattern s \<or> Contains s ''server error'' then Some ReasonHTTP5xx
     else if any_of [''connection reset'', ''broken pipe'', ''unexpected eof'', ''socket connection was closed'',
         ''connection closed'', ''websocket''] s
       then Some ReasonConnectionReset
     else if any_of [''i/o timeout'', ''timeout'', ''timed out''] s then Some ReasonTimeout
     else None)"

definition IsOutOfCredits :: "casing \<Rightarrow> go_err option \<Rightarrow> bool" where
  "IsOutOfCredits u err = (case err of
      None \<Rightarrow> False
    | Some e \<Rightarrow> let s = ToLower (cs_lower u) (ge_text e) in
        if Contains s ''out of credits'' \<or> Contains s ''workspace owner to refill'' then True
        else if Contains s ''rate limit'' then False
        else Contains s ''limit'' \<and> Contains s ''reset'')"

definition ClassifyTransient :: "casing \<Rightarrow> go_err option \<Rightarrow> bool \<times> string" where
  "ClassifyTransient u err = (case err of
      None \<Rightarrow> (False, ReasonUnknown)
    | Some e \<Rightarrow>
      (case ge_claude e of
         Some m \<Rightarrow> (True, case ClassifyText u m of Some r \<Rightarrow> r | None \<Rightarrow> ReasonUnknown)
       | None \<Rightarrow>
      (case ge_codex e of
         Some c \<Rightarrow>
           (if ct_Reason c \<noteq> [] then (True, ct_Reason c)
            else (case ClassifyText u (ct_Message c) of
                Some r \<Rightarrow> (True, r)
              | None \<Rightarrow>
                (case Option.bind (ct_Cause c) (ClassifyText u) of
                   Some r \<Rightarrow> (True, r)
                 | None \<Rightarrow> (True, ReasonUnknown))))
       | None \<Rightarrow>
      (case ClassifyText u (ge_text e) of
         Some r \<Rightarrow> (True, r)
       | None \<Rightarrow> (False, ReasonUnknown)))))"

definition IsTransient :: "casing \<Rightarrow> go_err option \<Rightarrow> bool" where
  "IsTransient u err = fst (ClassifyTransient u err)"

definition TransientReason :: "casing \<Rightarrow> go_err option \<Rightarrow> string" where
  "TransientReason u err = (case err of None \<Rightarrow> ReasonUnknown | Some _ \<Rightarrow> snd (ClassifyTransient u err))"

end
