(* ===== verification/PrdozerWatcher.thy ===== *)
theory PrdozerWatcher
  imports PrdozerSnapshot MultiagentTransient
begin

text \<open>
  One tick of the prdozer watcher (\<open>prdozer/watcher.go\<close>): the change set between the persisted
  state and a snapshot (\<open>changeset.go\<close>), the decision what to do about it, and what is
  recorded. The snapshot, the GitHub command, the agents and the clock answer through the
  record \<open>tick_env\<close>; what the tick does to them is its trace. Log and status lines are left out.
\<close>

section \<open>Change sets\<close>

record Changeset =
  ch_NewCommentIDs :: "string list"
  ch_NewFailedRuns :: "int list"
  ch_BaseMoved :: bool
  ch_HeadMoved :: bool
  ch_CIFailed :: bool
  ch_NewComments :: bool
  ch_Mergeable :: bool
  ch_PRClosed :: bool
  ch_NeedsReview :: bool
  ch_Conflicting :: bool
  ch_ChangesRequested :: bool

definition zero_Changeset :: Changeset where
  "zero_Changeset = \<lparr>ch_NewCommentIDs = [], ch_NewFailedRuns = [], ch_BaseMoved = False,
     ch_HeadMoved = False, ch_CIFailed = False, ch_NewComments = False, ch_Mergeable = False,
     ch_PRClosed = False, ch_NeedsReview = False, ch_Conflicting = False, ch_ChangesRequested = False\<rparr>"

definition Empty :: "Changeset \<Rightarrow> bool" where
  "Empty c \<longleftrightarrow> \<not> ch_BaseMoved c \<and> \<not> ch_CIFailed c \<and> \<not> ch_NewComments c \<and> \<not> ch_PRClosed c \<and>
     \<not> ch_Conflicting c \<and> \<not> ch_ChangesRequested c"

definition NeedsPolish :: "Changeset \<Rightarrow> bool" where
  "NeedsPolish c =
    (if ch_PRClosed c then False
     else if ch_NewComments c \<or> ch_ChangesRequested c then True
     else if ch_Mergeable c then False
     else ch_BaseMoved c \<or> ch_CIFailed c \<or> ch_Conflicting c)"

definition reviewSatisfied :: "string \<Rightarrow> bool" where
  "reviewSatisfied decision \<longleftrightarrow> decision = ''APPROVED'' \<or> decision = []"

definition closed_state :: "string \<Rightarrow> bool" where
  "closed_state st \<longleftrightarrow> st = ''CLOSED'' \<or> st = ''MERGED''"

definition ComputeChangeset :: "PRState option \<Rightarrow> PRSnapshot \<Rightarrow> Changeset" where
  "ComputeChangeset prev snap =
    (if closed_state (pd_State (pn_PR snap)) then zero_Changeset\<lparr>ch_PRClosed := True\<rparr>
     else
       let firstRun = (case prev of None \<Rightarrow> True | Some p \<Rightarrow> ps_LastCheckAt p = None);
           lastHead = (case prev of None \<Rightarrow> [] | Some p \<Rightarrow> ps_LastSeenHeadSHA p);
           lastBase = (case prev of None \<Rightarrow> [] | Some p \<Rightarrow> ps_LastSeenBaseSHA p);
           seenComments = (case prev of None \<Rightarrow> [] | Some p \<Rightarrow> ps_LastSeenCommentIDs p);
           seenRuns = (case prev of None \<Rightarrow> [] | Some p \<Rightarrow> ps_LastSeenCIRunIDs p);
           headMoved = (\<not> firstRun \<and> lastHead \<noteq> [] \<and> lastHead \<noteq> pd_HeadRefOid (pn_PR snap));
           baseMoved = (\<not> firstRun \<and> pn_BaseSHA snap \<noteq> [] \<and> lastBase \<noteq> pn_BaseSHA snap);
           newIDs = map cr_ID (filter (\<lambda>c. \<not> cr_IsSelf c \<and> cr_ID c \<notin> set seenComments) (pn_Comments snap));
           newComments = (\<not> firstRun \<and> newIDs \<noteq> []);
           newRuns = filter (\<lambda>i. i \<notin> set seenRuns) (pn_FailedRunIDs snap);
           ciFailed = (pn_StatusRollup snap = StatusFailure \<or> (\<not> firstRun \<and> newRuns \<noteq> []));
           green = (pn_StatusRollup snap = StatusSuccess \<and> pd_Mergeable (pn_PR snap) = ''MERGEABLE'' \<and>
                    \<not> baseMoved \<and> \<not> ciFailed)
       in \<lparr>ch_NewCommentIDs = newIDs, ch_NewFailedRuns = newRuns, ch_BaseMoved = baseMoved,
           ch_HeadMoved = headMoved, ch_CIFailed = ciFailed, ch_NewComments = newComments,
           ch_Mergeable = (reviewSatisfied (pd_ReviewDecision (pn_PR snap)) \<and> green),
           ch_PRClosed = False,
           ch_NeedsReview = (\<not> firstRun \<and> pd_ReviewDecision (pn_PR snap) = ''REVIEW_REQUIRED'' \<and> green \<and>
             \<not> newComments),
           ch_Conflicting = (pd_Mergeable (pn_PR snap) = ''CONFLICTING''),
           ch_ChangesRequested = (pd_ReviewDecision (pn_PR snap) = ''CHANGES_REQUESTED'')\<rparr>)"

section \<open>Configuration, requests, the environment of a tick\<close>

abbreviation "MergePolicyQueue \<equiv> ''queue''"
abbreviation "MergePolicySquash \<equiv> ''squash''"
abbreviation "MergePolicyRebase \<equiv> ''rebase''"
abbreviation "MergePolicyNotify \<equiv> ''notify''"

definition PolicyValid :: "string \<Rightarrow> bool" where
  "PolicyValid p \<longleftrightarrow> p \<in> {MergePolicyQueue, MergePolicySquash, MergePolicyRebase, MergePolicyNotify}"

definition MergeArgs :: "string \<Rightarrow> int \<Rightarrow> string list option" where
  "MergeArgs p n =
    (if p = MergePolicyQueue then Some [''pr'', ''merge'', Itoa n, ''--auto'']
     else if p = MergePolicySquash then Some [''pr'', ''merge'', Itoa n, ''--squash'']
     else if p = MergePolicyRebase then Some [''pr'', ''merge'', Itoa n, ''--rebase'']
     else None)"

record PolishConfig =
  pc_PermissionMode :: string
  pc_MergePolicy :: string
  pc_MaxBudgetUSD :: rat
  pc_MaxTurns :: int
  pc_RoundsPerTick :: int
  pc_Local :: bool
  pc_AutoMerge :: bool
  pc_SelfReview :: bool

record BackoffConfig =
  bc_MaxConsecutiveFailures :: int
  bc_Cooldown :: duration
  bc_MaxRoundsWithoutImprovement :: int
  bc_MaxPolishCommits :: int

record RoundSpec =
  rd_Prompt :: string
  rd_Command :: string
  rd_Once :: bool

record StepSpec =
  sp_Model :: string
  sp_Effort :: string
  sp_Rounds :: "RoundSpec list"

definition SpecEmpty :: "StepSpec \<Rightarrow> bool" where
  "SpecEmpty s \<longleftrightarrow> sp_Rounds s = []"

record PolishRequest =
  pq_Spec :: StepSpec
  pq_DoneOnceRounds :: "(string, bool) gomap"
  pq_WorkDir :: string
  pq_Model :: string
  pq_Branch :: string
  pq_PRURL :: string
  pq_Repo :: string
  pq_Cfg :: PolishConfig
  pq_PRNumber :: int
  pq_Local :: bool

record PolishResult =
  pl_RanOnceRounds :: "(string, bool) gomap"
  pl_SessionID :: string
  pl_Output :: string
  pl_CompletedRounds :: int

record ReworkRequest =
  rq_WorkDir :: string
  rq_Repo :: string
  rq_Branch :: string
  rq_PRURL :: string
  rq_MergeError :: string
  rq_MergePolicy :: string
  rq_Spec :: StepSpec
  rq_Model :: string
  rq_Cfg :: PolishConfig
  rq_PRNumber :: int
  rq_Attempt :: int

record Watcher =
  wa_Polish :: PolishConfig
  wa_Backoff :: BackoffConfig
  wa_Model :: string
  wa_repo :: string
  wa_workDir :: string
  wa_polishSpec :: StepSpec
  wa_reworkSpec :: StepSpec
  wa_pr :: int
  wa_dryRun :: bool
  wa_has_polish :: bool
  wa_has_rework :: bool

record tick_flags =
  fl_diverged :: bool
  fl_ratcheted :: bool
  fl_stalled :: bool
  fl_lastStallError :: string
  fl_lastStallStage :: string
  fl_lastFailureError :: string

definition clear_flags :: tick_flags where
  "clear_flags = \<lparr>fl_diverged = False, fl_ratcheted = False, fl_stalled = False,
     fl_lastStallError = [], fl_lastStallStage = [], fl_lastFailureError = []\<rparr>"

text \<open>
  \<open>te_clock k\<close> is the k-th of the readings of the clock a tick can make; \<open>te_save\<close> is the error
  of writing the state file, if any, and what the file is then.
\<close>

record tick_env =
  te_casing :: casing
  te_safe :: "string \<Rightarrow> string"
  te_quote :: "string \<Rightarrow> string"
  te_snapshot :: "string + PRSnapshot"
  te_clock :: "nat \<Rightarrow> time"
  te_gh :: "string list \<Rightarrow> gh_reply"
  te_polish :: "PolishRequest \<Rightarrow> PolishResult \<times> go_err option"
  te_rework :: "ReworkRequest \<Rightarrow> go_err option"
  te_save :: "(string \<times> state_file) option"

datatype pr_action = Gh "string list" | RunPolish PolishRequest | RunRework ReworkRequest

section \<open>Guards\<close>

definition needsSelfReview :: "Watcher \<Rightarrow> PRSnapshot \<Rightarrow> PRState \<Rightarrow> bool" where
  "needsSelfReview w snap s =
    (if \<not> pc_SelfReview (wa_Polish w) \<or> pd_HeadRefOid (pn_PR snap) = [] then False
     else ps_SelfReviewedSHA s \<noteq> pd_HeadRefOid (pn_PR snap))"

definition head_moved :: "PRState \<Rightarrow> PRSnapshot \<Rightarrow> bool" where
  "head_moved s snap \<longleftrightarrow> \<not> (ps_LastSeenHeadSHA s = [] \<or> pd_HeadRefOid (pn_PR snap) = [] \<or>
     ps_LastSeenHeadSHA s = pd_HeadRefOid (pn_PR snap))"

definition expireStaleDivergence :: "PRSnapshot \<Rightarrow> PRState \<Rightarrow> PRState \<times> bool" where
  "expireStaleDivergence snap s =
    (if ps_RoundsSinceImprovement s = 0 \<and> ps_BestHealth s = None \<and> ps_InvocationsSinceRound s = 0
       then (s, False)
     else if ps_LastAction s \<noteq> LastActionNeedsHuman then (s, False)
     else if \<not> head_moved s snap then (s, False)
     else (s\<lparr>ps_RoundsSinceImprovement := 0, ps_BestHealth := None, ps_InvocationsSinceRound := 0\<rparr>, True))"

definition pushedCommits :: "PRSnapshot \<Rightarrow> PRState \<Rightarrow> int" where
  "pushedCommits snap s =
    (if ps_LastAction s \<in> {LastActionInit, LastActionIdle, LastActionMerged, LastActionClosed,
         LastActionArmed, LastActionNeedsHuman, LastActionDryRun} then 0
     else if \<not> head_moved s snap then 0
     else let now = CommitCount (pn_PR snap) in
       if now = 0 \<or> ps_LastSeenCommitCount s \<le> 0 \<or> now \<le> ps_LastSeenCommitCount s then 1
       else now - ps_LastSeenCommitCount s)"

definition recordPolishWork :: "PRSnapshot \<Rightarrow> bool \<Rightarrow> PRState \<Rightarrow> PRState \<times> bool" where
  "recordPolishWork snap polished s =
    (let s1 = (if polished then s\<lparr>ps_PolishRounds := ps_PolishRounds s + 1\<rparr> else s);
         n = pushedCommits snap s1;
         s2 = (if n > 0 then s1\<lparr>ps_PolishCommits := ps_PolishCommits s1 + n\<rparr> else s1);
         fresh = (ps_BaselineAdditions s2 = 0 \<and> pd_Additions (pn_PR snap) > 0);
         s3 = (if fresh then s2\<lparr>ps_BaselineAdditions := pd_Additions (pn_PR snap)\<rparr> else s2)
     in (s3, polished \<or> n > 0 \<or> fresh))"

definition recordHealth :: "PRSnapshot \<Rightarrow> PRState \<Rightarrow> PRState \<times> bool" where
  "recordHealth snap s =
    (let polished = (ps_LastAction s = LastActionPolished);
         (s1, workDirty) = recordPolishWork snap polished s
     in case Health snap of
          None \<Rightarrow> (s1, workDirty)
        | Some h \<Rightarrow>
            if (case ps_BestHealth s1 of None \<Rightarrow> True | Some b \<Rightarrow> BetterThan h b)
            then (s1\<lparr>ps_BestHealth := Some h, ps_RoundsSinceImprovement := 0\<rparr>, True)
            else ((if polished then s1\<lparr>ps_RoundsSinceImprovement := ps_RoundsSinceImprovement s1 + 1\<rparr> else s1),
                  polished \<or> workDirty))"

definition ratcheting :: "Watcher \<Rightarrow> PRSnapshot \<Rightarrow> Changeset \<Rightarrow> PRState \<Rightarrow> bool" where
  "ratcheting w snap cs s =
    (let limit = bc_MaxPolishCommits (wa_Backoff w) in
     if limit \<le> 0 \<or> ps_PolishCommits s < limit then False
     else if ps_PolishCommits s < 2 * limit \<and> \<not> NeedsPolish cs \<and> needsSelfReview w snap s then False
     else True)"

definition diverging :: "Watcher \<Rightarrow> PRSnapshot \<Rightarrow> PRState \<Rightarrow> bool" where
  "diverging w snap s =
    (let limit = bc_MaxRoundsWithoutImprovement (wa_Backoff w) in
     case ps_BestHealth s of
       None \<Rightarrow> False
     | Some best \<Rightarrow>
         if limit \<le> 0 then False
         else if Health snap = None then False
         else if ps_RoundsSinceImprovement s < limit then False
         else if ps_RoundsSinceImprovement s < 2 * limit \<and> (Saturated best \<or> needsSelfReview w snap s)
         then False
         else True)"

section \<open>Merging\<close>

datatype mergeOutcome = mergeOutcomeMerged | mergeOutcomeArmed

definition tick_gh :: "tick_env \<Rightarrow> string list \<Rightarrow> string + string" where
  "tick_gh v args = (case te_gh v args of GhOk out \<Rightarrow> Inr out | GhFail e st \<Rightarrow> Inl (ghError e st))"

definition verify_args :: "string \<Rightarrow> string \<Rightarrow> int \<Rightarrow> string list" where
  "verify_args owner repo n =
     [''api'', ''repos/'' @ owner @ ''/'' @ repo @ ''/pulls/'' @ Itoa n, ''--jq'', ''.merged'']"

definition verifyMerged :: "Watcher \<Rightarrow> tick_env \<Rightarrow> string \<Rightarrow> string \<Rightarrow> string + bool" where
  "verifyMerged w v owner repo =
    (case tick_gh v (verify_args owner repo (wa_pr w)) of
       Inl e \<Rightarrow> Inl e
     | Inr out \<Rightarrow> Inr (EqualFold (te_casing v) (TrimSpace out) ''true''))"

text \<open>Result and commands run.\<close>

definition merge_pr :: "Watcher \<Rightarrow> tick_env \<Rightarrow> PRSnapshot \<Rightarrow> (string + mergeOutcome) \<times> pr_action list" where
  "merge_pr w v snap =
    (let policy = pc_MergePolicy (wa_Polish w) in
     case MergeArgs policy (wa_pr w) of
       None \<Rightarrow> (Inl (''merge policy '' @ te_quote v policy @ '' does not merge''), [])
     | Some args \<Rightarrow>
       (case repoSlugFromURL (pd_URL (pn_PR snap)) of
          Inl e \<Rightarrow> (Inl (''derive owner/repo for merge: '' @ e), [])
        | Inr (owner, repo) \<Rightarrow>
          if pd_Number (pn_PR snap) \<noteq> wa_pr w
          then (Inl (''refusing to merge: snapshot is PR #'' @ Itoa (pd_Number (pn_PR snap)) @
                 '' but watcher targets #'' @ Itoa (wa_pr w)), [])
          else
            (case tick_gh v args of
               Inl e \<Rightarrow> (Inl e, [Gh args])
             | Inr _ \<Rightarrow>
               (let tr = [Gh args, Gh (verify_args owner repo (wa_pr w))] in
                case verifyMerged w v owner repo of
                  Inl e \<Rightarrow> (Inl (''verify merge: '' @ e), tr)
                | Inr merged \<Rightarrow>
                    if merged then (Inr mergeOutcomeMerged, tr)
                    else if policy = MergePolicyQueue then (Inr mergeOutcomeArmed, tr)
                    else (Inl (''merge command succeeded but PR #'' @ Itoa (wa_pr w) @
                           '' is not merged (policy '' @ te_quote v policy @ '')''), tr)))))"

section \<open>Agent failures\<close>

definition classifyAgentFailure ::
  "tick_env \<Rightarrow> string \<Rightarrow> go_err \<Rightarrow> string \<Rightarrow> tick_flags \<Rightarrow> LastAction option \<times> tick_flags" where
  "classifyAgentFailure v stage err safe fl =
    (if ge_command err then (None, fl)
     else case ClassifyTransient (te_casing v) (Some err) of (transient, reason) \<Rightarrow>
       if \<not> transient then (None, fl)
       else if reason = ReasonGraceForced
       then (Some LastActionStalled, fl\<lparr>fl_lastStallError := safe, fl_lastStallStage := stage\<rparr>)
       else (Some LastActionTransient, fl))"

text \<open>
  What a decision yields: the action, the state it has changed, the flags of the watcher and
  what was done.
\<close>

record decision =
  dc_action :: LastAction
  dc_state :: PRState
  dc_flags :: tick_flags
  dc_trace :: "pr_action list"

definition just :: "LastAction \<Rightarrow> PRState \<Rightarrow> tick_flags \<Rightarrow> decision" where
  "just a s fl = \<lparr>dc_action = a, dc_state = s, dc_flags = fl, dc_trace = []\<rparr>"

definition after_actions :: "pr_action list \<Rightarrow> decision \<Rightarrow> decision" where
  "after_actions tr d = d\<lparr>dc_trace := tr @ dc_trace d\<rparr>"

definition rework_request :: "Watcher \<Rightarrow> PRSnapshot \<Rightarrow> PRState \<Rightarrow> ReworkRequest" where
  "rework_request w snap s = \<lparr>rq_WorkDir = wa_workDir w, rq_Repo = wa_repo w,
     rq_Branch = pd_HeadRefName (pn_PR snap), rq_PRURL = pd_URL (pn_PR snap),
     rq_MergeError = ps_LastMergeError s, rq_MergePolicy = pc_MergePolicy (wa_Polish w),
     rq_Spec = wa_reworkSpec w, rq_Model = wa_Model w, rq_Cfg = wa_Polish w,
     rq_PRNumber = wa_pr w, rq_Attempt = ps_MergeAttempts s\<rparr>"

definition reworkAfterFailedMerge ::
  "Watcher \<Rightarrow> tick_env \<Rightarrow> PRSnapshot \<Rightarrow> PRState \<Rightarrow> tick_flags \<Rightarrow> decision" where
  "reworkAfterFailedMerge w v snap s fl =
    (if pc_MergePolicy (wa_Polish w) = MergePolicyNotify then just LastActionNeedsHuman s fl
     else if pd_ReviewDecision (pn_PR snap) = ''REVIEW_REQUIRED'' then just LastActionNeedsHuman s fl
     else if \<not> wa_has_rework w \<or> SpecEmpty (wa_reworkSpec w) then just LastActionFailed s fl
     else let req = rework_request w snap s in
       after_actions [RunRework req]
        (case te_rework v req of
           None \<Rightarrow> just LastActionReworked s fl
         | Some err \<Rightarrow>
             let safe = te_safe v (ge_text err) in
             case classifyAgentFailure v ''merge rework'' err safe fl of
               (Some a, fl1) \<Rightarrow> just a s fl1
             | (None, fl1) \<Rightarrow> just LastActionFailed s (fl1\<lparr>fl_lastFailureError := safe\<rparr>)))"

definition attempt_merge :: "Watcher \<Rightarrow> tick_env \<Rightarrow> PRSnapshot \<Rightarrow> PRState \<Rightarrow> tick_flags \<Rightarrow> decision" where
  "attempt_merge w v snap s fl =
    (let s1 = s\<lparr>ps_MergeAttempts := ps_MergeAttempts s + 1\<rparr>;
         (res, tr) = merge_pr w v snap
     in after_actions tr
       (case res of
          Inl e \<Rightarrow> reworkAfterFailedMerge w v snap (s1\<lparr>ps_LastMergeError := te_safe v e\<rparr>) fl
        | Inr mergeOutcomeArmed \<Rightarrow> just LastActionArmed (s1\<lparr>ps_LastMergeError := []\<rparr>) fl
        | Inr mergeOutcomeMerged \<Rightarrow> just LastActionMerged (s1\<lparr>ps_LastMergeError := []\<rparr>) fl))"

section \<open>A polish round\<close>

definition polish_request :: "Watcher \<Rightarrow> PRSnapshot \<Rightarrow> PRState \<Rightarrow> PolishRequest" where
  "polish_request w snap s = \<lparr>pq_Spec = wa_polishSpec w, pq_DoneOnceRounds = ps_OnceRoundsDone s,
     pq_WorkDir = wa_workDir w, pq_Model = wa_Model w, pq_Branch = pd_HeadRefName (pn_PR snap),
     pq_PRURL = pd_URL (pn_PR snap), pq_Repo = wa_repo w, pq_Cfg = wa_Polish w,
     pq_PRNumber = wa_pr w, pq_Local = pc_Local (wa_Polish w)\<rparr>"

text \<open>The range over \<open>RanOnceRounds\<close> adds each of its keys.\<close>

definition note_once_rounds :: "PolishResult \<Rightarrow> PRState \<Rightarrow> PRState" where
  "note_once_rounds res s =
     s\<lparr>ps_OnceRoundsDone := fold (\<lambda>kv m. mput (fst kv) True m) (pl_RanOnceRounds res) (ps_OnceRoundsDone s)\<rparr>"

text \<open>What a failed invocation means: the count of barren invocations and its brake.\<close>

definition polish_failed ::
  "Watcher \<Rightarrow> tick_env \<Rightarrow> PolishResult \<Rightarrow> go_err \<Rightarrow> PRState \<Rightarrow> tick_flags \<Rightarrow> decision" where
  "polish_failed w v res err s fl =
    (let safe = te_safe v (ge_text err);
         (classified, fl1) = classifyAgentFailure v ''polish'' err safe fl;
         s1 = (if pl_CompletedRounds res > 0 then s\<lparr>ps_InvocationsSinceRound := 0\<rparr>
               else if classified \<noteq> Some LastActionTransient
               then s\<lparr>ps_InvocationsSinceRound := ps_InvocationsSinceRound s + 1\<rparr>
               else s);
         limit = 2 * bc_MaxConsecutiveFailures (wa_Backoff w)
     in if \<not> pl_CompletedRounds res > 0 \<and> classified \<noteq> Some LastActionTransient \<and>
           limit > 0 \<and> ps_InvocationsSinceRound s1 \<ge> limit
        then just LastActionNeedsHuman s1
               (fl1\<lparr>fl_stalled := True, fl_lastStallError := safe, fl_lastStallStage := ''polish''\<rparr>)
        else (case classified of
            Some a \<Rightarrow> just a s1 fl1
          | None \<Rightarrow> just LastActionFailed s1 (fl1\<lparr>fl_lastFailureError := safe\<rparr>)))"

definition rerequest_args :: "string \<Rightarrow> string \<Rightarrow> int \<Rightarrow> string \<Rightarrow> string list" where
  "rerequest_args owner repo n r =
     [''api'', ''--method'', ''POST'',
      ''repos/'' @ owner @ ''/'' @ repo @ ''/pulls/'' @ Itoa n @ ''/requested_reviewers'',
      ''-f'', ''reviewers[]='' @ r]"

text \<open>A reviewer whose request fails is only logged.\<close>

definition rerequestReviews :: "Watcher \<Rightarrow> PRSnapshot \<Rightarrow> pr_action list" where
  "rerequestReviews w snap =
    (let humans = filter (\<lambda>r. map_of (pn_IsBotReviewer snap) r \<noteq> Some True) (pn_ChangesRequestedBy snap) in
     if humans = [] then []
     else case repoSlugFromURL (pd_URL (pn_PR snap)) of
         Inl _ \<Rightarrow> []
       | Inr (owner, repo) \<Rightarrow> map (\<lambda>r. Gh (rerequest_args owner repo (wa_pr w) r)) humans)"

definition polish_round ::
  "Watcher \<Rightarrow> tick_env \<Rightarrow> PRSnapshot \<Rightarrow> Changeset \<Rightarrow> PRState \<Rightarrow> tick_flags \<Rightarrow> decision" where
  "polish_round w v snap cs s fl =
    (let req = polish_request w snap s;
         (res, err) = te_polish v req;
         s1 = note_once_rounds res s
     in after_actions [RunPolish req]
       (case err of
          Some e \<Rightarrow> polish_failed w v res e s1 fl
        | None \<Rightarrow>
            let s2 = s1\<lparr>ps_InvocationsSinceRound := 0\<rparr>;
                s3 = (if pc_SelfReview (wa_Polish w) \<and> pd_HeadRefOid (pn_PR snap) \<noteq> []
                      then s2\<lparr>ps_SelfReviewedSHA := pd_HeadRefOid (pn_PR snap)\<rparr> else s2)
            in after_actions (if ch_ChangesRequested cs then rerequestReviews w snap else [])
                 (just LastActionPolished s3 fl)))"

section \<open>The decision\<close>

definition decideAndAct ::
  "Watcher \<Rightarrow> tick_env \<Rightarrow> PRSnapshot \<Rightarrow> Changeset \<Rightarrow> PRState \<Rightarrow> tick_flags \<Rightarrow> decision" where
  "decideAndAct w v snap cs s fl =
    (let ready = (ch_Mergeable cs \<and> \<not> NeedsPolish cs \<and> \<not> needsSelfReview w snap s) in
     if ch_PRClosed cs then
       just (if pd_State (pn_PR snap) = ''MERGED'' then LastActionMerged else LastActionClosed) s fl
     else if ready \<and> pc_AutoMerge (wa_Polish w) \<and> pc_MergePolicy (wa_Polish w) = MergePolicyNotify
     then just LastActionNeedsHuman s fl
     else if ready \<and> pc_AutoMerge (wa_Polish w) \<and> \<not> wa_dryRun w then attempt_merge w v snap s fl
     else if ready then just LastActionIdle s fl
     else if ch_NeedsReview cs then just LastActionNeedsHuman s fl
     else if \<not> NeedsPolish cs \<and> \<not> needsSelfReview w snap s then just LastActionIdle s fl
     else if ratcheting w snap cs s then just LastActionNeedsHuman s (fl\<lparr>fl_ratcheted := True\<rparr>)
     else if diverging w snap s then just LastActionNeedsHuman s (fl\<lparr>fl_diverged := True\<rparr>)
     else if wa_dryRun w then just LastActionDryRun s fl
     else if \<not> wa_has_polish w then just LastActionIdle s fl
     else polish_round w v snap cs s fl)"

section \<open>Recording\<close>

definition cooldownCause :: "tick_flags \<Rightarrow> PRState \<Rightarrow> LastAction \<Rightarrow> string" where
  "cooldownCause fl s a = (case a of
      LastActionStalled \<Rightarrow>
        (if fl_lastStallError fl \<noteq> [] then fl_lastStallStage fl @ '' round stalled: '' @ fl_lastStallError fl
         else ''agent rounds stalled without returning a result'')
    | LastActionReworked \<Rightarrow>
        (if ps_LastMergeError s \<noteq> [] then ''reworking after a failed merge: '' @ ps_LastMergeError s
         else ''repeated rework rounds'')
    | _ \<Rightarrow>
        (if fl_lastFailureError fl \<noteq> [] then fl_lastFailureError fl
         else if ps_LastMergeError s \<noteq> [] then ps_LastMergeError s
         else []))"

definition mergeBrakeCause :: "PRState \<Rightarrow> string" where
  "mergeBrakeCause s =
    (if ps_LastMergeError s \<noteq> []
     then Itoa (ps_MergeAttempts s) @ '' merge attempts without landing; last error: '' @ ps_LastMergeError s
     else Itoa (ps_MergeAttempts s) @ '' merge attempts without landing'')"

definition endsTheRun :: "LastAction \<Rightarrow> bool" where
  "endsTheRun a \<longleftrightarrow> a = LastActionMerged \<or> a = LastActionClosed \<or> a = LastActionNeedsHuman"

definition cooling :: "PRState \<Rightarrow> time \<Rightarrow> bool" where
  "cooling s now = (case ps_CooldownUntil s of None \<Rightarrow> False | Some t \<Rightarrow> now < t)"

definition mergeBrakeTripped :: "Watcher \<Rightarrow> tick_env \<Rightarrow> PRState \<Rightarrow> bool" where
  "mergeBrakeTripped w v s =
    (let maxAttempts = bc_MaxConsecutiveFailures (wa_Backoff w) in
     if maxAttempts \<le> 0 \<or> bc_Cooldown (wa_Backoff w) \<le> 0 then False
     else if cooling s (te_clock v 2) then False
     else ps_MergeAttempts s - ps_CooldownFromAttempt s \<ge> maxAttempts)"

text \<open>What was seen: head, commit count, base, comments and failed runs.\<close>

definition record_seen :: "PRSnapshot \<Rightarrow> PRState \<Rightarrow> PRState \<times> bool" where
  "record_seen snap s0 =
    (let d1 = (ps_LastSeenHeadSHA s0 \<noteq> pd_HeadRefOid (pn_PR snap));
         s1 = s0\<lparr>ps_LastSeenHeadSHA := pd_HeadRefOid (pn_PR snap)\<rparr>;
         n = CommitCount (pn_PR snap);
         d2 = (n > 0 \<and> ps_LastSeenCommitCount s1 \<noteq> n);
         s2 = (if d2 then s1\<lparr>ps_LastSeenCommitCount := n\<rparr> else s1);
         d3 = (pn_BaseSHA snap \<noteq> [] \<and> ps_LastSeenBaseSHA s2 \<noteq> pn_BaseSHA snap);
         s3 = (if d3 then s2\<lparr>ps_LastSeenBaseSHA := pn_BaseSHA snap\<rparr> else s2);
         (s4, d4) = MergeSeenComments (map cr_ID (pn_Comments snap)) s3;
         (s5, d5) = MergeSeenRuns (pn_FailedRunIDs snap) s4
     in (s5, d1 \<or> d2 \<or> d3 \<or> d4 \<or> d5))"

text \<open>The failure streak: new state, whether something changed, whether a cooldown was armed.\<close>

definition record_streak ::
  "Watcher \<Rightarrow> tick_env \<Rightarrow> tick_flags \<Rightarrow> LastAction \<Rightarrow> PRState \<Rightarrow> PRState \<times> bool \<times> bool" where
  "record_streak w v fl action s =
    (if action = LastActionTransient then (s, False, False)
     else if action \<in> {LastActionFailed, LastActionReworked, LastActionStalled} then
       let s1 = s\<lparr>ps_ConsecutiveFailures := ps_ConsecutiveFailures s + 1\<rparr>;
           b = wa_Backoff w
       in if bc_MaxConsecutiveFailures b > 0 \<and> ps_ConsecutiveFailures s1 \<ge> bc_MaxConsecutiveFailures b \<and>
             bc_Cooldown b > 0
          then (s1\<lparr>ps_CooldownUntil := Some (te_clock v 1 + bc_Cooldown b),
                   ps_LastCooldownCause := cooldownCause fl s1 action\<rparr>, True, True)
          else (s1, True, False)
     else if action \<in> {LastActionPolished, LastActionMerged, LastActionClosed, LastActionIdle,
         LastActionArmed, LastActionNeedsHuman} then
       (s\<lparr>ps_ConsecutiveFailures := 0, ps_CooldownUntil := None, ps_LastCooldownCause := []\<rparr>,
        ps_ConsecutiveFailures s \<noteq> 0 \<or> ps_CooldownUntil s \<noteq> None, False)
     else (s, False, False))"

definition recordSnapshot ::
  "Watcher \<Rightarrow> tick_env \<Rightarrow> tick_flags \<Rightarrow> PRSnapshot \<Rightarrow> LastAction \<Rightarrow> bool \<Rightarrow> PRState \<Rightarrow> PRState \<times> bool" where
  "recordSnapshot w v fl snap action mergeStateDirty s =
    (if action = LastActionDryRun then (s, False)
     else
       let firstRun = (ps_LastCheckAt s = None);
           (s1, seen) = record_seen snap s;
           moved = (ps_LastAction s1 \<noteq> action);
           (s2, streak, armed) = record_streak w v fl action (s1\<lparr>ps_LastAction := action\<rparr>);
           brake = (\<not> armed \<and> \<not> endsTheRun action \<and> mergeBrakeTripped w v s2);
           s3 = (if brake
                 then s2\<lparr>ps_CooldownUntil := Some (te_clock v 3 + bc_Cooldown (wa_Backoff w)),
                         ps_CooldownFromAttempt := ps_MergeAttempts s2,
                         ps_LastCooldownCause := mergeBrakeCause s2\<rparr>
                 else s2);
           dirty = (firstRun \<or> mergeStateDirty \<or> seen \<or> moved \<or> streak \<or> brake)
       in ((if dirty then s3\<lparr>ps_LastCheckAt := Some (pn_TakenAt snap)\<rparr> else s3), dirty))"

section \<open>A tick\<close>

record PrTickResult =
  ti_Snapshot :: "PRSnapshot option"
  ti_Action :: LastAction
  ti_StallError :: string
  ti_Changeset :: Changeset
  ti_PolishRounds :: int
  ti_RoundsSinceImprovement :: int
  ti_InvocationsSinceRound :: int
  ti_PolishCommits :: int
  ti_PolishCommitLimit :: int
  ti_Diverged :: bool
  ti_Stalled :: bool
  ti_Ratcheted :: bool

definition zero_TickResult :: PrTickResult where
  "zero_TickResult = \<lparr>ti_Snapshot = None, ti_Action = LastActionInit, ti_StallError = [],
     ti_Changeset = zero_Changeset, ti_PolishRounds = 0, ti_RoundsSinceImprovement = 0,
     ti_InvocationsSinceRound = 0, ti_PolishCommits = 0, ti_PolishCommitLimit = 0,
     ti_Diverged = False, ti_Stalled = False, ti_Ratcheted = False\<rparr>"

datatype tick_error = LoadFailed load_error | SnapshotFailed string | SaveFailed string

text \<open>What \<open>decideAndAct\<close> may have changed in the persisted state.\<close>

definition act_dirty :: "PRState \<Rightarrow> PRState \<Rightarrow> bool" where
  "act_dirty before s \<longleftrightarrow> ps_MergeAttempts s \<noteq> ps_MergeAttempts before \<or>
     ps_LastMergeError s \<noteq> ps_LastMergeError before \<or> ps_SelfReviewedSHA s \<noteq> ps_SelfReviewedSHA before \<or>
     length (ps_OnceRoundsDone s) \<noteq> length (ps_OnceRoundsDone before) \<or>
     ps_InvocationsSinceRound s \<noteq> ps_InvocationsSinceRound before"

record tick_out =
  to_result :: PrTickResult
  to_error :: "tick_error option"
  to_file :: state_file
  to_trace :: "pr_action list"

text \<open>The part of the tick after the snapshot: the state in memory, whether it is saved, the rest.\<close>

definition tick_body :: "Watcher \<Rightarrow> tick_env \<Rightarrow> PRSnapshot \<Rightarrow> PRState \<Rightarrow> decision \<times> PRState \<times> bool" where
  "tick_body w v snap s0 =
    (let cs = ComputeChangeset (Some s0) snap;
         (s1, d1) = expireStaleDivergence snap s0;
         (s2, d2) = recordHealth snap s1;
         d = decideAndAct w v snap cs s2 clear_flags;
         (s3, dirty) = recordSnapshot w v (dc_flags d) snap (dc_action d)
                         (act_dirty s2 (dc_state d) \<or> d1 \<or> d2) (dc_state d)
     in (d, s3, dirty))"

definition tick_result :: "Watcher \<Rightarrow> PRSnapshot \<Rightarrow> PRState \<Rightarrow> decision \<Rightarrow> PrTickResult" where
  "tick_result w snap s0 d = \<lparr>ti_Snapshot = Some snap, ti_Action = dc_action d,
     ti_StallError = fl_lastStallError (dc_flags d), ti_Changeset = ComputeChangeset (Some s0) snap,
     ti_PolishRounds = ps_PolishRounds (dc_state d),
     ti_RoundsSinceImprovement = ps_RoundsSinceImprovement (dc_state d),
     ti_InvocationsSinceRound = ps_InvocationsSinceRound (dc_state d),
     ti_PolishCommits = ps_PolishCommits (dc_state d),
     ti_PolishCommitLimit = bc_MaxPolishCommits (wa_Backoff w),
     ti_Diverged = fl_diverged (dc_flags d), ti_Stalled = fl_stalled (dc_flags d),
     ti_Ratcheted = fl_ratcheted (dc_flags d)\<rparr>"

definition addressed :: "Watcher \<Rightarrow> PRState \<Rightarrow> PRState" where
  "addressed w s = s\<lparr>ps_PRNumber := wa_pr w, ps_Repo := wa_repo w\<rparr>"

definition Tick :: "Watcher \<Rightarrow> tick_env \<Rightarrow> state_file \<Rightarrow> tick_out" where
  "Tick w v file =
    (case LoadState file of
       Inl e \<Rightarrow> \<lparr>to_result = zero_TickResult, to_error = Some (LoadFailed e), to_file = file, to_trace = []\<rparr>
     | Inr loaded \<Rightarrow>
       (let s0 = addressed w loaded in
        if cooling s0 (te_clock v 0)
        then \<lparr>to_result = zero_TickResult\<lparr>ti_Action := LastActionIdle\<rparr>, to_error = None,
              to_file = file, to_trace = []\<rparr>
        else (case te_snapshot v of
            Inl e \<Rightarrow> \<lparr>to_result = zero_TickResult, to_error = Some (SnapshotFailed e),
                      to_file = file, to_trace = []\<rparr>
          | Inr snap \<Rightarrow>
              (case tick_body w v snap s0 of (d, s, dirty) \<Rightarrow>
                \<lparr>to_result = tick_result w snap s0 d,
                 to_error = (if dirty then map_option (SaveFailed \<circ> fst) (te_save v) else None),
                 to_file = (if dirty then (case te_save v of None \<Rightarrow> StateSaved s | Some (_, f) \<Rightarrow> f) else file),
                 to_trace = dc_trace d\<rparr>))))"

end
