(* ===== verification/PrdozerSample.thy ===== *)
theory PrdozerSample
  imports PrdozerWatcher
begin

text \<open>
  Concrete inputs on which the theorems about prdozer are applied: a watcher of pull request 7,
  a green snapshot of it and a failing one, and environments that answer every command.
\<close>

definition sample_polish :: PolishConfig where
  "sample_polish = \<lparr>pc_PermissionMode = ''bypass'', pc_MergePolicy = MergePolicySquash, pc_MaxBudgetUSD = 50,
     pc_MaxTurns = 100, pc_RoundsPerTick = 3, pc_Local = False, pc_AutoMerge = True, pc_SelfReview = False\<rparr>"

definition sample_backoff :: BackoffConfig where
  "sample_backoff = \<lparr>bc_MaxConsecutiveFailures = 3, bc_Cooldown = 7200,
     bc_MaxRoundsWithoutImprovement = 3, bc_MaxPolishCommits = 12\<rparr>"

definition sample_rounds :: StepSpec where
  "sample_rounds = \<lparr>sp_Model = [], sp_Effort = [],
     sp_Rounds = [\<lparr>rd_Prompt = [], rd_Command = ''make'', rd_Once = True\<rparr>]\<rparr>"

definition no_spec :: StepSpec where
  "no_spec = \<lparr>sp_Model = [], sp_Effort = [], sp_Rounds = []\<rparr>"

definition sample_watcher :: Watcher where
  "sample_watcher = \<lparr>wa_Polish = sample_polish, wa_Backoff = sample_backoff, wa_Model = ''sonnet'',
     wa_repo = ''acme/app'', wa_workDir = ''/w'', wa_polishSpec = sample_rounds, wa_reworkSpec = no_spec,
     wa_pr = 7, wa_dryRun = False, wa_has_polish = True, wa_has_rework = True\<rparr>"

definition sample_pr :: PRDetails where
  "sample_pr = \<lparr>pd_URL = ''https://github.com/acme/app/pull/7'', pd_HeadRefName = ''fix'',
     pd_BaseRefName = ''main'', pd_HeadRefOid = ''abc'', pd_State = ''OPEN'',
     pd_ReviewDecision = ''APPROVED'', pd_Mergeable = ''MERGEABLE'', pd_StatusCheckRollup = [],
     pd_LatestReviews = [], pd_Commits = [''abc''], pd_TotalCommits = 1, pd_Number = 7,
     pd_Additions = 10, pd_Deletions = 2, pd_ChangedFiles = 1, pd_IsDraft = False\<rparr>"

definition sample_snapshot :: "string \<Rightarrow> PRSnapshot" where
  "sample_snapshot rollup = \<lparr>pn_TakenAt = 100, pn_BaseSHA = ''base'', pn_StatusRollup = rollup,
     pn_Comments = [], pn_FailedRunIDs = [], pn_Degraded = [], pn_ChangesRequestedBy = [],
     pn_IsBotReviewer = [], pn_PR = sample_pr, pn_UnresolvedThreads = 0\<rparr>"

definition plain_casing :: casing where
  "plain_casing = \<lparr>cs_upper = (\<lambda>s. s), cs_lower = (\<lambda>s. s), cs_fold = (=)\<rparr>"

definition command_failure :: go_err where
  "command_failure = \<lparr>ge_text = ''exit status 2'', ge_claude = None, ge_codex = None, ge_command = True\<rparr>"

text \<open>Every \<open>gh\<close> command succeeds and prints \<open>true\<close>; the polish agent answers as given.\<close>

definition sample_env ::
  "PRSnapshot \<Rightarrow> (PolishRequest \<Rightarrow> PolishResult \<times> go_err option) \<Rightarrow> tick_env" where
  "sample_env snap agent = \<lparr>te_casing = plain_casing, te_safe = (\<lambda>s. s), te_quote = (\<lambda>s. s),
     te_snapshot = Inr snap, te_clock = (\<lambda>k. 100 + int k), te_gh = (\<lambda>_. GhOk ''true''),
     te_polish = agent, te_rework = (\<lambda>_. None), te_save = None\<rparr>"

definition barren_agent :: "PolishRequest \<Rightarrow> PolishResult \<times> go_err option" where
  "barren_agent req = (\<lparr>pl_RanOnceRounds = [], pl_SessionID = [], pl_Output = [], pl_CompletedRounds = 0\<rparr>,
     Some command_failure)"

definition green_env :: tick_env where
  "green_env = sample_env (sample_snapshot StatusSuccess) barren_agent"

definition red_env :: tick_env where
  "red_env = sample_env (sample_snapshot StatusFailure) barren_agent"

lemmas sample_defs = sample_watcher_def sample_polish_def sample_backoff_def sample_env_def green_env_def
  red_env_def sample_snapshot_def sample_pr_def barren_agent_def command_failure_def

text \<open>What a first tick does on them.\<close>

lemma green_tick: "to_trace (Tick sample_watcher green_env NoStateFile) =
    [Gh [''pr'', ''merge'', ''7'', ''--squash''], Gh [''api'', ''repos/acme/app/pulls/7'', ''--jq'', ''.merged'']]"
  "to_error (Tick sample_watcher green_env NoStateFile) = None"
  "ti_Action (to_result (Tick sample_watcher green_env NoStateFile)) = LastActionMerged"
  by code_simp+

lemma red_tick: "to_trace (Tick sample_watcher red_env NoStateFile) =
  [RunPolish (polish_request sample_watcher (sample_snapshot StatusFailure) zero_PRState)]"
  by code_simp

end
