(* ===== verification/PrdozerProps.thy ===== *)
theory PrdozerProps
  imports PrdozerSample
begin

text \<open>
  What the prdozer watcher guarantees: when it merges and when it starts an agent, the invariant
  of the persisted state with its two brakes, that no change of a tick is lost, and what the cap
  on remembered identifiers does.
\<close>

section \<open>When a tick merges\<close>

definition merge_command :: "int \<Rightarrow> pr_action \<Rightarrow> bool" where
  "merge_command n a \<longleftrightarrow> (case a of Gh args \<Rightarrow> take 2 args = [''pr'', ''merge''] | _ \<Rightarrow> False)"

lemma no_merge_rework:
  "list_all (\<lambda>a. \<not> merge_command n a) (dc_trace (reworkAfterFailedMerge w v snap s fl))"
  by (simp add: reworkAfterFailedMerge_def just_def after_actions_def Let_def merge_command_def
      split: option.split prod.split)

lemma no_merge_rerequest: "list_all (\<lambda>a. \<not> merge_command n a) (rerequestReviews w snap)"
  by (auto simp: rerequestReviews_def Let_def list_all_iff merge_command_def rerequest_args_def
      split: sum.split)

lemma trace_polish_failed [simp]: "dc_trace (polish_failed w v res e s fl) = []"
  by (simp add: polish_failed_def Let_def just_def split: prod.split option.split)

lemma no_merge_polish: "list_all (\<lambda>a. \<not> merge_command n a) (dc_trace (polish_round w v snap cs s fl))"
  using no_merge_rerequest [of n w snap]
  by (simp add: polish_round_def Let_def just_def after_actions_def merge_command_def
      split: option.split prod.split)

lemma no_polish_rework: "RunPolish req \<notin> set (dc_trace (reworkAfterFailedMerge w v snap s fl))"
  by (simp add: reworkAfterFailedMerge_def just_def after_actions_def Let_def
      split: option.split prod.split)

lemma no_polish_merge_pr: "RunPolish req \<notin> set (snd (merge_pr w v snap))"
  by (simp add: merge_pr_def Let_def split: option.split sum.split prod.split)

lemma no_polish_merge: "RunPolish req \<notin> set (dc_trace (attempt_merge w v snap s fl))"
  using no_polish_merge_pr [of req w v snap] no_polish_rework
  by (cases "merge_pr w v snap")
    (simp add: attempt_merge_def after_actions_def Let_def just_def split: sum.split mergeOutcome.split)

text \<open>The guard in front of a merge.\<close>

definition may_merge :: "Watcher \<Rightarrow> PRSnapshot \<Rightarrow> Changeset \<Rightarrow> PRState \<Rightarrow> bool" where
  "may_merge w snap cs s \<longleftrightarrow> \<not> ch_PRClosed cs \<and> ch_Mergeable cs \<and> \<not> NeedsPolish cs \<and>
     \<not> needsSelfReview w snap s \<and> pc_AutoMerge (wa_Polish w) \<and>
     pc_MergePolicy (wa_Polish w) \<noteq> MergePolicyNotify \<and> \<not> wa_dryRun w"

definition may_polish :: "Watcher \<Rightarrow> PRSnapshot \<Rightarrow> Changeset \<Rightarrow> PRState \<Rightarrow> bool" where
  "may_polish w snap cs s \<longleftrightarrow> \<not> ch_PRClosed cs \<and> (NeedsPolish cs \<or> needsSelfReview w snap s) \<and>
     \<not> ch_NeedsReview cs \<and> \<not> ratcheting w snap cs s \<and> \<not> diverging w snap s \<and>
     \<not> wa_dryRun w \<and> wa_has_polish w"

text \<open>A decision is a merge attempt, a polish round, or does nothing.\<close>

definition idle_action :: "LastAction \<Rightarrow> bool" where
  "idle_action a \<longleftrightarrow> a \<in> {LastActionMerged, LastActionClosed, LastActionIdle, LastActionNeedsHuman, LastActionDryRun}"

lemma decide_merge:
  "may_merge w snap cs s \<Longrightarrow> decideAndAct w v snap cs s fl = attempt_merge w v snap s fl"
  by (simp add: decideAndAct_def Let_def may_merge_def)

lemma decide_polish:
  assumes "may_polish w snap cs s"
  shows "decideAndAct w v snap cs s fl = polish_round w v snap cs s fl"
  using assms by (cases "NeedsPolish cs"; cases "needsSelfReview w snap s")
    (simp_all add: decideAndAct_def Let_def may_polish_def)

lemma decide_nothing:
  assumes "\<not> may_merge w snap cs s" and "\<not> may_polish w snap cs s"
  shows "\<exists>a fl'. decideAndAct w v snap cs s fl = just a s fl' \<and> idle_action a"
  using assms unfolding decideAndAct_def Let_def may_merge_def may_polish_def idle_action_def
  by (simp split: if_split) blast

lemma decide_cases:
  obtains (merge) "may_merge w snap cs s" "decideAndAct w v snap cs s fl = attempt_merge w v snap s fl"
  | (polish) "may_polish w snap cs s" "decideAndAct w v snap cs s fl = polish_round w v snap cs s fl"
  | (nothing) a fl' where "decideAndAct w v snap cs s fl = just a s fl'" "idle_action a"
  by (metis decide_merge decide_polish decide_nothing)

lemma tick_acts:
  assumes "a \<in> set (to_trace (Tick w v file))"
  obtains loaded snap where "LoadState file = Inr loaded" "te_snapshot v = Inr snap"
    "\<not> cooling loaded (te_clock v 0)"
    "to_trace (Tick w v file) = dc_trace (fst (tick_body w v snap (addressed w loaded)))"
  using assms that by (auto simp: Tick_def Let_def cooling_def addressed_def split: sum.splits if_splits prod.splits)

text \<open>Before the decision a tick only touches the counters of work done and of health.\<close>

definition counted :: "PRSnapshot \<Rightarrow> PRState \<Rightarrow> PRState" where
  "counted snap s = fst (recordHealth snap (fst (expireStaleDivergence snap s)))"

text \<open>Those counters set aside.\<close>

definition uncounted :: "PRState \<Rightarrow> PRState" where
  "uncounted s = s\<lparr>ps_BestHealth := None, ps_RoundsSinceImprovement := 0, ps_InvocationsSinceRound := 0,
     ps_PolishRounds := 0, ps_PolishCommits := 0, ps_BaselineAdditions := 0\<rparr>"

lemma uncounted_work: "uncounted (fst (recordPolishWork snap p s)) = uncounted s"
  by (simp add: recordPolishWork_def uncounted_def Let_def)

lemma uncounted_health: "uncounted (fst (recordHealth snap s)) = uncounted s"
proof -
  obtain s1 d where w: "recordPolishWork snap (ps_LastAction s = LastActionPolished) s = (s1, d)" by fastforce
  have "uncounted s1 = uncounted s" using uncounted_work [of snap "ps_LastAction s = LastActionPolished" s] by (simp add: w)
  then show ?thesis unfolding recordHealth_def Let_def w by (simp add: uncounted_def split: option.split)
qed

lemma uncounted_expire: "uncounted (fst (expireStaleDivergence snap s)) = uncounted s"
  by (simp add: expireStaleDivergence_def uncounted_def)

lemma uncounted_fields:
  "ps_SelfReviewedSHA (uncounted s) = ps_SelfReviewedSHA s" "ps_LastCheckAt (uncounted s) = ps_LastCheckAt s"
  "ps_CooldownUntil (uncounted s) = ps_CooldownUntil s" "ps_OnceRoundsDone (uncounted s) = ps_OnceRoundsDone s"
  "ps_LastCooldownCause (uncounted s) = ps_LastCooldownCause s" "ps_LastSeenCommentIDs (uncounted s) = ps_LastSeenCommentIDs s"
  "ps_LastSeenCIRunIDs (uncounted s) = ps_LastSeenCIRunIDs s" "ps_ConsecutiveFailures (uncounted s) = ps_ConsecutiveFailures s"
  "ps_MergeAttempts (uncounted s) = ps_MergeAttempts s" "ps_CooldownFromAttempt (uncounted s) = ps_CooldownFromAttempt s"
  "ps_LastMergeError (uncounted s) = ps_LastMergeError s" "ps_LastSeenHeadSHA (uncounted s) = ps_LastSeenHeadSHA s"
  "ps_LastSeenBaseSHA (uncounted s) = ps_LastSeenBaseSHA s" "ps_LastAction (uncounted s) = ps_LastAction s"
  by (simp_all add: uncounted_def)

lemma uncounted_counted: "uncounted (counted snap s) = uncounted s"
  by (simp add: counted_def uncounted_health uncounted_expire)

lemma counted_frame [simp]:
  "ps_SelfReviewedSHA (counted snap s) = ps_SelfReviewedSHA s"
  "ps_LastCheckAt (counted snap s) = ps_LastCheckAt s"
  "ps_CooldownUntil (counted snap s) = ps_CooldownUntil s"
  "ps_OnceRoundsDone (counted snap s) = ps_OnceRoundsDone s"
  "ps_LastCooldownCause (counted snap s) = ps_LastCooldownCause s"
  "ps_LastSeenCommentIDs (counted snap s) = ps_LastSeenCommentIDs s"
  "ps_LastSeenCIRunIDs (counted snap s) = ps_LastSeenCIRunIDs s"
  "ps_ConsecutiveFailures (counted snap s) = ps_ConsecutiveFailures s"
  "ps_MergeAttempts (counted snap s) = ps_MergeAttempts s"
  "ps_CooldownFromAttempt (counted snap s) = ps_CooldownFromAttempt s"
  "ps_LastMergeError (counted snap s) = ps_LastMergeError s"
  "ps_LastSeenHeadSHA (counted snap s) = ps_LastSeenHeadSHA s"
  "ps_LastSeenBaseSHA (counted snap s) = ps_LastSeenBaseSHA s"
  "ps_LastAction (counted snap s) = ps_LastAction s"
  by (metis uncounted_counted uncounted_fields(1), metis uncounted_counted uncounted_fields(2),
      metis uncounted_counted uncounted_fields(3), metis uncounted_counted uncounted_fields(4),
      metis uncounted_counted uncounted_fields(5), metis uncounted_counted uncounted_fields(6),
      metis uncounted_counted uncounted_fields(7), metis uncounted_counted uncounted_fields(8),
      metis uncounted_counted uncounted_fields(9), metis uncounted_counted uncounted_fields(10),
      metis uncounted_counted uncounted_fields(11), metis uncounted_counted uncounted_fields(12),
      metis uncounted_counted uncounted_fields(13), metis uncounted_counted uncounted_fields(14))

lemma tick_body_decision:
  "fst (tick_body w v snap s) =
     decideAndAct w v snap (ComputeChangeset (Some s) snap) (counted snap s) clear_flags"
  by (simp add: tick_body_def counted_def Let_def case_prod_unfold)

text \<open>A merge or an agent in the trace of a tick has passed its guard.\<close>

lemma merge_guard:
  assumes "a \<in> set (dc_trace (fst (tick_body w v snap s)))" and "merge_command n a"
  shows "may_merge w snap (ComputeChangeset (Some s) snap) (counted snap s)"
  using assms unfolding tick_body_decision
  by (cases rule: decide_cases [of w snap "ComputeChangeset (Some s) snap" "counted snap s" v clear_flags])
    (auto simp: just_def dest: no_merge_polish [unfolded list_all_iff, rule_format])

lemma polish_guard:
  assumes "RunPolish req \<in> set (dc_trace (fst (tick_body w v snap s)))"
  shows "may_polish w snap (ComputeChangeset (Some s) snap) (counted snap s)"
  using assms unfolding tick_body_decision
  by (cases rule: decide_cases [of w snap "ComputeChangeset (Some s) snap" "counted snap s" v clear_flags])
    (auto simp: just_def no_polish_merge)

text \<open>What the guard of a merge says about the pull request.\<close>

definition mergeable_now :: "PRState \<Rightarrow> PRSnapshot \<Rightarrow> bool" where
  "mergeable_now s snap \<longleftrightarrow>
     \<not> closed_state (pd_State (pn_PR snap)) \<and>
     pd_ReviewDecision (pn_PR snap) \<in> {''APPROVED'', []} \<and>
     pn_StatusRollup snap = StatusSuccess \<and> pd_Mergeable (pn_PR snap) = ''MERGEABLE'' \<and>
     (ps_LastCheckAt s = None \<or>
       ((\<forall>c\<in>set (pn_Comments snap). cr_IsSelf c \<or> cr_ID c \<in> set (ps_LastSeenCommentIDs s)) \<and>
        (\<forall>i\<in>set (pn_FailedRunIDs snap). i \<in> set (ps_LastSeenCIRunIDs s)) \<and>
        pn_BaseSHA snap \<in> {[], ps_LastSeenBaseSHA s}))"

lemma addressed_fields [simp]:
  "ps_SelfReviewedSHA (addressed w s) = ps_SelfReviewedSHA s"
  "ps_CooldownUntil (addressed w s) = ps_CooldownUntil s"
  "ps_LastCheckAt (addressed w s) = ps_LastCheckAt s"
  "ps_LastSeenHeadSHA (addressed w s) = ps_LastSeenHeadSHA s"
  "ps_LastSeenBaseSHA (addressed w s) = ps_LastSeenBaseSHA s"
  "ps_LastSeenCommentIDs (addressed w s) = ps_LastSeenCommentIDs s"
  "ps_LastSeenCIRunIDs (addressed w s) = ps_LastSeenCIRunIDs s"
  by (simp_all add: addressed_def)

lemma addressed_frame [simp]:
  "mergeable_now (addressed w s) snap = mergeable_now s snap"
  "cooling (addressed w s) t = cooling s t"
  "ComputeChangeset (Some (addressed w s)) snap = ComputeChangeset (Some s) snap"
  unfolding mergeable_now_def cooling_def ComputeChangeset_def option.case addressed_fields by (rule refl)+

lemma mergeable_changeset:
  assumes "ch_Mergeable (ComputeChangeset (Some s) snap)"
    and "\<not> NeedsPolish (ComputeChangeset (Some s) snap)"
  shows "mergeable_now s snap"
  using assms unfolding ComputeChangeset_def NeedsPolish_def mergeable_now_def
  by (auto simp: Let_def zero_Changeset_def reviewSatisfied_def filter_empty_conv split: if_splits)

lemma merge_conditions:
  assumes "may_merge w snap (ComputeChangeset (Some s) snap) (counted snap s)"
  shows "mergeable_now s snap" "pc_AutoMerge (wa_Polish w)" "\<not> wa_dryRun w"
    "pc_MergePolicy (wa_Polish w) \<noteq> MergePolicyNotify"
    "pc_SelfReview (wa_Polish w) \<Longrightarrow> ps_SelfReviewedSHA s = pd_HeadRefOid (pn_PR snap) \<or> pd_HeadRefOid (pn_PR snap) = []"
  using assms mergeable_changeset [of s snap]
  by (auto simp: may_merge_def needsSelfReview_def split: if_splits)

text \<open>C11. The watcher runs \<open>gh pr merge\<close> only when the saved state is not in a cooldown and the
  snapshot just taken shows an open pull request that no review blocks, with green checks,
  reported mergeable, and (after the first tick) with every foreign comment and failed run
  already seen and the base unmoved; when auto-merge is on, not in a dry run, with a policy
  that merges, and with the head commit self-reviewed where that is asked for.\<close>

theorem prdozer_merge_safe:
  assumes "Gh args \<in> set (to_trace (Tick w v file))" and "take 2 args = [''pr'', ''merge'']"
  shows "\<exists>s snap. LoadState file = Inr s \<and> te_snapshot v = Inr snap \<and> mergeable_now s snap \<and>
    \<not> cooling s (te_clock v 0) \<and>
    pc_AutoMerge (wa_Polish w) \<and> \<not> wa_dryRun w \<and> pc_MergePolicy (wa_Polish w) \<noteq> MergePolicyNotify \<and>
    pd_HeadRefOid (pn_PR snap) \<in>
      (if pc_SelfReview (wa_Polish w) then {ps_SelfReviewedSHA s, []} else UNIV)"
proof -
  obtain s snap where s: "LoadState file = Inr s" "te_snapshot v = Inr snap" "\<not> cooling s (te_clock v 0)"
    and tr: "to_trace (Tick w v file) = dc_trace (fst (tick_body w v snap (addressed w s)))"
    using tick_acts [OF assms(1)] by blast
  have "merge_command (wa_pr w) (Gh args)" using assms(2) by (simp add: merge_command_def)
  with assms(1) have g: "may_merge w snap (ComputeChangeset (Some (addressed w s)) snap) (counted snap (addressed w s))"
    unfolding tr by (rule merge_guard)
  show ?thesis using s merge_conditions [OF g] by auto
qed

theorem prdozer_merge_safe_witness:
  "\<exists>s snap. LoadState NoStateFile = Inr s \<and> te_snapshot green_env = Inr snap \<and> mergeable_now s snap \<and>
    \<not> cooling s (te_clock green_env 0) \<and>
    pc_AutoMerge (wa_Polish sample_watcher) \<and> \<not> wa_dryRun sample_watcher \<and>
    pc_MergePolicy (wa_Polish sample_watcher) \<noteq> MergePolicyNotify \<and>
    pd_HeadRefOid (pn_PR snap) \<in>
      (if pc_SelfReview (wa_Polish sample_watcher) then {ps_SelfReviewedSHA s, []} else UNIV)"
  by (rule prdozer_merge_safe [of "[''pr'', ''merge'', ''7'', ''--squash'']"]) (simp_all add: green_tick)

section \<open>When a tick starts an agent\<close>

lemma ratcheting_iff:
  "ratcheting w snap cs s \<longleftrightarrow> bc_MaxPolishCommits (wa_Backoff w) > 0 \<and>
     (ps_PolishCommits s \<ge> 2 * bc_MaxPolishCommits (wa_Backoff w) \<or>
      ps_PolishCommits s \<ge> bc_MaxPolishCommits (wa_Backoff w) \<and> (NeedsPolish cs \<or> \<not> needsSelfReview w snap s))"
  by (auto simp: ratcheting_def Let_def)

lemma diverging_iff:
  "diverging w snap s \<longleftrightarrow> bc_MaxRoundsWithoutImprovement (wa_Backoff w) > 0 \<and> Health snap \<noteq> None \<and>
     (\<exists>best. ps_BestHealth s = Some best \<and>
      (ps_RoundsSinceImprovement s \<ge> 2 * bc_MaxRoundsWithoutImprovement (wa_Backoff w) \<or>
       ps_RoundsSinceImprovement s \<ge> bc_MaxRoundsWithoutImprovement (wa_Backoff w) \<and>
       \<not> Saturated best \<and> \<not> needsSelfReview w snap s))"
  by (auto simp: diverging_def Let_def split: option.split)

text \<open>A readable health is always recorded before the decision.\<close>

lemma counted_health: "Health snap \<noteq> None \<Longrightarrow> ps_BestHealth (counted snap s) \<noteq> None"
  by (auto simp: counted_def recordHealth_def Let_def case_prod_unfold split: option.splits if_splits)

definition brakes_free :: "Watcher \<Rightarrow> PRSnapshot \<Rightarrow> Changeset \<Rightarrow> PRState \<Rightarrow> bool" where
  "brakes_free w snap cs s \<longleftrightarrow>
     (let c = bc_MaxPolishCommits (wa_Backoff w); r = bc_MaxRoundsWithoutImprovement (wa_Backoff w) in
      (c \<le> 0 \<or> ps_PolishCommits s < (if NeedsPolish cs then c else 2 * c)) \<and>
      (r \<le> 0 \<or> Health snap = None \<or> ps_RoundsSinceImprovement s < 2 * r))"

lemma polish_conditions:
  assumes "may_polish w snap cs (counted snap s)"
  shows "brakes_free w snap cs (counted snap s)"
  using assms counted_health [of snap s]
  by (cases "Health snap") (auto simp: may_polish_def brakes_free_def ratcheting_iff diverging_iff Let_def)

text \<open>The watcher starts a polish agent only on an open pull request outside a cooldown and
  not in a dry run, and only while both brakes are free: fewer polish commits than the limit
  (twice the limit for a pure self-review), and fewer than twice the allowed number of rounds
  without improvement whenever the health of the pull request can be read.\<close>

theorem prdozer_polish_braked:
  assumes "RunPolish req \<in> set (to_trace (Tick w v file))"
  shows "\<exists>s snap. LoadState file = Inr s \<and> te_snapshot v = Inr snap \<and> \<not> cooling s (te_clock v 0) \<and>
    \<not> closed_state (pd_State (pn_PR snap)) \<and> \<not> wa_dryRun w \<and>
    brakes_free w snap (ComputeChangeset (Some s) snap) (counted snap (addressed w s))"
proof -
  obtain s snap where s: "LoadState file = Inr s" "te_snapshot v = Inr snap" "\<not> cooling s (te_clock v 0)"
    and tr: "to_trace (Tick w v file) = dc_trace (fst (tick_body w v snap (addressed w s)))"
    using tick_acts [OF assms] by blast
  have g: "may_polish w snap (ComputeChangeset (Some (addressed w s)) snap) (counted snap (addressed w s))"
    using assms unfolding tr by (rule polish_guard)
  then have "\<not> ch_PRClosed (ComputeChangeset (Some s) snap)" by (simp add: may_polish_def)
  then have "\<not> closed_state (pd_State (pn_PR snap))" by (auto simp: ComputeChangeset_def)
  with s g polish_conditions [OF g] show ?thesis by (auto simp: may_polish_def)
qed

theorem prdozer_polish_braked_witness:
  "\<exists>s snap. LoadState NoStateFile = Inr s \<and> te_snapshot red_env = Inr snap \<and>
    \<not> cooling s (te_clock red_env 0) \<and> \<not> closed_state (pd_State (pn_PR snap)) \<and>
    \<not> wa_dryRun sample_watcher \<and>
    brakes_free sample_watcher snap (ComputeChangeset (Some s) snap) (counted snap (addressed sample_watcher s))"
  by (rule prdozer_polish_braked
      [of "polish_request sample_watcher (sample_snapshot StatusFailure) zero_PRState"]) (simp add: red_tick)

section \<open>The state file\<close>

lemma update_same: "map_of m k = Some v \<Longrightarrow> AList.update k v m = m"
  by (induction m) auto

text \<open>The rounds done once: entries are only added, and adding none leaves the map as it was.\<close>

definition once_ok :: "(string, bool) gomap \<Rightarrow> bool" where
  "once_ok m \<longleftrightarrow> wf_map m \<and> (\<forall>k b. map_of m k = Some b \<longrightarrow> b)"

lemma once_ok_put: "once_ok m \<Longrightarrow> once_ok (mput k True m)"
  by (auto simp: once_ok_def)

lemma once_put_length:
  assumes "once_ok m"
  shows "length m \<le> length (mput k True m)" and "length (mput k True m) = length m \<Longrightarrow> mput k True m = m"
proof -
  show "length m \<le> length (mput k True m)" by (simp add: length_mput)
  assume "length (mput k True m) = length m"
  then have "k \<in> keys m" by (simp add: length_mput split: if_splits)
  with assms show "mput k True m = m" by (metis (full_types) keys_lookup once_ok_def update_same)
qed

lemma once_fold:
  "once_ok m \<Longrightarrow> once_ok (fold (\<lambda>kv m. mput (fst kv) True m) rs m) \<and>
     length m \<le> length (fold (\<lambda>kv m. mput (fst kv) True m) rs m) \<and>
     (length (fold (\<lambda>kv m. mput (fst kv) True m) rs m) = length m \<longrightarrow>
      fold (\<lambda>kv m. mput (fst kv) True m) rs m = m)"
proof (induction rs arbitrary: m)
  case (Cons kv rs)
  let ?m = "mput (fst kv) True m"
  from Cons.prems have ok: "once_ok ?m" by (rule once_ok_put)
  note ih = Cons.IH [OF ok]
  have "length m \<le> length ?m" using once_put_length [OF Cons.prems] by simp
  with ih once_put_length(2) [OF Cons.prems, of "fst kv"] show ?case by auto
qed simp

text \<open>The merged list of identifiers is sorted, without repetitions and no longer than the cap.\<close>

definition ids_ok :: "'a::linorder list \<Rightarrow> bool" where
  "ids_ok xs \<longleftrightarrow> sorted xs \<and> distinct xs \<and> length xs \<le> maxSeenIDs"

lemma ids_ok_merge: "ids_ok xs \<Longrightarrow> ids_ok (fst (mergeSortedCapped xs ys))"
  by (auto simp: mergeSortedCapped_def Let_def ids_ok_def sorted_wrt_drop)

lemma merge_unchanged: "\<not> snd (mergeSortedCapped xs ys) \<Longrightarrow> fst (mergeSortedCapped xs ys) = xs"
  by (auto simp: mergeSortedCapped_def Let_def split: if_splits)

text \<open>
  The invariant of the saved state. A failure streak that has reached its limit, and a number of
  merge attempts that has reached it since the last cooldown, are always under a cooldown
  (a state that ends the run excepted), and a cause is only given for a cooldown.
\<close>

definition streak_ok :: "Watcher \<Rightarrow> PRState \<Rightarrow> bool" where
  "streak_ok w s \<longleftrightarrow>
     (bc_MaxConsecutiveFailures (wa_Backoff w) > 0 \<and> bc_Cooldown (wa_Backoff w) > 0 \<and>
      ps_ConsecutiveFailures s \<ge> bc_MaxConsecutiveFailures (wa_Backoff w) \<longrightarrow> ps_CooldownUntil s \<noteq> None)"

definition attempts_ok :: "Watcher \<Rightarrow> PRState \<Rightarrow> bool" where
  "attempts_ok w s \<longleftrightarrow>
     (bc_MaxConsecutiveFailures (wa_Backoff w) > 0 \<and> bc_Cooldown (wa_Backoff w) > 0 \<and>
      ps_MergeAttempts s - ps_CooldownFromAttempt s \<ge> bc_MaxConsecutiveFailures (wa_Backoff w) \<and>
      \<not> endsTheRun (ps_LastAction s) \<longrightarrow> ps_CooldownUntil s \<noteq> None)"

definition saved_ok :: "PRState \<Rightarrow> bool" where
  "saved_ok s \<longleftrightarrow> once_ok (ps_OnceRoundsDone s) \<and> ids_ok (ps_LastSeenCommentIDs s) \<and>
     ids_ok (ps_LastSeenCIRunIDs s) \<and> 0 \<le> ps_ConsecutiveFailures s \<and>
     (ps_CooldownUntil s = None \<longrightarrow> ps_LastCooldownCause s = [])"

definition prs_ok :: "Watcher \<Rightarrow> PRState \<Rightarrow> bool" where
  "prs_ok w s \<longleftrightarrow> saved_ok s \<and> streak_ok w s \<and> attempts_ok w s"

definition file_ok :: "Watcher \<Rightarrow> state_file \<Rightarrow> bool" where
  "file_ok w f \<longleftrightarrow> (case f of StateSaved s \<Rightarrow> prs_ok w s | _ \<Rightarrow> True)"

lemmas prs_defs = prs_ok_def saved_ok_def streak_ok_def attempts_ok_def

text \<open>The part of the state a decision may change.\<close>

definition rest :: "PRState \<Rightarrow> PRState" where
  "rest s = s\<lparr>ps_OnceRoundsDone := [], ps_MergeAttempts := 0, ps_LastMergeError := [],
     ps_SelfReviewedSHA := [], ps_InvocationsSinceRound := 0\<rparr>"

lemma rest_eqD:
  assumes "rest s = rest t"
  shows "ps_LastCheckAt s = ps_LastCheckAt t" "ps_CooldownUntil s = ps_CooldownUntil t"
    "ps_LastCooldownCause s = ps_LastCooldownCause t" "ps_LastSeenHeadSHA s = ps_LastSeenHeadSHA t"
    "ps_LastSeenBaseSHA s = ps_LastSeenBaseSHA t" "ps_LastAction s = ps_LastAction t"
    "ps_Repo s = ps_Repo t" "ps_BestHealth s = ps_BestHealth t"
    "ps_LastSeenCommentIDs s = ps_LastSeenCommentIDs t" "ps_LastSeenCIRunIDs s = ps_LastSeenCIRunIDs t"
    "ps_ConsecutiveFailures s = ps_ConsecutiveFailures t" "ps_PRNumber s = ps_PRNumber t"
    "ps_CooldownFromAttempt s = ps_CooldownFromAttempt t" "ps_PolishRounds s = ps_PolishRounds t"
    "ps_RoundsSinceImprovement s = ps_RoundsSinceImprovement t" "ps_PolishCommits s = ps_PolishCommits t"
    "ps_LastSeenCommitCount s = ps_LastSeenCommitCount t" "ps_BaselineAdditions s = ps_BaselineAdditions t"
  using assms by (cases s; cases t; simp add: rest_def)+

lemma rest_updates [simp]:
  "rest (s\<lparr>ps_OnceRoundsDone := a\<rparr>) = rest s" "rest (s\<lparr>ps_MergeAttempts := b\<rparr>) = rest s"
  "rest (s\<lparr>ps_LastMergeError := c\<rparr>) = rest s" "rest (s\<lparr>ps_SelfReviewedSHA := d\<rparr>) = rest s"
  "rest (s\<lparr>ps_InvocationsSinceRound := e\<rparr>) = rest s"
  by (simp_all add: rest_def)

lemma dc_simps [simp]:
  "dc_state (just a s fl) = s" "dc_action (just a s fl) = a" "dc_flags (just a s fl) = fl"
  "dc_state (after_actions tr d) = dc_state d" "dc_action (after_actions tr d) = dc_action d"
  "dc_flags (after_actions tr d) = dc_flags d"
  by (simp_all add: just_def after_actions_def)

lemma rework_state [simp]: "dc_state (reworkAfterFailedMerge w v snap s fl) = s"
  by (simp add: reworkAfterFailedMerge_def Let_def split: option.split prod.split)

lemma rest_attempt [simp]: "rest (dc_state (attempt_merge w v snap s fl)) = rest s"
  by (cases "merge_pr w v snap") (simp add: attempt_merge_def Let_def split: sum.split mergeOutcome.split)

lemma rest_polish_failed [simp]: "rest (dc_state (polish_failed w v res e s fl)) = rest s"
  by (simp add: polish_failed_def Let_def split: prod.split option.split)

lemma rest_polish [simp]: "rest (dc_state (polish_round w v snap cs s fl)) = rest s"
  by (simp add: polish_round_def note_once_rounds_def Let_def split: prod.split option.split)

lemma rest_decide: "rest (dc_state (decideAndAct w v snap cs s fl)) = rest s"
  by (cases rule: decide_cases [of w snap cs s v fl]) simp_all

definition once_kept :: "PRState \<Rightarrow> PRState \<Rightarrow> bool" where
  "once_kept s t \<longleftrightarrow> once_ok (ps_OnceRoundsDone t) \<and>
     (length (ps_OnceRoundsDone t) = length (ps_OnceRoundsDone s) \<longrightarrow> ps_OnceRoundsDone t = ps_OnceRoundsDone s)"

lemma once_decide:
  assumes "once_ok (ps_OnceRoundsDone s)"
  shows "once_kept s (dc_state (decideAndAct w v snap cs s fl))"
proof -
  have m: "ps_OnceRoundsDone (dc_state (attempt_merge w v snap s fl)) = ps_OnceRoundsDone s"
    by (cases "merge_pr w v snap") (simp add: attempt_merge_def Let_def split: sum.split mergeOutcome.split)
  have f: "ps_OnceRoundsDone (dc_state (polish_failed w v res e s' fl')) = ps_OnceRoundsDone s'" for res e s' fl'
    by (simp add: polish_failed_def Let_def split: prod.split option.split)
  have p: "ps_OnceRoundsDone (dc_state (polish_round w v snap cs s fl)) =
      fold (\<lambda>kv m. mput (fst kv) True m) (pl_RanOnceRounds (fst (te_polish v (polish_request w snap s))))
        (ps_OnceRoundsDone s)"
    by (cases "te_polish v (polish_request w snap s)")
      (simp add: polish_round_def note_once_rounds_def Let_def f split: option.split)
  show ?thesis
  proof (cases rule: decide_cases [of w snap cs s v fl])
    case polish
    then show ?thesis using once_fold [OF assms, of "pl_RanOnceRounds (fst (te_polish v (polish_request w snap s)))"]
      by (simp add: once_kept_def p)
  qed (use assms m in \<open>auto simp: once_kept_def\<close>)
qed

section \<open>No change is lost\<close>

lemma clean_decide:
  assumes "once_ok (ps_OnceRoundsDone s)"
    and "\<not> act_dirty s (dc_state (decideAndAct w v snap cs s fl))"
  shows "dc_state (decideAndAct w v snap cs s fl) = s"
proof -
  define t where "t = dc_state (decideAndAct w v snap cs s fl)"
  have r: "rest t = rest s" unfolding t_def by (rule rest_decide)
  have o: "once_kept s t" unfolding t_def by (rule once_decide [OF assms(1)])
  from assms(2) have "\<not> act_dirty s t" by (simp add: t_def)
  then have "ps_MergeAttempts t = ps_MergeAttempts s" "ps_LastMergeError t = ps_LastMergeError s"
    "ps_SelfReviewedSHA t = ps_SelfReviewedSHA s" "ps_OnceRoundsDone t = ps_OnceRoundsDone s"
    "ps_InvocationsSinceRound t = ps_InvocationsSinceRound s"
    using o by (simp_all add: act_dirty_def once_kept_def)
  with r have "t = s" by (cases s; cases t) (simp add: rest_def)
  then show ?thesis by (simp add: t_def)
qed

lemma clean_expire: "\<not> snd (expireStaleDivergence snap s) \<Longrightarrow> fst (expireStaleDivergence snap s) = s"
  unfolding expireStaleDivergence_def by (simp split: if_split_asm)

lemma clean_work:
  assumes "\<not> snd (recordPolishWork snap p s)"
  shows "fst (recordPolishWork snap p s) = s"
proof -
  note un = recordPolishWork_def Let_def snd_conv fst_conv
  from assms have p: "\<not> p" unfolding un by blast
  from assms have n: "\<not> pushedCommits snap s > 0" unfolding un if_not_P [OF p] by blast
  from assms have f: "\<not> (ps_BaselineAdditions s = 0 \<and> pd_Additions (pn_PR snap) > 0)"
    unfolding un if_not_P [OF p] if_not_P [OF n] by blast
  show ?thesis unfolding un if_not_P [OF p] if_not_P [OF n] if_not_P [OF f] by (rule refl)
qed

lemma clean_health:
  assumes "\<not> snd (recordHealth snap s)"
  shows "fst (recordHealth snap s) = s"
proof -
  obtain s1 wd where r: "recordPolishWork snap (ps_LastAction s = LastActionPolished) s = (s1, wd)" by fastforce
  note un = recordHealth_def Let_def r prod.case
  show ?thesis
  proof (cases "Health snap")
    case None
    then have "\<not> wd" using assms unfolding un by simp
    then have "s1 = s" using clean_work [of snap "ps_LastAction s = LastActionPolished" s] r by simp
    then show ?thesis unfolding un None by simp
  next
    case (Some h)
    let ?better = "case ps_BestHealth s1 of None \<Rightarrow> True | Some b \<Rightarrow> BetterThan h b"
    have b: "\<not> ?better" "ps_LastAction s \<noteq> LastActionPolished" "\<not> wd"
      using assms unfolding un Some option.case by (auto split: if_split_asm)
    then have "s1 = s" using clean_work [of snap "ps_LastAction s = LastActionPolished" s] r by simp
    then show ?thesis using b unfolding un Some option.case if_not_P [OF b(1)] by simp
  qed
qed

lemma clean_comments: "\<not> snd (MergeSeenComments ids s) \<Longrightarrow> fst (MergeSeenComments ids s) = s"
  using merge_unchanged [of "ps_LastSeenCommentIDs s" ids]
  by (simp add: MergeSeenComments_def Let_def case_prod_unfold)

lemma clean_runs: "\<not> snd (MergeSeenRuns ids s) \<Longrightarrow> fst (MergeSeenRuns ids s) = s"
  using merge_unchanged [of "ps_LastSeenCIRunIDs s" ids]
  by (simp add: MergeSeenRuns_def Let_def case_prod_unfold)

lemma clean_seen:
  assumes "\<not> snd (record_seen snap s)"
  shows "fst (record_seen snap s) = s"
proof -
  have h: "s\<lparr>ps_LastSeenHeadSHA := x\<rparr> = s" if "ps_LastSeenHeadSHA s = x" for x using that by auto
  note un = record_seen_def Let_def case_prod_unfold fst_conv snd_conv
  from assms have c: "ps_LastSeenHeadSHA s = pd_HeadRefOid (pn_PR snap)" unfolding un by blast
  note e = h [OF c]
  from assms have d: "\<not> (CommitCount (pn_PR snap) > 0 \<and> ps_LastSeenCommitCount s \<noteq> CommitCount (pn_PR snap))"
    "\<not> (pn_BaseSHA snap \<noteq> [] \<and> ps_LastSeenBaseSHA s \<noteq> pn_BaseSHA snap)"
    unfolding un e by (auto split: if_split_asm)
  from assms have m: "\<not> snd (MergeSeenComments (map cr_ID (pn_Comments snap)) s)"
    unfolding un e if_not_P [OF d(1)] if_not_P [OF d(2)] by blast
  note f = clean_comments [OF m]
  from assms have r: "\<not> snd (MergeSeenRuns (pn_FailedRunIDs snap) s)"
    unfolding un e if_not_P [OF d(1)] if_not_P [OF d(2)] f by blast
  show ?thesis
    unfolding un e if_not_P [OF d(1)] if_not_P [OF d(2)] f by (rule clean_runs [OF r])
qed

lemma clean_streak:
  assumes "\<not> fst (snd (record_streak w v fl a s))" and "saved_ok s"
  shows "fst (record_streak w v fl a s) = s"
  using assms by (cases s) (auto simp: record_streak_def saved_ok_def Let_def split: if_splits)

lemma clean_record:
  assumes "recordSnapshot w v fl snap a d s = (t, False)" and "saved_ok s" and "a \<noteq> LastActionDryRun"
  shows "t = s \<and> \<not> d"
proof -
  define s1 where "s1 = fst (record_seen snap s)"
  define r where "r = record_streak w v fl a (s1\<lparr>ps_LastAction := a\<rparr>)"
  note un = assms(1) [unfolded recordSnapshot_def Let_def case_prod_unfold, folded s1_def, folded r_def]
  from un assms(3) have c: "\<not> snd (record_seen snap s)" "ps_LastAction s1 = a" "\<not> fst (snd r)" "\<not> d"
    by (auto split: if_splits)
  have s1: "s1 = s" using clean_seen [OF c(1)] by (simp add: s1_def)
  with c(2) have s1a: "s1\<lparr>ps_LastAction := a\<rparr> = s" by (cases s) simp
  have "fst r = s" using clean_streak [of w v fl a s] c(3) assms(2) by (simp add: r_def s1a)
  with un assms(3) show ?thesis using c(4) by (auto split: if_splits)
qed

lemma saved_counted [simp]: "saved_ok (counted snap s) = saved_ok s"
  by (simp add: saved_ok_def)

lemma saved_addressed [simp]: "saved_ok (addressed w s) = saved_ok s"
  by (simp add: saved_ok_def addressed_def)

lemma saved_decide:
  assumes "saved_ok s"
  shows "saved_ok (dc_state (decideAndAct w v snap cs s fl))"
  using assms once_decide [of s w v snap cs fl] rest_eqD [OF rest_decide [of w v snap cs s fl]]
  by (simp add: saved_ok_def once_kept_def)

lemma tick_body_split:
  assumes "tick_body w v snap s0 = (d, s, b)"
  shows "d = decideAndAct w v snap (ComputeChangeset (Some s0) snap) (counted snap s0) clear_flags"
    and "\<exists>e. recordSnapshot w v (dc_flags d) snap (dc_action d) e (dc_state d) = (s, b) \<and>
      (\<not> e \<longrightarrow> \<not> act_dirty (counted snap s0) (dc_state d) \<and> counted snap s0 = s0)"
proof -
  show d: "d = decideAndAct w v snap (ComputeChangeset (Some s0) snap) (counted snap s0) clear_flags"
    using tick_body_decision [of w v snap s0] assms by simp
  define e where "e \<longleftrightarrow> act_dirty (counted snap s0) (dc_state d) \<or> snd (expireStaleDivergence snap s0) \<or>
    snd (recordHealth snap (fst (expireStaleDivergence snap s0)))"
  have "recordSnapshot w v (dc_flags d) snap (dc_action d) e (dc_state d) = (s, b)"
    using assms d unfolding e_def by (simp add: tick_body_def counted_def Let_def case_prod_unfold)
  moreover have "counted snap s0 = s0" if "\<not> e"
    using that clean_expire [of snap s0] clean_health [of snap s0] by (simp add: counted_def e_def)
  ultimately show "\<exists>e. recordSnapshot w v (dc_flags d) snap (dc_action d) e (dc_state d) = (s, b) \<and>
      (\<not> e \<longrightarrow> \<not> act_dirty (counted snap s0) (dc_state d) \<and> counted snap s0 = s0)"
    by (auto simp: e_def)
qed

lemma tick_body_clean:
  assumes "tick_body w v snap s0 = (d, s, False)" and "saved_ok s0" and "dc_action d \<noteq> LastActionDryRun"
  shows "s = s0"
proof -
  have d: "d = decideAndAct w v snap (ComputeChangeset (Some s0) snap) (counted snap s0) clear_flags"
    using assms(1) by (rule tick_body_split)
  obtain e where e: "recordSnapshot w v (dc_flags d) snap (dc_action d) e (dc_state d) = (s, False)"
    and c: "\<not> e \<Longrightarrow> \<not> act_dirty (counted snap s0) (dc_state d) \<and> counted snap s0 = s0"
    using tick_body_split(2) [OF assms(1)] by blast
  have "saved_ok (dc_state d)" unfolding d by (rule saved_decide) (simp add: assms(2))
  from clean_record [OF e this assms(3)] have "s = dc_state d" "\<not> e" by blast+
  with c have "\<not> act_dirty s0 (dc_state d)" "counted snap s0 = s0" by auto
  moreover from assms(2) have "once_ok (ps_OnceRoundsDone s0)" by (simp add: saved_ok_def)
  ultimately have "dc_state d = s0" using clean_decide [of s0 w v snap _ clear_flags] d by metis
  with \<open>s = dc_state d\<close> show ?thesis by simp
qed

lemma saved_load: "file_ok w file \<Longrightarrow> LoadState file = Inr s \<Longrightarrow> saved_ok s"
  by (auto simp: file_ok_def LoadState_def prs_ok_def split: state_file.splits)
    (simp add: saved_ok_def zero_PRState_def once_ok_def ids_ok_def)

text \<open>C33. No change is lost: after a tick that ran without an error, and not as a dry run, the state
  file holds exactly the state the tick has computed. Where the tick skips the write, nothing
  in the state it had loaded has changed.\<close>

theorem prdozer_no_lost_update:
  assumes "file_ok w file" and "LoadState file = Inr s0" and "\<not> cooling s0 (te_clock v 0)"
    and "te_snapshot v = Inr snap" and "to_error (Tick w v file) = None"
    and "ti_Action (to_result (Tick w v file)) \<noteq> LastActionDryRun"
  shows "\<exists>s. fst (snd (tick_body w v snap (addressed w s0))) = s \<and>
    (to_file (Tick w v file) = StateSaved s \<or> to_file (Tick w v file) = file \<and> s = addressed w s0)"
proof -
  obtain d s b where t: "tick_body w v snap (addressed w s0) = (d, s, b)" by (cases rule: prod_cases3)
  have tick: "Tick w v file = \<lparr>to_result = tick_result w snap (addressed w s0) d,
      to_error = (if b then map_option (SaveFailed \<circ> fst) (te_save v) else None),
      to_file = (if b then (case te_save v of None \<Rightarrow> StateSaved s | Some (_, f) \<Rightarrow> f) else file),
      to_trace = dc_trace d\<rparr>"
    using assms(2,3,4) by (simp add: Tick_def t)
  have "s = addressed w s0" if "\<not> b"
  proof (rule tick_body_clean)
    show "tick_body w v snap (addressed w s0) = (d, s, False)" using t that by simp
    show "saved_ok (addressed w s0)" using saved_load [OF assms(1,2)] by simp
    show "dc_action d \<noteq> LastActionDryRun" using assms(6) by (simp add: tick tick_result_def)
  qed
  then show ?thesis using assms(5) by (auto simp: tick t)
qed

theorem prdozer_no_lost_update_witness:
  "\<exists>s. fst (snd (tick_body sample_watcher green_env (sample_snapshot StatusSuccess)
      (addressed sample_watcher zero_PRState))) = s \<and>
    (to_file (Tick sample_watcher green_env NoStateFile) = StateSaved s \<or>
     to_file (Tick sample_watcher green_env NoStateFile) = NoStateFile \<and> s = addressed sample_watcher zero_PRState)"
proof (rule prdozer_no_lost_update)
  show "file_ok sample_watcher NoStateFile" by (simp add: file_ok_def)
  show "LoadState NoStateFile = Inr zero_PRState" by (simp add: LoadState_def)
  show "\<not> cooling zero_PRState (te_clock green_env 0)" by (simp add: cooling_def zero_PRState_def)
  show "te_snapshot green_env = Inr (sample_snapshot StatusSuccess)" by (simp add: green_env_def sample_env_def)
qed (simp_all add: green_tick)

section \<open>The invariant of the saved state\<close>

lemma seen_frame:
  "ps_CooldownUntil (fst (record_seen snap s)) = ps_CooldownUntil s"
  "ps_LastCooldownCause (fst (record_seen snap s)) = ps_LastCooldownCause s"
  "ps_ConsecutiveFailures (fst (record_seen snap s)) = ps_ConsecutiveFailures s"
  "ps_OnceRoundsDone (fst (record_seen snap s)) = ps_OnceRoundsDone s"
  "ps_MergeAttempts (fst (record_seen snap s)) = ps_MergeAttempts s"
  "ps_CooldownFromAttempt (fst (record_seen snap s)) = ps_CooldownFromAttempt s"
  "ps_InvocationsSinceRound (fst (record_seen snap s)) = ps_InvocationsSinceRound s"
  "ps_LastSeenCommentIDs (fst (record_seen snap s)) =
     fst (mergeSortedCapped (ps_LastSeenCommentIDs s) (map cr_ID (pn_Comments snap)))"
  "ps_LastSeenCIRunIDs (fst (record_seen snap s)) =
     fst (mergeSortedCapped (ps_LastSeenCIRunIDs s) (pn_FailedRunIDs snap))"
  by (simp_all add: record_seen_def MergeSeenComments_def MergeSeenRuns_def Let_def case_prod_unfold)

lemma saved_seen: "saved_ok s \<Longrightarrow> saved_ok (fst (record_seen snap s))"
  by (simp add: saved_ok_def seen_frame ids_ok_merge)

lemma saved_action [simp]: "saved_ok (s\<lparr>ps_LastAction := a\<rparr>) = saved_ok s"
  "streak_ok w (s\<lparr>ps_LastAction := a\<rparr>) = streak_ok w s"
  by (simp_all add: saved_ok_def streak_ok_def)

text \<open>Every action of a tick but the dry run takes an arm of the failure streak.\<close>

lemma streak_cases:
  assumes "a \<noteq> LastActionDryRun" and "a \<noteq> LastActionInit"
  obtains (transient) "a = LastActionTransient"
  | (failure) "a \<in> {LastActionFailed, LastActionReworked, LastActionStalled}"
  | (clear) "a \<in> {LastActionPolished, LastActionMerged, LastActionClosed, LastActionIdle,
       LastActionArmed, LastActionNeedsHuman}"
  using assms by (cases a) auto

lemma streak_after:
  assumes "a \<noteq> LastActionDryRun" "a \<noteq> LastActionInit" "saved_ok s" "streak_ok w s"
    and "record_streak w v fl a s = (t, d, armed)"
  shows "saved_ok t \<and> streak_ok w t \<and> (armed \<longrightarrow> ps_CooldownUntil t \<noteq> None) \<and>
    ps_LastAction t = ps_LastAction s \<and> ps_InvocationsSinceRound t = ps_InvocationsSinceRound s"
  using assms(1,2)
proof (cases rule: streak_cases)
  case transient
  with assms show ?thesis by (simp add: record_streak_def)
next
  case failure
  with assms(3,5) show ?thesis
    by (auto simp: record_streak_def Let_def saved_ok_def streak_ok_def split: if_split_asm)
next
  case clear
  with assms(3,5) show ?thesis
    by (auto simp: record_streak_def saved_ok_def streak_ok_def)
qed

lemma record_ok:
  assumes "recordSnapshot w v fl snap a e s = (t, b)" "a \<noteq> LastActionDryRun" "a \<noteq> LastActionInit"
    and "saved_ok s" "streak_ok w s"
  shows "prs_ok w t \<and> ps_LastAction t = a \<and> ps_InvocationsSinceRound t = ps_InvocationsSinceRound s"
proof -
  define s1 where "s1 = (fst (record_seen snap s))\<lparr>ps_LastAction := a\<rparr>"
  define r where "r = record_streak w v fl a s1"
  define s2 where "s2 = fst r"
  define brake where "brake \<longleftrightarrow> \<not> snd (snd r) \<and> \<not> endsTheRun a \<and> mergeBrakeTripped w v s2"
  define s3 where "s3 = (if brake
     then s2\<lparr>ps_CooldownUntil := Some (te_clock v 3 + bc_Cooldown (wa_Backoff w)),
             ps_CooldownFromAttempt := ps_MergeAttempts s2, ps_LastCooldownCause := mergeBrakeCause s2\<rparr>
     else s2)"
  have t: "t = s3 \<or> t = s3\<lparr>ps_LastCheckAt := Some (pn_TakenAt snap)\<rparr>"
    using assms(1,2) by (auto simp: recordSnapshot_def s3_def brake_def s2_def r_def s1_def Let_def
        case_prod_unfold split: if_split_asm)
  have "saved_ok s1" "streak_ok w s1" using assms(4,5) saved_seen
    by (simp_all add: s1_def streak_ok_def seen_frame)
  moreover have "record_streak w v fl a s1 = (s2, fst (snd r), snd (snd r))" by (simp add: s2_def r_def)
  ultimately have "saved_ok s2 \<and> streak_ok w s2 \<and> (snd (snd r) \<longrightarrow> ps_CooldownUntil s2 \<noteq> None) \<and>
    ps_LastAction s2 = ps_LastAction s1 \<and> ps_InvocationsSinceRound s2 = ps_InvocationsSinceRound s1"
    using streak_after [OF assms(2,3)] by blast
  then have r: "saved_ok s2" "streak_ok w s2" "snd (snd r) \<Longrightarrow> ps_CooldownUntil s2 \<noteq> None"
    "ps_LastAction s2 = a" "ps_InvocationsSinceRound s2 = ps_InvocationsSinceRound s"
    by (simp_all add: s1_def seen_frame)
  have "prs_ok w s3"
  proof (cases brake)
    case True
    with r show ?thesis by (simp add: s3_def prs_defs)
  next
    case False
    have "attempts_ok w s2"
      using False r(3,4) by (auto simp: attempts_ok_def brake_def mergeBrakeTripped_def cooling_def Let_def
          split: option.splits if_split_asm)
    with r False show ?thesis by (simp add: s3_def prs_ok_def)
  qed
  moreover have "ps_LastAction s3 = a" "ps_InvocationsSinceRound s3 = ps_InvocationsSinceRound s"
    using r by (simp_all add: s3_def)
  ultimately show ?thesis using t by (auto simp: prs_defs)
qed

lemma acting_action:
  "dc_action (attempt_merge w v snap s fl) \<notin> {LastActionInit, LastActionDryRun}"
  "dc_action (polish_round w v snap cs s fl) \<notin> {LastActionInit, LastActionDryRun}"
proof -
  have r: "dc_action (reworkAfterFailedMerge w v snap s' fl) \<notin> {LastActionInit, LastActionDryRun}" for s'
    by (auto simp: reworkAfterFailedMerge_def classifyAgentFailure_def Let_def split: option.split prod.split if_split_asm)
  show "dc_action (attempt_merge w v snap s fl) \<notin> {LastActionInit, LastActionDryRun}"
    using r by (cases "merge_pr w v snap") (simp add: attempt_merge_def Let_def split: sum.split mergeOutcome.split)
  have "dc_action (polish_failed w v res e s' fl) \<notin> {LastActionInit, LastActionDryRun}" for res e s'
    by (auto simp: polish_failed_def classifyAgentFailure_def Let_def split: option.split prod.split if_split_asm)
  then show "dc_action (polish_round w v snap cs s fl) \<notin> {LastActionInit, LastActionDryRun}"
    by (simp add: polish_round_def Let_def split: prod.split option.split)
qed

lemma decided_action: "dc_action (decideAndAct w v snap cs s fl) \<noteq> LastActionInit"
  using acting_action(1) [of w v snap s fl] acting_action(2) [of w v snap cs s fl]
  by (cases rule: decide_cases [of w snap cs s v fl]) (auto simp: idle_action_def)

lemma dry_decision:
  assumes "dc_action (decideAndAct w v snap cs s fl) = LastActionDryRun"
  shows "dc_state (decideAndAct w v snap cs s fl) = s \<and> dc_trace (decideAndAct w v snap cs s fl) = []"
  using assms acting_action(1) [of w v snap s fl] acting_action(2) [of w v snap cs s fl]
  by (cases rule: decide_cases [of w snap cs s v fl]) (auto simp: just_def)

lemma streak_transfer:
  "ps_ConsecutiveFailures s = ps_ConsecutiveFailures t \<Longrightarrow> ps_CooldownUntil s = ps_CooldownUntil t \<Longrightarrow>
   streak_ok w s = streak_ok w t"
  by (simp add: streak_ok_def)

lemma tick_body_ok:
  assumes "tick_body w v snap s0 = (d, s, b)" and "prs_ok w s0" and "dc_action d \<noteq> LastActionDryRun"
  shows "prs_ok w s" "ps_LastAction s = dc_action d"
    "ps_InvocationsSinceRound s = ps_InvocationsSinceRound (dc_state d)"
proof -
  note d = tick_body_split(1) [OF assms(1)]
  obtain e where e: "recordSnapshot w v (dc_flags d) snap (dc_action d) e (dc_state d) = (s, b)"
    using tick_body_split(2) [OF assms(1)] by blast
  have "dc_action d \<noteq> LastActionInit" unfolding d by (rule decided_action)
  moreover have "saved_ok (dc_state d)" unfolding d using assms(2) by (intro saved_decide) (simp add: prs_ok_def)
  moreover have "streak_ok w (dc_state d)"
    using assms(2) rest_eqD [OF rest_decide [of w v snap _ "counted snap s0" clear_flags]] streak_transfer
    unfolding d prs_ok_def by (metis counted_frame(3,8))
  ultimately have "prs_ok w s \<and> ps_LastAction s = dc_action d \<and>
      ps_InvocationsSinceRound s = ps_InvocationsSinceRound (dc_state d)"
    using record_ok [OF e assms(3)] by blast
  then show "prs_ok w s" "ps_LastAction s = dc_action d"
    "ps_InvocationsSinceRound s = ps_InvocationsSinceRound (dc_state d)" by blast+
qed

lemma dry_not_saved:
  assumes "tick_body w v snap s0 = (d, s, b)" and "dc_action d = LastActionDryRun"
  shows "\<not> b"
  using tick_body_split(2) [OF assms(1)] assms(2) by (auto simp: recordSnapshot_def)

lemma zero_ok: "prs_ok w zero_PRState"
  by (simp add: prs_defs zero_PRState_def once_ok_def ids_ok_def endsTheRun_def)

lemma load_ok: "file_ok w file \<Longrightarrow> LoadState file = Inr s \<Longrightarrow> prs_ok w s"
  by (auto simp: file_ok_def LoadState_def zero_ok split: state_file.splits)

lemma addressed_ok: "prs_ok w (addressed w s) = prs_ok w s"
  by (simp add: prs_defs addressed_def)

text \<open>A tick of the machine: a failed write leaves some file, which the environment determines.\<close>

definition tick_step :: "Watcher \<Rightarrow> tick_env \<Rightarrow> state_file \<Rightarrow> state_file" where
  "tick_step w v file = to_file (Tick w v file)"

definition save_ok :: "Watcher \<Rightarrow> tick_env \<Rightarrow> bool" where
  "save_ok w v \<longleftrightarrow> (case te_save v of None \<Rightarrow> True | Some (_, f) \<Rightarrow> file_ok w f)"

lemma tick_keeps:
  assumes "file_ok w file" and "save_ok w v"
  shows "file_ok w (tick_step w v file)"
proof (cases "LoadState file")
  case (Inr s0)
  show ?thesis
  proof (cases "te_snapshot v")
    case (Inr snap)
    obtain d s b where t: "tick_body w v snap (addressed w s0) = (d, s, b)" by (cases rule: prod_cases3)
    have "prs_ok w s" if b
      using tick_body_ok(1) [OF t] dry_not_saved [OF t] that load_ok [OF assms(1) \<open>LoadState file = Inr s0\<close>]
      by (auto simp: addressed_ok)
    moreover have "tick_step w v file = (if cooling s0 (te_clock v 0) then file
        else if b then (case te_save v of None \<Rightarrow> StateSaved s | Some (_, f) \<Rightarrow> f) else file)"
      using Inr \<open>LoadState file = Inr s0\<close> by (simp add: tick_step_def Tick_def t Let_def)
    moreover have "file_ok w (StateSaved s) = prs_ok w s" by (simp add: file_ok_def)
    ultimately show ?thesis using assms by (auto simp: save_ok_def split: option.splits)
  qed (use assms Inr in \<open>simp add: tick_step_def Tick_def Let_def\<close>)
qed (use assms in \<open>simp add: tick_step_def Tick_def\<close>)

interpretation tick_machine: invariant_machine "tick_step w" "save_ok w" "file_ok w" for w
  by unfold_locales (rule tick_keeps)

text \<open>C13. Whatever the pull request, the agents and GitHub do over any sequence of ticks, the saved
  state is sound: a failure streak or a number of unsuccessful merge attempts that has reached
  its limit is under a cooldown, a cooldown's cause is cleared with it, the lists of seen
  identifiers are sorted, without repetitions and capped, and once-rounds are only recorded as done.\<close>

theorem prdozer_state_invariant:
  assumes "list_all (save_ok w) vs"
  shows "file_ok w (run_machine (tick_step w) (take n vs) NoStateFile)"
  by (rule tick_machine.run_prefix_inv [OF _ assms]) (simp add: file_ok_def)

theorem prdozer_state_invariant_witness:
  "file_ok sample_watcher (run_machine (tick_step sample_watcher) (take 2 [red_env, red_env, green_env]) NoStateFile)"
  by (rule prdozer_state_invariant) (simp add: save_ok_def red_env_def green_env_def sample_env_def)

end
