(* ===== verification/PrdozerAgent.thy ===== *)
theory PrdozerAgent
  imports PrdozerProps
begin

text \<open>
  The agents prdozer runs (\<open>prdozer/agent.go\<close>, \<open>rework.go\<close>, the step specifications of
  \<open>registry.go\<close>): a polish request runs the rounds that are still owed, each given the output of
  the one before, and stops at the first error. The providers, the shell and the template
  engine answer through the record \<open>agent_world\<close>. The contract the watcher relies on is the
  locale \<open>polish_provider\<close>, which \<open>AgentPolisher\<close> is shown to keep. Durations are left out.
\<close>

section \<open>Rounds\<close>

record ReworkData =
  rw_Repo :: string
  rw_MergeError :: string
  rw_Branch :: string
  rw_PRURL :: string
  rw_MergePolicy :: string
  rw_PrevOutput :: string
  rw_DefaultPolishPrompt :: string
  rw_PRNumber :: int
  rw_Attempt :: int

definition IsCommand :: "RoundSpec \<Rightarrow> bool" where
  "IsCommand r \<longleftrightarrow> rd_Command r \<noteq> []"

text \<open>
  \<open>aw_key\<close> is the shortened SHA-256 of the text it is given; \<open>aw_one i p\<close> and \<open>aw_shell i c\<close> are
  the answers of the agent and of the shell in round \<open>i\<close>: the session and its output, or an error.
\<close>

record agent_world =
  aw_key :: "string \<Rightarrow> string"
  aw_render :: "string \<Rightarrow> ReworkData \<Rightarrow> string + string"
  aw_one :: "nat \<Rightarrow> string \<Rightarrow> go_err + string \<times> string"
  aw_shell :: "nat \<Rightarrow> string \<Rightarrow> string \<times> string option"
  aw_quote :: "string \<Rightarrow> string"

definition onceKey :: "agent_world \<Rightarrow> RoundSpec \<Rightarrow> string" where
  "onceKey a r = aw_key a (rd_Command r @ [CHR 0x00] @ rd_Prompt r)"

definition once_owed :: "agent_world \<Rightarrow> (string, bool) gomap \<Rightarrow> RoundSpec \<Rightarrow> bool" where
  "once_owed a don r \<longleftrightarrow> \<not> (rd_Once r \<and> map_of don (onceKey a r) = Some True)"

definition activeRounds :: "agent_world \<Rightarrow> PolishRequest \<Rightarrow> RoundSpec list" where
  "activeRounds a req =
    (if SpecEmpty (pq_Spec req) then []
     else filter (once_owed a (pq_DoneOnceRounds req)) (sp_Rounds (pq_Spec req)))"

definition modelID :: "PolishRequest \<Rightarrow> string" where
  "modelID req = (if sp_Model (pq_Spec req) \<noteq> [] then sp_Model (pq_Spec req) else pq_Model req)"

definition buildPolishPrompt :: "int \<Rightarrow> bool \<Rightarrow> int \<Rightarrow> string" where
  "buildPolishPrompt prNumber local rounds =
     ''/pr-polish'' @ (if local then '' --local'' else []) @
     (if rounds > 0 then '' --rounds '' @ Itoa rounds else []) @
     (if prNumber > 0 then '' '' @ Itoa prNumber else [])"

definition default_prompt :: "PolishRequest \<Rightarrow> string" where
  "default_prompt req = buildPolishPrompt (pq_PRNumber req) (pq_Local req) (pc_RoundsPerTick (pq_Cfg req))"

definition round_data :: "PolishRequest \<Rightarrow> string \<Rightarrow> ReworkData" where
  "round_data req prev = \<lparr>rw_Repo = pq_Repo req, rw_MergeError = [], rw_Branch = pq_Branch req,
     rw_PRURL = pq_PRURL req, rw_MergePolicy = [], rw_PrevOutput = prev,
     rw_DefaultPolishPrompt = default_prompt req, rw_PRNumber = pq_PRNumber req, rw_Attempt = 0\<rparr>"

text \<open>Errors of the code's own making, and wrapping one with a prefix.\<close>

definition new_err :: "string \<Rightarrow> go_err" where
  "new_err t = \<lparr>ge_text = t, ge_claude = None, ge_codex = None, ge_command = False\<rparr>"

definition wrap_err :: "string \<Rightarrow> go_err \<Rightarrow> go_err" where
  "wrap_err pre e = e\<lparr>ge_text := pre @ ge_text e\<rparr>"

definition short_text :: "nat \<Rightarrow> string \<Rightarrow> string" where
  "short_text n s = (if length (runes s) > n then take_runes n s @ ''...'' else s)"

text \<open>A command's combined output, trimmed, and its error, which is marked as a command's.\<close>

definition runPolishCommand ::
  "agent_world \<Rightarrow> nat \<Rightarrow> string \<Rightarrow> ReworkData \<Rightarrow> go_err + string" where
  "runPolishCommand a i tmpl data =
    (case aw_render a tmpl data of
       Inl e \<Rightarrow> Inl (new_err (''render command: '' @ e))
     | Inr cmd \<Rightarrow>
         (case aw_shell a i cmd of
            (out, None) \<Rightarrow> Inr (TrimSpace out)
          | (out, Some e) \<Rightarrow>
              Inl ((new_err (''command '' @ aw_quote a (short_text 80 cmd) @ '': '' @ e))\<lparr>ge_command := True\<rparr>)))"

definition zero_PolishResult :: PolishResult where
  "zero_PolishResult = \<lparr>pl_RanOnceRounds = [], pl_SessionID = [], pl_Output = [], pl_CompletedRounds = 0\<rparr>"

text \<open>One round: its error, or the new session identifier (if it ran an agent) and its output.\<close>

definition run_round ::
  "agent_world \<Rightarrow> PolishRequest \<Rightarrow> nat \<Rightarrow> nat \<Rightarrow> RoundSpec \<Rightarrow> string \<Rightarrow> go_err + string option \<times> string" where
  "run_round a req total' i r prev =
    (let data = round_data req prev;
         label = ''polish round '' @ Itoa (int i + 1) @ ''/'' @ Itoa (int total')
     in if IsCommand r
        then (case runPolishCommand a i (rd_Command r) data of
            Inl e \<Rightarrow> Inl (wrap_err (label @ '': '') e)
          | Inr out \<Rightarrow> Inr (None, out))
        else (case aw_render a (rd_Prompt r) data of
            Inl e \<Rightarrow> Inl (new_err (label @ '': render: '' @ e))
          | Inr prompt \<Rightarrow>
              (case aw_one a i prompt of
                 Inl e \<Rightarrow> Inl (wrap_err (label @ '': '') e)
               | Inr (sid, out) \<Rightarrow> Inr (Some sid, out))))"

fun runRounds ::
  "agent_world \<Rightarrow> PolishRequest \<Rightarrow> nat \<Rightarrow> nat \<Rightarrow> RoundSpec list \<Rightarrow> string \<Rightarrow> PolishResult \<Rightarrow>
   PolishResult \<times> go_err option" where
  "runRounds a req total' i [] prev res = (res, None)"
| "runRounds a req total' i (r # rs) prev res =
    (case run_round a req total' i r prev of
       Inl e \<Rightarrow> (res, Some e)
     | Inr (sid, out) \<Rightarrow>
         runRounds a req total' (i + 1) rs out
           (res\<lparr>pl_SessionID := (case sid of Some x \<Rightarrow> x | None \<Rightarrow> pl_SessionID res),
              pl_CompletedRounds := pl_CompletedRounds res + 1,
              pl_RanOnceRounds := (if rd_Once r then mput (onceKey a r) True (pl_RanOnceRounds res)
                                   else pl_RanOnceRounds res),
              pl_Output := out\<rparr>))"

definition AgentPolisher :: "agent_world \<Rightarrow> PolishRequest \<Rightarrow> PolishResult \<times> go_err option" where
  "AgentPolisher a req =
    (let rounds = activeRounds a req in
     if rounds \<noteq> [] then runRounds a req (length rounds) 0 rounds [] zero_PolishResult
     else (case aw_one a 0 (default_prompt req) of
         Inl e \<Rightarrow> (zero_PolishResult, Some e)
       | Inr (sid, out) \<Rightarrow> (zero_PolishResult\<lparr>pl_SessionID := sid, pl_Output := out\<rparr>, None)))"

text \<open>The rounds that finish.\<close>

fun finished :: "agent_world \<Rightarrow> PolishRequest \<Rightarrow> nat \<Rightarrow> nat \<Rightarrow> RoundSpec list \<Rightarrow> string \<Rightarrow> RoundSpec list" where
  "finished a req total' i [] prev = []"
| "finished a req total' i (r # rs) prev =
    (case run_round a req total' i r prev of
       Inl _ \<Rightarrow> []
     | Inr (_, out) \<Rightarrow> r # finished a req total' (i + 1) rs out)"

definition rounds_finished :: "agent_world \<Rightarrow> PolishRequest \<Rightarrow> RoundSpec list" where
  "rounds_finished a req =
     (let rounds = activeRounds a req in finished a req (length rounds) 0 rounds [])"

section \<open>Rework rounds\<close>

definition rework_data :: "ReworkRequest \<Rightarrow> string \<Rightarrow> ReworkData" where
  "rework_data req prev = \<lparr>rw_Repo = rq_Repo req, rw_MergeError = rq_MergeError req,
     rw_Branch = rq_Branch req, rw_PRURL = rq_PRURL req, rw_MergePolicy = rq_MergePolicy req,
     rw_PrevOutput = prev, rw_DefaultPolishPrompt = [], rw_PRNumber = rq_PRNumber req,
     rw_Attempt = rq_Attempt req\<rparr>"

text \<open>A command keeps its output untrimmed; the error carries its first 500 runes.\<close>

definition rework_round :: "agent_world \<Rightarrow> nat \<Rightarrow> RoundSpec \<Rightarrow> ReworkData \<Rightarrow> go_err + string" where
  "rework_round a i r data =
    (if IsCommand r
     then (case aw_render a (rd_Command r) data of
         Inl e \<Rightarrow> Inl (new_err e)
       | Inr cmd \<Rightarrow>
           (case aw_shell a i cmd of
              (out, None) \<Rightarrow> Inr out
            | (out, Some e) \<Rightarrow>
                Inl ((new_err (''command failed: '' @ e @ '': '' @ short_text 500 (TrimSpace out)))\<lparr>ge_command := True\<rparr>)))
     else (case aw_render a (rd_Prompt r) data of
         Inl e \<Rightarrow> Inl (new_err e)
       | Inr prompt \<Rightarrow> (case aw_one a i prompt of Inl e \<Rightarrow> Inl e | Inr (_, out) \<Rightarrow> Inr out)))"

fun rework_rounds ::
  "agent_world \<Rightarrow> ReworkRequest \<Rightarrow> nat \<Rightarrow> nat \<Rightarrow> RoundSpec list \<Rightarrow> string \<Rightarrow> string list \<Rightarrow>
   string list \<times> go_err option" where
  "rework_rounds a req total' i [] prev outs = (outs, None)"
| "rework_rounds a req total' i (r # rs) prev outs =
    (case rework_round a i r (rework_data req prev) of
       Inl e \<Rightarrow> (outs, Some (wrap_err (''merge_rework round '' @ Itoa (int i + 1) @ ''/'' @ Itoa (int total') @ '': '') e))
     | Inr out \<Rightarrow> rework_rounds a req total' (i + 1) rs out (outs @ [out]))"

definition AgentRework :: "agent_world \<Rightarrow> ReworkRequest \<Rightarrow> string list \<times> go_err option" where
  "AgentRework a req =
    (if SpecEmpty (rq_Spec req) then ([], None)
     else rework_rounds a req (length (sp_Rounds (rq_Spec req))) 0 (sp_Rounds (rq_Spec req)) [] [])"

section \<open>The contract of a polish runner\<close>

definition once_keys :: "(RoundSpec \<Rightarrow> string) \<Rightarrow> RoundSpec list \<Rightarrow> string list" where
  "once_keys key rs = map key (filter rd_Once rs)"

text \<open>
  What the watcher relies on: a once-round that the request lists as done does not run, the
  once-rounds that finished are exactly the ones reported, and none of them finishes twice in one call.
\<close>

locale polish_provider =
  fixes run :: "'w \<Rightarrow> PolishRequest \<Rightarrow> PolishResult \<times> go_err option"
    and fin :: "'w \<Rightarrow> PolishRequest \<Rightarrow> RoundSpec list"
    and key :: "RoundSpec \<Rightarrow> string"
  assumes not_done: "r \<in> set (fin a req) \<Longrightarrow> rd_Once r \<Longrightarrow> map_of (pq_DoneOnceRounds req) (key r) \<noteq> Some True"
    and reported: "keys (pl_RanOnceRounds (fst (run a req))) = set (once_keys key (fin a req))"
    and once_each: "distinct (once_keys key (sp_Rounds (pq_Spec req))) \<Longrightarrow>
      distinct (once_keys key (fin a req))"
begin

lemma reported_fresh:
  "k \<in> set (once_keys key (fin a req)) \<Longrightarrow> map_of (pq_DoneOnceRounds req) k \<noteq> Some True"
  by (auto simp: once_keys_def dest: not_done)

end

text \<open>\<open>AgentPolisher\<close> keeps the contract, for any hash.\<close>

lemma runRounds_reported:
  "keys (pl_RanOnceRounds (fst (runRounds a req m i rs prev res))) =
     keys (pl_RanOnceRounds res) \<union> set (once_keys (onceKey a) (finished a req m i rs prev))"
  by (induction rs arbitrary: i prev res) (auto simp: once_keys_def split: sum.split prod.split)

lemma finished_prefix: "prefix (finished a req m i rs prev) rs"
  by (induction rs arbitrary: i prev) (auto split: sum.split prod.split)

lemma finished_active: "r \<in> set (rounds_finished a req) \<Longrightarrow> r \<in> set (activeRounds a req)"
  unfolding rounds_finished_def Let_def using set_mono_prefix [OF finished_prefix] by blast

lemma finished_once:
  assumes "distinct (once_keys key (sp_Rounds (pq_Spec req)))"
  shows "distinct (once_keys key (rounds_finished a req))"
proof -
  have "distinct (once_keys key (activeRounds a req))"
    using assms by (auto simp: activeRounds_def once_keys_def intro: distinct_map_filter)
      (metis (no_types, lifting) distinct_map_filter filter_filter filter_cong)
  moreover obtain zs where "activeRounds a req = rounds_finished a req @ zs"
    using finished_prefix unfolding rounds_finished_def Let_def prefix_def by blast
  ultimately show ?thesis by (simp add: once_keys_def)
qed

definition with_hash :: "(string \<Rightarrow> string) \<Rightarrow> agent_world \<Rightarrow> agent_world" where
  "with_hash h a = a\<lparr>aw_key := h\<rparr>"

definition hash_key :: "(string \<Rightarrow> string) \<Rightarrow> RoundSpec \<Rightarrow> string" where
  "hash_key h r = h (rd_Command r @ [CHR 0x00] @ rd_Prompt r)"

lemma onceKey_hash [simp]: "onceKey (with_hash h a) = hash_key h"
  by (rule ext) (simp add: onceKey_def hash_key_def with_hash_def)

interpretation agent_polisher: polish_provider
  "\<lambda>a. AgentPolisher (with_hash h a)" "\<lambda>a. rounds_finished (with_hash h a)" "hash_key h" for h
proof (unfold_locales, goal_cases)
  case (1 r a req)
  then have "r \<in> set (activeRounds (with_hash h a) req)" using finished_active by blast
  with 1 show ?case by (auto simp: activeRounds_def once_owed_def split: if_split_asm)
next
  case (2 a req)
  show ?case using runRounds_reported [of "with_hash h a" req]
    by (auto simp: AgentPolisher_def rounds_finished_def Let_def zero_PolishResult_def once_keys_def
        split: sum.split)
next
  case (3 req a)
  then show ?case by (rule finished_once)
qed

section \<open>Once-rounds over the life of a pull request\<close>

definition polish_requests :: "pr_action list \<Rightarrow> PolishRequest list" where
  "polish_requests tr = concat (map (\<lambda>x. case x of RunPolish req \<Rightarrow> [req] | _ \<Rightarrow> []) tr)"

lemma polish_requests_simps [simp]:
  "polish_requests [] = []" "polish_requests (RunPolish req # tr) = req # polish_requests tr"
  "polish_requests (Gh args # tr) = polish_requests tr" "polish_requests (RunRework q # tr) = polish_requests tr"
  "polish_requests (xs @ ys) = polish_requests xs @ polish_requests ys"
  by (simp_all add: polish_requests_def)

lemma polish_requests_none: "(\<And>req. RunPolish req \<notin> set tr) \<Longrightarrow> polish_requests tr = []"
  by (induction tr) (auto simp: polish_requests_def split: pr_action.split)

definition once_of :: "state_file \<Rightarrow> (string, bool) gomap" where
  "once_of f = (case LoadState f of Inr s \<Rightarrow> ps_OnceRoundsDone s | Inl _ \<Rightarrow> [])"

text \<open>The map of a decision: what a polish round reported is added, else it stays.\<close>

definition add_reported :: "PolishResult \<Rightarrow> (string, bool) gomap \<Rightarrow> (string, bool) gomap" where
  "add_reported res m = fold (\<lambda>kv m. mput (fst kv) True m) (pl_RanOnceRounds res) m"

definition once_follows :: "Watcher \<Rightarrow> tick_env \<Rightarrow> PRSnapshot \<Rightarrow> PRState \<Rightarrow> decision \<Rightarrow> bool" where
  "once_follows w v snap s d \<longleftrightarrow>
    (polish_requests (dc_trace d) = [] \<and> ps_OnceRoundsDone (dc_state d) = ps_OnceRoundsDone s) \<or>
    (polish_requests (dc_trace d) = [polish_request w snap s] \<and>
      ps_OnceRoundsDone (dc_state d) =
        add_reported (fst (te_polish v (polish_request w snap s))) (ps_OnceRoundsDone s))"

lemma decide_once_map: "once_follows w v snap s (decideAndAct w v snap cs s fl)"
proof (cases rule: decide_cases [of w snap cs s v fl])
  case merge
  have "ps_OnceRoundsDone (dc_state (attempt_merge w v snap s fl)) = ps_OnceRoundsDone s"
    by (cases "merge_pr w v snap") (simp add: attempt_merge_def Let_def split: sum.split mergeOutcome.split)
  with merge show ?thesis by (simp add: once_follows_def polish_requests_none no_polish_merge)
next
  case polish
  have "RunPolish req \<notin> set (rerequestReviews w snap)" for req
    by (auto simp: rerequestReviews_def Let_def split: sum.splits if_split_asm)
  then have "polish_requests (rerequestReviews w snap) = []" by (rule polish_requests_none)
  moreover have "ps_OnceRoundsDone (dc_state (polish_failed w v res e s' fl')) = ps_OnceRoundsDone s'" for res e s' fl'
    by (simp add: polish_failed_def Let_def split: prod.split option.split)
  ultimately show ?thesis using polish
    by (cases "te_polish v (polish_request w snap s)")
      (simp add: polish_round_def note_once_rounds_def add_reported_def Let_def after_actions_def just_def
        once_follows_def split: option.split)
next
  case (nothing a fl')
  then show ?thesis by (simp add: once_follows_def just_def)
qed

lemma record_once:
  assumes "recordSnapshot w v fl snap a e s = (t, b)"
  shows "ps_OnceRoundsDone t = ps_OnceRoundsDone s"
proof -
  have "ps_OnceRoundsDone (fst (record_streak w v fl a s')) = ps_OnceRoundsDone s'" for s'
    by (simp add: record_streak_def Let_def)
  then show ?thesis using assms
    by (auto simp: recordSnapshot_def Let_def case_prod_unfold seen_frame split: if_split_asm)
qed

text \<open>A tick whose write succeeds: at most one polish request, and the file has what it reported.\<close>

lemma tick_once:
  assumes "file_ok w file" and "te_save v = None"
  shows "(polish_requests (to_trace (Tick w v file)) = [] \<and> once_of (tick_step w v file) = once_of file) \<or>
    (\<exists>req. polish_requests (to_trace (Tick w v file)) = [req] \<and> pq_DoneOnceRounds req = once_of file \<and>
      pq_Spec req = wa_polishSpec w \<and>
      once_of (tick_step w v file) = add_reported (fst (te_polish v req)) (once_of file))"
proof (cases "LoadState file")
  case (Inl e)
  then show ?thesis by (simp add: Tick_def tick_step_def once_of_def)
next
  case (Inr s0)
  note load = Inr
  show ?thesis
  proof (cases "cooling s0 (te_clock v 0)")
    case True
    then show ?thesis using load by (simp add: Tick_def tick_step_def once_of_def)
  next
    case False
    note warm = this
    show ?thesis
    proof (cases "te_snapshot v")
      case (Inl e)
      then show ?thesis using load warm by (simp add: Tick_def tick_step_def once_of_def Let_def)
    next
      case (Inr snap)
      define sa where "sa = addressed w s0"
      have sa: "ps_OnceRoundsDone sa = once_of file" using load by (simp add: sa_def addressed_def once_of_def)
      obtain d s b where t: "tick_body w v snap sa = (d, s, b)" by (cases rule: prod_cases3)
      note d = tick_body_split(1) [OF t]
      obtain e where e: "recordSnapshot w v (dc_flags d) snap (dc_action d) e (dc_state d) = (s, b)"
        using tick_body_split(2) [OF t] by blast
      have tr: "to_trace (Tick w v file) = dc_trace d"
        and st: "tick_step w v file = (if b then StateSaved s else file)"
        using load warm Inr assms(2) t by (simp_all add: Tick_def tick_step_def Let_def sa_def)
      have o: "once_of (tick_step w v file) = ps_OnceRoundsDone (dc_state d)"
      proof (cases b)
        case True
        then show ?thesis using record_once [OF e] by (simp add: st once_of_def LoadState_def)
      next
        case False
        show ?thesis
        proof (cases "dc_action d = LastActionDryRun")
          case True
          then show ?thesis using dry_decision \<open>\<not> b\<close> sa by (simp add: d st)
        next
          case False
          have "s = sa" using tick_body_clean [of w v snap sa d s] t \<open>\<not> b\<close> False
              saved_load [OF assms(1) load] by (simp add: sa_def)
          then show ?thesis using record_once [OF e] \<open>\<not> b\<close> sa by (simp add: st)
        qed
      qed
      show ?thesis using decide_once_map [of w v snap "counted snap sa" "ComputeChangeset (Some sa) snap" clear_flags]
        unfolding d [symmetric] tr o once_follows_def by (auto simp: sa polish_request_def)
    qed
  qed
qed

lemma fold_put_lookup:
  "map_of (fold (\<lambda>kv m. mput (fst kv) True m) rs m) k = Some True \<longleftrightarrow> k \<in> keys rs \<or> map_of m k = Some True"
  by (induction rs arbitrary: m) auto

lemma add_reported_lookup:
  "map_of (add_reported res m) k = Some True \<longleftrightarrow> k \<in> keys (pl_RanOnceRounds res) \<or> map_of m k = Some True"
  by (simp add: add_reported_def fold_put_lookup)

text \<open>
  The once-rounds that finish over a sequence of ticks: a pair of the state file and the list of
  their keys so far.
\<close>

definition once_step ::
  "('w \<Rightarrow> PolishRequest \<Rightarrow> RoundSpec list) \<Rightarrow> (RoundSpec \<Rightarrow> string) \<Rightarrow> Watcher \<Rightarrow> tick_env \<times> 'w \<Rightarrow>
   state_file \<times> string list \<Rightarrow> state_file \<times> string list" where
  "once_step fin key w ev st = (case ev of (v, a) \<Rightarrow> case st of (file, keylog) \<Rightarrow>
     (tick_step w v file,
      keylog @ concat (map (\<lambda>req. once_keys key (fin a req)) (polish_requests (to_trace (Tick w v file))))))"

definition once_inv :: "Watcher \<Rightarrow> state_file \<times> string list \<Rightarrow> bool" where
  "once_inv w st \<longleftrightarrow> file_ok w (fst st) \<and> distinct (snd st) \<and>
     (\<forall>k\<in>set (snd st). map_of (once_of (fst st)) k = Some True)"

lemma once_of_ok: "file_ok w file \<Longrightarrow> once_ok (once_of file)"
  using saved_load [of w _] by (auto simp: once_of_def saved_ok_def once_ok_def split: sum.split)

context polish_provider begin

lemma once_step_keeps:
  assumes "once_inv w st" and "te_polish v = run a" and "te_save v = None"
    and "distinct (once_keys key (sp_Rounds (wa_polishSpec w)))"
  shows "once_inv w (once_step fin key w (v, a) st)"
proof -
  obtain sf keylog where st: "st = (sf, keylog)" by (cases st)
  have inv: "file_ok w sf" "distinct keylog" "\<And>k. k \<in> set keylog \<Longrightarrow> map_of (once_of sf) k = Some True"
    using assms(1) by (auto simp: once_inv_def st)
  have ok: "file_ok w (tick_step w v sf)" by (rule tick_keeps [OF inv(1)]) (simp add: save_ok_def assms(3))
  show ?thesis
  proof (cases "polish_requests (to_trace (Tick w v sf)) = []")
    case True
    then have "once_of (tick_step w v sf) = once_of sf" using tick_once [OF inv(1) assms(3)] by auto
    with True ok inv show ?thesis by (simp add: once_inv_def once_step_def st)
  next
    case False
    then obtain req where r: "polish_requests (to_trace (Tick w v sf)) = [req]"
      "pq_DoneOnceRounds req = once_of sf" "pq_Spec req = wa_polishSpec w"
      "once_of (tick_step w v sf) = add_reported (fst (run a req)) (once_of sf)"
      using tick_once [OF inv(1) assms(3)] assms(2) by auto
    define new where "new = once_keys key (fin a req)"
    have "distinct new" unfolding new_def using once_each assms(4) r(3) by metis
    moreover have "set new \<inter> set keylog = {}"
      using reported_fresh [of _ a req] inv(3) unfolding new_def r(2) by blast
    moreover have "map_of (once_of (tick_step w v sf)) k = Some True" if "k \<in> set new \<union> set keylog" for k
      using that inv(3) reported [of a req] add_reported_lookup
      by (auto simp: r(4) new_def)
    ultimately show ?thesis using ok inv(2) by (auto simp: once_inv_def once_step_def st r(1) new_def)
  qed
qed

end

definition polisher_tick :: "(string \<Rightarrow> string) \<Rightarrow> Watcher \<Rightarrow> tick_env \<times> agent_world \<Rightarrow> bool" where
  "polisher_tick h w ev \<longleftrightarrow> te_polish (fst ev) = AgentPolisher (with_hash h (snd ev)) \<and> te_save (fst ev) = None \<and>
     distinct (once_keys (hash_key h) (sp_Rounds (wa_polishSpec w)))"

interpretation once_machine: invariant_machine
  "once_step (\<lambda>a. rounds_finished (with_hash h a)) (hash_key h) w" "polisher_tick h w" "once_inv w" for h w
  by unfold_locales (auto simp: polisher_tick_def intro!: agent_polisher.once_step_keeps)

text \<open>C12. Whatever the agents and the pull request do over any number of ticks, no round that is
  marked \<open>once\<close> finishes twice: the keys of the once-rounds that \<open>AgentPolisher\<close> completed are all
  different, provided the step names different rounds and the state file can be written.\<close>

theorem prdozer_once_rounds:
  assumes "list_all (polisher_tick h w) evs"
  shows "distinct (snd (run_machine (once_step (\<lambda>a. rounds_finished (with_hash h a)) (hash_key h) w)
    evs (NoStateFile, [])))"
proof -
  have "once_inv w (NoStateFile, [])" by (simp add: once_inv_def file_ok_def)
  from once_machine.run_inv [OF this assms] show ?thesis by (simp add: once_inv_def)
qed

definition sample_world :: agent_world where
  "sample_world = \<lparr>aw_key = (\<lambda>s. s), aw_render = (\<lambda>t _. Inr t), aw_one = (\<lambda>_ _. Inr (''s1'', ''done'')),
     aw_shell = (\<lambda>_ _. (''built'', None)), aw_quote = (\<lambda>s. s)\<rparr>"

definition polisher_env :: tick_env where
  "polisher_env = red_env\<lparr>te_polish := AgentPolisher (with_hash (\<lambda>s. s) sample_world)\<rparr>"

theorem prdozer_once_rounds_witness:
  "distinct (snd (run_machine (once_step (\<lambda>a. rounds_finished (with_hash (\<lambda>s. s) a)) (hash_key (\<lambda>s. s)) sample_watcher)
    [(polisher_env, sample_world), (polisher_env, sample_world)] (NoStateFile, [])))"
  by (rule prdozer_once_rounds)
    (simp add: polisher_tick_def polisher_env_def red_env_def sample_env_def sample_watcher_def sample_rounds_def
      once_keys_def)

end
