(* ===== verification/PrdozerRegistry.thy ===== *)
theory PrdozerRegistry
  imports PrdozerWatcher GoPath
begin

text \<open>
  What prdozer is configured with: the registry of repositories with its defaults and the checks
  made when it is loaded (\<open>prdozer/registry.go\<close>), the configuration of the watcher
  (\<open>config.go\<close>), references to pull requests, and the discovery of pull requests
  (\<open>discovery.go\<close>). The YAML decoder, the template engine, the table of models and the file
  system are parameters.
\<close>

section \<open>Registry entries\<close>

record RepoEntry =
  en_WorktreeRoot :: string
  en_Layout :: string
  en_BaseBranch :: string
  en_Flow :: string
  en_MergePolicy :: string
  en_SlackTarget :: string
  en_Model :: string
  en_RequiredChecks :: "string list"
  en_Polish :: StepSpec
  en_MergeRework :: StepSpec
  en_PollInterval :: duration
  en_MaxBudgetUSD :: rat
  en_SelfReview :: bool

record Registry =
  rg_Repos :: "(string, RepoEntry) gomap"
  rg_Defaults :: RepoEntry

abbreviation "LayoutWT \<equiv> ''wt''"
abbreviation "LayoutPlain \<equiv> ''plain''"

definition LayoutValid :: "string \<Rightarrow> bool" where
  "LayoutValid l \<longleftrightarrow> l = LayoutWT \<or> l = LayoutPlain"

definition mergeInto :: "StepSpec \<Rightarrow> StepSpec \<Rightarrow> StepSpec" where
  "mergeInto s d = \<lparr>sp_Model = (if sp_Model s = [] then sp_Model d else sp_Model s),
     sp_Effort = (if sp_Effort s = [] then sp_Effort d else sp_Effort s),
     sp_Rounds = (if sp_Rounds s = [] then sp_Rounds d else sp_Rounds s)\<rparr>"

definition ExpandHome :: "string option \<Rightarrow> string \<Rightarrow> string" where
  "ExpandHome home path =
    (if HasPrefix path ''~/'' \<or> path = ''~''
     then (case home of Some h \<Rightarrow> Join [h, drop 1 path] | None \<Rightarrow> path)
     else path)"

definition or_default :: "string \<Rightarrow> string \<Rightarrow> string" where
  "or_default x d = (if x = [] then d else x)"

definition minutes :: "int \<Rightarrow> duration" where
  "minutes n = n * 60 * 1000000000"

definition merged_entry :: "string option \<Rightarrow> RepoEntry \<Rightarrow> RepoEntry \<Rightarrow> RepoEntry" where
  "merged_entry home d e =
    (let poll = (if en_PollInterval e = 0 then en_PollInterval d else en_PollInterval e) in
     \<lparr>en_WorktreeRoot = ExpandHome home (or_default (en_WorktreeRoot e) (en_WorktreeRoot d)),
      en_Layout = or_default (or_default (en_Layout e) (en_Layout d)) LayoutWT,
      en_BaseBranch = or_default (or_default (en_BaseBranch e) (en_BaseBranch d)) ''main'',
      en_Flow = or_default (or_default (en_Flow e) (en_Flow d)) ''pr-polish'',
      en_MergePolicy = or_default (or_default (en_MergePolicy e) (en_MergePolicy d)) MergePolicyNotify,
      en_SlackTarget = or_default (en_SlackTarget e) (en_SlackTarget d),
      en_Model = or_default (en_Model e) (en_Model d),
      en_RequiredChecks = (if en_RequiredChecks e = [] then en_RequiredChecks d else en_RequiredChecks e),
      en_Polish = mergeInto (en_Polish e) (en_Polish d),
      en_MergeRework = mergeInto (en_MergeRework e) (en_MergeRework d),
      en_PollInterval = (if poll = 0 then minutes 20 else poll),
      en_MaxBudgetUSD = (if en_MaxBudgetUSD e = 0 then en_MaxBudgetUSD d else en_MaxBudgetUSD e),
      en_SelfReview = (en_SelfReview d \<or> en_SelfReview e)\<rparr>)"

definition RepoNames :: "Registry \<Rightarrow> string list" where
  "RepoNames r = sort (map fst (rg_Repos r))"

definition Resolve :: "(string \<Rightarrow> string) \<Rightarrow> string option \<Rightarrow> Registry \<Rightarrow> string \<Rightarrow> string + RepoEntry" where
  "Resolve quote home r ownerRepo =
    (case map_of (rg_Repos r) ownerRepo of
       None \<Rightarrow> Inl (''repo '' @ quote ownerRepo @ '' is not in the registry (known: '' @
                 join_with '', '' (RepoNames r) @ '')'')
     | Some e \<Rightarrow> Inr (merged_entry home (rg_Defaults r) e))"

section \<open>Validation\<close>

datatype stepRoute = routePolish | routeMergeRework

text \<open>
  \<open>ck_template route t\<close> says whether the template engine accepts \<open>t\<close> on the two samples of the
  route; \<open>ck_key\<close> is the key of a once-round.
\<close>

record checker =
  ck_model :: "string \<Rightarrow> bool"
  ck_effort :: "string \<Rightarrow> bool"
  ck_template :: "stepRoute \<Rightarrow> string \<Rightarrow> bool"
  ck_key :: "RoundSpec \<Rightarrow> string"

datatype spec_error =
    InvalidMergePolicy string string | InvalidLayout string string | UnknownModel string string
  | BadEffort string string | BothSet string nat | NoneSet string nat | BadTemplate string nat
  | RepeatedOnce string nat nat

fun validate_rounds ::
  "checker \<Rightarrow> stepRoute \<Rightarrow> string \<Rightarrow> nat \<Rightarrow> (string, nat) gomap \<Rightarrow> RoundSpec list \<Rightarrow> spec_error option" where
  "validate_rounds c route label i onceAt [] = None"
| "validate_rounds c route label i onceAt (r # rs) =
    (if rd_Prompt r \<noteq> [] \<and> rd_Command r \<noteq> [] then Some (BothSet label i)
     else if rd_Prompt r = [] \<and> rd_Command r = [] then Some (NoneSet label i)
     else if \<not> ck_template c route (if rd_Prompt r \<noteq> [] then rd_Prompt r else rd_Command r)
     then Some (BadTemplate label i)
     else if rd_Once r
     then (case map_of onceAt (ck_key c r) of
         Some prev \<Rightarrow> Some (RepeatedOnce label i prev)
       | None \<Rightarrow> validate_rounds c route label (i + 1) (mput (ck_key c r) i onceAt) rs)
     else validate_rounds c route label (i + 1) onceAt rs)"

definition validateStepSpec :: "checker \<Rightarrow> string \<Rightarrow> StepSpec \<Rightarrow> stepRoute \<Rightarrow> spec_error option" where
  "validateStepSpec c label s route =
    (if sp_Model s \<noteq> [] \<and> \<not> ck_model c (sp_Model s) then Some (UnknownModel label (sp_Model s))
     else if sp_Effort s \<noteq> [] \<and> \<not> ck_effort c (sp_Effort s) then Some (BadEffort label (sp_Effort s))
     else validate_rounds c route label 0 [] (sp_Rounds s))"

definition validateEntry :: "checker \<Rightarrow> string \<Rightarrow> RepoEntry \<Rightarrow> spec_error option" where
  "validateEntry c name e =
    (if en_MergePolicy e \<noteq> [] \<and> \<not> PolicyValid (en_MergePolicy e) then Some (InvalidMergePolicy name (en_MergePolicy e))
     else if en_Layout e \<noteq> [] \<and> \<not> LayoutValid (en_Layout e) then Some (InvalidLayout name (en_Layout e))
     else case validateStepSpec c (name @ ''.polish'') (en_Polish e) routePolish of
         Some err \<Rightarrow> Some err
       | None \<Rightarrow> validateStepSpec c (name @ ''.merge_rework'') (en_MergeRework e) routeMergeRework)"

fun first_error :: "checker \<Rightarrow> (string, RepoEntry) gomap \<Rightarrow> string list \<Rightarrow> spec_error option" where
  "first_error c repos [] = None"
| "first_error c repos (n # ns) =
    (case map_of repos n of
       None \<Rightarrow> first_error c repos ns
     | Some e \<Rightarrow> (case validateEntry c n e of Some err \<Rightarrow> Some err | None \<Rightarrow> first_error c repos ns))"

definition validate_registry :: "checker \<Rightarrow> Registry \<Rightarrow> spec_error option" where
  "validate_registry c r =
    (case validateEntry c ''defaults'' (rg_Defaults r) of
       Some err \<Rightarrow> Some err
     | None \<Rightarrow> first_error c (rg_Repos r) (RepoNames r))"

text \<open>\<open>isdir p\<close>: none when \<open>os.Stat\<close> fails; \<open>exists p\<close>: it succeeds.\<close>

definition GitDir :: "(string \<Rightarrow> bool) \<Rightarrow> RepoEntry \<Rightarrow> string" where
  "GitDir exists e =
    (let p = Join [en_WorktreeRoot e, or_default (en_BaseBranch e) ''main''] in
     if en_Layout e = LayoutWT \<and> exists (Join [p, ''.git'']) then p else en_WorktreeRoot e)"

datatype usable_error = NoWorktreeRoot | WorktreeRootMissing | WorktreeRootNotDir | FlowNotImplemented string | NotGitWorkTree string

definition CheckUsable :: "(string \<Rightarrow> bool) \<Rightarrow> (string \<Rightarrow> bool option) \<Rightarrow> RepoEntry \<Rightarrow> usable_error option" where
  "CheckUsable exists isdir e =
    (if en_WorktreeRoot e = [] then Some NoWorktreeRoot
     else case isdir (en_WorktreeRoot e) of
         None \<Rightarrow> Some WorktreeRootMissing
       | Some False \<Rightarrow> Some WorktreeRootNotDir
       | Some True \<Rightarrow>
           if en_Flow e \<noteq> ''pr-polish'' then Some (FlowNotImplemented (en_Flow e))
           else let dir = GitDir exists e in
             if \<not> exists (Join [dir, ''.git'']) then Some (NotGitWorkTree dir) else None)"

section \<open>References\<close>

datatype ref_error = NoHash | NotOwnerRepo | MissingNumber | InvalidNumber string | NotPositive

text \<open>The range over a string yields runes; a rune outside ASCII is no digit. \<open>int\<close> wraps at 64 bits.\<close>

definition wrap64 :: "int \<Rightarrow> int" where
  "wrap64 x = (x + 2 ^ 63) mod 2 ^ 64 - 2 ^ 63"

definition parsePositiveInt :: "string \<Rightarrow> ref_error + int" where
  "parsePositiveInt s =
    (if s = [] then Inl MissingNumber
     else if \<not> list_all is_digit s then Inl (InvalidNumber s)
     else let n = foldl (\<lambda>n c. wrap64 (n * 10 + int (digit_val c))) 0 s in
       if n = 0 then Inl NotPositive else Inr n)"

definition ParsePRRef :: "string \<Rightarrow> ref_error + string \<times> int" where
  "ParsePRRef ref =
    (case Cut (TrimSpace ref) ''#'' of
       None \<Rightarrow> Inl NoHash
     | Some (owner0, num) \<Rightarrow>
         let owner = TrimSpace owner0 in
         if length (split_on CHR ''/'' owner) \<noteq> 2 \<or> HasPrefix owner ''/'' \<or> HasSuffix owner ''/''
         then Inl NotOwnerRepo
         else (case parsePositiveInt (TrimSpace num) of Inl e \<Rightarrow> Inl e | Inr n \<Rightarrow> Inr (owner, n)))"

section \<open>Configuration of the watcher\<close>

record PrConfig =
  gf_WorkDir :: string
  gf_BaseBranch :: string
  gf_Model :: string
  gf_Mode :: string
  gf_PRs :: "int list"
  gf_Author :: string
  gf_Labels :: "string list"
  gf_ExcludeLabels :: "string list"
  gf_MaxConcurrent :: int
  gf_Polish :: PolishConfig
  gf_Backoff :: BackoffConfig
  gf_MaxBudgetUSD :: rat
  gf_PollInterval :: duration

definition defaultConfig :: PrConfig where
  "defaultConfig = \<lparr>gf_WorkDir = ''.'', gf_BaseBranch = ''main'', gf_Model = ''sonnet'', gf_Mode = ''all'',
     gf_PRs = [], gf_Author = ''@me'', gf_Labels = [], gf_ExcludeLabels = [''wip'', ''do-not-watch''],
     gf_MaxConcurrent = 3,
     gf_Polish = \<lparr>pc_PermissionMode = ''bypass'', pc_MergePolicy = MergePolicyNotify, pc_MaxBudgetUSD = 0,
       pc_MaxTurns = 100, pc_RoundsPerTick = 3, pc_Local = False, pc_AutoMerge = False, pc_SelfReview = False\<rparr>,
     gf_Backoff = \<lparr>bc_MaxConsecutiveFailures = 3, bc_Cooldown = minutes 120,
       bc_MaxRoundsWithoutImprovement = 3, bc_MaxPolishCommits = 12\<rparr>,
     gf_MaxBudgetUSD = 50, gf_PollInterval = minutes 30\<rparr>"

datatype cfg_error = ModelRequired | InvalidMode string | ModeNeedsPRs string | ModeAllWithPRs nat
  | InvalidPolicy string | WorkDirMissing string | WorkDirNotDir string

definition ValidateWorkDir :: "(string \<Rightarrow> bool option) \<Rightarrow> string \<Rightarrow> cfg_error option" where
  "ValidateWorkDir isdir path =
    (if path = [] \<or> path = ''.'' then None
     else case isdir path of None \<Rightarrow> Some (WorkDirMissing path)
       | Some d \<Rightarrow> if d then None else Some (WorkDirNotDir path))"

definition validate_config ::
  "(string \<Rightarrow> bool option) \<Rightarrow> string \<Rightarrow> PrConfig \<Rightarrow> cfg_error + PrConfig" where
  "validate_config isdir env_mode c0 =
    (if gf_Model c0 = [] then Inl ModelRequired
     else
       let c1 = c0\<lparr>gf_PollInterval := (if gf_PollInterval c0 \<le> 0 then minutes 30 else gf_PollInterval c0),
                  gf_MaxConcurrent := (if gf_MaxConcurrent c0 \<le> 0 then 3 else gf_MaxConcurrent c0)\<rparr>
       in if gf_Mode c1 \<notin> {''single'', ''list'', ''all'', []} then Inl (InvalidMode (gf_Mode c1))
       else if gf_Mode c1 \<in> {''single'', ''list''} \<and> gf_PRs c1 = [] then Inl (ModeNeedsPRs (gf_Mode c1))
       else if gf_Mode c1 = ''all'' \<and> gf_PRs c1 \<noteq> [] then Inl (ModeAllWithPRs (length (gf_PRs c1)))
       else
         let c2 = (if gf_Mode c1 = ''all'' \<and> gf_Author c1 = [] then c1\<lparr>gf_Author := ''@me''\<rparr> else c1);
             p = gf_Polish c2;
             p1 = (if pc_MaxBudgetUSD p \<le> 0 \<and> gf_MaxBudgetUSD c2 > 0
                   then p\<lparr>pc_MaxBudgetUSD := gf_MaxBudgetUSD c2\<rparr> else p);
             p2 = p1\<lparr>pc_PermissionMode := or_default (pc_PermissionMode p1) ''bypass'',
                     pc_MergePolicy := or_default (pc_MergePolicy p1) MergePolicyNotify\<rparr>
         in if \<not> PolicyValid (pc_MergePolicy p2) then Inl (InvalidPolicy (pc_MergePolicy p2))
         else
           let mode = TrimSpace env_mode;
               p3 = (if mode \<noteq> [] then p2\<lparr>pc_PermissionMode := mode\<rparr> else p2)
           in (case ValidateWorkDir isdir (gf_WorkDir c2) of
                 Some e \<Rightarrow> Inl e
               | None \<Rightarrow> Inr (c2\<lparr>gf_Polish := p3\<rparr>)))"

section \<open>Discovery\<close>

record DiscoveredPR =
  di_HeadRefName :: string
  di_BaseRefName :: string
  di_URL :: string
  di_HeadRepoOwner :: string
  di_Labels :: "string list"
  di_Number :: int
  di_IsDraft :: bool
  di_IsCrossRepository :: bool

definition zero_DiscoveredPR :: DiscoveredPR where
  "zero_DiscoveredPR = \<lparr>di_HeadRefName = [], di_BaseRefName = [], di_URL = [], di_HeadRepoOwner = [],
     di_Labels = [], di_Number = 0, di_IsDraft = False, di_IsCrossRepository = False\<rparr>"

definition dec_discovered :: "DiscoveredPR decoder" where
  "dec_discovered = dec_struct
     [(''headRefName'', dec_string di_HeadRefName_update), (''baseRefName'', dec_string di_BaseRefName_update),
      (''url'', dec_string di_URL_update),
      (''headRepositoryOwner'', dec_struct [(''login'', dec_string di_HeadRepoOwner_update)]),
      (''labels'', dec_list (dec_struct [(''name'', dec_string (\<lambda>f. f))]) [] di_Labels_update),
      (''number'', dec_int di_Number_update), (''isDraft'', dec_bool di_IsDraft_update),
      (''isCrossRepository'', dec_bool di_IsCrossRepository_update)]"

abbreviation "discover_fields \<equiv>
  ''number,headRefName,baseRefName,url,isDraft,labels,isCrossRepository,headRepositoryOwner''"

text \<open>All numbers are looked up; the error of the first one that fails is returned.\<close>

definition fetch_one :: "snap_env \<Rightarrow> int \<Rightarrow> string + DiscoveredPR" where
  "fetch_one v n =
    (case run_gh v [''pr'', ''view'', Itoa n, ''--json'', discover_fields] of
       Inl e \<Rightarrow> Inl e
     | Inr out \<Rightarrow> (case unmarshal v dec_discovered zero_DiscoveredPR out of
         None \<Rightarrow> Inl (''parse pr view #'' @ Itoa n) | Some d \<Rightarrow> Inr d))"

fun fetchByNumbers :: "snap_env \<Rightarrow> int list \<Rightarrow> string + DiscoveredPR list" where
  "fetchByNumbers v [] = Inr []"
| "fetchByNumbers v (n # ns) =
    (case fetch_one v n of
       Inl e \<Rightarrow> Inl e
     | Inr d \<Rightarrow> (case fetchByNumbers v ns of Inl e \<Rightarrow> Inl e | Inr ds \<Rightarrow> Inr (d # ds)))"

definition wanted :: "string list \<Rightarrow> string list \<Rightarrow> DiscoveredPR \<Rightarrow> bool" where
  "wanted include exclude d \<longleftrightarrow>
     \<not> list_ex (\<lambda>l. l \<in> set exclude) (di_Labels d) \<and>
     (include = [] \<or> list_ex (\<lambda>l. l \<in> set include) (di_Labels d))"

definition discoverAll :: "snap_env \<Rightarrow> PrConfig \<Rightarrow> string + DiscoveredPR list" where
  "discoverAll v c =
    (let author = TrimSpace (gf_Author c);
         args = [''pr'', ''list'', ''--state'', ''open'', ''--json'', discover_fields, ''--limit'', ''200''] @
           (if author \<noteq> [] then [''--author'', author] else [])
     in case run_gh v args of
          Inl e \<Rightarrow> Inl e
        | Inr out \<Rightarrow> (case unmarshal v (dec_list dec_discovered zero_DiscoveredPR (\<lambda>f. f)) [] out of
            None \<Rightarrow> Inl ''parse pr list''
          | Some raws \<Rightarrow> Inr (filter (wanted (gf_Labels c) (gf_ExcludeLabels c)) raws)))"

definition DiscoverPRs :: "snap_env \<Rightarrow> (string \<Rightarrow> string) \<Rightarrow> PrConfig \<Rightarrow> string + DiscoveredPR list" where
  "DiscoverPRs v quote c =
    (if gf_Mode c \<in> {''single'', ''list''} then fetchByNumbers v (gf_PRs c)
     else if gf_Mode c \<in> {''all'', []} then discoverAll v c
     else Inl (''unsupported source.mode '' @ quote (gf_Mode c)))"

end
