(* ===== verification/PrdozerBabysit.thy ===== *)
theory PrdozerBabysit
  imports PrdozerAgent PrdozerRegistry
begin

text \<open>
  The babysitter (\<open>prdozer/babysit.go\<close>): ticks until the run is over, a warning for each new
  cooldown window, and how the registry configures the watcher. What is proved: it stops once
  too many invocations of the polish agent have produced nothing, remembered identifiers are the
  largest ones, and a pull request with more comments than the cap is never merged.
\<close>

section \<open>The loop\<close>

datatype TerminalState = TerminalMerged | TerminalClosed | TerminalNeedsHuman | TerminalFailed | TerminalRunning

definition terminalFor :: "PrTickResult \<Rightarrow> int \<Rightarrow> (TerminalState \<times> string) option" where
  "terminalFor res n = (case ti_Action res of
      LastActionMerged \<Rightarrow> Some (TerminalMerged, ''PR #'' @ Itoa n @ '' merged.'')
    | LastActionClosed \<Rightarrow> Some (TerminalClosed, ''PR #'' @ Itoa n @ '' was closed without merging.'')
    | LastActionNeedsHuman \<Rightarrow> Some (TerminalNeedsHuman,
        if ti_Stalled res then
          ''PR #'' @ Itoa n @ '' stalled: '' @ Itoa (ti_InvocationsSinceRound res) @
          '' polish invocations produced no completed round, so the run was halted rather than burning further attempts. Nothing is wrong with the PR itself '' @
          [CHR 0xE2, CHR 0x80, CHR 0x94] @ '' check the agent backend. Last error: '' @ ti_StallError res
        else if ti_Ratcheted res then
          ''PR #'' @ Itoa n @ '' grew past its scope cap: prdozer'' @ [CHR 0x27] @ ''s own rounds have added '' @
          Itoa (ti_PolishCommits res) @ '' commits (limit '' @ Itoa (ti_PolishCommitLimit res) @ '', '' @
          Itoa (ti_PolishRounds res) @ '' rounds total). Nothing failed '' @ [CHR 0xE2, CHR 0x80, CHR 0x94] @
          '' every round succeeded, which is why no other guard caught it. Decide what to cut or split before resuming.''
        else if ti_Diverged res then
          ''PR #'' @ Itoa n @ '' stopped improving: '' @ Itoa (ti_RoundsSinceImprovement res) @
          '' polish rounds produced no better result ('' @ Itoa (ti_PolishRounds res) @
          '' rounds total), so the run was halted before it degraded the PR further. Review the pushed commits before resuming.''
        else
          ''This PR needs a human: it is blocked on something no agent round can resolve (a review approval, or a merge policy that never merges).'')
    | _ \<Rightarrow> None)"

definition cooldown_detail :: "time \<Rightarrow> string \<Rightarrow> string" where
  "cooldown_detail t cause =
     ''Repeated failures tripped the backoff cooldown; retrying after '' @ FormatRFC3339 t @ ''.'' @ [CHR 0x0A] @
     ''Last error: '' @ (if cause = [] then ''not recorded; see the run log for the failing step'' else cause)"

record babysit =
  bb_file :: state_file
  bb_cooldownReported :: "time option"
  bb_warnings :: "(time \<times> string) list"
  bb_trace :: "pr_action list"
  bb_done :: "(TerminalState \<times> string) option"

definition report_cooldown :: "babysit \<Rightarrow> babysit" where
  "report_cooldown b = (case LoadState (bb_file b) of
      Inl _ \<Rightarrow> b
    | Inr s \<Rightarrow> (case ps_CooldownUntil s of
        None \<Rightarrow> b
      | Some t \<Rightarrow>
          if (case bb_cooldownReported b of None \<Rightarrow> True | Some r \<Rightarrow> r < t)
          then b\<lparr>bb_cooldownReported := Some t,
                 bb_warnings := bb_warnings b @ [(t, cooldown_detail t (ps_LastCooldownCause s))]\<rparr>
          else b))"

text \<open>
  One pass of the loop. \<open>go_on\<close> says whether the wait for the next poll ends without the context
  being cancelled. A pass after the loop has returned does nothing.
\<close>

definition babysit_step :: "Watcher \<Rightarrow> bool \<Rightarrow> tick_env \<times> bool \<Rightarrow> babysit \<Rightarrow> babysit" where
  "babysit_step w once ev b =
    (if bb_done b \<noteq> None then b
     else case ev of (v, go_on) \<Rightarrow>
       let out = Tick w v (bb_file b);
           b1 = b\<lparr>bb_file := to_file out, bb_trace := bb_trace b @ to_trace out\<rparr>;
           fin = (if to_error out = None then terminalFor (to_result out) (wa_pr w) else None)
       in if fin \<noteq> None then b1\<lparr>bb_done := fin\<rparr>
          else let b2 = report_cooldown b1 in
            if once then b2\<lparr>bb_done := Some (TerminalRunning, ''single tick requested'')\<rparr>
            else if \<not> go_on then b2\<lparr>bb_done := Some (TerminalRunning, ''context cancelled'')\<rparr>
            else b2)"

definition babysit_start :: "state_file \<Rightarrow> babysit" where
  "babysit_start f = \<lparr>bb_file = f, bb_cooldownReported = None, bb_warnings = [], bb_trace = [], bb_done = None\<rparr>"

definition nextPollDelay :: "duration \<Rightarrow> duration \<Rightarrow> duration" where
  "nextPollDelay interval elapsed = (let remaining = interval - elapsed in if remaining > 0 then remaining else 0)"

text \<open>The babysitter's watcher: the defaults with the entry's overrides, auto-merge always on.\<close>

definition babysit_watcher :: "RepoEntry \<Rightarrow> string \<Rightarrow> int \<Rightarrow> string \<Rightarrow> Watcher" where
  "babysit_watcher e ownerRepo n worktree =
    (let p = gf_Polish defaultConfig in
     \<lparr>wa_Polish = p\<lparr>pc_MaxBudgetUSD := (if en_MaxBudgetUSD e > 0 then en_MaxBudgetUSD e else gf_MaxBudgetUSD defaultConfig),
          pc_MergePolicy := en_MergePolicy e, pc_SelfReview := en_SelfReview e, pc_AutoMerge := True\<rparr>,
      wa_Backoff = gf_Backoff defaultConfig,
      wa_Model = or_default (en_Model e) (gf_Model defaultConfig), wa_repo = ownerRepo,
      wa_workDir = worktree, wa_polishSpec = en_Polish e, wa_reworkSpec = en_MergeRework e,
      wa_pr = n, wa_dryRun = False, wa_has_polish = True, wa_has_rework = True\<rparr>)"

section \<open>Barren invocations\<close>

definition barren :: "Watcher \<Rightarrow> PRState \<Rightarrow> bool" where
  "barren w s \<longleftrightarrow> 0 < bc_MaxConsecutiveFailures (wa_Backoff w) \<and>
     2 * bc_MaxConsecutiveFailures (wa_Backoff w) \<le> ps_InvocationsSinceRound s"

lemma counted_barren: "barren w (counted snap s) \<Longrightarrow> barren w s"
  by (auto simp: barren_def counted_def recordHealth_def recordPolishWork_def expireStaleDivergence_def Let_def
      case_prod_unfold split: option.splits if_split_asm)

lemma decide_barren:
  assumes "\<not> barren w s" and "dc_action (decideAndAct w v snap cs s fl) \<noteq> LastActionNeedsHuman"
  shows "\<not> barren w (dc_state (decideAndAct w v snap cs s fl))"
proof (cases rule: decide_cases [of w snap cs s v fl])
  case merge
  have "ps_InvocationsSinceRound (dc_state (attempt_merge w v snap s fl)) = ps_InvocationsSinceRound s"
    by (cases "merge_pr w v snap") (simp add: attempt_merge_def Let_def split: sum.split mergeOutcome.split)
  with merge assms(1) show ?thesis by (simp add: barren_def)
next
  case polish
  define s1 where "s1 = note_once_rounds (fst (te_polish v (polish_request w snap s))) s"
  have n: "ps_InvocationsSinceRound s1 = ps_InvocationsSinceRound s" by (simp add: s1_def note_once_rounds_def)
  have f: "\<not> barren w (dc_state (polish_failed w v res e s1 fl))"
    if "dc_action (polish_failed w v res e s1 fl) \<noteq> LastActionNeedsHuman" for res e
    using that assms(1) n by (auto simp: polish_failed_def barren_def Let_def split: prod.splits option.splits if_split_asm)
  have z: "\<not> barren w (t\<lparr>ps_InvocationsSinceRound := 0\<rparr>)" "\<not> barren w (t\<lparr>ps_InvocationsSinceRound := 0, ps_SelfReviewedSHA := x\<rparr>)" for t x
    by (auto simp: barren_def)
  show ?thesis using polish assms(2) f z unfolding polish_round_def Let_def
    by (cases "te_polish v (polish_request w snap s)") (auto simp: s1_def split: option.splits)
next
  case nothing
  then show ?thesis using assms(1) by simp
qed

lemma terminal_human: "ti_Action r = LastActionNeedsHuman \<Longrightarrow> terminalFor r n \<noteq> None"
  by (simp add: terminalFor_def)

definition not_barren_file :: "Watcher \<Rightarrow> state_file \<Rightarrow> bool" where
  "not_barren_file w f \<longleftrightarrow> (case LoadState f of Inr s \<Rightarrow> \<not> barren w s | Inl _ \<Rightarrow> True)"

lemma tick_barren:
  assumes "file_ok w f" and "te_save v = None" and "not_barren_file w f"
    and "to_error (Tick w v f) = None \<Longrightarrow> ti_Action (to_result (Tick w v f)) \<noteq> LastActionNeedsHuman"
  shows "not_barren_file w (to_file (Tick w v f))"
proof (cases "LoadState f")
  case (Inl e)
  then show ?thesis using assms(3) by (simp add: Tick_def)
next
  case (Inr s0)
  note load = Inr
  show ?thesis
  proof (cases "te_snapshot v")
    case (Inl e)
    then show ?thesis using load assms(3) by (simp add: Tick_def Let_def)
  next
    case (Inr snap)
    obtain d s b where t: "tick_body w v snap (addressed w s0) = (d, s, b)" by (cases rule: prod_cases3)
    show ?thesis
    proof (cases "cooling s0 (te_clock v 0) \<or> \<not> b")
      case True
      then show ?thesis using load Inr t assms(3) by (auto simp: Tick_def Let_def)
    next
      case False
      then have tick: "to_file (Tick w v f) = StateSaved s" "to_error (Tick w v f) = None"
        "ti_Action (to_result (Tick w v f)) = dc_action d"
        using load Inr t assms(2) by (simp_all add: Tick_def Let_def tick_result_def)
      have dry: "dc_action d \<noteq> LastActionDryRun" using False dry_not_saved [OF t] by blast
      have ok: "prs_ok w (addressed w s0)" using load_ok [OF assms(1) load] by (simp add: addressed_ok)
      have "\<not> barren w (counted snap (addressed w s0))"
        using assms(3) load counted_barren [of w snap "addressed w s0"]
        by (auto simp: not_barren_file_def barren_def addressed_def)
      then have "\<not> barren w (dc_state d)"
        using decide_barren assms(4) tick unfolding tick_body_split(1) [OF t] by metis
      then show ?thesis using tick_body_ok(3) [OF t ok dry] by (simp add: tick(1) not_barren_file_def LoadState_def barren_def)
    qed
  qed
qed

definition babysit_inv :: "Watcher \<Rightarrow> babysit \<Rightarrow> bool" where
  "babysit_inv w b \<longleftrightarrow> file_ok w (bb_file b) \<and> (bb_done b = None \<longrightarrow> not_barren_file w (bb_file b))"

lemma report_frame [simp]: "bb_file (report_cooldown b) = bb_file b" "bb_done (report_cooldown b) = bb_done b"
  by (simp_all add: report_cooldown_def split: sum.split option.split)

lemma babysit_keeps:
  assumes "babysit_inv w b" and "te_save (fst ev) = None"
  shows "babysit_inv w (babysit_step w once ev b)"
proof (cases "bb_done b")
  case None
  obtain v go_on where ev: "ev = (v, go_on)" by (cases ev)
  have ok: "file_ok w (to_file (Tick w v (bb_file b)))"
    using tick_keeps [of w "bb_file b" v] assms by (simp add: babysit_inv_def save_ok_def ev tick_step_def)
  have "not_barren_file w (to_file (Tick w v (bb_file b)))"
    if "to_error (Tick w v (bb_file b)) = None \<Longrightarrow> terminalFor (to_result (Tick w v (bb_file b))) (wa_pr w) = None"
  proof (rule tick_barren)
    show "file_ok w (bb_file b)" "te_save v = None" "not_barren_file w (bb_file b)"
      using assms None by (simp_all add: babysit_inv_def ev)
    show "ti_Action (to_result (Tick w v (bb_file b))) \<noteq> LastActionNeedsHuman"
      if "to_error (Tick w v (bb_file b)) = None"
      using terminal_human \<open>_ \<Longrightarrow> terminalFor _ _ = None\<close> [OF that] by metis
  qed
  then show ?thesis using None ok
    by (cases "terminalFor (to_result (Tick w v (bb_file b))) (wa_pr w)"; cases "to_error (Tick w v (bb_file b))")
      (simp_all add: babysit_inv_def babysit_step_def ev Let_def)
qed (use assms in \<open>simp add: babysit_step_def\<close>)

interpretation babysitter: invariant_machine "babysit_step w once" "\<lambda>ev. te_save (fst ev) = None" "babysit_inv w"
  for w once
  by unfold_locales (rule babysit_keeps)

text \<open>C38. However the polish agent fails, the babysitter does not go on after twice the allowed number
  of consecutive invocations that completed no round (provider outages aside): at every moment
  at which its loop has not returned, the counter is below that limit.\<close>

theorem prdozer_barren_run_stops:
  assumes "list_all (\<lambda>ev. te_save (fst ev) = None) evs" and "0 < bc_MaxConsecutiveFailures (wa_Backoff w)"
    and "run_machine (babysit_step w once) (take n evs) (babysit_start NoStateFile) = b"
    and "bb_done b = None" and "LoadState (bb_file b) = Inr s"
  shows "ps_InvocationsSinceRound s < 2 * bc_MaxConsecutiveFailures (wa_Backoff w)"
proof -
  have "babysit_inv w (babysit_start NoStateFile)"
    by (simp add: babysit_inv_def babysit_start_def file_ok_def not_barren_file_def LoadState_def zero_PRState_def barren_def)
  then have "babysit_inv w b" unfolding assms(3) [symmetric] by (rule babysitter.run_prefix_inv) (rule assms(1))
  then show ?thesis using assms(2,4,5) by (simp add: babysit_inv_def not_barren_file_def barren_def)
qed

definition sample_run :: babysit where
  "sample_run = run_machine (babysit_step sample_watcher False) (take 1 [(red_env, True), (red_env, True)])
     (babysit_start NoStateFile)"

lemma sample_run: "bb_done sample_run = None"
  "LoadState (bb_file sample_run) = Inr (case bb_file sample_run of StateSaved s \<Rightarrow> s | _ \<Rightarrow> zero_PRState)"
  by code_simp+

theorem prdozer_barren_run_stops_witness:
  "ps_InvocationsSinceRound (case bb_file sample_run of StateSaved s \<Rightarrow> s | _ \<Rightarrow> zero_PRState) <
     2 * bc_MaxConsecutiveFailures (wa_Backoff sample_watcher)"
  by (rule prdozer_barren_run_stops [OF _ _ sample_run_def [symmetric] sample_run])
    (simp_all add: red_env_def sample_env_def sample_watcher_def sample_backoff_def)

section \<open>The identifiers seen\<close>

definition largest :: "nat \<Rightarrow> 'a::linorder set \<Rightarrow> 'a list" where
  "largest n A = (let xs = sorted_list_of_set A in drop (length xs - n) xs)"

lemma sort_union: "sort (remdups (xs @ ys)) = sorted_list_of_set (set xs \<union> set ys)"
  by (metis set_append sorted_list_of_set_sort_remdups)

text \<open>Merging newly seen identifiers into the remembered ones is the same as taking the 500 largest
  of their union, in order, and reports a change exactly when one of them is not remembered.\<close>

theorem prdozer_seen_ids:
  assumes "ids_ok existing"
  shows "mergeSortedCapped existing incoming =
    (largest maxSeenIDs (set existing \<union> set incoming), \<not> set incoming \<subseteq> set existing)"
proof (cases "set incoming \<subseteq> set existing")
  case True
  then have "set existing \<union> set incoming = set existing" by blast
  moreover have "sorted_list_of_set (set existing) = existing"
    using assms by (simp add: ids_ok_def sorted_list_of_set.idem_if_sorted_distinct)
  ultimately show ?thesis using True assms
    by (auto simp: mergeSortedCapped_def largest_def ids_ok_def list_all_iff)
next
  case False
  then show ?thesis
    by (auto simp: mergeSortedCapped_def largest_def Let_def sort_union list_all_iff)
qed

theorem prdozer_seen_ids_witness:
  "mergeSortedCapped [1, 4] [3, 1 :: int] =
    (largest maxSeenIDs (set [1, 4] \<union> set [3, 1]), \<not> set [3, 1 :: int] \<subseteq> set [1, 4])"
  by (rule prdozer_seen_ids) (simp add: ids_ok_def maxSeenIDs_def)

section \<open>Forgotten comments\<close>

lemma unseen_comment:
  assumes "ids_ok (ps_LastSeenCommentIDs s)"
    and "maxSeenIDs < card (cr_ID ` {c \<in> set (pn_Comments snap). \<not> cr_IsSelf c})"
  obtains c where "c \<in> set (pn_Comments snap)" "\<not> cr_IsSelf c" "cr_ID c \<notin> set (ps_LastSeenCommentIDs s)"
proof -
  have "card (set (ps_LastSeenCommentIDs s)) \<le> maxSeenIDs"
    using assms(1) card_length [of "ps_LastSeenCommentIDs s"] by (simp add: ids_ok_def)
  moreover have "card (cr_ID ` {c \<in> set (pn_Comments snap). \<not> cr_IsSelf c}) \<le> card (set (ps_LastSeenCommentIDs s))"
    if "cr_ID ` {c \<in> set (pn_Comments snap). \<not> cr_IsSelf c} \<subseteq> set (ps_LastSeenCommentIDs s)"
    using that by (rule card_mono [OF finite_set])
  ultimately have "\<not> cr_ID ` {c \<in> set (pn_Comments snap). \<not> cr_IsSelf c} \<subseteq> set (ps_LastSeenCommentIDs s)"
    using assms(2) by linarith
  then show ?thesis using that by blast
qed

text \<open>A pull request with more than 500 comments by others is never merged after the first tick:
  the cap makes the watcher forget some of them, so that every tick reports new comments,
  however often they have all been seen.\<close>

theorem prdozer_busy_pr_never_merged:
  assumes "file_ok w f" and "LoadState f = Inr s" and "ps_LastCheckAt s \<noteq> None"
    and "te_snapshot v = Inr snap"
    and "maxSeenIDs < card (cr_ID ` {c \<in> set (pn_Comments snap). \<not> cr_IsSelf c})"
  shows "\<not> list_ex (merge_command n) (to_trace (Tick w v f))"
proof
  assume "list_ex (merge_command n) (to_trace (Tick w v f))"
  then obtain x where x: "x \<in> set (to_trace (Tick w v f))" "merge_command n x" by (auto simp: list_ex_iff)
  obtain snap' where m: "te_snapshot v = Inr snap'"
    and tr: "to_trace (Tick w v f) = dc_trace (fst (tick_body w v snap' (addressed w s)))"
    using tick_acts [OF x(1)] assms(2) by (metis sum.inject(2))
  have "mergeable_now (addressed w s) snap'" using x merge_guard merge_conditions(1) unfolding tr by blast
  then have now: "mergeable_now s snap'" by simp
  have "saved_ok s" using saved_load [OF assms(1,2)] .
  then have "ids_ok (ps_LastSeenCommentIDs s)" by (simp add: saved_ok_def)
  from unseen_comment [OF this assms(5)] obtain c where
    "c \<in> set (pn_Comments snap)" "\<not> cr_IsSelf c" "cr_ID c \<notin> set (ps_LastSeenCommentIDs s)" .
  then show False using m now assms(3,4) by (auto simp: mergeable_now_def)
qed

definition foreign_comment :: "nat \<Rightarrow> CommentRef" where
  "foreign_comment k = \<lparr>cr_Created = 0, cr_ID = replicate k CHR ''x'', cr_Source = ''issue'', cr_Author = ''ann'',
     cr_IsBot = False, cr_IsSelf = False\<rparr>"

definition busy_snapshot :: PRSnapshot where
  "busy_snapshot = (sample_snapshot StatusSuccess)\<lparr>pn_Comments := map foreign_comment [0..<501]\<rparr>"

lemma busy_comments: "card (cr_ID ` {c \<in> set (pn_Comments busy_snapshot). \<not> cr_IsSelf c}) = 501"
proof -
  have "{c \<in> set (pn_Comments busy_snapshot). \<not> cr_IsSelf c} = foreign_comment ` {0..<501}"
    by (auto simp: busy_snapshot_def foreign_comment_def)
  then have "cr_ID ` {c \<in> set (pn_Comments busy_snapshot). \<not> cr_IsSelf c} = (\<lambda>k. replicate k CHR ''x'') ` {0..<501}"
    by (simp add: image_image foreign_comment_def)
  moreover have "inj_on (\<lambda>k. replicate k CHR ''x'') {0..<501}" by (auto simp: inj_on_def)
  ultimately show ?thesis by (simp add: card_image)
qed

theorem prdozer_busy_pr_never_merged_witness:
  "\<not> list_ex (merge_command 7) (to_trace (Tick sample_watcher (sample_env busy_snapshot barren_agent)
     (StateSaved (zero_PRState\<lparr>ps_LastCheckAt := Some 1\<rparr>))))"
proof (rule prdozer_busy_pr_never_merged)
  show "file_ok sample_watcher (StateSaved (zero_PRState\<lparr>ps_LastCheckAt := Some 1\<rparr>))"
    using zero_ok [of sample_watcher] by (simp add: file_ok_def prs_defs)
  show "LoadState (StateSaved (zero_PRState\<lparr>ps_LastCheckAt := Some 1\<rparr>)) = Inr (zero_PRState\<lparr>ps_LastCheckAt := Some 1\<rparr>)"
    by (simp add: LoadState_def)
  show "te_snapshot (sample_env busy_snapshot barren_agent) = Inr busy_snapshot" by (simp add: sample_env_def)
  show "maxSeenIDs < card (cr_ID ` {c \<in> set (pn_Comments busy_snapshot). \<not> cr_IsSelf c})"
    by (simp only: busy_comments) (simp add: maxSeenIDs_def)
qed simp

end
