(* ===== verification/GoRegex.thy ===== *)
theory GoRegex
  imports GoText
begin

text \<open>
  What the program uses of package \<open>regexp\<close>: \<open>ReplaceAllString\<close> for patterns that match a bounded
  class of bytes. A pattern is a matcher: given the byte before and the rest of the text it says how
  many bytes it matches here, if it does. Matches are leftmost and do not overlap; the patterns never
  match the empty text.
\<close>

type_synonym matcher = "char option \<Rightarrow> string \<Rightarrow> nat option"

function replace_all :: "matcher \<Rightarrow> string \<Rightarrow> char option \<Rightarrow> string \<Rightarrow> string" where
  "replace_all m r prev [] = []"
| "replace_all m r prev (c # s) =
    (case m prev (c # s) of
       Some (Suc n) \<Rightarrow> r @ replace_all m r (Some (last (take (Suc n) (c # s)))) (drop n s)
     | _ \<Rightarrow> c # replace_all m r (Some c) s)"
  by pat_completeness auto
termination by (relation "measure (\<lambda>(m, r, prev, s). length s)") auto

definition ReplaceAllString :: "matcher \<Rightarrow> string \<Rightarrow> string \<Rightarrow> string" where
  "ReplaceAllString m r s = replace_all m r None s"

text \<open>The number of bytes of a class at the start of a text, and a fixed sequence of classes.\<close>

definition run_of :: "(char \<Rightarrow> bool) \<Rightarrow> string \<Rightarrow> nat" where
  "run_of p s = length (takeWhile p s)"

definition classes :: "(char \<Rightarrow> bool) list \<Rightarrow> string \<Rightarrow> bool" where
  "classes ps s \<longleftrightarrow> length ps \<le> length s \<and> list_all2 (\<lambda>p c. p c) ps (take (length ps) s)"

definition lit :: "string \<Rightarrow> (char \<Rightarrow> bool) list" where
  "lit s = map (\<lambda>c d. d = c) s"

definition word_char :: "char \<Rightarrow> bool" where
  "word_char c \<longleftrightarrow> is_digit c \<or> (CHR ''a'' \<le> c \<and> c \<le> CHR ''z'') \<or> (CHR ''A'' \<le> c \<and> c \<le> CHR ''Z'') \<or> c = CHR ''_''"

definition hex_char :: "char \<Rightarrow> bool" where
  "hex_char c \<longleftrightarrow> is_digit c \<or> (CHR ''a'' \<le> c \<and> c \<le> CHR ''f'')"

text \<open>\<open>\\s\<close> of \<open>regexp\<close>, which has no vertical tab.\<close>

definition re_space :: "char \<Rightarrow> bool" where
  "re_space c \<longleftrightarrow> byte c \<in> {9, 10, 12, 13, 32}"

lemma replace_all_free:
  assumes "\<And>prev t. suffix t s \<Longrightarrow> t \<noteq> [] \<Longrightarrow> m prev t = None"
  shows "replace_all m r prev s = s"
  using assms
proof (induction s arbitrary: prev)
  case (Cons c s)
  have "m prev (c # s) = None" by (rule Cons.prems) simp_all
  moreover have "replace_all m r (Some c) s = s" by (rule Cons.IH) (simp add: Cons.prems suffix_ConsI)
  ultimately show ?case by (simp only: replace_all.simps option.case)
qed simp

text \<open>\<open>strings.LastIndex\<close>.\<close>

definition LastIndex :: "string \<Rightarrow> string \<Rightarrow> nat option" where
  "LastIndex s sub = (case filter (\<lambda>i. prefix sub (drop i s)) [0..<Suc (length s)] of
      [] \<Rightarrow> None | js \<Rightarrow> Some (last js))"

text \<open>\<open>strings.ReplaceAll\<close> of one byte.\<close>

definition replace_byte :: "char \<Rightarrow> string \<Rightarrow> string \<Rightarrow> string" where
  "replace_byte c r s = concat (map (\<lambda>d. if d = c then r else [d]) s)"

end
