(* ===== verification/MedivacIssue.thy ===== *)
theory MedivacIssue
  imports GoRegex GoJson
begin

text \<open>
  The known CI failures of \<open>medivac\<close> (\<open>medivac/issue\<close>): signatures that identify a failure across
  runs, and the tracker, a map from signatures to issues with the runs that were triaged. The hash
  (SHA-256 in hexadecimal), the Unicode case tables, the parsers of JSON and of times and the fixed
  instructions of a prompt are parameters. The tracker's map of pointers
  is an association list, and what the code returns as pointers into it are signatures. The file is the
  value that is encoded in it, since the encoding is that of \<open>encoding/json\<close> on both sides.
\<close>

section \<open>Signatures\<close>

record ci_lib =
  ci_sha :: "string \<Rightarrow> string"
  ci_case :: casing
  ci_parse :: "string \<Rightarrow> json option"
  ci_time :: "string \<Rightarrow> time option"
  ci_instructions :: string

definition normalizeLineCol :: matcher where
  "normalizeLineCol prev s =
    (case s of
       c # t \<Rightarrow>
         (let n = run_of is_digit t in
          if c = CHR '':'' \<and> n > 0 \<and> (\<exists>d\<in>set (take 1 (drop n t)). d = CHR '':'') then
            (let k = run_of is_digit (drop (Suc n) t) in if k > 0 then Some (2 + n + k) else None)
          else None)
     | [] \<Rightarrow> None)"

text \<open>\<open>\\b[0-9a-f]{7,40}\\b\<close>: a whole word of hexadecimal digits.\<close>

definition normalizeHex :: matcher where
  "normalizeHex prev s =
    (let n = run_of hex_char s in
     if (case prev of None \<Rightarrow> True | Some c \<Rightarrow> \<not> word_char c) \<and> 7 \<le> n \<and> n \<le> 40 \<and>
        list_all (\<lambda>c. \<not> word_char c) (take 1 (drop n s))
     then Some n else None)"

definition timestamp_classes :: "(char \<Rightarrow> bool) list" where
  "timestamp_classes =
     replicate 4 is_digit @ lit ''-'' @ replicate 2 is_digit @ lit ''-'' @ replicate 2 is_digit @
     [\<lambda>c. c = CHR ''T'' \<or> c = CHR '' ''] @ replicate 2 is_digit @ lit '':'' @ replicate 2 is_digit @ lit '':'' @
     replicate 2 is_digit"

definition normalizeTS :: matcher where
  "normalizeTS prev s = (if classes timestamp_classes s then Some 19 else None)"

definition normalizeWhitespace :: matcher where
  "normalizeWhitespace prev s = (if run_of re_space s > 0 then Some (run_of re_space s) else None)"

definition normalizeMessage :: "ci_lib \<Rightarrow> string \<Rightarrow> string" where
  "normalizeMessage l msg =
    (let m1 = ReplaceAllString normalizeLineCol [] msg;
         m2 = ReplaceAllString normalizeHex [] m1;
         m3 = ReplaceAllString normalizeTS [] m2;
         m4 = TrimRight (set ''.!,;:?'') m3;
         m5 = ReplaceAllString normalizeWhitespace '' '' m4
     in TrimSpace (ToLower (cs_lower (ci_case l)) m5))"

text \<open>\<open>^services/[^/]+/[^/]+/\<close>: what follows the prefix, if the path has it.\<close>

definition buildContextPrefixRe :: "string \<Rightarrow> string option" where
  "buildContextPrefixRe path =
    (case split_on (CHR ''/'') path of
       s # a # b # c # rest \<Rightarrow>
         if s = ''services'' \<and> a \<noteq> [] \<and> b \<noteq> [] then Some (join_with ''/'' (c # rest)) else None
     | _ \<Rightarrow> None)"

definition srcPrefixes :: "string list" where
  "srcPrefixes = [''src/'', ''lib/'', ''test/'', ''tests/'', ''pkg/'', ''cmd/'', ''internal/'']"

definition stripBuildContextPrefix :: "string \<Rightarrow> string" where
  "stripBuildContextPrefix path =
    (case buildContextPrefixRe path of
       None \<Rightarrow> path
     | Some remainder \<Rightarrow> if list_ex (HasPrefix remainder) srcPrefixes then remainder else path)"

definition canonicalizePath :: "string \<Rightarrow> string" where
  "canonicalizePath path = TrimPrefix' (replace_byte (CHR 0x5C) ''/'' (stripBuildContextPrefix path)) ''./''"

definition ComputeSignature :: "ci_lib \<Rightarrow> string \<Rightarrow> string \<Rightarrow> string \<Rightarrow> string \<Rightarrow> string" where
  "ComputeSignature l fname summary jobName details =
    (let msg = (if summary \<noteq> [] then summary else if details \<noteq> [] then details else jobName)
     in take 16 (ci_sha l (normalizeMessage l msg)) @ '':'' @ canonicalizePath fname)"

definition generateID :: "ci_lib \<Rightarrow> string \<Rightarrow> string" where
  "generateID l signature = take 8 (ci_sha l signature)"

section \<open>Failures and issues\<close>

definition ValidCategories :: "string list" where
  "ValidCategories = [''lint/go'', ''lint/bazel'', ''lint/ts'', ''lint/python'', ''build'', ''build/docker'', ''test'',
     ''infra/dependabot'', ''infra/ci'', ''unknown'']"

record CIFailure =
  cf_Timestamp :: time
  cf_RunURL :: string
  cf_HeadSHA :: string
  cf_Branch :: string
  cf_JobName :: string
  cf_Category :: string
  cf_Signature :: string
  cf_Summary :: string
  cf_Details :: string
  cf_File :: string
  cf_ErrorCode :: string
  cf_RunID :: int
  cf_Line :: int

datatype issue_status =
  StatusNew | StatusInProgress | StatusFixPending | StatusFixApproved | StatusFixMerged | StatusVerified
  | StatusRecurred | StatusWontFix

record FixOption =
  fo_Label :: string
  fo_Description :: string

record FixAttempt =
  fa_StartedAt :: time
  fa_CompletedAt :: "time option"
  fa_Branch :: string
  fa_PRURL :: string
  fa_PRState :: string
  fa_PRReview :: string
  fa_Outcome :: string
  fa_Error :: string
  fa_Reasoning :: string
  fa_RootCause :: string
  fa_LogFile :: string
  fa_FixOptions :: "FixOption list"
  fa_AgentCost :: rat
  fa_PRNumber :: int

record ci_issue =
  is_FirstSeen :: time
  is_LastSeen :: time
  is_ResolvedAt :: "time option"
  is_Category :: string
  is_Summary :: string
  is_Details :: string
  is_File :: string
  is_Status :: issue_status
  is_ID :: string
  is_Signature :: string
  is_DismissReason :: string
  is_ErrorCode :: string
  is_RunURL :: string
  is_JobName :: string
  is_FixAttempts :: "FixAttempt list"
  is_Line :: int
  is_SeenCount :: int

section \<open>The tracker\<close>

record issue_tracker =
  tk_issues :: "(string, ci_issue) gomap"
  tk_reviewedRuns :: "(int, bool) gomap"

record trackerFile =
  tf_Issues :: "ci_issue list"
  tf_ReviewedRuns :: "int list"

text \<open>The file: missing or empty, not readable or not JSON, or its contents.\<close>

datatype tracker_file = NoFile | BadFile string | TrackerFile trackerFile

definition load_tracker :: "trackerFile \<Rightarrow> issue_tracker" where
  "load_tracker f =
    \<lparr>tk_issues = fold (\<lambda>i. mput (is_Signature i) i) (tf_Issues f) [],
     tk_reviewedRuns = fold (\<lambda>r. mput r True) (tf_ReviewedRuns f) []\<rparr>"

definition NewIssueTracker :: "tracker_file \<Rightarrow> string + issue_tracker" where
  "NewIssueTracker f =
    (case f of
       NoFile \<Rightarrow> Inr \<lparr>tk_issues = [], tk_reviewedRuns = []\<rparr>
     | BadFile e \<Rightarrow> Inl e
     | TrackerFile t \<Rightarrow> Inr (load_tracker t))"

definition save_tracker :: "issue_tracker \<Rightarrow> trackerFile" where
  "save_tracker t = \<lparr>tf_Issues = map snd (tk_issues t), tf_ReviewedRuns = map fst (tk_reviewedRuns t)\<rparr>"

text \<open>A change through a pointer to the issue of a signature.\<close>

definition upd_issue :: "string \<Rightarrow> (ci_issue \<Rightarrow> ci_issue) \<Rightarrow> issue_tracker \<Rightarrow> issue_tracker" where
  "upd_issue sig f t = t\<lparr>tk_issues := map (\<lambda>p. if fst p = sig then (sig, f (snd p)) else p) (tk_issues t)\<rparr>"

record ReconcileResult =
  rr_New :: "string list"
  rr_Updated :: "string list"
  rr_Resolved :: "string list"

definition new_issue :: "ci_lib \<Rightarrow> CIFailure \<Rightarrow> ci_issue" where
  "new_issue l f =
    \<lparr>is_FirstSeen = cf_Timestamp f, is_LastSeen = cf_Timestamp f, is_ResolvedAt = None, is_Category = cf_Category f,
     is_Summary = cf_Summary f, is_Details = cf_Details f, is_File = cf_File f, is_Status = StatusNew,
     is_ID = generateID l (cf_Signature f), is_Signature = cf_Signature f, is_DismissReason = [],
     is_ErrorCode = cf_ErrorCode f, is_RunURL = cf_RunURL f, is_JobName = cf_JobName f, is_FixAttempts = [],
     is_Line = cf_Line f, is_SeenCount = 1\<rparr>"

definition seen_again :: "CIFailure \<Rightarrow> ci_issue \<Rightarrow> ci_issue" where
  "seen_again f i =
    i\<lparr>is_FirstSeen := (if cf_Timestamp f < is_FirstSeen i then cf_Timestamp f else is_FirstSeen i),
      is_LastSeen := (if cf_Timestamp f > is_LastSeen i then cf_Timestamp f else is_LastSeen i),
      is_SeenCount := is_SeenCount i + 1,
      is_Details := (if cf_Details f \<noteq> [] then cf_Details f else is_Details i),
      is_RunURL := (if cf_RunURL f \<noteq> [] then cf_RunURL f else is_RunURL i),
      is_JobName := (if cf_JobName f \<noteq> [] then cf_JobName f else is_JobName i)\<rparr>"

definition recur :: "ci_issue \<Rightarrow> ci_issue" where
  "recur i = (if is_Status i \<in> {StatusFixMerged, StatusVerified}
    then i\<lparr>is_Status := StatusRecurred, is_ResolvedAt := None\<rparr> else i)"

text \<open>One failure: a new issue, the first sighting of a known one in this batch, or a repetition.\<close>

definition reconcile_one :: "ci_lib \<Rightarrow> CIFailure \<Rightarrow> issue_tracker \<times> ReconcileResult \<Rightarrow> issue_tracker \<times> ReconcileResult" where
  "reconcile_one l f st =
    (case st of (t, r) \<Rightarrow>
      (case map_of (tk_issues t) (cf_Signature f) of
         None \<Rightarrow> (t\<lparr>tk_issues := mput (cf_Signature f) (new_issue l f) (tk_issues t)\<rparr>,
                  r\<lparr>rr_New := rr_New r @ [cf_Signature f]\<rparr>)
       | Some i \<Rightarrow>
           if cf_Signature f \<in> set (rr_Updated r)
           then (upd_issue (cf_Signature f) (seen_again f) t, r)
           else (upd_issue (cf_Signature f) (\<lambda>i. recur (seen_again f i)) t,
                 r\<lparr>rr_Updated := rr_Updated r @ [cf_Signature f]\<rparr>)))"

definition verify_unseen :: "time \<Rightarrow> string set \<Rightarrow> issue_tracker \<times> ReconcileResult \<Rightarrow> issue_tracker \<times> ReconcileResult" where
  "verify_unseen now seen st =
    (case st of (t, r) \<Rightarrow>
      (let resolved = filter (\<lambda>p. fst p \<notin> seen \<and> is_Status (snd p) = StatusFixMerged) (tk_issues t)
       in (t\<lparr>tk_issues := map (\<lambda>p. if fst p \<notin> seen \<and> is_Status (snd p) = StatusFixMerged
                 then (fst p, (snd p)\<lparr>is_Status := StatusVerified, is_ResolvedAt := Some now\<rparr>) else p) (tk_issues t)\<rparr>,
           r\<lparr>rr_Resolved := map fst resolved\<rparr>)))"

text \<open>No list (\<open>nil\<close>) is no evidence.\<close>

definition Reconcile :: "ci_lib \<Rightarrow> time \<Rightarrow> CIFailure list option \<Rightarrow> issue_tracker \<Rightarrow> issue_tracker \<times> ReconcileResult" where
  "Reconcile l now failures t =
    (let r0 = \<lparr>rr_New = [], rr_Updated = [], rr_Resolved = []\<rparr> in
     case failures of
       None \<Rightarrow> (t, r0)
     | Some fs \<Rightarrow> verify_unseen now (cf_Signature ` set fs) (fold (reconcile_one l) fs (t, r0)))"

definition issues_with :: "(issue_status \<Rightarrow> bool) \<Rightarrow> issue_tracker \<Rightarrow> ci_issue list" where
  "issues_with p t = filter (\<lambda>i. p (is_Status i)) (map snd (tk_issues t))"

definition GetActionable :: "issue_tracker \<Rightarrow> ci_issue list" where
  "GetActionable = issues_with (\<lambda>s. s = StatusNew \<or> s = StatusRecurred)"

definition GetPendingMerge :: "issue_tracker \<Rightarrow> ci_issue list" where
  "GetPendingMerge = issues_with (\<lambda>s. s = StatusFixApproved)"

definition GetAwaitingVerification :: "issue_tracker \<Rightarrow> ci_issue list" where
  "GetAwaitingVerification = issues_with (\<lambda>s. s = StatusFixMerged)"

definition UpdateStatus :: "string \<Rightarrow> issue_status \<Rightarrow> issue_tracker \<Rightarrow> issue_tracker" where
  "UpdateStatus sig st = upd_issue sig (is_Status_update (\<lambda>_. st))"

definition AddFixAttempt :: "string \<Rightarrow> FixAttempt \<Rightarrow> issue_tracker \<Rightarrow> issue_tracker" where
  "AddFixAttempt sig a = upd_issue sig (is_FixAttempts_update (\<lambda>as. as @ [a]))"

definition GetByID :: "string \<Rightarrow> issue_tracker \<Rightarrow> ci_issue option" where
  "GetByID i t = find (\<lambda>x. is_ID x = i) (map snd (tk_issues t))"

text \<open>The first issue with the identifier in the iteration order of the map.\<close>

definition find_entry :: "string \<Rightarrow> issue_tracker \<Rightarrow> (string \<times> ci_issue) option" where
  "find_entry i t = find (\<lambda>p. is_ID (snd p) = i) (tk_issues t)"

definition Dismiss :: "string \<Rightarrow> string \<Rightarrow> issue_tracker \<Rightarrow> bool \<times> issue_tracker" where
  "Dismiss i reason t =
    (case find_entry i t of
       None \<Rightarrow> (False, t)
     | Some (sig, x) \<Rightarrow> (True, upd_issue sig (\<lambda>x. x\<lparr>is_Status := StatusWontFix, is_DismissReason := reason\<rparr>) t))"

definition Reopen :: "string \<Rightarrow> issue_tracker \<Rightarrow> bool \<times> issue_tracker" where
  "Reopen i t =
    (case find_entry i t of
       None \<Rightarrow> (False, t)
     | Some (sig, x) \<Rightarrow>
         if is_Status x \<noteq> StatusWontFix then (False, t)
         else (True, upd_issue sig (\<lambda>x. x\<lparr>is_Status := StatusNew, is_DismissReason := []\<rparr>) t))"

definition IsRunReviewed :: "int \<Rightarrow> issue_tracker \<Rightarrow> bool" where
  "IsRunReviewed r t = (r \<in> keys (tk_reviewedRuns t))"

definition MarkRunsReviewed :: "int list \<Rightarrow> issue_tracker \<Rightarrow> issue_tracker" where
  "MarkRunsReviewed rs t = t\<lparr>tk_reviewedRuns := fold (\<lambda>r. mput r True) rs (tk_reviewedRuns t)\<rparr>"

definition PruneReviewedRuns :: "int list \<Rightarrow> issue_tracker \<Rightarrow> issue_tracker" where
  "PruneReviewedRuns active t = t\<lparr>tk_reviewedRuns := filter (\<lambda>p. fst p \<in> set active) (tk_reviewedRuns t)\<rparr>"

end
