(* ===== verification/MedivacTriage.thy ===== *)
theory MedivacTriage
  imports MedivacIssue
begin

text \<open>
  From a failed run to categorised failures (\<open>medivac/github\<close>): the commands of the GitHub command
  line and the decoding of their answers, the cleaning of logs, and the triage of all runs by one
  question to a language model, whose answer is the parameter \<open>query\<close>.
\<close>

section \<open>Runs, jobs and annotations\<close>

record WorkflowRun =
  wr_CreatedAt :: time
  wr_Name :: string
  wr_Status :: string
  wr_Conclusion :: string
  wr_HeadBranch :: string
  wr_HeadSHA :: string
  wr_URL :: string
  wr_ID :: int

record JobResult =
  jb_Name :: string
  jb_Conclusion :: string
  jb_ID :: int
  jb_RunID :: int

record Annotation =
  an_Path :: string
  an_Level :: string
  an_Message :: string
  an_Title :: string
  an_JobName :: string
  an_StartLine :: int
  an_EndLine :: int

text \<open>What the engine needs of a CI system; \<open>Inl\<close> is an error.\<close>

record Scanner =
  sc_ListFailedRuns :: "string \<Rightarrow> int \<Rightarrow> string + WorkflowRun list"
  sc_GetJobsForRun :: "int \<Rightarrow> string + JobResult list"
  sc_GetAnnotations :: "int \<Rightarrow> string + Annotation list"
  sc_GetJobLog :: "int \<Rightarrow> string + string"

type_synonym gh_runner = "string list \<Rightarrow> string + string"

definition dec_time :: "ci_lib \<Rightarrow> ((time \<Rightarrow> time) \<Rightarrow> 's \<Rightarrow> 's) \<Rightarrow> 's decoder" where
  "dec_time l upd v s =
    (case v of
       JNull \<Rightarrow> (s, True)
     | JStr x \<Rightarrow> (case ci_time l x of Some t \<Rightarrow> (upd (\<lambda>_. t) s, True) | None \<Rightarrow> (s, False))
     | _ \<Rightarrow> (s, False))"

definition decode_text :: "ci_lib \<Rightarrow> 'a decoder \<Rightarrow> 'a \<Rightarrow> string \<Rightarrow> 'a option" where
  "decode_text l d z text =
    (case ci_parse l text of
       None \<Rightarrow> None
     | Some v \<Rightarrow> (case d v z of (a, ok) \<Rightarrow> if ok then Some a else None))"

definition dec_workflow_run :: "ci_lib \<Rightarrow> WorkflowRun decoder" where
  "dec_workflow_run l = dec_struct
     [(''createdAt'', dec_time l wr_CreatedAt_update), (''name'', dec_string wr_Name_update),
      (''status'', dec_string wr_Status_update), (''conclusion'', dec_string wr_Conclusion_update),
      (''headBranch'', dec_string wr_HeadBranch_update), (''headSha'', dec_string wr_HeadSHA_update),
      (''url'', dec_string wr_URL_update), (''databaseId'', dec_int wr_ID_update)]"

definition zero_run :: WorkflowRun where
  "zero_run = \<lparr>wr_CreatedAt = 0, wr_Name = [], wr_Status = [], wr_Conclusion = [], wr_HeadBranch = [],
     wr_HeadSHA = [], wr_URL = [], wr_ID = 0\<rparr>"

definition dec_job :: "JobResult decoder" where
  "dec_job = dec_struct [(''name'', dec_string jb_Name_update), (''conclusion'', dec_string jb_Conclusion_update),
     (''databaseId'', dec_int jb_ID_update)]"

definition dec_annotation :: "Annotation decoder" where
  "dec_annotation = dec_struct
     [(''path'', dec_string an_Path_update), (''annotation_level'', dec_string an_Level_update),
      (''message'', dec_string an_Message_update), (''title'', dec_string an_Title_update),
      (''start_line'', dec_int an_StartLine_update), (''end_line'', dec_int an_EndLine_update)]"

definition zero_annotation :: Annotation where
  "zero_annotation = \<lparr>an_Path = [], an_Level = [], an_Message = [], an_Title = [], an_JobName = [],
     an_StartLine = 0, an_EndLine = 0\<rparr>"

definition ListFailedRuns :: "ci_lib \<Rightarrow> gh_runner \<Rightarrow> string \<Rightarrow> int \<Rightarrow> string + WorkflowRun list" where
  "ListFailedRuns l gh branch limit =
    (let limit = (if limit \<le> 0 then 10 else limit) in
     case gh [''run'', ''list'', ''--branch'', branch, ''--status'', ''failure'', ''--json'',
              ''databaseId,name,status,conclusion,headBranch,headSha,url,createdAt'', ''--limit'', Itoa limit] of
       Inl e \<Rightarrow> Inl (''gh run list: '' @ e)
     | Inr out \<Rightarrow>
         (case decode_text l (dec_list (dec_workflow_run l) zero_run (\<lambda>f. f)) [] out of
            None \<Rightarrow> Inl ''parse run list'' | Some runs \<Rightarrow> Inr runs))"

definition GetJobsForRun :: "ci_lib \<Rightarrow> gh_runner \<Rightarrow> int \<Rightarrow> string + JobResult list" where
  "GetJobsForRun l gh runID =
    (case gh [''run'', ''view'', Itoa runID, ''--json'', ''jobs''] of
       Inl e \<Rightarrow> Inl (''gh run view jobs: '' @ e)
     | Inr out \<Rightarrow>
         (case decode_text l (dec_struct [(''jobs'', dec_list dec_job \<lparr>jb_Name = [], jb_Conclusion = [], jb_ID = 0, jb_RunID = 0\<rparr> (\<lambda>f. f))])
                 [] out of
            None \<Rightarrow> Inl ''parse jobs''
          | Some jobs \<Rightarrow> Inr (map (\<lambda>j. j\<lparr>jb_RunID := runID\<rparr>) jobs)))"

text \<open>The annotations of the failed jobs; a job whose annotations cannot be read is left out.\<close>

definition job_annotations :: "ci_lib \<Rightarrow> gh_runner \<Rightarrow> JobResult \<Rightarrow> Annotation list" where
  "job_annotations l gh job =
    (if jb_Conclusion job \<noteq> ''failure'' then []
     else case gh [''api'', ''repos/{owner}/{repo}/check-runs/'' @ Itoa (jb_ID job) @ ''/annotations''] of
         Inl e \<Rightarrow> []
       | Inr out \<Rightarrow>
           (case decode_text l (dec_list dec_annotation zero_annotation (\<lambda>f. f)) [] out of
              None \<Rightarrow> [] | Some anns \<Rightarrow> map (\<lambda>a. a\<lparr>an_JobName := jb_Name job\<rparr>) anns))"

definition GetAnnotations :: "ci_lib \<Rightarrow> gh_runner \<Rightarrow> int \<Rightarrow> string + Annotation list" where
  "GetAnnotations l gh runID =
    (case GetJobsForRun l gh runID of
       Inl e \<Rightarrow> Inl e
     | Inr jobs \<Rightarrow> Inr (concat (map (job_annotations l gh) jobs)))"

definition GetJobLog :: "gh_runner \<Rightarrow> int \<Rightarrow> string + string" where
  "GetJobLog gh runID =
    (case gh [''run'', ''view'', Itoa runID, ''--log-failed''] of
       Inl e \<Rightarrow> Inl (''gh run view --log-failed: '' @ e)
     | Inr out \<Rightarrow> Inr out)"

definition github_client :: "ci_lib \<Rightarrow> gh_runner \<Rightarrow> Scanner" where
  "github_client l gh = \<lparr>sc_ListFailedRuns = ListFailedRuns l gh, sc_GetJobsForRun = GetJobsForRun l gh,
     sc_GetAnnotations = GetAnnotations l gh, sc_GetJobLog = GetJobLog gh\<rparr>"

section \<open>Logs\<close>

definition ansiPattern :: matcher where
  "ansiPattern prev s =
    (let n = run_of (\<lambda>c. is_digit c \<or> c = CHR '';'') (drop 2 s) in
     if HasPrefix s (CHR 0x1B # ''['') \<and> HasPrefix (drop (2 + n) s) ''m'' then Some (n + 3) else None)"

definition ghActionsMarker :: matcher where
  "ghActionsMarker prev s =
    map_option (\<lambda>w. length w + 4)
      (find (\<lambda>w. HasPrefix s (''##['' @ w @ '']'')) [''error'', ''group'', ''endgroup'', ''warning'', ''notice'', ''debug''])"

definition ciTimestampPat :: matcher where
  "ciTimestampPat prev s =
    (let n = run_of (\<lambda>c. is_digit c \<or> c = CHR '':'' \<or> c = CHR ''.'') (drop 11 s) in
     if classes (replicate 4 is_digit @ lit ''-'' @ replicate 2 is_digit @ lit ''-'' @ replicate 2 is_digit @ lit ''T'') s \<and>
        n > 0 \<and> HasPrefix (drop (11 + n) s) ''Z ''
     then Some (n + 13) else None)"

definition MaxLogSize :: nat where
  "MaxLogSize = 50 * 1024"

definition CleanLog :: "string \<Rightarrow> string" where
  "CleanLog raw =
    (let s = ReplaceAllString ciTimestampPat []
               (ReplaceAllString ghActionsMarker [] (ReplaceAllString ansiPattern [] raw)) in
     if length s > MaxLogSize then
       (let s = drop (length s - MaxLogSize) s in
        case Index s [CHR 0x0A] of None \<Rightarrow> s | Some i \<Rightarrow> drop (i + 1) s)
     else s)"

definition TrimLog :: "string \<Rightarrow> nat \<Rightarrow> nat \<Rightarrow> string" where
  "TrimLog content headLines tailLines =
    (let lines = split_on (CHR 0x0A) content; total = length lines in
     if total \<le> headLines + tailLines then content
     else join_with [CHR 0x0A]
       (take headLines lines @
        [[CHR 0x0A] @ ''... ('' @ Itoa (int (total - headLines - tailLines)) @ '' lines trimmed) ...'' @ [CHR 0x0A]] @
        drop (total - tailLines) lines))"

section \<open>Triage\<close>

record RunData =
  rd_FailedJobs :: "JobResult list"
  rd_Annotations :: "Annotation list"
  rd_Log :: string
  rd_Run :: WorkflowRun

record triageResponse =
  tr_Category :: string
  tr_Job :: string
  tr_File :: string
  tr_Summary :: string
  tr_Details :: string
  tr_ErrorCode :: string
  tr_RunID :: int
  tr_Line :: int

definition dec_triage :: "triageResponse decoder" where
  "dec_triage = dec_struct
     [(''category'', dec_string tr_Category_update), (''job'', dec_string tr_Job_update),
      (''file'', dec_string tr_File_update), (''summary'', dec_string tr_Summary_update),
      (''details'', dec_string tr_Details_update), (''error_code'', dec_string tr_ErrorCode_update),
      (''run_id'', dec_int tr_RunID_update), (''line'', dec_int tr_Line_update)]"

definition strip_fences :: "string \<Rightarrow> string" where
  "strip_fences text =
    (if HasPrefix text ''```'' then
       (let t1 = (case Index text [CHR 0x0A] of None \<Rightarrow> text | Some i \<Rightarrow> drop (i + 1) text);
            t2 = (case LastIndex t1 ''```'' of None \<Rightarrow> t1 | Some i \<Rightarrow> take i t1)
        in TrimSpace t2)
     else text)"

definition parseTriageResponse :: "ci_lib \<Rightarrow> string \<Rightarrow> string + triageResponse list" where
  "parseTriageResponse l text =
    (let text = strip_fences (TrimSpace text) in
     case (Index text ''['', LastIndex text '']'') of
       (Some start, Some stop) \<Rightarrow>
         if stop \<le> start then Inl ''no JSON array found in response''
         else (case decode_text l (dec_list dec_triage
                 \<lparr>tr_Category = [], tr_Job = [], tr_File = [], tr_Summary = [], tr_Details = [], tr_ErrorCode = [],
                  tr_RunID = 0, tr_Line = 0\<rparr> (\<lambda>f. f)) [] (take (stop + 1 - start) (drop start text)) of
             None \<Rightarrow> Inl ''unmarshal triage JSON'' | Some items \<Rightarrow> Inr items)
     | _ \<Rightarrow> Inl ''no JSON array found in response'')"

definition annotation_line :: "Annotation \<Rightarrow> string" where
  "annotation_line a =
    ''- ['' @ an_Level a @ ''] '' @ an_Message a @
    (if an_Path a \<noteq> [] then '' (file: '' @ an_Path a @
       (if an_StartLine a > 0 then '':'' @ Itoa (an_StartLine a) else []) @ '')'' else []) @ [CHR 0x0A]"

definition run_prompt :: "nat \<Rightarrow> RunData \<Rightarrow> string" where
  "run_prompt k d =
    (let nl = [CHR 0x0A]; r = rd_Run d in
     ''## Run '' @ Itoa (int k) @ '': '' @ wr_Name r @ '' (ID: '' @ Itoa (wr_ID r) @ '', SHA: '' @ wr_HeadSHA r @ '')'' @ nl @ nl @
     ''- Branch: '' @ wr_HeadBranch r @ nl @
     ''- Failed jobs ('' @ Itoa (int (length (rd_FailedJobs d))) @ ''):'' @ nl @
     concat (map (\<lambda>j. ''  - '' @ jb_Name j @ nl) (rd_FailedJobs d)) @
     (if rd_Annotations d = [] then [] else nl @ ''Annotations:'' @ nl @ concat (map annotation_line (rd_Annotations d))) @
     nl @ ''Log:'' @ nl @ ''```'' @ nl @ rd_Log d @ nl @ ''```'' @ nl @ nl)"

definition buildBatchTriagePrompt :: "ci_lib \<Rightarrow> RunData list \<Rightarrow> string" where
  "buildBatchTriagePrompt l runs =
    ''You are a CI failure triage system. Analyze the following CI runs and extract structured failure information.'' @
    [CHR 0x0A] @ ''Multiple runs may contain the same errors '' @ [CHR 0xE2, CHR 0x80, CHR 0x94] @ '' deduplicate across runs.'' @
    [CHR 0x0A, CHR 0x0A] @
    concat (map (\<lambda>(k, d). run_prompt (k + 1) d) (List.enumerate 0 runs)) @ ci_instructions l"

text \<open>The failure of one item: its category, job and run are checked, and fall back to the first ones.\<close>

definition item_failure :: "ci_lib \<Rightarrow> RunData list \<Rightarrow> triageResponse \<Rightarrow> CIFailure" where
  "item_failure l runs x =
    (let names = concat (map (\<lambda>d. map jb_Name (rd_FailedJobs d)) runs);
         defaultJob = (case find (\<lambda>n. n \<noteq> []) names of None \<Rightarrow> [] | Some n \<Rightarrow> n);
         cat = (if tr_Category x \<in> set ValidCategories then tr_Category x else ''unknown'');
         job = (if tr_Job x \<in> set names then tr_Job x else defaultJob);
         run = (if tr_RunID x = 0 then rd_Run (hd runs)
                else case find (\<lambda>d. wr_ID (rd_Run d) = tr_RunID x) (rev runs) of
                    None \<Rightarrow> rd_Run (hd runs) | Some d \<Rightarrow> rd_Run d)
     in \<lparr>cf_Timestamp = wr_CreatedAt run, cf_RunURL = wr_URL run, cf_HeadSHA = wr_HeadSHA run, cf_Branch = wr_HeadBranch run,
         cf_JobName = job, cf_Category = cat,
         cf_Signature = ComputeSignature l (tr_File x) (tr_Summary x) job (tr_Details x),
         cf_Summary = tr_Summary x, cf_Details = tr_Details x, cf_File = tr_File x, cf_ErrorCode = tr_ErrorCode x,
         cf_RunID = wr_ID run, cf_Line = tr_Line x\<rparr>)"

fun dedup_failures :: "CIFailure list \<Rightarrow> string set \<Rightarrow> CIFailure list" where
  "dedup_failures [] seen = []"
| "dedup_failures (f # fs) seen =
    (if cf_Signature f \<in> seen then dedup_failures fs seen
     else f # dedup_failures fs (insert (cf_Signature f) seen))"

type_synonym query_fn = "string \<Rightarrow> string \<Rightarrow> string + (string \<times> rat)"

text \<open>No runs give no list, which is not the same as an empty one.\<close>

definition TriageBatch :: "ci_lib \<Rightarrow> query_fn \<Rightarrow> string \<Rightarrow> RunData list \<Rightarrow> string + (CIFailure list option \<times> rat)" where
  "TriageBatch l query model runs =
    (if runs = [] then Inr (None, 0)
     else case query (if model = [] then ''haiku'' else model) (buildBatchTriagePrompt l runs) of
         Inl e \<Rightarrow> Inl (''batch triage query: '' @ e)
       | Inr (text, cost) \<Rightarrow>
           (case parseTriageResponse l text of
              Inl e \<Rightarrow> Inl (''parse batch triage response: '' @ e)
            | Inr items \<Rightarrow> Inr (Some (dedup_failures (map (item_failure l runs) items) {}), cost)))"

end
