(* ===== verification/MedivacAgent.thy ===== *)
theory MedivacAgent
  imports MedivacTriage
begin

text \<open>
  Fixing issues with agents (\<open>medivac/engine\<close>): the analysis an agent reports (\<open>analysis.go\<close>), the
  grouping of issues that one agent should fix (\<open>grouping.go\<close>), and one agent from its worktree to its
  pull request (\<open>agent.go\<close>), with the trace of what it does to the outside. Worktrees, the agent and
  the pull-request service answer as the record \<open>fix_env\<close> says.
\<close>

section \<open>What the agent reports\<close>

record AgentAnalysis =
  aa_Reasoning :: string
  aa_RootCause :: string
  aa_FixOptions :: "FixOption list"
  aa_FixApplied :: bool

definition no_analysis :: AgentAnalysis where
  "no_analysis = \<lparr>aa_Reasoning = [], aa_RootCause = [], aa_FixOptions = [], aa_FixApplied = False\<rparr>"

definition dec_analysis :: "AgentAnalysis decoder" where
  "dec_analysis = dec_struct
     [(''reasoning'', dec_string aa_Reasoning_update), (''root_cause'', dec_string aa_RootCause_update),
      (''fix_options'', dec_list (dec_struct [(''label'', dec_string fo_Label_update),
         (''description'', dec_string fo_Description_update)]) \<lparr>fo_Label = [], fo_Description = []\<rparr> aa_FixOptions_update),
      (''fix_applied'', dec_bool aa_FixApplied_update)]"

definition cutField :: "ci_lib \<Rightarrow> string \<Rightarrow> string \<Rightarrow> string option" where
  "cutField l line p =
    (if length line < length p then None
     else if \<not> EqualFold (ci_case l) (take (length p) line) p then None
     else Some (TrimSpace (drop (length p) line)))"

definition parseFixOption :: "string \<Rightarrow> FixOption" where
  "parseFixOption s =
    (case Cut s '':'' of
       None \<Rightarrow> \<lparr>fo_Label = TrimSpace s, fo_Description = []\<rparr>
     | Some (label, desc) \<Rightarrow> \<lparr>fo_Label = TrimSpace label, fo_Description = TrimSpace desc\<rparr>)"

definition analysis_line :: "ci_lib \<Rightarrow> string \<Rightarrow> AgentAnalysis \<Rightarrow> AgentAnalysis" where
  "analysis_line l raw a =
    (let line = TrimSpace raw in
     if line = [] then a
     else case cutField l line ''reasoning:'' of
         Some v \<Rightarrow> a\<lparr>aa_Reasoning := v\<rparr>
       | None \<Rightarrow> (case cutField l line ''root_cause:'' of
           Some v \<Rightarrow> a\<lparr>aa_RootCause := v\<rparr>
         | None \<Rightarrow> (case cutField l line ''fix_applied:'' of
             Some v \<Rightarrow> a\<lparr>aa_FixApplied := EqualFold (ci_case l) (TrimSpace v) ''yes'' \<or> EqualFold (ci_case l) (TrimSpace v) ''true''\<rparr>
           | None \<Rightarrow>
               if HasPrefix line ''- '' \<and> fo_Label (parseFixOption (drop 2 line)) \<noteq> []
               then a\<lparr>aa_FixOptions := aa_FixOptions a @ [parseFixOption (drop 2 line)]\<rparr> else a)))"

definition ParseAnalysis :: "ci_lib \<Rightarrow> string \<Rightarrow> AgentAnalysis option" where
  "ParseAnalysis l text =
    (case Index text ''<ANALYSIS>'' of
       None \<Rightarrow> None
     | Some start \<Rightarrow>
         (case Index (drop start text) ''</ANALYSIS>'' of
            None \<Rightarrow> None
          | Some n \<Rightarrow>
              (let block = TrimSpace (drop (start + 10) (take (start + n) text)) in
               case decode_text l dec_analysis no_analysis block of
                 Some a \<Rightarrow> Some a
               | None \<Rightarrow> Some (fold (analysis_line l) (split_on (CHR 0x0A) block) no_analysis))))"

section \<open>Grouping\<close>

type_synonym IssueGroup = "string \<times> ci_issue list"

text \<open>\<open>TS\\d{4,5}\<close>, the first match.\<close>

definition ts_at :: "string \<Rightarrow> string option" where
  "ts_at s =
    (let n = min 5 (run_of is_digit (drop 2 s)) in
     if HasPrefix s ''TS'' \<and> 4 \<le> n then Some (take (n + 2) s) else None)"

fun first_at :: "(string \<Rightarrow> 'a option) \<Rightarrow> string \<Rightarrow> 'a option" where
  "first_at f [] = None"
| "first_at f (c # s) = (case f (c # s) of Some x \<Rightarrow> Some x | None \<Rightarrow> first_at f s)"

definition tsErrorCode :: "string \<Rightarrow> string" where
  "tsErrorCode s = (case first_at ts_at s of None \<Rightarrow> [] | Some code \<Rightarrow> code)"

definition isTypeScriptCategory :: "string \<Rightarrow> bool" where
  "isTypeScriptCategory cat \<longleftrightarrow> cat \<in> {''lint/ts'', ''build'', ''build/docker''}"

definition extractTSErrorCode :: "ci_issue \<Rightarrow> string" where
  "extractTSErrorCode i =
    (if is_ErrorCode i \<noteq> [] \<and> HasPrefix (is_ErrorCode i) ''TS'' then is_ErrorCode i
     else if tsErrorCode (is_Details i) \<noteq> [] then tsErrorCode (is_Details i)
     else if tsErrorCode (is_Summary i) \<noteq> [] then tsErrorCode (is_Summary i)
     else if Contains (is_Summary i) (''implicitly has an '' @ [CHR 0x27] @ ''any'' @ [CHR 0x27] @ '' type'') \<or>
             Contains (is_Summary i) (''implicitly has '' @ [CHR 0x27] @ ''any'' @ [CHR 0x27] @ '' type'') then ''TS7006''
     else if Contains (is_Summary i) ''Cannot find module'' then ''TS2307''
     else [])"

text \<open>
  \<open>(?i)[a-z]\<close> also matches the two letters outside ASCII that fold to one inside, U+017F and U+212A.
  The length of the name rune at the start of a text, or 0.
\<close>

definition letter_len :: "string \<Rightarrow> nat" where
  "letter_len s =
    (case s of
       [] \<Rightarrow> 0
     | c # t \<Rightarrow> if (CHR ''a'' \<le> c \<and> c \<le> CHR ''z'') \<or> (CHR ''A'' \<le> c \<and> c \<le> CHR ''Z'') then 1
        else if HasPrefix s [CHR 0xC5, CHR 0xBF] then 2
        else if HasPrefix s [CHR 0xE2, CHR 0x84, CHR 0xAA] then 3 else 0)"

definition name_len :: "string \<Rightarrow> nat" where
  "name_len s =
    (if letter_len s > 0 then letter_len s
     else case s of [] \<Rightarrow> 0 | c # t \<Rightarrow> if is_digit c \<or> c = CHR ''_'' \<or> c = CHR ''.'' \<or> c = CHR ''-'' then 1 else 0)"

lemma name_len_pos: "0 < name_len s \<Longrightarrow> s \<noteq> []"
  by (auto simp: name_len_def letter_len_def)

text \<open>The lengths of the prefixes made of name runes.\<close>

function name_ends :: "nat \<Rightarrow> string \<Rightarrow> nat list" where
  "name_ends k s = k # (if name_len s = 0 then [] else name_ends (k + name_len s) (drop (name_len s) s))"
  by pat_completeness auto
termination
  by (relation "measure (\<lambda>(k, s). length s)") (use name_len_pos in \<open>auto simp: neq_Nil_conv\<close>)

declare name_ends.simps [simp del]

definition word_boundary :: "nat \<Rightarrow> string \<Rightarrow> bool" where
  "word_boundary n s \<longleftrightarrow> (n > 0 \<and> word_char (s ! (n - 1))) \<noteq> (n < length s \<and> word_char (s ! n))"

text \<open>The name after a keyword of \<open>k\<close> bytes and white space; \<open>ok\<close> restricts where it may end.\<close>

definition name_after :: "nat \<Rightarrow> (nat \<Rightarrow> string \<Rightarrow> bool) \<Rightarrow> string \<Rightarrow> string option" where
  "name_after k ok s =
    (let w = run_of re_space (drop k s); t = drop (k + w) s in
     if w = 0 \<or> letter_len t = 0 then None
     else case filter (\<lambda>n. ok n t) (name_ends (letter_len t) (drop (letter_len t) t)) of
         [] \<Rightarrow> None | ns \<Rightarrow> Some (take (last ns) t))"

definition packageNamePrimary :: "string \<Rightarrow> string option" where
  "packageNamePrimary s =
    (if fold_eq (take 3 s) ''for'' then name_after 3 (\<lambda>n t. True) s
     else if fold_eq (take 2 s) ''of'' then name_after 2 (\<lambda>n t. True) s else None)"

text \<open>\<open>\\bas\\s+(\<dots>)\\b\<close> at a position, with the rest of the text and the byte before.\<close>

definition packageNameFallback :: "char option \<Rightarrow> string \<Rightarrow> string option" where
  "packageNameFallback prev s =
    (if (case prev of None \<Rightarrow> True | Some c \<Rightarrow> \<not> word_char c) then
       if fold_eq (take 2 s) ''as'' then name_after 2 word_boundary s
       else if fold_eq (take 1 s) ''a'' \<and> HasPrefix (drop 1 s) [CHR 0xC5, CHR 0xBF] then name_after 3 word_boundary s
       else None
     else None)"

fun first_word :: "char option \<Rightarrow> string \<Rightarrow> string option" where
  "first_word prev [] = None"
| "first_word prev (c # s) =
    (case packageNameFallback prev (c # s) of Some x \<Rightarrow> Some x | None \<Rightarrow> first_word (Some c) s)"

definition extractPackageName :: "ci_lib \<Rightarrow> string \<Rightarrow> string" where
  "extractPackageName l summary =
    (case first_at packageNamePrimary summary of
       Some n \<Rightarrow> ToLower (cs_lower (ci_case l)) n
     | None \<Rightarrow> (case first_word None summary of
         Some n \<Rightarrow> ToLower (cs_lower (ci_case l)) n
       | None \<Rightarrow> []))"

definition projectDir :: "string \<Rightarrow> string" where
  "projectDir fname =
    (if fname = [] then []
     else if HasPrefix fname ''src/'' then ''src/''
     else (let parts = SplitN fname (CHR ''/'') 4 in
       if length parts \<ge> 3 \<and> hd parts = ''services'' then join_with ''/'' (take 3 parts) @ ''/'' else []))"

definition groupKey :: "ci_lib \<Rightarrow> ci_issue \<Rightarrow> string" where
  "groupKey l i =
    (if isTypeScriptCategory (is_Category i) \<and> extractTSErrorCode i \<noteq> []
     then ''ts:'' @ extractTSErrorCode i @ '':'' @ projectDir (is_File i)
     else if is_Category i = ''infra/dependabot'' \<and> extractPackageName l (is_Summary i) \<noteq> []
     then ''dependabot:'' @ extractPackageName l (is_Summary i)
     else is_Signature i)"

fun add_to_group :: "string \<Rightarrow> ci_issue \<Rightarrow> IssueGroup list \<Rightarrow> IssueGroup list" where
  "add_to_group k i [] = [(k, [i])]"
| "add_to_group k i (g # gs) = (if fst g = k then (k, snd g @ [i]) # gs else g # add_to_group k i gs)"

definition GroupIssues :: "ci_lib \<Rightarrow> ci_issue list \<Rightarrow> IssueGroup list" where
  "GroupIssues l issues = foldl (\<lambda>gs i. add_to_group (groupKey l i) i gs) [] issues"

section \<open>One agent\<close>

record agent_run =
  ar_Result :: "(string \<times> bool) option"
  ar_Files :: "string list option"
  ar_Error :: "string option"
  ar_Cost :: rat

record fix_env =
  fx_fetch :: "string option"
  fx_worktree :: "string \<Rightarrow> string + string"
  fx_agent :: "string \<Rightarrow> string \<Rightarrow> agent_run"
  fx_createPR :: "string \<Rightarrow> string \<Rightarrow> string \<Rightarrow> string + (string \<times> int)"
  fx_fixPrompt :: "ci_issue \<Rightarrow> string"
  fx_groupPrompt :: "IssueGroup \<Rightarrow> string"
  fx_now :: "string \<Rightarrow> time"
  fx_rank :: "string \<Rightarrow> nat"
  fx_save :: "string option"

datatype fix_effect =
    NewFixWorktree string
  | RunFix string string
  | RemoveFixWorktree string
  | OpenPR string string string

record agentCoreResult =
  ac_Error :: "string option"
  ac_Analysis :: "AgentAnalysis option"
  ac_Branch :: string
  ac_WorktreePath :: string
  ac_PRURL :: string
  ac_FilesChanged :: "string list"
  ac_AgentCost :: rat
  ac_PRNumber :: int
  ac_Success :: bool

definition truncate_dots :: "string \<Rightarrow> nat \<Rightarrow> string" where
  "truncate_dots s n = (if length s \<le> n then s else if n < 3 then ''...'' else take (n - 3) s @ ''...'')"

definition fixBranchName :: "ci_issue \<Rightarrow> string" where
  "fixBranchName i =
    ''fix/'' @ replace_byte (CHR ''/'') ''-'' (is_Category i) @ ''/'' @ is_ID i @ ''-v'' @ Itoa (int (length (is_FixAttempts i) + 1))"

definition pr_title :: "ci_issue list \<Rightarrow> string" where
  "pr_title issues =
    (let i = hd issues in
     if length issues = 1 then ''fix('' @ is_Category i @ ''): '' @ truncate_dots (is_Summary i) 60
     else ''fix('' @ is_Category i @ ''): '' @ truncate_dots (is_Summary i) 40 @ '' ('' @ Itoa (int (length issues)) @ '' issues)'')"

definition body_line :: "ci_issue \<Rightarrow> string" where
  "body_line i =
    ''- `'' @ is_ID i @ ''` '' @ is_Category i @ '' '' @ [CHR 0xE2, CHR 0x80, CHR 0x94] @ '' '' @ truncate_dots (is_Summary i) 80 @
    (if is_File i \<noteq> [] then '' (`'' @ is_File i @ ''`)'' else []) @ [CHR 0x0A]"

definition pr_body :: "ci_issue list \<Rightarrow> string" where
  "pr_body issues =
    (let i = hd issues; nl = [CHR 0x0A];
         body = (if length issues = 1
           then ''Automated fix for CI failure.'' @ nl @ nl @ ''**Category:** '' @ is_Category i @ nl @
                ''**Signature:** `'' @ is_Signature i @ ''`'' @ nl @ ''**File:** '' @ is_File i @ nl @ nl @ is_Details i
           else ''Automated fix for a group of related CI failures.'' @ nl @ nl @
                ''**Issues fixed:** '' @ Itoa (int (length issues)) @ nl @ nl @ concat (map body_line issues))
     in if length body > 4000 then take 4000 body @ nl @ ''... (truncated)'' else body)"

text \<open>
  From the worktree to the pull request. Every return without success goes through the deferred
  removal of the worktree.
\<close>

definition fail_agent :: "agentCoreResult \<Rightarrow> string \<Rightarrow> fix_effect list \<Rightarrow> agentCoreResult \<times> fix_effect list" where
  "fail_agent r e tr = (r\<lparr>ac_Error := Some e\<rparr>, tr @ [RemoveFixWorktree (ac_Branch r)])"

definition finish_agent ::
  "ci_lib \<Rightarrow> fix_env \<Rightarrow> ci_issue list \<Rightarrow> agent_run \<Rightarrow> agentCoreResult \<Rightarrow> fix_effect list \<Rightarrow> agentCoreResult \<times> fix_effect list" where
  "finish_agent l env issues run r tr =
    (case ar_Error run of
       Some e \<Rightarrow> fail_agent r (''agent execution: '' @ e) tr
     | None \<Rightarrow>
       (case ar_Result run of
          None \<Rightarrow> fail_agent r ''agent failed: agent reported failure'' tr
        | Some (text, success) \<Rightarrow>
          (let r1 = r\<lparr>ac_Analysis := (if text = [] then None else ParseAnalysis l text)\<rparr> in
           if \<not> success then fail_agent r1 (''agent failed: '' @ (if text = [] then ''agent reported failure'' else text)) tr
           else
            (let r2 = r1\<lparr>ac_FilesChanged := (case ar_Files run of None \<Rightarrow> [] | Some fs \<Rightarrow> fs)\<rparr> in
             if ac_FilesChanged r2 = [] then
               (case ac_Analysis r2 of
                  Some a \<Rightarrow> if \<not> aa_FixApplied a then (r2\<lparr>ac_Success := True\<rparr>, tr @ [RemoveFixWorktree (ac_Branch r2)])
                     else fail_agent r2 ''agent made no file changes'' tr
                | None \<Rightarrow> fail_agent r2 ''agent made no file changes'' tr)
             else
               (let tr1 = tr @ [OpenPR (ac_Branch r2) (pr_title issues) (pr_body issues)] in
                case fx_createPR env (pr_title issues) (pr_body issues) (ac_Branch r2) of
                  Inl e \<Rightarrow> fail_agent r2 (''create PR: '' @ e) tr1
                | Inr (url, number) \<Rightarrow> (r2\<lparr>ac_PRURL := url, ac_PRNumber := number, ac_Success := True\<rparr>, tr1))))))"

definition runAgentCore ::
  "ci_lib \<Rightarrow> fix_env \<Rightarrow> ci_issue list \<Rightarrow> string \<Rightarrow> agentCoreResult \<times> fix_effect list" where
  "runAgentCore l env issues prompt =
    (let branch = fixBranchName (hd issues);
         r = \<lparr>ac_Error = None, ac_Analysis = None, ac_Branch = branch, ac_WorktreePath = [], ac_PRURL = [],
              ac_FilesChanged = [], ac_AgentCost = 0, ac_PRNumber = 0, ac_Success = False\<rparr>
     in case fx_worktree env branch of
          Inl e \<Rightarrow> (r\<lparr>ac_Error := Some (''create worktree: '' @ e)\<rparr>, [])
        | Inr path \<Rightarrow>
            (let run = fx_agent env path prompt in
             finish_agent l env issues run (r\<lparr>ac_WorktreePath := path, ac_AgentCost := ar_Cost run\<rparr>)
               [NewFixWorktree branch, RunFix branch prompt]))"

text \<open>One agent for a group; a group of one uses the prompt for one issue.\<close>

definition run_group :: "ci_lib \<Rightarrow> fix_env \<Rightarrow> IssueGroup \<Rightarrow> agentCoreResult \<times> fix_effect list" where
  "run_group l env g =
    runAgentCore l env (snd g)
      (if length (snd g) = 1 then fx_fixPrompt env (hd (snd g)) else fx_groupPrompt env g)"

definition attempt_of :: "fix_env \<Rightarrow> string \<Rightarrow> nat \<Rightarrow> agentCoreResult \<Rightarrow> FixAttempt \<times> issue_status" where
  "attempt_of env logFile n r =
    (let now = fx_now env (ac_Branch r);
         a = \<lparr>fa_StartedAt = now, fa_CompletedAt = Some now, fa_Branch = ac_Branch r, fa_PRURL = ac_PRURL r,
              fa_PRState = [], fa_PRReview = [], fa_Outcome = [], fa_Error = [],
              fa_Reasoning = (case ac_Analysis r of None \<Rightarrow> [] | Some x \<Rightarrow> aa_Reasoning x),
              fa_RootCause = (case ac_Analysis r of None \<Rightarrow> [] | Some x \<Rightarrow> aa_RootCause x),
              fa_LogFile = logFile,
              fa_FixOptions = (case ac_Analysis r of None \<Rightarrow> [] | Some x \<Rightarrow> aa_FixOptions x),
              fa_AgentCost = (if n > 1 then ac_AgentCost r / of_nat n else ac_AgentCost r),
              fa_PRNumber = ac_PRNumber r\<rparr>
     in if ac_Success r \<and> ac_PRURL r \<noteq> [] then (a\<lparr>fa_Outcome := ''pr_created'', fa_PRState := ''OPEN''\<rparr>, StatusFixPending)
        else if ac_Success r then (a\<lparr>fa_Outcome := ''analysis_only''\<rparr>, StatusNew)
        else (a\<lparr>fa_Outcome := ''failed'', fa_Error := (case ac_Error r of None \<Rightarrow> [] | Some e \<Rightarrow> e)\<rparr>, StatusNew))"

definition recordFixAttempt :: "fix_env \<Rightarrow> string \<Rightarrow> ci_issue list \<Rightarrow> agentCoreResult \<Rightarrow> issue_tracker \<Rightarrow> issue_tracker" where
  "recordFixAttempt env logFile issues r t =
    (case attempt_of env logFile (length issues) r of (a, st) \<Rightarrow>
      fold (\<lambda>i t. UpdateStatus (is_Signature i) st (AddFixAttempt (is_Signature i) a t)) issues t)"

end
