(* ===== verification/MedivacEngine.thy ===== *)
theory MedivacEngine
  imports MedivacAgent
begin

text \<open>
  The engine of \<open>medivac\<close> (\<open>engine/engine.go\<close>): scanning, fixing with parallel agents, refreshing the
  state of pull requests and merging, and the commands of \<open>cmd/medivac\<close> as steps on the tracker file:
  each command loads the file, runs one operation and saves. The agents of a fix run in parallel;
  \<open>fx_rank\<close> is the place
  in the order in which they finish. Groups are disjoint, so a group may be marked in progress before
  or after another one has finished. Answers that change with what was done before depend on
  the trace. A dismissal or reopening that cannot be saved leaves the file as it is, like no command.
\<close>

record engine_config =
  ec_AgentModel :: string
  ec_Branch :: string
  ec_LogFile :: string
  ec_TriageModel :: string
  ec_MaxParallel :: int
  ec_RunLimit :: int
  ec_DryRun :: bool

text \<open>The defaults and checks of \<open>New\<close>; \<open>known\<close> are the models of the registry.\<close>

definition NewEngine :: "(string \<Rightarrow> bool) \<Rightarrow> engine_config \<Rightarrow> string + engine_config" where
  "NewEngine known c =
    (let c1 = c\<lparr>ec_MaxParallel := (if ec_MaxParallel c \<le> 0 then 3 else ec_MaxParallel c),
                ec_Branch := (if ec_Branch c = [] then ''main'' else ec_Branch c),
                ec_RunLimit := (if ec_RunLimit c \<le> 0 then 5 else ec_RunLimit c),
                ec_AgentModel := (if ec_AgentModel c = [] then ''sonnet'' else ec_AgentModel c),
                ec_TriageModel := (if ec_TriageModel c = [] then ''haiku'' else ec_TriageModel c)\<rparr>
     in if \<not> known (ec_AgentModel c1) then Inl ''unknown agent model''
        else if \<not> known (ec_TriageModel c1) then Inl ''unknown triage model'' else Inr c1)"

section \<open>Scanning\<close>

record scan_env =
  se_scanner :: Scanner
  se_query :: query_fn
  se_now :: time
  se_save :: "string option"

record ScanResult =
  sr_Reconciled :: ReconcileResult
  sr_Runs :: "WorkflowRun list"
  sr_Failures :: "CIFailure list"
  sr_TotalIssues :: nat
  sr_ActionableLen :: nat
  sr_TriageCost :: rat

text \<open>What is gathered of a run; a run whose log or jobs cannot be read is left out.\<close>

definition gather_run :: "Scanner \<Rightarrow> WorkflowRun \<Rightarrow> RunData option" where
  "gather_run sc run =
    (case sc_GetJobLog sc (wr_ID run) of
       Inl e \<Rightarrow> None
     | Inr rawLog \<Rightarrow>
         (case sc_GetJobsForRun sc (wr_ID run) of
            Inl e \<Rightarrow> None
          | Inr jobs \<Rightarrow>
              (let failed = filter (\<lambda>j. jb_Conclusion j = ''failure'') jobs in
               if failed = [] then None
               else Some \<lparr>rd_FailedJobs = failed,
                 rd_Annotations = (case sc_GetAnnotations sc (wr_ID run) of Inl e \<Rightarrow> [] | Inr as \<Rightarrow> as),
                 rd_Log = TrimLog (CleanLog rawLog) 100 100, rd_Run = run\<rparr>)))"

definition scan_result :: "WorkflowRun list \<Rightarrow> CIFailure list \<Rightarrow> rat \<Rightarrow> issue_tracker \<times> ReconcileResult \<Rightarrow> ScanResult" where
  "scan_result runs failures cost p =
    \<lparr>sr_Reconciled = snd p, sr_Runs = runs, sr_Failures = failures, sr_TotalIssues = length (tk_issues (fst p)),
     sr_ActionableLen = length (GetActionable (fst p)), sr_TriageCost = cost\<rparr>"

text \<open>
  The result, the tracker in memory, and whether it was saved. After an error before the tracker is
  changed it is not saved.
\<close>

definition Scan ::
  "ci_lib \<Rightarrow> engine_config \<Rightarrow> scan_env \<Rightarrow> issue_tracker \<Rightarrow> (string + ScanResult) \<times> issue_tracker \<times> bool" where
  "Scan l c env t =
    (case sc_ListFailedRuns (se_scanner env) (ec_Branch c) (ec_RunLimit c) of
       Inl e \<Rightarrow> (Inl (''list failed runs: '' @ e), t, False)
     | Inr runs \<Rightarrow>
       (let active = map wr_ID runs;
            unreviewed = filter (\<lambda>r. \<not> IsRunReviewed (wr_ID r) t) runs;
            saved = (\<lambda>t res. case se_save env of Some e \<Rightarrow> (Inl (''save tracker: '' @ e), t, False) | None \<Rightarrow> (Inr res, t, True))
        in if unreviewed = [] then
             (let p = Reconcile l (se_now env) None t; t1 = PruneReviewedRuns active (fst p)
              in saved t1 (scan_result runs [] 0 (t1, snd p)))
           else
             (let gathered = List.map_filter (gather_run (se_scanner env)) unreviewed in
              case TriageBatch l (se_query env) (ec_TriageModel c) gathered of
                Inl e \<Rightarrow> (Inl (''batch triage: '' @ e), t, False)
              | Inr (failures, cost) \<Rightarrow>
                  (let t1 = PruneReviewedRuns active (MarkRunsReviewed (map (wr_ID \<circ> rd_Run) gathered) t);
                       p = Reconcile l (se_now env) failures t1
                   in saved (fst p) (scan_result runs (case failures of None \<Rightarrow> [] | Some fs \<Rightarrow> fs) cost p)))))"

section \<open>Fixing\<close>

text \<open>The result for one group: of the agent, or why none ran.\<close>

datatype group_result = GroupRan IssueGroup agentCoreResult | GroupSkipped IssueGroup "string option"

definition mark_groups :: "issue_status \<Rightarrow> IssueGroup list \<Rightarrow> issue_tracker \<Rightarrow> issue_tracker" where
  "mark_groups st gs t = fold (\<lambda>i. UpdateStatus (is_Signature i) st) (concat (map snd gs)) t"

text \<open>
  An agent reads the issues of its group through pointers into the tracker; only the number of attempts
  of the first one matters to it.
\<close>

definition run_and_record ::
  "ci_lib \<Rightarrow> fix_env \<Rightarrow> string \<Rightarrow> IssueGroup \<Rightarrow> issue_tracker \<Rightarrow> issue_tracker" where
  "run_and_record l env logFile g t = recordFixAttempt env logFile (snd g) (fst (run_group l env g)) t"

definition launchAgents ::
  "ci_lib \<Rightarrow> engine_config \<Rightarrow> fix_env \<Rightarrow> IssueGroup list \<Rightarrow> issue_tracker \<Rightarrow> group_result list \<times> fix_effect list \<times> issue_tracker" where
  "launchAgents l c env groups t =
    (if ec_DryRun c then (map (\<lambda>g. GroupSkipped g None) groups, [], t)
     else case fx_fetch env of
         Some e \<Rightarrow> (map (\<lambda>g. GroupSkipped g (Some (''pre-fetch failed: '' @ e))) groups, [], mark_groups StatusNew groups t)
       | None \<Rightarrow>
           (let order = sort_key (\<lambda>g. fx_rank env (fst g)) groups in
            (map (\<lambda>g. GroupRan g (fst (run_group l env g))) order,
             concat (map (\<lambda>g. snd (run_group l env g)) order),
             fold (run_and_record l env (ec_LogFile c)) order (mark_groups StatusInProgress groups t))))"

definition FixFromTracker ::
  "ci_lib \<Rightarrow> engine_config \<Rightarrow> fix_env \<Rightarrow> issue_tracker \<Rightarrow> group_result list \<times> fix_effect list \<times> issue_tracker \<times> bool" where
  "FixFromTracker l c env t =
    (if GetActionable t = [] then ([], [], t, False)
     else case launchAgents l c env (GroupIssues l (GetActionable t)) t of
         (rs, tr, t1) \<Rightarrow> (rs, tr, t1, fx_save env = None))"

text \<open>The file after \<open>Fix\<close> is that of its last save that succeeded.\<close>

definition Fix ::
  "ci_lib \<Rightarrow> engine_config \<Rightarrow> scan_env \<Rightarrow> fix_env \<Rightarrow> issue_tracker \<Rightarrow> group_result list \<times> fix_effect list \<times> issue_tracker \<times> issue_tracker option" where
  "Fix l c senv fenv t =
    (case Scan l c senv t of
       (Inl e, t1, saved) \<Rightarrow> ([], [], t1, None)
     | (Inr r, t1, saved) \<Rightarrow>
         (case FixFromTracker l c fenv t1 of
            (rs, tr, t2, saved2) \<Rightarrow> (rs, tr, t2, Some (if saved2 then t2 else t1))))"

section \<open>Merging\<close>

datatype merge_effect = QueryPR string | MergePR string | RemoveMerged string

record pr_env =
  pe_info :: "merge_effect list \<Rightarrow> string \<Rightarrow> string + (string \<times> string)"
  pe_merge :: "merge_effect list \<Rightarrow> string \<Rightarrow> string option"
  pe_save :: "nat \<Rightarrow> string option"

text \<open>The branch of the last attempt.\<close>

definition last_branch :: "ci_issue \<Rightarrow> string" where
  "last_branch i = (if is_FixAttempts i = [] then [] else fa_Branch (last (is_FixAttempts i)))"

definition set_last_attempt :: "(FixAttempt \<Rightarrow> FixAttempt) \<Rightarrow> ci_issue \<Rightarrow> ci_issue" where
  "set_last_attempt f i =
    (if is_FixAttempts i = [] then i
     else i\<lparr>is_FixAttempts := butlast (is_FixAttempts i) @ [f (last (is_FixAttempts i))]\<rparr>)"

definition pr_status :: "string \<Rightarrow> string \<Rightarrow> issue_status \<Rightarrow> issue_status" where
  "pr_status state review st =
    (if state = ''MERGED'' then StatusFixMerged
     else if state = ''CLOSED'' then StatusNew
     else if review = ''APPROVED'' then StatusFixApproved else st)"

definition refresh_one :: "pr_env \<Rightarrow> string \<times> ci_issue \<Rightarrow> issue_tracker \<times> merge_effect list \<Rightarrow> issue_tracker \<times> merge_effect list" where
  "refresh_one env p st =
    (case (p, st) of ((sig, i), (t, tr)) \<Rightarrow>
      if is_Status i \<noteq> StatusFixPending \<and> is_Status i \<noteq> StatusFixApproved then (t, tr)
      else if last_branch i = [] then (t, tr)
      else case pe_info env tr (last_branch i) of
          Inl e \<Rightarrow> (t, tr @ [QueryPR (last_branch i)])
        | Inr (state, review) \<Rightarrow>
            (upd_issue sig (\<lambda>x. (set_last_attempt (\<lambda>a. a\<lparr>fa_PRState := state, fa_PRReview := review\<rparr>) x)
                              \<lparr>is_Status := pr_status state review (is_Status x)\<rparr>) t,
             tr @ [QueryPR (last_branch i)]))"

definition RefreshPRStatus :: "pr_env \<Rightarrow> issue_tracker \<Rightarrow> issue_tracker \<times> merge_effect list" where
  "RefreshPRStatus env t = fold (refresh_one env) (tk_issues t) (t, [])"

record MergeResult =
  mr_Signature :: string
  mr_Error :: "string option"
  mr_PRNumber :: int

definition merge_one ::
  "engine_config \<Rightarrow> pr_env \<Rightarrow> ci_issue \<Rightarrow> issue_tracker \<times> merge_effect list \<times> MergeResult list \<Rightarrow>
   issue_tracker \<times> merge_effect list \<times> MergeResult list" where
  "merge_one c env i st =
    (case st of (t, tr, rs) \<Rightarrow>
      if last_branch i = [] then (t, tr, rs)
      else (let r = \<lparr>mr_Signature = is_Signature i, mr_Error = None, mr_PRNumber = fa_PRNumber (last (is_FixAttempts i))\<rparr> in
        if ec_DryRun c then (t, tr, rs @ [r])
        else case pe_merge env tr (last_branch i) of
            Some e \<Rightarrow> (t, tr @ [MergePR (last_branch i)], rs @ [r\<lparr>mr_Error := Some e\<rparr>])
          | None \<Rightarrow> (UpdateStatus (is_Signature i) StatusFixMerged t,
                    tr @ [MergePR (last_branch i), RemoveMerged (last_branch i)], rs @ [r])))"

text \<open>
  The file after the call is that of the last save that succeeded, if any: the refresh saves first, and
  an error of that save ends the call.
\<close>

definition MergeApproved ::
  "engine_config \<Rightarrow> pr_env \<Rightarrow> issue_tracker \<Rightarrow> (string + MergeResult list) \<times> merge_effect list \<times> issue_tracker option" where
  "MergeApproved c env t =
    (case RefreshPRStatus env t of (t1, tr1) \<Rightarrow>
      (case pe_save env 0 of
         Some e \<Rightarrow> (Inl (''refresh PR status: '' @ e), tr1, None)
       | None \<Rightarrow>
           if GetPendingMerge t1 = [] then (Inr [], tr1, Some t1)
           else (case fold (merge_one c env) (GetPendingMerge t1) (t1, tr1, []) of
               (t2, tr2, rs) \<Rightarrow>
                 (case pe_save env 1 of
                    Some e \<Rightarrow> (Inl (''save tracker: '' @ e), tr2, Some t1)
                  | None \<Rightarrow> (Inr rs, tr2, Some t2)))))"

section \<open>Commands\<close>

datatype medivac_cmd =
    CmdScan scan_env
  | CmdFix scan_env fix_env
  | CmdFixSkipScan fix_env
  | CmdMerge pr_env
  | CmdDismiss string string
  | CmdReopen string

text \<open>The tracker of the next command: what was saved last.\<close>

definition medivac_step :: "ci_lib \<Rightarrow> engine_config \<Rightarrow> medivac_cmd \<Rightarrow> issue_tracker \<Rightarrow> issue_tracker" where
  "medivac_step l c cmd t =
    (case cmd of
       CmdScan env \<Rightarrow> (case Scan l c env t of (r, t1, saved) \<Rightarrow> if saved then t1 else t)
     | CmdFix senv fenv \<Rightarrow> (case Fix l c senv fenv t of (rs, tr, t1, sv) \<Rightarrow> (case sv of Some t2 \<Rightarrow> t2 | None \<Rightarrow> t))
     | CmdFixSkipScan env \<Rightarrow> (case FixFromTracker l c env t of (rs, tr, t1, saved) \<Rightarrow> if saved then t1 else t)
     | CmdMerge env \<Rightarrow> (case MergeApproved c env t of (r, tr, saved) \<Rightarrow> (case saved of Some t1 \<Rightarrow> t1 | None \<Rightarrow> t))
     | CmdDismiss i reason \<Rightarrow> snd (Dismiss i reason t)
     | CmdReopen i \<Rightarrow> snd (Reopen i t))"

definition medivac_run :: "ci_lib \<Rightarrow> engine_config \<Rightarrow> medivac_cmd list \<Rightarrow> issue_tracker" where
  "medivac_run l c cmds = run_machine (medivac_step l c) cmds \<lparr>tk_issues = [], tk_reviewedRuns = []\<rparr>"

end
