(* ===== verification/MedivacProps.thy ===== *)
theory MedivacProps
  imports MedivacEngine
begin

text \<open>
  What holds of the tracker of \<open>medivac\<close> over any commands: its invariant, that dismissed issues are
  left alone, that the order in which parallel agents finish does not matter, and two ways in which the
  life of an issue goes wrong.
\<close>

section \<open>Changes of single issues\<close>

lemma upd_issue_fields [simp]:
  "tk_reviewedRuns (upd_issue sig f t) = tk_reviewedRuns t"
  "map fst (tk_issues (upd_issue sig f t)) = map fst (tk_issues t)"
  "length (tk_issues (upd_issue sig f t)) = length (tk_issues t)"
  by (auto simp: upd_issue_def comp_def)

lemma upd_issue_set:
  "set (tk_issues (upd_issue sig f t)) = (\<lambda>p. if fst p = sig then (sig, f (snd p)) else p) ` set (tk_issues t)"
  by (simp add: upd_issue_def)

lemma upd_issue_comp: "upd_issue sig f (upd_issue sig g t) = upd_issue sig (\<lambda>i. f (g i)) t"
  by (simp add: upd_issue_def comp_def if_distrib cong: if_cong)

lemma upd_issue_commute: "a \<noteq> b \<Longrightarrow> upd_issue a f (upd_issue b g t) = upd_issue b g (upd_issue a f t)"
  by (simp add: upd_issue_def comp_def)

text \<open>A property of all issues of the tracker.\<close>

definition all_issues :: "(string \<Rightarrow> ci_issue \<Rightarrow> bool) \<Rightarrow> issue_tracker \<Rightarrow> bool" where
  "all_issues P t \<longleftrightarrow> wf_map (tk_issues t) \<and> (\<forall>p\<in>set (tk_issues t). P (fst p) (snd p))"

lemma all_issues_upd:
  "all_issues P t \<Longrightarrow> (\<And>i. (sig, i) \<in> set (tk_issues t) \<Longrightarrow> P sig i \<Longrightarrow> P sig (f i)) \<Longrightarrow> all_issues P (upd_issue sig f t)"
  by (auto simp: all_issues_def wf_map_def upd_issue_set split: if_splits)

lemma all_issues_upd':
  assumes "all_issues P t" and "\<And>i. (sig, i) \<in> set (tk_issues t) \<Longrightarrow> P sig i \<Longrightarrow> Q sig (f i)"
    and "\<And>k i. k \<noteq> sig \<Longrightarrow> P k i \<Longrightarrow> Q k i"
  shows "all_issues Q (upd_issue sig f t)"
  using assms by (auto simp: all_issues_def wf_map_def upd_issue_set split: if_splits)

lemma wf_unique: "wf_map m \<Longrightarrow> (k, a) \<in> set m \<Longrightarrow> (k, b) \<in> set m \<Longrightarrow> a = b"
  by (simp add: wf_map_def) (metis eq_key_imp_eq_value)

lemma all_issues_mono: "all_issues P t \<Longrightarrow> (\<And>sig i. (sig, i) \<in> set (tk_issues t) \<Longrightarrow> P sig i \<Longrightarrow> Q sig i) \<Longrightarrow> all_issues Q t"
  by (auto simp: all_issues_def)

lemma mput_subset: "set (mput k v m) \<subseteq> insert (k, v) (set m)"
  by (induction m) auto

lemma all_issues_put:
  assumes "all_issues P t" and "P sig i"
  shows "all_issues P (t\<lparr>tk_issues := mput sig i (tk_issues t)\<rparr>)"
proof -
  have "set (mput sig i (tk_issues t)) \<subseteq> insert (sig, i) (set (tk_issues t))" by (rule mput_subset)
  then show ?thesis using assms by (auto simp: all_issues_def)
qed

section \<open>The invariant\<close>

definition tried :: "ci_issue \<Rightarrow> bool" where
  "tried i \<longleftrightarrow> is_FixAttempts i \<noteq> [] \<and> fa_Branch (last (is_FixAttempts i)) \<noteq> [] \<and> fa_PRURL (last (is_FixAttempts i)) \<noteq> []"

definition issue_ok :: "ci_lib \<Rightarrow> string \<Rightarrow> ci_issue \<Rightarrow> bool" where
  "issue_ok l sig i \<longleftrightarrow> is_Signature i = sig \<and> is_ID i = generateID l sig \<and> is_FirstSeen i \<le> is_LastSeen i \<and>
     1 \<le> is_SeenCount i \<and>
     (is_Status i \<in> {StatusFixPending, StatusFixApproved, StatusFixMerged, StatusVerified, StatusRecurred} \<longrightarrow> tried i) \<and>
     (is_Status i = StatusVerified \<longrightarrow> is_ResolvedAt i \<noteq> None) \<and>
     (is_Status i \<noteq> StatusWontFix \<longrightarrow> is_DismissReason i = [])"

text \<open>Work in progress only on the given issues.\<close>

definition busy_only :: "ci_lib \<Rightarrow> string set \<Rightarrow> string \<Rightarrow> ci_issue \<Rightarrow> bool" where
  "busy_only l S sig i \<longleftrightarrow> issue_ok l sig i \<and> (is_Status i = StatusInProgress \<longrightarrow> sig \<in> S)"

abbreviation tracker_ok :: "ci_lib \<Rightarrow> issue_tracker \<Rightarrow> bool" where
  "tracker_ok l \<equiv> all_issues (busy_only l {})"

lemma new_issue_ok: "busy_only l {} (cf_Signature f) (new_issue l f)"
  by (simp add: busy_only_def issue_ok_def new_issue_def)

lemma tried_updates [simp]:
  "tried (i\<lparr>is_Status := st\<rparr>) = tried i" "tried (i\<lparr>is_ResolvedAt := r\<rparr>) = tried i" "tried (seen_again f i) = tried i"
  "tried (i\<lparr>is_DismissReason := d\<rparr>) = tried i" "tried (recur i) = tried i"
  by (auto simp: tried_def seen_again_def recur_def)

lemma seen_again_fields [simp]:
  "is_Status (seen_again f i) = is_Status i" "is_Signature (seen_again f i) = is_Signature i" "is_ID (seen_again f i) = is_ID i"
  "is_ResolvedAt (seen_again f i) = is_ResolvedAt i" "is_DismissReason (seen_again f i) = is_DismissReason i"
  "is_SeenCount (seen_again f i) = is_SeenCount i + 1" "is_FixAttempts (seen_again f i) = is_FixAttempts i"
  by (simp_all add: seen_again_def)

lemma seen_again_times: "is_FirstSeen i \<le> is_LastSeen i \<Longrightarrow> is_FirstSeen (seen_again f i) \<le> is_LastSeen (seen_again f i)"
  by (simp add: seen_again_def)

lemma seen_again_ok: "busy_only l S sig i \<Longrightarrow> busy_only l S sig (seen_again f i)"
  using seen_again_times [of i f] by (simp add: busy_only_def issue_ok_def)

lemma recur_ok: "busy_only l S sig i \<Longrightarrow> busy_only l S sig (recur i)"
  by (auto simp: recur_def busy_only_def issue_ok_def tried_def)

lemma reconcile_one_ok: "tracker_ok l (fst st) \<Longrightarrow> tracker_ok l (fst (reconcile_one l f st))"
  by (cases st) (auto simp: reconcile_one_def intro!: all_issues_put all_issues_upd new_issue_ok seen_again_ok recur_ok
      split: option.split)

lemma reconcile_fold_ok: "tracker_ok l (fst st) \<Longrightarrow> tracker_ok l (fst (fold (reconcile_one l) fs st))"
  by (induction fs arbitrary: st) (simp_all add: reconcile_one_ok)

lemma verified_ok: "busy_only l S sig i \<Longrightarrow> is_Status i = StatusFixMerged \<Longrightarrow>
    busy_only l S sig (i\<lparr>is_Status := StatusVerified, is_ResolvedAt := Some now\<rparr>)"
  by (auto simp: busy_only_def issue_ok_def tried_def)

lemma verify_ok: "tracker_ok l (fst st) \<Longrightarrow> tracker_ok l (fst (verify_unseen now seen st))"
  by (cases st) (auto simp: verify_unseen_def all_issues_def wf_map_def comp_def if_distrib verified_ok cong: if_cong)

lemma Reconcile_ok: "tracker_ok l t \<Longrightarrow> tracker_ok l (fst (Reconcile l now fs t))"
  by (auto simp: Reconcile_def Let_def intro!: verify_ok reconcile_fold_ok split: option.split)

lemma runs_ok [simp]:
  "all_issues P (MarkRunsReviewed rs t) = all_issues P t" "all_issues P (PruneReviewedRuns rs t) = all_issues P t"
  "tk_issues (MarkRunsReviewed rs t) = tk_issues t" "tk_issues (PruneReviewedRuns rs t) = tk_issues t"
  by (simp_all add: all_issues_def MarkRunsReviewed_def PruneReviewedRuns_def)

lemma Scan_ok: "tracker_ok l t \<Longrightarrow> tracker_ok l (fst (snd (Scan l c env t)))"
  by (auto simp: Scan_def Let_def Reconcile_ok split: sum.split option.split)

section \<open>Groups\<close>

lemma add_to_group_keys:
  "set (map fst (add_to_group k i gs)) = insert k (set (map fst gs))"
  "distinct (map fst gs) \<Longrightarrow> distinct (map fst (add_to_group k i gs))"
  by (induction gs) auto

lemma add_to_group_members:
  assumes "distinct (map fst gs)" and "list_all (\<lambda>g. snd g = filter (\<lambda>j. groupKey l j = fst g) js \<and> snd g \<noteq> []) gs"
    and "set (map fst gs) = groupKey l ` set js"
  shows "list_all (\<lambda>g. snd g = filter (\<lambda>j. groupKey l j = fst g) (js @ [i]) \<and> snd g \<noteq> []) (add_to_group (groupKey l i) i gs)"
proof -
  have "list_all (\<lambda>g. snd g = filter (\<lambda>j. groupKey l j = fst g) (js @ [i]) \<and> snd g \<noteq> []) (add_to_group (groupKey l i) i hs)"
    if "set hs \<subseteq> set gs" "distinct (map fst hs)" "groupKey l i \<in> set (map fst hs) \<or> groupKey l i \<notin> set (map fst gs)" for hs
    using that
  proof (induction hs)
    case Nil
    then have "groupKey l i \<notin> groupKey l ` set js" using assms(3) by auto
    then have "groupKey l j \<noteq> groupKey l i" if "j \<in> set js" for j using that by (metis image_eqI)
    then show ?case by (simp add: filter_empty_conv)
  next
    case (Cons h hs)
    have h: "snd h = filter (\<lambda>j. groupKey l j = fst h) js" "snd h \<noteq> []" using assms(2) Cons.prems(1) by (auto simp: list_all_iff)
    show ?case
    proof (cases "fst h = groupKey l i")
      case True
      then have "\<forall>g\<in>set hs. fst g \<noteq> groupKey l i" using Cons.prems(2) by force
      moreover have "\<forall>g\<in>set hs. snd g = filter (\<lambda>j. groupKey l j = fst g) js \<and> snd g \<noteq> []"
        using assms(2) Cons.prems(1) by (auto simp: list_all_iff)
      ultimately have "list_all (\<lambda>g. snd g = filter (\<lambda>j. groupKey l j = fst g) (js @ [i]) \<and> snd g \<noteq> []) hs"
        by (fastforce simp: list_all_iff)
      moreover obtain k is' where "h = (k, is')" by (cases h)
      ultimately show ?thesis using True h by auto
    next
      case False
      then show ?thesis using Cons.IH Cons.prems h by auto
    qed
  qed
  then show ?thesis using assms(1) by blast
qed

lemma groups_fold:
  "(let gs = foldl (\<lambda>gs i. add_to_group (groupKey l i) i gs) [] js in
     distinct (map fst gs) \<and> set (map fst gs) = groupKey l ` set js \<and>
     list_all (\<lambda>g. snd g = filter (\<lambda>j. groupKey l j = fst g) js \<and> snd g \<noteq> []) gs)"
proof (induction js rule: rev_induct)
  case (snoc i js)
  let ?gs = "foldl (\<lambda>gs i. add_to_group (groupKey l i) i gs) [] js"
  have "distinct (map fst ?gs)" "set (map fst ?gs) = groupKey l ` set js"
    "list_all (\<lambda>g. snd g = filter (\<lambda>j. groupKey l j = fst g) js \<and> snd g \<noteq> []) ?gs"
    using snoc by (simp_all add: Let_def)
  then show ?case
    using add_to_group_keys add_to_group_members by (simp add: Let_def del: set_map filter_append)
qed (simp add: Let_def)

text \<open>Grouping is a partition: there is one group for every grouping key that occurs, and it holds all
  the issues with that key in their order, so no issue gets two agents and none is forgotten.
\<close>

theorem medivac_groups_partition:
  "distinct (map fst (GroupIssues l issues)) \<and> set (map fst (GroupIssues l issues)) = groupKey l ` set issues \<and>
   list_all (\<lambda>g. snd g = filter (\<lambda>i. groupKey l i = fst g) issues \<and> snd g \<noteq> []) (GroupIssues l issues)"
  using groups_fold by (simp add: GroupIssues_def Let_def)

lemma group_member:
  assumes "g \<in> set (GroupIssues l issues)"
  shows "snd g = filter (\<lambda>i. groupKey l i = fst g) issues" "snd g \<noteq> []"
  using groups_fold [of l issues] assms by (auto simp: GroupIssues_def Let_def list_all_iff)

lemma groups_keys: "distinct (map fst (GroupIssues l issues))"
  using groups_fold by (simp add: GroupIssues_def Let_def)

lemma groups_issues: "set (concat (map snd (GroupIssues l issues))) = set issues"
proof -
  have "i \<in> \<Union> (set ` snd ` set (GroupIssues l issues))" if "i \<in> set issues" for i
  proof -
    have "groupKey l i \<in> set (map fst (GroupIssues l issues))"
      using groups_fold [of l issues] that by (simp add: GroupIssues_def Let_def del: set_map)
    then obtain g where "g \<in> set (GroupIssues l issues)" "fst g = groupKey l i" by auto
    then show ?thesis using that group_member(1) by fastforce
  qed
  moreover have "set (snd g) \<subseteq> set issues" if "g \<in> set (GroupIssues l issues)" for g
    using group_member(1) [OF that] by auto
  ultimately show ?thesis by auto
qed

section \<open>Agents\<close>

definition during :: "ci_lib \<Rightarrow> string set \<Rightarrow> string set \<Rightarrow> string \<Rightarrow> ci_issue \<Rightarrow> bool" where
  "during l B D sig i \<longleftrightarrow> busy_only l B sig i \<and> (sig \<in> D \<longrightarrow> is_DismissReason i = [])"

lemma during_start:
  assumes "tracker_ok l t" and "D \<subseteq> is_Signature ` set (GetActionable t)"
  shows "all_issues (during l {} D) t"
proof -
  have "is_DismissReason i = []" if p: "(sig, i) \<in> set (tk_issues t)" and s: "sig \<in> D" for sig i
  proof -
    obtain j k where j: "(k, j) \<in> set (tk_issues t)" "is_Status j = StatusNew \<or> is_Status j = StatusRecurred" "is_Signature j = sig"
      using assms(2) s by (auto simp: GetActionable_def issues_with_def)
    have "k = sig" using j(1,3) assms(1) by (auto simp: all_issues_def busy_only_def issue_ok_def)
    then have "j = i" using p j(1) assms(1) wf_unique by (metis all_issues_def)
    then have "is_Status i \<noteq> StatusWontFix" using j(2) by auto
    moreover have "issue_ok l sig i" using p assms(1) by (auto simp: all_issues_def busy_only_def)
    ultimately show ?thesis by (simp add: issue_ok_def)
  qed
  then show ?thesis using assms(1) by (auto simp: during_def intro: all_issues_mono)
qed

lemma during_mark:
  assumes "all_issues (during l B D) t" and "sig \<in> D" and "st = StatusInProgress \<and> sig \<in> B' \<or> st = StatusNew" and "B \<subseteq> B'"
  shows "all_issues (during l B' D) (UpdateStatus sig st t)"
proof -
  have "all_issues (during l B' D) t"
    by (rule all_issues_mono [OF assms(1)]) (use assms(4) in \<open>auto simp: during_def busy_only_def\<close>)
  then show ?thesis
    unfolding UpdateStatus_def
    by (rule all_issues_upd) (use assms(2,3) in \<open>auto simp: during_def busy_only_def issue_ok_def\<close>)
qed

lemma during_marks:
  assumes "all_issues (during l B D) t" and "is_Signature ` set js \<subseteq> D" and "st = StatusInProgress \<and> is_Signature ` set js \<subseteq> B \<or> st = StatusNew"
  shows "all_issues (during l B D) (fold (\<lambda>i. UpdateStatus (is_Signature i) st) js t)"
  using assms by (induction js arbitrary: t) (auto intro: during_mark)

text \<open>What is recorded of an agent.\<close>

lemma branch_ne: "fixBranchName i \<noteq> []"
  by (simp add: fixBranchName_def)

lemma finish_branch: "ac_Branch (fst (finish_agent l env issues run r tr)) = ac_Branch r"
  by (auto simp: finish_agent_def fail_agent_def Let_def split: option.split sum.split prod.split)

lemma run_branch: "ac_Branch (fst (run_group l env g)) = fixBranchName (hd (snd g))"
  by (simp add: run_group_def runAgentCore_def Let_def finish_branch split: sum.split)

lemma attempt_status:
  "snd (attempt_of env lf n r) = (if ac_Success r \<and> ac_PRURL r \<noteq> [] then StatusFixPending else StatusNew)"
  "fa_Branch (fst (attempt_of env lf n r)) = ac_Branch r" "fa_PRURL (fst (attempt_of env lf n r)) = ac_PRURL r"
  by (simp_all add: attempt_of_def Let_def)

lemma attempts_update: "is_FixAttempts_update f i = i\<lparr>is_FixAttempts := f (is_FixAttempts i)\<rparr>"
  by (cases i) simp

lemma record_upd:
  "UpdateStatus sig st (AddFixAttempt sig a t) = upd_issue sig (\<lambda>i. i\<lparr>is_FixAttempts := is_FixAttempts i @ [a], is_Status := st\<rparr>) t"
  by (simp add: UpdateStatus_def AddFixAttempt_def upd_issue_comp attempts_update [of "\<lambda>as. as @ [a]"])

lemma during_record:
  assumes "all_issues (during l B D) t" and "sig \<in> D" and "st = StatusNew \<or> st = StatusFixPending \<and> fa_Branch a \<noteq> [] \<and> fa_PRURL a \<noteq> []"
  shows "all_issues (during l (B - {sig}) D) (UpdateStatus sig st (AddFixAttempt sig a t))"
  unfolding record_upd
proof (rule all_issues_upd' [OF assms(1)])
  fix i :: ci_issue
  let ?i = "i\<lparr>is_FixAttempts := is_FixAttempts i @ [a], is_Status := st\<rparr>"
  assume i: "during l B D sig i"
  have f: "is_Signature i = sig" "is_ID i = generateID l sig" "is_FirstSeen i \<le> is_LastSeen i" "1 \<le> is_SeenCount i"
      "is_DismissReason i = []"
    using i assms(2) by (simp_all add: during_def busy_only_def issue_ok_def)
  from assms(3) show "during l (B - {sig}) D sig ?i"
  proof (elim disjE conjE)
    assume "st = StatusNew"
    with f show ?thesis by (simp add: during_def busy_only_def issue_ok_def)
  next
    assume "st = StatusFixPending" "fa_Branch a \<noteq> []" "fa_PRURL a \<noteq> []"
    with f show ?thesis by (simp add: during_def busy_only_def issue_ok_def tried_def)
  qed
qed (auto simp: during_def busy_only_def)

lemma during_records:
  assumes "all_issues (during l B D) t" and "is_Signature ` set js \<subseteq> D"
    and "st = StatusNew \<or> st = StatusFixPending \<and> fa_Branch a \<noteq> [] \<and> fa_PRURL a \<noteq> []"
  shows "all_issues (during l (B - is_Signature ` set js) D)
    (fold (\<lambda>i t. UpdateStatus (is_Signature i) st (AddFixAttempt (is_Signature i) a t)) js t)"
  using assms
proof (induction js arbitrary: t B)
  case (Cons i js)
  have "all_issues (during l (B - {is_Signature i}) D) (UpdateStatus (is_Signature i) st (AddFixAttempt (is_Signature i) a t))"
    by (rule during_record) (use Cons.prems in auto)
  from Cons.IH [OF this] Cons.prems
  have "all_issues (during l (B - {is_Signature i} - is_Signature ` set js) D)
    (fold (\<lambda>i t. UpdateStatus (is_Signature i) st (AddFixAttempt (is_Signature i) a t)) (i # js) t)" by simp
  moreover have "B - {is_Signature i} - is_Signature ` set js = B - is_Signature ` set (i # js)" by auto
  ultimately show ?case by simp
qed simp

lemma during_group:
  assumes "all_issues (during l B D) t" and "is_Signature ` set (snd g) \<subseteq> D"
  shows "all_issues (during l (B - is_Signature ` set (snd g)) D) (run_and_record l env lf g t)"
proof -
  let ?a = "fst (attempt_of env lf (length (snd g)) (fst (run_group l env g)))"
  let ?st = "snd (attempt_of env lf (length (snd g)) (fst (run_group l env g)))"
  have "?st = StatusNew \<or> ?st = StatusFixPending \<and> fa_Branch ?a \<noteq> [] \<and> fa_PRURL ?a \<noteq> []"
    by (simp add: attempt_status run_branch branch_ne)
  from during_records [OF assms this] show ?thesis
    by (simp add: run_and_record_def recordFixAttempt_def case_prod_beta)
qed

lemma during_groups:
  assumes "all_issues (during l B D) t" and "is_Signature ` set (concat (map snd gs)) \<subseteq> D"
  shows "all_issues (during l (B - is_Signature ` set (concat (map snd gs))) D) (fold (run_and_record l env lf) gs t)"
  using assms
proof (induction gs arbitrary: t B)
  case (Cons g gs)
  have "all_issues (during l (B - is_Signature ` set (snd g)) D) (run_and_record l env lf g t)"
    by (rule during_group) (use Cons.prems in auto)
  from Cons.IH [OF this] Cons.prems
  have "all_issues (during l (B - is_Signature ` set (snd g) - is_Signature ` set (concat (map snd gs))) D)
    (fold (run_and_record l env lf) (g # gs) t)" by (simp add: image_Un)
  moreover have "B - is_Signature ` set (snd g) - is_Signature ` set (concat (map snd gs)) =
      B - is_Signature ` set (concat (map snd (g # gs)))" by auto
  ultimately show ?case by simp
qed simp

lemma during_tracker_ok: "all_issues (during l B D) t \<Longrightarrow> B \<subseteq> S \<Longrightarrow> all_issues (busy_only l S) t"
  by (erule all_issues_mono) (auto simp: during_def busy_only_def)

lemma mark_groups_during:
  assumes "all_issues (during l B D) t" and "is_Signature ` set (concat (map snd gs)) \<subseteq> D"
    and "st = StatusInProgress \<and> is_Signature ` set (concat (map snd gs)) \<subseteq> B \<or> st = StatusNew"
  shows "all_issues (during l B D) (mark_groups st gs t)"
  unfolding mark_groups_def by (rule during_marks [OF assms])

lemma launchAgents_ok:
  assumes ok: "tracker_ok l t" and gs: "gs = GroupIssues l (GetActionable t)"
  shows "tracker_ok l (snd (snd (launchAgents l c env gs t)))"
proof -
  define D where "D = is_Signature ` set (GetActionable t)"
  have sigs: "is_Signature ` set (concat (map snd gs)) = D"
    using groups_issues [of l "GetActionable t"] unfolding gs D_def by (rule arg_cong)
  have start: "all_issues (during l {} D) t" by (rule during_start [OF ok]) (simp add: D_def)
  have new: "tracker_ok l (mark_groups StatusNew gs t)"
    by (rule during_tracker_ok [OF mark_groups_during [OF start]]) (use sigs in auto)
  let ?order = "sort_key (\<lambda>g. fx_rank env (fst g)) gs"
  have "set (concat (map snd ?order)) = set (concat (map snd gs))" by simp
  then have order: "is_Signature ` set (concat (map snd ?order)) = D" using sigs by metis
  have "all_issues (during l D D) t"
    by (rule all_issues_mono [OF start]) (auto simp: during_def busy_only_def)
  then have "all_issues (during l D D) (mark_groups StatusInProgress gs t)"
    by (rule mark_groups_during) (use sigs in auto)
  from during_groups [OF this, of ?order env "ec_LogFile c"]
  have "all_issues (during l (D - D) D) (fold (run_and_record l env (ec_LogFile c)) ?order (mark_groups StatusInProgress gs t))"
    unfolding order by simp
  then have "tracker_ok l (fold (run_and_record l env (ec_LogFile c)) ?order (mark_groups StatusInProgress gs t))"
    by (rule during_tracker_ok) simp
  then show ?thesis using ok new by (simp add: launchAgents_def Let_def split: option.split)
qed

lemma FixFromTracker_ok: "tracker_ok l t \<Longrightarrow> tracker_ok l (fst (snd (snd (FixFromTracker l c env t))))"
  using launchAgents_ok [of l t "GroupIssues l (GetActionable t)" c env]
  by (auto simp: FixFromTracker_def split: prod.split)

lemma Fix_ok:
  assumes "tracker_ok l t"
  shows "tracker_ok l (fst (snd (snd (Fix l c senv fenv t))))"
    and "snd (snd (snd (Fix l c senv fenv t))) = Some t' \<Longrightarrow> tracker_ok l t'"
proof -
  obtain r t1 s where s: "Scan l c senv t = (r, t1, s)" by (metis prod_cases3)
  have t1: "tracker_ok l t1" using Scan_ok [OF assms, of c senv] s by simp
  have t2: "tracker_ok l t2" if "FixFromTracker l c fenv t1 = (rs, tr, t2, s2)" for rs tr t2 s2
    using FixFromTracker_ok [OF t1, of c fenv] that by simp
  show "tracker_ok l (fst (snd (snd (Fix l c senv fenv t))))"
    using t1 t2 by (simp add: Fix_def s split: sum.split prod.split)
  show "snd (snd (snd (Fix l c senv fenv t))) = Some t' \<Longrightarrow> tracker_ok l t'"
    using t1 t2 by (auto simp: Fix_def s split: sum.splits prod.splits if_splits)
qed

section \<open>Pull requests\<close>

lemma tried_set_last: "tried (set_last_attempt (\<lambda>a. a\<lparr>fa_PRState := s, fa_PRReview := r\<rparr>) i) = tried i"
  by (auto simp: set_last_attempt_def tried_def)

lemma set_last_fields [simp]:
  "is_Status (set_last_attempt f i) = is_Status i" "is_Signature (set_last_attempt f i) = is_Signature i"
  "is_ID (set_last_attempt f i) = is_ID i" "is_FirstSeen (set_last_attempt f i) = is_FirstSeen i"
  "is_LastSeen (set_last_attempt f i) = is_LastSeen i" "is_SeenCount (set_last_attempt f i) = is_SeenCount i"
  "is_DismissReason (set_last_attempt f i) = is_DismissReason i" "is_ResolvedAt (set_last_attempt f i) = is_ResolvedAt i"
  by (simp_all add: set_last_attempt_def)

lemma pr_status_cases: "st \<in> {StatusFixPending, StatusFixApproved} \<Longrightarrow>
    pr_status s r st \<in> {StatusFixPending, StatusFixApproved, StatusFixMerged, StatusNew}"
  by (auto simp: pr_status_def)

lemma refreshed_ok:
  assumes i: "busy_only l {} sig i" and st: "is_Status i \<in> {StatusFixPending, StatusFixApproved}"
  shows "busy_only l {} sig ((set_last_attempt (\<lambda>a. a\<lparr>fa_PRState := s, fa_PRReview := r\<rparr>) i)\<lparr>is_Status := pr_status s r (is_Status i)\<rparr>)"
proof -
  have "tried i" using i st by (auto simp: busy_only_def issue_ok_def)
  then have t: "tried (set_last_attempt (\<lambda>a. a\<lparr>fa_PRState := s, fa_PRReview := r\<rparr>) i)" by (simp add: tried_set_last)
  have d: "is_DismissReason i = []" using i st by (auto simp: busy_only_def issue_ok_def)
  have f: "is_Signature i = sig" "is_ID i = generateID l sig" "is_FirstSeen i \<le> is_LastSeen i" "1 \<le> is_SeenCount i"
    using i by (simp_all add: busy_only_def issue_ok_def)
  from pr_status_cases [OF st, of s r] consider "pr_status s r (is_Status i) = StatusFixPending"
    | "pr_status s r (is_Status i) = StatusFixApproved" | "pr_status s r (is_Status i) = StatusFixMerged"
    | "pr_status s r (is_Status i) = StatusNew" by blast
  then show ?thesis by cases (simp_all add: busy_only_def issue_ok_def f t d)
qed

text \<open>The iteration changes an issue only when it is at that issue.\<close>

definition untouched :: "(string, ci_issue) gomap \<Rightarrow> issue_tracker \<Rightarrow> bool" where
  "untouched ps t \<longleftrightarrow> (\<forall>p\<in>set ps. map_of (tk_issues t) (fst p) = Some (snd p))"

lemma map_of_upd_issue:
  "map_of (tk_issues (upd_issue sig f t)) k = (if k = sig then map_option f (map_of (tk_issues t) k) else map_of (tk_issues t) k)"
proof -
  have "map_of (map (\<lambda>p. if fst p = sig then (sig, f (snd p)) else p) m) k =
      (if k = sig then map_option f (map_of m k) else map_of m k)" for m
    by (induction m) auto
  then show ?thesis by (simp add: upd_issue_def)
qed

lemma refresh_one_cases:
  obtains "fst (refresh_one env (sig, i) st) = fst st"
  | s r where "is_Status i \<in> {StatusFixPending, StatusFixApproved}" "last_branch i \<noteq> []"
    "pe_info env (snd st) (last_branch i) = Inr (s, r)"
    "fst (refresh_one env (sig, i) st) =
      upd_issue sig (\<lambda>x. (set_last_attempt (\<lambda>a. a\<lparr>fa_PRState := s, fa_PRReview := r\<rparr>) x)
        \<lparr>is_Status := pr_status s r (is_Status x)\<rparr>) (fst st)"
proof -
  obtain t tr where st: "st = (t, tr)" by (cases st)
  show thesis
  proof (cases "is_Status i \<in> {StatusFixPending, StatusFixApproved} \<and> last_branch i \<noteq> []")
    case False
    then have "fst (refresh_one env (sig, i) st) = fst st" by (auto simp: refresh_one_def st)
    then show thesis by (rule that(1))
  next
    case True
    show thesis
    proof (cases "pe_info env tr (last_branch i)")
      case (Inl e)
      with True have "fst (refresh_one env (sig, i) st) = fst st" by (auto simp: refresh_one_def st)
      then show thesis by (rule that(1))
    next
      case (Inr p)
      obtain s r where p: "p = (s, r)" by (cases p)
      show thesis by (rule that(2) [of s r]) (use True Inr p in \<open>auto simp: refresh_one_def st\<close>)
    qed
  qed
qed

lemma refresh_one_ok:
  assumes ok: "tracker_ok l (fst st)" and un: "untouched ((sig, i) # ps) (fst st)" and d: "distinct (map fst ((sig, i) # ps))"
  shows "tracker_ok l (fst (refresh_one env (sig, i) st)) \<and> untouched ps (fst (refresh_one env (sig, i) st))"
proof (cases rule: refresh_one_cases [of env sig i st])
  case 1
  then show ?thesis using ok un by (simp add: untouched_def)
next
  case (2 s r)
  have here: "map_of (tk_issues (fst st)) sig = Some i" using un by (simp add: untouched_def)
  have unique: "x = i" if "(sig, x) \<in> set (tk_issues (fst st))" for x
    using wf_unique [of "tk_issues (fst st)"] ok that map_of_SomeD [OF here] by (auto simp: all_issues_def)
  have "tracker_ok l (fst (refresh_one env (sig, i) st))"
    unfolding 2(4)
    by (rule all_issues_upd [OF ok]) (use unique 2(1) refreshed_ok in auto)
  moreover have "untouched ps (fst (refresh_one env (sig, i) st))"
    using un d unfolding 2(4) untouched_def map_of_upd_issue by force
  ultimately show ?thesis ..
qed

lemma refresh_fold_ok:
  "tracker_ok l (fst st) \<Longrightarrow> untouched ps (fst st) \<Longrightarrow> distinct (map fst ps) \<Longrightarrow>
    tracker_ok l (fst (fold (refresh_one env) ps st))"
proof (induction ps arbitrary: st)
  case (Cons p ps)
  obtain sig i where p: "p = (sig, i)" by (cases p)
  from refresh_one_ok [of l st sig i ps env] Cons.prems Cons.IH show ?case by (simp add: p)
qed simp

lemma RefreshPRStatus_ok:
  assumes "tracker_ok l t"
  shows "tracker_ok l (fst (RefreshPRStatus env t))"
proof -
  have wf: "wf_map (tk_issues t)" using assms by (simp add: all_issues_def)
  then have "untouched (tk_issues t) t" by (auto simp: untouched_def wf_map_def)
  with wf show ?thesis unfolding RefreshPRStatus_def
    by (intro refresh_fold_ok) (use assms in \<open>simp_all add: wf_map_def\<close>)
qed

lemma GetPendingMerge_tried: "tracker_ok l t \<Longrightarrow> i \<in> set (GetPendingMerge t) \<Longrightarrow>
    (is_Signature i, i) \<in> set (tk_issues t) \<and> is_Status i = StatusFixApproved"
  by (auto simp: GetPendingMerge_def issues_with_def all_issues_def busy_only_def issue_ok_def)

lemma merge_one_cases:
  obtains "fst (merge_one c env i st) = fst st" | "fst (merge_one c env i st) = UpdateStatus (is_Signature i) StatusFixMerged (fst st)"
proof -
  obtain t tr rs where st: "st = (t, tr, rs)" by (cases st)
  have "fst (merge_one c env i st) \<in> {fst st, UpdateStatus (is_Signature i) StatusFixMerged (fst st)}"
    by (simp add: merge_one_def Let_def st split: option.split)
  then show thesis using that by blast
qed

text \<open>While merging, the issues that were approved are approved or merged.\<close>

definition merging :: "ci_lib \<Rightarrow> string set \<Rightarrow> string \<Rightarrow> ci_issue \<Rightarrow> bool" where
  "merging l A sig i \<longleftrightarrow> busy_only l {} sig i \<and> (sig \<in> A \<longrightarrow> is_Status i \<in> {StatusFixApproved, StatusFixMerged})"

lemma merging_upd: "merging l A sig i \<Longrightarrow> sig \<in> A \<Longrightarrow> merging l A sig (i\<lparr>is_Status := StatusFixMerged\<rparr>)"
  by (auto simp: merging_def busy_only_def issue_ok_def)

lemma merge_one_ok:
  assumes "all_issues (merging l A) (fst st)" and "is_Signature i \<in> A"
  shows "all_issues (merging l A) (fst (merge_one c env i st))"
proof (cases rule: merge_one_cases [of c env i st])
  case 2
  show ?thesis unfolding 2 UpdateStatus_def
    by (rule all_issues_upd [OF assms(1)]) (use merging_upd assms(2) in blast)
qed (simp add: assms(1))

lemma merge_fold_ok:
  "all_issues (merging l A) (fst st) \<Longrightarrow> is_Signature ` set js \<subseteq> A \<Longrightarrow> all_issues (merging l A) (fst (fold (merge_one c env) js st))"
  by (induction js arbitrary: st) (simp_all add: merge_one_ok)

lemma merging_start:
  assumes "tracker_ok l t"
  shows "all_issues (merging l (is_Signature ` set (GetPendingMerge t))) t"
proof -
  have "is_Status i = StatusFixApproved" if p: "(sig, i) \<in> set (tk_issues t)" and a: "sig \<in> is_Signature ` set (GetPendingMerge t)" for sig i
  proof -
    obtain j where "(sig, j) \<in> set (tk_issues t)" "is_Status j = StatusFixApproved"
      using a GetPendingMerge_tried [OF assms] by blast
    then show ?thesis using p wf_unique assms unfolding all_issues_def by metis
  qed
  then show ?thesis using assms by (auto simp: merging_def intro: all_issues_mono)
qed

lemma merge_all_ok:
  assumes "tracker_ok l t"
  shows "tracker_ok l (fst (fold (merge_one c env) (GetPendingMerge t) (t, tr, rs)))"
  by (rule all_issues_mono [OF merge_fold_ok [where st = "(t, tr, rs)", unfolded fst_conv, OF merging_start [OF assms]]])
    (auto simp: merging_def)

lemma MergeApproved_ok:
  assumes "tracker_ok l t" and "MergeApproved c env t = (r, tr, Some t')"
  shows "tracker_ok l t'"
proof -
  obtain t1 tr1 where t1: "RefreshPRStatus env t = (t1, tr1)" by (cases "RefreshPRStatus env t")
  have ok1: "tracker_ok l t1" using RefreshPRStatus_ok [OF assms(1), of env] by (simp add: t1)
  have ok2: "tracker_ok l t2" if "fold (merge_one c env) (GetPendingMerge t1) (t1, tr1, []) = (t2, x)" for t2 x
    using merge_all_ok [OF ok1, of c env tr1 "[]"] that by simp
  show ?thesis using assms(2) ok1 ok2
    by (auto simp: MergeApproved_def t1 split: option.splits if_splits prod.splits)
qed

section \<open>Commands\<close>

lemma find_SomeD: "find P xs = Some x \<Longrightarrow> x \<in> set xs \<and> P x"
  by (induction xs) (auto split: if_splits)

lemma find_entry_Some: "find_entry i t = Some (sig, x) \<Longrightarrow> (sig, x) \<in> set (tk_issues t) \<and> is_ID x = i"
  unfolding find_entry_def by (drule find_SomeD) simp

lemma Dismiss_ok: "tracker_ok l t \<Longrightarrow> tracker_ok l (snd (Dismiss i reason t))"
  by (auto simp: Dismiss_def busy_only_def issue_ok_def intro!: all_issues_upd split: option.split)

lemma Reopen_ok: "tracker_ok l t \<Longrightarrow> tracker_ok l (snd (Reopen i t))"
  by (auto simp: Reopen_def busy_only_def issue_ok_def intro!: all_issues_upd split: option.split)

lemma medivac_step_ok:
  assumes "tracker_ok l t"
  shows "tracker_ok l (medivac_step l c cmd t)"
proof (cases cmd)
  case (CmdScan env)
  with assms Scan_ok [OF assms, of c env] show ?thesis by (auto simp: medivac_step_def split: prod.split)
next
  case (CmdFix senv fenv)
  with assms Fix_ok(2) [OF assms, of c senv fenv] show ?thesis
    by (auto simp: medivac_step_def split: prod.split option.split)
next
  case (CmdFixSkipScan env)
  with assms FixFromTracker_ok [OF assms, of c env] show ?thesis by (auto simp: medivac_step_def split: prod.split)
next
  case (CmdMerge env)
  with assms MergeApproved_ok [OF assms, of c env] show ?thesis
    by (auto simp: medivac_step_def split: prod.split option.split)
qed (simp_all add: medivac_step_def Dismiss_ok Reopen_ok assms)

interpretation medivac_machine: invariant_machine "medivac_step l c" "\<lambda>_. True" "tracker_ok l"
  by unfold_locales (rule medivac_step_ok)

lemma medivac_run_ok: "tracker_ok l (medivac_run l c cmds)"
  unfolding medivac_run_def by (rule medivac_machine.run_inv) (simp_all add: all_issues_def list_all_iff)

lemma busy_only_written_out:
  "busy_only l {} sig i \<Longrightarrow> is_Signature i = sig \<and> is_ID i = generateID l sig \<and> is_FirstSeen i \<le> is_LastSeen i \<and>
       1 \<le> is_SeenCount i \<and> is_Status i \<noteq> StatusInProgress \<and>
       (if is_Status i \<in> {StatusFixPending, StatusFixApproved, StatusFixMerged, StatusVerified, StatusRecurred}
        then is_FixAttempts i \<noteq> [] \<and> fa_Branch (last (is_FixAttempts i)) \<noteq> [] \<and> fa_PRURL (last (is_FixAttempts i)) \<noteq> []
        else True) \<and>
       (if is_Status i = StatusVerified then is_ResolvedAt i \<noteq> None else True) \<and>
       (if is_Status i \<noteq> StatusWontFix then is_DismissReason i = [] else True)"
  unfolding busy_only_def issue_ok_def tried_def by simp

text \<open>C2. After any commands, whatever GitHub, the language model, the agents and the disk answered: there is
  one issue for a signature, under its own identifier; its times are in order and it was seen at least
  once; no issue is left in progress; an issue with a fix pending, approved, merged, verified or recurred
  has an attempt that opened a pull request from a branch; a verified one has its time of resolution;
  and only dismissed issues have a reason of dismissal.
\<close>

theorem medivac_tracker_invariant:
  "distinct (map fst (tk_issues (medivac_run l c cmds))) \<and>
   list_all (\<lambda>(sig, i). is_Signature i = sig \<and> is_ID i = generateID l sig \<and> is_FirstSeen i \<le> is_LastSeen i \<and>
       1 \<le> is_SeenCount i \<and> is_Status i \<noteq> StatusInProgress \<and>
       (if is_Status i \<in> {StatusFixPending, StatusFixApproved, StatusFixMerged, StatusVerified, StatusRecurred}
        then is_FixAttempts i \<noteq> [] \<and> fa_Branch (last (is_FixAttempts i)) \<noteq> [] \<and> fa_PRURL (last (is_FixAttempts i)) \<noteq> []
        else True) \<and>
       (if is_Status i = StatusVerified then is_ResolvedAt i \<noteq> None else True) \<and>
       (if is_Status i \<noteq> StatusWontFix then is_DismissReason i = [] else True))
     (tk_issues (medivac_run l c cmds))"
  using medivac_run_ok [of l c cmds] busy_only_written_out
  unfolding all_issues_def wf_map_def list_all_iff by fastforce

end
