(* ===== verification/MedivacLife.thy ===== *)
theory MedivacLife
  imports MedivacProps
begin

text \<open>
  The life of single issues of \<open>medivac\<close>: what the operations leave alone, that a dismissed issue stays
  as it is until it is reopened, that the order in which parallel agents finish does not matter, what
  becomes of the worktree of an agent, and three ways in which the life of an issue goes wrong.
\<close>

section \<open>What the operations leave alone\<close>

lemma map_of_upd [simp]:
  "map_of (tk_issues (UpdateStatus sig st t)) k =
    (if k = sig then map_option (\<lambda>i. i\<lparr>is_Status := st\<rparr>) (map_of (tk_issues t) k) else map_of (tk_issues t) k)"
  by (simp add: UpdateStatus_def map_of_upd_issue)

lemma mark_other: "sig \<notin> is_Signature ` set (concat (map snd gs)) \<Longrightarrow>
    map_of (tk_issues (mark_groups st gs t)) sig = map_of (tk_issues t) sig"
proof -
  have "map_of (tk_issues (fold (\<lambda>i. UpdateStatus (is_Signature i) st) js t)) sig = map_of (tk_issues t) sig"
    if "sig \<notin> is_Signature ` set js" for js
    using that by (induction js arbitrary: t) auto
  then show "sig \<notin> is_Signature ` set (concat (map snd gs)) \<Longrightarrow> ?thesis" unfolding mark_groups_def by blast
qed

lemma record_other: "sig \<notin> is_Signature ` set js \<Longrightarrow>
    map_of (tk_issues (recordFixAttempt env lf js r t)) sig = map_of (tk_issues t) sig"
proof -
  have "map_of (tk_issues (fold (\<lambda>i t. UpdateStatus (is_Signature i) st (AddFixAttempt (is_Signature i) a t)) js t)) sig =
      map_of (tk_issues t) sig" if "sig \<notin> is_Signature ` set js" for st a
    using that
  proof (induction js arbitrary: t)
    case (Cons j js)
    have "map_of (tk_issues (UpdateStatus (is_Signature j) st (AddFixAttempt (is_Signature j) a t))) sig = map_of (tk_issues t) sig"
      using Cons.prems by (simp add: record_upd map_of_upd_issue)
    with Cons.IH [of "UpdateStatus (is_Signature j) st (AddFixAttempt (is_Signature j) a t)"] Cons.prems show ?case by simp
  qed simp
  then show "sig \<notin> is_Signature ` set js \<Longrightarrow> ?thesis" by (simp add: recordFixAttempt_def case_prod_beta)
qed

lemma runs_other: "sig \<notin> is_Signature ` set (concat (map snd gs)) \<Longrightarrow>
    map_of (tk_issues (fold (run_and_record l env lf) gs t)) sig = map_of (tk_issues t) sig"
proof (induction gs arbitrary: t)
  case (Cons g gs)
  then have "sig \<notin> is_Signature ` set (snd g)" by auto
  then have "map_of (tk_issues (run_and_record l env lf g t)) sig = map_of (tk_issues t) sig"
    unfolding run_and_record_def by (rule record_other)
  with Cons show ?case by (simp add: image_Un)
qed simp

lemma launch_other:
  assumes "sig \<notin> is_Signature ` set (concat (map snd gs))"
  shows "map_of (tk_issues (snd (snd (launchAgents l c env gs t)))) sig = map_of (tk_issues t) sig"
proof -
  have "sig \<notin> is_Signature ` set (concat (map snd (sort_key (\<lambda>g. fx_rank env (fst g)) gs)))" using assms by simp
  from runs_other [OF this] mark_other [OF assms] show ?thesis
    by (simp add: launchAgents_def Let_def split: option.split)
qed

lemma fix_other:
  assumes "tracker_ok l t" and "map_of (tk_issues t) sig = Some i" and "is_Status i \<notin> {StatusNew, StatusRecurred}"
  shows "map_of (tk_issues (fst (snd (snd (FixFromTracker l c env t))))) sig = Some i"
proof -
  have "sig \<notin> is_Signature ` set (GetActionable t)"
  proof
    assume "sig \<in> is_Signature ` set (GetActionable t)"
    then obtain k j where j: "(k, j) \<in> set (tk_issues t)" "is_Status j \<in> {StatusNew, StatusRecurred}" "is_Signature j = sig"
      by (auto simp: GetActionable_def issues_with_def)
    then have "k = sig" using assms(1) by (auto simp: all_issues_def busy_only_def issue_ok_def)
    then have "j = i" using j(1) map_of_SomeD [OF assms(2)] assms(1) wf_unique unfolding all_issues_def by metis
    then show False using j(2) assms(3) by simp
  qed
  then have "sig \<notin> is_Signature ` set (concat (map snd (GroupIssues l (GetActionable t))))"
    by (simp only: groups_issues not_False_eq_True)
  from launch_other [OF this, of l c env t] assms(2) show ?thesis by (auto simp: FixFromTracker_def split: prod.split)
qed

lemma refresh_other:
  assumes "sig \<notin> fst ` set ps \<or> is_Status i \<notin> {StatusFixPending, StatusFixApproved}"
    and "\<And>j. (sig, j) \<in> set ps \<Longrightarrow> j = i"
  shows "map_of (tk_issues (fst (fold (refresh_one env) ps st))) sig = map_of (tk_issues (fst st)) sig"
  using assms
proof (induction ps arbitrary: st)
  case (Cons p ps)
  obtain k j where p: "p = (k, j)" by (cases p)
  have here: "map_of (tk_issues (fst (refresh_one env (k, j) st))) sig = map_of (tk_issues (fst st)) sig"
  proof (cases rule: refresh_one_cases [of env k j st])
    case 1
    then show ?thesis by simp
  next
    case (2 s r)
    then have "k \<noteq> sig" using Cons.prems p by auto
    then show ?thesis by (simp add: 2(4) map_of_upd_issue)
  qed
  have "map_of (tk_issues (fst (fold (refresh_one env) ps (refresh_one env (k, j) st)))) sig =
      map_of (tk_issues (fst (refresh_one env (k, j) st))) sig"
    by (rule Cons.IH) (use Cons.prems in \<open>auto simp: p\<close>)
  with here show ?case by (simp add: p)
qed simp

lemma merge_other: "sig \<notin> is_Signature ` set js \<Longrightarrow>
    map_of (tk_issues (fst (fold (merge_one c env) js st))) sig = map_of (tk_issues (fst st)) sig"
proof (induction js arbitrary: st)
  case (Cons j js)
  have "map_of (tk_issues (fst (merge_one c env j st))) sig = map_of (tk_issues (fst st)) sig"
    by (cases rule: merge_one_cases [of c env j st]) (use Cons.prems in auto)
  with Cons show ?case by simp
qed simp

section \<open>Dismissed issues\<close>

definition dismissed :: "ci_lib \<Rightarrow> string \<Rightarrow> FixAttempt list \<Rightarrow> issue_tracker \<Rightarrow> bool" where
  "dismissed l sig as t \<longleftrightarrow> tracker_ok l t \<and>
     (\<exists>i. map_of (tk_issues t) sig = Some i \<and> is_Status i = StatusWontFix \<and> is_FixAttempts i = as)"

lemma reconcile_one_wontfix:
  assumes "map_of (tk_issues (fst st)) sig = Some i" and "is_Status i = StatusWontFix"
  shows "\<exists>j. map_of (tk_issues (fst (reconcile_one l f st))) sig = Some j \<and> is_Status j = StatusWontFix \<and>
    is_FixAttempts j = is_FixAttempts i"
  using assms
  by (cases st; cases "cf_Signature f = sig"; cases "map_of (tk_issues (fst st)) (cf_Signature f)")
    (auto simp: reconcile_one_def map_of_upd_issue recur_def update_conv)

lemma reconcile_fold_wontfix:
  "map_of (tk_issues (fst st)) sig = Some i \<Longrightarrow> is_Status i = StatusWontFix \<Longrightarrow>
    \<exists>j. map_of (tk_issues (fst (fold (reconcile_one l) fs st))) sig = Some j \<and> is_Status j = StatusWontFix \<and>
      is_FixAttempts j = is_FixAttempts i"
proof (induction fs arbitrary: st i)
  case (Cons f fs)
  from reconcile_one_wontfix [OF Cons.prems, of l f] obtain j where
    "map_of (tk_issues (fst (reconcile_one l f st))) sig = Some j" "is_Status j = StatusWontFix" "is_FixAttempts j = is_FixAttempts i"
    by blast
  with Cons.IH [of "reconcile_one l f st" j] show ?case by simp
qed auto

lemma verify_wontfix:
  assumes "map_of (tk_issues (fst st)) sig = Some i" and "is_Status i = StatusWontFix"
  shows "map_of (tk_issues (fst (verify_unseen now seen st))) sig = Some i"
proof -
  have "map_of (map (\<lambda>p. if fst p \<notin> seen \<and> is_Status (snd p) = StatusFixMerged then (fst p, h (snd p)) else p) m) sig = Some i"
    if "map_of m sig = Some i" for m and h :: "ci_issue \<Rightarrow> ci_issue"
    using that assms(2) by (induction m) (auto split: if_splits)
  from this [OF assms(1)] show ?thesis by (cases st) (simp add: verify_unseen_def Let_def)
qed

lemma Reconcile_wontfix:
  assumes "map_of (tk_issues t) sig = Some i" and "is_Status i = StatusWontFix"
  shows "\<exists>j. map_of (tk_issues (fst (Reconcile l now fs t))) sig = Some j \<and> is_Status j = StatusWontFix \<and>
    is_FixAttempts j = is_FixAttempts i"
proof (cases fs)
  case (Some xs)
  from reconcile_fold_wontfix [of "(t, \<lparr>rr_New = [], rr_Updated = [], rr_Resolved = []\<rparr>)" sig i l xs] assms
  obtain j where j: "map_of (tk_issues (fst (fold (reconcile_one l) xs (t, \<lparr>rr_New = [], rr_Updated = [], rr_Resolved = []\<rparr>)))) sig = Some j"
    "is_Status j = StatusWontFix" "is_FixAttempts j = is_FixAttempts i" by auto
  from verify_wontfix [OF j(1,2)] j(2,3) show ?thesis by (simp add: Reconcile_def Some)
qed (use assms in \<open>simp add: Reconcile_def\<close>)

lemma Scan_wontfix:
  assumes "map_of (tk_issues t) sig = Some i" and "is_Status i = StatusWontFix"
  shows "\<exists>j. map_of (tk_issues (fst (snd (Scan l c env t)))) sig = Some j \<and> is_Status j = StatusWontFix \<and>
    is_FixAttempts j = is_FixAttempts i"
proof -
  have *: "\<exists>j. map_of (tk_issues (fst (Reconcile l now fs t'))) sig = Some j \<and> is_Status j = StatusWontFix \<and>
      is_FixAttempts j = is_FixAttempts i" if "tk_issues t' = tk_issues t" for now fs t'
    using Reconcile_wontfix [of t' sig i] assms that by simp
  show ?thesis using * assms by (auto simp: Scan_def Let_def split: sum.split option.split)
qed

lemma dismissed_scan: "dismissed l sig as t \<Longrightarrow> dismissed l sig as (fst (snd (Scan l c env t)))"
  using Scan_ok [of l t c env] Scan_wontfix [of t sig _ l c env] unfolding dismissed_def by blast

lemma dismissed_fix: "dismissed l sig as t \<Longrightarrow> dismissed l sig as (fst (snd (snd (FixFromTracker l c env t))))"
  using FixFromTracker_ok [of l t c env] fix_other [of l t sig _ c env] unfolding dismissed_def by fastforce

lemma dismissed_refresh:
  assumes "dismissed l sig as t"
  shows "dismissed l sig as (fst (RefreshPRStatus env t))"
proof -
  obtain i where i: "map_of (tk_issues t) sig = Some i" "is_Status i = StatusWontFix" "is_FixAttempts i = as"
    and ok: "tracker_ok l t" using assms by (auto simp: dismissed_def)
  have "map_of (tk_issues (fst (fold (refresh_one env) (tk_issues t) (t, [])))) sig = map_of (tk_issues (fst (t, [] :: merge_effect list))) sig"
  proof (rule refresh_other)
    show "sig \<notin> fst ` set (tk_issues t) \<or> is_Status i \<notin> {StatusFixPending, StatusFixApproved}" using i by simp
    show "j = i" if "(sig, j) \<in> set (tk_issues t)" for j
      using that map_of_SomeD [OF i(1)] ok wf_unique unfolding all_issues_def by metis
  qed
  then show ?thesis using i RefreshPRStatus_ok [OF ok, of env] by (simp add: dismissed_def RefreshPRStatus_def)
qed

lemma dismissed_merge:
  assumes "dismissed l sig as t" and m: "MergeApproved c env t = (r, tr, Some t')"
  shows "dismissed l sig as t'"
proof -
  obtain t1 tr1 where t1: "RefreshPRStatus env t = (t1, tr1)" by (cases "RefreshPRStatus env t")
  have d1: "dismissed l sig as t1" using dismissed_refresh [OF assms(1), of env] by (simp add: t1)
  then obtain i where i: "map_of (tk_issues t1) sig = Some i" "is_Status i = StatusWontFix" "is_FixAttempts i = as"
    and ok: "tracker_ok l t1" by (auto simp: dismissed_def)
  have "sig \<notin> is_Signature ` set (GetPendingMerge t1)"
  proof
    assume "sig \<in> is_Signature ` set (GetPendingMerge t1)"
    then obtain j where "(sig, j) \<in> set (tk_issues t1)" "is_Status j = StatusFixApproved"
      using GetPendingMerge_tried [OF ok] by blast
    then show False using map_of_SomeD [OF i(1)] i(2) ok wf_unique unfolding all_issues_def by (metis issue_status.distinct)
  qed
  from merge_other [OF this, of c env "(t1, tr1, [])"] merge_all_ok [OF ok, of c env tr1 "[]"] i
  have d2: "dismissed l sig as (fst (fold (merge_one c env) (GetPendingMerge t1) (t1, tr1, [])))" by (simp add: dismissed_def)
  show ?thesis using m d1 d2
    by (auto simp: MergeApproved_def t1 split: option.splits if_splits prod.splits)
qed

lemma dismissed_step:
  assumes d: "dismissed l sig as t" and cmd: "cmd \<noteq> CmdReopen (generateID l sig)"
  shows "dismissed l sig as (medivac_step l c cmd t)"
proof -
  obtain i where i: "map_of (tk_issues t) sig = Some i" "is_Status i = StatusWontFix" "is_FixAttempts i = as"
    and ok: "tracker_ok l t" using d by (auto simp: dismissed_def)
  have ok': "tracker_ok l (medivac_step l c cmd t)" by (rule medivac_step_ok [OF ok])
  show ?thesis
  proof (cases cmd)
    case (CmdScan env)
    then show ?thesis using d dismissed_scan [OF d, of c env] by (auto simp: medivac_step_def split: prod.split)
  next
    case (CmdFix senv fenv)
    have "dismissed l sig as (fst (snd (Scan l c senv t)))" by (rule dismissed_scan [OF d])
    then show ?thesis using d CmdFix dismissed_fix [of l sig as "fst (snd (Scan l c senv t))" c fenv]
      by (auto simp: medivac_step_def Fix_def split: prod.split sum.split)
  next
    case (CmdFixSkipScan env)
    then show ?thesis using d dismissed_fix [OF d, of c env] by (auto simp: medivac_step_def split: prod.split)
  next
    case (CmdMerge env)
    then show ?thesis using d dismissed_merge [OF d, of c env] by (auto simp: medivac_step_def split: prod.split option.split)
  next
    case (CmdDismiss k reason)
    have "\<exists>j. map_of (tk_issues (snd (Dismiss k reason t))) sig = Some j \<and> is_Status j = StatusWontFix \<and> is_FixAttempts j = as"
      using i by (auto simp: Dismiss_def map_of_upd_issue split: option.split)
    then show ?thesis using ok' CmdDismiss by (simp add: dismissed_def medivac_step_def)
  next
    case (CmdReopen k)
    have "map_of (tk_issues (snd (Reopen k t))) sig = Some i"
    proof (cases "find_entry k t")
      case (Some p)
      obtain s x where p: "p = (s, x)" by (cases p)
      have x: "(s, x) \<in> set (tk_issues t)" "is_ID x = k" using find_entry_Some Some p by blast+
      then have "k = generateID l s" using ok by (auto simp: all_issues_def busy_only_def issue_ok_def)
      then have "s \<noteq> sig" using cmd CmdReopen by auto
      then show ?thesis using i Some p by (simp add: Reopen_def map_of_upd_issue)
    qed (simp add: Reopen_def i)
    then show ?thesis using ok' CmdReopen i by (simp add: dismissed_def medivac_step_def)
  qed
qed

interpretation dismissed_machine: invariant_machine "medivac_step l c"
  "\<lambda>cmd. cmd \<noteq> CmdReopen (generateID l sig)" "dismissed l sig as"
  by unfold_locales (rule dismissed_step)

text \<open>C22. A dismissed issue is left alone: whatever commands follow, as long as none reopens its identifier,
  it stays dismissed and no attempt to fix it is added, however often the failure is seen again.
\<close>

theorem medivac_dismissed_left_alone:
  assumes "map_of (tk_issues (medivac_run l c cmds)) sig = Some i" and "is_Status i = StatusWontFix"
    and "CmdReopen (generateID l sig) \<notin> set later"
  shows "\<exists>j. map_of (tk_issues (medivac_run l c (cmds @ later))) sig = Some j \<and> is_Status j = StatusWontFix \<and>
    is_FixAttempts j = is_FixAttempts i"
proof -
  have "dismissed l sig (is_FixAttempts i) (medivac_run l c cmds)"
    using assms(1,2) medivac_run_ok by (simp add: dismissed_def)
  moreover have "list_all (\<lambda>cmd. cmd \<noteq> CmdReopen (generateID l sig)) later" using assms(3) by (auto simp: list_all_iff)
  ultimately have "dismissed l sig (is_FixAttempts i) (run_machine (medivac_step l c) later (medivac_run l c cmds))"
    by (rule dismissed_machine.run_inv)
  then show ?thesis by (simp add: dismissed_def medivac_run_def run_machine_append)
qed

section \<open>The order of the agents\<close>

lemma run_group_rank: "run_group l (env\<lparr>fx_rank := r\<rparr>) g = run_group l env g"
proof (cases env)
  case e: (fields a b c d e f g' h i)
  show ?thesis unfolding e run_group_def runAgentCore_def finish_agent_def fix_env.update_convs fix_env.select_convs ..
qed

lemma run_and_record_rank: "run_and_record l (env\<lparr>fx_rank := r\<rparr>) lf g t = run_and_record l env lf g t"
  by (simp add: run_and_record_def run_group_rank recordFixAttempt_def attempt_of_def)

lemma upd_fold_commute:
  "sig \<notin> is_Signature ` set js \<Longrightarrow>
    fold (\<lambda>i. upd_issue (is_Signature i) f) js (upd_issue sig g t) = upd_issue sig g (fold (\<lambda>i. upd_issue (is_Signature i) f) js t)"
proof (induction js arbitrary: t)
  case (Cons j js)
  then have "is_Signature j \<noteq> sig" by auto
  from upd_issue_commute [OF this] Cons show ?case by simp
qed simp

lemma folds_commute:
  "is_Signature ` set js \<inter> is_Signature ` set ks = {} \<Longrightarrow>
    fold (\<lambda>i. upd_issue (is_Signature i) f) js (fold (\<lambda>i. upd_issue (is_Signature i) g) ks t) =
    fold (\<lambda>i. upd_issue (is_Signature i) g) ks (fold (\<lambda>i. upd_issue (is_Signature i) f) js t)"
proof (induction ks arbitrary: t)
  case (Cons k ks)
  then have "is_Signature k \<notin> is_Signature ` set js" by auto
  from upd_fold_commute [OF this] Cons show ?case by simp
qed simp

lemma run_and_record_fold:
  "\<exists>f. \<forall>t. run_and_record l env lf g t = fold (\<lambda>i. upd_issue (is_Signature i) f) (snd g) t"
proof -
  let ?p = "attempt_of env lf (length (snd g)) (fst (run_group l env g))"
  have "run_and_record l env lf g t =
      fold (\<lambda>i. upd_issue (is_Signature i) (\<lambda>i. i\<lparr>is_FixAttempts := is_FixAttempts i @ [fst ?p], is_Status := snd ?p\<rparr>)) (snd g) t" for t
    by (simp add: run_and_record_def recordFixAttempt_def case_prod_beta record_upd)
  then show ?thesis by blast
qed

lemma groups_apart:
  assumes "tracker_ok l t" and "g \<in> set (GroupIssues l (GetActionable t))" and "h \<in> set (GroupIssues l (GetActionable t))" and "g \<noteq> h"
  shows "is_Signature ` set (snd g) \<inter> is_Signature ` set (snd h) = {}"
proof -
  have keys: "fst g \<noteq> fst h" using assms(2-4) groups_keys [of l "GetActionable t"]
    by (metis distinct_map inj_on_def)
  have here: "groupKey l i = fst k" "(is_Signature i, i) \<in> set (tk_issues t)"
    if "k \<in> set (GroupIssues l (GetActionable t))" "i \<in> set (snd k)" for i k
    using that(2) group_member(1) [OF that(1)] assms(1)
    by (auto simp: GetActionable_def issues_with_def all_issues_def busy_only_def issue_ok_def)
  have "is_Signature i \<noteq> is_Signature j" if i: "i \<in> set (snd g)" and j: "j \<in> set (snd h)" for i j
  proof
    assume "is_Signature i = is_Signature j"
    with here(2) [OF assms(2) i] here(2) [OF assms(3) j] assms(1) have "i = j"
      unfolding all_issues_def by (metis wf_unique)
    with here(1) [OF assms(2) i] here(1) [OF assms(3) j] keys show False by simp
  qed
  then show ?thesis by auto
qed

lemma groups_commute:
  assumes "tracker_ok l t" and "g \<in> set (GroupIssues l (GetActionable t))" and "h \<in> set (GroupIssues l (GetActionable t))"
  shows "run_and_record l env lf g \<circ> run_and_record l env lf h = run_and_record l env lf h \<circ> run_and_record l env lf g"
proof (cases "g = h")
  case False
  obtain f where f: "\<forall>t. run_and_record l env lf g t = fold (\<lambda>i. upd_issue (is_Signature i) f) (snd g) t"
    using run_and_record_fold by blast
  obtain k where k: "\<forall>t. run_and_record l env lf h t = fold (\<lambda>i. upd_issue (is_Signature i) k) (snd h) t"
    using run_and_record_fold by blast
  show ?thesis
  proof
    fix s
    show "(run_and_record l env lf g \<circ> run_and_record l env lf h) s = (run_and_record l env lf h \<circ> run_and_record l env lf g) s"
      using folds_commute [OF groups_apart [OF assms False]] f k by simp
  qed
qed simp

lemma launch_rank:
  assumes ok: "tracker_ok l t" and gs: "gs = GroupIssues l (GetActionable t)"
  shows "snd (snd (launchAgents l c (env\<lparr>fx_rank := r\<rparr>) gs t)) = snd (snd (launchAgents l c env gs t))"
    and "mset (fst (launchAgents l c (env\<lparr>fx_rank := r\<rparr>) gs t)) = mset (fst (launchAgents l c env gs t))"
proof -
  have "fold (run_and_record l env lf) (sort_key (\<lambda>g. r (fst g)) gs) = fold (run_and_record l env lf) (sort_key (\<lambda>g. fx_rank env (fst g)) gs)" for lf
    by (rule fold_multiset_equiv) (use groups_commute [OF ok] in \<open>simp_all add: gs\<close>)
  then show "snd (snd (launchAgents l c (env\<lparr>fx_rank := r\<rparr>) gs t)) = snd (snd (launchAgents l c env gs t))"
    by (simp add: launchAgents_def Let_def run_and_record_rank [abs_def] split: option.split)
  show "mset (fst (launchAgents l c (env\<lparr>fx_rank := r\<rparr>) gs t)) = mset (fst (launchAgents l c env gs t))"
    by (simp add: launchAgents_def Let_def run_group_rank mset_map split: option.split)
qed

lemma fix_rank:
  assumes "tracker_ok l t"
  shows "snd (snd (FixFromTracker l c (env\<lparr>fx_rank := r\<rparr>) t)) = snd (snd (FixFromTracker l c env t))"
    and "mset (fst (FixFromTracker l c (env\<lparr>fx_rank := r\<rparr>) t)) = mset (fst (FixFromTracker l c env t))"
  using launch_rank [OF assms refl, of c r env] by (auto simp: FixFromTracker_def split: prod.split)

text \<open>C23. The order in which the parallel agents of a fix finish does not matter: with any other order the
  tracker after the command is the same, after a scan in the same command too, and the groups have
  the same results.
\<close>

theorem medivac_agents_any_order:
  "medivac_step l c (CmdFixSkipScan (env\<lparr>fx_rank := rank\<rparr>)) (medivac_run l c cmds) =
     medivac_step l c (CmdFixSkipScan env) (medivac_run l c cmds) \<and>
   medivac_step l c (CmdFix senv (env\<lparr>fx_rank := rank\<rparr>)) (medivac_run l c cmds) =
     medivac_step l c (CmdFix senv env) (medivac_run l c cmds) \<and>
   mset (fst (Fix l c senv (env\<lparr>fx_rank := rank\<rparr>) (medivac_run l c cmds))) =
     mset (fst (Fix l c senv env (medivac_run l c cmds)))"
proof -
  let ?t = "medivac_run l c cmds"
  have ok: "tracker_ok l ?t" by (rule medivac_run_ok)
  have ok1: "tracker_ok l (fst (snd (Scan l c senv ?t)))" by (rule Scan_ok [OF ok])
  show ?thesis
    using fix_rank [OF ok, of c rank env] fix_rank [OF ok1, of c rank env]
    by (auto simp: medivac_step_def Fix_def split: prod.splits sum.split)
qed

section \<open>The worktree of an agent\<close>

definition end_of_agent :: "fix_env \<Rightarrow> ci_issue list \<Rightarrow> string \<Rightarrow> agentCoreResult \<Rightarrow> fix_effect list \<Rightarrow> bool" where
  "end_of_agent env issues b r tr \<longleftrightarrow>
     (ac_Branch r = b \<and>
      (tr = [RemoveFixWorktree b] \<and> ac_PRURL r = [] \<or>
       tr = [OpenPR b (pr_title issues) (pr_body issues)] \<and> ac_Success r \<and>
         fx_createPR env (pr_title issues) (pr_body issues) b = Inr (ac_PRURL r, ac_PRNumber r) \<or>
       tr = [OpenPR b (pr_title issues) (pr_body issues), RemoveFixWorktree b] \<and> ac_PRURL r = [] \<and> ac_Error r \<noteq> None))"

lemma finish_agent_end:
  assumes "ac_Branch r = b" and "ac_PRURL r = []"
  shows "\<exists>r' rest. finish_agent l env issues run r tr = (r', tr @ rest) \<and> end_of_agent env issues b r' rest"
proof (cases "ar_Error run")
  case None
  show ?thesis
  proof (cases "ar_Result run")
    case (Some p)
    obtain x s where p: "p = (x, s)" by (cases p)
    show ?thesis
      using assms
      by (cases s; cases "ar_Files run"; cases "the (ar_Files run)";
          cases "fx_createPR env (pr_title issues) (pr_body issues) b"; cases "if x = [] then None else ParseAnalysis l x")
        (auto simp: finish_agent_def fail_agent_def Let_def None Some p end_of_agent_def)
  qed (use assms in \<open>simp add: finish_agent_def fail_agent_def None end_of_agent_def\<close>)
qed (use assms in \<open>simp add: finish_agent_def fail_agent_def end_of_agent_def\<close>)

text \<open>An agent that got a worktree ends in one of three ways: it removes the worktree and has no pull
  request; it opens a pull request and keeps the worktree; or the pull request failed and it removes
  the worktree. Without a worktree nothing is done. The attempt is recorded as pending only in the second
  case.
\<close>

theorem medivac_worktree_cleanup:
  "let b = fixBranchName (hd (snd g)); (r, tr) = run_group l env g; title = pr_title (snd g); body = pr_body (snd g);
       prompt = (if length (snd g) = 1 then fx_fixPrompt env (hd (snd g)) else fx_groupPrompt env g);
       st = snd (attempt_of env lf n r)
   in case fx_worktree env b of
        Inl e \<Rightarrow> tr = [] \<and> ac_Error r \<noteq> None \<and> st = StatusNew
      | Inr path \<Rightarrow>
          (tr = [NewFixWorktree b, RunFix b prompt, RemoveFixWorktree b] \<and> st = StatusNew) \<or>
          (tr = [NewFixWorktree b, RunFix b prompt, OpenPR b title body] \<and> ac_Success r \<and>
             fx_createPR env title body b = Inr (ac_PRURL r, ac_PRNumber r) \<and>
             st = (if ac_PRURL r = [] then StatusNew else StatusFixPending)) \<or>
          (tr = [NewFixWorktree b, RunFix b prompt, OpenPR b title body, RemoveFixWorktree b] \<and> ac_Error r \<noteq> None \<and>
             st = StatusNew)"
proof -
  let ?b = "fixBranchName (hd (snd g))"
  let ?prompt = "if length (snd g) = 1 then fx_fixPrompt env (hd (snd g)) else fx_groupPrompt env g"
  show ?thesis
  proof (cases "fx_worktree env ?b")
    case (Inl e)
    then show ?thesis by (simp add: run_group_def runAgentCore_def attempt_status)
  next
    case (Inr path)
    let ?run = "fx_agent env path ?prompt"
    let ?r0 = "\<lparr>ac_Error = None, ac_Analysis = None, ac_Branch = ?b, ac_WorktreePath = path, ac_PRURL = [],
              ac_FilesChanged = [], ac_AgentCost = ar_Cost ?run, ac_PRNumber = 0, ac_Success = False\<rparr>"
    have "ac_Branch ?r0 = ?b" "ac_PRURL ?r0 = []" by simp_all
    from finish_agent_end [OF this, of l env "snd g" ?run "[NewFixWorktree ?b, RunFix ?b ?prompt]"]
    obtain r rest where f: "finish_agent l env (snd g) ?run ?r0 [NewFixWorktree ?b, RunFix ?b ?prompt] =
        (r, [NewFixWorktree ?b, RunFix ?b ?prompt] @ rest)" and e: "end_of_agent env (snd g) ?b r rest" by blast
    have g: "run_group l env g = (r, [NewFixWorktree ?b, RunFix ?b ?prompt] @ rest)"
      unfolding f [symmetric] by (simp add: run_group_def runAgentCore_def Inr Let_def)
    show ?thesis using e unfolding Let_def g prod.case Inr sum.case end_of_agent_def by (auto simp: attempt_status)
  qed
qed

section \<open>Fixes that are never verified\<close>

text \<open>When every failed run that GitHub lists is already reviewed, as when the branch is green and there
  is none, a scan changes no issue: a merged fix is not verified, although the scan is said to reconcile
  in this case to detect resolved issues.
\<close>

theorem medivac_green_branch_not_verified:
  assumes "sc_ListFailedRuns (se_scanner env) (ec_Branch c) (ec_RunLimit c) = Inr runs"
    and "list_all (\<lambda>r. IsRunReviewed (wr_ID r) t) runs"
  shows "tk_issues (medivac_step l c (CmdScan env) t) = tk_issues t"
proof -
  have "filter (\<lambda>r. \<not> IsRunReviewed (wr_ID r) t) runs = []" using assms(2) by (simp add: filter_empty_conv list_all_iff)
  then show ?thesis using assms(1)
    by (simp add: medivac_step_def Scan_def Let_def Reconcile_def PruneReviewedRuns_def split: option.split)
qed

section \<open>Approvals that were withdrawn\<close>

lemma merge_trace_mono: "\<exists>x. fst (snd (merge_one c env i st)) = fst (snd st) @ x"
proof -
  obtain t tr rs where st: "st = (t, tr, rs)" by (cases st)
  show ?thesis by (simp add: merge_one_def Let_def st split: option.split)
qed

lemma merge_fold_mono: "\<exists>x. fst (snd (fold (merge_one c env) js st)) = fst (snd st) @ x"
proof (induction js arbitrary: st)
  case (Cons j js)
  obtain x where x: "fst (snd (merge_one c env j st)) = fst (snd st) @ x" using merge_trace_mono by blast
  obtain y where "fst (snd (fold (merge_one c env) js (merge_one c env j st))) = fst (snd (merge_one c env j st)) @ y"
    using Cons.IH by blast
  then show ?case by (simp add: x)
qed simp

lemma merge_fold_merges:
  assumes "i \<in> set js" and "last_branch i \<noteq> []" and "\<not> ec_DryRun c"
  shows "MergePR (last_branch i) \<in> set (fst (snd (fold (merge_one c env) js st)))"
  using assms(1)
proof (induction js arbitrary: st)
  case (Cons j js)
  show ?case
  proof (cases "i = j")
    case True
    obtain t tr rs where st: "st = (t, tr, rs)" by (cases st)
    have "MergePR (last_branch i) \<in> set (fst (snd (merge_one c env j st)))"
      using assms(2,3) True by (simp add: merge_one_def Let_def st split: option.split)
    moreover obtain x where "fst (snd (fold (merge_one c env) js (merge_one c env j st))) = fst (snd (merge_one c env j st)) @ x"
      using merge_fold_mono by blast
    ultimately show ?thesis by simp
  next
    case False
    then show ?thesis using Cons by simp
  qed
qed simp

lemma last_branch_refreshed: "last_branch (set_last_attempt (\<lambda>a. a\<lparr>fa_PRState := s, fa_PRReview := r\<rparr>) i) = last_branch i"
  by (simp add: last_branch_def set_last_attempt_def)

lemma last_branch_status [simp]: "last_branch (i\<lparr>is_Status := st\<rparr>) = last_branch i"
  by (simp add: last_branch_def)

lemma refresh_fold_here:
  assumes "(sig, i) \<in> set ps" and "distinct (map fst ps)" and "map_of (tk_issues (fst st)) sig = Some i"
    and "is_Status i \<in> {StatusFixPending, StatusFixApproved}" and "last_branch i \<noteq> []"
    and "\<And>tr. pe_info env tr (last_branch i) = Inr (s, r)"
  shows "map_of (tk_issues (fst (fold (refresh_one env) ps st))) sig =
    Some ((set_last_attempt (\<lambda>a. a\<lparr>fa_PRState := s, fa_PRReview := r\<rparr>) i)\<lparr>is_Status := pr_status s r (is_Status i)\<rparr>)"
  using assms(1-3)
proof (induction ps arbitrary: st)
  case (Cons p ps)
  obtain k j where p: "p = (k, j)" by (cases p)
  obtain t tr where st: "st = (t, tr)" by (cases st)
  show ?case
  proof (cases "k = sig")
    case True
    then have "j = i" using Cons.prems(1,2) p by (force simp: image_iff)
    have one: "fst (refresh_one env (sig, i) st) =
      upd_issue sig (\<lambda>x. (set_last_attempt (\<lambda>a. a\<lparr>fa_PRState := s, fa_PRReview := r\<rparr>) x)\<lparr>is_Status := pr_status s r (is_Status x)\<rparr>) t"
      using assms(4-6) by (auto simp: refresh_one_def st)
    have "map_of (tk_issues (fst (fold (refresh_one env) ps (refresh_one env (sig, i) st)))) sig =
        map_of (tk_issues (fst (refresh_one env (sig, i) st))) sig"
    proof (rule refresh_other)
      show "sig \<notin> fst ` set ps \<or> is_Status i \<notin> {StatusFixPending, StatusFixApproved}" using Cons.prems(2) True p by simp
      show "x = i" if "(sig, x) \<in> set ps" for x using Cons.prems(2) True p that by force
    qed
    then show ?thesis using Cons.prems(3) by (simp add: p True \<open>j = i\<close> one [unfolded st] map_of_upd_issue st)
  next
    case False
    have "map_of (tk_issues (fst (refresh_one env (k, j) st))) sig = map_of (tk_issues (fst st)) sig"
      by (cases rule: refresh_one_cases [of env k j st]) (use False in \<open>simp_all add: map_of_upd_issue\<close>)
    with Cons False show ?thesis by (simp add: p)
  qed
qed simp

text \<open>C31. An approval that was withdrawn does not stop the merge: an issue whose fix was approved once is
  merged although its pull request is open and its review asks for changes now.
\<close>

theorem medivac_merges_unapproved:
  assumes "t = medivac_run l c cmds" and "map_of (tk_issues t) sig = Some i" and "is_Status i = StatusFixApproved"
    and "\<And>tr. pe_info env tr (last_branch i) = Inr (''OPEN'', ''CHANGES_REQUESTED'')"
    and "\<not> ec_DryRun c" and "pe_save env 0 = None"
  shows "MergePR (last_branch i) \<in> set (fst (snd (MergeApproved c env t)))"
proof -
  have ok: "tracker_ok l t" using medivac_run_ok by (simp add: assms(1))
  have here: "(sig, i) \<in> set (tk_issues t)" by (rule map_of_SomeD [OF assms(2)])
  have ne: "last_branch i \<noteq> []" using ok here assms(3)
    by (auto simp: all_issues_def busy_only_def issue_ok_def tried_def last_branch_def)
  obtain t1 tr1 where t1: "RefreshPRStatus env t = (t1, tr1)" by (cases "RefreshPRStatus env t")
  let ?i = "(set_last_attempt (\<lambda>a. a\<lparr>fa_PRState := ''OPEN'', fa_PRReview := ''CHANGES_REQUESTED''\<rparr>) i)
    \<lparr>is_Status := pr_status ''OPEN'' ''CHANGES_REQUESTED'' (is_Status i)\<rparr>"
  have "map_of (tk_issues (fst (fold (refresh_one env) (tk_issues t) (t, [])))) sig = Some ?i"
    by (rule refresh_fold_here [OF here]) (use ok assms ne in \<open>auto simp: all_issues_def wf_map_def\<close>)
  then have "(sig, ?i) \<in> set (tk_issues t1)"
    using t1 by (auto simp: RefreshPRStatus_def dest: map_of_SomeD)
  then have in1: "?i \<in> set (GetPendingMerge t1)"
    using assms(3) by (force simp: GetPendingMerge_def issues_with_def pr_status_def)
  have "last_branch ?i = last_branch i" by (simp add: last_branch_refreshed)
  with merge_fold_merges [OF in1 _ assms(5), of env "(t1, tr1, [])"] ne
  have "MergePR (last_branch i) \<in> set (fst (snd (fold (merge_one c env) (GetPendingMerge t1) (t1, tr1, []))))" by simp
  then show ?thesis using in1 by (auto simp: MergeApproved_def t1 assms(6) split: prod.split option.split)
qed

section \<open>Signatures of paths\<close>

lemma length_replace_byte: "length (replace_byte a [b] s) = length s"
  by (induction s) (simp_all add: replace_byte_def)

lemma length_TrimPrefix: "length (TrimPrefix' s p) \<le> length s"
  by (simp add: TrimPrefix'_def)


lemma split_on_dot: "split_on (CHR ''/'') (''./'' @ p) = [CHR ''.''] # split_on (CHR ''/'') p"
  by simp

lemma join_cases [case_names none one more]:
  obtains "snd p = []" | a where "snd p = [a]" | a b xs where "snd p = a # b # xs"
  by (metis neq_Nil_conv)

lemma split_on_join: "join_with [c] (split_on c s) = s"
proof (induction c s rule: split_on.induct)
  case (2 sep c s)
  show ?case by (cases "(sep, split_on sep s)" rule: join_cases) (use 2 in \<open>auto split: list.split\<close>)
qed simp

lemma stripped_shorter:
  assumes "buildContextPrefixRe p = Some r"
  shows "length r < length p"
proof -
  obtain a b c rest where s: "split_on (CHR ''/'') p = ''services'' # a # b # c # rest" and r: "r = join_with ''/'' (c # rest)"
    using assms by (auto simp: buildContextPrefixRe_def split: list.splits if_splits)
  have "p = join_with ''/'' (''services'' # a # b # c # rest)" using split_on_join [of "CHR ''/''" p] by (simp add: s)
  then show ?thesis by (simp add: r)
qed

text \<open>A leading \<open>./\<close> keeps a path of a build context from being shortened, although it is
  removed afterwards: the same file then gets two signatures, and the failure two issues.
\<close>

theorem medivac_signature_dot_path:
  assumes "buildContextPrefixRe path = Some r" and "list_ex (HasPrefix r) srcPrefixes"
  shows "canonicalizePath (''./'' @ path) = replace_byte (CHR 0x5C) ''/'' path"
    and "ComputeSignature l (''./'' @ path) summary job details \<noteq> ComputeSignature l path summary job details"
proof -
  have "buildContextPrefixRe (''./'' @ path) = None"
    unfolding buildContextPrefixRe_def split_on_dot by (simp split: list.split)
  then show dot: "canonicalizePath (''./'' @ path) = replace_byte (CHR 0x5C) ''/'' path"
    by (simp add: canonicalizePath_def stripBuildContextPrefix_def TrimPrefix'_def HasPrefix_def replace_byte_def)
  have "length (canonicalizePath path) \<le> length r"
    using assms length_TrimPrefix [of "replace_byte (CHR 0x5C) ''/'' r" "''./''"]
    by (simp add: canonicalizePath_def stripBuildContextPrefix_def length_replace_byte)
  then have "canonicalizePath (''./'' @ path) \<noteq> canonicalizePath path"
    using stripped_shorter [OF assms(1)] dot by (metis leD length_replace_byte)
  then show "ComputeSignature l (''./'' @ path) summary job details \<noteq> ComputeSignature l path summary job details"
    by (simp add: ComputeSignature_def)
qed

section \<open>Triage\<close>

lemma dedup_distinct: "distinct (map cf_Signature (dedup_failures fs seen)) \<and> cf_Signature ` set (dedup_failures fs seen) \<inter> seen = {}"
  by (induction fs seen rule: dedup_failures.induct) auto

lemma dedup_subset: "set (dedup_failures fs seen) \<subseteq> set fs"
  by (induction fs seen rule: dedup_failures.induct) auto

lemma dedup_signatures: "cf_Signature ` set fs \<subseteq> seen \<union> cf_Signature ` set (dedup_failures fs seen)"
  by (induction fs seen rule: dedup_failures.induct) auto

lemma item_run: "runs \<noteq> [] \<Longrightarrow>
    \<exists>d\<in>set runs. cf_RunID (item_failure l runs x) = wr_ID (rd_Run d) \<and> cf_RunURL (item_failure l runs x) = wr_URL (rd_Run d) \<and>
      cf_Timestamp (item_failure l runs x) = wr_CreatedAt (rd_Run d)"
proof (cases "tr_RunID x = 0 \<or> find (\<lambda>d. wr_ID (rd_Run d) = tr_RunID x) (rev runs) = None")
  case True
  assume "runs \<noteq> []"
  then show ?thesis using True by (intro bexI [of _ "hd runs"]) (auto simp: item_failure_def Let_def)
next
  case False
  then obtain d where d: "find (\<lambda>d. wr_ID (rd_Run d) = tr_RunID x) (rev runs) = Some d" by auto
  then have "d \<in> set runs" using find_SomeD [OF d] by simp
  then show ?thesis using False d by (intro bexI [of _ d]) (auto simp: item_failure_def Let_def)
qed

lemma item_fields:
  "cf_Category (item_failure l runs x) \<in> set ValidCategories"
  "cf_JobName (item_failure l runs x) \<in> insert [] (set (concat (map (\<lambda>d. map jb_Name (rd_FailedJobs d)) runs)))"
  "cf_Signature (item_failure l runs x) =
     ComputeSignature l (cf_File (item_failure l runs x)) (cf_Summary (item_failure l runs x))
       (cf_JobName (item_failure l runs x)) (cf_Details (item_failure l runs x))"
  by (auto simp: item_failure_def Let_def ValidCategories_def split: option.split dest!: find_SomeD)

text \<open>Whatever the language model answers, the failures of a triage are usable: their signatures are
  distinct and are those of their own fields, every failure has a known category, the run, URL and time
  of one of the runs that were triaged and the name of a failed job of one of them (or none).
\<close>

theorem medivac_triage_well_formed:
  "case TriageBatch l query model runs of
     Inl e \<Rightarrow> True
   | Inr (None, cost) \<Rightarrow> runs = [] \<and> cost = 0
   | Inr (Some fs, cost) \<Rightarrow> distinct (map cf_Signature fs) \<and>
       list_all (\<lambda>f. cf_Category f \<in> set ValidCategories \<and>
         list_ex (\<lambda>d. cf_RunID f = wr_ID (rd_Run d) \<and> cf_RunURL f = wr_URL (rd_Run d) \<and> cf_Timestamp f = wr_CreatedAt (rd_Run d)) runs \<and>
         cf_JobName f \<in> insert [] (set (concat (map (\<lambda>d. map jb_Name (rd_FailedJobs d)) runs))) \<and>
         cf_Signature f = ComputeSignature l (cf_File f) (cf_Summary f) (cf_JobName f) (cf_Details f)) fs"
proof (cases "runs = []")
  case False
  have item: "cf_Category f \<in> set ValidCategories \<and>
      list_ex (\<lambda>d. cf_RunID f = wr_ID (rd_Run d) \<and> cf_RunURL f = wr_URL (rd_Run d) \<and> cf_Timestamp f = wr_CreatedAt (rd_Run d)) runs \<and>
      cf_JobName f \<in> insert [] (set (concat (map (\<lambda>d. map jb_Name (rd_FailedJobs d)) runs))) \<and>
      cf_Signature f = ComputeSignature l (cf_File f) (cf_Summary f) (cf_JobName f) (cf_Details f)"
    if f_in: "f \<in> set (dedup_failures (map (item_failure l runs) items) {})" for f items
  proof -
    obtain x where f: "f = item_failure l runs x" using subsetD [OF dedup_subset f_in] by auto
    show ?thesis unfolding f list_ex_iff using item_run [OF False, of l x] item_fields [of l runs x] by blast
  qed
  show ?thesis using False item dedup_distinct
    by (auto simp: TriageBatch_def list_all_iff simp del: insert_iff set_concat split: sum.split)
qed (simp add: TriageBatch_def)

end
