(* ===== verification/MedivacSample.thy ===== *)
theory MedivacSample
  imports MedivacLife
begin

text \<open>Concrete inputs on which the theorems about \<open>medivac\<close> are applied: a scan that finds one failure.\<close>

definition sample_lib :: ci_lib where
  "sample_lib = \<lparr>ci_sha = (\<lambda>s. s), ci_case = \<lparr>cs_upper = (\<lambda>s. s), cs_lower = (\<lambda>s. s), cs_fold = (=)\<rparr>,
     ci_parse = (\<lambda>s. Some (JArr [JObj [(''category'', JStr ''build''), (''summary'', JStr ''boom''), (''file'', JStr ''a'')]])),
     ci_time = (\<lambda>s. None), ci_instructions = []\<rparr>"

definition sample_run :: WorkflowRun where
  "sample_run = zero_run\<lparr>wr_ID := 5, wr_CreatedAt := 3\<rparr>"

definition sample_scan :: scan_env where
  "sample_scan = \<lparr>se_scanner = \<lparr>sc_ListFailedRuns = (\<lambda>b n. Inr [sample_run]),
       sc_GetJobsForRun = (\<lambda>r. Inr [\<lparr>jb_Name = ''j'', jb_Conclusion = ''failure'', jb_ID = 1, jb_RunID = r\<rparr>]),
       sc_GetAnnotations = (\<lambda>r. Inr []), sc_GetJobLog = (\<lambda>r. Inr [])\<rparr>,
     se_query = (\<lambda>m p. Inr (''[]'', 0)), se_now = 4, se_save = None\<rparr>"

definition sample_config :: engine_config where
  "sample_config = \<lparr>ec_AgentModel = ''sonnet'', ec_Branch = ''main'', ec_LogFile = [], ec_TriageModel = ''haiku'',
     ec_MaxParallel = 3, ec_RunLimit = 5, ec_DryRun = False\<rparr>"

definition sample_fix :: fix_env where
  "sample_fix = \<lparr>fx_fetch = None, fx_worktree = (\<lambda>b. Inr ''w''),
     fx_agent = (\<lambda>w p. \<lparr>ar_Result = Some ([], True), ar_Files = Some [''a''], ar_Error = None, ar_Cost = 1\<rparr>),
     fx_createPR = (\<lambda>t b r. Inr (''url'', 9)), fx_fixPrompt = (\<lambda>i. []), fx_groupPrompt = (\<lambda>g. []), fx_now = (\<lambda>b. 6),
     fx_rank = (\<lambda>b. 0), fx_save = None\<rparr>"

text \<open>A pull request in a state with a review; nothing can be merged.\<close>

definition sample_pr_env :: "string \<Rightarrow> string \<Rightarrow> pr_env" where
  "sample_pr_env s r = \<lparr>pe_info = (\<lambda>tr b. Inr (s, r)), pe_merge = (\<lambda>tr b. Some ''conflict''), pe_save = (\<lambda>n. None)\<rparr>"

definition green_scan :: scan_env where
  "green_scan = sample_scan\<lparr>se_scanner := (se_scanner sample_scan)\<lparr>sc_ListFailedRuns := (\<lambda>b n. Inr [])\<rparr>\<rparr>"

text \<open>The status of the one issue.\<close>

definition sample_status :: "issue_tracker \<Rightarrow> issue_status option" where
  "sample_status t = map_option is_Status (map_of (tk_issues t) ''boom:a'')"

lemma sample_status_Some: "sample_status t = Some st \<longleftrightarrow> (\<exists>i. map_of (tk_issues t) ''boom:a'' = Some i \<and> is_Status i = st)"
  by (auto simp: sample_status_def)

definition dismissed_cmds :: "medivac_cmd list" where
  "dismissed_cmds = [CmdScan sample_scan, CmdDismiss ''boom:a'' ''known'']"

lemma dismissed_status: "sample_status (medivac_run sample_lib sample_config dismissed_cmds) = Some StatusWontFix"
  by code_simp

lemma medivac_dismissed_left_alone_witness:
  "sample_status (medivac_run sample_lib sample_config (dismissed_cmds @ [CmdFix sample_scan sample_fix])) = Some StatusWontFix"
proof -
  obtain i where i: "map_of (tk_issues (medivac_run sample_lib sample_config dismissed_cmds)) ''boom:a'' = Some i"
    "is_Status i = StatusWontFix" using dismissed_status by (auto simp: sample_status_Some)
  have "CmdReopen (generateID sample_lib ''boom:a'') \<notin> set [CmdFix sample_scan sample_fix]" by simp
  from medivac_dismissed_left_alone [OF i this] show ?thesis by (auto simp: sample_status_Some)
qed

definition merged_cmds :: "medivac_cmd list" where
  "merged_cmds = [CmdScan sample_scan, CmdFixSkipScan sample_fix, CmdMerge (sample_pr_env ''MERGED'' [])]"

lemma merged_status: "sample_status (medivac_run sample_lib sample_config merged_cmds) = Some StatusFixMerged"
  by code_simp

lemma medivac_green_branch_not_verified_witness:
  "sample_status (medivac_step sample_lib sample_config (CmdScan green_scan) (medivac_run sample_lib sample_config merged_cmds)) =
    Some StatusFixMerged"
proof -
  have "sc_ListFailedRuns (se_scanner green_scan) (ec_Branch sample_config) (ec_RunLimit sample_config) = Inr []"
    by (simp add: green_scan_def)
  from medivac_green_branch_not_verified [OF this, of "medivac_run sample_lib sample_config merged_cmds" sample_lib]
  show ?thesis using merged_status by (simp add: sample_status_def)
qed

definition approved_cmds :: "medivac_cmd list" where
  "approved_cmds = [CmdScan sample_scan, CmdFixSkipScan sample_fix, CmdMerge (sample_pr_env ''OPEN'' ''APPROVED'')]"

lemma approved_status: "sample_status (medivac_run sample_lib sample_config approved_cmds) = Some StatusFixApproved"
  by code_simp

lemma medivac_merges_unapproved_witness:
  "\<exists>b. MergePR b \<in> set (fst (snd (MergeApproved sample_config (sample_pr_env ''OPEN'' ''CHANGES_REQUESTED'')
     (medivac_run sample_lib sample_config approved_cmds))))"
proof -
  obtain i where i: "map_of (tk_issues (medivac_run sample_lib sample_config approved_cmds)) ''boom:a'' = Some i"
    "is_Status i = StatusFixApproved" using approved_status by (auto simp: sample_status_Some)
  have env: "pe_info (sample_pr_env ''OPEN'' ''CHANGES_REQUESTED'') tr (last_branch i) = Inr (''OPEN'', ''CHANGES_REQUESTED'')" for tr
    by (simp add: sample_pr_env_def)
  have c: "\<not> ec_DryRun sample_config" "pe_save (sample_pr_env ''OPEN'' ''CHANGES_REQUESTED'') 0 = None"
    by (simp_all add: sample_pr_env_def sample_config_def)
  show ?thesis by (rule exI [of _ "last_branch i"]) (rule medivac_merges_unapproved [OF refl i env c])
qed

lemma medivac_signature_dot_path_witness:
  "ComputeSignature sample_lib ''./services/go/api/src/a.go'' ''boom'' [] [] \<noteq>
   ComputeSignature sample_lib ''services/go/api/src/a.go'' ''boom'' [] []"
proof -
  have a: "buildContextPrefixRe ''services/go/api/src/a.go'' = Some ''src/a.go''" by code_simp
  have b: "list_ex (HasPrefix ''src/a.go'') srcPrefixes" by code_simp
  show ?thesis using medivac_signature_dot_path(2) [OF a b, of sample_lib "''boom''" "[]" "[]"] by simp
qed

end
