(* ===== verification/DisplayText.thy ===== *)
theory DisplayText
  imports GoRegex
begin

text \<open>
  Shortening a text for display, \<open>agent-cli-wrapper/displaytext\<close>: by runes, keeping the last
  components of a path where they fit. The result has at most the asked number of runes.
\<close>

definition runeCountAtMost :: "string \<Rightarrow> int \<Rightarrow> bool" where
  "runeCountAtMost s m = (m \<ge> 0 \<and> int (length (runes s)) \<le> m)"

definition Truncate :: "string \<Rightarrow> int \<Rightarrow> string" where
  "Truncate s m =
    (if m \<le> 0 then []
     else if int (length s) \<le> m \<or> runeCountAtMost s m then s
     else if m \<le> 3 then take_runes (nat m) s
     else take_runes (nat (m - 3)) s @ ''...'')"

definition TrimLeft :: "char set \<Rightarrow> string \<Rightarrow> string" where
  "TrimLeft cs s = dropWhile (\<lambda>c. c \<in> cs) s"

text \<open>Going back over \<open>k\<close> separators from \<open>i\<close>: where the last components start, if there are so many.\<close>

fun back_slashes :: "string \<Rightarrow> nat \<Rightarrow> nat \<Rightarrow> nat option" where
  "back_slashes e 0 i = Some i"
| "back_slashes e (Suc k) i = (case LastIndex (take i e) ''/'' of None \<Rightarrow> None | Some j \<Rightarrow> back_slashes e k j)"

definition trailingPathComponents :: "string \<Rightarrow> nat \<Rightarrow> string" where
  "trailingPathComponents path k =
    (let e = TrimRight {CHR ''/''} path in
     if e = [] then []
     else case back_slashes e k (length e) of
         None \<Rightarrow> TrimLeft {CHR ''/''} e
       | Some i \<Rightarrow> TrimLeft {CHR ''/''} (drop i e))"

definition TruncatePathComponents :: "string \<Rightarrow> int \<Rightarrow> nat \<Rightarrow> string" where
  "TruncatePathComponents path m k =
    (let candidate = (\<lambda>n. (let suf = trailingPathComponents path n in
           if suf \<noteq> [] \<and> runeCountAtMost (''.../'' @ suf) m then Some (''.../'' @ suf) else None))
     in if m \<le> 0 then []
        else if int (length path) \<le> m \<or> runeCountAtMost path m then path
        else case (if k > 0 then candidate k else None) of
            Some c \<Rightarrow> c
          | None \<Rightarrow> (case candidate 1 of Some c \<Rightarrow> c | None \<Rightarrow> Truncate path m))"

section \<open>Runes of a prefix\<close>

definition ascii_start :: "string \<Rightarrow> bool" where
  "ascii_start t = (case t of [] \<Rightarrow> True | c # _ \<Rightarrow> ascii c)"

lemma ascii_not_cont: "ascii c \<Longrightarrow> \<not> cont c \<and> \<not> second_ok b c"
  by (auto simp: ascii_def cont_def byte_def second_ok_def)

lemma rune_width_class:
  "rune_width (c # s) =
    (if 0xC2 \<le> byte c \<and> byte c \<le> 0xDF then (if s \<noteq> [] \<and> cont (hd s) then 2 else 1)
     else if 0xE0 \<le> byte c \<and> byte c \<le> 0xEF then
       (if 1 < length s \<and> second_ok (byte c) (s ! 0) \<and> cont (s ! 1) then 3 else 1)
     else if 0xF0 \<le> byte c \<and> byte c \<le> 0xF4 then
       (if 2 < length s \<and> second_ok (byte c) (s ! 0) \<and> cont (s ! 1) \<and> cont (s ! 2) then 4 else 1)
     else 1)"
proof -
  consider "s = []" | x where "s = [x]" | x y where "s = [x, y]" | x y z u where "s = x # y # z # u"
    by (metis neq_Nil_conv)
  then show ?thesis by cases (simp_all add: rune_width.simps(2) Let_def nth_Cons')
qed

lemma nth_cut:
  assumes "ascii_start t" and "i < length (p @ t)" and "cont ((p @ t) ! i) \<or> second_ok b ((p @ t) ! i)"
    and "\<forall>j < i. cont ((p @ t) ! j) \<or> second_ok b ((p @ t) ! j)"
  shows "i < length p"
proof (rule ccontr)
  assume "\<not> i < length p"
  then have "length p \<le> i" by simp
  then obtain d u where t: "t = d # u" using assms(2) by (cases t) auto
  then have "ascii d" "(p @ t) ! length p = d" using assms(1) by (simp_all add: ascii_start_def)
  moreover have "cont ((p @ t) ! length p) \<or> second_ok b ((p @ t) ! length p)"
    using assms(3,4) \<open>length p \<le> i\<close> by (cases "length p = i") auto
  ultimately show False using ascii_not_cont by simp
qed

lemma rune_width_cut:
  assumes "rune_width (c # p @ q) = 1" and t: "ascii_start t"
  shows "rune_width (c # p @ t) = 1"
proof (rule ccontr)
  assume n: "rune_width (c # p @ t) \<noteq> 1"
  let ?b = "byte c"
  have "\<exists>k. rune_width (c # p @ q) \<noteq> 1 \<or> k < (0::nat)"
  proof -
    consider (two) "0xC2 \<le> ?b" "?b \<le> 0xDF" "p @ t \<noteq> []" "cont ((p @ t) ! 0)"
      | (three) "0xE0 \<le> ?b" "?b \<le> 0xEF" "1 < length (p @ t)" "second_ok ?b ((p @ t) ! 0)" "cont ((p @ t) ! 1)"
      | (four) "0xF0 \<le> ?b" "?b \<le> 0xF4" "2 < length (p @ t)" "second_ok ?b ((p @ t) ! 0)" "cont ((p @ t) ! 1)" "cont ((p @ t) ! 2)"
      using n unfolding rune_width_class by (auto simp: hd_conv_nth split: if_splits)
    then show ?thesis
    proof cases
      case two
      then have "0 < length p" using nth_cut [OF t, of 0 p ?b] by simp
      then show ?thesis using two unfolding rune_width_class by (auto simp: hd_conv_nth nth_append)
    next
      case three
      then have "1 < length p" using nth_cut [OF t, of 1 p ?b] by (simp add: less_Suc_eq_0_disj)
      then show ?thesis using three unfolding rune_width_class by (auto simp: nth_append)
    next
      case four
      then have "2 < length p" using nth_cut [OF t, of 2 p ?b] by (auto simp: numeral_2_eq_2 less_Suc_eq)
      then show ?thesis using four unfolding rune_width_class by (auto simp: nth_append)
    qed
  qed
  then show False using assms(1) by simp
qed

lemma rune_width_full: "s \<noteq> [] \<Longrightarrow> rune_width s \<noteq> 1 \<Longrightarrow> rune_width (take (rune_width s) s @ u) = rune_width s"
proof (cases s)
  case (Cons c s')
  assume "rune_width s \<noteq> 1"
  then show ?thesis unfolding Cons rune_width_class
    by (auto simp: rune_width_class hd_conv_nth nth_append take_Cons' hd_append split: if_splits)
qed simp

lemma rune_width_le: "rune_width s \<le> length s"
  by (cases s) (auto simp: rune_width_class simp flip: length_greater_0_conv)

lemma runes_prefix:
  assumes "ascii_start t"
  shows "runes (take_runes n s @ t) = take n (runes s) @ runes t"
proof (induction n arbitrary: s)
  case (Suc n)
  show ?case
  proof (cases s)
    case (Cons c s')
    let ?w = "rune_width s" let ?u = "take_runes n (drop ?w s) @ t"
    have r: "runes s = take ?w s # runes (drop ?w s)" using Cons by (subst runes.simps) simp
    have cut: "take_runes (Suc n) s @ t = take ?w s @ ?u" by (simp add: take_runes_def r)
    have "take_runes n (drop ?w s) @ concat (drop n (runes (drop ?w s))) = drop ?w s"
      unfolding take_runes_def concat_append [symmetric] append_take_drop_id by (rule concat_runes)
    then obtain q where q: "drop ?w s = take_runes n (drop ?w s) @ q" by metis
    have w: "rune_width (take ?w s @ ?u) = ?w"
    proof (cases "?w = 1")
      case True
      then have "s = c # take_runes n (drop ?w s) @ q" using q Cons by simp
      then have "rune_width (c # take_runes n (drop ?w s) @ q) = 1" using True by metis
      then show ?thesis using rune_width_cut [OF _ assms] True Cons by simp
    qed (simp add: rune_width_full Cons)
    have "take ?w s @ ?u \<noteq> []" "length (take ?w s) = ?w" using Cons rune_width_pos [of s] rune_width_le [of s] by auto
    then have "runes (take ?w s @ ?u) = take ?w s # runes ?u" using w by (subst runes.simps) simp
    then show ?thesis using Suc by (simp add: cut r)
  qed (simp add: take_runes_def)
qed (simp add: take_runes_def)

lemma runes_take [simp]: "runes (take_runes n s) = take n (runes s)"
  using runes_prefix [of "[]"] by (simp add: ascii_start_def)

lemma runeCount_le: "int (length s) \<le> m \<Longrightarrow> int (length (runes s)) \<le> m"
  using length_runes_le [of s] by linarith

text \<open>A text or a path that is shortened to a positive number of runes has at most that many, also when
  it holds bytes that are not UTF-8, and one that is short enough is left alone.
\<close>

theorem display_bound:
  assumes "0 \<le> m"
  shows "int (length (runes (Truncate s m))) \<le> m"
    and "int (length (runes (TruncatePathComponents s m k))) \<le> m"
    and "int (length (runes s)) \<le> m \<Longrightarrow> 0 < m \<Longrightarrow> Truncate s m = s \<and> TruncatePathComponents s m k = s"
proof -
  have dots: "runes (take_runes n s @ ''...'') = take n (runes s) @ runes ''...''" for n
    by (rule runes_prefix) (simp add: ascii_start_def ascii_def)
  have [simp]: "length (runes ''...'') = 3" by (simp add: ascii_def)
  show t: "int (length (runes (Truncate s m))) \<le> m"
    using assms by (auto simp: Truncate_def dots runeCountAtMost_def dest: runeCount_le)
  show "int (length (runes (TruncatePathComponents s m k))) \<le> m"
    using assms t unfolding TruncatePathComponents_def Let_def
    by (auto simp: runeCountAtMost_def dest: runeCount_le split: option.splits if_splits)
  show "int (length (runes s)) \<le> m \<Longrightarrow> 0 < m \<Longrightarrow> Truncate s m = s \<and> TruncatePathComponents s m k = s"
    using assms by (simp add: Truncate_def TruncatePathComponents_def runeCountAtMost_def)
qed

lemma display_bound_witness:
  "int (length (runes (Truncate ''a longer text'' 8))) \<le> 8 \<and> Truncate ''a longer text'' 8 = ''a lon...''"
proof -
  have "Truncate ''a longer text'' 8 = ''a lon...''" by code_simp
  then show ?thesis using display_bound(1) [of 8 "''a longer text''"] by simp
qed

end
