(* ===== verification/BrambleOutput.thy ===== *)
theory BrambleOutput
  imports DisplayText ClaudeProtocol
begin

text \<open>
  The output of a session of \<open>bramble\<close>: the lines and the capped buffer that holds them
  (\<open>bramble/sessionmodel/types.go\<close>, \<open>output_buffer.go\<close>, \<open>format.go\<close>), the older copy of the same
  operations in the manager (\<open>bramble/session/manager.go\<close>), and the joining of stream deltas
  (\<open>bramble/session/types.go\<close>). A tool input is a decoded JSON object and a tool result a JSON value;
  the zero time is none. What is proved: the two copies agree, they keep the cap, and what joining
  deltas keeps and loses.
\<close>

section \<open>Lines\<close>

datatype OutputLineType =
    OutText | OutThinking | OutTool | OutToolStart | OutToolResult | OutError | OutStatus | OutTurnEnd | OutPlanReady

datatype ToolState = NoToolState | ToolRunning | ToolComplete | ToolError

record OutputLine =
  ol_StartTime :: "time option"
  ol_Timestamp :: time
  ol_ToolResult :: "json option"
  ol_ToolInput :: "jmap option"
  ol_ToolName :: string
  ol_ToolID :: string
  ol_Content :: string
  ol_ToolState :: ToolState
  ol_Type :: OutputLineType
  ol_TurnNumber :: int
  ol_CostUSD :: rat
  ol_DurationMs :: int
  ol_IsError :: bool
  ol_IsUserPrompt :: bool

text \<open>A line with a type, a time and a text; the other fields have their zero values.\<close>

definition out_line :: "time \<Rightarrow> OutputLineType \<Rightarrow> string \<Rightarrow> OutputLine" where
  "out_line now ty text =
    \<lparr>ol_StartTime = None, ol_Timestamp = now, ol_ToolResult = None, ol_ToolInput = None, ol_ToolName = [],
     ol_ToolID = [], ol_Content = text, ol_ToolState = NoToolState, ol_Type = ty, ol_TurnNumber = 0, ol_CostUSD = 0,
     ol_DurationMs = 0, ol_IsError = False, ol_IsUserPrompt = False\<rparr>"

definition tool_line :: "time \<Rightarrow> string \<Rightarrow> string \<Rightarrow> string \<Rightarrow> jmap option \<Rightarrow> OutputLine" where
  "tool_line now text name i inp =
    (out_line now OutToolStart text)\<lparr>ol_ToolName := name, ol_ToolID := i, ol_ToolInput := inp, ol_ToolState := ToolRunning,
      ol_StartTime := Some now\<rparr>"

definition RecentOutputDisplayLines :: int where
  "RecentOutputDisplayLines = 3"

definition assistant_line :: "OutputLine \<Rightarrow> bool" where
  "assistant_line l = (ol_Type l = OutText \<and> \<not> ol_IsUserPrompt l \<and> TrimSpace (ol_Content l) \<noteq> [])"

text \<open>The loop collects from the end and is reversed; the last \<open>n\<close> matching lines.\<close>

fun collect_back :: "nat \<Rightarrow> OutputLine list \<Rightarrow> string list \<Rightarrow> string list" where
  "collect_back n [] acc = acc"
| "collect_back n (l # ls) acc =
    (if n \<le> length acc then acc
     else collect_back n ls (if assistant_line l then acc @ [ol_Content l] else acc))"

definition RecentAssistantTextFromSlice :: "OutputLine list \<Rightarrow> int \<Rightarrow> string list" where
  "RecentAssistantTextFromSlice lines n = (if n \<le> 0 then [] else rev (collect_back (nat n) (rev lines) []))"

lemma collect_back_eq:
  "length acc \<le> n \<Longrightarrow>
    collect_back n ls acc = take n (acc @ map ol_Content (filter assistant_line ls))"
proof (induction ls arbitrary: acc)
  case (Cons l ls)
  then show ?case by (cases "length acc = n") (auto simp: take_Cons')
qed simp

lemma recent_assistant_text:
  "RecentAssistantTextFromSlice lines n =
    (let ts = map ol_Content (filter assistant_line lines) in drop (length ts - nat n) ts)"
  by (simp add: RecentAssistantTextFromSlice_def collect_back_eq Let_def rev_filter [symmetric] rev_map [symmetric] take_rev)

section \<open>The text of a tool call\<close>

definition str_arg :: "string \<Rightarrow> jmap \<Rightarrow> string option" where
  "str_arg k m = (case map_of m k of Some (JStr s) \<Rightarrow> Some s | _ \<Rightarrow> None)"

definition FormatToolContent :: "string \<Rightarrow> jmap option \<Rightarrow> string" where
  "FormatToolContent name inp =
    (case inp of
       None \<Rightarrow> name
     | Some m \<Rightarrow>
         (let with = (\<lambda>k f. case str_arg k m of Some s \<Rightarrow> f s | None \<Rightarrow> name) in
          if name = ''Read'' then with ''file_path'' (\<lambda>p. name @ '' '' @ TruncatePathComponents p 60 1)
          else if name = ''Write'' \<or> name = ''Edit'' then
            with ''file_path'' (\<lambda>p. name @ '' '' @ [CHR 0xE2, CHR 0x86, CHR 0x92] @ '' '' @ TruncatePathComponents p 60 1)
          else if name = ''Bash'' then with ''command'' (\<lambda>c. name @ '': '' @ Truncate c 50)
          else if name = ''Glob'' then with ''pattern'' (\<lambda>p. name @ '' '' @ p)
          else if name = ''Grep'' then with ''pattern'' (\<lambda>p. name @ '' '' @ Truncate p 40)
          else if name = ''Task'' then with ''description'' (\<lambda>d. name @ '': '' @ Truncate d 40)
          else name))"

section \<open>The output buffer\<close>

text \<open>Evicting from an empty buffer indexes an empty slice, which panics; \<open>ob_panicked\<close> records it.\<close>

record OutputBuffer =
  ob_lines :: "OutputLine list"
  ob_max :: int
  ob_panicked :: bool

definition NewOutputBuffer :: "int \<Rightarrow> OutputBuffer" where
  "NewOutputBuffer m = \<lparr>ob_lines = [], ob_max = m, ob_panicked = False\<rparr>"

definition appendLocked :: "OutputLine \<Rightarrow> OutputBuffer \<Rightarrow> OutputBuffer" where
  "appendLocked line b =
    (if int (length (ob_lines b)) \<ge> ob_max b then
       (case ob_lines b of
          [] \<Rightarrow> b\<lparr>ob_panicked := True\<rparr>
        | _ # rest \<Rightarrow> b\<lparr>ob_lines := rest @ [line]\<rparr>)
     else b\<lparr>ob_lines := ob_lines b @ [line]\<rparr>)"

definition last_is :: "OutputLineType \<Rightarrow> OutputLine list \<Rightarrow> bool" where
  "last_is ty lines = (lines \<noteq> [] \<and> ol_Type (last lines) = ty)"

definition extend_last :: "string \<Rightarrow> OutputLine list \<Rightarrow> OutputLine list" where
  "extend_last delta lines = butlast lines @ [(last lines)\<lparr>ol_Content := ol_Content (last lines) @ delta\<rparr>]"

definition buf_streaming_text :: "time \<Rightarrow> string \<Rightarrow> OutputBuffer \<Rightarrow> OutputBuffer" where
  "buf_streaming_text now delta b =
    (if last_is OutText (ob_lines b) then b\<lparr>ob_lines := extend_last delta (ob_lines b)\<rparr>
     else appendLocked (out_line now OutText delta) b)"

definition buf_streaming_thinking :: "time \<Rightarrow> string \<Rightarrow> OutputBuffer \<Rightarrow> OutputBuffer" where
  "buf_streaming_thinking now delta b =
    (if TrimSpace delta = [] then b
     else if last_is OutThinking (ob_lines b) then b\<lparr>ob_lines := extend_last delta (ob_lines b)\<rparr>
     else appendLocked (out_line now OutThinking delta) b)"

text \<open>The lines with the most recent start line of the tool changed, if there is one.\<close>

fun update_first :: "string \<Rightarrow> (OutputLine \<Rightarrow> OutputLine) \<Rightarrow> OutputLine list \<Rightarrow> OutputLine list option" where
  "update_first i f [] = None"
| "update_first i f (l # ls) =
    (if ol_ToolID l = i \<and> ol_Type l = OutToolStart then Some (f l # ls) else map_option (Cons l) (update_first i f ls))"

definition update_tool :: "string \<Rightarrow> (OutputLine \<Rightarrow> OutputLine) \<Rightarrow> OutputLine list \<Rightarrow> OutputLine list option" where
  "update_tool i f lines = map_option rev (update_first i f (rev lines))"

definition UpdateToolByID :: "string \<Rightarrow> (OutputLine \<Rightarrow> OutputLine) \<Rightarrow> OutputBuffer \<Rightarrow> bool \<times> OutputBuffer" where
  "UpdateToolByID i f b =
    (case update_tool i f (ob_lines b) of None \<Rightarrow> (False, b) | Some ls \<Rightarrow> (True, b\<lparr>ob_lines := ls\<rparr>))"

section \<open>The manager's copy\<close>

type_synonym outputs = "(string, OutputLine list) gomap"

definition addOutput :: "string \<Rightarrow> OutputLine \<Rightarrow> outputs \<Rightarrow> outputs" where
  "addOutput i line m =
    (case map_of m i of
       None \<Rightarrow> m
     | Some lines \<Rightarrow> mput i (if length lines \<ge> 1000 then tl lines @ [line] else lines @ [line]) m)"

definition appendOrAddOutput :: "string \<Rightarrow> OutputLineType \<Rightarrow> time \<Rightarrow> string \<Rightarrow> outputs \<Rightarrow> outputs" where
  "appendOrAddOutput i ty now delta m =
    (case map_of m i of
       Some lines \<Rightarrow>
         if last_is ty lines then mput i (extend_last delta lines) m else addOutput i (out_line now ty delta) m
     | None \<Rightarrow> addOutput i (out_line now ty delta) m)"

definition appendOrAddText :: "string \<Rightarrow> time \<Rightarrow> string \<Rightarrow> outputs \<Rightarrow> outputs" where
  "appendOrAddText i now text = appendOrAddOutput i OutText now text"

definition appendOrAddThinking :: "string \<Rightarrow> time \<Rightarrow> string \<Rightarrow> outputs \<Rightarrow> outputs" where
  "appendOrAddThinking i now thinking m = (if TrimSpace thinking = [] then m else appendOrAddOutput i OutThinking now thinking m)"

definition updateToolOutput :: "string \<Rightarrow> string \<Rightarrow> (OutputLine \<Rightarrow> OutputLine) \<Rightarrow> outputs \<Rightarrow> outputs" where
  "updateToolOutput i tool f m =
    (case map_of m i of
       None \<Rightarrow> m
     | Some lines \<Rightarrow> (case update_tool tool f lines of None \<Rightarrow> m | Some ls \<Rightarrow> mput i ls m))"

section \<open>Joining deltas\<close>

text \<open>The largest overlap of the end of the text with the start of the delta, from \<open>n\<close> down; 0 if there is none.\<close>

fun overlap :: "string \<Rightarrow> string \<Rightarrow> nat \<Rightarrow> nat" where
  "overlap existing delta 0 = 0"
| "overlap existing delta (Suc n) =
    (if drop (length existing - Suc n) existing = take (Suc n) delta then Suc n else overlap existing delta n)"

definition AppendStreamingDelta :: "string \<Rightarrow> string \<Rightarrow> string" where
  "AppendStreamingDelta existing delta =
    (if existing = [] \<or> delta = [] then existing @ delta
     else existing @ drop (overlap existing delta (min (length existing) (length delta))) delta)"

section \<open>The two copies agree\<close>

text \<open>What is done to the output of one session.\<close>

datatype out_op =
    OpLine OutputLine
  | OpText time string
  | OpThinking time string
  | OpTool string "OutputLine \<Rightarrow> OutputLine"

definition buf_op :: "out_op \<Rightarrow> OutputBuffer \<Rightarrow> OutputBuffer" where
  "buf_op e b =
    (case e of
       OpLine l \<Rightarrow> appendLocked l b
     | OpText now d \<Rightarrow> buf_streaming_text now d b
     | OpThinking now d \<Rightarrow> buf_streaming_thinking now d b
     | OpTool i f \<Rightarrow> snd (UpdateToolByID i f b))"

definition outputs_op :: "string \<Rightarrow> out_op \<Rightarrow> outputs \<Rightarrow> outputs" where
  "outputs_op i e m =
    (case e of
       OpLine l \<Rightarrow> addOutput i l m
     | OpText now d \<Rightarrow> appendOrAddText i now d m
     | OpThinking now d \<Rightarrow> appendOrAddThinking i now d m
     | OpTool t f \<Rightarrow> updateToolOutput i t f m)"

text \<open>The state of the buffer that the entry of a session stands for.\<close>

definition outputs_buffer :: "string \<Rightarrow> outputs \<Rightarrow> OutputBuffer option" where
  "outputs_buffer i m = map_option (\<lambda>ls. \<lparr>ob_lines = ls, ob_max = 1000, ob_panicked = False\<rparr>) (map_of m i)"

lemmas out_ops = outputs_op_def addOutput_def appendOrAddText_def appendOrAddThinking_def appendOrAddOutput_def updateToolOutput_def
lemmas buf_ops = buf_op_def appendLocked_def buf_streaming_text_def buf_streaming_thinking_def UpdateToolByID_def

lemma outputs_op_buffer: "outputs_buffer i (outputs_op i e m) = map_option (buf_op e) (outputs_buffer i m)"
  by (cases e; cases "map_of m i")
    (auto simp: out_ops buf_ops outputs_buffer_def split: option.splits list.splits)

lemma outputs_op_other: "j \<noteq> i \<Longrightarrow> map_of (outputs_op i e m) j = map_of m j"
  by (cases e) (auto simp: out_ops split: option.splits)

lemma update_first_length: "update_first i f ls = Some ms \<Longrightarrow> length ms = length ls"
  by (induction i f ls arbitrary: ms rule: update_first.induct) (auto split: if_splits)

lemma update_tool_length: "update_tool i f ls = Some ms \<Longrightarrow> length ms = length ls"
  unfolding update_tool_def by (auto dest: update_first_length)

definition buffer_ok :: "OutputBuffer \<Rightarrow> bool" where
  "buffer_ok b \<longleftrightarrow> 0 < ob_max b \<and> int (length (ob_lines b)) \<le> ob_max b \<and> \<not> ob_panicked b"

lemma appendLocked_ok: "buffer_ok b \<Longrightarrow> buffer_ok (appendLocked l b)"
  by (auto simp: buffer_ok_def appendLocked_def split: list.split)

lemma extend_last_length: "ls \<noteq> [] \<Longrightarrow> length (extend_last d ls) = length ls"
  by (simp add: extend_last_def)

lemma buf_op_ok: "buffer_ok b \<Longrightarrow> buffer_ok (buf_op e b)"
  by (cases e)
    (auto simp: buf_op_def buf_streaming_text_def buf_streaming_thinking_def UpdateToolByID_def last_is_def appendLocked_ok
      buffer_ok_def extend_last_length update_tool_length appendLocked_def split: option.splits list.splits)

interpretation buf: invariant_machine buf_op "\<lambda>_. True" buffer_ok
  by unfold_locales (rule buf_op_ok)

lemma outputs_run: "outputs_buffer i (run_machine (outputs_op i) es m) = map_option (run_machine buf_op es) (outputs_buffer i m)"
proof (induction es arbitrary: m)
  case Nil
  show ?case by (cases "outputs_buffer i m") simp_all
next
  case (Cons e es)
  then show ?case by (cases "outputs_buffer i m") (simp_all add: outputs_op_buffer)
qed

lemma outputs_run_other: "j \<noteq> i \<Longrightarrow> map_of (run_machine (outputs_op i) es m) j = map_of m j"
  by (induction es arbitrary: m) (simp_all add: outputs_op_other)

text \<open>The manager keeps the output of a session in a map of slices, the session model in an output
  buffer. After any lines, deltas and tool updates the slice of the session is the content of a buffer
  of 1000 lines that got the same; the other sessions are as before, and the buffer has neither more
  than 1000 lines nor evicted from an empty slice.
\<close>

theorem bramble_outputs_buffer:
  assumes "map_of m i = Some []"
  shows "map_of (run_machine (outputs_op i) es m) i = Some (ob_lines (run_machine buf_op es (NewOutputBuffer 1000)))"
    and "j \<noteq> i \<Longrightarrow> map_of (run_machine (outputs_op i) es m) j = map_of m j"
    and "length (ob_lines (run_machine buf_op es (NewOutputBuffer 1000))) \<le> 1000 \<and>
      \<not> ob_panicked (run_machine buf_op es (NewOutputBuffer 1000))"
proof -
  have "outputs_buffer i m = Some (NewOutputBuffer 1000)"
    using assms by (simp add: outputs_buffer_def NewOutputBuffer_def)
  then have "outputs_buffer i (run_machine (outputs_op i) es m) = Some (run_machine buf_op es (NewOutputBuffer 1000))"
    by (simp add: outputs_run)
  then show "map_of (run_machine (outputs_op i) es m) i = Some (ob_lines (run_machine buf_op es (NewOutputBuffer 1000)))"
    by (auto simp: outputs_buffer_def) (metis OutputBuffer.select_convs(1))
  show "j \<noteq> i \<Longrightarrow> map_of (run_machine (outputs_op i) es m) j = map_of m j" by (rule outputs_run_other)
  have m: "ob_max (buf_op e b) = ob_max b" for e b
    by (cases e) (auto simp: buf_ops split: option.splits list.splits)
  have "ob_max (run_machine buf_op es b) = ob_max b" for b by (induction es arbitrary: b) (simp_all add: m)
  then show "length (ob_lines (run_machine buf_op es (NewOutputBuffer 1000))) \<le> 1000 \<and>
      \<not> ob_panicked (run_machine buf_op es (NewOutputBuffer 1000))"
    using buf.run_inv [of "NewOutputBuffer 1000" es] by (simp add: buffer_ok_def NewOutputBuffer_def list_all_iff)
qed

lemma bramble_outputs_buffer_witness:
  "map_of (run_machine (outputs_op ''s'') [OpText 1 ''a'', OpText 2 ''b''] [(''s'', [])]) ''s'' = Some [out_line 1 OutText ''ab'']"
proof -
  have "run_machine buf_op [OpText 1 ''a'', OpText 2 ''b''] (NewOutputBuffer 1000) =
      \<lparr>ob_lines = [out_line 1 OutText ''ab''], ob_max = 1000, ob_panicked = False\<rparr>"
    by code_simp
  then show ?thesis using bramble_outputs_buffer(1) [of "[(''s'', [])]" "''s''" "[OpText 1 ''a'', OpText 2 ''b'']"] by simp
qed

section \<open>What joining deltas does\<close>

lemma overlap_bound: "overlap a d n \<le> n"
  by (induction n) auto

lemma overlap_match: "n \<le> length a \<Longrightarrow> n \<le> length d \<Longrightarrow> suffix (take (overlap a d n) d) a"
proof (induction n)
  case (Suc n)
  show ?case
  proof (cases "drop (length a - Suc n) a = take (Suc n) d")
    case True
    then show ?thesis by (simp flip: True) (simp add: suffix_drop)
  qed (use Suc in simp)
qed simp

lemma overlap_largest:
  assumes "suffix (take k d) a" and "k \<le> n" and "n \<le> length d" and "n \<le> length a"
  shows "k \<le> overlap a d n"
  using assms
proof (induction n)
  case (Suc n)
  show ?case
  proof (cases "k = Suc n")
    case True
    then have "drop (length a - Suc n) a = take (Suc n) d"
      using Suc.prems by (auto simp: suffix_def)
    then show ?thesis using True by simp
  qed (use Suc in auto)
qed simp

text \<open>Joining a delta to a text gives the shortest text that starts with the old text, ends with the
  delta and is at least as long as either; so text that a chunk boundary repeats is dropped, and so is
  a genuine repetition: after \<open>hel\<close> the delta \<open>lo\<close> is read as an overlap.
\<close>

theorem bramble_delta_joined:
  shows "(\<exists>k. AppendStreamingDelta a d = a @ drop k d \<and> suffix d (AppendStreamingDelta a d)) \<and>
    (prefix a x \<longrightarrow> suffix d x \<longrightarrow> length (AppendStreamingDelta a d) \<le> length x) \<and>
    (AppendStreamingDelta ''hel'' ''lo'' = ''helo'')"
proof -
  let ?n = "min (length a) (length d)" let ?k = "overlap a d ?n"
  have eq: "AppendStreamingDelta a d = a @ drop ?k d"
    by (auto simp: AppendStreamingDelta_def)
  have "suffix (take ?k d) a" by (rule overlap_match) simp_all
  then obtain z where "a = z @ take ?k d" by (auto simp: suffix_def)
  then have "a @ drop ?k d = z @ d" by (metis append_assoc append_take_drop_id)
  then have "suffix d (a @ drop ?k d)" by (simp add: suffix_def)
  then have f1: "\<exists>k. AppendStreamingDelta a d = a @ drop k d \<and> suffix d (AppendStreamingDelta a d)"
    unfolding eq by auto
  have f2: "length (AppendStreamingDelta a d) \<le> length x" if x: "prefix a x" "suffix d x"
  proof (cases "length a + length d \<le> length x")
    case False
    obtain u where u: "x = a @ u" using x(1) by (auto simp: prefix_def)
    obtain v where v: "x = v @ d" using x(2) by (auto simp: suffix_def)
    let ?j = "length a + length d - length x"
    have len: "length x = length a + length u" "length x = length v + length d" using u v by (metis length_append)+
    have "length v \<le> length a" using len False by arith
    moreover have "a = take (length a) (v @ d)" using u by (simp flip: v)
    ultimately have a: "a = v @ take (length a - length v) d" by simp
    have "?j = length a - length v" using len False by arith
    then have "suffix (take ?j d) a" using a by (metis suffixI)
    moreover have "?j \<le> ?n" using len False by arith
    ultimately have "?j \<le> ?k" by (intro overlap_largest) simp_all
    moreover have "?k \<le> length d" using overlap_bound [of a d ?n] by simp
    ultimately show ?thesis using eq False by simp
  qed (simp add: eq)
  have f3: "AppendStreamingDelta ''hel'' ''lo'' = ''helo''" by code_simp
  show ?thesis using f1 f2 f3 by blast
qed

lemma bramble_delta_joined_witness:
  "length (AppendStreamingDelta ''ab'' ''bc'') \<le> 3 \<and> AppendStreamingDelta ''ab'' ''bc'' = ''abc''"
proof -
  have "AppendStreamingDelta ''ab'' ''bc'' = ''abc''" by code_simp
  moreover have "length (AppendStreamingDelta ''ab'' ''bc'') \<le> length ''abc''"
    using bramble_delta_joined [of "''ab''" "''bc''" "''abc''"] by (simp add: prefix_def suffix_def)
  ultimately show ?thesis by simp
qed

end
