(* ===== verification/BramblePane.thy ===== *)
theory BramblePane
  imports GoRegex GoText
begin

text \<open>
  What \<open>bramble\<close> reads off the terminal pane of an agent (\<open>bramble/session/pane_idle.go\<close>): whether a
  turn is in flight, whether the composer holds a draft, and the tracker that turns agreeing captures
  into one transition of the session. A capture is the list of its lines, top first. Runes are written
  as their UTF-8 bytes; the regular expressions, which are anchored, are written out.
\<close>

section \<open>Status of a session\<close>

datatype sess_status = StatusPending | StatusRunning | StatusIdle | StatusCompleted | StatusFailed | StatusStopped

definition SessIsTerminal :: "sess_status \<Rightarrow> bool" where
  "SessIsTerminal s = (s = StatusCompleted \<or> s = StatusFailed \<or> s = StatusStopped)"

section \<open>Marks of the terminal interface\<close>

definition rule_rune :: string where
  "rule_rune = [CHR 0xE2, CHR 0x94, CHR 0x80]"

definition claudePromptGlyph :: string where
  "claudePromptGlyph = [CHR 0xE2, CHR 0x9D, CHR 0xAF]"

definition first_rune :: "string \<Rightarrow> string" where
  "first_rune s = (case runes s of [] \<Rightarrow> [] | r # rs \<Rightarrow> r)"

definition star_rune :: "string \<Rightarrow> bool" where
  "star_rune r = (map byte r \<in> set [[0xE2, 0x9C, 0xBB], [0xE2, 0x9C, 0xA2], [0xE2, 0x9C, 0xBD], [0xE2, 0x9C, 0xB9]])"

definition spinner_rune :: "string \<Rightarrow> bool" where
  "spinner_rune r = (map byte r \<in> set ([42] # [0xC2, 0xB7] #
     map (\<lambda>b. [0xE2, 0xA0, b]) [0x8B, 0x99, 0xB9, 0xB8, 0xBC, 0xB4, 0xA6, 0xA7, 0x87, 0x8F]))"

text \<open>\<open>^\<midarrow>{10,}\<close>, with the light horizontal rule.\<close>

definition separatorRe :: "string \<Rightarrow> bool" where
  "separatorRe s = HasPrefix s (concat (replicate 10 rule_rune))"

definition spinnerRe :: "string \<Rightarrow> bool" where
  "spinnerRe s = (spinner_rune (first_rune s) \<and> run_of re_space (drop (length (first_rune s)) s) > 0)"

text \<open>A star, white space and a word, whose characters are those of ASCII.\<close>

definition completionRe :: "string \<Rightarrow> bool" where
  "completionRe s =
    (let t = drop (length (first_rune s)) s; w = run_of re_space t
     in star_rune (first_rune s) \<and> w > 0 \<and> run_of word_char (drop w t) > 0)"

text \<open>A star, white space, anything without white space, \<open>for\<close>, white space and a digit.\<close>

definition claudeCompletionPastRe :: "string \<Rightarrow> bool" where
  "claudeCompletionPastRe s =
    (let t = drop (length (first_rune s)) s; w = run_of re_space t; u = drop w t;
         n = run_of (\<lambda>c. \<not> re_space c) u; v = drop n u; k = run_of re_space (drop 4 v)
     in star_rune (first_rune s) \<and> w > 0 \<and> n > 0 \<and> HasPrefix v '' for'' \<and> k > 0 \<and> run_of is_digit (drop (4 + k) v) > 0)"

definition isClaudeSeparator :: "string \<Rightarrow> bool" where
  "isClaudeSeparator trimmed =
    (separatorRe trimmed \<or> (HasPrefix trimmed rule_rune \<and> Contains trimmed [CHR 0xE2, CHR 0x96, CHR 0xAA]))"

section \<open>The composer of claude\<close>

definition paneCaptureLines :: nat where
  "paneCaptureLines = 40"

definition claudeComposerMaxLines :: nat where
  "claudeComposerMaxLines = paneCaptureLines - 6"

definition claudePaneContentTailLines :: nat where
  "claudePaneContentTailLines = 4"

definition paneIdleTailLines :: nat where
  "paneIdleTailLines = 6"

definition statusSepIdx :: "string list \<Rightarrow> nat option" where
  "statusSepIdx lines = find (\<lambda>i. isClaudeSeparator (TrimSpace (lines ! i))) (rev [0..<length lines])"

text \<open>The walk up from line \<open>i\<close>: how many lines were seen, and the composer so far.\<close>

datatype walk = WalkEnd "nat option" | WalkRules nat | WalkUpper nat

fun composer_walk :: "string list \<Rightarrow> nat \<Rightarrow> nat \<Rightarrow> nat option \<Rightarrow> walk" where
  "composer_walk lines 0 seen c = WalkEnd c"
| "composer_walk lines (Suc i) seen c =
    (if seen \<ge> claudeComposerMaxLines then WalkEnd c
     else (let trimmed = TrimSpace (lines ! i) in
       if trimmed = [] then composer_walk lines i seen c
       else if isClaudeSeparator trimmed then (case c of None \<Rightarrow> WalkRules i | Some k \<Rightarrow> WalkUpper k)
       else composer_walk lines i (Suc seen) (Some i)))"

text \<open>The first line above \<open>i\<close> that is not blank.\<close>

definition line_above :: "string list \<Rightarrow> nat \<Rightarrow> nat option" where
  "line_above lines i = find (\<lambda>k. TrimSpace (lines ! k) \<noteq> []) (rev [0..<i])"

text \<open>The line of the composer and the rule that ends the content; \<open>None\<close> is -1.\<close>

definition claudeComposerIdx :: "string list \<Rightarrow> nat option \<times> nat option" where
  "claudeComposerIdx lines =
    (case statusSepIdx lines of
       None \<Rightarrow> (None, None)
     | Some sep \<Rightarrow>
         (case composer_walk lines sep 0 None of
            WalkRules i \<Rightarrow> (None, Some i)
          | WalkEnd c \<Rightarrow> (None, None)
          | WalkUpper c \<Rightarrow>
              (Some c, case line_above lines c of
                 None \<Rightarrow> None
               | Some k \<Rightarrow> if isClaudeSeparator (TrimSpace (lines ! k)) then Some k else None)))"

text \<open>What one line says: working and known.\<close>

definition claudeLineVerdict :: "string \<Rightarrow> bool \<times> bool" where
  "claudeLineVerdict line =
    (if spinnerRe line then (True, True)
     else if completionRe line then
       (if claudeCompletionPastRe line then (False, True)
        else if Contains line [CHR 0xE2, CHR 0x80, CHR 0xA6] then (True, True) else (False, False))
     else if HasPrefix line [CHR 0xE2, CHR 0x97, CHR 0x8F] then (True, True) else (False, False))"

fun judge_walk :: "string list \<Rightarrow> nat \<Rightarrow> nat \<Rightarrow> bool \<times> bool" where
  "judge_walk lines 0 seen = (False, False)"
| "judge_walk lines (Suc i) seen =
    (if seen \<ge> claudePaneContentTailLines then (False, False)
     else (let line = TrimSpace (lines ! i) in
       if line = [] then judge_walk lines i seen
       else if HasPrefix line claudePromptGlyph then (False, False)
       else if snd (claudeLineVerdict line) then (fst (claudeLineVerdict line), True)
       else judge_walk lines i (Suc seen)))"

definition claudePaneJudge :: "string list \<Rightarrow> bool \<times> bool" where
  "claudePaneJudge lines =
    (case claudeComposerIdx lines of
       (None, e) \<Rightarrow> (False, False)
     | (Some c, None) \<Rightarrow> (False, False)
     | (Some c, Some e) \<Rightarrow> judge_walk lines e 0)"

section \<open>Probes\<close>

record paneIdleProbe =
  pb_judge :: "(string list \<Rightarrow> bool \<times> bool) option"
  pb_promptMarkers :: "string list"
  pb_workingOnPrompt :: "string list"
  pb_workingInFooter :: "string list"
  pb_confirmations :: nat
  pb_correctsPrematureIdle :: bool

definition paneIdleProbes :: "string \<Rightarrow> paneIdleProbe option" where
  "paneIdleProbes provider =
    (if provider = ''cursor'' then
       Some \<lparr>pb_judge = None, pb_promptMarkers = [''Add a follow-up''], pb_workingOnPrompt = [''ctrl+c to stop''],
         pb_workingInFooter = [], pb_confirmations = 0, pb_correctsPrematureIdle = False\<rparr>
     else if provider = ''codex'' then
       Some \<lparr>pb_judge = None, pb_promptMarkers = [''Ask Codex to do anything''], pb_workingOnPrompt = [],
         pb_workingInFooter = [''esc to interrupt''], pb_confirmations = 0, pb_correctsPrematureIdle = True\<rparr>
     else if provider = ''claude'' then
       Some \<lparr>pb_judge = Some claudePaneJudge, pb_promptMarkers = [], pb_workingOnPrompt = [],
         pb_workingInFooter = [], pb_confirmations = 5, pb_correctsPrematureIdle = False\<rparr>
     else None)"

definition providerHasIdleProbe :: "string \<Rightarrow> bool" where
  "providerHasIdleProbe provider = (paneIdleProbes provider \<noteq> None)"

definition containsAny :: "string \<Rightarrow> string list \<Rightarrow> bool" where
  "containsAny s needles = list_ex (Contains s) needles"

text \<open>The lines that \<open>forEachPaneTailLine\<close> visits, lowest first.\<close>

definition tail_lines :: "string list \<Rightarrow> string list" where
  "tail_lines lines = take paneIdleTailLines (filter (\<lambda>l. TrimSpace l \<noteq> []) (rev lines))"

definition findPromptLine :: "string list \<Rightarrow> string list \<Rightarrow> string option" where
  "findPromptLine lines markers = find (\<lambda>l. containsAny l markers) (tail_lines lines)"

definition footerShowsWorking :: "string list \<Rightarrow> string list \<Rightarrow> string list \<Rightarrow> bool" where
  "footerShowsWorking lines promptMarkers workingMarkers =
    list_ex (\<lambda>l. \<not> containsAny l promptMarkers \<and> containsAny l workingMarkers) (tail_lines lines)"

definition paneShowsWorking :: "string \<Rightarrow> string list \<Rightarrow> bool \<times> bool" where
  "paneShowsWorking provider lines =
    (case paneIdleProbes provider of
       None \<Rightarrow> (False, False)
     | Some p \<Rightarrow>
         (case pb_judge p of
            Some judge \<Rightarrow> judge lines
          | None \<Rightarrow>
              (case findPromptLine lines (pb_promptMarkers p) of
                 None \<Rightarrow> (False, False)
               | Some prompt \<Rightarrow>
                   if containsAny prompt (pb_workingOnPrompt p) then (True, True)
                   else if footerShowsWorking lines (pb_promptMarkers p) (pb_workingInFooter p) then (True, True)
                   else (False, True))))"

definition paneShowsIdle :: "string \<Rightarrow> string list \<Rightarrow> bool \<times> bool" where
  "paneShowsIdle provider lines =
    (case paneShowsWorking provider lines of (working, known) \<Rightarrow> if \<not> known then (False, False) else (\<not> working, True))"

section \<open>The tracker\<close>

record paneIdleTracker =
  pt_provider :: string
  pt_idleStreak :: int
  pt_workingStreak :: int
  pt_epoch :: nat

definition newPaneIdleTracker :: "string \<Rightarrow> paneIdleTracker option" where
  "newPaneIdleTracker provider =
    (if \<not> providerHasIdleProbe provider then None
     else Some \<lparr>pt_provider = provider, pt_idleStreak = 0, pt_workingStreak = 0, pt_epoch = 0\<rparr>)"

definition pane_reset :: "paneIdleTracker \<Rightarrow> paneIdleTracker" where
  "pane_reset p = p\<lparr>pt_idleStreak := 0, pt_workingStreak := 0\<rparr>"

definition correctsPrematureIdle :: "paneIdleTracker \<Rightarrow> bool" where
  "correctsPrematureIdle p = (case paneIdleProbes (pt_provider p) of None \<Rightarrow> False | Some b \<Rightarrow> pb_correctsPrematureIdle b)"

definition forTurn :: "nat \<Rightarrow> paneIdleTracker \<Rightarrow> paneIdleTracker" where
  "forTurn epoch p = (if pt_epoch p = epoch then p else pane_reset (p\<lparr>pt_epoch := epoch\<rparr>))"

definition confirmationsNeeded :: "paneIdleTracker \<Rightarrow> int" where
  "confirmationsNeeded p =
    (case paneIdleProbes (pt_provider p) of
       Some b \<Rightarrow> if pb_confirmations b > 0 then int (pb_confirmations b) else 2
     | None \<Rightarrow> 2)"

definition pane_observe :: "string list \<Rightarrow> paneIdleTracker \<Rightarrow> bool \<times> paneIdleTracker" where
  "pane_observe lines p =
    (if paneShowsIdle (pt_provider p) lines \<noteq> (True, True) then (False, p\<lparr>pt_idleStreak := 0\<rparr>)
     else (pt_idleStreak p + 1 = confirmationsNeeded p, p\<lparr>pt_idleStreak := pt_idleStreak p + 1\<rparr>))"

definition observeWorking :: "string list \<Rightarrow> paneIdleTracker \<Rightarrow> bool \<times> paneIdleTracker" where
  "observeWorking lines p =
    (if paneShowsWorking (pt_provider p) lines \<noteq> (True, True) then (False, p\<lparr>pt_workingStreak := 0\<rparr>)
     else (pt_workingStreak p + 1 = confirmationsNeeded p, p\<lparr>pt_workingStreak := pt_workingStreak p + 1\<rparr>))"

datatype paneIdleAction = PaneNone | PaneMarkIdle | PaneMarkRunning

definition decidePaneIdlePoll :: "sess_status \<Rightarrow> string list \<Rightarrow> paneIdleTracker \<Rightarrow> paneIdleAction \<times> paneIdleTracker" where
  "decidePaneIdlePoll status lines p =
    (if SessIsTerminal status then (PaneNone, pane_reset p)
     else if status = StatusIdle then
       (case observeWorking lines p of (fire, p1) \<Rightarrow> if fire then (PaneMarkRunning, pane_reset p1) else (PaneNone, p1))
     else if status \<noteq> StatusRunning then (PaneNone, pane_reset p)
     else (case pane_observe lines p of (fire, p1) \<Rightarrow> (if fire then PaneMarkIdle else PaneNone, p1)))"

text \<open>One tick of a monitor loop: \<open>None\<close> for the lines is a capture that failed.\<close>

definition pollPaneIdle :: "sess_status \<Rightarrow> nat \<Rightarrow> string list option \<Rightarrow> paneIdleTracker \<Rightarrow> paneIdleAction \<times> paneIdleTracker" where
  "pollPaneIdle status turnEpoch capture p =
    (if status \<noteq> StatusRunning \<and> \<not> (status = StatusIdle \<and> correctsPrematureIdle p) then (PaneNone, pane_reset p)
     else case capture of
         None \<Rightarrow> (PaneNone, forTurn turnEpoch p)
       | Some lines \<Rightarrow> decidePaneIdlePoll status lines (forTurn turnEpoch p))"

section \<open>Drafts\<close>

definition composerBody :: "string \<Rightarrow> string \<times> bool" where
  "composerBody line =
    (let trimmed = TrimSpace line in
     if \<not> HasPrefix trimmed claudePromptGlyph then (TrimSpace trimmed, False)
     else (TrimSpace (TrimPrefix' trimmed claudePromptGlyph), True))"

definition composerReadable :: "string \<Rightarrow> bool" where
  "composerReadable provider = (provider = ''claude'')"

definition judgeComposerLine :: "string \<Rightarrow> bool \<times> bool" where
  "judgeComposerLine line =
    (case composerBody line of (body, hasGlyph) \<Rightarrow>
       if \<not> hasGlyph then (False, False) else if body = [] then (False, True) else (True, True))"

definition lineAboveStatusRule :: "string list \<Rightarrow> string option" where
  "lineAboveStatusRule lines =
    (case statusSepIdx lines of None \<Rightarrow> None | Some sep \<Rightarrow> map_option (\<lambda>i. lines ! i) (line_above lines sep))"

text \<open>Draft and known.\<close>

definition composerDraft :: "string \<Rightarrow> string list \<Rightarrow> bool \<times> bool" where
  "composerDraft provider lines =
    (if provider \<noteq> ''claude'' then (False, False)
     else case fst (claudeComposerIdx lines) of
         Some c \<Rightarrow> (if snd (judgeComposerLine (TrimSpace (lines ! c))) then judgeComposerLine (TrimSpace (lines ! c)) else (True, True))
       | None \<Rightarrow>
           if statusSepIdx lines \<noteq> None then
             (case lineAboveStatusRule lines of
                Some line \<Rightarrow> if snd (judgeComposerLine line) then judgeComposerLine line else (True, True)
              | None \<Rightarrow> (True, True))
           else
             (case find (\<lambda>l. HasPrefix (TrimSpace l) claudePromptGlyph) (tail_lines lines) of
                None \<Rightarrow> (False, False) | Some line \<Rightarrow> judgeComposerLine line))"

end
