(* ===== verification/BrambleParser.thy ===== *)
theory BrambleParser
  imports BrambleOutput BramblePane ClaudeSession
begin

text \<open>
  The model of a session that the views of \<open>bramble\<close> read (\<open>bramble/sessionmodel\<close>): the model and its
  mutations (\<open>model.go\<close>), the parser that turns messages of the wire into mutations (\<open>parser.go\<close>), the
  envelopes of recorded lines (\<open>envelope.go\<close>), the loader of a recorded log (\<open>loader.go\<close>) and the
  adapter for the events of a live session (\<open>event_adapter.go\<close>). One clock reading stands for the
  calls of \<open>time.Now\<close> in one handler. The text a block was read from, the time of a timestamp, the
  rendering of seconds and of an error and the float sum of costs are the record \<open>log_env\<close>.
\<close>

section \<open>The model\<close>

record SessionMeta =
  mm_SessionID :: string
  mm_Model :: string
  mm_CWD :: string
  mm_ClaudeCodeVersion :: string
  mm_PermissionMode :: string
  mm_GitBranch :: string
  mm_Tools :: "string list"
  mm_Agents :: "string list"
  mm_Skills :: "string list"
  mm_Status :: "sess_status option"

definition zero_meta :: SessionMeta where
  "zero_meta = \<lparr>mm_SessionID = [], mm_Model = [], mm_CWD = [], mm_ClaudeCodeVersion = [], mm_PermissionMode = [],
     mm_GitBranch = [], mm_Tools = [], mm_Agents = [], mm_Skills = [], mm_Status = None\<rparr>"

record ProgressSnapshot =
  ps_LastActivity :: "time option"
  ps_CurrentPhase :: string
  ps_CurrentTool :: string
  ps_StatusLine :: string
  ps_RecentOutput :: "string list"
  ps_TurnCount :: int
  ps_TotalCostUSD :: rat
  ps_InputTokens :: int
  ps_OutputTokens :: int

definition zero_progress :: ProgressSnapshot where
  "zero_progress = \<lparr>ps_LastActivity = None, ps_CurrentPhase = [], ps_CurrentTool = [], ps_StatusLine = [], ps_RecentOutput = [],
     ps_TurnCount = 0, ps_TotalCostUSD = 0, ps_InputTokens = 0, ps_OutputTokens = 0\<rparr>"

text \<open>What the observers are told, in order.\<close>

datatype ModelEvent = OutputAppended | StatusChanged "sess_status option" sess_status | ProgressUpdated | MetaUpdated

record SessionModel =
  md_meta :: SessionMeta
  md_output :: OutputBuffer
  md_progress :: ProgressSnapshot
  md_events :: "ModelEvent list"

definition NewSessionModel :: "int \<Rightarrow> SessionModel" where
  "NewSessionModel n =
    \<lparr>md_meta = zero_meta, md_output = NewOutputBuffer (if n = 0 then 1000 else if n < 0 then 2 ^ 63 - 1 else n),
     md_progress = zero_progress, md_events = []\<rparr>"

definition md_notify :: "ModelEvent \<Rightarrow> SessionModel \<Rightarrow> SessionModel" where
  "md_notify e m = m\<lparr>md_events := md_events m @ [e]\<rparr>"

definition SetMeta :: "SessionMeta \<Rightarrow> SessionModel \<Rightarrow> SessionModel" where
  "SetMeta meta m = md_notify MetaUpdated (m\<lparr>md_meta := meta\<rparr>)"

definition PatchSessionID :: "string \<Rightarrow> SessionModel \<Rightarrow> SessionModel" where
  "PatchSessionID i m =
    (if i = [] \<or> mm_SessionID (md_meta m) \<noteq> [] then m
     else md_notify MetaUpdated (m\<lparr>md_meta := (md_meta m)\<lparr>mm_SessionID := i\<rparr>\<rparr>))"

text \<open>The first component is the error of a model that is already terminal.\<close>

definition md_terminal :: "SessionModel \<Rightarrow> bool" where
  "md_terminal m = (case mm_Status (md_meta m) of None \<Rightarrow> False | Some s \<Rightarrow> SessIsTerminal s)"

definition UpdateModelStatus :: "sess_status \<Rightarrow> SessionModel \<Rightarrow> bool \<times> SessionModel" where
  "UpdateModelStatus status m =
    (if md_terminal m then (True, m)
     else (False, md_notify (StatusChanged (mm_Status (md_meta m)) status)
       (m\<lparr>md_meta := (md_meta m)\<lparr>mm_Status := Some status\<rparr>\<rparr>)))"

definition AppendOutput :: "OutputLine \<Rightarrow> SessionModel \<Rightarrow> SessionModel" where
  "AppendOutput line m = md_notify OutputAppended (m\<lparr>md_output := appendLocked line (md_output m)\<rparr>)"

definition AppendStreamingText :: "time \<Rightarrow> string \<Rightarrow> SessionModel \<Rightarrow> SessionModel" where
  "AppendStreamingText now d m = md_notify OutputAppended (m\<lparr>md_output := buf_streaming_text now d (md_output m)\<rparr>)"

definition AppendStreamingThinking :: "time \<Rightarrow> string \<Rightarrow> SessionModel \<Rightarrow> SessionModel" where
  "AppendStreamingThinking now d m = md_notify OutputAppended (m\<lparr>md_output := buf_streaming_thinking now d (md_output m)\<rparr>)"

definition UpdateTool :: "string \<Rightarrow> (OutputLine \<Rightarrow> OutputLine) \<Rightarrow> SessionModel \<Rightarrow> SessionModel" where
  "UpdateTool i f m =
    (case UpdateToolByID i f (md_output m) of
       (False, b) \<Rightarrow> m | (True, b) \<Rightarrow> md_notify OutputAppended (m\<lparr>md_output := b\<rparr>))"

definition UpdateProgress :: "(ProgressSnapshot \<Rightarrow> ProgressSnapshot) \<Rightarrow> SessionModel \<Rightarrow> SessionModel" where
  "UpdateProgress f m = md_notify ProgressUpdated (m\<lparr>md_progress := f (md_progress m)\<rparr>)"

definition RecentOutputLines :: "int \<Rightarrow> SessionModel \<Rightarrow> string list" where
  "RecentOutputLines n m = RecentAssistantTextFromSlice (ob_lines (md_output m)) n"

section \<open>The parser\<close>

record log_env =
  le_wire :: wire
  le_raw :: "json \<Rightarrow> string"
  le_time :: "string \<Rightarrow> time"
  le_secs :: "int \<Rightarrow> string"
  le_error :: "session_error \<Rightarrow> string"
  le_cost :: "rat list \<Rightarrow> rat"

record block_state =
  bk_type :: string
  bk_toolID :: string
  bk_toolName :: string
  bk_partial :: string

record MessageParser =
  mp_model :: SessionModel
  mp_blocks :: "(int, block_state) gomap"

definition NewMessageParser :: "SessionModel \<Rightarrow> MessageParser" where
  "NewMessageParser m = \<lparr>mp_model = m, mp_blocks = []\<rparr>"

definition on_model :: "(SessionModel \<Rightarrow> SessionModel) \<Rightarrow> MessageParser \<Rightarrow> MessageParser" where
  "on_model f p = p\<lparr>mp_model := f (mp_model p)\<rparr>"

definition DisplayString :: "log_env \<Rightarrow> string \<Rightarrow> json \<Rightarrow> string" where
  "DisplayString env t v = ''[unknown content block: '' @ t @ ''] '' @ le_raw env v"

text \<open>The names of agents and skills, which the strict payload of \<open>init\<close> also has.\<close>

definition init_names :: "json \<Rightarrow> string list \<times> string list" where
  "init_names v = fst (dec_struct [(''agents'', dec_strings apfst), (''skills'', dec_strings apsnd)] v ([], []))"

definition lenient_names :: "json \<Rightarrow> string list \<times> string list" where
  "lenient_names v =
    (let fm = (case v of JObj kvs \<Rightarrow> to_map kvs | _ \<Rightarrow> [])
     in (decodeInitField fm ''agents'' (dec_strings (\<lambda>f. f)) [], decodeInitField fm ''skills'' (dec_strings (\<lambda>f. f)) []))"

definition init_meta :: "SystemInitPayload \<Rightarrow> string list \<times> string list \<Rightarrow> SessionMeta" where
  "init_meta ip names =
    \<lparr>mm_SessionID = ip_SessionID ip, mm_Model = ip_Model ip, mm_CWD = ip_CWD ip, mm_ClaudeCodeVersion = ip_ClaudeCodeVersion ip,
     mm_PermissionMode = ip_PermissionMode ip, mm_GitBranch = [], mm_Tools = ip_Tools ip, mm_Agents = fst names,
     mm_Skills = snd names, mm_Status = Some StatusRunning\<rparr>"

definition parse_system :: "log_env \<Rightarrow> SystemMessage \<Rightarrow> MessageParser \<Rightarrow> MessageParser" where
  "parse_system env msg p =
    (if sm_Subtype msg \<noteq> ''init'' then p
     else case AsInit (le_wire env) msg of
         Some ip \<Rightarrow> on_model (SetMeta (init_meta ip (init_names (sm_raw msg)))) p
       | None \<Rightarrow>
           (let loose = InitPayloadLenient msg in
            if ip_SessionID loose = [] \<or> ip_Model loose = [] \<or> ip_CWD loose = [] then p
            else on_model (SetMeta (init_meta loose (lenient_names (sm_raw msg)))) p))"

definition log_assistant_block :: "log_env \<Rightarrow> time \<Rightarrow> content_block \<Rightarrow> SessionModel \<Rightarrow> SessionModel" where
  "log_assistant_block env now b m =
    (case b of
       TextBlk t \<Rightarrow> if t = [] then m else AppendOutput (out_line now OutText t) m
     | ThinkingBlk t sig \<Rightarrow> if t = [] then m else AppendOutput (out_line now OutThinking t) m
     | ToolUseBlk t \<Rightarrow>
         AppendOutput (tool_line now (FormatToolContent (tu_Name t) (tu_Input t)) (tu_Name t) (tu_ID t) (tu_Input t)) m
     | ToolResultBlk t \<Rightarrow> m
     | UnknownBlk t v \<Rightarrow> AppendOutput (out_line now OutText (DisplayString env t v)) m)"

definition parse_assistant :: "log_env \<Rightarrow> time \<Rightarrow> AssistantMessage \<Rightarrow> MessageParser \<Rightarrow> MessageParser" where
  "parse_assistant env now msg p =
    (case AsBlocks (le_wire env) (mc_Content (am_Message msg)) of
       None \<Rightarrow>
         (case AsString (mc_Content (am_Message msg)) of
            Some s \<Rightarrow> if s = [] then p else on_model (AppendOutput (out_line now OutText s)) p
          | None \<Rightarrow> p)
     | Some bs \<Rightarrow> on_model (fold (log_assistant_block env now) bs) p)"

definition finish_tool :: "time \<Rightarrow> json option \<Rightarrow> bool \<Rightarrow> OutputLine \<Rightarrow> OutputLine" where
  "finish_tool now res failed l =
    l\<lparr>ol_ToolResult := res, ol_IsError := failed, ol_ToolState := (if failed then ToolError else ToolComplete),
      ol_DurationMs := (case ol_StartTime l of None \<Rightarrow> ol_DurationMs l | Some t \<Rightarrow> Milliseconds (now - t))\<rparr>"

text \<open>The progress after a tool has ended, and after it has started.\<close>

definition progress_idle :: "time \<Rightarrow> SessionModel \<Rightarrow> SessionModel" where
  "progress_idle now m =
    (let recent = RecentOutputLines RecentOutputDisplayLines m in
     UpdateProgress (\<lambda>p. p\<lparr>ps_CurrentTool := [], ps_CurrentPhase := [], ps_LastActivity := Some now, ps_RecentOutput := recent\<rparr>) m)"

definition progress_tool :: "time \<Rightarrow> string \<Rightarrow> SessionModel \<Rightarrow> SessionModel" where
  "progress_tool now name m =
    (let recent = RecentOutputLines RecentOutputDisplayLines m in
     UpdateProgress (\<lambda>p. p\<lparr>ps_CurrentTool := name, ps_CurrentPhase := ''tool_execution'', ps_LastActivity := Some now,
       ps_RecentOutput := recent\<rparr>) m)"

definition log_user_block :: "log_env \<Rightarrow> time \<Rightarrow> content_block \<Rightarrow> SessionModel \<Rightarrow> SessionModel" where
  "log_user_block env now b m =
    (case b of
       ToolResultBlk t \<Rightarrow>
         progress_idle now (UpdateTool (tb_ToolUseID t) (finish_tool now (tb_Content t) (tb_IsError t = Some True)) m)
     | UnknownBlk t v \<Rightarrow> AppendOutput (out_line now OutText (DisplayString env t v)) m
     | _ \<Rightarrow> m)"

definition parse_user :: "log_env \<Rightarrow> time \<Rightarrow> UserMessage \<Rightarrow> MessageParser \<Rightarrow> MessageParser" where
  "parse_user env now msg p =
    (case AsString (mc_Content (um_Message msg)) of
       Some s \<Rightarrow> if s = [] then p else on_model (AppendOutput ((out_line now OutText s)\<lparr>ol_IsUserPrompt := True\<rparr>)) p
     | None \<Rightarrow>
         (case AsBlocks (le_wire env) (mc_Content (um_Message msg)) of
            None \<Rightarrow> p
          | Some bs \<Rightarrow> on_model (fold (log_user_block env now) bs) p))"

definition turn_end_line :: "time \<Rightarrow> int \<Rightarrow> rat \<Rightarrow> int \<Rightarrow> bool \<Rightarrow> OutputLine" where
  "turn_end_line now n cost ms failed =
    (out_line now OutTurnEnd (''Turn '' @ Itoa n @ '' complete''))\<lparr>ol_TurnNumber := n, ol_CostUSD := cost, ol_DurationMs := ms,
      ol_IsError := failed\<rparr>"

definition parse_result :: "time \<Rightarrow> ResultMsg \<Rightarrow> MessageParser \<Rightarrow> MessageParser" where
  "parse_result now msg p =
    (let m = mp_model p; recent = RecentOutputLines RecentOutputDisplayLines m;
         m1 = UpdateProgress (\<lambda>q. q\<lparr>ps_TurnCount := rs_NumTurns msg, ps_TotalCostUSD := rs_TotalCostUSD msg,
             ps_InputTokens := wu_InputTokens (rs_Usage msg), ps_OutputTokens := wu_OutputTokens (rs_Usage msg),
             ps_LastActivity := Some now, ps_RecentOutput := recent\<rparr>) m;
         m2 = AppendOutput (turn_end_line now (rs_NumTurns msg) (rs_TotalCostUSD msg) (rs_DurationMs msg) (IsFailure msg)) m1
     in p\<lparr>mp_model := snd (UpdateModelStatus (if IsFailure msg then StatusFailed else StatusCompleted) m2)\<rparr>)"

definition log_block_base :: "json option \<Rightarrow> (string \<times> string \<times> string) option" where
  "log_block_base raw = Option.bind raw (unmarshal (dec_struct
     [(''type'', dec_string apfst), (''id'', dec_string (apsnd \<circ> apfst)), (''name'', dec_string (apsnd \<circ> apsnd))]) ([], [], []))"

definition parse_block_start :: "time \<Rightarrow> json option \<Rightarrow> int \<Rightarrow> MessageParser \<Rightarrow> MessageParser" where
  "parse_block_start now raw idx p =
    (case log_block_base raw of
       None \<Rightarrow> p
     | Some (ty, i, name) \<Rightarrow>
         (let tool = (ty = ''tool_use'');
              st = \<lparr>bk_type = ty, bk_toolID = (if tool then i else []), bk_toolName = (if tool then name else []), bk_partial = []\<rparr>;
              p1 = (if tool then on_model (progress_tool now name \<circ> AppendOutput (tool_line now name name i None)) p else p)
          in p1\<lparr>mp_blocks := mput idx st (mp_blocks p1)\<rparr>))"

definition log_delta_field :: "string \<Rightarrow> json \<Rightarrow> string option" where
  "log_delta_field k = unmarshal (dec_struct [(''type'', skip_string), (k, dec_string (\<lambda>f. f))]) []"

definition parse_block_delta :: "time \<Rightarrow> json option \<Rightarrow> int \<Rightarrow> MessageParser \<Rightarrow> MessageParser" where
  "parse_block_delta now raw idx p =
    (case (map_of (mp_blocks p) idx, raw) of
       (Some st, Some d) \<Rightarrow>
         (case discriminator ''type'' d of
            None \<Rightarrow> p
          | Some t \<Rightarrow>
              if t = ''text_delta'' then
                (case log_delta_field ''text'' d of None \<Rightarrow> p | Some x \<Rightarrow> on_model (AppendStreamingText now x) p)
              else if t = ''thinking_delta'' then
                (case log_delta_field ''thinking'' d of None \<Rightarrow> p | Some x \<Rightarrow> on_model (AppendStreamingThinking now x) p)
              else if t = ''input_json_delta'' then
                (case log_delta_field ''partial_json'' d of
                   None \<Rightarrow> p
                 | Some x \<Rightarrow> p\<lparr>mp_blocks := mput idx (st\<lparr>bk_partial := bk_partial st @ x\<rparr>) (mp_blocks p)\<rparr>)
              else p)
     | _ \<Rightarrow> p)"

text \<open>The input a tool block has collected; what does not decode is the empty object.\<close>

definition log_block_input :: "wire \<Rightarrow> string \<Rightarrow> jmap option" where
  "log_block_input w partial =
    (if partial = [] then Some []
     else case w_parse w partial of
         None \<Rightarrow> Some []
       | Some v \<Rightarrow> (case unmarshal (dec_map w (\<lambda>f. f)) None v of None \<Rightarrow> Some [] | Some inp \<Rightarrow> inp))"

definition parse_block_stop :: "log_env \<Rightarrow> int \<Rightarrow> MessageParser \<Rightarrow> MessageParser" where
  "parse_block_stop env idx p =
    (case map_of (mp_blocks p) idx of
       None \<Rightarrow> p
     | Some st \<Rightarrow>
         (let p1 = (if bk_type st = ''tool_use'' then
               (let inp = log_block_input (le_wire env) (bk_partial st) in
                on_model (UpdateTool (bk_toolID st) (\<lambda>l. l\<lparr>ol_ToolInput := inp, ol_Content := FormatToolContent (bk_toolName st) inp\<rparr>)) p)
             else p)
          in p1\<lparr>mp_blocks := mdel idx (mp_blocks p1)\<rparr>))"

definition parse_stream_event :: "log_env \<Rightarrow> time \<Rightarrow> json option \<Rightarrow> MessageParser \<Rightarrow> MessageParser" where
  "parse_stream_event env now raw p =
    (case Option.bind raw ParseStreamEvent of
       None \<Rightarrow> p
     | Some None \<Rightarrow> p
     | Some (Some e) \<Rightarrow>
         (case e of
            MessageStart \<Rightarrow> p\<lparr>mp_blocks := []\<rparr>
          | ContentBlockStart b i \<Rightarrow> parse_block_start now b i p
          | ContentBlockDelta d i \<Rightarrow> parse_block_delta now d i p
          | ContentBlockStop i \<Rightarrow> parse_block_stop env i p
          | MessageDeltaEv \<Rightarrow> p
          | MessageStop \<Rightarrow> p\<lparr>mp_blocks := []\<rparr>))"

definition HandleMessage :: "log_env \<Rightarrow> time \<times> message \<Rightarrow> MessageParser \<Rightarrow> MessageParser" where
  "HandleMessage env nm p =
    (case snd nm of
       MsgSystem m \<Rightarrow> parse_system env m p
     | MsgAssistant m \<Rightarrow> parse_assistant env (fst nm) m p
     | MsgUser m \<Rightarrow> parse_user env (fst nm) m p
     | MsgResult m \<Rightarrow> parse_result (fst nm) m p
     | MsgStreamEvent e \<Rightarrow> parse_stream_event env (fst nm) e p
     | _ \<Rightarrow> p)"

end
