(* ===== verification/BrambleLog.thy ===== *)
theory BrambleLog
  imports BrambleParser
begin

text \<open>
  Recorded logs and live events as mutations of the session model: the envelopes
  (\<open>bramble/sessionmodel/envelope.go\<close>), the loader (\<open>loader.go\<close>) and the adapter (\<open>event_adapter.go\<close>).
  A log is the list of its lines, as \<open>bufio.Scanner\<close> gives them, with whether it failed. A line whose
  message is \<open>null\<close> makes the Go code assign into a nil map; that panic is a value of the model.
\<close>

section \<open>Envelopes\<close>

record rawJSONLEnvelope =
  rw_Timestamp :: string
  rw_Type :: string
  rw_Subtype :: string
  rw_SessionID :: string
  rw_Content :: string
  rw_Operation :: string
  rw_PRURL :: string
  rw_PRRepository :: string
  rw_PRNumber :: int
  rw_DurationMs :: int
  rw_Message :: "json option"
  rw_Data :: "json option"
  rw_Error :: "json option"

text \<open>The fields of the envelope that nothing here reads are decoded for their types only.\<close>

definition dec_envelope :: "rawJSONLEnvelope decoder" where
  "dec_envelope = dec_struct
     [(''timestamp'', dec_string rw_Timestamp_update), (''type'', dec_string rw_Type_update),
      (''subtype'', dec_string rw_Subtype_update), (''parentUuid'', skip_string), (''uuid'', skip_string),
      (''gitBranch'', skip_string), (''version'', skip_string), (''sessionId'', dec_string rw_SessionID_update),
      (''content'', dec_string rw_Content_update), (''operation'', dec_string rw_Operation_update),
      (''prNumber'', dec_int rw_PRNumber_update), (''prUrl'', dec_string rw_PRURL_update),
      (''prRepository'', dec_string rw_PRRepository_update), (''isMeta'', dec_bool (\<lambda>f. id)),
      (''isSidechain'', dec_bool (\<lambda>f. id)), (''agentName'', skip_string), (''sourceToolUseId'', skip_string),
      (''durationMs'', dec_int rw_DurationMs_update), (''message'', dec_raw rw_Message_update),
      (''data'', dec_raw rw_Data_update), (''toolUseResult'', dec_raw (\<lambda>f. id)), (''error'', dec_raw rw_Error_update)]"

definition zero_envelope :: rawJSONLEnvelope where
  "zero_envelope = \<lparr>rw_Timestamp = [], rw_Type = [], rw_Subtype = [], rw_SessionID = [], rw_Content = [], rw_Operation = [],
     rw_PRURL = [], rw_PRRepository = [], rw_PRNumber = 0, rw_DurationMs = 0, rw_Message = None, rw_Data = None, rw_Error = None\<rparr>"

record RawEnvelopeMeta =
  rm_Timestamp :: time
  rm_Data :: "json option"
  rm_ErrorJSON :: "json option"
  rm_SessionID :: string
  rm_Type :: string
  rm_Subtype :: string
  rm_Content :: string
  rm_Operation :: string
  rm_PRURL :: string
  rm_PRRepository :: string
  rm_PRNumber :: int
  rm_DurationMs :: int

datatype raw_line = RawError | RawPanic | RawMeta RawEnvelopeMeta | RawMsg message RawEnvelopeMeta

text \<open>The message wrapped as the protocol expects it: none is an error, and the inner \<open>null\<close> panics.\<close>

datatype wrapped = WrapError | WrapPanic | Wrapped json

definition wrapForProtocol :: "json \<Rightarrow> string \<Rightarrow> wrapped" where
  "wrapForProtocol inner ty =
    (if ty = ''assistant'' \<or> ty = ''user'' then Wrapped (JObj [(''message'', inner), (''type'', JStr ty)])
     else case inner of
         JObj kvs \<Rightarrow> Wrapped (JObj (SliceStable (\<lambda>a b. fst a < fst b) (mput ''type'' (JStr ty) (to_map kvs))))
       | JNull \<Rightarrow> WrapPanic
       | _ \<Rightarrow> WrapError)"

definition envelope_meta :: "log_env \<Rightarrow> rawJSONLEnvelope \<Rightarrow> RawEnvelopeMeta" where
  "envelope_meta env e =
    \<lparr>rm_Timestamp = le_time env (rw_Timestamp e), rm_Data = None, rm_ErrorJSON = None, rm_SessionID = rw_SessionID e,
     rm_Type = rw_Type e, rm_Subtype = rw_Subtype e, rm_Content = [], rm_Operation = [], rm_PRURL = [], rm_PRRepository = [],
     rm_PRNumber = 0, rm_DurationMs = 0\<rparr>"

definition FromRawJSONL :: "log_env \<Rightarrow> string \<Rightarrow> raw_line" where
  "FromRawJSONL env line =
    (case w_parse (le_wire env) line of
       None \<Rightarrow> RawError
     | Some v \<Rightarrow>
    (case unmarshal dec_envelope zero_envelope v of
       None \<Rightarrow> RawError
     | Some e \<Rightarrow>
       (let meta = envelope_meta env e in
        if rw_Type e = ''file-history-snapshot'' then RawMeta meta
        else if rw_Type e = ''queue-operation'' then RawMeta (meta\<lparr>rm_Operation := rw_Operation e, rm_Content := rw_Content e\<rparr>)
        else if rw_Type e = ''pr-link'' then
          RawMeta (meta\<lparr>rm_PRNumber := rw_PRNumber e, rm_PRURL := rw_PRURL e, rm_PRRepository := rw_PRRepository e\<rparr>)
        else if rw_Type e = ''progress'' then RawMeta (meta\<lparr>rm_Data := rw_Data e\<rparr>)
        else if rw_Type e = ''system'' \<and> rw_Subtype e \<noteq> [] \<and> rw_Subtype e \<noteq> ''init'' then
          RawMeta (meta\<lparr>rm_Content := rw_Content e, rm_DurationMs := rw_DurationMs e, rm_ErrorJSON := rw_Error e\<rparr>)
        else case rw_Message e of
            None \<Rightarrow> (case ParseMessage_json (le_wire env) v of None \<Rightarrow> RawMeta meta | Some m \<Rightarrow> RawMsg m meta)
          | Some inner \<Rightarrow>
              (case wrapForProtocol inner (rw_Type e) of
                 WrapError \<Rightarrow> RawError
               | WrapPanic \<Rightarrow> RawPanic
               | Wrapped c \<Rightarrow> (case ParseMessage_json (le_wire env) c of None \<Rightarrow> RawError | Some m \<Rightarrow> RawMsg m meta)))))"

text \<open>The SDK recorder: nothing for an absent message, or the message if it parses, with the direction.\<close>

definition FromSDKRecorder :: "log_env \<Rightarrow> string \<Rightarrow> (message option option \<times> time \<times> string) option" where
  "FromSDKRecorder env line =
    (case Option.bind (w_parse (le_wire env) line) (unmarshal (dec_struct
         [(''timestamp'', dec_string apfst), (''direction'', dec_string (apsnd \<circ> apfst)), (''message'', dec_raw (apsnd \<circ> apsnd))])
         ([], [], None)) of
       None \<Rightarrow> None
     | Some (ts, dir, inner) \<Rightarrow>
         (case inner of
            None \<Rightarrow> Some (Some None, le_time env ts, dir)
          | Some v \<Rightarrow> Some (map_option Some (ParseMessage_json (le_wire env) v), le_time env ts, dir)))"

section \<open>The loader\<close>

definition error_cause :: "json option \<Rightarrow> string \<times> string" where
  "error_cause raw =
    (case Option.bind raw (unmarshal (dec_struct
        [(''cause'', dec_struct [(''code'', dec_string apfst), (''path'', dec_string apsnd)])]) ([], [])) of
       None \<Rightarrow> ([], []) | Some c \<Rightarrow> c)"

definition light_rule :: string where
  "light_rule = [CHR 0xE2, CHR 0x94, CHR 0x80]"

definition handleSystemMeta :: "log_env \<Rightarrow> RawEnvelopeMeta \<Rightarrow> SessionModel \<Rightarrow> SessionModel" where
  "handleSystemMeta env meta m =
    (if rm_Subtype meta = ''api_error'' then
       (let c = error_cause (rm_ErrorJSON meta);
            text = (if fst c \<noteq> [] then ''API error: '' @ fst c @ '' ('' @ snd c @ '')'' else ''API error'')
        in AppendOutput ((out_line (rm_Timestamp meta) OutError text)\<lparr>ol_IsError := True\<rparr>) m)
     else if rm_Subtype meta = ''turn_duration'' then
       (if rm_DurationMs meta > 0 then
          AppendOutput ((out_line (rm_Timestamp meta) OutStatus (''Turn duration: '' @ le_secs env (rm_DurationMs meta) @ ''s''))
            \<lparr>ol_DurationMs := rm_DurationMs meta\<rparr>) m
        else m)
     else if rm_Subtype meta = ''compact_boundary'' then
       AppendOutput (out_line (rm_Timestamp meta) OutStatus
         (light_rule @ light_rule @ '' Context compacted '' @ light_rule @ light_rule)) m
     else if rm_Subtype meta = ''local_command'' \<and> rm_Content meta \<noteq> [] then
       AppendOutput (out_line (rm_Timestamp meta) OutStatus (''/ '' @ rm_Content meta)) m
     else m)"

record progressData =
  pd_Type :: string
  pd_Status :: string
  pd_ServerName :: string
  pd_ToolName :: string
  pd_Description :: string

definition dec_progress :: "progressData decoder" where
  "dec_progress = dec_struct
     [(''type'', dec_string pd_Type_update), (''output'', skip_string), (''status'', dec_string pd_Status_update),
      (''serverName'', dec_string pd_ServerName_update), (''toolName'', dec_string pd_ToolName_update),
      (''message'', skip_string), (''taskDescription'', dec_string pd_Description_update), (''taskType'', skip_string)]"

definition handleProgressMeta :: "RawEnvelopeMeta \<Rightarrow> SessionModel \<Rightarrow> SessionModel" where
  "handleProgressMeta meta m =
    (case Option.bind (rm_Data meta) (unmarshal dec_progress
         \<lparr>pd_Type = [], pd_Status = [], pd_ServerName = [], pd_ToolName = [], pd_Description = []\<rparr>) of
       None \<Rightarrow> m
     | Some d \<Rightarrow>
         (if pd_Type d = ''mcp_progress'' \<and> (pd_Status d = ''completed'' \<or> pd_Status d = ''failed'') then
            AppendOutput (out_line (rm_Timestamp meta) OutStatus
              (''MCP '' @ pd_ServerName d @ ''/'' @ pd_ToolName d @ '': '' @ pd_Status d)) m
          else if pd_Type d = ''waiting_for_task'' \<and> pd_Description d \<noteq> [] then
            AppendOutput (out_line (rm_Timestamp meta) OutStatus (''Waiting: '' @ pd_Description d)) m
          else m))"

definition handleEnvelopeMeta :: "log_env \<Rightarrow> RawEnvelopeMeta \<Rightarrow> SessionModel \<Rightarrow> SessionModel" where
  "handleEnvelopeMeta env meta m =
    (if rm_Type meta = ''system'' then handleSystemMeta env meta m
     else if rm_Type meta = ''progress'' then handleProgressMeta meta m
     else if rm_Type meta = ''pr-link'' \<and> rm_PRURL meta \<noteq> [] then
       AppendOutput (out_line (rm_Timestamp meta) OutStatus (''PR #'' @ Itoa (rm_PRNumber meta) @ '': '' @ rm_PRURL meta)) m
     else m)"

text \<open>The state of the loop: the parser and the first session identifier of an envelope.\<close>

definition first_id :: "RawEnvelopeMeta \<Rightarrow> string \<Rightarrow> string" where
  "first_id meta i = (if rm_SessionID meta \<noteq> [] \<and> i = [] then rm_SessionID meta else i)"

fun load_lines :: "log_env \<Rightarrow> (time \<times> string) list \<Rightarrow> MessageParser \<Rightarrow> string \<Rightarrow> (MessageParser \<times> string) option" where
  "load_lines env [] p i = Some (p, i)"
| "load_lines env ((now, line) # ls) p i =
    (if line = [] then load_lines env ls p i
     else case FromRawJSONL env line of
         RawPanic \<Rightarrow> None
       | RawError \<Rightarrow> load_lines env ls p i
       | RawMsg m meta \<Rightarrow> load_lines env ls (HandleMessage env (now, m) p) (first_id meta i)
       | RawMeta meta \<Rightarrow> load_lines env ls (on_model (handleEnvelopeMeta env meta) p) (first_id meta i))"

datatype load_result = LoadPanic | LoadError string | Loaded SessionModel

text \<open>The file is none when it cannot be opened; the flag says that the scanner failed after these lines.\<close>

definition LoadFromRawJSONL :: "log_env \<Rightarrow> ((time \<times> string) list \<times> bool) option \<Rightarrow> load_result" where
  "LoadFromRawJSONL env content =
    (case content of
       None \<Rightarrow> LoadError ''open''
     | Some (ls, failed) \<Rightarrow>
         (case load_lines env ls (NewMessageParser (NewSessionModel (-1))) [] of
            None \<Rightarrow> LoadPanic
          | Some (p, i) \<Rightarrow>
              if failed then LoadError ''scan raw JSONL'' else Loaded (PatchSessionID i (mp_model p))))"

section \<open>Events of a live session\<close>

text \<open>\<open>stamp\<close> is the time of the event and \<open>now\<close> that of the call.\<close>

definition FromClaudeEvent :: "log_env \<Rightarrow> time \<Rightarrow> time \<Rightarrow> session_event \<Rightarrow> SessionModel \<Rightarrow> SessionModel" where
  "FromClaudeEvent env stamp now e m =
    (case e of
       ReadyEvt i \<Rightarrow> SetMeta (zero_meta\<lparr>mm_SessionID := si_SessionID i, mm_Model := si_Model i, mm_CWD := si_WorkDir i,
           mm_PermissionMode := si_PermissionMode i, mm_Tools := si_Tools i, mm_Status := Some StatusRunning\<rparr>) m
     | TextEvt n t full \<Rightarrow> AppendStreamingText now t m
     | ThinkingEvt n t full \<Rightarrow> AppendStreamingThinking now t m
     | ToolStartEvt n i name \<Rightarrow> progress_tool now name (AppendOutput (tool_line stamp name name i None) m)
     | ToolCompleteEvt n i name inp \<Rightarrow>
         UpdateTool i (\<lambda>l. if inp = None then l else l\<lparr>ol_ToolInput := inp, ol_Content := FormatToolContent name inp\<rparr>) m
     | CLIToolResultEvt n i name res failed \<Rightarrow> progress_idle now (UpdateTool i (finish_tool now res failed) m)
     | CompleteEvt c \<Rightarrow>
         (let recent = RecentOutputLines RecentOutputDisplayLines m in
          AppendOutput (turn_end_line now (ce_TurnNumber c) (le_cost env (us_CostUSD (ce_Usage c))) (ce_DurationMs c) (\<not> ce_Success c))
           (UpdateProgress (\<lambda>p. p\<lparr>ps_TurnCount := ce_TurnNumber c, ps_TotalCostUSD := le_cost env (us_CostUSD (ce_Usage c)),
             ps_InputTokens := us_InputTokens (ce_Usage c), ps_OutputTokens := us_OutputTokens (ce_Usage c),
             ps_LastActivity := Some now, ps_RecentOutput := recent\<rparr>) m))
     | ErrorEvt n er ctx \<Rightarrow> AppendOutput ((out_line now OutError (ctx @ '': '' @ le_error env er))\<lparr>ol_IsError := True\<rparr>) m
     | _ \<Rightarrow> m)"

end
