(* ===== verification/BrambleLogProps.thy ===== *)
theory BrambleLogProps
  imports BrambleLog
begin

text \<open>
  What a replayed log keeps. Every mutation of the session model leaves the lines it had, in order, and
  appends to them, unless the cap forces an eviction; so a log that is loaded without a cap has all of
  its history. One kind of line makes the loader panic. Two messages in a row show what a mixture of
  streamed and complete messages does.
\<close>

section \<open>Output only grows\<close>

definition kinds :: "OutputBuffer \<Rightarrow> OutputLineType list" where
  "kinds b = map ol_Type (ob_lines b)"

text \<open>
  From one buffer to a later one: the cap is the same, the length does not shrink, and below the cap the
  old lines are a prefix.
\<close>

definition grows :: "OutputBuffer \<Rightarrow> OutputBuffer \<Rightarrow> bool" where
  "grows b c \<longleftrightarrow> ob_max c = ob_max b \<and> (buffer_ok b \<longrightarrow> buffer_ok c) \<and> length (ob_lines b) \<le> length (ob_lines c) \<and>
    (int (length (ob_lines c)) < ob_max b \<longrightarrow> prefix (kinds b) (kinds c))"

lemma grows_refl [simp]: "grows b b"
  by (simp add: grows_def)

lemma grows_trans: "grows a b \<Longrightarrow> grows b c \<Longrightarrow> grows a c"
  unfolding grows_def by (auto intro: prefix_order.trans)

lemma grows_append: "grows b (appendLocked l b)"
proof -
  have "length (ob_lines b) \<le> length (ob_lines (appendLocked l b))"
    by (auto simp: appendLocked_def split: list.split)
  moreover have "int (length (ob_lines (appendLocked l b))) < ob_max b \<Longrightarrow> prefix (kinds b) (kinds (appendLocked l b))"
    by (auto simp: appendLocked_def kinds_def split: list.splits if_splits)
  moreover have "ob_max (appendLocked l b) = ob_max b" by (auto simp: appendLocked_def split: list.split)
  ultimately show ?thesis by (simp add: grows_def appendLocked_ok)
qed

lemma kinds_extend_last: "ls \<noteq> [] \<Longrightarrow> map ol_Type (extend_last d ls) = map ol_Type ls"
  by (cases ls rule: rev_cases) (simp_all add: extend_last_def)

lemma update_first_kinds:
  "(\<And>l. ol_Type (f l) = ol_Type l) \<Longrightarrow> update_first i f ls = Some ms \<Longrightarrow> map ol_Type ms = map ol_Type ls"
  by (induction i f ls arbitrary: ms rule: update_first.induct) (auto split: if_splits)

lemma update_tool_kinds:
  "(\<And>l. ol_Type (f l) = ol_Type l) \<Longrightarrow> update_tool i f ls = Some ms \<Longrightarrow> map ol_Type ms = map ol_Type ls"
proof -
  assume f: "\<And>l. ol_Type (f l) = ol_Type l" and "update_tool i f ls = Some ms"
  then obtain z where "update_first i f (rev ls) = Some z" "ms = rev z" by (auto simp: update_tool_def)
  then show ?thesis using update_first_kinds [OF f, of i "rev ls" z] by (metis rev_map rev_rev_ident)
qed

lemma grows_extend: "last_is ty (ob_lines b) \<Longrightarrow> grows b (b\<lparr>ob_lines := extend_last d (ob_lines b)\<rparr>)"
  by (auto simp: grows_def kinds_def last_is_def kinds_extend_last extend_last_length buffer_ok_def)

section \<open>Mutations that keep the output\<close>

definition keeps :: "(SessionModel \<Rightarrow> SessionModel) \<Rightarrow> bool" where
  "keeps f \<longleftrightarrow> (\<forall>m. grows (md_output m) (md_output (f m)))"

lemma keepsD: "keeps f \<Longrightarrow> grows (md_output m) (md_output (f m))"
  by (simp add: keeps_def)

lemma keeps_output: "(\<And>m. md_output (f m) = md_output m) \<Longrightarrow> keeps f"
  by (simp add: keeps_def)

lemma keeps_comp: "keeps f \<Longrightarrow> keeps g \<Longrightarrow> keeps (f \<circ> g)"
  unfolding keeps_def comp_def by (blast intro: grows_trans)

lemma keeps_fold: "(\<And>x. keeps (f x)) \<Longrightarrow> keeps (fold f xs)"
  by (induction xs) (auto simp: keeps_def intro: grows_trans)

lemma md_output_notify [simp]: "md_output (md_notify e m) = md_output m"
  by (simp add: md_notify_def)

lemma md_output_progress: "md_output (UpdateProgress f m) = md_output m"
  by (simp add: UpdateProgress_def)

lemma keeps_append: "keeps (AppendOutput l)"
  by (simp add: keeps_def AppendOutput_def grows_append)

lemma keeps_meta: "keeps (SetMeta x)" "keeps (PatchSessionID i)" "keeps (UpdateProgress g)"
  by (simp_all add: keeps_def SetMeta_def PatchSessionID_def UpdateProgress_def)

lemma keeps_status: "keeps (\<lambda>m. snd (UpdateModelStatus s m))"
  by (simp add: keeps_def UpdateModelStatus_def)

lemma keeps_text: "keeps (AppendStreamingText now d)" "keeps (AppendStreamingThinking now d)"
  by (auto simp: keeps_def AppendStreamingText_def AppendStreamingThinking_def buf_streaming_text_def
      buf_streaming_thinking_def grows_append grows_extend)

lemma keeps_tool:
  assumes "\<And>l. ol_Type (f l) = ol_Type l"
  shows "keeps (UpdateTool i f)"
proof -
  have "grows b (b\<lparr>ob_lines := ls\<rparr>)" if "update_tool i f (ob_lines b) = Some ls" for b ls
    using update_tool_kinds [OF assms that] update_tool_length [OF that]
    by (simp add: grows_def kinds_def buffer_ok_def)
  then show ?thesis by (simp add: keeps_def UpdateTool_def UpdateToolByID_def split: option.split)
qed

lemma keeps_progress: "keeps (progress_idle now)" "keeps (progress_tool now name)"
  by (simp_all add: keeps_def progress_idle_def progress_tool_def Let_def md_output_progress)

lemmas keeps_rules = keeps_append keeps_meta keeps_status keeps_text keeps_progress
lemmas grows_rules = keeps_rules [THEN keepsD]

lemma keeps_log_assistant_block: "keeps (log_assistant_block env now b)"
  by (cases b) (auto simp: keeps_def log_assistant_block_def intro: grows_rules)

lemma keeps_log_user_block: "keeps (log_user_block env now b)"
proof (cases b)
  case (ToolResultBlk t)
  have "keeps (progress_idle now \<circ> UpdateTool (tb_ToolUseID t) (finish_tool now (tb_Content t) (tb_IsError t = Some True)))"
    by (intro keeps_comp keeps_rules keeps_tool) (simp add: finish_tool_def)
  then show ?thesis by (simp add: ToolResultBlk log_user_block_def [abs_def] comp_def)
qed (auto simp: keeps_def log_user_block_def intro: grows_rules)

lemma grows_on_model: "keeps f \<Longrightarrow> grows (md_output (mp_model p)) (md_output (mp_model (on_model f p)))"
  by (simp add: on_model_def keepsD)

lemma grows_block_start: "grows (md_output (mp_model p)) (md_output (mp_model (parse_block_start now raw idx p)))"
proof (cases "log_block_base raw")
  case (Some q)
  obtain ty i name where q: "q = (ty, i, name)" by (cases q)
  have "keeps (progress_tool now name \<circ> AppendOutput (tool_line now name name i None))"
    by (intro keeps_comp keeps_rules)
  from grows_on_model [OF this, of p] show ?thesis
    by (auto simp: parse_block_start_def Some q Let_def)
qed (simp add: parse_block_start_def)

lemma grows_stream_event: "grows (md_output (mp_model p)) (md_output (mp_model (parse_stream_event env now raw p)))"
proof (cases "Option.bind raw ParseStreamEvent")
  case (Some oe)
  show ?thesis
  proof (cases oe)
    case (Some e)
    have d: "grows (md_output (mp_model p)) (md_output (mp_model (parse_block_delta now r i p)))" for r i
      by (auto simp: parse_block_delta_def intro!: grows_on_model keeps_rules split: option.split)
    have s: "grows (md_output (mp_model p)) (md_output (mp_model (parse_block_stop env i p)))" for i
      by (auto simp: parse_block_stop_def Let_def intro!: grows_on_model keeps_tool split: option.split)
    show ?thesis using \<open>Option.bind raw ParseStreamEvent = Some oe\<close> Some
      by (cases e) (simp_all add: parse_stream_event_def grows_block_start d s)
  qed (simp add: parse_stream_event_def \<open>Option.bind raw ParseStreamEvent = Some oe\<close>)
qed (simp add: parse_stream_event_def)

lemma grows_HandleMessage: "grows (md_output (mp_model p)) (md_output (mp_model (HandleMessage env nm p)))"
proof (cases "snd nm")
  case (MsgResult m)
  let ?s = "if IsFailure m then StatusFailed else StatusCompleted"
  have "keeps ((\<lambda>x. snd (UpdateModelStatus ?s x)) \<circ> AppendOutput l \<circ> UpdateProgress g)" for l g
    by (intro keeps_comp keeps_rules)
  then show ?thesis by (simp add: HandleMessage_def MsgResult parse_result_def Let_def keeps_def)
qed (auto simp: HandleMessage_def parse_system_def parse_assistant_def parse_user_def Let_def grows_stream_event
    intro!: grows_on_model keeps_rules keeps_fold keeps_log_assistant_block keeps_log_user_block split: option.split)

lemma keeps_envelope: "keeps (handleEnvelopeMeta env meta)"
proof -
  have "keeps (handleSystemMeta env meta)"
    by (simp add: keeps_def handleSystemMeta_def Let_def grows_rules)
  moreover have "keeps (handleProgressMeta meta)"
    by (simp add: keeps_def handleProgressMeta_def grows_rules split: option.split)
  ultimately show ?thesis
    by (simp add: keeps_def handleEnvelopeMeta_def grows_rules)
qed

lemma grows_load:
  "load_lines env ls p i = Some (q, j) \<Longrightarrow> grows (md_output (mp_model p)) (md_output (mp_model q))"
proof (induction env ls p i rule: load_lines.induct)
  case (2 env now line ls p i)
  show ?case
  proof (cases "FromRawJSONL env line")
    case (RawMeta meta)
    then show ?thesis using 2 grows_on_model [OF keeps_envelope, of p env meta]
      by (auto split: if_splits intro: grows_trans)
  next
    case (RawMsg m meta)
    then show ?thesis using 2 grows_HandleMessage [of p env "(now, m)"]
      by (auto split: if_splits intro: grows_trans)
  qed (use 2 in \<open>auto split: if_splits\<close>)
qed simp

lemma load_lines_None:
  "load_lines env ls p i = None \<longleftrightarrow> (\<exists>nl \<in> set ls. snd nl \<noteq> [] \<and> FromRawJSONL env (snd nl) = RawPanic)"
  by (induction env ls p i rule: load_lines.induct) (auto split: raw_line.split)

lemma load_lines_append:
  "load_lines env (ls @ ks) p i = Option.bind (load_lines env ls p i) (\<lambda>(q, j). load_lines env ks q j)"
  by (induction env ls p i rule: load_lines.induct) (auto split: raw_line.split)

text \<open>Loading a log panics exactly when one of its lines does, as a result whose message is \<open>null\<close>
  does; and when a log is loaded, its first lines alone are loaded too and what they gave is a prefix of
  what the whole log gave, so nothing is evicted as long as there are less than 2^63 - 1 lines of output.
\<close>

theorem bramble_log_history:
  shows "(LoadFromRawJSONL env (Some (ls, failed)) = LoadPanic \<longleftrightarrow>
      (\<exists>nl \<in> set ls. snd nl \<noteq> [] \<and> FromRawJSONL env (snd nl) = RawPanic)) \<and>
    (LoadFromRawJSONL env (Some (ls @ ks, False)) = Loaded m \<longrightarrow>
      (\<exists>k. LoadFromRawJSONL env (Some (ls, False)) = Loaded k \<and> buffer_ok (md_output m) \<and>
        (int (length (ob_lines (md_output m))) < 2 ^ 63 - 1 \<longrightarrow> prefix (kinds (md_output k)) (kinds (md_output m))))) \<and>
    (w_parse (le_wire env) line = Some (JObj [(''type'', JStr ''result''), (''message'', JNull)]) \<longrightarrow>
      FromRawJSONL env line = RawPanic)"
proof -
  let ?p = "NewMessageParser (NewSessionModel (-1))"
  have f1: "LoadFromRawJSONL env (Some (ls, failed)) = LoadPanic \<longleftrightarrow>
      (\<exists>nl \<in> set ls. snd nl \<noteq> [] \<and> FromRawJSONL env (snd nl) = RawPanic)"
    using load_lines_None [of env ls ?p "[]"]
    by (auto simp: LoadFromRawJSONL_def split: option.split if_splits)
  have f2: "\<exists>k. LoadFromRawJSONL env (Some (ls, False)) = Loaded k \<and> buffer_ok (md_output m) \<and>
        (int (length (ob_lines (md_output m))) < 2 ^ 63 - 1 \<longrightarrow> prefix (kinds (md_output k)) (kinds (md_output m)))"
    if l: "LoadFromRawJSONL env (Some (ls @ ks, False)) = Loaded m"
  proof -
    obtain q j where q: "load_lines env (ls @ ks) ?p [] = Some (q, j)" and m: "m = PatchSessionID j (mp_model q)"
      using l by (auto simp: LoadFromRawJSONL_def split: option.splits)
    then obtain r i where r: "load_lines env ls ?p [] = Some (r, i)" and k: "load_lines env ks r i = Some (q, j)"
      by (auto simp: load_lines_append bind_eq_Some_conv)
    have out: "md_output (PatchSessionID x y) = md_output y" for x y by (simp add: PatchSessionID_def)
    have "grows (md_output (mp_model ?p)) (md_output (mp_model r))" "grows (md_output (mp_model r)) (md_output (mp_model q))"
      using grows_load r k by blast+
    moreover have "buffer_ok (md_output (mp_model ?p))" "ob_max (md_output (mp_model ?p)) = 2 ^ 63 - 1"
      by (simp_all add: NewMessageParser_def NewSessionModel_def NewOutputBuffer_def buffer_ok_def)
    ultimately show ?thesis by (auto simp: LoadFromRawJSONL_def r m out grows_def)
  qed
  have f3: "FromRawJSONL env line = RawPanic"
    if "w_parse (le_wire env) line = Some (JObj [(''type'', JStr ''result''), (''message'', JNull)])"
  proof -
    have "unmarshal dec_envelope zero_envelope (JObj [(''type'', JStr ''result''), (''message'', JNull)]) =
        Some (zero_envelope\<lparr>rw_Type := ''result'', rw_Message := Some JNull\<rparr>)"
      by code_simp
    then show ?thesis using that by (simp add: FromRawJSONL_def wrapForProtocol_def zero_envelope_def)
  qed
  show ?thesis using f1 f2 f3 by blast
qed

text \<open>A sample environment: lines are named, and the texts and times are empty.\<close>

definition sample_log :: log_env where
  "sample_log =
    \<lparr>le_wire = \<lparr>w_parse = (\<lambda>l. if l = ''null result'' then Some (JObj [(''type'', JStr ''result''), (''message'', JNull)])
       else if l = ''hello'' then Some (JObj [(''type'', JStr ''user''), (''message'', JObj [(''content'', JStr ''hello'')])])
       else None), w_f64 = (\<lambda>_. None), w_text = (\<lambda>_. []), w_error = (\<lambda>_. [])\<rparr>,
     le_raw = (\<lambda>_. []), le_time = (\<lambda>_. 0), le_secs = Itoa, le_error = (\<lambda>_. []), le_cost = sum_list\<rparr>"

lemma bramble_log_history_witness:
  "(\<exists>k. LoadFromRawJSONL sample_log (Some ([(5, ''hello'')], False)) = Loaded k) \<and>
    LoadFromRawJSONL sample_log (Some ([(5, ''hello''), (6, ''null result'')], False)) = LoadPanic"
proof -
  have p: "w_parse (le_wire sample_log) ''null result'' = Some (JObj [(''type'', JStr ''result''), (''message'', JNull)])"
    by (simp add: sample_log_def)
  have "LoadFromRawJSONL sample_log (Some ([(5, ''hello''), (6, ''null result'')], False)) = LoadPanic"
    using bramble_log_history [THEN conjunct1, of sample_log "[(5, ''hello''), (6, ''null result'')]" False]
      bramble_log_history [THEN conjunct2, THEN conjunct2, rule_format, OF p] by simp
  moreover have "FromRawJSONL sample_log ''hello'' \<noteq> RawPanic" by code_simp
  then have "LoadFromRawJSONL sample_log (Some ([(5, ''hello'')] @ [], False)) \<noteq> LoadPanic"
    using bramble_log_history [THEN conjunct1, of sample_log "[(5, ''hello'')]" False] by simp
  then obtain m where "LoadFromRawJSONL sample_log (Some ([(5, ''hello'')] @ [], False)) = Loaded m"
    by (cases "load_lines sample_log [(5, ''hello'')] (NewMessageParser (NewSessionModel (-1))) []")
      (auto simp: LoadFromRawJSONL_def simp del: load_lines.simps)
  from bramble_log_history [THEN conjunct2, THEN conjunct1, rule_format, OF this] have "\<exists>k. LoadFromRawJSONL sample_log (Some ([(5, ''hello'')], False)) = Loaded k"
    by blast
  ultimately show ?thesis by blast
qed

section \<open>Streamed and complete messages together\<close>

definition text_event :: "(string \<times> json) list \<Rightarrow> message" where
  "text_event fs = MsgStreamEvent (Some (JObj fs))"

definition user_content :: "json \<Rightarrow> message" where
  "user_content v = MsgUser \<lparr>um_ParentToolUseID = None, um_SessionID = [],
     um_Message = \<lparr>mc_Model = [], mc_Role = ''user'', mc_Content = Some v\<rparr>\<rparr>"

definition assistant_content :: "json \<Rightarrow> message" where
  "assistant_content v = MsgAssistant \<lparr>am_ParentToolUseID = None, am_SessionID = [], am_RequestID = [],
     am_Message = \<lparr>mc_Model = [], mc_Role = ''assistant'', mc_Content = Some v\<rparr>, am_IsAPIErrorMessage = False\<rparr>"

text \<open>The prompt of the user, the start of a text block, and its first delta.\<close>

definition prompt_then_answer :: "(time \<times> message) list" where
  "prompt_then_answer =
    [(1, user_content (JStr ''fix it'')),
     (2, text_event [(''type'', JStr ''content_block_start''), (''index'', JNum ''0''), (''content_block'', JObj [(''type'', JStr ''text'')])]),
     (3, text_event [(''type'', JStr ''content_block_delta''), (''index'', JNum ''0''),
        (''delta'', JObj [(''type'', JStr ''text_delta''), (''text'', JStr '' Done.'')])])]"

text \<open>A tool block as it is streamed, the complete message that follows it, and the result of the tool.\<close>

definition tool_twice :: "(time \<times> message) list" where
  "tool_twice =
    [(1, text_event [(''type'', JStr ''content_block_start''), (''index'', JNum ''0''),
        (''content_block'', JObj [(''type'', JStr ''tool_use''), (''id'', JStr ''t''), (''name'', JStr ''Bash'')])]),
     (2, text_event [(''type'', JStr ''content_block_stop''), (''index'', JNum ''0'')]),
     (3, assistant_content (JArr [JObj [(''type'', JStr ''tool_use''), (''id'', JStr ''t''), (''name'', JStr ''Bash'')]])),
     (4, user_content (JArr [JObj [(''type'', JStr ''tool_result''), (''tool_use_id'', JStr ''t'')]]))]"

definition parsed :: "(time \<times> message) list \<Rightarrow> OutputLine list" where
  "parsed ms = ob_lines (md_output (mp_model (run_machine (HandleMessage sample_log) ms (NewMessageParser (NewSessionModel 0)))))"

text \<open>The parser mixes up messages that a live session sends: the first delta of an answer is appended to
  the line of the prompt before it, which still counts as the user's, so no assistant text is found; and
  a tool that is streamed and then comes again in the complete message has two lines, of which the first
  keeps running after the result.
\<close>

theorem bramble_live_messages_mixed:
  "map (\<lambda>l. (ol_Content l, ol_IsUserPrompt l)) (parsed prompt_then_answer) = [(''fix it Done.'', True)] \<and>
    RecentAssistantTextFromSlice (parsed prompt_then_answer) RecentOutputDisplayLines = [] \<and>
    map (\<lambda>l. (ol_ToolID l, ol_ToolState l)) (parsed tool_twice) = [(''t'', ToolRunning), (''t'', ToolComplete)]"
  by code_simp

end
