(* ===== verification/BrambleModels.thy ===== *)
theory BrambleModels
  imports GoText GoPrelude
begin

text \<open>
  Which models and endpoints a session of \<open>bramble\<close> may be started with: the registry of models
  (\<open>multiagent/agent/model_registry.go\<close>), the endpoint of a third-party API
  (\<open>agent-cli-wrapper/llmendpoint\<close>) and the checks of \<open>bramble/session/manager.go\<close>. The environment
  variables and \<open>url.Parse\<close> (scheme and host) are parameters. Errors are their texts, without the
  quoted values.
\<close>

section \<open>Models\<close>

record AgentModel =
  am_ID :: string
  am_Provider :: string
  am_Label :: string
  am_Placeholder :: bool

definition AllProviders :: "string list" where
  "AllProviders = [''claude'', ''codex'', ''gemini'', ''cursor'', ''agy'']"

definition curated :: "string \<Rightarrow> string \<Rightarrow> bool \<Rightarrow> AgentModel" where
  "curated i p d = \<lparr>am_ID = i, am_Provider = p, am_Label = i, am_Placeholder = d\<rparr>"

definition AllModels :: "AgentModel list" where
  "AllModels =
    map (\<lambda>i. curated i ''claude'' False)
      [''opus'', ''sonnet'', ''haiku'', ''fable'', ''claude-fable-5'', ''claude-opus-4-8'', ''claude-sonnet-4-6'', ''claude-haiku-4-5''] @
    map (\<lambda>i. curated i ''codex'' False) [''gpt-5.5'', ''gpt-5.4'', ''gpt-5.4-mini''] @
    map (\<lambda>i. curated i ''gemini'' False)
      [''gemini-3.1-pro-preview'', ''gemini-3-pro-preview'', ''gemini-3-flash-preview'', ''gemini-2.5-pro'', ''gemini-2.5-flash'',
       ''gemini-2.5-flash-lite''] @
    [curated ''cursor-default'' ''cursor'' True, curated ''agy-default'' ''agy'' True]"

definition find_model :: "string \<Rightarrow> AgentModel list \<Rightarrow> AgentModel option" where
  "find_model i ms = find (\<lambda>m. am_ID m = i) ms"

definition ModelByID :: "string \<Rightarrow> AgentModel option" where
  "ModelByID i = find_model i AllModels"

definition CLIModelArg :: "string \<Rightarrow> string \<Rightarrow> string" where
  "CLIModelArg model provider =
    (case ModelByID model of
       None \<Rightarrow> model
     | Some m \<Rightarrow> if am_Placeholder m then [] else if provider \<noteq> [] \<and> am_Provider m \<noteq> provider then [] else model)"

definition modelPrefixRules :: "(string \<times> string) list" where
  "modelPrefixRules =
    [(''gpt-'', ''codex''), (''gemini-'', ''gemini''), (''cursor-'', ''cursor''), (''composer-'', ''cursor''), (''agy-'', ''agy''),
     (''claude-'', ''claude''), (''fable-'', ''claude''), (''opus-'', ''claude''), (''sonnet-'', ''claude''), (''haiku-'', ''claude'')]"

definition ProviderByModelPrefix :: "string \<Rightarrow> string option" where
  "ProviderByModelPrefix i = map_option snd (find (\<lambda>r. HasPrefix i (fst r)) modelPrefixRules)"

definition ResolveModel :: "string \<Rightarrow> AgentModel option" where
  "ResolveModel i =
    (case ModelByID i of
       Some m \<Rightarrow> Some m
     | None \<Rightarrow> map_option (\<lambda>p. curated i p False) (ProviderByModelPrefix i))"

definition ProviderForModelID :: "string \<Rightarrow> string option" where
  "ProviderForModelID i = (case ModelByID i of Some m \<Rightarrow> Some (am_Provider m) | None \<Rightarrow> ProviderByModelPrefix i)"

text \<open>A registry is its filtered list; the first argument says which providers are installed.\<close>

definition Rebuild :: "(string \<Rightarrow> bool) \<Rightarrow> string list option \<Rightarrow> AgentModel list" where
  "Rebuild installed enabled =
    filter (\<lambda>m. installed (am_Provider m) \<and> (case enabled of None \<Rightarrow> True | Some ps \<Rightarrow> am_Provider m \<in> set ps)) AllModels"

fun index_of :: "string \<Rightarrow> AgentModel list \<Rightarrow> nat option" where
  "index_of i [] = None"
| "index_of i (m # ms) = (if am_ID m = i then Some 0 else map_option Suc (index_of i ms))"

definition NextModel :: "string \<Rightarrow> AgentModel list \<Rightarrow> AgentModel" where
  "NextModel current ms =
    (if ms = [] then
       (case (if current \<noteq> [] then ModelByID current else None) of Some m \<Rightarrow> m | None \<Rightarrow> hd AllModels)
     else case index_of current ms of
         Some i \<Rightarrow> ms ! ((i + 1) mod length ms)
       | None \<Rightarrow> hd ms)"

definition HasProvider :: "string \<Rightarrow> AgentModel list \<Rightarrow> bool" where
  "HasProvider p ms = list_ex (\<lambda>m. am_Provider m = p) ms"

definition FirstModelForProvider :: "string \<Rightarrow> AgentModel list \<Rightarrow> AgentModel option" where
  "FirstModelForProvider p ms = find (\<lambda>m. am_Provider m = p) ms"

section \<open>Endpoints\<close>

record Endpoint =
  ep_BaseURL :: string
  ep_APIKey :: string
  ep_APIKeyEnv :: string
  ep_ProviderName :: string
  ep_Wire :: string
  ep_Headers :: "(string, string) gomap"

record endpoint_env =
  ee_url :: "string \<Rightarrow> (string \<times> string) option"
  ee_getenv :: "string \<Rightarrow> string"

definition EndpointIsZero :: "Endpoint \<Rightarrow> bool" where
  "EndpointIsZero e = (ep_BaseURL e = [] \<and> ep_APIKey e = [] \<and> ep_APIKeyEnv e = [])"

definition hasOnlyDecorations :: "Endpoint \<Rightarrow> bool" where
  "hasOnlyDecorations e = (EndpointIsZero e \<and> (ep_ProviderName e \<noteq> [] \<or> ep_Wire e \<noteq> [] \<or> ep_Headers e \<noteq> []))"

definition name_char :: "char \<Rightarrow> bool" where
  "name_char c \<longleftrightarrow> is_digit c \<or> (CHR ''a'' \<le> c \<and> c \<le> CHR ''z'') \<or> (CHR ''A'' \<le> c \<and> c \<le> CHR ''Z'') \<or> c = CHR ''_'' \<or> c = CHR ''-''"

definition providerNameRE :: "string \<Rightarrow> bool" where
  "providerNameRE s = (s \<noteq> [] \<and> list_all name_char s)"

definition ValidateEndpoint :: "endpoint_env \<Rightarrow> Endpoint \<Rightarrow> string option" where
  "ValidateEndpoint env e =
    (if hasOnlyDecorations e then Some ''endpoint is partially configured''
     else if EndpointIsZero e then None
     else if ep_BaseURL e = [] then Some ''BaseURL is required''
     else case ee_url env (ep_BaseURL e) of
         None \<Rightarrow> Some ''invalid BaseURL''
       | Some (scheme, host) \<Rightarrow>
           if scheme \<noteq> ''http'' \<and> scheme \<noteq> ''https'' then Some ''BaseURL must be http(s)''
           else if host = [] then Some ''BaseURL is missing a host''
           else if ep_APIKey e = [] \<and> ep_APIKeyEnv e = [] then Some ''either APIKey or APIKeyEnv must be set''
           else if ep_Wire e \<noteq> [] \<and> ep_Wire e \<noteq> ''chat'' \<and> ep_Wire e \<noteq> ''responses'' then Some ''unknown wire api''
           else if ep_ProviderName e \<noteq> [] \<and> \<not> providerNameRE (ep_ProviderName e) then Some ''invalid ProviderName''
           else if list_ex (\<lambda>p. \<not> providerNameRE (fst p)) (ep_Headers e) then Some ''invalid header name''
           else None)"

definition Redacted :: "Endpoint \<Rightarrow> Endpoint" where
  "Redacted e = e\<lparr>ep_APIKey := [], ep_Headers := []\<rparr>"

definition ResolvedKey :: "endpoint_env \<Rightarrow> Endpoint \<Rightarrow> string" where
  "ResolvedKey env e =
    (if ep_APIKey e \<noteq> [] then ep_APIKey e else if ep_APIKeyEnv e \<noteq> [] then ee_getenv env (ep_APIKeyEnv e) else [])"

definition WireAPI :: "Endpoint \<Rightarrow> string" where
  "WireAPI e = (if ep_Wire e = [] then ''chat'' else ep_Wire e)"

section \<open>Checks of a session\<close>

definition validateBackend :: "string \<Rightarrow> string option" where
  "validateBackend backend = (if backend \<noteq> [] \<and> backend \<notin> set AllProviders then Some ''unknown backend'' else None)"

definition validateBackendModel :: "string \<Rightarrow> string \<Rightarrow> string option" where
  "validateBackendModel backend model =
    (if backend = [] then None
     else if model = [] then Some ''model must not be empty when a backend is selected''
     else case ModelByID model of
         Some m \<Rightarrow> if am_Provider m \<noteq> backend then Some ''model belongs to another backend'' else None
       | None \<Rightarrow> None)"

definition resolveAgentModel :: "string \<Rightarrow> string \<Rightarrow> AgentModel list option \<Rightarrow> string + AgentModel" where
  "resolveAgentModel modelID backend registry =
    (if backend \<noteq> [] then
       (case validateBackend backend of
          Some e \<Rightarrow> Inl e
        | None \<Rightarrow> (case validateBackendModel backend modelID of
            Some e \<Rightarrow> Inl e
          | None \<Rightarrow> Inr \<lparr>am_ID = modelID, am_Provider = backend, am_Label = modelID, am_Placeholder = False\<rparr>))
     else case (case registry of None \<Rightarrow> None | Some ms \<Rightarrow> find_model modelID ms) of
         Some m \<Rightarrow> Inr m
       | None \<Rightarrow> (case ResolveModel modelID of Some m \<Rightarrow> Inr m | None \<Rightarrow> Inl ''unknown model''))"

definition validatePersistableEndpoint :: "Endpoint \<Rightarrow> bool \<Rightarrow> string option" where
  "validatePersistableEndpoint e persists =
    (if \<not> persists \<or> EndpointIsZero e then None
     else if ep_APIKey e \<noteq> [] \<and> ep_APIKeyEnv e = [] then Some ''inline api key is not persisted''
     else if ep_Headers e \<noteq> [] then Some ''headers are not persisted''
     else None)"

definition validateEndpointCredential :: "endpoint_env \<Rightarrow> Endpoint \<Rightarrow> string option" where
  "validateEndpointCredential env e = (if EndpointIsZero e \<or> ResolvedKey env e \<noteq> [] then None else Some ''llm endpoint api key is unset'')"

definition validateEndpointBackend :: "Endpoint \<Rightarrow> string \<Rightarrow> string option" where
  "validateEndpointBackend e backend =
    (if EndpointIsZero e \<or> backend = [] \<or> backend = ''claude'' then None
     else if backend \<noteq> ''codex'' then Some ''LLM endpoints support only claude and codex''
     else if WireAPI e \<noteq> ''responses'' then Some ''codex requires responses''
     else None)"

datatype sess_type = TypePlanner | TypeBuilder | TypeDelegator | TypeCodeTalk | TypeOther string

text \<open>The checks of \<open>startSessionWithID\<close>; the result is the model of the session.\<close>

definition spawn_checks ::
  "endpoint_env \<Rightarrow> AgentModel list option \<Rightarrow> bool \<Rightarrow> sess_type \<Rightarrow> string \<Rightarrow> string \<Rightarrow> Endpoint \<Rightarrow> string + string" where
  "spawn_checks env registry persists ty model0 backend e =
    (let model = (if model0 = [] \<and> backend = [] then (if ty = TypePlanner \<or> ty = TypeCodeTalk then ''opus'' else ''sonnet'') else model0);
         provider = (if backend = [] \<and> \<not> EndpointIsZero e
                     then (case resolveAgentModel model [] registry of Inl x \<Rightarrow> Inl x | Inr m \<Rightarrow> Inr (am_Provider m))
                     else Inr backend)
     in case validateBackend backend of Some x \<Rightarrow> Inl x | None \<Rightarrow>
        (case ValidateEndpoint env e of Some x \<Rightarrow> Inl x | None \<Rightarrow>
        (case provider of Inl x \<Rightarrow> Inl x | Inr p \<Rightarrow>
        (case validateEndpointBackend e p of Some x \<Rightarrow> Inl x | None \<Rightarrow>
        (case validateEndpointCredential env e of Some x \<Rightarrow> Inl x | None \<Rightarrow>
        (case validatePersistableEndpoint e persists of Some x \<Rightarrow> Inl x | None \<Rightarrow>
        (case validateBackendModel backend model of Some x \<Rightarrow> Inl x | None \<Rightarrow> Inr model)))))))"

text \<open>
  The checks that \<open>runSession\<close> makes again in the background, up to the provider being available;
  the result is the model that was resolved.
\<close>

definition run_checks :: "endpoint_env \<Rightarrow> AgentModel list option \<Rightarrow> string \<Rightarrow> string \<Rightarrow> Endpoint \<Rightarrow> string + AgentModel" where
  "run_checks env registry model backend e =
    (case resolveAgentModel model backend registry of
       Inl x \<Rightarrow> Inl x
     | Inr m \<Rightarrow>
         (case validateEndpointBackend e (am_Provider m) of Some x \<Rightarrow> Inl x | None \<Rightarrow>
         (case validateEndpointCredential env e of Some x \<Rightarrow> Inl x | None \<Rightarrow>
           (case registry of
              None \<Rightarrow> Inr m
            | Some ms \<Rightarrow> if HasProvider (am_Provider m) ms then Inr m else Inl ''provider is not available''))))"

section \<open>What the early checks are for\<close>

lemma endpoint_redacted:
  "EndpointIsZero e \<Longrightarrow> EndpointIsZero (Redacted e)"
  "WireAPI (Redacted e) = WireAPI e"
  by (simp_all add: EndpointIsZero_def Redacted_def WireAPI_def)

text \<open>A session with an endpoint that was accepted is not refused in the background: its model
  resolves, and the endpoint passes the checks of the run again, except that the provider may not be
  available; and an endpoint that was accepted with a store comes back from it unchanged but for an
  inline key, which the environment variable stands for.
\<close>

theorem bramble_endpoint_checked_early:
  assumes "spawn_checks env registry persists ty model0 backend e = Inr model" and "\<not> EndpointIsZero e"
  shows "case run_checks env registry model backend e of Inl x \<Rightarrow> x = ''provider is not available'' | Inr _ \<Rightarrow> True"
    and "persists \<Longrightarrow> Redacted e = e\<lparr>ep_APIKey := []\<rparr> \<and> ep_APIKeyEnv e \<noteq> [] \<and>
      \<not> EndpointIsZero (Redacted e) \<and> ValidateEndpoint env (Redacted e) = None"
proof -
  let ?model = "if model0 = [] \<and> backend = [] then (if ty = TypePlanner \<or> ty = TypeCodeTalk then ''opus'' else ''sonnet'') else model0"
  have c: "validateBackend backend = None" "ValidateEndpoint env e = None" "validateEndpointCredential env e = None"
      "validatePersistableEndpoint e persists = None" "validateBackendModel backend model = None" "model = ?model"
    using assms(1) unfolding spawn_checks_def Let_def by (auto split: option.splits sum.splits)
  have r: "\<exists>m. resolveAgentModel model backend registry = Inr m \<and> validateEndpointBackend e (am_Provider m) = None"
  proof (cases "backend = []")
    case True
    then show ?thesis using assms unfolding spawn_checks_def Let_def by (auto split: option.splits sum.splits)
  next
    case False
    then have "validateEndpointBackend e backend = None"
      using assms unfolding spawn_checks_def Let_def by (auto split: option.splits sum.splits)
    then show ?thesis using False c(1,5) by (simp add: resolveAgentModel_def)
  qed
  then show "case run_checks env registry model backend e of Inl x \<Rightarrow> x = ''provider is not available'' | Inr _ \<Rightarrow> True"
    using c(3) by (auto simp: run_checks_def split: option.split)
  assume persists
  then have p: "ep_Headers e = []" "ep_APIKeyEnv e \<noteq> []"
    using c(2,4) assms(2) unfolding validatePersistableEndpoint_def ValidateEndpoint_def
    by (auto split: if_splits option.splits prod.splits)
  moreover have "ValidateEndpoint env (Redacted e) = None"
    using c(2) p unfolding ValidateEndpoint_def
    by (auto simp: Redacted_def hasOnlyDecorations_def EndpointIsZero_def split: if_splits option.splits prod.splits)
  ultimately show "Redacted e = e\<lparr>ep_APIKey := []\<rparr> \<and> ep_APIKeyEnv e \<noteq> [] \<and>
      \<not> EndpointIsZero (Redacted e) \<and> ValidateEndpoint env (Redacted e) = None"
    by (simp add: Redacted_def EndpointIsZero_def)
qed

lemma bramble_endpoint_checked_early_witness:
  "let e = \<lparr>ep_BaseURL = ''https://llm'', ep_APIKey = ''secret'', ep_APIKeyEnv = ''KEY'', ep_ProviderName = [], ep_Wire = [], ep_Headers = []\<rparr>;
       env = \<lparr>ee_url = (\<lambda>_. Some (''https'', ''llm'')), ee_getenv = (\<lambda>_. ''k'')\<rparr>
   in spawn_checks env None True TypeBuilder ''sonnet'' [] e = Inr ''sonnet'' \<and> ValidateEndpoint env (Redacted e) = None"
proof -
  let ?e = "\<lparr>ep_BaseURL = ''https://llm'', ep_APIKey = ''secret'', ep_APIKeyEnv = ''KEY'', ep_ProviderName = [], ep_Wire = [], ep_Headers = []\<rparr>"
  let ?env = "\<lparr>ee_url = (\<lambda>_. Some (''https'', ''llm'')), ee_getenv = (\<lambda>_. ''k'')\<rparr>"
  have c: "spawn_checks ?env None True TypeBuilder ''sonnet'' [] ?e = Inr ''sonnet''" by code_simp
  have "\<not> EndpointIsZero ?e" by (simp add: EndpointIsZero_def)
  from bramble_endpoint_checked_early(2) [OF c this] have "ValidateEndpoint ?env (Redacted ?e) = None" by blast
  then show ?thesis unfolding Let_def using c by blast
qed

end
