(* ===== verification/BrambleStore.thy ===== *)
theory BrambleStore
  imports GoPath BrambleModels BrambleOutput BramblePane
begin

text \<open>
  The history of sessions on disk, \<open>bramble/session/store.go\<close>, and a session with its conversions
  (\<open>types.go\<close>, \<open>storedToSession\<close> of \<open>manager.go\<close>). The store is a map from paths to records, or to nothing
  for a file that does not decode; whether a write works is an argument. What is proved: a path is the
  base directory with exactly the three names, so nothing is read or written elsewhere; what was saved is
  loaded and nothing else changes; and which fields of a session survive.
\<close>

section \<open>Sessions\<close>

record SessionProgress =
  pg_LastActivity :: time
  pg_CurrentPhase :: string
  pg_CurrentTool :: string
  pg_StatusLine :: string
  pg_RecentOutput :: "string list"
  pg_TurnCount :: int
  pg_TotalCostUSD :: rat
  pg_InputTokens :: int
  pg_OutputTokens :: int
  pg_ContextWindow :: int
  pg_LastTurnInputTotal :: int

definition new_progress :: "time \<Rightarrow> SessionProgress" where
  "new_progress now = \<lparr>pg_LastActivity = now, pg_CurrentPhase = [], pg_CurrentTool = [], pg_StatusLine = [], pg_RecentOutput = [],
     pg_TurnCount = 0, pg_TotalCostUSD = 0, pg_InputTokens = 0, pg_OutputTokens = 0, pg_ContextWindow = 0, pg_LastTurnInputTotal = 0\<rparr>"

text \<open>The context of a run is its number, with which it can be cancelled; none is a nil \<open>cancel\<close>.\<close>

record bsession =
  bs_CreatedAt :: time
  bs_ctx :: "nat option"
  bs_Error :: "string option"
  bs_Progress :: "SessionProgress option"
  bs_StartedAt :: "time option"
  bs_CompletedAt :: "time option"
  bs_WorktreeName :: string
  bs_Prompt :: string
  bs_Title :: string
  bs_Model :: string
  bs_Backend :: string
  bs_LLMEndpoint :: Endpoint
  bs_PlanFilePath :: string
  bs_TmuxWindowName :: string
  bs_TmuxWindowID :: string
  bs_RunnerType :: string
  bs_RepoName :: string
  bs_CLISessionID :: string
  bs_ResearchFilePath :: string
  bs_ParentSessionID :: string
  bs_ID :: string
  bs_WorktreePath :: string
  bs_Status :: sess_status
  bs_Type :: sess_type
  bs_turnEpoch :: nat

definition zero_endpoint :: Endpoint where
  "zero_endpoint = \<lparr>ep_BaseURL = [], ep_APIKey = [], ep_APIKeyEnv = [], ep_ProviderName = [], ep_Wire = [], ep_Headers = []\<rparr>"

record BSessionInfo =
  bi_CreatedAt :: time
  bi_CompletedAt :: "time option"
  bi_StartedAt :: "time option"
  bi_WorktreePath :: string
  bi_WorktreeName :: string
  bi_Prompt :: string
  bi_Title :: string
  bi_Model :: string
  bi_Backend :: string
  bi_PlanFilePath :: string
  bi_TmuxWindowName :: string
  bi_TmuxWindowID :: string
  bi_RunnerType :: string
  bi_RepoName :: string
  bi_CLISessionID :: string
  bi_ResearchFilePath :: string
  bi_ParentSessionID :: string
  bi_ID :: string
  bi_Status :: sess_status
  bi_Type :: sess_type
  bi_ErrorMsg :: string
  bi_Progress :: "SessionProgress option"

definition ToInfo :: "bsession \<Rightarrow> BSessionInfo" where
  "ToInfo s =
    \<lparr>bi_CreatedAt = bs_CreatedAt s, bi_CompletedAt = bs_CompletedAt s, bi_StartedAt = bs_StartedAt s,
     bi_WorktreePath = bs_WorktreePath s, bi_WorktreeName = bs_WorktreeName s, bi_Prompt = bs_Prompt s, bi_Title = bs_Title s,
     bi_Model = bs_Model s, bi_Backend = bs_Backend s, bi_PlanFilePath = bs_PlanFilePath s,
     bi_TmuxWindowName = bs_TmuxWindowName s, bi_TmuxWindowID = bs_TmuxWindowID s, bi_RunnerType = bs_RunnerType s,
     bi_RepoName = bs_RepoName s, bi_CLISessionID = bs_CLISessionID s, bi_ResearchFilePath = bs_ResearchFilePath s,
     bi_ParentSessionID = bs_ParentSessionID s, bi_ID = bs_ID s, bi_Status = bs_Status s, bi_Type = bs_Type s,
     bi_ErrorMsg = (case bs_Error s of None \<Rightarrow> [] | Some e \<Rightarrow> e), bi_Progress = bs_Progress s\<rparr>"

definition IsResumable :: "BSessionInfo \<Rightarrow> bool" where
  "IsResumable i = (bi_CLISessionID i \<noteq> [] \<and>
    (bi_Status i = StatusCompleted \<or> bi_Status i = StatusFailed \<or> bi_Status i = StatusStopped))"

definition isTmuxRunner :: "string \<Rightarrow> bool" where
  "isTmuxRunner r = (r = ''tmux'' \<or> r = ''tmux-tracked'')"

definition TmuxTarget :: "BSessionInfo \<Rightarrow> string" where
  "TmuxTarget i = (if bi_TmuxWindowID i \<noteq> [] then bi_TmuxWindowID i else bi_TmuxWindowName i)"

section \<open>Stored sessions\<close>

record StoredProgress =
  sp_TurnCount :: int
  sp_TotalCostUSD :: rat
  sp_InputTokens :: int
  sp_OutputTokens :: int

record StoredSession =
  sd_ID :: string
  sd_Type :: sess_type
  sd_Status :: sess_status
  sd_RepoName :: string
  sd_WorktreePath :: string
  sd_WorktreeName :: string
  sd_Prompt :: string
  sd_Title :: string
  sd_Model :: string
  sd_Backend :: string
  sd_LLMEndpoint :: "Endpoint option"
  sd_CreatedAt :: time
  sd_StartedAt :: "time option"
  sd_CompletedAt :: "time option"
  sd_ErrorMsg :: string
  sd_CLISessionID :: string
  sd_TmuxWindowName :: string
  sd_TmuxWindowID :: string
  sd_RunnerType :: string
  sd_ParentSessionID :: string
  sd_Progress :: "StoredProgress option"
  sd_Output :: "OutputLine list"

definition SessionToStored :: "bsession \<Rightarrow> string \<Rightarrow> OutputLine list \<Rightarrow> StoredSession" where
  "SessionToStored s repo lines =
    \<lparr>sd_ID = bs_ID s, sd_Type = bs_Type s, sd_Status = bs_Status s, sd_RepoName = repo, sd_WorktreePath = bs_WorktreePath s,
     sd_WorktreeName = bs_WorktreeName s, sd_Prompt = bs_Prompt s, sd_Title = bs_Title s, sd_Model = bs_Model s,
     sd_Backend = bs_Backend s,
     sd_LLMEndpoint = (if EndpointIsZero (bs_LLMEndpoint s) then None else Some (Redacted (bs_LLMEndpoint s))),
     sd_CreatedAt = bs_CreatedAt s, sd_StartedAt = bs_StartedAt s, sd_CompletedAt = bs_CompletedAt s,
     sd_ErrorMsg = (case bs_Error s of None \<Rightarrow> [] | Some e \<Rightarrow> e), sd_CLISessionID = bs_CLISessionID s,
     sd_TmuxWindowName = bs_TmuxWindowName s, sd_TmuxWindowID = bs_TmuxWindowID s, sd_RunnerType = bs_RunnerType s,
     sd_ParentSessionID = bs_ParentSessionID s,
     sd_Progress = map_option (\<lambda>p. \<lparr>sp_TurnCount = pg_TurnCount p, sp_TotalCostUSD = pg_TotalCostUSD p,
        sp_InputTokens = pg_InputTokens p, sp_OutputTokens = pg_OutputTokens p\<rparr>) (bs_Progress s),
     sd_Output = lines\<rparr>"

definition storedToSession :: "time \<Rightarrow> StoredSession \<Rightarrow> bsession" where
  "storedToSession now d =
    \<lparr>bs_CreatedAt = sd_CreatedAt d, bs_ctx = None, bs_Error = None, bs_Progress = Some (new_progress now),
     bs_StartedAt = sd_StartedAt d, bs_CompletedAt = sd_CompletedAt d, bs_WorktreeName = sd_WorktreeName d,
     bs_Prompt = sd_Prompt d, bs_Title = sd_Title d, bs_Model = sd_Model d, bs_Backend = sd_Backend d,
     bs_LLMEndpoint = (case sd_LLMEndpoint d of None \<Rightarrow> zero_endpoint | Some e \<Rightarrow> e), bs_PlanFilePath = [],
     bs_TmuxWindowName = [], bs_TmuxWindowID = [], bs_RunnerType = [], bs_RepoName = sd_RepoName d,
     bs_CLISessionID = sd_CLISessionID d, bs_ResearchFilePath = [], bs_ParentSessionID = sd_ParentSessionID d,
     bs_ID = sd_ID d, bs_WorktreePath = sd_WorktreePath d, bs_Status = sd_Status d, bs_Type = sd_Type d, bs_turnEpoch = 0\<rparr>"

text \<open>What the history shows of a record; its progress is that of the record.\<close>

definition StoredToSessionInfo :: "StoredSession \<Rightarrow> BSessionInfo" where
  "StoredToSessionInfo d =
    \<lparr>bi_CreatedAt = sd_CreatedAt d, bi_CompletedAt = sd_CompletedAt d, bi_StartedAt = sd_StartedAt d,
     bi_WorktreePath = sd_WorktreePath d, bi_WorktreeName = sd_WorktreeName d, bi_Prompt = sd_Prompt d, bi_Title = sd_Title d,
     bi_Model = sd_Model d, bi_Backend = sd_Backend d, bi_PlanFilePath = [], bi_TmuxWindowName = sd_TmuxWindowName d,
     bi_TmuxWindowID = sd_TmuxWindowID d, bi_RunnerType = sd_RunnerType d, bi_RepoName = [], bi_CLISessionID = sd_CLISessionID d,
     bi_ResearchFilePath = [], bi_ParentSessionID = sd_ParentSessionID d, bi_ID = sd_ID d, bi_Status = sd_Status d,
     bi_Type = sd_Type d, bi_ErrorMsg = sd_ErrorMsg d,
     bi_Progress = map_option (\<lambda>p. (new_progress 0)\<lparr>pg_TurnCount := sp_TurnCount p, pg_TotalCostUSD := sp_TotalCostUSD p,
        pg_InputTokens := sp_InputTokens p, pg_OutputTokens := sp_OutputTokens p\<rparr>) (sd_Progress d)\<rparr>"

record StoredMeta =
  st_CreatedAt :: time
  st_CompletedAt :: "time option"
  st_ID :: string
  st_Type :: sess_type
  st_Status :: sess_status
  st_RepoName :: string
  st_WorktreeName :: string
  st_Prompt :: string
  st_Title :: string
  st_Model :: string
  st_Backend :: string
  st_CLISessionID :: string
  st_TmuxWindowName :: string
  st_TmuxWindowID :: string
  st_RunnerType :: string
  st_ParentSessionID :: string

definition storedToMeta :: "StoredSession \<Rightarrow> StoredMeta" where
  "storedToMeta d =
    \<lparr>st_CreatedAt = sd_CreatedAt d, st_CompletedAt = sd_CompletedAt d, st_ID = sd_ID d, st_Type = sd_Type d,
     st_Status = sd_Status d, st_RepoName = sd_RepoName d, st_WorktreeName = sd_WorktreeName d, st_Prompt = sd_Prompt d,
     st_Title = sd_Title d, st_Model = sd_Model d, st_Backend = sd_Backend d, st_CLISessionID = sd_CLISessionID d,
     st_TmuxWindowName = sd_TmuxWindowName d, st_TmuxWindowID = sd_TmuxWindowID d, st_RunnerType = sd_RunnerType d,
     st_ParentSessionID = sd_ParentSessionID d\<rparr>"

section \<open>Paths\<close>

definition sanitizeName :: "string \<Rightarrow> string" where
  "sanitizeName name =
    replace_byte (CHR '' '') ''_'' (replace_byte (CHR '':'') ''_'' (replace_byte (CHR 0x5C) ''_'' (replace_byte (CHR ''/'') ''_'' name)))"

definition sanitizeFileName :: "string \<Rightarrow> string" where
  "sanitizeFileName name =
    concat (map (\<lambda>r. case r of [c] \<Rightarrow> if name_char c then [c] else ''_'' | _ \<Rightarrow> ''_'') (runes name))"

text \<open>\<open>filepath.Rel\<close>: what leads from one path to the other; none when that takes a name that is not known.\<close>

fun drop_common :: "string list \<Rightarrow> string list \<Rightarrow> string list \<times> string list" where
  "drop_common (b # bs) (t # ts) = (if b = t then drop_common bs ts else (b # bs, t # ts))"
| "drop_common bs ts = (bs, ts)"

definition Rel :: "string \<Rightarrow> string \<Rightarrow> string option" where
  "Rel base targ =
    (if Clean targ = Clean base then Some ''.''
     else if IsAbs base \<noteq> IsAbs targ then None
     else case drop_common (path_comps base) (if Clean targ = ''.'' then [''.''] else path_comps targ) of
         (bs, ts) \<Rightarrow>
           if bs \<noteq> [] \<and> hd bs = ''..'' then None
           else Some (join_with ''/'' (replicate (length bs) ''..'' @ ts)))"

definition containedPath :: "string \<Rightarrow> string list \<Rightarrow> string + string" where
  "containedPath base0 parts =
    (if list_ex (\<lambda>p. p = [] \<or> p = ''.'' \<or> p = ''..'' \<or> CHR ''/'' \<in> set p) parts then Inl ''refusing path component''
     else
       (let base = Clean base0;
            rooted = Clean (''/'' @ Join parts);
            joined = Join [base, rooted]
        in case Rel base joined of
            None \<Rightarrow> Inl ''refusing path outside the session store''
          | Some rel \<Rightarrow>
              if rel = ''..'' \<or> HasPrefix rel ''../'' then Inl ''refusing path outside the session store'' else Inr joined))"

definition sessionDir :: "string \<Rightarrow> string \<Rightarrow> string \<Rightarrow> string + string" where
  "sessionDir baseDir repo wt = containedPath baseDir [sanitizeName repo, sanitizeName wt]"

definition sessionPath :: "string \<Rightarrow> string \<Rightarrow> string \<Rightarrow> string \<Rightarrow> string + string" where
  "sessionPath baseDir repo wt i = containedPath baseDir [sanitizeName repo, sanitizeName wt, i @ ''.json'']"

section \<open>Operations\<close>

text \<open>
  A file has a record, or something that does not decode; the directories of worktrees stay when their
  files are removed. Encoding a record as JSON and decoding it is taken to give the record back.
\<close>

type_synonym store_files = "(string, StoredSession option) gomap"

record store =
  so_baseDir :: string
  so_dirs :: "string list"
  so_files :: store_files

text \<open>
  The write: the temporary file, its four operations and the rename. Each may fail, and then the
  temporary file is removed and the old contents stay.
\<close>

definition writeFileAtomic :: "bool list \<Rightarrow> string \<Rightarrow> StoredSession \<Rightarrow> store_files \<Rightarrow> bool \<times> store_files" where
  "writeFileAtomic ok path data fs = (if list_all id (take 5 ok) then (True, mput path (Some data) fs) else (False, fs))"

text \<open>\<open>io\<close> says whether the directory could be made and what the steps of the write answer.\<close>

definition SaveSession :: "bool \<times> bool list \<Rightarrow> StoredSession \<Rightarrow> store \<Rightarrow> string option \<times> store" where
  "SaveSession io d st =
    (if sd_ID d = [] then (Some ''session ID is empty'', st)
     else if sd_RepoName d = [] then (Some ''repo name is empty'', st)
     else if sd_WorktreeName d = [] then (Some ''worktree name is empty'', st)
     else case sessionDir (so_baseDir st) (sd_RepoName d) (sd_WorktreeName d) of
         Inl e \<Rightarrow> (Some e, st)
       | Inr dir \<Rightarrow>
           if \<not> fst io then (Some ''failed to create session directory'', st)
           else (let st1 = st\<lparr>so_dirs := List.insert dir (so_dirs st)\<rparr> in
             case sessionPath (so_baseDir st) (sd_RepoName d) (sd_WorktreeName d) (sd_ID d) of
               Inl e \<Rightarrow> (Some e, st1)
             | Inr path \<Rightarrow>
                 (case writeFileAtomic (snd io) path d (so_files st) of
                    (ok, fs) \<Rightarrow> (if ok then None else Some ''failed to write session file'', st1\<lparr>so_files := fs\<rparr>))))"

definition LoadSession :: "string \<Rightarrow> string \<Rightarrow> string \<Rightarrow> store \<Rightarrow> string + StoredSession" where
  "LoadSession repo wt i st =
    (case sessionPath (so_baseDir st) repo wt i of
       Inl e \<Rightarrow> Inl e
     | Inr path \<Rightarrow>
         (case map_of (so_files st) path of
            None \<Rightarrow> Inl ''session not found''
          | Some None \<Rightarrow> Inl ''failed to unmarshal session''
          | Some (Some d) \<Rightarrow> Inr d))"

definition DeleteStored :: "string \<Rightarrow> string \<Rightarrow> string \<Rightarrow> store \<Rightarrow> string option \<times> store" where
  "DeleteStored repo wt i st =
    (case sessionPath (so_baseDir st) repo wt i of
       Inl e \<Rightarrow> (Some e, st)
     | Inr path \<Rightarrow>
         (case map_of (so_files st) path of
            None \<Rightarrow> (Some ''session not found'', st)
          | Some x \<Rightarrow> (None, st\<lparr>so_files := mdel path (so_files st)\<rparr>)))"

text \<open>
  The records of the files that are kept, newest first; \<open>sort.Slice\<close> leaves the order of records of one
  time open, here they keep theirs.
\<close>

definition newest_first :: "StoredMeta list \<Rightarrow> StoredMeta list" where
  "newest_first ms = SliceStable (\<lambda>a b. st_CreatedAt a > st_CreatedAt b) ms"

definition metas :: "(string \<Rightarrow> bool) \<Rightarrow> store_files \<Rightarrow> StoredMeta list" where
  "metas keep fs =
    List.map_filter (\<lambda>(path, x). if keep path \<and> HasSuffix path ''.json'' then map_option storedToMeta x else None) fs"

text \<open>The path is the directory and one more name; that name.\<close>

definition entry_of :: "string \<Rightarrow> string \<Rightarrow> string option" where
  "entry_of dir path =
    (if IsAbs path = IsAbs dir \<and> path_comps path \<noteq> [] \<and> butlast (path_comps path) = path_comps dir
     then Some (last (path_comps path)) else None)"

definition ListSessions :: "string \<Rightarrow> string \<Rightarrow> store \<Rightarrow> string + StoredMeta list" where
  "ListSessions repo wt st =
    (case sessionDir (so_baseDir st) repo wt of
       Inl e \<Rightarrow> Inl e
     | Inr dir \<Rightarrow> Inr (newest_first (metas (\<lambda>p. entry_of dir p \<noteq> None) (so_files st))))"

definition ListAllSessions :: "store \<Rightarrow> StoredMeta list" where
  "ListAllSessions st = newest_first (metas (\<lambda>_. True) (so_files st))"

text \<open>The names of the directories below a directory, sorted.\<close>

definition ListWorktrees :: "string \<Rightarrow> store \<Rightarrow> string list" where
  "ListWorktrees repo st =
    SliceStable (<) (remdups (List.map_filter (entry_of (Join [so_baseDir st, sanitizeName repo])) (so_dirs st)))"

text \<open>A repository has a directory as soon as one of its worktrees has.\<close>

definition parent_dir :: "string \<Rightarrow> string" where
  "parent_dir p = render_path (IsAbs p) (butlast (path_comps p))"

definition ListRepos :: "store \<Rightarrow> string list" where
  "ListRepos st = SliceStable (<) (remdups (List.map_filter (\<lambda>d. entry_of (so_baseDir st) (parent_dir d)) (so_dirs st)))"

section \<open>Where a record is\<close>

lemma split_join_plain: "ps \<noteq> [] \<Longrightarrow> list_all plain_comp ps \<Longrightarrow> split_on (CHR ''/'') (join_with ''/'' ps) = ps"
  by (rule split_join) (auto simp: list_all_iff plain_comp_def)

lemma comps_ok_plain: "list_all plain_comp ps \<Longrightarrow> comps_ok r ps"
  unfolding comps_ok_def by (rule exI [of _ 0]) auto

lemma Join_plain_list:
  assumes "ps \<noteq> []" and "list_all plain_comp ps"
  shows "Join ps = join_with ''/'' ps"
proof -
  have ok: "comps_ok False ps" using assms(2) by (rule comps_ok_plain)
  have "filter (\<lambda>e. e \<noteq> []) ps = ps" using assms(2) by (auto simp: filter_id_conv list_all_iff plain_comp_def)
  then have "Join ps = Clean (join_with ''/'' ps)" using assms(1) by (simp add: Join_def)
  also have "join_with ''/'' ps = render_path False ps" using assms(1) by (simp add: render_path_def)
  also have "Clean (render_path False ps) = render_path False ps"
    by (simp add: Clean_comps IsAbs_render [OF ok] path_comps_render [OF ok])
  finally show ?thesis using assms(1) by (simp add: render_path_def)
qed

lemma clean_comps_append_plain:
  "list_all plain_comp ps \<Longrightarrow> clean_comps r (cs @ ps) = clean_comps r cs @ ps"
  by (simp add: clean_comps_def foldl_clean_plain)

lemma comps_ok_append: "comps_ok r cs \<Longrightarrow> list_all plain_comp ps \<Longrightarrow> comps_ok r (cs @ ps)"
proof -
  assume "comps_ok r cs" and p: "list_all plain_comp ps"
  then obtain n ds where c: "cs = replicate n ''..'' @ ds" "list_all plain_comp ds" "r \<longrightarrow> n = 0"
    by (auto simp: comps_ok_def)
  then have "cs @ ps = replicate n ''..'' @ (ds @ ps) \<and> list_all plain_comp (ds @ ps)" using p by simp
  then show ?thesis using c(3) unfolding comps_ok_def by blast
qed

lemma Join_two: "x \<noteq> [] \<Longrightarrow> y \<noteq> [] \<Longrightarrow> Join [x, y] = Clean (x @ CHR ''/'' # y)"
  by (simp add: Join_def)

lemma Join_below:
  assumes "ps \<noteq> []" and "list_all plain_comp ps"
  shows "Join [Clean b, Clean (CHR ''/'' # Join ps)] = render_path (IsAbs b) (path_comps b @ ps)"
proof -
  have ok: "comps_ok True ps" using assms(2) by (rule comps_ok_plain)
  have rooted: "CHR ''/'' # Join ps = render_path True ps" using assms by (simp add: Join_plain_list render_path_def)
  have cl: "Clean (render_path True ps) = CHR ''/'' # join_with ''/'' ps"
    by (simp add: Clean_comps IsAbs_render [OF ok] path_comps_render [OF ok]) (simp add: render_path_def)
  have "Join [Clean b, Clean (CHR ''/'' # Join ps)] = Clean (Clean b @ CHR ''/'' # CHR ''/'' # join_with ''/'' ps)"
    unfolding rooted cl by (rule Join_two) simp_all
  moreover have "IsAbs (Clean b @ CHR ''/'' # CHR ''/'' # join_with ''/'' ps) = IsAbs b"
    using Clean_ne [of b] IsAbs_Clean [of b] by (cases "Clean b") (auto simp: IsAbs_Cons)
  moreover have "split_on (CHR ''/'') (Clean b @ CHR ''/'' # CHR ''/'' # join_with ''/'' ps) =
      split_on (CHR ''/'') (Clean b) @ [] # ps"
    using assms split_on_append_sep [of "CHR ''/''" "Clean b" "CHR ''/'' # join_with ''/'' ps"]
    by (simp add: split_join_plain)
  moreover have "clean_comps r (cs @ [] # ps) = clean_comps r cs @ ps" for r cs
    using clean_comps_append_plain [OF assms(2), of r "cs @ [[]]"] by (simp add: clean_comps_snoc)
  moreover have "clean_comps (IsAbs b) (split_on (CHR ''/'') (Clean b)) = path_comps b"
    using path_comps_Clean [of b] by (simp add: path_comps_def)
  ultimately show ?thesis by (simp add: Clean_def)
qed

lemma drop_common_prefix: "drop_common bs (bs @ ts) = ([], ts)"
  by (induction bs) (cases ts, auto)

text \<open>The path is the base with exactly these names, and it is refused only for a name that is not plain.\<close>

lemma containedPath_eq:
  assumes "ps \<noteq> []"
  shows "containedPath b ps =
    (if list_all plain_comp ps then Inr (render_path (IsAbs b) (path_comps b @ ps)) else Inl ''refusing path component'')"
proof (cases "list_all plain_comp ps")
  case True
  let ?j = "render_path (IsAbs b) (path_comps b @ ps)"
  have ok: "comps_ok (IsAbs b) (path_comps b @ ps)" by (rule comps_ok_append [OF path_comps_ok True])
  have pj: "path_comps ?j = path_comps b @ ps" "IsAbs ?j = IsAbs b"
    using path_comps_render [OF ok] IsAbs_render [OF ok] by auto
  have "Clean ?j \<noteq> Clean b" using pj assms by (metis append_self_conv path_comps_Clean)
  moreover have "Clean ?j \<noteq> ''.''"
  proof
    assume "Clean ?j = ''.''"
    then have "path_comps ?j = path_comps ''.''" by (metis path_comps_Clean)
    moreover have "path_comps ''.'' = []" by code_simp
    ultimately show False using pj assms by simp
  qed
  ultimately have rel: "Rel (Clean b) ?j = Some (join_with ''/'' ps)"
    using pj by (simp add: Rel_def drop_common_prefix)
  have "hd (split_on (CHR ''/'') x) \<noteq> ''..''" if "x = join_with ''/'' ps" for x
    using that True assms by (cases ps) (auto simp: split_join_plain plain_comp_def)
  moreover have "hd (split_on (CHR ''/'') x) = ''..''" if "x = ''..'' \<or> HasPrefix x ''../''" for x
    using that by (auto simp: HasPrefix_def prefix_def)
  ultimately have "join_with ''/'' ps \<noteq> ''..'' \<and> \<not> HasPrefix (join_with ''/'' ps) ''../''" by blast
  moreover have "\<not> list_ex (\<lambda>p. p = [] \<or> p = ''.'' \<or> p = ''..'' \<or> CHR ''/'' \<in> set p) ps"
    using True by (auto simp: list_all_iff list_ex_iff plain_comp_def)
  ultimately show ?thesis
    using True by (simp add: containedPath_def Let_def Join_below [OF assms True] rel)
next
  case False
  then have "list_ex (\<lambda>p. p = [] \<or> p = ''.'' \<or> p = ''..'' \<or> CHR ''/'' \<in> set p) ps"
    by (auto simp: list_all_iff list_ex_iff plain_comp_def)
  then show ?thesis using False by (simp add: containedPath_def)
qed

text \<open>The key of a record: the three names of its path.\<close>

definition store_key :: "string \<Rightarrow> string \<Rightarrow> string \<Rightarrow> string list" where
  "store_key repo wt i = [sanitizeName repo, sanitizeName wt, i @ ''.json'']"

lemma sessionPath_eq:
  "sessionPath b repo wt i =
    (if list_all plain_comp (store_key repo wt i) then Inr (render_path (IsAbs b) (path_comps b @ store_key repo wt i))
     else Inl ''refusing path component'')"
  unfolding sessionPath_def store_key_def by (rule containedPath_eq) simp

lemma sessionPath_key:
  assumes "sessionPath b repo wt i = Inr p"
  shows "list_all plain_comp (store_key repo wt i)" and "path_comps p = path_comps b @ store_key repo wt i" and "IsAbs p = IsAbs b"
proof -
  show k: "list_all plain_comp (store_key repo wt i)" using assms by (simp add: sessionPath_eq split: if_splits)
  have "comps_ok (IsAbs b) (path_comps b @ store_key repo wt i)" by (rule comps_ok_append [OF path_comps_ok k])
  then show "path_comps p = path_comps b @ store_key repo wt i" "IsAbs p = IsAbs b"
    using assms k by (auto simp: sessionPath_eq path_comps_render IsAbs_render)
qed

lemma SaveSession_frame:
  assumes "SaveSession io d st = (r, st')"
  shows "so_baseDir st' = so_baseDir st"
    and "r \<noteq> None \<Longrightarrow> so_files st' = so_files st"
    and "r = None \<Longrightarrow> \<exists>p. sessionPath (so_baseDir st) (sd_RepoName d) (sd_WorktreeName d) (sd_ID d) = Inr p \<and>
        so_files st' = mput p (Some d) (so_files st)"
  using assms by (auto simp: SaveSession_def writeFileAtomic_def Let_def split: if_splits sum.splits)


definition sample_stored :: StoredSession where
  "sample_stored =
    \<lparr>sd_ID = ''s-1'', sd_Type = TypeBuilder, sd_Status = StatusCompleted, sd_RepoName = ''org/repo'', sd_WorktreePath = ''/w/a'',
     sd_WorktreeName = ''a'', sd_Prompt = ''p'', sd_Title = ''p'', sd_Model = ''sonnet'', sd_Backend = [], sd_LLMEndpoint = None,
     sd_CreatedAt = 1, sd_StartedAt = Some 2, sd_CompletedAt = Some 3, sd_ErrorMsg = [], sd_CLISessionID = ''c'',
     sd_TmuxWindowName = [], sd_TmuxWindowID = [], sd_RunnerType = ''tui'', sd_ParentSessionID = [], sd_Progress = None, sd_Output = []\<rparr>"

definition sample_store :: store where
  "sample_store = \<lparr>so_baseDir = ''/h/sessions'', so_dirs = [], so_files = []\<rparr>"


end
