(* ===== verification/BrambleManager.thy ===== *)
theory BrambleManager
  imports BrambleStore MultiagentTurn
begin

text \<open>
  The session manager of \<open>bramble\<close> (\<open>bramble/session/manager.go\<close>): its state, the changes of a status,
  the output, the store, and the calls that read or that are one critical section. Sessions are shared
  objects, so they live in a heap and the manager's map holds addresses: a goroutine keeps its object
  when the map has another one under the same identifier. Contexts are numbered; the one of a session is
  done when it was cancelled or the manager is closed. \<open>BrambleRuns\<close> has the goroutines and the calls
  whose sections interleave. What goes to the interface is the list of state changes; the buffered
  channel, which drops events when it is full, and the session models, which no caller fills, are left
  out.
\<close>

section \<open>State\<close>

record bconfig =
  bc_RepoName :: string
  bc_Tmux :: bool
  bc_InsideTmux :: bool
  bc_Provider :: bool
  bc_Registry :: "AgentModel list option"
  bc_env :: endpoint_env
  bc_fadd :: "rat \<Rightarrow> rat \<Rightarrow> rat"

record StateChange =
  sc_Info :: BSessionInfo
  sc_SessionID :: string
  sc_Old :: sess_status
  sc_New :: sess_status

text \<open>A follow-up channel has room for one message.\<close>

record fchan =
  fc_msg :: "string option"
  fc_closed :: bool

record bmanager =
  bm_heap :: "bsession list"
  bm_sessions :: "(string, nat) gomap"
  bm_outputs :: outputs
  bm_followUps :: "(string, nat) gomap"
  bm_chans :: "fchan list"
  bm_cancelled :: "bool list"
  bm_closed :: bool
  bm_store :: "store option"
  bm_events :: "StateChange list"

definition NewManager :: "store option \<Rightarrow> bmanager" where
  "NewManager st = \<lparr>bm_heap = [], bm_sessions = [], bm_outputs = [], bm_followUps = [], bm_chans = [], bm_cancelled = [],
     bm_closed = False, bm_store = st, bm_events = []\<rparr>"

definition obj :: "bmanager \<Rightarrow> nat \<Rightarrow> bsession" where
  "obj m a = bm_heap m ! a"

definition on_obj :: "nat \<Rightarrow> (bsession \<Rightarrow> bsession) \<Rightarrow> bmanager \<Rightarrow> bmanager" where
  "on_obj a f m = m\<lparr>bm_heap := (bm_heap m)[a := f (obj m a)]\<rparr>"

text \<open>\<open>context.WithCancel\<close> on the context of the manager, and whether a context is done.\<close>

definition new_ctx :: "bmanager \<Rightarrow> nat \<times> bmanager" where
  "new_ctx m = (length (bm_cancelled m), m\<lparr>bm_cancelled := bm_cancelled m @ [False]\<rparr>)"

definition ctx_done :: "bmanager \<Rightarrow> bsession \<Rightarrow> bool" where
  "ctx_done m s = (bm_closed m \<or> (case bs_ctx s of None \<Rightarrow> False | Some c \<Rightarrow> bm_cancelled m ! c))"

definition cancel_ctx :: "bsession \<Rightarrow> bmanager \<Rightarrow> bmanager" where
  "cancel_ctx s m = (case bs_ctx s of None \<Rightarrow> m | Some c \<Rightarrow> m\<lparr>bm_cancelled := (bm_cancelled m)[c := True]\<rparr>)"

section \<open>Status\<close>

definition mayLeaveStatus :: "sess_status \<Rightarrow> sess_status \<Rightarrow> bool" where
  "mayLeaveStatus old new = (\<not> SessIsTerminal old \<or> SessIsTerminal new)"

definition applySessionStatus :: "time \<Rightarrow> sess_status \<Rightarrow> bsession \<Rightarrow> bsession" where
  "applySessionStatus now new s =
    (let s1 = s\<lparr>bs_Status := new\<rparr> in
     if new = StatusRunning then
       s1\<lparr>bs_turnEpoch := bs_turnEpoch s + 1,
          bs_StartedAt := (if bs_Status s = StatusPending \<or> bs_StartedAt s = None then Some now else bs_StartedAt s)\<rparr>
     else if SessIsTerminal new then s1\<lparr>bs_CompletedAt := Some now\<rparr> else s1)"

definition emit_change :: "nat \<Rightarrow> sess_status \<Rightarrow> bmanager \<Rightarrow> bmanager" where
  "emit_change a old m =
    m\<lparr>bm_events := bm_events m @ [\<lparr>sc_Info = ToInfo (obj m a), sc_SessionID = bs_ID (obj m a), sc_Old = old,
      sc_New = bs_Status (obj m a)\<rparr>]\<rparr>"

definition updateSessionStatus :: "time \<Rightarrow> nat \<Rightarrow> sess_status \<Rightarrow> bmanager \<Rightarrow> bmanager" where
  "updateSessionStatus now a new m =
    (let old = bs_Status (obj m a) in
     if \<not> mayLeaveStatus old new then m else emit_change a old (on_obj a (applySessionStatus now new) m))"

definition failSession :: "time \<Rightarrow> nat \<Rightarrow> string \<Rightarrow> bmanager \<Rightarrow> bmanager" where
  "failSession now a e m =
    emit_change a (bs_Status (obj m a)) (on_obj a (\<lambda>s. applySessionStatus now StatusFailed (s\<lparr>bs_Error := Some e\<rparr>)) m)"

definition tryUpdateSessionStatus :: "time \<Rightarrow> nat \<Rightarrow> sess_status \<Rightarrow> sess_status \<Rightarrow> bmanager \<Rightarrow> bool \<times> bmanager" where
  "tryUpdateSessionStatus now a from to m =
    (let old = bs_Status (obj m a) in
     if old \<noteq> from \<or> \<not> mayLeaveStatus old to then (False, m)
     else (True, emit_change a old (on_obj a (applySessionStatus now to) m)))"

definition trySetStatus :: "time \<Rightarrow> string \<Rightarrow> sess_status \<Rightarrow> sess_status \<Rightarrow> bmanager \<Rightarrow> bool \<times> bmanager" where
  "trySetStatus now i from to m =
    (case map_of (bm_sessions m) i of None \<Rightarrow> (False, m) | Some a \<Rightarrow> tryUpdateSessionStatus now a from to m)"

definition SetSessionRunning :: "time \<Rightarrow> string \<Rightarrow> bmanager \<Rightarrow> bool \<times> bmanager" where
  "SetSessionRunning now i = trySetStatus now i StatusIdle StatusRunning"

definition SetSessionIdle :: "time \<Rightarrow> string \<Rightarrow> bmanager \<Rightarrow> bool \<times> bmanager" where
  "SetSessionIdle now i = trySetStatus now i StatusRunning StatusIdle"

section \<open>Output and store\<close>

definition bm_addOutput :: "string \<Rightarrow> OutputLine \<Rightarrow> bmanager \<Rightarrow> bmanager" where
  "bm_addOutput i line m = m\<lparr>bm_outputs := addOutput i line (bm_outputs m)\<rparr>"

definition error_line :: "time \<Rightarrow> string \<Rightarrow> OutputLine" where
  "error_line now text = out_line now OutError text"

definition persistSession :: "time \<Rightarrow> bool \<times> bool list \<Rightarrow> bconfig \<Rightarrow> nat \<Rightarrow> bmanager \<Rightarrow> bmanager" where
  "persistSession now io cfg a m =
    (case bm_store m of
       None \<Rightarrow> m
     | Some st \<Rightarrow>
         if bc_RepoName cfg = [] then m
         else (let s = obj m a;
                   lines = (case map_of (bm_outputs m) (bs_ID s) of None \<Rightarrow> [] | Some ls \<Rightarrow> ls)
               in case SaveSession io (SessionToStored s (bc_RepoName cfg) lines) st of
                   (None, st') \<Rightarrow> m\<lparr>bm_store := Some st'\<rparr>
                 | (Some e, st') \<Rightarrow>
                     bm_addOutput (bs_ID s) (error_line now (''Failed to persist session: '' @ e)) (m\<lparr>bm_store := Some st'\<rparr>)))"

text \<open>Removing a session from the maps of sessions and outputs.\<close>

definition forget_session :: "string \<Rightarrow> bmanager \<Rightarrow> bmanager" where
  "forget_session i m = m\<lparr>bm_sessions := mdel i (bm_sessions m), bm_outputs := mdel i (bm_outputs m)\<rparr>"

section \<open>Starting and tracking\<close>

fun title_words :: "nat \<Rightarrow> string list \<Rightarrow> string \<Rightarrow> string" where
  "title_words m [] acc = acc"
| "title_words m (w # ws) acc =
    (if length acc + length w + 1 > m then acc else title_words m ws (if acc = [] then w else acc @ '' '' @ w))"

definition generateTitle :: "string \<Rightarrow> nat \<Rightarrow> string" where
  "generateTitle prompt m =
    (let t = title_words m (Fields prompt) [] in
     if t = [] \<and> prompt \<noteq> [] then (if length prompt > m - 3 then take (m - 3) prompt @ ''...'' else prompt) else t)"

definition type_name :: "sess_type \<Rightarrow> string" where
  "type_name t = (case t of TypePlanner \<Rightarrow> ''planner'' | TypeBuilder \<Rightarrow> ''builder'' | TypeDelegator \<Rightarrow> ''delegator''
     | TypeCodeTalk \<Rightarrow> ''codetalk'' | TypeOther x \<Rightarrow> x)"

definition generateSessionID :: "string \<Rightarrow> string \<Rightarrow> sess_type \<Rightarrow> string" where
  "generateSessionID rand wt ty = wt @ ''-'' @ type_name ty @ ''-'' @ rand"

record SpawnOpts =
  op_ParentSessionID :: string
  op_Backend :: string
  op_LLMEndpoint :: Endpoint

definition new_session :: "time \<Rightarrow> bconfig \<Rightarrow> string \<Rightarrow> sess_type \<Rightarrow> string \<Rightarrow> string \<Rightarrow> nat \<Rightarrow> bsession" where
  "new_session now cfg i ty path wt ctx =
    \<lparr>bs_CreatedAt = now, bs_ctx = Some ctx, bs_Error = None, bs_Progress = Some (new_progress now), bs_StartedAt = None,
     bs_CompletedAt = None, bs_WorktreeName = wt, bs_Prompt = [], bs_Title = [], bs_Model = [], bs_Backend = [],
     bs_LLMEndpoint = zero_endpoint, bs_PlanFilePath = [], bs_TmuxWindowName = [], bs_TmuxWindowID = [], bs_RunnerType = [],
     bs_RepoName = bc_RepoName cfg, bs_CLISessionID = [], bs_ResearchFilePath = [], bs_ParentSessionID = [], bs_ID = i,
     bs_WorktreePath = path, bs_Status = StatusPending, bs_Type = ty, bs_turnEpoch = 0\<rparr>"

text \<open>A session becomes an object, gets its entry in the map and an empty output.\<close>

definition insert_session :: "bsession \<Rightarrow> bmanager \<Rightarrow> nat \<times> bmanager" where
  "insert_session s m =
    (length (bm_heap m),
     m\<lparr>bm_heap := bm_heap m @ [s], bm_sessions := mput (bs_ID s) (length (bm_heap m)) (bm_sessions m),
       bm_outputs := mput (bs_ID s) [] (bm_outputs m)\<rparr>)"

text \<open>The result is an error or the address of the session whose run is to be started.\<close>

definition startSessionWithID ::
  "time \<Rightarrow> bconfig \<Rightarrow> string \<Rightarrow> sess_type \<Rightarrow> string \<Rightarrow> string \<Rightarrow> string \<Rightarrow> string \<Rightarrow> SpawnOpts \<Rightarrow> bmanager \<Rightarrow> (string + nat) \<times> bmanager" where
  "startSessionWithID now cfg i ty path wt prompt model0 opts m =
    (case spawn_checks (bc_env cfg) (bc_Registry cfg) (bm_store m \<noteq> None) ty model0 (op_Backend opts) (op_LLMEndpoint opts) of
       Inl e \<Rightarrow> (Inl e, m)
     | Inr model \<Rightarrow>
         (case new_ctx m of (c, m1) \<Rightarrow>
          (case insert_session ((new_session now cfg i ty path wt c)
              \<lparr>bs_Prompt := prompt, bs_Title := generateTitle prompt 20, bs_Model := model, bs_Backend := op_Backend opts,
               bs_LLMEndpoint := op_LLMEndpoint opts, bs_ParentSessionID := op_ParentSessionID opts\<rparr>) m1 of
             (a, m2) \<Rightarrow> (Inr a, m2))))"

definition StartSessionWithOpts ::
  "time \<Rightarrow> string \<Rightarrow> bconfig \<Rightarrow> sess_type \<Rightarrow> string \<Rightarrow> string \<Rightarrow> string \<Rightarrow> SpawnOpts \<Rightarrow> bmanager \<Rightarrow> (string + nat) \<times> bmanager" where
  "StartSessionWithOpts now rand cfg ty path prompt model opts m =
    startSessionWithID now cfg (generateSessionID rand (Base path) ty) ty path (Base path) prompt model opts m"

definition TrackTmuxWindow :: "time \<Rightarrow> string \<Rightarrow> bconfig \<Rightarrow> string \<Rightarrow> string \<Rightarrow> string \<Rightarrow> bmanager \<Rightarrow> (string + nat) \<times> bmanager" where
  "TrackTmuxWindow now rand cfg path name win m =
    (if \<not> bc_Tmux cfg then (Inl ''track tmux window is only available in tmux mode'', m)
     else if TrimSpace path = [] then (Inl ''worktree path is empty'', m)
     else if TrimSpace name = [] then (Inl ''tmux window name is empty'', m)
     else if TrimSpace win = [] then (Inl ''tmux window ID is empty'', m)
     else
       (case new_ctx m of (c, m1) \<Rightarrow>
        (case insert_session ((new_session now cfg (generateSessionID rand (Base path) TypeBuilder) TypeBuilder path (Base path) c)
            \<lparr>bs_Prompt := ''Manual tmux window'', bs_Title := name, bs_TmuxWindowName := name, bs_TmuxWindowID := win,
             bs_RunnerType := ''tmux-tracked''\<rparr>) m1 of
           (a, m2) \<Rightarrow> (Inr a, updateSessionStatus now a StatusRunning m2))))"

section \<open>Reading\<close>

definition bm_info :: "bmanager \<Rightarrow> string \<Rightarrow> BSessionInfo option" where
  "bm_info m i = map_option (\<lambda>a. ToInfo (obj m a)) (map_of (bm_sessions m) i)"

definition newer_info :: "BSessionInfo \<Rightarrow> BSessionInfo \<Rightarrow> bool" where
  "newer_info x y = (if bi_CreatedAt x = bi_CreatedAt y then bi_ID x < bi_ID y else bi_CreatedAt x > bi_CreatedAt y)"

definition sortSessionsByTime :: "BSessionInfo list \<Rightarrow> BSessionInfo list" where
  "sortSessionsByTime = SliceStable newer_info"

definition GetSessionsForWorktree :: "bmanager \<Rightarrow> string \<Rightarrow> BSessionInfo list" where
  "GetSessionsForWorktree m path =
    sortSessionsByTime (map (\<lambda>p. ToInfo (obj m (snd p))) (filter (\<lambda>p. bs_WorktreePath (obj m (snd p)) = path) (bm_sessions m)))"

definition ActiveWorktreePaths :: "bmanager \<Rightarrow> string set" where
  "ActiveWorktreePaths m =
    {bs_WorktreePath (obj m a) | a. a \<in> snd ` set (bm_sessions m) \<and> bs_WorktreePath (obj m a) \<noteq> [] \<and> \<not> SessIsTerminal (bs_Status (obj m a))}"

definition GetSessionOutput :: "bmanager \<Rightarrow> string \<Rightarrow> OutputLine list" where
  "GetSessionOutput m i = (case map_of (bm_outputs m) i of None \<Rightarrow> [] | Some ls \<Rightarrow> ls)"

definition bm_recent :: "bmanager \<Rightarrow> string \<Rightarrow> int \<Rightarrow> string list" where
  "bm_recent m i n = (case map_of (bm_outputs m) i of None \<Rightarrow> [] | Some ls \<Rightarrow> RecentAssistantTextFromSlice ls n)"

definition GetAllSessions :: "bmanager \<Rightarrow> BSessionInfo list" where
  "GetAllSessions m =
    sortSessionsByTime (map (\<lambda>p.
      (let s = obj m (snd p); info = ToInfo s in
       if isTmuxRunner (bi_RunnerType info) then info
       else info\<lparr>bi_Progress := map_option (\<lambda>q. q\<lparr>pg_RecentOutput := bm_recent m (bs_ID s) RecentOutputDisplayLines\<rparr>) (bi_Progress info)\<rparr>))
      (bm_sessions m))"

definition CountByStatus :: "bmanager \<Rightarrow> sess_status \<Rightarrow> nat" where
  "CountByStatus m st = length (filter (\<lambda>p. bs_Status (obj m (snd p)) = st) (bm_sessions m))"

text \<open>The window of a session that runs in tmux.\<close>

definition ResolveTmuxTarget :: "bmanager \<Rightarrow> string \<Rightarrow> string + string" where
  "ResolveTmuxTarget m i =
    (case map_of (bm_sessions m) i of
       None \<Rightarrow> Inl ''session not found''
     | Some a \<Rightarrow>
         (let info = ToInfo (obj m a) in
          if \<not> isTmuxRunner (bi_RunnerType info) then Inl ''not a tmux session''
          else if TmuxTarget info = [] then Inl ''no tmux window target'' else Inr (TmuxTarget info)))"

definition CapturePaneText :: "(string \<Rightarrow> int \<Rightarrow> string list option) \<Rightarrow> bmanager \<Rightarrow> string \<Rightarrow> int \<Rightarrow> string + string list" where
  "CapturePaneText capture m i n =
    (case ResolveTmuxTarget m i of
       Inl e \<Rightarrow> Inl e
     | Inr target \<Rightarrow> (case capture target (if n \<le> 0 then 10 else n) of None \<Rightarrow> Inl ''capture failed'' | Some ls \<Rightarrow> Inr ls))"

text \<open>What is written for the parent of a session: the text of the assistant, a line after each.\<close>

definition research_text :: "OutputLine list \<Rightarrow> string" where
  "research_text lines =
    concat (map (\<lambda>l. ol_Content l @ [CHR 0x0A]) (filter (\<lambda>l. ol_Type l = OutText \<and> \<not> ol_IsUserPrompt l) lines))"

section \<open>Deleting, stopping and reconciling\<close>

definition newPaneIdleTrackerForModel :: "bconfig \<Rightarrow> string \<Rightarrow> string \<Rightarrow> paneIdleTracker option" where
  "newPaneIdleTrackerForModel cfg model backend =
    (case resolveAgentModel model backend (bc_Registry cfg) of Inl e \<Rightarrow> None | Inr am \<Rightarrow> newPaneIdleTracker (am_Provider am))"

text \<open>
  One record of the pass over the store: nothing, a session that is gone and is announced as completed,
  or a session that is adopted again, with its address.
\<close>

record window_world =
  ww_alive :: "string \<Rightarrow> string \<Rightarrow> bool"
  ww_dirExists :: "string \<Rightarrow> bool"

definition stored_gone :: "window_world \<Rightarrow> StoredSession \<Rightarrow> bool" where
  "stored_gone w d = (\<not> ww_alive w (sd_TmuxWindowID d) (sd_TmuxWindowName d) \<or>
    (sd_TmuxWindowID d = [] \<and> sd_WorktreePath d \<noteq> [] \<and> \<not> ww_dirExists w (sd_WorktreePath d)))"

definition reconcile_record ::
  "time \<Rightarrow> bool \<times> bool list \<Rightarrow> window_world \<Rightarrow> bconfig \<Rightarrow> string \<Rightarrow> StoredMeta \<Rightarrow> bmanager \<Rightarrow> nat option \<times> bmanager" where
  "reconcile_record now io w cfg wt meta m =
    (if \<not> isTmuxRunner (st_RunnerType meta) \<or> SessIsTerminal (st_Status meta) \<or> map_of (bm_sessions m) (st_ID meta) \<noteq> None
     then (None, m)
     else case bm_store m of None \<Rightarrow> (None, m) | Some st \<Rightarrow>
       (case LoadSession (bc_RepoName cfg) wt (st_ID meta) st of
          Inl e \<Rightarrow> (None, m)
        | Inr d \<Rightarrow>
            if stored_gone w d then
              (if SessIsTerminal (sd_Status d) then (None, m)
               else (let d1 = d\<lparr>sd_Status := StatusCompleted, sd_CompletedAt := Some now\<rparr> in
                 (None, m\<lparr>bm_store := Some (snd (SaveSession io d1 st)),
                   bm_events := bm_events m @ [\<lparr>sc_Info = StoredToSessionInfo d1, sc_SessionID = sd_ID d1, sc_Old = sd_Status d,
                     sc_New = StatusCompleted\<rparr>]\<rparr>)))
            else
              (case new_ctx m of (c, m1) \<Rightarrow>
               (case insert_session ((storedToSession now d)\<lparr>bs_TmuxWindowName := sd_TmuxWindowName d,
                   bs_TmuxWindowID := sd_TmuxWindowID d, bs_RunnerType := sd_RunnerType d, bs_RepoName := bc_RepoName cfg,
                   bs_ctx := Some c\<rparr>) m1 of
                  (a, m2) \<Rightarrow> (Some a, emit_change a (sd_Status d) m2)))))"

text \<open>Which other repositories have to be opened so that their sessions can be settled.\<close>

definition repoHasUnreconciledTmuxSession :: "store \<Rightarrow> string \<Rightarrow> bool" where
  "repoHasUnreconciledTmuxSession st repo =
    list_ex (\<lambda>wt. case ListSessions repo wt st of
        Inl e \<Rightarrow> False
      | Inr ms \<Rightarrow> list_ex (\<lambda>x. isTmuxRunner (st_RunnerType x) \<and> \<not> SessIsTerminal (st_Status x)) ms)
      (ListWorktrees repo st)"

definition reposWithUnreconciledTmuxSessions :: "store \<Rightarrow> string \<Rightarrow> string list" where
  "reposWithUnreconciledTmuxSessions st active =
    filter (\<lambda>r. r \<noteq> active \<and> repoHasUnreconciledTmuxSession st r) (ListRepos st)"

end
