(* ===== verification/BrambleRuns.thy ===== *)
theory BrambleRuns
  imports BrambleManager
begin

text \<open>
  The goroutines and calls of the session manager whose critical sections interleave
  (\<open>bramble/session/manager.go\<close>): \<open>ResumeSession\<close>, \<open>SendFollowUp\<close>, \<open>CompleteSession\<close>, \<open>StopSession\<close>,
  \<open>DeleteSession\<close>, \<open>Close\<close>, and the goroutines \<open>runSession\<close> and \<open>monitorTrackedTmuxWindow\<close>. Each is a
  thread with a program counter; \<open>bm_step\<close> starts a call or lets one thread take its next section, with
  the answers of the outside (the agent, tmux, the disk, the clock) as arguments. A send on a closed
  channel panics, which ends the program. The protocol logs, the rendering of a pane into its status
  line, and the channels of the runners are left out; the child notifications of a delegator are answers.
\<close>

section \<open>Threads\<close>

datatype bthread =
    ThreadDone "string option"
  | ResumeLookup string string
  | ResumeInsert string string StoredSession
  | ResumeCheck string string nat
  | ResumeReset string string nat
  | ResumeSpawn string string nat
  | FollowLookup string string
  | FollowChan string string
  | FollowSend nat string
  | CompleteLookup string
  | CompleteClose string
  | StopLookup string
  | StopCancel nat
  | DeleteLookup string
  | DeleteOutput string nat
  | DeleteStore string nat
  | ClosePersist
  | CloseCancel
  | RunBegin nat string
  | RunResolve nat string
  | RunMode nat string AgentModel
  | RunStart nat string AgentModel
  | RunOpen nat string AgentModel
  | RunTurn nat string nat AgentModel
  | RunSettle nat nat AgentModel
  | RunWait nat nat AgentModel
  | RunTmux nat time "paneIdleTracker option"
  | RunGone nat
  | RunFailed nat string bool
  | RunErrorLine nat string
  | RunStop nat
  | RunSave nat
  | MonitorWatch nat "string list option" "paneIdleTracker option"
  | MonitorSave nat bool

record run_usage =
  ru_CostUSD :: rat
  ru_InputTokens :: int
  ru_OutputTokens :: int
  ru_ContextWindow :: int
  ru_TotalInput :: int

text \<open>What the pane of a tracked window shows: its content, and the status line if there is one.\<close>

record pane_status =
  pa_Model :: string
  pa_ContextPct :: string
  pa_StatusLine :: string
  pa_IsWorking :: bool

text \<open>Which ready case a \<open>select\<close> takes.\<close>

datatype pick = PickDone | PickChan | PickChild string sess_status | PickTick | PickCapture

record answer =
  an_now :: time
  an_io :: "bool \<times> bool list"
  an_start :: "string option"
  an_cli :: string
  an_windowName :: string
  an_windowID :: string
  an_turn :: "string + run_usage option"
  an_durationMs :: int
  an_plan :: "(string \<times> string option) option"
  an_research :: "string option"
  an_children :: "(string \<times> sess_status) list"
  an_pick :: pick
  an_alive :: "string \<Rightarrow> string \<Rightarrow> bool"
  an_notified :: "string \<Rightarrow> bool"
  an_paneDead :: "string \<Rightarrow> bool"
  an_exit :: "string \<Rightarrow> int option"
  an_capture :: "string \<Rightarrow> string list option"
  an_content :: "(string list \<times> pane_status option) option"

section \<open>Calls\<close>

text \<open>One step: the state and the threads that this thread becomes; a panic is none.\<close>

type_synonym outcome = "(bmanager \<times> bthread list) option"

definition thread_done :: "string option \<Rightarrow> bmanager \<Rightarrow> outcome" where
  "thread_done e m = Some (m, [ThreadDone e])"

definition next_pc :: "bthread \<Rightarrow> bmanager \<Rightarrow> outcome" where
  "next_pc t m = Some (m, [t])"

text \<open>\<open>rehydrateSession\<close> looks through the worktrees of the repository.\<close>

definition stored_session :: "bconfig \<Rightarrow> string \<Rightarrow> bmanager \<Rightarrow> StoredSession option" where
  "stored_session cfg i m =
    (case bm_store m of
       None \<Rightarrow> None
     | Some st \<Rightarrow>
         if bc_RepoName cfg = [] then None
         else (case List.map_filter (\<lambda>wt. case LoadSession (bc_RepoName cfg) wt i st of Inl e \<Rightarrow> None | Inr d \<Rightarrow> Some d)
                  (ListWorktrees (bc_RepoName cfg) st) of
             [] \<Rightarrow> None | d # ds \<Rightarrow> Some d))"

definition resume_lookup :: "bconfig \<Rightarrow> string \<Rightarrow> string \<Rightarrow> bmanager \<Rightarrow> outcome" where
  "resume_lookup cfg i prompt m =
    (case map_of (bm_sessions m) i of
       Some a \<Rightarrow> next_pc (ResumeCheck i prompt a) m
     | None \<Rightarrow>
         (case stored_session cfg i m of
            None \<Rightarrow> thread_done (Some ''session not found'') m
          | Some d \<Rightarrow> next_pc (ResumeInsert i prompt d) m))"

text \<open>The object of the stored session goes into the map, over one that may have come meanwhile.\<close>

definition resume_insert :: "time \<Rightarrow> string \<Rightarrow> string \<Rightarrow> StoredSession \<Rightarrow> bmanager \<Rightarrow> outcome" where
  "resume_insert now i prompt d m =
    next_pc (ResumeCheck i prompt (length (bm_heap m)))
      (m\<lparr>bm_heap := bm_heap m @ [storedToSession now d], bm_sessions := mput i (length (bm_heap m)) (bm_sessions m)\<rparr>)"

definition resume_check :: "string \<Rightarrow> string \<Rightarrow> nat \<Rightarrow> bmanager \<Rightarrow> outcome" where
  "resume_check i prompt a m =
    (if bs_CLISessionID (obj m a) = [] then thread_done (Some ''session has no CLI session ID'') m
     else if SessIsTerminal (bs_Status (obj m a)) then
       (case new_ctx m of (c, m1) \<Rightarrow>
          next_pc (ResumeReset i prompt a)
            (on_obj a (\<lambda>s. s\<lparr>bs_Status := StatusPending, bs_Error := None, bs_CompletedAt := None, bs_ctx := Some c\<rparr>) m1))
     else thread_done (Some ''can only resume completed/failed/stopped sessions'') m)"

definition resume_reset :: "string \<Rightarrow> string \<Rightarrow> nat \<Rightarrow> bmanager \<Rightarrow> outcome" where
  "resume_reset i prompt a m = next_pc (ResumeSpawn i prompt a) (m\<lparr>bm_outputs := mput i [] (bm_outputs m)\<rparr>)"

definition resume_spawn :: "time \<Rightarrow> string \<Rightarrow> string \<Rightarrow> nat \<Rightarrow> bmanager \<Rightarrow> outcome" where
  "resume_spawn now i prompt a m =
    Some (bm_addOutput i (out_line now OutStatus
        (''Resuming session (CLI session: '' @ take 12 (bs_CLISessionID (obj m a)) @ '')...'')) m,
      [ThreadDone None, RunBegin a prompt])"

definition follow_lookup :: "string \<Rightarrow> string \<Rightarrow> bmanager \<Rightarrow> outcome" where
  "follow_lookup i msg m =
    (case map_of (bm_sessions m) i of
       None \<Rightarrow> thread_done (Some ''session not found'') m
     | Some a \<Rightarrow>
         if bs_Status (obj m a) \<noteq> StatusIdle then thread_done (Some ''session is not idle'') m else next_pc (FollowChan i msg) m)"

definition follow_chan :: "string \<Rightarrow> string \<Rightarrow> bmanager \<Rightarrow> outcome" where
  "follow_chan i msg m =
    (case map_of (bm_followUps m) i of
       None \<Rightarrow> thread_done (Some ''no follow-up channel'') m | Some c \<Rightarrow> next_pc (FollowSend c msg) m)"

definition on_chan :: "nat \<Rightarrow> (fchan \<Rightarrow> fchan) \<Rightarrow> bmanager \<Rightarrow> bmanager" where
  "on_chan c f m = m\<lparr>bm_chans := (bm_chans m)[c := f (bm_chans m ! c)]\<rparr>"

definition follow_send :: "nat \<Rightarrow> string \<Rightarrow> bmanager \<Rightarrow> outcome" where
  "follow_send c msg m =
    (if fc_closed (bm_chans m ! c) then None
     else if fc_msg (bm_chans m ! c) = None then thread_done None (on_chan c (fc_msg_update (\<lambda>_. Some msg)) m)
     else thread_done (Some ''follow-up channel full'') m)"

definition complete_lookup :: "string \<Rightarrow> bmanager \<Rightarrow> outcome" where
  "complete_lookup i m =
    (case map_of (bm_sessions m) i of
       None \<Rightarrow> thread_done (Some ''session not found'') m
     | Some a \<Rightarrow>
         if bs_Status (obj m a) \<noteq> StatusIdle then thread_done (Some ''session is not idle'') m else next_pc (CompleteClose i) m)"

text \<open>Closing a closed channel panics too.\<close>

definition complete_close :: "string \<Rightarrow> bmanager \<Rightarrow> outcome" where
  "complete_close i m =
    (case map_of (bm_followUps m) i of
       None \<Rightarrow> thread_done None m
     | Some c \<Rightarrow>
         if fc_closed (bm_chans m ! c) then None
         else thread_done None ((on_chan c (fc_closed_update (\<lambda>_. True)) m)\<lparr>bm_followUps := mdel i (bm_followUps m)\<rparr>))"

definition stop_lookup :: "string \<Rightarrow> bmanager \<Rightarrow> outcome" where
  "stop_lookup i m =
    (case map_of (bm_sessions m) i of
       None \<Rightarrow> thread_done (Some ''session not found'') m
     | Some a \<Rightarrow> if SessIsTerminal (bs_Status (obj m a)) then thread_done (Some ''session not active'') m else next_pc (StopCancel a) m)"

definition delete_lookup :: "string \<Rightarrow> bmanager \<Rightarrow> outcome" where
  "delete_lookup i m =
    (case map_of (bm_sessions m) i of
       None \<Rightarrow> thread_done (Some ''session not found'') m
     | Some a \<Rightarrow>
         if \<not> SessIsTerminal (bs_Status (obj m a)) \<and> bs_Status (obj m a) \<noteq> StatusIdle
         then thread_done (Some ''cannot delete session'') m
         else next_pc (DeleteOutput i a) (m\<lparr>bm_sessions := mdel i (bm_sessions m)\<rparr>))"

definition delete_store :: "bconfig \<Rightarrow> string \<Rightarrow> nat \<Rightarrow> bmanager \<Rightarrow> outcome" where
  "delete_store cfg i a m =
    thread_done None (case bm_store m of
        None \<Rightarrow> m
      | Some st \<Rightarrow>
          if bc_RepoName cfg = [] then m
          else m\<lparr>bm_store := Some (snd (DeleteStored (bc_RepoName cfg) (bs_WorktreeName (obj m a)) i st))\<rparr>)"

definition close_persist :: "time \<Rightarrow> bool \<times> bool list \<Rightarrow> bconfig \<Rightarrow> bmanager \<Rightarrow> outcome" where
  "close_persist now io cfg m =
    next_pc CloseCancel (if bc_Tmux cfg \<and> bm_store m \<noteq> None then fold (\<lambda>p. persistSession now io cfg (snd p)) (bm_sessions m) m else m)"

definition close_cancel :: "bmanager \<Rightarrow> outcome" where
  "close_cancel m =
    thread_done None (fold (\<lambda>p m. cancel_ctx (obj m (snd p)) m) (bm_sessions m) (m\<lparr>bm_closed := True\<rparr>))"

section \<open>A run\<close>

text \<open>What a delegator cannot run with; none when it can or when the session is no delegator.\<close>

definition delegator_unsupported :: "bconfig \<Rightarrow> bsession \<Rightarrow> AgentModel \<Rightarrow> string option" where
  "delegator_unsupported cfg s am =
    (if bs_Type s \<noteq> TypeDelegator then None
     else if bc_Tmux cfg then Some ''tmux session mode''
     else if bc_Provider cfg then Some ''pluggable provider backend''
     else if am_Provider am \<noteq> ''claude'' then Some ''provider''
     else if \<not> EndpointIsZero (bs_LLMEndpoint s) then Some ''a per-session LLM endpoint''
     else None)"

definition run_resolve :: "time \<Rightarrow> bconfig \<Rightarrow> nat \<Rightarrow> string \<Rightarrow> bmanager \<Rightarrow> outcome" where
  "run_resolve now cfg a prompt m =
    (let s = obj m a in
     case run_checks (bc_env cfg) (bc_Registry cfg) (bs_Model s) (bs_Backend s) (bs_LLMEndpoint s) of
       Inl e \<Rightarrow> next_pc (RunFailed a e True) (failSession now a e m)
     | Inr am \<Rightarrow>
         (case delegator_unsupported cfg s am of
            Some e \<Rightarrow> next_pc (RunFailed a e True) (failSession now a e m)
          | None \<Rightarrow> next_pc (RunMode a prompt am) m))"

text \<open>The runner is chosen; only the built-in ones depend on the type, and they refuse an unknown one.\<close>

definition builtin_runner :: "bconfig \<Rightarrow> AgentModel \<Rightarrow> bool" where
  "builtin_runner cfg am = (\<not> bc_Tmux cfg \<and> \<not> bc_Provider cfg \<and> am_Provider am \<notin> {''codex'', ''gemini'', ''cursor'', ''agy''})"

definition run_mode :: "answer \<Rightarrow> bconfig \<Rightarrow> nat \<Rightarrow> string \<Rightarrow> AgentModel \<Rightarrow> bmanager \<Rightarrow> outcome" where
  "run_mode an cfg a prompt am m =
    (let m1 = on_obj a (\<lambda>s. if bc_Tmux cfg then s\<lparr>bs_TmuxWindowName := an_windowName an, bs_RunnerType := ''tmux''\<rparr>
         else s\<lparr>bs_RunnerType := ''tui''\<rparr>) m
     in case (builtin_runner cfg am, bs_Type (obj m a)) of
         (True, TypeOther t) \<Rightarrow>
           next_pc (RunFailed a (''unknown session type: '' @ t) False) (failSession (an_now an) a (''unknown session type: '' @ t) m1)
       | _ \<Rightarrow> next_pc (RunStart a prompt am) m1)"

definition run_start :: "answer \<Rightarrow> bconfig \<Rightarrow> nat \<Rightarrow> string \<Rightarrow> AgentModel \<Rightarrow> bmanager \<Rightarrow> outcome" where
  "run_start an cfg a prompt am m =
    (case an_start an of
       Some e \<Rightarrow> next_pc (RunFailed a (''Failed to start session: '' @ e) True) (failSession (an_now an) a e m)
     | None \<Rightarrow>
         next_pc (RunOpen a prompt am)
           (on_obj a (\<lambda>s. s\<lparr>bs_CLISessionID := (if an_cli an \<noteq> [] then an_cli an else bs_CLISessionID s),
              bs_TmuxWindowID := (if bc_Tmux cfg \<and> bs_TmuxWindowID s = [] then an_windowID an else bs_TmuxWindowID s)\<rparr>) m))"

definition run_open :: "answer \<Rightarrow> bconfig \<Rightarrow> nat \<Rightarrow> string \<Rightarrow> AgentModel \<Rightarrow> bmanager \<Rightarrow> outcome" where
  "run_open an cfg a prompt am m =
    (if bc_Tmux cfg then
       next_pc (RunTmux a (an_now an) (newPaneIdleTrackerForModel cfg (bs_Model (obj m a)) (bs_Backend (obj m a))))
         (snd (tryUpdateSessionStatus (an_now an) a StatusPending StatusRunning m))
     else
       next_pc (RunTurn a prompt (length (bm_chans m)) am)
         (m\<lparr>bm_chans := bm_chans m @ [\<lparr>fc_msg = None, fc_closed = False\<rparr>],
            bm_followUps := mput (bs_ID (obj m a)) (length (bm_chans m)) (bm_followUps m)\<rparr>))"

definition add_usage :: "bconfig \<Rightarrow> run_usage \<Rightarrow> SessionProgress \<Rightarrow> SessionProgress" where
  "add_usage cfg u p =
    p\<lparr>pg_TurnCount := pg_TurnCount p + 1, pg_TotalCostUSD := bc_fadd cfg (pg_TotalCostUSD p) (ru_CostUSD u),
      pg_InputTokens := pg_InputTokens p + ru_InputTokens u, pg_OutputTokens := pg_OutputTokens p + ru_OutputTokens u,
      pg_ContextWindow := (if ru_ContextWindow u > 0 then ru_ContextWindow u else pg_ContextWindow p),
      pg_LastTurnInputTotal := (if ru_TotalInput u > 0 then ru_TotalInput u else pg_LastTurnInputTotal p)\<rparr>"

definition end_turn :: "answer \<Rightarrow> bconfig \<Rightarrow> nat \<Rightarrow> run_usage \<Rightarrow> bmanager \<Rightarrow> bmanager" where
  "end_turn an cfg a u m =
    (let m1 = on_obj a (\<lambda>s. s\<lparr>bs_Progress := map_option (add_usage cfg u) (bs_Progress s)\<rparr>) m;
         n = (case bs_Progress (obj m1 a) of None \<Rightarrow> 0 | Some p \<Rightarrow> pg_TurnCount p)
     in bm_addOutput (bs_ID (obj m a)) ((out_line (an_now an) OutTurnEnd (''Turn '' @ Itoa n @ '' complete''))
          \<lparr>ol_TurnNumber := n, ol_CostUSD := ru_CostUSD u, ol_DurationMs := an_durationMs an\<rparr>) m1)"

text \<open>The plan of a planner and the research file of a session with a parent.\<close>

definition after_turn :: "answer \<Rightarrow> nat \<Rightarrow> bmanager \<Rightarrow> bmanager" where
  "after_turn an a m =
    (let m1 = (case an_plan an of
         Some (path, text) \<Rightarrow>
           (let m0 = on_obj a (\<lambda>s. s\<lparr>bs_PlanFilePath := path\<rparr>) m in
            case text of None \<Rightarrow> m0 | Some t \<Rightarrow> bm_addOutput (bs_ID (obj m a)) (out_line (an_now an) OutPlanReady t) m0)
       | None \<Rightarrow> m)
     in if bs_Type (obj m a) = TypeCodeTalk \<or> bs_ParentSessionID (obj m a) \<noteq> [] then
          (case an_research an of None \<Rightarrow> m1 | Some path \<Rightarrow> on_obj a (\<lambda>s. s\<lparr>bs_ResearchFilePath := path\<rparr>) m1)
        else m1)"

definition run_turn :: "answer \<Rightarrow> bconfig \<Rightarrow> nat \<Rightarrow> nat \<Rightarrow> AgentModel \<Rightarrow> bmanager \<Rightarrow> outcome" where
  "run_turn an cfg a c am m =
    (case an_turn an of
       Inl e \<Rightarrow>
         if ctx_done m (obj m a) then next_pc (RunStop a) (updateSessionStatus (an_now an) a StatusStopped m)
         else next_pc (RunErrorLine a (''Session error: '' @ e)) (failSession (an_now an) a e m)
     | Inr u0 \<Rightarrow>
         next_pc (RunSettle a c am)
           (after_turn an a (case u0 of None \<Rightarrow> m | Some u \<Rightarrow> end_turn an cfg a u m)))"

definition child_text :: "string \<times> sess_status \<Rightarrow> string" where
  "child_text p = ''Child session '' @ fst p @ '' status changed to '' @
    (case snd p of StatusPending \<Rightarrow> ''pending'' | StatusRunning \<Rightarrow> ''running'' | StatusIdle \<Rightarrow> ''idle''
       | StatusCompleted \<Rightarrow> ''completed'' | StatusFailed \<Rightarrow> ''failed'' | StatusStopped \<Rightarrow> ''stopped'') @ ''.''"

definition watches_children :: "bconfig \<Rightarrow> bsession \<Rightarrow> AgentModel \<Rightarrow> bool" where
  "watches_children cfg s am = (builtin_runner cfg am \<and> bs_Type s = TypeDelegator)"

definition progress_hint :: string where
  "progress_hint = ''Use get_session_progress to check details and decide next steps.''"

definition run_settle :: "answer \<Rightarrow> bconfig \<Rightarrow> nat \<Rightarrow> nat \<Rightarrow> AgentModel \<Rightarrow> bmanager \<Rightarrow> outcome" where
  "run_settle an cfg a c am m =
    (let m1 = updateSessionStatus (an_now an) a StatusIdle m in
     if watches_children cfg (obj m a) am \<and> an_children an \<noteq> [] then
       next_pc (RunTurn a (join_with [CHR 0x0A] (map child_text (an_children an)) @ [CHR 0x0A] @ progress_hint) c am)
         (updateSessionStatus (an_now an) a StatusRunning m1)
     else next_pc (RunWait a c am) m1)"

text \<open>A case that is not ready is not taken.\<close>

definition run_wait :: "answer \<Rightarrow> bconfig \<Rightarrow> nat \<Rightarrow> nat \<Rightarrow> AgentModel \<Rightarrow> bmanager \<Rightarrow> outcome" where
  "run_wait an cfg a c am m =
    (case an_pick an of
       PickDone \<Rightarrow>
         if ctx_done m (obj m a) then next_pc (RunStop a) (updateSessionStatus (an_now an) a StatusStopped m)
         else next_pc (RunWait a c am) m
     | PickChan \<Rightarrow>
         (case fc_msg (bm_chans m ! c) of
            Some msg \<Rightarrow>
              (let m1 = on_obj a (\<lambda>s. s\<lparr>bs_Prompt := msg\<rparr>) (on_chan c (fc_msg_update (\<lambda>_. None)) m);
                   m2 = updateSessionStatus (an_now an) a StatusRunning m1;
                   i = bs_ID (obj m a)
               in next_pc (RunTurn a msg c am)
                 (bm_addOutput i ((out_line (an_now an) OutText msg)\<lparr>ol_IsUserPrompt := True\<rparr>)
                   (bm_addOutput i (out_line (an_now an) OutStatus ''Follow-up prompt:'') m2)))
          | None \<Rightarrow>
              if fc_closed (bm_chans m ! c) then next_pc (RunStop a) (updateSessionStatus (an_now an) a StatusCompleted m)
              else next_pc (RunWait a c am) m)
     | PickChild i st \<Rightarrow>
         if watches_children cfg (obj m a) am then
           next_pc (RunTurn a (child_text (i, st) @ '' '' @ progress_hint) c am) (updateSessionStatus (an_now an) a StatusRunning m)
         else next_pc (RunWait a c am) m
     | _ \<Rightarrow> next_pc (RunWait a c am) m)"

text \<open>The clean-up of a run whose runner was started.\<close>

definition run_stop :: "bconfig \<Rightarrow> nat \<Rightarrow> bmanager \<Rightarrow> outcome" where
  "run_stop cfg a m =
    next_pc (RunSave a) (if bc_Tmux cfg then m else m\<lparr>bm_followUps := mdel (bs_ID (obj m a)) (bm_followUps m)\<rparr>)"

definition run_save :: "answer \<Rightarrow> bconfig \<Rightarrow> nat \<Rightarrow> bmanager \<Rightarrow> outcome" where
  "run_save an cfg a m =
    thread_done None (if bc_Tmux cfg \<and> bm_closed m then m else persistSession (an_now an) (an_io an) cfg a m)"

section \<open>Windows\<close>

definition poll_pane :: "answer \<Rightarrow> nat \<Rightarrow> string \<Rightarrow> paneIdleTracker option \<Rightarrow> bmanager \<Rightarrow> paneIdleTracker option \<times> bmanager" where
  "poll_pane an a target tr m =
    (case tr of
       None \<Rightarrow> (None, m)
     | Some p \<Rightarrow>
         (case pollPaneIdle (bs_Status (obj m a)) (bs_turnEpoch (obj m a)) (an_capture an target) p of
            (act, p1) \<Rightarrow>
              (Some p1, case act of
                 PaneNone \<Rightarrow> m
               | PaneMarkIdle \<Rightarrow> snd (SetSessionIdle (an_now an) (bs_ID (obj m a)) m)
               | PaneMarkRunning \<Rightarrow> snd (SetSessionRunning (an_now an) (bs_ID (obj m a)) m))))"

text \<open>One tick of a run in tmux. A window that has gone after ten seconds completes the session.\<close>

definition tmux_tick :: "answer \<Rightarrow> nat \<Rightarrow> time \<Rightarrow> paneIdleTracker option \<Rightarrow> bmanager \<Rightarrow> outcome" where
  "tmux_tick an a started tr m =
    (let name = bs_TmuxWindowName (obj m a); win = bs_TmuxWindowID (obj m a);
         target = (if win \<noteq> [] then win else name)
     in if name = [] \<and> win = [] then next_pc (RunTmux a started tr) m
        else case poll_pane an a target tr m of (tr1, m1) \<Rightarrow>
          (if an_alive an win name \<and> an_paneDead an target then
             (if an_exit an target = Some 0 then next_pc (RunGone a) (updateSessionStatus (an_now an) a StatusCompleted m1)
              else next_pc (RunErrorLine a ''Session failed: claude exited in tmux window'')
                (failSession (an_now an) a ''claude process exited'' m1))
           else if \<not> an_alive an win name then
             (if an_now an - started < 10 * 10 ^ 9 then
                next_pc (RunErrorLine a ''Session failed: tmux window vanished immediately'')
                  (failSession (an_now an) a ''tmux window disappeared shortly after creation'' m1)
              else next_pc (RunGone a) (updateSessionStatus (an_now an) a StatusCompleted m1))
           else next_pc (RunTmux a started tr1) m1))"

definition run_tmux :: "answer \<Rightarrow> nat \<Rightarrow> time \<Rightarrow> paneIdleTracker option \<Rightarrow> bmanager \<Rightarrow> outcome" where
  "run_tmux an a started tr m =
    (case an_pick an of
       PickDone \<Rightarrow>
         if ctx_done m (obj m a) then next_pc (RunStop a) (updateSessionStatus (an_now an) a StatusStopped m)
         else next_pc (RunTmux a started tr) m
     | PickTick \<Rightarrow> tmux_tick an a started tr m
     | _ \<Rightarrow> next_pc (RunTmux a started tr) m)"

text \<open>The run has persisted a natural completion and the deferred clean-up does not do it again.\<close>

definition run_gone :: "answer \<Rightarrow> bconfig \<Rightarrow> nat \<Rightarrow> bmanager \<Rightarrow> outcome" where
  "run_gone an cfg a m =
    thread_done None (forget_session (bs_ID (obj m a)) (persistSession (an_now an) (an_io an) cfg a m))"

text \<open>A tracked window: its pane is read every fifteen seconds and its life watched every two.\<close>

definition observeContentLines :: "string list \<Rightarrow> string list option \<Rightarrow> bool \<times> string list option" where
  "observeContentLines ls prev = (case prev of None \<Rightarrow> (False, Some ls) | Some p \<Rightarrow> (ls \<noteq> p, Some ls))"

definition shouldReviveIdleTmuxSession :: "sess_status \<Rightarrow> pane_status option \<Rightarrow> bool \<Rightarrow> bool" where
  "shouldReviveIdleTmuxSession st p changed =
    (st = StatusIdle \<and> (case p of None \<Rightarrow> False | Some q \<Rightarrow> changed \<or> pa_IsWorking q))"

definition show_pane :: "time \<Rightarrow> string list \<Rightarrow> bool \<Rightarrow> pane_status option \<Rightarrow> SessionProgress \<Rightarrow> SessionProgress" where
  "show_pane now content changed st p0 =
    (let p = p0\<lparr>pg_RecentOutput := drop (length content - 3) content,
               pg_LastActivity := (if changed then now else pg_LastActivity p0)\<rparr>
     in case st of
         None \<Rightarrow> p
       | Some q \<Rightarrow> p\<lparr>pg_StatusLine := pa_StatusLine q,
           pg_CurrentPhase := (if pa_Model q \<noteq> [] then pa_Model q @ '' ctx:'' @ pa_ContextPct q else pg_CurrentPhase p),
           pg_CurrentTool := (if pa_IsWorking q \<and> pa_StatusLine q \<noteq> [] then pa_StatusLine q else [])\<rparr>)"

definition capture_recent :: "answer \<Rightarrow> nat \<Rightarrow> string list option \<Rightarrow> bmanager \<Rightarrow> string list option \<times> bmanager" where
  "capture_recent an a prev m =
    (let st = bs_Status (obj m a) in
     if (st \<noteq> StatusRunning \<and> st \<noteq> StatusIdle) \<or> TmuxTarget (ToInfo (obj m a)) = [] then (prev, m)
     else case an_content an of
         None \<Rightarrow> (prev, m)
       | Some (content, ps) \<Rightarrow>
           (let ob = (if ps = None then (False, prev) else observeContentLines content prev);
                m1 = on_obj a (\<lambda>s. s\<lparr>bs_Progress := map_option (show_pane (an_now an) content (fst ob) ps) (bs_Progress s)\<rparr>) m;
                m2 = (if shouldReviveIdleTmuxSession st ps (fst ob)
                      then snd (tryUpdateSessionStatus (an_now an) a StatusIdle StatusRunning m1) else m1)
            in (snd ob, on_obj a (\<lambda>s. case ps of None \<Rightarrow> s | Some q \<Rightarrow> s\<lparr>bs_Model := (if bs_Model s = [] then pa_Model q else bs_Model s)\<rparr>) m2)))"

definition monitor_tick :: "answer \<Rightarrow> nat \<Rightarrow> string list option \<Rightarrow> paneIdleTracker option \<Rightarrow> bmanager \<Rightarrow> outcome" where
  "monitor_tick an a prev tr m =
    (let name = bs_TmuxWindowName (obj m a); win = bs_TmuxWindowID (obj m a) in
     if name = [] \<and> win = [] then next_pc (MonitorWatch a prev tr) m
     else if an_alive an win name \<and> bs_RunnerType (obj m a) = ''tmux'' then
       (let target = (if win \<noteq> [] then win else if an_notified an name then ''!'' @ name else name) in
        case poll_pane an a target tr m of (tr1, m1) \<Rightarrow>
          (if an_paneDead an target then
             (if an_exit an target = Some 0 then next_pc (MonitorSave a True) (updateSessionStatus (an_now an) a StatusCompleted m1)
              else next_pc (MonitorSave a True)
                (bm_addOutput (bs_ID (obj m a)) (error_line (an_now an) ''Session failed: claude exited in tmux window'')
                  (failSession (an_now an) a ''claude process exited'' m1)))
           else next_pc (MonitorWatch a prev tr1) m1))
     else if an_alive an win name then next_pc (MonitorWatch a prev tr) m
     else next_pc (MonitorSave a True) (updateSessionStatus (an_now an) a StatusCompleted m))"

definition monitor_watch :: "answer \<Rightarrow> nat \<Rightarrow> string list option \<Rightarrow> paneIdleTracker option \<Rightarrow> bmanager \<Rightarrow> outcome" where
  "monitor_watch an a prev tr m =
    (case an_pick an of
       PickDone \<Rightarrow>
         if ctx_done m (obj m a) then next_pc (MonitorSave a False) (updateSessionStatus (an_now an) a StatusStopped m)
         else next_pc (MonitorWatch a prev tr) m
     | PickCapture \<Rightarrow> (case capture_recent an a prev m of (prev1, m1) \<Rightarrow> next_pc (MonitorWatch a prev1 tr) m1)
     | PickTick \<Rightarrow> monitor_tick an a prev tr m
     | _ \<Rightarrow> next_pc (MonitorWatch a prev tr) m)"

text \<open>A stop that comes from closing the manager leaves the record that \<open>Close\<close> wrote.\<close>

definition monitor_save :: "answer \<Rightarrow> bconfig \<Rightarrow> nat \<Rightarrow> bool \<Rightarrow> bmanager \<Rightarrow> outcome" where
  "monitor_save an cfg a natural m =
    thread_done None (if natural \<or> \<not> bm_closed m
      then forget_session (bs_ID (obj m a)) (persistSession (an_now an) (an_io an) cfg a m) else m)"

section \<open>The system\<close>

definition thread_step :: "answer \<Rightarrow> bconfig \<Rightarrow> bthread \<Rightarrow> bmanager \<Rightarrow> outcome" where
  "thread_step an cfg t m =
    (case t of
       ThreadDone e \<Rightarrow> thread_done e m
     | ResumeLookup i p \<Rightarrow> resume_lookup cfg i p m
     | ResumeInsert i p d \<Rightarrow> resume_insert (an_now an) i p d m
     | ResumeCheck i p a \<Rightarrow> resume_check i p a m
     | ResumeReset i p a \<Rightarrow> resume_reset i p a m
     | ResumeSpawn i p a \<Rightarrow> resume_spawn (an_now an) i p a m
     | FollowLookup i x \<Rightarrow> follow_lookup i x m
     | FollowChan i x \<Rightarrow> follow_chan i x m
     | FollowSend c x \<Rightarrow> follow_send c x m
     | CompleteLookup i \<Rightarrow> complete_lookup i m
     | CompleteClose i \<Rightarrow> complete_close i m
     | StopLookup i \<Rightarrow> stop_lookup i m
     | StopCancel a \<Rightarrow> thread_done None (cancel_ctx (obj m a) m)
     | DeleteLookup i \<Rightarrow> delete_lookup i m
     | DeleteOutput i a \<Rightarrow> next_pc (DeleteStore i a) (m\<lparr>bm_outputs := mdel i (bm_outputs m)\<rparr>)
     | DeleteStore i a \<Rightarrow> delete_store cfg i a m
     | ClosePersist \<Rightarrow> close_persist (an_now an) (an_io an) cfg m
     | CloseCancel \<Rightarrow> close_cancel m
     | RunBegin a p \<Rightarrow> next_pc (RunResolve a p) (updateSessionStatus (an_now an) a StatusRunning m)
     | RunResolve a p \<Rightarrow> run_resolve (an_now an) cfg a p m
     | RunMode a p am \<Rightarrow> run_mode an cfg a p am m
     | RunStart a p am \<Rightarrow> run_start an cfg a p am m
     | RunOpen a p am \<Rightarrow> run_open an cfg a p am m
     | RunTurn a p c am \<Rightarrow> run_turn an cfg a c am m
     | RunSettle a c am \<Rightarrow> run_settle an cfg a c am m
     | RunWait a c am \<Rightarrow> run_wait an cfg a c am m
     | RunTmux a st tr \<Rightarrow> run_tmux an a st tr m
     | RunGone a \<Rightarrow> run_gone an cfg a m
     | RunFailed a e save \<Rightarrow>
         thread_done None ((if save then persistSession (an_now an) (an_io an) cfg a else id)
           (bm_addOutput (bs_ID (obj m a)) (error_line (an_now an) e) m))
     | RunErrorLine a e \<Rightarrow>
         next_pc (RunStop a) ((if bc_Tmux cfg then persistSession (an_now an) (an_io an) cfg a else id)
           (bm_addOutput (bs_ID (obj m a)) (error_line (an_now an) e) m))
     | RunStop a \<Rightarrow> run_stop cfg a m
     | RunSave a \<Rightarrow> run_save an cfg a m
     | MonitorWatch a prev tr \<Rightarrow> monitor_watch an a prev tr m
     | MonitorSave a natural \<Rightarrow> monitor_save an cfg a natural m)"

record bsystem =
  by_m :: bmanager
  by_threads :: "bthread list"
  by_panicked :: bool

text \<open>
  A call of the manager: those that interleave start a thread at their first section; the others are
  done at once.
\<close>

datatype baction =
    Start string sess_type string string string SpawnOpts
  | Track string string string string
  | Adopt window_world string StoredMeta
  | SetIdle string
  | SetRunning string
  | Invoke bthread
  | Advance nat

definition is_call :: "bthread \<Rightarrow> bool" where
  "is_call t = (case t of ResumeLookup _ _ \<Rightarrow> True | FollowLookup _ _ \<Rightarrow> True | CompleteLookup _ \<Rightarrow> True
     | StopLookup _ \<Rightarrow> True | DeleteLookup _ \<Rightarrow> True | ClosePersist \<Rightarrow> True | _ \<Rightarrow> False)"

text \<open>A window is only watched from inside tmux, and only there are the stored sessions reconciled.\<close>

definition monitor_threads :: "bconfig \<Rightarrow> nat \<Rightarrow> bmanager \<Rightarrow> bthread list" where
  "monitor_threads cfg a m =
    (if bc_InsideTmux cfg
     then [MonitorWatch a None (newPaneIdleTrackerForModel cfg (bs_Model (obj m a)) (bs_Backend (obj m a)))] else [])"

definition may_reconcile :: "bconfig \<Rightarrow> bool" where
  "may_reconcile cfg = (bc_RepoName cfg \<noteq> [] \<and> bc_Tmux cfg \<and> bc_InsideTmux cfg)"

text \<open>The record that is loaded is still the one that was listed; one that changed in between is not adopted here.\<close>

definition as_listed :: "bconfig \<Rightarrow> string \<Rightarrow> StoredMeta \<Rightarrow> bmanager \<Rightarrow> bool" where
  "as_listed cfg wt meta m =
    (case bm_store m of
       None \<Rightarrow> True
     | Some st \<Rightarrow> (case LoadSession (bc_RepoName cfg) wt (st_ID meta) st of Inl e \<Rightarrow> True | Inr d \<Rightarrow> storedToMeta d = meta))"

definition spawn :: "(bmanager \<Rightarrow> nat \<Rightarrow> bthread list) \<Rightarrow> ('e + nat) \<times> bmanager \<Rightarrow> bsystem \<Rightarrow> bsystem" where
  "spawn f r y = (case r of
      (Inl e, m) \<Rightarrow> y\<lparr>by_m := m\<rparr>
    | (Inr a, m) \<Rightarrow> y\<lparr>by_m := m, by_threads := by_threads y @ f m a\<rparr>)"

definition advance :: "answer \<Rightarrow> bconfig \<Rightarrow> nat \<Rightarrow> bsystem \<Rightarrow> bsystem" where
  "advance an cfg k y =
    (if k \<ge> length (by_threads y) then y
     else case thread_step an cfg (by_threads y ! k) (by_m y) of
         None \<Rightarrow> y\<lparr>by_panicked := True\<rparr>
       | Some (m, ts) \<Rightarrow> y\<lparr>by_m := m, by_threads := (by_threads y)[k := hd ts] @ tl ts\<rparr>)"

definition bm_step :: "bconfig \<Rightarrow> answer \<times> baction \<Rightarrow> bsystem \<Rightarrow> bsystem" where
  "bm_step cfg e y =
    (let an = fst e; now = an_now an; m = by_m y in
     if by_panicked y then y
     else case snd e of
         Start rand ty path prompt model opts \<Rightarrow>
           spawn (\<lambda>m a. [RunBegin a prompt]) (StartSessionWithOpts now rand cfg ty path prompt model opts m) y
       | Track rand path name win \<Rightarrow> spawn (\<lambda>m a. monitor_threads cfg a m) (TrackTmuxWindow now rand cfg path name win m) y
       | Adopt w wt meta \<Rightarrow>
           (if \<not> may_reconcile cfg \<or> \<not> as_listed cfg wt meta m then y
            else case reconcile_record now (an_io an) w cfg wt meta m of
              (None, m1) \<Rightarrow> y\<lparr>by_m := m1\<rparr>
            | (Some a, m1) \<Rightarrow> y\<lparr>by_m := m1, by_threads := by_threads y @ monitor_threads cfg a m1\<rparr>)
       | SetIdle i \<Rightarrow> y\<lparr>by_m := snd (SetSessionIdle now i m)\<rparr>
       | SetRunning i \<Rightarrow> y\<lparr>by_m := snd (SetSessionRunning now i m)\<rparr>
       | Invoke t \<Rightarrow> if is_call t then y\<lparr>by_threads := by_threads y @ [t]\<rparr> else y
       | Advance k \<Rightarrow> advance an cfg k y)"

definition bm_init :: "store option \<Rightarrow> bsystem" where
  "bm_init st = \<lparr>by_m = NewManager st, by_threads = [], by_panicked = False\<rparr>"

definition bm_run :: "bconfig \<Rightarrow> store option \<Rightarrow> (answer \<times> baction) list \<Rightarrow> bsystem" where
  "bm_run cfg st es = run_machine (bm_step cfg) es (bm_init st)"

end
