(* ===== verification/BrambleFrame.thy ===== *)
theory BrambleFrame
  imports BrambleRuns
begin

text \<open>
  What the steps of the session manager leave alone. For every operation: which maps it keeps, that
  objects keep their identifier and are never freed, which objects become final or stop being final, and
  that it keeps the sound times of the objects and records, the bound of the outputs and the names of
  the files. The properties of \<open>BrambleRunProps\<close> and \<open>BrambleOwners\<close> follow from these by cases of the step.
\<close>

section \<open>Objects\<close>

definition final :: "bmanager \<Rightarrow> nat \<Rightarrow> bool" where
  "final m b = SessIsTerminal (bs_Status (obj m b))"

abbreviation heap_len :: "bmanager \<Rightarrow> nat" where
  "heap_len m \<equiv> length (bm_heap m)"

lemma obj_on_obj [simp]:
  "obj (on_obj a f m) b = (if b = a \<and> a < heap_len m then f (obj m a) else obj m b)"
  by (cases "a < heap_len m") (auto simp: obj_def on_obj_def nth_list_update list_update_beyond)

lemma SessIsTerminal_simps [simp]:
  "SessIsTerminal StatusCompleted" "SessIsTerminal StatusFailed" "SessIsTerminal StatusStopped"
  "\<not> SessIsTerminal StatusPending" "\<not> SessIsTerminal StatusRunning" "\<not> SessIsTerminal StatusIdle"
  by (simp_all add: SessIsTerminal_def)

lemma on_obj_fields [simp]:
  "bm_sessions (on_obj a f m) = bm_sessions m" "bm_outputs (on_obj a f m) = bm_outputs m"
  "bm_followUps (on_obj a f m) = bm_followUps m" "bm_chans (on_obj a f m) = bm_chans m"
  "bm_cancelled (on_obj a f m) = bm_cancelled m" "bm_closed (on_obj a f m) = bm_closed m"
  "bm_store (on_obj a f m) = bm_store m" "heap_len (on_obj a f m) = heap_len m"
  by (simp_all add: on_obj_def)

lemma obj_fields [simp]:
  "obj (m\<lparr>bm_sessions := x1\<rparr>) b = obj m b" "obj (m\<lparr>bm_outputs := x2\<rparr>) b = obj m b"
  "obj (m\<lparr>bm_followUps := x3\<rparr>) b = obj m b" "obj (m\<lparr>bm_chans := x4\<rparr>) b = obj m b"
  "obj (m\<lparr>bm_cancelled := x5\<rparr>) b = obj m b" "obj (m\<lparr>bm_closed := x6\<rparr>) b = obj m b"
  "obj (m\<lparr>bm_store := x7\<rparr>) b = obj m b" "obj (m\<lparr>bm_events := x8\<rparr>) b = obj m b"
  by (simp_all add: obj_def)

lemma emit_change_fields [simp]:
  "bm_sessions (emit_change a st m) = bm_sessions m" "bm_outputs (emit_change a st m) = bm_outputs m"
  "bm_followUps (emit_change a st m) = bm_followUps m" "bm_chans (emit_change a st m) = bm_chans m"
  "bm_cancelled (emit_change a st m) = bm_cancelled m" "bm_closed (emit_change a st m) = bm_closed m"
  "bm_store (emit_change a st m) = bm_store m" "bm_heap (emit_change a st m) = bm_heap m"
  "obj (emit_change a st m) b = obj m b"
  by (simp_all add: emit_change_def)

lemma applySessionStatus_fields [simp]:
  "bs_ID (applySessionStatus now st s) = bs_ID s" "bs_Status (applySessionStatus now st s) = st"
  "bs_ctx (applySessionStatus now st s) = bs_ctx s" "bs_CLISessionID (applySessionStatus now st s) = bs_CLISessionID s"
  "bs_Type (applySessionStatus now st s) = bs_Type s"
  by (simp_all add: applySessionStatus_def Let_def)

text \<open>The operations that change neither the maps nor the channels.\<close>

definition same_maps :: "bmanager \<Rightarrow> bmanager \<Rightarrow> bool" where
  "same_maps m m' = (bm_sessions m' = bm_sessions m \<and> bm_followUps m' = bm_followUps m \<and> bm_chans m' = bm_chans m \<and>
    bm_closed m' = bm_closed m \<and> heap_len m' = heap_len m \<and> (\<forall>b. bs_ID (obj m' b) = bs_ID (obj m b)))"

lemma same_maps_refl [simp]: "same_maps m m"
  by (simp add: same_maps_def)

lemma same_maps_trans: "same_maps m1 m2 \<Longrightarrow> same_maps m2 m3 \<Longrightarrow> same_maps m1 m3"
  by (simp add: same_maps_def)

lemma same_mapsD:
  assumes "same_maps m m'"
  shows "bm_sessions m' = bm_sessions m" "bm_followUps m' = bm_followUps m" "bm_chans m' = bm_chans m"
    "bm_closed m' = bm_closed m" "heap_len m' = heap_len m" "bs_ID (obj m' b) = bs_ID (obj m b)"
  using assms by (simp_all add: same_maps_def)

lemma same_on_obj: "(\<And>s. bs_ID (f s) = bs_ID s) \<Longrightarrow> same_maps m (on_obj a f m)"
  by (simp add: same_maps_def)

lemma same_emit: "same_maps m (emit_change a st m)"
  by (simp add: same_maps_def)

lemma same_updateSessionStatus: "same_maps m (updateSessionStatus now a st m)"
  by (simp add: same_maps_def updateSessionStatus_def Let_def)

lemma same_failSession: "same_maps m (failSession now a e m)"
  by (simp add: same_maps_def failSession_def)

lemma same_tryUpdate: "same_maps m (snd (tryUpdateSessionStatus now a x y m))"
  by (simp add: same_maps_def tryUpdateSessionStatus_def Let_def)

lemma same_trySetStatus: "same_maps m (snd (trySetStatus now i x y m))"
  by (simp add: trySetStatus_def same_tryUpdate split: option.split)

lemma same_SetSession: "same_maps m (snd (SetSessionIdle now i m))" "same_maps m (snd (SetSessionRunning now i m))"
  by (simp_all add: SetSessionIdle_def SetSessionRunning_def same_trySetStatus)

lemma same_addOutput: "same_maps m (bm_addOutput i l m)"
  by (simp add: same_maps_def bm_addOutput_def)

lemma same_persistSession: "same_maps m (persistSession now io cfg a m)"
  by (simp add: same_maps_def persistSession_def bm_addOutput_def Let_def split: option.split prod.split)

lemma same_fold: "(\<And>x m. same_maps m (f x m)) \<Longrightarrow> same_maps m (fold f xs m)"
  by (induction xs arbitrary: m) (auto intro: same_maps_trans)

lemma same_cancel_ctx: "same_maps m (cancel_ctx s m)"
  by (simp add: same_maps_def cancel_ctx_def split: option.split)

lemma same_poll_pane: "same_maps m (snd (poll_pane an a target tr m))"
  by (auto simp: poll_pane_def same_SetSession split: option.split prod.split paneIdleAction.split)

lemmas same_try [simp] = same_mapsD [OF same_tryUpdate] same_mapsD [OF same_addOutput]

lemma same_capture_recent: "same_maps m (snd (capture_recent an a prev m))"
  by (simp add: same_maps_def capture_recent_def Let_def split: option.split)

lemma same_end_turn: "same_maps m (end_turn an cfg a u m)"
  unfolding end_turn_def Let_def
  by (rule same_maps_trans [OF same_on_obj same_addOutput]) simp

lemma same_after_turn: "same_maps m (after_turn an a m)"
  unfolding after_turn_def Let_def
  by (auto intro!: same_on_obj same_maps_trans [OF _ same_addOutput] same_maps_trans [OF _ same_on_obj] split: option.split prod.split)

lemmas same_ops = same_updateSessionStatus same_failSession same_tryUpdate same_SetSession same_addOutput
  same_persistSession same_cancel_ctx same_poll_pane same_capture_recent same_end_turn same_after_turn same_emit

lemmas same_fields [simp] =
  same_mapsD [OF same_updateSessionStatus] same_mapsD [OF same_failSession] same_mapsD [OF same_tryUpdate]
  same_mapsD [OF same_SetSession(1)] same_mapsD [OF same_SetSession(2)] same_mapsD [OF same_addOutput]
  same_mapsD [OF same_persistSession] same_mapsD [OF same_cancel_ctx] same_mapsD [OF same_poll_pane]
  same_mapsD [OF same_capture_recent] same_mapsD [OF same_end_turn] same_mapsD [OF same_after_turn]

section \<open>Which objects are final\<close>

lemma final_on_obj: "final (on_obj a f m) b = (if b = a \<and> a < heap_len m then SessIsTerminal (bs_Status (f (obj m a))) else final m b)"
  by (simp add: final_def)

lemma final_fields [simp]:
  "final (m\<lparr>bm_sessions := x1\<rparr>) = final m" "final (m\<lparr>bm_outputs := x2\<rparr>) = final m"
  "final (m\<lparr>bm_followUps := x3\<rparr>) = final m" "final (m\<lparr>bm_chans := x4\<rparr>) = final m"
  "final (m\<lparr>bm_cancelled := x5\<rparr>) = final m" "final (m\<lparr>bm_closed := x6\<rparr>) = final m"
  "final (m\<lparr>bm_store := x7\<rparr>) = final m" "final (m\<lparr>bm_events := x8\<rparr>) = final m"
  "final (emit_change a st m) = final m" "final (bm_addOutput i l m) = final m"
  by (rule ext, simp add: final_def bm_addOutput_def)+

lemma final_keeps_status:
  "(\<And>s. bs_Status (f s) = bs_Status s) \<Longrightarrow> final (on_obj a f m) = final m"
  by (rule ext) (simp add: final_def)

lemma final_updateSessionStatus:
  "final (updateSessionStatus now a st m) b =
    (if b = a \<and> a < heap_len m then (SessIsTerminal st \<or> final m a) else final m b)"
  by (auto simp: updateSessionStatus_def mayLeaveStatus_def final_def Let_def)

lemma final_failSession: "final (failSession now a e m) b = (b = a \<and> a < heap_len m \<or> final m b)"
  by (auto simp: failSession_def final_def)

lemma final_tryUpdate:
  "\<not> SessIsTerminal y \<Longrightarrow> \<not> SessIsTerminal x \<Longrightarrow> final (snd (tryUpdateSessionStatus now a x y m)) = final m"
  by (rule ext) (auto simp: tryUpdateSessionStatus_def mayLeaveStatus_def final_def Let_def)

lemma final_SetSession [simp]: "final (snd (SetSessionIdle now i m)) = final m" "final (snd (SetSessionRunning now i m)) = final m"
  by (auto simp: SetSessionIdle_def SetSessionRunning_def trySetStatus_def SessIsTerminal_def intro!: final_tryUpdate split: option.split)

lemma final_persistSession [simp]: "final (persistSession now io cfg a m) = final m"
  by (simp add: persistSession_def Let_def split: option.split prod.split)

lemma final_fold: "(\<And>x m. final (f x m) = final m) \<Longrightarrow> final (fold f xs m) = final m"
  by (induction xs arbitrary: m) simp_all

lemma final_cancel_ctx [simp]: "final (cancel_ctx s m) = final m"
  by (simp add: cancel_ctx_def split: option.split)

lemma final_poll_pane [simp]: "final (snd (poll_pane an a target tr m)) = final m"
  by (auto simp: poll_pane_def split: option.split prod.split paneIdleAction.split)

lemma final_capture_recent [simp]: "final (snd (capture_recent an a prev m)) = final m"
proof -
  have w: "final (on_obj a (\<lambda>s. case ps of None \<Rightarrow> s | Some q \<Rightarrow> s\<lparr>bs_Model := f s q\<rparr>) m1) = final m1" for ps f m1
    by (rule final_keeps_status) (simp split: option.split)
  have p: "final (on_obj a (\<lambda>s. s\<lparr>bs_Progress := g s\<rparr>) m) = final m" for g
    by (rule final_keeps_status) simp
  show ?thesis
    by (simp add: capture_recent_def Let_def w p final_tryUpdate split: option.split)
qed

lemma final_end_turn [simp]: "final (end_turn an cfg a u m) = final m"
  by (simp add: end_turn_def Let_def final_keeps_status)

lemma final_after_turn [simp]: "final (after_turn an a m) = final m"
proof -
  have "final (on_obj a (bs_PlanFilePath_update k) m1) = final m1" "final (on_obj a (bs_ResearchFilePath_update k) m1) = final m1" for k m1
    by (simp_all add: final_keeps_status)
  then show ?thesis unfolding after_turn_def Let_def by (simp split: option.split)
qed

lemma final_append: "b < heap_len m \<Longrightarrow> final (m\<lparr>bm_heap := bm_heap m @ [s]\<rparr>) b = final m b"
  by (simp add: final_def obj_def nth_append)

end
