(* ===== verification/BrambleOwners.thy ===== *)
theory BrambleOwners
  imports BrambleFrame
begin

text \<open>
  Who runs a session. A thread owns an object from the moment its session is resumed or its run begins
  until the run has settled the final status; the steps keep at most one owner for every object, and an
  owned object is not final. \<open>step_moves\<close> says what one section of one thread does to the owners and to
  the final statuses; the rest is counting.
\<close>

section \<open>Owners\<close>

definition owner :: "bthread \<Rightarrow> nat option" where
  "owner t = (case t of
      ResumeReset i p a \<Rightarrow> Some a | ResumeSpawn i p a \<Rightarrow> Some a | RunBegin a p \<Rightarrow> Some a | RunResolve a p \<Rightarrow> Some a
    | RunMode a p am \<Rightarrow> Some a | RunStart a p am \<Rightarrow> Some a | RunOpen a p am \<Rightarrow> Some a | RunTurn a p c am \<Rightarrow> Some a
    | RunSettle a c am \<Rightarrow> Some a | RunWait a c am \<Rightarrow> Some a | RunTmux a st tr \<Rightarrow> Some a | MonitorWatch a prev tr \<Rightarrow> Some a
    | _ \<Rightarrow> None)"

text \<open>The object a thread works on.\<close>

definition works_on :: "bthread \<Rightarrow> nat option" where
  "works_on t = (case t of
      ResumeCheck i p a \<Rightarrow> Some a | StopCancel a \<Rightarrow> Some a | DeleteOutput i a \<Rightarrow> Some a | DeleteStore i a \<Rightarrow> Some a
    | RunGone a \<Rightarrow> Some a | RunFailed a e s \<Rightarrow> Some a | RunErrorLine a e \<Rightarrow> Some a | RunStop a \<Rightarrow> Some a | RunSave a \<Rightarrow> Some a
    | MonitorSave a n \<Rightarrow> Some a | _ \<Rightarrow> owner t)"

lemma owner_works_on: "owner t = Some a \<Longrightarrow> works_on t = Some a"
  by (cases t) (simp_all add: owner_def works_on_def)

definition owners :: "bthread list \<Rightarrow> nat \<Rightarrow> nat" where
  "owners ts b = length (filter (\<lambda>t. owner t = Some b) ts)"

lemma owners_simps [simp]:
  "owners [] b = 0" "owners (t # ts) b = (if owner t = Some b then 1 else 0) + owners ts b"
  "owners (ts @ us) b = owners ts b + owners us b"
  by (simp_all add: owners_def)

lemma owners_update:
  "k < length ts \<Longrightarrow> owners (ts[k := t]) b + (if owner (ts ! k) = Some b then 1 else 0) =
    owners ts b + (if owner t = Some b then 1 else 0)"
proof (induction ts arbitrary: k)
  case (Cons u ts)
  then show ?case by (cases k) (simp, fastforce)
qed simp

text \<open>
  What a section may do to an object with \<open>n\<close> owners before and \<open>k\<close> after, as far as the thread is
  concerned: nothing, let go of it, or resume it.
\<close>

definition moves :: "bthread \<Rightarrow> bmanager \<Rightarrow> bmanager \<Rightarrow> nat \<Rightarrow> nat \<Rightarrow> nat \<Rightarrow> bool" where
  "moves t m m' n k b =
    ((final m' b = final m b \<and> k \<le> n) \<or> (n = 1 \<and> k = 0) \<or>
     (final m b \<and> \<not> final m' b \<and> k \<le> 1 \<and> (\<exists>i p. t = ResumeCheck i p b)))"

text \<open>The object of a thread exists, and it is not final when the thread owns it.\<close>

definition placed :: "bmanager \<Rightarrow> bthread \<Rightarrow> bool" where
  "placed m t = (\<forall>a. works_on t = Some a \<longrightarrow> a < heap_len m)"

definition live :: "bmanager \<Rightarrow> bthread \<Rightarrow> bool" where
  "live m t = (\<forall>a. owner t = Some a \<longrightarrow> \<not> final m a)"

lemmas thread_eqs = thread_step_def thread_done_def next_pc_def owner_def works_on_def placed_def live_def

section \<open>One section\<close>

text \<open>The objects that the maps of the manager name exist.\<close>

definition addresses_ok :: "bmanager \<Rightarrow> bool" where
  "addresses_ok m = (\<forall>i a. map_of (bm_sessions m) i = Some a \<longrightarrow> a < heap_len m)"

definition step_moves :: "bthread \<Rightarrow> bmanager \<Rightarrow> bmanager \<times> bthread list \<Rightarrow> bool" where
  "step_moves t m r =
    (heap_len m \<le> heap_len (fst r) \<and> snd r \<noteq> [] \<and>
     list_all (placed (fst r)) (snd r) \<and>
     (\<forall>b < heap_len m. moves t m (fst r) (owners [t] b) (owners (snd r) b) b) \<and>
     (\<forall>b. heap_len m \<le> b \<longrightarrow> owners (snd r) b = 0))"

text \<open>Sections of calls, of the start of a run, of a run, and of windows.\<close>

lemma moves_calls:
  assumes "thread_step an cfg t m = Some r" and "addresses_ok m" and "placed m t"
    and "live m t"
    and "t \<in> {ThreadDone e, ResumeLookup i p, ResumeInsert i p d, ResumeCheck i p a, ResumeReset i p a, ResumeSpawn i p a}"
  shows "step_moves t m r"
  using assms
  apply (elim insertE emptyE; hypsubst)
  subgoal by (auto simp: thread_eqs step_moves_def moves_def)
  subgoal by (auto simp: thread_eqs step_moves_def moves_def resume_lookup_def addresses_ok_def split: option.splits)
  subgoal by (auto simp: thread_eqs step_moves_def moves_def resume_insert_def final_append)
  subgoal by (auto simp: thread_eqs step_moves_def moves_def resume_check_def new_ctx_def final_on_obj final_def split: if_splits)
  subgoal by (auto simp: thread_eqs step_moves_def moves_def resume_reset_def)
  subgoal by (auto simp: thread_eqs step_moves_def moves_def resume_spawn_def)
  done

lemmas fold_same = same_mapsD [OF same_fold [OF same_persistSession]] same_mapsD [OF same_fold [OF same_cancel_ctx]]

lemma final_folds [simp]: "final (fold (\<lambda>p. persistSession now io cfg (snd p)) xs m) = final m"
  "final (fold (\<lambda>p m. cancel_ctx (obj m (snd p)) m) xs m) = final m"
  by (rule final_fold, simp)+

lemma moves_others:
  assumes "thread_step an cfg t m = Some r" and "addresses_ok m" and "placed m t"
    and "t \<in> {FollowLookup i x, FollowChan i x, FollowSend c x, CompleteLookup i, CompleteClose i, StopLookup i, StopCancel a,
      DeleteLookup i, DeleteOutput i a, DeleteStore i a, ClosePersist, CloseCancel}"
  shows "step_moves t m r"
  using assms
  apply (elim insertE emptyE; hypsubst)
  subgoal by (auto simp: thread_eqs step_moves_def moves_def follow_lookup_def split: option.splits if_splits)
  subgoal by (auto simp: thread_eqs step_moves_def moves_def follow_chan_def split: option.splits if_splits)
  subgoal by (auto simp: thread_eqs step_moves_def moves_def follow_send_def on_chan_def split: option.splits if_splits)
  subgoal by (auto simp: thread_eqs step_moves_def moves_def complete_lookup_def split: option.splits if_splits)
  subgoal by (auto simp: thread_eqs step_moves_def moves_def complete_close_def on_chan_def split: option.splits if_splits)
  subgoal by (auto simp: thread_eqs step_moves_def moves_def stop_lookup_def addresses_ok_def split: option.splits if_splits)
  subgoal by (auto simp: thread_eqs step_moves_def moves_def split: option.splits if_splits)
  subgoal by (auto simp: thread_eqs step_moves_def moves_def delete_lookup_def addresses_ok_def split: option.splits if_splits)
  subgoal by (auto simp: thread_eqs step_moves_def moves_def split: option.splits if_splits)
  subgoal by (auto simp: thread_eqs step_moves_def moves_def delete_store_def split: option.splits if_splits)
  subgoal by (auto simp: thread_eqs step_moves_def moves_def close_persist_def fold_same split: option.splits if_splits)
  subgoal by (auto simp: thread_eqs step_moves_def moves_def close_cancel_def fold_same split: option.splits if_splits)
  done

lemma moves_begin:
  assumes "thread_step an cfg t m = Some r" and "placed m t"
    and "live m t"
    and "t \<in> {RunBegin a p, RunResolve a p, RunMode a p am, RunStart a p am, RunOpen a p am}"
  shows "step_moves t m r"
  using assms
  apply (elim insertE emptyE; hypsubst)
  subgoal by (auto simp: thread_eqs step_moves_def moves_def final_updateSessionStatus)
  subgoal by (auto simp: thread_eqs step_moves_def moves_def run_resolve_def Let_def final_failSession split: option.splits sum.splits)
  subgoal by (auto simp: thread_eqs step_moves_def moves_def run_mode_def Let_def final_failSession final_keeps_status
        split: option.splits sess_type.splits bool.splits prod.splits)
  subgoal by (auto simp: thread_eqs step_moves_def moves_def run_start_def final_failSession final_keeps_status split: option.splits)
  subgoal by (auto simp: thread_eqs step_moves_def moves_def run_open_def final_tryUpdate split: if_splits)
  done

lemma moves_turns:
  assumes "thread_step an cfg t m = Some r" and "placed m t"
    and "live m t"
    and "t \<in> {RunTurn a p c am, RunSettle a c am, RunWait a c am, RunGone a, RunFailed a e s, RunErrorLine a e, RunStop a, RunSave a}"
  shows "step_moves t m r"
  using assms
  apply (elim insertE emptyE; hypsubst)
  subgoal by (auto simp: thread_eqs step_moves_def moves_def run_turn_def final_updateSessionStatus final_failSession
        split: sum.splits option.splits if_splits)
  subgoal by (auto simp: thread_eqs step_moves_def moves_def run_settle_def Let_def final_updateSessionStatus split: if_splits)
  subgoal by (auto simp: thread_eqs step_moves_def moves_def run_wait_def Let_def final_updateSessionStatus final_keeps_status on_chan_def
        split: pick.splits option.splits if_splits)
  subgoal by (auto simp: thread_eqs step_moves_def moves_def run_gone_def forget_session_def)
  subgoal by (cases s; auto simp: thread_eqs step_moves_def moves_def)
  subgoal by (cases "bc_Tmux cfg"; auto simp: thread_eqs step_moves_def moves_def)
  subgoal by (cases "bc_Tmux cfg"; auto simp: thread_eqs step_moves_def moves_def run_stop_def)
  subgoal by (cases "bc_Tmux cfg \<and> bm_closed m"; auto simp: thread_eqs step_moves_def moves_def run_save_def)
  done

lemma poll_pane_cases:
  obtains tr1 m1 where "poll_pane an a target tr m = (tr1, m1)" and "final m1 = final m" and "heap_len m1 = heap_len m"
  by (metis final_poll_pane prod.collapse same_mapsD(5) same_poll_pane)

lemma moves_tmux:
  assumes "thread_step an cfg (RunTmux a st tr) m = Some r" and "a < heap_len m" and "\<not> final m a"
  shows "step_moves (RunTmux a st tr) m r"
proof (cases "an_pick an = PickTick")
  case True
  define target where "target = (if bs_TmuxWindowID (obj m a) \<noteq> [] then bs_TmuxWindowID (obj m a) else bs_TmuxWindowName (obj m a))"
  obtain tr1 m1 where p: "poll_pane an a target tr m = (tr1, m1)" "final m1 = final m" "heap_len m1 = heap_len m"
    by (rule poll_pane_cases)
  show ?thesis using assms True p
    by (auto simp: thread_eqs step_moves_def moves_def run_tmux_def tmux_tick_def Let_def final_updateSessionStatus final_failSession
        target_def [symmetric] split: if_splits)
next
  case False
  then show ?thesis using assms
    by (auto simp: thread_eqs step_moves_def moves_def run_tmux_def final_updateSessionStatus split: pick.splits if_splits)
qed

lemma capture_recent_cases:
  obtains prev1 m1 where "capture_recent an a prev m = (prev1, m1)" and "final m1 = final m" and "heap_len m1 = heap_len m"
  by (metis final_capture_recent prod.collapse same_mapsD(5) same_capture_recent)

lemma moves_monitor_tick:
  assumes "monitor_tick an a prev tr m = Some r" and "a < heap_len m" and "\<not> final m a"
  shows "step_moves (MonitorWatch a prev tr) m r"
proof -
  define target where "target = (if bs_TmuxWindowID (obj m a) \<noteq> [] then bs_TmuxWindowID (obj m a)
    else if an_notified an (bs_TmuxWindowName (obj m a)) then ''!'' @ bs_TmuxWindowName (obj m a) else bs_TmuxWindowName (obj m a))"
  obtain tr1 m1 where p: "poll_pane an a target tr m = (tr1, m1)" "final m1 = final m" "heap_len m1 = heap_len m"
    by (rule poll_pane_cases)
  show ?thesis using assms p
    by (auto simp: thread_eqs step_moves_def moves_def monitor_tick_def Let_def final_updateSessionStatus final_failSession
        target_def [symmetric] split: if_splits)
qed

lemma moves_monitor:
  assumes "thread_step an cfg (MonitorWatch a prev tr) m = Some r" and "a < heap_len m" and "\<not> final m a"
  shows "step_moves (MonitorWatch a prev tr) m r"
proof (cases "an_pick an")
  case PickTick
  then show ?thesis using assms moves_monitor_tick by (simp add: thread_step_def monitor_watch_def)
next
  case PickCapture
  obtain prev1 m1 where "capture_recent an a prev m = (prev1, m1)" "final m1 = final m" "heap_len m1 = heap_len m"
    by (rule capture_recent_cases)
  then show ?thesis using assms PickCapture by (auto simp: thread_eqs step_moves_def moves_def monitor_watch_def)
qed (use assms in \<open>auto simp: thread_eqs step_moves_def moves_def monitor_watch_def final_updateSessionStatus split: if_splits\<close>)

lemma moves_monitor_save:
  assumes "thread_step an cfg (MonitorSave a n) m = Some r" and "a < heap_len m"
  shows "step_moves (MonitorSave a n) m r"
  using assms by (auto simp: thread_eqs step_moves_def moves_def monitor_save_def forget_session_def split: if_splits)

text \<open>Every section.\<close>

theorem thread_moves:
  assumes "thread_step an cfg t m = Some r" and "addresses_ok m" and "placed m t" and "live m t"
  shows "step_moves t m r"
proof -
  note calls = moves_calls [OF assms] and others = moves_others [OF assms(1-3)]
    and starts = moves_begin [OF assms(1,3,4)] and turns = moves_turns [OF assms(1,3,4)]
  show ?thesis
  proof (cases t)
    case (RunTmux a st tr)
    then show ?thesis using assms moves_tmux by (simp add: thread_eqs)
  next
    case (MonitorWatch a prev tr)
    then show ?thesis using assms moves_monitor by (simp add: thread_eqs)
  next
    case (MonitorSave a n)
    then show ?thesis using assms moves_monitor_save by (simp add: thread_eqs)
  qed (rule calls others starts turns; simp; fail)+
qed

end
