(* ===== verification/BrambleInv.thy ===== *)
theory BrambleInv
  imports BrambleOwners
begin

text \<open>
  The invariants of the manager's data: the map leads from an identifier to an existing object of that
  identifier, a follow-up channel in the map is open and belongs to one session, no output is longer than
  a thousand lines, every final session and record has the time of its completion and every running one
  the time of its start, and a file holds the record that its name says. Each operation keeps them.
\<close>

section \<open>The invariants\<close>

definition named :: "bmanager \<Rightarrow> bool" where
  "named m = (\<forall>p \<in> set (bm_sessions m). snd p < heap_len m \<and> bs_ID (obj m (snd p)) = fst p)"

definition chans_ok :: "bmanager \<Rightarrow> bool" where
  "chans_ok m =
    ((\<forall>i c. map_of (bm_followUps m) i = Some c \<longrightarrow> c < length (bm_chans m) \<and> \<not> fc_closed (bm_chans m ! c)) \<and>
     (\<forall>i j c. map_of (bm_followUps m) i = Some c \<longrightarrow> map_of (bm_followUps m) j = Some c \<longrightarrow> i = j))"

definition outs_ok :: "bmanager \<Rightarrow> bool" where
  "outs_ok m = (\<forall>i ls. map_of (bm_outputs m) i = Some ls \<longrightarrow> length ls \<le> 1000)"

definition timed :: "sess_status \<Rightarrow> time option \<Rightarrow> time option \<Rightarrow> bool" where
  "timed st started completed = ((SessIsTerminal st \<longrightarrow> completed \<noteq> None) \<and> (st = StatusRunning \<longrightarrow> started \<noteq> None))"

definition sess_timed :: "bsession \<Rightarrow> bool" where
  "sess_timed s = timed (bs_Status s) (bs_StartedAt s) (bs_CompletedAt s)"

definition record_timed :: "StoredSession \<Rightarrow> bool" where
  "record_timed d = timed (sd_Status d) (sd_StartedAt d) (sd_CompletedAt d)"

definition timed_ok :: "bmanager \<Rightarrow> bool" where
  "timed_ok m = (\<forall>b < heap_len m. sess_timed (obj m b))"

definition record_ok :: "string \<Rightarrow> StoredSession \<Rightarrow> bool" where
  "record_ok p d = (path_comps p \<noteq> [] \<and> last (path_comps p) = sd_ID d @ ''.json'' \<and> record_timed d)"

definition store_ok :: "store \<Rightarrow> bool" where
  "store_ok st = (\<forall>p d. map_of (so_files st) p = Some (Some d) \<longrightarrow> record_ok p d)"

definition stored_ok :: "bmanager \<Rightarrow> bool" where
  "stored_ok m = (case bm_store m of None \<Rightarrow> True | Some st \<Rightarrow> store_ok st)"

section \<open>The store\<close>

lemma LoadSession_ok: "store_ok st \<Longrightarrow> LoadSession repo wt i st = Inr d \<Longrightarrow> sd_ID d = i \<and> record_timed d"
proof -
  assume s: "store_ok st" and l: "LoadSession repo wt i st = Inr d"
  then obtain p where p: "sessionPath (so_baseDir st) repo wt i = Inr p" "map_of (so_files st) p = Some (Some d)"
    by (auto simp: LoadSession_def split: sum.splits option.splits)
  then have "record_ok p d" using s by (auto simp: store_ok_def)
  then show ?thesis using sessionPath_key(2) [OF p(1)] by (simp add: record_ok_def store_key_def)
qed

lemma SaveSession_ok: "store_ok st \<Longrightarrow> record_timed d \<Longrightarrow> SaveSession io d st = (r, st') \<Longrightarrow> store_ok st'"
proof (cases "r = None")
  case True
  assume s: "store_ok st" and t: "record_timed d" and sv: "SaveSession io d st = (r, st')"
  obtain p where p: "sessionPath (so_baseDir st) (sd_RepoName d) (sd_WorktreeName d) (sd_ID d) = Inr p"
      "so_files st' = mput p (Some d) (so_files st)" using SaveSession_frame(3) [OF sv True] by blast
  have "record_ok p d" using sessionPath_key(2) [OF p(1)] t by (simp add: record_ok_def store_key_def)
  then show "store_ok st'" using s p(2) by (simp add: store_ok_def)
next
  case False
  assume s: "store_ok st" and sv: "SaveSession io d st = (r, st')"
  then show "store_ok st'" using SaveSession_frame(2) [OF sv False] by (simp add: store_ok_def)
qed

lemma DeleteStored_ok: "store_ok st \<Longrightarrow> store_ok (snd (DeleteStored repo wt i st))"
  by (auto simp: DeleteStored_def store_ok_def split: sum.split option.split)

section \<open>Times and outputs\<close>

lemma timed_apply [simp]: "sess_timed (applySessionStatus now st s)"
  by (cases st) (simp_all add: sess_timed_def timed_def applySessionStatus_def Let_def)

lemma timed_on_obj: "(\<And>s. sess_timed s \<Longrightarrow> sess_timed (f s)) \<Longrightarrow> timed_ok m \<Longrightarrow> timed_ok (on_obj a f m)"
  by (simp add: timed_ok_def)

definition data_ok :: "bmanager \<Rightarrow> bool" where
  "data_ok m = (timed_ok m \<and> outs_ok m \<and> stored_ok m)"

lemma data_fields [simp]:
  "data_ok (m\<lparr>bm_sessions := x1\<rparr>) = data_ok m" "data_ok (m\<lparr>bm_followUps := x3\<rparr>) = data_ok m"
  "data_ok (m\<lparr>bm_chans := x4\<rparr>) = data_ok m" "data_ok (m\<lparr>bm_cancelled := x5\<rparr>) = data_ok m"
  "data_ok (m\<lparr>bm_closed := x6\<rparr>) = data_ok m" "data_ok (m\<lparr>bm_events := x8\<rparr>) = data_ok m" "data_ok (emit_change a st m) = data_ok m"
  by (simp_all add: data_ok_def timed_ok_def outs_ok_def stored_ok_def)

lemma data_on_obj: "(\<And>s. sess_timed s \<Longrightarrow> sess_timed (f s)) \<Longrightarrow> data_ok m \<Longrightarrow> data_ok (on_obj a f m)"
  by (simp add: data_ok_def timed_on_obj outs_ok_def stored_ok_def)

lemma data_mput: "data_ok m \<Longrightarrow> data_ok (m\<lparr>bm_outputs := mput i [] (bm_outputs m)\<rparr>)"
  by (simp add: data_ok_def timed_ok_def outs_ok_def stored_ok_def)

lemma data_mdel: "data_ok m \<Longrightarrow> data_ok (m\<lparr>bm_outputs := mdel i (bm_outputs m)\<rparr>)"
  by (simp add: data_ok_def timed_ok_def outs_ok_def stored_ok_def)

lemma data_addOutput: "data_ok m \<Longrightarrow> data_ok (bm_addOutput i l m)"
proof -
  have "length (tl ls @ [l]) \<le> 1000" if "length ls \<le> 1000" for ls :: "OutputLine list"
    using that by (cases ls) simp_all
  then show "data_ok m \<Longrightarrow> data_ok (bm_addOutput i l m)"
    by (auto simp: data_ok_def timed_ok_def outs_ok_def stored_ok_def bm_addOutput_def addOutput_def split: option.split)
qed

lemma data_updateSessionStatus: "data_ok m \<Longrightarrow> data_ok (updateSessionStatus now a st m)"
  by (simp add: updateSessionStatus_def Let_def data_on_obj)

lemma data_failSession: "data_ok m \<Longrightarrow> data_ok (failSession now a e m)"
  by (simp add: failSession_def data_on_obj)

lemma data_tryUpdate: "data_ok m \<Longrightarrow> data_ok (snd (tryUpdateSessionStatus now a x y m))"
  by (simp add: tryUpdateSessionStatus_def Let_def data_on_obj)

lemma data_SetSession: "data_ok m \<Longrightarrow> data_ok (snd (SetSessionIdle now i m))" "data_ok m \<Longrightarrow> data_ok (snd (SetSessionRunning now i m))"
  by (simp_all add: SetSessionIdle_def SetSessionRunning_def trySetStatus_def data_tryUpdate split: option.split)

lemma data_store: "data_ok m \<Longrightarrow> store_ok st \<Longrightarrow> data_ok (m\<lparr>bm_store := Some st\<rparr>)"
  by (simp add: data_ok_def timed_ok_def outs_ok_def stored_ok_def)

lemma data_store_ok: "data_ok m \<Longrightarrow> bm_store m = Some st \<Longrightarrow> store_ok st"
  by (simp add: data_ok_def stored_ok_def)

lemma data_persistSession: "data_ok m \<Longrightarrow> a < heap_len m \<Longrightarrow> data_ok (persistSession now io cfg a m)"
proof -
  assume d: "data_ok m" and a: "a < heap_len m"
  have "sess_timed (obj m a)" using d a by (simp add: data_ok_def timed_ok_def)
  then have t: "record_timed (SessionToStored (obj m a) repo ls)" for repo ls
    by (simp add: record_timed_def sess_timed_def SessionToStored_def)
  have "store_ok st'" if "bm_store m = Some st" "SaveSession io (SessionToStored (obj m a) repo ls) st = (r, st')" for st st' r repo ls
    using that d SaveSession_ok [OF _ t that(2)] by (simp add: data_ok_def stored_ok_def)
  then show ?thesis using d
    by (auto simp: persistSession_def Let_def intro!: data_addOutput data_store split: option.split prod.split)
qed

lemma data_cancel_ctx: "data_ok m \<Longrightarrow> data_ok (cancel_ctx s m)"
  by (simp add: cancel_ctx_def split: option.split)

lemma data_poll_pane: "data_ok m \<Longrightarrow> data_ok (snd (poll_pane an a target tr m))"
  by (auto simp: poll_pane_def data_SetSession split: option.split prod.split paneIdleAction.split)

lemma data_capture_recent: "data_ok m \<Longrightarrow> data_ok (snd (capture_recent an a prev m))"
proof -
  have w: "data_ok m1 \<Longrightarrow> data_ok (on_obj a (\<lambda>s. case ps of None \<Rightarrow> s | Some q \<Rightarrow> s\<lparr>bs_Model := f s q\<rparr>) m1)" for ps f m1
    by (rule data_on_obj) (simp_all add: sess_timed_def split: option.split)
  have p: "data_ok m \<Longrightarrow> data_ok (on_obj a (\<lambda>s. s\<lparr>bs_Progress := g s\<rparr>) m)" for g
    by (rule data_on_obj) (simp_all add: sess_timed_def)
  show "data_ok m \<Longrightarrow> data_ok (snd (capture_recent an a prev m))"
    by (simp add: capture_recent_def Let_def w p data_tryUpdate split: option.split)
qed

lemma data_end_turn: "data_ok m \<Longrightarrow> data_ok (end_turn an cfg a u m)"
  unfolding end_turn_def Let_def by (rule data_addOutput, rule data_on_obj) (simp_all add: sess_timed_def)

lemma data_after_turn: "data_ok m \<Longrightarrow> data_ok (after_turn an a m)"
proof -
  have "data_ok m1 \<Longrightarrow> data_ok (on_obj a (bs_PlanFilePath_update k) m1)" "data_ok m1 \<Longrightarrow> data_ok (on_obj a (bs_ResearchFilePath_update k) m1)" for k m1
    by (rule data_on_obj; simp add: sess_timed_def)+
  then show "data_ok m \<Longrightarrow> data_ok (after_turn an a m)"
    unfolding after_turn_def Let_def by (simp add: data_addOutput split: option.split)
qed

lemmas data_ops = data_mput data_mdel data_addOutput data_updateSessionStatus data_failSession data_tryUpdate data_SetSession
  data_persistSession data_cancel_ctx data_poll_pane data_capture_recent data_end_turn data_after_turn

lemma data_fold: "data_ok m \<Longrightarrow> (\<And>x m'. x \<in> set xs \<Longrightarrow> same_maps m m' \<Longrightarrow> data_ok m' \<Longrightarrow> data_ok (f x m')) \<Longrightarrow>
    (\<And>x m. same_maps m (f x m)) \<Longrightarrow> data_ok (fold f xs m)"
proof (induction xs arbitrary: m)
  case (Cons x xs)
  have "data_ok (f x m)" using Cons.prems by simp
  moreover have "data_ok (f y m')" if "y \<in> set xs" "same_maps (f x m) m'" "data_ok m'" for y m'
    using Cons.prems(2) [of y m'] that same_maps_trans [OF Cons.prems(3) that(2)] by simp
  ultimately show ?case using Cons.IH [of "f x m"] Cons.prems(3) by simp
qed simp

section \<open>The maps\<close>

definition maps_ok :: "bmanager \<Rightarrow> bool" where
  "maps_ok m = (named m \<and> chans_ok m)"

lemma named_lookup: "named m \<Longrightarrow> map_of (bm_sessions m) i = Some a \<Longrightarrow> a < heap_len m \<and> bs_ID (obj m a) = i"
  by (force simp: named_def dest: map_of_SomeD)

lemma named_addresses: "named m \<Longrightarrow> addresses_ok m"
  by (simp add: addresses_ok_def named_lookup)

lemma maps_same: "same_maps m m' \<Longrightarrow> maps_ok m \<Longrightarrow> maps_ok m'"
  by (simp add: maps_ok_def named_def chans_ok_def same_maps_def)

lemma maps_fields [simp]:
  "maps_ok (m\<lparr>bm_outputs := x2\<rparr>) = maps_ok m" "maps_ok (m\<lparr>bm_cancelled := x5\<rparr>) = maps_ok m"
  "maps_ok (m\<lparr>bm_closed := x6\<rparr>) = maps_ok m" "maps_ok (m\<lparr>bm_store := x7\<rparr>) = maps_ok m" "maps_ok (m\<lparr>bm_events := x8\<rparr>) = maps_ok m"
  by (simp_all add: maps_ok_def named_def chans_ok_def)

lemmas maps_ops = maps_same [OF same_updateSessionStatus] maps_same [OF same_failSession] maps_same [OF same_tryUpdate]
  maps_same [OF same_SetSession(1)] maps_same [OF same_SetSession(2)] maps_same [OF same_addOutput]
  maps_same [OF same_persistSession] maps_same [OF same_cancel_ctx] maps_same [OF same_poll_pane]
  maps_same [OF same_capture_recent] maps_same [OF same_end_turn] maps_same [OF same_after_turn] maps_same [OF same_emit]

lemma maps_on_obj: "(\<And>s. bs_ID (f s) = bs_ID s) \<Longrightarrow> maps_ok m \<Longrightarrow> maps_ok (on_obj a f m)"
  by (rule maps_same [OF same_on_obj])

lemma maps_delete: "maps_ok m \<Longrightarrow> maps_ok (m\<lparr>bm_sessions := mdel i (bm_sessions m)\<rparr>)"
  using set_mdel [of i "bm_sessions m"] by (auto simp: maps_ok_def named_def chans_ok_def)

lemma maps_insert:
  "maps_ok m \<Longrightarrow> bs_ID s = i \<Longrightarrow>
    maps_ok (m\<lparr>bm_heap := bm_heap m @ [s], bm_sessions := mput i (heap_len m) (bm_sessions m)\<rparr>)"
  by (auto simp: maps_ok_def named_def chans_ok_def obj_def nth_append dest!: set_mput)

lemma maps_chan_delete: "maps_ok m \<Longrightarrow> maps_ok (m\<lparr>bm_followUps := mdel i (bm_followUps m)\<rparr>)"
  by (simp add: maps_ok_def named_def chans_ok_def)

lemma maps_chan_new:
  "maps_ok m \<Longrightarrow> maps_ok (m\<lparr>bm_chans := bm_chans m @ [\<lparr>fc_msg = None, fc_closed = False\<rparr>],
    bm_followUps := mput i (length (bm_chans m)) (bm_followUps m)\<rparr>)"
  unfolding maps_ok_def named_def chans_ok_def by (auto simp: nth_append less_Suc_eq)

lemma maps_chan_msg: "maps_ok m \<Longrightarrow> maps_ok (on_chan c (fc_msg_update f) m)"
  by (cases "c < length (bm_chans m)")
    (auto simp: maps_ok_def named_def chans_ok_def on_chan_def nth_list_update list_update_beyond)

lemma maps_chan_close:
  "maps_ok m \<Longrightarrow> map_of (bm_followUps m) i = Some c \<Longrightarrow>
    maps_ok ((on_chan c (fc_closed_update (\<lambda>_. True)) m)\<lparr>bm_followUps := mdel i (bm_followUps m)\<rparr>)"
  by (auto simp: maps_ok_def named_def chans_ok_def on_chan_def nth_list_update)

lemma on_chan_fields [simp]: "data_ok (on_chan c f m) = data_ok m" "bm_sessions (on_chan c f m) = bm_sessions m"
  "heap_len (on_chan c f m) = heap_len m" "obj (on_chan c f m) b = obj m b" "final (on_chan c f m) = final m"
  by (simp_all add: on_chan_def)

section \<open>One section\<close>

text \<open>A record that is about to be inserted has the identifier under which it was loaded.\<close>

definition insert_ok :: "bthread \<Rightarrow> bool" where
  "insert_ok t = (case t of ResumeInsert i p d \<Rightarrow> sd_ID d = i \<and> record_timed d | _ \<Rightarrow> True)"

definition inv_ok :: "bmanager \<Rightarrow> bool" where
  "inv_ok m = (maps_ok m \<and> data_ok m)"

lemma stored_session_ok:
  assumes "data_ok m" and "stored_session cfg i m = Some d"
  shows "sd_ID d = i \<and> record_timed d"
proof -
  obtain st where st: "bm_store m = Some st" using assms(2) by (auto simp: stored_session_def split: option.splits)
  have "store_ok st" using assms(1) st by (simp add: data_ok_def stored_ok_def)
  moreover have "\<exists>wt. LoadSession (bc_RepoName cfg) wt i st = Inr d"
  proof -
    let ?xs = "List.map_filter (\<lambda>wt. case LoadSession (bc_RepoName cfg) wt i st of Inl e \<Rightarrow> None | Inr d \<Rightarrow> Some d)
        (ListWorktrees (bc_RepoName cfg) st)"
    have "d \<in> set ?xs" using assms(2) st by (auto simp: stored_session_def split: if_splits list.splits)
    then show ?thesis by (auto simp: List.map_filter_def split: sum.splits)
  qed
  ultimately show ?thesis using LoadSession_ok by blast
qed

lemma data_insert:
  "data_ok m \<Longrightarrow> sess_timed s \<Longrightarrow> data_ok (m\<lparr>bm_heap := bm_heap m @ [s]\<rparr>)"
  by (auto simp: data_ok_def timed_ok_def outs_ok_def stored_ok_def obj_def nth_append less_Suc_eq)

lemma forget_kept: "maps_ok m \<Longrightarrow> maps_ok (forget_session i m)" "data_ok m \<Longrightarrow> data_ok (forget_session i m)"
proof -
  have f: "forget_session i m = (m\<lparr>bm_outputs := mdel i (bm_outputs m)\<rparr>)\<lparr>bm_sessions := mdel i (bm_sessions m)\<rparr>"
    by (simp add: forget_session_def)
  show "maps_ok m \<Longrightarrow> maps_ok (forget_session i m)"
    using maps_delete [of "m\<lparr>bm_outputs := mdel i (bm_outputs m)\<rparr>" i] by (simp add: f)
  show "data_ok m \<Longrightarrow> data_ok (forget_session i m)" by (simp only: f data_fields data_mdel)
qed

lemmas inv_intros = maps_ops data_ops maps_on_obj maps_delete maps_chan_delete maps_chan_new maps_chan_msg maps_chan_close

definition keeps :: "bthread \<Rightarrow> bmanager \<Rightarrow> bmanager \<times> bthread list \<Rightarrow> bool" where
  "keeps t m r = (inv_ok (fst r) \<and> list_all insert_ok (snd r))"

lemmas keep_eqs = thread_eqs keeps_def inv_ok_def insert_ok_def

lemma keeps_calls:
  assumes "thread_step an cfg t m = Some r" and "inv_ok m" and "placed m t" and "insert_ok t"
    and "t \<in> {ThreadDone e, ResumeLookup i p, ResumeInsert i p d, ResumeCheck i p a, ResumeReset i p a, ResumeSpawn i p a}"
  shows "keeps t m r"
  using assms
  apply (elim insertE emptyE; hypsubst)
  subgoal by (auto simp: keep_eqs)
  subgoal by (auto simp: keep_eqs resume_lookup_def stored_session_ok split: option.splits)
  subgoal by (auto simp: keep_eqs resume_insert_def storedToSession_def sess_timed_def record_timed_def intro!: data_insert maps_insert)
  subgoal by (auto simp: keep_eqs resume_check_def new_ctx_def sess_timed_def timed_def intro!: maps_on_obj data_on_obj split: if_splits)
  subgoal by (auto simp: keep_eqs resume_reset_def intro: inv_intros)
  subgoal by (auto simp: keep_eqs resume_spawn_def intro: inv_intros)
  done

lemma keeps_others:
  assumes "thread_step an cfg t m = Some r" and "inv_ok m" and "placed m t"
    and "t \<in> {FollowLookup i x, FollowChan i x, FollowSend c x, CompleteLookup i, CompleteClose i, StopLookup i, StopCancel a,
      DeleteLookup i, DeleteOutput i a, DeleteStore i a, ClosePersist, CloseCancel}"
  shows "keeps t m r"
  using assms
  apply (elim insertE emptyE; hypsubst)
  subgoal by (auto simp: keep_eqs follow_lookup_def split: option.splits if_splits)
  subgoal by (auto simp: keep_eqs follow_chan_def split: option.splits if_splits)
  subgoal by (auto simp: keep_eqs follow_send_def maps_chan_msg split: option.splits if_splits)
  subgoal by (auto simp: keep_eqs complete_lookup_def split: option.splits if_splits)
  subgoal by (auto simp: keep_eqs complete_close_def maps_chan_close split: option.splits if_splits)
  subgoal by (auto simp: keep_eqs stop_lookup_def split: option.splits if_splits)
  subgoal by (auto simp: keep_eqs intro: inv_intros)
  subgoal by (auto simp: keep_eqs delete_lookup_def maps_delete split: option.splits if_splits)
  subgoal by (auto simp: keep_eqs intro: inv_intros)
  subgoal by (auto simp: keep_eqs delete_store_def intro!: data_store DeleteStored_ok dest: data_store_ok split: option.splits if_splits)
  subgoal
  proof -
    assume a: "thread_step an cfg ClosePersist m = Some r" "inv_ok m"
    have "data_ok (fold (\<lambda>p. persistSession (an_now an) (an_io an) cfg (snd p)) (bm_sessions m) m)"
      using a(2) by (intro data_fold) (auto simp: inv_ok_def maps_ok_def named_def same_maps_def same_persistSession data_persistSession)
    moreover have "maps_ok (fold (\<lambda>p. persistSession (an_now an) (an_io an) cfg (snd p)) (bm_sessions m) m)"
      using a(2) by (intro maps_same [OF same_fold [OF same_persistSession]]) (simp add: inv_ok_def)
    ultimately show ?thesis using a by (auto simp: keep_eqs close_persist_def)
  qed
  subgoal
  proof -
    assume a: "thread_step an cfg CloseCancel m = Some r" "inv_ok m"
    let ?m = "m\<lparr>bm_closed := True\<rparr>"
    have "data_ok (fold (\<lambda>p m. cancel_ctx (obj m (snd p)) m) (bm_sessions m) ?m)"
      using a(2) by (intro data_fold) (auto simp: inv_ok_def same_cancel_ctx data_cancel_ctx)
    moreover have "maps_ok (fold (\<lambda>p m. cancel_ctx (obj m (snd p)) m) (bm_sessions m) ?m)"
      using a(2) by (intro maps_same [OF same_fold [OF same_cancel_ctx]]) (simp add: inv_ok_def)
    ultimately show ?thesis using a by (auto simp: keep_eqs close_cancel_def)
  qed
  done

lemma keeps_begin:
  assumes "thread_step an cfg t m = Some r" and "inv_ok m" and "placed m t"
    and "t \<in> {RunBegin a p, RunResolve a p, RunMode a p am, RunStart a p am, RunOpen a p am}"
  shows "keeps t m r"
  using assms
  apply (elim insertE emptyE; hypsubst)
  subgoal by (auto simp: keep_eqs intro: inv_intros)
  subgoal by (auto simp: keep_eqs run_resolve_def Let_def intro: inv_intros split: option.splits sum.splits)
  subgoal by (auto simp: keep_eqs run_mode_def Let_def sess_timed_def intro!: inv_intros data_on_obj
        split: option.splits sess_type.splits bool.splits prod.splits)
  subgoal by (auto simp: keep_eqs run_start_def sess_timed_def intro!: inv_intros data_on_obj split: option.splits)
  subgoal by (auto simp: keep_eqs run_open_def intro!: inv_intros split: if_splits)
  done

lemma keeps_turns:
  assumes "thread_step an cfg t m = Some r" and "inv_ok m" and "placed m t"
    and "t \<in> {RunTurn a p c am, RunSettle a c am, RunWait a c am, RunGone a, RunFailed a e s, RunErrorLine a e, RunStop a, RunSave a}"
  shows "keeps t m r"
  using assms
  apply (elim insertE emptyE; hypsubst)
  subgoal by (auto simp: keep_eqs run_turn_def intro!: inv_intros split: sum.splits option.splits if_splits)
  subgoal by (auto simp: keep_eqs run_settle_def Let_def intro!: inv_intros split: if_splits)
  subgoal by (auto simp: keep_eqs run_wait_def Let_def sess_timed_def intro!: inv_intros data_on_obj
        split: pick.splits option.splits if_splits)
  subgoal by (auto simp: keep_eqs run_gone_def intro!: inv_intros forget_kept)
  subgoal by (cases s; auto simp: keep_eqs intro!: inv_intros)
  subgoal by (cases "bc_Tmux cfg"; auto simp: keep_eqs intro!: inv_intros)
  subgoal by (cases "bc_Tmux cfg"; auto simp: keep_eqs run_stop_def intro!: inv_intros)
  subgoal by (cases "bc_Tmux cfg \<and> bm_closed m"; auto simp: keep_eqs run_save_def intro!: inv_intros)
  done

lemma poll_pane_kept:
  assumes "inv_ok m"
  obtains tr1 m1 where "poll_pane an a target tr m = (tr1, m1)" and "maps_ok m1" and "data_ok m1" and "heap_len m1 = heap_len m"
  using assms by (metis data_poll_pane inv_ok_def maps_same prod.collapse same_mapsD(5) same_poll_pane)

lemma capture_recent_kept:
  assumes "inv_ok m"
  obtains prev1 m1 where "capture_recent an a prev m = (prev1, m1)" and "maps_ok m1" and "data_ok m1"
  using assms by (metis data_capture_recent inv_ok_def maps_same prod.collapse same_capture_recent)

lemma keeps_tmux:
  assumes "thread_step an cfg (RunTmux a st tr) m = Some r" and "inv_ok m"
  shows "keeps (RunTmux a st tr) m r"
proof (cases "an_pick an = PickTick")
  case True
  define target where "target = (if bs_TmuxWindowID (obj m a) \<noteq> [] then bs_TmuxWindowID (obj m a) else bs_TmuxWindowName (obj m a))"
  obtain tr1 m1 where p: "poll_pane an a target tr m = (tr1, m1)" "maps_ok m1" "data_ok m1" "heap_len m1 = heap_len m"
    using assms(2) by (rule poll_pane_kept)
  show ?thesis using assms True p
    by (auto simp: keep_eqs run_tmux_def tmux_tick_def Let_def target_def [symmetric] intro!: inv_intros split: if_splits)
next
  case False
  then show ?thesis using assms by (auto simp: keep_eqs run_tmux_def intro!: inv_intros split: pick.splits if_splits)
qed

lemma keeps_monitor_tick:
  assumes "monitor_tick an a prev tr m = Some r" and "inv_ok m"
  shows "keeps (MonitorWatch a prev tr) m r"
proof -
  define target where "target = (if bs_TmuxWindowID (obj m a) \<noteq> [] then bs_TmuxWindowID (obj m a)
    else if an_notified an (bs_TmuxWindowName (obj m a)) then ''!'' @ bs_TmuxWindowName (obj m a) else bs_TmuxWindowName (obj m a))"
  obtain tr1 m1 where p: "poll_pane an a target tr m = (tr1, m1)" "maps_ok m1" "data_ok m1" "heap_len m1 = heap_len m"
    using assms(2) by (rule poll_pane_kept)
  show ?thesis using assms p
    by (auto simp: keep_eqs monitor_tick_def Let_def target_def [symmetric] intro!: inv_intros split: if_splits)
qed

lemma keeps_monitor:
  assumes "thread_step an cfg (MonitorWatch a prev tr) m = Some r" and "inv_ok m"
  shows "keeps (MonitorWatch a prev tr) m r"
proof (cases "an_pick an")
  case PickTick
  then show ?thesis using assms keeps_monitor_tick by (simp add: thread_step_def monitor_watch_def)
next
  case PickCapture
  obtain prev1 m1 where "capture_recent an a prev m = (prev1, m1)" "maps_ok m1" "data_ok m1"
    using assms(2) by (rule capture_recent_kept)
  then show ?thesis using assms PickCapture by (auto simp: keep_eqs monitor_watch_def)
qed (use assms in \<open>auto simp: keep_eqs monitor_watch_def intro!: inv_intros split: if_splits\<close>)

lemma keeps_monitor_save:
  assumes "thread_step an cfg (MonitorSave a n) m = Some r" and "inv_ok m" and "a < heap_len m"
  shows "keeps (MonitorSave a n) m r"
  using assms by (auto simp: keep_eqs monitor_save_def intro!: inv_intros forget_kept split: if_splits)

theorem thread_keeps:
  assumes "thread_step an cfg t m = Some r" and "inv_ok m" and "placed m t" and "insert_ok t"
  shows "keeps t m r"
proof -
  note calls = keeps_calls [OF assms] and others = keeps_others [OF assms(1-3)]
    and starts = keeps_begin [OF assms(1-3)] and turns = keeps_turns [OF assms(1-3)]
  show ?thesis
  proof (cases t)
    case (RunTmux a st tr)
    then show ?thesis using assms keeps_tmux by simp
  next
    case (MonitorWatch a prev tr)
    then show ?thesis using assms keeps_monitor by simp
  next
    case (MonitorSave a n)
    then show ?thesis using assms keeps_monitor_save by (simp add: thread_eqs)
  qed (rule calls others starts turns; simp; fail)+
qed

end
