(* ===== verification/BrambleRaces.thy ===== *)
theory BrambleRaces
  imports BrambleOwners
begin

text \<open>
  Concrete runs of the session manager, evaluated: what happens when the sections of its calls and
  goroutines meet in an order that the code did not mean.
\<close>

section \<open>A configuration\<close>

definition race_cfg :: bconfig where
  "race_cfg = \<lparr>bc_RepoName = ''repo'', bc_Tmux = False, bc_InsideTmux = False, bc_Provider = False, bc_Registry = None,
     bc_env = \<lparr>ee_url = (\<lambda>_. None), ee_getenv = (\<lambda>_. [])\<rparr>, bc_fadd = (+)\<rparr>"

definition tmux_cfg :: bconfig where
  "tmux_cfg = race_cfg\<lparr>bc_Tmux := True, bc_InsideTmux := True\<rparr>"

text \<open>Everything outside works: the runner starts, a turn has no usage, nothing is waiting.\<close>

definition fine :: answer where
  "fine = \<lparr>an_now = 5, an_io = (True, replicate 5 True), an_start = None, an_cli = ''c-1'', an_windowName = ''repo/a:0'',
     an_windowID = ''@1'', an_turn = Inr None, an_durationMs = 0, an_plan = None, an_research = None, an_children = [],
     an_pick = PickTick, an_alive = (\<lambda>_ _. True), an_notified = (\<lambda>_. False), an_paneDead = (\<lambda>_. False),
     an_exit = (\<lambda>_. None), an_capture = (\<lambda>_. None), an_content = None\<rparr>"

definition call :: "bthread \<Rightarrow> answer \<times> baction" where
  "call t = (fine, Invoke t)"

definition go_on :: "nat \<Rightarrow> nat \<Rightarrow> (answer \<times> baction) list" where
  "go_on n k = replicate n (fine, Advance k)"

definition start_event :: "answer \<times> baction" where
  "start_event = (fine, Start ''0'' TypeBuilder ''/w/a'' ''p'' ''sonnet''
     \<lparr>op_ParentSessionID = [], op_Backend = [], op_LLMEndpoint = zero_endpoint\<rparr>)"

text \<open>A session that was started and has had its first turn: it is idle and waits for a follow-up.\<close>

definition idle_run :: "(answer \<times> baction) list" where
  "idle_run = start_event # go_on 7 0"

definition race_id :: string where
  "race_id = ''a-builder-0''"

definition race_store :: "sess_status \<Rightarrow> store" where
  "race_store st = snd (SaveSession (True, replicate 5 True) (sample_stored\<lparr>sd_RepoName := ''repo'', sd_Status := st\<rparr>) sample_store)"

definition statuses :: "bsystem \<Rightarrow> (string \<times> sess_status) list" where
  "statuses y = map (\<lambda>s. (bs_ID s, bs_Status s)) (bm_heap (by_m y))"

section \<open>Resuming\<close>

text \<open>Two callers resume a session that is only in the store, and their sections alternate.\<close>

definition two_resumes :: "(answer \<times> baction) list" where
  "two_resumes = [call (ResumeLookup ''s-1'' ''p''), call (ResumeLookup ''s-1'' ''q'')] @
     go_on 1 0 @ go_on 1 1 @ go_on 1 0 @ go_on 1 1 @ go_on 3 0 @ go_on 3 1"

text \<open>A turn fails; the session is resumed before the run has cleaned up, and the new run becomes idle.\<close>

definition resume_in_cleanup :: "(answer \<times> baction) list" where
  "resume_in_cleanup = start_event # go_on 5 0 @ [(fine\<lparr>an_turn := Inl ''lost''\<rparr>, Advance 0)] @
     call (ResumeLookup race_id ''again'') # go_on 4 1 @ go_on 7 2 @ go_on 3 0 @
     call (FollowLookup race_id ''x'') # go_on 2 3 @ call (CompleteLookup race_id) # go_on 2 4 @ [(fine\<lparr>an_pick := PickChan\<rparr>, Advance 2)]"

text \<open>A stored session that is not final: the resume is refused, then it is stopped and deleted.\<close>

definition refused_resume :: "(answer \<times> baction) list" where
  "refused_resume = call (ResumeLookup ''s-1'' ''p'') # go_on 3 0 @ call (StopLookup ''s-1'') # go_on 2 1 @
     call (DeleteLookup ''s-1'') # go_on 1 2"

section \<open>Windows\<close>

definition in_tmux :: answer where
  "in_tmux = fine\<lparr>an_cli := []\<rparr>"

definition in_tmux_on :: "nat \<Rightarrow> nat \<Rightarrow> (answer \<times> baction) list" where
  "in_tmux_on n k = replicate n (in_tmux, Advance k)"

text \<open>The session is resumed in tmux, gets the window \<open>@1\<close>, is stopped, and is resumed in the window \<open>@2\<close>; \<open>@1\<close> is gone.\<close>

definition resume_in_new_window :: "(answer \<times> baction) list" where
  "resume_in_new_window = (in_tmux, Invoke (ResumeLookup ''s-1'' ''p'')) # in_tmux_on 5 0 @ in_tmux_on 5 1 @
     (in_tmux, Invoke (StopLookup ''s-1'')) # in_tmux_on 2 2 @ [(in_tmux\<lparr>an_pick := PickDone\<rparr>, Advance 1)] @ in_tmux_on 2 1 @
     (in_tmux, Invoke (ResumeLookup ''s-1'' ''q'')) # in_tmux_on 4 3 @
     replicate 5 (in_tmux\<lparr>an_windowID := ''@2''\<rparr>, Advance 4) @ [(in_tmux\<lparr>an_alive := (\<lambda>w n. w = ''@2'')\<rparr>, Advance 4)]"

text \<open>The window closes after an hour; the session is resumed before the run has forgotten it.\<close>

definition resume_in_completion :: "(answer \<times> baction) list" where
  "resume_in_completion = (in_tmux, Invoke (ResumeLookup ''s-1'' ''p'')) # in_tmux_on 5 0 @ in_tmux_on 5 1 @
     [(in_tmux\<lparr>an_alive := (\<lambda>_ _. False), an_now := 3600 * 10 ^ 9\<rparr>, Advance 1), (in_tmux, Invoke (ResumeLookup ''s-1'' ''q''))] @
     in_tmux_on 4 2 @ in_tmux_on 1 1"


section \<open>Idle sessions\<close>

text \<open>A follow-up has found the channel; the session is completed; the follow-up is sent.\<close>

definition send_while_completing :: "(answer \<times> baction) list" where
  "send_while_completing = idle_run @ call (FollowLookup race_id ''x'') # go_on 2 1 @ call (CompleteLookup race_id) # go_on 2 2 @ go_on 1 1"

text \<open>An idle session is deleted; then its agent stays; then the manager is closed.\<close>

definition delete_idle :: "(answer \<times> baction) list" where
  "delete_idle = idle_run @ call (DeleteLookup race_id) # go_on 3 1 @ call (StopLookup race_id) # go_on 1 2"

definition delete_and_close :: "(answer \<times> baction) list" where
  "delete_and_close = delete_idle @ call ClosePersist # go_on 2 3 @ [(fine\<lparr>an_pick := PickDone\<rparr>, Advance 0)] @ go_on 2 0"

definition empty_store :: store where
  "empty_store = sample_store"


end
