(* ===== verification/BrambleRunProps.thy ===== *)
theory BrambleRunProps
  imports BrambleInv BrambleRaces
begin

text \<open>
  The properties of the session manager in every run, that is for every order in which the sections of
  its calls and goroutines are taken and every answer of the outside: the invariant of its data and of
  the owners, what alone can panic, and how a final status is left.
\<close>

section \<open>The invariant of the system\<close>

definition threads_ok :: "bsystem \<Rightarrow> bool" where
  "threads_ok y = (list_all (placed (by_m y)) (by_threads y) \<and> list_all insert_ok (by_threads y))"

definition owners_ok :: "bsystem \<Rightarrow> bool" where
  "owners_ok y = (\<forall>b. owners (by_threads y) b \<le> 1 \<and> (owners (by_threads y) b = 1 \<longrightarrow> b < heap_len (by_m y) \<and> \<not> final (by_m y) b))"

definition sys_ok :: "bsystem \<Rightarrow> bool" where
  "sys_ok y = (inv_ok (by_m y) \<and> threads_ok y \<and> owners_ok y)"

lemma owners_pos: "t \<in> set ts \<Longrightarrow> owner t = Some b \<Longrightarrow> 0 < owners ts b"
  by (induction ts) auto

lemma sys_live: "sys_ok y \<Longrightarrow> t \<in> set (by_threads y) \<Longrightarrow> live (by_m y) t"
  unfolding live_def sys_ok_def owners_ok_def
  by (metis One_nat_def Suc_leI le_antisym owners_pos)

lemma placed_mono: "placed m t \<Longrightarrow> heap_len m \<le> heap_len m' \<Longrightarrow> placed m' t"
  by (auto simp: placed_def)

lemma placed_cong: "heap_len m' = heap_len m \<Longrightarrow> placed m' = placed m"
  by (rule ext) (simp add: placed_def)

lemma list_all_update_tail:
  "list_all P ts \<Longrightarrow> list_all P us \<Longrightarrow> us \<noteq> [] \<Longrightarrow> list_all P (ts[k := hd us] @ tl us)"
  by (cases us) (auto simp: list_all_iff dest: set_update_subset_insert [THEN subsetD])

lemma owners_split:
  assumes "k < length ts" and "us \<noteq> []"
  shows "owners (ts[k := hd us] @ tl us) b + owners [ts ! k] b = owners ts b + owners us b"
  using owners_update [OF assms(1), of "hd us" b] assms(2) by (cases us) auto

lemma advance_ok:
  assumes y: "sys_ok y" and k: "k < length (by_threads y)" and st: "thread_step an cfg (by_threads y ! k) (by_m y) = Some (m, us)"
  shows "sys_ok (y\<lparr>by_m := m, by_threads := (by_threads y)[k := hd us] @ tl us\<rparr>)"
proof -
  let ?t = "by_threads y ! k" and ?m = "by_m y" and ?ts = "by_threads y"
  have t: "?t \<in> set ?ts" using k by simp
  have pl: "placed ?m ?t" and io: "insert_ok ?t" and inv: "inv_ok ?m"
    using y t by (auto simp: sys_ok_def threads_ok_def list_all_iff)
  have ad: "addresses_ok ?m" using inv by (simp add: inv_ok_def maps_ok_def named_addresses)
  have mv: "step_moves ?t ?m (m, us)" by (rule thread_moves [OF st ad pl sys_live [OF y t]])
  have kp: "keeps ?t ?m (m, us)" by (rule thread_keeps [OF st inv pl io])
  have us: "us \<noteq> []" and grow: "heap_len ?m \<le> heap_len m" using mv by (simp_all add: step_moves_def)
  have "list_all (placed m) ?ts" using y grow by (auto simp: sys_ok_def threads_ok_def list_all_iff intro: placed_mono)
  then have "list_all (placed m) (?ts[k := hd us] @ tl us)"
    using mv us by (intro list_all_update_tail) (simp_all add: step_moves_def)
  moreover have "list_all insert_ok (?ts[k := hd us] @ tl us)"
    using y kp us by (intro list_all_update_tail) (simp_all add: sys_ok_def threads_ok_def keeps_def)
  moreover have "owners (?ts[k := hd us] @ tl us) b \<le> 1 \<and>
      (owners (?ts[k := hd us] @ tl us) b = 1 \<longrightarrow> b < heap_len m \<and> \<not> final m b)" for b
  proof -
    have cnt: "owners (?ts[k := hd us] @ tl us) b + owners [?t] b = owners ?ts b + owners us b" by (rule owners_split [OF k us])
    have one: "owners ?ts b \<le> 1" and nf: "owners ?ts b = 1 \<Longrightarrow> b < heap_len ?m \<and> \<not> final ?m b"
      using y by (auto simp: sys_ok_def owners_ok_def)
    have le: "owners [?t] b \<le> owners ?ts b" using t owners_pos [of ?t ?ts b] by auto
    show ?thesis
    proof (cases "b < heap_len ?m")
      case True
      then have "moves ?t ?m m (owners [?t] b) (owners us b) b" using mv by (simp add: step_moves_def)
      moreover have "owners ?ts b = 0 \<or> owners ?ts b = 1" using one by linarith
      ultimately show ?thesis using cnt nf le grow True by (auto simp: moves_def)
    next
      case False
      then have "owners us b = 0" using mv by (simp add: step_moves_def)
      then show ?thesis using cnt nf False one by auto
    qed
  qed
  ultimately show ?thesis using kp by (simp add: sys_ok_def threads_ok_def owners_ok_def keeps_def)
qed

section \<open>Starting, tracking and adopting\<close>

text \<open>A new object with at most one owner.\<close>

lemma new_object_ok:
  assumes y: "sys_ok y" and m: "inv_ok m" and len: "heap_len m = Suc (heap_len (by_m y))"
    and fin: "\<And>b. b < heap_len (by_m y) \<Longrightarrow> final m b = final (by_m y) b" and nf: "ts \<noteq> [] \<Longrightarrow> \<not> final m (heap_len (by_m y))"
    and ts: "ts = [] \<or> (\<exists>t. ts = [t] \<and> owner t = Some (heap_len (by_m y)) \<and> insert_ok t)"
  shows "sys_ok (y\<lparr>by_m := m, by_threads := by_threads y @ ts\<rparr>)"
proof -
  have "list_all (placed m) (by_threads y)"
    using y len by (auto simp: sys_ok_def threads_ok_def list_all_iff intro: placed_mono)
  moreover have "list_all (placed m) ts" using ts len owner_works_on by (auto simp: placed_def)
  moreover have "owners (by_threads y @ ts) b \<le> 1 \<and> (owners (by_threads y @ ts) b = 1 \<longrightarrow> b < heap_len m \<and> \<not> final m b)" for b
  proof -
    have "owners (by_threads y) b \<le> 1" "owners (by_threads y) b = 1 \<Longrightarrow> b < heap_len (by_m y) \<and> \<not> final (by_m y) b"
      using y by (auto simp: sys_ok_def owners_ok_def)
    moreover from this have "heap_len (by_m y) \<le> b \<Longrightarrow> owners (by_threads y) b = 0" by linarith
    ultimately show ?thesis using ts len fin nf
      by (cases "b < heap_len (by_m y)"; cases "b = heap_len (by_m y)") auto
  qed
  moreover have "list_all insert_ok ts" using ts by auto
  ultimately show ?thesis using y m by (simp add: sys_ok_def threads_ok_def owners_ok_def)
qed

lemma insert_session_inv:
  assumes "inv_ok m" and "sess_timed s" and "insert_session s m = (a, m1)"
  shows "inv_ok m1" and "heap_len m1 = Suc (heap_len m)" and "a = heap_len m" and "obj m1 a = s"
    and "\<And>b. b < heap_len m \<Longrightarrow> final m1 b = final m b"
proof -
  let ?h = "m\<lparr>bm_heap := bm_heap m @ [s], bm_sessions := mput (bs_ID s) (heap_len m) (bm_sessions m)\<rparr>"
  have e: "m1 = ?h\<lparr>bm_outputs := mput (bs_ID s) [] (bm_outputs ?h)\<rparr>" and a: "a = heap_len m"
    using assms(3) by (auto simp: insert_session_def)
  have "data_ok ?h" using assms data_insert [of m s] by (simp add: inv_ok_def)
  then show "inv_ok m1" using assms maps_insert [of m s] by (simp only: e inv_ok_def data_mput maps_fields)
  show "heap_len m1 = Suc (heap_len m)" by (simp add: e)
  show "a = heap_len m" by (rule a)
  show "obj m1 a = s" by (simp add: e a obj_def nth_append)
  show "final m1 b = final m b" if "b < heap_len m" for b using that by (simp add: e final_append)
qed

lemma new_ctx_inv: "new_ctx m = (c, m1) \<Longrightarrow> inv_ok m \<Longrightarrow> inv_ok m1 \<and> bm_heap m1 = bm_heap m \<and> final m1 = final m"
  by (auto simp: new_ctx_def inv_ok_def)

lemma bramble_start_ok:
  assumes y: "sys_ok y" and st: "StartSessionWithOpts now rand cfg ty path prompt model opts (by_m y) = (r, m)"
  shows "sys_ok (spawn (\<lambda>m a. [RunBegin a prompt]) (r, m) y)"
proof (cases r)
  case (Inl e)
  then have "m = by_m y" using st
    by (auto simp: StartSessionWithOpts_def startSessionWithID_def split: sum.splits prod.splits)
  then show ?thesis using y Inl by (simp add: spawn_def)
next
  case (Inr a)
  then obtain s c m1 where c: "new_ctx (by_m y) = (c, m1)" and i: "insert_session s m1 = (a, m)" and p: "bs_Status s = StatusPending"
    using st by (auto simp: StartSessionWithOpts_def startSessionWithID_def new_session_def split: sum.splits prod.splits)
  have m1: "inv_ok m1" "bm_heap m1 = bm_heap (by_m y)" "final m1 = final (by_m y)" using new_ctx_inv [OF c] y by (simp_all add: sys_ok_def)
  have "sess_timed s" using p by (simp add: sess_timed_def timed_def)
  note new = insert_session_inv [OF m1(1) this i]
  have "sys_ok (y\<lparr>by_m := m, by_threads := by_threads y @ [RunBegin a prompt]\<rparr>)"
    using new m1 p by (intro new_object_ok [OF y]) (auto simp: owner_def insert_ok_def final_def)
  then show ?thesis by (simp add: spawn_def Inr)
qed

lemma monitor_threads_one:
  "monitor_threads cfg a m = [] \<or> (\<exists>t. monitor_threads cfg a m = [t] \<and> owner t = Some a \<and> insert_ok t)"
  by (simp add: monitor_threads_def owner_def insert_ok_def)

lemma update_inv:
  "inv_ok m \<Longrightarrow> inv_ok (updateSessionStatus now a st m)" "inv_ok m \<Longrightarrow> inv_ok (emit_change a st m)"
  by (simp_all add: inv_ok_def maps_ops data_updateSessionStatus)

lemma track_ok:
  assumes y: "sys_ok y" and st: "TrackTmuxWindow now rand cfg path name win (by_m y) = (r, m)"
  shows "sys_ok (spawn (\<lambda>m a. monitor_threads cfg a m) (r, m) y)"
proof (cases r)
  case (Inl e)
  then have "m = by_m y" using st by (auto simp: TrackTmuxWindow_def split: if_splits prod.splits)
  then show ?thesis using y Inl by (simp add: spawn_def)
next
  case (Inr a)
  then obtain s c m1 m2 where c: "new_ctx (by_m y) = (c, m1)" and i: "insert_session s m1 = (a, m2)"
      and p: "bs_Status s = StatusPending" and m: "m = updateSessionStatus now a StatusRunning m2"
    using st by (auto simp: TrackTmuxWindow_def new_session_def split: if_splits prod.splits)
  have m1: "inv_ok m1" "bm_heap m1 = bm_heap (by_m y)" "final m1 = final (by_m y)" using new_ctx_inv [OF c] y by (simp_all add: sys_ok_def)
  have "sess_timed s" using p by (simp add: sess_timed_def timed_def)
  note new = insert_session_inv [OF m1(1) this i]
  have nf: "\<not> final m2 a" using new(4) p by (simp add: final_def)
  have "sys_ok (y\<lparr>by_m := m, by_threads := by_threads y @ monitor_threads cfg a m\<rparr>)"
    using new(1-3,5) m1 m nf monitor_threads_one [of cfg a m] update_inv(1) [OF new(1)]
    by (intro new_object_ok [OF y]) (auto simp: final_updateSessionStatus)
  then show ?thesis by (simp add: spawn_def Inr)
qed

lemma adopt_ok:
  assumes y: "sys_ok y" and st: "reconcile_record now io w cfg wt meta (by_m y) = (r, m)" and l: "as_listed cfg wt meta (by_m y)"
  shows "case r of None \<Rightarrow> sys_ok (y\<lparr>by_m := m\<rparr>) | Some a \<Rightarrow> sys_ok (y\<lparr>by_m := m, by_threads := by_threads y @ monitor_threads cfg a m\<rparr>)"
proof (cases "m = by_m y")
  case False
  then obtain s d where s: "bm_store (by_m y) = Some s" and d: "LoadSession (bc_RepoName cfg) wt (st_ID meta) s = Inr d"
    using st by (auto simp: reconcile_record_def split: if_splits option.splits sum.splits)
  have nt: "\<not> SessIsTerminal (st_Status meta)" and meta: "storedToMeta d = meta"
    using False st l s d by (auto simp: reconcile_record_def as_listed_def split: if_splits)
  have inv: "inv_ok (by_m y)" and so: "store_ok s" using y s by (auto simp: sys_ok_def inv_ok_def intro: data_store_ok)
  have rt: "record_timed d" using LoadSession_ok [OF so d] by simp
  have pend: "sd_Status d = st_Status meta" using meta by (auto simp: storedToMeta_def)
  show ?thesis
  proof (cases r)
    case None
    let ?d = "d\<lparr>sd_Status := StatusCompleted, sd_CompletedAt := Some now\<rparr>"
    obtain ev where m: "m = (by_m y)\<lparr>bm_store := Some (snd (SaveSession io ?d s)), bm_events := ev\<rparr>"
      using None False st s d by (auto simp: reconcile_record_def Let_def split: if_splits prod.splits)
    have "record_timed ?d" by (simp add: record_timed_def timed_def)
    then have "store_ok (snd (SaveSession io ?d s))" using SaveSession_ok [OF so] by (metis prod.collapse)
    then have "inv_ok m" "final m = final (by_m y)" "heap_len m = heap_len (by_m y)"
      using inv by (simp_all add: m inv_ok_def data_store)
    then show ?thesis using y None placed_cong [of m "by_m y"] by (simp add: sys_ok_def threads_ok_def owners_ok_def)
  next
    case (Some a)
    obtain c m1 where c: "new_ctx (by_m y) = (c, m1)" by (cases "new_ctx (by_m y)")
    define x where "x = (storedToSession now d)\<lparr>bs_TmuxWindowName := sd_TmuxWindowName d, bs_TmuxWindowID := sd_TmuxWindowID d,
      bs_RunnerType := sd_RunnerType d, bs_RepoName := bc_RepoName cfg, bs_ctx := Some c\<rparr>"
    obtain a' m2 where i': "insert_session x m1 = (a', m2)" by (cases "insert_session x m1")
    have "a' = a \<and> emit_change a' (sd_Status d) m2 = m"
      using st Some False s d by (simp add: reconcile_record_def Let_def c x_def [symmetric] i' split: if_splits) blast
    then have i: "insert_session x m1 = (a, m2)" and m: "m = emit_change a (sd_Status d) m2"
      using i' by auto
    have x: "bs_Status x = sd_Status d" "sess_timed x"
      using rt by (simp_all add: x_def storedToSession_def sess_timed_def record_timed_def)
    have m1: "inv_ok m1" "bm_heap m1 = bm_heap (by_m y)" "final m1 = final (by_m y)" using new_ctx_inv [OF c] inv by simp_all
    note new = insert_session_inv [OF m1(1) x(2) i]
    have nf: "\<not> final m2 a" using new(4) x(1) nt pend by (simp add: final_def)
    have "sys_ok (y\<lparr>by_m := m, by_threads := by_threads y @ monitor_threads cfg a m\<rparr>)"
      using new(1-3,5) m1 m nf monitor_threads_one [of cfg a m] update_inv(2) [OF new(1)]
      by (intro new_object_ok [OF y]) auto
    then show ?thesis by (simp add: Some)
  qed
next
  case True
  then have "r = None" using st
    by (auto simp: reconcile_record_def insert_session_def new_ctx_def emit_change_def Let_def split: if_splits option.splits sum.splits
        dest!: arg_cong [of _ _ bm_heap])
  then show ?thesis using True y by simp
qed

lemma same_sys_ok:
  assumes "sys_ok y" and "same_maps (by_m y) m" and "final m = final (by_m y)" and "data_ok m"
  shows "sys_ok (y\<lparr>by_m := m\<rparr>)"
  using assms maps_same [OF assms(2)] placed_cong [of m "by_m y"]
  by (simp add: sys_ok_def inv_ok_def threads_ok_def owners_ok_def same_mapsD)

lemma advance_sys: "sys_ok y \<Longrightarrow> sys_ok (advance an cfg k y)"
proof -
  assume y: "sys_ok y"
  show "sys_ok (advance an cfg k y)"
  proof (cases "k < length (by_threads y)")
    case True
    show ?thesis
    proof (cases "thread_step an cfg (by_threads y ! k) (by_m y)")
      case None
      then show ?thesis using y True by (simp add: advance_def sys_ok_def threads_ok_def owners_ok_def)
    next
      case (Some r)
      obtain m us where "r = (m, us)" by (cases r)
      then show ?thesis using advance_ok [OF y True] Some True by (simp add: advance_def)
    qed
  qed (simp add: advance_def y)
qed

theorem bm_step_ok: "sys_ok y \<Longrightarrow> sys_ok (bm_step cfg e y)"
proof -
  assume y: "sys_ok y"
  let ?an = "fst e"
  have same: "sys_ok (y\<lparr>by_m := snd (SetSessionIdle now i (by_m y))\<rparr>)" "sys_ok (y\<lparr>by_m := snd (SetSessionRunning now i (by_m y))\<rparr>)" for now i
    using y by (intro same_sys_ok; simp add: same_ops data_ops sys_ok_def inv_ok_def)+
  show "sys_ok (bm_step cfg e y)"
  proof (cases "by_panicked y")
    case False
    show ?thesis
    proof (cases "snd e")
      case (Start rand ty path prompt model opts)
      then show ?thesis using False bramble_start_ok [OF y, of "an_now ?an" rand cfg ty path prompt model opts]
        by (cases "StartSessionWithOpts (an_now ?an) rand cfg ty path prompt model opts (by_m y)") (simp add: bm_step_def Let_def)
    next
      case (Track rand path name win)
      then show ?thesis using False track_ok [OF y, of "an_now ?an" rand cfg path name win]
        by (cases "TrackTmuxWindow (an_now ?an) rand cfg path name win (by_m y)") (simp add: bm_step_def Let_def)
    next
      case (Adopt w wt meta)
      obtain r m where rm: "reconcile_record (an_now ?an) (an_io ?an) w cfg wt meta (by_m y) = (r, m)" by (cases "reconcile_record (an_now ?an) (an_io ?an) w cfg wt meta (by_m y)")
      show ?thesis using False Adopt y rm adopt_ok [OF y rm]
        by (auto simp: bm_step_def Let_def split: option.splits)
    next
      case (SetIdle i)
      then show ?thesis using False same by (simp add: bm_step_def Let_def)
    next
      case (SetRunning i)
      then show ?thesis using False same by (simp add: bm_step_def Let_def)
    next
      case (Invoke t)
      have "is_call t \<Longrightarrow> owner t = None \<and> works_on t = None \<and> insert_ok t"
        by (cases t) (simp_all add: is_call_def owner_def works_on_def insert_ok_def)
      then show ?thesis using False Invoke y
        by (auto simp: bm_step_def Let_def sys_ok_def threads_ok_def owners_ok_def placed_def)
    next
      case (Advance k)
      then show ?thesis using False y advance_sys by (simp add: bm_step_def Let_def)
    qed
  qed (simp add: bm_step_def Let_def y)
qed

interpretation manager: invariant_machine "bm_step cfg" "\<lambda>_. True" sys_ok for cfg
  by unfold_locales (rule bm_step_ok)

lemma bm_init_ok: "(case st of None \<Rightarrow> True | Some s \<Rightarrow> store_ok s) \<Longrightarrow> sys_ok (bm_init st)"
  by (auto simp: bm_init_def NewManager_def sys_ok_def inv_ok_def maps_ok_def named_def chans_ok_def data_ok_def timed_ok_def
      outs_ok_def stored_ok_def threads_ok_def owners_ok_def split: option.splits)

lemma bm_run_ok: "(case st of None \<Rightarrow> True | Some s \<Rightarrow> store_ok s) \<Longrightarrow> sys_ok (bm_run cfg st es)"
  unfolding bm_run_def by (rule manager.run_inv) (simp_all add: bm_init_ok list_all_iff)

text \<open>Only a section of a thread changes which sessions are final.\<close>

lemma final_append_ctx: "b < heap_len m \<Longrightarrow> final (m\<lparr>bm_cancelled := x, bm_heap := bm_heap m @ [s]\<rparr>) b = final m b"
  by (simp add: final_def obj_def nth_append)

lemma start_final:
  "b < heap_len m \<Longrightarrow> final (snd (StartSessionWithOpts now rand cfg ty path prompt model opts m)) b = final m b"
  by (auto simp: StartSessionWithOpts_def startSessionWithID_def new_ctx_def insert_session_def final_append_ctx split: sum.split)

lemma track_final: "b < heap_len m \<Longrightarrow> final (snd (TrackTmuxWindow now rand cfg path name win m)) b = final m b"
  by (auto simp: TrackTmuxWindow_def new_ctx_def insert_session_def final_append_ctx final_updateSessionStatus)

lemma reconcile_final: "b < heap_len m \<Longrightarrow> final (snd (reconcile_record now io w cfg wt meta m)) b = final m b"
  by (auto simp: reconcile_record_def new_ctx_def insert_session_def final_append_ctx Let_def split: option.split sum.split)

lemma spawn_m [simp]: "by_m (spawn f r y) = snd r"
  by (cases r; cases "fst r") (auto simp: spawn_def)

lemma step_keeps_final:
  assumes "sys_ok y" and "final (by_m y) a" and "a < heap_len (by_m y)" and "\<not> final (by_m (bm_step cfg e y)) a"
  shows "\<exists>k. snd e = Advance k \<and> k < length (by_threads y) \<and> \<not> by_panicked y"
proof (cases "by_panicked y")
  case False
  show ?thesis
  proof (cases "snd e")
    case (Adopt w wt meta)
    then show ?thesis using assms False reconcile_final [of a "by_m y" "an_now (fst e)" "an_io (fst e)" w cfg wt meta]
      by (auto simp: bm_step_def Let_def split: if_splits prod.splits option.splits)
  next
    case (Advance k)
    then show ?thesis using assms False by (auto simp: bm_step_def Let_def advance_def split: if_splits)
  qed (use assms False in \<open>auto simp: bm_step_def Let_def start_final track_final split: if_splits\<close>)
qed (use assms in \<open>simp add: bm_step_def Let_def\<close>)

section \<open>Panics\<close>

lemmas call_defs = resume_lookup_def resume_insert_def resume_check_def resume_reset_def resume_spawn_def follow_lookup_def
  follow_chan_def complete_lookup_def stop_lookup_def delete_lookup_def delete_store_def close_persist_def close_cancel_def
lemmas run_defs = run_resolve_def run_mode_def run_start_def run_open_def run_turn_def run_settle_def run_wait_def run_stop_def
  run_save_def run_gone_def
lemmas window_defs = run_tmux_def tmux_tick_def monitor_watch_def monitor_tick_def monitor_save_def

lemma panics_only:
  assumes "thread_step an cfg t m = None" and "chans_ok m"
  shows "\<exists>c msg. t = FollowSend c msg \<and> fc_closed (bm_chans m ! c)"
proof (cases t)
  case (CompleteClose i)
  then show ?thesis using assms by (auto simp: thread_step_def complete_close_def thread_done_def chans_ok_def split: option.splits if_splits)
next
  case (FollowSend c msg)
  then show ?thesis using assms by (auto simp: thread_step_def follow_send_def thread_done_def split: if_splits)
qed (use assms in \<open>auto simp: thread_step_def thread_done_def next_pc_def call_defs run_defs window_defs Let_def
    split: option.splits sum.splits prod.splits if_splits pick.splits bool.splits sess_type.splits\<close>)

section \<open>Properties of every run\<close>

text \<open>C4. In every run of the session manager on a sound store, whatever the interleaving: an identifier leads
  to an existing session of that identifier, every output has at most a thousand lines, every final session has the
  time of its completion and every running one the time of its start, and every file of the store still
  holds a record that its own name says and whose times are as sound.
\<close>

theorem bramble_manager_invariant:
  assumes "case st of None \<Rightarrow> True | Some s \<Rightarrow> store_ok s" and "by_m (bm_run cfg st es) = m"
  shows "(map_of (bm_sessions m) i = Some a \<longrightarrow> a < length (bm_heap m) \<and> bs_ID (bm_heap m ! a) = i) \<and>
    (map_of (bm_outputs m) i = Some ls \<longrightarrow> length ls \<le> 1000) \<and>
    (s \<in> set (bm_heap m) \<longrightarrow> SessIsTerminal (bs_Status s) \<longrightarrow> bs_CompletedAt s \<noteq> None) \<and>
    (s \<in> set (bm_heap m) \<longrightarrow> bs_Status s = StatusRunning \<longrightarrow> bs_StartedAt s \<noteq> None) \<and>
    (bm_store m = Some st' \<longrightarrow> store_ok st')"
proof -
  have ok: "named m" "outs_ok m" "timed_ok m" "stored_ok m"
    using bm_run_ok [OF assms(1), of cfg es] assms(2) by (simp_all add: sys_ok_def inv_ok_def maps_ok_def data_ok_def)
  have f1: "map_of (bm_sessions m) i = Some a \<Longrightarrow> a < length (bm_heap m) \<and> bs_ID (bm_heap m ! a) = i"
    using named_lookup [OF ok(1)] by (simp add: obj_def)
  have f2: "map_of (bm_outputs m) i = Some ls \<Longrightarrow> length ls \<le> 1000" using ok(2) by (simp add: outs_ok_def)
  have f3: "s \<in> set (bm_heap m) \<Longrightarrow> SessIsTerminal (bs_Status s) \<Longrightarrow> bs_CompletedAt s \<noteq> None"
    and f4: "s \<in> set (bm_heap m) \<Longrightarrow> bs_Status s = StatusRunning \<Longrightarrow> bs_StartedAt s \<noteq> None"
    using ok(3) by (auto simp: timed_ok_def sess_timed_def timed_def obj_def in_set_conv_nth)
  have f5: "bm_store m = Some st' \<Longrightarrow> store_ok st'" using ok(4) by (simp add: stored_ok_def)
  show ?thesis using f1 f2 f3 f4 f5 by blast
qed

lemma race_store_ok: "store_ok (race_store StatusCompleted)"
proof -
  have "store_ok sample_store" by (simp add: store_ok_def sample_store_def)
  moreover have "record_timed (sample_stored\<lparr>sd_RepoName := ''repo'', sd_Status := StatusCompleted\<rparr>)"
    by (simp add: record_timed_def timed_def sample_stored_def)
  ultimately show ?thesis unfolding race_store_def by (metis SaveSession_ok prod.collapse)
qed

lemma bramble_manager_invariant_witness:
  "bs_ID (bm_heap (by_m (bm_run race_cfg (Some (race_store StatusCompleted)) two_resumes)) ! 1) = ''s-1''"
proof -
  have "map_of (bm_sessions (by_m (bm_run race_cfg (Some (race_store StatusCompleted)) two_resumes))) ''s-1'' = Some 1" by code_simp
  then show ?thesis
    using bramble_manager_invariant [of "Some (race_store StatusCompleted)" race_cfg two_resumes, OF _ refl] race_store_ok by simp
qed

text \<open>C6. However the calls and the goroutines interleave, no session object has two runs: at most one thread
  starts, runs or watches it, and while there is one the status is not final. So the goroutine that ends a
  session is the only one that does.
\<close>

theorem bramble_one_run:
  assumes "case st of None \<Rightarrow> True | Some s \<Rightarrow> store_ok s"
  shows "(length (filter (\<lambda>t. owner t = Some a) (by_threads (bm_run cfg st es))) \<le> 1) \<and>
    (t \<in> set (by_threads (bm_run cfg st es)) \<longrightarrow> owner t = Some a \<longrightarrow>
      a < length (bm_heap (by_m (bm_run cfg st es))) \<and> \<not> SessIsTerminal (bs_Status (bm_heap (by_m (bm_run cfg st es)) ! a)))"
proof -
  have ok: "owners_ok (bm_run cfg st es)" using bm_run_ok [OF assms(1)] by (simp add: sys_ok_def)
  then have f1: "length (filter (\<lambda>t. owner t = Some a) (by_threads (bm_run cfg st es))) \<le> 1" by (simp add: owners_ok_def owners_def)
  have f2: "a < length (bm_heap (by_m (bm_run cfg st es))) \<and> \<not> SessIsTerminal (bs_Status (bm_heap (by_m (bm_run cfg st es)) ! a))"
    if "t \<in> set (by_threads (bm_run cfg st es))" "owner t = Some a"
  proof -
    have "owners (by_threads (bm_run cfg st es)) a \<le> 1" using ok by (simp add: owners_ok_def)
    then have "owners (by_threads (bm_run cfg st es)) a = 1" using owners_pos [OF that] by linarith
    then show ?thesis using ok by (auto simp: owners_ok_def final_def obj_def)
  qed
  show ?thesis using f1 f2 by blast
qed

lemma bramble_one_run_witness:
  "length (filter (\<lambda>t. owner t = Some 1) (by_threads (bm_run race_cfg (Some (race_store StatusCompleted)) two_resumes))) \<le> 1 \<and>
   \<not> SessIsTerminal (bs_Status (bm_heap (by_m (bm_run race_cfg (Some (race_store StatusCompleted)) two_resumes)) ! 1))"
proof -
  have "RunBegin 1 ''q'' \<in> set (by_threads (bm_run race_cfg (Some (race_store StatusCompleted)) two_resumes))" by code_simp
  then show ?thesis
    using bramble_one_run [of "Some (race_store StatusCompleted)"] race_store_ok by (simp add: owner_def)
qed


definition before_send :: "(answer \<times> baction) list" where
  "before_send = idle_run @ call (FollowLookup race_id ''x'') # go_on 2 1 @ call (CompleteLookup race_id) # go_on 2 2"


text \<open>C16. A final status is only left by \<open>ResumeSession\<close>: whatever the next step of a run is, if a session was
  completed, failed or stopped before it and is not afterwards, the step is the check of a resume of that
  object, which has a conversation to resume, and the session is pending with no error and no completion
  time.
\<close>

theorem bramble_final_left_by_resume:
  assumes "case st of None \<Rightarrow> True | Some s \<Rightarrow> store_ok s"
    and "by_m (bm_run cfg st es) = m" and "by_m (bm_run cfg st (es @ [e])) = m'"
    and "a < length (bm_heap m)" and "SessIsTerminal (bs_Status (bm_heap m ! a))" and "\<not> SessIsTerminal (bs_Status (bm_heap m' ! a))"
  shows "\<exists>k i p. snd e = Advance k \<and> by_threads (bm_run cfg st es) ! k = ResumeCheck i p a \<and>
    bs_CLISessionID (bm_heap m ! a) \<noteq> [] \<and> bs_Status (bm_heap m' ! a) = StatusPending \<and>
    bs_Error (bm_heap m' ! a) = None \<and> bs_CompletedAt (bm_heap m' ! a) = None"
proof -
  let ?y = "bm_run cfg st es"
  have ok: "sys_ok ?y" by (rule bm_run_ok [OF assms(1)])
  have m': "m' = by_m (bm_step cfg e ?y)" using assms(3) by (simp add: bm_run_def run_machine_append)
  have fin: "final (by_m ?y) a" "\<not> final m' a" "a < heap_len (by_m ?y)" using assms by (simp_all add: final_def obj_def)
  then obtain k where k: "snd e = Advance k" "k < length (by_threads ?y)" and np: "\<not> by_panicked ?y"
    using step_keeps_final [OF ok, of a cfg e] m' by blast
  obtain us where th: "thread_step (fst e) cfg (by_threads ?y ! k) (by_m ?y) = Some (m', us)"
    using fin k np m' by (auto simp: bm_step_def Let_def advance_def split: option.splits prod.splits)
  have t: "by_threads ?y ! k \<in> set (by_threads ?y)" using k by simp
  have mv: "step_moves (by_threads ?y ! k) (by_m ?y) (m', us)"
    using ok t by (intro thread_moves [OF th] sys_live)
      (auto simp: sys_ok_def inv_ok_def maps_ok_def named_addresses threads_ok_def list_all_iff)
  have "owner (by_threads ?y ! k) \<noteq> Some a" using sys_live [OF ok t] fin by (auto simp: live_def)
  then obtain i p where rc: "by_threads ?y ! k = ResumeCheck i p a"
    using mv fin by (auto simp: step_moves_def moves_def)
  then show ?thesis using th k rc assms(2) fin
    by (intro exI [of _ k] exI [of _ i] exI [of _ p])
      (auto simp: thread_step_def resume_check_def thread_done_def next_pc_def new_ctx_def obj_def on_obj_def final_def split: if_splits)
qed

definition before_check :: "(answer \<times> baction) list" where
  "before_check = call (ResumeLookup ''s-1'' ''p'') # go_on 2 0"

lemma bramble_final_left_by_resume_witness:
  "bs_Status (bm_heap (by_m (bm_run race_cfg (Some (race_store StatusCompleted)) (before_check @ [(fine, Advance 0)]))) ! 0) = StatusPending"
proof -
  let ?m = "by_m (bm_run race_cfg (Some (race_store StatusCompleted)) before_check)"
  let ?m' = "by_m (bm_run race_cfg (Some (race_store StatusCompleted)) (before_check @ [(fine, Advance 0)]))"
  have "length (bm_heap ?m) = 1" "SessIsTerminal (bs_Status (bm_heap ?m ! 0))" "\<not> SessIsTerminal (bs_Status (bm_heap ?m' ! 0))"
    by code_simp+
  then show ?thesis
    using bramble_final_left_by_resume [of "Some (race_store StatusCompleted)" race_cfg before_check ?m "(fine, Advance 0)" ?m' 0]
      race_store_ok by auto
qed

end
