(* ===== verification/BrambleNotify.thy ===== *)
theory BrambleNotify
  imports BrambleManager
begin

text \<open>
  Hints to the parent of a session (\<open>bramble/session/delivery.go\<close>) and the subscription behind them
  (\<open>SubscribeStateChanges\<close>, \<open>watchStateChanges\<close> and \<open>SessionRegistry\<close>). A hint is a goroutine of several
  sections: it claims the parent, resolves its window, reads the pane, pastes, marks the parent as
  running and sends the key. Between any two of them the managers change as they like. The removal of
  the old queue is left out.
\<close>

section \<open>The registry\<close>

text \<open>The first manager that has the session answers for it.\<close>

definition findManager :: "bmanager list \<Rightarrow> string \<Rightarrow> nat option" where
  "findManager ms i = find (\<lambda>k. bm_info (ms ! k) i \<noteq> None) [0..<length ms]"

definition reg_GetSessionInfo :: "bmanager list \<Rightarrow> string \<Rightarrow> (BSessionInfo \<times> nat) option" where
  "reg_GetSessionInfo ms i =
    (case findManager ms i of None \<Rightarrow> None | Some k \<Rightarrow> map_option (\<lambda>x. (x, k)) (bm_info (ms ! k) i))"

definition reg_SetSessionIdle :: "time \<Rightarrow> string \<Rightarrow> bmanager list \<Rightarrow> bool \<times> bmanager list" where
  "reg_SetSessionIdle now i ms =
    (case findManager ms i of
       None \<Rightarrow> (False, ms)
     | Some k \<Rightarrow> (case SetSessionIdle now i (ms ! k) of (b, m) \<Rightarrow> (b, ms[k := m])))"

definition reg_SetSessionRunning :: "time \<Rightarrow> string \<Rightarrow> bmanager list \<Rightarrow> bool \<times> bmanager list" where
  "reg_SetSessionRunning now i ms =
    (case findManager ms i of
       None \<Rightarrow> (False, ms)
     | Some k \<Rightarrow> (case SetSessionRunning now i (ms ! k) of (b, m) \<Rightarrow> (b, ms[k := m])))"

definition reg_ResolveTmuxTarget :: "bmanager list \<Rightarrow> string \<Rightarrow> string + string" where
  "reg_ResolveTmuxTarget ms i =
    (case findManager ms i of None \<Rightarrow> Inl ''session not found'' | Some k \<Rightarrow> ResolveTmuxTarget (ms ! k) i)"

definition reg_CapturePaneText ::
  "(string \<Rightarrow> int \<Rightarrow> string list option) \<Rightarrow> bmanager list \<Rightarrow> string \<Rightarrow> int \<Rightarrow> string + string list" where
  "reg_CapturePaneText capture ms i n =
    (case findManager ms i of None \<Rightarrow> Inl ''session not found'' | Some k \<Rightarrow> CapturePaneText capture (ms ! k) i n)"

definition reg_GetAllSessions :: "bmanager list \<Rightarrow> BSessionInfo list" where
  "reg_GetAllSessions ms = concat (map GetAllSessions ms)"

section \<open>What a hint looks at\<close>

definition hintWorthyStatus :: "sess_status \<Rightarrow> bool" where
  "hintWorthyStatus st = (st = StatusIdle \<or> st = StatusFailed \<or> st = StatusCompleted \<or> st = StatusStopped)"

definition providerForSession :: "BSessionInfo \<Rightarrow> string" where
  "providerForSession info =
    (case resolveAgentModel (bi_Model info) (bi_Backend info) None of Inl e \<Rightarrow> [] | Inr am \<Rightarrow> am_Provider am)"

definition paneSaysWorking :: "string \<Rightarrow> string list \<Rightarrow> bool \<times> bool" where
  "paneSaysWorking provider lines =
    (if lines = [] \<or> \<not> providerHasIdleProbe provider then (False, False) else paneShowsWorking provider lines)"

text \<open>The lines and whether they were read.\<close>

definition capturePaneFor ::
  "(string \<Rightarrow> int \<Rightarrow> string list option) \<Rightarrow> bmanager list \<Rightarrow> string \<Rightarrow> string \<Rightarrow> string list \<times> bool" where
  "capturePaneFor capture ms i provider =
    (if \<not> providerHasIdleProbe provider \<and> \<not> composerReadable provider then ([], True)
     else case reg_CapturePaneText capture ms i (int paneCaptureLines) of Inl e \<Rightarrow> ([], False) | Inr ls \<Rightarrow> (ls, True))"

text \<open>The pane may be written to.\<close>

definition pane_free :: "string \<Rightarrow> string list \<times> bool \<Rightarrow> bool" where
  "pane_free provider r =
    (\<not> (\<not> snd r \<and> composerReadable provider) \<and>
     paneSaysWorking provider (fst r) \<noteq> (True, True) \<and> composerDraft provider (fst r) \<noteq> (True, True))"

section \<open>A hint\<close>

definition nudgeText :: string where
  "nudgeText = ''[bramble] subagent activity '' @ [CHR 0xE2, CHR 0x80, CHR 0x94] @ '' check your run directory''"

datatype hint =
    HintStart BSessionInfo
  | HintClaim BSessionInfo
  | HintTarget BSessionInfo
  | HintPane BSessionInfo string
  | HintPaste BSessionInfo string
  | HintMark BSessionInfo string
  | HintEnter BSessionInfo string bool
  | HintUndo BSessionInfo
  | HintRelease string
  | HintDone

datatype pane_write = Paste string string | SendEnter string

record notifier =
  nf_managers :: "bmanager list"
  nf_pending :: "string list"
  nf_writes :: "pane_write list"
  nf_hints :: "hint list"

record hint_answer =
  ha_now :: time
  ha_capture :: "string \<Rightarrow> int \<Rightarrow> string list option"
  ha_paste :: bool
  ha_enter :: bool

definition NotifyParent :: "BSessionInfo \<Rightarrow> bmanager list \<Rightarrow> hint" where
  "NotifyParent child ms =
    (if bi_ParentSessionID child = [] \<or> \<not> hintWorthyStatus (bi_Status child) then HintDone
     else case reg_GetSessionInfo ms (bi_ParentSessionID child) of
         None \<Rightarrow> HintDone
       | Some (parent, k) \<Rightarrow> if SessIsTerminal (bi_Status parent) then HintDone else HintClaim parent)"

definition claimNudge :: "string \<Rightarrow> string list \<Rightarrow> bool \<times> string list" where
  "claimNudge to pending = (if to \<in> set pending then (False, pending) else (True, to # pending))"

definition releaseNudge :: "string \<Rightarrow> string list \<Rightarrow> string list" where
  "releaseNudge to pending = filter (\<lambda>i. i \<noteq> to) pending"

text \<open>One section of \<open>nudge\<close>; \<open>panes\<close> says whether there is a writer at all.\<close>

definition hint_step :: "bool \<Rightarrow> hint_answer \<Rightarrow> hint \<Rightarrow> notifier \<Rightarrow> hint \<times> notifier" where
  "hint_step panes an h n =
    (case h of
       HintStart child \<Rightarrow> (NotifyParent child (nf_managers n), n)
     | HintClaim parent \<Rightarrow>
         (case claimNudge (bi_ID parent) (nf_pending n) of
            (got, pend) \<Rightarrow> (if got then HintTarget parent else HintDone, n\<lparr>nf_pending := pend\<rparr>))
     | HintTarget parent \<Rightarrow>
         if \<not> isTmuxRunner (bi_RunnerType parent) \<or> \<not> panes \<or> bi_Status parent \<noteq> StatusIdle then (HintRelease (bi_ID parent), n)
         else (case reg_ResolveTmuxTarget (nf_managers n) (bi_ID parent) of
             Inl e \<Rightarrow> (HintRelease (bi_ID parent), n) | Inr target \<Rightarrow> (HintPane parent target, n))
     | HintPane parent target \<Rightarrow>
         (if pane_free (providerForSession parent)
              (capturePaneFor (ha_capture an) (nf_managers n) (bi_ID parent) (providerForSession parent))
          then (HintPaste parent target, n) else (HintRelease (bi_ID parent), n))
     | HintPaste parent target \<Rightarrow>
         if ha_paste an then (HintMark parent target, n\<lparr>nf_writes := nf_writes n @ [Paste target nudgeText]\<rparr>)
         else (HintRelease (bi_ID parent), n)
     | HintMark parent target \<Rightarrow>
         (case reg_SetSessionRunning (ha_now an) (bi_ID parent) (nf_managers n) of
            (moved, ms) \<Rightarrow> (HintEnter parent target moved, n\<lparr>nf_managers := ms\<rparr>))
     | HintEnter parent target moved \<Rightarrow>
         if ha_enter an then (HintRelease (bi_ID parent), n\<lparr>nf_writes := nf_writes n @ [SendEnter target]\<rparr>)
         else (if moved then HintUndo parent else HintRelease (bi_ID parent), n)
     | HintUndo parent \<Rightarrow>
         (HintRelease (bi_ID parent), n\<lparr>nf_managers := snd (reg_SetSessionIdle (ha_now an) (bi_ID parent) (nf_managers n))\<rparr>)
     | HintRelease i \<Rightarrow> (HintDone, n\<lparr>nf_pending := releaseNudge i (nf_pending n)\<rparr>)
     | HintDone \<Rightarrow> (HintDone, n))"

text \<open>
  The events: a manager changes by its own steps, one of its transitions is taken up by its worker, or a
  hint goes on. A child without identifier is looked up when the event is taken up.
\<close>

datatype notify_event = ManagersChange "bmanager list" | Watch StateChange | HintStep nat hint_answer

definition watched_child :: "bmanager list \<Rightarrow> StateChange \<Rightarrow> BSessionInfo option" where
  "watched_child ms e = (if bi_ID (sc_Info e) \<noteq> [] then Some (sc_Info e) else map_option fst (reg_GetSessionInfo ms (sc_SessionID e)))"

definition notify_step :: "bool \<Rightarrow> notify_event \<Rightarrow> notifier \<Rightarrow> notifier" where
  "notify_step panes ev n =
    (case ev of
       ManagersChange ms \<Rightarrow> n\<lparr>nf_managers := ms\<rparr>
     | Watch e \<Rightarrow>
         if sc_Old e = sc_New e then n
         else (case watched_child (nf_managers n) e of
             None \<Rightarrow> n | Some child \<Rightarrow> n\<lparr>nf_hints := nf_hints n @ [HintStart child]\<rparr>)
     | HintStep k an \<Rightarrow>
         if k \<ge> length (nf_hints n) then n
         else (case hint_step panes an (nf_hints n ! k) n of (h, n1) \<Rightarrow> n1\<lparr>nf_hints := (nf_hints n)[k := h]\<rparr>))"

definition NewNotifier :: "bmanager list \<Rightarrow> notifier" where
  "NewNotifier ms = \<lparr>nf_managers = ms, nf_pending = [], nf_writes = [], nf_hints = []\<rparr>"

section \<open>One hint at a time\<close>

text \<open>The parent that a hint has claimed.\<close>

definition claims :: "hint \<Rightarrow> string option" where
  "claims h = (case h of HintTarget p \<Rightarrow> Some (bi_ID p) | HintPane p t \<Rightarrow> Some (bi_ID p) | HintPaste p t \<Rightarrow> Some (bi_ID p)
     | HintMark p t \<Rightarrow> Some (bi_ID p) | HintEnter p t b \<Rightarrow> Some (bi_ID p) | HintUndo p \<Rightarrow> Some (bi_ID p)
     | HintRelease i \<Rightarrow> Some i | _ \<Rightarrow> None)"

definition claimed :: "hint list \<Rightarrow> string list" where
  "claimed hs = List.map_filter claims hs"

text \<open>What a hint has checked before it writes.\<close>

definition hint_sound :: "hint \<Rightarrow> bool" where
  "hint_sound h = (case h of HintPane p t \<Rightarrow> isTmuxRunner (bi_RunnerType p) \<and> bi_Status p = StatusIdle
     | HintPaste p t \<Rightarrow> isTmuxRunner (bi_RunnerType p) \<and> bi_Status p = StatusIdle
     | HintMark p t \<Rightarrow> isTmuxRunner (bi_RunnerType p) \<and> bi_Status p = StatusIdle
     | HintEnter p t b \<Rightarrow> isTmuxRunner (bi_RunnerType p) \<and> bi_Status p = StatusIdle
     | HintUndo p \<Rightarrow> isTmuxRunner (bi_RunnerType p) \<and> bi_Status p = StatusIdle | _ \<Rightarrow> True)"

definition notifier_ok :: "notifier \<Rightarrow> bool" where
  "notifier_ok n = (mset (claimed (nf_hints n)) = mset (nf_pending n) \<and> distinct (nf_pending n) \<and>
    list_all hint_sound (nf_hints n))"

lemma claimed_update:
  assumes "k < length hs"
  shows "mset (claimed (hs[k := h])) + (case claims (hs ! k) of None \<Rightarrow> {#} | Some i \<Rightarrow> {#i#}) =
    mset (claimed hs) + (case claims h of None \<Rightarrow> {#} | Some i \<Rightarrow> {#i#})"
  using assms
proof (induction hs arbitrary: k)
  case (Cons x hs)
  show ?case
  proof (cases k)
    case 0
    then show ?thesis by (auto simp: claimed_def map_filter_simps split: option.split)
  next
    case (Suc j)
    then have "mset (claimed (hs[j := h])) + (case claims (hs ! j) of None \<Rightarrow> {#} | Some i \<Rightarrow> {#i#}) =
        mset (claimed hs) + (case claims h of None \<Rightarrow> {#} | Some i \<Rightarrow> {#i#})" using Cons by simp
    then show ?thesis using Suc by (auto simp: claimed_def map_filter_simps split: option.split)
  qed
qed simp

lemma claimed_append: "claimed (hs @ [h]) = claimed hs @ (case claims h of None \<Rightarrow> [] | Some i \<Rightarrow> [i])"
  by (induction hs) (auto simp: claimed_def map_filter_simps split: option.split)

lemma claims_NotifyParent [simp]: "claims (NotifyParent c ms) = None" "hint_sound (NotifyParent c ms)"
  by (auto simp: NotifyParent_def claims_def hint_sound_def split: option.split)

lemma mset_release: "distinct xs \<Longrightarrow> mset (filter (\<lambda>j. j \<noteq> i) xs) = mset xs - {#i#}"
proof (induction xs)
  case (Cons x xs)
  have "i \<notin> set xs \<Longrightarrow> filter (\<lambda>j. j \<noteq> i) xs = xs" by (auto simp: filter_id_conv)
  then show ?case using Cons by auto
qed simp

lemma NotifyParent_cases: "NotifyParent c ms = HintDone \<or> (\<exists>p. NotifyParent c ms = HintClaim p)"
  by (auto simp: NotifyParent_def split: option.split prod.split)

text \<open>What one section does to the claims.\<close>

definition hint_count :: "hint \<Rightarrow> string multiset" where
  "hint_count h = (case claims h of None \<Rightarrow> {#} | Some i \<Rightarrow> {#i#})"

lemma hint_step_claims:
  assumes "hint_step panes an h n = (h', n')" and "distinct (nf_pending n)" and "hint_sound h"
    and "hint_count h \<subseteq># mset (nf_pending n)"
  shows "nf_hints n' = nf_hints n \<and> distinct (nf_pending n') \<and> hint_sound h' \<and>
      mset (nf_pending n') + hint_count h = mset (nf_pending n) + hint_count h'"
proof (cases h)
  case (HintStart c)
  then show ?thesis using assms NotifyParent_cases [of c "nf_managers n"]
    by (auto simp: hint_step_def hint_count_def claims_def hint_sound_def)
next
  case (HintClaim p)
  then show ?thesis using assms
    by (auto simp: hint_step_def hint_count_def claims_def hint_sound_def claimNudge_def split: if_splits)
next
  case (HintTarget p)
  then show ?thesis using assms
    by (auto simp: hint_step_def hint_count_def claims_def hint_sound_def split: if_splits sum.splits)
next
  case (HintPane p t)
  then show ?thesis using assms
    by (auto simp: hint_step_def hint_count_def claims_def hint_sound_def split: if_splits)
next
  case (HintPaste p t)
  then show ?thesis using assms
    by (auto simp: hint_step_def hint_count_def claims_def hint_sound_def split: if_splits)
next
  case (HintMark p t)
  then show ?thesis using assms
    by (auto simp: hint_step_def hint_count_def claims_def hint_sound_def split: prod.splits)
next
  case (HintEnter p t b)
  then show ?thesis using assms
    by (auto simp: hint_step_def hint_count_def claims_def hint_sound_def split: if_splits)
next
  case (HintUndo p)
  then show ?thesis using assms
    by (auto simp: hint_step_def hint_count_def claims_def hint_sound_def)
next
  case (HintRelease i)
  then show ?thesis using assms
    by (auto simp: hint_step_def hint_count_def claims_def hint_sound_def releaseNudge_def mset_release
        simp del: mset_filter)
next
  case HintDone
  then show ?thesis using assms by (auto simp: hint_step_def)
qed

lemma hints_update_count:
  "k < length hs \<Longrightarrow> mset (claimed (hs[k := h])) + hint_count (hs ! k) = mset (claimed hs) + hint_count h"
  using claimed_update by (simp add: hint_count_def)

lemma hint_count_claimed: "k < length hs \<Longrightarrow> hint_count (hs ! k) \<subseteq># mset (claimed hs)"
proof -
  assume k: "k < length hs"
  have "i \<in># mset (claimed hs)" if "claims (hs ! k) = Some i" for i
    using k that by (force simp: claimed_def List.map_filter_def)
  then show "hint_count (hs ! k) \<subseteq># mset (claimed hs)"
    by (cases "claims (hs ! k)") (simp_all add: hint_count_def)
qed

lemma notify_step_ok: "notifier_ok n \<Longrightarrow> notifier_ok (notify_step panes ev n)"
proof (cases ev)
  case (Watch e)
  assume "notifier_ok n"
  then show ?thesis using Watch
    by (auto simp: notify_step_def notifier_ok_def claimed_append claims_def hint_sound_def split: option.split)
next
  case (HintStep k an)
  assume ok: "notifier_ok n"
  show ?thesis
  proof (cases "k < length (nf_hints n)")
    case True
    obtain h n1 where st: "hint_step panes an (nf_hints n ! k) n = (h, n1)" by (cases "hint_step panes an (nf_hints n ! k) n")
    have mc: "mset (claimed (nf_hints n)) = mset (nf_pending n)" using ok by (simp add: notifier_ok_def)
    have "hint_sound (nf_hints n ! k)" using ok True by (auto simp: notifier_ok_def list_all_iff)
    then have c: "nf_hints n1 = nf_hints n" "distinct (nf_pending n1)" "hint_sound h"
        "mset (nf_pending n1) + hint_count (nf_hints n ! k) = mset (nf_pending n) + hint_count h"
      using hint_step_claims [OF st] ok hint_count_claimed [OF True] mc by (auto simp: notifier_ok_def)
    have "mset (claimed ((nf_hints n)[k := h])) + hint_count (nf_hints n ! k) = mset (claimed (nf_hints n)) + hint_count h"
      by (rule hints_update_count [OF True])
    then have "mset (claimed ((nf_hints n)[k := h])) = mset (nf_pending n1)" using c(4) mc by (metis add_right_cancel)
    moreover have "list_all hint_sound ((nf_hints n)[k := h])"
      using ok c(3) by (auto simp: notifier_ok_def list_all_iff dest: set_update_subset_insert [THEN subsetD])
    ultimately show ?thesis using HintStep True st c by (simp add: notify_step_def notifier_ok_def)
  qed (use ok HintStep in \<open>simp add: notify_step_def\<close>)
qed (simp add: notify_step_def notifier_ok_def)

interpretation notifying: invariant_machine "notify_step panes" "\<lambda>_. True" notifier_ok for panes
  by unfold_locales (rule notify_step_ok)

definition notify_run :: "bool \<Rightarrow> bmanager list \<Rightarrow> notify_event list \<Rightarrow> notifier" where
  "notify_run panes ms es = run_machine (notify_step panes) es (NewNotifier ms)"

lemma notify_run_ok: "notifier_ok (notify_run panes ms es)"
  unfolding notify_run_def
  by (rule notifying.run_inv) (simp_all add: NewNotifier_def notifier_ok_def claimed_def List.map_filter_def list_all_iff)

section \<open>What a hint writes, and where\<close>

text \<open>The sections of a hint that write into a pane.\<close>

lemma hint_step_writes:
  "hint_step panes an h n = (h', n') \<Longrightarrow> nf_writes n' = nf_writes n \<or>
    (\<exists>p t. h = HintPaste p t \<and> h' = HintMark p t \<and> nf_writes n' = nf_writes n @ [Paste t nudgeText]) \<or>
    (\<exists>p t b. h = HintEnter p t b \<and> nf_writes n' = nf_writes n @ [SendEnter t])"
  by (cases h) (auto simp: hint_step_def claimNudge_def split: if_splits sum.splits prod.splits)

section \<open>A parent and its child\<close>

definition idle_parent :: bmanager where
  "idle_parent = (NewManager None)\<lparr>
     bm_heap := [(new_session 1 \<lparr>bc_RepoName = ''repo'', bc_Tmux = True, bc_InsideTmux = True, bc_Provider = False, bc_Registry = None,
         bc_env = \<lparr>ee_url = (\<lambda>_. None), ee_getenv = (\<lambda>_. [])\<rparr>, bc_fadd = (+)\<rparr> ''parent'' TypeBuilder ''/w/a'' ''a'' 0)
       \<lparr>bs_Status := StatusIdle, bs_Model := ''sonnet'', bs_RunnerType := ''tmux'', bs_TmuxWindowID := ''@1''\<rparr>],
     bm_sessions := [(''parent'', 0)]\<rparr>"

definition done_child :: StateChange where
  "done_child = \<lparr>sc_Info = (ToInfo (obj idle_parent 0))\<lparr>bi_ID := ''child'', bi_ParentSessionID := ''parent'', bi_Status := StatusCompleted\<rparr>,
     sc_SessionID = ''child'', sc_Old = StatusRunning, sc_New = StatusCompleted\<rparr>"

text \<open>The pane of the parent shows a dialog of seven options, with the first one selected.\<close>

definition dialog_pane :: hint_answer where
  "dialog_pane = \<lparr>ha_now = 2, ha_capture = (\<lambda>_ _. Some ((claudePromptGlyph @ '' 1. Yes'') # replicate 6 ''option'')),
     ha_paste = True, ha_enter = True\<rparr>"

definition hint_until :: "nat \<Rightarrow> notify_event list" where
  "hint_until k = Watch done_child # replicate k (HintStep 0 dialog_pane)"



end
