(* ===== verification/WtWorld.thy ===== *)
theory WtWorld
  imports GoPath GoText GoJson GoRegex "HOL-Library.State_Monad"
begin

text \<open>
  What the worktree manager \<open>wt\<close> uses of the outside: the runners of \<open>git\<close> and \<open>gh\<close> (\<open>wt/git.go\<close>,
  \<open>wt/github.go\<close>), the file system, the hooks of a repository (\<open>wt/config.go\<close>). An operation is a
  state-monad program over the list of calls it has made; the world answers each call, depending in any
  way on all calls before it. Reading the file system is a call too. The second part is a small program
  logic: \<open>issues P c\<close> says that every call of \<open>c\<close> satisfies \<open>P\<close>, and \<open>triple\<close> is a Hoare triple over
  the calls made so far.
\<close>

section \<open>Calls and answers\<close>

datatype wcall =
    Git "string list" string
  | Gh "string list" string
  | Stat string
  | ReadDir string
  | ReadConfig string
  | HookRun string string string
  | Signal int
  | MkdirAll string
  | Getwd

datatype wt_error =
    ErrRepoNotInitialized
  | ErrWorktreeExists
  | ErrWorktreeNotFound
  | ErrBranchNotFound
  | ErrGitHubAuthRequired wt_error
  | CommandError string
  | JsonError
  | OsError
  | ErrorText string
  | WrappedError string wt_error

record CmdResult =
  cmd_Stdout :: string
  cmd_Stderr :: string
  cmd_ExitCode :: int

datatype stat_reply = Exists | NotExist | StatError

datatype file_reply = NoFile | FileError | FileData string

datatype signal_reply = Delivered | NotPermitted | NoProcess

record RepoConfig =
  rc_DefaultBase :: string
  rc_PostCreate :: "string list"
  rc_PostRemove :: "string list"
  rc_OnWorktreeCreate :: "string list"
  rc_OnWorktreeDelete :: "string list"

text \<open>
  The world: the outcome of a program (its result, and an error when it failed), of the system calls, the
  parsers of JSON and YAML text, lower-casing outside ASCII, and the order in which a map is visited.
\<close>

record wt_world =
  ww_exec :: "wcall list \<Rightarrow> string \<Rightarrow> string list \<Rightarrow> string \<Rightarrow> CmdResult \<times> string option"
  ww_stat :: "wcall list \<Rightarrow> string \<Rightarrow> stat_reply"
  ww_readdir :: "wcall list \<Rightarrow> string \<Rightarrow> (string \<times> bool) list"
  ww_file :: "wcall list \<Rightarrow> string \<Rightarrow> file_reply"
  ww_hook :: "wcall list \<Rightarrow> string \<Rightarrow> string \<Rightarrow> string \<Rightarrow> bool"
  ww_signal :: "wcall list \<Rightarrow> int \<Rightarrow> signal_reply"
  ww_mkdir :: "wcall list \<Rightarrow> string \<Rightarrow> bool"
  ww_getwd :: "wcall list \<Rightarrow> string option"
  ww_json :: "string \<Rightarrow> json option"
  ww_yaml :: "string \<Rightarrow> RepoConfig option"
  ww_lower :: "string \<Rightarrow> string"
  ww_range :: "string \<Rightarrow> string \<Rightarrow> nat"

text \<open>The manager of one repository.\<close>

record Manager =
  wm_root :: string
  wm_repoName :: string
  wm_world :: wt_world

type_synonym 'a wt = "(wcall list, 'a) state"

type_synonym 'a wt_result = "(wt_error + 'a) wt"

abbreviation give :: "'a \<Rightarrow> 'a wt" where
  "give \<equiv> State_Monad.return"

text \<open>\<open>if err != nil { return err }\<close>.\<close>

definition and_then :: "'a wt_result \<Rightarrow> ('a \<Rightarrow> 'b wt_result) \<Rightarrow> 'b wt_result" where
  "and_then c f = do {
     r \<leftarrow> c;
     case r of Inl e \<Rightarrow> give (Inl e) | Inr x \<Rightarrow> f x
   }"

definition ask_world :: "wcall \<Rightarrow> (wcall list \<Rightarrow> 'a) \<Rightarrow> 'a wt" where
  "ask_world c answer = State (\<lambda>tr. (answer tr, tr @ [c]))"

section \<open>The runners\<close>

definition readOnlyGitSubcmds :: "string list" where
  "readOnlyGitSubcmds = [''status'', ''diff'', ''log'', ''ls-files'', ''rev-list'', ''rev-parse'', ''symbolic-ref'', ''ls-remote'', ''show'']"

definition git_args :: "string list \<Rightarrow> string list" where
  "git_args args = (if args \<noteq> [] \<and> hd args \<in> set readOnlyGitSubcmds then ''--no-optional-locks'' # args else args)"

definition git_run :: "Manager \<Rightarrow> string list \<Rightarrow> string \<Rightarrow> (CmdResult \<times> string option) wt" where
  "git_run m args dir = ask_world (Git args dir) (\<lambda>tr. ww_exec (wm_world m) tr ''git'' (git_args args) dir)"

definition gh_run :: "Manager \<Rightarrow> string list \<Rightarrow> string \<Rightarrow> (CmdResult \<times> string option) wt" where
  "gh_run m args dir = ask_world (Gh args dir) (\<lambda>tr. ww_exec (wm_world m) tr ''gh'' args dir)"

text \<open>A call of \<open>git\<close> of which only the error matters.\<close>

definition git_err :: "Manager \<Rightarrow> string list \<Rightarrow> string \<Rightarrow> string option wt" where
  "git_err m args dir = do { (r, err) \<leftarrow> git_run m args dir; give err }"

definition Stat_path :: "Manager \<Rightarrow> string \<Rightarrow> stat_reply wt" where
  "Stat_path m p = ask_world (Stat p) (\<lambda>tr. ww_stat (wm_world m) tr p)"

definition defaultProcessAlive :: "Manager \<Rightarrow> int \<Rightarrow> bool wt" where
  "defaultProcessAlive m pid =
    (if pid \<le> 0 then give False
     else do { r \<leftarrow> ask_world (Signal pid) (\<lambda>tr. ww_signal (wm_world m) tr pid); give (r \<noteq> NoProcess) })"

definition current_dir :: "Manager \<Rightarrow> string wt_result" where
  "current_dir m = do {
     r \<leftarrow> ask_world Getwd (ww_getwd (wm_world m));
     give (case r of None \<Rightarrow> Inl (WrappedError ''failed to get current directory'' OsError) | Some d \<Rightarrow> Inr d)
   }"

definition RepoDir :: "Manager \<Rightarrow> string" where
  "RepoDir m = Join [wm_root m, wm_repoName m]"

definition BareDir :: "Manager \<Rightarrow> string" where
  "BareDir m = Join [RepoDir m, ''.bare'']"

text \<open>The check at the start of most operations.\<close>

definition need_repo :: "Manager \<Rightarrow> unit wt_result" where
  "need_repo m = do {
     r \<leftarrow> Stat_path m (BareDir m);
     give (if r = NotExist then Inl ErrRepoNotInitialized else Inr ())
   }"

section \<open>Git\<close>

definition GetRepoNameFromURL :: "string \<Rightarrow> string" where
  "GetRepoNameFromURL url =
    (let parts = split_on (CHR '':'') url in
     if HasPrefix url ''git@'' \<and> length parts \<ge> 2 then TrimSuffix (Base (last parts)) ''.git''
     else TrimSuffix (case LastIndex url ''/'' of Some i \<Rightarrow> drop (i + 1) url | None \<Rightarrow> url) ''.git'')"

fun first_branch :: "Manager \<Rightarrow> string \<Rightarrow> string list \<Rightarrow> string wt" where
  "first_branch m p [] = give ''main''"
| "first_branch m p (b # bs) = do {
     err \<leftarrow> git_err m [''rev-parse'', ''refs/heads/'' @ b] p;
     if err = None then give b else first_branch m p bs
   }"

text \<open>The error of \<open>GetDefaultBranch\<close> is always nil.\<close>

definition GetDefaultBranch :: "Manager \<Rightarrow> string \<Rightarrow> string wt" where
  "GetDefaultBranch m p = do {
     (r, err) \<leftarrow> git_run m [''symbolic-ref'', ''refs/remotes/origin/HEAD''] p;
     if err = None then give (TrimPrefix' (TrimSpace (cmd_Stdout r)) ''refs/remotes/origin/'')
     else do {
       (r, err) \<leftarrow> git_run m [''symbolic-ref'', ''HEAD''] p;
       if err = None then give (TrimPrefix' (TrimSpace (cmd_Stdout r)) ''refs/heads/'')
       else first_branch m p [''main'', ''master'']
     }
   }"

definition RemoteBranchExists :: "Manager \<Rightarrow> string \<Rightarrow> string \<Rightarrow> bool wt_result" where
  "RemoteBranchExists m branch dir = do {
     (r, err) \<leftarrow> git_run m [''ls-remote'', ''--heads'', ''origin'', branch] dir;
     give (case err of Some e \<Rightarrow> Inl (CommandError e) | None \<Rightarrow> Inr (TrimSpace (cmd_Stdout r) \<noteq> []))
   }"

definition SetBranchDescription :: "Manager \<Rightarrow> string \<Rightarrow> string \<Rightarrow> string \<Rightarrow> string option wt" where
  "SetBranchDescription m branch description dir =
     git_err m [''config'', ''branch.'' @ branch @ ''.description'', description] dir"

definition GetBranchDescription :: "Manager \<Rightarrow> string \<Rightarrow> string \<Rightarrow> string wt_result" where
  "GetBranchDescription m branch dir = do {
     (r, err) \<leftarrow> git_run m [''config'', ''branch.'' @ branch @ ''.description''] dir;
     give (case err of Some e \<Rightarrow> Inl (CommandError e) | None \<Rightarrow> Inr (TrimSpace (cmd_Stdout r)))
   }"

definition SetBranchGoal :: "Manager \<Rightarrow> string \<Rightarrow> string \<Rightarrow> string \<Rightarrow> string option wt" where
  "SetBranchGoal m branch goal dir = git_err m [''config'', ''branch.'' @ branch @ ''.goal'', goal] dir"

definition GetBranchGoal :: "Manager \<Rightarrow> string \<Rightarrow> string \<Rightarrow> string wt_result" where
  "GetBranchGoal m branch dir = do {
     (r, err) \<leftarrow> git_run m [''config'', ''branch.'' @ branch @ ''.goal''] dir;
     give (case err of Some e \<Rightarrow> Inl (CommandError e) | None \<Rightarrow> Inr (TrimSpace (cmd_Stdout r)))
   }"

text \<open>The branch that is checked out in a directory; empty for a detached head.\<close>

definition show_current :: "Manager \<Rightarrow> string \<Rightarrow> string wt_result" where
  "show_current m dir = do {
     (r, err) \<leftarrow> git_run m [''branch'', ''--show-current''] dir;
     give (case err of Some e \<Rightarrow> Inl (CommandError e) | None \<Rightarrow> Inr (TrimSpace (cmd_Stdout r)))
   }"

section \<open>GitHub\<close>

definition CheckGitHubAuth :: "Manager \<Rightarrow> unit wt_result" where
  "CheckGitHubAuth m = do {
     (r, err) \<leftarrow> gh_run m [''auth'', ''status''] [];
     give (case err of None \<Rightarrow> Inr () | Some e \<Rightarrow> Inl (ErrGitHubAuthRequired (CommandError e)))
   }"

definition IsAuthError :: "Manager \<Rightarrow> string \<Rightarrow> bool" where
  "IsAuthError m stderr = list_ex (Contains (ToLower (ww_lower (wm_world m)) stderr))
     [''could not authenticate'', ''authorization failed'', ''authentication required'', ''invalid credentials'',
      ''could not read username'', ''terminal prompts disabled'', ''authentication token'', ''bad credentials'']"

definition wrapAuthError :: "Manager \<Rightarrow> string \<Rightarrow> CmdResult \<Rightarrow> wt_error" where
  "wrapAuthError m err r =
    (if IsAuthError m (cmd_Stderr r) then ErrGitHubAuthRequired (CommandError err) else CommandError err)"

record PRInfo =
  pi_URL :: string
  pi_HeadRefName :: string
  pi_BaseRefName :: string
  pi_State :: string
  pi_ReviewDecision :: string
  pi_Number :: int
  pi_IsDraft :: bool

definition zero_pr :: PRInfo where
  "zero_pr = \<lparr>pi_URL = [], pi_HeadRefName = [], pi_BaseRefName = [], pi_State = [], pi_ReviewDecision = [],
     pi_Number = 0, pi_IsDraft = False\<rparr>"

definition pr_fields :: "(string \<times> PRInfo decoder) list" where
  "pr_fields = [(''url'', dec_string pi_URL_update), (''headRefName'', dec_string pi_HeadRefName_update),
     (''baseRefName'', dec_string pi_BaseRefName_update), (''state'', dec_string pi_State_update),
     (''reviewDecision'', dec_string pi_ReviewDecision_update), (''number'', dec_int pi_Number_update),
     (''isDraft'', dec_bool pi_IsDraft_update)]"

definition Unmarshal_PR :: "Manager \<Rightarrow> string \<Rightarrow> wt_error + PRInfo" where
  "Unmarshal_PR m s =
    (case ww_json (wm_world m) s of None \<Rightarrow> Inl JsonError
     | Some v \<Rightarrow> (case dec_struct pr_fields v zero_pr of (p, ok) \<Rightarrow> if ok then Inr p else Inl JsonError))"

definition Unmarshal_PRs :: "Manager \<Rightarrow> string \<Rightarrow> wt_error + PRInfo list" where
  "Unmarshal_PRs m s =
    (case ww_json (wm_world m) s of None \<Rightarrow> Inl JsonError
     | Some v \<Rightarrow> (case dec_list (dec_struct pr_fields) zero_pr (\<lambda>f ps. f ps) v [] of
         (ps, ok) \<Rightarrow> if ok then Inr ps else Inl JsonError))"

definition IsMergeable :: "PRInfo \<Rightarrow> bool" where
  "IsMergeable p = (pi_ReviewDecision p = ''APPROVED'')"

definition GetPRForBranch :: "Manager \<Rightarrow> string \<Rightarrow> PRInfo wt_result" where
  "GetPRForBranch m dir = do {
     (r, err) \<leftarrow> gh_run m [''pr'', ''view'', ''--json'', ''number,url''] dir;
     give (case err of Some e \<Rightarrow> Inl (CommandError e) | None \<Rightarrow> Unmarshal_PR m (cmd_Stdout r))
   }"

definition GetPRByBranch :: "Manager \<Rightarrow> string \<Rightarrow> string \<Rightarrow> PRInfo wt_result" where
  "GetPRByBranch m branch dir = do {
     (r, err) \<leftarrow> gh_run m [''pr'', ''view'', branch, ''--json'', ''number,url,headRefName,baseRefName,state,reviewDecision''] dir;
     give (case err of
         Some e \<Rightarrow> Inl (if cmd_Stderr r \<noteq> [] then WrappedError (cmd_Stderr r) (CommandError e) else CommandError e)
       | None \<Rightarrow> Unmarshal_PR m (cmd_Stdout r))
   }"

definition prListLimit :: nat where
  "prListLimit = 1000"

definition PRListTruncated :: "PRInfo list \<Rightarrow> bool" where
  "PRListTruncated prs = (length prs \<ge> prListLimit)"

definition listed_prs :: "Manager \<Rightarrow> CmdResult \<times> string option \<Rightarrow> wt_error + PRInfo list" where
  "listed_prs m reply =
    (case snd reply of
       Some e \<Rightarrow> Inl (CommandError e)
     | None \<Rightarrow> if cmd_Stdout (fst reply) = [] then Inr [] else Unmarshal_PRs m (cmd_Stdout (fst reply)))"

definition ListOpenPRs :: "Manager \<Rightarrow> string \<Rightarrow> PRInfo list wt_result" where
  "ListOpenPRs m dir = do {
     r \<leftarrow> gh_run m [''pr'', ''list'', ''--json'', ''number,headRefName,baseRefName,state,isDraft,reviewDecision,url'',
       ''--state'', ''open'', ''--limit'', Itoa (int prListLimit)] dir;
     give (listed_prs m r)
   }"

definition ListMergedPRs :: "Manager \<Rightarrow> string \<Rightarrow> PRInfo list wt_result" where
  "ListMergedPRs m dir = do {
     r \<leftarrow> gh_run m [''pr'', ''list'', ''--json'', ''number,headRefName,baseRefName,state,url'',
       ''--state'', ''merged'', ''--limit'', Itoa (int prListLimit)] dir;
     give (listed_prs m r)
   }"

definition UpdatePRBase :: "Manager \<Rightarrow> int \<Rightarrow> string \<Rightarrow> string \<Rightarrow> bool wt" where
  "UpdatePRBase m n newBase dir = do {
     (r, err) \<leftarrow> gh_run m [''pr'', ''edit'', Itoa n, ''--base'', newBase] dir;
     give (err = None)
   }"

definition IsPRMerged :: "Manager \<Rightarrow> string \<Rightarrow> string \<Rightarrow> bool wt_result" where
  "IsPRMerged m branch dir = and_then (GetPRByBranch m branch dir) (\<lambda>info. give (Inr (pi_State info = ''MERGED'')))"

record createPRResponse =
  cp_HTMLURL :: string
  cp_Head :: string
  cp_Base :: string
  cp_Number :: int
  cp_Draft :: bool

definition ref_fields :: "(string \<times> string decoder) list" where
  "ref_fields = [(''ref'', dec_string (\<lambda>f s. f s))]"

definition create_fields :: "(string \<times> createPRResponse decoder) list" where
  "create_fields = [(''html_url'', dec_string cp_HTMLURL_update), (''head'', dec_in (dec_struct ref_fields) cp_Head cp_Head_update),
     (''base'', dec_in (dec_struct ref_fields) cp_Base cp_Base_update), (''number'', dec_int cp_Number_update),
     (''draft'', dec_bool cp_Draft_update)]"

definition gh_CreatePR :: "Manager \<Rightarrow> string \<Rightarrow> string \<Rightarrow> string \<Rightarrow> string \<Rightarrow> bool \<Rightarrow> string \<Rightarrow> PRInfo wt_result" where
  "gh_CreatePR m title body base head draft dir = do {
     (r, err) \<leftarrow> gh_run m ([''api'', ''repos/{owner}/{repo}/pulls'', ''-f'', ''title='' @ title, ''-f'', ''body='' @ body,
       ''-f'', ''head='' @ head, ''-f'', ''base='' @ base] @ (if draft then [''-F'', ''draft=true''] else [])) dir;
     give (case err of
         Some e \<Rightarrow> Inl (if cmd_Stderr r \<noteq> [] then WrappedError (cmd_Stderr r) (CommandError e) else CommandError e)
       | None \<Rightarrow>
           (case ww_json (wm_world m) (cmd_Stdout r) of
              None \<Rightarrow> Inl (WrappedError ''parse PR response'' JsonError)
            | Some v \<Rightarrow>
                (case dec_struct create_fields v \<lparr>cp_HTMLURL = [], cp_Head = [], cp_Base = [], cp_Number = 0, cp_Draft = False\<rparr> of
                   (p, ok) \<Rightarrow>
                     if ok then Inr \<lparr>pi_URL = cp_HTMLURL p, pi_HeadRefName = cp_Head p, pi_BaseRefName = cp_Base p,
                       pi_State = ''OPEN'', pi_ReviewDecision = [], pi_Number = cp_Number p, pi_IsDraft = cp_Draft p\<rparr>
                     else Inl (WrappedError ''parse PR response'' JsonError))))
   }"

section \<open>Configuration and hooks\<close>

definition default_config :: RepoConfig where
  "default_config = \<lparr>rc_DefaultBase = ''main'', rc_PostCreate = [], rc_PostRemove = [], rc_OnWorktreeCreate = [], rc_OnWorktreeDelete = []\<rparr>"

definition parse_config :: "Manager \<Rightarrow> file_reply \<Rightarrow> wt_error + RepoConfig" where
  "parse_config m f =
    (case f of
       NoFile \<Rightarrow> Inr default_config
     | FileError \<Rightarrow> Inl OsError
     | FileData s \<Rightarrow>
         (case ww_yaml (wm_world m) s of None \<Rightarrow> Inl (ErrorText ''yaml'')
          | Some c \<Rightarrow> Inr (if rc_DefaultBase c = [] then c\<lparr>rc_DefaultBase := ''main''\<rparr> else c)))"

definition LoadRepoConfig :: "Manager \<Rightarrow> string \<Rightarrow> RepoConfig wt_result" where
  "LoadRepoConfig m repoPath = (let p = Join [repoPath, ''.wt.yaml''] in do {
     f \<leftarrow> ask_world (ReadConfig p) (\<lambda>tr. ww_file (wm_world m) tr p);
     give (parse_config m f)
   })"

definition WorktreeCreateCommands :: "RepoConfig \<Rightarrow> string list" where
  "WorktreeCreateCommands c = rc_PostCreate c @ rc_OnWorktreeCreate c"

definition WorktreeDeleteCommands :: "RepoConfig \<Rightarrow> string list" where
  "WorktreeDeleteCommands c = rc_PostRemove c @ rc_OnWorktreeDelete c"

fun RunHooks :: "Manager \<Rightarrow> string list \<Rightarrow> string \<Rightarrow> string \<Rightarrow> bool wt" where
  "RunHooks m [] path branch = give True"
| "RunHooks m (c # cs) path branch = do {
     ok \<leftarrow> ask_world (HookRun c path branch) (\<lambda>tr. ww_hook (wm_world m) tr c path branch);
     if ok then RunHooks m cs path branch else give False
   }"

text \<open>Hooks around an operation: neither a broken configuration nor a failing hook stops it.\<close>

definition run_hooks_of :: "Manager \<Rightarrow> (RepoConfig \<Rightarrow> string list) \<Rightarrow> string \<Rightarrow> string \<Rightarrow> unit wt" where
  "run_hooks_of m commands path branch = do {
     c \<leftarrow> LoadRepoConfig m path;
     case c of Inl e \<Rightarrow> give () | Inr c \<Rightarrow> do { ok \<leftarrow> RunHooks m (commands c) path branch; give () }
   }"

section \<open>What a program calls\<close>

definition issues :: "(wcall \<Rightarrow> bool) \<Rightarrow> 'a wt \<Rightarrow> bool" where
  "issues P c \<longleftrightarrow> (\<forall>tr. \<exists>cs. snd (run_state c tr) = tr @ cs \<and> list_all P cs)"

named_theorems wt_rules \<open>rules for what a program calls\<close>

lemma issuesI: "(\<And>tr. \<exists>cs. snd (run_state c tr) = tr @ cs \<and> list_all P cs) \<Longrightarrow> issues P c"
  by (simp add: issues_def)

lemma issuesE:
  assumes "issues P c" and "run_state c tr = (x, tr')"
  obtains cs where "tr' = tr @ cs" "list_all P cs"
  using assms unfolding issues_def by (metis snd_conv)

lemma issues_give [wt_rules]: "issues P (give x)"
  by (rule issuesI) simp

lemma issues_bind [wt_rules]:
  assumes "issues P c" and "\<And>x. issues P (f x)"
  shows "issues P (State_Monad.bind c f)"
proof (rule issuesI)
  fix tr
  obtain x tr1 where r: "run_state c tr = (x, tr1)" by (cases "run_state c tr")
  obtain cs where cs: "tr1 = tr @ cs" "list_all P cs" using issuesE [OF assms(1) r] .
  obtain ds where "snd (run_state (f x) tr1) = tr1 @ ds" "list_all P ds"
    using assms(2) [of x] by (auto simp: issues_def)
  then have "snd (run_state (State_Monad.bind c f) tr) = tr @ cs @ ds \<and> list_all P (cs @ ds)"
    using r cs by simp
  then show "\<exists>cs. snd (run_state (State_Monad.bind c f) tr) = tr @ cs \<and> list_all P cs" by blast
qed

lemma issues_ask [wt_rules]: "P c \<Longrightarrow> issues P (ask_world c answer)"
  by (rule issuesI) (simp add: ask_world_def)

lemma issues_and_then [wt_rules]: "issues P c \<Longrightarrow> (\<And>x. issues P (f x)) \<Longrightarrow> issues P (and_then c f)"
  by (auto simp: and_then_def intro!: wt_rules split: sum.split)

lemma issues_mono: "issues P c \<Longrightarrow> (\<And>x. P x \<Longrightarrow> Q x) \<Longrightarrow> issues Q c"
  unfolding issues_def by (metis list.pred_mono_strong)

lemmas wt_splits = prod.split option.split sum.split if_split

lemma issues_git_run [wt_rules]: "P (Git args dir) \<Longrightarrow> issues P (git_run m args dir)"
  by (simp add: git_run_def issues_ask)

lemma issues_gh_run [wt_rules]: "P (Gh args dir) \<Longrightarrow> issues P (gh_run m args dir)"
  by (simp add: gh_run_def issues_ask)

lemma issues_git_err [wt_rules]: "P (Git args dir) \<Longrightarrow> issues P (git_err m args dir)"
  by (auto simp: git_err_def intro!: wt_rules)

lemma issues_Stat [wt_rules]: "P (Stat p) \<Longrightarrow> issues P (Stat_path m p)"
  by (simp add: Stat_path_def issues_ask)

text \<open>Calls that change nothing, neither in the repository nor on disk.\<close>

definition quiet :: "wcall \<Rightarrow> bool" where
  "quiet c =
    (case c of
       Git args dir \<Rightarrow> hd args \<in> set readOnlyGitSubcmds \<or> take 2 args = [''branch'', ''--show-current''] \<or>
         take 2 args = [''branch'', ''--list''] \<or> take 2 args = [''worktree'', ''list''] \<or>
         take 3 args = [''worktree'', ''prune'', ''--dry-run''] \<or> hd args = ''config'' \<and> length args = 2
     | Gh args dir \<Rightarrow> take 2 args = [''auth'', ''status''] \<or> take 2 args = [''pr'', ''view''] \<or> take 2 args = [''pr'', ''list'']
     | HookRun cmd path branch \<Rightarrow> False
     | MkdirAll path \<Rightarrow> False
     | _ \<Rightarrow> True)"

lemma quiet_simps [simp]:
  "quiet (Stat p)" "quiet (ReadDir p)" "quiet (ReadConfig p)" "quiet (Signal n)" "quiet Getwd"
  "\<not> quiet (HookRun c p b)" "\<not> quiet (MkdirAll p)"
  by (simp_all add: quiet_def)

lemma quiet_programs [wt_rules]:
  "issues quiet (GetDefaultBranch m p)"
  "issues quiet (RemoteBranchExists m branch dir)"
  "issues quiet (GetBranchDescription m branch dir)"
  "issues quiet (GetBranchGoal m branch dir)"
  "issues quiet (show_current m dir)"
  "issues quiet (CheckGitHubAuth m)"
  "issues quiet (GetPRByBranch m branch dir)"
  "issues quiet (ListOpenPRs m dir)"
  "issues quiet (ListMergedPRs m dir)"
  "issues quiet (defaultProcessAlive m pid)"
  "issues quiet (need_repo m)"
  "issues quiet (LoadRepoConfig m p)"
  by (auto simp: GetDefaultBranch_def RemoteBranchExists_def GetBranchDescription_def GetBranchGoal_def show_current_def
      CheckGitHubAuth_def GetPRByBranch_def ListOpenPRs_def ListMergedPRs_def defaultProcessAlive_def need_repo_def
      LoadRepoConfig_def Let_def quiet_def readOnlyGitSubcmds_def intro!: wt_rules split: wt_splits)

section \<open>Hoare triples\<close>

definition triple :: "(wcall list \<Rightarrow> bool) \<Rightarrow> 'a wt \<Rightarrow> ('a \<Rightarrow> wcall list \<Rightarrow> bool) \<Rightarrow> bool" where
  "triple A c B \<longleftrightarrow> (\<forall>tr. A tr \<longrightarrow> (case run_state c tr of (x, tr') \<Rightarrow> B x tr'))"

lemma triple_give: "(\<And>tr. A tr \<Longrightarrow> B x tr) \<Longrightarrow> triple A (give x) B"
  by (simp add: triple_def)

lemma triple_bind: "triple A c B \<Longrightarrow> (\<And>x. triple (B x) (f x) C) \<Longrightarrow> triple A (State_Monad.bind c f) C"
  by (fastforce simp: triple_def split: prod.splits)

lemma triple_weaken: "triple A c B \<Longrightarrow> (\<And>tr. A' tr \<Longrightarrow> A tr) \<Longrightarrow> (\<And>x tr. B x tr \<Longrightarrow> B' x tr) \<Longrightarrow> triple A' c B'"
  by (fastforce simp: triple_def split: prod.splits)

lemma tripleD: "triple A c B \<Longrightarrow> A tr \<Longrightarrow> run_state c tr = (x, tr') \<Longrightarrow> B x tr'"
  by (fastforce simp: triple_def)

end
