(* ===== verification/WtWorktree.thy ===== *)
theory WtWorktree
  imports WtWorld
begin

text \<open>
  Reading a repository (\<open>wt/worktree.go\<close>): the list of its worktrees as \<open>git worktree list --porcelain\<close>
  prints it, locks and their processes, the status of a worktree, the parent branch and the goal kept in
  the configuration of a branch, and the order in which dependent branches are rebased.
\<close>

section \<open>The list of worktrees\<close>

record Worktree =
  wt_Path :: string
  wt_Branch :: string
  wt_Commit :: string
  wt_LockReason :: string
  wt_LockPID :: int
  wt_IsDetached :: bool
  wt_IsGone :: bool
  wt_IsLocked :: bool

abbreviation newline :: char where
  "newline \<equiv> CHR 0x0A"

definition parseLockPID :: "string \<Rightarrow> int" where
  "parseLockPID reason =
    (case Index reason ''(pid '' of
       None \<Rightarrow> 0
     | Some i \<Rightarrow>
         let rest = drop (i + length ''(pid '') reason in
         case Index rest '')'' of
           None \<Rightarrow> 0
         | Some j \<Rightarrow> (case Atoi (TrimSpace (take j rest)) of Some pid \<Rightarrow> pid | None \<Rightarrow> 0))"

text \<open>The fields of one record of the list, a map; a missing one reads as the empty string.\<close>

definition field_of :: "(string, string) gomap \<Rightarrow> string \<Rightarrow> string" where
  "field_of f k = (case map_of f k of Some v \<Rightarrow> v | None \<Rightarrow> [])"

definition worktreeFromFields :: "(string, string) gomap \<Rightarrow> Worktree option" where
  "worktreeFromFields f =
    (if map_of f ''bare'' \<noteq> None then None
     else if field_of f ''worktree'' = [] then None
     else
       let branch = TrimPrefix' (field_of f ''branch'') ''refs/heads/'' in
       Some \<lparr>wt_Path = field_of f ''worktree'', wt_Branch = (if branch = [] then ''(detached)'' else branch),
         wt_Commit = take 8 (field_of f ''HEAD''), wt_LockReason = field_of f ''lockreason'',
         wt_LockPID = parseLockPID (field_of f ''lockreason''), wt_IsDetached = (field_of f ''detached'' = ''true''),
         wt_IsGone = (field_of f ''prunable'' = ''true''), wt_IsLocked = (field_of f ''locked'' = ''true'')\<rparr>)"

definition list_field :: "string \<Rightarrow> (string, string) gomap \<Rightarrow> (string, string) gomap" where
  "list_field line f =
    (if HasPrefix line ''worktree '' then mput ''worktree'' (drop 9 line) f
     else if HasPrefix line ''HEAD '' then mput ''HEAD'' (drop 5 line) f
     else if HasPrefix line ''branch '' then mput ''branch'' (drop 7 line) f
     else if line = ''bare'' then mput ''bare'' ''true'' f
     else if line = ''detached'' then mput ''detached'' ''true'' f
     else if line = ''prunable'' \<or> HasPrefix line ''prunable '' then mput ''prunable'' ''true'' f
     else if line = ''locked'' then mput ''locked'' ''true'' f
     else if HasPrefix line ''locked '' then mput ''lockreason'' (drop (length ''locked '') line) (mput ''locked'' ''true'' f)
     else f)"

definition flush :: "(string, string) gomap \<Rightarrow> Worktree list \<Rightarrow> Worktree list" where
  "flush f ws = (case worktreeFromFields f of None \<Rightarrow> ws | Some w \<Rightarrow> ws @ [w])"

fun list_lines :: "string list \<Rightarrow> (string, string) gomap \<Rightarrow> Worktree list \<Rightarrow> Worktree list" where
  "list_lines [] f ws = flush f ws"
| "list_lines (line # ls) f ws =
    (if line = [] then list_lines ls [] (flush f ws) else list_lines ls (list_field line f) ws)"

definition parseWorktreeList :: "string \<Rightarrow> Worktree list" where
  "parseWorktreeList text = list_lines (split_on newline text) [] []"

text \<open>\<open>List\<close> adds what git does not know yet: a directory that is gone.\<close>

fun mark_gone :: "Manager \<Rightarrow> Worktree list \<Rightarrow> Worktree list wt" where
  "mark_gone m [] = give []"
| "mark_gone m (w # ws) = do {
     w' \<leftarrow> (if wt_IsGone w then give w
            else do { r \<leftarrow> Stat_path m (wt_Path w); give (if r = NotExist then w\<lparr>wt_IsGone := True\<rparr> else w) });
     ws' \<leftarrow> mark_gone m ws;
     give (w' # ws')
   }"

definition wt_List :: "Manager \<Rightarrow> Worktree list wt_result" where
  "wt_List m = do {
     r \<leftarrow> Stat_path m (BareDir m);
     if r = NotExist then give (Inr [])
     else do {
       (r, err) \<leftarrow> git_run m [''worktree'', ''list'', ''--porcelain''] (BareDir m);
       case err of
         Some e \<Rightarrow> give (Inl (CommandError e))
       | None \<Rightarrow> do { ws \<leftarrow> mark_gone m (parseWorktreeList (cmd_Stdout r)); give (Inr ws) }
     }
   }"

definition isStaleLock :: "Manager \<Rightarrow> Worktree \<Rightarrow> bool wt" where
  "isStaleLock m w =
    (if \<not> wt_IsLocked w \<or> wt_LockPID w = 0 then give False
     else do { alive \<leftarrow> defaultProcessAlive m (wt_LockPID w); give (\<not> alive) })"

definition worktree_name :: "Worktree \<Rightarrow> string" where
  "worktree_name w = Base (wt_Path w)"

definition GetWorktreeByBranch :: "Manager \<Rightarrow> string \<Rightarrow> Worktree wt_result" where
  "GetWorktreeByBranch m branch = and_then (wt_List m) (\<lambda>ws.
     give (case find (\<lambda>w. wt_Branch w = branch) ws of Some w \<Rightarrow> Inr w | None \<Rightarrow> Inl ErrWorktreeNotFound))"

definition GetWorktreePath :: "Manager \<Rightarrow> string \<Rightarrow> string wt_result" where
  "GetWorktreePath m branch =
    (if branch = [] then give (Inr (RepoDir m))
     else do {
       r \<leftarrow> Stat_path m (Join [RepoDir m, branch]);
       give (if r = NotExist then Inl ErrWorktreeNotFound else Inr (Join [RepoDir m, branch]))
     })"

section \<open>Status\<close>

record WorktreeStatus =
  st_Worktree :: Worktree
  st_LastCommitTime :: int
  st_LastCommitMsg :: string
  st_PRURL :: string
  st_PRState :: string
  st_PRReviewStatus :: string
  st_Ahead :: int
  st_Behind :: int
  st_PRNumber :: int
  st_IsDirty :: bool
  st_PRIsDraft :: bool

definition new_status :: "Worktree \<Rightarrow> WorktreeStatus" where
  "new_status w = \<lparr>st_Worktree = w, st_LastCommitTime = 0, st_LastCommitMsg = [], st_PRURL = [], st_PRState = [],
     st_PRReviewStatus = [], st_Ahead = 0, st_Behind = 0, st_PRNumber = 0, st_IsDirty = False, st_PRIsDraft = False\<rparr>"

definition ahead_behind :: "string \<Rightarrow> WorktreeStatus \<Rightarrow> WorktreeStatus" where
  "ahead_behind field s =
    (if length field < 2 then s
     else case Atoi (tl field) of
       None \<Rightarrow> s
     | Some n \<Rightarrow> if hd field = CHR ''+'' then s\<lparr>st_Ahead := n\<rparr>
                 else if hd field = CHR ''-'' then s\<lparr>st_Behind := n\<rparr> else s)"

definition parseBranchAheadBehind :: "string \<Rightarrow> WorktreeStatus \<Rightarrow> WorktreeStatus" where
  "parseBranchAheadBehind line s =
    (let fs = Fields line in if length fs < 4 then s else fold ahead_behind (drop 2 fs) s)"

definition status_line :: "string \<Rightarrow> WorktreeStatus \<Rightarrow> WorktreeStatus" where
  "status_line raw s =
    (let line = TrimSpace raw in
     if line = [] then s
     else if HasPrefix line ''# branch.ab '' then parseBranchAheadBehind line s
     else if HasPrefix line ''#'' then s
     else s\<lparr>st_IsDirty := True\<rparr>)"

definition parsePorcelainV2Status :: "string \<Rightarrow> WorktreeStatus \<Rightarrow> WorktreeStatus" where
  "parsePorcelainV2Status text s = fold status_line (split_on newline text) s"

definition gitStatusFromPorcelainV2 :: "Manager \<Rightarrow> Worktree \<Rightarrow> WorktreeStatus wt_result" where
  "gitStatusFromPorcelainV2 m w = do {
     (r, err) \<leftarrow> git_run m [''status'', ''--porcelain=v2'', ''--branch''] (wt_Path w);
     give (case err of Some e \<Rightarrow> Inl (CommandError e) | None \<Rightarrow> Inr (parsePorcelainV2Status (cmd_Stdout r) (new_status w)))
   }"

text \<open>
  \<open>GetAllGitStatuses\<close> runs one goroutine for each worktree; the list is in the order in which they
  finish. The error returned is that of the first that fails.
\<close>

fun all_statuses :: "Manager \<Rightarrow> Worktree list \<Rightarrow> (string, WorktreeStatus) gomap \<Rightarrow> wt_error option \<Rightarrow>
    (wt_error option \<times> (string, WorktreeStatus) gomap) wt" where
  "all_statuses m [] acc err = give (err, acc)"
| "all_statuses m (w # ws) acc err = do {
     r \<leftarrow> gitStatusFromPorcelainV2 m w;
     case r of
       Inl e \<Rightarrow> all_statuses m ws acc (if err = None then Some e else err)
     | Inr s \<Rightarrow> all_statuses m ws (mput (wt_Path w) s (if wt_Branch w = [] then acc else mput (wt_Branch w) s acc)) err
   }"

definition GetAllGitStatuses :: "Manager \<Rightarrow> Worktree list \<Rightarrow> (wt_error option \<times> (string, WorktreeStatus) gomap) wt" where
  "GetAllGitStatuses m ws = all_statuses m ws [] None"

definition GetGitStatus :: "Manager \<Rightarrow> Worktree \<Rightarrow> WorktreeStatus wt_result" where
  "GetGitStatus m w = do {
     (err, statuses) \<leftarrow> GetAllGitStatuses m [w];
     give (case err of
         Some e \<Rightarrow> Inl e
       | None \<Rightarrow> Inr (case map_of statuses (wt_Path w) of
             Some s \<Rightarrow> s
           | None \<Rightarrow> (case map_of statuses (wt_Branch w) of Some s \<Rightarrow> s | None \<Rightarrow> new_status w)))
   }"

definition FetchPRInfo :: "Manager \<Rightarrow> Worktree \<Rightarrow> PRInfo option wt_result" where
  "FetchPRInfo m w =
    (if wt_IsDetached w then give (Inr None)
     else do {
       (r, err) \<leftarrow> gh_run m [''pr'', ''view'', ''--json'', ''number,url,state,isDraft,reviewDecision''] (wt_Path w);
       give (case err of
           Some e \<Rightarrow> Inl (CommandError e)
         | None \<Rightarrow> if cmd_Stdout r = [] then Inr None
             else (case Unmarshal_PR m (cmd_Stdout r) of
                 Inl e \<Rightarrow> Inl e
               | Inr p \<Rightarrow> Inr (Some (p\<lparr>pi_HeadRefName := [], pi_BaseRefName := []\<rparr>))))
     })"

definition GetStatus :: "Manager \<Rightarrow> Worktree \<Rightarrow> WorktreeStatus wt_result" where
  "GetStatus m w = and_then (GetGitStatus m w) (\<lambda>s. do {
     pr \<leftarrow> FetchPRInfo m w;
     give (Inr (case pr of
         Inr (Some p) \<Rightarrow> s\<lparr>st_PRNumber := pi_Number p, st_PRURL := pi_URL p, st_PRState := pi_State p,
           st_PRIsDraft := pi_IsDraft p, st_PRReviewStatus := pi_ReviewDecision p\<rparr>
       | _ \<Rightarrow> s))
   })"

section \<open>Parents and goals\<close>

definition parent_of :: "wt_error + string \<Rightarrow> string option" where
  "parent_of r =
    (case r of Inl e \<Rightarrow> None
     | Inr desc \<Rightarrow> if HasPrefix desc ''parent:'' then Some (drop (length ''parent:'') desc) else None)"

text \<open>The error of \<open>GetParentBranch\<close> is always nil.\<close>

definition GetParentBranch :: "Manager \<Rightarrow> string \<Rightarrow> string \<Rightarrow> string wt" where
  "GetParentBranch m branch dir = do {
     r \<leftarrow> GetBranchDescription m branch dir;
     case parent_of r of
       Some p \<Rightarrow> give p
     | None \<Rightarrow>
         if Base dir = branch then give []
         else do {
           r \<leftarrow> GetBranchDescription m (Base dir) dir;
           give (case parent_of r of Some p \<Rightarrow> p | None \<Rightarrow> [])
         }
   }"

definition GetGoal :: "Manager \<Rightarrow> string \<Rightarrow> string \<Rightarrow> string wt_result" where
  "GetGoal m branch dir = do {
     r \<leftarrow> GetBranchGoal m branch dir;
     case r of
       Inr (c # goal) \<Rightarrow> give (Inr (c # goal))
     | _ \<Rightarrow> if Base dir \<noteq> branch then GetBranchGoal m (Base dir) dir else give (Inr [])
   }"

record WorktreeInfo =
  wi_Worktree :: Worktree
  wi_Goal :: string
  wi_Parent :: string
  wi_status :: "WorktreeStatus option"
  wi_IsAhead :: bool
  wi_IsMerged :: bool

definition GetWorktreeInfo :: "Manager \<Rightarrow> string \<Rightarrow> WorktreeInfo wt_result" where
  "GetWorktreeInfo m branch = and_then (GetWorktreeByBranch m branch) (\<lambda>w. do {
     goal \<leftarrow> GetGoal m branch (wt_Path w);
     parent \<leftarrow> GetParentBranch m branch (wt_Path w);
     s \<leftarrow> GetStatus m w;
     let st = (case s of Inl e \<Rightarrow> None | Inr x \<Rightarrow> Some x);
     give (Inr \<lparr>wi_Worktree = w, wi_Goal = (case goal of Inl e \<Rightarrow> [] | Inr g \<Rightarrow> g), wi_Parent = parent,
       wi_status = st, wi_IsAhead = (case st of None \<Rightarrow> False | Some x \<Rightarrow> st_Ahead x > 0),
       wi_IsMerged = (case st of None \<Rightarrow> False | Some x \<Rightarrow> st_PRState x = ''MERGED'')\<rparr>)
   })"

fun worktree_infos :: "Manager \<Rightarrow> Worktree list \<Rightarrow> WorktreeInfo list wt" where
  "worktree_infos m [] = give []"
| "worktree_infos m (w # ws) = do {
     r \<leftarrow> GetWorktreeInfo m (wt_Branch w);
     infos \<leftarrow> worktree_infos m ws;
     give (case r of Inl e \<Rightarrow> infos | Inr i \<Rightarrow> i # infos)
   }"

definition GetAllWorktreeInfo :: "Manager \<Rightarrow> WorktreeInfo list wt_result" where
  "GetAllWorktreeInfo m = and_then (wt_List m) (\<lambda>ws. do { infos \<leftarrow> worktree_infos m ws; give (Inr infos) })"

end
