(* ===== verification/WtCreate.thy ===== *)
theory WtCreate
  imports WtWorktree
begin

text \<open>
  Creating, opening and removing worktrees (\<open>wt/worktree.go\<close>, \<open>wt/atomic.go\<close>). \<open>wt_New\<close> and \<open>NewAtomic\<close>
  create a branch and its worktree; the second registers an undo step after each step that succeeded and
  runs them in reverse order when a later one fails.
\<close>

section \<open>Fetching\<close>

definition FetchOrigin :: "Manager \<Rightarrow> unit wt_result" where
  "FetchOrigin m = and_then (need_repo m) (\<lambda>_. and_then (CheckGitHubAuth m) (\<lambda>_. do {
     b \<leftarrow> GetDefaultBranch m (BareDir m);
     (r, err) \<leftarrow> git_run m [''fetch'', ''origin'', b] (BareDir m);
     give (case err of None \<Rightarrow> Inr ()
       | Some e \<Rightarrow> Inl (WrappedError ''failed to fetch from origin'' (wrapAuthError m e r)))
   }))"

definition fetchBaseBranchIfStacked :: "Manager \<Rightarrow> string \<Rightarrow> unit wt_result" where
  "fetchBaseBranchIfStacked m base = do {
     b \<leftarrow> GetDefaultBranch m (BareDir m);
     if base = b then give (Inr ())
     else do {
       (r, err) \<leftarrow> git_run m [''fetch'', ''origin'', base] (BareDir m);
       give (case err of None \<Rightarrow> Inr ()
         | Some e \<Rightarrow> Inl (WrappedError ''failed to fetch base branch'' (wrapAuthError m e r)))
     }
   }"

definition SyncDefaultBranch :: "Manager \<Rightarrow> unit wt" where
  "SyncDefaultBranch m = do {
     b \<leftarrow> GetDefaultBranch m (BareDir m);
     let mainPath = Join [RepoDir m, b];
     r \<leftarrow> Stat_path m mainPath;
     if r = NotExist then give ()
     else do {
       cur \<leftarrow> show_current m mainPath;
       if cur \<noteq> Inr b then give ()
       else do {
         (s, err) \<leftarrow> git_run m [''status'', ''--porcelain''] mainPath;
         if err \<noteq> None \<or> TrimSpace (cmd_Stdout s) \<noteq> [] then give ()
         else do { err \<leftarrow> git_err m [''merge'', ''--ff-only'', ''origin/'' @ b] mainPath; give () }
       }
     }
   }"

definition fetch_unless :: "Manager \<Rightarrow> bool \<Rightarrow> string \<Rightarrow> unit wt_result" where
  "fetch_unless m skip base =
    (if skip then give (Inr ()) else and_then (FetchOrigin m) (\<lambda>_. fetchBaseBranchIfStacked m base))"

section \<open>The base branch\<close>

text \<open>The first directory of the repository that is a worktree and has a readable configuration decides.\<close>

fun base_from_config :: "Manager \<Rightarrow> (string \<times> bool) list \<Rightarrow> string wt" where
  "base_from_config m [] = give []"
| "base_from_config m ((name, isDir) # es) =
    (if \<not> isDir then base_from_config m es
     else do {
       let wtPath = Join [RepoDir m, name];
       r \<leftarrow> Stat_path m (Join [wtPath, ''.git'']);
       if r \<noteq> Exists then base_from_config m es
       else do {
         c \<leftarrow> LoadRepoConfig m wtPath;
         case c of Inl e \<Rightarrow> base_from_config m es | Inr c \<Rightarrow> give (rc_DefaultBase c)
       }
     })"

definition base_branch :: "Manager \<Rightarrow> string \<Rightarrow> string wt" where
  "base_branch m base =
    (if base \<noteq> [] then give base
     else do {
       es \<leftarrow> ask_world (ReadDir (RepoDir m)) (\<lambda>tr. ww_readdir (wm_world m) tr (RepoDir m));
       b \<leftarrow> base_from_config m es;
       if b = [] then GetDefaultBranch m (BareDir m) else give b
     })"

definition with_stderr :: "string \<Rightarrow> CmdResult \<Rightarrow> string \<Rightarrow> wt_error" where
  "with_stderr what r e =
    (let stderr = TrimSpace (cmd_Stderr r) in
     WrappedError (if stderr \<noteq> [] then what @ '': '' @ stderr else what) (CommandError e))"

definition set_goal :: "Manager \<Rightarrow> string \<Rightarrow> string \<Rightarrow> string \<Rightarrow> unit wt" where
  "set_goal m branch goal path =
    (if goal = [] then give () else do { err \<leftarrow> SetBranchGoal m branch goal path; give () })"

section \<open>Creating and opening\<close>

definition add_new :: "Manager \<Rightarrow> string \<Rightarrow> string \<Rightarrow> (CmdResult \<times> string option) wt" where
  "add_new m branch base =
     git_run m [''worktree'', ''add'', ''-b'', branch, Join [RepoDir m, branch], ''origin/'' @ base] (BareDir m)"

definition wt_New :: "Manager \<Rightarrow> string \<Rightarrow> string \<Rightarrow> string \<Rightarrow> bool \<Rightarrow> string wt_result" where
  "wt_New m branch base goal skip = and_then (need_repo m) (\<lambda>_. do {
     let path = Join [RepoDir m, branch];
     r \<leftarrow> Stat_path m path;
     if r = Exists then do {
       cur \<leftarrow> show_current m path;
       if cur = Inr branch then do { set_goal m branch goal path; give (Inr path) }
       else give (Inl ErrWorktreeExists)
     } else do {
       base \<leftarrow> base_branch m base;
       and_then (fetch_unless m skip base) (\<lambda>_. do {
         SyncDefaultBranch m;
         e1 \<leftarrow> git_err m [''worktree'', ''prune''] (BareDir m);
         (r, err) \<leftarrow> add_new m branch base;
         case err of
           Some e \<Rightarrow> give (Inl (with_stderr ''failed to create worktree'' r e))
         | None \<Rightarrow> do {
             err \<leftarrow> SetBranchDescription m branch (''parent:'' @ base) path;
             (if err = None then do { b \<leftarrow> GetDefaultBranch m (BareDir m); give () } else give ());
             set_goal m branch goal path;
             run_hooks_of m WorktreeCreateCommands path branch;
             give (Inr path)
           }
       })
     }
   })"

definition Open_branch :: "Manager \<Rightarrow> string \<Rightarrow> string \<Rightarrow> string wt_result" where
  "Open_branch m branch goal = and_then (need_repo m) (\<lambda>_. do {
     let path = Join [RepoDir m, branch];
     r \<leftarrow> Stat_path m path;
     if r = Exists then give (Inl ErrWorktreeExists)
     else do {
       err \<leftarrow> git_err m [''fetch'', ''origin'', branch] (BareDir m);
       case err of
         Some e \<Rightarrow> do {
           rev \<leftarrow> git_err m [''ls-remote'', ''--exit-code'', ''origin'', ''refs/heads/'' @ branch] (BareDir m);
           give (Inl (if rev \<noteq> None then ErrBranchNotFound else WrappedError ''failed to fetch from origin'' (CommandError e)))
         }
       | None \<Rightarrow> do {
           err \<leftarrow> git_err m [''rev-parse'', ''refs/remotes/origin/'' @ branch] (BareDir m);
           if err \<noteq> None then give (Inl ErrBranchNotFound)
           else do {
             (r, err) \<leftarrow> git_run m [''worktree'', ''add'', path, branch] (BareDir m);
             case err of
               Some e \<Rightarrow> give (Inl (with_stderr ''failed to create worktree'' r e))
             | None \<Rightarrow> do {
                 b \<leftarrow> GetDefaultBranch m (BareDir m);
                 err \<leftarrow> SetBranchDescription m branch (''parent:'' @ b) path;
                 set_goal m branch goal path;
                 run_hooks_of m WorktreeCreateCommands path branch;
                 give (Inr path)
               }
           }
         }
     }
   })"

text \<open>\<open>Init\<close> also names the manager after the repository.\<close>

definition Init_repo :: "Manager \<Rightarrow> string \<Rightarrow> (Manager \<times> (wt_error + string)) wt" where
  "Init_repo m0 url =
    (let m = m0\<lparr>wm_repoName := GetRepoNameFromURL url\<rparr>; bare = BareDir m in do {
     res \<leftarrow> do {
       r \<leftarrow> Stat_path m bare;
       if r = Exists then give (Inl (ErrorText ''repository already initialized''))
       else do {
         ok \<leftarrow> ask_world (MkdirAll (RepoDir m)) (\<lambda>tr. ww_mkdir (wm_world m) tr (RepoDir m));
         if \<not> ok then give (Inl OsError)
         else do {
           err \<leftarrow> git_err m [''clone'', ''--bare'', url, bare] [];
           case err of Some e \<Rightarrow> give (Inl (WrappedError ''failed to clone'' (CommandError e))) | None \<Rightarrow> do {
             err \<leftarrow> git_err m [''config'', ''remote.origin.fetch'', ''+refs/heads/*:refs/remotes/origin/*''] bare;
             case err of Some e \<Rightarrow> give (Inl (CommandError e)) | None \<Rightarrow> do {
               err \<leftarrow> git_err m [''fetch'', ''origin''] bare;
               case err of Some e \<Rightarrow> give (Inl (CommandError e)) | None \<Rightarrow> do {
                 b \<leftarrow> GetDefaultBranch m bare;
                 let mainPath = Join [RepoDir m, b];
                 err \<leftarrow> git_err m [''worktree'', ''add'', mainPath, b] bare;
                 case err of Some e \<Rightarrow> give (Inl (WrappedError ''failed to create main worktree'' (CommandError e))) | None \<Rightarrow> do {
                   run_hooks_of m WorktreeCreateCommands mainPath b;
                   give (Inr mainPath)
                 }
               }
             }
           }
         }
       }
     };
     give (m, res)
   })"

section \<open>Creating with rollback\<close>

record AtomicOp =
  ao_undoSteps :: "wt_error option wt list"
  ao_committed :: bool

definition AddUndo :: "wt_error option wt \<Rightarrow> AtomicOp \<Rightarrow> AtomicOp" where
  "AddUndo fn op = op\<lparr>ao_undoSteps := ao_undoSteps op @ [fn]\<rparr>"

definition Commit_op :: "AtomicOp \<Rightarrow> AtomicOp" where
  "Commit_op op = op\<lparr>ao_committed := True\<rparr>"

fun run_undo :: "wt_error option wt list \<Rightarrow> wt_error option \<Rightarrow> wt_error option wt" where
  "run_undo [] firstErr = give firstErr"
| "run_undo (u # us) firstErr = do {
     err \<leftarrow> u;
     run_undo us (if err \<noteq> None \<and> firstErr = None then err else firstErr)
   }"

definition Rollback :: "AtomicOp \<Rightarrow> wt_error option wt" where
  "Rollback op = (if ao_committed op then give None else run_undo (rev (ao_undoSteps op)) None)"

definition undo_add :: "Manager \<Rightarrow> string \<Rightarrow> wt_error option wt" where
  "undo_add m branch = do {
     e1 \<leftarrow> git_err m [''worktree'', ''remove'', ''--force'', Join [RepoDir m, branch]] (BareDir m);
     e2 \<leftarrow> git_err m [''branch'', ''-D'', branch] (BareDir m);
     give None
   }"

definition undo_config :: "Manager \<Rightarrow> string \<Rightarrow> string \<Rightarrow> wt_error option wt" where
  "undo_config m branch key = do {
     e \<leftarrow> git_err m [''config'', ''--unset'', ''branch.'' @ branch @ ''.'' @ key] (Join [RepoDir m, branch]);
     give None
   }"

text \<open>The steps after the worktree exists; the operation comes back with what is to be undone.\<close>

definition atomic_steps :: "Manager \<Rightarrow> string \<Rightarrow> string \<Rightarrow> string \<Rightarrow> AtomicOp \<Rightarrow> ((wt_error + string) \<times> AtomicOp) wt" where
  "atomic_steps m branch base goal op = (let path = Join [RepoDir m, branch] in do {
     err \<leftarrow> SetBranchDescription m branch (''parent:'' @ base) path;
     case err of
       Some e \<Rightarrow> give (Inl (WrappedError ''failed to set branch description'' (CommandError e)), op)
     | None \<Rightarrow> do {
         let op = AddUndo (undo_config m branch ''description'') op;
         gerr \<leftarrow> (if goal = [] then give None else SetBranchGoal m branch goal path);
         case gerr of
           Some e \<Rightarrow> give (Inl (WrappedError ''failed to set goal'' (CommandError e)), op)
         | None \<Rightarrow> do {
             let op = (if goal = [] then op else AddUndo (undo_config m branch ''goal'') op);
             run_hooks_of m WorktreeCreateCommands path branch;
             give (Inr path, Commit_op op)
           }
       }
   })"

definition atomic_body :: "Manager \<Rightarrow> string \<Rightarrow> string \<Rightarrow> string \<Rightarrow> bool \<Rightarrow> AtomicOp \<Rightarrow> ((wt_error + string) \<times> AtomicOp) wt" where
  "atomic_body m branch base goal skip op = do {
     n \<leftarrow> need_repo m;
     case n of Inl e \<Rightarrow> give (Inl e, op) | Inr _ \<Rightarrow> do {
       r \<leftarrow> Stat_path m (Join [RepoDir m, branch]);
       if r = Exists then give (Inl ErrWorktreeExists, op)
       else do {
         base \<leftarrow> base_branch m base;
         f \<leftarrow> fetch_unless m skip base;
         case f of Inl e \<Rightarrow> give (Inl e, op) | Inr _ \<Rightarrow> do {
           SyncDefaultBranch m;
           (r, err) \<leftarrow> add_new m branch base;
           case err of
             Some e \<Rightarrow> give (Inl (WrappedError ''failed to create worktree'' (CommandError e)), op)
           | None \<Rightarrow> atomic_steps m branch base goal (AddUndo (undo_add m branch) op)
         }
       }
     }
   }"

definition NewAtomic :: "Manager \<Rightarrow> string \<Rightarrow> string \<Rightarrow> string \<Rightarrow> bool \<Rightarrow> string wt_result" where
  "NewAtomic m branch base goal skip = do {
     (res, op) \<leftarrow> atomic_body m branch base goal skip \<lparr>ao_undoSteps = [], ao_committed = False\<rparr>;
     err \<leftarrow> (if ao_committed op then give None else Rollback op);
     give res
   }"

section \<open>Removing\<close>

definition removeResolved :: "Manager \<Rightarrow> string \<Rightarrow> string \<Rightarrow> bool \<Rightarrow> bool \<Rightarrow> bool \<Rightarrow> unit wt_result" where
  "removeResolved m path branch deleteBranch force forceLocked = do {
     run_hooks_of m WorktreeDeleteCommands path branch;
     (r, err) \<leftarrow> git_run m ([''worktree'', ''remove''] @ (if force \<or> forceLocked then [''--force''] else []) @
       (if forceLocked then [''--force''] else []) @ [path]) (BareDir m);
     case err of
       Some e \<Rightarrow> give (Inl (with_stderr ''failed to remove worktree'' r e))
     | None \<Rightarrow>
         if \<not> deleteBranch then give (Inr ())
         else do {
           e1 \<leftarrow> git_err m [''worktree'', ''prune''] (BareDir m);
           e2 \<leftarrow> git_err m [''branch'', ''-D'', branch] (BareDir m);
           e3 \<leftarrow> git_err m [''push'', ''origin'', ''--delete'', branch] (BareDir m);
           give (Inr ())
         }
   }"

definition Remove :: "Manager \<Rightarrow> string \<Rightarrow> bool \<Rightarrow> bool \<Rightarrow> unit wt_result" where
  "Remove m nameOrBranch deleteBranch force = (let path = Join [RepoDir m, nameOrBranch] in do {
     r \<leftarrow> Stat_path m path;
     if r = NotExist then do {
       l \<leftarrow> wt_List m;
       case l of
         Inl e \<Rightarrow> give (Inl ErrWorktreeNotFound)
       | Inr ws \<Rightarrow>
           (case find (\<lambda>w. wt_Branch w = nameOrBranch) ws of
              None \<Rightarrow> give (Inl ErrWorktreeNotFound)
            | Some w \<Rightarrow> removeResolved m (wt_Path w) (wt_Branch w) deleteBranch force False)
     } else do {
       cur \<leftarrow> show_current m path;
       removeResolved m path (case cur of Inr (c # b) \<Rightarrow> c # b | _ \<Rightarrow> nameOrBranch) deleteBranch force False
     }
   })"

end
