(* ===== verification/WtSync.thy ===== *)
theory WtSync
  imports WtCreate
begin

text \<open>
  Stacked branches (\<open>wt/worktree.go\<close>): the order in which worktrees are rebased, \<open>Sync\<close>, and what merging a
  pull request does to the branches that depend on it.
\<close>

section \<open>The order of dependent branches\<close>

definition has_parent_here :: "(string, string) gomap \<Rightarrow> (string, Worktree) gomap \<Rightarrow> string \<Rightarrow> bool" where
  "has_parent_here pm wm b = (case map_of pm b of None \<Rightarrow> False | Some p \<Rightarrow> map_of wm p \<noteq> None)"

text \<open>The children of a branch, in the order in which the range over the map of parents meets them.\<close>

definition children_of :: "(string \<Rightarrow> nat) \<Rightarrow> (string, string) gomap \<Rightarrow> (string, Worktree) gomap \<Rightarrow> string \<Rightarrow> Worktree list" where
  "children_of rank pm wm p =
     List.map_filter (\<lambda>e. if snd e = p then map_of wm (fst e) else None) (sort_key (\<lambda>e. rank (fst e)) pm)"

lemma children_known: "set (children_of rank pm wm p) \<subseteq> snd ` set wm"
proof
  fix w assume "w \<in> set (children_of rank pm wm p)"
  then obtain k where "map_of wm k = Some w" by (auto simp: children_of_def List.map_filter_def split: if_splits)
  then show "w \<in> snd ` set wm" by (metis map_of_SomeD image_eqI snd_conv)
qed

function order_loop :: "(string \<Rightarrow> string \<Rightarrow> nat) \<Rightarrow> (string, string) gomap \<Rightarrow> (string, Worktree) gomap \<Rightarrow>
    Worktree list \<Rightarrow> string list \<Rightarrow> Worktree list \<Rightarrow> string list \<times> Worktree list" where
  "order_loop rank pm wm [] seen out = (seen, out)"
| "order_loop rank pm wm (w # queue) seen out =
    (if wt_Branch w \<in> set seen then order_loop rank pm wm queue seen out
     else
       let seen' = wt_Branch w # seen in
       order_loop rank pm wm (queue @ filter (\<lambda>c. wt_Branch c \<notin> set seen') (children_of (rank (wt_Branch w)) pm wm (wt_Branch w)))
         seen' (out @ [w]))"
  by pat_completeness auto

termination
proof (relation "measures [\<lambda>(rank, pm, wm, queue, d, out). card (wt_Branch ` (set queue \<union> snd ` set wm) - set d),
    \<lambda>(rank, pm, wm, queue, d, out). length queue]", goal_cases)
  case (2 rank pm wm w queue d out)
  have "wt_Branch ` (set queue \<union> snd ` set wm) - set d = wt_Branch ` (set (w # queue) \<union> snd ` set wm) - set d"
    using 2 by auto
  then show ?case by simp
next
  case (3 rank pm wm w queue d out d')
  let ?kids = "filter (\<lambda>c. wt_Branch c \<notin> set d') (children_of (rank (wt_Branch w)) pm wm (wt_Branch w))"
  let ?old = "wt_Branch ` (set (w # queue) \<union> snd ` set wm) - set d"
  have "wt_Branch ` (set (queue @ ?kids) \<union> snd ` set wm) - set d' \<subseteq> ?old - {wt_Branch w}"
    using children_known [of "rank (wt_Branch w)" pm wm "wt_Branch w"] 3(2) by auto
  moreover have "wt_Branch w \<in> ?old" using 3(1) by simp
  ultimately have "card (wt_Branch ` (set (queue @ ?kids) \<union> snd ` set wm) - set d') < card ?old"
    by (intro psubset_card_mono) auto
  then show ?case by simp
qed simp

definition dependency_order :: "(string \<Rightarrow> string \<Rightarrow> nat) \<Rightarrow> (string, string) gomap \<Rightarrow> (string, Worktree) gomap \<Rightarrow> Worktree list \<Rightarrow> Worktree list" where
  "dependency_order rank pm wm ws =
    (case order_loop rank pm wm (filter (\<lambda>w. \<not> has_parent_here pm wm (wt_Branch w)) ws) [] [] of
       (processed, out) \<Rightarrow> out @ filter (\<lambda>w. wt_Branch w \<notin> set processed) ws)"

fun parent_map :: "Manager \<Rightarrow> Worktree list \<Rightarrow> (string, string) gomap \<Rightarrow> (string, string) gomap wt" where
  "parent_map m [] pm = give pm"
| "parent_map m (w # ws) pm =
    (if wt_IsDetached w then parent_map m ws pm
     else do {
       p \<leftarrow> GetParentBranch m (wt_Branch w) (wt_Path w);
       parent_map m ws (if p \<noteq> [] then mput (wt_Branch w) p pm else pm)
     })"

definition worktree_map :: "Worktree list \<Rightarrow> (string, Worktree) gomap" where
  "worktree_map ws = fold (\<lambda>w. mput (wt_Branch w) w) ws []"

definition buildDependencyOrder :: "Manager \<Rightarrow> Worktree list \<Rightarrow> Worktree list wt" where
  "buildDependencyOrder m ws = do {
     pm \<leftarrow> parent_map m ws [];
     give (dependency_order (ww_range (wm_world m)) pm (worktree_map ws) ws)
   }"

section \<open>Sync\<close>

definition isParentBranchMerged :: "Manager \<Rightarrow> string \<Rightarrow> string \<Rightarrow> bool wt" where
  "isParentBranchMerged m parent ghDir = do {
     pr \<leftarrow> GetPRByBranch m parent ghDir;
     if (case pr of Inr p \<Rightarrow> pi_State p = ''MERGED'' | Inl e \<Rightarrow> False) then give True
     else do { ex \<leftarrow> RemoteBranchExists m parent (BareDir m); give (ex = Inr False) }
   }"

fun fetch_parents :: "Manager \<Rightarrow> string \<Rightarrow> Worktree list \<Rightarrow> string list \<Rightarrow> unit wt_result" where
  "fetch_parents m d [] fetched = give (Inr ())"
| "fetch_parents m d (w # ws) fetched =
    (if wt_IsDetached w then fetch_parents m d ws fetched
     else do {
       p \<leftarrow> GetParentBranch m (wt_Branch w) (wt_Path w);
       if p = [] \<or> p = d \<or> p \<in> set fetched then fetch_parents m d ws fetched
       else do {
         (r, err) \<leftarrow> git_run m [''fetch'', ''origin'', p] (BareDir m);
         case err of
           None \<Rightarrow> fetch_parents m d ws (p # fetched)
         | Some e \<Rightarrow> do {
             ex \<leftarrow> RemoteBranchExists m p (BareDir m);
             if ex = Inr False then fetch_parents m d ws (p # fetched)
             else give (Inl (WrappedError ''failed to fetch parent branch'' (wrapAuthError m e r)))
           }
       }
     })"

definition sync_fetch :: "Manager \<Rightarrow> string \<Rightarrow> bool \<Rightarrow> Worktree list \<Rightarrow> string \<Rightarrow> unit wt_result" where
  "sync_fetch m branch fetchAll ws d =
    (if fetchAll then do {
       (r, err) \<leftarrow> git_run m [''fetch'', ''--all'', ''--prune''] (BareDir m);
       give (case err of None \<Rightarrow> Inr () | Some e \<Rightarrow> Inl (WrappedError ''failed to fetch'' (wrapAuthError m e r)))
     } else do {
       (r, err) \<leftarrow> git_run m [''fetch'', ''origin'', d] (BareDir m);
       case err of
         Some e \<Rightarrow> give (Inl (WrappedError ''failed to fetch'' (wrapAuthError m e r)))
       | None \<Rightarrow> fetch_parents m d
           (if branch \<noteq> [] then (case find (\<lambda>w. wt_Branch w = branch) ws of Some w \<Rightarrow> [w] | None \<Rightarrow> []) else ws) [d]
     })"

definition retarget :: "Manager \<Rightarrow> string \<Rightarrow> string \<Rightarrow> Worktree \<Rightarrow> unit wt" where
  "retarget m d ghDir w = do {
     pr \<leftarrow> GetPRByBranch m (wt_Branch w) ghDir;
     (case pr of
        Inl e \<Rightarrow> give ()
      | Inr p \<Rightarrow> if pi_Number p > 0 then do { ok \<leftarrow> UpdatePRBase m (pi_Number p) d ghDir; give () } else give ());
     err \<leftarrow> SetBranchDescription m (wt_Branch w) (''parent:'' @ d) (wt_Path w);
     give ()
   }"

definition rebase_target :: "Manager \<Rightarrow> string \<Rightarrow> string \<Rightarrow> Worktree \<Rightarrow> string \<Rightarrow> string wt" where
  "rebase_target m d ghDir w parent =
    (if parent = [] \<or> parent = d then give (''origin/'' @ d)
     else do {
       merged \<leftarrow> isParentBranchMerged m parent ghDir;
       if merged then do { retarget m d ghDir w; give (''origin/'' @ d) } else give (''origin/'' @ parent)
     })"

fun sync_loop :: "Manager \<Rightarrow> string \<Rightarrow> string \<Rightarrow> Worktree list \<Rightarrow> string list \<Rightarrow> unit wt" where
  "sync_loop m d ghDir [] failed = give ()"
| "sync_loop m d ghDir (w # ws) failed =
    (if wt_IsDetached w then sync_loop m d ghDir ws failed
     else do {
       parent \<leftarrow> GetParentBranch m (wt_Branch w) (wt_Path w);
       if parent \<noteq> [] \<and> parent \<in> set failed then sync_loop m d ghDir ws (wt_Branch w # failed)
       else do {
         target \<leftarrow> rebase_target m d ghDir w parent;
         err \<leftarrow> git_err m [''rebase'', ''--autostash'', target] (wt_Path w);
         sync_loop m d ghDir ws (if err = None then failed else wt_Branch w # failed)
       }
     })"

definition Sync :: "Manager \<Rightarrow> string \<Rightarrow> bool \<Rightarrow> unit wt_result" where
  "Sync m branch fetchAll = and_then (need_repo m) (\<lambda>_. and_then (CheckGitHubAuth m) (\<lambda>_. and_then (wt_List m) (\<lambda>ws. do {
     d \<leftarrow> GetDefaultBranch m (BareDir m);
     and_then (sync_fetch m branch fetchAll ws d) (\<lambda>_. do {
       let ghDir = (case find (\<lambda>w. \<not> wt_IsDetached w) ws of Some w \<Rightarrow> if wt_Path w = [] then BareDir m else wt_Path w | None \<Rightarrow> BareDir m);
       ordered \<leftarrow> buildDependencyOrder m ws;
       if branch = [] then do { sync_loop m d ghDir ordered []; give (Inr ()) }
       else case find (\<lambda>w. wt_Branch w = branch) ordered of
         None \<Rightarrow> give (Inl (ErrorText ''worktree for branch not found''))
       | Some w \<Rightarrow> do { sync_loop m d ghDir [w] []; give (Inr ()) }
     })
   })))"

section \<open>Merging\<close>

record BranchDependency =
  bd_Branch :: string
  bd_BaseBranch :: string
  bd_WorktreePath :: string
  bd_PRNumber :: int
  bd_HasWorktree :: bool

definition child_dep :: "(string, string) gomap \<Rightarrow> string \<Rightarrow> PRInfo \<Rightarrow> BranchDependency" where
  "child_dep paths parent p =
    \<lparr>bd_Branch = pi_HeadRefName p, bd_BaseBranch = parent,
     bd_WorktreePath = (case map_of paths (pi_HeadRefName p) of Some path \<Rightarrow> path | None \<Rightarrow> []),
     bd_PRNumber = pi_Number p, bd_HasWorktree = (map_of paths (pi_HeadRefName p) \<noteq> None)\<rparr>"

definition findChildBranches :: "Manager \<Rightarrow> string \<Rightarrow> string \<Rightarrow> BranchDependency list wt_result" where
  "findChildBranches m parent dir = and_then (ListOpenPRs m dir) (\<lambda>prs. do {
     l \<leftarrow> wt_List m;
     let paths = fold (\<lambda>w. mput (wt_Branch w) (wt_Path w)) (case l of Inl e \<Rightarrow> [] | Inr ws \<Rightarrow> ws) [];
     give (Inr (map (child_dep paths parent) (filter (\<lambda>p. pi_BaseRefName p = parent) prs)))
   })"

definition update_child_pr :: "Manager \<Rightarrow> string \<Rightarrow> BranchDependency \<Rightarrow> unit wt" where
  "update_child_pr m newBase c =
    (if bd_PRNumber c > 0 then do { ok \<leftarrow> UpdatePRBase m (bd_PRNumber c) newBase (BareDir m); give () } else give ())"

fun handleChildBranches :: "Manager \<Rightarrow> BranchDependency list \<Rightarrow> string \<Rightarrow> string list \<Rightarrow> unit wt" where
  "handleChildBranches m [] newBase failed = give ()"
| "handleChildBranches m (c # cs) newBase failed =
    (if bd_BaseBranch c \<in> set failed then handleChildBranches m cs newBase (bd_Branch c # failed)
     else if \<not> bd_HasWorktree c then do { update_child_pr m newBase c; handleChildBranches m cs newBase failed }
     else do {
       e1 \<leftarrow> git_err m [''fetch'', ''origin''] (bd_WorktreePath c);
       e2 \<leftarrow> git_err m [''rebase'', ''origin/'' @ newBase] (bd_WorktreePath c);
       if e2 \<noteq> None then handleChildBranches m cs newBase (bd_Branch c # failed)
       else do {
         e3 \<leftarrow> git_err m [''push'', ''--force-with-lease''] (bd_WorktreePath c);
         if e3 \<noteq> None then handleChildBranches m cs newBase (bd_Branch c # failed)
         else do {
           e4 \<leftarrow> SetBranchDescription m (bd_Branch c) (''parent:'' @ newBase) (bd_WorktreePath c);
           update_child_pr m newBase c;
           handleChildBranches m cs newBase failed
         }
       }
     })"

definition merge_flag :: "string \<Rightarrow> string list" where
  "merge_flag method =
    (if method = ''squash'' then [''--squash''] else if method = ''rebase'' then [''--rebase'']
     else if method = ''merge'' then [''--merge''] else [])"

definition mergePR :: "Manager \<Rightarrow> string \<Rightarrow> string \<Rightarrow> string \<Rightarrow> int wt_result" where
  "mergePR m branch dir method = do {
     d \<leftarrow> GetDefaultBranch m (BareDir m);
     if branch = d then give (Inl (ErrorText ''cannot merge the default branch''))
     else do {
       pr \<leftarrow> GetPRByBranch m branch dir;
       case pr of
         Inl e \<Rightarrow> give (Inl (WrappedError ''no PR found for branch'' e))
       | Inr p \<Rightarrow> do {
           cs \<leftarrow> findChildBranches m branch dir;
           (r, err) \<leftarrow> gh_run m ([''pr'', ''merge'', Itoa (pi_Number p), ''--delete-branch''] @ merge_flag method) dir;
           case err of
             Some e \<Rightarrow> give (Inl (WrappedError ''failed to merge PR'' (CommandError e)))
           | None \<Rightarrow> do {
               e1 \<leftarrow> git_err m [''fetch'', ''--prune''] (BareDir m);
               handleChildBranches m (case cs of Inl e \<Rightarrow> [] | Inr xs \<Rightarrow> xs) d [];
               give (Inr (pi_Number p))
             }
         }
     }
   }"

definition current_branch :: "Manager \<Rightarrow> (string \<times> string) wt_result" where
  "current_branch m = and_then (current_dir m) (\<lambda>cwd. do {
     cur \<leftarrow> show_current m cwd;
     give (case cur of
         Inl e \<Rightarrow> Inl (WrappedError ''failed to get current branch'' e)
       | Inr b \<Rightarrow> if b = [] then Inl (ErrorText ''not on a branch'') else Inr (cwd, b))
   })"

definition MergePR :: "Manager \<Rightarrow> string \<Rightarrow> bool \<Rightarrow> unit wt_result" where
  "MergePR m method keep = and_then (current_branch m) (\<lambda>(cwd, b). and_then (mergePR m b cwd method) (\<lambda>n. do {
     d \<leftarrow> GetDefaultBranch m (BareDir m);
     (if keep then give () else do { r \<leftarrow> Remove m b True False; give () });
     give (Inr ())
   }))"

definition MergePRForBranch :: "Manager \<Rightarrow> string \<Rightarrow> string \<Rightarrow> int wt_result" where
  "MergePRForBranch m branch method = mergePR m branch (BareDir m) method"

section \<open>Opening a pull request\<close>

record PRResult =
  pres_URL :: string
  pres_Branch :: string
  pres_Base :: string
  pres_Number :: int
  pres_Existed :: bool

definition pr_base :: "Manager \<Rightarrow> string \<Rightarrow> string \<Rightarrow> string \<Rightarrow> string \<Rightarrow> string wt" where
  "pr_base m base branch cwd d =
    (if base \<noteq> [] then give base
     else do { p \<leftarrow> GetParentBranch m branch cwd; give (if p \<noteq> [] then p else d) })"

definition open_pr :: "Manager \<Rightarrow> string \<Rightarrow> string \<Rightarrow> string \<Rightarrow> bool \<Rightarrow> bool \<Rightarrow> string \<Rightarrow> string \<Rightarrow> string \<Rightarrow> PRResult wt_result" where
  "open_pr m title body base draft noPush cwd b d = do {
     base \<leftarrow> pr_base m base b cwd d;
     push \<leftarrow> (if noPush then give (Inr ())
       else do {
         (r, err) \<leftarrow> git_run m [''push'', ''-u'', ''origin'', b] cwd;
         give (case err of None \<Rightarrow> Inr () | Some e \<Rightarrow> Inl (WrappedError ''failed to push branch'' (wrapAuthError m e r)))
       });
     and_then (give push) (\<lambda>_. do {
       pr \<leftarrow> gh_CreatePR m title body base b draft cwd;
       give (case pr of
           Inl e \<Rightarrow> Inl (WrappedError ''failed to create PR'' e)
         | Inr p \<Rightarrow> Inr \<lparr>pres_URL = pi_URL p, pres_Branch = b, pres_Base = base, pres_Number = pi_Number p, pres_Existed = False\<rparr>)
     })
   }"

definition CreatePR :: "Manager \<Rightarrow> string \<Rightarrow> string \<Rightarrow> string \<Rightarrow> bool \<Rightarrow> bool \<Rightarrow> PRResult wt_result" where
  "CreatePR m title body base draft noPush = and_then (current_branch m) (\<lambda>(cwd, b). do {
     d \<leftarrow> GetDefaultBranch m (BareDir m);
     if b = d then give (Inl (ErrorText ''cannot create PR for the default branch''))
     else do {
       pr \<leftarrow> GetPRByBranch m b cwd;
       case pr of
         Inr p \<Rightarrow>
           if pi_Number p > 0 \<and> pi_State p = ''OPEN''
           then give (Inr \<lparr>pres_URL = pi_URL p, pres_Branch = b, pres_Base = pi_BaseRefName p, pres_Number = pi_Number p, pres_Existed = True\<rparr>)
           else open_pr m title body base draft noPush cwd b d
       | Inl e \<Rightarrow> open_pr m title body base draft noPush cwd b d
     }
   })"

end
