(* ===== verification/WtPrune.thy ===== *)
theory WtPrune
  imports WtSync
begin

text \<open>
  Cleaning up (\<open>wt/worktree.go\<close>): \<open>Prune\<close>, the removal of worktrees whose pull request was merged or whose
  lock belongs to a dead process, and \<open>GC\<close>, which also deletes branches that no worktree has.
\<close>

section \<open>Merged pull requests\<close>

definition protectedBranches :: "Manager \<Rightarrow> string list wt" where
  "protectedBranches m = do {
     d \<leftarrow> GetDefaultBranch m (BareDir m);
     give [d, ''main'', ''master'']
   }"

definition prsByHeadRef :: "PRInfo list \<Rightarrow> (string, PRInfo) gomap" where
  "prsByHeadRef prs = fold (\<lambda>p. mput (pi_HeadRefName p) p) prs []"

fun merged_loop :: "Manager \<Rightarrow> bool \<Rightarrow> string list \<Rightarrow> (string, PRInfo) gomap \<Rightarrow> Worktree list \<Rightarrow> string list wt" where
  "merged_loop m dryRun protected merged [] = give []"
| "merged_loop m dryRun protected merged (w # ws) =
    (if wt_IsDetached w \<or> wt_Branch w \<in> set protected \<or> map_of merged (wt_Branch w) = None
     then merged_loop m dryRun protected merged ws
     else do {
       r \<leftarrow> (if dryRun then give (Inr ()) else Remove m (wt_Branch w) True True);
       removed \<leftarrow> merged_loop m dryRun protected merged ws;
       give (case r of Inl e \<Rightarrow> removed | Inr _ \<Rightarrow> wt_Branch w # removed)
     })"

definition pruneMergedPRs :: "Manager \<Rightarrow> bool \<Rightarrow> string list wt_result" where
  "pruneMergedPRs m dryRun = do {
     protected \<leftarrow> protectedBranches m;
     l \<leftarrow> wt_List m;
     case l of
       Inl e \<Rightarrow> give (Inl (WrappedError ''failed to list worktrees'' e))
     | Inr ws \<Rightarrow> do {
         prs \<leftarrow> ListMergedPRs m (BareDir m);
         case prs of
           Inl e \<Rightarrow> give (Inl (WrappedError ''failed to list merged PRs'' e))
         | Inr ps \<Rightarrow> do { removed \<leftarrow> merged_loop m dryRun protected (prsByHeadRef ps) ws; give (Inr removed) }
       }
   }"

record PruneResult =
  pr_StaleWorktrees :: "string list"
  pr_MergedWorktrees :: "string list"

definition Prune :: "Manager \<Rightarrow> bool \<Rightarrow> bool \<Rightarrow> PruneResult wt_result" where
  "Prune m dryRun mergedPRs = and_then (need_repo m) (\<lambda>_. do {
     (r, err) \<leftarrow> git_run m ([''worktree'', ''prune''] @ (if dryRun then [''--dry-run'', ''-v''] else [])) (BareDir m);
     case err of
       Some e \<Rightarrow> give (Inl (CommandError e))
     | None \<Rightarrow> do {
         let stale = (if cmd_Stdout r \<noteq> [] then split_on newline (TrimSpace (cmd_Stdout r)) else []);
         merged \<leftarrow> (if mergedPRs then pruneMergedPRs m dryRun else give (Inr []));
         give (Inr \<lparr>pr_StaleWorktrees = stale, pr_MergedWorktrees = (case merged of Inl e \<Rightarrow> [] | Inr bs \<Rightarrow> bs)\<rparr>)
       }
   })"

section \<open>Stale locks\<close>

text \<open>Why a worktree was kept; the text that is printed is built from it.\<close>

datatype keep_reason = StillOpen int | LookupFailed | ListCapped nat | ListedOnly | RemovalFailed wt_error

record StaleLockInfo =
  sl_Name :: string
  sl_Branch :: string
  sl_Path :: string
  sl_LockReason :: string
  sl_KeepReason :: "keep_reason option"
  sl_LockPID :: int
  sl_PRNumber :: int
  sl_HasOpenPR :: bool
  sl_Removed :: bool

text \<open>
  What is known of open pull requests: whether removal is still on, the reason when the safety rule
  turned it off, and the index by branch.
\<close>

definition open_prs :: "Manager \<Rightarrow> bool \<Rightarrow> (bool \<times> keep_reason option \<times> (string, PRInfo) gomap) wt" where
  "open_prs m remove =
    (if \<not> remove then give (False, None, [])
     else do {
       r \<leftarrow> ListOpenPRs m (BareDir m);
       give (case r of
           Inl e \<Rightarrow> (False, Some LookupFailed, [])
         | Inr ps \<Rightarrow> if PRListTruncated ps then (False, Some (ListCapped (length ps)), prsByHeadRef ps)
             else (True, None, prsByHeadRef ps))
     })"

definition stale_info :: "Worktree \<Rightarrow> PRInfo option \<Rightarrow> StaleLockInfo" where
  "stale_info w pr =
    \<lparr>sl_Name = worktree_name w, sl_Branch = wt_Branch w, sl_Path = wt_Path w, sl_LockReason = wt_LockReason w,
     sl_KeepReason = None, sl_LockPID = wt_LockPID w, sl_PRNumber = (case pr of Some p \<Rightarrow> pi_Number p | None \<Rightarrow> 0),
     sl_HasOpenPR = (pr \<noteq> None), sl_Removed = False\<rparr>"

definition judge_stale :: "Manager \<Rightarrow> bool \<Rightarrow> bool \<Rightarrow> keep_reason option \<Rightarrow> (string, PRInfo) gomap \<Rightarrow> Worktree \<Rightarrow> StaleLockInfo wt" where
  "judge_stale m remove dryRun downgraded openPRs w =
    (let pr = map_of openPRs (wt_Branch w); info = stale_info w pr in
     if pr \<noteq> None then give (info\<lparr>sl_KeepReason := Some (StillOpen (sl_PRNumber info))\<rparr>)
     else if \<not> remove then give (info\<lparr>sl_KeepReason := Some (case downgraded of Some r \<Rightarrow> r | None \<Rightarrow> ListedOnly)\<rparr>)
     else if dryRun then give (info\<lparr>sl_Removed := True\<rparr>)
     else do {
       r \<leftarrow> removeResolved m (wt_Path w) (wt_Branch w) False False True;
       give (case r of Inl e \<Rightarrow> info\<lparr>sl_KeepReason := Some (RemovalFailed e)\<rparr> | Inr _ \<Rightarrow> info\<lparr>sl_Removed := True\<rparr>)
     })"

fun stale_loop :: "Manager \<Rightarrow> bool \<Rightarrow> bool \<Rightarrow> keep_reason option \<Rightarrow> (string, PRInfo) gomap \<Rightarrow> string list \<Rightarrow> Worktree list \<Rightarrow> StaleLockInfo list wt" where
  "stale_loop m remove dryRun downgraded openPRs protected [] = give []"
| "stale_loop m remove dryRun downgraded openPRs protected (w # ws) =
    (if wt_IsDetached w \<or> wt_Branch w \<in> set protected then stale_loop m remove dryRun downgraded openPRs protected ws
     else do {
       stale \<leftarrow> isStaleLock m w;
       if \<not> stale then stale_loop m remove dryRun downgraded openPRs protected ws
       else do {
         info \<leftarrow> judge_stale m remove dryRun downgraded openPRs w;
         infos \<leftarrow> stale_loop m remove dryRun downgraded openPRs protected ws;
         give (info # infos)
       }
     })"

definition pruneStaleLocks :: "Manager \<Rightarrow> bool \<Rightarrow> bool \<Rightarrow> StaleLockInfo list wt_result" where
  "pruneStaleLocks m remove dryRun = do {
     protected \<leftarrow> protectedBranches m;
     l \<leftarrow> wt_List m;
     case l of
       Inl e \<Rightarrow> give (Inl (WrappedError ''failed to list worktrees'' e))
     | Inr ws \<Rightarrow> do {
         (remove, downgraded, openPRs) \<leftarrow> open_prs m remove;
         infos \<leftarrow> stale_loop m remove dryRun downgraded openPRs protected ws;
         give (Inr infos)
       }
   }"

section \<open>Garbage collection\<close>

record GCOptions =
  gc_DryRun :: bool
  gc_DeleteBranches :: bool
  gc_DeleteRemote :: bool
  gc_MergedPRs :: bool
  gc_StaleLocks :: bool

record GCResult =
  gr_PrunedWorktrees :: "string list"
  gr_MergedWorktrees :: "string list"
  gr_OrphanedBranches :: "string list"
  gr_DeletedBranches :: "string list"
  gr_DeletedRemote :: "string list"
  gr_StaleLocked :: "StaleLockInfo list"
  gr_FetchPruned :: bool
  gr_GCRan :: bool

fun delete_each :: "Manager \<Rightarrow> string list \<Rightarrow> string list \<Rightarrow> string list wt" where
  "delete_each m command [] = give []"
| "delete_each m command (b # bs) = do {
     err \<leftarrow> git_err m (command @ [b]) (BareDir m);
     rest \<leftarrow> delete_each m command bs;
     give (if err = None then b # rest else rest)
   }"

definition branch_lines :: "string \<Rightarrow> string list" where
  "branch_lines text = filter (\<lambda>b. b \<noteq> []) (map TrimSpace (split_on newline (TrimSpace text)))"

definition orphaned_branches :: "Manager \<Rightarrow> string list wt_result" where
  "orphaned_branches m = do {
     protected \<leftarrow> protectedBranches m;
     (r, err) \<leftarrow> git_run m [''branch'', ''--list'', ''--format=%(refname:short)''] (BareDir m);
     case err of
       Some e \<Rightarrow> give (Inl (WrappedError ''failed to list branches'' (CommandError e)))
     | None \<Rightarrow> do {
         l \<leftarrow> wt_List m;
         give (case l of
             Inl e \<Rightarrow> Inl (WrappedError ''failed to list worktrees'' e)
           | Inr ws \<Rightarrow> Inr (filter (\<lambda>b. b \<notin> set protected \<and> b \<notin> wt_Branch ` set ws) (branch_lines (cmd_Stdout r))))
       }
   }"

definition GC :: "Manager \<Rightarrow> GCOptions \<Rightarrow> GCResult wt_result" where
  "GC m opts = and_then (need_repo m) (\<lambda>_. do {
     p \<leftarrow> Prune m (gc_DryRun opts) (gc_MergedPRs opts);
     case p of
       Inl e \<Rightarrow> give (Inl (WrappedError ''worktree prune failed'' e))
     | Inr pruned \<Rightarrow> do {
         stale \<leftarrow> pruneStaleLocks m (gc_StaleLocks opts) (gc_DryRun opts);
         fetched \<leftarrow> (if gc_DryRun opts then give False
           else do { err \<leftarrow> git_err m [''fetch'', ''--prune''] (BareDir m); give (err = None) });
         and_then (orphaned_branches m) (\<lambda>orphans. do {
           deleted \<leftarrow> (if gc_DeleteBranches opts \<and> \<not> gc_DryRun opts then delete_each m [''branch'', ''-D''] orphans else give []);
           remote \<leftarrow> (if gc_DeleteBranches opts \<and> gc_DeleteRemote opts \<and> \<not> gc_DryRun opts
             then delete_each m [''push'', ''origin'', ''--delete''] deleted else give []);
           ran \<leftarrow> (if gc_DryRun opts then give False else do { err \<leftarrow> git_err m [''gc''] (BareDir m); give (err = None) });
           give (Inr \<lparr>gr_PrunedWorktrees = pr_StaleWorktrees pruned, gr_MergedWorktrees = pr_MergedWorktrees pruned,
             gr_OrphanedBranches = orphans, gr_DeletedBranches = deleted, gr_DeletedRemote = remote,
             gr_StaleLocked = (case stale of Inl e \<Rightarrow> [] | Inr infos \<Rightarrow> infos), gr_FetchPruned = fetched, gr_GCRan = ran\<rparr>)
         })
       }
   })"

end
