(* ===== verification/WtSample.thy ===== *)
theory WtSample
  imports WtWorld
begin

text \<open>Concrete worlds: a table of what commands print, and the paths that exist.\<close>

definition says :: "string \<Rightarrow> CmdResult \<times> string option" where
  "says out = (\<lparr>cmd_Stdout = out, cmd_Stderr = [], cmd_ExitCode = 0\<rparr>, None)"

definition fails :: "CmdResult \<times> string option" where
  "fails = (\<lparr>cmd_Stdout = [], cmd_Stderr = ''fatal'', cmd_ExitCode = 128\<rparr>, Some ''exit status 128'')"

text \<open>A command that is not in the table fails.\<close>

definition world_of :: "(string list \<times> string) list \<Rightarrow> string list \<Rightarrow> json \<Rightarrow> wt_world" where
  "world_of table paths prs =
    \<lparr>ww_exec = (\<lambda>tr program args dir. case map_of table args of Some out \<Rightarrow> says out | None \<Rightarrow> fails),
     ww_stat = (\<lambda>tr p. if p \<in> set paths then Exists else NotExist), ww_readdir = (\<lambda>tr p. [(''.bare'', True), (''master'', True)]),
     ww_file = (\<lambda>tr p. NoFile), ww_hook = (\<lambda>tr c p b. True), ww_signal = (\<lambda>tr pid. NoProcess), ww_mkdir = (\<lambda>tr p. True),
     ww_getwd = (\<lambda>tr. Some ''/r/repo/a''), ww_json = (\<lambda>s. if s = ''prs'' then Some prs else None), ww_yaml = (\<lambda>s. None),
     ww_lower = (\<lambda>s. s), ww_range = (\<lambda>p b. 0)\<rparr>"

definition manager_of :: "wt_world \<Rightarrow> Manager" where
  "manager_of w = \<lparr>wm_root = ''/r'', wm_repoName = ''repo'', wm_world = w\<rparr>"

definition pr_json :: "string \<Rightarrow> json" where
  "pr_json branch = JObj [(''number'', JNum ''7''), (''headRefName'', JStr branch), (''baseRefName'', JStr ''main'')]"

definition list_args :: "string \<Rightarrow> string \<Rightarrow> string list" where
  "list_args names which = [''pr'', ''list'', ''--json'', names, ''--state'', which, ''--limit'', ''1000'']"

definition open_args :: "string list" where
  "open_args = list_args ''number,headRefName,baseRefName,state,isDraft,reviewDecision,url'' ''open''"

definition merged_args :: "string list" where
  "merged_args = list_args ''number,headRefName,baseRefName,state,url'' ''merged''"

definition head_ref :: "string \<Rightarrow> string list \<times> string" where
  "head_ref b = ([''--no-optional-locks'', ''symbolic-ref'', ''HEAD''], ''refs/heads/'' @ b)"

text \<open>One record of the list of worktrees.\<close>

definition listed_text :: "string \<Rightarrow> string \<Rightarrow> string list \<Rightarrow> string" where
  "listed_text path branch extra =
     concat (map (\<lambda>l. l @ [CHR 0x0A]) ([''worktree '' @ path, ''HEAD 0123456789'', ''branch refs/heads/'' @ branch] @ extra @ [[]]))"

end
