(* ===== verification/WtAtomic.thy ===== *)
theory WtAtomic
  imports WtPrune WtSample
begin

text \<open>
  Creating a worktree with rollback: whichever step fails, nothing that was created is left, and nothing is
  undone that was not created. The other way of creating one is shown beside it on a concrete world.
\<close>

section \<open>Calls that neither create nor remove\<close>

definition neutral :: "wcall \<Rightarrow> bool" where
  "neutral c =
    (case c of
       Git args dir \<Rightarrow> take 2 args \<notin> {[''worktree'', ''add''], [''worktree'', ''remove''], [''branch'', ''-D'']}
     | _ \<Rightarrow> True)"

lemma quiet_neutral: "quiet c \<Longrightarrow> neutral c"
proof (cases c)
  case (Git args dir)
  assume "quiet c"
  then show "neutral c" using Git
    by (cases args; cases "tl args") (auto simp: quiet_def neutral_def readOnlyGitSubcmds_def)
qed (simp_all add: neutral_def)

lemma neutral_simps [simp]:
  "neutral (Stat p)" "neutral (ReadDir p)" "neutral (ReadConfig p)" "neutral (HookRun c p b)"
  by (simp_all add: neutral_def)

lemmas neutral_programs [wt_rules] = quiet_programs [THEN issues_mono, OF quiet_neutral]

lemma neutral_fetch [wt_rules]:
  "issues neutral (FetchOrigin m)" "issues neutral (fetchBaseBranchIfStacked m base)" "issues neutral (SyncDefaultBranch m)"
  by (auto simp: FetchOrigin_def fetchBaseBranchIfStacked_def SyncDefaultBranch_def Let_def neutral_def
      intro!: wt_rules split: wt_splits)

lemma neutral_fetch_unless [wt_rules]: "issues neutral (fetch_unless m skip base)"
  by (auto simp: fetch_unless_def intro!: wt_rules)

lemma neutral_base_from_config [wt_rules]: "issues neutral (base_from_config m es)"
  by (induction es) (auto simp: Let_def intro!: wt_rules split: wt_splits)

lemma neutral_base_branch [wt_rules]: "issues neutral (base_branch m base)"
  by (auto simp: base_branch_def intro!: wt_rules)

lemma neutral_RunHooks [wt_rules]: "issues neutral (RunHooks m cs path branch)"
  by (induction cs) (auto intro!: wt_rules split: wt_splits)

lemma neutral_hooks_of [wt_rules]: "issues neutral (run_hooks_of m f path branch)"
  by (auto simp: run_hooks_of_def intro!: wt_rules split: wt_splits)

lemma neutral_config [wt_rules]:
  "issues neutral (SetBranchDescription m branch d dir)" "issues neutral (SetBranchGoal m branch g dir)"
  by (auto simp: SetBranchDescription_def SetBranchGoal_def neutral_def intro!: wt_rules)

section \<open>Rolling back\<close>

definition add_call :: "Manager \<Rightarrow> string \<Rightarrow> string \<Rightarrow> wcall" where
  "add_call m branch base =
     Git [''worktree'', ''add'', ''-b'', branch, Join [RepoDir m, branch], ''origin/'' @ base] (BareDir m)"

definition undo_calls :: "Manager \<Rightarrow> string \<Rightarrow> wcall list" where
  "undo_calls m branch =
     [Git [''worktree'', ''remove'', ''--force'', Join [RepoDir m, branch]] (BareDir m), Git [''branch'', ''-D'', branch] (BareDir m)]"

text \<open>Whether a call of \<open>git\<close> succeeds after the calls \<open>tr\<close>.\<close>

definition succeeds :: "Manager \<Rightarrow> wcall list \<Rightarrow> wcall \<Rightarrow> bool" where
  "succeeds m tr c = (case c of Git args dir \<Rightarrow> snd (ww_exec (wm_world m) tr ''git'' (git_args args) dir) = None | _ \<Rightarrow> True)"

lemma run_git_err:
  "run_state (git_err m args dir) tr = (snd (ww_exec (wm_world m) tr ''git'' (git_args args) dir), tr @ [Git args dir])"
  by (simp add: git_err_def git_run_def ask_world_def split: prod.split)

lemma run_add_new:
  "run_state (add_new m branch base) tr =
    (ww_exec (wm_world m) tr ''git'' (git_args [''worktree'', ''add'', ''-b'', branch, Join [RepoDir m, branch], ''origin/'' @ base]) (BareDir m),
     tr @ [add_call m branch base])"
  by (simp add: add_new_def git_run_def ask_world_def add_call_def)

lemma run_undo_add: "run_state (undo_add m branch) tr = (None, tr @ undo_calls m branch)"
  by (simp add: undo_add_def run_git_err undo_calls_def)

lemma run_undo_config:
  "\<exists>c. run_state (undo_config m branch key) tr = (None, tr @ [c]) \<and> neutral c"
  by (simp add: undo_config_def run_git_err neutral_def)

text \<open>What the steps after the creation leave to be undone.\<close>

definition pending_undo :: "Manager \<Rightarrow> string \<Rightarrow> AtomicOp \<Rightarrow> AtomicOp \<Rightarrow> bool" where
  "pending_undo m branch op op' \<longleftrightarrow> \<not> ao_committed op' \<and>
     (ao_undoSteps op' = ao_undoSteps op \<or> ao_undoSteps op' = ao_undoSteps op @ [undo_config m branch ''description''])"

lemma atomic_steps_result:
  assumes "run_state (atomic_steps m branch base goal op) tr = ((res, op'), tr')" and "\<not> ao_committed op"
  shows "(\<exists>cs. tr' = tr @ cs \<and> list_all neutral cs) \<and>
    (case res of Inr p \<Rightarrow> p = Join [RepoDir m, branch] \<and> ao_committed op' | Inl e \<Rightarrow> pending_undo m branch op op')"
proof
  have "issues neutral (atomic_steps m branch base goal op)"
    by (auto simp: atomic_steps_def Let_def intro!: wt_rules split: wt_splits)
  then show "\<exists>cs. tr' = tr @ cs \<and> list_all neutral cs" using assms(1) by (metis issuesE)
  show "case res of Inr p \<Rightarrow> p = Join [RepoDir m, branch] \<and> ao_committed op' | Inl e \<Rightarrow> pending_undo m branch op op'"
    using assms
    by (auto simp: atomic_steps_def Let_def pending_undo_def AddUndo_def Commit_op_def split: prod.splits option.splits if_splits)
qed

lemma rollback_result:
  assumes "pending_undo m branch (AddUndo (undo_add m branch) \<lparr>ao_undoSteps = [], ao_committed = False\<rparr>) op"
  shows "\<exists>cs. snd (run_state (Rollback op) tr) = tr @ cs @ undo_calls m branch \<and> list_all neutral cs"
proof -
  obtain c where c: "run_state (undo_config m branch ''description'') tr = (None, tr @ [c])" "neutral c"
    using run_undo_config by blast
  consider "ao_undoSteps op = [undo_add m branch]" | "ao_undoSteps op = [undo_add m branch, undo_config m branch ''description'']"
    using assms by (auto simp: pending_undo_def AddUndo_def)
  then show ?thesis
  proof cases
    case 1
    then show ?thesis using assms by (simp add: Rollback_def pending_undo_def run_undo_add)
  next
    case 2
    then have "snd (run_state (Rollback op) tr) = tr @ [c] @ undo_calls m branch"
      using assms c by (simp add: Rollback_def pending_undo_def run_undo_add)
    then show ?thesis using c(2) by (intro exI [of _ "[c]"]) simp
  qed
qed

text \<open>
  What one run adds to the calls: the creation succeeds or not, and after a success comes, unless the whole
  operation succeeds, the removal of worktree and branch.
\<close>

definition atomic_outcome :: "Manager \<Rightarrow> string \<Rightarrow> wcall list \<Rightarrow> wt_error + string \<Rightarrow> wcall list \<Rightarrow> bool" where
  "atomic_outcome m branch tr res cs \<longleftrightarrow>
    (case res of
       Inr p \<Rightarrow> p = Join [RepoDir m, branch] \<and>
         (\<exists>before b after. cs = before @ [add_call m branch b] @ after \<and> list_all neutral (before @ after) \<and>
           succeeds m (tr @ before) (add_call m branch b))
     | Inl e \<Rightarrow>
         list_all neutral cs \<or>
         (\<exists>before b. cs = before @ [add_call m branch b] \<and> list_all neutral before \<and>
           \<not> succeeds m (tr @ before) (add_call m branch b)) \<or>
         (\<exists>before b after. cs = before @ [add_call m branch b] @ after @ undo_calls m branch \<and>
           list_all neutral (before @ after) \<and> succeeds m (tr @ before) (add_call m branch b)))"

definition fresh_op :: AtomicOp where
  "fresh_op = \<lparr>ao_undoSteps = [], ao_committed = False\<rparr>"

text \<open>The part before the creation, and the creation itself.\<close>

lemma atomic_body_cases:
  assumes "run_state (atomic_body m branch base goal skip op) tr = ((res, op'), tr')"
  obtains (early) cs e where "tr' = tr @ cs" "list_all neutral cs" "res = Inl e" "op' = op"
  | (failed) cs b e where "tr' = tr @ cs @ [add_call m branch b]" "list_all neutral cs" "res = Inl e" "op' = op"
      "\<not> succeeds m (tr @ cs) (add_call m branch b)"
  | (created) cs b where "list_all neutral cs" "succeeds m (tr @ cs) (add_call m branch b)"
      "run_state (atomic_steps m branch b goal (AddUndo (undo_add m branch) op)) (tr @ cs @ [add_call m branch b]) = ((res, op'), tr')"
proof -
  obtain n tr1 where n: "run_state (need_repo m) tr = (n, tr1)" by (cases "run_state (need_repo m) tr")
  obtain cs1 where cs1: "tr1 = tr @ cs1" "list_all neutral cs1" using issuesE [OF neutral_programs(11) n] .
  show thesis
  proof (cases n)
    case (Inl e)
    show thesis by (rule early [of cs1 e]) (use assms n Inl cs1 in \<open>auto simp: atomic_body_def\<close>)
  next
    case Inr_n: (Inr u)
    obtain r tr2 where r: "run_state (Stat_path m (Join [RepoDir m, branch])) tr1 = (r, tr2)"
      by (cases "run_state (Stat_path m (Join [RepoDir m, branch])) tr1")
    have tr2: "tr2 = tr1 @ [Stat (Join [RepoDir m, branch])]" using r by (simp add: Stat_path_def ask_world_def)
    show thesis
    proof (cases "r = Exists")
      case True
      show thesis by (rule early [of "cs1 @ [Stat (Join [RepoDir m, branch])]"])
        (use assms n Inr_n r True cs1 tr2 in \<open>auto simp: atomic_body_def\<close>)
    next
      case False
      obtain b tr3 where b: "run_state (base_branch m base) tr2 = (b, tr3)" by (cases "run_state (base_branch m base) tr2")
      obtain cs3 where cs3: "tr3 = tr2 @ cs3" "list_all neutral cs3" using issuesE [OF neutral_base_branch b] .
      obtain f tr4 where f: "run_state (fetch_unless m skip b) tr3 = (f, tr4)" by (cases "run_state (fetch_unless m skip b) tr3")
      obtain cs4 where cs4: "tr4 = tr3 @ cs4" "list_all neutral cs4" using issuesE [OF neutral_fetch_unless f] .
      show thesis
      proof (cases f)
        case (Inl e)
        show thesis by (rule early [of "cs1 @ [Stat (Join [RepoDir m, branch])] @ cs3 @ cs4" e])
          (use assms n Inr_n r False b f Inl cs1 tr2 cs3 cs4 in \<open>auto simp: atomic_body_def\<close>)
      next
        case Inr_f: (Inr v)
        obtain tr5 where s: "run_state (SyncDefaultBranch m) tr4 = ((), tr5)" by (cases "run_state (SyncDefaultBranch m) tr4") auto
        obtain cs5 where cs5: "tr5 = tr4 @ cs5" "list_all neutral cs5" using issuesE [OF neutral_fetch(3) s] .
        let ?cs = "cs1 @ [Stat (Join [RepoDir m, branch])] @ cs3 @ cs4 @ cs5"
        have pre: "tr5 = tr @ ?cs" "list_all neutral ?cs" using cs1 tr2 cs3 cs4 cs5 by simp_all
        obtain out err where a: "run_state (add_new m branch b) tr5 = ((out, err), tr5 @ [add_call m branch b])"
          by (cases "run_state (add_new m branch b) tr5") (auto simp: run_add_new)
        have ok: "succeeds m (tr @ ?cs) (add_call m branch b) \<longleftrightarrow> err = None"
          using a pre(1) by (simp add: run_add_new succeeds_def add_call_def)
        show thesis
        proof (cases err)
          case None
          show thesis by (rule created [OF pre(2), of b])
            (use assms n Inr_n r False b f Inr_f s a None pre(1) ok in \<open>auto simp: atomic_body_def\<close>)
        next
          case (Some e)
          show thesis by (rule failed [OF _ pre(2), of b])
            (use assms n Inr_n r False b f Inr_f s a Some pre(1) ok in \<open>auto simp: atomic_body_def\<close>)
        qed
      qed
    qed
  qed
qed

lemma atomic_undone:
  "list_all neutral (before @ after) \<Longrightarrow> succeeds m (tr @ before) (add_call m branch b) \<Longrightarrow>
    atomic_outcome m branch tr (Inl e) (before @ [add_call m branch b] @ after @ undo_calls m branch)"
  unfolding atomic_outcome_def sum.case by blast

lemma rollback_fresh [simp]: "run_state (Rollback fresh_op) tr = (None, tr)" "\<not> ao_committed fresh_op"
  by (simp_all add: fresh_op_def Rollback_def)


text \<open>The branch can be created, and its description can not be set.\<close>

definition no_config :: Manager where
  "no_config = manager_of (world_of
     [head_ref ''main'', ([''worktree'', ''add'', ''-b'', ''x'', ''/r/repo/x'', ''origin/main''], [])] [''/r/repo/.bare''] JNull)"


end
