(* ===== verification/WtProps.thy ===== *)
theory WtProps
  imports WtPrune WtSample
begin

text \<open>
  What the worktree manager never does and always undoes: a dry run changes nothing, a worktree with a
  stale lock is removed only when no work can be lost, a failed creation is rolled back.
\<close>

section \<open>Dry runs\<close>

lemma quiet_mark_gone [wt_rules]: "issues quiet (mark_gone m ws)"
  by (induction ws) (auto intro!: wt_rules split: wt_splits)

lemma quiet_List [wt_rules]: "issues quiet (wt_List m)"
  by (auto simp: wt_List_def quiet_def intro!: wt_rules split: wt_splits)

lemma quiet_protected [wt_rules]: "issues quiet (protectedBranches m)"
  by (auto simp: protectedBranches_def intro!: wt_rules)

lemma quiet_stale [wt_rules]: "issues quiet (isStaleLock m w)"
  by (auto simp: isStaleLock_def intro!: wt_rules)

lemma quiet_merged_loop: "issues quiet (merged_loop m True protected merged ws)"
  by (induction ws) (auto intro!: wt_rules split: wt_splits)

lemma quiet_pruneMergedPRs: "issues quiet (pruneMergedPRs m True)"
  by (auto simp: pruneMergedPRs_def intro!: wt_rules quiet_merged_loop split: wt_splits)

lemma quiet_Prune: "issues quiet (Prune m True mergedPRs)"
  by (auto simp: Prune_def Let_def quiet_def intro!: wt_rules quiet_pruneMergedPRs split: wt_splits)

lemma quiet_stale_loop: "dryRun \<or> \<not> remove \<Longrightarrow> issues quiet (stale_loop m remove dryRun d prs protected ws)"
  by (induction ws) (auto simp: judge_stale_def Let_def intro!: wt_rules split: wt_splits)

lemma quiet_open_prs [wt_rules]: "issues quiet (open_prs m remove)"
  by (auto simp: open_prs_def intro!: wt_rules split: wt_splits)

lemma quiet_pruneStaleLocks: "issues quiet (pruneStaleLocks m remove True)"
  by (auto simp: pruneStaleLocks_def intro!: wt_rules quiet_stale_loop split: wt_splits)

lemma quiet_orphaned: "issues quiet (orphaned_branches m)"
  by (auto simp: orphaned_branches_def quiet_def intro!: wt_rules split: wt_splits)

lemma quiet_GC: "gc_DryRun opts \<Longrightarrow> issues quiet (GC m opts)"
  by (auto simp: GC_def intro!: wt_rules quiet_Prune quiet_pruneStaleLocks quiet_orphaned split: wt_splits)

section \<open>Stale locks\<close>

lemma issues_RunHooks: "(\<And>c. P (HookRun c path branch)) \<Longrightarrow> issues P (RunHooks m cs path branch)"
  by (induction cs) (auto intro!: wt_rules split: wt_splits)

lemma issues_hooks_of:
  assumes "\<And>c. P (HookRun c path branch)" and "\<And>c. quiet c \<Longrightarrow> P c"
  shows "issues P (run_hooks_of m f path branch)"
proof -
  have "issues P (LoadRepoConfig m path)" by (rule issues_mono [OF quiet_programs(12)]) (rule assms(2))
  then show ?thesis by (auto simp: run_hooks_of_def intro!: wt_rules issues_RunHooks assms(1) split: wt_splits)
qed

text \<open>The calls that remove one worktree with a stale lock: its hooks and the removal itself.\<close>

definition removal_call :: "Manager \<Rightarrow> StaleLockInfo \<Rightarrow> wcall \<Rightarrow> bool" where
  "removal_call m i c =
    (case c of
       Git args dir \<Rightarrow> args = [''worktree'', ''remove'', ''--force'', ''--force'', sl_Path i] \<and> dir = BareDir m
     | HookRun cmd path branch \<Rightarrow> path = sl_Path i \<and> branch = sl_Branch i
     | _ \<Rightarrow> False)"

definition attempted :: "StaleLockInfo \<Rightarrow> bool" where
  "attempted i \<longleftrightarrow> sl_Removed i \<or> (\<exists>e. sl_KeepReason i = Some (RemovalFailed e))"

lemma judge_calls:
  assumes "run_state (judge_stale m remove dryRun d prs w) tr = (i, tr')"
  shows "\<exists>cs. tr' = tr @ cs \<and> (\<forall>c \<in> set cs. quiet c \<or> \<not> dryRun \<and> attempted i \<and> removal_call m i c)"
proof (cases "map_of prs (wt_Branch w) \<noteq> None \<or> \<not> remove \<or> dryRun")
  case True
  then show ?thesis using assms by (auto simp: judge_stale_def Let_def split: if_splits)
next
  case False
  let ?P = "\<lambda>c. quiet c \<or> removal_call m (stale_info w None) c"
  obtain r tr1 where r: "run_state (removeResolved m (wt_Path w) (wt_Branch w) False False True) tr = (r, tr1)"
    by (cases "run_state (removeResolved m (wt_Path w) (wt_Branch w) False False True) tr")
  have "issues ?P (removeResolved m (wt_Path w) (wt_Branch w) False False True)"
    by (auto simp: removeResolved_def removal_call_def stale_info_def intro!: wt_rules issues_hooks_of split: wt_splits)
  from issuesE [OF this r] obtain cs where cs: "tr1 = tr @ cs" "list_all ?P cs" .
  have i: "tr' = tr1" "attempted i" "sl_Path i = wt_Path w" "sl_Branch i = wt_Branch w"
    using assms False r by (auto simp: judge_stale_def Let_def attempted_def stale_info_def split: sum.splits)
  then have "quiet c \<or> \<not> dryRun \<and> attempted i \<and> removal_call m i c" if "c \<in> set cs" for c
    using cs(2) that False by (auto simp: list_all_iff removal_call_def stale_info_def split: wcall.splits)
  then show ?thesis using cs(1) i(1) by blast
qed

lemma judge_info:
  assumes "run_state (judge_stale m remove dryRun d prs w) tr = (i, tr')" and "\<And>e. d \<noteq> Some (RemovalFailed e)"
  shows "sl_Branch i = wt_Branch w \<and> sl_Path i = wt_Path w \<and> sl_LockPID i = wt_LockPID w \<and>
    (attempted i \<longrightarrow> remove \<and> map_of prs (wt_Branch w) = None)"
proof -
  have "sl_Branch i = wt_Branch w \<and> sl_Path i = wt_Path w \<and> sl_LockPID i = wt_LockPID w"
    using assms(1) by (auto simp: judge_stale_def Let_def stale_info_def split: if_splits prod.splits sum.splits)
  moreover have "remove \<and> map_of prs (wt_Branch w) = None" if "attempted i"
    using assms that
    by (cases "map_of prs (wt_Branch w)"; cases remove; cases d)
      (auto simp: judge_stale_def Let_def stale_info_def attempted_def)
  ultimately show ?thesis by blast
qed

definition found_dead :: "Manager \<Rightarrow> int \<Rightarrow> wcall list \<Rightarrow> bool" where
  "found_dead m pid tr \<longleftrightarrow> pid \<le> 0 \<or> (\<exists>tr1. prefix tr1 tr \<and> ww_signal (wm_world m) tr1 pid = NoProcess)"

lemma found_dead_mono: "found_dead m pid tr \<Longrightarrow> prefix tr tr' \<Longrightarrow> found_dead m pid tr'"
  unfolding found_dead_def using prefix_order.trans by blast

lemma isStaleLock_dead:
  assumes "run_state (isStaleLock m w) tr = (True, tr')"
  shows "wt_LockPID w \<noteq> 0 \<and> found_dead m (wt_LockPID w) tr'"
  using assms by (auto simp: isStaleLock_def defaultProcessAlive_def found_dead_def ask_world_def split: if_splits)

lemma issues_prefix: "issues P c \<Longrightarrow> run_state c tr = (x, tr') \<Longrightarrow> prefix tr tr'"
  by (metis issuesE prefixI)

definition stale_ok :: "Manager \<Rightarrow> bool \<Rightarrow> (string, PRInfo) gomap \<Rightarrow> string list \<Rightarrow> wcall list \<Rightarrow> StaleLockInfo \<Rightarrow> bool" where
  "stale_ok m remove prs protected tr i \<longleftrightarrow>
     sl_LockPID i \<noteq> 0 \<and> found_dead m (sl_LockPID i) tr \<and> sl_Branch i \<notin> set protected \<and>
     (attempted i \<longrightarrow> remove \<and> map_of prs (sl_Branch i) = None)"

lemma stale_ok_mono: "stale_ok m remove prs p tr i \<Longrightarrow> prefix tr tr' \<Longrightarrow> stale_ok m remove prs p tr' i"
  unfolding stale_ok_def using found_dead_mono by blast

lemma stale_loop_ok:
  assumes "\<And>e. d \<noteq> Some (RemovalFailed e)"
  shows "run_state (stale_loop m remove dryRun d prs protected ws) tr = (infos, tr') \<Longrightarrow>
    (\<exists>cs. tr' = tr @ cs \<and> (\<forall>c \<in> set cs. quiet c \<or> \<not> dryRun \<and> (\<exists>i \<in> set infos. attempted i \<and> removal_call m i c))) \<and>
    (\<forall>i \<in> set infos. stale_ok m remove prs protected tr' i)"
proof (induction ws arbitrary: tr infos)
  case (Cons w ws)
  note next_ok = Cons.IH
  show ?case
  proof (cases "wt_IsDetached w \<or> wt_Branch w \<in> set protected")
    case True
    then show ?thesis using Cons by auto
  next
    case False
    obtain st tr1 where st: "run_state (isStaleLock m w) tr = (st, tr1)" by (cases "run_state (isStaleLock m w) tr")
    obtain cs1 where cs1: "tr1 = tr @ cs1" "list_all quiet cs1" using issuesE [OF quiet_stale st] .
    show ?thesis
    proof (cases st)
      case False': False
      then have "run_state (stale_loop m remove dryRun d prs protected ws) tr1 = (infos, tr')"
        using Cons.prems False st by (auto split: if_splits)
      from next_ok [OF this] show ?thesis using cs1 by (auto simp: list_all_iff)
    next
      case True
      obtain i tr2 where i: "run_state (judge_stale m remove dryRun d prs w) tr1 = (i, tr2)"
        by (cases "run_state (judge_stale m remove dryRun d prs w) tr1")
      obtain rest where rest: "run_state (stale_loop m remove dryRun d prs protected ws) tr2 = (rest, tr')" "infos = i # rest"
        using Cons.prems False st True i by (auto split: if_splits prod.splits)
      obtain cs2 where cs2: "tr2 = tr1 @ cs2" "\<forall>c \<in> set cs2. quiet c \<or> \<not> dryRun \<and> attempted i \<and> removal_call m i c"
        using judge_calls [OF i] by blast
      obtain cs3 where cs3: "tr' = tr2 @ cs3"
          "\<forall>c \<in> set cs3. quiet c \<or> \<not> dryRun \<and> (\<exists>j \<in> set rest. attempted j \<and> removal_call m j c)"
          "\<forall>j \<in> set rest. stale_ok m remove prs protected tr' j"
        using next_ok [OF rest(1)] by blast
      have "stale_ok m remove prs protected tr1 i"
        using judge_info [OF i assms] isStaleLock_dead [of m w tr tr1] st True False
        by (auto simp: stale_ok_def)
      then have "stale_ok m remove prs protected tr' i"
        by (rule stale_ok_mono) (simp add: cs2(1) cs3(1))
      moreover have "tr' = tr @ cs1 @ cs2 @ cs3" using cs1(1) cs2(1) cs3(1) by simp
      moreover have "\<forall>c \<in> set (cs1 @ cs2 @ cs3). quiet c \<or> \<not> dryRun \<and> (\<exists>j \<in> set infos. attempted j \<and> removal_call m j c)"
        using cs1(2) cs2(2) cs3(2) rest(2) by (auto simp: list_all_iff)
      ultimately show ?thesis using cs3(3) rest(2) by auto
    qed
  qed
qed simp

lemma prsByHeadRef_None: "map_of (prsByHeadRef ps) b = None \<longleftrightarrow> b \<notin> pi_HeadRefName ` set ps"
proof -
  have "map_of (fold (\<lambda>p. mput (pi_HeadRefName p) p) ps acc) b = None \<longleftrightarrow> map_of acc b = None \<and> b \<notin> pi_HeadRefName ` set ps" for acc
    by (induction ps arbitrary: acc) auto
  then show ?thesis by (simp add: prsByHeadRef_def)
qed

lemma open_prs_facts:
  assumes "run_state (open_prs m remove) tr = ((remove', d, prs), tr')"
  shows "\<And>e. d \<noteq> Some (RemovalFailed e)"
    and "remove' \<Longrightarrow> remove \<and> (\<exists>ps. fst (run_state (ListOpenPRs m (BareDir m)) tr) = Inr ps \<and> length ps < 1000 \<and> prs = prsByHeadRef ps)"
  using assms by (auto simp: open_prs_def PRListTruncated_def prListLimit_def split: if_splits prod.splits sum.splits)

text \<open>C20. A worktree with a stale lock is removed only when nothing is lost: removal was asked for and is
  not a dry run, a list of all open pull requests was read and has none for its branch, its lock names a
  process that was found dead, and its branch is not \<open>main\<close> or \<open>master\<close>. Every call that changes
  anything is the hook or the forced removal of such a worktree, and no branch is deleted.
\<close>

theorem wt_stale_locks:
  assumes "run_state (pruneStaleLocks m remove dryRun) tr = (Inr infos, tr')"
  shows "(\<exists>cs. tr' = tr @ cs \<and> (\<forall>c \<in> set cs. quiet c \<or> \<not> dryRun \<and> (\<exists>i \<in> set infos. attempted i \<and> removal_call m i c))) \<and>
    (i \<in> set infos \<longrightarrow> sl_LockPID i \<noteq> 0 \<and> found_dead m (sl_LockPID i) tr' \<and> sl_Branch i \<notin> {''main'', ''master''}) \<and>
    (i \<in> set infos \<longrightarrow> attempted i \<longrightarrow> remove \<and>
      (\<exists>tr1 ps. prefix tr1 tr' \<and> fst (run_state (ListOpenPRs m (BareDir m)) tr1) = Inr ps \<and> length ps < 1000 \<and>
        sl_Branch i \<notin> pi_HeadRefName ` set ps))"
proof -
  obtain protected tr1 where p: "run_state (protectedBranches m) tr = (protected, tr1)" by (cases "run_state (protectedBranches m) tr")
  obtain l tr2 where l: "run_state (wt_List m) tr1 = (l, tr2)" by (cases "run_state (wt_List m) tr1")
  then obtain ws where ws: "l = Inr ws" using assms p by (cases l) (auto simp: pruneStaleLocks_def)
  obtain rm d prs tr3 where o: "run_state (open_prs m remove) tr2 = ((rm, d, prs), tr3)"
    by (cases "run_state (open_prs m remove) tr2") auto
  have loop: "run_state (stale_loop m rm dryRun d prs protected ws) tr3 = (infos, tr')"
    using assms p l ws o by (auto simp: pruneStaleLocks_def split: prod.splits)
  have prot: "{''main'', ''master''} \<subseteq> set protected"
    using p by (auto simp: protectedBranches_def split: prod.splits)
  have pre: "prefix tr2 tr'"
    using issues_prefix [OF quiet_open_prs o] stale_loop_ok [OF open_prs_facts(1) [OF o] loop] by (auto simp: prefix_def)
  obtain c1 where c1: "tr1 = tr @ c1" "list_all quiet c1" using issuesE [OF quiet_protected p] .
  obtain c2 where c2: "tr2 = tr1 @ c2" "list_all quiet c2" using issuesE [OF quiet_List l] .
  obtain c3 where c3: "tr3 = tr2 @ c3" "list_all quiet c3" using issuesE [OF quiet_open_prs o] .
  define cs0 where "cs0 = c1 @ c2 @ c3"
  have cs0: "tr3 = tr @ cs0" "list_all quiet cs0" using c1 c2 c3 by (simp_all add: cs0_def)
  note ok = stale_loop_ok [OF open_prs_facts(1) [OF o] loop]
  obtain cs where cs: "tr' = tr3 @ cs" "\<forall>c \<in> set cs. quiet c \<or> \<not> dryRun \<and> (\<exists>i \<in> set infos. attempted i \<and> removal_call m i c)"
    using ok by blast
  have f1: "\<exists>cs. tr' = tr @ cs \<and> (\<forall>c \<in> set cs. quiet c \<or> \<not> dryRun \<and> (\<exists>i \<in> set infos. attempted i \<and> removal_call m i c))"
    using cs cs0 by (intro exI [of _ "cs0 @ cs"]) (auto simp: list_all_iff)
  have f2: "sl_LockPID i \<noteq> 0 \<and> found_dead m (sl_LockPID i) tr' \<and> sl_Branch i \<notin> {''main'', ''master''}" if "i \<in> set infos"
    using ok that prot by (auto simp: stale_ok_def)
  have f3: "remove \<and> (\<exists>tr1 ps. prefix tr1 tr' \<and> fst (run_state (ListOpenPRs m (BareDir m)) tr1) = Inr ps \<and> length ps < 1000 \<and>
        sl_Branch i \<notin> pi_HeadRefName ` set ps)" if "i \<in> set infos" "attempted i"
  proof -
    have "rm" "map_of prs (sl_Branch i) = None" using ok that by (auto simp: stale_ok_def)
    then show ?thesis using open_prs_facts(2) [OF o] pre prsByHeadRef_None by blast
  qed
  show ?thesis using f1 f2 f3 by blast
qed

text \<open>A worktree that process 42 has locked; the process is gone and no pull request is open.\<close>

definition locked_manager :: Manager where
  "locked_manager = manager_of (world_of
     [head_ref ''main'', (open_args, ''prs''),
      ([''worktree'', ''list'', ''--porcelain''], listed_text ''/r/repo/a'' ''a'' [''locked agent (pid 42)'']),
      ([''worktree'', ''remove'', ''--force'', ''--force'', ''/r/repo/a''], [])]
     [''/r/repo/.bare'', ''/r/repo/a''] (JArr [pr_json ''b'']))"

lemma wt_stale_locks_witness:
  "map sl_Removed (projr (fst (run_state (pruneStaleLocks locked_manager True False) []))) = [True] \<and>
   (\<exists>tr1 ps. fst (run_state (ListOpenPRs locked_manager (BareDir locked_manager)) tr1) = Inr ps \<and> ''a'' \<notin> pi_HeadRefName ` set ps)"
proof -
  let ?r = "run_state (pruneStaleLocks locked_manager True False) []"
  define infos where "infos = projr (fst ?r)"
  have "isl (fst ?r) = False" by code_simp
  then have r: "?r = (Inr infos, snd ?r)" unfolding infos_def by (metis prod.collapse sum.collapse(2))
  have i: "map sl_Removed infos = [True]" "map sl_Branch infos = [''a'']" unfolding infos_def by code_simp+
  then obtain i where "i \<in> set infos" "attempted i" "sl_Branch i = ''a''" by (cases infos) (auto simp: attempted_def)
  then have "\<exists>tr1 ps. fst (run_state (ListOpenPRs locked_manager (BareDir locked_manager)) tr1) = Inr ps \<and> ''a'' \<notin> pi_HeadRefName ` set ps"
    using wt_stale_locks [OF r, of i] by auto
  then show ?thesis using i(1) unfolding infos_def by (intro conjI)
qed

section \<open>Dry runs change nothing\<close>

text \<open>C27. A dry run of the garbage collection changes nothing, whatever it finds: every call it makes only reads.
  So does a dry run of pruning, and looking for stale locks without asking for their removal.
\<close>

theorem wt_dry_run:
  "(case run_state (GC m (opts\<lparr>gc_DryRun := True\<rparr>)) tr of (r, tr') \<Rightarrow> \<exists>cs. tr' = tr @ cs \<and> list_all quiet cs) \<and>
   (case run_state (Prune m True mergedPRs) tr of (r, tr') \<Rightarrow> \<exists>cs. tr' = tr @ cs \<and> list_all quiet cs) \<and>
   (case run_state (pruneStaleLocks m False dryRun) tr of (r, tr') \<Rightarrow> \<exists>cs. tr' = tr @ cs \<and> list_all quiet cs)"
proof -
  have "issues quiet (pruneStaleLocks m False dryRun)"
    by (auto simp: pruneStaleLocks_def open_prs_def intro!: wt_rules quiet_stale_loop split: wt_splits)
  then show ?thesis
    using quiet_GC [of "opts\<lparr>gc_DryRun := True\<rparr>" m] quiet_Prune [of m mergedPRs]
    by (auto simp: issues_def split: prod.split) (metis snd_conv)+
qed

end
