(* ===== verification/WtRuns.thy ===== *)
theory WtRuns
  imports WtAtomic WtProps
begin

text \<open>
  Which branch a removal deletes, and concrete runs of \<open>wt\<close> in which the code does something else than its
  comments say.
\<close>

section \<open>Removing\<close>

definition deletes :: "string \<Rightarrow> wcall \<Rightarrow> bool" where
  "deletes b c =
    (case c of Git args dir \<Rightarrow> args = [''branch'', ''-D'', b] \<or> args = [''push'', ''origin'', ''--delete'', b] | _ \<Rightarrow> False)"

lemma deletes_not_quiet: "quiet c \<Longrightarrow> \<not> deletes b c"
  by (auto simp: quiet_def deletes_def readOnlyGitSubcmds_def split: wcall.splits)

lemma removeResolved_deletes: "issues (\<lambda>c. \<forall>b. deletes b c \<longrightarrow> b = branch) (removeResolved m path branch db force fl)"
proof -
  have "issues (\<lambda>c. \<forall>b. deletes b c \<longrightarrow> b = branch) (run_hooks_of m WorktreeDeleteCommands path branch)"
    by (rule issues_hooks_of) (auto simp: deletes_def dest: deletes_not_quiet)
  then show ?thesis
    by (auto simp: removeResolved_def deletes_def intro!: wt_rules split: wt_splits)
qed

text \<open>The branch a directory is on, asked after the calls \<open>tr\<close>.\<close>

definition is_on :: "Manager \<Rightarrow> wcall list \<Rightarrow> string \<Rightarrow> string \<Rightarrow> bool" where
  "is_on m tr path b \<longleftrightarrow> fst (run_state (show_current m path) tr) = Inr b"

lemma remove_deletes:
  assumes "run_state (Remove m name db force) tr = (r, tr')"
  shows "\<exists>cs. tr' = tr @ cs \<and>
    (\<forall>c b. c \<in> set cs \<longrightarrow> deletes b c \<longrightarrow> b = name \<or>
      ww_stat (wm_world m) tr (Join [RepoDir m, name]) \<noteq> NotExist \<and> is_on m (tr @ [Stat (Join [RepoDir m, name])]) (Join [RepoDir m, name]) b)"
proof -
  let ?p = "Join [RepoDir m, name]" let ?tr1 = "tr @ [Stat ?p]"
  have st: "run_state (Stat_path m ?p) tr = (ww_stat (wm_world m) tr ?p, ?tr1)" by (simp add: Stat_path_def ask_world_def)
  have none: "\<not> deletes b (Stat ?p)" for b by (simp add: deletes_def)
  show ?thesis
  proof (cases "ww_stat (wm_world m) tr ?p = NotExist")
    case True
    obtain l tr2 where l: "run_state (wt_List m) ?tr1 = (l, tr2)" by (cases "run_state (wt_List m) ?tr1")
    obtain cs2 where cs2: "tr2 = ?tr1 @ cs2" "list_all quiet cs2" using issuesE [OF quiet_List l] .
    show ?thesis
    proof (cases "\<exists>ws w. l = Inr ws \<and> find (\<lambda>w. wt_Branch w = name) ws = Some w")
      case False
      then have "tr' = tr2" using assms True st l by (auto simp: Remove_def Let_def split: sum.splits option.splits)
      then show ?thesis using cs2 none by (auto simp: list_all_iff dest: deletes_not_quiet)
    next
      case True': True
      then obtain ws w where w: "l = Inr ws" "find (\<lambda>w. wt_Branch w = name) ws = Some w" by blast
      then have "wt_Branch w = name" by (auto simp: find_Some_iff)
      then have "run_state (removeResolved m (wt_Path w) name db force False) tr2 = (r, tr')"
        using assms True st l w by (simp add: Remove_def Let_def)
      from issuesE [OF removeResolved_deletes this] obtain cs3 where
        "tr' = tr2 @ cs3" "list_all (\<lambda>c. \<forall>b. deletes b c \<longrightarrow> b = name) cs3" .
      then show ?thesis using cs2 none by (auto simp: list_all_iff dest: deletes_not_quiet)
    qed
  next
    case False
    obtain cur tr2 where cur: "run_state (show_current m ?p) ?tr1 = (cur, tr2)" by (cases "run_state (show_current m ?p) ?tr1")
    obtain cs2 where cs2: "tr2 = ?tr1 @ cs2" "list_all quiet cs2" using issuesE [OF quiet_programs(5) cur] .
    let ?b = "case cur of Inr (c # b) \<Rightarrow> c # b | _ \<Rightarrow> name"
    have "run_state (removeResolved m ?p ?b db force False) tr2 = (r, tr')"
      using assms False st cur by (simp add: Remove_def Let_def)
    from issuesE [OF removeResolved_deletes this] obtain cs3 where
      cs3: "tr' = tr2 @ cs3" "list_all (\<lambda>c. \<forall>b. deletes b c \<longrightarrow> b = ?b) cs3" .
    have "?b = name \<or> is_on m ?tr1 ?p ?b" using cur by (auto simp: is_on_def split: sum.splits list.splits)
    then show ?thesis using cs2 cs3 none False by (auto simp: list_all_iff dest: deletes_not_quiet)
  qed
qed

section \<open>Runs\<close>

text \<open>The directory \<open>a\<close> is on branch \<open>b\<close>; the branch \<open>a\<close> is checked out in \<open>c\<close> and its pull request is merged.\<close>

definition crossed :: Manager where
  "crossed = manager_of (world_of
     [head_ref ''main'', (merged_args, ''prs''), ([''worktree'', ''prune''], []),
      ([''worktree'', ''list'', ''--porcelain''], listed_text ''/r/repo/a'' ''b'' [] @ listed_text ''/r/repo/c'' ''a'' []),
      ([''branch'', ''--show-current''], ''b''), ([''worktree'', ''remove'', ''--force'', ''/r/repo/a''], [])]
     [''/r/repo/.bare'', ''/r/repo/a'', ''/r/repo/c''] (JArr [pr_json ''a'']))"

text \<open>The default branch is \<open>master\<close>, and its worktree has no configuration file.\<close>

definition on_master :: Manager where
  "on_master = manager_of (world_of [head_ref ''master''] [''/r/repo/.bare'', ''/r/repo/master'', ''/r/repo/master/.git''] JNull)"

text \<open>The directory \<open>main\<close> has a detached head.\<close>

definition detached :: Manager where
  "detached = manager_of (world_of
     [([''branch'', ''--show-current''], [CHR 0x0A]), ([''worktree'', ''remove'', ''/r/repo/main''], [])]
     [''/r/repo/.bare'', ''/r/repo/main''] JNull)"

text \<open>Cloning works and creates the bare repository; the fetch after it fails.\<close>

definition clone_call :: wcall where
  "clone_call = Git [''clone'', ''--bare'', ''git@host:u/repo.git'', ''/r/repo/.bare''] []"

definition offline :: Manager where
  "offline = manager_of ((world_of [([''clone'', ''--bare'', ''git@host:u/repo.git'', ''/r/repo/.bare''], []),
       ([''config'', ''remote.origin.fetch'', ''+refs/heads/*:refs/remotes/origin/*''], [])] [] JNull)
     \<lparr>ww_stat := \<lambda>tr p. if p = ''/r/repo/.bare'' \<and> clone_call \<in> set tr then Exists else NotExist\<rparr>)"

definition changes :: "'a \<times> wcall list \<Rightarrow> wcall list" where
  "changes r = filter (\<lambda>c. \<not> quiet c) (snd r)"

text \<open>C21. What a removal deletes is the branch that was named or the one that the directory of that name is
  on, which may be another. So pruning the merged branch \<open>a\<close> removes the directory \<open>a\<close> with the work in
  it and deletes the unmerged branch \<open>b\<close> here and on the remote, while the worktree of \<open>a\<close> stays; and removing
  the directory \<open>main\<close> with its branch deletes \<open>main\<close> when the head is detached. A new branch starts from
  \<open>main\<close> although the default branch is \<open>master\<close>, unless a configuration says otherwise; and a repository
  whose first fetch failed can not be initialised again.
\<close>

theorem wt_removes_whose:
  "(run_state (Remove m name db force) tr = (r, tr') \<longrightarrow>
     (\<exists>cs. tr' = tr @ cs \<and> (\<forall>c b. c \<in> set cs \<longrightarrow> deletes b c \<longrightarrow> b = name \<or>
        ww_stat (wm_world m) tr (Join [RepoDir m, name]) \<noteq> NotExist \<and>
        is_on m (tr @ [Stat (Join [RepoDir m, name])]) (Join [RepoDir m, name]) b))) \<and>
   changes (run_state (Prune crossed False True) []) =
     [Git [''worktree'', ''prune''] ''/r/repo/.bare'', Git [''worktree'', ''remove'', ''--force'', ''/r/repo/a''] ''/r/repo/.bare'',
      Git [''worktree'', ''prune''] ''/r/repo/.bare'', Git [''branch'', ''-D'', ''b''] ''/r/repo/.bare'',
      Git [''push'', ''origin'', ''--delete'', ''b''] ''/r/repo/.bare''] \<and>
   list_ex (deletes ''main'') (snd (run_state (Remove detached ''main'' True False) [])) \<and>
   fst (run_state (GetDefaultBranch on_master (BareDir on_master)) []) = ''master'' \<and>
   changes (run_state (wt_New on_master ''x'' [] [] True) []) =
     [Git [''worktree'', ''prune''] ''/r/repo/.bare'', Git [''worktree'', ''add'', ''-b'', ''x'', ''/r/repo/x'', ''origin/main''] ''/r/repo/.bare''] \<and>
   isl (snd (fst (run_state (Init_repo offline ''git@host:u/repo.git'') []))) \<and>
   snd (fst (run_state (Init_repo offline ''git@host:u/repo.git'') (snd (run_state (Init_repo offline ''git@host:u/repo.git'') [])))) =
     Inl (ErrorText ''repository already initialized'')"
proof (intro conjI impI)
  show "\<exists>cs. tr' = tr @ cs \<and> (\<forall>c b. c \<in> set cs \<longrightarrow> deletes b c \<longrightarrow> b = name \<or>
        ww_stat (wm_world m) tr (Join [RepoDir m, name]) \<noteq> NotExist \<and>
        is_on m (tr @ [Stat (Join [RepoDir m, name])]) (Join [RepoDir m, name]) b)"
    if "run_state (Remove m name db force) tr = (r, tr')"
    using remove_deletes [OF that] .
qed code_simp+

lemma wt_removes_whose_witness:
  "\<exists>cs. snd (run_state (Remove crossed ''a'' True True) []) = cs \<and> (\<forall>c \<in> set cs. \<not> deletes ''d'' c)"
proof -
  have "\<not> is_on crossed [Stat (Join [RepoDir crossed, ''a''])] (Join [RepoDir crossed, ''a'']) ''d''" by code_simp
  moreover have "''d'' \<noteq> ''a''" by simp
  ultimately show ?thesis
    using wt_removes_whose [THEN conjunct1, rule_format, of crossed "''a''" True True "[]", OF prod.collapse [symmetric]] by fastforce
qed

end
