(* ===== verification/WtOrder.thy ===== *)
theory WtOrder
  imports WtSync WtSample
begin

text \<open>
  The order in which \<open>Sync\<close> rebases dependent branches: Kahn's algorithm over the parents that git
  remembers, which may be missing, not checked out, or even form a cycle.
\<close>

definition parent_in :: "(string, string) gomap \<Rightarrow> Worktree list \<Rightarrow> Worktree \<Rightarrow> string option" where
  "parent_in pm ws w =
    (case map_of pm (wt_Branch w) of
       None \<Rightarrow> None
     | Some p \<Rightarrow> if p \<in> wt_Branch ` set ws then Some p else None)"

text \<open>Every worktree of the list comes after its parent.\<close>

fun parents_first :: "(Worktree \<Rightarrow> string option) \<Rightarrow> string set \<Rightarrow> Worktree list \<Rightarrow> bool" where
  "parents_first f S [] = True"
| "parents_first f S (w # ws) = ((case f w of None \<Rightarrow> True | Some p \<Rightarrow> p \<in> S) \<and> parents_first f (insert (wt_Branch w) S) ws)"

lemma parents_first_snoc:
  "parents_first f S (ws @ [w]) \<longleftrightarrow>
    parents_first f S ws \<and> (case f w of None \<Rightarrow> True | Some p \<Rightarrow> p \<in> S \<union> wt_Branch ` set ws)"
  by (induction ws arbitrary: S) (auto split: option.splits)

lemma worktree_map_lookup:
  assumes "distinct (map wt_Branch ws)"
  shows "map_of (worktree_map ws) b = Some w \<longleftrightarrow> w \<in> set ws \<and> wt_Branch w = b"
proof -
  have "map_of (fold (\<lambda>w. mput (wt_Branch w) w) ws acc) b = Some w \<longleftrightarrow>
      w \<in> set ws \<and> wt_Branch w = b \<or> b \<notin> wt_Branch ` set ws \<and> map_of acc b = Some w" for acc
    using assms
  proof (induction ws arbitrary: acc)
    case (Cons v ws)
    show ?case using Cons by (auto simp: image_iff)
  qed simp
  then show ?thesis by (simp add: worktree_map_def)
qed

lemma set_map_filter: "y \<in> set (List.map_filter f xs) \<longleftrightarrow> (\<exists>x \<in> set xs. f x = Some y)"
  by (induction xs) (auto simp: List.map_filter_simps split: option.split)

lemma children_of_iff:
  assumes "distinct (map wt_Branch ws)" and "wf_map pm"
  shows "c \<in> set (children_of rank pm (worktree_map ws) p) \<longleftrightarrow> c \<in> set ws \<and> map_of pm (wt_Branch c) = Some p"
proof -
  have "c \<in> set (children_of rank pm (worktree_map ws) p) \<longleftrightarrow> (\<exists>b. (b, p) \<in> set pm \<and> map_of (worktree_map ws) b = Some c)"
    by (auto simp: children_of_def set_map_filter split: if_splits) (metis fst_conv snd_conv)
  then show ?thesis using assms by (auto simp: worktree_map_lookup lookup_set)
qed

text \<open>The invariant of the loop.\<close>

definition order_inv :: "(string, string) gomap \<Rightarrow> Worktree list \<Rightarrow> Worktree list \<Rightarrow> string list \<Rightarrow> Worktree list \<Rightarrow> bool" where
  "order_inv pm ws queue seen out \<longleftrightarrow>
     set queue \<union> set out \<subseteq> set ws \<and> distinct out \<and> set seen = wt_Branch ` set out \<and>
     parents_first (parent_in pm ws) {} out \<and>
     (\<forall>w \<in> set queue. case parent_in pm ws w of None \<Rightarrow> True | Some p \<Rightarrow> p \<in> set seen) \<and>
     (\<forall>w \<in> set ws. (case parent_in pm ws w of None \<Rightarrow> True | Some p \<Rightarrow> p \<in> set seen) \<longrightarrow> w \<in> set queue \<union> set out)"

lemma order_inv_skip:
  assumes "order_inv pm ws (w # queue) seen out" and "wt_Branch w \<in> set seen" and "distinct (map wt_Branch ws)"
  shows "order_inv pm ws queue seen out"
proof -
  obtain v where v: "v \<in> set out" "wt_Branch v = wt_Branch w" using assms(1,2) by (auto simp: order_inv_def)
  then have "v = w" using assms(1,3) by (auto simp: order_inv_def distinct_map dest: inj_onD)
  then show ?thesis using assms(1) v(1) by (auto simp: order_inv_def)
qed

lemma order_inv_step:
  assumes inv: "order_inv pm ws (w # queue) seen out" and new: "wt_Branch w \<notin> set seen"
    and d: "distinct (map wt_Branch ws)" and pm: "wf_map pm"
  shows "order_inv pm ws (queue @ filter (\<lambda>c. wt_Branch c \<notin> set (wt_Branch w # seen)) (children_of rank pm (worktree_map ws) (wt_Branch w))) (wt_Branch w # seen) (out @ [w])"
proof -
  define kids where "kids = filter (\<lambda>c. wt_Branch c \<notin> set (wt_Branch w # seen)) (children_of rank pm (worktree_map ws) (wt_Branch w))"
  have w: "w \<in> set ws" using inv by (simp add: order_inv_def)
  have kids: "c \<in> set kids \<longleftrightarrow> c \<in> set ws \<and> map_of pm (wt_Branch c) = Some (wt_Branch w) \<and> wt_Branch c \<notin> set (wt_Branch w # seen)" for c
    by (auto simp: kids_def children_of_iff [OF d pm])
  have par: "parent_in pm ws c = Some (wt_Branch w) \<longleftrightarrow> map_of pm (wt_Branch c) = Some (wt_Branch w)" for c
    using w by (auto simp: parent_in_def split: option.splits)
  have "w \<notin> set out" using inv new by (auto simp: order_inv_def)
  moreover have "set (queue @ kids) \<union> set (out @ [w]) \<subseteq> set ws" using inv kids by (auto simp: order_inv_def)
  moreover have "parents_first (parent_in pm ws) {} (out @ [w])"
    using inv by (auto simp: order_inv_def parents_first_snoc split: option.splits)
  moreover have "case parent_in pm ws c of None \<Rightarrow> True | Some p \<Rightarrow> p \<in> set (wt_Branch w # seen)" if "c \<in> set (queue @ kids)" for c
    using inv that kids [of c] par [of c] by (auto simp: order_inv_def split: option.splits)
  moreover have "c \<in> set (queue @ kids) \<union> set (out @ [w])"
    if c: "c \<in> set ws" "case parent_in pm ws c of None \<Rightarrow> True | Some p \<Rightarrow> p \<in> set (wt_Branch w # seen)" for c
  proof (cases "parent_in pm ws c = Some (wt_Branch w)")
    case True
    then consider "wt_Branch c \<in> set (wt_Branch w # seen)" | "c \<in> set kids" using kids par c by blast
    then show ?thesis
    proof cases
      case 1
      then have "wt_Branch c \<in> wt_Branch ` set (out @ [w])" using inv by (auto simp: order_inv_def)
      then obtain v where "v \<in> set (out @ [w])" "wt_Branch v = wt_Branch c" by (metis imageE)
      moreover from this have "v \<in> set ws" using inv w by (auto simp: order_inv_def)
      ultimately have "v = c" using c(1) d by (auto simp: distinct_map dest: inj_onD)
      then show ?thesis using \<open>v \<in> set (out @ [w])\<close> by auto
    qed simp
  next
    case False
    then show ?thesis using inv c by (auto simp: order_inv_def split: option.splits)
  qed
  ultimately show ?thesis using inv unfolding kids_def [symmetric] by (simp add: order_inv_def)
qed

lemma order_loop_inv:
  assumes "order_inv pm ws queue seen out" and "distinct (map wt_Branch ws)" and "wf_map pm"
    and "order_loop rank pm (worktree_map ws) queue seen out = (seen', out')"
  shows "order_inv pm ws [] seen' out'"
  using assms(1,3,4)
proof (induction rank pm "worktree_map ws" queue seen out rule: order_loop.induct)
  case (2 rank pm w queue seen out)
  show ?case
  proof (cases "wt_Branch w \<in> set seen")
    case True
    then show ?thesis using 2(1) [OF True order_inv_skip [OF 2(3) True assms(2)] 2(4)] 2(5) by simp
  next
    case False
    then show ?thesis using 2(2) [OF False refl order_inv_step [OF 2(3) False assms(2) 2(4)] 2(4)] 2(5) by (simp add: Let_def)
  qed
qed simp

lemma dependency_order_correct:
  assumes "distinct (map wt_Branch ws)" and "wf_map pm"
  shows "\<exists>first rest. dependency_order rank pm (worktree_map ws) ws = first @ rest \<and> mset (first @ rest) = mset ws \<and>
    parents_first (parent_in pm ws) {} first \<and> (\<forall>w \<in> set rest. \<exists>v \<in> set rest. parent_in pm ws w = Some (wt_Branch v))"
proof -
  let ?start = "filter (\<lambda>w. \<not> has_parent_here pm (worktree_map ws) (wt_Branch w)) ws"
  have here: "has_parent_here pm (worktree_map ws) (wt_Branch w) \<longleftrightarrow> parent_in pm ws w \<noteq> None" for w
    using worktree_map_lookup [OF assms(1)]
    by (auto simp: has_parent_here_def parent_in_def image_iff split: option.splits)
  obtain seen out where loop: "order_loop rank pm (worktree_map ws) ?start [] [] = (seen, out)"
    by (cases "order_loop rank pm (worktree_map ws) ?start [] []")
  have "order_inv pm ws ?start [] []" by (auto simp: order_inv_def here split: option.splits)
  from order_loop_inv [OF this assms loop] have inv: "order_inv pm ws [] seen out" .
  let ?rest = "filter (\<lambda>w. wt_Branch w \<notin> set seen) ws"
  have inj: "inj_on wt_Branch (set ws)" and "distinct ws" using assms(1) by (auto simp: distinct_map)
  have "w \<in> set out \<longleftrightarrow> wt_Branch w \<in> set seen" if "w \<in> set ws" for w
    using inv inj that by (auto simp: order_inv_def dest: inj_onD)
  then have "set (out @ ?rest) = set ws" "distinct (out @ ?rest)"
    using inv \<open>distinct ws\<close> by (auto simp: order_inv_def)
  then have "mset (out @ ?rest) = mset ws" using \<open>distinct ws\<close> set_eq_iff_mset_eq_distinct by blast
  moreover have "\<exists>v \<in> set ?rest. parent_in pm ws w = Some (wt_Branch v)" if "w \<in> set ?rest" for w
  proof -
    have "w \<in> set ws" "w \<notin> set out" using that inv by (auto simp: order_inv_def)
    then have "\<not> (case parent_in pm ws w of None \<Rightarrow> True | Some p \<Rightarrow> p \<in> set seen)" using inv unfolding order_inv_def by auto
    then obtain p where p: "parent_in pm ws w = Some p" "p \<notin> set seen" by (auto split: option.splits)
    then obtain v where "v \<in> set ws" "wt_Branch v = p" by (auto simp: parent_in_def split: option.splits if_splits)
    then show ?thesis using p by (auto intro!: bexI [of _ v])
  qed
  ultimately show ?thesis using inv loop
    by (intro exI [of _ out] exI [of _ ?rest]) (simp add: dependency_order_def order_inv_def)
qed

lemma parent_map_wf: "wf_map pm \<Longrightarrow> wf_map (fst (run_state (parent_map m ws pm) tr))"
  by (induction ws arbitrary: pm tr) (auto split: prod.splits)

text \<open>C25. Worktrees are rebased after their parents. With the parents that git remembers, the order is a
  permutation of the worktrees that first lists, each after its parent, every worktree whose chain of
  parents ends, and then those whose chain does not, each of which has its parent among them: a cycle
  delays only itself and what depends on it, in whatever order the map of parents is visited.
\<close>

theorem wt_dependency_order:
  assumes "distinct (map wt_Branch ws)" and "run_state (buildDependencyOrder m ws) tr = (order, tr')"
  shows "\<exists>first rest. order = first @ rest \<and> mset order = mset ws \<and>
    parents_first (parent_in (fst (run_state (parent_map m ws []) tr)) ws) {} first \<and>
    (\<forall>w \<in> set rest. \<exists>v \<in> set rest. parent_in (fst (run_state (parent_map m ws []) tr)) ws w = Some (wt_Branch v))"
proof -
  let ?pm = "fst (run_state (parent_map m ws []) tr)"
  have "order = dependency_order (ww_range (wm_world m)) ?pm (worktree_map ws) ws"
    using assms(2) by (auto simp: buildDependencyOrder_def split: prod.splits)
  moreover have "wf_map ?pm" by (rule parent_map_wf) simp
  ultimately show ?thesis using dependency_order_correct [OF assms(1), of ?pm "ww_range (wm_world m)"] by metis
qed

definition branch_of :: "string \<Rightarrow> Worktree" where
  "branch_of b = \<lparr>wt_Path = ''/r/repo/'' @ b, wt_Branch = b, wt_Commit = [], wt_LockReason = [], wt_LockPID = 0,
     wt_IsDetached = False, wt_IsGone = False, wt_IsLocked = False\<rparr>"

definition says_parent :: "string \<Rightarrow> string \<Rightarrow> string list \<times> string" where
  "says_parent b p = ([''config'', ''branch.'' @ b @ ''.description''], ''parent:'' @ p)"

text \<open>\<open>c\<close> is stacked on \<open>b\<close> and \<open>b\<close> on \<open>a\<close>; \<open>x\<close> and \<open>y\<close> claim each other as parents.\<close>

definition stacked :: Manager where
  "stacked = manager_of (world_of [says_parent ''c'' ''b'', says_parent ''b'' ''a'', says_parent ''a'' ''main'',
     says_parent ''x'' ''y'', says_parent ''y'' ''x''] [] JNull)"

lemma wt_dependency_order_witness:
  "map wt_Branch (fst (run_state (buildDependencyOrder stacked (map branch_of [''c'', ''x'', ''b'', ''y'', ''a''])) [])) = [''a'', ''b'', ''c'', ''x'', ''y''] \<and>
   mset (fst (run_state (buildDependencyOrder stacked (map branch_of [''c'', ''x'', ''b'', ''y'', ''a''])) [])) = mset (map branch_of [''c'', ''x'', ''b'', ''y'', ''a''])"
proof
  let ?ws = "map branch_of [''c'', ''x'', ''b'', ''y'', ''a'']"
  have "distinct (map wt_Branch ?ws)" by code_simp
  from wt_dependency_order [OF this prod.collapse [symmetric]]
  show "mset (fst (run_state (buildDependencyOrder stacked ?ws) [])) = mset ?ws" by blast
qed code_simp

end
