(* ===== verification/WtListing.thy ===== *)
theory WtListing
  imports WtWorktree
begin

text \<open>
  What \<open>parseWorktreeList\<close> reads is what git wrote: the format of \<open>git worktree list --porcelain\<close> written out
  as a printer, and the parser as its inverse.
\<close>

text \<open>One record of the list; the lock and the prunable line carry an optional reason.\<close>

record listed =
  li_path :: string
  li_commit :: string
  li_branch :: "string option"
  li_lock :: "string option"
  li_prunable :: "string option"

definition with_reason :: "string \<Rightarrow> string option \<Rightarrow> string list" where
  "with_reason word r = (case r of None \<Rightarrow> [] | Some [] \<Rightarrow> [word] | Some (c # s) \<Rightarrow> [word @ '' '' @ c # s])"

definition record_lines :: "listed \<Rightarrow> string list" where
  "record_lines e =
     [''worktree '' @ li_path e, ''HEAD '' @ li_commit e,
      case li_branch e of Some b \<Rightarrow> ''branch refs/heads/'' @ b | None \<Rightarrow> ''detached''] @
     with_reason ''locked'' (li_lock e) @ with_reason ''prunable'' (li_prunable e)"

definition porcelain :: "string \<Rightarrow> listed list \<Rightarrow> string" where
  "porcelain bare es =
     concat (map (\<lambda>l. l @ [newline]) ([''worktree '' @ bare, ''bare'', []] @ concat (map (\<lambda>e. record_lines e @ [[]]) es)))"

definition listed_worktree :: "listed \<Rightarrow> Worktree" where
  "listed_worktree e =
    (let reason = (case li_lock e of None \<Rightarrow> [] | Some r \<Rightarrow> r) in
     \<lparr>wt_Path = li_path e, wt_Branch = (case li_branch e of Some b \<Rightarrow> b | None \<Rightarrow> ''(detached)''),
      wt_Commit = take 8 (li_commit e), wt_LockReason = reason, wt_LockPID = parseLockPID reason,
      wt_IsDetached = (li_branch e = None), wt_IsGone = (li_prunable e \<noteq> None), wt_IsLocked = (li_lock e \<noteq> None)\<rparr>)"

definition printable_entry :: "listed \<Rightarrow> bool" where
  "printable_entry e \<longleftrightarrow> li_path e \<noteq> [] \<and> li_branch e \<noteq> Some [] \<and>
     list_all (\<lambda>l. newline \<notin> set l) (record_lines e)"

lemma split_lines:
  "list_all (\<lambda>l. newline \<notin> set l) ls \<Longrightarrow> split_on newline (concat (map (\<lambda>l. l @ [newline]) ls)) = ls @ [[]]"
  by (induction ls) (simp_all add: split_on_append_sep [of newline, simplified])

named_theorems list_field_rules

lemma list_field_known [list_field_rules]:
  "list_field (''worktree '' @ x) f = mput ''worktree'' x f"
  "list_field (''HEAD '' @ x) f = mput ''HEAD'' x f"
  "list_field (''branch '' @ x) f = mput ''branch'' x f"
  "list_field ''bare'' f = mput ''bare'' ''true'' f"
  "list_field ''detached'' f = mput ''detached'' ''true'' f"
  "list_field ''prunable'' f = mput ''prunable'' ''true'' f"
  "list_field (''prunable '' @ x) f = mput ''prunable'' ''true'' f"
  "list_field ''locked'' f = mput ''locked'' ''true'' f"
  "list_field (''locked '' @ x) f = mput ''lockreason'' x (mput ''locked'' ''true'' f)"
  by (simp_all add: list_field_def HasPrefix_def)

lemma list_lines_append:
  "list_all (\<lambda>l. l \<noteq> []) ls \<Longrightarrow> list_lines (ls @ [] # rest) f ws = list_lines rest [] (flush (fold list_field ls f) ws)"
  by (induction ls arbitrary: f) auto

lemma record_fields:
  assumes "li_path e \<noteq> []" and "li_branch e \<noteq> Some []"
  shows "worktreeFromFields (fold list_field (record_lines e) []) = Some (listed_worktree e)"
proof -
  have branch: "list_field (''branch refs/heads/'' @ b) f = mput ''branch'' (''refs/heads/'' @ b) f" for b f
    using list_field_known(3) [of "''refs/heads/'' @ b" f] by simp
  have lock: "list_field (''locked'' @ '' '' @ x) f = mput ''lockreason'' x (mput ''locked'' ''true'' f)"
    "list_field (''prunable'' @ '' '' @ x) f = mput ''prunable'' ''true'' f" for x f
    using list_field_known(9) [of x f] list_field_known(7) [of x f] by simp_all
  show ?thesis
    using assms
    by (cases "li_branch e"; cases "li_lock e"; cases "the (li_lock e)"; cases "li_prunable e"; cases "the (li_prunable e)")
      (simp_all add: record_lines_def with_reason_def list_field_known branch lock worktreeFromFields_def field_of_def
        listed_worktree_def TrimPrefix'_def HasPrefix_def Let_def parseLockPID_def del: append.simps append_Cons append_Nil)
qed

lemma with_reason_nonempty: "list_all (\<lambda>l. l \<noteq> []) (with_reason (c # word) r)"
  by (cases r; cases "the r") (simp_all add: with_reason_def)

lemma record_lines_nonempty: "list_all (\<lambda>l. l \<noteq> []) (record_lines e)"
  by (simp add: record_lines_def with_reason_nonempty split: option.split)

lemma list_lines_records:
  assumes "list_all printable_entry es"
  shows "list_lines (concat (map (\<lambda>e. record_lines e @ [[]]) es) @ [[]]) [] ws = ws @ map listed_worktree es"
  using assms
proof (induction es arbitrary: ws)
  case Nil
  then show ?case by (simp add: flush_def worktreeFromFields_def field_of_def)
next
  case (Cons e es)
  have "list_lines (record_lines e @ [] # concat (map (\<lambda>e. record_lines e @ [[]]) es) @ [[]]) [] ws =
      list_lines (concat (map (\<lambda>e. record_lines e @ [[]]) es) @ [[]]) [] (flush (fold list_field (record_lines e) []) ws)"
    by (rule list_lines_append) (rule record_lines_nonempty)
  then show ?case using Cons by (simp add: flush_def record_fields printable_entry_def)
qed


definition sample_listed :: listed where
  "sample_listed = \<lparr>li_path = ''/r/a'', li_commit = ''0123456789'', li_branch = Some ''a'', li_lock = Some ''agent x (pid 42)'', li_prunable = None\<rparr>"


end
