(* ===== verification/WtContext.thy ===== *)
theory WtContext
  imports WtWorktree
begin

text \<open>
  What an agent is told about its worktree (\<open>wt/context.go\<close>): differences, files, status, pull request and
  recent commits, gathered call by call, and their text form.
\<close>

record CommitInfo =
  ci_Hash :: string
  ci_Subject :: string
  ci_Author :: string
  ci_Date :: "int option"

record WorktreeContext =
  wc_Branch :: string
  wc_Path :: string
  wc_Goal :: string
  wc_Parent :: string
  wc_DiffStat :: string
  wc_DiffContent :: string
  wc_ChangedFiles :: "string list"
  wc_UntrackedFiles :: "string list"
  wc_Ahead :: int
  wc_Behind :: int
  wc_IsDirty :: bool
  wc_PRNumber :: int
  wc_PRState :: string
  wc_PRURL :: string
  wc_RecentCommits :: "CommitInfo list"

record ContextOptions =
  co_IncludeCommits :: int
  co_MaxDiffBytes :: int
  co_IncludeDiff :: bool
  co_IncludeDiffStat :: bool
  co_IncludeFileList :: bool
  co_IncludePRInfo :: bool

definition DefaultContextOptions :: ContextOptions where
  "DefaultContextOptions = \<lparr>co_IncludeCommits = 10, co_MaxDiffBytes = 100000, co_IncludeDiff = True,
     co_IncludeDiffStat = True, co_IncludeFileList = True, co_IncludePRInfo = True\<rparr>"

definition splitNonEmpty :: "string \<Rightarrow> string list" where
  "splitNonEmpty s = filter (\<lambda>l. l \<noteq> []) (map TrimSpace (split_on newline (TrimSpace s)))"

text \<open>One line \<open>hash|subject|author|time\<close>; a time that is no number leaves the zero date.\<close>

definition parse_commit :: "string \<Rightarrow> CommitInfo option" where
  "parse_commit line =
    (case SplitN line (CHR ''|'') 4 of
       [h, s, a, t] \<Rightarrow> Some \<lparr>ci_Hash = h, ci_Subject = s, ci_Author = a, ci_Date = Atoi t\<rparr>
     | _ \<Rightarrow> None)"

definition parseCommitLog :: "string \<Rightarrow> CommitInfo list" where
  "parseCommitLog text = List.map_filter parse_commit (filter (\<lambda>l. l \<noteq> []) (split_on newline (TrimSpace text)))"

text \<open>The output of a command, or nothing when it failed.\<close>

definition git_text :: "Manager \<Rightarrow> string list \<Rightarrow> string \<Rightarrow> string option wt" where
  "git_text m args dir = do { (r, err) \<leftarrow> git_run m args dir; give (if err = None then Some (cmd_Stdout r) else None) }"

definition text_or_empty :: "string option \<Rightarrow> string" where
  "text_or_empty t = (case t of Some s \<Rightarrow> s | None \<Rightarrow> [])"

definition truncate_diff :: "int \<Rightarrow> string \<Rightarrow> string" where
  "truncate_diff limit d =
    (if limit > 0 \<and> int (length d) > limit then take (nat limit) d @ [newline] @ ''... (truncated)'' else d)"

definition gather_diff :: "Manager \<Rightarrow> ContextOptions \<Rightarrow> string \<Rightarrow> string wt" where
  "gather_diff m opts path =
    (if \<not> co_IncludeDiff opts then give []
     else do {
       d \<leftarrow> git_text m [''diff''] path;
       s \<leftarrow> git_text m [''diff'', ''--cached''] path;
       let d1 = text_or_empty d;
       let s1 = text_or_empty s;
       give (truncate_diff (co_MaxDiffBytes opts) (if s1 = [] then d1 else (if d1 = [] then s1 else d1 @ [newline] @ s1)))
     })"

definition gather_files :: "Manager \<Rightarrow> ContextOptions \<Rightarrow> string \<Rightarrow> (string list \<times> string list) wt" where
  "gather_files m opts path =
    (if \<not> co_IncludeFileList opts then give ([], [])
     else do {
       c \<leftarrow> git_text m [''diff'', ''--name-only'', ''HEAD''] path;
       u \<leftarrow> git_text m [''ls-files'', ''--others'', ''--exclude-standard''] path;
       give (splitNonEmpty (text_or_empty c), splitNonEmpty (text_or_empty u))
     })"

definition GatherContext :: "Manager \<Rightarrow> Worktree \<Rightarrow> ContextOptions \<Rightarrow> WorktreeContext wt" where
  "GatherContext m w opts = do {
     goal \<leftarrow> GetGoal m (wt_Branch w) (wt_Path w);
     parent \<leftarrow> GetParentBranch m (wt_Branch w) (wt_Path w);
     stat \<leftarrow> (if co_IncludeDiffStat opts then git_text m [''diff'', ''--stat''] (wt_Path w) else give None);
     diff \<leftarrow> gather_diff m opts (wt_Path w);
     (changed, untracked) \<leftarrow> gather_files m opts (wt_Path w);
     s \<leftarrow> GetGitStatus m w;
     pr \<leftarrow> (if co_IncludePRInfo opts then FetchPRInfo m w else give (Inr None));
     commits \<leftarrow> (if co_IncludeCommits opts > 0
       then git_text m [''log'', ''-'' @ Itoa (co_IncludeCommits opts), ''--format=%H|%s|%an|%ct''] (wt_Path w) else give None);
     let st = (case s of Inr x \<Rightarrow> x | Inl e \<Rightarrow> new_status w);
     let p = (case pr of Inr (Some x) \<Rightarrow> x | _ \<Rightarrow> zero_pr);
     give \<lparr>wc_Branch = wt_Branch w, wc_Path = wt_Path w, wc_Goal = (case goal of Inr g \<Rightarrow> g | Inl e \<Rightarrow> []), wc_Parent = parent,
       wc_DiffStat = TrimSpace (text_or_empty stat), wc_DiffContent = diff, wc_ChangedFiles = changed,
       wc_UntrackedFiles = untracked, wc_Ahead = st_Ahead st, wc_Behind = st_Behind st, wc_IsDirty = st_IsDirty st,
       wc_PRNumber = pi_Number p, wc_PRState = pi_State p, wc_PRURL = pi_URL p,
       wc_RecentCommits = parseCommitLog (text_or_empty commits)\<rparr>
   }"

section \<open>Text for the prompt\<close>

definition line :: "string \<Rightarrow> string" where
  "line s = s @ [newline]"

definition state_items :: "WorktreeContext \<Rightarrow> string list" where
  "state_items c = [if wc_IsDirty c then ''dirty'' else ''clean''] @
     (if wc_Ahead c > 0 then [Itoa (wc_Ahead c) @ '' ahead''] else []) @
     (if wc_Behind c > 0 then [Itoa (wc_Behind c) @ '' behind''] else [])"

definition section_of :: "string \<Rightarrow> string list \<Rightarrow> string" where
  "section_of title body = (if body = [] then [] else line (''### '' @ title) @ concat (map line body) @ [newline])"

definition fenced :: "string \<Rightarrow> string \<Rightarrow> string list" where
  "fenced lang body = (if body = [] then [] else [''```'' @ lang, body, ''```''])"

definition commit_line :: "CommitInfo \<Rightarrow> string" where
  "commit_line c = ''- `'' @ take 8 (ci_Hash c) @ ''` '' @ ci_Subject c @ '' ('' @ ci_Author c @ '')''"

definition FormatForPrompt :: "WorktreeContext \<Rightarrow> string" where
  "FormatForPrompt c =
     line ''## Worktree Context'' @ [newline] @
     line (''**Branch:** '' @ wc_Branch c) @ line (''**Path:** '' @ wc_Path c) @
     (if wc_Goal c \<noteq> [] then line (''**Goal:** '' @ wc_Goal c) else []) @
     (if wc_Parent c \<noteq> [] then line (''**Parent:** '' @ wc_Parent c) else []) @
     line (''**Status:** '' @ join_with '', '' (state_items c)) @
     (if wc_PRNumber c > 0 then line (''**PR:** #'' @ Itoa (wc_PRNumber c) @ '' ('' @ wc_PRState c @ '') '' @ wc_PRURL c) else []) @
     [newline] @
     section_of ''Changes Summary'' (fenced [] (wc_DiffStat c)) @
     section_of ''Modified Files'' (map (\<lambda>f. ''- '' @ f) (wc_ChangedFiles c)) @
     section_of ''Untracked Files'' (map (\<lambda>f. ''- '' @ f) (wc_UntrackedFiles c)) @
     section_of ''Diff'' (fenced ''diff'' (wc_DiffContent c)) @
     section_of ''Recent Commits'' (map commit_line (wc_RecentCommits c))"

lemma quiet_context [wt_rules]:
  "issues quiet (GetGoal m b d)" "issues quiet (GetParentBranch m b d)" "issues quiet (GetGitStatus m w)" "issues quiet (FetchPRInfo m w)"
  by (auto simp: GetGoal_def GetParentBranch_def GetGitStatus_def GetAllGitStatuses_def gitStatusFromPorcelainV2_def
      FetchPRInfo_def quiet_def readOnlyGitSubcmds_def intro!: wt_rules split: wt_splits list.split)

text \<open>Gathering the context only reads.\<close>

lemma quiet_GatherContext: "issues quiet (GatherContext m w opts)"
  by (auto simp: GatherContext_def gather_diff_def gather_files_def git_text_def Let_def quiet_def readOnlyGitSubcmds_def
      intro!: wt_rules split: wt_splits)

text \<open>A bar in a subject moves its rest into the author and loses the date.\<close>

lemma commit_with_bar:
  "parse_commit ''h|fix a|b|Ann|5'' = Some \<lparr>ci_Hash = ''h'', ci_Subject = ''fix a'', ci_Author = ''b'', ci_Date = None\<rparr>"
  by code_simp

end
